(* ===== verification/Prelude.thy ===== *)
theory Prelude
  imports Main "HOL-Library.Word"
begin

text \<open>
  The prelude of the CallStake development: the integer types of the Rust sources with their
  checked, saturating and truncating operations, the outcome of a Soroban contract call, host
  data (addresses, ledger, authorisation), and the generic lemmas the component theories share.

  \<^item> \<^verbatim>\<open>i128\<close> values are \<open>int\<close>; every operation of the source that can leave the range names
    what happens there (\<open>None\<close>, saturation or a panic). The release profile compiles with
    \<^verbatim>\<open>overflow-checks = true\<close>, so a plain \<open>+\<close> that overflows is a panic.
  \<^item> \<^verbatim>\<open>u64\<close> and \<^verbatim>\<open>u32\<close> values are \<open>nat\<close>; \<^verbatim>\<open>saturating_sub\<close> is the subtraction of \<open>nat\<close>.
  \<^item> A contract function returns an \<open>outcome\<close> and the storage it leaves behind; the host undoes
    the storage of a call that does not end in \<open>Ok\<close> (\<open>invoke\<close>).
\<close>

named_theorems int_defs "unfolding rules of the integer operations"
named_theorems host_defs "unfolding rules of the host operations"

section \<open>Integers of the Rust sources\<close>

definition i128_max :: int where
  "i128_max = 170141183460469231731687303715884105727"

definition i128_min :: int where
  "i128_min = - 170141183460469231731687303715884105728"

definition u64_max :: nat where
  "u64_max = 18446744073709551615"

definition u32_max :: nat where
  "u32_max = 4294967295"

definition in_i128 :: "int \<Rightarrow> bool" where
  "in_i128 x \<longleftrightarrow> i128_min \<le> x \<and> x \<le> i128_max"

definition checked_i128 :: "int \<Rightarrow> int option" where
  "checked_i128 x = (if in_i128 x then Some x else None)"

definition checked_add :: "int \<Rightarrow> int \<Rightarrow> int option" where
  "checked_add a b = checked_i128 (a + b)"

definition checked_sub :: "int \<Rightarrow> int \<Rightarrow> int option" where
  "checked_sub a b = checked_i128 (a - b)"

definition checked_mul :: "int \<Rightarrow> int \<Rightarrow> int option" where
  "checked_mul a b = checked_i128 (a * b)"

text \<open>Rust's integer division truncates towards zero.\<close>

definition tdiv :: "int \<Rightarrow> int \<Rightarrow> int" where
  "tdiv a b = sgn a * sgn b * (\<bar>a\<bar> div \<bar>b\<bar>)"

definition trem :: "int \<Rightarrow> int \<Rightarrow> int" where
  "trem a b = a - tdiv a b * b"

definition checked_div_i128 :: "int \<Rightarrow> int \<Rightarrow> int option" where
  "checked_div_i128 a b = (if b = 0 then None else checked_i128 (tdiv a b))"

definition checked_rem_i128 :: "int \<Rightarrow> int \<Rightarrow> int option" where
  "checked_rem_i128 a b =
     (if b = 0 \<or> (a = i128_min \<and> b = -1) then None else Some (trem a b))"

definition sat_i128 :: "int \<Rightarrow> int" where
  "sat_i128 x = max i128_min (min i128_max x)"

definition saturating_add :: "int \<Rightarrow> int \<Rightarrow> int" where
  "saturating_add a b = sat_i128 (a + b)"

definition saturating_sub :: "int \<Rightarrow> int \<Rightarrow> int" where
  "saturating_sub a b = sat_i128 (a - b)"

definition sat_add_u64 :: "nat \<Rightarrow> nat \<Rightarrow> nat" where
  "sat_add_u64 a b = min u64_max (a + b)"

definition sat_add_u32 :: "nat \<Rightarrow> nat \<Rightarrow> nat" where
  "sat_add_u32 a b = min u32_max (a + b)"

definition sat_mul_u32 :: "nat \<Rightarrow> nat \<Rightarrow> nat" where
  "sat_mul_u32 a b = min u32_max (a * b)"

text \<open>The cast \<^verbatim>\<open>x as u32\<close> of a wider integer keeps the low 32 bits.\<close>

definition as_u32 :: "nat \<Rightarrow> nat" where
  "as_u32 x = x mod 4294967296"

definition i128_as_u32 :: "int \<Rightarrow> nat" where
  "i128_as_u32 x = nat (x mod 4294967296)"

lemmas [int_defs] =
  checked_i128_def checked_add_def checked_sub_def checked_mul_def checked_div_i128_def
  saturating_add_def saturating_sub_def sat_i128_def in_i128_def i128_min_def i128_max_def

subsection \<open>Facts about the integer operations\<close>

lemma tdiv_nonneg [simp]: "0 \<le> a \<Longrightarrow> 0 < b \<Longrightarrow> tdiv a b = a div b"
  by (cases "a = 0") (auto simp: tdiv_def)

lemma tdiv_self_mult: "b \<noteq> 0 \<Longrightarrow> tdiv (a * b) b = a"
proof -
  assume b: "b \<noteq> 0"
  have "tdiv (a * b) b = sgn (a * b) * sgn b * (\<bar>a\<bar> * \<bar>b\<bar> div \<bar>b\<bar>)"
    by (simp add: tdiv_def abs_mult)
  also have "\<dots> = sgn a * (sgn b * sgn b) * \<bar>a\<bar>"
    using b by (simp add: sgn_mult mult.assoc)
  also have "\<dots> = a"
    using b by (cases "b < 0") (simp_all add: sgn_mult_abs)
  finally show ?thesis .
qed

lemma abs_tdiv: "\<bar>tdiv a b\<bar> = \<bar>a\<bar> div \<bar>b\<bar>"
proof (cases "a = 0 \<or> b = 0")
  case False
  have "0 \<le> \<bar>a\<bar> div \<bar>b\<bar>"
    using False by (intro pos_imp_zdiv_nonneg_iff [THEN iffD2]) auto
  with False show ?thesis
    by (simp add: tdiv_def abs_mult)
qed (auto simp: tdiv_def)

lemma abs_tdiv_le: "\<bar>tdiv a b\<bar> \<le> \<bar>a\<bar>"
proof (cases "b = 0")
  case False
  have "\<bar>a\<bar> div \<bar>b\<bar> \<le> \<bar>a\<bar> div 1"
    using False by (intro zdiv_mono2) auto
  then show ?thesis by (simp add: abs_tdiv)
qed (simp add: tdiv_def)

lemma checked_i128_Some [simp]: "checked_i128 x = Some y \<longleftrightarrow> in_i128 x \<and> y = x"
  by (auto simp: checked_i128_def)

lemma checked_i128_None [simp]: "checked_i128 x = None \<longleftrightarrow> \<not> in_i128 x"
  by (simp add: checked_i128_def)

lemma checked_add_Some [simp]: "checked_add a b = Some c \<longleftrightarrow> in_i128 (a + b) \<and> c = a + b"
  by (simp add: checked_add_def)

lemma checked_sub_Some [simp]: "checked_sub a b = Some c \<longleftrightarrow> in_i128 (a - b) \<and> c = a - b"
  by (simp add: checked_sub_def)

lemma checked_mul_Some [simp]: "checked_mul a b = Some c \<longleftrightarrow> in_i128 (a * b) \<and> c = a * b"
  by (simp add: checked_mul_def)

lemma sat_i128_id [simp]: "in_i128 x \<Longrightarrow> sat_i128 x = x"
  by (auto simp: sat_i128_def in_i128_def)

lemma sat_i128_in [simp]: "in_i128 (sat_i128 x)"
  by (auto simp: sat_i128_def in_i128_def i128_min_def i128_max_def)

lemma in_i128_0 [simp]: "in_i128 0" and in_i128_1 [simp]: "in_i128 1"
  by (simp_all add: in_i128_def i128_min_def i128_max_def)

lemma in_i128_between: "in_i128 a \<Longrightarrow> in_i128 b \<Longrightarrow> a \<le> x \<Longrightarrow> x \<le> b \<Longrightarrow> in_i128 x"
  by (auto simp: in_i128_def)

lemma in_i128_nonneg_le: "in_i128 b \<Longrightarrow> 0 \<le> x \<Longrightarrow> x \<le> b \<Longrightarrow> in_i128 x"
  by (rule in_i128_between [of 0 b]) simp_all

lemma saturating_sub_le:
  "0 \<le> b \<Longrightarrow> b \<le> a \<Longrightarrow> in_i128 a \<Longrightarrow> saturating_sub a b = a - b"
  unfolding saturating_sub_def by (rule sat_i128_id) (rule in_i128_nonneg_le [of a], auto)

lemma saturating_add_nonneg: "0 \<le> a \<Longrightarrow> 0 \<le> b \<Longrightarrow> saturating_add a b = min i128_max (a + b)"
  by (simp add: saturating_add_def sat_i128_def i128_min_def i128_max_def max_def min_def)

lemma sat_add_u64_le [simp]: "sat_add_u64 a b \<le> u64_max"
  by (simp add: sat_add_u64_def)

lemma sat_add_u64_id: "a + b \<le> u64_max \<Longrightarrow> sat_add_u64 a b = a + b"
  by (simp add: sat_add_u64_def)

lemma sat_add_u32_id: "a + b \<le> u32_max \<Longrightarrow> sat_add_u32 a b = a + b"
  by (simp add: sat_add_u32_def)

section \<open>Contract calls\<close>

text \<open>
  \<open>Ok\<close> and \<open>Err\<close> are the arms of Rust's \<^verbatim>\<open>Result\<close>; \<open>Panic\<close> is a trap (\<^verbatim>\<open>panic!\<close>,
  \<^verbatim>\<open>expect\<close>, \<^verbatim>\<open>unwrap\<close>, a failed \<^verbatim>\<open>require_auth\<close>, an arithmetic overflow, or a panicking client
  call). Functions without effects use \<open>'e + 'a\<close> with \<open>Inl\<close> for the error.
\<close>

datatype ('e, 'a) outcome = Ok 'a | Err 'e | Panic

definition is_ok :: "('e, 'a) outcome \<Rightarrow> bool" where
  "is_ok r = (case r of Ok _ \<Rightarrow> True | _ \<Rightarrow> False)"

lemma is_ok_simps [simp]: "is_ok (Ok a)" "\<not> is_ok (Err e)" "\<not> is_ok Panic"
  by (simp_all add: is_ok_def)

lemma is_okE [elim]: "is_ok r \<Longrightarrow> (\<And>a. r = Ok a \<Longrightarrow> P) \<Longrightarrow> P"
  by (cases r) auto

lemma run_ok: "fst r = Ok x \<Longrightarrow> r = (Ok x, snd r)"
  by (cases r) simp

text \<open>
  The Soroban host runs an entry point as a transaction: storage, token transfers and events of
  a call that does not return \<open>Ok\<close> are discarded.
\<close>

definition invoke :: "('s \<Rightarrow> ('e, 'a) outcome \<times> 's) \<Rightarrow> 's \<Rightarrow> ('e, 'a) outcome \<times> 's" where
  "invoke f s = (case f s of (r, s') \<Rightarrow> if is_ok r then (r, s') else (r, s))"

lemma fst_invoke [simp]: "fst (invoke f s) = fst (f s)"
  by (simp add: invoke_def split: prod.splits)

lemma invoke_Ok_iff [simp]: "invoke f s = (Ok a, s') \<longleftrightarrow> f s = (Ok a, s')"
  by (auto simp: invoke_def split: prod.splits if_splits)

lemma invoke_failed: "\<not> is_ok (fst (invoke f s)) \<Longrightarrow> snd (invoke f s) = s"
  by (simp add: invoke_def split: prod.splits if_splits)

lemma invoke_cases:
  obtains (ok) a where "f s = (Ok a, snd (invoke f s))" "fst (invoke f s) = Ok a"
  | (failed) "snd (invoke f s) = s" "\<not> is_ok (fst (f s))"
  by (cases "f s"; cases "fst (f s)") (auto simp: invoke_def)

text \<open>A call whose result is of no interest.\<close>

definition void :: "('e, 'a) outcome \<times> 's \<Rightarrow> ('e, unit) outcome \<times> 's" where
  "void r = (case r of (Ok _, s) \<Rightarrow> (Ok (), s) | (Err er, s) \<Rightarrow> (Err er, s) | (Panic, s) \<Rightarrow> (Panic, s))"

lemma void_Ok: "void r = (Ok u, s') \<Longrightarrow> \<exists>a. r = (Ok a, s')"
  by (auto simp: void_def split: prod.splits outcome.splits)

section \<open>The contract of an operation\<close>

text \<open>
  An operation keeps an invariant when its successful runs do; a failed call is rolled back. A
  configuration call leaves the part of the state alone on which the invariant depends.
\<close>

locale keeps_invariant =
  fixes inv :: "'s \<Rightarrow> bool" and oper :: "'s \<Rightarrow> ('e, 'a) outcome \<times> 's" and pre :: "'s \<Rightarrow> bool"
  assumes keeps: "inv s \<Longrightarrow> pre s \<Longrightarrow> oper s = (Ok r, s') \<Longrightarrow> inv s'"
begin

lemma invoke_keeps: "inv s \<Longrightarrow> pre s \<Longrightarrow> inv (snd (invoke oper s))"
  by (rule invoke_cases [of oper s]) (auto dest: keeps)

end

locale keeps_part =
  fixes part :: "'s \<Rightarrow> 'p" and inv :: "'s \<Rightarrow> bool" and oper :: "'s \<Rightarrow> ('e, 'a) outcome \<times> 's"
  assumes part_inv: "part s' = part s \<Longrightarrow> inv s' = inv s"
    and same_part: "oper s = (Ok r, s') \<Longrightarrow> part s' = part s"

sublocale keeps_part \<subseteq> keeps_invariant inv oper "\<lambda>_. True"
  by unfold_locales (metis part_inv same_part)

section \<open>Addresses and the ledger\<close>

text \<open>Soroban orders addresses; the order fixes how map keys are enumerated.\<close>

datatype address = Addr nat

primrec addr_id :: "address \<Rightarrow> nat" where
  "addr_id (Addr n) = n"

instantiation address :: linorder
begin

definition less_eq_address :: "address \<Rightarrow> address \<Rightarrow> bool" where
  "a \<le> b \<longleftrightarrow> addr_id a \<le> addr_id b"

definition less_address :: "address \<Rightarrow> address \<Rightarrow> bool" where
  "a < b \<longleftrightarrow> addr_id a < addr_id b"

instance
proof
  fix a b c :: address
  show "a < b \<longleftrightarrow> a \<le> b \<and> \<not> b \<le> a"
    by (auto simp: less_eq_address_def less_address_def)
  show "a \<le> a" by (simp add: less_eq_address_def)
  show "a \<le> b \<Longrightarrow> b \<le> c \<Longrightarrow> a \<le> c" by (simp add: less_eq_address_def)
  show "a \<le> b \<Longrightarrow> b \<le> a \<Longrightarrow> a = b"
    by (cases a; cases b) (simp add: less_eq_address_def)
  show "a \<le> b \<or> b \<le> a" by (auto simp: less_eq_address_def)
qed

end

lemma less_address_simps [simp]: "Addr m < Addr n \<longleftrightarrow> m < n" "Addr m \<le> Addr n \<longleftrightarrow> m \<le> n"
  by (simp_all add: less_address_def less_eq_address_def)

text \<open>
  What a call reads of its host environment: the ledger header, the address of the running
  contract, and for which addresses the transaction carries an authorisation. The second
  predicate stands for \<^verbatim>\<open>require_auth_for_args\<close> with the amount in the signed arguments.
\<close>

record env =
  ledger_timestamp :: nat
  ledger_sequence :: nat
  current_contract_address :: address
  has_auth :: "address \<Rightarrow> bool"
  has_auth_for_args :: "address \<Rightarrow> int \<Rightarrow> bool"

definition env_ok :: "env \<Rightarrow> bool" where
  "env_ok e \<longleftrightarrow> ledger_timestamp e \<le> u64_max \<and> ledger_sequence e \<le> u32_max"

text \<open>
  Within one contract frame the host accepts \<^verbatim>\<open>require_auth\<close> for an address once; asking again traps (\<^verbatim>\<open>frame is
  already authorized\<close>). The rest of the frame runs in an environment without the authorisation that was used.
\<close>

definition consume_auth :: "address \<Rightarrow> env \<Rightarrow> env" where
  "consume_auth a e = e\<lparr>has_auth := (has_auth e)(a := False)\<rparr>"

lemma consume_auth_simps [simp]:
  "ledger_timestamp (consume_auth a e) = ledger_timestamp e" "ledger_sequence (consume_auth a e) = ledger_sequence e"
  "current_contract_address (consume_auth a e) = current_contract_address e"
  "has_auth (consume_auth a e) b \<longleftrightarrow> b \<noteq> a \<and> has_auth e b"
  "has_auth_for_args (consume_auth a e) = has_auth_for_args e"
  by (simp_all add: consume_auth_def)

text \<open>The condition on the environment of a call: the contract itself signs nothing.\<close>

definition call_ok :: "address \<Rightarrow> env \<Rightarrow> bool" where
  "call_ok v e \<longleftrightarrow> current_contract_address e = v \<and> \<not> has_auth e v \<and> (\<forall>x. \<not> has_auth_for_args e v x)"

lemma call_ok_consume [simp]: "call_ok v e \<Longrightarrow> call_ok v (consume_auth a e)"
  by (simp add: call_ok_def)

section \<open>Generic lemmas\<close>

lemma sum_list_nonneg_int: "(\<And>x. x \<in> set xs \<Longrightarrow> (0::int) \<le> f x) \<Longrightarrow> 0 \<le> sum_list (map f xs)"
  by (induction xs) auto

lemma member_le_sum_list_int:
  "x \<in> set xs \<Longrightarrow> (\<And>y. y \<in> set xs \<Longrightarrow> (0::int) \<le> f y) \<Longrightarrow> f x \<le> sum_list (map f xs)"
proof (induction xs)
  case (Cons a xs)
  have "0 \<le> sum_list (map f xs)"
    using Cons.prems(2) by (intro sum_list_nonneg_int) auto
  with Cons show ?case by (cases "x = a") fastforce+
qed simp

end
