(* ===== verification/Soroban_Map.thy ===== *)
theory Soroban_Map
  imports Prelude
begin

text \<open>
  \<^verbatim>\<open>soroban_sdk::Map\<close> is an ordered map: the host keeps the entries sorted by key and enumerates
  them in that order. It is a sorted association list here. The same representation serves
  for the families of storage entries that carry a key (\<^verbatim>\<open>StorageKey::SlashRecord(u64)\<close>,
  \<^verbatim>\<open>StorageKey::EmergencyRequest(Address)\<close>, ...), since only finitely many of them are ever set.

  The locale \<open>ordered_map\<close> is the interface the components rely on; its lemmas about totals over
  all entries carry the conservation proofs of the vault.
\<close>

type_synonym ('k, 'v) smap = "('k \<times> 'v) list"

primrec smap_get :: "('k, 'v) smap \<Rightarrow> 'k \<Rightarrow> 'v option" where
  "smap_get [] k = None"
| "smap_get (e # m) k = (if fst e = k then Some (snd e) else smap_get m k)"

primrec smap_set :: "('k::linorder, 'v) smap \<Rightarrow> 'k \<Rightarrow> 'v \<Rightarrow> ('k, 'v) smap" where
  "smap_set [] k v = [(k, v)]"
| "smap_set (e # m) k v =
     (if k < fst e then (k, v) # e # m
      else if k = fst e then (k, v) # m
      else e # smap_set m k v)"

definition smap_remove :: "('k, 'v) smap \<Rightarrow> 'k \<Rightarrow> ('k, 'v) smap" where
  "smap_remove m k = filter (\<lambda>e. fst e \<noteq> k) m"

definition smap_keys :: "('k, 'v) smap \<Rightarrow> 'k list" where
  "smap_keys m = map fst m"

definition smap_has :: "('k, 'v) smap \<Rightarrow> 'k \<Rightarrow> bool" where
  "smap_has m k = (smap_get m k \<noteq> None)"

definition smap_ok :: "('k::linorder, 'v) smap \<Rightarrow> bool" where
  "smap_ok m = sorted_wrt (<) (smap_keys m)"

text \<open>The total of a quantity over the entries of a map.\<close>

definition smap_total :: "('v \<Rightarrow> int) \<Rightarrow> ('k, 'v) smap \<Rightarrow> int" where
  "smap_total f m = (\<Sum>e\<leftarrow>m. f (snd e))"

text \<open>The value of an entry, with the source's \<^verbatim>\<open>unwrap_or\<close> default.\<close>

definition get_or :: "'v \<Rightarrow> 'v option \<Rightarrow> 'v" where
  "get_or d x = (case x of None \<Rightarrow> d | Some v \<Rightarrow> v)"

lemma get_or_simps [simp]: "get_or d None = d" "get_or d (Some v) = v"
  by (simp_all add: get_or_def)

section \<open>Lookup laws\<close>

lemma smap_get_set [simp]: "smap_get (smap_set m k v) k' = (if k = k' then Some v else smap_get m k')"
  by (induction m) auto

lemma smap_get_remove [simp]: "smap_get (smap_remove m k) k' = (if k = k' then None else smap_get m k')"
  by (induction m) (auto simp: smap_remove_def)

lemma smap_has_set [simp]: "smap_has (smap_set m k v) k' \<longleftrightarrow> k = k' \<or> smap_has m k'"
  by (simp add: smap_has_def)

lemma smap_get_Some_mem: "smap_get m k = Some v \<Longrightarrow> (k, v) \<in> set m"
  by (induction m) (auto split: if_splits)

lemma smap_keys_simps [simp]: "smap_keys [] = []" "smap_keys (e # m) = fst e # smap_keys m"
  by (simp_all add: smap_keys_def)

lemma smap_get_None_iff: "smap_get m k = None \<longleftrightarrow> k \<notin> set (smap_keys m)"
  by (induction m) auto

lemma keys_set: "set (smap_keys (smap_set m k v)) = insert k (set (smap_keys m))"
  by (induction m) auto

lemma smap_ok_Nil [simp]: "smap_ok []"
  by (simp add: smap_ok_def smap_keys_def)

lemma smap_ok_Cons: "smap_ok (e # m) \<longleftrightarrow> (\<forall>k\<in>set (smap_keys m). fst e < k) \<and> smap_ok m"
  by (auto simp: smap_ok_def)

lemma smap_ok_set [simp]: "smap_ok m \<Longrightarrow> smap_ok (smap_set m k v)"
proof (induction m)
  case (Cons e m)
  then show ?case by (auto simp: smap_ok_Cons keys_set)
qed (simp add: smap_ok_Cons)

lemma smap_ok_remove [simp]: "smap_ok m \<Longrightarrow> smap_ok (smap_remove m k)"
  by (induction m) (auto simp: smap_ok_Cons smap_remove_def smap_keys_def)

lemma smap_ok_distinct: "smap_ok m \<Longrightarrow> distinct (smap_keys m)"
  by (simp add: smap_ok_def strict_sorted_iff)

lemma smap_get_mem: "smap_ok m \<Longrightarrow> (k, v) \<in> set m \<Longrightarrow> smap_get m k = Some v"
proof (induction m)
  case (Cons e m)
  then show ?case by (cases e) (fastforce simp: smap_ok_Cons smap_keys_def)
qed simp

section \<open>The interface of an ordered map\<close>

locale ordered_map =
  fixes empty :: "'m"
    and get :: "'m \<Rightarrow> 'k \<Rightarrow> 'v option"
    and put :: "'m \<Rightarrow> 'k \<Rightarrow> 'v \<Rightarrow> 'm"
    and remove :: "'m \<Rightarrow> 'k \<Rightarrow> 'm"
    and keys :: "'m \<Rightarrow> 'k list"
    and invar :: "'m \<Rightarrow> bool"
  assumes get_empty: "get empty k = None"
    and get_put: "get (put m k v) k' = (if k = k' then Some v else get m k')"
    and get_remove: "get (remove m k) k' = (if k = k' then None else get m k')"
    and invar_empty: "invar empty"
    and invar_put: "invar m \<Longrightarrow> invar (put m k v)"
    and invar_remove: "invar m \<Longrightarrow> invar (remove m k)"
    and keys_dom: "invar m \<Longrightarrow> set (keys m) = {k. get m k \<noteq> None}"
    and keys_distinct: "invar m \<Longrightarrow> distinct (keys m)"
begin

lemma total_as_sum:
  "invar m \<Longrightarrow> (\<Sum>k\<leftarrow>keys m. g k (get m k)) = (\<Sum>k\<in>{k. get m k \<noteq> None}. (g k (get m k) :: int))"
  by (simp add: sum_list_distinct_conv_sum_set keys_distinct keys_dom)

lemma finite_dom: "invar m \<Longrightarrow> finite {k. get m k \<noteq> None}"
  by (metis List.finite_set keys_dom)

text \<open>The part of a total that does not belong to the key \<open>k\<close>.\<close>

lemma total_split:
  assumes "invar m" and "\<And>k. g k None = (0::int)"
  shows "(\<Sum>k'\<leftarrow>keys m. g k' (get m k')) =
         g k (get m k) + (\<Sum>k'\<in>{k'. get m k' \<noteq> None} - {k}. g k' (get m k'))"
  using assms finite_dom [OF assms(1)]
  by (cases "get m k = None") (simp_all add: total_as_sum sum.remove)

lemma total_put:
  assumes "invar m" and "\<And>k. g k None = (0::int)"
  shows "(\<Sum>k'\<leftarrow>keys (put m k v). g k' (get (put m k v) k')) =
         (\<Sum>k'\<leftarrow>keys m. g k' (get m k')) + g k (Some v) - g k (get m k)"
proof -
  have "{k'. get (put m k v) k' \<noteq> None} - {k} = {k'. get m k' \<noteq> None} - {k}"
    by (auto simp: get_put)
  moreover have "(\<Sum>k'\<in>{k'. get m k' \<noteq> None} - {k}. g k' (get (put m k v) k')) =
        (\<Sum>k'\<in>{k'. get m k' \<noteq> None} - {k}. g k' (get m k'))"
    by (rule sum.cong) (auto simp: get_put)
  ultimately show ?thesis
    using total_split [OF invar_put [OF assms(1)], of g k v k] total_split [OF assms(1), of g k] assms(2)
    by (simp add: get_put)
qed

lemma total_remove:
  assumes "invar m" and "\<And>k. g k None = (0::int)"
  shows "(\<Sum>k'\<leftarrow>keys (remove m k). g k' (get (remove m k) k')) =
         (\<Sum>k'\<leftarrow>keys m. g k' (get m k')) - g k (get m k)"
proof -
  have "{k'. get (remove m k) k' \<noteq> None} - {k} = {k'. get m k' \<noteq> None} - {k}"
    by (auto simp: get_remove)
  moreover have "(\<Sum>k'\<in>{k'. get m k' \<noteq> None} - {k}. g k' (get (remove m k) k')) =
        (\<Sum>k'\<in>{k'. get m k' \<noteq> None} - {k}. g k' (get m k'))"
    by (rule sum.cong) (auto simp: get_remove)
  ultimately show ?thesis
    using total_split [OF invar_remove [OF assms(1)], of g k k] total_split [OF assms(1), of g k] assms(2)
    by (simp add: get_remove)
qed

text \<open>Two ways of weighing the entries that differ at one key only.\<close>

lemma total_change:
  assumes "invar m" and "\<And>k. g k None = (0::int)" and "\<And>k. h k None = (0::int)"
    and "\<And>k' v. k' \<noteq> k \<Longrightarrow> get m k' = Some v \<Longrightarrow> g k' (Some v) = h k' (Some v)"
  shows "(\<Sum>k'\<leftarrow>keys m. g k' (get m k')) - g k (get m k) =
         (\<Sum>k'\<leftarrow>keys m. h k' (get m k')) - h k (get m k)"
proof -
  have "(\<Sum>k'\<in>{k'. get m k' \<noteq> None} - {k}. g k' (get m k')) =
        (\<Sum>k'\<in>{k'. get m k' \<noteq> None} - {k}. h k' (get m k'))"
    by (rule sum.cong) (auto simp: assms(4))
  then show ?thesis
    using total_split [OF assms(1), of g k] total_split [OF assms(1), of h k] assms(2,3) by simp
qed

lemma entry_le_total:
  assumes "invar m" "\<And>k x. (0::int) \<le> g k x" "\<And>k. g k None = 0"
  shows "g k (get m k) \<le> (\<Sum>k'\<leftarrow>keys m. g k' (get m k'))"
proof (cases "get m k")
  case None
  with assms show ?thesis by (simp add: sum_list_nonneg_int)
next
  case (Some v)
  with assms(1) have "k \<in> set (keys m)" by (simp add: keys_dom)
  then show ?thesis using assms(2) by (rule member_le_sum_list_int [of k _ "\<lambda>k. g k (get m k)"])
qed

end

interpretation sm: ordered_map "[]" smap_get smap_set smap_remove smap_keys smap_ok
proof
  fix m :: "('k::linorder, 'v) smap"
  assume "smap_ok m"
  show "set (smap_keys m) = {k. smap_get m k \<noteq> None}"
    by (simp add: smap_get_None_iff del: not_None_eq)
qed (simp_all add: smap_ok_distinct)

section \<open>Totals over a map\<close>

text \<open>Totals whose weight depends on the key as well; \<open>total_at\<close> is the weight of an optional entry.\<close>

definition smap_ktotal :: "('k \<Rightarrow> 'v \<Rightarrow> int) \<Rightarrow> ('k, 'v) smap \<Rightarrow> int" where
  "smap_ktotal f m = (\<Sum>e\<leftarrow>m. f (fst e) (snd e))"

definition total_at :: "('v \<Rightarrow> int) \<Rightarrow> 'v option \<Rightarrow> int" where
  "total_at f x = (case x of None \<Rightarrow> 0 | Some v \<Rightarrow> f v)"

lemma total_at_simps [simp]: "total_at f None = 0" "total_at f (Some v) = f v"
  by (simp_all add: total_at_def)

lemma smap_ktotal_Nil [simp]: "smap_ktotal f [] = 0"
  by (simp add: smap_ktotal_def)

lemma smap_ktotal_conv:
  assumes "smap_ok m"
  shows "smap_ktotal f m = (\<Sum>k\<leftarrow>smap_keys m. total_at (f k) (smap_get m k))"
  unfolding smap_ktotal_def smap_keys_def map_map o_def
proof (rule arg_cong [of _ _ sum_list], rule map_cong [OF refl])
  fix e assume "e \<in> set m"
  then have "smap_get m (fst e) = Some (snd e)"
    using assms by (intro smap_get_mem) auto
  then show "f (fst e) (snd e) = total_at (f (fst e)) (smap_get m (fst e))" by simp
qed

lemma smap_ktotal_set:
  "smap_ok m \<Longrightarrow> smap_ktotal f (smap_set m k v) = smap_ktotal f m + f k v - total_at (f k) (smap_get m k)"
  using sm.total_put [of m "\<lambda>k. total_at (f k)" k v] by (simp add: smap_ktotal_conv)

lemma smap_ktotal_remove:
  "smap_ok m \<Longrightarrow> smap_ktotal f (smap_remove m k) = smap_ktotal f m - total_at (f k) (smap_get m k)"
  using sm.total_remove [of m "\<lambda>k. total_at (f k)" k] by (simp add: smap_ktotal_conv)

lemma smap_ktotal_change:
  assumes "smap_ok m" and "\<And>k' v. k' \<noteq> k \<Longrightarrow> smap_get m k' = Some v \<Longrightarrow> f k' v = g k' v"
  shows "smap_ktotal f m = smap_ktotal g m + total_at (f k) (smap_get m k) - total_at (g k) (smap_get m k)"
  using sm.total_change [of m "\<lambda>k. total_at (f k)" "\<lambda>k. total_at (g k)" k] assms
  by (simp add: smap_ktotal_conv)

lemma smap_ktotal_cong:
  assumes "smap_ok m" and "\<And>k v. smap_get m k = Some v \<Longrightarrow> f k v = g k v"
  shows "smap_ktotal f m = smap_ktotal g m"
  unfolding smap_ktotal_conv [OF assms(1)]
  by (rule arg_cong [of _ _ sum_list], rule map_cong [OF refl])
     (simp add: assms(2) total_at_def split: option.splits)

lemma smap_total_ktotal: "smap_total f m = smap_ktotal (\<lambda>_. f) m"
  by (simp add: smap_total_def smap_ktotal_def)

lemma smap_total_set:
  "smap_ok m \<Longrightarrow> smap_total f (smap_set m k v) = smap_total f m + f v - total_at f (smap_get m k)"
  by (simp add: smap_total_ktotal smap_ktotal_set)

lemma smap_total_remove:
  "smap_ok m \<Longrightarrow> smap_total f (smap_remove m k) = smap_total f m - total_at f (smap_get m k)"
  by (simp add: smap_total_ktotal smap_ktotal_remove)

lemma smap_ktotal_nonneg:
  "smap_ok m \<Longrightarrow> (\<And>k v. smap_get m k = Some v \<Longrightarrow> 0 \<le> f k v) \<Longrightarrow> 0 \<le> smap_ktotal f m"
  unfolding smap_ktotal_conv
  by (rule sum_list_nonneg_int) (auto simp: total_at_def split: option.splits)

lemma smap_total_nonneg: "(\<And>k v. (k, v) \<in> set m \<Longrightarrow> 0 \<le> f v) \<Longrightarrow> 0 \<le> smap_total f m"
  unfolding smap_total_def by (rule sum_list_nonneg_int) (metis prod.collapse)

lemma smap_entry_le_total:
  assumes "smap_get m k = Some v" and "\<And>k v. (k, v) \<in> set m \<Longrightarrow> 0 \<le> f v"
  shows "f v \<le> smap_total f m"
  using member_le_sum_list_int [of "(k, v)" m "\<lambda>e. f (snd e)"] smap_get_Some_mem [OF assms(1)] assms(2)
  by (force simp: smap_total_def)

lemma smap_total_Nil [simp]: "smap_total f [] = 0"
  by (simp add: smap_total_def)

text \<open>A property of every entry is kept by \<open>smap_set\<close> and \<open>smap_remove\<close>.\<close>

definition smap_all :: "('v \<Rightarrow> bool) \<Rightarrow> ('k, 'v) smap \<Rightarrow> bool" where
  "smap_all P m = list_all (\<lambda>e. P (snd e)) m"

lemma smap_all_set [simp]: "smap_all P m \<Longrightarrow> P v \<Longrightarrow> smap_all P (smap_set m k v)"
  by (induction m) (auto simp: smap_all_def)

lemma smap_all_remove [simp]: "smap_all P m \<Longrightarrow> smap_all P (smap_remove m k)"
  by (auto simp: smap_all_def smap_remove_def list_all_iff)

lemma smap_all_Nil [simp]: "smap_all P []"
  by (simp add: smap_all_def)

lemma smap_all_get: "smap_all P m \<Longrightarrow> smap_get m k = Some v \<Longrightarrow> P v"
  by (force simp: smap_all_def list_all_iff dest: smap_get_Some_mem)

lemma smap_all_total_nonneg: "smap_all (\<lambda>v. 0 \<le> f v) m \<Longrightarrow> 0 \<le> smap_total f m"
  by (rule smap_total_nonneg) (auto simp: smap_all_def list_all_iff)

lemma smap_all_entry_le_total:
  "smap_all (\<lambda>v. 0 \<le> f v) m \<Longrightarrow> smap_get m k = Some v \<Longrightarrow> f v \<le> smap_total f m"
  by (rule smap_entry_le_total) (auto simp: smap_all_def list_all_iff)

end
