(* ===== verification/Contract_Events.thy ===== *)
theory Contract_Events
  imports Prelude
begin

text \<open>
  Events as the host stores them. Topics and bodies are Soroban values: a \<^verbatim>\<open>#[contracttype]\<close> struct
  is a map from field names to values, a tuple is a vector. Every emit function of the modelled
  modules builds its event in this form. An event that is published by a call that fails never
  becomes visible (see \<open>invoke\<close> in the prelude).
\<close>

type_synonym symbol = string

datatype scval =
    VBool bool
  | VU32 nat
  | VU64 nat
  | VI128 int
  | VAddr address
  | VSym symbol
  | VStr string
  | VBytes "8 word list"
  | VVoid
  | VVec "scval list"
  | VMap "(string \<times> scval) list"

record event =
  topics :: "scval list"
  event_data :: scval

text \<open>\<^verbatim>\<open>common/src/health.rs\<close>\<close>

record health_status =
  is_initialized_flag :: bool
  is_paused_flag :: bool
  health_version :: string
  health_admin :: address
  initialized_at :: nat

definition health_body :: "health_status \<Rightarrow> scval" where
  "health_body h = VMap
     [(''is_initialized'', VBool (is_initialized_flag h)),
      (''is_paused'', VBool (is_paused_flag h)),
      (''version'', VStr (health_version h)),
      (''admin'', VAddr (health_admin h)),
      (''initialized_at'', VU64 (initialized_at h))]"

end
