(* ===== verification/Shared_State.thy ===== *)
theory Shared_State
  imports Soroban_Map Contract_Events
begin

text \<open>
  The storage that the shared modules keep inside every contract that uses them, and the small
  guard modules over it: \<^verbatim>\<open>shared/src/initializable.rs\<close>, \<^verbatim>\<open>pausable.rs\<close>, \<^verbatim>\<open>reentrancy.rs\<close> and
  \<^verbatim>\<open>version.rs\<close>. The record \<open>shared_store\<close> has one field per storage key of these modules (an
  absent key is \<open>None\<close>); a contract extends it with its own keys, so every operation here applies
  to the state of any contract.
\<close>

section \<open>Types of the shared modules\<close>

text \<open>\<^verbatim>\<open>shared/src/multisig.rs\<close>\<close>

record multisig_config =
  signers :: "address list"
  threshold :: nat
  proposal_timeout_secs :: nat

datatype proposal_status = ProposalPending | ProposalExecuted

record proposal =
  proposal_id :: nat
  proposer :: address
  payload :: "8 word list"
  approvals :: "address list"
  proposal_state :: proposal_status
  created_at :: nat
  expires_at :: nat

text \<open>\<^verbatim>\<open>common/src/rate_limit.rs\<close> and \<^verbatim>\<open>shared/src/rate_limiter.rs\<close>\<close>

datatype action_type = SignalSubmission | TradeExecution | StakeChange | FollowAction

record rate_limit_config =
  window_secs :: nat
  max_actions :: nat

record rate_limit_window =
  window_start :: nat
  window_count :: nat

text \<open>\<^verbatim>\<open>shared/src/pausable.rs\<close>\<close>

datatype pause_scope = ScopeGlobal | ScopeTreasury | ScopeStaking | ScopeGovernance
  | ScopeTrading | ScopeUpgrades

definition pause_scope_code :: "pause_scope \<Rightarrow> nat" where
  "pause_scope_code sc =
     (case sc of ScopeGlobal \<Rightarrow> 0 | ScopeTreasury \<Rightarrow> 1 | ScopeStaking \<Rightarrow> 2
      | ScopeGovernance \<Rightarrow> 3 | ScopeTrading \<Rightarrow> 4 | ScopeUpgrades \<Rightarrow> 5)"

text \<open>\<^verbatim>\<open>common/src/assets.rs\<close>\<close>

record asset =
  asset_code :: string
  asset_issuer :: "address option"

record shared_store =
  k_initialized :: "bool option"
  k_paused :: "bool option"
  k_scoped_paused :: "pause_scope \<Rightarrow> bool option"
  k_shared_lock :: "bool option"
  k_contract_version :: "nat option"
  k_ms_config :: "multisig_config option"
  k_ms_next_id :: "nat option"
  k_ms_proposals :: "(nat, proposal) smap"
  k_rl_config :: "action_type \<Rightarrow> rate_limit_config option"
  k_rl_first_action :: "(address, nat) smap"
  k_rl_window :: "symbol \<Rightarrow> (address, rate_limit_window) smap"
  event_log :: "event list"

definition publish :: "'a shared_store_scheme \<Rightarrow> scval list \<Rightarrow> scval \<Rightarrow> 'a shared_store_scheme" where
  "publish s ts b = s\<lparr>event_log := event_log s @ [\<lparr>topics = ts, event_data = b\<rparr>]\<rparr>"

section \<open>\<^verbatim>\<open>initializable.rs\<close>\<close>

definition is_initialized :: "'a shared_store_scheme \<Rightarrow> bool" where
  "is_initialized s = get_or False (k_initialized s)"

definition mark_initialized :: "'a shared_store_scheme \<Rightarrow> 'a shared_store_scheme" where
  "mark_initialized s = s\<lparr>k_initialized := Some True\<rparr>"

definition guard_not_initialized :: "'a shared_store_scheme \<Rightarrow> bool + unit" where
  "guard_not_initialized s = (if is_initialized s then Inl True else Inr ())"

section \<open>\<^verbatim>\<open>pausable.rs\<close>\<close>

definition is_paused :: "'a shared_store_scheme \<Rightarrow> bool" where
  "is_paused s = get_or False (k_paused s)"

definition set_paused :: "'a shared_store_scheme \<Rightarrow> bool \<Rightarrow> 'a shared_store_scheme" where
  "set_paused s p =
     publish (s\<lparr>k_paused := Some p\<rparr>) [VSym (if p then ''paused'' else ''unpaused'')] (VVec [VBool p])"

definition require_not_paused :: "'a shared_store_scheme \<Rightarrow> bool + unit" where
  "require_not_paused s = (if is_paused s then Inl True else Inr ())"

definition is_paused_for_scope :: "'a shared_store_scheme \<Rightarrow> pause_scope \<Rightarrow> bool" where
  "is_paused_for_scope s sc =
     (case sc of ScopeGlobal \<Rightarrow> is_paused s | _ \<Rightarrow> get_or False (k_scoped_paused s sc))"

definition set_paused_scope ::
  "'a shared_store_scheme \<Rightarrow> bool \<Rightarrow> pause_scope \<Rightarrow> 'a shared_store_scheme" where
  "set_paused_scope s p sc =
     (case sc of ScopeGlobal \<Rightarrow> set_paused s p
      | _ \<Rightarrow> publish (s\<lparr>k_scoped_paused := (k_scoped_paused s)(sc := Some p)\<rparr>)
               [VSym ''pause_scope''] (VVec [VU32 (pause_scope_code sc), VBool p]))"

definition require_not_paused_scope :: "'a shared_store_scheme \<Rightarrow> pause_scope \<Rightarrow> pause_scope + unit" where
  "require_not_paused_scope s sc = (if is_paused_for_scope s sc then Inl sc else Inr ())"

section \<open>\<^verbatim>\<open>reentrancy.rs\<close>\<close>

datatype reentrancy_error = SharedReentrancyDetected

definition require_not_locked :: "'a shared_store_scheme \<Rightarrow> reentrancy_error + unit" where
  "require_not_locked s =
     (if get_or False (k_shared_lock s) then Inl SharedReentrancyDetected else Inr ())"

definition guarded :: "(reentrancy_error \<Rightarrow> 'e) \<Rightarrow>
    ('a shared_store_scheme \<Rightarrow> ('e, 'r) outcome \<times> 'a shared_store_scheme) \<Rightarrow>
    'a shared_store_scheme \<Rightarrow> ('e, 'r) outcome \<times> 'a shared_store_scheme" where
  "guarded from f s =
     (case require_not_locked s of
        Inl e \<Rightarrow> (Err (from e), s)
      | Inr _ \<Rightarrow> (case f (s\<lparr>k_shared_lock := Some True\<rparr>) of
           (Panic, s') \<Rightarrow> (Panic, s')
         | (r, s') \<Rightarrow> (r, s'\<lparr>k_shared_lock := None\<rparr>)))"

section \<open>\<^verbatim>\<open>version.rs\<close>\<close>

definition STAKE_VAULT_VERSION :: nat where
  "STAKE_VAULT_VERSION = 2"

datatype contract_kind = KindSignalRegistry | KindAutoTrade | KindOracle | KindStakeVault
  | KindFeeCollector

definition min_version_for :: "contract_kind \<Rightarrow> nat" where
  "min_version_for kind =
     (case kind of KindSignalRegistry \<Rightarrow> 2 | KindAutoTrade \<Rightarrow> 2 | KindOracle \<Rightarrow> 2
      | KindStakeVault \<Rightarrow> 2 | KindFeeCollector \<Rightarrow> 2)"

datatype version_error = VersionIncompatible | DowngradeRejected

definition set_contract_version :: "'a shared_store_scheme \<Rightarrow> nat \<Rightarrow> 'a shared_store_scheme" where
  "set_contract_version s v = s\<lparr>k_contract_version := Some v\<rparr>"

definition get_contract_version :: "'a shared_store_scheme \<Rightarrow> nat" where
  "get_contract_version s = get_or 1 (k_contract_version s)"

definition check_compatible :: "nat \<Rightarrow> contract_kind \<Rightarrow> version_error + unit" where
  "check_compatible v kind = (if v < min_version_for kind then Inl VersionIncompatible else Inr ())"

definition require_compatible :: "nat \<Rightarrow> contract_kind \<Rightarrow> (version_error, unit) outcome" where
  "require_compatible v kind = (if v < min_version_for kind then Panic else Ok ())"

definition emit_version_checked :: "'a shared_store_scheme \<Rightarrow> nat \<Rightarrow> bool \<Rightarrow> 'a shared_store_scheme" where
  "emit_version_checked s v c = publish s [VSym ''ver_chk'', VU32 v] (VBool c)"

definition guard_upgrade :: "nat \<Rightarrow> nat \<Rightarrow> version_error + unit" where
  "guard_upgrade current new = (if new \<le> current then Inl DowngradeRejected else Inr ())"

definition emit_contract_upgraded :: "'a shared_store_scheme \<Rightarrow> nat \<Rightarrow> nat \<Rightarrow> 'a shared_store_scheme" where
  "emit_contract_upgraded s old new = publish s [VSym ''upgraded''] (VVec [VU32 old, VU32 new])"

lemmas [host_defs] =
  publish_def is_initialized_def mark_initialized_def is_paused_def set_paused_def
  require_not_paused_def require_not_locked_def set_contract_version_def get_contract_version_def
  guard_upgrade_def emit_contract_upgraded_def

section \<open>Facts\<close>

lemma is_paused_set_paused [simp]: "is_paused (set_paused s p) = p"
  by (simp add: is_paused_def set_paused_def publish_def)

lemma is_paused_for_scope_set:
  "is_paused_for_scope (set_paused_scope s p sc) sc' =
     (if sc = sc' then p else is_paused_for_scope s sc')"
  by (cases sc; cases sc')
     (simp_all add: is_paused_for_scope_def set_paused_scope_def publish_def is_paused_def set_paused_def)

text \<open>The guard is released whether the guarded body succeeds or fails, and blocks a nested use.\<close>

lemma guarded_releases:
  "guarded from f s = (r, s') \<Longrightarrow> r \<noteq> Panic \<Longrightarrow> require_not_locked s = Inr () \<Longrightarrow>
     require_not_locked s' = Inr ()"
  by (auto simp: guarded_def require_not_locked_def split: prod.splits outcome.splits sum.splits)

lemma guarded_nested_blocked:
  "k_shared_lock s = Some True \<Longrightarrow> guarded from inner s = (Err (from SharedReentrancyDetected), s)"
  by (simp add: guarded_def require_not_locked_def)

lemma guard_upgrade_Inr [simp]: "guard_upgrade c n = Inr u \<longleftrightarrow> c < n"
  by (auto simp: guard_upgrade_def)

end
