(* ===== verification/Multisig.thy ===== *)
theory Multisig
  imports Shared_State
begin

text \<open>
  \<^verbatim>\<open>shared/src/multisig.rs\<close>: N-of-M approval of opaque action payloads. A signer proposes (and
  thereby approves), other signers approve, and once the threshold is met before the expiry time
  the action may be executed and the proposal becomes terminal.
\<close>

definition MAX_SIGNERS :: nat where
  "MAX_SIGNERS = 20"

definition DEFAULT_PROPOSAL_TIMEOUT_SECS :: nat where
  "DEFAULT_PROPOSAL_TIMEOUT_SECS = 604800"

datatype multisig_error =
    MsUnauthorized
  | MsProposalNotFound
  | MsAlreadyApproved
  | MsProposalExpired
  | MsAlreadyExecuted
  | MsThresholdNotMet
  | MsInvalidConfig
  | MsDuplicateSigner

section \<open>Configuration\<close>

definition ms_get_config :: "'a shared_store_scheme \<Rightarrow> multisig_config option" where
  "ms_get_config s = k_ms_config s"

text \<open>The nested index loops of \<^verbatim>\<open>validate_config\<close>: each signer against the later ones.\<close>

fun has_duplicate :: "address list \<Rightarrow> bool" where
  "has_duplicate [] = False"
| "has_duplicate (x # xs) = (list_ex (\<lambda>y. x = y) xs \<or> has_duplicate xs)"

definition validate_config :: "multisig_config \<Rightarrow> multisig_error + unit" where
  "validate_config c =
     (if threshold c = 0 \<or> threshold c > length (signers c) then Inl MsInvalidConfig
      else if length (signers c) > MAX_SIGNERS then Inl MsInvalidConfig
      else if has_duplicate (signers c) then Inl MsDuplicateSigner
      else Inr ())"

definition ms_set_config ::
  "multisig_config \<Rightarrow> 'a shared_store_scheme \<Rightarrow> (multisig_error, unit) outcome \<times> 'a shared_store_scheme" where
  "ms_set_config c s =
     (case validate_config c of
        Inl e \<Rightarrow> (Err e, s)
      | Inr _ \<Rightarrow> (Ok (), s\<lparr>k_ms_config := Some c\<rparr>))"

definition is_signer :: "multisig_config \<Rightarrow> address \<Rightarrow> bool" where
  "is_signer c a = list_ex (\<lambda>x. x = a) (signers c)"

section \<open>Proposals\<close>

text \<open>The id counter starts at 1; \<^verbatim>\<open>id + 1\<close> panics at the end of the \<^verbatim>\<open>u64\<close> range.\<close>

definition ms_get_next_id :: "'a shared_store_scheme \<Rightarrow> (nat \<times> 'a shared_store_scheme) option" where
  "ms_get_next_id s =
     (let pid = get_or 1 (k_ms_next_id s)
      in if pid + 1 \<le> u64_max then Some (pid, s\<lparr>k_ms_next_id := Some (pid + 1)\<rparr>) else None)"

definition ms_propose :: "env \<Rightarrow> address \<Rightarrow> 8 word list \<Rightarrow> 'a shared_store_scheme \<Rightarrow>
    (multisig_error, nat) outcome \<times> 'a shared_store_scheme" where
  "ms_propose e prop pl s =
     (case ms_get_config s of
        None \<Rightarrow> (Err MsInvalidConfig, s)
      | Some c \<Rightarrow>
          if \<not> is_signer c prop then (Err MsUnauthorized, s)
          else (case ms_get_next_id s of
             None \<Rightarrow> (Panic, s)
           | Some (pid, s1) \<Rightarrow>
               let now = ledger_timestamp e;
                   timeout = (if proposal_timeout_secs c > 0 then proposal_timeout_secs c
                              else DEFAULT_PROPOSAL_TIMEOUT_SECS);
                   p = \<lparr>proposal_id = pid, proposer = prop, payload = pl, approvals = [prop],
                        proposal_state = ProposalPending, created_at = now,
                        expires_at = sat_add_u64 now timeout\<rparr>
               in (Ok pid, s1\<lparr>k_ms_proposals := smap_set (k_ms_proposals s1) pid p\<rparr>)))"

definition has_approved :: "proposal \<Rightarrow> address \<Rightarrow> bool" where
  "has_approved p a = list_ex (\<lambda>x. x = a) (approvals p)"

definition ms_get_proposal :: "'a shared_store_scheme \<Rightarrow> nat \<Rightarrow> multisig_error + proposal" where
  "ms_get_proposal s pid =
     (case smap_get (k_ms_proposals s) pid of None \<Rightarrow> Inl MsProposalNotFound | Some p \<Rightarrow> Inr p)"

definition ms_approve :: "env \<Rightarrow> address \<Rightarrow> nat \<Rightarrow> 'a shared_store_scheme \<Rightarrow>
    (multisig_error, nat) outcome \<times> 'a shared_store_scheme" where
  "ms_approve e caller pid s =
     (case ms_get_config s of
        None \<Rightarrow> (Err MsInvalidConfig, s)
      | Some c \<Rightarrow>
          if \<not> is_signer c caller then (Err MsUnauthorized, s)
          else (case ms_get_proposal s pid of
             Inl er \<Rightarrow> (Err er, s)
           | Inr p \<Rightarrow>
               if proposal_state p = ProposalExecuted then (Err MsAlreadyExecuted, s)
               else if ledger_timestamp e > expires_at p then (Err MsProposalExpired, s)
               else if has_approved p caller then (Err MsAlreadyApproved, s)
               else let p' = p\<lparr>approvals := approvals p @ [caller]\<rparr>
                    in (Ok (length (approvals p')),
                        s\<lparr>k_ms_proposals := smap_set (k_ms_proposals s) pid p'\<rparr>)))"

definition ms_require_can_execute ::
  "env \<Rightarrow> proposal \<Rightarrow> 'a shared_store_scheme \<Rightarrow> multisig_error + unit" where
  "ms_require_can_execute e p s =
     (case ms_get_config s of
        None \<Rightarrow> Inl MsInvalidConfig
      | Some c \<Rightarrow>
          if proposal_state p = ProposalExecuted then Inl MsAlreadyExecuted
          else if length (approvals p) < threshold c then Inl MsThresholdNotMet
          else if ledger_timestamp e > expires_at p then Inl MsProposalExpired
          else Inr ())"

definition ms_mark_executed :: "nat \<Rightarrow> 'a shared_store_scheme \<Rightarrow>
    (multisig_error, unit) outcome \<times> 'a shared_store_scheme" where
  "ms_mark_executed pid s =
     (case ms_get_proposal s pid of
        Inl er \<Rightarrow> (Err er, s)
      | Inr p \<Rightarrow>
          if proposal_state p = ProposalExecuted then (Err MsAlreadyExecuted, s)
          else (Ok (), s\<lparr>k_ms_proposals :=
                 smap_set (k_ms_proposals s) pid (p\<lparr>proposal_state := ProposalExecuted\<rparr>)\<rparr>))"

section \<open>Facts about single operations\<close>

lemma not_executed [simp]: "st \<noteq> ProposalExecuted \<longleftrightarrow> st = ProposalPending"
  by (cases st) auto

lemma has_duplicate_iff [simp]: "has_duplicate xs \<longleftrightarrow> \<not> distinct xs"
  by (induction xs) (auto simp: list_ex_iff)

lemma is_signer_iff [simp]: "is_signer c a \<longleftrightarrow> a \<in> set (signers c)"
  by (auto simp: is_signer_def list_ex_iff)

lemma has_approved_iff [simp]: "has_approved p a \<longleftrightarrow> a \<in> set (approvals p)"
  by (auto simp: has_approved_def list_ex_iff)

lemma validate_config_Inr:
  "validate_config c = Inr u \<longleftrightarrow>
     0 < threshold c \<and> threshold c \<le> length (signers c) \<and> length (signers c) \<le> 20 \<and>
     distinct (signers c)"
  by (auto simp: validate_config_def MAX_SIGNERS_def)

lemma ms_get_proposal_Inr [simp]:
  "ms_get_proposal s pid = Inr p \<longleftrightarrow> smap_get (k_ms_proposals s) pid = Some p"
  by (auto simp: ms_get_proposal_def split: option.splits)

lemma ms_proposeE:
  assumes "ms_propose e prop pl s = (Ok pid, s')"
  obtains c p where "ms_get_config s = Some c" "prop \<in> set (signers c)"
    "pid = get_or 1 (k_ms_next_id s)" "pid < u64_max"
    "s' = s\<lparr>k_ms_next_id := Some (pid + 1), k_ms_proposals := smap_set (k_ms_proposals s) pid p\<rparr>"
    "proposal_id p = pid" "proposer p = prop" "payload p = pl" "approvals p = [prop]"
    "proposal_state p = ProposalPending" "created_at p = ledger_timestamp e"
  using assms
  by (auto simp: ms_propose_def ms_get_next_id_def Let_def split: option.splits if_splits)

lemma ms_approveE:
  assumes "ms_approve e a pid s = (Ok n, s')"
  obtains c p where "ms_get_config s = Some c" "a \<in> set (signers c)"
    "smap_get (k_ms_proposals s) pid = Some p" "proposal_state p = ProposalPending"
    "ledger_timestamp e \<le> expires_at p" "a \<notin> set (approvals p)"
    "n = Suc (length (approvals p))"
    "s' = s\<lparr>k_ms_proposals := smap_set (k_ms_proposals s) pid (p\<lparr>approvals := approvals p @ [a]\<rparr>)\<rparr>"
  using assms
  by (auto simp: ms_approve_def Let_def split: option.splits if_splits sum.splits)

lemma ms_mark_executedE:
  assumes "ms_mark_executed pid s = (Ok u, s')"
  obtains p where "smap_get (k_ms_proposals s) pid = Some p" "proposal_state p = ProposalPending"
    "s' = s\<lparr>k_ms_proposals := smap_set (k_ms_proposals s) pid (p\<lparr>proposal_state := ProposalExecuted\<rparr>)\<rparr>"
  using assms
  by (auto simp: ms_mark_executed_def split: if_splits sum.splits)

section \<open>The life of a proposal\<close>

text \<open>
  One step of the approval flow, as a contract uses it: the configuration is replaced or cleared,
  a proposal is made, approved, or executed (\<^verbatim>\<open>require_can_execute\<close> followed by \<^verbatim>\<open>mark_executed\<close>).
\<close>

inductive ms_step :: "shared_store \<Rightarrow> shared_store \<Rightarrow> bool" where
  configure: "ms_set_config c s = (Ok (), s') \<Longrightarrow> ms_step s s'"
| clear: "ms_step s (s\<lparr>k_ms_config := None\<rparr>)"
| propose: "ms_propose e a pl s = (Ok pid, s') \<Longrightarrow> ms_step s s'"
| approve: "ms_approve e a pid s = (Ok n, s') \<Longrightarrow> ms_step s s'"
| execute: "ms_get_proposal s pid = Inr p \<Longrightarrow> ms_require_can_execute e p s = Inr () \<Longrightarrow>
     ms_mark_executed pid s = (Ok (), s') \<Longrightarrow> ms_step s s'"

text \<open>What every reachable proposal satisfies.\<close>

definition proposal_ok :: "nat \<Rightarrow> nat \<Rightarrow> proposal \<Rightarrow> bool" where
  "proposal_ok nxt pid p \<longleftrightarrow>
     proposal_id p = pid \<and> 1 \<le> pid \<and> pid < nxt \<and>
     distinct (approvals p) \<and> proposer p \<in> set (approvals p)"

definition ms_inv :: "'a shared_store_scheme \<Rightarrow> bool" where
  "ms_inv s \<longleftrightarrow>
     1 \<le> get_or 1 (k_ms_next_id s) \<and>
     (\<forall>pid p. smap_get (k_ms_proposals s) pid = Some p \<longrightarrow>
        proposal_ok (get_or 1 (k_ms_next_id s)) pid p) \<and>
     (case k_ms_config s of None \<Rightarrow> True | Some c \<Rightarrow> validate_config c = Inr ())"

lemma ms_inv_propose:
  assumes "ms_inv s" and "ms_propose e a pl s = (Ok pid, s')"
  shows "ms_inv s'"
  using assms(2)
proof (rule ms_proposeE)
  fix c p
  assume pid: "pid = get_or 1 (k_ms_next_id s)" and p: "proposal_id p = pid" "proposer p = a"
    "approvals p = [a]"
    and s': "s' = s\<lparr>k_ms_next_id := Some (pid + 1), k_ms_proposals := smap_set (k_ms_proposals s) pid p\<rparr>"
  have "proposal_ok (pid + 1) pid p"
    using assms(1) p pid by (simp add: proposal_ok_def ms_inv_def)
  moreover have "proposal_ok (pid + 1) i q" if "smap_get (k_ms_proposals s) i = Some q" for i q
    using assms(1) that pid by (force simp: ms_inv_def proposal_ok_def)
  ultimately show ?thesis
    using assms(1) by (simp add: ms_inv_def s')
qed

lemma ms_inv_approve:
  "ms_inv s \<Longrightarrow> ms_approve e a pid s = (Ok n, s') \<Longrightarrow> ms_inv s'"
  by (erule ms_approveE) (auto simp: ms_inv_def proposal_ok_def)

lemma ms_inv_mark_executed:
  "ms_inv s \<Longrightarrow> ms_mark_executed pid s = (Ok u, s') \<Longrightarrow> ms_inv s'"
  by (erule ms_mark_executedE) (auto simp: ms_inv_def proposal_ok_def)

lemma ms_inv_step: "ms_step s s' \<Longrightarrow> ms_inv s \<Longrightarrow> ms_inv s'"
proof (induction rule: ms_step.induct)
  case (configure c s s')
  then show ?case by (auto simp: ms_set_config_def ms_inv_def split: sum.splits)
next
  case (clear s)
  then show ?case by (simp add: ms_inv_def)
qed (blast intro: ms_inv_propose ms_inv_approve ms_inv_mark_executed)+

text \<open>Approvals only accumulate, and \<open>ProposalExecuted\<close> is terminal.\<close>

definition proposal_le :: "proposal \<Rightarrow> proposal \<Rightarrow> bool" where
  "proposal_le p q \<longleftrightarrow>
     proposer p = proposer q \<and> payload p = payload q \<and> expires_at p = expires_at q \<and>
     (proposal_state p = ProposalExecuted \<longrightarrow> q = p) \<and> set (approvals p) \<subseteq> set (approvals q)"

lemma proposal_le_trans: "proposal_le p q \<Longrightarrow> proposal_le q r \<Longrightarrow> proposal_le p r"
  by (auto simp: proposal_le_def)

lemma ms_step_monotone:
  "ms_step s s' \<Longrightarrow> ms_inv s \<Longrightarrow> smap_get (k_ms_proposals s) pid = Some p \<Longrightarrow>
     \<exists>q. smap_get (k_ms_proposals s') pid = Some q \<and> proposal_le p q"
proof (induction rule: ms_step.induct)
  case (configure c s s')
  then show ?case by (auto simp: ms_set_config_def proposal_le_def split: sum.splits)
next
  case (propose e a pl s i s')
  then have "pid < get_or 1 (k_ms_next_id s)" by (auto simp: ms_inv_def proposal_ok_def)
  with propose show ?case by (auto simp: proposal_le_def elim!: ms_proposeE)
next
  case (approve e a i s n s')
  then show ?case by (auto simp: proposal_le_def elim!: ms_approveE)
next
  case (execute s i q e s')
  then show ?case by (auto simp: proposal_le_def elim!: ms_mark_executedE)
qed (auto simp: proposal_le_def)

inductive ms_reach :: "shared_store \<Rightarrow> shared_store \<Rightarrow> bool" where
  ms_refl: "ms_reach s s"
| ms_more: "ms_reach s t \<Longrightarrow> ms_step t u \<Longrightarrow> ms_reach s u"

lemma ms_reach_inv: "ms_reach s t \<Longrightarrow> ms_inv s \<Longrightarrow> ms_inv t"
  by (induction rule: ms_reach.induct) (auto intro: ms_inv_step)

lemma ms_reach_monotone:
  "ms_reach s t \<Longrightarrow> ms_inv s \<Longrightarrow> smap_get (k_ms_proposals s) pid = Some p \<Longrightarrow>
     \<exists>q. smap_get (k_ms_proposals t) pid = Some q \<and> proposal_le p q"
proof (induction rule: ms_reach.induct)
  case (ms_refl s)
  then show ?case by (auto simp: proposal_le_def)
next
  case (ms_more s t u)
  then obtain q where q: "smap_get (k_ms_proposals t) pid = Some q" "proposal_le p q" by blast
  from ms_step_monotone [OF ms_more.hyps(2) ms_reach_inv [OF ms_more.hyps(1) ms_more.prems(1)] q(1)]
  show ?case using q(2) proposal_le_trans by blast
qed

lemma can_execute_distinct:
  assumes "ms_inv s" and "smap_get (k_ms_proposals s) pid = Some p"
    and "ms_require_can_execute e p s = Inr ()"
  obtains c where "k_ms_config s = Some c" "0 < threshold c" "threshold c \<le> card (set (approvals p))"
    "proposal_state p = ProposalPending" "ledger_timestamp e \<le> expires_at p"
proof -
  from assms(3) obtain c where c: "k_ms_config s = Some c" "proposal_state p \<noteq> ProposalExecuted"
      "threshold c \<le> length (approvals p)" "ledger_timestamp e \<le> expires_at p"
    by (auto simp: ms_require_can_execute_def ms_get_config_def split: option.splits if_splits)
  have "distinct (approvals p)"
    using assms(1,2) by (auto simp: ms_inv_def proposal_ok_def)
  then have "length (approvals p) = card (set (approvals p))"
    by (simp add: distinct_card)
  with c assms(1) show ?thesis
    by (intro that [of c]) (auto simp: ms_inv_def validate_config_Inr)
qed

end
