(* ===== verification/Rate_Limit.thy ===== *)
theory Rate_Limit
  imports Shared_State
begin

text \<open>
  Per-user rate limiting: the fixed-window counter of \<^verbatim>\<open>shared/src/rate_limiter.rs\<close> and, on top of
  it, the action registry and the trust tiers of \<^verbatim>\<open>common/src/rate_limit.rs\<close>.
\<close>

section \<open>\<^verbatim>\<open>shared/src/rate_limiter.rs\<close>\<close>

datatype rate_limit_error = RateExceeded

definition rl_get_window ::
  "'a shared_store_scheme \<Rightarrow> symbol \<Rightarrow> address \<Rightarrow> rate_limit_window option" where
  "rl_get_window s use_case subject = smap_get (k_rl_window s use_case) subject"

definition rl_save_window :: "'a shared_store_scheme \<Rightarrow> symbol \<Rightarrow> address \<Rightarrow> rate_limit_window \<Rightarrow>
    'a shared_store_scheme" where
  "rl_save_window s use_case subject w =
     s\<lparr>k_rl_window := (k_rl_window s)(use_case := smap_set (k_rl_window s use_case) subject w)\<rparr>"

definition current_count ::
  "env \<Rightarrow> 'a shared_store_scheme \<Rightarrow> symbol \<Rightarrow> address \<Rightarrow> nat \<Rightarrow> nat" where
  "current_count e s use_case subject wsecs =
     (case rl_get_window s use_case subject of
        Some w \<Rightarrow> if ledger_timestamp e - window_start w < wsecs then window_count w else 0
      | None \<Rightarrow> 0)"

definition rl_check :: "env \<Rightarrow> 'a shared_store_scheme \<Rightarrow> symbol \<Rightarrow> address \<Rightarrow> nat \<Rightarrow> nat \<Rightarrow>
    rate_limit_error + nat" where
  "rl_check e s use_case subject wsecs maxa =
     (let count = current_count e s use_case subject wsecs
      in if count \<ge> maxa then Inl RateExceeded else Inr count)"

definition rl_record ::
  "env \<Rightarrow> symbol \<Rightarrow> address \<Rightarrow> nat \<Rightarrow> 'a shared_store_scheme \<Rightarrow> 'a shared_store_scheme" where
  "rl_record e use_case subject wsecs s =
     (let now = ledger_timestamp e;
          w0 = get_or \<lparr>window_start = now, window_count = 0\<rparr> (rl_get_window s use_case subject);
          w1 = (if now - window_start w0 \<ge> wsecs then \<lparr>window_start = now, window_count = 0\<rparr> else w0);
          w2 = w1\<lparr>window_count := sat_add_u32 (window_count w1) 1\<rparr>
      in rl_save_window s use_case subject w2)"

section \<open>\<^verbatim>\<open>common/src/rate_limit.rs\<close>\<close>

definition SECONDS_PER_HOUR :: nat where
  "SECONDS_PER_HOUR = 3600"

definition SECONDS_PER_DAY :: nat where
  "SECONDS_PER_DAY = 86400"

definition ESTABLISHED_DAYS :: nat where
  "ESTABLISHED_DAYS = 30"

definition ESTABLISHED_TRUST_SCORE :: nat where
  "ESTABLISHED_TRUST_SCORE = 60"

definition action_symbol :: "action_type \<Rightarrow> symbol" where
  "action_symbol a =
     (case a of SignalSubmission \<Rightarrow> ''sig_sub'' | TradeExecution \<Rightarrow> ''trade''
      | StakeChange \<Rightarrow> ''stake'' | FollowAction \<Rightarrow> ''follow'')"

definition default_config :: "action_type \<Rightarrow> rate_limit_config" where
  "default_config a =
     (case a of
        SignalSubmission \<Rightarrow> \<lparr>window_secs = SECONDS_PER_HOUR, max_actions = 10\<rparr>
      | TradeExecution \<Rightarrow> \<lparr>window_secs = SECONDS_PER_HOUR, max_actions = 20\<rparr>
      | StakeChange \<Rightarrow> \<lparr>window_secs = SECONDS_PER_DAY, max_actions = 5\<rparr>
      | FollowAction \<Rightarrow> \<lparr>window_secs = SECONDS_PER_DAY, max_actions = 50\<rparr>)"

definition rl_get_config :: "'a shared_store_scheme \<Rightarrow> action_type \<Rightarrow> rate_limit_config" where
  "rl_get_config s a = get_or (default_config a) (k_rl_config s a)"

definition rl_set_config ::
  "action_type \<Rightarrow> rate_limit_config \<Rightarrow> 'a shared_store_scheme \<Rightarrow> 'a shared_store_scheme" where
  "rl_set_config a c s = s\<lparr>k_rl_config := (k_rl_config s)(a := Some c)\<rparr>"

definition get_first_action :: "'a shared_store_scheme \<Rightarrow> address \<Rightarrow> nat" where
  "get_first_action s user = get_or 0 (smap_get (k_rl_first_action s) user)"

definition record_first_action_if_new ::
  "'a shared_store_scheme \<Rightarrow> address \<Rightarrow> nat \<Rightarrow> 'a shared_store_scheme" where
  "record_first_action_if_new s user now =
     (if smap_get (k_rl_first_action s) user = None
      then s\<lparr>k_rl_first_action := smap_set (k_rl_first_action s) user now\<rparr> else s)"

definition effective_max :: "rate_limit_config \<Rightarrow> nat \<Rightarrow> nat \<Rightarrow> nat \<Rightarrow> nat" where
  "effective_max c first_action now trust =
     (if first_action = 0 then max_actions c
      else let days = (now - first_action) div SECONDS_PER_DAY
           in if days \<ge> ESTABLISHED_DAYS \<and> trust \<ge> ESTABLISHED_TRUST_SCORE
              then sat_mul_u32 (max_actions c) 2 else max_actions c)"

definition emit_rate_limit_hit ::
  "'a shared_store_scheme \<Rightarrow> address \<Rightarrow> action_type \<Rightarrow> nat \<Rightarrow> nat \<Rightarrow> 'a shared_store_scheme" where
  "emit_rate_limit_hit s user a count limit =
     publish s [VSym ''rate_limit_hit'']
       (VVec [VAddr user, VSym (action_symbol a), VU32 count, VU32 limit])"

definition check_rate_limit :: "env \<Rightarrow> address \<Rightarrow> action_type \<Rightarrow> nat \<Rightarrow> 'a shared_store_scheme \<Rightarrow>
    (rate_limit_error + unit) \<times> 'a shared_store_scheme" where
  "check_rate_limit e user a trust s =
     (let now = ledger_timestamp e;
          c = rl_get_config s a;
          maxa = effective_max c (get_first_action s user) now trust;
          use_case = action_symbol a
      in case rl_check e s use_case user (window_secs c) maxa of
           Inr _ \<Rightarrow> (Inr (), s)
         | Inl RateExceeded \<Rightarrow>
             (Inl RateExceeded,
              emit_rate_limit_hit s user a (current_count e s use_case user (window_secs c)) maxa))"

definition record_action :: "env \<Rightarrow> address \<Rightarrow> action_type \<Rightarrow> 'a shared_store_scheme \<Rightarrow> 'a shared_store_scheme" where
  "record_action e user a s =
     (let s1 = record_first_action_if_new s user (ledger_timestamp e);
          c = rl_get_config s1 a
      in rl_record e (action_symbol a) user (window_secs c) s1)"

section \<open>The interface of a windowed counter\<close>

text \<open>
  What a client of the limiter relies on: the count grows by one with each recorded action while
  the window of the subject is open, and other subjects are not affected.
\<close>

locale window_counter =
  fixes opened :: "nat \<Rightarrow> nat \<Rightarrow> 's \<Rightarrow> bool" \<comment> \<open>window start, count\<close>
    and cnt :: "nat \<Rightarrow> 's \<Rightarrow> nat"
    and rec :: "nat \<Rightarrow> 's \<Rightarrow> 's"
    and width :: nat
    and cap :: nat
  assumes cnt_opened: "opened w c s \<Longrightarrow> t - w < width \<Longrightarrow> cnt t s = c"
    and rec_opened: "opened w c s \<Longrightarrow> t - w < width \<Longrightarrow> opened w (min cap (Suc c)) (rec t s)"
begin

text \<open>Actions are attempted at the given times; each is admitted when the count is below \<open>limit\<close>.\<close>

primrec admitted :: "nat \<Rightarrow> nat list \<Rightarrow> 's \<Rightarrow> nat" where
  "admitted limit [] s = 0"
| "admitted limit (t # ts) s =
     (if cnt t s \<ge> limit then admitted limit ts s else Suc (admitted limit ts (rec t s)))"

lemma admitted_bound:
  assumes "opened w c s" and "\<And>t. t \<in> set ts \<Longrightarrow> t - w < width" and "limit \<le> cap"
  shows "admitted limit ts s \<le> limit - c"
  using assms(1,2)
proof (induction ts arbitrary: s c)
  case (Cons t ts)
  then have cnt: "cnt t s = c" by (simp add: cnt_opened)
  show ?case
  proof (cases "c \<ge> limit")
    case True
    have "admitted limit ts s \<le> limit - c" using Cons by simp
    with True cnt show ?thesis by simp
  next
    case False
    have "opened w (min cap (Suc c)) (rec t s)"
      using Cons.prems by (simp add: rec_opened)
    moreover from False assms(3) have "min cap (Suc c) = Suc c" by simp
    ultimately have "admitted limit ts (rec t s) \<le> limit - Suc c"
      using Cons.IH [of "Suc c" "rec t s"] Cons.prems(2) by simp
    with False cnt show ?thesis by simp
  qed
qed simp

end

text \<open>The shared limiter, for one use case and one subject.\<close>

definition window_open :: "symbol \<Rightarrow> address \<Rightarrow> nat \<Rightarrow> nat \<Rightarrow> 'a shared_store_scheme \<Rightarrow> bool" where
  "window_open u a w c s \<longleftrightarrow> rl_get_window s u a = Some \<lparr>window_start = w, window_count = c\<rparr>"

definition env_at :: "nat \<Rightarrow> env" where
  "env_at t = \<lparr>ledger_timestamp = t, ledger_sequence = 0, current_contract_address = Addr 0,
     has_auth = (\<lambda>_. False), has_auth_for_args = (\<lambda>_ _. False)\<rparr>"

lemma rl_get_save [simp]:
  "rl_get_window (rl_save_window s u a w) u' a' =
     (if u = u' \<and> a = a' then Some w else rl_get_window s u' a')"
  by (simp add: rl_get_window_def rl_save_window_def)

lemma rl_record_open:
  "window_open u a w c s \<Longrightarrow> ledger_timestamp e - w < wsecs \<Longrightarrow>
     window_open u a w (sat_add_u32 c 1) (rl_record e u a wsecs s)"
  by (simp add: window_open_def rl_record_def Let_def)

interpretation rl: window_counter "window_open u a"
  "\<lambda>t s. current_count (env_at t) s u a wsecs"
  "\<lambda>t s. rl_record (env_at t) u a wsecs s" wsecs u32_max
proof
  fix w c t and s :: "'a shared_store_scheme"
  assume o: "window_open u a w c s" and t: "t - w < wsecs"
  from o t show "current_count (env_at t) s u a wsecs = c"
    by (simp add: window_open_def current_count_def env_at_def)
  from o t have "window_open u a w (sat_add_u32 c 1) (rl_record (env_at t) u a wsecs s)"
    by (intro rl_record_open) (simp_all add: env_at_def)
  then show "window_open u a w (min u32_max (Suc c)) (rl_record (env_at t) u a wsecs s)"
    by (simp add: sat_add_u32_def)
qed

section \<open>Facts\<close>

lemma current_count_record:
  "0 < wsecs \<Longrightarrow> current_count e (rl_record e u a wsecs s) u a wsecs =
     sat_add_u32 (current_count e s u a wsecs) 1"
  by (auto simp: current_count_def rl_record_def Let_def get_or_def split: option.splits)

lemma current_count_record_other:
  "(u, a) \<noteq> (u', a') \<Longrightarrow>
     current_count e (rl_record e' u a wsecs s) u' a' wsecs' = current_count e s u' a' wsecs'"
  by (auto simp: current_count_def rl_record_def Let_def)

lemma effective_max_cases:
  "effective_max c f now trust = max_actions c \<or>
   effective_max c f now trust = sat_mul_u32 (max_actions c) 2"
  by (auto simp: effective_max_def Let_def)

text \<open>What the limiter writes: recording touches its own two maps, checking only the event log.\<close>

lemma rl_record_frame: "\<exists>w. rl_record e use_case subject wsecs s = s\<lparr>k_rl_window := w\<rparr>"
  unfolding rl_record_def rl_save_window_def Let_def by (rule exI) (rule refl)

lemma first_action_frame: "\<exists>f. record_first_action_if_new s user now = s\<lparr>k_rl_first_action := f\<rparr>"
proof (cases "smap_get (k_rl_first_action s) user")
  case None
  then show ?thesis by (auto simp: record_first_action_if_new_def)
next
  case (Some t)
  then have "record_first_action_if_new s user now = s\<lparr>k_rl_first_action := k_rl_first_action s\<rparr>"
    by (simp add: record_first_action_if_new_def)
  then show ?thesis by (rule exI)
qed

lemma record_action_frame:
  obtains f w where "record_action e user a s = s\<lparr>k_rl_first_action := f, k_rl_window := w\<rparr>"
  unfolding record_action_def Let_def
  using first_action_frame [of s user "ledger_timestamp e"] rl_record_frame by metis

lemma check_rate_limit_Inr: "check_rate_limit e user a trust s = (Inr u, s') \<Longrightarrow> s' = s"
  by (auto simp: check_rate_limit_def Let_def split: sum.splits rate_limit_error.splits)

section \<open>Checked and recorded actions\<close>

text \<open>
  The pattern of the limiter's clients: an attempt is checked, and recorded when it is admitted. A
  refused attempt is rolled back. The result is the number of admitted attempts.
\<close>

fun attempts :: "address \<Rightarrow> action_type \<Rightarrow> nat \<Rightarrow> nat list \<Rightarrow> 'a shared_store_scheme \<Rightarrow> nat" where
  "attempts user a trust [] s = 0"
| "attempts user a trust (t # ts) s =
     (case check_rate_limit (env_at t) user a trust s of
        (Inl _, _) \<Rightarrow> attempts user a trust ts s
      | (Inr _, s1) \<Rightarrow> Suc (attempts user a trust ts (record_action (env_at t) user a s1)))"

definition opened_for :: "action_type \<Rightarrow> address \<Rightarrow> rate_limit_config \<Rightarrow> nat \<Rightarrow> nat \<Rightarrow> 'a shared_store_scheme \<Rightarrow> bool" where
  "opened_for a user c w n s \<longleftrightarrow> window_open (action_symbol a) user w n s \<and> rl_get_config s a = c"

lemma record_action_config [simp]: "rl_get_config (record_action e user b s) a = rl_get_config s a"
  by (rule record_action_frame [of e user b s]) (simp add: rl_get_config_def)

lemma rl_get_window_first_action [simp]:
  "rl_get_window (record_first_action_if_new s u now) k user = rl_get_window s k user"
  by (simp add: rl_get_window_def record_first_action_if_new_def)

lemma window_open_first_action [simp]:
  "window_open k user w n (record_first_action_if_new s u now) = window_open k user w n s"
  by (simp add: window_open_def)

lemma rl_get_config_first_action [simp]:
  "rl_get_config (record_first_action_if_new s u now) a = rl_get_config s a"
  by (simp add: rl_get_config_def record_first_action_if_new_def)

interpretation acts: window_counter "opened_for a user c"
  "\<lambda>t s. current_count (env_at t) s (action_symbol a) user (window_secs c)"
  "\<lambda>t s. record_action (env_at t) user a s" "window_secs c" u32_max
proof
  fix w n t and s :: "'a shared_store_scheme"
  assume o: "opened_for a user c w n s" and t: "t - w < window_secs c"
  from o t show "current_count (env_at t) s (action_symbol a) user (window_secs c) = n"
    by (simp add: opened_for_def window_open_def current_count_def env_at_def)
  have "window_open (action_symbol a) user w (sat_add_u32 n 1)
      (rl_record (env_at t) (action_symbol a) user (window_secs c) (record_first_action_if_new s user t))"
    using o t by (intro rl_record_open) (simp_all add: opened_for_def env_at_def)
  then show "opened_for a user c w (min u32_max (Suc n)) (record_action (env_at t) user a s)"
    using o by (simp add: opened_for_def sat_add_u32_def) (simp add: record_action_def Let_def env_at_def)
qed

lemma check_rate_limit_iff:
  assumes "trust < ESTABLISHED_TRUST_SCORE"
  shows "check_rate_limit (env_at t) user a trust s = (Inr (), s) \<or>
      (\<exists>s'. check_rate_limit (env_at t) user a trust s = (Inl RateExceeded, s'))"
    "fst (check_rate_limit (env_at t) user a trust s) = Inr () \<longleftrightarrow>
       current_count (env_at t) s (action_symbol a) user (window_secs (rl_get_config s a)) < max_actions (rl_get_config s a)"
  using assms by (auto simp: check_rate_limit_def rl_check_def effective_max_def Let_def
      split: sum.splits rate_limit_error.splits if_splits)

lemma attempts_admitted:
  assumes "trust < ESTABLISHED_TRUST_SCORE" and "rl_get_config s a = c"
  shows "attempts user a trust ts s = acts.admitted a user c (max_actions c) ts s"
  using assms(2)
proof (induction ts arbitrary: s)
  case (Cons t ts)
  show ?case
    using check_rate_limit_iff [OF assms(1), of t user a s] Cons.prems Cons.IH [of "record_action (env_at t) user a s"]
      Cons.IH [of s]
    by (auto split: prod.splits sum.splits)
qed simp

section \<open>Properties\<close>



end
