(* ===== verification/Token_Calls.thy ===== *)
theory Token_Calls
  imports Prelude
begin

text \<open>
  Token calls. The first part is \<^verbatim>\<open>shared/src/token_error.rs\<close>: how the result of a \<^verbatim>\<open>try_*\<close> client
  call becomes one of a few stable failures. The second part is the boundary to the SEP-41 token
  contract, which is not part of this repository: the token is a parameter (a record with its
  \<^verbatim>\<open>transfer\<close> and \<^verbatim>\<open>burn\<close>), and \<open>sep41\<close> states what its interface documents. A failed call
  leaves the token ledger as it was, because the host rolls the callee back.
\<close>

section \<open>Failures of a token or cross-contract call\<close>

datatype token_failure =
    TokenUnauthorized
  | TokenInsufficientBalance
  | TokenInsufficientAllowance
  | TokenInvalidRequest
  | TokenOverflow
  | OtherContractError nat
  | HostError

text \<open>\<^verbatim>\<open>soroban_sdk::Error\<close>: an error type and a code; \<^verbatim>\<open>soroban_sdk::InvokeError\<close>.\<close>

datatype sc_error_type = ScContract | ScAuth | ScOther

record sc_error =
  error_type :: sc_error_type
  error_code :: nat

datatype invoke_error = InvokeContract nat | InvokeAbort

text \<open>\<^verbatim>\<open>Result<Result<T, C>, Result<Error, InvokeError>>\<close>.\<close>

type_synonym ('c, 'a) try_result = "(invoke_error + sc_error) + ('c + 'a)"

definition classify_code :: "nat \<Rightarrow> token_failure" where
  "classify_code code =
     (if code = 4 \<or> code = 5 then TokenUnauthorized
      else if code = 9 then TokenInsufficientAllowance
      else if code = 10 \<or> code = 11 then TokenInsufficientBalance
      else if code = 8 \<or> code = 6 \<or> code = 7 \<or> code = 13 then TokenInvalidRequest
      else if code = 12 then TokenOverflow
      else OtherContractError code)"

definition classify_error :: "sc_error \<Rightarrow> token_failure" where
  "classify_error e =
     (if error_type e = ScContract then classify_code (error_code e)
      else if error_type e = ScAuth then TokenUnauthorized
      else HostError)"

definition classify :: "invoke_error + sc_error \<Rightarrow> token_failure" where
  "classify failure =
     (case failure of
        Inr e \<Rightarrow> classify_error e
      | Inl (InvokeContract code) \<Rightarrow> classify_code code
      | Inl InvokeAbort \<Rightarrow> HostError)"

definition map_result :: "('c, 'a) try_result \<Rightarrow> token_failure + 'a" where
  "map_result r =
     (case r of
        Inr (Inr v) \<Rightarrow> Inr v
      | Inr (Inl _) \<Rightarrow> Inl HostError
      | Inl failure \<Rightarrow> Inl (classify failure))"

lemma map_result_Inr [simp]: "map_result r = Inr v \<longleftrightarrow> r = Inr (Inr v)"
  by (auto simp: map_result_def split: sum.splits)

lemma map_result_ok [simp]: "map_result (Inr (Inr v)) = Inr v"
  by (simp add: map_result_def)

lemma map_result_Inl: "map_result r = Inl f \<Longrightarrow> \<not> (\<exists>v. r = Inr (Inr v))"
  by (auto simp: map_result_def split: sum.splits)

section \<open>The token contract\<close>

text \<open>Arguments: token address, holder(s), amount, token ledger.\<close>

record 't token_impl =
  try_transfer :: "address \<Rightarrow> address \<Rightarrow> address \<Rightarrow> int \<Rightarrow> 't \<Rightarrow> (unit, unit) try_result \<times> 't"
  try_burn :: "address \<Rightarrow> address \<Rightarrow> int \<Rightarrow> 't \<Rightarrow> (unit, unit) try_result \<times> 't"

definition token_moved :: "address \<Rightarrow> address \<Rightarrow> address \<Rightarrow> int \<Rightarrow>
    (address \<Rightarrow> address \<Rightarrow> int) \<Rightarrow> address \<Rightarrow> address \<Rightarrow> int" where
  "token_moved tk from to amt b k a =
     b k a - (if k = tk \<and> a = from then amt else 0) + (if k = tk \<and> a = to then amt else 0)"

definition token_burnt :: "address \<Rightarrow> address \<Rightarrow> int \<Rightarrow>
    (address \<Rightarrow> address \<Rightarrow> int) \<Rightarrow> address \<Rightarrow> address \<Rightarrow> int" where
  "token_burnt tk from amt b k a = b k a - (if k = tk \<and> a = from then amt else 0)"

definition sep41_transfer :: "'t token_impl \<Rightarrow> ('t \<Rightarrow> address \<Rightarrow> address \<Rightarrow> int) \<Rightarrow> bool" where
  "sep41_transfer T bal \<longleftrightarrow>
     (\<forall>tk from to amt t r t'. try_transfer T tk from to amt t = (r, t') \<longrightarrow>
        (if r = Inr (Inr ())
         then 0 \<le> amt \<and> amt \<le> bal t tk from \<and> bal t' = token_moved tk from to amt (bal t)
         else t' = t))"

definition sep41_burn :: "'t token_impl \<Rightarrow> ('t \<Rightarrow> address \<Rightarrow> address \<Rightarrow> int) \<Rightarrow> bool" where
  "sep41_burn T bal \<longleftrightarrow>
     (\<forall>tk from amt t r t'. try_burn T tk from amt t = (r, t') \<longrightarrow>
        (if r = Inr (Inr ())
         then 0 \<le> amt \<and> amt \<le> bal t tk from \<and> bal t' = token_burnt tk from amt (bal t)
         else t' = t))"

definition sep41 :: "'t token_impl \<Rightarrow> ('t \<Rightarrow> address \<Rightarrow> address \<Rightarrow> int) \<Rightarrow> bool" where
  "sep41 T bal \<longleftrightarrow> sep41_transfer T bal \<and> sep41_burn T bal"

lemma sep41_transfer_ok:
  "sep41 T bal \<Longrightarrow> try_transfer T tk from to amt t = (Inr (Inr ()), t') \<Longrightarrow>
     0 \<le> amt \<and> amt \<le> bal t tk from \<and> bal t' = token_moved tk from to amt (bal t)"
  by (auto simp: sep41_def sep41_transfer_def)

lemma sep41_transfer_failed:
  "sep41 T bal \<Longrightarrow> try_transfer T tk from to amt t = (r, t') \<Longrightarrow> r \<noteq> Inr (Inr ()) \<Longrightarrow> t' = t"
  unfolding sep41_def sep41_transfer_def by (metis (full_types))

lemma sep41_burn_ok:
  "sep41 T bal \<Longrightarrow> try_burn T tk from amt t = (Inr (Inr ()), t') \<Longrightarrow>
     0 \<le> amt \<and> amt \<le> bal t tk from \<and> bal t' = token_burnt tk from amt (bal t)"
  by (auto simp: sep41_def sep41_burn_def)

lemma sep41_burn_failed:
  "sep41 T bal \<Longrightarrow> try_burn T tk from amt t = (r, t') \<Longrightarrow> r \<noteq> Inr (Inr ()) \<Longrightarrow> t' = t"
  unfolding sep41_def sep41_burn_def by (metis (full_types))

lemma token_moved_simps:
  "from \<noteq> to \<Longrightarrow> token_moved tk from to amt b tk from = b tk from - amt"
  "from \<noteq> to \<Longrightarrow> token_moved tk from to amt b tk to = b tk to + amt"
  "k \<noteq> tk \<Longrightarrow> token_moved tk from to amt b k a = b k a"
  by (simp_all add: token_moved_def)

section \<open>A concrete token\<close>

text \<open>
  A ledger of balances with the error codes of the Stellar Asset Contract. It shows that \<open>sep41\<close>
  can hold and lets witnesses run the contract.
\<close>

type_synonym balance_ledger = "address \<Rightarrow> address \<Rightarrow> int"

definition contract_failure :: "nat \<Rightarrow> (unit, unit) try_result" where
  "contract_failure code = Inl (Inr \<lparr>error_type = ScContract, error_code = code\<rparr>)"

definition asset_contract :: "balance_ledger token_impl" where
  "asset_contract =
     \<lparr>try_transfer = (\<lambda>tk from to amt t.
        if amt < 0 then (contract_failure 8, t)
        else if t tk from < amt then (contract_failure 10, t)
        else (Inr (Inr ()), token_moved tk from to amt t)),
      try_burn = (\<lambda>tk from amt t.
        if amt < 0 then (contract_failure 8, t)
        else if t tk from < amt then (contract_failure 10, t)
        else (Inr (Inr ()), token_burnt tk from amt t))\<rparr>"

lemma asset_contract_sep41: "sep41 asset_contract (\<lambda>t. t)"
  by (auto simp: sep41_def sep41_transfer_def sep41_burn_def asset_contract_def contract_failure_def
      split: if_splits)

end
