(* ===== verification/Vault_State.thy ===== *)
theory Vault_State
  imports Multisig Rate_Limit Token_Calls "HOL-Library.Product_Lexorder"
begin

text \<open>
  The data of the stake vault (\<^verbatim>\<open>stake_vault/src/lib.rs\<close> and its submodules): error codes, stored
  structs, constants and the storage record. The record extends the shared storage with one
  field per variant of \<^verbatim>\<open>StorageKey\<close>, \<^verbatim>\<open>MigrationKey\<close>, \<^verbatim>\<open>RewardKey\<close>, \<^verbatim>\<open>SlashStrategyKey\<close> and
  \<^verbatim>\<open>StorageVersionKey\<close>; the last field is the ledger of the token contracts the vault calls.
\<close>

section \<open>Errors\<close>

datatype stake_vault_error =
    NotInitialized | Unauthorized | NoStake | StakeLocked | ReentrancyDetected
  | StakeBelowMinimum | ContractPaused | TimelockRequired | TimelockNotElapsed | FlashLoanDetected
  | InvalidSlashTier | StakeDurationNotElapsed | NoDelegatedStake | UnstakeAlreadyQueued
  | NoUnstakeQueued | QueueEmpty | EmergencyNotConfigured | EmergencyRequestAlreadyExists
  | EmergencyRequestNotFound | EmergencyRequestExpired | EmergencyRequestNotExpired
  | AlreadyApproved | InvalidEmergencyPenalty | InvalidMultiSigConfig | RequiresMultisig
  | InvalidAppealWindow | AppealWindowClosed | SlashNotFound | AppealAlreadyExists
  | AppealAlreadyResolved | RateLimitExceeded | InvalidAmount | RemainingStakeBelowMinimum
  | IncompatibleContractVersion | InvalidLockMultiplierTier | QueueFull | InvalidSlashTierOrder
  | InvalidCooldown | BatchSizeInvalid | BatchLengthMismatch | SlashCooldownActive
  | EmergencyCooldownActive | StakeOverflow | InsufficientTokenBalance | InsufficientTokenAllowance
  | TokenOperationFailed

text \<open>\<^verbatim>\<open>impl From<shared::TokenFailure> for StakeVaultError\<close>\<close>

definition from_token_failure :: "token_failure \<Rightarrow> stake_vault_error" where
  "from_token_failure f =
     (case f of
        TokenUnauthorized \<Rightarrow> Unauthorized
      | TokenInsufficientBalance \<Rightarrow> InsufficientTokenBalance
      | TokenInsufficientAllowance \<Rightarrow> InsufficientTokenAllowance
      | TokenInvalidRequest \<Rightarrow> TokenOperationFailed
      | TokenOverflow \<Rightarrow> TokenOperationFailed
      | OtherContractError _ \<Rightarrow> TokenOperationFailed
      | HostError \<Rightarrow> TokenOperationFailed)"

section \<open>Stored data\<close>

datatype slash_severity = Minor | Major | Critical

definition severity_code :: "slash_severity \<Rightarrow> nat" where
  "severity_code sv = (case sv of Minor \<Rightarrow> 0 | Major \<Rightarrow> 1 | Critical \<Rightarrow> 2)"

record slash_tier_config =
  minor_bps :: nat
  major_bps :: nat
  critical_bps :: nat

definition default_slash_tier_config :: slash_tier_config where
  "default_slash_tier_config = \<lparr>minor_bps = 500, major_bps = 3000, critical_bps = 10000\<rparr>"

record lock_multiplier_tier =
  tier_weeks :: nat
  tier_bps :: nat

record stake_info_v2 =
  si_balance :: int
  si_locked_until :: nat
  si_last_updated :: nat

record unstake_request =
  ur_ticket :: nat
  ur_user :: address
  ur_queued_at :: nat

datatype appeal_status = Pending | Upheld | Reversed

record slash_record =
  sr_slash_id :: nat
  sr_provider :: address
  sr_severity :: nat
  sr_slash_amount :: int
  sr_slashed_at :: nat
  sr_reason :: symbol
  sr_cooldown_expires_at :: nat

record slash_appeal =
  sa_slash_id :: nat
  sa_appellant :: address
  sa_evidence_uri :: string
  sa_submitted_at :: nat
  sa_status :: appeal_status

text \<open>\<^verbatim>\<open>emergency_unstake.rs\<close>\<close>

record emergency_config =
  em_admins :: "address list"
  em_required :: nat
  em_penalty_bps :: nat
  em_timeout_secs :: nat

record emergency_request =
  er_staker :: address
  er_requested_at :: nat
  er_approvals :: "address list"

text \<open>\<^verbatim>\<open>migration.rs\<close>\<close>

record migration_state =
  mg_migrated :: "address list"
  mg_total_v1_providers :: nat
  mg_complete :: bool
  mg_batch_number :: nat
  mg_pending_recovery :: "address list"

text \<open>\<^verbatim>\<open>reward_vault.rs\<close>\<close>

record reward_bucket =
  rb_bucket_id :: nat
  rb_provider :: address
  rb_asset :: address
  rb_amount :: int
  rb_epoch :: nat

text \<open>\<^verbatim>\<open>slash_strategy.rs\<close>\<close>

record slash_strategy_config =
  ss_minor_bps :: nat
  ss_major_bps :: nat
  ss_critical_bps :: nat
  ss_risk_window_secs :: nat
  ss_penalty_window_secs :: nat

section \<open>Constants\<close>

definition BPS_DENOMINATOR :: int where "BPS_DENOMINATOR = 10000"
definition SECS_PER_WEEK :: nat where "SECS_PER_WEEK = 604800"
definition MAX_LOCK_MULTIPLIER_BPS :: nat where "MAX_LOCK_MULTIPLIER_BPS = 1000000"
definition GRACE_PERIOD_SECS :: nat where "GRACE_PERIOD_SECS = 86400"
definition LARGE_WITHDRAWAL_TIMELOCK_SECS :: nat where "LARGE_WITHDRAWAL_TIMELOCK_SECS = 3600"
definition MAX_WITHDRAWAL_COOLDOWN_SECS :: nat where "MAX_WITHDRAWAL_COOLDOWN_SECS = 2592000"
definition MAX_APPEAL_WINDOW_SECS :: nat where "MAX_APPEAL_WINDOW_SECS = 2592000"
definition LARGE_WITHDRAWAL_THRESHOLD :: int where "LARGE_WITHDRAWAL_THRESHOLD = 500000000"
definition DEFAULT_MAX_UNSTAKE_QUEUE_SIZE :: nat where "DEFAULT_MAX_UNSTAKE_QUEUE_SIZE = 200"
definition MAX_BATCH_SIZE :: nat where "MAX_BATCH_SIZE = 100"
definition DEFAULT_SLASH_COOLDOWN_LEDGERS :: nat where "DEFAULT_SLASH_COOLDOWN_LEDGERS = 100"
definition GOLD_TIER_STAKE :: int where "GOLD_TIER_STAKE = 1000000000"
definition SILVER_TIER_STAKE :: int where "SILVER_TIER_STAKE = GOLD_TIER_STAKE div 2"
definition BRONZE_TIER_STAKE :: int where "BRONZE_TIER_STAKE = GOLD_TIER_STAKE div 10"

definition empty_stake_info :: stake_info_v2 where
  "empty_stake_info = \<lparr>si_balance = 0, si_locked_until = 0, si_last_updated = 0\<rparr>"

section \<open>Storage\<close>

text \<open>\<^verbatim>\<open>RewardKey\<close>, \<^verbatim>\<open>SlashStrategyKey\<close> and the migration keys are grouped by module.\<close>

record reward_store =
  rk_supported_assets :: "address list option"
  rk_asset_total_deposited :: "(address, int) smap"
  rk_provider_asset_balance :: "(address \<times> address, int) smap"
  rk_bucket_counter :: "nat option"
  rk_bucket :: "(nat, reward_bucket) smap"
  rk_claimed :: "(address \<times> nat, bool) smap"

record strategy_store =
  sk_strategy_names :: "symbol list option"
  sk_strategy :: "symbol \<Rightarrow> slash_strategy_config option"

text \<open>
  \<^verbatim>\<open>StorageKey\<close>, by the kind of the entry. A key that carries an address or a number is a finite
  map; the lifetime of entries (TTL and archival) is not modelled.
\<close>

record config_store =
  k_admin :: "address option"
  k_stake_token :: "address option"
  k_signal_registry :: "address option"
  k_minimum_stake :: "int option"
  k_slash_tier_config :: "slash_tier_config option"
  k_minimum_stake_duration :: "nat option"
  k_max_unstake_queue_size :: "nat option"
  k_emergency_config :: "emergency_config option"
  k_emergency_cooldown_secs :: "nat option"
  k_appeal_window_secs :: "nat option"
  k_slash_cooldown_ledgers :: "nat option"
  k_withdrawal_cooldown_secs :: "nat option"
  k_lock_multiplier_tiers :: "lock_multiplier_tier list option"
  k_governance_address :: "address option"
  k_layout_version :: "nat option"

record 't vault = shared_store +
  cfg :: config_store
  k_withdraw_lock :: "bool option"
  k_stakes_v1 :: "(address, int) smap option"
  k_stakes_v2 :: "(address, stake_info_v2) smap option"
  k_migration_state :: "migration_state option"
  k_stake_below_min_since :: "(address, nat) smap"
  k_large_withdrawal_requested_at :: "(address, nat) smap"
  k_last_stake_ledger :: "(address, nat) smap"
  k_stake_deposit_timestamps :: "(address, nat) smap"
  k_provider_delegated_stakes :: "(address, (address, int) smap) smap"
  k_provider_total_delegated :: "(address, int) smap"
  k_unstake_queue_tail :: "nat option"
  k_unstake_queue_head :: "nat option"
  k_unstake_queue_entry :: "(nat, unstake_request) smap"
  k_user_unstake_ticket :: "(address, nat) smap"
  k_emergency_request :: "(address, emergency_request) smap"
  k_last_emergency_unstake_at :: "(address, nat) smap"
  k_slash_counter :: "nat option"
  k_slash_record :: "(nat, slash_record) smap"
  k_slash_appeal :: "(nat, slash_appeal) smap"
  k_slashed_funds_held :: "(nat, int) smap"
  k_last_slash_ledger :: "(address, nat) smap"
  rewards :: reward_store
  strategies :: strategy_store
  k_symbol_entries :: "symbol set"
  k_tokens :: 't

text \<open>Entry points of the vault: the outcome of the call and the state it leaves.\<close>

type_synonym ('t, 'a) vault_result = "(stake_vault_error, 'a) outcome \<times> 't vault"

text \<open>The storage of a contract that was just deployed: no key is set.\<close>

definition empty_config :: config_store where
  "empty_config =
     \<lparr>k_admin = None, k_stake_token = None, k_signal_registry = None, k_minimum_stake = None,
      k_slash_tier_config = None, k_minimum_stake_duration = None, k_max_unstake_queue_size = None,
      k_emergency_config = None, k_emergency_cooldown_secs = None, k_appeal_window_secs = None,
      k_slash_cooldown_ledgers = None, k_withdrawal_cooldown_secs = None,
      k_lock_multiplier_tiers = None, k_governance_address = None, k_layout_version = None\<rparr>"

definition empty_rewards :: reward_store where
  "empty_rewards =
     \<lparr>rk_supported_assets = None, rk_asset_total_deposited = [], rk_provider_asset_balance = [],
      rk_bucket_counter = None, rk_bucket = [], rk_claimed = []\<rparr>"

definition empty_vault :: "'t \<Rightarrow> 't vault" where
  "empty_vault t =
     \<lparr>k_initialized = None, k_paused = None, k_scoped_paused = (\<lambda>_. None), k_shared_lock = None,
      k_contract_version = None, k_ms_config = None, k_ms_next_id = None, k_ms_proposals = [],
      k_rl_config = (\<lambda>_. None), k_rl_first_action = [], k_rl_window = (\<lambda>_. []), event_log = [],
      cfg = empty_config, k_withdraw_lock = None, k_stakes_v1 = None, k_stakes_v2 = None,
      k_migration_state = None, k_stake_below_min_since = [], k_large_withdrawal_requested_at = [],
      k_last_stake_ledger = [], k_stake_deposit_timestamps = [], k_provider_delegated_stakes = [],
      k_provider_total_delegated = [], k_unstake_queue_tail = None, k_unstake_queue_head = None,
      k_unstake_queue_entry = [], k_user_unstake_ticket = [], k_emergency_request = [],
      k_last_emergency_unstake_at = [], k_slash_counter = None, k_slash_record = [],
      k_slash_appeal = [], k_slashed_funds_held = [], k_last_slash_ledger = [],
      rewards = empty_rewards,
      strategies = \<lparr>sk_strategy_names = None, sk_strategy = (\<lambda>_. None)\<rparr>,
      k_symbol_entries = {}, k_tokens = t\<rparr>"

end
