(* ===== verification/Vault_Events.thy ===== *)
theory Vault_Events
  imports Shared_State
begin

text \<open>
  \<^verbatim>\<open>stake_vault/src/events.rs\<close>: every event of the vault has the topics \<^verbatim>\<open>("stake_vault", name)\<close> and
  a struct with a \<^verbatim>\<open>schema_version\<close> field as its body. Emitting an event changes the event log and
  nothing else (\<open>emits_only_log\<close>).
\<close>

named_theorems emit_defs "unfolding rules of the emit functions"

definition SCHEMA_VERSION :: nat where
  "SCHEMA_VERSION = 1"

definition contract_topic :: scval where
  "contract_topic = VSym ''stake_vault''"

definition publish_struct :: "symbol \<Rightarrow> (string \<times> scval) list \<Rightarrow>
    'a shared_store_scheme \<Rightarrow> 'a shared_store_scheme" where
  "publish_struct name fs s =
     publish s [contract_topic, VSym name] (VMap ((''schema_version'', VU32 SCHEMA_VERSION) # fs))"

definition emit_provider_tier_changed :: "address \<Rightarrow> nat \<Rightarrow> nat \<Rightarrow> int \<Rightarrow>
    'a shared_store_scheme \<Rightarrow> 'a shared_store_scheme" where
  "emit_provider_tier_changed provider old_tier new_tier stake_balance s =
     (let upgraded = new_tier > old_tier
      in publish_struct (if upgraded then ''tier_up'' else ''tier_dn'')
           [(''provider'', VAddr provider), (''old_tier'', VU32 old_tier),
            (''new_tier'', VU32 new_tier), (''stake_balance'', VI128 stake_balance),
            (''upgraded'', VBool upgraded)] s)"

definition emit_min_stake_duration_updated :: "nat \<Rightarrow>
    'a shared_store_scheme \<Rightarrow> 'a shared_store_scheme" where
  "emit_min_stake_duration_updated duration_secs s =
     publish_struct ''mindur''
       [(''duration_secs'', VU64 duration_secs)] s"

definition emit_stake_below_min :: "address \<Rightarrow> int \<Rightarrow> int \<Rightarrow>
    'a shared_store_scheme \<Rightarrow> 'a shared_store_scheme" where
  "emit_stake_below_min provider current_stake minimum s =
     publish_struct ''blwmin''
       [(''provider'', VAddr provider), (''current_stake'', VI128 current_stake),
        (''minimum'', VI128 minimum)] s"

definition emit_withdrawal_cooldown_updated :: "nat \<Rightarrow>
    'a shared_store_scheme \<Rightarrow> 'a shared_store_scheme" where
  "emit_withdrawal_cooldown_updated cooldown_secs s =
     publish_struct ''wdcool''
       [(''cooldown_secs'', VU64 cooldown_secs)] s"

definition emit_withdrawal_requested :: "address \<Rightarrow> int \<Rightarrow> nat \<Rightarrow>
    'a shared_store_scheme \<Rightarrow> 'a shared_store_scheme" where
  "emit_withdrawal_requested staker balance unlock_at s =
     publish_struct ''wdreq''
       [(''staker'', VAddr staker), (''balance'', VI128 balance),
        (''unlock_at'', VU64 unlock_at)] s"

definition emit_flash_loan_attempt :: "address \<Rightarrow> int \<Rightarrow> nat \<Rightarrow>
    'a shared_store_scheme \<Rightarrow> 'a shared_store_scheme" where
  "emit_flash_loan_attempt staker balance ledger_seq s =
     publish_struct ''flashln''
       [(''staker'', VAddr staker), (''balance'', VI128 balance),
        (''ledger_seq'', VU32 ledger_seq)] s"

definition emit_slash_tiers_updated :: "nat \<Rightarrow> nat \<Rightarrow> nat \<Rightarrow>
    'a shared_store_scheme \<Rightarrow> 'a shared_store_scheme" where
  "emit_slash_tiers_updated minor major critical s =
     publish_struct ''slashcfg''
       [(''minor_bps'', VU32 minor), (''major_bps'', VU32 major),
        (''critical_bps'', VU32 critical)] s"

definition emit_partial_unstake :: "address \<Rightarrow> int \<Rightarrow> int \<Rightarrow>
    'a shared_store_scheme \<Rightarrow> 'a shared_store_scheme" where
  "emit_partial_unstake staker amount remaining s =
     publish_struct ''prtunstk''
       [(''staker'', VAddr staker), (''amount'', VI128 amount),
        (''remaining'', VI128 remaining)] s"

definition emit_stake_slashed :: "address \<Rightarrow> nat \<Rightarrow> int \<Rightarrow> nat \<Rightarrow> symbol \<Rightarrow>
    'a shared_store_scheme \<Rightarrow> 'a shared_store_scheme" where
  "emit_stake_slashed provider severity slash_amount slash_id reason s =
     publish_struct ''slashed''
       [(''provider'', VAddr provider), (''severity'', VU32 severity),
        (''slash_amount'', VI128 slash_amount), (''slash_id'', VU64 slash_id),
        (''reason'', VSym reason)] s"

definition emit_appeal_window_updated :: "nat \<Rightarrow>
    'a shared_store_scheme \<Rightarrow> 'a shared_store_scheme" where
  "emit_appeal_window_updated window s =
     publish_struct ''apwindow''
       [(''window_secs'', VU64 window)] s"

definition emit_slash_appealed :: "address \<Rightarrow> nat \<Rightarrow> string \<Rightarrow>
    'a shared_store_scheme \<Rightarrow> 'a shared_store_scheme" where
  "emit_slash_appealed appellant slash_id evidence_uri s =
     publish_struct ''appealed''
       [(''appellant'', VAddr appellant), (''slash_id'', VU64 slash_id),
        (''evidence_uri'', VStr evidence_uri)] s"

definition emit_appeal_resolved :: "nat \<Rightarrow> bool \<Rightarrow> address \<Rightarrow>
    'a shared_store_scheme \<Rightarrow> 'a shared_store_scheme" where
  "emit_appeal_resolved slash_id uphold provider s =
     publish_struct ''apresolv''
       [(''slash_id'', VU64 slash_id), (''uphold'', VBool uphold),
        (''provider'', VAddr provider)] s"

definition emit_stake_delegated :: "address \<Rightarrow> address \<Rightarrow> int \<Rightarrow>
    'a shared_store_scheme \<Rightarrow> 'a shared_store_scheme" where
  "emit_stake_delegated delegator provider amount s =
     publish_struct ''delegate''
       [(''delegator'', VAddr delegator), (''provider'', VAddr provider),
        (''amount'', VI128 amount)] s"

definition emit_unstake_queued :: "address \<Rightarrow> nat \<Rightarrow> nat \<Rightarrow>
    'a shared_store_scheme \<Rightarrow> 'a shared_store_scheme" where
  "emit_unstake_queued staker ticket queue_position s =
     publish_struct ''ustkqueu''
       [(''staker'', VAddr staker), (''ticket'', VU64 ticket),
        (''queue_position'', VU64 queue_position)] s"

definition emit_unstake_processed :: "address \<Rightarrow> nat \<Rightarrow> int \<Rightarrow>
    'a shared_store_scheme \<Rightarrow> 'a shared_store_scheme" where
  "emit_unstake_processed staker ticket amount s =
     publish_struct ''ustkproc''
       [(''staker'', VAddr staker), (''ticket'', VU64 ticket),
        (''amount'', VI128 amount)] s"

definition emit_batch_slash_completed :: "nat \<Rightarrow> int \<Rightarrow>
    'a shared_store_scheme \<Rightarrow> 'a shared_store_scheme" where
  "emit_batch_slash_completed processed_count total_slashed s =
     publish_struct ''batchslh''
       [(''processed_count'', VU32 processed_count),
        (''total_slashed'', VI128 total_slashed)] s"

definition emit_batch_appeals_resolved :: "nat \<Rightarrow>
    'a shared_store_scheme \<Rightarrow> 'a shared_store_scheme" where
  "emit_batch_appeals_resolved processed_count s =
     publish_struct ''batchapl''
       [(''processed_count'', VU32 processed_count)] s"

definition emit_lock_multiplier_tier_updated :: "nat \<Rightarrow> nat \<Rightarrow>
    'a shared_store_scheme \<Rightarrow> 'a shared_store_scheme" where
  "emit_lock_multiplier_tier_updated weeks bps s =
     publish_struct ''lockmult''
       [(''weeks'', VU32 weeks), (''bps'', VU32 bps)] s"

definition emit_slash_cooldown_updated :: "nat \<Rightarrow>
    'a shared_store_scheme \<Rightarrow> 'a shared_store_scheme" where
  "emit_slash_cooldown_updated cooldown_ledgers s =
     publish_struct ''slhcoold''
       [(''cooldown_ledgers'', VU32 cooldown_ledgers)] s"

definition emit_emergency_configured :: "nat \<Rightarrow> nat \<Rightarrow> nat \<Rightarrow>
    'a shared_store_scheme \<Rightarrow> 'a shared_store_scheme" where
  "emit_emergency_configured required penalty_bps timeout_secs s =
     publish_struct ''emgcfg''
       [(''required'', VU32 required), (''penalty_bps'', VU32 penalty_bps),
        (''timeout_secs'', VU64 timeout_secs)] s"

definition emit_emergency_requested :: "address \<Rightarrow>
    'a shared_store_scheme \<Rightarrow> 'a shared_store_scheme" where
  "emit_emergency_requested staker s =
     publish_struct ''emgreq''
       [(''staker'', VAddr staker)] s"

definition emit_emergency_approved :: "address \<Rightarrow> address \<Rightarrow> nat \<Rightarrow>
    'a shared_store_scheme \<Rightarrow> 'a shared_store_scheme" where
  "emit_emergency_approved staker signer approvals_count s =
     publish_struct ''emgappr''
       [(''staker'', VAddr staker), (''signer'', VAddr signer),
        (''approvals_count'', VU32 approvals_count)] s"

definition emit_emergency_expired :: "address \<Rightarrow>
    'a shared_store_scheme \<Rightarrow> 'a shared_store_scheme" where
  "emit_emergency_expired staker s =
     publish_struct ''emgexp''
       [(''staker'', VAddr staker)] s"

definition emit_emergency_executed :: "address \<Rightarrow> int \<Rightarrow> int \<Rightarrow> int \<Rightarrow>
    'a shared_store_scheme \<Rightarrow> 'a shared_store_scheme" where
  "emit_emergency_executed staker gross penalty net s =
     publish_struct ''emgexec''
       [(''staker'', VAddr staker), (''gross'', VI128 gross),
        (''penalty'', VI128 penalty), (''net'', VI128 net)] s"

lemmas [emit_defs] =
  publish_struct_def publish_def emit_provider_tier_changed_def
  emit_min_stake_duration_updated_def emit_stake_below_min_def
  emit_withdrawal_cooldown_updated_def emit_withdrawal_requested_def
  emit_flash_loan_attempt_def emit_slash_tiers_updated_def
  emit_partial_unstake_def emit_stake_slashed_def
  emit_appeal_window_updated_def emit_slash_appealed_def
  emit_appeal_resolved_def emit_stake_delegated_def
  emit_unstake_queued_def emit_unstake_processed_def
  emit_batch_slash_completed_def emit_batch_appeals_resolved_def
  emit_lock_multiplier_tier_updated_def emit_slash_cooldown_updated_def
  emit_emergency_configured_def emit_emergency_requested_def
  emit_emergency_approved_def emit_emergency_expired_def
  emit_emergency_executed_def

text \<open>An event has the two-topic form, and only the log changes.\<close>

lemma emits_only_log:
  "publish_struct name fs s =
     s\<lparr>event_log := event_log s @
        [\<lparr>topics = [VSym ''stake_vault'', VSym name],
          event_data = VMap ((''schema_version'', VU32 1) # fs)\<rparr>]\<rparr>"
  by (simp add: publish_struct_def publish_def contract_topic_def SCHEMA_VERSION_def)

end
