(* ===== verification/Vault_Core.thy ===== *)
theory Vault_Core
  imports Vault_State Vault_Events
begin

text \<open>
  The core of \<^verbatim>\<open>stake_vault/src/lib.rs\<close>: tiers and multipliers, initialisation and upgrade, pausing,
  configuration, deposits, voting power, the minimum-stake checks and large-withdrawal requests.
  An entry point is a function of the host environment \<open>e\<close>, its arguments and the state; the
  functions that move tokens take the token contract \<open>T\<close> as a parameter.
\<close>

section \<open>Stake tiers and multipliers\<close>

definition default_lock_multiplier_tiers :: "lock_multiplier_tier list" where
  "default_lock_multiplier_tiers =
     [\<lparr>tier_weeks = 1, tier_bps = 10000\<rparr>, \<lparr>tier_weeks = 4, tier_bps = 12500\<rparr>,
      \<lparr>tier_weeks = 12, tier_bps = 20000\<rparr>]"

fun applicable_bps_loop :: "nat \<Rightarrow> lock_multiplier_tier list \<Rightarrow> nat \<Rightarrow> nat" where
  "applicable_bps_loop remaining_weeks [] applicable = applicable"
| "applicable_bps_loop remaining_weeks (t # ts) applicable =
     applicable_bps_loop remaining_weeks ts
       (if remaining_weeks \<ge> tier_weeks t \<and> tier_bps t > applicable then tier_bps t else applicable)"

definition lock_multiplier_bps_for_remaining :: "lock_multiplier_tier list \<Rightarrow> nat \<Rightarrow> nat" where
  "lock_multiplier_bps_for_remaining tiers remaining_secs =
     applicable_bps_loop (as_u32 (remaining_secs div SECS_PER_WEEK)) tiers 0"

definition apply_multiplier_bps :: "int \<Rightarrow> nat \<Rightarrow> int" where
  "apply_multiplier_bps balance bps =
     (case checked_mul balance (int bps) of
        None \<Rightarrow> i128_max
      | Some v \<Rightarrow> get_or i128_max (checked_div_i128 v BPS_DENOMINATOR))"

definition stake_tier_for_amount :: "int \<Rightarrow> nat" where
  "stake_tier_for_amount amount =
     (if amount \<ge> GOLD_TIER_STAKE then 3
      else if amount \<ge> SILVER_TIER_STAKE then 2
      else if amount \<ge> BRONZE_TIER_STAKE then 1
      else 0)"

definition validate_slash_tiers :: "nat \<Rightarrow> nat \<Rightarrow> nat \<Rightarrow> stake_vault_error + unit" where
  "validate_slash_tiers minor major critical =
     (if minor > 10000 \<or> major > 10000 \<or> critical > 10000 then Inl InvalidSlashTier
      else if minor > major \<or> major > critical then Inl InvalidSlashTierOrder
      else Inr ())"

definition validate_cooldown :: "nat \<Rightarrow> stake_vault_error + unit" where
  "validate_cooldown cooldown_secs =
     (if cooldown_secs > MAX_WITHDRAWAL_COOLDOWN_SECS then Inl InvalidCooldown else Inr ())"

definition get_withdrawal_cooldown_secs :: "'t vault \<Rightarrow> nat" where
  "get_withdrawal_cooldown_secs s =
     get_or LARGE_WITHDRAWAL_TIMELOCK_SECS (k_withdrawal_cooldown_secs (cfg s))"

definition emit_provider_tier_change :: "address \<Rightarrow> nat \<Rightarrow> nat \<Rightarrow> int \<Rightarrow> 't vault \<Rightarrow> 't vault" where
  "emit_provider_tier_change provider old_tier new_tier stake_balance s =
     (if old_tier = new_tier then s
      else emit_provider_tier_changed provider old_tier new_tier stake_balance s)"

section \<open>Access to storage, authorisation and tokens\<close>

text \<open>The \<^verbatim>\<open>StakesV2\<close> map with its \<^verbatim>\<open>unwrap_or_else(Map::new)\<close> default.\<close>

definition stakes :: "'t vault \<Rightarrow> (address, stake_info_v2) smap" where
  "stakes s = get_or [] (k_stakes_v2 s)"

definition get_stake :: "address \<Rightarrow> 't vault \<Rightarrow> int" where
  "get_stake staker s =
     (case smap_get (stakes s) staker of None \<Rightarrow> 0 | Some i \<Rightarrow> si_balance i)"

text \<open>
  The prologue of the admin-only entry points: load the admin (\<^verbatim>\<open>ok_or\<close> or \<^verbatim>\<open>expect\<close>, the value of
  \<open>missing\<close>), then \<^verbatim>\<open>admin.require_auth()\<close>. Most setters first refuse to run when a multi-sig
  configuration is set.
\<close>

definition with_admin :: "env \<Rightarrow> (stake_vault_error, 'a) outcome \<Rightarrow> ('t vault \<Rightarrow> ('t, 'a) vault_result) \<Rightarrow>
    't vault \<Rightarrow> ('t, 'a) vault_result" where
  "with_admin e missing body s =
     (case k_admin (cfg s) of
        None \<Rightarrow> (missing, s)
      | Some admin \<Rightarrow> if has_auth e admin then body s else (Panic, s))"

definition with_single_admin ::
  "env \<Rightarrow> (stake_vault_error, 'a) outcome \<Rightarrow> ('t vault \<Rightarrow> ('t, 'a) vault_result) \<Rightarrow>
    't vault \<Rightarrow> ('t, 'a) vault_result" where
  "with_single_admin e missing body s =
     (if ms_get_config s \<noteq> None then (Err RequiresMultisig, s) else with_admin e missing body s)"

text \<open>\<^verbatim>\<open>map_result(token.try_transfer(..)).map_err(StakeVaultError::from)?\<close> and the burn.\<close>

definition transfer_tokens :: "'t token_impl \<Rightarrow> address \<Rightarrow> address \<Rightarrow> address \<Rightarrow> int \<Rightarrow>
    't vault \<Rightarrow> ('t, unit) vault_result" where
  "transfer_tokens T tk from to amt s =
     (case try_transfer T tk from to amt (k_tokens s) of (r, t) \<Rightarrow>
        (case map_result r of Inr _ \<Rightarrow> Ok () | Inl f \<Rightarrow> Err (from_token_failure f),
         s\<lparr>k_tokens := t\<rparr>))"

definition burn_tokens :: "'t token_impl \<Rightarrow> address \<Rightarrow> address \<Rightarrow> int \<Rightarrow>
    't vault \<Rightarrow> ('t, unit) vault_result" where
  "burn_tokens T tk from amt s =
     (case try_burn T tk from amt (k_tokens s) of (r, t) \<Rightarrow>
        (case map_result r of Inr _ \<Rightarrow> Ok () | Inl f \<Rightarrow> Err (from_token_failure f),
         s\<lparr>k_tokens := t\<rparr>))"

section \<open>Initialisation, upgrade, pause and governance\<close>

definition INITIAL_LAYOUT_VERSION :: nat where
  "INITIAL_LAYOUT_VERSION = 1"

definition init_storage_version :: "'t vault \<Rightarrow> 't vault" where
  "init_storage_version s =
     publish (s\<lparr>cfg := (cfg s)\<lparr>k_layout_version := Some INITIAL_LAYOUT_VERSION\<rparr>\<rparr>)
       [contract_topic, VSym ''stgver''] (VU32 INITIAL_LAYOUT_VERSION)"

definition initialize :: "address \<Rightarrow> address \<Rightarrow> address \<Rightarrow> 't vault \<Rightarrow> ('t, unit) vault_result" where
  "initialize admin stake_token signal_registry s =
     (if is_initialized s then (Panic, s)
      else (let s1 = s\<lparr>cfg := (cfg s)\<lparr>k_admin := Some admin, k_stake_token := Some stake_token,
                               k_signal_registry := Some signal_registry\<rparr>,
                       k_paused := Some False\<rparr>
            in (Ok (), init_storage_version
                  (set_contract_version (mark_initialized s1) STAKE_VAULT_VERSION))))"

text \<open>
  Replacing the executable is a host operation on the contract's code; the state it leaves is the
  new version number.
\<close>

definition upgrade :: "env \<Rightarrow> nat \<Rightarrow> 't vault \<Rightarrow> ('t, unit) vault_result" where
  "upgrade e new_version =
     with_admin e (Err NotInitialized) (\<lambda>s.
       let current_version = get_contract_version s
       in case guard_upgrade current_version new_version of
            Inl _ \<Rightarrow> (Err IncompatibleContractVersion, s)
          | Inr _ \<Rightarrow> (Ok (), emit_contract_upgraded (set_contract_version s new_version)
                              current_version new_version))"

definition pause :: "env \<Rightarrow> 't vault \<Rightarrow> ('t, unit) vault_result" where
  "pause e = with_single_admin e Panic (\<lambda>s. (Ok (), set_paused s True))"

definition unpause :: "env \<Rightarrow> 't vault \<Rightarrow> ('t, unit) vault_result" where
  "unpause e = with_single_admin e Panic (\<lambda>s. (Ok (), set_paused s False))"

definition set_governance :: "env \<Rightarrow> address \<Rightarrow> address \<Rightarrow> 't vault \<Rightarrow> ('t, unit) vault_result" where
  "set_governance e admin governance s =
     (case k_admin (cfg s) of
        None \<Rightarrow> (Err NotInitialized, s)
      | Some stored_admin \<Rightarrow>
          if \<not> has_auth e admin then (Panic, s)
          else if admin \<noteq> stored_admin then (Err Unauthorized, s)
          else (Ok (), s\<lparr>cfg := (cfg s)\<lparr>k_governance_address := Some governance\<rparr>\<rparr>))"

definition get_governance :: "'t vault \<Rightarrow> address option" where
  "get_governance s = k_governance_address (cfg s)"

definition apply_governance_pause :: "env \<Rightarrow> bool \<Rightarrow> 't vault \<Rightarrow> ('t, unit) vault_result" where
  "apply_governance_pause e p s =
     (case k_governance_address (cfg s) of
        None \<Rightarrow> (Err Unauthorized, s)
      | Some governance \<Rightarrow> if has_auth e governance then (Ok (), set_paused s p) else (Panic, s))"

definition health_uninitialized :: "address \<Rightarrow> string \<Rightarrow> health_status" where
  "health_uninitialized placeholder_admin version =
     \<lparr>is_initialized_flag = False, is_paused_flag = False, health_version = version,
      health_admin = placeholder_admin, initialized_at = 0\<rparr>"

definition emit_health_event :: "health_status \<Rightarrow> 't vault \<Rightarrow> 't vault" where
  "emit_health_event h s = publish s [VSym ''health''] (health_body h)"

text \<open>The package version and the placeholder address are constants of the build.\<close>

definition health_check :: "env \<Rightarrow> address \<Rightarrow> string \<Rightarrow> 't vault \<Rightarrow> health_status \<times> 't vault" where
  "health_check e placeholder_admin version s =
     (case k_admin (cfg s) of
        None \<Rightarrow> (health_uninitialized placeholder_admin version, s)
      | Some admin \<Rightarrow>
          let status = \<lparr>is_initialized_flag = True, is_paused_flag = is_paused s,
                        health_version = version, health_admin = admin,
                        initialized_at = ledger_timestamp e\<rparr>
          in (status, emit_health_event status s))"

section \<open>Configuration\<close>

definition get_lock_multiplier_tiers :: "'t vault \<Rightarrow> lock_multiplier_tier list" where
  "get_lock_multiplier_tiers s = get_or default_lock_multiplier_tiers (k_lock_multiplier_tiers (cfg s))"

fun update_tiers :: "nat \<Rightarrow> nat \<Rightarrow> lock_multiplier_tier list \<Rightarrow> bool \<Rightarrow> lock_multiplier_tier list" where
  "update_tiers weeks bps [] replaced =
     (if replaced then [] else [\<lparr>tier_weeks = weeks, tier_bps = bps\<rparr>])"
| "update_tiers weeks bps (t # ts) replaced =
     (if tier_weeks t = weeks
      then \<lparr>tier_weeks = weeks, tier_bps = bps\<rparr> # update_tiers weeks bps ts True
      else t # update_tiers weeks bps ts replaced)"

definition set_lock_multiplier_tier :: "env \<Rightarrow> nat \<Rightarrow> nat \<Rightarrow> 't vault \<Rightarrow> ('t, unit) vault_result" where
  "set_lock_multiplier_tier e weeks bps =
     with_admin e (Err NotInitialized) (\<lambda>s.
       if weeks = 0 \<or> bps < nat BPS_DENOMINATOR \<or> bps > MAX_LOCK_MULTIPLIER_BPS
       then (Err InvalidLockMultiplierTier, s)
       else (let updated_tiers = update_tiers weeks bps (get_lock_multiplier_tiers s) False
             in (Ok (), emit_lock_multiplier_tier_updated weeks bps
                   (s\<lparr>cfg := (cfg s)\<lparr>k_lock_multiplier_tiers := Some updated_tiers\<rparr>\<rparr>))))"

definition set_minimum_stake_duration :: "env \<Rightarrow> nat \<Rightarrow> 't vault \<Rightarrow> ('t, unit) vault_result" where
  "set_minimum_stake_duration e duration_secs =
     with_single_admin e (Err NotInitialized) (\<lambda>s.
       (Ok (), emit_min_stake_duration_updated duration_secs
          (s\<lparr>cfg := (cfg s)\<lparr>k_minimum_stake_duration := Some duration_secs\<rparr>\<rparr>)))"

definition get_minimum_stake_duration :: "'t vault \<Rightarrow> nat" where
  "get_minimum_stake_duration s = get_or 0 (k_minimum_stake_duration (cfg s))"

definition get_stake_deposit_timestamp :: "address \<Rightarrow> 't vault \<Rightarrow> nat option" where
  "get_stake_deposit_timestamp staker s = smap_get (k_stake_deposit_timestamps s) staker"

definition set_minimum_stake :: "env \<Rightarrow> int \<Rightarrow> 't vault \<Rightarrow> ('t, unit) vault_result" where
  "set_minimum_stake e minimum =
     with_single_admin e Panic (\<lambda>s.
       (Ok (), s\<lparr>cfg := (cfg s)\<lparr>k_minimum_stake := Some minimum\<rparr>\<rparr>))"

definition get_minimum_stake :: "'t vault \<Rightarrow> int" where
  "get_minimum_stake s = get_or 0 (k_minimum_stake (cfg s))"

definition set_withdrawal_cooldown :: "env \<Rightarrow> nat \<Rightarrow> 't vault \<Rightarrow> ('t, unit) vault_result" where
  "set_withdrawal_cooldown e cooldown_secs =
     with_single_admin e (Err NotInitialized) (\<lambda>s.
       case validate_cooldown cooldown_secs of
         Inl er \<Rightarrow> (Err er, s)
       | Inr _ \<Rightarrow> (Ok (), emit_withdrawal_cooldown_updated cooldown_secs
            (s\<lparr>cfg := (cfg s)\<lparr>k_withdrawal_cooldown_secs := Some cooldown_secs\<rparr>\<rparr>)))"

definition set_max_unstake_queue_size :: "env \<Rightarrow> nat \<Rightarrow> 't vault \<Rightarrow> ('t, unit) vault_result" where
  "set_max_unstake_queue_size e max_size =
     with_single_admin e (Err NotInitialized) (\<lambda>s.
       (Ok (), publish (s\<lparr>cfg := (cfg s)\<lparr>k_max_unstake_queue_size := Some max_size\<rparr>\<rparr>)
          [contract_topic, VSym ''queue_size_updated''] (VVec [VU32 max_size])))"

definition get_max_unstake_queue_size :: "'t vault \<Rightarrow> nat" where
  "get_max_unstake_queue_size s =
     get_or DEFAULT_MAX_UNSTAKE_QUEUE_SIZE (k_max_unstake_queue_size (cfg s))"

definition set_slash_cooldown :: "env \<Rightarrow> nat \<Rightarrow> 't vault \<Rightarrow> ('t, unit) vault_result" where
  "set_slash_cooldown e ledgers =
     with_admin e Panic (\<lambda>s.
       (Ok (), emit_slash_cooldown_updated ledgers
          (s\<lparr>cfg := (cfg s)\<lparr>k_slash_cooldown_ledgers := Some ledgers\<rparr>\<rparr>)))"

definition get_slash_cooldown :: "'t vault \<Rightarrow> nat" where
  "get_slash_cooldown s = get_or DEFAULT_SLASH_COOLDOWN_LEDGERS (k_slash_cooldown_ledgers (cfg s))"

definition set_appeal_window :: "env \<Rightarrow> nat \<Rightarrow> 't vault \<Rightarrow> ('t, unit) vault_result" where
  "set_appeal_window e window =
     with_single_admin e (Err NotInitialized) (\<lambda>s.
       if window > MAX_APPEAL_WINDOW_SECS then (Err InvalidAppealWindow, s)
       else (Ok (), emit_appeal_window_updated window
               (s\<lparr>cfg := (cfg s)\<lparr>k_appeal_window_secs := Some window\<rparr>\<rparr>)))"

definition get_appeal_window :: "'t vault \<Rightarrow> nat" where
  "get_appeal_window s = get_or 0 (k_appeal_window_secs (cfg s))"

definition set_slash_tiers :: "nat \<Rightarrow> nat \<Rightarrow> nat \<Rightarrow> 't vault \<Rightarrow> ('t, unit) vault_result" where
  "set_slash_tiers minor major critical s =
     (case validate_slash_tiers minor major critical of
        Inl er \<Rightarrow> (Err er, s)
      | Inr _ \<Rightarrow>
          let c = \<lparr>minor_bps = minor, major_bps = major, critical_bps = critical\<rparr>
          in (Ok (), emit_slash_tiers_updated minor major critical
                (s\<lparr>cfg := (cfg s)\<lparr>k_slash_tier_config := Some c\<rparr>\<rparr>)))"

definition configure_slash_tiers :: "env \<Rightarrow> nat \<Rightarrow> nat \<Rightarrow> nat \<Rightarrow> 't vault \<Rightarrow> ('t, unit) vault_result" where
  "configure_slash_tiers e minor major critical =
     with_single_admin e (Err NotInitialized) (set_slash_tiers minor major critical)"

definition governance_configure_slash_tiers ::
  "env \<Rightarrow> address \<Rightarrow> nat \<Rightarrow> nat \<Rightarrow> nat \<Rightarrow> 't vault \<Rightarrow> ('t, unit) vault_result" where
  "governance_configure_slash_tiers e governance minor major critical s =
     (case k_governance_address (cfg s) of
        None \<Rightarrow> (Err Unauthorized, s)
      | Some stored_governance \<Rightarrow>
          if governance \<noteq> stored_governance then (Err Unauthorized, s)
          else if \<not> has_auth e governance then (Panic, s)
          else set_slash_tiers minor major critical s)"

definition get_slash_tier_config :: "'t vault \<Rightarrow> slash_tier_config" where
  "get_slash_tier_config s = get_or default_slash_tier_config (k_slash_tier_config (cfg s))"

section \<open>Deposit and voting power\<close>

definition deposit_locked_until :: "nat \<Rightarrow> nat \<Rightarrow> stake_info_v2 \<Rightarrow> nat" where
  "deposit_locked_until now min_duration current =
     (if si_balance current = 0 then sat_add_u64 now min_duration
      else if min_duration > 0 then max (si_locked_until current) (sat_add_u64 now min_duration)
      else si_locked_until current)"

definition deposit_stake :: "'t token_impl \<Rightarrow> env \<Rightarrow> address \<Rightarrow> int \<Rightarrow> 't vault \<Rightarrow> ('t, unit) vault_result" where
  "deposit_stake T e staker amount s =
     (if require_not_locked s \<noteq> Inr () then (Err ReentrancyDetected, s)
      else if \<not> has_auth e staker then (Panic, s)
      else if is_paused s then (Err ContractPaused, s)
      else if amount \<le> 0 then (Err NoStake, s)
      else (case k_stake_token (cfg s) of
         None \<Rightarrow> (Err NotInitialized, s)
       | Some token \<Rightarrow>
           let now = ledger_timestamp e;
               current = get_or empty_stake_info (smap_get (stakes s) staker);
               old_tier = stake_tier_for_amount (si_balance current)
           in (case checked_add (si_balance current) amount of
                 None \<Rightarrow> (Err StakeOverflow, s)
               | Some new_balance \<Rightarrow>
                   let new_tier = stake_tier_for_amount new_balance;
                       locked_until =
                         deposit_locked_until now (get_minimum_stake_duration s) current;
                       info = \<lparr>si_balance = new_balance, si_locked_until = locked_until,
                               si_last_updated = now\<rparr>;
                       s1 = s\<lparr>k_stakes_v2 := Some (smap_set (stakes s) staker info),
                              k_stake_deposit_timestamps :=
                                smap_set (k_stake_deposit_timestamps s) staker now,
                              k_last_stake_ledger :=
                                smap_set (k_last_stake_ledger s) staker (ledger_sequence e)\<rparr>;
                       s2 = emit_provider_tier_change staker old_tier new_tier new_balance s1
                   in transfer_tokens T token staker (current_contract_address e) amount s2)))"

definition get_voting_power :: "env \<Rightarrow> address \<Rightarrow> 't vault \<Rightarrow> int" where
  "get_voting_power e staker s =
     (case smap_get (stakes s) staker of
        None \<Rightarrow> 0
      | Some info \<Rightarrow>
          if si_balance info = 0 then 0
          else if si_locked_until info = 0 \<or> ledger_timestamp e \<ge> si_locked_until info
          then si_balance info
          else (let remaining = si_locked_until info - ledger_timestamp e;
                    bps = lock_multiplier_bps_for_remaining (get_lock_multiplier_tiers s) remaining
                in if bps = 0 then 0 else apply_multiplier_bps (si_balance info) bps))"

section \<open>Minimum stake\<close>

definition notify_stake_below_minimum :: "env \<Rightarrow> address \<Rightarrow> 't vault \<Rightarrow> 't vault" where
  "notify_stake_below_minimum e provider s =
     (if get_stake provider s \<ge> get_minimum_stake s then s
      else if smap_has (k_stake_below_min_since s) provider then s
      else emit_stake_below_min provider (get_stake provider s) (get_minimum_stake s)
             (s\<lparr>k_stake_below_min_since :=
                  smap_set (k_stake_below_min_since s) provider (ledger_timestamp e)\<rparr>))"

definition check_signal_submission_allowed :: "env \<Rightarrow> address \<Rightarrow> 't vault \<Rightarrow> ('t, unit) vault_result" where
  "check_signal_submission_allowed e provider s =
     (if get_stake provider s \<ge> get_minimum_stake s
      then (Ok (), s\<lparr>k_stake_below_min_since := smap_remove (k_stake_below_min_since s) provider\<rparr>)
      else (let below_since =
                  get_or (ledger_timestamp e) (smap_get (k_stake_below_min_since s) provider)
            in if ledger_timestamp e - below_since > GRACE_PERIOD_SECS
               then (Err StakeBelowMinimum, s) else (Ok (), s)))"

definition get_stake_below_min_since :: "address \<Rightarrow> 't vault \<Rightarrow> nat option" where
  "get_stake_below_min_since provider s = smap_get (k_stake_below_min_since s) provider"

section \<open>Large-withdrawal requests\<close>

definition request_withdrawal :: "env \<Rightarrow> address \<Rightarrow> 't vault \<Rightarrow> ('t, unit) vault_result" where
  "request_withdrawal e staker s =
     (if \<not> has_auth e staker then (Panic, s)
      else if is_paused s then (Err ContractPaused, s)
      else if get_stake staker s < LARGE_WITHDRAWAL_THRESHOLD then (Ok (), s)
      else (let now = ledger_timestamp e;
                s1 = s\<lparr>k_large_withdrawal_requested_at :=
                         smap_set (k_large_withdrawal_requested_at s) staker now\<rparr>
            in (Ok (), emit_withdrawal_requested staker (get_stake staker s)
                  (sat_add_u64 now (get_withdrawal_cooldown_secs s)) s1)))"

definition get_withdrawal_unlock_time :: "address \<Rightarrow> 't vault \<Rightarrow> nat option" where
  "get_withdrawal_unlock_time staker s =
     (case smap_get (k_large_withdrawal_requested_at s) staker of
        None \<Rightarrow> None
      | Some t \<Rightarrow> Some (sat_add_u64 t (get_withdrawal_cooldown_secs s)))"

section \<open>Facts about the guards\<close>

lemma with_admin_Ok:
  assumes "with_admin e missing body s = (Ok r, s')" and "\<not> is_ok missing"
  obtains admin where "k_admin (cfg s) = Some admin" "has_auth e admin" "body s = (Ok r, s')"
  using assms by (auto simp: with_admin_def split: option.splits if_splits)

lemma with_single_admin_Ok:
  assumes "with_single_admin e missing body s = (Ok r, s')" and "\<not> is_ok missing"
  obtains admin where "ms_get_config s = None" "k_admin (cfg s) = Some admin" "has_auth e admin"
    "body s = (Ok r, s')"
  using assms by (auto simp: with_single_admin_def elim: with_admin_Ok split: if_splits)

text \<open>
  The contract of an administrator-only operation, and of one that also gives way to the multi-sig
  flow. The clients' lemmas are proved once and hold for every such entry point.
\<close>

locale admin_operation =
  fixes oper :: "env \<Rightarrow> 't vault \<Rightarrow> ('t, 'a) vault_result"
  assumes admin_needed: "oper e s = (Ok r, s') \<Longrightarrow> \<exists>admin. k_admin (cfg s) = Some admin \<and> has_auth e admin"
begin

lemma unauthorised_blocked:
  assumes "\<And>admin. k_admin (cfg s) = Some admin \<Longrightarrow> \<not> has_auth e admin"
  shows "\<not> is_ok (fst (oper e s))" "snd (invoke (oper e) s) = s"
proof -
  show "\<not> is_ok (fst (oper e s))"
    using admin_needed [of e s] assms by (cases "oper e s") (auto elim!: is_okE)
  then show "snd (invoke (oper e) s) = s"
    by (simp add: invoke_failed)
qed

end

locale single_admin_operation = admin_operation +
  assumes multisig_needed: "ms_get_config s \<noteq> None \<Longrightarrow> oper e s = (Err RequiresMultisig, s)"
begin

lemma succeeds_without_multisig: "oper e s = (Ok r, s') \<Longrightarrow> ms_get_config s = None"
  using multisig_needed [of s e] by (cases "ms_get_config s") auto

end

lemma with_admin_operation: "(\<And>e. \<not> is_ok (missing e)) \<Longrightarrow> admin_operation (\<lambda>e. with_admin e (missing e) (body e))"
  by unfold_locales (auto elim: with_admin_Ok)

lemma with_single_admin_operation:
  "(\<And>e. \<not> is_ok (missing e)) \<Longrightarrow> single_admin_operation (\<lambda>e. with_single_admin e (missing e) (body e))"
  by unfold_locales (auto elim: with_single_admin_Ok, auto simp: with_single_admin_def)

interpretation upgr: admin_operation "\<lambda>e. upgrade e new_version" for new_version
  unfolding upgrade_def by (rule with_admin_operation) simp

interpretation lockt: admin_operation "\<lambda>e. set_lock_multiplier_tier e weeks bps" for weeks bps
  unfolding set_lock_multiplier_tier_def by (rule with_admin_operation) simp

interpretation slcool: admin_operation "\<lambda>e. set_slash_cooldown e ledgers" for ledgers
  unfolding set_slash_cooldown_def by (rule with_admin_operation) simp

interpretation paus: single_admin_operation pause
  unfolding pause_def by (rule with_single_admin_operation) simp

interpretation unpaus: single_admin_operation unpause
  unfolding unpause_def by (rule with_single_admin_operation) simp

interpretation mindur: single_admin_operation "\<lambda>e. set_minimum_stake_duration e d" for d
  unfolding set_minimum_stake_duration_def by (rule with_single_admin_operation) simp

interpretation minst: single_admin_operation "\<lambda>e. set_minimum_stake e m" for m
  unfolding set_minimum_stake_def by (rule with_single_admin_operation) simp

interpretation wdcool: single_admin_operation "\<lambda>e. set_withdrawal_cooldown e c" for c
  unfolding set_withdrawal_cooldown_def by (rule with_single_admin_operation) simp

interpretation qsize: single_admin_operation "\<lambda>e. set_max_unstake_queue_size e n" for n
  unfolding set_max_unstake_queue_size_def by (rule with_single_admin_operation) simp

interpretation apwin: single_admin_operation "\<lambda>e. set_appeal_window e w" for w
  unfolding set_appeal_window_def by (rule with_single_admin_operation) simp

interpretation sltier: single_admin_operation "\<lambda>e. configure_slash_tiers e a b c" for a b c
  unfolding configure_slash_tiers_def by (rule with_single_admin_operation) simp

section \<open>Facts about token movements\<close>

lemma k_tokens_same [simp]: "s\<lparr>k_tokens := k_tokens s\<rparr> = s"
  by simp

lemma transfer_tokens_cases:
  assumes "sep41 T bal" and "transfer_tokens T tk from to amt s = (r, s')"
  obtains (moved) t where "r = Ok ()" "s' = s\<lparr>k_tokens := t\<rparr>" "0 \<le> amt" "amt \<le> bal (k_tokens s) tk from"
      "bal t = token_moved tk from to amt (bal (k_tokens s))"
  | (failed) er where "r = Err er" "s' = s"
proof (cases "try_transfer T tk from to amt (k_tokens s)")
  case (Pair q t)
  show ?thesis
  proof (cases "q = Inr (Inr ())")
    case True
    with sep41_transfer_ok [OF assms(1), of tk "from" to amt "k_tokens s" t] Pair assms(2) show ?thesis
      by (intro moved [of t]) (auto simp: transfer_tokens_def map_result_def)
  next
    case False
    with sep41_transfer_failed [OF assms(1) Pair] have "t = k_tokens s" by simp
    with False Pair assms(2) show ?thesis
      by (cases "map_result q") (auto simp: transfer_tokens_def intro: failed)
  qed
qed

lemma burn_tokens_cases:
  assumes "sep41 T bal" and "burn_tokens T tk from amt s = (r, s')"
  obtains (burnt) t where "r = Ok ()" "s' = s\<lparr>k_tokens := t\<rparr>" "0 \<le> amt" "amt \<le> bal (k_tokens s) tk from"
      "bal t = token_burnt tk from amt (bal (k_tokens s))"
  | (failed) er where "r = Err er" "s' = s"
proof (cases "try_burn T tk from amt (k_tokens s)")
  case (Pair q t)
  show ?thesis
  proof (cases "q = Inr (Inr ())")
    case True
    with sep41_burn_ok [OF assms(1), of tk "from" amt "k_tokens s" t] Pair assms(2) show ?thesis
      by (intro burnt [of t]) (auto simp: burn_tokens_def map_result_def)
  next
    case False
    with sep41_burn_failed [OF assms(1) Pair] have "t = k_tokens s" by simp
    with False Pair assms(2) show ?thesis
      by (cases "map_result q") (auto simp: burn_tokens_def intro: failed)
  qed
qed

section \<open>Facts about stakes and multipliers\<close>

lemma get_stake_set [simp]:
  "get_stake a (s\<lparr>k_stakes_v2 := Some (smap_set (stakes s) b i)\<rparr>) = (if a = b then si_balance i else get_stake a s)"
  by (simp add: get_stake_def stakes_def)

lemma stake_tier_mono: "a \<le> b \<Longrightarrow> stake_tier_for_amount a \<le> stake_tier_for_amount b"
  by (simp add: stake_tier_for_amount_def)

lemma stake_tier_0 [simp]: "stake_tier_for_amount 0 = 0"
  by (simp add: stake_tier_for_amount_def GOLD_TIER_STAKE_def SILVER_TIER_STAKE_def BRONZE_TIER_STAKE_def)

lemma apply_multiplier_bps_eq:
  assumes "0 \<le> b"
  shows "apply_multiplier_bps b bps = (if in_i128 (b * int bps) then b * int bps div 10000 else i128_max)"
proof -
  have "in_i128 (b * int bps div 10000)" if "in_i128 (b * int bps)"
    using that assms by (rule_tac in_i128_nonneg_le [of "b * int bps"])
      (auto simp: pos_imp_zdiv_nonneg_iff div_le_dividend intro: order_trans [OF zdiv_mono2 [of _ 1]])
  with assms show ?thesis
    by (auto simp: apply_multiplier_bps_def checked_mul_def checked_i128_def checked_div_i128_def
        BPS_DENOMINATOR_def)
qed

lemma apply_multiplier_bps_nonneg [simp]: "0 \<le> b \<Longrightarrow> 0 \<le> apply_multiplier_bps b bps"
  by (simp add: apply_multiplier_bps_eq i128_max_def pos_imp_zdiv_nonneg_iff)

lemma apply_multiplier_bps_le:
  assumes "0 \<le> b" "bps \<le> 10000" "in_i128 (b * int bps)"
  shows "apply_multiplier_bps b bps \<le> b"
proof -
  have "b * int bps \<le> b * 10000"
    using assms by (intro mult_left_mono) auto
  then have "b * int bps div 10000 \<le> b * 10000 div 10000"
    by (rule zdiv_mono1) simp
  with assms show ?thesis by (simp add: apply_multiplier_bps_eq)
qed

lemma apply_multiplier_bps_mono:
  assumes "0 \<le> b" "x \<le> y"
  shows "apply_multiplier_bps b x \<le> apply_multiplier_bps b y"
proof (cases "in_i128 (b * int y)")
  case True
  have le: "b * int x \<le> b * int y"
    using assms by (intro mult_left_mono) auto
  with True assms have "in_i128 (b * int x)"
    by (rule_tac in_i128_nonneg_le [of "b * int y"]) auto
  with True le assms show ?thesis
    by (simp add: apply_multiplier_bps_eq zdiv_mono1)
next
  case False
  have "b * int x div 10000 \<le> i128_max" if "in_i128 (b * int x)"
    using that assms by (auto simp: in_i128_def intro: order_trans [OF zdiv_mono2 [of _ 1]])
  with False assms show ?thesis by (auto simp: apply_multiplier_bps_eq)
qed

section \<open>Deposit\<close>

text \<open>The log after a possible tier-change event; nothing else changes.\<close>

definition tier_log :: "address \<Rightarrow> nat \<Rightarrow> nat \<Rightarrow> int \<Rightarrow> event list \<Rightarrow> event list" where
  "tier_log p a b c l =
     (if a = b then l
      else l @ [\<lparr>topics = [contract_topic, VSym (if b > a then ''tier_up'' else ''tier_dn'')],
                 event_data = VMap [(''schema_version'', VU32 SCHEMA_VERSION), (''provider'', VAddr p),
                   (''old_tier'', VU32 a), (''new_tier'', VU32 b), (''stake_balance'', VI128 c),
                   (''upgraded'', VBool (b > a))]\<rparr>])"

lemma emit_tier_change_log:
  "emit_provider_tier_change p a b c s = s\<lparr>event_log := tier_log p a b c (event_log s)\<rparr>"
  by (simp add: emit_provider_tier_change_def tier_log_def emit_defs Let_def)

lemma deposit_stake_Ok:
  assumes "deposit_stake T e staker amount s = (Ok r, s')"
  obtains tk log where "k_stake_token (cfg s) = Some tk" "has_auth e staker" "\<not> is_paused s" "0 < amount"
    "in_i128 (get_stake staker s + amount)"
    "transfer_tokens T tk staker (current_contract_address e) amount
       (s\<lparr>k_stakes_v2 := Some (smap_set (stakes s) staker
            \<lparr>si_balance = get_stake staker s + amount,
             si_locked_until = deposit_locked_until (ledger_timestamp e) (get_minimum_stake_duration s)
               (get_or empty_stake_info (smap_get (stakes s) staker)),
             si_last_updated = ledger_timestamp e\<rparr>),
          k_stake_deposit_timestamps := smap_set (k_stake_deposit_timestamps s) staker (ledger_timestamp e),
          k_last_stake_ledger := smap_set (k_last_stake_ledger s) staker (ledger_sequence e),
          event_log := log\<rparr>) = (Ok (), s')"
proof -
  have bal: "si_balance (get_or empty_stake_info (smap_get (stakes s) staker)) = get_stake staker s"
    by (simp add: get_stake_def empty_stake_info_def split: option.splits)
  show ?thesis
    using assms unfolding deposit_stake_def Let_def bal emit_tier_change_log
    by (auto split: if_splits option.splits intro: that)
qed

text \<open>
  Sample data for the witnesses: a vault at address 0 with administrator 1, signal registry 2 and
  stake token 9, right after initialisation. Everybody but the vault itself signs, and everybody
  but the vault owns tokens.
\<close>

definition sample_env :: "nat \<Rightarrow> nat \<Rightarrow> env" where
  "sample_env t n =
     \<lparr>ledger_timestamp = t, ledger_sequence = n, current_contract_address = Addr 0,
      has_auth = (\<lambda>a. a \<noteq> Addr 0), has_auth_for_args = (\<lambda>a _. a \<noteq> Addr 0)\<rparr>"

definition sample_ledger :: balance_ledger where
  "sample_ledger = (\<lambda>tk a. if a = Addr 0 then 0 else 1000000000000)"

definition sample_vault :: "balance_ledger vault" where
  "sample_vault = snd (initialize (Addr 1) (Addr 9) (Addr 2) (empty_vault sample_ledger))"

text \<open>A state with two positions and a due withdrawal request, for the witnesses.\<close>

definition sample_staked :: "balance_ledger vault" where
  "sample_staked = sample_vault\<lparr>
     k_stakes_v2 := Some
       [(Addr 3, \<lparr>si_balance = 600000000, si_locked_until = 50, si_last_updated = 50\<rparr>),
        (Addr 4, \<lparr>si_balance = 1000, si_locked_until = 0, si_last_updated = 60\<rparr>)],
     k_large_withdrawal_requested_at := [(Addr 3, 100)],
     k_tokens := (\<lambda>tk a. if a = Addr 0 then 600001000 else 1000000000000)\<rparr>"

lemmas sample_defs =
  sample_env_def sample_vault_def sample_ledger_def initialize_def empty_vault_def empty_config_def
  empty_rewards_def empty_stake_info_def init_storage_version_def asset_contract_def contract_failure_def
  host_defs int_defs

lemmas tier_defs =
  emit_provider_tier_change_def stake_tier_for_amount_def GOLD_TIER_STAKE_def SILVER_TIER_STAKE_def
  BRONZE_TIER_STAKE_def

lemma sample_vault_token [simp]: "k_stake_token (cfg sample_vault) = Some (Addr 9)"
  by (simp add: sample_vault_def initialize_def empty_vault_def host_defs init_storage_version_def)

lemma sample_vault_stake [simp]: "get_stake a sample_vault = 0"
  by (simp add: sample_vault_def initialize_def empty_vault_def host_defs init_storage_version_def
      get_stake_def stakes_def)

text \<open>
  C3: A successful deposit credits exactly the deposited amount to the staker's stake and to no
  other, moves exactly that amount of the stake token from the staker to the vault, was authorised
  and not paused, records the ledger for the flash-loan check, and leaves the stake locked at least
  for the minimum duration when the stake is fresh or a minimum duration is set.
\<close>

theorem deposit_effect:
  assumes "sep41 T bal" and "deposit_stake T e staker amount s = (Ok (), s')"
    and "k_stake_token (cfg s) = Some tk"
  shows "(\<forall>a. get_stake a s' = get_stake a s + (if a = staker then amount else 0)) \<and>
     bal (k_tokens s') = token_moved tk staker (current_contract_address e) amount (bal (k_tokens s)) \<and>
     0 < amount \<and> amount \<le> bal (k_tokens s) tk staker \<and> has_auth e staker \<and> \<not> is_paused s \<and>
     smap_get (k_last_stake_ledger s') staker = Some (ledger_sequence e) \<and>
     (\<exists>info. smap_get (stakes s') staker = Some info \<and>
        (get_stake staker s = 0 \<or> 0 < get_minimum_stake_duration s \<longrightarrow>
           sat_add_u64 (ledger_timestamp e) (get_minimum_stake_duration s) \<le> si_locked_until info))"
  using assms(2)
proof (cases rule: deposit_stake_Ok)
  case (1 tk' log)
  have bal0: "si_balance (get_or empty_stake_info (smap_get (stakes s) staker)) = get_stake staker s"
    by (simp add: get_stake_def empty_stake_info_def split: option.splits)
  from assms(1) 1(6) show ?thesis
    using 1(1-5) assms(3)
    by (cases rule: transfer_tokens_cases)
       (auto simp: get_stake_def stakes_def deposit_locked_until_def bal0 [unfolded get_stake_def stakes_def])
qed

theorem deposit_effect_witness:
  "get_stake (Addr 3) (snd (deposit_stake asset_contract (sample_env 100 5) (Addr 3) 700 sample_vault)) = 700"
proof -
  have "fst (deposit_stake asset_contract (sample_env 100 5) (Addr 3) 700 sample_vault) = Ok ()"
    by (simp add: deposit_stake_def stakes_def transfer_tokens_def sample_defs tier_defs)
  from deposit_effect [OF asset_contract_sep41 run_ok [OF this] sample_vault_token] show ?thesis
    by simp
qed

section \<open>Voting power\<close>

text \<open>The specification: the best multiplier among the tiers whose duration is still covered.\<close>

definition best_multiplier :: "lock_multiplier_tier list \<Rightarrow> nat \<Rightarrow> nat" where
  "best_multiplier ts weeks = fold max (map tier_bps (filter (\<lambda>t. tier_weeks t \<le> weeks) ts)) 0"

lemma applicable_bps_loop_fold:
  "applicable_bps_loop w ts acc = fold max (map tier_bps (filter (\<lambda>t. tier_weeks t \<le> w) ts)) acc"
  by (induction ts arbitrary: acc) (auto simp: max_def)

text \<open>
  Voting power is the balance when the lock has elapsed, and otherwise the balance scaled by
  the best multiplier among the tiers whose number of weeks fits into the remaining lock time (zero
  when there is none), for every lock shorter than 2^32 weeks.
\<close>

theorem voting_power_spec:
  assumes "smap_get (stakes s) staker = Some info"
    and "(si_locked_until info - ledger_timestamp e) div SECS_PER_WEEK < 2 ^ 32"
  shows "get_voting_power e staker s =
    (if si_locked_until info \<le> ledger_timestamp e then si_balance info
     else apply_multiplier_bps (si_balance info)
            (best_multiplier (get_lock_multiplier_tiers s)
               ((si_locked_until info - ledger_timestamp e) div 604800)))"
proof -
  have "as_u32 ((si_locked_until info - ledger_timestamp e) div SECS_PER_WEEK) =
      (si_locked_until info - ledger_timestamp e) div 604800"
    using assms(2) by (simp add: as_u32_def SECS_PER_WEEK_def)
  moreover have "apply_multiplier_bps x 0 = 0" "apply_multiplier_bps 0 n = 0" for x n
    by (simp_all add: apply_multiplier_bps_def int_defs BPS_DENOMINATOR_def)
  ultimately show ?thesis
    using assms(1)
    by (auto simp: get_voting_power_def lock_multiplier_bps_for_remaining_def applicable_bps_loop_fold
        best_multiplier_def Let_def)
qed

theorem voting_power_spec_witness:
  "get_voting_power (sample_env 100 5) (Addr 3)
     (sample_vault\<lparr>k_stakes_v2 := Some [(Addr 3, \<lparr>si_balance = 1000, si_locked_until = 3000100,
        si_last_updated = 7\<rparr>)]\<rparr>) = 1250"
proof -
  have "best_multiplier (get_lock_multiplier_tiers sample_vault) 4 = 12500"
    by (simp add: best_multiplier_def get_lock_multiplier_tiers_def default_lock_multiplier_tiers_def sample_defs)
  moreover have "apply_multiplier_bps 1000 12500 = 1250"
    by (simp add: apply_multiplier_bps_eq int_defs)
  ultimately show ?thesis
    using voting_power_spec [of "sample_vault\<lparr>k_stakes_v2 := Some [(Addr 3, \<lparr>si_balance = 1000,
        si_locked_until = 3000100, si_last_updated = 7\<rparr>)]\<rparr>" "Addr 3"
        "\<lparr>si_balance = 1000, si_locked_until = 3000100, si_last_updated = 7\<rparr>" "sample_env 100 5"]
    by (simp add: stakes_def sample_env_def SECS_PER_WEEK_def get_lock_multiplier_tiers_def)
qed

section \<open>The grace period\<close>

text \<open>
  The grace period of a provider whose stake fell below the minimum starts at the first
  notification; later notifications do not restart it, and signal submission stays allowed exactly
  until 24 hours have passed.
\<close>

theorem grace_period:
  assumes "get_stake p s < get_minimum_stake s" and "get_stake_below_min_since p s = None"
  shows "notify_stake_below_minimum e' p (notify_stake_below_minimum e0 p s) = notify_stake_below_minimum e0 p s \<and>
    check_signal_submission_allowed e p (notify_stake_below_minimum e0 p s) =
      (if ledger_timestamp e \<le> ledger_timestamp e0 + 86400 then Ok () else Err StakeBelowMinimum,
       notify_stake_below_minimum e0 p s)"
  using assms
  by (auto simp: notify_stake_below_minimum_def check_signal_submission_allowed_def smap_has_def
      get_stake_below_min_since_def emit_defs get_stake_def stakes_def get_minimum_stake_def
      GRACE_PERIOD_SECS_def)

theorem grace_period_witness:
  "fst (check_signal_submission_allowed (sample_env 86600 9) (Addr 3)
     (notify_stake_below_minimum (sample_env 100 5) (Addr 3)
        (sample_vault\<lparr>cfg := (cfg sample_vault)\<lparr>k_minimum_stake := Some 50\<rparr>\<rparr>))) = Err StakeBelowMinimum"
proof -
  let ?s = "sample_vault\<lparr>cfg := (cfg sample_vault)\<lparr>k_minimum_stake := Some 50\<rparr>\<rparr>"
  have "get_stake (Addr 3) ?s < get_minimum_stake ?s" "get_stake_below_min_since (Addr 3) ?s = None"
    by (simp_all add: get_stake_def stakes_def get_minimum_stake_def get_stake_below_min_since_def sample_defs)
  from grace_period [OF this, of "sample_env 0 0" "sample_env 100 5" "sample_env 86600 9"] show ?thesis
    by (simp add: sample_env_def)
qed

end
