(* ===== verification/Vault_Slash.thy ===== *)
theory Vault_Slash
  imports Vault_Core
begin

text \<open>
  Slashing, appeals and delegation of \<^verbatim>\<open>stake_vault/src/lib.rs\<close>. A slash takes a share of the
  provider's own stake and of every delegation to it, and either burns the sum or parks it under
  the slash id while an appeal window is configured. The appeal of a slash is a small state
  machine: absent, pending, upheld or reversed.
\<close>

section \<open>Delegation\<close>

definition delegations :: "address \<Rightarrow> 't vault \<Rightarrow> (address, int) smap" where
  "delegations provider s = get_or [] (smap_get (k_provider_delegated_stakes s) provider)"

definition get_delegated_stake :: "address \<Rightarrow> address \<Rightarrow> 't vault \<Rightarrow> int" where
  "get_delegated_stake delegator provider s = get_or 0 (smap_get (delegations provider s) delegator)"

definition get_total_delegated :: "address \<Rightarrow> 't vault \<Rightarrow> int" where
  "get_total_delegated provider s = get_or 0 (smap_get (k_provider_total_delegated s) provider)"

definition get_total_stake_for_provider :: "address \<Rightarrow> 't vault \<Rightarrow> int" where
  "get_total_stake_for_provider provider s =
     saturating_add (get_stake provider s) (get_total_delegated provider s)"

definition delegate_stake ::
  "'t token_impl \<Rightarrow> env \<Rightarrow> address \<Rightarrow> address \<Rightarrow> int \<Rightarrow> 't vault \<Rightarrow> ('t, unit) vault_result" where
  "delegate_stake T e delegator provider amount s =
     (if \<not> has_auth e delegator then (Panic, s)
      else if is_paused s then (Err ContractPaused, s)
      else if amount \<le> 0 then (Err NoStake, s)
      else (case k_stake_token (cfg s) of
         None \<Rightarrow> (Err NotInitialized, s)
       | Some token \<Rightarrow>
      (case checked_add (get_delegated_stake delegator provider s) amount of
         None \<Rightarrow> (Err StakeOverflow, s)
       | Some new_amount \<Rightarrow>
           let s1 = s\<lparr>k_provider_delegated_stakes :=
                        smap_set (k_provider_delegated_stakes s) provider
                          (smap_set (delegations provider s) delegator new_amount)\<rparr>
           in (case checked_add (get_total_delegated provider s1) amount of
                 None \<Rightarrow> (Err StakeOverflow, s1)
               | Some new_total \<Rightarrow>
                   let s2 = s1\<lparr>k_provider_total_delegated :=
                                 smap_set (k_provider_total_delegated s1) provider new_total\<rparr>
                   in (case transfer_tokens T token delegator (current_contract_address e) amount s2 of
                         (Ok _, s3) \<Rightarrow> (Ok (), emit_stake_delegated delegator provider amount s3)
                       | (Err er, s3) \<Rightarrow> (Err er, s3)
                       | (Panic, s3) \<Rightarrow> (Panic, s3))))))"

section \<open>Slashing\<close>

definition tier_bps_for :: "slash_tier_config \<Rightarrow> slash_severity \<Rightarrow> nat" where
  "tier_bps_for c severity =
     (case severity of Minor \<Rightarrow> minor_bps c | Major \<Rightarrow> major_bps c | Critical \<Rightarrow> critical_bps c)"

definition slash_part :: "int \<Rightarrow> nat \<Rightarrow> int" where
  "slash_part amount bps = min (max (apply_multiplier_bps amount bps) 1) amount"

definition slash_cooldown_active :: "env \<Rightarrow> address \<Rightarrow> 't vault \<Rightarrow> bool" where
  "slash_cooldown_active e provider s =
     (let last_slash_ledger = get_or 0 (smap_get (k_last_slash_ledger s) provider)
      in last_slash_ledger > 0 \<and>
         ledger_sequence e - (last_slash_ledger - 1) < get_slash_cooldown s)"

text \<open>The loop over the delegators of a provider, in key order.\<close>

fun slash_delegators :: "nat \<Rightarrow> address list \<Rightarrow> (address, int) smap \<Rightarrow> int \<Rightarrow> (address, int) smap \<times> int" where
  "slash_delegators bps [] delegated tot = (delegated, tot)"
| "slash_delegators bps (d # ds) delegated tot =
     (let d_amount = get_or 0 (smap_get delegated d)
      in if d_amount = 0 then slash_delegators bps ds delegated tot
         else (let d_slash = slash_part d_amount bps
               in slash_delegators bps ds
                    (smap_set delegated d (saturating_sub d_amount d_slash))
                    (saturating_add tot d_slash)))"

definition slash_delegations :: "address \<Rightarrow> nat \<Rightarrow> 't vault \<Rightarrow> int \<times> 't vault" where
  "slash_delegations provider bps s =
     (let delegated = delegations provider s
      in case slash_delegators bps (smap_keys delegated) delegated 0 of
           (delegated', tot) \<Rightarrow>
             (tot,
              if tot > 0
              then s\<lparr>k_provider_delegated_stakes :=
                        smap_set (k_provider_delegated_stakes s) provider delegated',
                     k_provider_total_delegated :=
                        smap_set (k_provider_total_delegated s) provider
                          (saturating_sub (get_total_delegated provider s) tot)\<rparr>
              else s))"

text \<open>The steps of \<^verbatim>\<open>do_slash\<close> after its checks, in order: own stake, record, disposition of the funds.\<close>

definition slash_own :: "env \<Rightarrow> address \<Rightarrow> stake_info_v2 \<Rightarrow> nat \<Rightarrow> 't vault \<Rightarrow> int \<times> 't vault" where
  "slash_own e provider info bps s =
     (let own_slash = (if si_balance info > 0 then slash_part (si_balance info) bps else 0);
          info' = info\<lparr>si_balance := saturating_sub (si_balance info) own_slash,
                       si_last_updated := ledger_timestamp e\<rparr>
      in (own_slash, s\<lparr>k_stakes_v2 := Some (smap_set (stakes s) provider info')\<rparr>))"

definition record_slash :: "env \<Rightarrow> address \<Rightarrow> slash_severity \<Rightarrow> symbol \<Rightarrow> int \<Rightarrow> 't vault \<Rightarrow> nat \<times> 't vault" where
  "record_slash e provider severity reason slash_amount s =
     (let slash_id = get_or 0 (k_slash_counter s);
          cooldown = get_slash_cooldown s;
          srec = \<lparr>sr_slash_id = slash_id, sr_provider = provider,
                  sr_severity = severity_code severity, sr_slash_amount = slash_amount,
                  sr_slashed_at = ledger_timestamp e, sr_reason = reason,
                  sr_cooldown_expires_at =
                    (if cooldown > 0 then sat_add_u32 (ledger_sequence e) cooldown else 0)\<rparr>
      in (slash_id,
          s\<lparr>k_slash_counter := Some (sat_add_u64 slash_id 1),
            k_slash_record := smap_set (k_slash_record s) slash_id srec,
            k_last_slash_ledger :=
              smap_set (k_last_slash_ledger s) provider (sat_add_u32 (ledger_sequence e) 1)\<rparr>))"

definition dispose_slashed :: "'t token_impl \<Rightarrow> env \<Rightarrow> address \<Rightarrow> address \<Rightarrow> slash_severity \<Rightarrow> symbol \<Rightarrow>
    int \<Rightarrow> nat \<Rightarrow> 't vault \<Rightarrow> ('t, int) vault_result" where
  "dispose_slashed T e token provider severity reason slash_amount slash_id s =
     (let finish = (\<lambda>s'. (Ok slash_amount, emit_stake_slashed provider (severity_code severity)
                            slash_amount slash_id reason s'))
      in if get_appeal_window s > 0
         then finish (s\<lparr>k_slashed_funds_held :=
                          smap_set (k_slashed_funds_held s) slash_id slash_amount\<rparr>)
         else (case burn_tokens T token (current_contract_address e) slash_amount s of
                 (Ok _, s1) \<Rightarrow> finish s1
               | (Err er, s1) \<Rightarrow> (Err er, s1)
               | (Panic, s1) \<Rightarrow> (Panic, s1)))"

definition do_slash :: "'t token_impl \<Rightarrow> env \<Rightarrow> address \<Rightarrow> slash_severity \<Rightarrow> symbol \<Rightarrow>
    't vault \<Rightarrow> ('t, int) vault_result" where
  "do_slash T e provider severity reason s =
     (case k_stake_token (cfg s) of
        None \<Rightarrow> (Err NotInitialized, s)
      | Some token \<Rightarrow>
          if slash_cooldown_active e provider s then (Err SlashCooldownActive, s)
          else (case smap_get (stakes s) provider of
             None \<Rightarrow> (Err NoStake, s)
           | Some info \<Rightarrow>
               if si_balance info = 0 then (Err NoStake, s)
               else (let bps = tier_bps_for (get_slash_tier_config s) severity;
                         (own_slash, s1) = slash_own e provider info bps s;
                         (delegated_slash_total, s2) = slash_delegations provider bps s1;
                         gross = saturating_add own_slash delegated_slash_total;
                         slash_amount = (if gross = 0 then 1 else gross);
                         (slash_id, s3) = record_slash e provider severity reason slash_amount s2
                     in dispose_slashed T e token provider severity reason slash_amount slash_id s3)))"

definition require_signal_registry :: "address \<Rightarrow> 't vault \<Rightarrow> stake_vault_error + unit" where
  "require_signal_registry caller s =
     (case k_signal_registry (cfg s) of
        None \<Rightarrow> Inl NotInitialized
      | Some signal_registry \<Rightarrow> if caller \<noteq> signal_registry then Inl Unauthorized else Inr ())"

definition slash_stake :: "'t token_impl \<Rightarrow> env \<Rightarrow> address \<Rightarrow> address \<Rightarrow> slash_severity \<Rightarrow> symbol \<Rightarrow>
    't vault \<Rightarrow> ('t, int) vault_result" where
  "slash_stake T e caller provider severity reason s =
     (if require_not_locked s \<noteq> Inr () then (Err ReentrancyDetected, s)
      else if \<not> has_auth e caller then (Panic, s)
      else (case require_signal_registry caller s of
         Inl er \<Rightarrow> (Err er, s)
       | Inr _ \<Rightarrow> do_slash T e provider severity reason s))"

text \<open>
  The batch loop: an \<^verbatim>\<open>Err\<close> of one entry is swallowed together with whatever the entry had written;
  a panic ends the call.
\<close>

fun batch_slash_loop :: "'t token_impl \<Rightarrow> env \<Rightarrow> symbol \<Rightarrow> (address \<times> slash_severity) list \<Rightarrow>
    int list \<Rightarrow> int \<Rightarrow> nat \<Rightarrow> 't vault \<Rightarrow> ('t, int list \<times> int \<times> nat) vault_result" where
  "batch_slash_loop T e reason [] results tot processed s = (Ok (results, tot, processed), s)"
| "batch_slash_loop T e reason ((provider, severity) # rest) results tot processed s =
     (case do_slash T e provider severity reason s of
        (Ok amount, s1) \<Rightarrow>
          batch_slash_loop T e reason rest (results @ [amount]) (saturating_add tot amount)
            (sat_add_u32 processed 1) s1
      | (Err _, s1) \<Rightarrow> batch_slash_loop T e reason rest (results @ [0]) tot processed s1
      | (Panic, s1) \<Rightarrow> (Panic, s1))"

definition batch_slash_stake :: "'t token_impl \<Rightarrow> env \<Rightarrow> address \<Rightarrow> address list \<Rightarrow>
    slash_severity list \<Rightarrow> symbol \<Rightarrow> 't vault \<Rightarrow> ('t, int list) vault_result" where
  "batch_slash_stake T e caller providers severities reason s =
     (if \<not> has_auth e caller then (Panic, s)
      else (case require_signal_registry caller s of
         Inl er \<Rightarrow> (Err er, s)
       | Inr _ \<Rightarrow>
           let len = length providers
           in if len = 0 \<or> len > MAX_BATCH_SIZE then (Err BatchSizeInvalid, s)
              else if len \<noteq> length severities then (Err BatchLengthMismatch, s)
              else (case batch_slash_loop T e reason (zip providers severities) [] 0 0 s of
                 (Ok (results, tot, processed), s1) \<Rightarrow>
                   (Ok results, emit_batch_slash_completed processed tot s1)
               | (Err er, s1) \<Rightarrow> (Err er, s1)
               | (Panic, s1) \<Rightarrow> (Panic, s1))))"

section \<open>Appeals\<close>

definition appeal_slash :: "env \<Rightarrow> address \<Rightarrow> nat \<Rightarrow> string \<Rightarrow> 't vault \<Rightarrow> ('t, unit) vault_result" where
  "appeal_slash e appellant slash_id evidence_uri s =
     (if \<not> has_auth e appellant then (Panic, s)
      else (case smap_get (k_slash_record s) slash_id of
         None \<Rightarrow> (Err SlashNotFound, s)
       | Some srec \<Rightarrow>
           if sr_provider srec \<noteq> appellant then (Err Unauthorized, s)
           else let window = get_appeal_window s; now = ledger_timestamp e
           in if window = 0 \<or> now > sat_add_u64 (sr_slashed_at srec) window
              then (Err AppealWindowClosed, s)
              else if smap_has (k_slash_appeal s) slash_id then (Err AppealAlreadyExists, s)
              else (let appeal = \<lparr>sa_slash_id = slash_id, sa_appellant = appellant,
                                  sa_evidence_uri = evidence_uri, sa_submitted_at = now,
                                  sa_status = Pending\<rparr>
                    in (Ok (), emit_slash_appealed appellant slash_id evidence_uri
                          (s\<lparr>k_slash_appeal := smap_set (k_slash_appeal s) slash_id appeal\<rparr>)))))"

text \<open>The common tail: store the resolved appeal and publish the event.\<close>

definition finish_appeal :: "nat \<Rightarrow> bool \<Rightarrow> address \<Rightarrow> slash_appeal \<Rightarrow> 't vault \<Rightarrow> 't vault" where
  "finish_appeal slash_id uphold provider appeal s =
     publish (s\<lparr>k_slash_appeal := smap_set (k_slash_appeal s) slash_id appeal\<rparr>)
       [contract_topic, VSym ''appeal_resolved'']
       (VVec [VU64 slash_id, VBool uphold, VAddr provider])"

definition credit_restored :: "env \<Rightarrow> address \<Rightarrow> int \<Rightarrow> 't vault \<Rightarrow> 't vault" where
  "credit_restored e provider amount_to_restore s =
     (let current_info = get_or empty_stake_info (smap_get (stakes s) provider);
          restored_balance = saturating_add (si_balance current_info) amount_to_restore
      in s\<lparr>k_stakes_v2 := Some (smap_set (stakes s) provider
             \<lparr>si_balance = restored_balance, si_locked_until = si_locked_until current_info,
              si_last_updated = ledger_timestamp e\<rparr>)\<rparr>)"

definition do_resolve_appeal :: "'t token_impl \<Rightarrow> env \<Rightarrow> nat \<Rightarrow> bool \<Rightarrow> 't vault \<Rightarrow> ('t, unit) vault_result" where
  "do_resolve_appeal T e slash_id uphold s =
     (case smap_get (k_slash_record s) slash_id of
        None \<Rightarrow> (Err SlashNotFound, s)
      | Some srec \<Rightarrow>
     (case smap_get (k_slash_appeal s) slash_id of
        None \<Rightarrow> (Err SlashNotFound, s)
      | Some appeal \<Rightarrow>
     (if sa_status appeal \<noteq> Pending then (Err AppealAlreadyResolved, s)
      else let held = get_or 0 (smap_get (k_slashed_funds_held s) slash_id)
      in (case k_stake_token (cfg s) of
            None \<Rightarrow> (Err NotInitialized, s)
          | Some token \<Rightarrow>
     (if uphold then
        (let appeal' = appeal\<lparr>sa_status := Upheld\<rparr>
         in if held > 0 then
              (let s1 = s\<lparr>k_slashed_funds_held := smap_remove (k_slashed_funds_held s) slash_id\<rparr>
               in case burn_tokens T token (current_contract_address e) held s1 of
                    (Ok _, s2) \<Rightarrow> (Ok (), finish_appeal slash_id uphold (sr_provider srec) appeal' s2)
                  | (Err er, s2) \<Rightarrow> (Err er, s2)
                  | (Panic, s2) \<Rightarrow> (Panic, s2))
            else (Ok (), finish_appeal slash_id uphold (sr_provider srec) appeal' s))
      else
        (let appeal' = appeal\<lparr>sa_status := Reversed\<rparr>;
             amount_to_restore = (if held > 0 then held else sr_slash_amount srec);
             s1 = credit_restored e (sr_provider srec) amount_to_restore s;
             s2 = (if held > 0
                   then s1\<lparr>k_slashed_funds_held := smap_remove (k_slashed_funds_held s1) slash_id\<rparr>
                   else s1)
         in (Ok (), finish_appeal slash_id uphold (sr_provider srec) appeal' s2)))))))"

definition resolve_appeal :: "'t token_impl \<Rightarrow> env \<Rightarrow> nat \<Rightarrow> bool \<Rightarrow> 't vault \<Rightarrow> ('t, unit) vault_result" where
  "resolve_appeal T e slash_id uphold =
     with_single_admin e (Err NotInitialized) (do_resolve_appeal T e slash_id uphold)"

fun batch_resolve_loop :: "'t token_impl \<Rightarrow> env \<Rightarrow> (nat \<times> bool) list \<Rightarrow> nat \<Rightarrow> 't vault \<Rightarrow> ('t, nat) vault_result" where
  "batch_resolve_loop T e [] processed s = (Ok processed, s)"
| "batch_resolve_loop T e ((slash_id, uphold) # rest) processed s =
     (case do_resolve_appeal T e slash_id uphold s of
        (Ok _, s1) \<Rightarrow> batch_resolve_loop T e rest (sat_add_u32 processed 1) s1
      | (Err _, s1) \<Rightarrow> batch_resolve_loop T e rest processed s1
      | (Panic, s1) \<Rightarrow> (Panic, s1))"

definition batch_resolve_appeal :: "'t token_impl \<Rightarrow> env \<Rightarrow> nat list \<Rightarrow> bool list \<Rightarrow> 't vault \<Rightarrow> ('t, nat) vault_result" where
  "batch_resolve_appeal T e slash_ids upholds =
     with_admin e (Err NotInitialized) (\<lambda>s.
       let len = length slash_ids
       in if len = 0 \<or> len > MAX_BATCH_SIZE then (Err BatchSizeInvalid, s)
          else if len \<noteq> length upholds then (Err BatchLengthMismatch, s)
          else (case batch_resolve_loop T e (zip slash_ids upholds) 0 s of
             (Ok processed, s1) \<Rightarrow> (Ok processed, emit_batch_appeals_resolved processed s1)
           | (Err er, s1) \<Rightarrow> (Err er, s1)
           | (Panic, s1) \<Rightarrow> (Panic, s1)))"

definition get_slash_record :: "nat \<Rightarrow> 't vault \<Rightarrow> slash_record option" where
  "get_slash_record slash_id s = smap_get (k_slash_record s) slash_id"

definition get_slash_appeal :: "nat \<Rightarrow> 't vault \<Rightarrow> slash_appeal option" where
  "get_slash_appeal slash_id s = smap_get (k_slash_appeal s) slash_id"

section \<open>Bounds of a slash\<close>

lemma slash_part_bounds:
  assumes "0 < a" shows "1 \<le> slash_part a bps" "slash_part a bps \<le> a"
  using assms by (auto simp: slash_part_def)

lemma slash_part_mono: "0 < a \<Longrightarrow> x \<le> y \<Longrightarrow> slash_part a x \<le> slash_part a y"
  using apply_multiplier_bps_mono [of a x y] by (auto simp: slash_part_def)

definition amount_ok :: "int \<Rightarrow> bool" where
  "amount_ok v \<longleftrightarrow> 0 \<le> v \<and> in_i128 v"

lemma amount_ok_sub: "amount_ok v \<Longrightarrow> 0 \<le> x \<Longrightarrow> x \<le> v \<Longrightarrow> saturating_sub v x = v - x \<and> amount_ok (v - x)"
  using saturating_sub_le [of x v] in_i128_nonneg_le [of v "v - x"] by (simp add: amount_ok_def)

text \<open>What a slash does to one delegation.\<close>

definition slashed_amount :: "nat \<Rightarrow> int \<Rightarrow> int" where
  "slashed_amount bps v = (if v = 0 then 0 else v - slash_part v bps)"

lemma slash_delegators_spec:
  assumes "slash_delegators bps ds m tot = (m', tot')"
    and "smap_ok m" "smap_all amount_ok m" "distinct ds" "0 \<le> tot" "in_i128 tot"
  shows "smap_ok m' \<and> smap_all amount_ok m' \<and> tot \<le> tot' \<and> in_i128 tot' \<and> (m' \<noteq> m \<longrightarrow> 0 < tot') \<and>
    tot' = min i128_max (tot + smap_total (\<lambda>v. v) m - smap_total (\<lambda>v. v) m') \<and>
    (\<forall>k. smap_get m' k = map_option (if k \<in> set ds then slashed_amount bps else (\<lambda>v. v)) (smap_get m k))"
  using assms
proof (induction ds arbitrary: m tot)
  case Nil
  then show ?case by (auto simp: option.map_id [unfolded id_def] in_i128_def)
next
  case (Cons d ds)
  show ?case
  proof (cases "get_or 0 (smap_get m d) = 0")
    case True
    then have "smap_get m d = None \<or> smap_get m d = Some 0"
      by (cases "smap_get m d") auto
    with True Cons.IH [of m tot] Cons.prems show ?thesis
      by (auto simp: slashed_amount_def Let_def)
  next
    case False
    then obtain v where v: "smap_get m d = Some v" "v \<noteq> 0" by (cases "smap_get m d") auto
    with Cons.prems(3) have ok: "amount_ok v" "0 < v"
      by (auto dest: smap_all_get simp: amount_ok_def)
    let ?x = "slash_part v bps"
    let ?m = "smap_set m d (v - ?x)"
    have x: "1 \<le> ?x" "?x \<le> v" using slash_part_bounds [of v bps] ok by auto
    have sub: "saturating_sub v ?x = v - ?x" "amount_ok (v - ?x)"
      using amount_ok_sub [of v ?x] ok x by auto
    have add: "saturating_add tot ?x = min i128_max (tot + ?x)"
      using Cons.prems(5) x by (simp add: saturating_add_nonneg)
    have "0 \<le> saturating_add tot ?x"
      using Cons.prems(5) x by (simp add: add i128_max_def)
    moreover have "in_i128 (saturating_add tot ?x)"
      by (simp add: saturating_add_def)
    ultimately have prem: "smap_ok ?m" "smap_all amount_ok ?m" "distinct ds" "0 \<le> saturating_add tot ?x"
        "in_i128 (saturating_add tot ?x)"
      using Cons.prems(2-4) sub(2) by simp_all
    have run: "slash_delegators bps ds ?m (saturating_add tot ?x) = (m', tot')"
      using Cons.prems(1) v sub by (simp add: Let_def)
    have tot_m: "smap_total (\<lambda>v. v) ?m = smap_total (\<lambda>v. v) m - ?x"
      using Cons.prems(2) v by (simp add: smap_total_set)
    have "0 < saturating_add tot ?x"
      using Cons.prems(5) x by (simp add: add i128_max_def)
    moreover have "tot \<le> saturating_add tot ?x"
      using Cons.prems(6) x by (simp add: add in_i128_def)
    moreover have "smap_total (\<lambda>v. v) m' \<le> smap_total (\<lambda>v. v) ?m"
      using Cons.IH [OF run prem] prem(5) by (auto simp: in_i128_def)
    ultimately show ?thesis
      using Cons.IH [OF run prem] v x Cons.prems(4) tot_m
      by (auto simp: add slashed_amount_def)
  qed
qed

section \<open>Well-formed positions and their totals\<close>

definition stakes_wf :: "'t vault \<Rightarrow> bool" where
  "stakes_wf s \<longleftrightarrow> smap_ok (stakes s) \<and> smap_all (\<lambda>i. amount_ok (si_balance i)) (stakes s)"

definition delegations_wf :: "'t vault \<Rightarrow> bool" where
  "delegations_wf s \<longleftrightarrow> smap_ok (k_provider_delegated_stakes s) \<and>
     smap_all (\<lambda>m. smap_ok m \<and> smap_all amount_ok m) (k_provider_delegated_stakes s)"

definition staked :: "'t vault \<Rightarrow> int" where
  "staked s = smap_total si_balance (stakes s)"

definition delegated :: "'t vault \<Rightarrow> int" where
  "delegated s = smap_total (smap_total (\<lambda>v. v)) (k_provider_delegated_stakes s)"

lemma stakes_wf_set:
  assumes "stakes_wf s" and "amount_ok (si_balance i)"
  shows "stakes_wf (s\<lparr>k_stakes_v2 := Some (smap_set (stakes s) p i)\<rparr>)"
    "staked (s\<lparr>k_stakes_v2 := Some (smap_set (stakes s) p i)\<rparr>) = staked s + si_balance i - get_stake p s"
  using assms
  by (simp_all add: stakes_wf_def staked_def stakes_def smap_total_set get_stake_def total_at_def)

lemma get_stake_ok: "stakes_wf s \<Longrightarrow> amount_ok (get_stake p s)"
  by (auto simp: stakes_wf_def get_stake_def amount_ok_def dest: smap_all_get split: option.splits)

lemma delegations_ok:
  assumes "delegations_wf s"
  shows "smap_ok (delegations p s) \<and> smap_all amount_ok (delegations p s)"
proof (cases "smap_get (k_provider_delegated_stakes s) p")
  case (Some m)
  with assms have "smap_ok m \<and> smap_all amount_ok m"
    unfolding delegations_wf_def by (blast dest: smap_all_get)
  with Some show ?thesis by (simp add: delegations_def)
qed (simp add: delegations_def)

lemma staked_nonneg: "stakes_wf s \<Longrightarrow> 0 \<le> staked s"
  unfolding staked_def stakes_wf_def
  by (rule smap_total_nonneg) (auto simp: smap_all_def list_all_iff amount_ok_def)

lemma delegated_nonneg:
  assumes "delegations_wf s" shows "0 \<le> delegated s"
  unfolding delegated_def
proof (rule smap_total_nonneg)
  fix p m assume "(p, m) \<in> set (k_provider_delegated_stakes s)"
  with assms have "smap_all amount_ok m"
    by (auto simp: delegations_wf_def smap_all_def list_all_iff)
  then show "0 \<le> smap_total (\<lambda>v. v) m"
    by (intro smap_total_nonneg) (auto simp: smap_all_def list_all_iff amount_ok_def)
qed

lemma delegations_wf_set:
  assumes "delegations_wf s" and "smap_ok m" and "smap_all amount_ok m"
  shows "delegations_wf (s\<lparr>k_provider_delegated_stakes := smap_set (k_provider_delegated_stakes s) p m\<rparr>)"
    "delegated (s\<lparr>k_provider_delegated_stakes := smap_set (k_provider_delegated_stakes s) p m\<rparr>) =
       delegated s + smap_total (\<lambda>v. v) m - smap_total (\<lambda>v. v) (delegations p s)"
  using assms
  by (simp_all add: delegations_wf_def delegated_def delegations_def smap_total_set total_at_def
      split: option.splits)

lemma slash_delegations_spec:
  assumes "delegations_wf s" and "slash_delegations p bps s = (tot, s')"
  shows "delegations_wf s'" "amount_ok tot" "tot = min i128_max (delegated s - delegated s')"
    "get_delegated_stake d q s' =
       (if q = p then slashed_amount bps (get_delegated_stake d p s) else get_delegated_stake d q s)"
    "\<exists>a b. s' = s\<lparr>k_provider_delegated_stakes := a, k_provider_total_delegated := b\<rparr>"
proof -
  obtain m' t where run: "slash_delegators bps (smap_keys (delegations p s)) (delegations p s) 0 = (m', t)"
    by fastforce
  note ok = delegations_ok [OF assms(1), of p]
  then have dist: "distinct (smap_keys (delegations p s))" by (simp add: smap_ok_distinct)
  note spec = slash_delegators_spec [OF run conjunct1 [OF ok] conjunct2 [OF ok] dist order_refl in_i128_0]
  have res: "tot = t" "s' = (if t > 0
      then s\<lparr>k_provider_delegated_stakes := smap_set (k_provider_delegated_stakes s) p m',
             k_provider_total_delegated := smap_set (k_provider_total_delegated s) p
               (saturating_sub (get_total_delegated p s) t)\<rparr> else s)"
    using assms(2) run by (auto simp: slash_delegations_def Let_def)
  have get: "smap_get m' k = map_option (slashed_amount bps) (smap_get (delegations p s) k)" for k
  proof (cases "smap_get (delegations p s) k")
    case (Some v)
    then have "k \<in> set (smap_keys (delegations p s))"
      by (metis option.distinct(1) smap_get_None_iff)
    with spec show ?thesis by simp
  qed (use spec in simp)
  have zero: "slashed_amount bps 0 = 0" by (simp add: slashed_amount_def)
  have eq: "m' = delegations p s" if "\<not> t > 0"
    using spec that by auto
  let ?s = "s\<lparr>k_provider_delegated_stakes := smap_set (k_provider_delegated_stakes s) p m'\<rparr>"
  have m': "smap_ok m'" "smap_all amount_ok m'" using spec by blast+
  have fld: "k_provider_delegated_stakes s' = (if t > 0 then k_provider_delegated_stakes ?s
      else k_provider_delegated_stakes s)"
    by (simp add: res(2))
  show "delegations_wf s'"
    using delegations_wf_set(1) [OF assms(1) m', of p] assms(1)
    unfolding delegations_wf_def fld by (cases "t > 0") simp_all
  show "amount_ok tot" using spec unfolding res(1) amount_ok_def by blast
  have "delegated s' = delegated s + smap_total (\<lambda>v. v) m' - smap_total (\<lambda>v. v) (delegations p s)"
    using delegations_wf_set(2) [OF assms(1) m', of p] eq
    unfolding delegated_def fld by (cases "t > 0") simp_all
  then show "tot = min i128_max (delegated s - delegated s')"
    using spec res(1) by simp
  show "get_delegated_stake d q s' =
       (if q = p then slashed_amount bps (get_delegated_stake d p s) else get_delegated_stake d q s)"
  proof (cases "t > 0")
    case True
    then show ?thesis
      using get [of d] zero
      by (cases "smap_get (delegations p s) d") (auto simp: res(2) get_delegated_stake_def delegations_def)
  next
    case False
    with get [of d] zero eq show ?thesis
      by (cases "smap_get (delegations p s) d") (auto simp: res(2) get_delegated_stake_def)
  qed
  show "\<exists>a b. s' = s\<lparr>k_provider_delegated_stakes := a, k_provider_total_delegated := b\<rparr>"
  proof (cases "t > 0")
    case True
    then show ?thesis by (simp add: res(2)) blast
  next
    case False
    then show ?thesis
      by (intro exI [of _ "k_provider_delegated_stakes s"] exI [of _ "k_provider_total_delegated s"])
         (simp add: res(2))
  qed
qed

section \<open>The effect of a slash\<close>

text \<open>The writes of \<^verbatim>\<open>do_slash\<close> up to the disposition: amount, id and state.\<close>

definition slash_writes :: "env \<Rightarrow> address \<Rightarrow> slash_severity \<Rightarrow> symbol \<Rightarrow> stake_info_v2 \<Rightarrow> 't vault \<Rightarrow>
    int \<times> nat \<times> 't vault" where
  "slash_writes e provider severity reason info s =
     (let bps = tier_bps_for (get_slash_tier_config s) severity;
          (own_slash, s1) = slash_own e provider info bps s;
          (delegated_slash_total, s2) = slash_delegations provider bps s1;
          gross = saturating_add own_slash delegated_slash_total;
          slash_amount = (if gross = 0 then 1 else gross);
          (slash_id, s3) = record_slash e provider severity reason slash_amount s2
      in (slash_amount, slash_id, s3))"

lemma do_slash_cases:
  assumes "do_slash T e provider severity reason s = (r, s')"
  obtains (refused) er where "r = Err er" "s' = s"
  | (ran) tk info amt sid s3 where "k_stake_token (cfg s) = Some tk" "\<not> slash_cooldown_active e provider s"
      "smap_get (stakes s) provider = Some info" "si_balance info \<noteq> 0"
      "slash_writes e provider severity reason info s = (amt, sid, s3)"
      "dispose_slashed T e tk provider severity reason amt sid s3 = (r, s')"
  using assms
  by (auto simp: do_slash_def slash_writes_def Let_def split: option.splits if_splits prod.splits
      intro: refused ran)

lemma record_slash_spec:
  assumes "record_slash e p severity reason amt s = (sid, s')"
  obtains sr where "sr_slash_amount sr = amt" "sr_provider sr = p" "sr_slashed_at sr = ledger_timestamp e"
    "sid = get_or 0 (k_slash_counter s)"
    "s' = s\<lparr>k_slash_counter := Some (sat_add_u64 sid 1), k_slash_record := smap_set (k_slash_record s) sid sr,
       k_last_slash_ledger := smap_set (k_last_slash_ledger s) p (sat_add_u32 (ledger_sequence e) 1)\<rparr>"
proof -
  let ?sr = "\<lparr>sr_slash_id = sid, sr_provider = p, sr_severity = severity_code severity,
      sr_slash_amount = amt, sr_slashed_at = ledger_timestamp e, sr_reason = reason,
      sr_cooldown_expires_at =
        (if get_slash_cooldown s > 0 then sat_add_u32 (ledger_sequence e) (get_slash_cooldown s) else 0)\<rparr>"
  show ?thesis
    by (rule that [of ?sr]) (use assms in \<open>simp_all add: record_slash_def Let_def\<close>, force)
qed

lemma slash_writes_spec:
  assumes "stakes_wf s" "delegations_wf s" "smap_get (stakes s) p = Some info" "si_balance info \<noteq> 0"
    and "slash_writes e p severity reason info s = (amt, sid, s3)"
  defines "bps \<equiv> tier_bps_for (get_slash_tier_config s) severity"
  shows "stakes_wf s3" "delegations_wf s3"
    "staked s3 = staked s - slash_part (get_stake p s) bps"
    "amt = min i128_max (slash_part (get_stake p s) bps + (delegated s - delegated s3))"
    "0 < amt" "in_i128 amt" "0 \<le> delegated s - delegated s3"
    "get_stake a s3 = (if a = p then get_stake p s - slash_part (get_stake p s) bps else get_stake a s)"
    "get_delegated_stake d q s3 =
       (if q = p then slashed_amount bps (get_delegated_stake d p s) else get_delegated_stake d q s)"
    "sid = get_or 0 (k_slash_counter s)"
    "\<exists>sr. sr_slash_amount sr = amt \<and> sr_provider sr = p \<and> sr_slashed_at sr = ledger_timestamp e \<and>
       k_slash_record s3 = smap_set (k_slash_record s) sid sr"
    "\<exists>st del tot cnt rc ll. s3 = s\<lparr>k_stakes_v2 := st, k_provider_delegated_stakes := del,
       k_provider_total_delegated := tot, k_slash_counter := cnt, k_slash_record := rc,
       k_last_slash_ledger := ll\<rparr>"
    "k_slash_counter s3 = Some (sat_add_u64 sid 1)"
    "smap_get (k_last_slash_ledger s3) p = Some (sat_add_u32 (ledger_sequence e) 1)"
proof -
  let ?b = "si_balance info" and ?own = "slash_part (si_balance info) bps"
  have b: "get_stake p s = ?b" using assms(3) by (simp add: get_stake_def)
  with get_stake_ok [OF assms(1), of p] assms(4) have pos: "0 < ?b" "amount_ok ?b"
    by (auto simp: amount_ok_def)
  have own: "1 \<le> ?own" "?own \<le> ?b" using slash_part_bounds [OF pos(1)] by auto
  have sub: "saturating_sub ?b ?own = ?b - ?own" "amount_ok (?b - ?own)"
    using amount_ok_sub [OF pos(2), of ?own] own by auto
  define s1 where "s1 = s\<lparr>k_stakes_v2 := Some (smap_set (stakes s) p
      (info\<lparr>si_balance := ?b - ?own, si_last_updated := ledger_timestamp e\<rparr>))\<rparr>"
  obtain dtot s2 where del: "slash_delegations p bps s1 = (dtot, s2)" by fastforce
  have wf1: "stakes_wf s1" "staked s1 = staked s - ?own" "delegations_wf s1" "delegated s1 = delegated s"
    using stakes_wf_set [OF assms(1), of "info\<lparr>si_balance := ?b - ?own, si_last_updated := ledger_timestamp e\<rparr>" p]
      sub b assms(2) by (simp_all add: s1_def delegations_wf_def delegated_def)
  note ds = slash_delegations_spec [OF wf1(3) del]
  define amt' where "amt' = saturating_add ?own dtot"
  have amt': "amt' = min i128_max (?own + (delegated s - delegated s2))" "0 < amt'" "in_i128 amt'"
  proof -
    have add: "amt' = min i128_max (?own + dtot)" and nn: "0 \<le> dtot"
      using own ds(2) by (simp_all add: amt'_def saturating_add_nonneg amount_ok_def)
    then show "amt' = min i128_max (?own + (delegated s - delegated s2))"
      using own ds(3) wf1(4) by (auto simp: min_def)
    show "0 < amt'" using add nn own by (simp add: i128_max_def)
    show "in_i128 amt'" by (simp add: amt'_def saturating_add_def)
  qed
  have so: "slash_own e p info bps s = (?own, s1)"
    using pos sub by (simp add: slash_own_def s1_def Let_def)
  have w: "amt = amt'" "record_slash e p severity reason amt' s2 = (sid, s3)"
    using assms(5) so del amt'(2)
    by (auto simp: slash_writes_def bps_def [symmetric] amt'_def [symmetric] Let_def split: prod.splits)
  obtain del2 tot2 where s2: "s2 = s1\<lparr>k_provider_delegated_stakes := del2, k_provider_total_delegated := tot2\<rparr>"
    using ds(5) by blast
  have same: "k_slash_counter s2 = k_slash_counter s" "k_slash_record s2 = k_slash_record s"
    "k_last_slash_ledger s2 = k_last_slash_ledger s"
    by (simp_all add: s2 s1_def)
  from w(2) obtain sr where sr: "sr_slash_amount sr = amt'" "sr_provider sr = p" "sr_slashed_at sr = ledger_timestamp e"
    "sid = get_or 0 (k_slash_counter s)"
    "s3 = s2\<lparr>k_slash_counter := Some (sat_add_u64 sid 1), k_slash_record := smap_set (k_slash_record s) sid sr,
       k_last_slash_ledger := smap_set (k_last_slash_ledger s) p (sat_add_u32 (ledger_sequence e) 1)\<rparr>"
    unfolding same [symmetric] by (rule record_slash_spec)
  have st3: "stakes s3 = stakes s1" "k_provider_delegated_stakes s3 = k_provider_delegated_stakes s2"
    by (simp_all add: sr(5) s2 stakes_def)
  show "stakes_wf s3" "staked s3 = staked s - slash_part (get_stake p s) bps"
    using wf1(1,2) b by (simp_all add: stakes_wf_def staked_def st3)
  have d3: "delegated s3 = delegated s2" by (simp add: delegated_def st3)
  show "delegations_wf s3" using ds(1) by (simp add: delegations_wf_def st3)
  show "amt = min i128_max (slash_part (get_stake p s) bps + (delegated s - delegated s3))" "0 < amt" "in_i128 amt"
    using amt' w(1) b by (simp_all add: d3)
  show "0 \<le> delegated s - delegated s3" using ds(2,3) wf1(4) by (simp add: d3 amount_ok_def)
  show "get_stake a s3 = (if a = p then get_stake p s - slash_part (get_stake p s) bps else get_stake a s)"
    using b by (simp add: get_stake_def st3) (simp add: s1_def stakes_def)
  show "get_delegated_stake d q s3 =
       (if q = p then slashed_amount bps (get_delegated_stake d p s) else get_delegated_stake d q s)"
    using ds(4) [of d q] by (simp add: get_delegated_stake_def delegations_def st3) (simp add: s1_def)
  show "sid = get_or 0 (k_slash_counter s)" by (fact sr(4))
  show "\<exists>sr. sr_slash_amount sr = amt \<and> sr_provider sr = p \<and> sr_slashed_at sr = ledger_timestamp e \<and>
       k_slash_record s3 = smap_set (k_slash_record s) sid sr"
    using sr w(1) by (intro exI [of _ sr]) simp
  show "k_slash_counter s3 = Some (sat_add_u64 sid 1)"
    "smap_get (k_last_slash_ledger s3) p = Some (sat_add_u32 (ledger_sequence e) 1)"
    by (simp_all add: sr(5))
  show "\<exists>st del tot cnt rc ll. s3 = s\<lparr>k_stakes_v2 := st, k_provider_delegated_stakes := del,
       k_provider_total_delegated := tot, k_slash_counter := cnt, k_slash_record := rc,
       k_last_slash_ledger := ll\<rparr>"
    unfolding sr(5) s2 s1_def by blast
qed

lemma dispose_cases:
  assumes "sep41 T bal" and "dispose_slashed T e tk provider severity reason amt sid s = (r, s')"
  obtains (held) log where "r = Ok amt" "0 < get_appeal_window s"
      "s' = s\<lparr>k_slashed_funds_held := smap_set (k_slashed_funds_held s) sid amt, event_log := log\<rparr>"
  | (burnt) t log where "r = Ok amt" "get_appeal_window s = 0" "0 \<le> amt"
      "amt \<le> bal (k_tokens s) tk (current_contract_address e)"
      "bal t = token_burnt tk (current_contract_address e) amt (bal (k_tokens s))"
      "s' = s\<lparr>k_tokens := t, event_log := log\<rparr>"
  | (failed) er where "r = Err er" "s' = s"
proof (cases "get_appeal_window s > 0")
  case True
  with assms(2) show ?thesis
    by (intro held) (auto simp: dispose_slashed_def emit_stake_slashed_def emits_only_log)
next
  case False
  obtain q s1 where br: "burn_tokens T tk (current_contract_address e) amt s = (q, s1)" by fastforce
  from assms(1) br show ?thesis
  proof (cases rule: burn_tokens_cases)
    case (burnt t)
    with False br assms(2) show ?thesis
      by (intro that(2)) (auto simp: dispose_slashed_def emit_stake_slashed_def emits_only_log)
  next
    case (failed er)
    with False br assms(2) show ?thesis
      by (intro that(3)) (auto simp: dispose_slashed_def)
  qed
qed

text \<open>
  A slash under a conforming token, seen from the totals: the writes are those of
  \<open>slash_writes\<close>, and the funds are parked, burnt, or (when the burn is refused) still in the vault.
\<close>

lemma do_slash_outcome:
  assumes "sep41 T bal" "do_slash T e p severity reason s = (r, s')"
  obtains (refused) er where "r = Err er" "s' = s"
  | (ran) tk info amt sid s3 where "k_stake_token (cfg s) = Some tk" "\<not> slash_cooldown_active e p s"
      "smap_get (stakes s) p = Some info" "si_balance info \<noteq> 0"
      "slash_writes e p severity reason info s = (amt, sid, s3)"
      "(\<exists>log. r = Ok amt \<and> 0 < get_appeal_window s3 \<and>
          s' = s3\<lparr>k_slashed_funds_held := smap_set (k_slashed_funds_held s3) sid amt, event_log := log\<rparr>) \<or>
       (\<exists>t log. r = Ok amt \<and> get_appeal_window s3 = 0 \<and>
          amt \<le> bal (k_tokens s3) tk (current_contract_address e) \<and>
          bal t = token_burnt tk (current_contract_address e) amt (bal (k_tokens s3)) \<and>
          s' = s3\<lparr>k_tokens := t, event_log := log\<rparr>) \<or>
       (\<exists>er. r = Err er \<and> s' = s3)"
  using assms(2)
proof (cases rule: do_slash_cases)
  case (refused er)
  then show ?thesis by (rule that(1))
next
  case (ran tk info amt sid s3)
  from assms(1) ran(6) show ?thesis
    by (cases rule: dispose_cases) (rule that(2) [OF ran(1-5)]; blast)+
qed

lemma slash_stake_Ok:
  assumes "slash_stake T e caller p severity reason s = (Ok amt, s')"
  shows "k_signal_registry (cfg s) = Some caller" "has_auth e caller" "do_slash T e p severity reason s = (Ok amt, s')"
  using assms
  by (auto simp: slash_stake_def require_signal_registry_def split: if_splits option.splits sum.splits)


text \<open>The sample state with a delegation of 400 from account 5 to provider 3.\<close>

definition sample_delegated :: "balance_ledger vault" where
  "sample_delegated = sample_staked\<lparr>
     k_provider_delegated_stakes := [(Addr 3, [(Addr 5, 400)])],
     k_provider_total_delegated := [(Addr 3, 400)],
     k_tokens := (\<lambda>tk a. if a = Addr 0 then 600001400 else 1000000000000)\<rparr>"

lemmas slash_defs =
  slash_stake_def require_signal_registry_def do_slash_def slash_own_def slash_delegations_def
  record_slash_def dispose_slashed_def slash_cooldown_active_def get_slash_tier_config_def
  default_slash_tier_config_def tier_bps_for_def slash_part_def apply_multiplier_bps_eq
  get_slash_cooldown_def DEFAULT_SLASH_COOLDOWN_LEDGERS_def get_appeal_window_def delegations_def
  get_total_delegated_def burn_tokens_def emit_stake_slashed_def emits_only_log stakes_def
  sat_add_u32_def sat_add_u64_def u32_max_def u64_max_def

lemma sample_delegated_run:
  "fst (slash_stake asset_contract (sample_env 4000 7) (Addr 2) (Addr 3) Major ''fraud'' sample_delegated) = Ok 180000120"
  "stakes_wf sample_delegated" "delegations_wf sample_delegated"
  "staked sample_delegated + delegated sample_delegated \<le> i128_max"
  "get_stake (Addr 3) sample_delegated = 600000000" "get_delegated_stake (Addr 5) (Addr 3) sample_delegated = 400"
  by (simp_all add: slash_defs sample_delegated_def sample_staked_def sample_defs stakes_wf_def
      delegations_wf_def staked_def delegated_def smap_ok_def smap_all_def amount_ok_def smap_total_def
      get_stake_def get_delegated_stake_def)


text \<open>
  With tiers that \<^verbatim>\<open>configure_slash_tiers\<close> accepts, a more severe violation never takes less of a
  position, nothing takes more than the position, and a tier of 10000 basis points takes all of it.
\<close>

theorem slash_severity_monotone:
  assumes "configure_slash_tiers e minor major critical s = (Ok (), s')" and "0 < v"
  shows "slash_part v (tier_bps_for (get_slash_tier_config s') Minor) \<le>
           slash_part v (tier_bps_for (get_slash_tier_config s') Major) \<and>
    slash_part v (tier_bps_for (get_slash_tier_config s') Major) \<le>
           slash_part v (tier_bps_for (get_slash_tier_config s') Critical) \<and>
    slash_part v (tier_bps_for (get_slash_tier_config s') Critical) \<le> v \<and>
    (critical = 10000 \<longrightarrow> in_i128 v \<longrightarrow> slash_part v (tier_bps_for (get_slash_tier_config s') Critical) = v)"
proof -
  have bps: "tier_bps_for (get_slash_tier_config s') Minor = minor"
    "tier_bps_for (get_slash_tier_config s') Major = major"
    "tier_bps_for (get_slash_tier_config s') Critical = critical" "minor \<le> major" "major \<le> critical"
    using assms(1) unfolding configure_slash_tiers_def
    by (auto elim!: with_single_admin_Ok simp: set_slash_tiers_def validate_slash_tiers_def tier_bps_for_def
        get_slash_tier_config_def emit_slash_tiers_updated_def emits_only_log split: if_splits)
  have "slash_part v 10000 = v" if "in_i128 v"
    using assms(2) that by (auto simp: slash_part_def apply_multiplier_bps_eq in_i128_def)
  then show ?thesis
    using bps slash_part_mono [OF assms(2)] slash_part_bounds [OF assms(2)] by simp
qed

theorem slash_severity_monotone_witness:
  "slash_part 999 (tier_bps_for (get_slash_tier_config
     (snd (configure_slash_tiers (sample_env 0 0) 100 200 10000 sample_vault))) Critical) = 999"
proof -
  have "fst (configure_slash_tiers (sample_env 0 0) 100 200 10000 sample_vault) = Ok ()"
    by (simp add: configure_slash_tiers_def with_single_admin_def with_admin_def set_slash_tiers_def
        validate_slash_tiers_def ms_get_config_def sample_defs)
  from slash_severity_monotone [OF run_ok [OF this], of 999] show ?thesis by (simp add: int_defs)
qed

text \<open>
  After a successful slash of a provider, no further slash of it succeeds or changes anything
  before the configured number of ledgers has passed (as long as the recorded ledger of the last slash
  is the one this slash wrote).
\<close>

theorem slash_cooldown_enforced:
  assumes "do_slash T e p severity reason s = (Ok amt, s1)" "stakes_wf s" "delegations_wf s"
    and "smap_get (k_last_slash_ledger s2) p = smap_get (k_last_slash_ledger s1) p"
    and "ledger_sequence e < u32_max"
    and "ledger_sequence e \<le> ledger_sequence e2" "ledger_sequence e2 < ledger_sequence e + get_slash_cooldown s2"
  shows "\<not> is_ok (fst (do_slash T2 e2 p severity2 reason2 s2)) \<and> snd (do_slash T2 e2 p severity2 reason2 s2) = s2"
  using assms(1)
proof (cases rule: do_slash_cases)
  case (ran tk info amt' sid s3)
  note w = slash_writes_spec [OF assms(2,3) ran(3-5)]
  have "k_last_slash_ledger s1 = k_last_slash_ledger s3"
    using ran(6)
    by (auto simp: dispose_slashed_def burn_tokens_def emit_stake_slashed_def emits_only_log Let_def
        split: if_splits prod.splits outcome.splits)
  with w(14) assms(4,5) have "smap_get (k_last_slash_ledger s2) p = Some (ledger_sequence e + 1)"
    by (simp add: sat_add_u32_def)
  with assms(6,7) have "slash_cooldown_active e2 p s2"
    by (auto simp: slash_cooldown_active_def)
  then show ?thesis by (simp add: do_slash_def split: option.splits)
qed simp

theorem slash_cooldown_enforced_witness:
  "\<not> is_ok (fst (do_slash asset_contract (sample_env 4500 106) (Addr 3) Minor ''again''
     (snd (do_slash asset_contract (sample_env 4000 7) (Addr 3) Major ''fraud'' sample_delegated))))"
proof -
  let ?r = "do_slash asset_contract (sample_env 4000 7) (Addr 3) Major ''fraud'' sample_delegated"
  have "do_slash asset_contract (sample_env 4000 7) (Addr 3) Major ''fraud'' sample_delegated = (Ok 180000120, snd ?r)"
    using slash_stake_Ok(3) [OF run_ok [OF sample_delegated_run(1)]] by simp
  moreover have "get_slash_cooldown (snd ?r) = 100"
    by (simp add: slash_defs sample_delegated_def sample_staked_def sample_defs)
  ultimately show ?thesis
    using slash_cooldown_enforced [of asset_contract "sample_env 4000 7" "Addr 3" Major "''fraud''" sample_delegated
        180000120 "snd ?r" "snd ?r" "sample_env 4500 106"] sample_delegated_run(2,3)
    by (simp add: sample_env_def u32_max_def)
qed

section \<open>Delegation and appeals: effects\<close>

lemma delegate_stake_Ok:
  assumes "delegate_stake T e d p amount s = (Ok r, s')"
  obtains tk s3 where "has_auth e d" "\<not> is_paused s" "0 < amount" "k_stake_token (cfg s) = Some tk"
    "in_i128 (get_delegated_stake d p s + amount)" "in_i128 (get_total_delegated p s + amount)"
    "transfer_tokens T tk d (current_contract_address e) amount
       (s\<lparr>k_provider_delegated_stakes := smap_set (k_provider_delegated_stakes s) p
            (smap_set (delegations p s) d (get_delegated_stake d p s + amount)),
          k_provider_total_delegated := smap_set (k_provider_total_delegated s) p
            (get_total_delegated p s + amount)\<rparr>) = (Ok (), s3)"
    "s' = emit_stake_delegated d p amount s3"
proof -
  have same: "get_total_delegated p (s\<lparr>k_provider_delegated_stakes := x\<rparr>) = get_total_delegated p s" for x
    by (simp add: get_total_delegated_def)
  show ?thesis
    using assms unfolding delegate_stake_def Let_def same
    by (auto split: if_splits option.splits prod.splits outcome.splits intro!: that)
qed

text \<open>
  A successful delegation moves exactly the amount from the delegator into the vault, adds it to
  the delegator's entry for that provider and to the provider's cached total, and changes no stake
  and no other delegation.
\<close>

theorem delegate_effect:
  assumes "sep41 T bal" and "delegate_stake T e d p amount s = (Ok (), s')" "k_stake_token (cfg s) = Some tk"
  shows "(\<forall>d' p'. get_delegated_stake d' p' s' = get_delegated_stake d' p' s + (if d' = d \<and> p' = p then amount else 0)) \<and>
    (\<forall>p'. get_total_delegated p' s' = get_total_delegated p' s + (if p' = p then amount else 0)) \<and>
    (\<forall>a. get_stake a s' = get_stake a s) \<and>
    bal (k_tokens s') = token_moved tk d (current_contract_address e) amount (bal (k_tokens s)) \<and>
    0 < amount \<and> has_auth e d \<and> \<not> is_paused s"
  using assms(2)
proof (cases rule: delegate_stake_Ok)
  case (1 tk' s3)
  from assms(1) 1(7) show ?thesis
    by (cases rule: transfer_tokens_cases)
       (use 1 assms(3) in \<open>auto simp: get_delegated_stake_def delegations_def get_total_delegated_def get_stake_def
          stakes_def emit_stake_delegated_def emits_only_log\<close>)
qed

theorem delegate_effect_witness:
  "get_delegated_stake (Addr 5) (Addr 3)
     (snd (delegate_stake asset_contract (sample_env 4000 7) (Addr 5) (Addr 3) 100 sample_delegated)) = 500"
proof -
  have "fst (delegate_stake asset_contract (sample_env 4000 7) (Addr 5) (Addr 3) 100 sample_delegated) = Ok ()"
    and tk: "k_stake_token (cfg sample_delegated) = Some (Addr 9)"
    by (simp_all add: delegate_stake_def get_delegated_stake_def delegations_def get_total_delegated_def
        transfer_tokens_def sample_delegated_def sample_staked_def sample_defs)
  from delegate_effect [OF asset_contract_sep41 run_ok [OF this(1)] tk] sample_delegated_run(6) show ?thesis
    by simp
qed

text \<open>
  An appeal is accepted only from the slashed provider, within the appeal window after the slash,
  and at most once: afterwards it is pending and a second appeal is refused.
\<close>

theorem appeal_accepted:
  assumes "appeal_slash e appellant sid uri s = (Ok (), s')"
  shows "\<exists>sr. smap_get (k_slash_record s) sid = Some sr \<and> sr_provider sr = appellant \<and> has_auth e appellant \<and>
      0 < get_appeal_window s \<and> ledger_timestamp e \<le> sat_add_u64 (sr_slashed_at sr) (get_appeal_window s) \<and>
      smap_get (k_slash_appeal s) sid = None \<and>
      map_option sa_status (smap_get (k_slash_appeal s') sid) = Some Pending \<and>
      \<not> is_ok (fst (appeal_slash e' appellant' sid uri' s'))"
  using assms
  by (auto simp: appeal_slash_def emit_slash_appealed_def emits_only_log smap_has_def Let_def
      split: if_splits option.splits)

text \<open>A slash that is parked, and its appeal, for the witnesses.\<close>

definition sample_parked :: "balance_ledger vault" where
  "sample_parked = sample_staked\<lparr>
     cfg := (cfg sample_staked)\<lparr>k_appeal_window_secs := Some 3600\<rparr>, k_slash_counter := Some 1,
     k_slash_record := [(0, \<lparr>sr_slash_id = 0, sr_provider = Addr 3, sr_severity = 1, sr_slash_amount = 1000,
        sr_slashed_at = 4000, sr_reason = ''fraud'', sr_cooldown_expires_at = 107\<rparr>)],
     k_slashed_funds_held := [(0, 1000)]\<rparr>"

definition sample_appealed :: "balance_ledger vault" where
  "sample_appealed = sample_parked\<lparr>k_slash_appeal := [(0, \<lparr>sa_slash_id = 0, sa_appellant = Addr 3,
     sa_evidence_uri = ''ipfs'', sa_submitted_at = 4100, sa_status = Pending\<rparr>)]\<rparr>"

theorem appeal_accepted_witness:
  "map_option sa_status (smap_get (k_slash_appeal
     (snd (appeal_slash (sample_env 4100 9) (Addr 3) 0 ''ipfs'' sample_parked))) 0) = Some Pending"
proof -
  have "fst (appeal_slash (sample_env 4100 9) (Addr 3) 0 ''ipfs'' sample_parked) = Ok ()"
    by (simp add: appeal_slash_def sample_parked_def sample_staked_def sample_defs get_appeal_window_def
        sat_add_u64_def u64_max_def smap_has_def)
  from appeal_accepted [OF run_ok [OF this], of "sample_env 0 0" "Addr 3" "[]"] show ?thesis by blast
qed

lemma do_resolve_cases:
  assumes "sep41 T bal" and "do_resolve_appeal T e sid uphold s = (r, s')"
  defines "held \<equiv> get_or 0 (smap_get (k_slashed_funds_held s) sid)"
  obtains (refused) er where "r = Err er" "s' = s"
  | (burn_refused) er sr ap where "r = Err er" "uphold" "0 < held"
      "smap_get (k_slash_record s) sid = Some sr" "smap_get (k_slash_appeal s) sid = Some ap" "sa_status ap = Pending"
      "s' = s\<lparr>k_slashed_funds_held := smap_remove (k_slashed_funds_held s) sid\<rparr>"
  | (upheld) sr ap tk t where "r = Ok ()" "uphold" "smap_get (k_slash_record s) sid = Some sr"
      "smap_get (k_slash_appeal s) sid = Some ap" "sa_status ap = Pending" "k_stake_token (cfg s) = Some tk"
      "if 0 < held then bal t = token_burnt tk (current_contract_address e) held (bal (k_tokens s)) else t = k_tokens s"
      "s' = finish_appeal sid uphold (sr_provider sr) (ap\<lparr>sa_status := Upheld\<rparr>)
         (if 0 < held then s\<lparr>k_slashed_funds_held := smap_remove (k_slashed_funds_held s) sid, k_tokens := t\<rparr> else s)"
  | (reversed) sr ap where "r = Ok ()" "\<not> uphold" "smap_get (k_slash_record s) sid = Some sr"
      "smap_get (k_slash_appeal s) sid = Some ap" "sa_status ap = Pending"
      "s' = finish_appeal sid uphold (sr_provider sr) (ap\<lparr>sa_status := Reversed\<rparr>)
         (let s1 = credit_restored e (sr_provider sr) (if 0 < held then held else sr_slash_amount sr) s
          in if 0 < held then s1\<lparr>k_slashed_funds_held := smap_remove (k_slashed_funds_held s1) sid\<rparr> else s1)"
proof -
  have held_sym: "get_or 0 (smap_get (k_slashed_funds_held s) sid) = held" by (simp add: held_def)
  show ?thesis
  proof (cases "\<exists>sr ap tk. smap_get (k_slash_record s) sid = Some sr \<and> smap_get (k_slash_appeal s) sid = Some ap \<and>
      sa_status ap = Pending \<and> k_stake_token (cfg s) = Some tk")
    case False
    with assms(2) have "(\<exists>er. r = Err er) \<and> s' = s"
      by (auto simp: do_resolve_appeal_def Let_def split: option.splits if_splits)
    then show ?thesis using refused by blast
  next
    case True
    then obtain sr ap tk where f: "smap_get (k_slash_record s) sid = Some sr" "smap_get (k_slash_appeal s) sid = Some ap"
      "sa_status ap = Pending" "k_stake_token (cfg s) = Some tk" by blast
    show ?thesis
    proof (cases uphold)
      case up: True
      show ?thesis
      proof (cases "0 < held")
        case h: True
        let ?s1 = "s\<lparr>k_slashed_funds_held := smap_remove (k_slashed_funds_held s) sid\<rparr>"
        obtain q s2 where br: "burn_tokens T tk (current_contract_address e) held ?s1 = (q, s2)" by fastforce
        have run: "do_resolve_appeal T e sid uphold s = (case (q, s2) of
              (Ok _, s2) \<Rightarrow> (Ok (), finish_appeal sid uphold (sr_provider sr) (ap\<lparr>sa_status := Upheld\<rparr>) s2)
            | (Err er, s2) \<Rightarrow> (Err er, s2) | (Panic, s2) \<Rightarrow> (Panic, s2))"
          using f up h br by (cases q) (simp_all add: do_resolve_appeal_def held_def [symmetric])
        from assms(1) br show ?thesis
        proof (cases rule: burn_tokens_cases)
          case (burnt t)
          then show ?thesis
            using f up h run assms(2) by (intro upheld [of sr ap tk t]) simp_all
        next
          case (failed er)
          then show ?thesis
            using f up h run assms(2) by (intro burn_refused [of er sr ap]) simp_all
        qed
      next
        case False
        with f up assms(2) held_sym show ?thesis
          by (intro upheld [of sr ap tk "k_tokens s"]) (simp_all add: do_resolve_appeal_def Let_def)
      qed
    next
      case rev: False
      with f assms(2) held_sym show ?thesis
        by (intro reversed [of sr ap]) (simp_all add: do_resolve_appeal_def Let_def)
    qed
  qed
qed

lemma finish_appeal_simps [simp]:
  "k_slash_appeal (finish_appeal sid u p ap s) = smap_set (k_slash_appeal s) sid ap"
  "k_slash_record (finish_appeal sid u p ap s) = k_slash_record s"
  "k_slashed_funds_held (finish_appeal sid u p ap s) = k_slashed_funds_held s"
  "k_tokens (finish_appeal sid u p ap s) = k_tokens s" "cfg (finish_appeal sid u p ap s) = cfg s"
  "stakes (finish_appeal sid u p ap s) = stakes s" "get_stake a (finish_appeal sid u p ap s) = get_stake a s"
  by (simp_all add: finish_appeal_def publish_def stakes_def get_stake_def)

lemma credit_restored_simps [simp]:
  "k_slashed_funds_held (credit_restored e p x s) = k_slashed_funds_held s"
  "k_slash_record (credit_restored e p x s) = k_slash_record s"
  "k_slash_appeal (credit_restored e p x s) = k_slash_appeal s"
  "k_tokens (credit_restored e p x s) = k_tokens s" "cfg (credit_restored e p x s) = cfg s"
  "get_stake a (credit_restored e p x s) = (if a = p then saturating_add (get_stake p s) x else get_stake a s)"
  by (auto simp: credit_restored_def Let_def get_stake_def stakes_def empty_stake_info_def split: option.splits)

lemma resolved_final:
  assumes "smap_get (k_slash_record s) sid = Some sr" "smap_get (k_slash_appeal s) sid = Some ap" "sa_status ap \<noteq> Pending"
  shows "do_resolve_appeal T e sid uphold s = (Err AppealAlreadyResolved, s)"
    "\<not> is_ok (fst (appeal_slash e' appellant sid uri s))"
  using assms by (simp_all add: do_resolve_appeal_def appeal_slash_def smap_has_def Let_def)

text \<open>
  C20: Resolving an appeal whose funds are still held settles them exactly: upholding burns the held
  amount and changes no stake, reversing credits the held amount to the provider and moves no token.
  Either way the hold is released, the appeal leaves the pending state, and no later resolution or
  appeal of the same slash succeeds.
\<close>

theorem resolve_effect:
  assumes "sep41 T bal" and "do_resolve_appeal T e sid uphold s = (Ok (), s')"
    and "smap_get (k_slashed_funds_held s) sid = Some h" "0 < h"
    and "smap_get (k_slash_record s) sid = Some sr" "0 \<le> get_stake (sr_provider sr) s"
    and "get_stake (sr_provider sr) s + h \<le> i128_max" "k_stake_token (cfg s) = Some tk"
  shows "map_option sa_status (smap_get (k_slash_appeal s) sid) = Some Pending \<and>
    map_option sa_status (smap_get (k_slash_appeal s') sid) = Some (if uphold then Upheld else Reversed) \<and>
    smap_get (k_slashed_funds_held s') sid = None \<and>
    (\<forall>a. get_stake a s' = get_stake a s + (if \<not> uphold \<and> a = sr_provider sr then h else 0)) \<and>
    bal (k_tokens s') = (if uphold then token_burnt tk (current_contract_address e) h (bal (k_tokens s))
                         else bal (k_tokens s)) \<and>
    do_resolve_appeal T' e' sid uphold' s' = (Err AppealAlreadyResolved, s') \<and>
    \<not> is_ok (fst (appeal_slash e' appellant sid uri s'))"
proof -
  have sat: "saturating_add (get_stake (sr_provider sr) s) h = get_stake (sr_provider sr) s + h"
    using assms(4,6,7) by (simp add: saturating_add_nonneg)
  have same: "get_stake a (s\<lparr>k_slashed_funds_held := x, k_tokens := t\<rparr>) = get_stake a s"
      "get_stake a (y\<lparr>k_slashed_funds_held := x\<rparr>) = get_stake a y" for a x t and y :: "'a vault"
    by (simp_all add: get_stake_def stakes_def)
  from assms(1,2) show ?thesis
  proof (cases rule: do_resolve_cases)
    case (upheld sr' ap tk' t)
    moreover from this have "smap_get (k_slash_record s') sid = Some sr'"
      "smap_get (k_slash_appeal s') sid = Some (ap\<lparr>sa_status := Upheld\<rparr>)"
      using assms(3,4) by simp_all
    ultimately show ?thesis
      using assms(3-5,8) resolved_final [of s' sid sr' "ap\<lparr>sa_status := Upheld\<rparr>"] by (simp add: same)
  next
    case (reversed sr' ap)
    moreover from this have "smap_get (k_slash_record s') sid = Some sr'"
      "smap_get (k_slash_appeal s') sid = Some (ap\<lparr>sa_status := Reversed\<rparr>)"
      using assms(3,4) by (simp_all add: Let_def)
    ultimately show ?thesis
      using assms(3-5) sat resolved_final [of s' sid sr' "ap\<lparr>sa_status := Reversed\<rparr>"]
      by (simp add: same Let_def)
  qed simp_all
qed

theorem resolve_effect_witness:
  "get_stake (Addr 3) (snd (do_resolve_appeal asset_contract (sample_env 4200 9) 0 False sample_appealed)) = 600001000"
proof -
  let ?r = "do_resolve_appeal asset_contract (sample_env 4200 9) 0 False sample_appealed"
  have run: "fst ?r = Ok ()" and held: "smap_get (k_slashed_funds_held sample_appealed) 0 = Some 1000"
    and tk: "k_stake_token (cfg sample_appealed) = Some (Addr 9)" and st: "get_stake (Addr 3) sample_appealed = 600000000"
    by (simp_all add: do_resolve_appeal_def sample_appealed_def sample_parked_def sample_staked_def sample_defs
        get_stake_def stakes_def)
  obtain sr where sr: "smap_get (k_slash_record sample_appealed) 0 = Some sr" "sr_provider sr = Addr 3"
    by (simp add: sample_appealed_def sample_parked_def)
  from resolve_effect [OF asset_contract_sep41 run_ok [OF run] held _ sr(1) _ _ tk] sr(2) st show ?thesis
    by (simp add: i128_max_def)
qed

text \<open>
  The run of the next property: stake 1000, minor slash of 50 with no appeal window (so the tokens
  are burnt), then the window is opened, the provider appeals and the administrator reverses.
\<close>

definition insolvent_run :: "balance_ledger vault" where
  "insolvent_run =
     (let e = sample_env 4000 7;
          s0 = snd (deposit_stake asset_contract e (Addr 3) 1000 sample_vault);
          s1 = snd (slash_stake asset_contract e (Addr 2) (Addr 3) Minor ''late'' s0);
          s2 = snd (set_appeal_window e 3600 s1);
          s3 = snd (appeal_slash e (Addr 3) 0 ''ipfs'' s2)
      in snd (resolve_appeal asset_contract e 0 False s3))"

text \<open>
  Reversing the appeal of a slash whose tokens were already burnt credits the burnt amount again:
  after this run of five successful calls the vault records 1000 of stake and holds 950 tokens.
\<close>

theorem reversal_of_burnt_slash:
  "k_tokens insolvent_run (Addr 9) (Addr 0) = 950 \<and> staked insolvent_run = 1000"
  by (simp add: insolvent_run_def deposit_stake_def set_appeal_window_def appeal_slash_def resolve_appeal_def
      with_single_admin_def with_admin_def do_resolve_appeal_def credit_restored_def finish_appeal_def
      ms_get_config_def transfer_tokens_def emit_tier_change_log emit_appeal_window_updated_def
      emit_slash_appealed_def MAX_APPEAL_WINDOW_SECS_def staked_def smap_total_def smap_has_def
      deposit_locked_until_def get_minimum_stake_duration_def token_moved_def token_burnt_def
      slash_defs sample_defs)

end
