(* ===== verification/Vault_Withdraw.thy ===== *)
theory Vault_Withdraw
  imports Vault_Core
begin

text \<open>
  Withdrawals of \<^verbatim>\<open>stake_vault/src/lib.rs\<close>: \<^verbatim>\<open>withdraw_stake\<close>, \<^verbatim>\<open>partial_unstake\<close> and the guarded
  workers they share with the unstake queue. The checks run first, the token transfer second and
  the writes last, so a failed worker leaves the position as it was.
\<close>

section \<open>Checks shared by the two workers\<close>

text \<open>
  Both workers run the same checks on the position, in the order lock, same-ledger deposit, time-lock.
  \<open>timelocked\<close> is the amount compared with the large-withdrawal threshold: the whole balance for
  a full withdrawal, the withdrawn part for a partial one. The result tells whether a time-lock
  request is consumed.
\<close>

definition flash_loan_pattern :: "env \<Rightarrow> address \<Rightarrow> 't vault \<Rightarrow> bool" where
  "flash_loan_pattern e staker s \<longleftrightarrow>
     get_or 0 (smap_get (k_last_stake_ledger s) staker) = ledger_sequence e \<and> ledger_sequence e \<noteq> 0"

definition timelock_check :: "env \<Rightarrow> address \<Rightarrow> int \<Rightarrow> 't vault \<Rightarrow> stake_vault_error + bool" where
  "timelock_check e staker timelocked s =
     (if timelocked \<ge> LARGE_WITHDRAWAL_THRESHOLD then
        (case smap_get (k_large_withdrawal_requested_at s) staker of
           None \<Rightarrow> Inl TimelockRequired
         | Some requested_at \<Rightarrow>
             if ledger_timestamp e < sat_add_u64 requested_at (get_withdrawal_cooldown_secs s)
             then Inl TimelockNotElapsed else Inr True)
      else Inr False)"

section \<open>Full withdrawal\<close>

definition do_withdraw_locked :: "'t token_impl \<Rightarrow> env \<Rightarrow> address \<Rightarrow> 't vault \<Rightarrow> ('t, int) vault_result" where
  "do_withdraw_locked T e staker s =
     (case k_stake_token (cfg s) of
        None \<Rightarrow> (Err NotInitialized, s)
      | Some token \<Rightarrow>
     (case smap_get (stakes s) staker of
        None \<Rightarrow> (Err NoStake, s)
      | Some info \<Rightarrow>
          if si_balance info = 0 then (Err NoStake, s)
          else if ledger_timestamp e < si_locked_until info then (Err StakeLocked, s)
          else if flash_loan_pattern e staker s
          then (Err FlashLoanDetected,
                emit_flash_loan_attempt staker (si_balance info) (ledger_sequence e) s)
          else (case timelock_check e staker (si_balance info) s of
             Inl er \<Rightarrow> (Err er, s)
           | Inr consumes_request \<Rightarrow>
               let amount = si_balance info;
                   old_tier = stake_tier_for_amount (si_balance info);
                   new_tier = stake_tier_for_amount 0
               in (case transfer_tokens T token (current_contract_address e) staker amount s of
                     (Ok _, s1) \<Rightarrow>
                       let s2 = (if consumes_request
                                 then s1\<lparr>k_large_withdrawal_requested_at :=
                                        smap_remove (k_large_withdrawal_requested_at s1) staker\<rparr>
                                 else s1);
                           s3 = s2\<lparr>k_stakes_v2 := Some (smap_set (stakes s) staker
                                     \<lparr>si_balance = 0, si_locked_until = si_locked_until info,
                                      si_last_updated = ledger_timestamp e\<rparr>)\<rparr>
                       in (Ok amount, emit_provider_tier_change staker old_tier new_tier 0 s3)
                   | (Err er, s1) \<Rightarrow> (Err er, s1)
                   | (Panic, s1) \<Rightarrow> (Panic, s1)))))"

text \<open>The \<^verbatim>\<open>WithdrawLock\<close> around a worker.\<close>

definition with_withdraw_lock :: "('t vault \<Rightarrow> ('t, int) vault_result) \<Rightarrow> 't vault \<Rightarrow> ('t, int) vault_result" where
  "with_withdraw_lock body s =
     (if get_or False (k_withdraw_lock s) then (Err ReentrancyDetected, s)
      else (case body (s\<lparr>k_withdraw_lock := Some True\<rparr>) of
              (result, s1) \<Rightarrow> (result, s1\<lparr>k_withdraw_lock := None\<rparr>)))"

definition do_withdraw :: "'t token_impl \<Rightarrow> env \<Rightarrow> address \<Rightarrow> 't vault \<Rightarrow> ('t, int) vault_result" where
  "do_withdraw T e staker = with_withdraw_lock (do_withdraw_locked T e staker)"

text \<open>
  \<^verbatim>\<open>check_rate_limit(..).is_err()\<close> before and \<^verbatim>\<open>record_action\<close> after a successful change, the
  frame of both entry points.
\<close>

definition record_if_ok :: "env \<Rightarrow> address \<Rightarrow> ('t, int) vault_result \<Rightarrow> ('t, int) vault_result" where
  "record_if_ok e staker r =
     (case r of (Ok v, s) \<Rightarrow> (Ok v, record_action e staker StakeChange s) | _ \<Rightarrow> r)"

definition withdraw_stake :: "'t token_impl \<Rightarrow> env \<Rightarrow> address \<Rightarrow> 't vault \<Rightarrow> ('t, int) vault_result" where
  "withdraw_stake T e staker s =
     (if is_paused s then (Err ContractPaused, s)
      else (case check_rate_limit e staker StakeChange 0 s of
         (Inl _, s1) \<Rightarrow> (Err RateLimitExceeded, s1)
       | (Inr _, s1) \<Rightarrow>
           let amount_to_withdraw = get_stake staker s1
           in if \<not> has_auth_for_args e staker amount_to_withdraw then (Panic, s1)
              else record_if_ok e staker (do_withdraw T e staker s1)))"

section \<open>Partial withdrawal\<close>

definition do_partial_unstake_locked ::
  "'t token_impl \<Rightarrow> env \<Rightarrow> address \<Rightarrow> int \<Rightarrow> 't vault \<Rightarrow> ('t, int) vault_result" where
  "do_partial_unstake_locked T e staker amount s =
     (case k_stake_token (cfg s) of
        None \<Rightarrow> (Err NotInitialized, s)
      | Some token \<Rightarrow>
     (case smap_get (stakes s) staker of
        None \<Rightarrow> (Err NoStake, s)
      | Some info \<Rightarrow>
          if si_balance info = 0 then (Err NoStake, s)
          else if amount \<ge> si_balance info then (Err InvalidAmount, s)
          else if ledger_timestamp e < si_locked_until info then (Err StakeLocked, s)
          else if flash_loan_pattern e staker s
          then (Err FlashLoanDetected,
                emit_flash_loan_attempt staker (si_balance info) (ledger_sequence e) s)
          else (case timelock_check e staker amount s of
             Inl er \<Rightarrow> (Err er, s)
           | Inr consumes_request \<Rightarrow>
               let remaining = si_balance info - amount;
                   minimum_stake = get_minimum_stake s
               in if minimum_stake > 0 \<and> remaining < minimum_stake
                  then (Err RemainingStakeBelowMinimum, s)
                  else (let old_tier = stake_tier_for_amount (si_balance info);
                            new_tier = stake_tier_for_amount remaining
                        in (case transfer_tokens T token (current_contract_address e) staker amount s of
                     (Ok _, s1) \<Rightarrow>
                       let s2 = (if consumes_request
                                 then s1\<lparr>k_large_withdrawal_requested_at :=
                                        smap_remove (k_large_withdrawal_requested_at s1) staker\<rparr>
                                 else s1);
                           s3 = s2\<lparr>k_stakes_v2 := Some (smap_set (stakes s) staker
                                     \<lparr>si_balance = remaining,
                                      si_locked_until = si_locked_until info,
                                      si_last_updated = ledger_timestamp e\<rparr>)\<rparr>;
                           s4 = emit_provider_tier_change staker old_tier new_tier remaining s3
                       in (Ok amount, emit_partial_unstake staker amount remaining s4)
                   | (Err er, s1) \<Rightarrow> (Err er, s1)
                   | (Panic, s1) \<Rightarrow> (Panic, s1))))))"

definition do_partial_unstake ::
  "'t token_impl \<Rightarrow> env \<Rightarrow> address \<Rightarrow> int \<Rightarrow> 't vault \<Rightarrow> ('t, int) vault_result" where
  "do_partial_unstake T e staker amount =
     with_withdraw_lock (do_partial_unstake_locked T e staker amount)"

definition partial_unstake ::
  "'t token_impl \<Rightarrow> env \<Rightarrow> address \<Rightarrow> int \<Rightarrow> 't vault \<Rightarrow> ('t, int) vault_result" where
  "partial_unstake T e staker amount s =
     (if is_paused s then (Err ContractPaused, s)
      else if amount \<le> 0 then (Err InvalidAmount, s)
      else (case check_rate_limit e staker StakeChange 0 s of
         (Inl _, s1) \<Rightarrow> (Err RateLimitExceeded, s1)
       | (Inr _, s1) \<Rightarrow>
           if \<not> has_auth e staker then (Panic, s1)
           else record_if_ok e staker (do_partial_unstake T e staker amount s1)))"

section \<open>What the workers do\<close>

lemma lock_irrelevant [simp]:
  "stakes (s\<lparr>k_withdraw_lock := l\<rparr>) = stakes s"
  "flash_loan_pattern e a (s\<lparr>k_withdraw_lock := l\<rparr>) = flash_loan_pattern e a s"
  "timelock_check e a x (s\<lparr>k_withdraw_lock := l\<rparr>) = timelock_check e a x s"
  "get_minimum_stake (s\<lparr>k_withdraw_lock := l\<rparr>) = get_minimum_stake s"
  by (simp_all add: stakes_def flash_loan_pattern_def timelock_check_def get_minimum_stake_def
      get_withdrawal_cooldown_secs_def split: option.splits)

text \<open>Only the event log differs.\<close>

definition only_logged :: "'t vault \<Rightarrow> 't vault \<Rightarrow> bool" where
  "only_logged s s' \<longleftrightarrow> (\<exists>log. s' = s\<lparr>event_log := log\<rparr>)"

lemma only_logged_refl [simp]: "only_logged s s"
  unfolding only_logged_def by (rule exI [of _ "event_log s"]) simp

lemma only_logged_flash [simp]: "only_logged s (emit_flash_loan_attempt a b c s)"
  by (auto simp: only_logged_def emit_defs)

text \<open>The state after a successful payout of \<open>amt\<close> that leaves \<open>rest\<close> staked.\<close>

definition paid_out :: "env \<Rightarrow> address \<Rightarrow> stake_info_v2 \<Rightarrow> int \<Rightarrow> bool \<Rightarrow> 't \<Rightarrow> event list \<Rightarrow> 't vault \<Rightarrow> 't vault" where
  "paid_out e staker info rest consumed t log s =
     (if consumed
      then s\<lparr>k_tokens := t,
             k_large_withdrawal_requested_at := smap_remove (k_large_withdrawal_requested_at s) staker\<rparr>
      else s\<lparr>k_tokens := t\<rparr>)
     \<lparr>k_stakes_v2 := Some (smap_set (stakes s) staker
        \<lparr>si_balance = rest, si_locked_until = si_locked_until info,
         si_last_updated = ledger_timestamp e\<rparr>),
      event_log := log\<rparr>"

definition position_open :: "env \<Rightarrow> address \<Rightarrow> stake_info_v2 \<Rightarrow> int \<Rightarrow> bool \<Rightarrow> 't vault \<Rightarrow> bool" where
  "position_open e staker info timelocked consumed s \<longleftrightarrow>
     smap_get (stakes s) staker = Some info \<and> si_balance info \<noteq> 0 \<and>
     si_locked_until info \<le> ledger_timestamp e \<and> \<not> flash_loan_pattern e staker s \<and>
     timelock_check e staker timelocked s = Inr consumed"

lemma do_withdraw_locked_paid:
  assumes "k_stake_token (cfg s) = Some tk" and "position_open e staker info (si_balance info) consumed s"
    and "transfer_tokens T tk (current_contract_address e) staker (si_balance info) s = (Ok (), s\<lparr>k_tokens := t\<rparr>)"
  shows "do_withdraw_locked T e staker s =
    (Ok (si_balance info), paid_out e staker info 0 consumed t
       (tier_log staker (stake_tier_for_amount (si_balance info)) 0 0 (event_log s)) s)"
  using assms
  by (cases consumed) (simp_all add: do_withdraw_locked_def position_open_def paid_out_def Let_def emit_tier_change_log)

lemma do_withdraw_locked_failed:
  assumes "\<And>tk info consumed. \<not> (k_stake_token (cfg s) = Some tk \<and>
      position_open e staker info (si_balance info) consumed s)"
  shows "\<exists>er s'. do_withdraw_locked T e staker s = (Err er, s') \<and> only_logged s s'"
  using assms unfolding do_withdraw_locked_def position_open_def
  by (simp split: option.splits sum.splits) force

lemma do_partial_locked_paid:
  assumes "k_stake_token (cfg s) = Some tk" and "position_open e staker info amount consumed s"
    and "amount < si_balance info"
    and "\<not> (0 < get_minimum_stake s \<and> si_balance info - amount < get_minimum_stake s)"
    and "transfer_tokens T tk (current_contract_address e) staker amount s = (Ok (), s\<lparr>k_tokens := t\<rparr>)"
  shows "do_partial_unstake_locked T e staker amount s =
    (Ok amount, paid_out e staker info (si_balance info - amount) consumed t
       (tier_log staker (stake_tier_for_amount (si_balance info))
          (stake_tier_for_amount (si_balance info - amount)) (si_balance info - amount) (event_log s) @
        [\<lparr>topics = [VSym ''stake_vault'', VSym ''prtunstk''],
          event_data = VMap [(''schema_version'', VU32 1), (''staker'', VAddr staker),
            (''amount'', VI128 amount), (''remaining'', VI128 (si_balance info - amount))]\<rparr>]) s)"
proof -
  have "(0 < get_minimum_stake s \<and> si_balance info - amount < get_minimum_stake s) = False"
    using assms(4) by blast
  then show ?thesis
    using assms(1-3,5)
    by (cases consumed) (simp_all add: do_partial_unstake_locked_def position_open_def paid_out_def Let_def
        emit_tier_change_log emit_partial_unstake_def emits_only_log)
qed

lemma do_partial_locked_failed:
  assumes "\<And>tk info consumed. \<not> (k_stake_token (cfg s) = Some tk \<and>
      position_open e staker info amount consumed s \<and> amount < si_balance info \<and>
      \<not> (0 < get_minimum_stake s \<and> si_balance info - amount < get_minimum_stake s))"
  shows "\<exists>er s'. do_partial_unstake_locked T e staker amount s = (Err er, s') \<and> only_logged s s'"
  using assms unfolding do_partial_unstake_locked_def position_open_def
  by (simp split: option.splits sum.splits) force

text \<open>The token refused the transfer.\<close>

lemma do_withdraw_locked_refused:
  assumes "k_stake_token (cfg s) = Some tk" and "position_open e staker info (si_balance info) consumed s"
    and "transfer_tokens T tk (current_contract_address e) staker (si_balance info) s = (Err er, s)"
  shows "do_withdraw_locked T e staker s = (Err er, s)"
  using assms by (simp add: do_withdraw_locked_def position_open_def Let_def)

lemma do_partial_locked_refused:
  assumes "k_stake_token (cfg s) = Some tk" and "position_open e staker info amount consumed s"
    and "amount < si_balance info"
    and "\<not> (0 < get_minimum_stake s \<and> si_balance info - amount < get_minimum_stake s)"
    and "transfer_tokens T tk (current_contract_address e) staker amount s = (Err er, s)"
  shows "do_partial_unstake_locked T e staker amount s = (Err er, s)"
  using assms by (auto simp: do_partial_unstake_locked_def position_open_def Let_def)

text \<open>
  A run of a worker under a conforming token: either the transfer happened and the writes follow it,
  or the call fails and nothing but the event log differs.
\<close>

definition withdraw_paid :: "('t \<Rightarrow> address \<Rightarrow> address \<Rightarrow> int) \<Rightarrow> env \<Rightarrow> address \<Rightarrow> int \<Rightarrow> stake_info_v2 \<Rightarrow>
    int \<Rightarrow> 't vault \<Rightarrow> 't vault \<Rightarrow> bool" where
  "withdraw_paid bal e staker amount info timelocked s s' \<longleftrightarrow>
     (\<exists>tk consumed t log. k_stake_token (cfg s) = Some tk \<and>
        position_open e staker info timelocked consumed s \<and>
        0 \<le> amount \<and> amount \<le> bal (k_tokens s) tk (current_contract_address e) \<and>
        bal t = token_moved tk (current_contract_address e) staker amount (bal (k_tokens s)) \<and>
        s' = paid_out e staker info (si_balance info - amount) consumed t log s)"

lemma do_withdraw_locked_cases:
  assumes "sep41 T bal" and "do_withdraw_locked T e staker s = (r, s')"
  obtains (paid) info where "r = Ok (si_balance info)"
      "withdraw_paid bal e staker (si_balance info) info (si_balance info) s s'"
  | (failed) er where "r = Err er" "only_logged s s'"
proof (cases "\<exists>tk info consumed. k_stake_token (cfg s) = Some tk \<and>
    position_open e staker info (si_balance info) consumed s")
  case False
  then show ?thesis
    using do_withdraw_locked_failed [of s e staker T] assms(2) failed by auto
next
  case True
  then obtain tk info consumed where tk: "k_stake_token (cfg s) = Some tk"
    and pos: "position_open e staker info (si_balance info) consumed s" by blast
  obtain q s2 where tr: "transfer_tokens T tk (current_contract_address e) staker (si_balance info) s = (q, s2)"
    by fastforce
  from assms(1) tr show ?thesis
  proof (cases rule: transfer_tokens_cases)
    case (moved t)
    with do_withdraw_locked_paid [OF tk pos, of T t] tr assms(2) obtain log
      where "r = Ok (si_balance info)"
        "s' = paid_out e staker info (si_balance info - si_balance info) consumed t log s"
      by auto
    with moved tk pos have "withdraw_paid bal e staker (si_balance info) info (si_balance info) s s'"
      unfolding withdraw_paid_def by blast
    with \<open>r = Ok (si_balance info)\<close> show ?thesis by (rule paid)
  next
    case (failed er)
    with do_withdraw_locked_refused [OF tk pos, of T er] tr assms(2) show ?thesis
      by (simp add: that(2))
  qed
qed

lemma do_partial_locked_cases:
  assumes "sep41 T bal" and "do_partial_unstake_locked T e staker amount s = (r, s')"
  obtains (paid) info where "r = Ok amount" "amount < si_balance info"
      "get_minimum_stake s \<le> 0 \<or> get_minimum_stake s \<le> si_balance info - amount"
      "withdraw_paid bal e staker amount info amount s s'"
  | (failed) er where "r = Err er" "only_logged s s'"
proof (cases "\<exists>tk info consumed. k_stake_token (cfg s) = Some tk \<and>
    position_open e staker info amount consumed s \<and> amount < si_balance info \<and>
    \<not> (0 < get_minimum_stake s \<and> si_balance info - amount < get_minimum_stake s)")
  case False
  then show ?thesis
    using do_partial_locked_failed [of s e staker amount T] assms(2) failed by auto
next
  case True
  then obtain tk info consumed where tk: "k_stake_token (cfg s) = Some tk"
    and pos: "position_open e staker info amount consumed s" and le: "amount < si_balance info"
    and mn: "\<not> (0 < get_minimum_stake s \<and> si_balance info - amount < get_minimum_stake s)" by blast
  obtain q s2 where tr: "transfer_tokens T tk (current_contract_address e) staker amount s = (q, s2)"
    by fastforce
  from assms(1) tr show ?thesis
  proof (cases rule: transfer_tokens_cases)
    case (moved t)
    with do_partial_locked_paid [OF tk pos le mn, of T t] tr assms(2) obtain log
      where "r = Ok amount" "s' = paid_out e staker info (si_balance info - amount) consumed t log s"
      by auto
    with moved tk pos have "withdraw_paid bal e staker amount info amount s s'"
      unfolding withdraw_paid_def by blast
    with \<open>r = Ok amount\<close> le mn show ?thesis by (intro paid [of info]) auto
  next
    case (failed er)
    with do_partial_locked_refused [OF tk pos le mn, of T er] tr assms(2) show ?thesis
      by (simp add: that(2))
  qed
qed

section \<open>The guarded workers and the entry points\<close>

lemma with_withdraw_lock_cases:
  assumes "with_withdraw_lock body s = (r, s')"
  obtains (locked) "r = Err ReentrancyDetected" "s' = s" "get_or False (k_withdraw_lock s)"
  | (ran) s1 where "body (s\<lparr>k_withdraw_lock := Some True\<rparr>) = (r, s1)" "s' = s1\<lparr>k_withdraw_lock := None\<rparr>"
      "\<not> get_or False (k_withdraw_lock s)"
  using assms by (auto simp: with_withdraw_lock_def split: if_splits prod.splits)

text \<open>The same result, with the lock released.\<close>

definition withdrawn :: "('t \<Rightarrow> address \<Rightarrow> address \<Rightarrow> int) \<Rightarrow> env \<Rightarrow> address \<Rightarrow> int \<Rightarrow> stake_info_v2 \<Rightarrow>
    int \<Rightarrow> 't vault \<Rightarrow> 't vault \<Rightarrow> bool" where
  "withdrawn bal e staker amount info timelocked s s' \<longleftrightarrow>
     (\<exists>tk consumed t log. k_stake_token (cfg s) = Some tk \<and>
        position_open e staker info timelocked consumed s \<and>
        0 \<le> amount \<and> amount \<le> bal (k_tokens s) tk (current_contract_address e) \<and>
        bal t = token_moved tk (current_contract_address e) staker amount (bal (k_tokens s)) \<and>
        s' = (paid_out e staker info (si_balance info - amount) consumed t log s)\<lparr>k_withdraw_lock := None\<rparr>)"

lemma position_open_lock [simp]:
  "position_open e staker info x c (s\<lparr>k_withdraw_lock := l\<rparr>) = position_open e staker info x c s"
  by (simp add: position_open_def)

lemma paid_out_lock [simp]:
  "(paid_out e staker info rest consumed t log (s\<lparr>k_withdraw_lock := l\<rparr>))\<lparr>k_withdraw_lock := l'\<rparr> =
   (paid_out e staker info rest consumed t log s)\<lparr>k_withdraw_lock := l'\<rparr>"
  by (cases consumed) (simp_all add: paid_out_def)

lemma withdraw_paid_unlock:
  "withdraw_paid bal e staker amount info x (s\<lparr>k_withdraw_lock := Some True\<rparr>) s1 \<Longrightarrow>
   withdrawn bal e staker amount info x s (s1\<lparr>k_withdraw_lock := None\<rparr>)"
  unfolding withdraw_paid_def withdrawn_def by (elim exE conjE) (simp, blast)

definition unchanged_but_log :: "'t vault \<Rightarrow> 't vault \<Rightarrow> bool" where
  "unchanged_but_log s s' \<longleftrightarrow>
     (\<exists>log l. s' = s\<lparr>event_log := log, k_withdraw_lock := l\<rparr> \<and> l \<in> {None, k_withdraw_lock s})"

lemma only_logged_unlock:
  "only_logged (s\<lparr>k_withdraw_lock := Some True\<rparr>) s1 \<Longrightarrow> unchanged_but_log s (s1\<lparr>k_withdraw_lock := None\<rparr>)"
  unfolding only_logged_def unchanged_but_log_def by (elim exE) (simp, blast)

lemma unchanged_refl [simp]: "unchanged_but_log s s"
  unfolding unchanged_but_log_def
  by (rule exI [of _ "event_log s"], rule exI [of _ "k_withdraw_lock s"]) simp

lemma do_withdraw_cases:
  assumes "sep41 T bal" and "do_withdraw T e staker s = (r, s')"
  obtains (paid) info where "r = Ok (si_balance info)"
      "withdrawn bal e staker (si_balance info) info (si_balance info) s s'"
  | (failed) er where "r = Err er" "unchanged_but_log s s'"
  using assms(2) unfolding do_withdraw_def
proof (cases rule: with_withdraw_lock_cases)
  case locked
  then show ?thesis by (auto intro: failed)
next
  case (ran s1)
  from assms(1) ran(1) show ?thesis
  proof (cases rule: do_withdraw_locked_cases)
    case (paid info)
    then show ?thesis using ran(2) by (auto intro: that(1) dest: withdraw_paid_unlock)
  next
    case (failed er)
    then show ?thesis using ran(2) by (auto intro: that(2) dest: only_logged_unlock)
  qed
qed

lemma do_partial_cases:
  assumes "sep41 T bal" and "do_partial_unstake T e staker amount s = (r, s')"
  obtains (paid) info where "r = Ok amount" "amount < si_balance info"
      "get_minimum_stake s \<le> 0 \<or> get_minimum_stake s \<le> si_balance info - amount"
      "withdrawn bal e staker amount info amount s s'"
  | (failed) er where "r = Err er" "unchanged_but_log s s'"
  using assms(2) unfolding do_partial_unstake_def
proof (cases rule: with_withdraw_lock_cases)
  case locked
  then show ?thesis by (auto intro: failed)
next
  case (ran s1)
  from assms(1) ran(1) show ?thesis
  proof (cases rule: do_partial_locked_cases)
    case (paid info)
    then show ?thesis using ran(2) by (auto intro: that(1) dest: withdraw_paid_unlock)
  next
    case (failed er)
    then show ?thesis using ran(2) by (auto intro: that(2) dest: only_logged_unlock)
  qed
qed

lemma withdraw_stake_Ok:
  assumes "withdraw_stake T e staker s = (Ok a, s')"
  obtains s1 where "\<not> is_paused s" "check_rate_limit e staker StakeChange 0 s = (Inr (), s)"
    "has_auth_for_args e staker (get_stake staker s)" "do_withdraw T e staker s = (Ok a, s1)"
    "s' = record_action e staker StakeChange s1"
  using assms
  by (auto simp: withdraw_stake_def record_if_ok_def Let_def dest: check_rate_limit_Inr
      split: if_splits prod.splits sum.splits outcome.splits)

lemma partial_unstake_Ok:
  assumes "partial_unstake T e staker amount s = (Ok a, s')"
  obtains s1 where "\<not> is_paused s" "0 < amount" "check_rate_limit e staker StakeChange 0 s = (Inr (), s)"
    "has_auth e staker" "do_partial_unstake T e staker amount s = (Ok a, s1)"
    "s' = record_action e staker StakeChange s1"
  using assms
  by (auto simp: partial_unstake_def record_if_ok_def Let_def dest: check_rate_limit_Inr
      split: if_splits prod.splits sum.splits outcome.splits)

section \<open>Properties\<close>

lemma withdrawn_facts:
  assumes "withdrawn bal e staker amount info x s s'"
  shows "get_stake staker s = si_balance info"
    "get_stake b s' = (if b = staker then si_balance info - amount else get_stake b s)"
    "\<exists>tk. k_stake_token (cfg s) = Some tk \<and> amount \<le> bal (k_tokens s) tk (current_contract_address e) \<and>
       bal (k_tokens s') = token_moved tk (current_contract_address e) staker amount (bal (k_tokens s))"
    "k_last_stake_ledger s' = k_last_stake_ledger s"
  using assms
  by (auto simp: withdrawn_def position_open_def get_stake_def paid_out_def stakes_def)

lemma withdrawn_timelock:
  assumes "withdrawn bal e staker amount info x s s'" and "LARGE_WITHDRAWAL_THRESHOLD \<le> x"
  shows "\<exists>t. smap_get (k_large_withdrawal_requested_at s) staker = Some t \<and>
     sat_add_u64 t (get_withdrawal_cooldown_secs s) \<le> ledger_timestamp e \<and>
     smap_get (k_large_withdrawal_requested_at s') staker = None"
  using assms
  by (auto simp: withdrawn_def position_open_def timelock_check_def paid_out_def
      split: option.splits if_splits)

lemma record_action_vault [simp]:
  "k_large_withdrawal_requested_at (record_action e u a s) = k_large_withdrawal_requested_at s"
  "k_last_stake_ledger (record_action e u a s) = k_last_stake_ledger s"
  "k_tokens (record_action e u a s) = k_tokens s" "get_stake b (record_action e u a s) = get_stake b s"
  by (rule record_action_frame [of e u a s]; simp add: get_stake_def stakes_def)+

lemma withdraw_stake_withdrawn:
  assumes "sep41 T bal" and "withdraw_stake T e staker s = (Ok a, s')"
  obtains info s1 where "a = si_balance info" "withdrawn bal e staker a info a s s1"
    "s' = record_action e staker StakeChange s1" "\<not> is_paused s" "has_auth_for_args e staker a"
  using assms(2)
proof (cases rule: withdraw_stake_Ok)
  case (1 s1)
  from assms(1) 1(4) show ?thesis
    by (cases rule: do_withdraw_cases) (use 1 in \<open>auto intro: that simp: withdrawn_facts(1)\<close>)
qed

lemma partial_unstake_withdrawn:
  assumes "sep41 T bal" and "partial_unstake T e staker amount s = (Ok a, s')"
  obtains info s1 where "a = amount" "0 < amount" "amount < si_balance info"
    "get_minimum_stake s \<le> 0 \<or> get_minimum_stake s \<le> si_balance info - amount"
    "withdrawn bal e staker amount info amount s s1"
    "s' = record_action e staker StakeChange s1" "\<not> is_paused s" "has_auth e staker"
  using assms(2)
proof (cases rule: partial_unstake_Ok)
  case (1 s1)
  from assms(1) 1(5) show ?thesis
    by (cases rule: do_partial_cases) (use 1 in \<open>auto intro: that\<close>)
qed

lemmas withdraw_defs =
  withdraw_stake_def partial_unstake_def record_if_ok_def do_withdraw_def do_partial_unstake_def
  with_withdraw_lock_def do_withdraw_locked_def do_partial_unstake_locked_def flash_loan_pattern_def
  timelock_check_def get_withdrawal_cooldown_secs_def LARGE_WITHDRAWAL_THRESHOLD_def
  LARGE_WITHDRAWAL_TIMELOCK_SECS_def transfer_tokens_def stakes_def get_stake_def get_minimum_stake_def

lemmas rate_defs =
  check_rate_limit_def rl_check_def current_count_def rl_get_window_def rl_get_config_def
  default_config_def effective_max_def get_first_action_def SECONDS_PER_DAY_def

lemma sample_staked_run:
  "fst (withdraw_stake asset_contract (sample_env 4000 7) (Addr 3) sample_staked) = Ok 600000000"
  "fst (partial_unstake asset_contract (sample_env 4000 7) (Addr 3) 500000000 sample_staked) = Ok 500000000"
  "k_stake_token (cfg sample_staked) = Some (Addr 9)" "get_stake (Addr 3) sample_staked = 600000000"
  by (simp_all add: withdraw_defs rate_defs sample_staked_def sample_defs sat_add_u64_def u64_max_def
      emit_tier_change_log)



text \<open>
  C19: A successful partial withdrawal pays exactly the requested amount, which is positive and
  smaller than the stake; the rest stays staked under the old lock and is at least the configured
  minimum, and no other stake changes.
\<close>

theorem partial_unstake_effect:
  assumes "sep41 T bal" and "partial_unstake T e staker amount s = (Ok a, s')"
    and "k_stake_token (cfg s) = Some tk"
  shows "a = amount \<and> 0 < amount \<and> amount < get_stake staker s \<and>
    (\<forall>b. get_stake b s' = get_stake b s - (if b = staker then amount else 0)) \<and>
    bal (k_tokens s') = token_moved tk (current_contract_address e) staker amount (bal (k_tokens s)) \<and>
    (0 < get_minimum_stake s \<longrightarrow> get_minimum_stake s \<le> get_stake staker s') \<and>
    has_auth e staker \<and> \<not> is_paused s \<and> \<not> flash_loan_pattern e staker s"
  using assms(1,2)
proof (cases rule: partial_unstake_withdrawn)
  case (1 info s1)
  with withdrawn_facts [OF 1(5)] assms(3) show ?thesis
    by (auto simp: withdrawn_def position_open_def)
qed

theorem partial_unstake_effect_witness:
  "get_stake (Addr 3) (snd (partial_unstake asset_contract (sample_env 4000 7) (Addr 3) 500000000 sample_staked))
     = 100000000"
  using partial_unstake_effect [OF asset_contract_sep41 run_ok [OF sample_staked_run(2)] sample_staked_run(3)]
  by (simp add: sample_staked_run(4))

text \<open>
  Whoever takes out 500 000 000 or more, in full or in part, had filed a withdrawal request at
  least the configured cooldown before, and the request is used up by the withdrawal.
\<close>

theorem large_withdrawal_timelock:
  assumes "sep41 T bal" and "500000000 \<le> a"
    and "withdraw_stake T e staker s = (Ok a, s') \<or> partial_unstake T e staker amount s = (Ok a, s')"
  shows "\<exists>t. smap_get (k_large_withdrawal_requested_at s) staker = Some t \<and>
     sat_add_u64 t (get_withdrawal_cooldown_secs s) \<le> ledger_timestamp e \<and>
     smap_get (k_large_withdrawal_requested_at s') staker = None"
  using assms(3)
proof
  assume "withdraw_stake T e staker s = (Ok a, s')"
  with assms(1) show ?thesis
    by (cases rule: withdraw_stake_withdrawn)
       (use assms(2) in \<open>auto dest: withdrawn_timelock simp: LARGE_WITHDRAWAL_THRESHOLD_def\<close>)
next
  assume "partial_unstake T e staker amount s = (Ok a, s')"
  with assms(1) show ?thesis
    by (cases rule: partial_unstake_withdrawn)
       (use assms(2) in \<open>auto dest: withdrawn_timelock simp: LARGE_WITHDRAWAL_THRESHOLD_def\<close>)
qed

theorem large_withdrawal_timelock_witness:
  "smap_get (k_large_withdrawal_requested_at
     (snd (withdraw_stake asset_contract (sample_env 4000 7) (Addr 3) sample_staked))) (Addr 3) = None"
proof -
  have "(500000000::int) \<le> 600000000" by simp
  from large_withdrawal_timelock [OF asset_contract_sep41 this disjI1 [OF run_ok [OF sample_staked_run(1)]]]
  show ?thesis by blast
qed

text \<open>
  A withdrawal worker that fails (for whatever reason, including a refused token transfer)
  leaves the whole state as it was, apart from the event log; in particular the position can be
  retried. The unstake queue relies on this, because it continues after a failed entry.
\<close>

theorem failed_withdraw_atomic:
  assumes "sep41 T bal" and "\<not> get_or False (k_withdraw_lock s)"
    and "do_withdraw T e staker s = (Err er, s') \<or> do_partial_unstake T e staker amount s = (Err er, s')"
  shows "s' = s\<lparr>event_log := event_log s', k_withdraw_lock := None\<rparr>"
proof -
  have "s' = s\<lparr>event_log := event_log s', k_withdraw_lock := None\<rparr>"
    if "only_logged (s\<lparr>k_withdraw_lock := Some True\<rparr>) s1" "s' = s1\<lparr>k_withdraw_lock := None\<rparr>" for s1
    using that by (auto simp: only_logged_def)
  moreover have "\<exists>s1. only_logged (s\<lparr>k_withdraw_lock := Some True\<rparr>) s1 \<and> s' = s1\<lparr>k_withdraw_lock := None\<rparr>"
    using assms(3)
  proof
    assume "do_withdraw T e staker s = (Err er, s')"
    then show ?thesis unfolding do_withdraw_def
      by (cases rule: with_withdraw_lock_cases)
         (use assms(1,2) in \<open>auto elim: do_withdraw_locked_cases\<close>)
  next
    assume "do_partial_unstake T e staker amount s = (Err er, s')"
    then show ?thesis unfolding do_partial_unstake_def
      by (cases rule: with_withdraw_lock_cases)
         (use assms(1,2) in \<open>auto elim: do_partial_locked_cases\<close>)
  qed
  ultimately show ?thesis by blast
qed

theorem failed_withdraw_atomic_witness:
  "k_stakes_v2 (snd (do_withdraw asset_contract (sample_env 3000 7) (Addr 3) sample_staked)) =
     k_stakes_v2 sample_staked"
proof -
  have "fst (do_withdraw asset_contract (sample_env 3000 7) (Addr 3) sample_staked) = Err TimelockNotElapsed"
    and unlocked: "\<not> get_or False (k_withdraw_lock sample_staked)"
    by (simp_all add: withdraw_defs sample_staked_def sample_defs sat_add_u64_def u64_max_def)
  then have "do_withdraw asset_contract (sample_env 3000 7) (Addr 3) sample_staked =
      (Err TimelockNotElapsed, snd (do_withdraw asset_contract (sample_env 3000 7) (Addr 3) sample_staked))"
    by (metis prod.collapse)
  from arg_cong [OF failed_withdraw_atomic [OF asset_contract_sep41 unlocked disjI1 [OF this]], of k_stakes_v2]
  show ?thesis by simp
qed

end
