(* ===== verification/Vault_Queue.thy ===== *)
theory Vault_Queue
  imports Vault_Withdraw
begin

text \<open>
  The unstake queue of \<^verbatim>\<open>stake_vault/src/lib.rs\<close>: tickets are handed out at the tail, requests are
  processed from the head in order, and processing stops at the first request that fails.
\<close>

definition queue_head :: "'t vault \<Rightarrow> nat" where
  "queue_head s = get_or 0 (k_unstake_queue_head s)"

definition queue_tail :: "'t vault \<Rightarrow> nat" where
  "queue_tail s = get_or 0 (k_unstake_queue_tail s)"

definition queue_unstake :: "env \<Rightarrow> address \<Rightarrow> 't vault \<Rightarrow> ('t, nat) vault_result" where
  "queue_unstake e staker s =
     (if \<not> has_auth e staker then (Panic, s)
      else if is_paused s then (Err ContractPaused, s)
      else if smap_has (k_user_unstake_ticket s) staker then (Err UnstakeAlreadyQueued, s)
      else (case smap_get (stakes s) staker of
         None \<Rightarrow> (Err NoStake, s)
       | Some info \<Rightarrow>
           if si_balance info = 0 then (Err NoStake, s)
           else (let tail = queue_tail s; head = queue_head s
                 in if tail - head \<ge> get_max_unstake_queue_size s then (Err QueueFull, s)
                    else (let ticket = tail;
                              queue_position = tail - head;
                              request = \<lparr>ur_ticket = ticket, ur_user = staker,
                                         ur_queued_at = ledger_timestamp e\<rparr>;
                              s1 = s\<lparr>k_unstake_queue_entry :=
                                       smap_set (k_unstake_queue_entry s) ticket request,
                                     k_user_unstake_ticket :=
                                       smap_set (k_user_unstake_ticket s) staker ticket,
                                     k_unstake_queue_tail := Some (sat_add_u64 tail 1)\<rparr>
                          in (Ok ticket, emit_unstake_queued staker ticket queue_position s1)))))"

text \<open>
  The loop of \<^verbatim>\<open>process_unstake_queue\<close> with its local variables \<^verbatim>\<open>processed\<close> and \<^verbatim>\<open>current_head\<close>.
  \<^verbatim>\<open>current_head.saturating_add(1)\<close> is \<open>Suc\<close> because the head stays below the tail, a \<^verbatim>\<open>u64\<close>; a
  missing entry only moves the head, an \<^verbatim>\<open>Err\<close> breaks the loop. The result is the outcome with both
  variables, and the state.
\<close>

function process_loop :: "'t token_impl \<Rightarrow> env \<Rightarrow> nat \<Rightarrow> nat \<Rightarrow> nat \<Rightarrow> nat \<Rightarrow> 't vault \<Rightarrow>
    ('t, nat \<times> nat) vault_result" where
  "process_loop T e limit tail processed current_head s =
     (if processed < limit \<and> current_head < tail then
        (case smap_get (k_unstake_queue_entry s) current_head of
           None \<Rightarrow> process_loop T e limit tail processed (Suc current_head) s
         | Some request \<Rightarrow>
             (case do_withdraw T e (ur_user request) s of
                (Ok amount, s1) \<Rightarrow>
                  let s2 = s1\<lparr>k_unstake_queue_entry :=
                                smap_remove (k_unstake_queue_entry s1) current_head,
                              k_user_unstake_ticket :=
                                smap_remove (k_user_unstake_ticket s1) (ur_user request)\<rparr>;
                      s3 = record_action e (ur_user request) StakeChange s2;
                      s4 = emit_unstake_processed (ur_user request) (ur_ticket request) amount s3
                  in process_loop T e limit tail (sat_add_u32 processed 1) (Suc current_head) s4
              | (Err _, s1) \<Rightarrow> (Ok (processed, current_head), s1)
              | (Panic, s1) \<Rightarrow> (Panic, s1)))
      else (Ok (processed, current_head), s))"
  by pat_completeness auto

termination
  by (relation "measure (\<lambda>(T, e, limit, tail, processed, current_head, s). tail - current_head)") auto

declare process_loop.simps [simp del]

definition process_unstake_queue :: "'t token_impl \<Rightarrow> env \<Rightarrow> nat \<Rightarrow> 't vault \<Rightarrow> ('t, nat) vault_result" where
  "process_unstake_queue T e limit s =
     (if is_paused s then (Err ContractPaused, s)
      else if limit = 0 then (Ok 0, s)
      else (let head = queue_head s; tail = queue_tail s
            in if head \<ge> tail then (Err QueueEmpty, s)
               else (case process_loop T e limit tail 0 head s of
                  (Ok (processed, current_head), s1) \<Rightarrow>
                    (Ok processed, s1\<lparr>k_unstake_queue_head := Some current_head\<rparr>)
                | (Err er, s1) \<Rightarrow> (Err er, s1)
                | (Panic, s1) \<Rightarrow> (Panic, s1))))"

definition get_queue_position :: "address \<Rightarrow> 't vault \<Rightarrow> nat option" where
  "get_queue_position user s =
     (case smap_get (k_user_unstake_ticket s) user of
        None \<Rightarrow> None
      | Some ticket \<Rightarrow> Some (ticket - queue_head s))"

section \<open>What a withdrawal leaves alone\<close>

definition queue_part :: "'t vault \<Rightarrow> nat option \<times> nat option \<times> (nat, unstake_request) smap \<times> (address, nat) smap" where
  "queue_part s =
     (k_unstake_queue_tail s, k_unstake_queue_head s, k_unstake_queue_entry s, k_user_unstake_ticket s)"

lemma transfer_queue_part: "transfer_tokens T tk a b x s = (r, s') \<Longrightarrow> queue_part s' = queue_part s"
  by (auto simp: transfer_tokens_def queue_part_def split: prod.splits)

lemma queue_part_irrelevant [simp]:
  "queue_part (emit_provider_tier_change p a b c s) = queue_part s"
  "queue_part (emit_flash_loan_attempt p bl n s) = queue_part s"
  "queue_part (s\<lparr>k_stakes_v2 := x\<rparr>) = queue_part s" "queue_part (s\<lparr>k_large_withdrawal_requested_at := y\<rparr>) = queue_part s"
  "queue_part (s\<lparr>k_withdraw_lock := l\<rparr>) = queue_part s"
  by (simp_all add: queue_part_def emit_tier_change_log emit_flash_loan_attempt_def emits_only_log)

lemma do_withdraw_locked_queue_part:
  "do_withdraw_locked T e u s = (r, s') \<Longrightarrow> queue_part s' = queue_part s"
  unfolding do_withdraw_locked_def Let_def
  by (auto split: option.splits if_splits sum.splits prod.splits outcome.splits dest: transfer_queue_part)

lemma do_withdraw_queue_part:
  assumes "do_withdraw T e u s = (r, s')" shows "queue_part s' = queue_part s"
  using assms unfolding do_withdraw_def
  by (cases rule: with_withdraw_lock_cases) (auto dest: do_withdraw_locked_queue_part)

lemma record_action_queue_part [simp]: "queue_part (record_action e u a s) = queue_part s"
  by (rule record_action_frame [of e u a s]) (simp add: queue_part_def)

lemma queue_part_D:
  assumes "queue_part s' = queue_part s"
  shows "queue_tail s' = queue_tail s" "queue_head s' = queue_head s"
    "k_unstake_queue_entry s' = k_unstake_queue_entry s" "k_user_unstake_ticket s' = k_user_unstake_ticket s"
  using assms by (simp_all add: queue_part_def queue_tail_def queue_head_def)

section \<open>The queue as a list\<close>

text \<open>
  The slots from \<open>h\<close> to the tail are exactly the occupied ones, every request carries its slot
  number, and users and slots determine each other. The queue is then the list of its users.
\<close>

definition queue_inv_from :: "nat \<Rightarrow> 't vault \<Rightarrow> bool" where
  "queue_inv_from h s \<longleftrightarrow> h \<le> queue_tail s \<and>
     (\<forall>t. smap_get (k_unstake_queue_entry s) t \<noteq> None \<longleftrightarrow> h \<le> t \<and> t < queue_tail s) \<and>
     (\<forall>t r. smap_get (k_unstake_queue_entry s) t = Some r \<longrightarrow>
        ur_ticket r = t \<and> smap_get (k_user_unstake_ticket s) (ur_user r) = Some t) \<and>
     (\<forall>u t. smap_get (k_user_unstake_ticket s) u = Some t \<longrightarrow>
        (\<exists>r. smap_get (k_unstake_queue_entry s) t = Some r \<and> ur_user r = u))"

definition queue_inv :: "'t vault \<Rightarrow> bool" where
  "queue_inv s \<longleftrightarrow> queue_inv_from (queue_head s) s"

definition user_at :: "'t vault \<Rightarrow> nat \<Rightarrow> address" where
  "user_at s t = (case smap_get (k_unstake_queue_entry s) t of None \<Rightarrow> Addr 0 | Some r \<Rightarrow> ur_user r)"

definition queue_from :: "nat \<Rightarrow> 't vault \<Rightarrow> address list" where
  "queue_from h s = map (user_at s) [h..<queue_tail s]"

definition queue_abs :: "'t vault \<Rightarrow> address list" where
  "queue_abs s = queue_from (queue_head s) s"

text \<open>The state after one served request.\<close>

definition dequeued :: "env \<Rightarrow> unstake_request \<Rightarrow> int \<Rightarrow> nat \<Rightarrow> 't vault \<Rightarrow> 't vault" where
  "dequeued e req amount h s =
     emit_unstake_processed (ur_user req) (ur_ticket req) amount
       (record_action e (ur_user req) StakeChange
          (s\<lparr>k_unstake_queue_entry := smap_remove (k_unstake_queue_entry s) h,
             k_user_unstake_ticket := smap_remove (k_user_unstake_ticket s) (ur_user req)\<rparr>))"

lemma dequeued_fields [simp]:
  "queue_tail (dequeued e req amount h s) = queue_tail s"
  "queue_head (dequeued e req amount h s) = queue_head s"
  "k_unstake_queue_entry (dequeued e req amount h s) = smap_remove (k_unstake_queue_entry s) h"
  "k_user_unstake_ticket (dequeued e req amount h s) = smap_remove (k_user_unstake_ticket s) (ur_user req)"
proof -
  let ?s = "s\<lparr>k_unstake_queue_entry := smap_remove (k_unstake_queue_entry s) h,
             k_user_unstake_ticket := smap_remove (k_user_unstake_ticket s) (ur_user req)\<rparr>"
  have "queue_part (dequeued e req amount h s) = queue_part ?s"
    using record_action_queue_part [of e "ur_user req" StakeChange ?s]
    by (simp add: dequeued_def emit_unstake_processed_def emits_only_log queue_part_def)
  note queue_part_D [OF this]
  then show "queue_tail (dequeued e req amount h s) = queue_tail s"
    "queue_head (dequeued e req amount h s) = queue_head s"
    "k_unstake_queue_entry (dequeued e req amount h s) = smap_remove (k_unstake_queue_entry s) h"
    "k_user_unstake_ticket (dequeued e req amount h s) = smap_remove (k_user_unstake_ticket s) (ur_user req)"
    by (simp_all add: queue_tail_def queue_head_def)
qed

lemma queue_inv_dequeued:
  assumes "queue_inv_from h s" and "smap_get (k_unstake_queue_entry s) h = Some req" and "queue_part s1 = queue_part s"
  shows "queue_inv_from (Suc h) (dequeued e req amount h s1)"
    "queue_from h s = ur_user req # queue_from (Suc h) (dequeued e req amount h s1)"
proof -
  note qp = queue_part_D [OF assms(3)]
  have h: "h < queue_tail s" using assms(1,2) unfolding queue_inv_from_def by (metis option.distinct(1))
  have tk: "smap_get (k_user_unstake_ticket s) (ur_user req) = Some h"
    using assms(1,2) by (auto simp: queue_inv_from_def)
  have other: "t = h" if "smap_get (k_unstake_queue_entry s) t = Some r" "ur_user r = ur_user req" for t r
  proof -
    from that(1) assms(1) have "smap_get (k_user_unstake_ticket s) (ur_user r) = Some t"
      by (auto simp: queue_inv_from_def)
    with tk that(2) show ?thesis by simp
  qed
  have uniq: "u = ur_user req" if "smap_get (k_user_unstake_ticket s) u = Some h" for u
  proof -
    from that assms(1) obtain r where "smap_get (k_unstake_queue_entry s) h = Some r" "ur_user r = u"
      unfolding queue_inv_from_def by blast
    with assms(2) show ?thesis by simp
  qed
  show "queue_inv_from (Suc h) (dequeued e req amount h s1)"
    unfolding queue_inv_from_def
  proof (intro conjI allI impI, goal_cases)
    case 1 from h show ?case by (simp add: qp)
  next
    case (2 t) from assms(1) h show ?case by (auto simp: qp queue_inv_from_def Suc_le_eq)
  next
    case (3 t r) with assms(1) show ?case by (auto simp: qp queue_inv_from_def split: if_splits)
  next
    case (4 t r) with assms(1) other [of t r] show ?case by (auto simp: qp queue_inv_from_def split: if_splits)
  next
    case (5 u t)
    then have u: "smap_get (k_user_unstake_ticket s) u = Some t" "u \<noteq> ur_user req" by (auto simp: qp split: if_splits)
    with assms(1) obtain r where "smap_get (k_unstake_queue_entry s) t = Some r" "ur_user r = u"
      unfolding queue_inv_from_def by blast
    moreover have "t \<noteq> h" using u uniq by auto
    ultimately show ?case by (auto simp: qp)
  qed
  have "[h..<queue_tail s] = h # [Suc h..<queue_tail s]" using h by (rule upt_conv_Cons)
  then show "queue_from h s = ur_user req # queue_from (Suc h) (dequeued e req amount h s1)"
    using assms(2) by (auto simp: queue_from_def user_at_def qp)
qed

lemma process_loop_spec:
  assumes "process_loop T e limit tail processed h s = (Ok (p, h'), s')"
    and "queue_inv_from h s" "tail = queue_tail s" "limit \<le> u32_max" "processed \<le> limit"
  shows "queue_inv_from h' s' \<and> h \<le> h' \<and> p = processed + (h' - h) \<and> p \<le> limit \<and>
    queue_tail s' = tail \<and> queue_head s' = queue_head s \<and> queue_from h' s' = drop (h' - h) (queue_from h s)"
  using assms
proof (induction T e limit tail processed h s arbitrary: p rule: process_loop.induct)
  case (1 T e limit tail processed h s)
  note prems = 1(3-) and IH = 1(1,2)
  show ?case
  proof (cases "processed < limit \<and> h < tail")
    case False
    with prems show ?thesis by (subst (asm) process_loop.simps) auto
  next
    case True
    with prems(2,3) obtain req where req: "smap_get (k_unstake_queue_entry s) h = Some req"
      unfolding queue_inv_from_def by (metis not_None_eq order_refl)
    obtain r s1 where w: "do_withdraw T e (ur_user req) s = (r, s1)" by fastforce
    note qp = do_withdraw_queue_part [OF w]
    show ?thesis
    proof (cases r)
      case (Ok amount)
      let ?s = "dequeued e req amount h s1"
      have sat: "sat_add_u32 processed 1 = processed + 1"
        using True prems(4) by (intro sat_add_u32_id) simp
      have run: "process_loop T e limit tail (processed + 1) (Suc h) ?s = (Ok (p, h'), s')"
        using prems(1) True req w Ok sat
        by (subst (asm) process_loop.simps) (simp add: dequeued_def Let_def)
      note deq = queue_inv_dequeued [OF prems(2) req qp, of e amount]
      have "queue_inv_from h' s' \<and> Suc h \<le> h' \<and> p = processed + 1 + (h' - Suc h) \<and> p \<le> limit \<and>
          queue_tail s' = tail \<and> queue_head s' = queue_head ?s \<and> queue_from h' s' = drop (h' - Suc h) (queue_from (Suc h) ?s)"
        using run deq(1) prems(3-5) True queue_part_D(1) [OF qp]
        by (intro IH(2) [OF True req w [symmetric, unfolded Ok] refl refl refl refl, folded dequeued_def, unfolded sat])
           simp_all
      moreover have "h' - h = Suc (h' - Suc h)" if "Suc h \<le> h'" using that by simp
      ultimately show ?thesis
        using deq(2) queue_part_D(2) [OF qp] by auto
    next
      case (Err er)
      with prems(1) True req w have "(p, h', s') = (processed, h, s1)"
        by (subst (asm) process_loop.simps) simp
      with prems(2,3,5) queue_part_D [OF qp] show ?thesis
        by (auto simp: queue_inv_from_def queue_from_def user_at_def)
    next
      case Panic
      with prems(1) True req w show ?thesis
        by (subst (asm) process_loop.simps) simp
    qed
  qed
qed

lemma process_unstake_queue_Ok:
  assumes "process_unstake_queue T e limit s = (Ok n, s')" and "limit \<noteq> 0"
  obtains h' s1 where "process_loop T e limit (queue_tail s) 0 (queue_head s) s = (Ok (n, h'), s1)"
    "s' = s1\<lparr>k_unstake_queue_head := Some h'\<rparr>" "queue_head s < queue_tail s" "\<not> is_paused s"
  using assms by (auto simp: process_unstake_queue_def Let_def split: if_splits prod.splits outcome.splits)

lemma process_unstake_queue_spec:
  assumes "process_unstake_queue T e limit s = (Ok n, s')" and "queue_inv s" and "limit \<le> u32_max"
  shows "queue_inv s' \<and> n \<le> limit \<and> n \<le> length (queue_abs s) \<and> queue_abs s' = drop n (queue_abs s)"
proof (cases "limit = 0")
  case True
  with assms show ?thesis by (auto simp: process_unstake_queue_def split: if_splits)
next
  case False
  with assms(1) show ?thesis
  proof (cases rule: process_unstake_queue_Ok)
    case (1 h' s1)
    from process_loop_spec [OF 1(1)] assms(2,3)
    have spec: "queue_inv_from h' s1" "queue_head s \<le> h'" "n = h' - queue_head s" "n \<le> limit"
      "queue_tail s1 = queue_tail s" "queue_from h' s1 = drop (h' - queue_head s) (queue_from (queue_head s) s)"
      by (simp_all add: queue_inv_def)
    have head: "queue_head s' = h'" "queue_inv_from h' s' = queue_inv_from h' s1" "queue_from h' s' = queue_from h' s1"
      using 1(2) by (simp_all add: queue_head_def queue_inv_from_def queue_from_def user_at_def queue_tail_def)
    have "h' \<le> queue_tail s" using spec(1,5) by (simp add: queue_inv_from_def)
    with spec head show ?thesis
      by (simp add: queue_inv_def queue_abs_def) (simp add: queue_from_def)
  qed
qed

lemma queue_unstake_Ok:
  assumes "queue_unstake e u s = (Ok t, s')"
  shows "t = queue_tail s" "smap_get (k_user_unstake_ticket s) u = None" "0 < get_stake u s \<or> get_stake u s < 0"
    "queue_tail s - queue_head s < get_max_unstake_queue_size s" "has_auth e u" "\<not> is_paused s"
    "queue_head s' = queue_head s" "queue_tail s' = sat_add_u64 (queue_tail s) 1"
    "k_unstake_queue_entry s' = smap_set (k_unstake_queue_entry s) t
       \<lparr>ur_ticket = t, ur_user = u, ur_queued_at = ledger_timestamp e\<rparr>"
    "k_user_unstake_ticket s' = smap_set (k_user_unstake_ticket s) u t"
    "get_max_unstake_queue_size s' = get_max_unstake_queue_size s"
  using assms
  by (auto simp: queue_unstake_def Let_def smap_has_def get_stake_def emit_unstake_queued_def emits_only_log
      queue_head_def queue_tail_def get_max_unstake_queue_size_def split: if_splits option.splits)

lemma queue_unstake_spec:
  assumes "queue_unstake e u s = (Ok t, s')" and "queue_inv s" and "queue_tail s < u64_max"
  shows "queue_inv s'" "queue_abs s' = queue_abs s @ [u]" "t = queue_head s + length (queue_abs s)"
proof -
  note q = queue_unstake_Ok [OF assms(1)]
  have tail: "queue_tail s' = Suc (queue_tail s)" using q(8) assms(3) by (simp add: sat_add_u64_def)
  have free: "smap_get (k_unstake_queue_entry s) (queue_tail s) = None"
    using assms(2) unfolding queue_inv_def queue_inv_from_def by (metis less_irrefl)
  have ht: "queue_head s \<le> queue_tail s" using assms(2) by (simp add: queue_inv_def queue_inv_from_def)
  show "queue_inv s'"
    unfolding queue_inv_def queue_inv_from_def
  proof (intro conjI allI impI, goal_cases)
    case 1 from ht tail q(7) show ?case by simp
  next
    case (2 x) from assms(2) ht show ?case by (auto simp: q(1,7,9) tail queue_inv_def queue_inv_from_def)
  next
    case (3 x r) with assms(2) show ?case by (auto simp: q(9) queue_inv_def queue_inv_from_def split: if_splits)
  next
    case (4 x r) with assms(2) q(2) show ?case
      by (auto simp: q(9,10) queue_inv_def queue_inv_from_def split: if_splits)
  next
    case (5 v x)
    show ?case
    proof (cases "v = u")
      case False
      with 5 have "smap_get (k_user_unstake_ticket s) v = Some x" by (simp add: q(10))
      with assms(2) obtain r where "smap_get (k_unstake_queue_entry s) x = Some r" "ur_user r = v"
        unfolding queue_inv_def queue_inv_from_def by blast
      with free show ?thesis by (auto simp: q(1,9))
    qed (use 5 in \<open>simp add: q(9,10)\<close>)
  qed
  show "queue_abs s' = queue_abs s @ [u]"
    using ht by (auto simp: queue_abs_def queue_from_def user_at_def q(1,7,9) tail)
  show "t = queue_head s + length (queue_abs s)"
    using ht q(1) by (simp add: queue_abs_def queue_from_def)
qed

section \<open>The queue as a first-in-first-out queue\<close>

text \<open>
  What a first-in-first-out queue promises: who joins goes to the end, serving takes from the
  front, everything else leaves the waiting list alone. A client that counts the arrivals and the
  number of served entries then knows the waiting list.
\<close>

locale fifo_queue =
  fixes inv :: "'s \<Rightarrow> bool" and items :: "'s \<Rightarrow> 'a list"
    and join :: "'s \<Rightarrow> 'a \<Rightarrow> 's \<Rightarrow> bool" and serve :: "'s \<Rightarrow> nat \<Rightarrow> 's \<Rightarrow> bool" and other :: "'s \<Rightarrow> 's \<Rightarrow> bool"
  assumes join: "inv s \<Longrightarrow> join s a s' \<Longrightarrow> inv s' \<and> items s' = items s @ [a]"
    and serve: "inv s \<Longrightarrow> serve s n s' \<Longrightarrow> inv s' \<and> n \<le> length (items s) \<and> items s' = drop n (items s)"
    and other: "inv s \<Longrightarrow> other s s' \<Longrightarrow> inv s' \<and> items s' = items s"
begin

definition tallied :: "'s \<Rightarrow> 'a list \<Rightarrow> nat \<Rightarrow> 's \<Rightarrow> bool" where
  "tallied s0 arrivals served s \<longleftrightarrow>
     inv s \<and> served \<le> length (items s0 @ arrivals) \<and> items s = drop served (items s0 @ arrivals)"

lemma tallied_start: "inv s0 \<Longrightarrow> tallied s0 [] 0 s0"
  by (simp add: tallied_def)

lemma tallied_join: "tallied s0 arr k s \<Longrightarrow> join s a s' \<Longrightarrow> tallied s0 (arr @ [a]) k s'"
  using join [of s a s'] by (auto simp: tallied_def)

lemma tallied_serve: "tallied s0 arr k s \<Longrightarrow> serve s n s' \<Longrightarrow> tallied s0 arr (k + n) s'"
  using serve [of s n s'] by (auto simp: tallied_def add.commute simp del: drop_append)

lemma tallied_other: "tallied s0 arr k s \<Longrightarrow> other s s' \<Longrightarrow> tallied s0 arr k s'"
  using other [of s s'] by (auto simp: tallied_def)

end

definition queue_joins :: "'t vault \<Rightarrow> address \<Rightarrow> 't vault \<Rightarrow> bool" where
  "queue_joins s u s' \<longleftrightarrow> queue_tail s < u64_max \<and> (\<exists>e t. invoke (queue_unstake e u) s = (Ok t, s'))"

definition queue_serves :: "'t token_impl \<Rightarrow> 't vault \<Rightarrow> nat \<Rightarrow> 't vault \<Rightarrow> bool" where
  "queue_serves T s n s' \<longleftrightarrow>
     (\<exists>e limit. limit \<le> u32_max \<and> invoke (process_unstake_queue T e limit) s = (Ok n, s'))"

definition queue_untouched :: "'t vault \<Rightarrow> 't vault \<Rightarrow> bool" where
  "queue_untouched s s' \<longleftrightarrow> queue_part s' = queue_part s"

lemma queue_inv_part:
  assumes "queue_part s' = queue_part s" shows "queue_inv s' = queue_inv s \<and> queue_abs s' = queue_abs s"
  using queue_part_D [OF assms]
  by (simp add: queue_inv_def queue_inv_from_def queue_abs_def queue_from_def user_at_def [abs_def])

interpretation unstake_fifo: fifo_queue queue_inv queue_abs queue_joins "queue_serves T" queue_untouched
  for T :: "'t token_impl"
proof
  fix s s' :: "'t vault" and a n
  assume inv: "queue_inv s"
  show "queue_joins s a s' \<Longrightarrow> queue_inv s' \<and> queue_abs s' = queue_abs s @ [a]"
    using inv by (auto simp: queue_joins_def dest: queue_unstake_spec)
  show "queue_serves T s n s' \<Longrightarrow> queue_inv s' \<and> n \<le> length (queue_abs s) \<and> queue_abs s' = drop n (queue_abs s)"
    using inv by (auto simp: queue_serves_def dest: process_unstake_queue_spec)
  show "queue_untouched s s' \<Longrightarrow> queue_inv s' \<and> queue_abs s' = queue_abs s"
    using inv by (auto simp: queue_untouched_def dest: queue_inv_part)
qed

text \<open>A run of the vault from \<open>s0\<close>, with the users that joined in order and the number of served requests.\<close>

inductive queue_run :: "'t token_impl \<Rightarrow> 't vault \<Rightarrow> address list \<Rightarrow> nat \<Rightarrow> 't vault \<Rightarrow> bool"
  for T :: "'t token_impl" and s0 :: "'t vault" where
  start: "queue_run T s0 [] 0 s0"
| joined: "queue_run T s0 arr k s \<Longrightarrow> queue_joins s u s' \<Longrightarrow> queue_run T s0 (arr @ [u]) k s'"
| served: "queue_run T s0 arr k s \<Longrightarrow> queue_serves T s n s' \<Longrightarrow> queue_run T s0 arr (k + n) s'"
| untouched: "queue_run T s0 arr k s \<Longrightarrow> queue_untouched s s' \<Longrightarrow> queue_run T s0 arr k s'"

lemma queue_run_tallied:
  assumes "queue_run T s0 arr k s" and "queue_inv s0"
  shows "unstake_fifo.tallied s0 arr k s"
  using assms
proof induction
  case start
  then show ?case by (rule unstake_fifo.tallied_start)
next
  case (joined arr k s u s')
  then show ?case by (blast intro: unstake_fifo.tallied_join)
next
  case (served arr k s n s')
  then show ?case by (blast intro: unstake_fifo.tallied_serve)
next
  case (untouched arr k s s')
  then show ?case by (blast intro: unstake_fifo.tallied_other)
qed

section \<open>What serving pays\<close>

lemma queue_from_distinct: "queue_inv_from h s \<Longrightarrow> distinct (queue_from h s)"
proof -
  assume inv: "queue_inv_from h s"
  have "inj_on (user_at s) {h..<queue_tail s}"
  proof (rule inj_onI)
    fix t t' assume "t \<in> {h..<queue_tail s}" "t' \<in> {h..<queue_tail s}" "user_at s t = user_at s t'"
    moreover from this inv obtain r r' where "smap_get (k_unstake_queue_entry s) t = Some r"
      "smap_get (k_unstake_queue_entry s) t' = Some r'"
      unfolding queue_inv_from_def by (metis atLeastLessThan_iff not_None_eq)
    moreover have "smap_get (k_user_unstake_ticket s) (ur_user r) = Some t"
      "smap_get (k_user_unstake_ticket s) (ur_user r') = Some t'"
      using inv calculation(4,5) unfolding queue_inv_from_def by blast+
    ultimately show "t = t'" by (simp add: user_at_def)
  qed
  then show ?thesis by (simp add: queue_from_def distinct_map)
qed

text \<open>Each user of \<open>U\<close> was paid the whole stake, nobody else's stake or balance changed.\<close>

definition paid_users :: "('t \<Rightarrow> address \<Rightarrow> address \<Rightarrow> int) \<Rightarrow> address \<Rightarrow> address \<Rightarrow> address set \<Rightarrow> 't vault \<Rightarrow> 't vault \<Rightarrow> bool" where
  "paid_users bal tk vault U s s' \<longleftrightarrow>
     (\<forall>u. get_stake u s' = (if u \<in> U then 0 else get_stake u s) \<and>
        (u \<noteq> vault \<longrightarrow> bal (k_tokens s') tk u = bal (k_tokens s) tk u + (if u \<in> U then get_stake u s else 0)))"

lemma paid_users_refl [simp]: "paid_users bal tk vault {} s s"
  by (simp add: paid_users_def)

lemma paid_users_trans:
  "paid_users bal tk vault U s s1 \<Longrightarrow> paid_users bal tk vault V s1 s2 \<Longrightarrow> U \<inter> V = {} \<Longrightarrow>
   paid_users bal tk vault (U \<union> V) s s2"
  unfolding paid_users_def by auto

lemma dequeued_vault [simp]:
  "get_stake v (dequeued e req a h s) = get_stake v s" "k_tokens (dequeued e req a h s) = k_tokens s"
  "k_stake_token (cfg (dequeued e req a h s)) = k_stake_token (cfg s)"
  unfolding dequeued_def
  by (rule record_action_frame [of e "ur_user req" StakeChange
        "s\<lparr>k_unstake_queue_entry := smap_remove (k_unstake_queue_entry s) h,
           k_user_unstake_ticket := smap_remove (k_user_unstake_ticket s) (ur_user req)\<rparr>"];
      simp add: emit_unstake_processed_def emits_only_log get_stake_def stakes_def)+

lemma withdrawn_pays:
  assumes "withdrawn bal e u (si_balance info) info x s s'" and "k_stake_token (cfg s) = Some tk"
  shows "paid_users bal tk (current_contract_address e) {u} s s'" "k_stake_token (cfg s') = Some tk"
  using withdrawn_facts [OF assms(1)] assms
  by (auto simp: paid_users_def token_moved_def withdrawn_def paid_out_def)

lemma process_loop_paid:
  assumes "process_loop T e limit tail processed h s = (Ok (p, h'), s')"
    and "queue_inv_from h s" "tail = queue_tail s" "limit \<le> u32_max" "processed \<le> limit"
    and "sep41 T bal" "k_stake_token (cfg s) = Some tk"
  shows "paid_users bal tk (current_contract_address e) (set (take (h' - h) (queue_from h s))) s s'"
  using assms
proof (induction T e limit tail processed h s arbitrary: p rule: process_loop.induct)
  case (1 T e limit tail processed h s)
  note prems = 1(3-) and IH = 1(1,2)
  show ?case
  proof (cases "processed < limit \<and> h < tail")
    case False
    with prems show ?thesis by (subst (asm) process_loop.simps) auto
  next
    case True
    with prems(2,3) obtain req where req: "smap_get (k_unstake_queue_entry s) h = Some req"
      unfolding queue_inv_from_def by (metis not_None_eq order_refl)
    obtain r s1 where w: "do_withdraw T e (ur_user req) s = (r, s1)" by fastforce
    note qp = do_withdraw_queue_part [OF w]
    from prems(6) w show ?thesis
    proof (cases rule: do_withdraw_cases)
      case (paid info)
      let ?a = "si_balance info" let ?s = "dequeued e req ?a h s1"
      note pay = withdrawn_pays [OF paid(2) prems(7)]
      have sat: "sat_add_u32 processed 1 = processed + 1"
        using True prems(4) by (intro sat_add_u32_id) simp
      have run: "process_loop T e limit tail (processed + 1) (Suc h) ?s = (Ok (p, h'), s')"
        using prems(1) True req w paid(1) sat
        by (subst (asm) process_loop.simps) (simp add: dequeued_def Let_def)
      note deq = queue_inv_dequeued [OF prems(2) req qp, of e ?a]
      have tail: "tail = queue_tail ?s" using queue_part_D(1) [OF qp] prems(3) by simp
      have lim: "processed + 1 \<le> limit" using True by simp
      have "Suc h \<le> h'"
        using process_loop_spec [OF run deq(1) tail prems(4) lim] by blast
      moreover have rest: "paid_users bal tk (current_contract_address e) (set (take (h' - Suc h) (queue_from (Suc h) ?s))) ?s s'"
        using run deq(1) tail prems(4,6) lim pay(2)
        by (intro IH(2) [OF True req w [symmetric, unfolded paid(1)] refl refl refl refl, folded dequeued_def, unfolded sat])
           simp_all
      have "ur_user req \<notin> set (queue_from (Suc h) ?s)"
        using queue_from_distinct [OF prems(2)] by (simp add: deq(2))
      then have "{ur_user req} \<inter> set (take (h' - Suc h) (queue_from (Suc h) ?s)) = {}"
        by (auto dest: in_set_takeD)
      moreover have "paid_users bal tk (current_contract_address e) {ur_user req} s ?s"
        using pay(1) by (simp add: paid_users_def)
      ultimately have "paid_users bal tk (current_contract_address e)
          ({ur_user req} \<union> set (take (h' - Suc h) (queue_from (Suc h) ?s))) s s'"
        using rest by (blast intro: paid_users_trans)
      moreover have "take (h' - h) (queue_from h s) = ur_user req # take (h' - Suc h) (queue_from (Suc h) ?s)"
        using \<open>Suc h \<le> h'\<close> unfolding deq(2) by (simp add: take_Cons')
      ultimately show ?thesis by simp
    next
      case (failed er)
      with prems(1) True req w have "(p, h', s') = (processed, h, s1)"
        by (subst (asm) process_loop.simps) simp
      with failed(2) show ?thesis
        by (auto simp: unchanged_but_log_def paid_users_def get_stake_def stakes_def)
    qed
  qed
qed

section \<open>A sample run\<close>

definition sample_queued :: "balance_ledger vault" where
  "sample_queued = snd (queue_unstake (sample_env 3000 7) (Addr 3) sample_staked)"

lemmas queue_defs = queue_unstake_def queue_head_def queue_tail_def get_max_unstake_queue_size_def
  DEFAULT_MAX_UNSTAKE_QUEUE_SIZE_def smap_has_def stakes_def emit_unstake_queued_def emits_only_log

lemma sample_staked_queue [simp]:
  "queue_inv sample_staked" "queue_abs sample_staked = []" "queue_tail sample_staked = 0"
  "queue_head sample_staked = 0"
  by (simp_all add: queue_inv_def queue_inv_from_def queue_abs_def queue_from_def queue_head_def queue_tail_def
      sample_staked_def sample_defs)

lemma sample_joined: "queue_unstake (sample_env 3000 7) (Addr 3) sample_staked = (Ok 0, sample_queued)"
  unfolding sample_queued_def
  by (rule run_ok) (simp add: queue_defs sample_staked_def sample_defs)

lemma sample_queued_state:
  "sample_queued = sample_staked
     \<lparr>k_unstake_queue_entry := [(0, \<lparr>ur_ticket = 0, ur_user = Addr 3, ur_queued_at = 3000\<rparr>)],
      k_user_unstake_ticket := [(Addr 3, 0)], k_unstake_queue_tail := Some 1,
      event_log := event_log sample_queued\<rparr>"
  unfolding sample_queued_def
  by (simp add: queue_defs sample_staked_def sample_defs sat_add_u64_def u64_max_def)

lemma sample_served:
  "fst (process_unstake_queue asset_contract (sample_env 4000 8) 5 sample_queued) = Ok 1"
proof -
  have w: "fst (do_withdraw asset_contract (sample_env 4000 8) (Addr 3) sample_queued) = Ok 600000000"
    by (subst sample_queued_state) (simp add: withdraw_defs sample_staked_def sample_defs sat_add_u64_def u64_max_def emit_tier_change_log)
  have q: "queue_head sample_queued = 0" "queue_tail sample_queued = 1" "\<not> is_paused sample_queued"
    "smap_get (k_unstake_queue_entry sample_queued) 0 = Some \<lparr>ur_ticket = 0, ur_user = Addr 3, ur_queued_at = 3000\<rparr>"
    by (subst sample_queued_state, simp add: queue_head_def queue_tail_def sample_staked_def sample_defs)+
  have "process_loop asset_contract (sample_env 4000 8) 5 1 1 (Suc 0) s = (Ok (1, 1), s)" for s
    by (subst process_loop.simps) simp
  moreover obtain s1 where "do_withdraw asset_contract (sample_env 4000 8) (Addr 3) sample_queued = (Ok 600000000, s1)"
    using run_ok [OF w] by blast
  ultimately have "\<exists>s2. process_loop asset_contract (sample_env 4000 8) 5 1 0 0 sample_queued = (Ok (1, 1), s2)"
    using q(4) by (subst process_loop.simps) (simp add: Let_def sat_add_u32_def u32_max_def)
  then show ?thesis using q by (auto simp: process_unstake_queue_def Let_def)
qed

lemma sample_queued_inv: "queue_inv sample_queued" "queue_abs sample_queued = [Addr 3]"
  using queue_unstake_spec [OF sample_joined] by (simp_all add: u64_max_def)

section \<open>Properties\<close>

text \<open>
  C6: The unstake queue refines a first-in-first-out queue. Starting from any well-formed state, after
  any interleaving of joins, processing runs and other calls that do not touch the queue, the waiting list
  is the old list followed by the arrivals with exactly the served requests removed from its front.
\<close>

theorem queue_fifo:
  assumes "queue_run T s0 arr k s" and "queue_inv s0"
  shows "queue_inv s \<and> k \<le> length (queue_abs s0 @ arr) \<and> queue_abs s = drop k (queue_abs s0 @ arr)"
  using queue_run_tallied [OF assms] by (simp only: unstake_fifo.tallied_def simp_thms)

theorem queue_fifo_witness:
  "queue_abs (snd (process_unstake_queue asset_contract (sample_env 4000 8) 5 sample_queued)) = []"
proof -
  have "queue_joins sample_staked (Addr 3) sample_queued"
    using sample_joined unfolding queue_joins_def invoke_Ok_iff by (auto simp: u64_max_def)
  moreover have "queue_serves asset_contract sample_queued 1
      (snd (process_unstake_queue asset_contract (sample_env 4000 8) 5 sample_queued))"
    unfolding queue_serves_def invoke_Ok_iff
    by (rule exI [of _ "sample_env 4000 8"], rule exI [of _ 5]) (use run_ok [OF sample_served] in \<open>simp add: u32_max_def\<close>)
  ultimately have "queue_run asset_contract sample_staked ([] @ [Addr 3]) (0 + 1)
      (snd (process_unstake_queue asset_contract (sample_env 4000 8) 5 sample_queued))"
    by (blast intro: queue_run.intros)
  from queue_fifo [OF this] show ?thesis by simp
qed

text \<open>
  A user who joins gets the ticket after the last one and, as queue position, the number of
  requests waiting; the user was authenticated, had a stake and was not queued, and the configured capacity is
  respected.
\<close>

theorem queue_join_effect:
  assumes "queue_unstake e u s = (Ok t, s')" and "queue_inv s" and "queue_tail s < u64_max"
  shows "queue_abs s' = queue_abs s @ [u] \<and> u \<notin> set (queue_abs s) \<and>
    get_queue_position u s' = Some (length (queue_abs s)) \<and>
    length (queue_abs s') \<le> get_max_unstake_queue_size s' \<and>
    has_auth e u \<and> get_stake u s \<noteq> 0 \<and> \<not> is_paused s"
proof -
  note q = queue_unstake_Ok [OF assms(1)] and spec = queue_unstake_spec [OF assms]
  have "distinct (queue_abs s')"
    using spec(1) by (simp add: queue_abs_def queue_inv_def queue_from_distinct)
  moreover have "length (queue_abs s) < get_max_unstake_queue_size s"
    using q(4) by (simp add: queue_abs_def queue_from_def)
  ultimately show ?thesis
    using spec q by (auto simp: get_queue_position_def)
qed

theorem queue_join_effect_witness: "get_queue_position (Addr 3) sample_queued = Some 0"
  using queue_join_effect [OF sample_joined] by (simp add: u64_max_def)

text \<open>
  \<open>get_queue_position\<close> is the index in the waiting list: it answers \<open>i\<close> exactly for the
  \<open>i\<close>-th waiting user, and nobody waits twice.
\<close>

theorem queue_position_index:
  assumes "queue_inv s"
  shows "(get_queue_position u s = Some i \<longleftrightarrow> i < length (queue_abs s) \<and> queue_abs s ! i = u) \<and>
    distinct (queue_abs s)"
proof -
  have at: "smap_get (k_user_unstake_ticket s) u = Some (queue_head s + i) \<longleftrightarrow> queue_abs s ! i = u"
    if i: "i < length (queue_abs s)" for i
  proof -
    have "queue_head s + i < queue_tail s" using i by (simp add: queue_abs_def queue_from_def)
    with assms obtain r where r: "smap_get (k_unstake_queue_entry s) (queue_head s + i) = Some r"
      unfolding queue_inv_def queue_inv_from_def by (metis le_add1 not_None_eq)
    have "queue_abs s ! i = ur_user r"
      using i r by (simp add: queue_abs_def queue_from_def user_at_def)
    moreover have "smap_get (k_user_unstake_ticket s) (ur_user r) = Some (queue_head s + i)"
      using assms r unfolding queue_inv_def queue_inv_from_def by blast
    moreover have "ur_user r = u" if "smap_get (k_user_unstake_ticket s) u = Some (queue_head s + i)"
      using assms that r unfolding queue_inv_def queue_inv_from_def by (metis option.inject)
    ultimately show ?thesis by auto
  qed
  have rng: "queue_head s \<le> t \<and> t - queue_head s < length (queue_abs s)"
    if "smap_get (k_user_unstake_ticket s) u = Some t" for t
  proof -
    have "smap_get (k_unstake_queue_entry s) t \<noteq> None"
      using assms that unfolding queue_inv_def queue_inv_from_def by (metis option.distinct(1))
    with assms show ?thesis
      unfolding queue_inv_def queue_inv_from_def by (auto simp: queue_abs_def queue_from_def)
  qed
  have "get_queue_position u s = Some i \<longleftrightarrow> i < length (queue_abs s) \<and> queue_abs s ! i = u"
    using at [of i] rng by (auto simp: get_queue_position_def split: option.splits)
  with assms show ?thesis by (simp add: queue_abs_def queue_inv_def queue_from_distinct)
qed

theorem queue_position_index_witness: "get_queue_position (Addr 4) sample_queued \<noteq> Some 0"
  using queue_position_index [OF sample_queued_inv(1), of "Addr 4" 0] by (simp add: sample_queued_inv(2))

text \<open>
  C14: Processing the queue pays the users at its front: with result \<open>n\<close> (at most the limit), exactly the
  first \<open>n\<close> waiting users receive their whole stake and leave the queue; nobody else's stake or balance changes.
\<close>

theorem queue_processing_pays:
  assumes "sep41 T bal" and "process_unstake_queue T e limit s = (Ok n, s')" and "queue_inv s"
    and "limit \<le> u32_max" and "k_stake_token (cfg s) = Some tk"
  shows "n \<le> limit \<and> queue_abs s' = drop n (queue_abs s) \<and>
    paid_users bal tk (current_contract_address e) (set (take n (queue_abs s))) s s'"
proof (cases "limit = 0")
  case True
  with assms(2) show ?thesis by (auto simp: process_unstake_queue_def split: if_splits)
next
  case False
  with assms(2) show ?thesis
  proof (cases rule: process_unstake_queue_Ok)
    case (1 h' s1)
    have inv: "queue_inv_from (queue_head s) s" using assms(3) by (simp add: queue_inv_def)
    have "n = h' - queue_head s"
      using process_loop_spec [OF 1(1) inv refl assms(4)] by simp
    with process_loop_paid [OF 1(1) inv refl assms(4) le0 assms(1,5)] 1(2)
    have "paid_users bal tk (current_contract_address e) (set (take n (queue_abs s))) s s'"
      by (simp add: paid_users_def queue_abs_def get_stake_def stakes_def)
    with process_unstake_queue_spec [OF assms(2-4)] show ?thesis by blast
  qed
qed

theorem queue_processing_pays_witness:
  "get_stake (Addr 3) (snd (process_unstake_queue asset_contract (sample_env 4000 8) 5 sample_queued)) = 0"
proof -
  have "k_stake_token (cfg sample_queued) = Some (Addr 9)"
    by (subst sample_queued_state) (simp add: sample_staked_run(3))
  from queue_processing_pays [OF asset_contract_sep41 run_ok [OF sample_served] sample_queued_inv(1) _ this]
  show ?thesis by (simp add: sample_queued_inv(2) paid_users_def u32_max_def)
qed



end
