(* ===== verification/Vault_Emergency.thy ===== *)
theory Vault_Emergency
  imports Vault_Core
begin

text \<open>
  \<^verbatim>\<open>stake_vault/src/emergency_unstake.rs\<close> with its entry points in \<^verbatim>\<open>lib.rs\<close>: a staker asks for an
  early exit, N of M administrators approve it, and the last approval pays the stake out minus a
  burnt penalty.
\<close>

definition em_get_config :: "'t vault \<Rightarrow> emergency_config option" where
  "em_get_config s = k_emergency_config (cfg s)"

definition em_get_request :: "address \<Rightarrow> 't vault \<Rightarrow> emergency_request option" where
  "em_get_request staker s = smap_get (k_emergency_request s) staker"

definition save_request :: "emergency_request \<Rightarrow> 't vault \<Rightarrow> 't vault" where
  "save_request req s =
     s\<lparr>k_emergency_request := smap_set (k_emergency_request s) (er_staker req) req\<rparr>"

definition remove_request :: "address \<Rightarrow> 't vault \<Rightarrow> 't vault" where
  "remove_request staker s =
     s\<lparr>k_emergency_request := smap_remove (k_emergency_request s) staker\<rparr>"

definition cooldown_remaining_secs :: "env \<Rightarrow> address \<Rightarrow> 't vault \<Rightarrow> nat" where
  "cooldown_remaining_secs e staker s =
     (let cooldown = get_or 0 (k_emergency_cooldown_secs (cfg s))
      in if cooldown = 0 then 0
         else (case smap_get (k_last_emergency_unstake_at s) staker of
                 None \<Rightarrow> 0
               | Some last_at \<Rightarrow> sat_add_u64 last_at cooldown - ledger_timestamp e))"

definition set_last_unstake_at :: "address \<Rightarrow> nat \<Rightarrow> 't vault \<Rightarrow> 't vault" where
  "set_last_unstake_at staker ts s =
     s\<lparr>k_last_emergency_unstake_at := smap_set (k_last_emergency_unstake_at s) staker ts\<rparr>"

section \<open>Configuration\<close>

definition configure_emergency_multisig :: "env \<Rightarrow> address \<Rightarrow> address list \<Rightarrow> nat \<Rightarrow> nat \<Rightarrow> nat \<Rightarrow>
    't vault \<Rightarrow> ('t, unit) vault_result" where
  "configure_emergency_multisig e caller admins required penalty_bps timeout_secs s =
     (if \<not> has_auth e caller then (Panic, s)
      else (case k_admin (cfg s) of
         None \<Rightarrow> (Err NotInitialized, s)
       | Some admin \<Rightarrow>
           if caller \<noteq> admin then (Err Unauthorized, s)
           else if required = 0 \<or> required > length admins then (Err InvalidMultiSigConfig, s)
           else if penalty_bps > 10000 then (Err InvalidEmergencyPenalty, s)
           else (let c = \<lparr>em_admins = admins, em_required = required, em_penalty_bps = penalty_bps,
                          em_timeout_secs = timeout_secs\<rparr>
                 in (Ok (), emit_emergency_configured required penalty_bps timeout_secs
                       (s\<lparr>cfg := (cfg s)\<lparr>k_emergency_config := Some c\<rparr>\<rparr>)))))"

definition set_emergency_cooldown :: "env \<Rightarrow> address \<Rightarrow> nat \<Rightarrow> 't vault \<Rightarrow> ('t, unit) vault_result" where
  "set_emergency_cooldown e caller cooldown_secs s =
     (if \<not> has_auth e caller then (Panic, s)
      else (case k_admin (cfg s) of
         None \<Rightarrow> (Err NotInitialized, s)
       | Some admin \<Rightarrow>
           if caller \<noteq> admin then (Err Unauthorized, s)
           else (Ok (), s\<lparr>cfg := (cfg s)\<lparr>k_emergency_cooldown_secs := Some cooldown_secs\<rparr>\<rparr>)))"

section \<open>Requests\<close>

definition request_emergency_unstake :: "env \<Rightarrow> address \<Rightarrow> 't vault \<Rightarrow> ('t, unit) vault_result" where
  "request_emergency_unstake e staker s =
     (if \<not> has_auth e staker then (Panic, s)
      else if em_get_config s = None then (Err EmergencyNotConfigured, s)
      else if em_get_request staker s \<noteq> None then (Err EmergencyRequestAlreadyExists, s)
      else if cooldown_remaining_secs e staker s > 0 then (Err EmergencyCooldownActive, s)
      else (let req = \<lparr>er_staker = staker, er_requested_at = ledger_timestamp e, er_approvals = []\<rparr>
            in (Ok (), emit_emergency_requested staker (save_request req s))))"

text \<open>
  \<^verbatim>\<open>execute_early_unstake\<close> uses the panicking client calls: a failed burn or transfer traps.
\<close>

definition execute_early_unstake :: "'t token_impl \<Rightarrow> env \<Rightarrow> address \<Rightarrow> address \<Rightarrow> nat \<Rightarrow>
    't vault \<Rightarrow> ('t, unit) vault_result" where
  "execute_early_unstake T e staker token penalty_bps s =
     (case smap_get (stakes s) staker of
        None \<Rightarrow> (Err NoStake, s)
      | Some info \<Rightarrow>
          if si_balance info = 0 then (Err NoStake, s)
          else (let gross = si_balance info;
                    penalty = min (apply_multiplier_bps gross penalty_bps) gross;
                    net = saturating_sub gross penalty;
                    s1 = s\<lparr>k_stakes_v2 := Some (smap_set (stakes s) staker
                             \<lparr>si_balance = 0, si_locked_until = 0,
                              si_last_updated = ledger_timestamp e\<rparr>)\<rparr>;
                    s2 = emit_emergency_executed staker gross penalty net s1;
                    burned = (if penalty > 0
                              then burn_tokens T token (current_contract_address e) penalty s2
                              else (Ok (), s2))
                in (case burned of
                      (Ok _, s3) \<Rightarrow>
                        if net > 0 then
                          (case transfer_tokens T token (current_contract_address e) staker net s3 of
                             (Ok _, s4) \<Rightarrow> (Ok (), s4)
                           | (_, s4) \<Rightarrow> (Panic, s4))
                        else (Ok (), s3)
                    | (_, s3) \<Rightarrow> (Panic, s3))))"

definition emergency_expired :: "env \<Rightarrow> emergency_config \<Rightarrow> emergency_request \<Rightarrow> bool" where
  "emergency_expired e c req \<longleftrightarrow>
     em_timeout_secs c > 0 \<and>
     ledger_timestamp e > sat_add_u64 (er_requested_at req) (em_timeout_secs c)"

definition approve_emergency_unstake :: "'t token_impl \<Rightarrow> env \<Rightarrow> address \<Rightarrow> address \<Rightarrow>
    't vault \<Rightarrow> ('t, unit) vault_result" where
  "approve_emergency_unstake T e signer staker s =
     (if \<not> has_auth e signer then (Panic, s)
      else (case k_stake_token (cfg s) of
         None \<Rightarrow> (Err NotInitialized, s)
       | Some token \<Rightarrow>
      (case em_get_config s of
         None \<Rightarrow> (Err EmergencyNotConfigured, s)
       | Some c \<Rightarrow>
           if \<not> list_ex (\<lambda>a. a = signer) (em_admins c) then (Err Unauthorized, s)
           else (case em_get_request staker s of
              None \<Rightarrow> (Err EmergencyRequestNotFound, s)
            | Some req \<Rightarrow>
                if emergency_expired e c req
                then (Err EmergencyRequestExpired, remove_request staker s)
                else if list_ex (\<lambda>a. a = signer) (er_approvals req) then (Err AlreadyApproved, s)
                else (let req' = req\<lparr>er_approvals := er_approvals req @ [signer]\<rparr>;
                          s1 = emit_emergency_approved staker signer (length (er_approvals req')) s
                      in if length (er_approvals req') \<ge> em_required c
                         then (case execute_early_unstake T e staker token (em_penalty_bps c) s1 of
                                 (Ok _, s2) \<Rightarrow>
                                   (Ok (), set_last_unstake_at staker (ledger_timestamp e)
                                      (remove_request staker s2))
                               | (Err er, s2) \<Rightarrow> (Err er, s2)
                               | (Panic, s2) \<Rightarrow> (Panic, s2))
                         else (Ok (), save_request req' s1))))))"

definition expire_emergency_request :: "env \<Rightarrow> address \<Rightarrow> 't vault \<Rightarrow> ('t, unit) vault_result" where
  "expire_emergency_request e staker s =
     (case em_get_config s of
        None \<Rightarrow> (Err EmergencyNotConfigured, s)
      | Some c \<Rightarrow>
     (case em_get_request staker s of
        None \<Rightarrow> (Err EmergencyRequestNotFound, s)
      | Some req \<Rightarrow>
          if em_timeout_secs c = 0 \<or>
             ledger_timestamp e \<le> sat_add_u64 (er_requested_at req) (em_timeout_secs c)
          then (Err EmergencyRequestNotExpired, s)
          else (Ok (), emit_emergency_expired staker (remove_request staker s))))"

section \<open>The payout\<close>

definition emergency_penalty :: "emergency_config \<Rightarrow> int \<Rightarrow> int" where
  "emergency_penalty c gross = min (apply_multiplier_bps gross (em_penalty_bps c)) gross"

lemma emergency_penalty_bounds:
  assumes "0 \<le> gross" shows "0 \<le> emergency_penalty c gross" "emergency_penalty c gross \<le> gross"
  using assms by (simp_all add: emergency_penalty_def)

lemma token_nothing [simp]: "token_moved tk v a 0 b = b" "token_burnt tk v 0 b = b"
  by (simp_all add: token_moved_def token_burnt_def fun_eq_iff)

definition emptied :: "env \<Rightarrow> address \<Rightarrow> 't \<Rightarrow> event list \<Rightarrow> 't vault \<Rightarrow> 't vault" where
  "emptied e staker t log s =
     s\<lparr>k_stakes_v2 := Some (smap_set (stakes s) staker
         \<lparr>si_balance = 0, si_locked_until = 0, si_last_updated = ledger_timestamp e\<rparr>),
       event_log := log, k_tokens := t\<rparr>"

lemma execute_early_unstake_Ok:
  assumes "sep41 T bal" and "execute_early_unstake T e staker tk (em_penalty_bps c) s = (Ok u, s')"
    and "0 \<le> get_stake staker s" and "in_i128 (get_stake staker s)"
  obtains t log where "get_stake staker s \<noteq> 0" "s' = emptied e staker t log s"
    "bal t = token_moved tk (current_contract_address e) staker
       (get_stake staker s - emergency_penalty c (get_stake staker s))
       (token_burnt tk (current_contract_address e) (emergency_penalty c (get_stake staker s)) (bal (k_tokens s)))"
    "get_stake staker s \<le> bal (k_tokens s) tk (current_contract_address e)"
proof -
  let ?v = "current_contract_address e" and ?g = "get_stake staker s"
  let ?p = "emergency_penalty c ?g"
  obtain info where info: "smap_get (stakes s) staker = Some info" and g: "si_balance info = ?g"
    and nz: "?g \<noteq> 0"
    using assms(2) by (auto simp: execute_early_unstake_def get_stake_def split: option.splits if_splits)
  note p = emergency_penalty_bounds [OF assms(3), of c]
  have net: "saturating_sub ?g ?p = ?g - ?p" using p assms(4) by (rule saturating_sub_le)
  obtain log where log: "emit_emergency_executed staker ?g ?p (?g - ?p)
      (s\<lparr>k_stakes_v2 := Some (smap_set (stakes s) staker
         \<lparr>si_balance = 0, si_locked_until = 0, si_last_updated = ledger_timestamp e\<rparr>)\<rparr>) =
      emptied e staker (k_tokens s) log s" (is "?s2 = _")
    by (simp add: emit_emergency_executed_def emits_only_log emptied_def)
  define burned where "burned = (if ?p > 0 then burn_tokens T tk ?v ?p ?s2 else (Ok (), ?s2))"
  have run: "execute_early_unstake T e staker tk (em_penalty_bps c) s =
      (case burned of (Ok _, s3) \<Rightarrow>
         if ?g - ?p > 0 then (case transfer_tokens T tk ?v staker (?g - ?p) s3 of
            (Ok _, s4) \<Rightarrow> (Ok (), s4) | (_, s4) \<Rightarrow> (Panic, s4)) else (Ok (), s3)
       | (_, s3) \<Rightarrow> (Panic, s3))"
    using nz unfolding execute_early_unstake_def info option.case g Let_def
      emergency_penalty_def [symmetric] net burned_def by simp
  note run = assms(2) [unfolded run]
  obtain t1 where t1: "burned = (Ok (), emptied e staker t1 log s)" "?p \<le> bal (k_tokens s) tk ?v \<or> ?p = 0"
    "bal t1 = token_burnt tk ?v ?p (bal (k_tokens s))"
  proof (cases "?p > 0")
    case True
    obtain r s3 where b: "burn_tokens T tk ?v ?p ?s2 = (r, s3)" by fastforce
    then have br: "burned = (r, s3)" using True by (simp add: burned_def)
    from assms(1) b show ?thesis
    proof (cases rule: burn_tokens_cases)
      case (burnt t)
      show ?thesis by (rule that [of t]) (use burnt in \<open>simp_all add: br log emptied_def\<close>)
    next
      case (failed er)
      with run br show ?thesis by simp
    qed
  next
    case False
    with p log that [of "k_tokens s"] show ?thesis by (auto simp: burned_def)
  qed
  show thesis
  proof (cases "?g - ?p > 0")
    case True
    obtain r s4 where tr: "transfer_tokens T tk ?v staker (?g - ?p) (emptied e staker t1 log s) = (r, s4)" by fastforce
    from assms(1) this show ?thesis
    proof (cases rule: transfer_tokens_cases)
      case (moved t)
      show ?thesis
      proof (rule that [of t log])
        show "s' = emptied e staker t log s" using run True moved tr by (simp add: t1 emptied_def)
        show "bal t = token_moved tk ?v staker (?g - ?p) (token_burnt tk ?v ?p (bal (k_tokens s)))"
          using moved by (simp add: emptied_def t1(3))
        show "?g \<le> bal (k_tokens s) tk ?v"
          using moved by (simp add: emptied_def t1(3) token_burnt_def)
      qed (fact nz)
    qed (use run True tr in \<open>auto simp: t1\<close>)
  next
    case False
    with p have "?g = ?p" by simp
    with run False t1 nz show ?thesis by (intro that [of t1 log]) auto
  qed
qed

lemma approve_Ok:
  assumes "approve_emergency_unstake T e signer staker s = (Ok u, s')"
  obtains tk c req log where "has_auth e signer" "k_stake_token (cfg s) = Some tk" "em_get_config s = Some c"
    "signer \<in> set (em_admins c)" "em_get_request staker s = Some req" "\<not> emergency_expired e c req"
    "signer \<notin> set (er_approvals req)"
    "if Suc (length (er_approvals req)) \<ge> em_required c
     then \<exists>s2. execute_early_unstake T e staker tk (em_penalty_bps c) (s\<lparr>event_log := log\<rparr>) = (Ok (), s2) \<and>
       s' = set_last_unstake_at staker (ledger_timestamp e) (remove_request staker s2)
     else s' = save_request (req\<lparr>er_approvals := er_approvals req @ [signer]\<rparr>) (s\<lparr>event_log := log\<rparr>)"
proof -
  from assms obtain tk c req where a: "has_auth e signer" "k_stake_token (cfg s) = Some tk" "em_get_config s = Some c"
    "signer \<in> set (em_admins c)" "em_get_request staker s = Some req" "\<not> emergency_expired e c req"
    "signer \<notin> set (er_approvals req)"
    by (auto simp: approve_emergency_unstake_def list_ex_iff split: if_splits option.splits)
  obtain log where log: "emit_emergency_approved staker signer (Suc (length (er_approvals req))) s = s\<lparr>event_log := log\<rparr>"
    by (simp add: emit_emergency_approved_def emits_only_log)
  have "if Suc (length (er_approvals req)) \<ge> em_required c
     then \<exists>s2. execute_early_unstake T e staker tk (em_penalty_bps c) (s\<lparr>event_log := log\<rparr>) = (Ok (), s2) \<and>
       s' = set_last_unstake_at staker (ledger_timestamp e) (remove_request staker s2)
     else s' = save_request (req\<lparr>er_approvals := er_approvals req @ [signer]\<rparr>) (s\<lparr>event_log := log\<rparr>)"
    using assms a log
    by (auto simp: approve_emergency_unstake_def list_ex_iff Let_def split: if_splits prod.splits outcome.splits)
  with a show ?thesis by (rule that)
qed

section \<open>The quorum\<close>

text \<open>
  A run of the vault with a ghost history: which administrators have signed an approval for which
  staker since the staker's current request. Steps that leave the requests alone are arbitrary.
\<close>

definition signed_approval :: "env \<Rightarrow> address \<Rightarrow> address \<Rightarrow> 't vault \<Rightarrow> (address \<times> address) set" where
  "signed_approval e signer staker s =
     (if has_auth e signer \<and> (\<exists>c. em_get_config s = Some c \<and> signer \<in> set (em_admins c))
      then {(staker, signer)} else {})"

inductive em_run :: "'t token_impl \<Rightarrow> (address \<times> address) set \<Rightarrow> 't vault \<Rightarrow> bool"
  for T :: "'t token_impl" where
  start: "k_emergency_request s = [] \<Longrightarrow> em_run T {} s"
| request: "em_run T H s \<Longrightarrow> invoke (request_emergency_unstake e staker) s = (Ok u, s') \<Longrightarrow>
    em_run T {h \<in> H. fst h \<noteq> staker} s'"
| approve: "em_run T H s \<Longrightarrow> invoke (approve_emergency_unstake T e signer staker) s = (Ok u, s') \<Longrightarrow>
    em_run T (H \<union> signed_approval e signer staker s) s'"
| expire: "em_run T H s \<Longrightarrow> invoke (expire_emergency_request e staker) s = (Ok u, s') \<Longrightarrow> em_run T H s'"
| other: "em_run T H s \<Longrightarrow> k_emergency_request s' = k_emergency_request s \<Longrightarrow> em_run T H s'"

definition requests_signed :: "(address \<times> address) set \<Rightarrow> 't vault \<Rightarrow> bool" where
  "requests_signed H s \<longleftrightarrow> (\<forall>staker req. em_get_request staker s = Some req \<longrightarrow>
     er_staker req = staker \<and> distinct (er_approvals req) \<and> (\<forall>a \<in> set (er_approvals req). (staker, a) \<in> H))"

lemma execute_keeps_requests:
  "execute_early_unstake T e staker tk p s = (r, s') \<Longrightarrow> k_emergency_request s' = k_emergency_request s"
  by (auto simp: execute_early_unstake_def Let_def transfer_tokens_def burn_tokens_def
      emit_emergency_executed_def emits_only_log split: option.splits if_splits prod.splits outcome.splits)

lemma request_Ok:
  assumes "request_emergency_unstake e staker s = (Ok u, s')"
  shows "k_emergency_request s' = smap_set (k_emergency_request s) staker
      \<lparr>er_staker = staker, er_requested_at = ledger_timestamp e, er_approvals = []\<rparr>"
    "em_get_request staker s = None" "cooldown_remaining_secs e staker s = 0"
  using assms by (auto simp: request_emergency_unstake_def save_request_def emit_emergency_requested_def
      emits_only_log Let_def split: if_splits)

lemma requests_signed_get:
  "k_emergency_request s' = k_emergency_request s \<Longrightarrow> requests_signed H s' = requests_signed H s"
  by (simp add: requests_signed_def em_get_request_def)

lemma approve_keeps_signed:
  assumes "approve_emergency_unstake T e signer staker s = (Ok u, s')" and "requests_signed H s"
  shows "requests_signed (H \<union> signed_approval e signer staker s) s'"
  using assms(1)
proof (cases rule: approve_Ok)
  case (1 tk c req log)
  have req: "er_staker req = staker" "distinct (er_approvals req)" "\<forall>a \<in> set (er_approvals req). (staker, a) \<in> H"
    using assms(2) 1(5) by (auto simp: requests_signed_def)
  have new: "(staker, signer) \<in> signed_approval e signer staker s"
    using 1(1,3,4) by (simp add: signed_approval_def)
  show ?thesis
  proof (cases "em_required c \<le> Suc (length (er_approvals req))")
    case True
    with 1(8) have "k_emergency_request s' = smap_remove (k_emergency_request s) staker"
      by (auto simp: set_last_unstake_at_def remove_request_def dest: execute_keeps_requests)
    then show ?thesis using assms(2) by (auto simp: requests_signed_def em_get_request_def split: if_splits)
  next
    case False
    with 1(8) req(1) have "k_emergency_request s' =
        smap_set (k_emergency_request s) staker (req\<lparr>er_approvals := er_approvals req @ [signer]\<rparr>)"
      by (simp add: save_request_def)
    then show ?thesis using assms(2) req 1(7) new by (auto simp: requests_signed_def em_get_request_def)
  qed
qed

lemma em_run_signed: "em_run T H s \<Longrightarrow> requests_signed H s"
proof (induction rule: em_run.induct)
  case (start s)
  then show ?case by (simp add: requests_signed_def em_get_request_def)
next
  case (request H s e staker u s')
  with request_Ok(1) [of e staker s u s'] show ?case by (auto simp: requests_signed_def em_get_request_def)
next
  case (approve H s e signer staker u s')
  then show ?case by (auto intro: approve_keeps_signed)
next
  case (expire H s e staker u s')
  then have "k_emergency_request s' = smap_remove (k_emergency_request s) staker"
    by (auto simp: expire_emergency_request_def remove_request_def emit_emergency_expired_def emits_only_log
        split: option.splits if_splits)
  with expire.IH show ?case by (auto simp: requests_signed_def em_get_request_def split: if_splits)
next
  case (other H s s')
  then show ?case using requests_signed_get [of s' s H] by simp
qed

section \<open>A sample run\<close>

text \<open>Two administrators must sign; the penalty is a tenth. The staker 4 asks, and administrator 1 signs.\<close>

definition sample_emergency_config :: emergency_config where
  "sample_emergency_config =
     \<lparr>em_admins = [Addr 1, Addr 5], em_required = 2, em_penalty_bps = 1000, em_timeout_secs = 0\<rparr>"

definition sample_configured :: "balance_ledger vault" where
  "sample_configured = sample_staked\<lparr>cfg := (cfg sample_staked)
     \<lparr>k_emergency_config := Some sample_emergency_config, k_emergency_cooldown_secs := Some 500\<rparr>\<rparr>"

definition sample_requested :: "balance_ledger vault" where
  "sample_requested = snd (request_emergency_unstake (sample_env 200 9) (Addr 4) sample_configured)"

definition sample_signed :: "balance_ledger vault" where
  "sample_signed = snd (approve_emergency_unstake asset_contract (sample_env 210 9) (Addr 1) (Addr 4) sample_requested)"

lemmas emergency_defs =
  request_emergency_unstake_def approve_emergency_unstake_def em_get_config_def em_get_request_def
  cooldown_remaining_secs_def save_request_def remove_request_def set_last_unstake_at_def emergency_expired_def
  sample_configured_def sample_emergency_config_def sample_staked_def sample_defs Let_def

lemmas payout_defs =
  execute_early_unstake_def apply_multiplier_bps_eq stakes_def burn_tokens_def transfer_tokens_def get_stake_def
  emit_emergency_executed_def emit_emergency_approved_def emits_only_log token_burnt_def token_moved_def

lemma sample_requested_run:
  "request_emergency_unstake (sample_env 200 9) (Addr 4) sample_configured = (Ok (), sample_requested)"
  unfolding sample_requested_def by (rule run_ok) (simp add: emergency_defs)

lemma sample_requested_state:
  "sample_requested = sample_configured
     \<lparr>k_emergency_request := [(Addr 4, \<lparr>er_staker = Addr 4, er_requested_at = 200, er_approvals = []\<rparr>)],
      event_log := event_log sample_requested\<rparr>"
  unfolding sample_requested_def by (simp add: emergency_defs emit_emergency_requested_def emits_only_log)

lemma sample_signed_run:
  "approve_emergency_unstake asset_contract (sample_env 210 9) (Addr 1) (Addr 4) sample_requested = (Ok (), sample_signed)"
  unfolding sample_signed_def
  by (rule run_ok, subst sample_requested_state) (simp add: emergency_defs)

lemma sample_signed_state:
  "sample_signed = sample_configured
     \<lparr>k_emergency_request := [(Addr 4, \<lparr>er_staker = Addr 4, er_requested_at = 200, er_approvals = [Addr 1]\<rparr>)],
      event_log := event_log sample_signed\<rparr>"
  unfolding sample_signed_def
  by (subst (1 2) sample_requested_state) (simp add: emergency_defs emit_emergency_approved_def emits_only_log)

lemma sample_signed_facts:
  "fst (approve_emergency_unstake asset_contract (sample_env 220 9) (Addr 5) (Addr 4) sample_signed) = Ok ()"
  "k_stake_token (cfg sample_signed) = Some (Addr 9)" "em_get_config sample_signed = Some sample_emergency_config"
  "em_get_request (Addr 4) sample_signed = Some \<lparr>er_staker = Addr 4, er_requested_at = 200, er_approvals = [Addr 1]\<rparr>"
  "get_stake (Addr 4) sample_signed = 1000"
  by (subst sample_signed_state, simp add: emergency_defs payout_defs)+

section \<open>Properties\<close>

text \<open>
  A completed emergency exit splits the stake exactly: with enough approvals the vault burns the
  penalty and pays the rest to the staker, the position is zero afterwards and its request is gone;
  with too few approvals no stake and no token moves and the approval is recorded.
\<close>

theorem emergency_payout:
  assumes "sep41 T bal" and "approve_emergency_unstake T e signer staker s = (Ok u, s')"
    and "k_stake_token (cfg s) = Some tk" and "em_get_config s = Some c" and "em_get_request staker s = Some req"
    and "0 \<le> get_stake staker s" and "in_i128 (get_stake staker s)" and "er_staker req = staker"
  shows "if em_required c \<le> length (er_approvals req) + 1
    then get_stake staker s \<noteq> 0 \<and> (\<forall>b. get_stake b s' = (if b = staker then 0 else get_stake b s)) \<and>
      bal (k_tokens s') = token_moved tk (current_contract_address e) staker
        (get_stake staker s - emergency_penalty c (get_stake staker s))
        (token_burnt tk (current_contract_address e) (emergency_penalty c (get_stake staker s)) (bal (k_tokens s))) \<and>
      em_get_request staker s' = None
    else (\<forall>b. get_stake b s' = get_stake b s) \<and> k_tokens s' = k_tokens s \<and>
      em_get_request staker s' = Some (req\<lparr>er_approvals := er_approvals req @ [signer]\<rparr>)"
  using assms(2)
proof (cases rule: approve_Ok)
  case (1 tk' c' req' log)
  have [simp]: "tk' = tk" "c' = c" "req' = req" using 1 assms(3-5) by auto
  show ?thesis
  proof (cases "em_required c \<le> length (er_approvals req) + 1")
    case True
    with 1(8) obtain s2 where ex: "execute_early_unstake T e staker tk (em_penalty_bps c) (s\<lparr>event_log := log\<rparr>) = (Ok (), s2)"
      and s': "s' = set_last_unstake_at staker (ledger_timestamp e) (remove_request staker s2)" by auto
    have gs: "get_stake b (s\<lparr>event_log := log\<rparr>) = get_stake b s" for b by (simp add: get_stake_def stakes_def)
    from assms(1) ex assms(6,7) [folded gs] show ?thesis
    proof (cases rule: execute_early_unstake_Ok)
      case (1 t log')
      have "get_stake b s' = (if b = staker then 0 else get_stake b s)" for b
        unfolding s' 1(2) by (simp add: set_last_unstake_at_def remove_request_def emptied_def get_stake_def stakes_def)
      moreover have "k_tokens s' = t" "em_get_request staker s' = None"
        unfolding s' 1(2) by (simp_all add: set_last_unstake_at_def remove_request_def emptied_def em_get_request_def)
      ultimately show ?thesis using True 1(1,3) by (simp add: gs)
    qed
  next
    case False
    with 1(8) assms(8) show ?thesis by (simp add: save_request_def get_stake_def stakes_def em_get_request_def)
  qed
qed

theorem emergency_payout_witness:
  "get_stake (Addr 4) (snd (approve_emergency_unstake asset_contract (sample_env 220 9) (Addr 5) (Addr 4) sample_signed)) = 0"
  using emergency_payout [OF asset_contract_sep41 run_ok [OF sample_signed_facts(1)] sample_signed_facts(2-4)]
  by (simp add: sample_signed_facts(5) sample_emergency_config_def int_defs)

text \<open>
  The penalty of an emergency exit is never negative and never more than the stake, and for
  stakes whose product with the rate fits the integer type it is the configured share, rounded down.
\<close>

theorem emergency_penalty_spec:
  assumes "0 \<le> gross" and "em_penalty_bps c \<le> 10000"
  shows "0 \<le> emergency_penalty c gross \<and> emergency_penalty c gross \<le> gross \<and>
    (in_i128 (gross * int (em_penalty_bps c)) \<longrightarrow>
       emergency_penalty c gross = gross * int (em_penalty_bps c) div 10000)"
  using assms emergency_penalty_bounds [OF assms(1)] apply_multiplier_bps_le [OF assms]
  by (auto simp: emergency_penalty_def apply_multiplier_bps_eq)

theorem emergency_penalty_spec_witness: "emergency_penalty sample_emergency_config 1005 = 100"
  using emergency_penalty_spec [of 1005 sample_emergency_config] by (simp add: sample_emergency_config_def int_defs)

text \<open>
  C8: Nobody leaves early without a quorum. In every run of the vault, if an approval empties a
  position, then at least the configured number of different addresses, the last signer included, have
  signed as administrators for this staker since the staker's request, and the request had not expired.
\<close>

theorem emergency_quorum:
  assumes "em_run T H s" and "approve_emergency_unstake T e signer staker s = (Ok u, s')"
    and "get_stake b s' \<noteq> get_stake b s" and "em_get_config s = Some c"
  shows "\<exists>A. distinct A \<and> em_required c \<le> length A \<and> signer \<in> set (em_admins c) \<and> has_auth e signer \<and>
    (\<forall>a \<in> set A. a = signer \<or> (staker, a) \<in> H) \<and>
    (\<exists>req. em_get_request staker s = Some req \<and> \<not> emergency_expired e c req)"
  using assms(2)
proof (cases rule: approve_Ok)
  case (1 tk c' req log)
  have [simp]: "c' = c" using 1(3) assms(4) by simp
  have "em_required c \<le> Suc (length (er_approvals req))"
    using 1(8) assms(3) by (auto simp: save_request_def get_stake_def stakes_def split: if_splits)
  moreover have "distinct (er_approvals req)" "\<forall>a \<in> set (er_approvals req). (staker, a) \<in> H"
    using em_run_signed [OF assms(1)] 1(5) by (auto simp: requests_signed_def)
  ultimately show ?thesis
    using 1 by (intro exI [of _ "er_approvals req @ [signer]"]) auto
qed

theorem emergency_quorum_witness:
  "\<exists>A. distinct A \<and> 2 \<le> length A \<and> set A \<subseteq> {Addr 1, Addr 5}"
proof -
  let ?s' = "snd (approve_emergency_unstake asset_contract (sample_env 220 9) (Addr 5) (Addr 4) sample_signed)"
  have "em_run asset_contract {} sample_configured"
    by (rule em_run.start) (simp add: emergency_defs)
  then have "em_run asset_contract {} sample_requested"
    using em_run.request [of asset_contract "{}" sample_configured "sample_env 200 9" "Addr 4"] sample_requested_run
    by simp
  moreover have "signed_approval (sample_env 210 9) (Addr 1) (Addr 4) sample_requested \<subseteq> {(Addr 4, Addr 1)}"
    by (simp add: signed_approval_def)
  ultimately obtain H where H: "em_run asset_contract H sample_signed" "H \<subseteq> {(Addr 4, Addr 1)}"
    using em_run.approve [of asset_contract "{}" sample_requested "sample_env 210 9" "Addr 1" "Addr 4"] sample_signed_run
    by auto
  have "get_stake (Addr 4) ?s' \<noteq> get_stake (Addr 4) sample_signed"
    by (subst (1 2) sample_signed_state) (simp add: emergency_defs payout_defs)
  from emergency_quorum [OF H(1) run_ok [OF sample_signed_facts(1)] this sample_signed_facts(3)] H(2)
  show ?thesis by (fastforce simp: sample_emergency_config_def)
qed

text \<open>
  After an emergency exit the same staker cannot file another request before the configured
  cooldown has passed.
\<close>

theorem emergency_cooldown:
  assumes "approve_emergency_unstake T e signer staker s = (Ok u, s')" and "get_stake staker s' \<noteq> get_stake staker s"
    and "k_emergency_cooldown_secs (cfg s') = Some d" and "has_auth e2 staker"
    and "ledger_timestamp e \<le> ledger_timestamp e2" "ledger_timestamp e2 < sat_add_u64 (ledger_timestamp e) d"
    and "em_get_config s' \<noteq> None"
  shows "fst (request_emergency_unstake e2 staker s') = Err EmergencyCooldownActive"
  using assms(1)
proof (cases rule: approve_Ok)
  case (1 tk c req log)
  have "em_required c \<le> Suc (length (er_approvals req))"
    using 1(8) assms(2) by (auto simp: save_request_def get_stake_def stakes_def split: if_splits)
  with 1(8) have "smap_get (k_last_emergency_unstake_at s') staker = Some (ledger_timestamp e)"
    "em_get_request staker s' = None"
    by (auto simp: set_last_unstake_at_def remove_request_def em_get_request_def)
  with assms(3-7) show ?thesis
    by (auto simp: request_emergency_unstake_def cooldown_remaining_secs_def Let_def sat_add_u64_def)
qed

theorem emergency_cooldown_witness:
  "fst (request_emergency_unstake (sample_env 700 20) (Addr 4)
     (snd (approve_emergency_unstake asset_contract (sample_env 220 9) (Addr 5) (Addr 4) sample_signed))) =
   Err EmergencyCooldownActive"
proof -
  let ?s' = "snd (approve_emergency_unstake asset_contract (sample_env 220 9) (Addr 5) (Addr 4) sample_signed)"
  have "get_stake (Addr 4) ?s' \<noteq> get_stake (Addr 4) sample_signed"
    "k_emergency_cooldown_secs (cfg ?s') = Some 500" "em_get_config ?s' \<noteq> None"
    by (subst sample_signed_state, simp add: emergency_defs payout_defs)+
  from emergency_cooldown [OF run_ok [OF sample_signed_facts(1)] this(1,2) _ _ _ this(3), of "sample_env 700 20"]
  show ?thesis by (simp add: sample_env_def sat_add_u64_def u64_max_def)
qed

end
