(* ===== verification/Vault_Actions.thy ===== *)
theory Vault_Actions
  imports Vault_Slash
begin

text \<open>
  The multi-sig approval flow of \<^verbatim>\<open>stake_vault/src/lib.rs\<close>: once a multi-sig configuration is set, the
  privileged setters are reached by proposing a byte payload, collecting approvals and executing
  it. The first byte selects the action, the arguments follow in little-endian order.
\<close>

section \<open>Payloads\<close>

definition action_PAUSE :: "8 word" where "action_PAUSE = 0"
definition action_UNPAUSE :: "8 word" where "action_UNPAUSE = 1"
definition action_SET_MINIMUM_STAKE :: "8 word" where "action_SET_MINIMUM_STAKE = 2"
definition action_SET_MINIMUM_STAKE_DURATION :: "8 word" where "action_SET_MINIMUM_STAKE_DURATION = 3"
definition action_CONFIGURE_SLASH_TIERS :: "8 word" where "action_CONFIGURE_SLASH_TIERS = 4"
definition action_SET_APPEAL_WINDOW :: "8 word" where "action_SET_APPEAL_WINDOW = 5"
definition action_SET_WITHDRAWAL_COOLDOWN :: "8 word" where "action_SET_WITHDRAWAL_COOLDOWN = 6"
definition action_RESOLVE_APPEAL :: "8 word" where "action_RESOLVE_APPEAL = 7"

lemmas action_defs =
  action_PAUSE_def action_UNPAUSE_def action_SET_MINIMUM_STAKE_def
  action_SET_MINIMUM_STAKE_DURATION_def action_CONFIGURE_SLASH_TIERS_def
  action_SET_APPEAL_WINDOW_def action_SET_WITHDRAWAL_COOLDOWN_def action_RESOLVE_APPEAL_def

text \<open>\<^verbatim>\<open>to_le_bytes\<close> and \<^verbatim>\<open>from_le_bytes\<close> of the integer types (two's complement).\<close>

primrec to_le_bytes :: "nat \<Rightarrow> int \<Rightarrow> 8 word list" where
  "to_le_bytes 0 v = []"
| "to_le_bytes (Suc n) v = word_of_int (v mod 256) # to_le_bytes n (v div 256)"

primrec le_value :: "8 word list \<Rightarrow> int" where
  "le_value [] = 0"
| "le_value (b # bs) = uint b + 256 * le_value bs"

definition i128_from_le_bytes :: "8 word list \<Rightarrow> int" where
  "i128_from_le_bytes bs = (let u = le_value bs in if u > i128_max then u - 2 ^ 128 else u)"

definition encode_action :: "8 word \<Rightarrow> 8 word list \<Rightarrow> 8 word list" where
  "encode_action tag dat = tag # dat"

definition encode_i128_bytes :: "int \<Rightarrow> 8 word list" where
  "encode_i128_bytes v = to_le_bytes 16 v"

text \<open>\<^verbatim>\<open>payload.get(i).unwrap_or(0)\<close>, and the loop that fills a buffer from it.\<close>

definition byte_at :: "8 word list \<Rightarrow> nat \<Rightarrow> 8 word" where
  "byte_at pl i = (if i < length pl then pl ! i else 0)"

definition read_buf :: "8 word list \<Rightarrow> nat \<Rightarrow> nat \<Rightarrow> 8 word list" where
  "read_buf pl offset n = map (\<lambda>i. byte_at pl (offset + i)) [0..<n]"

definition decode_i128_from_bytes :: "8 word list \<Rightarrow> nat \<Rightarrow> int" where
  "decode_i128_from_bytes pl offset = i128_from_le_bytes (read_buf pl offset 16)"

definition decode_u64_at_1 :: "8 word list \<Rightarrow> nat" where
  "decode_u64_at_1 pl = nat (le_value (read_buf pl 1 8))"

section \<open>Entry points\<close>

definition set_multisig_config :: "env \<Rightarrow> address \<Rightarrow> multisig_config option \<Rightarrow> 't vault \<Rightarrow> ('t, unit) vault_result" where
  "set_multisig_config e caller config s =
     (if \<not> has_auth e caller then (Panic, s)
      else (case k_admin (cfg s) of
         None \<Rightarrow> (Err NotInitialized, s)
       | Some admin \<Rightarrow>
           if caller \<noteq> admin then (Err Unauthorized, s)
           else (case config of
              Some c \<Rightarrow> (case ms_set_config c s of
                  (Ok _, s1) \<Rightarrow> (Ok (), s1)
                | (Err _, s1) \<Rightarrow> (Err InvalidMultiSigConfig, s1)
                | (Panic, s1) \<Rightarrow> (Panic, s1))
            | None \<Rightarrow> (Ok (), s\<lparr>k_ms_config := None\<rparr>))))"

definition propose_action :: "env \<Rightarrow> address \<Rightarrow> 8 word list \<Rightarrow> 't vault \<Rightarrow> ('t, nat) vault_result" where
  "propose_action e caller pl s =
     (if \<not> has_auth e caller then (Panic, s)
      else (case ms_propose e caller pl s of
         (Ok pid, s1) \<Rightarrow> (Ok pid, s1)
       | (Err _, s1) \<Rightarrow> (Err Unauthorized, s1)
       | (Panic, s1) \<Rightarrow> (Panic, s1)))"

definition approve_error :: "multisig_error \<Rightarrow> stake_vault_error" where
  "approve_error er =
     (case er of
        MsProposalNotFound \<Rightarrow> EmergencyRequestNotFound
      | MsAlreadyApproved \<Rightarrow> AlreadyApproved
      | MsProposalExpired \<Rightarrow> EmergencyRequestExpired
      | _ \<Rightarrow> Unauthorized)"

definition approve_action :: "env \<Rightarrow> address \<Rightarrow> nat \<Rightarrow> 't vault \<Rightarrow> ('t, nat) vault_result" where
  "approve_action e caller pid s =
     (if \<not> has_auth e caller then (Panic, s)
      else (case ms_approve e caller pid s of
         (Ok n, s1) \<Rightarrow> (Ok n, s1)
       | (Err er, s1) \<Rightarrow> (Err (approve_error er), s1)
       | (Panic, s1) \<Rightarrow> (Panic, s1)))"

definition execute_error :: "multisig_error \<Rightarrow> stake_vault_error" where
  "execute_error er =
     (case er of
        MsAlreadyExecuted \<Rightarrow> EmergencyRequestNotFound
      | MsThresholdNotMet \<Rightarrow> Unauthorized
      | MsProposalExpired \<Rightarrow> EmergencyRequestExpired
      | _ \<Rightarrow> Unauthorized)"

definition do_pause :: "'t vault \<Rightarrow> ('t, unit) vault_result" where
  "do_pause s = (Ok (), set_paused s True)"

definition do_unpause :: "'t vault \<Rightarrow> ('t, unit) vault_result" where
  "do_unpause s = (Ok (), set_paused s False)"

text \<open>The \<^verbatim>\<open>match tag\<close> of \<^verbatim>\<open>execute_action\<close>: one branch per privileged action.\<close>

definition dispatch_action :: "'t token_impl \<Rightarrow> env \<Rightarrow> 8 word \<Rightarrow> 8 word list \<Rightarrow> 't vault \<Rightarrow> ('t, unit) vault_result" where
  "dispatch_action T e tag pl s =
     (if tag = action_PAUSE then do_pause s
      else if tag = action_UNPAUSE then do_unpause s
      else if tag = action_SET_MINIMUM_STAKE then
        (Ok (), s\<lparr>cfg := (cfg s)\<lparr>k_minimum_stake := Some (decode_i128_from_bytes pl 1)\<rparr>\<rparr>)
      else if tag = action_SET_MINIMUM_STAKE_DURATION then
        (Ok (), s\<lparr>cfg := (cfg s)\<lparr>k_minimum_stake_duration := Some (decode_u64_at_1 pl)\<rparr>\<rparr>)
      else if tag = action_CONFIGURE_SLASH_TIERS then
        (let minor = i128_as_u32 (decode_i128_from_bytes pl 1);
             major = i128_as_u32 (decode_i128_from_bytes pl 17);
             critical = i128_as_u32 (decode_i128_from_bytes pl 33)
         in case validate_slash_tiers minor major critical of
              Inl er \<Rightarrow> (Err er, s)
            | Inr _ \<Rightarrow> (Ok (), s\<lparr>cfg := (cfg s)\<lparr>k_slash_tier_config :=
                 Some \<lparr>minor_bps = minor, major_bps = major, critical_bps = critical\<rparr>\<rparr>\<rparr>))
      else if tag = action_SET_APPEAL_WINDOW then
        (let window = decode_u64_at_1 pl
         in if window > MAX_APPEAL_WINDOW_SECS then (Err InvalidAppealWindow, s)
            else (Ok (), s\<lparr>cfg := (cfg s)\<lparr>k_appeal_window_secs := Some window\<rparr>\<rparr>))
      else if tag = action_SET_WITHDRAWAL_COOLDOWN then
        (let cooldown = decode_u64_at_1 pl
         in case validate_cooldown cooldown of
              Inl er \<Rightarrow> (Err er, s)
            | Inr _ \<Rightarrow> (Ok (), s\<lparr>cfg := (cfg s)\<lparr>k_withdrawal_cooldown_secs := Some cooldown\<rparr>\<rparr>))
      else if tag = action_RESOLVE_APPEAL then
        do_resolve_appeal T e (decode_u64_at_1 pl) (byte_at pl 9 = 1) s
      else (Err Unauthorized, s))"

definition execute_action :: "'t token_impl \<Rightarrow> env \<Rightarrow> address \<Rightarrow> nat \<Rightarrow> 't vault \<Rightarrow> ('t, unit) vault_result" where
  "execute_action T e caller pid s =
     (if \<not> has_auth e caller then (Panic, s)
      else (case ms_get_proposal s pid of
         Inl _ \<Rightarrow> (Err EmergencyRequestNotFound, s)
       | Inr p \<Rightarrow>
      (case ms_require_can_execute e p s of
         Inl er \<Rightarrow> (Err (execute_error er), s)
       | Inr _ \<Rightarrow>
      (case payload p of
         [] \<Rightarrow> (Err Unauthorized, s)
       | tag # _ \<Rightarrow>
      (case dispatch_action T e tag (payload p) s of
         (Ok _, s1) \<Rightarrow>
           (case ms_mark_executed pid s1 of
              (Ok _, s2) \<Rightarrow> (Ok (), s2)
            | (Err _, s2) \<Rightarrow> (Err Unauthorized, s2)
            | (Panic, s2) \<Rightarrow> (Panic, s2))
       | (Err er, s1) \<Rightarrow> (Err er, s1)
       | (Panic, s1) \<Rightarrow> (Panic, s1))))))"

section \<open>Payload encoding\<close>

lemma le_value_to_le_bytes: "le_value (to_le_bytes n v) = v mod 256 ^ n"
proof (induction n arbitrary: v)
  case (Suc n)
  have "uint (word_of_int (v mod 256) :: 8 word) = v mod 256"
    by (simp add: unsigned_of_int take_bit_eq_mod)
  then have "le_value (to_le_bytes (Suc n) v) = v mod 256 + 256 * (v div 256 mod 256 ^ n)"
    using Suc by simp
  also have "\<dots> = v mod 256 ^ Suc n"
    by (simp add: zmod_zmult2_eq)
  finally show ?case .
qed simp

lemma length_to_le_bytes [simp]: "length (to_le_bytes n v) = n"
  by (induction n arbitrary: v) simp_all

lemma read_buf_middle: "length mid = n \<Longrightarrow> read_buf (pre @ mid @ post) (length pre) n = mid"
  by (rule nth_equalityI) (auto simp: read_buf_def byte_at_def nth_append)

lemma i128_from_le_bytes_inverse: "in_i128 v \<Longrightarrow> i128_from_le_bytes (to_le_bytes 16 v) = v"
proof -
  assume v: "in_i128 v"
  have pow: "(256::int) ^ 16 = 340282366920938463463374607431768211456" "(2::int) ^ 128 = 340282366920938463463374607431768211456"
    by simp_all
  show ?thesis
  proof (cases "0 \<le> v")
    case True
    with v have "v mod 340282366920938463463374607431768211456 = v" by (simp add: in_i128_def i128_max_def)
    with v show ?thesis
      unfolding i128_from_le_bytes_def le_value_to_le_bytes pow by (simp add: in_i128_def Let_def)
  next
    case False
    then have "v mod 340282366920938463463374607431768211456 = v + 340282366920938463463374607431768211456"
      using v mod_pos_pos_trivial [of "v + 340282366920938463463374607431768211456" 340282366920938463463374607431768211456]
      by (simp add: in_i128_def i128_min_def)
    with v False show ?thesis
      unfolding i128_from_le_bytes_def le_value_to_le_bytes pow
      by (simp add: in_i128_def i128_min_def i128_max_def Let_def)
  qed
qed

section \<open>The approval flow of the vault\<close>

definition ms_part :: "'t vault \<Rightarrow> multisig_config option \<times> nat option \<times> (nat, proposal) smap" where
  "ms_part s = (k_ms_config s, k_ms_next_id s, k_ms_proposals s)"

lemma ms_part_simps [simp]:
  "ms_part (s\<lparr>cfg := c\<rparr>) = ms_part s" "ms_part (set_paused s b) = ms_part s"
  "ms_part (s\<lparr>k_tokens := t\<rparr>) = ms_part s" "ms_part (s\<lparr>k_stakes_v2 := x\<rparr>) = ms_part s"
  "ms_part (s\<lparr>k_slashed_funds_held := h\<rparr>) = ms_part s" "ms_part (s\<lparr>k_slash_appeal := a\<rparr>) = ms_part s"
  "ms_part (s\<lparr>event_log := l\<rparr>) = ms_part s"
  by (simp_all add: ms_part_def set_paused_def publish_def)

lemma transfer_ms_part: "burn_tokens T tk a x s = (r, s') \<Longrightarrow> ms_part s' = ms_part s"
  by (auto simp: burn_tokens_def split: prod.splits)

lemma finish_appeal_ms_part [simp]: "ms_part (finish_appeal i u p a s) = ms_part s"
  by (simp add: finish_appeal_def publish_def ms_part_def)

lemma credit_restored_ms_part [simp]: "ms_part (credit_restored e p x s) = ms_part s"
  by (simp add: credit_restored_def Let_def ms_part_def)

lemma do_resolve_ms_part: "do_resolve_appeal T e i u s = (r, s') \<Longrightarrow> ms_part s' = ms_part s"
  unfolding do_resolve_appeal_def Let_def
  by (auto split: option.splits if_splits prod.splits outcome.splits dest!: transfer_ms_part)

lemma dispatch_ms_part: "dispatch_action T e tag pl s = (r, s') \<Longrightarrow> ms_part s' = ms_part s"
  unfolding dispatch_action_def do_pause_def do_unpause_def Let_def
  by (auto split: if_splits sum.splits dest: do_resolve_ms_part)

lemma ms_inv_part: "ms_part s' = ms_part s \<Longrightarrow> ms_inv s' = ms_inv s"
  by (simp add: ms_part_def ms_inv_def)

lemma execute_action_Ok:
  assumes "execute_action T e caller pid s = (Ok u, s')"
  obtains p tag rest s1 where "has_auth e caller" "smap_get (k_ms_proposals s) pid = Some p"
    "ms_require_can_execute e p s = Inr ()" "payload p = tag # rest"
    "dispatch_action T e tag (payload p) s = (Ok (), s1)" "ms_mark_executed pid s1 = (Ok (), s')"
  using assms
  by (auto simp: execute_action_def split: if_splits sum.splits list.splits prod.splits outcome.splits)

lemma propose_action_Ok: "propose_action e a pl s = (Ok pid, s') \<Longrightarrow> has_auth e a \<and> ms_propose e a pl s = (Ok pid, s')"
  by (auto simp: propose_action_def split: if_splits prod.splits outcome.splits)

lemma approve_action_Ok: "approve_action e a pid s = (Ok n, s') \<Longrightarrow> has_auth e a \<and> ms_approve e a pid s = (Ok n, s')"
  by (auto simp: approve_action_def split: if_splits prod.splits outcome.splits)

text \<open>
  A run of the vault with a ghost history: who signed which proposal while being a signer, and which
  proposals were executed. Steps that leave the multi-sig storage alone are arbitrary.
\<close>

definition signed_by :: "env \<Rightarrow> address \<Rightarrow> nat \<Rightarrow> 't vault \<Rightarrow> (nat \<times> address) set" where
  "signed_by e a pid s =
     (if has_auth e a \<and> (\<exists>c. k_ms_config s = Some c \<and> a \<in> set (signers c)) then {(pid, a)} else {})"

inductive action_run :: "'t token_impl \<Rightarrow> (nat \<times> address) set \<Rightarrow> nat list \<Rightarrow> 't vault \<Rightarrow> bool"
  for T :: "'t token_impl" where
  start: "k_ms_proposals s = [] \<Longrightarrow> k_ms_config s = None \<Longrightarrow> k_ms_next_id s = None \<Longrightarrow> action_run T {} [] s"
| configure: "action_run T H X s \<Longrightarrow> invoke (set_multisig_config e caller c) s = (Ok u, s') \<Longrightarrow> action_run T H X s'"
| propose: "action_run T H X s \<Longrightarrow> invoke (propose_action e a pl) s = (Ok pid, s') \<Longrightarrow>
    action_run T (H \<union> signed_by e a pid s) X s'"
| approve: "action_run T H X s \<Longrightarrow> invoke (approve_action e a pid) s = (Ok n, s') \<Longrightarrow>
    action_run T (H \<union> signed_by e a pid s) X s'"
| execute: "action_run T H X s \<Longrightarrow> invoke (execute_action T e caller pid) s = (Ok u, s') \<Longrightarrow>
    action_run T H (pid # X) s'"
| other: "action_run T H X s \<Longrightarrow> ms_part s' = ms_part s \<Longrightarrow> action_run T H X s'"

definition actions_ok :: "(nat \<times> address) set \<Rightarrow> nat list \<Rightarrow> 't vault \<Rightarrow> bool" where
  "actions_ok H X s \<longleftrightarrow> ms_inv s \<and> distinct X \<and>
     (\<forall>pid p. smap_get (k_ms_proposals s) pid = Some p \<longrightarrow> (\<forall>a \<in> set (approvals p). (pid, a) \<in> H)) \<and>
     (\<forall>pid \<in> set X. \<exists>p. smap_get (k_ms_proposals s) pid = Some p \<and> proposal_state p = ProposalExecuted)"

lemma actions_ok_part: "ms_part s' = ms_part s \<Longrightarrow> actions_ok H X s' = actions_ok H X s"
  using ms_inv_part [of s' s] by (simp add: actions_ok_def ms_part_def)

lemma actions_ok_propose:
  assumes "actions_ok H X s" and "propose_action e a pl s = (Ok pid, s')"
  shows "actions_ok (H \<union> signed_by e a pid s) X s'"
proof -
  from assms(2) have au: "has_auth e a" and run: "ms_propose e a pl s = (Ok pid, s')"
    by (auto dest: propose_action_Ok)
  have inv: "ms_inv s'" using assms(1) run by (auto simp: actions_ok_def intro: ms_inv_propose)
  from run show ?thesis
  proof (rule ms_proposeE)
    fix c p
    assume p: "ms_get_config s = Some c" "a \<in> set (signers c)" "pid = get_or 1 (k_ms_next_id s)" "approvals p = [a]"
      "s' = s\<lparr>k_ms_next_id := Some (pid + 1), k_ms_proposals := smap_set (k_ms_proposals s) pid p\<rparr>"
    have "i \<noteq> pid" if "smap_get (k_ms_proposals s) i = Some q" for i q
      using assms(1) that p(3) by (auto simp: actions_ok_def ms_inv_def proposal_ok_def)
    then have "\<exists>q. smap_get (k_ms_proposals s') i = Some q \<and> proposal_state q = ProposalExecuted" if "i \<in> set X" for i
      using assms(1) that unfolding actions_ok_def p(5) by fastforce
    moreover have "(pid, a) \<in> signed_by e a pid s"
      using au p(1,2) by (simp add: signed_by_def ms_get_config_def)
    ultimately show ?thesis
      using assms(1) inv p(4) unfolding actions_ok_def by (auto simp: p(5))
  qed
qed

lemma actions_ok_approve:
  assumes "actions_ok H X s" and "approve_action e a pid s = (Ok n, s')"
  shows "actions_ok (H \<union> signed_by e a pid s) X s'"
proof -
  from assms(2) have au: "has_auth e a" and run: "ms_approve e a pid s = (Ok n, s')"
    by (auto dest: approve_action_Ok)
  have inv: "ms_inv s'" using assms(1) run by (auto simp: actions_ok_def intro: ms_inv_approve)
  from run show ?thesis
  proof (rule ms_approveE)
    fix c p
    assume p: "ms_get_config s = Some c" "a \<in> set (signers c)" "smap_get (k_ms_proposals s) pid = Some p"
      "proposal_state p = ProposalPending"
      "s' = s\<lparr>k_ms_proposals := smap_set (k_ms_proposals s) pid (p\<lparr>approvals := approvals p @ [a]\<rparr>)\<rparr>"
    have "\<exists>q. smap_get (k_ms_proposals s') i = Some q \<and> proposal_state q = ProposalExecuted" if "i \<in> set X" for i
      using assms(1) that p(3,4) unfolding actions_ok_def p(5) by fastforce
    moreover have "(pid, a) \<in> signed_by e a pid s"
      using au p(1,2) by (simp add: signed_by_def ms_get_config_def)
    ultimately show ?thesis
      using assms(1) inv p(3) unfolding actions_ok_def by (auto simp: p(5))
  qed
qed

lemma actions_ok_execute:
  assumes "actions_ok H X s" and "execute_action T e caller pid s = (Ok u, s')"
  shows "actions_ok H (pid # X) s'"
  using assms(2)
proof (cases rule: execute_action_Ok)
  case (1 p tag rest s1)
  note part = dispatch_ms_part [OF 1(5)]
  have ok1: "actions_ok H X s1" using assms(1) actions_ok_part [OF part] by blast
  have inv: "ms_inv s'" using ok1 1(6) by (auto simp: actions_ok_def intro: ms_inv_mark_executed)
  from 1(6) show ?thesis
  proof (rule ms_mark_executedE)
    fix q
    assume q: "smap_get (k_ms_proposals s1) pid = Some q" "proposal_state q = ProposalPending"
      "s' = s1\<lparr>k_ms_proposals := smap_set (k_ms_proposals s1) pid (q\<lparr>proposal_state := ProposalExecuted\<rparr>)\<rparr>"
    have "pid \<notin> set X" using ok1 q(1,2) by (auto simp: actions_ok_def)
    then show ?thesis
      using ok1 inv q(1) unfolding actions_ok_def by (auto simp: q(3))
  qed
qed

lemma action_run_ok: "action_run T H X s \<Longrightarrow> actions_ok H X s"
proof (induction rule: action_run.induct)
  case (start s)
  then show ?case by (simp add: actions_ok_def ms_inv_def)
next
  case (configure H X s e caller c u s')
  then show ?case
    by (auto simp: actions_ok_def set_multisig_config_def ms_set_config_def ms_inv_def
        split: if_splits option.splits sum.splits)
next
  case (propose H X s e a pl pid s')
  then show ?case by (auto intro: actions_ok_propose)
next
  case (approve H X s e a pid n s')
  then show ?case by (auto intro: actions_ok_approve)
next
  case (execute H X s e caller pid u s')
  then show ?case by (auto intro: actions_ok_execute)
next
  case (other H X s s')
  then show ?case using actions_ok_part [of s' s H X] by simp
qed

interpretation resap: single_admin_operation "\<lambda>e. resolve_appeal T e i u" for T i u
  unfolding resolve_appeal_def by (rule with_single_admin_operation) simp

section \<open>A sample run\<close>

text \<open>Two signers, both needed: signer 1 proposes to pause the vault, signer 5 approves, anybody executes.\<close>

definition sample_signers :: multisig_config where
  "sample_signers = \<lparr>signers = [Addr 1, Addr 5], threshold = 2, proposal_timeout_secs = 1000\<rparr>"

definition sample_multisig :: "balance_ledger vault" where
  "sample_multisig = snd (set_multisig_config (sample_env 100 5) (Addr 1) (Some sample_signers) sample_vault)"

definition sample_proposed :: "balance_ledger vault" where
  "sample_proposed = snd (propose_action (sample_env 110 6) (Addr 1) [action_PAUSE] sample_multisig)"

definition sample_approved :: "balance_ledger vault" where
  "sample_approved = snd (approve_action (sample_env 120 7) (Addr 5) 1 sample_proposed)"

definition sample_paused :: "balance_ledger vault" where
  "sample_paused = snd (execute_action asset_contract (sample_env 130 8) (Addr 7) 1 sample_approved)"

lemmas flow_defs =
  set_multisig_config_def ms_set_config_def validate_config_def MAX_SIGNERS_def sample_signers_def
  propose_action_def ms_propose_def ms_get_config_def ms_get_next_id_def is_signer_def u64_max_def
  approve_action_def ms_approve_def ms_get_proposal_def has_approved_def execute_action_def
  ms_require_can_execute_def ms_mark_executed_def dispatch_action_def do_pause_def sat_add_u64_def sample_defs Let_def

lemma sample_multisig_state: "sample_multisig = sample_vault\<lparr>k_ms_config := Some sample_signers\<rparr>"
  by (simp add: sample_multisig_def flow_defs)

lemma sample_proposed_state:
  "sample_proposed = sample_vault\<lparr>k_ms_config := Some sample_signers, k_ms_next_id := Some 2,
     k_ms_proposals := [(1, \<lparr>proposal_id = 1, proposer = Addr 1, payload = [action_PAUSE], approvals = [Addr 1],
        proposal_state = ProposalPending, created_at = 110, expires_at = 1110\<rparr>)]\<rparr>"
  by (simp add: sample_proposed_def sample_multisig_state flow_defs)

lemma sample_approved_state:
  "sample_approved = sample_vault\<lparr>k_ms_config := Some sample_signers, k_ms_next_id := Some 2,
     k_ms_proposals := [(1, \<lparr>proposal_id = 1, proposer = Addr 1, payload = [action_PAUSE], approvals = [Addr 1, Addr 5],
        proposal_state = ProposalPending, created_at = 110, expires_at = 1110\<rparr>)]\<rparr>"
  by (simp add: sample_approved_def sample_proposed_state flow_defs)

lemma sample_flow:
  "set_multisig_config (sample_env 100 5) (Addr 1) (Some sample_signers) sample_vault = (Ok (), sample_multisig)"
  "propose_action (sample_env 110 6) (Addr 1) [action_PAUSE] sample_multisig = (Ok 1, sample_proposed)"
  "approve_action (sample_env 120 7) (Addr 5) 1 sample_proposed = (Ok 2, sample_approved)"
  "execute_action asset_contract (sample_env 130 8) (Addr 7) 1 sample_approved = (Ok (), sample_paused)"
  unfolding sample_paused_def
  by (simp_all add: sample_multisig_state sample_proposed_state sample_approved_state)
     (simp_all add: flow_defs)

lemma sample_action_run:
  obtains H where "action_run asset_contract H [] sample_approved" "H \<subseteq> {(1, Addr 1), (1, Addr 5)}"
proof -
  have "action_run asset_contract {} [] sample_vault"
    by (rule action_run.start) (simp_all add: sample_defs)
  then have "action_run asset_contract {} [] sample_multisig"
    using sample_flow(1) by (auto intro: action_run.configure)
  then have "action_run asset_contract ({} \<union> signed_by (sample_env 110 6) (Addr 1) 1 sample_multisig) [] sample_proposed"
    by (rule action_run.propose) (use sample_flow(2) in auto)
  then have "action_run asset_contract ({} \<union> signed_by (sample_env 110 6) (Addr 1) 1 sample_multisig \<union>
      signed_by (sample_env 120 7) (Addr 5) 1 sample_proposed) [] sample_approved"
    by (rule action_run.approve) (use sample_flow(3) in auto)
  then show ?thesis by (rule that) (simp add: signed_by_def)
qed

section \<open>Properties\<close>

text \<open>
  C9: A privileged action runs only with a quorum. In every run of the vault, a successful
  \<^verbatim>\<open>execute_action\<close> performs exactly the action that was proposed, while a multi-sig configuration is set
  and before the proposal expires, and at least the configured number of different addresses had signed this
  proposal, each at a time when it was a signer.
\<close>

theorem execute_needs_quorum:
  assumes "action_run T H X s" and "execute_action T e caller pid s = (Ok u, s')"
  shows "\<exists>c p s1. k_ms_config s = Some c \<and> 0 < threshold c \<and>
    smap_get (k_ms_proposals s) pid = Some p \<and> ledger_timestamp e \<le> expires_at p \<and>
    distinct (approvals p) \<and> threshold c \<le> length (approvals p) \<and> (\<forall>a \<in> set (approvals p). (pid, a) \<in> H) \<and>
    dispatch_action T e (hd (payload p)) (payload p) s = (Ok (), s1) \<and> ms_mark_executed pid s1 = (Ok (), s')"
  using assms(2)
proof (cases rule: execute_action_Ok)
  case (1 p tag rest s1)
  have ok: "actions_ok H X s" using assms(1) by (rule action_run_ok)
  then have inv: "ms_inv s" by (simp add: actions_ok_def)
  from can_execute_distinct [OF inv 1(2,3)] obtain c where c: "k_ms_config s = Some c" "0 < threshold c"
    "threshold c \<le> card (set (approvals p))" "ledger_timestamp e \<le> expires_at p" by blast
  moreover have "distinct (approvals p)" using inv 1(2) by (auto simp: ms_inv_def proposal_ok_def)
  ultimately show ?thesis
    using 1 ok by (auto simp: distinct_card actions_ok_def)
qed

theorem execute_needs_quorum_witness:
  "\<exists>A. distinct A \<and> 2 \<le> length A \<and> set A \<subseteq> {Addr 1, Addr 5}"
proof (rule sample_action_run)
  fix H assume H: "action_run asset_contract H [] sample_approved" "H \<subseteq> {(1, Addr 1), (1, Addr 5)}"
  have c: "k_ms_config sample_approved = Some sample_signers" by (simp add: sample_approved_state)
  from execute_needs_quorum [OF H(1) sample_flow(4)] c H(2) show ?thesis
    by (fastforce simp: sample_signers_def)
qed

text \<open>
  C36: No proposal is executed twice, in any run of the vault: the list of executed proposals has
  no repetition, and executing one of them again fails.
\<close>

theorem executed_once:
  assumes "action_run T H X s"
  shows "distinct X \<and> (\<forall>pid \<in> set X. \<not> is_ok (fst (execute_action T e caller pid s)))"
proof -
  have ok: "actions_ok H X s" using assms by (rule action_run_ok)
  have "\<not> is_ok (fst (execute_action T e caller pid s))" if pid: "pid \<in> set X" for pid
  proof
    assume "is_ok (fst (execute_action T e caller pid s))"
    then obtain u s' where "execute_action T e caller pid s = (Ok u, s')"
      by (metis is_okE prod.collapse)
    then show False
    proof (cases rule: execute_action_Ok)
      case (1 p tag rest s1)
      with ok pid show False
        by (auto simp: actions_ok_def ms_require_can_execute_def split: option.splits if_splits)
    qed
  qed
  with ok show ?thesis by (simp add: actions_ok_def)
qed

theorem executed_once_witness:
  "\<not> is_ok (fst (execute_action asset_contract (sample_env 140 9) (Addr 7) 1 sample_paused))"
proof (rule sample_action_run)
  fix H assume "action_run asset_contract H [] sample_approved"
  then have "action_run asset_contract H [1] sample_paused"
    using sample_flow(4) by (auto intro: action_run.execute)
  from executed_once [OF this] show ?thesis by simp
qed

text \<open>
  C39: The payload encoding loses nothing: a 128-bit argument placed anywhere in a payload is
  decoded to the same value, and so is a 64-bit argument after the tag.
\<close>

theorem payload_round_trip:
  assumes "in_i128 v" and "n \<le> u64_max"
  shows "decode_i128_from_bytes (encode_action tag (pre @ encode_i128_bytes v @ post)) (Suc (length pre)) = v \<and>
    decode_u64_at_1 (encode_action tag (to_le_bytes 8 (int n) @ post)) = n"
proof
  have "read_buf ((tag # pre) @ to_le_bytes 16 v @ post) (length (tag # pre)) 16 = to_le_bytes 16 v"
    by (rule read_buf_middle) simp
  then show "decode_i128_from_bytes (encode_action tag (pre @ encode_i128_bytes v @ post)) (Suc (length pre)) = v"
    using i128_from_le_bytes_inverse [OF assms(1)]
    by (simp add: decode_i128_from_bytes_def encode_action_def encode_i128_bytes_def)
  have "read_buf ([tag] @ to_le_bytes 8 (int n) @ post) (length [tag]) 8 = to_le_bytes 8 (int n)"
    by (rule read_buf_middle) simp
  moreover have "int n mod 256 ^ 8 = int n" using assms(2) by (simp add: u64_max_def)
  ultimately show "decode_u64_at_1 (encode_action tag (to_le_bytes 8 (int n) @ post)) = n"
    by (simp add: decode_u64_at_1_def encode_action_def le_value_to_le_bytes)
qed

theorem payload_round_trip_witness:
  "decode_i128_from_bytes (encode_action action_SET_MINIMUM_STAKE (encode_i128_bytes (- 5))) 1 = - 5"
  using payload_round_trip [of "- 5" 0 action_SET_MINIMUM_STAKE "[]" "[]"] by (simp add: int_defs)

text \<open>
  Once a multi-sig configuration is set, no single administrator can use a privileged entry
  point: pausing, unpausing, the setters and the resolution of an appeal are refused without any effect.
\<close>

theorem multisig_gate:
  assumes "k_ms_config s = Some c"
  shows "pause e s = (Err RequiresMultisig, s) \<and> unpause e s = (Err RequiresMultisig, s) \<and>
    set_minimum_stake e m s = (Err RequiresMultisig, s) \<and>
    set_minimum_stake_duration e d s = (Err RequiresMultisig, s) \<and>
    configure_slash_tiers e x y z s = (Err RequiresMultisig, s) \<and>
    set_appeal_window e w s = (Err RequiresMultisig, s) \<and>
    set_withdrawal_cooldown e k s = (Err RequiresMultisig, s) \<and>
    set_max_unstake_queue_size e q s = (Err RequiresMultisig, s) \<and>
    resolve_appeal T e i up s = (Err RequiresMultisig, s)"
proof -
  have gate: "ms_get_config s \<noteq> None" using assms by (simp add: ms_get_config_def)
  show ?thesis
    using paus.multisig_needed [OF gate] unpaus.multisig_needed [OF gate] minst.multisig_needed [OF gate]
      mindur.multisig_needed [OF gate] sltier.multisig_needed [OF gate] apwin.multisig_needed [OF gate]
      wdcool.multisig_needed [OF gate] qsize.multisig_needed [OF gate] resap.multisig_needed [OF gate]
    by simp
qed

theorem multisig_gate_witness: "pause (sample_env 140 9) sample_multisig = (Err RequiresMultisig, sample_multisig)"
  using multisig_gate [of sample_multisig sample_signers "sample_env 140 9"] by (simp add: sample_multisig_state)

end
