(* ===== verification/Reward_Vault.thy ===== *)
theory Reward_Vault
  imports Vault_Core
begin

text \<open>
  \<^verbatim>\<open>stake_vault/src/reward_vault.rs\<close> with its entry points in \<^verbatim>\<open>lib.rs\<close>: rewards are deposited as
  buckets of one asset for one provider, and a provider claims any number of buckets in one call.
  A bucket pays once.
\<close>

datatype reward_vault_error = UnsupportedAsset | RewardInvalidAmount | RewardBatchSizeInvalid

definition MAX_REWARD_BATCH :: nat where
  "MAX_REWARD_BATCH = 100"

definition supported_assets :: "'t vault \<Rightarrow> address list" where
  "supported_assets s = get_or [] (rk_supported_assets (rewards s))"

definition is_supported :: "address \<Rightarrow> 't vault \<Rightarrow> bool" where
  "is_supported asset s = list_ex (\<lambda>a. a = asset) (supported_assets s)"

definition add_supported_asset :: "address \<Rightarrow> 't vault \<Rightarrow> 't vault" where
  "add_supported_asset asset s =
     (if is_supported asset s then s
      else publish (s\<lparr>rewards := (rewards s)\<lparr>rk_supported_assets :=
                        Some (supported_assets s @ [asset])\<rparr>\<rparr>)
             [contract_topic, VSym ''rwdasset''] (VAddr asset))"

definition add_reward_asset :: "env \<Rightarrow> address \<Rightarrow> 't vault \<Rightarrow> ('t, unit) vault_result" where
  "add_reward_asset e asset =
     with_admin e (Err NotInitialized) (\<lambda>s. (Ok (), add_supported_asset asset s))"

definition reward_balance :: "address \<Rightarrow> address \<Rightarrow> 't vault \<Rightarrow> int" where
  "reward_balance provider asset s =
     get_or 0 (smap_get (rk_provider_asset_balance (rewards s)) (provider, asset))"

definition asset_total :: "address \<Rightarrow> 't vault \<Rightarrow> int" where
  "asset_total asset s = get_or 0 (smap_get (rk_asset_total_deposited (rewards s)) asset)"

section \<open>Deposits\<close>

text \<open>The panicking \<^verbatim>\<open>transfer\<close> of the client: any failure traps.\<close>

definition transfer_or_panic :: "'t token_impl \<Rightarrow> address \<Rightarrow> address \<Rightarrow> address \<Rightarrow> int \<Rightarrow>
    't vault \<Rightarrow> ('e, unit) outcome \<times> 't vault" where
  "transfer_or_panic T tk from to amt s =
     (case transfer_tokens T tk from to amt s of (Ok _, s1) \<Rightarrow> (Ok (), s1) | (_, s1) \<Rightarrow> (Panic, s1))"

definition rv_deposit_reward :: "'t token_impl \<Rightarrow> env \<Rightarrow> address \<Rightarrow> address \<Rightarrow> address \<Rightarrow> int \<Rightarrow> nat \<Rightarrow>
    't vault \<Rightarrow> (reward_vault_error, nat) outcome \<times> 't vault" where
  "rv_deposit_reward T e depositor provider asset amount epoch s =
     (if \<not> is_supported asset s then (Err UnsupportedAsset, s)
      else if amount \<le> 0 then (Err RewardInvalidAmount, s)
      else (let R = rewards s;
                bucket_id = get_or 0 (rk_bucket_counter R);
                bucket = \<lparr>rb_bucket_id = bucket_id, rb_provider = provider, rb_asset = asset,
                          rb_amount = amount, rb_epoch = epoch\<rparr>;
                s1 = s\<lparr>rewards := R\<lparr>
                  rk_bucket_counter := Some (sat_add_u64 bucket_id 1),
                  rk_bucket := smap_set (rk_bucket R) bucket_id bucket,
                  rk_asset_total_deposited := smap_set (rk_asset_total_deposited R) asset
                    (saturating_add (asset_total asset s) amount),
                  rk_provider_asset_balance := smap_set (rk_provider_asset_balance R) (provider, asset)
                    (saturating_add (reward_balance provider asset s) amount)\<rparr>\<rparr>
            in (case transfer_or_panic T asset depositor (current_contract_address e) amount s1 of
                  (Ok _, s2) \<Rightarrow>
                    (Ok bucket_id,
                     publish s2 [contract_topic, VSym ''rwddep'']
                       (VVec [VAddr provider, VAddr asset, VI128 amount, VU64 epoch, VU64 bucket_id]))
                | (Err er, s2) \<Rightarrow> (Err er, s2)
                | (Panic, s2) \<Rightarrow> (Panic, s2))))"

definition reward_deposit_error :: "reward_vault_error \<Rightarrow> stake_vault_error" where
  "reward_deposit_error er =
     (case er of UnsupportedAsset \<Rightarrow> Unauthorized | RewardInvalidAmount \<Rightarrow> InvalidAmount
      | RewardBatchSizeInvalid \<Rightarrow> BatchSizeInvalid)"

definition deposit_reward :: "'t token_impl \<Rightarrow> env \<Rightarrow> address \<Rightarrow> address \<Rightarrow> address \<Rightarrow> int \<Rightarrow> nat \<Rightarrow>
    't vault \<Rightarrow> ('t, nat) vault_result" where
  "deposit_reward T e depositor provider asset amount epoch s =
     (if \<not> has_auth e depositor then (Panic, s)
      else if is_paused s then (Err ContractPaused, s)
      else (case rv_deposit_reward T e depositor provider asset amount epoch s of
         (Ok bid, s1) \<Rightarrow> (Ok bid, s1)
       | (Err er, s1) \<Rightarrow> (Err (reward_deposit_error er), s1)
       | (Panic, s1) \<Rightarrow> (Panic, s1)))"

section \<open>Claims\<close>

text \<open>
  The parallel vectors \<^verbatim>\<open>asset_keys\<close> and \<^verbatim>\<open>asset_totals\<close> as one list of pairs: the first entry with
  the asset grows, otherwise a new entry is appended.
\<close>

fun accumulate :: "address \<Rightarrow> int \<Rightarrow> (address \<times> int) list \<Rightarrow> (address \<times> int) list" where
  "accumulate asset amount [] = [(asset, amount)]"
| "accumulate asset amount ((a, cur) # rest) =
     (if a = asset then (a, saturating_add cur amount) # rest
      else (a, cur) # accumulate asset amount rest)"

definition claimable :: "address \<Rightarrow> nat \<Rightarrow> 't vault \<Rightarrow> reward_bucket option" where
  "claimable provider bid s =
     (if smap_has (rk_claimed (rewards s)) (provider, bid) then None
      else (case smap_get (rk_bucket (rewards s)) bid of
              None \<Rightarrow> None
            | Some bucket \<Rightarrow>
                if rb_provider bucket \<noteq> provider then None
                else if \<not> is_supported (rb_asset bucket) s then None
                else Some bucket))"

definition mark_claimed :: "address \<Rightarrow> nat \<Rightarrow> reward_bucket \<Rightarrow> 't vault \<Rightarrow> 't vault" where
  "mark_claimed provider bid bucket s =
     s\<lparr>rewards := (rewards s)\<lparr>
         rk_claimed := smap_set (rk_claimed (rewards s)) (provider, bid) True,
         rk_provider_asset_balance :=
           smap_set (rk_provider_asset_balance (rewards s)) (provider, rb_asset bucket)
             (saturating_sub (reward_balance provider (rb_asset bucket) s) (rb_amount bucket))\<rparr>\<rparr>"

fun claim_loop :: "address \<Rightarrow> nat list \<Rightarrow> (address \<times> int) list \<Rightarrow> 't vault \<Rightarrow> (address \<times> int) list \<times> 't vault" where
  "claim_loop provider [] totals s = (totals, s)"
| "claim_loop provider (bid # bids) totals s =
     (case claimable provider bid s of
        None \<Rightarrow> claim_loop provider bids totals s
      | Some bucket \<Rightarrow>
          claim_loop provider bids (accumulate (rb_asset bucket) (rb_amount bucket) totals)
            (mark_claimed provider bid bucket s))"

fun payout_loop :: "'t token_impl \<Rightarrow> env \<Rightarrow> address \<Rightarrow> (address \<times> int) list \<Rightarrow> (address \<times> int) list \<Rightarrow>
    't vault \<Rightarrow> (reward_vault_error, (address \<times> int) list) outcome \<times> 't vault" where
  "payout_loop T e provider [] results s = (Ok results, s)"
| "payout_loop T e provider ((asset, tot) # rest) results s =
     (if tot \<le> 0 then payout_loop T e provider rest results s
      else (case transfer_or_panic T asset (current_contract_address e) provider tot s of
         (Ok _, s1) \<Rightarrow>
           payout_loop T e provider rest (results @ [(asset, tot)])
             (publish s1 [contract_topic, VSym ''rwdbatch'']
                (VVec [VAddr provider, VAddr asset, VI128 tot]))
       | (Err er, s1) \<Rightarrow> (Err er, s1)
       | (Panic, s1) \<Rightarrow> (Panic, s1)))"

definition rv_batch_claim_rewards :: "'t token_impl \<Rightarrow> env \<Rightarrow> address \<Rightarrow> nat list \<Rightarrow>
    't vault \<Rightarrow> (reward_vault_error, (address \<times> int) list) outcome \<times> 't vault" where
  "rv_batch_claim_rewards T e provider bucket_ids s =
     (let len = length bucket_ids
      in if len = 0 \<or> len > MAX_REWARD_BATCH then (Err RewardBatchSizeInvalid, s)
         else (case claim_loop provider bucket_ids [] s of
                 (totals, s1) \<Rightarrow> payout_loop T e provider totals [] s1))"

definition batch_claim_rewards :: "'t token_impl \<Rightarrow> env \<Rightarrow> address \<Rightarrow> nat list \<Rightarrow>
    't vault \<Rightarrow> ('t, (address \<times> int) list) vault_result" where
  "batch_claim_rewards T e provider bucket_ids s =
     (if \<not> has_auth e provider then (Panic, s)
      else if is_paused s then (Err ContractPaused, s)
      else (case rv_batch_claim_rewards T e provider bucket_ids s of
         (Ok rs, s1) \<Rightarrow> (Ok rs, s1)
       | (Err RewardBatchSizeInvalid, s1) \<Rightarrow> (Err BatchSizeInvalid, s1)
       | (Err _, s1) \<Rightarrow> (Err InvalidAmount, s1)
       | (Panic, s1) \<Rightarrow> (Panic, s1)))"

section \<open>What the vault owes\<close>

text \<open>
  The sum of the unclaimed buckets that satisfy \<open>P\<close>, and the facts about the reward storage that
  every operation keeps: bucket and claim keys are below the counter and amounts are positive.
\<close>

definition owed :: "(reward_bucket \<Rightarrow> bool) \<Rightarrow> reward_store \<Rightarrow> int" where
  "owed P R = smap_ktotal (\<lambda>bid b. if P b \<and> \<not> smap_has (rk_claimed R) (rb_provider b, bid) then rb_amount b else 0)
     (rk_bucket R)"

definition rewards_owed :: "address \<Rightarrow> 't vault \<Rightarrow> int" where
  "rewards_owed asset s = owed (\<lambda>b. rb_asset b = asset) (rewards s)"

definition rewards_wf :: "reward_store \<Rightarrow> bool" where
  "rewards_wf R \<longleftrightarrow> smap_ok (rk_bucket R) \<and>
     (\<forall>bid b. smap_get (rk_bucket R) bid = Some b \<longrightarrow> bid < get_or 0 (rk_bucket_counter R) \<and> 0 < rb_amount b) \<and>
     (\<forall>p bid. smap_has (rk_claimed R) (p, bid) \<longrightarrow> bid < get_or 0 (rk_bucket_counter R))"

lemma owed_nonneg: "rewards_wf R \<Longrightarrow> 0 \<le> owed P R"
  unfolding owed_def rewards_wf_def by (intro smap_ktotal_nonneg) (auto simp: less_imp_le)

lemma owed_claim:
  assumes "rewards_wf R" and "smap_get (rk_bucket R) bid = Some b" and "\<not> smap_has (rk_claimed R) (rb_provider b, bid)"
    and "rk_bucket R' = rk_bucket R" and "rk_claimed R' = smap_set (rk_claimed R) (rb_provider b, bid) True"
  shows "owed P R' = owed P R - (if P b then rb_amount b else 0)"
proof -
  have "smap_ok (rk_bucket R)" using assms(1) by (simp add: rewards_wf_def)
  then show ?thesis
    unfolding owed_def assms(4)
    by (subst smap_ktotal_change [where k = bid and
          g = "\<lambda>bid b. if P b \<and> \<not> smap_has (rk_claimed R) (rb_provider b, bid) then rb_amount b else 0"])
       (use assms(2,3,5) in auto)
qed

lemma owed_deposit:
  assumes "rewards_wf R" and "rk_bucket R' = smap_set (rk_bucket R) (get_or 0 (rk_bucket_counter R)) b"
    and "rk_claimed R' = rk_claimed R"
  shows "owed P R' = owed P R + (if P b then rb_amount b else 0)"
proof -
  let ?i = "get_or 0 (rk_bucket_counter R)"
  have ok: "smap_ok (rk_bucket R)" using assms(1) by (simp add: rewards_wf_def)
  have "smap_get (rk_bucket R) ?i = None" "\<not> smap_has (rk_claimed R) (rb_provider b, ?i)"
    using assms(1) unfolding rewards_wf_def by (metis less_irrefl not_None_eq, blast)
  then show ?thesis
    unfolding owed_def assms(2,3) by (simp add: smap_ktotal_set [OF ok])
qed

section \<open>The claim loop\<close>

definition listed :: "address \<Rightarrow> (address \<times> int) list \<Rightarrow> int" where
  "listed a xs = (\<Sum>x\<leftarrow>xs. if fst x = a then snd x else 0)"

lemma listed_simps [simp]: "listed a [] = 0" "listed a ((b, x) # xs) = (if b = a then x else 0) + listed a xs"
  by (simp_all add: listed_def)

lemma listed_nonneg: "list_all (\<lambda>x. 0 < snd x) xs \<Longrightarrow> 0 \<le> listed a xs"
  by (induction xs) auto

lemma listed_absent: "a \<notin> fst ` set xs \<Longrightarrow> listed a xs = 0"
  by (induction xs) auto

lemma accumulate_spec:
  assumes "list_all (\<lambda>x. 0 < snd x) xs" "distinct (map fst xs)" "0 < v" "listed asset xs + v \<le> i128_max"
  shows "list_all (\<lambda>x. 0 < snd x) (accumulate asset v xs)" "distinct (map fst (accumulate asset v xs))"
    "listed a (accumulate asset v xs) = listed a xs + (if a = asset then v else 0)"
    "fst ` set (accumulate asset v xs) = insert asset (fst ` set xs)"
proof -
  have sat: "saturating_add c v = c + v" if "0 < c" "c + v \<le> i128_max" for c
    using that assms(3) by (simp add: saturating_add_nonneg min_def)
  have "list_all (\<lambda>x. 0 < snd x) (accumulate asset v xs) \<and> distinct (map fst (accumulate asset v xs)) \<and>
    listed a (accumulate asset v xs) = listed a xs + (if a = asset then v else 0) \<and>
    fst ` set (accumulate asset v xs) = insert asset (fst ` set xs)"
    using assms
  proof (induction xs)
    case (Cons x xs)
    obtain b c where x: "x = (b, c)" by fastforce
    show ?case
    proof (cases "b = asset")
      case True
      with Cons.prems x have "listed asset xs = 0" by (auto intro: listed_absent)
      with Cons.prems x True sat [of c] show ?thesis by auto
    next
      case False
      with Cons x show ?thesis by (auto simp: image_iff)
    qed
  qed simp
  then show "list_all (\<lambda>x. 0 < snd x) (accumulate asset v xs)" "distinct (map fst (accumulate asset v xs))"
    "listed a (accumulate asset v xs) = listed a xs + (if a = asset then v else 0)"
    "fst ` set (accumulate asset v xs) = insert asset (fst ` set xs)" by blast+
qed

lemma claimable_Some:
  assumes "claimable provider bid s = Some b"
  shows "smap_get (rk_bucket (rewards s)) bid = Some b" "rb_provider b = provider"
    "\<not> smap_has (rk_claimed (rewards s)) (provider, bid)" "is_supported (rb_asset b) s"
  using assms by (auto simp: claimable_def split: if_splits option.splits)

lemma mark_claimed_fields [simp]:
  "rk_bucket (rewards (mark_claimed p bid b s)) = rk_bucket (rewards s)"
  "rk_claimed (rewards (mark_claimed p bid b s)) = smap_set (rk_claimed (rewards s)) (p, bid) True"
  "rk_bucket_counter (rewards (mark_claimed p bid b s)) = rk_bucket_counter (rewards s)"
  "rk_supported_assets (rewards (mark_claimed p bid b s)) = rk_supported_assets (rewards s)"
  by (simp_all add: mark_claimed_def)

lemma rewards_wf_claim:
  "rewards_wf (rewards s) \<Longrightarrow> claimable p bid s = Some b \<Longrightarrow> rewards_wf (rewards (mark_claimed p bid b s))"
  by (auto simp: rewards_wf_def dest: claimable_Some)

lemma claim_loop_frame:
  assumes "claim_loop p bids totals s = (totals', s')"
  shows "s' = s\<lparr>rewards := rewards s'\<rparr>" "rk_bucket (rewards s') = rk_bucket (rewards s)"
    "rk_bucket_counter (rewards s') = rk_bucket_counter (rewards s)"
    "rk_supported_assets (rewards s') = rk_supported_assets (rewards s)"
proof -
  have "s' = s\<lparr>rewards := rewards s'\<rparr> \<and> rk_bucket (rewards s') = rk_bucket (rewards s) \<and>
    rk_bucket_counter (rewards s') = rk_bucket_counter (rewards s) \<and>
    rk_supported_assets (rewards s') = rk_supported_assets (rewards s)"
    using assms
  proof (induction p bids totals s rule: claim_loop.induct)
    case (2 p bid bids totals s)
    show ?case
    proof (cases "claimable p bid s")
      case None
      with 2 show ?thesis by simp
    next
      case (Some b)
      have "(mark_claimed p bid b s)\<lparr>rewards := r\<rparr> = s\<lparr>rewards := r\<rparr>" for r by (simp add: mark_claimed_def)
      with 2(2) [OF Some] 2(3) Some show ?thesis by simp
    qed
  qed simp
  then show "s' = s\<lparr>rewards := rewards s'\<rparr>" "rk_bucket (rewards s') = rk_bucket (rewards s)"
    "rk_bucket_counter (rewards s') = rk_bucket_counter (rewards s)"
    "rk_supported_assets (rewards s') = rk_supported_assets (rewards s)" by blast+
qed

lemma claim_loop_spec:
  assumes "claim_loop p bids totals s = (totals', s')" and "rewards_wf (rewards s)"
    and "list_all (\<lambda>x. 0 < snd x) totals" "distinct (map fst totals)"
    and "\<And>a. listed a totals + rewards_owed a s \<le> i128_max"
  shows "rewards_wf (rewards s') \<and> list_all (\<lambda>x. 0 < snd x) totals' \<and> distinct (map fst totals') \<and>
    (\<forall>a. listed a totals' = listed a totals + rewards_owed a s - rewards_owed a s')"
  using assms
proof (induction p bids totals s rule: claim_loop.induct)
  case (2 p bid bids totals s)
  show ?case
  proof (cases "claimable p bid s")
    case None
    with 2 show ?thesis by simp
  next
    case (Some b)
    let ?s = "mark_claimed p bid b s" and ?t = "accumulate (rb_asset b) (rb_amount b) totals"
    note c = claimable_Some [OF Some]
    have ow: "rewards_owed a ?s = rewards_owed a s - (if a = rb_asset b then rb_amount b else 0)" for a
      unfolding rewards_owed_def using owed_claim [OF 2(4) c(1), of "rewards ?s" "\<lambda>b. rb_asset b = a"] c(2,3) by auto
    have pos: "0 < rb_amount b" using 2(4) c(1) by (auto simp: rewards_wf_def)
    have wf: "rewards_wf (rewards ?s)" using 2(4) Some by (rule rewards_wf_claim)
    have "0 \<le> rewards_owed (rb_asset b) ?s" unfolding rewards_owed_def using wf by (rule owed_nonneg)
    then have "listed (rb_asset b) totals + rb_amount b \<le> i128_max"
      using 2(7) [of "rb_asset b"] ow [of "rb_asset b"] by simp
    note acc = accumulate_spec [OF 2(5,6) pos this]
    have "listed a ?t + rewards_owed a ?s \<le> i128_max" for a
      using 2(7) [of a] by (simp add: acc(3) ow)
    with 2(2) [OF Some _ wf acc(1,2)] 2(3) Some show ?thesis by (simp add: acc(3) ow)
  qed
qed simp

lemma claim_loop_claimed:
  assumes "claim_loop p bids totals s = (totals', s')"
  shows "smap_has (rk_claimed (rewards s')) (q, bid) \<longleftrightarrow>
    smap_has (rk_claimed (rewards s)) (q, bid) \<or> (q = p \<and> bid \<in> set bids \<and> claimable p bid s \<noteq> None)"
  using assms
proof (induction p bids totals s rule: claim_loop.induct)
  case (2 p i bids totals s)
  show ?case
  proof (cases "claimable p i s")
    case None
    with 2 show ?thesis by auto
  next
    case (Some b)
    have "claimable p j (mark_claimed p i b s) = (if j = i then None else claimable p j s)" for j
      by (auto simp: claimable_def is_supported_def supported_assets_def split: option.splits)
    with 2(2) [OF Some] 2(3) Some show ?thesis by auto
  qed
qed simp

section \<open>The payout loop\<close>

lemma transfer_or_panic_Ok:
  assumes "sep41 T bal" and "transfer_or_panic T tk a b x s = (Ok u, s')"
  obtains t where "s' = s\<lparr>k_tokens := t\<rparr>" "bal t = token_moved tk a b x (bal (k_tokens s))"
    "x \<le> bal (k_tokens s) tk a"
proof -
  obtain r s1 where tr: "transfer_tokens T tk a b x s = (r, s1)" by fastforce
  from assms(1) this show ?thesis
    by (cases rule: transfer_tokens_cases) (use assms(2) tr that in \<open>auto simp: transfer_or_panic_def\<close>)
qed

lemma transfer_or_panic_no_Err: "transfer_or_panic T tk a b x s \<noteq> (Err er, s')"
  by (auto simp: transfer_or_panic_def split: prod.splits outcome.splits)

lemma payout_loop_spec:
  assumes "payout_loop T e p totals results s = (Ok rs, s')" and "sep41 T bal"
    and "list_all (\<lambda>x. 0 < snd x) totals" "p \<noteq> current_contract_address e"
  shows "rs = results @ totals \<and> s' = s\<lparr>k_tokens := k_tokens s', event_log := event_log s'\<rparr> \<and>
    (\<forall>a x. bal (k_tokens s') a x = bal (k_tokens s) a x + (if x = p then listed a totals else 0)
       - (if x = current_contract_address e then listed a totals else 0))"
  using assms
proof (induction T e p totals results s rule: payout_loop.induct)
  case (2 T e p asset tot rest results s)
  then have pos: "0 < tot" by simp
  from 2(3) pos obtain s1 where tr: "transfer_or_panic T asset (current_contract_address e) p tot s =
      (Ok () :: (reward_vault_error, unit) outcome, s1)"
    by (auto split: prod.splits outcome.splits simp: transfer_or_panic_no_Err)
  from 2(4) tr obtain t where t: "s1 = s\<lparr>k_tokens := t\<rparr>"
    "bal t = token_moved asset (current_contract_address e) p tot (bal (k_tokens s))"
    by (rule transfer_or_panic_Ok)
  let ?s = "publish s1 [contract_topic, VSym ''rwdbatch''] (VVec [VAddr p, VAddr asset, VI128 tot])"
  have run: "payout_loop T e p rest (results @ [(asset, tot)]) ?s = (Ok rs, s')"
    using 2(3) pos tr by simp
  have IH: "rs = (results @ [(asset, tot)]) @ rest \<and> s' = ?s\<lparr>k_tokens := k_tokens s', event_log := event_log s'\<rparr> \<and>
    (\<forall>a x. bal (k_tokens s') a x = bal (k_tokens ?s) a x + (if x = p then listed a rest else 0)
       - (if x = current_contract_address e then listed a rest else 0))"
    using 2(2) [OF _ tr [symmetric] refl run 2(4)] pos 2(5,6) by simp
  moreover have "?s\<lparr>k_tokens := k, event_log := l\<rparr> = s\<lparr>k_tokens := k, event_log := l\<rparr>" for k l
    by (simp add: t(1) publish_def)
  moreover have "k_tokens ?s = t" by (simp add: t(1) publish_def)
  ultimately show ?case using 2(6) by (auto simp: t(2) token_moved_def)
qed simp

lemma batch_claim_Ok:
  assumes "batch_claim_rewards T e p bids s = (Ok rs, s')"
  obtains totals s1 where "has_auth e p" "\<not> is_paused s" "bids \<noteq> []" "length bids \<le> 100"
    "claim_loop p bids [] s = (totals, s1)" "payout_loop T e p totals [] s1 = (Ok rs, s')"
  using assms
  by (auto simp: batch_claim_rewards_def rv_batch_claim_rewards_def MAX_REWARD_BATCH_def Let_def
      split: if_splits prod.splits outcome.splits reward_vault_error.splits)

lemma batch_claim_rewards_spec:
  assumes "sep41 T bal" and "batch_claim_rewards T e p bids s = (Ok rs, s')" and "rewards_wf (rewards s)"
    and "\<And>a. rewards_owed a s \<le> i128_max" and "p \<noteq> current_contract_address e"
  shows "s' = s\<lparr>k_tokens := k_tokens s', event_log := event_log s', rewards := rewards s'\<rparr>"
    "rewards_wf (rewards s')"
    "listed a rs = rewards_owed a s - rewards_owed a s'"
    "bal (k_tokens s') a x = bal (k_tokens s) a x + (if x = p then rewards_owed a s - rewards_owed a s' else 0)
       - (if x = current_contract_address e then rewards_owed a s - rewards_owed a s' else 0)"
    "smap_has (rk_claimed (rewards s')) (q, bid) \<longleftrightarrow>
       smap_has (rk_claimed (rewards s)) (q, bid) \<or> (q = p \<and> bid \<in> set bids \<and> claimable p bid s \<noteq> None)"
    "rk_bucket (rewards s') = rk_bucket (rewards s)" "rk_supported_assets (rewards s') = rk_supported_assets (rewards s)"
proof -
  from assms(2) obtain totals s1 where run: "claim_loop p bids [] s = (totals, s1)"
    "payout_loop T e p totals [] s1 = (Ok rs, s')" by (rule batch_claim_Ok)
  have "rewards_wf (rewards s1) \<and> list_all (\<lambda>x. 0 < snd x) totals \<and> distinct (map fst totals) \<and>
      (\<forall>a. listed a totals = listed a [] + rewards_owed a s - rewards_owed a s1)"
    using claim_loop_spec [OF run(1) assms(3)] assms(4) by simp
  then have cl: "rewards_wf (rewards s1)" "list_all (\<lambda>x. 0 < snd x) totals"
    "listed a totals = rewards_owed a s - rewards_owed a s1" for a by simp_all
  note po = payout_loop_spec [OF run(2) assms(1) cl(2) assms(5)] and fr = claim_loop_frame [OF run(1)]
  have s': "s' = s1\<lparr>k_tokens := k_tokens s', event_log := event_log s'\<rparr>" using po by blast
  have rw: "rewards s' = rewards s1" by (subst s') simp
  have tk: "k_tokens s1 = k_tokens s" by (subst fr(1)) simp
  show "s' = s\<lparr>k_tokens := k_tokens s', event_log := event_log s', rewards := rewards s'\<rparr>"
    by (subst s', subst fr(1)) (simp add: rw)
  show "rewards_wf (rewards s')" using cl(1) rw by simp
  show "listed a rs = rewards_owed a s - rewards_owed a s'" using po cl(3) by (simp add: rewards_owed_def rw)
  show "bal (k_tokens s') a x = bal (k_tokens s) a x + (if x = p then rewards_owed a s - rewards_owed a s' else 0)
       - (if x = current_contract_address e then rewards_owed a s - rewards_owed a s' else 0)"
    using po by (simp add: cl(3) tk rewards_owed_def rw)
  show "smap_has (rk_claimed (rewards s')) (q, bid) \<longleftrightarrow>
       smap_has (rk_claimed (rewards s)) (q, bid) \<or> (q = p \<and> bid \<in> set bids \<and> claimable p bid s \<noteq> None)"
    using claim_loop_claimed [OF run(1)] by (simp add: rw)
  show "rk_bucket (rewards s') = rk_bucket (rewards s)" "rk_supported_assets (rewards s') = rk_supported_assets (rewards s)"
    using fr(2,4) by (simp_all add: rw)
qed

section \<open>Deposits\<close>

lemma deposit_reward_Ok:
  assumes "sep41 T bal" and "deposit_reward T e d p asset x epoch s = (Ok bid, s')"
  obtains t log where "has_auth e d" "\<not> is_paused s" "is_supported asset s" "0 < x" "bid = get_or 0 (rk_bucket_counter (rewards s))"
    "s' = s\<lparr>rewards := (rewards s)\<lparr>
        rk_bucket_counter := Some (sat_add_u64 bid 1),
        rk_bucket := smap_set (rk_bucket (rewards s)) bid
          \<lparr>rb_bucket_id = bid, rb_provider = p, rb_asset = asset, rb_amount = x, rb_epoch = epoch\<rparr>,
        rk_asset_total_deposited := smap_set (rk_asset_total_deposited (rewards s)) asset
          (saturating_add (asset_total asset s) x),
        rk_provider_asset_balance := smap_set (rk_provider_asset_balance (rewards s)) (p, asset)
          (saturating_add (reward_balance p asset s) x)\<rparr>, k_tokens := t, event_log := log\<rparr>"
    "bal t = token_moved asset d (current_contract_address e) x (bal (k_tokens s))" "x \<le> bal (k_tokens s) asset d"
proof -
  let ?b = "get_or 0 (rk_bucket_counter (rewards s))"
  let ?s1 = "s\<lparr>rewards := (rewards s)\<lparr>
        rk_bucket_counter := Some (sat_add_u64 ?b 1),
        rk_bucket := smap_set (rk_bucket (rewards s)) ?b
          \<lparr>rb_bucket_id = ?b, rb_provider = p, rb_asset = asset, rb_amount = x, rb_epoch = epoch\<rparr>,
        rk_asset_total_deposited := smap_set (rk_asset_total_deposited (rewards s)) asset
          (saturating_add (asset_total asset s) x),
        rk_provider_asset_balance := smap_set (rk_provider_asset_balance (rewards s)) (p, asset)
          (saturating_add (reward_balance p asset s) x)\<rparr>\<rparr>"
  from assms(2) have g: "has_auth e d" "\<not> is_paused s" "is_supported asset s" "0 < x"
    by (auto simp: deposit_reward_def rv_deposit_reward_def split: if_splits)
  obtain r s2 where tr: "transfer_or_panic T asset d (current_contract_address e) x ?s1 = (r :: (reward_vault_error, unit) outcome, s2)"
    by fastforce
  with assms(2) g have r: "r = Ok ()" "bid = ?b"
    "s' = publish s2 [contract_topic, VSym ''rwddep''] (VVec [VAddr p, VAddr asset, VI128 x, VU64 epoch, VU64 ?b])"
    by (auto simp: deposit_reward_def rv_deposit_reward_def Let_def split: outcome.splits)
  from tr [unfolded r(1)] obtain t where "s2 = ?s1\<lparr>k_tokens := t\<rparr>"
    "bal t = token_moved asset d (current_contract_address e) x (bal (k_tokens ?s1))" "x \<le> bal (k_tokens ?s1) asset d"
    by (rule transfer_or_panic_Ok [OF assms(1)])
  with g r show ?thesis by (intro that) (simp_all add: publish_def)
qed

lemma deposit_reward_spec:
  assumes "sep41 T bal" and "deposit_reward T e d p asset x epoch s = (Ok bid, s')"
    and "rewards_wf (rewards s)" and "get_or 0 (rk_bucket_counter (rewards s)) < u64_max"
  shows "rewards_wf (rewards s')"
    "owed P (rewards s') = owed P (rewards s) +
       (if P \<lparr>rb_bucket_id = bid, rb_provider = p, rb_asset = asset, rb_amount = x, rb_epoch = epoch\<rparr> then x else 0)"
    "bal (k_tokens s') = token_moved asset d (current_contract_address e) x (bal (k_tokens s))"
    "0 < x" "claimable p bid s = None"
    "claimable p bid s' = Some \<lparr>rb_bucket_id = bid, rb_provider = p, rb_asset = asset, rb_amount = x, rb_epoch = epoch\<rparr>"
proof -
  from assms(1,2) obtain t log where d: "is_supported asset s" "0 < x" "bid = get_or 0 (rk_bucket_counter (rewards s))"
    "s' = s\<lparr>rewards := (rewards s)\<lparr>
        rk_bucket_counter := Some (sat_add_u64 bid 1),
        rk_bucket := smap_set (rk_bucket (rewards s)) bid
          \<lparr>rb_bucket_id = bid, rb_provider = p, rb_asset = asset, rb_amount = x, rb_epoch = epoch\<rparr>,
        rk_asset_total_deposited := smap_set (rk_asset_total_deposited (rewards s)) asset
          (saturating_add (asset_total asset s) x),
        rk_provider_asset_balance := smap_set (rk_provider_asset_balance (rewards s)) (p, asset)
          (saturating_add (reward_balance p asset s) x)\<rparr>, k_tokens := t, event_log := log\<rparr>"
    "bal t = token_moved asset d (current_contract_address e) x (bal (k_tokens s))"
    by (rule deposit_reward_Ok)
  have c: "rk_bucket_counter (rewards s') = Some (Suc bid)"
    using assms(4) d(3) by (simp add: d(4) sat_add_u64_def)
  show "rewards_wf (rewards s')"
    using assms(3) d(2,3) c unfolding rewards_wf_def
    by (auto simp: d(4) less_Suc_eq split: if_splits)
  show "owed P (rewards s') = owed P (rewards s) +
       (if P \<lparr>rb_bucket_id = bid, rb_provider = p, rb_asset = asset, rb_amount = x, rb_epoch = epoch\<rparr> then x else 0)"
    using owed_deposit [OF assms(3), of "rewards s'"] d(3) by (simp add: d(4))
  show "bal (k_tokens s') = token_moved asset d (current_contract_address e) x (bal (k_tokens s))" "0 < x"
    using d(2,5) by (simp_all add: d(4))
  have new: "smap_get (rk_bucket (rewards s)) bid = None" "\<not> smap_has (rk_claimed (rewards s)) (p, bid)"
    using assms(3) d(3) unfolding rewards_wf_def by (metis less_irrefl not_None_eq, blast)
  then show "claimable p bid s = None"
    "claimable p bid s' = Some \<lparr>rb_bucket_id = bid, rb_provider = p, rb_asset = asset, rb_amount = x, rb_epoch = epoch\<rparr>"
    using d(1) by (simp_all add: claimable_def d(4) is_supported_def supported_assets_def)
qed

section \<open>The balance that is reported\<close>

definition owed_to :: "address \<Rightarrow> address \<Rightarrow> 't vault \<Rightarrow> int" where
  "owed_to p a s = owed (\<lambda>b. rb_provider b = p \<and> rb_asset b = a) (rewards s)"

definition balances_exact :: "'t vault \<Rightarrow> bool" where
  "balances_exact s \<longleftrightarrow> (\<forall>p a. reward_balance p a s = owed_to p a s)"

lemma owed_mono: "rewards_wf R \<Longrightarrow> (\<And>b. P b \<Longrightarrow> Q b) \<Longrightarrow> owed P R \<le> owed Q R"
proof -
  assume wf: "rewards_wf R" and pq: "\<And>b. P b \<Longrightarrow> Q b"
  have "owed Q R - owed P R = owed (\<lambda>b. Q b \<and> \<not> P b) R"
    unfolding owed_def smap_ktotal_def
    by (subst sum_list_subtractf [symmetric], rule arg_cong [of _ _ sum_list], rule map_cong [OF refl]) (use pq in auto)
  with owed_nonneg [OF wf, of "\<lambda>b. Q b \<and> \<not> P b"] show ?thesis by simp
qed

lemma owed_to_le: "rewards_wf (rewards s) \<Longrightarrow> owed_to p a s \<le> rewards_owed a s"
  unfolding owed_to_def rewards_owed_def by (rule owed_mono) auto

lemma balances_exact_claim:
  assumes "balances_exact s" "rewards_wf (rewards s)" "claimable p bid s = Some b" "\<And>a. rewards_owed a s \<le> i128_max"
  shows "balances_exact (mark_claimed p bid b s)"
proof -
  note c = claimable_Some [OF assms(3)]
  let ?s = "mark_claimed p bid b s"
  have ow: "owed_to q a ?s = owed_to q a s - (if q = p \<and> a = rb_asset b then rb_amount b else 0)" for q a
    unfolding owed_to_def
    using owed_claim [OF assms(2) c(1), of "rewards ?s" "\<lambda>b. rb_provider b = q \<and> rb_asset b = a"] c(2,3) by auto
  have wf: "rewards_wf (rewards ?s)" using assms(2,3) by (rule rewards_wf_claim)
  have "0 \<le> owed_to p (rb_asset b) ?s" unfolding owed_to_def using wf by (rule owed_nonneg)
  with ow [of p "rb_asset b"] have le: "rb_amount b \<le> owed_to p (rb_asset b) s" by simp
  have pos: "0 < rb_amount b" using assms(2) c(1) by (auto simp: rewards_wf_def)
  have "owed_to p (rb_asset b) s \<le> i128_max"
    using owed_to_le [OF assms(2)] assms(4) order_trans by blast
  with le pos have "saturating_sub (owed_to p (rb_asset b) s) (rb_amount b) = owed_to p (rb_asset b) s - rb_amount b"
    by (intro saturating_sub_le) (simp_all add: in_i128_def i128_min_def)
  moreover have "reward_balance q a ?s = (if q = p \<and> a = rb_asset b
      then saturating_sub (reward_balance p (rb_asset b) s) (rb_amount b) else reward_balance q a s)" for q a
    by (simp add: reward_balance_def mark_claimed_def)
  ultimately show ?thesis using assms(1) by (auto simp: balances_exact_def ow)
qed

lemma balances_exact_claim_loop:
  assumes "claim_loop p bids totals s = (totals', s')" "balances_exact s" "rewards_wf (rewards s)"
    "\<And>a. rewards_owed a s \<le> i128_max"
  shows "balances_exact s'"
  using assms
proof (induction p bids totals s rule: claim_loop.induct)
  case (2 p bid bids totals s)
  show ?case
  proof (cases "claimable p bid s")
    case None
    with 2 show ?thesis by simp
  next
    case (Some b)
    have "rewards_owed a (mark_claimed p bid b s) \<le> i128_max" for a
    proof -
      have "0 < rb_amount b" using 2(5) claimable_Some(1) [OF Some] by (auto simp: rewards_wf_def)
      with owed_claim [OF 2(5) claimable_Some(1) [OF Some], of "rewards (mark_claimed p bid b s)" "\<lambda>b. rb_asset b = a"]
        claimable_Some [OF Some] 2(6) [of a]
      show ?thesis by (auto simp: rewards_owed_def split: if_splits)
    qed
    with 2 Some show ?thesis by (auto intro: balances_exact_claim rewards_wf_claim)
  qed
qed simp

section \<open>A sample run\<close>

text \<open>One reward asset (8); user 6 deposits 50 for provider 3, who claims it.\<close>

definition sample_supported :: "balance_ledger vault" where
  "sample_supported = sample_vault\<lparr>rewards := (rewards sample_vault)\<lparr>rk_supported_assets := Some [Addr 8]\<rparr>\<rparr>"

definition sample_rewarded :: "balance_ledger vault" where
  "sample_rewarded = snd (deposit_reward asset_contract (sample_env 100 5) (Addr 6) (Addr 3) (Addr 8) 50 1 sample_supported)"

definition sample_bucket :: reward_bucket where
  "sample_bucket = \<lparr>rb_bucket_id = 0, rb_provider = Addr 3, rb_asset = Addr 8, rb_amount = 50, rb_epoch = 1\<rparr>"

lemmas reward_defs =
  deposit_reward_def rv_deposit_reward_def is_supported_def supported_assets_def asset_total_def reward_balance_def
  transfer_or_panic_def transfer_tokens_def sat_add_u64_def u64_max_def publish_def sample_supported_def
  sample_bucket_def token_moved_def sample_defs Let_def

lemma sample_deposit:
  "deposit_reward asset_contract (sample_env 100 5) (Addr 6) (Addr 3) (Addr 8) 50 1 sample_supported = (Ok 0, sample_rewarded)"
  unfolding sample_rewarded_def by (rule run_ok) (simp add: reward_defs)

lemma sample_rewarded_state:
  "sample_rewarded = sample_supported
     \<lparr>rewards := \<lparr>rk_supported_assets = Some [Addr 8], rk_asset_total_deposited = [(Addr 8, 50)],
        rk_provider_asset_balance = [((Addr 3, Addr 8), 50)], rk_bucket_counter = Some 1,
        rk_bucket = [(0, sample_bucket)], rk_claimed = []\<rparr>,
      k_tokens := token_moved (Addr 8) (Addr 6) (Addr 0) 50 sample_ledger, event_log := event_log sample_rewarded\<rparr>"
  unfolding sample_rewarded_def by (simp add: reward_defs fun_eq_iff)

lemma sample_supported_wf:
  "rewards_wf (rewards sample_supported)" "owed P (rewards sample_supported) = 0" "balances_exact sample_supported"
  "get_or 0 (rk_bucket_counter (rewards sample_supported)) < u64_max"
  by (simp_all add: reward_defs rewards_wf_def smap_has_def owed_def balances_exact_def owed_to_def)

lemma sample_rewarded_wf:
  "rewards_wf (rewards sample_rewarded)" "rewards_owed a sample_supported \<le> i128_max"
  "rewards_owed a sample_rewarded \<le> i128_max"
  using deposit_reward_spec(1,2) [OF asset_contract_sep41 sample_deposit sample_supported_wf(1,4)]
  by (simp_all add: rewards_owed_def sample_supported_wf(2) i128_max_def)

lemma sample_claim:
  "fst (batch_claim_rewards asset_contract (sample_env 200 9) (Addr 3) [0] sample_rewarded) = Ok [(Addr 8, 50)]"
  by (subst sample_rewarded_state)
     (simp add: batch_claim_rewards_def rv_batch_claim_rewards_def MAX_REWARD_BATCH_def claimable_def mark_claimed_def
       smap_has_def reward_defs)

section \<open>Properties\<close>

text \<open>
  C21: A bucket pays once and pays in full. A successful batch claim pays the provider, in every
  asset, exactly what the vault no longer owes; it marks exactly the listed buckets that were
  claimable, and the result lists the amounts.
\<close>

theorem claim_pays_what_is_owed:
  assumes "sep41 T bal" and "batch_claim_rewards T e p bids s = (Ok rs, s')" and "rewards_wf (rewards s)"
    and "\<And>a. rewards_owed a s \<le> i128_max" and "p \<noteq> current_contract_address e"
  shows "bal (k_tokens s') a p = bal (k_tokens s) a p + (rewards_owed a s - rewards_owed a s') \<and>
    bal (k_tokens s') a (current_contract_address e) =
      bal (k_tokens s) a (current_contract_address e) - (rewards_owed a s - rewards_owed a s') \<and>
    listed a rs = rewards_owed a s - rewards_owed a s' \<and>
    (smap_has (rk_claimed (rewards s')) (q, bid) \<longleftrightarrow>
       smap_has (rk_claimed (rewards s)) (q, bid) \<or> (q = p \<and> bid \<in> set bids \<and> claimable p bid s \<noteq> None))"
  using batch_claim_rewards_spec [OF assms] assms(5) by simp

theorem claim_pays_what_is_owed_witness:
  "smap_has (rk_claimed (rewards (snd (batch_claim_rewards asset_contract (sample_env 200 9) (Addr 3) [0] sample_rewarded))))
     (Addr 3, 0)"
proof -
  have "claimable (Addr 3) 0 sample_rewarded \<noteq> None"
    using deposit_reward_spec(6) [OF asset_contract_sep41 sample_deposit sample_supported_wf(1,4)] by simp
  then show ?thesis
    using claim_pays_what_is_owed [OF asset_contract_sep41 run_ok [OF sample_claim] sample_rewarded_wf(1,3),
        where q = "Addr 3" and bid = 0]
    by (simp add: sample_env_def)
qed

text \<open>
  Claiming is idempotent: repeating a successful claim succeeds, pays nothing and changes
  nothing.
\<close>

theorem claim_idempotent:
  assumes "sep41 T bal" and "batch_claim_rewards T e p bids s = (Ok rs, s')" and "rewards_wf (rewards s)"
    and "\<And>a. rewards_owed a s \<le> i128_max" and "p \<noteq> current_contract_address e" and "has_auth e2 p"
  shows "batch_claim_rewards T e2 p bids s' = (Ok [], s')"
proof -
  from assms(2) obtain totals s1 where g: "\<not> is_paused s" "bids \<noteq> []" "length bids \<le> 100" by (rule batch_claim_Ok)
  note spec = batch_claim_rewards_spec [OF assms(1-5)]
  have none: "claimable p bid s' = None" if "bid \<in> set bids" for bid
    using spec(5) [of p bid] that spec(6,7)
    by (auto simp: claimable_def is_supported_def supported_assets_def split: option.splits if_splits)
  have "claim_loop p xs totals s' = (totals, s')" if "set xs \<subseteq> set bids" for xs totals
    using that none by (induction xs) auto
  moreover have "\<not> is_paused s'" by (subst spec(1)) (use g(1) in \<open>simp add: is_paused_def\<close>)
  ultimately show ?thesis
    using g assms(6) by (simp add: batch_claim_rewards_def rv_batch_claim_rewards_def MAX_REWARD_BATCH_def Let_def)
qed

theorem claim_idempotent_witness:
  "fst (batch_claim_rewards asset_contract (sample_env 300 10) (Addr 3) [0]
     (snd (batch_claim_rewards asset_contract (sample_env 200 9) (Addr 3) [0] sample_rewarded))) = Ok []"
  using claim_idempotent [OF asset_contract_sep41 run_ok [OF sample_claim] sample_rewarded_wf(1,3),
      of "sample_env 300 10"]
  by (simp add: sample_env_def)

text \<open>
  The balance the vault reports for a provider and an asset is the sum of the unclaimed
  buckets, and deposits and claims keep it so.
\<close>

theorem reward_balance_exact:
  assumes "sep41 T bal" and "balances_exact s" and "rewards_wf (rewards s)"
    and "get_or 0 (rk_bucket_counter (rewards s)) < u64_max"
    and "\<And>a. rewards_owed a s \<le> i128_max" and "\<And>a. rewards_owed a s' \<le> i128_max"
    and "deposit_reward T e d p asset x epoch s = (Ok bid, s') \<or> batch_claim_rewards T e p bids s = (Ok rs, s')"
    and "p \<noteq> current_contract_address e"
  shows "reward_balance q a s' = owed_to q a s'"
  using assms(7)
proof
  assume dep: "deposit_reward T e d p asset x epoch s = (Ok bid, s')"
  note spec = deposit_reward_spec [OF assms(1) dep assms(3,4)]
  have ow: "owed_to q a s' = owed_to q a s + (if q = p \<and> a = asset then x else 0)"
    unfolding owed_to_def using spec(2) [of "\<lambda>b. rb_provider b = q \<and> rb_asset b = a"] by auto
  have "owed_to q a s' \<le> i128_max" "0 \<le> owed_to q a s"
    using owed_to_le [OF spec(1)] assms(6) order_trans owed_nonneg [OF assms(3)] by (blast, simp add: owed_to_def)
  moreover from assms(1) dep have "reward_balance q a s' =
      (if q = p \<and> a = asset then saturating_add (reward_balance q a s) x else reward_balance q a s)"
    by (rule deposit_reward_Ok) (auto simp: reward_balance_def)
  ultimately show ?thesis
    using assms(2) spec(4) ow by (auto simp: balances_exact_def saturating_add_nonneg)
next
  assume cl: "batch_claim_rewards T e p bids s = (Ok rs, s')"
  from cl obtain totals s1 where run: "claim_loop p bids [] s = (totals, s1)"
    "payout_loop T e p totals [] s1 = (Ok rs, s')" by (rule batch_claim_Ok)
  have "balances_exact s1" using balances_exact_claim_loop [OF run(1) assms(2,3)] assms(5) by blast
  have "list_all (\<lambda>x. 0 < snd x) totals"
    using claim_loop_spec [OF run(1) assms(3)] assms(5) by simp
  from payout_loop_spec [OF run(2) assms(1) this assms(8)]
  have s': "s' = s1\<lparr>k_tokens := k_tokens s', event_log := event_log s'\<rparr>" by blast
  have "rewards s' = rewards s1" by (subst s') simp
  with \<open>balances_exact s1\<close> show ?thesis by (simp add: balances_exact_def reward_balance_def owed_to_def)
qed

theorem reward_balance_exact_witness: "reward_balance (Addr 3) (Addr 8) sample_rewarded = owed_to (Addr 3) (Addr 8) sample_rewarded"
  using reward_balance_exact [OF asset_contract_sep41 sample_supported_wf(3,1,4) sample_rewarded_wf(2,3) disjI1 [OF sample_deposit]]
  by (simp add: sample_env_def)

end
