(* ===== verification/Vault_Upgrade.thy ===== *)
theory Vault_Upgrade
  imports Vault_Slash
begin

text \<open>
  \<^verbatim>\<open>stake_vault/src/slash_strategy.rs\<close> and \<^verbatim>\<open>storage_version.rs\<close> with their entry points in \<^verbatim>\<open>lib.rs\<close>:
  named slashing policies, and the guard that lets the storage layout advance one version at a time.
\<close>

section \<open>Slash strategies\<close>

datatype slash_strategy_error = BpsOutOfRange | InvalidSeverityOrder | InvalidRiskWindow | StrategyNotFound

definition validate_strategy :: "slash_strategy_config \<Rightarrow> slash_strategy_error + unit" where
  "validate_strategy c =
     (if ss_minor_bps c > 10000 \<or> ss_major_bps c > 10000 \<or> ss_critical_bps c > 10000
      then Inl BpsOutOfRange
      else if ss_minor_bps c > ss_major_bps c \<or> ss_major_bps c > ss_critical_bps c
      then Inl InvalidSeverityOrder
      else if ss_risk_window_secs c = 0 then Inl InvalidRiskWindow
      else Inr ())"

definition list_slash_strategies :: "'t vault \<Rightarrow> symbol list" where
  "list_slash_strategies s = get_or [] (sk_strategy_names (strategies s))"

definition get_slash_strategy :: "symbol \<Rightarrow> 't vault \<Rightarrow> slash_strategy_config option" where
  "get_slash_strategy strategy_name s = sk_strategy (strategies s) strategy_name"

definition st_set_slash_strategy :: "symbol \<Rightarrow> slash_strategy_config \<Rightarrow>
    't vault \<Rightarrow> (slash_strategy_error, unit) outcome \<times> 't vault" where
  "st_set_slash_strategy strategy_name c s =
     (case validate_strategy c of
        Inl er \<Rightarrow> (Err er, s)
      | Inr _ \<Rightarrow>
          let names = list_slash_strategies s;
              found = list_ex (\<lambda>n. n = strategy_name) names;
              s1 = (if found then s
                    else s\<lparr>strategies := (strategies s)\<lparr>sk_strategy_names :=
                             Some (names @ [strategy_name])\<rparr>\<rparr>);
              s2 = s1\<lparr>strategies := (strategies s1)\<lparr>sk_strategy :=
                        (sk_strategy (strategies s1))(strategy_name := Some c)\<rparr>\<rparr>
          in (Ok (), publish s2 [contract_topic, VSym ''slhstrat'']
                (VVec [VSym strategy_name, VU32 (ss_minor_bps c), VU32 (ss_major_bps c),
                       VU32 (ss_critical_bps c)])))"

definition strategy_error :: "slash_strategy_error \<Rightarrow> stake_vault_error" where
  "strategy_error er =
     (case er of BpsOutOfRange \<Rightarrow> InvalidSlashTier | InvalidSeverityOrder \<Rightarrow> InvalidSlashTierOrder
      | InvalidRiskWindow \<Rightarrow> InvalidCooldown | StrategyNotFound \<Rightarrow> Unauthorized)"

definition set_slash_strategy :: "env \<Rightarrow> symbol \<Rightarrow> nat \<Rightarrow> nat \<Rightarrow> nat \<Rightarrow> nat \<Rightarrow> nat \<Rightarrow>
    't vault \<Rightarrow> ('t, unit) vault_result" where
  "set_slash_strategy e strategy_name minor major critical risk_window penalty_window =
     with_admin e (Err NotInitialized) (\<lambda>s.
       case st_set_slash_strategy strategy_name
              \<lparr>ss_minor_bps = minor, ss_major_bps = major, ss_critical_bps = critical,
               ss_risk_window_secs = risk_window, ss_penalty_window_secs = penalty_window\<rparr> s of
         (Ok _, s1) \<Rightarrow> (Ok (), s1)
       | (Err er, s1) \<Rightarrow> (Err (strategy_error er), s1)
       | (Panic, s1) \<Rightarrow> (Panic, s1))"

definition compute_slash_amount :: "symbol \<Rightarrow> int \<Rightarrow> nat \<Rightarrow> 't vault \<Rightarrow> slash_strategy_error + int" where
  "compute_slash_amount strategy_name balance severity s =
     (case get_slash_strategy strategy_name s of
        None \<Rightarrow> Inl StrategyNotFound
      | Some c \<Rightarrow>
          let bps = (if severity = 0 then ss_minor_bps c
                     else if severity = 1 then ss_major_bps c
                     else ss_critical_bps c);
              amount = apply_multiplier_bps balance bps
          in Inr (min (max amount (if balance > 0 then 1 else 0)) balance))"

section \<open>Storage layout guard\<close>

datatype storage_version_error = IncompatibleLayoutVersion | MissingRequiredKey | LayoutNotInitialized

definition get_layout_version :: "'t vault \<Rightarrow> nat option" where
  "get_layout_version s = k_layout_version (cfg s)"

definition emit_upgrade_blocked :: "nat \<Rightarrow> nat \<Rightarrow> 't vault \<Rightarrow> 't vault" where
  "emit_upgrade_blocked current proposed s =
     publish s [contract_topic, VSym ''upgblk''] (VVec [VU32 current, VU32 proposed])"

definition guard_storage_upgrade :: "nat \<Rightarrow> symbol list \<Rightarrow>
    't vault \<Rightarrow> (storage_version_error, unit) outcome \<times> 't vault" where
  "guard_storage_upgrade next_layout_version required_keys s =
     (case k_layout_version (cfg s) of
        None \<Rightarrow> (Err LayoutNotInitialized, emit_upgrade_blocked 0 next_layout_version s)
      | Some current \<Rightarrow>
          if next_layout_version \<noteq> sat_add_u32 current 1
          then (Err IncompatibleLayoutVersion, emit_upgrade_blocked current next_layout_version s)
          else if list_ex (\<lambda>k. k \<notin> k_symbol_entries s) required_keys
          then (Err MissingRequiredKey, emit_upgrade_blocked current next_layout_version s)
          else (Ok (), publish (s\<lparr>cfg := (cfg s)\<lparr>k_layout_version := Some next_layout_version\<rparr>\<rparr>)
                  [contract_topic, VSym ''stgver''] (VVec [VU32 current, VU32 next_layout_version])))"

definition layout_error :: "storage_version_error \<Rightarrow> stake_vault_error" where
  "layout_error er =
     (case er of IncompatibleLayoutVersion \<Rightarrow> IncompatibleContractVersion
      | MissingRequiredKey \<Rightarrow> NotInitialized | LayoutNotInitialized \<Rightarrow> NotInitialized)"

definition upgrade_with_migration_guard :: "env \<Rightarrow> nat \<Rightarrow> nat \<Rightarrow> symbol list \<Rightarrow>
    't vault \<Rightarrow> ('t, unit) vault_result" where
  "upgrade_with_migration_guard e new_version next_layout_version required_keys =
     with_admin e (Err NotInitialized) (\<lambda>s.
       let current_version = get_contract_version s
       in case guard_upgrade current_version new_version of
            Inl _ \<Rightarrow> (Err IncompatibleContractVersion, s)
          | Inr _ \<Rightarrow>
              (case guard_storage_upgrade next_layout_version required_keys s of
                 (Ok _, s1) \<Rightarrow>
                   (Ok (), emit_contract_upgraded (set_contract_version s1 new_version)
                             current_version new_version)
               | (Err er, s1) \<Rightarrow> (Err (layout_error er), s1)
               | (Panic, s1) \<Rightarrow> (Panic, s1)))"

section \<open>Properties\<close>

lemma guarded_upgrade_Ok:
  assumes "upgrade_with_migration_guard e n l ks s = (Ok u, s')"
  obtains admin c where "k_admin (cfg s) = Some admin" "has_auth e admin" "k_layout_version (cfg s) = Some c"
    "l = sat_add_u32 c 1" "set ks \<subseteq> k_symbol_entries s" "guard_upgrade (get_contract_version s) n = Inr ()"
    "s' = s\<lparr>cfg := (cfg s)\<lparr>k_layout_version := Some l\<rparr>, k_contract_version := Some n, event_log := event_log s'\<rparr>"
  using assms unfolding upgrade_with_migration_guard_def guard_storage_upgrade_def
  by (auto simp: Let_def host_defs list_ex_iff subset_iff elim!: with_admin_Ok
      split: option.splits sum.splits if_splits prod.splits)

text \<open>Sequences of successful upgrades by either entry point, with the number of guarded ones.\<close>

inductive upgrade_run :: "'t vault \<Rightarrow> nat \<Rightarrow> nat \<Rightarrow> 't vault \<Rightarrow> bool" for s where
  up_start: "upgrade_run s 0 0 s"
| up_plain: "upgrade_run s n g s1 \<Longrightarrow> upgrade e k s1 = (Ok u, s2) \<Longrightarrow> upgrade_run s (Suc n) g s2"
| up_guarded: "upgrade_run s n g s1 \<Longrightarrow> upgrade_with_migration_guard e k l ks s1 = (Ok u, s2) \<Longrightarrow>
    upgrade_run s (Suc n) (Suc g) s2"

lemma plain_upgrade_Ok:
  assumes "upgrade e n s = (Ok u, s')"
  shows "get_contract_version s < n" "get_contract_version s' = n" "cfg s' = cfg s"
  using assms by (auto simp: upgrade_def Let_def host_defs elim!: with_admin_Ok split: sum.splits if_splits)

lemma upgrade_run_versions:
  assumes "upgrade_run s n g s'" "k_layout_version (cfg s) = Some c" "c + n \<le> u32_max"
  shows "get_contract_version s + n \<le> get_contract_version s' \<and> k_layout_version (cfg s') = Some (c + g) \<and> g \<le> n"
  using assms
proof (induction rule: upgrade_run.induct)
  case (up_plain n g s1 e k u s2)
  with plain_upgrade_Ok [OF up_plain(2)] show ?case by auto
next
  case (up_guarded n g s1 e k l ks u s2)
  from up_guarded(2) show ?case
  proof (cases rule: guarded_upgrade_Ok)
    case (1 admin c1)
    have "cfg s2 = (cfg s1)\<lparr>k_layout_version := Some l\<rparr>" "get_contract_version s2 = k"
      by (subst 1(7), simp add: get_contract_version_def)+
    with 1(3,4,6) up_guarded.IH up_guarded.prems show ?thesis by (auto simp: sat_add_u32_def)
  qed
qed simp

text \<open>
  A guarded upgrade is authorised by the administrator, raises the contract version, advances the
  storage layout by exactly one version, finds every required key, and changes nothing but the two
  versions and the event log.
\<close>

theorem guarded_upgrade_effect:
  assumes "upgrade_with_migration_guard e n l ks s = (Ok (), s')"
  shows "\<exists>admin c. k_admin (cfg s) = Some admin \<and> has_auth e admin \<and> get_contract_version s < n \<and>
    k_layout_version (cfg s) = Some c \<and> l = sat_add_u32 c 1 \<and> set ks \<subseteq> k_symbol_entries s \<and>
    s' = s\<lparr>cfg := (cfg s)\<lparr>k_layout_version := Some l\<rparr>, k_contract_version := Some n, event_log := event_log s'\<rparr>"
  using assms by (cases rule: guarded_upgrade_Ok) (intro exI conjI; simp?; assumption)

lemma sample_upgrade: "fst (upgrade_with_migration_guard (sample_env 10 1) 7 2 [] sample_vault) = Ok ()"
  by (simp add: upgrade_with_migration_guard_def guard_storage_upgrade_def with_admin_def sample_defs
      STAKE_VAULT_VERSION_def INITIAL_LAYOUT_VERSION_def sat_add_u32_def u32_max_def Let_def)

theorem guarded_upgrade_effect_witness:
  "k_layout_version (cfg (snd (upgrade_with_migration_guard (sample_env 10 1) 7 2 [] sample_vault))) = Some 2"
proof -
  let ?r = "snd (upgrade_with_migration_guard (sample_env 10 1) 7 2 [] sample_vault)"
  from guarded_upgrade_effect [OF run_ok [OF sample_upgrade]]
  have "?r = sample_vault\<lparr>cfg := (cfg sample_vault)\<lparr>k_layout_version := Some 2\<rparr>, k_contract_version := Some 7, event_log := event_log ?r\<rparr>"
    by blast
  from arg_cong [OF this, of "\<lambda>x. k_layout_version (cfg x)"] show ?thesis by simp
qed

text \<open>
  Versions only grow. After any sequence of n successful upgrades, g of them guarded, the contract
  version is at least n higher and the storage layout is exactly g versions higher, so no layout
  version is skipped and no upgrade can be replayed.
\<close>

theorem versions_grow:
  assumes "upgrade_run s n g s'" and "k_layout_version (cfg s) = Some c" and "c + n \<le> u32_max"
    and "k \<le> get_contract_version s'"
  shows "get_contract_version s + n \<le> get_contract_version s' \<and> k_layout_version (cfg s') = Some (c + g) \<and>
    \<not> is_ok (fst (upgrade e k s')) \<and> \<not> is_ok (fst (upgrade_with_migration_guard e k l ks s'))"
proof -
  have "\<not> is_ok (fst (upgrade e k s'))"
    using plain_upgrade_Ok(1) [of e k s'] assms(4) by (cases "upgrade e k s'") (fastforce elim!: is_okE)
  moreover have "\<not> is_ok (fst (upgrade_with_migration_guard e k l ks s'))"
  proof
    assume "is_ok (fst (upgrade_with_migration_guard e k l ks s'))"
    then obtain u s2 where "upgrade_with_migration_guard e k l ks s' = (Ok u, s2)" by (metis is_okE prod.collapse)
    then show False by (cases rule: guarded_upgrade_Ok) (use assms(4) in simp)
  qed
  ultimately show ?thesis using upgrade_run_versions [OF assms(1-3)] by blast
qed

theorem versions_grow_witness:
  "k_layout_version (cfg (snd (upgrade_with_migration_guard (sample_env 10 1) 7 2 [] sample_vault))) = Some 2"
proof -
  let ?s = "snd (upgrade_with_migration_guard (sample_env 10 1) 7 2 [] sample_vault)"
  have "upgrade_run sample_vault (Suc 0) (Suc 0) ?s"
    by (rule up_guarded [OF up_start run_ok [OF sample_upgrade]])
  moreover have "k_layout_version (cfg sample_vault) = Some 1"
    by (simp add: sample_defs INITIAL_LAYOUT_VERSION_def)
  ultimately show ?thesis
    using versions_grow [of sample_vault "Suc 0" "Suc 0" ?s 1 0] by (simp add: u32_max_def)
qed

text \<open>
  A slash strategy that the administrator registers is stored as given and listed, is well-formed
  (tiers ordered and at most 10000 basis points), and computes for a positive balance the same amount
  as the slashing code itself would with the same tiers, so never more than the balance.
\<close>

theorem strategy_agrees_with_slashing:
  assumes "set_slash_strategy e nm minor major critical rw pw s = (Ok (), s')" and "0 < balance"
  shows "get_slash_strategy nm s' = Some \<lparr>ss_minor_bps = minor, ss_major_bps = major, ss_critical_bps = critical,
      ss_risk_window_secs = rw, ss_penalty_window_secs = pw\<rparr> \<and> nm \<in> set (list_slash_strategies s') \<and>
    minor \<le> major \<and> major \<le> critical \<and> critical \<le> 10000 \<and> 0 < rw \<and>
    compute_slash_amount nm balance (severity_code severity) s' =
      Inr (slash_part balance (tier_bps_for \<lparr>minor_bps = minor, major_bps = major, critical_bps = critical\<rparr> severity))"
proof -
  let ?c = "\<lparr>ss_minor_bps = minor, ss_major_bps = major, ss_critical_bps = critical,
      ss_risk_window_secs = rw, ss_penalty_window_secs = pw\<rparr>"
  from assms(1) have st: "st_set_slash_strategy nm ?c s = (Ok (), s')"
    by (auto simp: set_slash_strategy_def elim!: with_admin_Ok split: prod.splits outcome.splits)
  then have v: "validate_strategy ?c = Inr ()" by (auto simp: st_set_slash_strategy_def split: sum.splits)
  have g: "get_slash_strategy nm s' = Some ?c" "nm \<in> set (list_slash_strategies s')"
    using st v by (auto simp: st_set_slash_strategy_def get_slash_strategy_def list_slash_strategies_def Let_def
        publish_def list_ex_iff split: if_splits)
  have "compute_slash_amount nm balance (severity_code severity) s' =
      Inr (slash_part balance (tier_bps_for \<lparr>minor_bps = minor, major_bps = major, critical_bps = critical\<rparr> severity))"
    using assms(2) g(1)
    by (cases severity) (simp_all add: compute_slash_amount_def severity_code_def tier_bps_for_def slash_part_def)
  with g v show ?thesis by (auto simp: validate_strategy_def split: if_splits)
qed

theorem strategy_agrees_with_slashing_witness:
  "compute_slash_amount ''std'' 1000 1 (snd (set_slash_strategy (sample_env 10 1) ''std'' 500 3000 10000 60 60 sample_vault)) = Inr 300"
proof -
  have "fst (set_slash_strategy (sample_env 10 1) ''std'' 500 3000 10000 60 60 sample_vault) = Ok ()"
    by (simp add: set_slash_strategy_def st_set_slash_strategy_def validate_strategy_def with_admin_def sample_defs Let_def)
  from strategy_agrees_with_slashing [OF run_ok [OF this], of 1000 Major] show ?thesis
    by (simp add: severity_code_def tier_bps_for_def slash_part_def apply_multiplier_bps_eq int_defs)
qed

end
