(* ===== verification/Vault_Custody.thy ===== *)
theory Vault_Custody
  imports Vault_Slash Vault_Queue Vault_Emergency Vault_Actions Reward_Vault Vault_Upgrade
begin

text \<open>
  Custody: what the vault owes against what it holds. The obligations are the stakes, the
  delegations, the slashed amounts that an appeal can still give back, and the unclaimed reward
  buckets. The theory shows that no sequence of calls of the contract lets the obligations exceed
  the vault's token balances, as long as only slashes whose funds are held are appealed
  (\<open>reversal_of_burnt_slash\<close> in \<open>Vault_Slash\<close> shows what happens otherwise).
\<close>

section \<open>Obligations\<close>

definition at_stake :: "'t vault \<Rightarrow> nat \<Rightarrow> bool" where
  "at_stake s sid \<longleftrightarrow> smap_get (k_slashed_funds_held s) sid \<noteq> None \<or>
     map_option sa_status (smap_get (k_slash_appeal s) sid) = Some Pending"

definition contingent :: "'t vault \<Rightarrow> int" where
  "contingent s = smap_ktotal (\<lambda>sid r. if at_stake s sid then sr_slash_amount r else 0) (k_slash_record s)"

definition stake_obligations :: "'t vault \<Rightarrow> int" where
  "stake_obligations s = staked s + delegated s + contingent s"

definition liabilities :: "address \<Rightarrow> 't vault \<Rightarrow> int" where
  "liabilities a s = rewards_owed a s + (if k_stake_token (cfg s) = Some a then stake_obligations s else 0)"

text \<open>
  Slash records are numbered below the counter and positive; what is held under a slash id is the
  recorded amount, and only recorded slashes are appealed.
\<close>

definition records_wf :: "'t vault \<Rightarrow> bool" where
  "records_wf s \<longleftrightarrow> smap_ok (k_slash_record s) \<and>
     (\<forall>sid r. smap_get (k_slash_record s) sid = Some r \<longrightarrow>
        sid < get_or 0 (k_slash_counter s) \<and> 0 < sr_slash_amount r \<and> in_i128 (sr_slash_amount r)) \<and>
     (\<forall>sid h. smap_get (k_slashed_funds_held s) sid = Some h \<longrightarrow>
        (\<exists>r. smap_get (k_slash_record s) sid = Some r \<and> sr_slash_amount r = h)) \<and>
     (\<forall>sid. smap_get (k_slash_appeal s) sid \<noteq> None \<longrightarrow> smap_get (k_slash_record s) sid \<noteq> None)"

text \<open>The cached total of a provider is the sum of the delegations to it, and fits its type.\<close>

definition totals_wf :: "'t vault \<Rightarrow> bool" where
  "totals_wf s \<longleftrightarrow> (\<forall>p. get_total_delegated p s = smap_total (\<lambda>v. v) (delegations p s) \<and>
     in_i128 (smap_total (\<lambda>v. v) (delegations p s)))"

definition delegation_part :: "'t vault \<Rightarrow> (address, (address, int) smap) smap \<times> (address, int) smap" where
  "delegation_part s = (k_provider_delegated_stakes s, k_provider_total_delegated s)"

lemma delegation_part_D:
  assumes "delegation_part s' = delegation_part s"
  shows "delegations_wf s' = delegations_wf s" "totals_wf s' = totals_wf s" "delegated s' = delegated s"
  using assms
  by (simp_all add: delegation_part_def delegations_wf_def totals_wf_def delegated_def get_total_delegated_def delegations_def)

definition custody_wf :: "'t vault \<Rightarrow> bool" where
  "custody_wf s \<longleftrightarrow> stakes_wf s \<and> delegations_wf s \<and> totals_wf s \<and> records_wf s \<and> rewards_wf (rewards s)"

definition solvent :: "('t \<Rightarrow> address \<Rightarrow> address \<Rightarrow> int) \<Rightarrow> address \<Rightarrow> 't vault \<Rightarrow> bool" where
  "solvent bal v s \<longleftrightarrow> custody_wf s \<and> (\<forall>a. liabilities a s \<le> bal (k_tokens s) a v)"

lemma contingent_nonneg: "records_wf s \<Longrightarrow> 0 \<le> contingent s"
  unfolding contingent_def records_wf_def by (intro smap_ktotal_nonneg) (auto simp: less_imp_le)

lemma stake_obligations_nonneg: "custody_wf s \<Longrightarrow> 0 \<le> stake_obligations s"
  by (simp add: custody_wf_def stake_obligations_def staked_nonneg delegated_nonneg contingent_nonneg)

lemma liabilities_rewards: "custody_wf s \<Longrightarrow> rewards_owed a s \<le> liabilities a s"
  by (simp add: liabilities_def stake_obligations_nonneg)

text \<open>The fields the obligations depend on: all but the stakes and the tokens, and then those too.\<close>

definition frame :: "'t vault \<Rightarrow> address option \<times> ((address, (address, int) smap) smap \<times> (address, int) smap) \<times>
    (nat, slash_record) smap \<times> (nat, slash_appeal) smap \<times> (nat, int) smap \<times> nat option \<times> reward_store" where
  "frame s = (k_stake_token (cfg s), delegation_part s, k_slash_record s, k_slash_appeal s,
     k_slashed_funds_held s, k_slash_counter s, rewards s)"

definition custody_part where
  "custody_part s = (frame s, k_stakes_v2 s, k_tokens s)"

lemma frame_simps [simp]:
  "frame (s\<lparr>k_stakes_v2 := x\<rparr>) = frame s" "frame (s\<lparr>k_tokens := t\<rparr>) = frame s"
  "frame (s\<lparr>event_log := l\<rparr>) = frame s" "frame (s\<lparr>k_withdraw_lock := b\<rparr>) = frame s"
  "frame (s\<lparr>k_large_withdrawal_requested_at := q\<rparr>) = frame s"
  "frame (s\<lparr>k_stake_deposit_timestamps := n\<rparr>) = frame s" "frame (s\<lparr>k_last_stake_ledger := n\<rparr>) = frame s"
  "frame (s\<lparr>k_emergency_request := er\<rparr>) = frame s" "frame (s\<lparr>k_last_emergency_unstake_at := n\<rparr>) = frame s"
  "frame (s\<lparr>k_rl_first_action := f, k_rl_window := w\<rparr>) = frame s"
  "frame (s\<lparr>k_unstake_queue_entry := qe\<rparr>) = frame s" "frame (s\<lparr>k_user_unstake_ticket := ut\<rparr>) = frame s"
  "frame (s\<lparr>k_unstake_queue_head := qh\<rparr>) = frame s" "frame (s\<lparr>k_unstake_queue_tail := qt\<rparr>) = frame s"
  by (simp_all add: frame_def delegation_part_def)

lemma frame_D:
  assumes "frame s' = frame s"
  shows "k_stake_token (cfg s') = k_stake_token (cfg s)" "delegations_wf s' = delegations_wf s"
    "delegated s' = delegated s" "records_wf s' = records_wf s" "contingent s' = contingent s"
    "rewards s' = rewards s" "rewards_owed a s' = rewards_owed a s" "totals_wf s' = totals_wf s"
proof -
  have d: "delegation_part s' = delegation_part s" using assms by (simp add: frame_def)
  show "delegations_wf s' = delegations_wf s" "delegated s' = delegated s" "totals_wf s' = totals_wf s"
    by (fact delegation_part_D [OF d])+
qed (use assms in \<open>simp_all add: frame_def records_wf_def contingent_def at_stake_def rewards_owed_def\<close>)

lemma custody_part_D:
  assumes "custody_part s' = custody_part s"
  shows "solvent bal v s' = solvent bal v s"
proof -
  have "frame s' = frame s" and st: "k_stakes_v2 s' = k_stakes_v2 s" "k_tokens s' = k_tokens s"
    using assms by (simp_all add: custody_part_def)
  note f = frame_D [OF this(1)]
  have "stakes_wf s' = stakes_wf s" "staked s' = staked s"
    using st by (simp_all add: stakes_wf_def staked_def stakes_def)
  then show ?thesis
    by (simp add: solvent_def custody_wf_def liabilities_def stake_obligations_def f st)
qed

text \<open>The two ways in which calls change the obligations: on the stake side, or by rewards.\<close>

lemma solvent_stake_change:
  assumes "solvent bal v s" "k_stake_token (cfg s) = Some tk" "k_stake_token (cfg s') = Some tk" "rewards s' = rewards s"
    and "stakes_wf s'" "delegations_wf s'" "records_wf s'" "totals_wf s'"
    and "stake_obligations s' - stake_obligations s \<le> bal (k_tokens s') tk v - bal (k_tokens s) tk v"
    and "\<And>a. a \<noteq> tk \<Longrightarrow> bal (k_tokens s') a v = bal (k_tokens s) a v"
  shows "solvent bal v s'"
  unfolding solvent_def custody_wf_def
proof (intro conjI allI)
  show "rewards_wf (rewards s')" using assms(1,4) by (simp add: solvent_def custody_wf_def)
  fix a
  have "liabilities a s \<le> bal (k_tokens s) a v" using assms(1) by (simp add: solvent_def)
  then show "liabilities a s' \<le> bal (k_tokens s') a v"
    using assms(2,3,4,9,10) by (cases "a = tk") (simp_all add: liabilities_def rewards_owed_def)
qed (use assms(5-8) in simp_all)

lemma solvent_no_more:
  assumes "solvent bal v s" "cfg s' = cfg s" "rewards s' = rewards s" "k_tokens s' = k_tokens s"
    and "stakes_wf s'" "delegations_wf s'" "records_wf s'" "totals_wf s'" "stake_obligations s' \<le> stake_obligations s"
  shows "solvent bal v s'"
  unfolding solvent_def custody_wf_def
proof (intro conjI allI)
  show "rewards_wf (rewards s')" using assms(1,3) by (simp add: solvent_def custody_wf_def)
  fix a
  have "liabilities a s \<le> bal (k_tokens s) a v" using assms(1) by (simp add: solvent_def)
  then show "liabilities a s' \<le> bal (k_tokens s') a v"
    using assms(2,3,4,9) by (cases "k_stake_token (cfg s) = Some a") (simp_all add: liabilities_def rewards_owed_def)
qed (use assms(5-8) in simp_all)

lemma solvent_reward_change:
  assumes "solvent bal v s" "s' = s\<lparr>rewards := R, k_tokens := t, event_log := l\<rparr>" "rewards_wf R"
    and "\<And>a. owed (\<lambda>b. rb_asset b = a) R - rewards_owed a s \<le> bal t a v - bal (k_tokens s) a v"
  shows "solvent bal v s'"
proof -
  have same: "stakes_wf s' = stakes_wf s" "delegations_wf s' = delegations_wf s" "records_wf s' = records_wf s"
    "totals_wf s' = totals_wf s" "stake_obligations s' = stake_obligations s" "k_stake_token (cfg s') = k_stake_token (cfg s)"
    by (simp_all add: assms(2) stakes_wf_def stakes_def delegations_wf_def records_wf_def stake_obligations_def
        staked_def delegated_def contingent_def at_stake_def totals_wf_def get_total_delegated_def delegations_def)
  have "liabilities a s' \<le> bal t a v" for a
  proof -
    have "liabilities a s \<le> bal (k_tokens s) a v" using assms(1) by (simp add: solvent_def)
    then show ?thesis
      using assms(4) [of a]
      by (cases "k_stake_token (cfg s) = Some a") (simp_all add: liabilities_def same, simp_all add: assms(2) rewards_owed_def)
  qed
  with assms(1,3) show ?thesis
    by (simp add: solvent_def custody_wf_def same) (simp add: assms(2))
qed

section \<open>Stakes\<close>

text \<open>
  A call that sets one staker's position to \<open>x\<close> and moves the difference: deposits, withdrawals and
  emergency exits.
\<close>

definition position_set :: "('t \<Rightarrow> address \<Rightarrow> address \<Rightarrow> int) \<Rightarrow> address \<Rightarrow> address \<Rightarrow> int \<Rightarrow> 't vault \<Rightarrow> 't vault \<Rightarrow> bool" where
  "position_set bal v p x s s' \<longleftrightarrow> frame s' = frame s \<and>
     (\<exists>i. si_balance i = x \<and> k_stakes_v2 s' = Some (smap_set (stakes s) p i)) \<and>
     (\<exists>tk. k_stake_token (cfg s) = Some tk \<and>
        x - get_stake p s \<le> bal (k_tokens s') tk v - bal (k_tokens s) tk v \<and>
        (\<forall>a. a \<noteq> tk \<longrightarrow> bal (k_tokens s') a v = bal (k_tokens s) a v))"

lemma position_setI:
  assumes "frame s' = frame s" "k_stakes_v2 s' = Some (smap_set (stakes s) p i)" "si_balance i = x"
    and "k_stake_token (cfg s) = Some tk" "x - get_stake p s \<le> bal (k_tokens s') tk v - bal (k_tokens s) tk v"
    and "\<And>a. a \<noteq> tk \<Longrightarrow> bal (k_tokens s') a v = bal (k_tokens s) a v"
  shows "position_set bal v p x s s'"
  unfolding position_set_def using assms by blast

lemma position_set_wf:
  assumes "position_set bal v p x s s'" "stakes_wf s" "amount_ok x"
  shows "stakes_wf s'" "staked s' = staked s + x - get_stake p s" "get_stake a s' = (if a = p then x else get_stake a s)"
proof -
  from assms(1) obtain i where i: "si_balance i = x" "k_stakes_v2 s' = Some (smap_set (stakes s) p i)"
    by (auto simp: position_set_def)
  let ?s = "s\<lparr>k_stakes_v2 := Some (smap_set (stakes s) p i)\<rparr>"
  have "stakes s' = stakes ?s" by (simp add: i(2) stakes_def)
  then have "stakes_wf s' = stakes_wf ?s" "staked s' = staked ?s" "get_stake a s' = get_stake a ?s"
    by (simp_all add: stakes_wf_def staked_def get_stake_def)
  then show "stakes_wf s'" "staked s' = staked s + x - get_stake p s" "get_stake a s' = (if a = p then x else get_stake a s)"
    using stakes_wf_set [OF assms(2), of i p] assms(3) i(1) by simp_all
qed

lemma position_set_solvent:
  assumes "position_set bal v p x s s'" "solvent bal v s" "amount_ok x"
  shows "solvent bal v s'"
proof -
  have wf: "stakes_wf s" "delegations_wf s" "records_wf s" "totals_wf s"
    using assms(2) by (simp_all add: solvent_def custody_wf_def)
  note set = position_set_wf [OF assms(1) wf(1) assms(3)]
  from assms(1) obtain tk where tk: "frame s' = frame s" "k_stake_token (cfg s) = Some tk"
    "x - get_stake p s \<le> bal (k_tokens s') tk v - bal (k_tokens s) tk v"
    "\<And>a. a \<noteq> tk \<Longrightarrow> bal (k_tokens s') a v = bal (k_tokens s) a v"
    by (auto simp: position_set_def)
  note f = frame_D [OF tk(1)]
  show ?thesis
    by (rule solvent_stake_change [OF assms(2) tk(2)])
       (use tk wf set in \<open>simp_all add: f stake_obligations_def\<close>)
qed

lemma deposit_position:
  assumes "sep41 T bal" "deposit_stake T e staker amount s = (Ok r, s')" "call_ok v e" "stakes_wf s"
  shows "position_set bal v staker (get_stake staker s + amount) s s'" "amount_ok (get_stake staker s + amount)"
    "\<exists>tk. k_stake_token (cfg s) = Some tk \<and> bal (k_tokens s') tk v = bal (k_tokens s) tk v + amount"
    "cfg s' = cfg s" "0 < amount"
proof -
  from assms(2) obtain tk s1 i where d: "k_stake_token (cfg s) = Some tk" "has_auth e staker" "0 < amount"
    "in_i128 (get_stake staker s + amount)" "transfer_tokens T tk staker (current_contract_address e) amount s1 = (Ok (), s')"
    and s1: "frame s1 = frame s" "k_stakes_v2 s1 = Some (smap_set (stakes s) staker i)" "si_balance i = get_stake staker s + amount"
      "cfg s1 = cfg s" "k_tokens s1 = k_tokens s"
    by (cases rule: deposit_stake_Ok) (auto simp: frame_def delegation_part_def)
  have ne: "staker \<noteq> v" "current_contract_address e = v" using d(2) assms(3) by (auto simp: call_ok_def)
  show "amount_ok (get_stake staker s + amount)"
    using get_stake_ok [OF assms(4), of staker] d(3,4) by (simp add: amount_ok_def)
  from assms(1) d(5) have s': "frame s' = frame s" "k_stakes_v2 s' = Some (smap_set (stakes s) staker i)" "cfg s' = cfg s"
    "bal (k_tokens s') = token_moved tk staker v amount (bal (k_tokens s))"
    by (cases rule: transfer_tokens_cases; simp add: s1 ne)+
  show "position_set bal v staker (get_stake staker s + amount) s s'"
    by (rule position_setI [OF s'(1,2) s1(3) d(1)]) (use ne(1) in \<open>simp_all add: s'(4) token_moved_def\<close>)
  show "\<exists>tk. k_stake_token (cfg s) = Some tk \<and> bal (k_tokens s') tk v = bal (k_tokens s) tk v + amount"
    "cfg s' = cfg s" "0 < amount"
    using d(1,3) ne(1) s' by (simp_all add: token_moved_def)
qed

lemma withdrawn_position:
  assumes "withdrawn bal e p amount info x s s'" "current_contract_address e = v" "stakes_wf s" "amount \<le> si_balance info"
  shows "position_set bal v p (get_stake p s - amount) s s'" "amount_ok (get_stake p s - amount)"
    "p \<noteq> v \<Longrightarrow> \<exists>tk. k_stake_token (cfg s) = Some tk \<and> bal (k_tokens s') tk v = bal (k_tokens s) tk v - amount"
    "cfg s' = cfg s"
proof -
  from assms(1) obtain tk c t log where w: "k_stake_token (cfg s) = Some tk" "position_open e p info x c s" "0 \<le> amount"
    "bal t = token_moved tk v p amount (bal (k_tokens s))"
    "s' = (paid_out e p info (si_balance info - amount) c t log s)\<lparr>k_withdraw_lock := None\<rparr>"
    unfolding withdrawn_def assms(2) by blast
  have b: "get_stake p s = si_balance info" using w(2) by (simp add: position_open_def get_stake_def)
  have s': "frame s' = frame s" "cfg s' = cfg s" "k_tokens s' = t" "k_stakes_v2 s' = Some (smap_set (stakes s) p
      \<lparr>si_balance = si_balance info - amount, si_locked_until = si_locked_until info, si_last_updated = ledger_timestamp e\<rparr>)"
    by (cases c; simp add: w(5) paid_out_def frame_def delegation_part_def)+
  show "position_set bal v p (get_stake p s - amount) s s'"
    unfolding b by (rule position_setI [OF s'(1,4) _ w(1)]) (use w(3,4) in \<open>auto simp: s'(3) b token_moved_def\<close>)
  show "amount_ok (get_stake p s - amount)"
    using get_stake_ok [OF assms(3), of p] amount_ok_sub [of "get_stake p s" amount] w(3) assms(4) b by simp
  show "p \<noteq> v \<Longrightarrow> \<exists>tk. k_stake_token (cfg s) = Some tk \<and> bal (k_tokens s') tk v = bal (k_tokens s) tk v - amount"
    using w(1,4) s'(3) by (auto simp: token_moved_def)
  show "cfg s' = cfg s" by (fact s'(2))
qed

lemma custody_part_simps [simp]:
  "custody_part (record_action e u a s) = custody_part s"
  "custody_part (s\<lparr>event_log := l\<rparr>) = custody_part s" "custody_part (s\<lparr>k_withdraw_lock := b\<rparr>) = custody_part s"
  "custody_part (publish s ts d) = custody_part s"
  "custody_part (s\<lparr>k_unstake_queue_entry := qe\<rparr>) = custody_part s" "custody_part (s\<lparr>k_user_unstake_ticket := ut\<rparr>) = custody_part s"
  "custody_part (s\<lparr>k_unstake_queue_head := qh\<rparr>) = custody_part s" "custody_part (s\<lparr>k_unstake_queue_tail := qt\<rparr>) = custody_part s"
  "custody_part (s\<lparr>k_emergency_request := er\<rparr>) = custody_part s" "custody_part (s\<lparr>k_last_emergency_unstake_at := n\<rparr>) = custody_part s"
  by (rule record_action_frame [of e u a s]; simp add: custody_part_def publish_def frame_def delegation_part_def)+

lemma solvent_simps [simp]:
  "solvent bal v (record_action e u a s) = solvent bal v s"
  "solvent bal v (s\<lparr>event_log := l\<rparr>) = solvent bal v s"
  by (rule custody_part_D; simp)+

section \<open>Entry points against the invariant\<close>

text \<open>The conditions on a call that moves tokens.\<close>

definition token_call :: "'t token_impl \<Rightarrow> ('t \<Rightarrow> address \<Rightarrow> address \<Rightarrow> int) \<Rightarrow> address \<Rightarrow> env \<Rightarrow> bool" where
  "token_call T bal v e \<longleftrightarrow> sep41 T bal \<and> call_ok v e"

interpretation dep: keeps_invariant "solvent bal v" "deposit_stake T e staker amount" "\<lambda>s. token_call T bal v e"
  for T bal v e staker amount
proof
  fix s r s' assume "solvent bal v s" "token_call T bal v e" "deposit_stake T e staker amount s = (Ok r, s')"
  moreover from this have "stakes_wf s" by (simp add: solvent_def custody_wf_def)
  ultimately show "solvent bal v s'"
    unfolding token_call_def by (metis deposit_position(1,2) position_set_solvent)
qed

lemma withdrawn_solvent:
  assumes "withdrawn bal e p amount info x s s'" "current_contract_address e = v" "solvent bal v s" "amount \<le> si_balance info"
  shows "solvent bal v s'"
  using assms withdrawn_position(1,2) [OF assms(1,2) _ assms(4)] position_set_solvent
  by (metis custody_wf_def solvent_def)

interpretation wdr: keeps_invariant "solvent bal v" "withdraw_stake T e staker" "\<lambda>s. token_call T bal v e"
  for T bal v e staker
proof
  fix s a s' assume s: "solvent bal v s" "token_call T bal v e" and "withdraw_stake T e staker s = (Ok a, s')"
  from _ this(3) show "solvent bal v s'"
    by (rule withdraw_stake_withdrawn [where bal = bal])
       (use s in \<open>auto simp: token_call_def call_ok_def intro: withdrawn_solvent\<close>)
qed

interpretation pun: keeps_invariant "solvent bal v" "partial_unstake T e staker amount" "\<lambda>s. token_call T bal v e"
  for T bal v e staker amount
proof
  fix s a s' assume s: "solvent bal v s" "token_call T bal v e" and "partial_unstake T e staker amount s = (Ok a, s')"
  from _ this(3) show "solvent bal v s'"
    by (rule partial_unstake_withdrawn [where bal = bal])
       (use s in \<open>auto simp: token_call_def call_ok_def intro: withdrawn_solvent\<close>)
qed

lemma custody_part_unchanged: "unchanged_but_log s s' \<Longrightarrow> custody_part s' = custody_part s"
  by (auto simp: unchanged_but_log_def custody_part_def frame_def delegation_part_def)

lemma dequeued_custody [simp]: "custody_part (dequeued e r a h s) = custody_part s"
  unfolding dequeued_def by (simp add: emit_unstake_processed_def emits_only_log)

lemma process_loop_solvent:
  assumes "process_loop T e limit tail n h s = (Ok r, s')" "solvent bal v s" "token_call T bal v e"
  shows "solvent bal v s'"
  using assms
proof (induction T e limit tail n h s rule: process_loop.induct)
  case (1 T e limit tail n h s)
  note prems = 1(3-) and IH = 1(1,2)
  show ?case
  proof (cases "n < limit \<and> h < tail")
    case False
    with prems show ?thesis by (subst (asm) process_loop.simps) auto
  next
    case True
    show ?thesis
    proof (cases "smap_get (k_unstake_queue_entry s) h")
      case None
      with prems True have "process_loop T e limit tail n (Suc h) s = (Ok r, s')"
        by (subst (asm) process_loop.simps) simp
      from IH(1) [OF True None this prems(2,3)] show ?thesis .
    next
      case (Some req)
      obtain q s1 where w: "do_withdraw T e (ur_user req) s = (q, s1)" by fastforce
      from prems(3) have sep: "sep41 T bal" "current_contract_address e = v" by (auto simp: token_call_def call_ok_def)
      from sep(1) w show ?thesis
      proof (cases rule: do_withdraw_cases)
        case (paid info)
        let ?s = "dequeued e req (si_balance info) h s1"
        from withdrawn_solvent [OF paid(2) sep(2) prems(2)] have "solvent bal v ?s"
          by (simp add: custody_part_D [OF dequeued_custody])
        moreover have "process_loop T e limit tail (sat_add_u32 n 1) (Suc h) ?s = (Ok r, s')"
          using prems(1) True Some w paid(1)
          by (subst (asm) process_loop.simps) (simp add: dequeued_def Let_def)
        ultimately show ?thesis
          using prems(3)
          by (intro IH(2) [OF True Some w [symmetric, unfolded paid(1)] refl refl refl refl, folded dequeued_def])
      next
        case (failed er)
        with prems(1) True Some w have "s' = s1" by (subst (asm) process_loop.simps) simp
        with prems(2) failed(2) show ?thesis
          using custody_part_D [OF custody_part_unchanged, of s s1 bal v] by simp
      qed
    qed
  qed
qed

interpretation puq: keeps_invariant "solvent bal v" "process_unstake_queue T e limit" "\<lambda>s. token_call T bal v e"
  for T bal v e limit
proof
  fix s r s' assume s: "solvent bal v s" "token_call T bal v e" and "process_unstake_queue T e limit s = (Ok r, s')"
  then consider "s' = s" | q h s1 where "process_loop T e limit (queue_tail s) 0 (queue_head s) s = (Ok (q, h), s1)"
      "s' = s1\<lparr>k_unstake_queue_head := Some h\<rparr>"
    by (auto simp: process_unstake_queue_def Let_def split: if_splits prod.splits outcome.splits)
  then show "solvent bal v s'"
  proof cases
    case 2
    with process_loop_solvent [OF 2(1) s] show ?thesis
      using custody_part_D [of s' s1 bal v] by simp
  qed (use s in simp)
qed

lemma emptied_position:
  assumes "bal t = token_moved tk v p (get_stake p s - x) (token_burnt tk v x (bal (k_tokens s)))"
    and "k_stake_token (cfg s) = Some tk" "0 \<le> x" "x \<le> get_stake p s"
  shows "position_set bal v p 0 s (emptied e p t log s)"
  by (rule position_setI [OF _ _ _ assms(2), where i = "\<lparr>si_balance = 0, si_locked_until = 0, si_last_updated = ledger_timestamp e\<rparr>"])
     (use assms(3,4) in \<open>auto simp: emptied_def assms(1) token_moved_def token_burnt_def\<close>)

lemma early_unstake_solvent:
  fixes c :: emergency_config
  assumes "sep41 T bal" "current_contract_address e = v" "solvent bal v s" "k_stake_token (cfg s) = Some tk"
    and "execute_early_unstake T e staker tk (em_penalty_bps c) s = (Ok u, s')"
  shows "solvent bal v s'"
proof -
  have g: "0 \<le> get_stake staker s" "in_i128 (get_stake staker s)"
    using assms(3) get_stake_ok [of s staker] by (auto simp: solvent_def custody_wf_def amount_ok_def)
  from assms(1,5) g show ?thesis
  proof (cases rule: execute_early_unstake_Ok)
    case (1 t log)
    have "position_set bal v staker 0 s s'"
      unfolding 1(2)
      by (rule emptied_position [where bal = bal, OF 1(3) [unfolded assms(2)] assms(4) emergency_penalty_bounds [OF g(1)]])
    then show ?thesis by (rule position_set_solvent [OF _ assms(3)]) (simp add: amount_ok_def)
  qed
qed

interpretation aem: keeps_invariant "solvent bal v" "approve_emergency_unstake T e signer staker" "\<lambda>s. token_call T bal v e"
  for T bal v e signer staker
proof
  fix s u s' assume s: "solvent bal v s" "token_call T bal v e" and "approve_emergency_unstake T e signer staker s = (Ok u, s')"
  from this(3) show "solvent bal v s'"
  proof (cases rule: approve_Ok)
    case (1 tk c req log)
    show ?thesis
    proof (cases "Suc (length (er_approvals req)) \<ge> em_required c")
      case True
      with 1(8) obtain s2 where ex: "execute_early_unstake T e staker tk (em_penalty_bps c) (s\<lparr>event_log := log\<rparr>) = (Ok (), s2)"
        "s' = set_last_unstake_at staker (ledger_timestamp e) (remove_request staker s2)" by auto
      have "solvent bal v s2"
        using early_unstake_solvent [OF _ _ _ _ ex(1), of bal v] s 1(2) by (simp add: token_call_def call_ok_def)
      then show ?thesis
        using custody_part_D [of s' s2 bal v] by (simp add: ex(2) set_last_unstake_at_def remove_request_def)
    next
      case False
      with 1(8) have "custody_part s' = custody_part s" by (simp add: save_request_def)
      with s(1) show ?thesis using custody_part_D by blast
    qed
  qed
qed

section \<open>Delegations\<close>

lemma delegated_set_solvent:
  assumes "solvent bal v s" "k_stake_token (cfg s) = Some tk" "smap_ok m" "smap_all amount_ok m"
    and "in_i128 (smap_total (\<lambda>v. v) m)"
    and "s' = s\<lparr>k_provider_delegated_stakes := smap_set (k_provider_delegated_stakes s) p m,
           k_provider_total_delegated := smap_set (k_provider_total_delegated s) p (smap_total (\<lambda>v. v) m),
           k_tokens := t, event_log := l\<rparr>"
    and "smap_total (\<lambda>v. v) m - smap_total (\<lambda>v. v) (delegations p s) \<le> bal t tk v - bal (k_tokens s) tk v"
    and "\<And>a. a \<noteq> tk \<Longrightarrow> bal t a v = bal (k_tokens s) a v"
  shows "solvent bal v s'"
proof -
  let ?s = "s\<lparr>k_provider_delegated_stakes := smap_set (k_provider_delegated_stakes s) p m\<rparr>"
  have wf: "stakes_wf s" "delegations_wf s" "records_wf s" "totals_wf s" using assms(1) by (simp_all add: solvent_def custody_wf_def)
  note d = delegations_wf_set [OF wf(2) assms(3,4), of p]
  have same: "stakes_wf s' = stakes_wf s" "records_wf s' = records_wf s" "staked s' = staked s" "contingent s' = contingent s"
    "delegations_wf s' = delegations_wf ?s" "delegated s' = delegated ?s"
    by (simp_all add: assms(6) stakes_wf_def stakes_def records_wf_def staked_def contingent_def at_stake_def
        delegations_wf_def delegated_def)
  have tot: "totals_wf s'"
    using wf(4) assms(5) by (auto simp: assms(6) totals_wf_def get_total_delegated_def delegations_def)
  show ?thesis
    by (rule solvent_stake_change [OF assms(1,2)])
       (use assms(2,7,8) wf d tot in \<open>simp_all add: same stake_obligations_def\<close>, simp_all add: assms(6))
qed

lemma delegate_solvent:
  assumes "sep41 T bal" "call_ok v e" "solvent bal v s" "delegate_stake T e d p amount s = (Ok u, s')"
  shows "solvent bal v s'"
  using assms(4)
proof (cases rule: delegate_stake_Ok)
  case (1 tk s3)
  have e: "current_contract_address e = v" "d \<noteq> v" using assms(2) 1(1) by (auto simp: call_ok_def)
  define m where "m = smap_set (delegations p s) d (get_delegated_stake d p s + amount)"
  define s1 where "s1 = s\<lparr>k_provider_delegated_stakes := smap_set (k_provider_delegated_stakes s) p m,
        k_provider_total_delegated := smap_set (k_provider_total_delegated s) p (get_total_delegated p s + amount)\<rparr>"
  have dw: "delegations_wf s" "totals_wf s" using assms(3) by (simp_all add: solvent_def custody_wf_def)
  note ok = delegations_ok [OF dw(1), of p]
  then have nn: "0 \<le> get_delegated_stake d p s"
    unfolding get_delegated_stake_def
    by (cases "smap_get (delegations p s) d") (auto dest: smap_all_get simp: amount_ok_def)
  with ok 1(3,5) have m: "smap_ok m" "smap_all amount_ok m"
    "smap_total (\<lambda>v. v) m = smap_total (\<lambda>v. v) (delegations p s) + amount"
    by (simp_all add: m_def amount_ok_def smap_total_set get_delegated_stake_def total_at_def split: option.splits)
  have tot: "get_total_delegated p s + amount = smap_total (\<lambda>v. v) m" using dw(2) m(3) by (simp add: totals_wf_def)
  from assms(1) 1(7) [folded m_def, folded s1_def] show ?thesis
  proof (cases rule: transfer_tokens_cases)
    case (moved t)
    have "s' = s1\<lparr>k_tokens := t, event_log := event_log s'\<rparr>"
      unfolding 1(8) moved(2) emit_stake_delegated_def emits_only_log by simp
    from delegated_set_solvent [OF assms(3) 1(4) m(1,2) 1(6) [unfolded tot] this [unfolded s1_def tot]] show ?thesis
      using e m(3) moved(5) by (simp add: token_moved_def s1_def)
  qed simp
qed

interpretation del: keeps_invariant "solvent bal v" "delegate_stake T e d p amount" "\<lambda>s. token_call T bal v e"
  for T bal v e d p amount
  by unfold_locales (auto simp: token_call_def intro: delegate_solvent)

section \<open>Slashes\<close>

lemma contingent_new_record:
  assumes "records_wf s" "smap_get (k_slash_record s) sid = None"
    and "k_slash_record s' = smap_set (k_slash_record s) sid r" "k_slash_appeal s' = k_slash_appeal s"
    and "k_slashed_funds_held s' = (if h then smap_set (k_slashed_funds_held s) sid (sr_slash_amount r) else k_slashed_funds_held s)"
  shows "contingent s' = contingent s + (if h then sr_slash_amount r else 0)"
proof -
  have none: "smap_get (k_slashed_funds_held s) sid = None" "smap_get (k_slash_appeal s) sid = None"
    using assms(1,2) unfolding records_wf_def by (metis not_None_eq option.distinct(1))+
  have ok: "smap_ok (k_slash_record s)" using assms(1) by (simp add: records_wf_def)
  have "smap_ktotal (\<lambda>i r. if at_stake s' i then sr_slash_amount r else 0) (k_slash_record s) = contingent s"
    unfolding contingent_def
    by (rule smap_ktotal_cong [OF ok]) (use assms(2,4,5) in \<open>auto simp: at_stake_def split: if_splits\<close>)
  moreover have "at_stake s' sid = h" using none assms(4,5) by (simp add: at_stake_def)
  ultimately show ?thesis
    unfolding contingent_def [of s'] assms(3) by (simp add: smap_ktotal_set [OF ok] assms(2))
qed

lemma records_wf_new_record:
  assumes "records_wf s" "sid = get_or 0 (k_slash_counter s)" "k_slash_counter s' = Some (Suc sid)"
    and "k_slash_record s' = smap_set (k_slash_record s) sid r" "k_slash_appeal s' = k_slash_appeal s"
    and "k_slashed_funds_held s' = (if h then smap_set (k_slashed_funds_held s) sid (sr_slash_amount r) else k_slashed_funds_held s)"
    and "0 < sr_slash_amount r" "in_i128 (sr_slash_amount r)"
  shows "records_wf s'"
proof -
  have none: "smap_get (k_slash_record s) sid = None" "smap_get (k_slashed_funds_held s) sid = None"
    using assms(1,2) unfolding records_wf_def by (metis less_irrefl not_None_eq)+
  from assms(1) show ?thesis
    unfolding records_wf_def assms(3-6) get_or_simps smap_get_set
    using none assms(2,7,8) by (auto simp: less_Suc_eq)
qed

lemma slash_delegations_totals:
  assumes "totals_wf s" "delegations_wf s" "slash_delegations p bps s = (tot, s')"
  shows "totals_wf s'"
proof -
  obtain m t where run: "slash_delegators bps (smap_keys (delegations p s)) (delegations p s) 0 = (m, t)" by fastforce
  note ok = delegations_ok [OF assms(2), of p]
  then have "distinct (smap_keys (delegations p s))" by (simp add: smap_ok_distinct)
  note spec = slash_delegators_spec [OF run conjunct1 [OF ok] conjunct2 [OF ok] this order_refl in_i128_0]
  have g: "get_total_delegated p s = smap_total (\<lambda>v. v) (delegations p s)" "in_i128 (smap_total (\<lambda>v. v) (delegations p s))"
    using assms(1) by (auto simp: totals_wf_def)
  have nn: "0 \<le> smap_total (\<lambda>v. v) m"
    by (rule smap_total_nonneg) (use spec in \<open>auto simp: smap_all_def list_all_iff amount_ok_def\<close>)
  with spec g(2) have t: "t = smap_total (\<lambda>v. v) (delegations p s) - smap_total (\<lambda>v. v) m" "0 \<le> t"
    by (auto simp: in_i128_def)
  with nn g(2) have sub: "saturating_sub (get_total_delegated p s) t = smap_total (\<lambda>v. v) m" "in_i128 (smap_total (\<lambda>v. v) m)"
    using saturating_sub_le [of t "smap_total (\<lambda>v. v) (delegations p s)"] by (auto simp: g(1) in_i128_def i128_min_def)
  have "s' = (if t > 0 then s\<lparr>k_provider_delegated_stakes := smap_set (k_provider_delegated_stakes s) p m,
      k_provider_total_delegated := smap_set (k_provider_total_delegated s) p (smap_total (\<lambda>v. v) m)\<rparr> else s)"
    using assms(3) run sub(1) by (auto simp: slash_delegations_def Let_def)
  with assms(1) sub(2) show ?thesis
    by (cases "t > 0") (auto simp: totals_wf_def get_total_delegated_def delegations_def)
qed

lemma slash_writes_totals:
  assumes "totals_wf s" "delegations_wf s" "slash_writes e p severity reason info s = (amt, sid, s3)"
  shows "totals_wf s3"
proof -
  let ?bps = "tier_bps_for (get_slash_tier_config s) severity"
  obtain own s1 where o: "slash_own e p info ?bps s = (own, s1)" by fastforce
  obtain dt s2 where d: "slash_delegations p ?bps s1 = (dt, s2)" by fastforce
  have s1: "delegation_part s1 = delegation_part s" using o by (auto simp: slash_own_def Let_def delegation_part_def)
  have s3: "delegation_part s3 = delegation_part s2"
    using assms(3) o d by (auto simp: slash_writes_def record_slash_def Let_def delegation_part_def)
  have "totals_wf s2"
    using slash_delegations_totals [OF _ _ d] assms(1,2) by (simp add: delegation_part_D [OF s1])
  then show ?thesis by (simp add: delegation_part_D [OF s3])
qed

lemma slash_solvent:
  assumes "sep41 T bal" "current_contract_address e = v" "solvent bal v s"
    and "do_slash T e p severity reason s = (r, s')" "get_or 0 (k_slash_counter s) < u64_max"
  shows "solvent bal v s'" "get_or 0 (k_slash_counter s') \<le> Suc (get_or 0 (k_slash_counter s))"
proof -
  have "solvent bal v s' \<and> get_or 0 (k_slash_counter s') \<le> Suc (get_or 0 (k_slash_counter s))"
    using assms(1,4)
  proof (cases rule: do_slash_outcome)
    case (refused er)
    with assms(3) show ?thesis by simp
  next
    case (ran tk info amt sid s3)
    have wf: "stakes_wf s" "delegations_wf s" "records_wf s" "totals_wf s" using assms(3) by (simp_all add: solvent_def custody_wf_def)
    note w = slash_writes_spec [OF wf(1,2) ran(3-5)] and tot = slash_writes_totals [OF wf(4,2) ran(5)]
    from w(11) obtain sr where sr: "sr_slash_amount sr = amt" "k_slash_record s3 = smap_set (k_slash_record s) sid sr" by blast
    have new: "smap_get (k_slash_record s) sid = None"
      using wf(3) w(10) unfolding records_wf_def by (metis less_irrefl not_None_eq)
    have s3: "k_slash_appeal s3 = k_slash_appeal s" "k_slashed_funds_held s3 = k_slashed_funds_held s" "cfg s3 = cfg s"
      "rewards s3 = rewards s" "k_tokens s3 = k_tokens s" "k_slash_counter s3 = Some (Suc sid)"
      using w(12) w(13) assms(5) w(10) by (auto simp: sat_add_u64_def)
    define h where "h \<longleftrightarrow> 0 < get_appeal_window s3 \<and> is_ok r"
    have s': "stakes s' = stakes s3" "delegation_part s' = delegation_part s3"
        "k_slash_record s' = k_slash_record s3" "k_slash_appeal s' = k_slash_appeal s3" "k_slash_counter s' = k_slash_counter s3"
        "rewards s' = rewards s3" "cfg s' = cfg s3"
      and h: "k_slashed_funds_held s' = (if h then smap_set (k_slashed_funds_held s) sid amt else k_slashed_funds_held s)"
        "bal (k_tokens s') tk v \<ge> bal (k_tokens s) tk v - (if h then 0 else amt)"
        "\<And>a. a \<noteq> tk \<Longrightarrow> bal (k_tokens s') a v = bal (k_tokens s) a v"
      using ran(6) w(5) by (auto simp: h_def s3 stakes_def delegation_part_def token_burnt_def assms(2))
    have rec: "records_wf s'" "contingent s' = contingent s + (if h then amt else 0)"
      using records_wf_new_record [OF wf(3) w(10), of s' sr h] contingent_new_record [OF wf(3) new, of s' sr h]
        w(5,6) h(1) by (simp_all add: s' s3 sr)
    have eq: "stakes_wf s' = stakes_wf s3" "staked s' = staked s3" "delegations_wf s' = delegations_wf s3" "delegated s' = delegated s3"
        "totals_wf s' = totals_wf s3"
      by (simp_all add: stakes_wf_def staked_def delegation_part_D [OF s'(2)] s')
    have "staked s' + delegated s' \<le> staked s + delegated s - amt"
      using w(3,4) by (simp add: eq)
    with rec(2) h(2) have "stake_obligations s' - stake_obligations s \<le> bal (k_tokens s') tk v - bal (k_tokens s) tk v"
      by (cases h) (simp_all add: stake_obligations_def)
    then have "solvent bal v s'"
      by (intro solvent_stake_change [OF assms(3) ran(1)])
         (use w(1,2) rec h(3) ran(1) tot in \<open>simp_all add: eq s' s3\<close>)
    then show ?thesis using w(10) by (simp add: s' s3)
  qed
  then show "solvent bal v s'" "get_or 0 (k_slash_counter s') \<le> Suc (get_or 0 (k_slash_counter s))" by simp_all
qed

interpretation sla: keeps_invariant "solvent bal v" "slash_stake T e caller p severity reason"
    "\<lambda>s. token_call T bal v e \<and> get_or 0 (k_slash_counter s) < u64_max"
  for T bal v e caller p severity reason
  by unfold_locales (auto simp: token_call_def call_ok_def dest!: slash_stake_Ok(3) intro: slash_solvent(1))

lemma batch_slash_solvent:
  assumes "batch_slash_loop T e reason xs results tot n s = (Ok r, s')" "solvent bal v s" "token_call T bal v e"
    and "get_or 0 (k_slash_counter s) + length xs \<le> u64_max"
  shows "solvent bal v s'"
  using assms
proof (induction T e reason xs results tot n s rule: batch_slash_loop.induct)
  case (2 T e reason p severity rest results tot n s)
  obtain q s1 where d: "do_slash T e p severity reason s = (q, s1)" by fastforce
  have k: "solvent bal v s1" "get_or 0 (k_slash_counter s1) + length rest \<le> u64_max"
    using slash_solvent [OF _ _ 2(4) d] 2(5,6) by (auto simp: token_call_def call_ok_def)
  show ?case
  proof (cases q)
    case (Ok amount)
    then show ?thesis using 2(1) [OF d [symmetric, unfolded Ok] refl] 2(3,5) d k by simp
  next
    case (Err er)
    then show ?thesis using 2(2) [OF d [symmetric, unfolded Err] refl] 2(3,5) d k by simp
  next
    case Panic
    with 2(3) d show ?thesis by simp
  qed
qed simp

interpretation bsl: keeps_invariant "solvent bal v" "batch_slash_stake T e caller ps severities reason"
    "\<lambda>s. token_call T bal v e \<and> get_or 0 (k_slash_counter s) + length ps \<le> u64_max"
  for T bal v e caller ps severities reason
proof
  fix s r s' assume s: "solvent bal v s" "token_call T bal v e \<and> get_or 0 (k_slash_counter s) + length ps \<le> u64_max"
    and "batch_slash_stake T e caller ps severities reason s = (Ok r, s')"
  then obtain res tot n s1 where "batch_slash_loop T e reason (zip ps severities) [] 0 0 s = (Ok (res, tot, n), s1)"
    "s' = emit_batch_slash_completed n tot s1"
    by (auto simp: batch_slash_stake_def Let_def split: if_splits prod.splits outcome.splits sum.splits)
  moreover from this s have "solvent bal v s1" by (auto intro: batch_slash_solvent)
  ultimately show "solvent bal v s'" by (simp add: emit_batch_slash_completed_def emits_only_log)
qed

section \<open>Appeals\<close>

lemma contingent_settled:
  assumes "records_wf s" "smap_get (k_slash_record s) sid = Some r" "k_slash_record s' = k_slash_record s"
    and "\<And>i. i \<noteq> sid \<Longrightarrow> at_stake s' i = at_stake s i" "at_stake s sid" "\<not> at_stake s' sid"
  shows "contingent s' = contingent s - sr_slash_amount r"
proof -
  have ok: "smap_ok (k_slash_record s)" using assms(1) by (simp add: records_wf_def)
  show ?thesis
    unfolding contingent_def assms(3)
    by (subst smap_ktotal_change [OF ok, where k = sid and g = "\<lambda>sid r. if at_stake s sid then sr_slash_amount r else 0"])
       (use assms(2,4-6) in auto)
qed

lemma records_wf_less:
  assumes "records_wf s" "k_slash_record s' = k_slash_record s" "k_slash_counter s' = k_slash_counter s"
    and "\<And>i h. smap_get (k_slashed_funds_held s') i = Some h \<Longrightarrow> smap_get (k_slashed_funds_held s) i = Some h"
    and "\<And>i. smap_get (k_slash_appeal s') i \<noteq> None \<Longrightarrow> smap_get (k_slash_record s) i \<noteq> None"
  shows "records_wf s'"
  using assms unfolding records_wf_def by metis

lemma held_amount:
  assumes "records_wf s" "smap_get (k_slash_record s) sid = Some r"
  shows "get_or 0 (smap_get (k_slashed_funds_held s) sid) \<in> {0, sr_slash_amount r}"
    "smap_get (k_slashed_funds_held s) sid = None \<or> 0 < get_or 0 (smap_get (k_slashed_funds_held s) sid)"
  using assms unfolding records_wf_def by (cases "smap_get (k_slashed_funds_held s) sid"; force)+

lemma held_recorded:
  "records_wf s \<Longrightarrow> smap_get (k_slashed_funds_held s) sid \<noteq> None \<Longrightarrow> smap_get (k_slash_record s) sid \<noteq> None"
  unfolding records_wf_def by (metis not_None_eq)

text \<open>What the three outcomes of a resolution have in common: the slash is settled or stays at stake.\<close>

lemma settled_facts:
  assumes "records_wf s" "smap_get (k_slash_record s) sid = Some sr" "smap_get (k_slash_appeal s) sid = Some ap" "sa_status ap = Pending"
    and "k_slash_record s' = k_slash_record s" "k_slash_counter s' = k_slash_counter s"
    and "\<And>i. smap_get (k_slash_appeal s') i = (if i = sid then Some ap' else smap_get (k_slash_appeal s) i)"
    and "k_slashed_funds_held s' = (if 0 < get_or 0 (smap_get (k_slashed_funds_held s) sid)
          then smap_remove (k_slashed_funds_held s) sid else k_slashed_funds_held s)"
  shows "records_wf s'" "contingent s' = contingent s - (if sa_status ap' = Pending then 0 else sr_slash_amount sr)"
proof -
  note held = held_amount(2) [OF assms(1,2)]
  have gone: "smap_get (k_slashed_funds_held s') i = (if i = sid then None else smap_get (k_slashed_funds_held s) i)" for i
    using held by (auto simp: assms(8))
  show "records_wf s'"
    by (rule records_wf_less [OF assms(1,5,6)])
       (use assms(1,2) in \<open>auto simp: gone assms(7) records_wf_def split: if_splits\<close>)
  have at: "at_stake s sid" "at_stake s' sid = (sa_status ap' = Pending)" "\<And>i. i \<noteq> sid \<Longrightarrow> at_stake s' i = at_stake s i"
    using assms(3,4) by (simp_all add: at_stake_def gone assms(7))
  show "contingent s' = contingent s - (if sa_status ap' = Pending then 0 else sr_slash_amount sr)"
  proof (cases "sa_status ap' = Pending")
    case True
    with at have "at_stake s' i = at_stake s i" for i by (cases "i = sid") simp_all
    with True show ?thesis by (simp add: contingent_def assms(5))
  next
    case False
    with contingent_settled [OF assms(1,2,5) at(3) at(1)] at(2) show ?thesis by simp
  qed
qed

lemma burn_refused_solvent:
  assumes "solvent bal v s" "smap_get (k_slash_record s) sid = Some sr" "smap_get (k_slash_appeal s) sid = Some ap" "sa_status ap = Pending"
    and "0 < get_or 0 (smap_get (k_slashed_funds_held s) sid)"
  shows "solvent bal v (s\<lparr>k_slashed_funds_held := smap_remove (k_slashed_funds_held s) sid\<rparr>)" (is "solvent bal v ?s")
proof -
  have wf: "stakes_wf s" "delegations_wf s" "records_wf s" "totals_wf s" using assms(1) by (simp_all add: solvent_def custody_wf_def)
  have "records_wf ?s" "contingent ?s = contingent s"
    using settled_facts [OF wf(3) assms(2-4), of ?s ap] assms(3-5) by simp_all
  then show ?thesis
    using wf by (intro solvent_no_more [OF assms(1)])
      (simp_all add: stakes_wf_def stakes_def delegations_wf_def stake_obligations_def staked_def delegated_def
        totals_wf_def get_total_delegated_def delegations_def)
qed

lemma upheld_solvent:
  assumes "solvent bal v s" "smap_get (k_slash_record s) sid = Some sr" "smap_get (k_slash_appeal s) sid = Some ap" "sa_status ap = Pending"
    and "k_stake_token (cfg s) = Some tk"
  defines "held \<equiv> get_or 0 (smap_get (k_slashed_funds_held s) sid)"
  assumes "if 0 < held then bal t = token_burnt tk v held (bal (k_tokens s)) else t = k_tokens s"
    and "s' = finish_appeal sid uphold p (ap\<lparr>sa_status := Upheld\<rparr>)
     (if 0 < held then s\<lparr>k_slashed_funds_held := smap_remove (k_slashed_funds_held s) sid, k_tokens := t\<rparr> else s)"
  shows "solvent bal v s'"
proof -
  have wf: "stakes_wf s" "delegations_wf s" "records_wf s" "totals_wf s" using assms(1) by (simp_all add: solvent_def custody_wf_def)
  have st: "stakes s' = stakes s" "delegation_part s' = delegation_part s" "cfg s' = cfg s"
    "rewards s' = rewards s" "k_tokens s' = t" "k_slash_counter s' = k_slash_counter s" "k_slash_record s' = k_slash_record s"
    "k_slash_appeal s' = smap_set (k_slash_appeal s) sid (ap\<lparr>sa_status := Upheld\<rparr>)"
    "k_slashed_funds_held s' = (if 0 < held then smap_remove (k_slashed_funds_held s) sid else k_slashed_funds_held s)"
    unfolding assms(8) using assms(7) by (simp_all add: finish_appeal_def publish_def stakes_def delegation_part_def split: if_splits)
  have rec: "records_wf s'" "contingent s' = contingent s - sr_slash_amount sr"
    using settled_facts [OF wf(3) assms(2-4) st(7,6) _ st(9) [unfolded held_def], of "ap\<lparr>sa_status := Upheld\<rparr>"]
    by (simp_all add: st(8))
  have pos: "0 < sr_slash_amount sr" using wf(3) assms(2) by (simp add: records_wf_def)
  have "held \<le> sr_slash_amount sr" using held_amount(1) [OF wf(3) assms(2)] pos by (auto simp: held_def)
  moreover have "bal t a v = bal (k_tokens s) a v - (if a = tk \<and> 0 < held then held else 0)" for a
    using assms(7) by (auto simp: token_burnt_def split: if_splits)
  ultimately show ?thesis
    using wf rec pos by (intro solvent_stake_change [OF assms(1,5)])
      (simp_all add: st assms(5) delegation_part_D [OF st(2)] stakes_wf_def stake_obligations_def staked_def)
qed

lemma reversed_solvent:
  assumes "solvent bal v s" "smap_get (k_slash_record s) sid = Some sr" "smap_get (k_slash_appeal s) sid = Some ap" "sa_status ap = Pending"
  defines "held \<equiv> get_or 0 (smap_get (k_slashed_funds_held s) sid)"
  assumes "s' = finish_appeal sid uphold (sr_provider sr) (ap\<lparr>sa_status := Reversed\<rparr>)
     (let s1 = credit_restored e (sr_provider sr) (if 0 < held then held else sr_slash_amount sr) s
      in if 0 < held then s1\<lparr>k_slashed_funds_held := smap_remove (k_slashed_funds_held s1) sid\<rparr> else s1)"
  shows "solvent bal v s'"
proof -
  have wf: "stakes_wf s" "delegations_wf s" "records_wf s" "totals_wf s" using assms(1) by (simp_all add: solvent_def custody_wf_def)
  let ?x = "if 0 < held then held else sr_slash_amount sr" and ?p = "sr_provider sr"
  have x: "?x = sr_slash_amount sr" "0 < sr_slash_amount sr"
    using held_amount(1) [OF wf(3) assms(2)] wf(3) assms(2) by (auto simp: held_def records_wf_def)
  define i where "i = \<lparr>si_balance = saturating_add (get_stake ?p s) (sr_slash_amount sr),
     si_locked_until = si_locked_until (get_or empty_stake_info (smap_get (stakes s) ?p)), si_last_updated = ledger_timestamp e\<rparr>"
  have cr: "credit_restored e ?p ?x s = s\<lparr>k_stakes_v2 := Some (smap_set (stakes s) ?p i)\<rparr>"
    unfolding x(1) by (simp add: credit_restored_def Let_def i_def get_stake_def empty_stake_info_def split: option.splits)
  have ok: "amount_ok (si_balance i)" "si_balance i \<le> get_stake ?p s + sr_slash_amount sr"
    using get_stake_ok [OF wf(1), of ?p] x(2)
    by (simp_all add: i_def amount_ok_def saturating_add_nonneg) (auto simp: in_i128_def i128_max_def i128_min_def)
  note stk = stakes_wf_set [OF wf(1) ok(1), of ?p]
  have st: "stakes s' = stakes (s\<lparr>k_stakes_v2 := Some (smap_set (stakes s) ?p i)\<rparr>)"
    "delegation_part s' = delegation_part s" "cfg s' = cfg s"
    "rewards s' = rewards s" "k_tokens s' = k_tokens s" "k_slash_counter s' = k_slash_counter s" "k_slash_record s' = k_slash_record s"
    "k_slash_appeal s' = smap_set (k_slash_appeal s) sid (ap\<lparr>sa_status := Reversed\<rparr>)"
    "k_slashed_funds_held s' = (if 0 < held then smap_remove (k_slashed_funds_held s) sid else k_slashed_funds_held s)"
    unfolding assms(6) cr Let_def by (simp_all add: finish_appeal_def publish_def stakes_def delegation_part_def)
  have rec: "records_wf s'" "contingent s' = contingent s - sr_slash_amount sr"
    using settled_facts [OF wf(3) assms(2-4) st(7,6) _ st(9) [unfolded held_def], of "ap\<lparr>sa_status := Reversed\<rparr>"]
    by (simp_all add: st(8))
  show ?thesis
    using wf rec stk ok(2) by (intro solvent_no_more [OF assms(1)])
      (simp_all add: st delegation_part_D [OF st(2)] stakes_wf_def stake_obligations_def staked_def)
qed

lemma resolve_solvent:
  assumes "sep41 T bal" "current_contract_address e = v" "solvent bal v s" "do_resolve_appeal T e sid uphold s = (r, s')"
  shows "solvent bal v s'"
  using assms(1,4)
proof (cases rule: do_resolve_cases)
  case refused
  with assms(3) show ?thesis by simp
next
  case (burn_refused er sr ap)
  show ?thesis unfolding burn_refused(7) by (rule burn_refused_solvent [OF assms(3) burn_refused(4-6,3)])
next
  case (upheld sr ap tk t)
  show ?thesis by (rule upheld_solvent [where bal = bal, OF assms(3) upheld(3-6) upheld(7) [unfolded assms(2)] upheld(8)])
next
  case (reversed sr ap)
  show ?thesis by (rule reversed_solvent [OF assms(3) reversed(3-6)])
qed

interpretation rap: keeps_invariant "solvent bal v" "resolve_appeal T e sid uphold" "\<lambda>s. token_call T bal v e"
  for T bal v e sid uphold
  by unfold_locales
     (auto simp: resolve_appeal_def token_call_def call_ok_def elim!: with_single_admin_Ok intro: resolve_solvent)

lemma batch_resolve_solvent:
  assumes "batch_resolve_loop T e xs n s = (Ok r, s')" "solvent bal v s" "token_call T bal v e"
  shows "solvent bal v s'"
  using assms
proof (induction T e xs n s rule: batch_resolve_loop.induct)
  case (2 T e sid uphold rest n s)
  obtain q s1 where d: "do_resolve_appeal T e sid uphold s = (q, s1)" by fastforce
  have k: "solvent bal v s1"
    using resolve_solvent [OF _ _ 2(4) d] 2(5) by (auto simp: token_call_def call_ok_def)
  show ?case
  proof (cases q)
    case (Ok u)
    then show ?thesis using 2(1) [OF d [symmetric, unfolded Ok] refl] 2(3,5) d k by simp
  next
    case (Err er)
    then show ?thesis using 2(2) [OF d [symmetric, unfolded Err] refl] 2(3,5) d k by simp
  next
    case Panic
    with 2(3) d show ?thesis by simp
  qed
qed simp

interpretation bra: keeps_invariant "solvent bal v" "batch_resolve_appeal T e sids upholds" "\<lambda>s. token_call T bal v e"
  for T bal v e sids upholds
proof
  fix s r s' assume s: "solvent bal v s" "token_call T bal v e" and "batch_resolve_appeal T e sids upholds s = (Ok r, s')"
  then obtain n s1 where "batch_resolve_loop T e (zip sids upholds) 0 s = (Ok n, s1)" "s' = emit_batch_appeals_resolved n s1"
    by (auto simp: batch_resolve_appeal_def Let_def elim!: with_admin_Ok split: if_splits prod.splits outcome.splits)
  moreover from this s have "solvent bal v s1" by (auto intro: batch_resolve_solvent)
  ultimately show "solvent bal v s'" by (simp add: emit_batch_appeals_resolved_def emits_only_log)
qed

text \<open>Only slashes whose funds are held may be appealed.\<close>

interpretation aps: keeps_invariant "solvent bal v" "appeal_slash e appellant sid uri" "\<lambda>s. smap_has (k_slashed_funds_held s) sid"
  for bal v e appellant sid uri
proof
  fix s r s' assume s: "solvent bal v s" "smap_has (k_slashed_funds_held s) sid" and run: "appeal_slash e appellant sid uri s = (Ok r, s')"
  have wf: "stakes_wf s" "delegations_wf s" "records_wf s" "totals_wf s" using s(1) by (simp_all add: solvent_def custody_wf_def)
  have s': "s' = s\<lparr>k_slash_appeal := k_slash_appeal s', event_log := event_log s'\<rparr>"
    and ap: "k_slash_appeal s' = smap_set (k_slash_appeal s) sid
        \<lparr>sa_slash_id = sid, sa_appellant = appellant, sa_evidence_uri = uri, sa_submitted_at = ledger_timestamp e, sa_status = Pending\<rparr>"
    using run by (auto simp: appeal_slash_def emit_slash_appealed_def emits_only_log Let_def split: if_splits option.splits)
  have fld: "stakes s' = stakes s" "delegation_part s' = delegation_part s" "cfg s' = cfg s"
    "rewards s' = rewards s" "k_tokens s' = k_tokens s" "k_slash_counter s' = k_slash_counter s" "k_slash_record s' = k_slash_record s"
    "k_slashed_funds_held s' = k_slashed_funds_held s"
    by (subst s', simp add: stakes_def delegation_part_def)+
  have held: "smap_get (k_slashed_funds_held s) sid \<noteq> None" using s(2) by (simp add: smap_has_def)
  have "at_stake s' i = at_stake s i" for i
    using held by (cases "i = sid") (simp_all add: at_stake_def fld(8) ap)
  then have "contingent s' = contingent s" by (simp add: contingent_def fld(7))
  moreover have "records_wf s'"
    by (rule records_wf_less [OF wf(3) fld(7,6)])
       (use wf(3) held_recorded [OF wf(3) held] in \<open>auto simp: fld(8) ap records_wf_def split: if_splits\<close>)
  ultimately show "solvent bal v s'"
    using wf by (intro solvent_no_more [OF s(1)])
      (simp_all add: fld delegation_part_D [OF fld(2)] stakes_wf_def stake_obligations_def staked_def)
qed

section \<open>Multi-sig actions\<close>

lemma custody_part_cfg [simp]:
  "k_stake_token c = k_stake_token (cfg s) \<Longrightarrow> custody_part (s\<lparr>cfg := c\<rparr>) = custody_part s"
  "custody_part (set_paused s b) = custody_part s" "custody_part (s\<lparr>k_ms_proposals := ps\<rparr>) = custody_part s"
  "custody_part (s\<lparr>k_ms_next_id := n\<rparr>) = custody_part s" "custody_part (s\<lparr>k_ms_config := mc\<rparr>) = custody_part s"
  "custody_part (s\<lparr>k_contract_version := cv\<rparr>) = custody_part s" "custody_part (s\<lparr>strategies := st\<rparr>) = custody_part s"
  "custody_part (s\<lparr>k_stake_below_min_since := bm\<rparr>) = custody_part s"
  "custody_part (s\<lparr>k_large_withdrawal_requested_at := lw\<rparr>) = custody_part s"
  by (simp_all add: custody_part_def frame_def delegation_part_def set_paused_def publish_def)

lemma dispatch_solvent:
  assumes "dispatch_action T e tag pl s = (Ok u, s')" "solvent bal v s" "token_call T bal v e"
  shows "solvent bal v s'"
proof (cases "tag = action_RESOLVE_APPEAL")
  case True
  with assms show ?thesis
    by (auto simp: dispatch_action_def action_defs token_call_def call_ok_def intro: resolve_solvent)
next
  case False
  with assms(1) have "custody_part s' = custody_part s"
    by (auto simp: dispatch_action_def do_pause_def do_unpause_def Let_def split: if_splits sum.splits)
  with assms(2) show ?thesis using custody_part_D by blast
qed

interpretation exa: keeps_invariant "solvent bal v" "execute_action T e caller pid" "\<lambda>s. token_call T bal v e"
  for T bal v e caller pid
proof
  fix s u s' assume s: "solvent bal v s" "token_call T bal v e" and "execute_action T e caller pid s = (Ok u, s')"
  from this(3) show "solvent bal v s'"
  proof (cases rule: execute_action_Ok)
    case (1 p tag rest s1)
    from 1(6) have "custody_part s' = custody_part s1"
      by (auto simp: ms_mark_executed_def split: sum.splits if_splits)
    with dispatch_solvent [OF 1(5) s] show ?thesis using custody_part_D by blast
  qed
qed

section \<open>Rewards\<close>

interpretation drw: keeps_invariant "solvent bal v" "deposit_reward T e d p asset x epoch"
    "\<lambda>s. token_call T bal v e \<and> get_or 0 (rk_bucket_counter (rewards s)) < u64_max"
  for T bal v e d p asset x epoch
proof
  fix s bid s' assume s: "solvent bal v s" "token_call T bal v e \<and> get_or 0 (rk_bucket_counter (rewards s)) < u64_max"
    and run: "deposit_reward T e d p asset x epoch s = (Ok bid, s')"
  then have sep: "sep41 T bal" "current_contract_address e = v" by (auto simp: token_call_def call_ok_def)
  have rw: "rewards_wf (rewards s)" using s(1) by (simp add: solvent_def custody_wf_def)
  note spec = deposit_reward_spec [OF sep(1) run rw conjunct2 [OF s(2)]]
  from sep(1) run show "solvent bal v s'"
  proof (cases rule: deposit_reward_Ok)
    case (1 t log)
    have ne: "d \<noteq> v" using 1(1) s(2) by (auto simp: token_call_def call_ok_def)
    have t: "s' = s\<lparr>rewards := rewards s', k_tokens := t, event_log := log\<rparr>" "k_tokens s' = t"
      by (simp_all add: 1(6))
    show ?thesis
      by (rule solvent_reward_change [OF s(1) t(1) spec(1)])
         (use ne in \<open>simp add: spec(2) spec(3) [unfolded t(2)] token_moved_def rewards_owed_def sep(2)\<close>)
  qed
qed

interpretation clm: keeps_invariant "solvent bal v" "batch_claim_rewards T e p bids"
    "\<lambda>s. token_call T bal v e \<and> (\<forall>a. bal (k_tokens s) a v \<le> i128_max)"
  for T bal v e p bids
proof
  fix s rs s' assume s: "solvent bal v s" "token_call T bal v e \<and> (\<forall>a. bal (k_tokens s) a v \<le> i128_max)"
    and run: "batch_claim_rewards T e p bids s = (Ok rs, s')"
  then have sep: "sep41 T bal" "current_contract_address e = v" "p \<noteq> current_contract_address e"
    by (auto simp: token_call_def call_ok_def elim!: batch_claim_Ok)
  have wf: "custody_wf s" using s(1) by (simp add: solvent_def)
  then have rw: "rewards_wf (rewards s)" by (simp add: custody_wf_def)
  have ow: "rewards_owed a s \<le> i128_max" for a
    using liabilities_rewards [OF wf, of a] s unfolding solvent_def by (meson order_trans)
  note spec = batch_claim_rewards_spec [OF sep(1) run rw ow sep(3)]
  have t: "s' = s\<lparr>rewards := rewards s', k_tokens := k_tokens s', event_log := event_log s'\<rparr>"
    by (subst spec(1)) simp
  show "solvent bal v s'"
    by (rule solvent_reward_change [OF s(1) t spec(2)])
       (use sep(2,3) in \<open>simp add: spec(4) rewards_owed_def [symmetric]\<close>)
qed

end
