(* ===== verification/Vault_Solvency.thy ===== *)
theory Vault_Solvency
  imports Vault_Custody
begin

text \<open>
  The contract as a whole: every state-changing entry point of \<^verbatim>\<open>stake_vault/src/lib.rs\<close> as a call, the
  states reachable from the deployment by calls in any order, and the solvency of all of them.
\<close>

section \<open>Calls\<close>

text \<open>Entry points that touch neither positions nor tokens.\<close>

datatype config_call =
    Upgrade nat | Pause | Unpause | Set_Governance address address | Apply_Governance_Pause bool
  | Set_Lock_Multiplier_Tier nat nat | Set_Minimum_Stake_Duration nat | Set_Minimum_Stake int
  | Set_Multisig_Config address "multisig_config option" | Check_Signal_Submission_Allowed address
  | Set_Withdrawal_Cooldown nat | Request_Withdrawal address | Configure_Slash_Tiers nat nat nat
  | Governance_Configure_Slash_Tiers address nat nat nat | Set_Slash_Cooldown nat | Set_Appeal_Window nat
  | Configure_Emergency_Multisig address "address list" nat nat nat | Set_Emergency_Cooldown address nat
  | Request_Emergency_Unstake address | Expire_Emergency_Request address | Set_Max_Unstake_Queue_Size nat
  | Set_Slash_Strategy symbol nat nat nat nat nat | Upgrade_With_Migration_Guard nat nat "symbol list"

fun run_config :: "env \<Rightarrow> config_call \<Rightarrow> 't vault \<Rightarrow> ('t, unit) vault_result" where
  "run_config e (Upgrade n) = upgrade e n"
| "run_config e Pause = pause e"
| "run_config e Unpause = unpause e"
| "run_config e (Set_Governance a g) = set_governance e a g"
| "run_config e (Apply_Governance_Pause b) = apply_governance_pause e b"
| "run_config e (Set_Lock_Multiplier_Tier w b) = set_lock_multiplier_tier e w b"
| "run_config e (Set_Minimum_Stake_Duration d) = set_minimum_stake_duration e d"
| "run_config e (Set_Minimum_Stake m) = set_minimum_stake e m"
| "run_config e (Set_Multisig_Config a c) = set_multisig_config e a c"
| "run_config e (Check_Signal_Submission_Allowed p) = check_signal_submission_allowed e p"
| "run_config e (Set_Withdrawal_Cooldown c) = set_withdrawal_cooldown e c"
| "run_config e (Request_Withdrawal a) = request_withdrawal e a"
| "run_config e (Configure_Slash_Tiers a b c) = configure_slash_tiers e a b c"
| "run_config e (Governance_Configure_Slash_Tiers g a b c) = governance_configure_slash_tiers e g a b c"
| "run_config e (Set_Slash_Cooldown n) = set_slash_cooldown e n"
| "run_config e (Set_Appeal_Window w) = set_appeal_window e w"
| "run_config e (Configure_Emergency_Multisig a as n p t) = configure_emergency_multisig e a as n p t"
| "run_config e (Set_Emergency_Cooldown a n) = set_emergency_cooldown e a n"
| "run_config e (Request_Emergency_Unstake a) = request_emergency_unstake e a"
| "run_config e (Expire_Emergency_Request a) = expire_emergency_request e a"
| "run_config e (Set_Max_Unstake_Queue_Size n) = set_max_unstake_queue_size e n"
| "run_config e (Set_Slash_Strategy n a b c r p) = set_slash_strategy e n a b c r p"
| "run_config e (Upgrade_With_Migration_Guard n l ks) = upgrade_with_migration_guard e n l ks"

lemma custody_part_shared [simp]:
  "custody_part (set_contract_version s n) = custody_part s"
  "custody_part (emit_contract_upgraded s a b) = custody_part s"
  by (simp_all add: set_contract_version_def emit_contract_upgraded_def)

lemmas config_defs =
  upgrade_def pause_def unpause_def set_governance_def apply_governance_pause_def set_lock_multiplier_tier_def
  set_minimum_stake_duration_def set_minimum_stake_def set_multisig_config_def check_signal_submission_allowed_def
  set_withdrawal_cooldown_def request_withdrawal_def configure_slash_tiers_def governance_configure_slash_tiers_def
  set_slash_tiers_def set_slash_cooldown_def set_appeal_window_def configure_emergency_multisig_def
  set_emergency_cooldown_def request_emergency_unstake_def expire_emergency_request_def save_request_def
  remove_request_def set_max_unstake_queue_size_def set_slash_strategy_def st_set_slash_strategy_def
  upgrade_with_migration_guard_def guard_storage_upgrade_def ms_set_config_def

lemmas config_emits =
  emit_lock_multiplier_tier_updated_def emit_min_stake_duration_updated_def emit_withdrawal_cooldown_updated_def
  emit_slash_cooldown_updated_def emit_appeal_window_updated_def emit_slash_tiers_updated_def
  emit_emergency_configured_def emit_emergency_requested_def emit_emergency_expired_def emit_withdrawal_requested_def

lemma config_custody: "run_config e c s = (Ok u, s') \<Longrightarrow> custody_part s' = custody_part s"
  by (cases c)
     (auto simp: config_defs config_emits emits_only_log Let_def
       elim!: with_admin_Ok with_single_admin_Ok split: if_splits option.splits sum.splits prod.splits outcome.splits)

text \<open>All state-changing entry points; results are dropped.\<close>

datatype vault_call =
    Config config_call | Propose_Action address "8 word list" | Approve_Action address nat | Execute_Action address nat
  | Notify_Stake_Below_Minimum address | Health_Check address string | Queue_Unstake address | Process_Unstake_Queue nat
  | Deposit_Stake address int | Withdraw_Stake address | Partial_Unstake address int
  | Slash_Stake address address slash_severity symbol
  | Batch_Slash_Stake address "address list" "slash_severity list" symbol
  | Appeal_Slash address nat string | Resolve_Appeal nat bool | Batch_Resolve_Appeal "nat list" "bool list"
  | Approve_Emergency_Unstake address address | Delegate_Stake address address int
  | Add_Reward_Asset address | Deposit_Reward address address address int nat | Batch_Claim_Rewards address "nat list"

fun run_call :: "'t token_impl \<Rightarrow> env \<Rightarrow> vault_call \<Rightarrow> 't vault \<Rightarrow> ('t, unit) vault_result" where
  "run_call T e (Config c) s = run_config e c s"
| "run_call T e (Propose_Action a pl) s = void (propose_action e a pl s)"
| "run_call T e (Approve_Action a pid) s = void (approve_action e a pid s)"
| "run_call T e (Execute_Action a pid) s = execute_action T e a pid s"
| "run_call T e (Notify_Stake_Below_Minimum p) s = (Ok (), notify_stake_below_minimum e p s)"
| "run_call T e (Health_Check a ver) s = (Ok (), snd (health_check e a ver s))"
| "run_call T e (Queue_Unstake a) s = void (queue_unstake e a s)"
| "run_call T e (Process_Unstake_Queue n) s = void (process_unstake_queue T e n s)"
| "run_call T e (Deposit_Stake a x) s = deposit_stake T e a x s"
| "run_call T e (Withdraw_Stake a) s = void (withdraw_stake T e a s)"
| "run_call T e (Partial_Unstake a x) s = void (partial_unstake T e a x s)"
| "run_call T e (Slash_Stake c p sv re) s = void (slash_stake T e c p sv re s)"
| "run_call T e (Batch_Slash_Stake c ps svs re) s = void (batch_slash_stake T e c ps svs re s)"
| "run_call T e (Appeal_Slash a sid uri) s = appeal_slash e a sid uri s"
| "run_call T e (Resolve_Appeal sid u) s = resolve_appeal T e sid u s"
| "run_call T e (Batch_Resolve_Appeal sids us) s = void (batch_resolve_appeal T e sids us s)"
| "run_call T e (Approve_Emergency_Unstake a b) s = approve_emergency_unstake T e a b s"
| "run_call T e (Delegate_Stake d p x) s = delegate_stake T e d p x s"
| "run_call T e (Add_Reward_Asset a) s = add_reward_asset e a s"
| "run_call T e (Deposit_Reward d p a x n) s = void (deposit_reward T e d p a x n s)"
| "run_call T e (Batch_Claim_Rewards p bids) s = void (batch_claim_rewards T e p bids s)"

text \<open>
  The conditions under which a call is considered: token amounts of the vault fit their type, the
  64-bit counters are not exhausted, and an appealed slash is one whose funds are held.
\<close>

definition admissible :: "('t \<Rightarrow> address \<Rightarrow> address \<Rightarrow> int) \<Rightarrow> address \<Rightarrow> vault_call \<Rightarrow> 't vault \<Rightarrow> bool" where
  "admissible bal v c s \<longleftrightarrow>
     (case c of
        Slash_Stake _ _ _ _ \<Rightarrow> get_or 0 (k_slash_counter s) < u64_max
      | Batch_Slash_Stake _ ps _ _ \<Rightarrow> get_or 0 (k_slash_counter s) + length ps \<le> u64_max
      | Appeal_Slash _ sid _ \<Rightarrow> smap_has (k_slashed_funds_held s) sid
      | Deposit_Reward _ _ _ _ _ \<Rightarrow> get_or 0 (rk_bucket_counter (rewards s)) < u64_max
      | Batch_Claim_Rewards _ _ \<Rightarrow> \<forall>a. bal (k_tokens s) a v \<le> i128_max
      | _ \<Rightarrow> True)"

lemma quiet_calls:
  "propose_action e a pl s = (Ok n, s') \<Longrightarrow> custody_part s' = custody_part s"
  "approve_action e a pid s = (Ok n, s') \<Longrightarrow> custody_part s' = custody_part s"
  "queue_unstake e a s = (Ok n, s') \<Longrightarrow> custody_part s' = custody_part s"
  "custody_part (notify_stake_below_minimum e a s) = custody_part s"
  "custody_part (snd (health_check e a ver s)) = custody_part s"
  by (auto simp: propose_action_def approve_action_def queue_unstake_def notify_stake_below_minimum_def health_check_def
      ms_propose_def ms_approve_def ms_get_next_id_def emit_health_event_def emit_stake_below_min_def emit_unstake_queued_def
      emits_only_log Let_def split: if_splits option.splits sum.splits prod.splits outcome.splits)

interpretation cfgs: keeps_part custody_part "solvent bal v" "run_config e c" for bal v e c
  by unfold_locales (auto dest: config_custody custody_part_D)

interpretation ppa: keeps_part custody_part "solvent bal v" "propose_action e a pl" for bal v e a pl
  by unfold_locales (auto dest: quiet_calls(1) custody_part_D)

interpretation appr: keeps_part custody_part "solvent bal v" "approve_action e a pid" for bal v e a pid
  by unfold_locales (auto dest: quiet_calls(2) custody_part_D)

interpretation quns: keeps_part custody_part "solvent bal v" "queue_unstake e a" for bal v e a
  by unfold_locales (auto dest: quiet_calls(3) custody_part_D)

interpretation ara: keeps_invariant "solvent bal v" "add_reward_asset e asset" "\<lambda>_. True" for bal v e asset
proof
  fix s u s' assume s: "solvent bal v s" and "add_reward_asset e asset s = (Ok u, s')"
  from this(2) have eq: "s' = s\<lparr>rewards := rewards s', k_tokens := k_tokens s, event_log := event_log s'\<rparr>"
    "rk_bucket (rewards s') = rk_bucket (rewards s)" "rk_claimed (rewards s') = rk_claimed (rewards s)"
    "rk_bucket_counter (rewards s') = rk_bucket_counter (rewards s)"
    by (auto simp: add_reward_asset_def add_supported_asset_def publish_def elim!: with_admin_Ok)
  have "rewards_wf (rewards s')"
    using s by (simp add: solvent_def custody_wf_def rewards_wf_def eq(2-4))
  then show "solvent bal v s'"
    by (rule solvent_reward_change [OF s eq(1)]) (simp add: rewards_owed_def owed_def eq(2,3))
qed

lemmas call_keeps =
  cfgs.keeps [rotated 2] ppa.keeps [rotated 2] appr.keeps [rotated 2] quns.keeps [rotated 2] ara.keeps [rotated 2]
  exa.keeps [rotated 2] puq.keeps [rotated 2] dep.keeps [rotated 2] wdr.keeps [rotated 2] pun.keeps [rotated 2]
  sla.keeps [rotated 2] bsl.keeps [rotated 2] aps.keeps [rotated 2] rap.keeps [rotated 2] bra.keeps [rotated 2]
  aem.keeps [rotated 2] del.keeps [rotated 2] drw.keeps [rotated 2] clm.keeps [rotated 2]

lemma call_solvent:
  assumes "solvent bal v s" "token_call T bal v e" "admissible bal v c s" "run_call T e c s = (Ok u, s')"
  shows "solvent bal v s'"
proof (cases c)
  case (Notify_Stake_Below_Minimum p)
  with assms custody_part_D [OF quiet_calls(4), of bal v e p s] show ?thesis by auto
next
  case (Health_Check a ver)
  with assms custody_part_D [OF quiet_calls(5), of bal v e a ver s] show ?thesis by auto
qed (use assms in \<open>simp_all add: admissible_def\<close>, ((drule void_Ok, erule exE)?, erule call_keeps; simp)+)

section \<open>Reachable states\<close>

text \<open>
  A deployed and initialised vault, calls in any order (a failed call is rolled back), and token
  movements outside the contract, which never take tokens from the vault.
\<close>

inductive vault_reach :: "'t token_impl \<Rightarrow> ('t \<Rightarrow> address \<Rightarrow> address \<Rightarrow> int) \<Rightarrow> address \<Rightarrow> 't vault \<Rightarrow> bool"
  for T bal v where
  deployed: "vault_reach T bal v s" if "initialize admin tk registry (empty_vault t) = (Ok (), s)" "\<And>a. 0 \<le> bal t a v"
| called: "vault_reach T bal v (snd (invoke (run_call T e c) s))"
    if "vault_reach T bal v s" "call_ok v e" "admissible bal v c s"
| external: "vault_reach T bal v (s\<lparr>k_tokens := t\<rparr>)"
    if "vault_reach T bal v s" "\<And>a. bal (k_tokens s) a v \<le> bal t a v"

lemma solvent_external:
  assumes "solvent bal v s" "\<And>a. bal (k_tokens s) a v \<le> bal t a v"
  shows "solvent bal v (s\<lparr>k_tokens := t\<rparr>)"
proof -
  have "solvent bal v (s\<lparr>rewards := rewards s, k_tokens := t, event_log := event_log s\<rparr>)"
    by (rule solvent_reward_change [OF assms(1) refl])
       (use assms in \<open>simp_all add: solvent_def custody_wf_def rewards_owed_def\<close>)
  then show ?thesis by simp
qed

lemma solvent_deployed:
  assumes "initialize admin tk registry (empty_vault t) = (Ok (), s)" "\<And>a. 0 \<le> bal t a v"
  shows "solvent bal v s"
proof -
  have "k_stakes_v2 s = None" "k_provider_delegated_stakes s = []" "k_slash_record s = []" "k_slash_appeal s = []"
    "k_slashed_funds_held s = []" "rewards s = empty_rewards" "k_tokens s = t" "k_provider_total_delegated s = []"
    using assms(1) by (auto simp: initialize_def empty_vault_def init_storage_version_def host_defs Let_def)
  then show ?thesis
    using assms(2) by (simp add: solvent_def custody_wf_def stakes_wf_def stakes_def delegations_wf_def records_wf_def
      rewards_wf_def empty_rewards_def liabilities_def rewards_owed_def owed_def stake_obligations_def staked_def
      delegated_def contingent_def smap_has_def
      totals_wf_def get_total_delegated_def delegations_def)
qed

lemma reach_solvent:
  assumes "vault_reach T bal v s" "sep41 T bal" shows "solvent bal v s"
  using assms(1)
proof (induction rule: vault_reach.induct)
  case (deployed admin tk registry t s)
  then show ?case by (rule solvent_deployed)
next
  case (called s e c)
  have "token_call T bal v e" using called assms(2) by (simp add: token_call_def)
  with called show ?case
    by (rule_tac invoke_cases [of "run_call T e c" s]) (auto dest: call_solvent)
next
  case (external s t)
  then show ?case by (intro solvent_external)
qed

section \<open>Properties\<close>

text \<open>A run for the witnesses: account 3 deposits 700, account 5 delegates 40 to it.\<close>

definition sample_funded :: "balance_ledger vault" where
  "sample_funded = snd (invoke (run_call asset_contract (sample_env 100 5) (Deposit_Stake (Addr 3) 700)) sample_vault)"

definition sample_backed :: "balance_ledger vault" where
  "sample_backed = snd (invoke (run_call asset_contract (sample_env 110 6) (Delegate_Stake (Addr 5) (Addr 3) 40)) sample_funded)"

lemma sample_call_ok: "call_ok (Addr 0) (sample_env t n)"
  by (simp add: call_ok_def sample_env_def)

lemma sample_reach: "vault_reach asset_contract (\<lambda>t. t) (Addr 0) sample_backed"
proof -
  have "initialize (Addr 1) (Addr 9) (Addr 2) (empty_vault sample_ledger) = (Ok (), sample_vault)"
    unfolding sample_vault_def by (rule run_ok) (simp add: initialize_def empty_vault_def host_defs Let_def)
  then have "vault_reach asset_contract (\<lambda>t. t) (Addr 0) sample_vault"
    by (rule vault_reach.deployed) (simp add: sample_ledger_def)
  then have "vault_reach asset_contract (\<lambda>t. t) (Addr 0) sample_funded"
    unfolding sample_funded_def by (rule vault_reach.called [OF _ sample_call_ok]) (simp add: admissible_def)
  then show ?thesis
    unfolding sample_backed_def by (rule vault_reach.called [OF _ sample_call_ok]) (simp add: admissible_def)
qed

lemma sample_backed_facts:
  "k_stake_token (cfg sample_backed) = Some (Addr 9)" "staked sample_backed = 700" "delegated sample_backed = 40"
  "k_tokens sample_backed (Addr 9) (Addr 0) = 740" "get_stake (Addr 3) sample_backed = 700"
  "get_total_delegated (Addr 3) sample_backed = 40"
  by (simp_all add: sample_backed_def sample_funded_def invoke_def deposit_stake_def delegate_stake_def transfer_tokens_def
      emit_tier_change_log emit_stake_delegated_def emits_only_log deposit_locked_until_def get_minimum_stake_duration_def
      get_delegated_stake_def delegations_def get_total_delegated_def staked_def delegated_def smap_total_def stakes_def
      get_stake_def token_moved_def sat_add_u64_def u64_max_def tier_log_def tier_defs sample_defs)





text \<open>
  The cached total that a provider's delegators have staked is exact in every reachable state: it
  is the sum of the individual delegations and never saturates.
\<close>

theorem delegation_totals_exact:
  assumes "sep41 T bal" and "vault_reach T bal v s"
  shows "get_total_delegated p s = smap_total (\<lambda>x. x) (delegations p s) \<and>
    get_delegated_stake d p s \<le> get_total_delegated p s \<and> in_i128 (get_total_delegated p s)"
proof -
  have wf: "custody_wf s" using reach_solvent [OF assms(2,1)] by (simp add: solvent_def)
  then have tot: "get_total_delegated p s = smap_total (\<lambda>x. x) (delegations p s)" "in_i128 (smap_total (\<lambda>x. x) (delegations p s))"
    by (simp_all add: custody_wf_def totals_wf_def)
  have "smap_all amount_ok (delegations p s)" using wf delegations_ok by (auto simp: custody_wf_def)
  then have "get_delegated_stake d p s \<le> smap_total (\<lambda>x. x) (delegations p s)"
    unfolding get_delegated_stake_def
    by (cases "smap_get (delegations p s) d")
       (auto simp: amount_ok_def smap_all_def list_all_iff intro!: smap_total_nonneg smap_entry_le_total [where f = "\<lambda>x. x", simplified])
  with tot show ?thesis by simp
qed

theorem delegation_totals_exact_witness: "get_delegated_stake (Addr 5) (Addr 3) sample_backed \<le> 40"
  using delegation_totals_exact [OF asset_contract_sep41 sample_reach, of "Addr 3" "Addr 5"] sample_backed_facts(6) by simp

end
