(* ===== verification/Kani_Model.thy ===== *)
theory Kani_Model
  imports Vault_Custody
begin

text \<open>
  \<^verbatim>\<open>stake_vault_kani/src/lib.rs\<close>: the arithmetic model of the vault that the repository checks with
  Kani for bounded sequences. \<open>None\<close> stands for a panic of the plain arithmetic. The theory proves the
  model's invariant for sequences of every length and shows that the contract simulates the model on
  the part of its behaviour the model describes: no delegations and no appeal window.
\<close>

definition N_STAKERS :: nat where
  "N_STAKERS = 3"

record vault_model =
  vm_balances :: "int list"
  vm_vault_total :: int

definition vault_model_new :: vault_model where
  "vault_model_new = \<lparr>vm_balances = replicate N_STAKERS 0, vm_vault_total = 0\<rparr>"

fun checked_sum :: "int list \<Rightarrow> int \<Rightarrow> int option" where
  "checked_sum [] acc = Some acc"
| "checked_sum (b # bs) acc = (case checked_add acc b of None \<Rightarrow> None | Some a \<Rightarrow> checked_sum bs a)"

definition invariant_holds :: "vault_model \<Rightarrow> bool" where
  "invariant_holds m =
     (case checked_sum (vm_balances m) 0 of None \<Rightarrow> False | Some t \<Rightarrow> t = vm_vault_total m)"

definition vm_deposit :: "nat \<Rightarrow> int \<Rightarrow> vault_model \<Rightarrow> (bool \<times> vault_model) option" where
  "vm_deposit idx amount m =
     (if amount \<le> 0 \<or> idx \<ge> N_STAKERS then Some (False, m)
      else (case checked_add (vm_balances m ! idx) amount of
         None \<Rightarrow> Some (False, m)
       | Some new_bal \<Rightarrow>
      (case checked_add (vm_vault_total m) amount of
         None \<Rightarrow> Some (False, m)
       | Some new_total \<Rightarrow>
           Some (True, m\<lparr>vm_balances := (vm_balances m)[idx := new_bal], vm_vault_total := new_total\<rparr>))))"

definition vm_withdraw :: "nat \<Rightarrow> vault_model \<Rightarrow> (bool \<times> vault_model) option" where
  "vm_withdraw idx m =
     (if idx \<ge> N_STAKERS then Some (False, m)
      else let balance = vm_balances m ! idx
      in if balance = 0 then Some (False, m)
         else (case checked_sub (vm_vault_total m) balance of
                 None \<Rightarrow> None
               | Some t \<Rightarrow> Some (True, m\<lparr>vm_balances := (vm_balances m)[idx := 0], vm_vault_total := t\<rparr>)))"

definition vm_slash :: "nat \<Rightarrow> int \<Rightarrow> vault_model \<Rightarrow> (bool \<times> vault_model) option" where
  "vm_slash idx bps_arg m =
     (if idx \<ge> N_STAKERS then Some (False, m)
      else let balance = vm_balances m ! idx
      in if balance = 0 then Some (False, m)
         else let bps = max 0 (min BPS_DENOMINATOR bps_arg)
         in (case checked_mul balance bps of
               None \<Rightarrow> None
             | Some scaled \<Rightarrow>
                 let slash_amount = min (max (tdiv scaled BPS_DENOMINATOR) 1) balance
                 in (case checked_sub balance slash_amount of
                       None \<Rightarrow> None
                     | Some b \<Rightarrow>
                 (case checked_sub (vm_vault_total m) slash_amount of
                       None \<Rightarrow> None
                     | Some t \<Rightarrow>
                 Some (True, m\<lparr>vm_balances := (vm_balances m)[idx := b], vm_vault_total := t\<rparr>)))))"

section \<open>Runs of the model\<close>

datatype vm_op = VmDeposit nat int | VmWithdraw nat | VmSlash nat int

fun vm_apply :: "vm_op \<Rightarrow> vault_model \<Rightarrow> (bool \<times> vault_model) option" where
  "vm_apply (VmDeposit i amount) m = vm_deposit i amount m"
| "vm_apply (VmWithdraw i) m = vm_withdraw i m"
| "vm_apply (VmSlash i bps) m = vm_slash i bps m"

inductive vm_run :: "vault_model \<Rightarrow> vm_op list \<Rightarrow> vault_model \<Rightarrow> bool" where
  vm_start: "vm_run m [] m"
| vm_next: "vm_run m ops m1 \<Longrightarrow> vm_apply oper m1 = Some (r, m2) \<Longrightarrow> vm_run m (ops @ [oper]) m2"

definition vm_ok :: "vault_model \<Rightarrow> bool" where
  "vm_ok m \<longleftrightarrow> length (vm_balances m) = N_STAKERS \<and> list_all (\<lambda>b. 0 \<le> b) (vm_balances m) \<and>
     sum_list (vm_balances m) = vm_vault_total m \<and> vm_vault_total m \<le> i128_max"

lemma checked_sum_nonneg:
  "\<lbrakk>list_all (\<lambda>b. 0 \<le> b) bs; 0 \<le> acc; acc + sum_list bs \<le> i128_max\<rbrakk> \<Longrightarrow> checked_sum bs acc = Some (acc + sum_list bs)"
proof (induction bs arbitrary: acc)
  case (Cons b bs)
  moreover have "0 \<le> sum_list bs"
    using Cons.prems(1) by (intro sum_list_nonneg) (auto simp: list_all_iff)
  moreover have "in_i128 (acc + b)"
    using Cons.prems calculation(5) by (simp add: in_i128_def i128_min_def)
  ultimately show ?case by (simp add: checked_add_def checked_i128_def add.assoc)
qed simp

lemma vm_ok_invariant: "vm_ok m \<Longrightarrow> invariant_holds m"
  by (simp add: vm_ok_def invariant_holds_def checked_sum_nonneg)

lemma vm_ok_entry:
  assumes "vm_ok m" "i < N_STAKERS"
  shows "0 \<le> vm_balances m ! i" "vm_balances m ! i \<le> vm_vault_total m" "in_i128 (vm_vault_total m - vm_balances m ! i)"
proof -
  show "0 \<le> vm_balances m ! i" using assms by (simp add: vm_ok_def list_all_length)
  have "vm_balances m ! i \<le> sum_list (vm_balances m)"
    using assms by (intro member_le_sum_list) (auto simp: vm_ok_def list_all_iff)
  then show "vm_balances m ! i \<le> vm_vault_total m" using assms by (simp add: vm_ok_def)
  with \<open>0 \<le> vm_balances m ! i\<close> assms show "in_i128 (vm_vault_total m - vm_balances m ! i)"
    by (simp add: vm_ok_def in_i128_def i128_min_def)
qed

lemma sum_list_update_int: "i < length bs \<Longrightarrow> sum_list (bs[i := b]) = sum_list bs + b - (bs ! i :: int)"
  by (induction bs arbitrary: i) (auto split: nat.splits)

lemma vm_ok_update:
  assumes "vm_ok m" "i < N_STAKERS" "0 \<le> b" "vm_vault_total m + b - vm_balances m ! i \<le> i128_max"
  shows "vm_ok (m\<lparr>vm_balances := (vm_balances m)[i := b], vm_vault_total := vm_vault_total m + b - vm_balances m ! i\<rparr>)"
  using assms by (auto simp: vm_ok_def sum_list_update_int list_all_length nth_list_update)

lemma vm_slash_part:
  assumes "0 < balance" "0 \<le> bps" "bps \<le> 10000"
  shows "min (max (tdiv (balance * bps) BPS_DENOMINATOR) 1) balance \<in> {1..balance}"
  using assms by auto

lemma vm_apply_ok:
  assumes "vm_ok m" "vm_apply oper m = Some (r, m')" shows "vm_ok m'"
proof (cases oper)
  case (VmDeposit i amount)
  with assms show ?thesis
    using vm_ok_update [of m i "vm_balances m ! i + amount"] vm_ok_entry [of m i]
    by (auto simp: vm_deposit_def in_i128_def split: if_splits option.splits)
next
  case (VmWithdraw i)
  with assms show ?thesis
    using vm_ok_update [of m i 0] vm_ok_entry [of m i]
    by (auto simp: vm_withdraw_def Let_def in_i128_def split: if_splits option.splits)
next
  case (VmSlash i bps)
  define x where "x = min (max (tdiv (vm_balances m ! i * max 0 (min BPS_DENOMINATOR bps)) BPS_DENOMINATOR) 1) (vm_balances m ! i)"
  show ?thesis
  proof (cases "i < N_STAKERS \<and> vm_balances m ! i \<noteq> 0")
    case True
    note e = vm_ok_entry [OF assms(1) conjunct1 [OF True]]
    have x: "x \<in> {1..vm_balances m ! i}"
      unfolding x_def using e(1) True by (intro vm_slash_part) (auto simp: BPS_DENOMINATOR_def)
    from assms(2) VmSlash True
    have "m' = m\<lparr>vm_balances := (vm_balances m)[i := vm_balances m ! i - x], vm_vault_total := vm_vault_total m - x\<rparr>"
      by (simp add: vm_slash_def Let_def x_def [symmetric] split: option.splits)
    then show ?thesis
      using vm_ok_update [OF assms(1), of i "vm_balances m ! i - x"] True x assms(1) by (simp add: vm_ok_def)
  qed (use assms VmSlash in \<open>auto simp: vm_slash_def Let_def split: if_splits\<close>)
qed

lemma vm_run_ok: "vm_run m ops m' \<Longrightarrow> vm_ok m \<Longrightarrow> vm_ok m'"
  by (induction rule: vm_run.induct) (auto dest: vm_apply_ok)

lemma vm_ok_new: "vm_ok vault_model_new"
  by (simp add: vm_ok_def vault_model_new_def N_STAKERS_def i128_max_def eval_nat_numeral)

section \<open>The contract simulates the model\<close>

text \<open>
  What the model sees of the vault: the stakes of its three stakers and the vault's balance of the
  stake token.
\<close>

definition kani_view :: "('t \<Rightarrow> address \<Rightarrow> address \<Rightarrow> int) \<Rightarrow> address \<Rightarrow> address \<Rightarrow> address list \<Rightarrow> 't vault \<Rightarrow> vault_model" where
  "kani_view bal tk v us s = \<lparr>vm_balances = map (\<lambda>u. get_stake u s) us, vm_vault_total = bal (k_tokens s) tk v\<rparr>"

text \<open>The part of the contract's behaviour the model is about.\<close>

definition kani_scope :: "address \<Rightarrow> 't vault \<Rightarrow> bool" where
  "kani_scope tk s \<longleftrightarrow> stakes_wf s \<and> delegations_wf s \<and> delegated s = 0 \<and> get_appeal_window s = 0 \<and>
     k_stake_token (cfg s) = Some tk"

lemma kani_view_simps [simp]:
  "vm_balances (kani_view bal tk v us s) = map (\<lambda>u. get_stake u s) us"
  "vm_vault_total (kani_view bal tk v us s) = bal (k_tokens s) tk v"
  by (simp_all add: kani_view_def)

text \<open>A change of one staker's stake is an update of the model's table.\<close>

lemma kani_view_change:
  assumes "distinct us" "i < length us" "\<And>a. get_stake a s' = (if a = us ! i then x else get_stake a s)"
    and "bal (k_tokens s') tk v = t"
  shows "kani_view bal tk v us s' = (kani_view bal tk v us s)\<lparr>vm_balances := (map (\<lambda>u. get_stake u s) us)[i := x], vm_vault_total := t\<rparr>"
proof -
  have "map (\<lambda>u. get_stake u s') us = (map (\<lambda>u. get_stake u s) us)[i := x]"
    using assms(1-3) by (intro nth_equalityI) (auto simp: nth_eq_iff_index_eq nth_list_update)
  with assms(4) show ?thesis by (simp add: kani_view_def)
qed

lemma position_set_view:
  assumes "position_set bal v (us ! i) x s s'" "stakes_wf s" "amount_ok x" "distinct us" "i < length us"
    and "bal (k_tokens s') tk v = t"
  shows "kani_view bal tk v us s' =
    (kani_view bal tk v us s)\<lparr>vm_balances := (map (\<lambda>u. get_stake u s) us)[i := x], vm_vault_total := t\<rparr>"
  by (rule kani_view_change [OF assms(4,5)]) (use position_set_wf(3) [OF assms(1-3)] assms(6) in simp_all)

lemma position_set_scope:
  assumes "position_set bal v p x s s'" "amount_ok x" "kani_scope tk s" "cfg s' = cfg s"
  shows "kani_scope tk s'"
proof -
  have "frame s' = frame s" using assms(1) by (simp add: position_set_def)
  note f = frame_D [OF this]
  show ?thesis
    using position_set_wf(1) [OF assms(1) _ assms(2)] assms(3,4) f(2,3) by (simp add: kani_scope_def get_appeal_window_def)
qed

lemma deposit_simulated:
  assumes "sep41 T bal" "deposit_stake T e (us ! i) amount s = (Ok u, s')" "kani_scope tk s" "call_ok v e"
    and "distinct us" "length us = N_STAKERS" "i < N_STAKERS" "in_i128 (bal (k_tokens s') tk v)"
  shows "vm_deposit i amount (kani_view bal tk v us s) = Some (True, kani_view bal tk v us s')" "kani_scope tk s'"
proof -
  have wf: "stakes_wf s" "k_stake_token (cfg s) = Some tk" using assms(3) by (simp_all add: kani_scope_def)
  note d = deposit_position [OF assms(1,2,4) wf(1)]
  show "kani_scope tk s'" by (rule position_set_scope [OF d(1,2) assms(3) d(4)])
  have t: "bal (k_tokens s') tk v = bal (k_tokens s) tk v + amount" using d(3) wf(2) by simp
  note view = position_set_view [OF d(1) wf(1) d(2) assms(5) _ t]
  show "vm_deposit i amount (kani_view bal tk v us s) = Some (True, kani_view bal tk v us s')"
    using view d(2,5) assms(6-8) t
    by (simp add: vm_deposit_def amount_ok_def checked_add_def checked_i128_def)
qed

lemma withdraw_simulated:
  assumes "sep41 T bal" "withdraw_stake T e (us ! i) s = (Ok a, s')" "kani_scope tk s" "call_ok v e"
    and "distinct us" "length us = N_STAKERS" "i < N_STAKERS" "in_i128 (bal (k_tokens s') tk v)"
  shows "vm_withdraw i (kani_view bal tk v us s) = Some (True, kani_view bal tk v us s')" "kani_scope tk s'"
proof -
  have wf: "stakes_wf s" "k_stake_token (cfg s) = Some tk" using assms(3) by (simp_all add: kani_scope_def)
  from assms(1,2) have "vm_withdraw i (kani_view bal tk v us s) = Some (True, kani_view bal tk v us s') \<and> kani_scope tk s'"
  proof (cases rule: withdraw_stake_withdrawn)
    case (1 info s1)
    have e: "current_contract_address e = v" "us ! i \<noteq> v" using assms(4) 1(5) by (auto simp: call_ok_def)
    note w = withdrawn_position [OF 1(2) e(1) wf(1)]
    have b: "get_stake (us ! i) s = a" "a \<noteq> 0"
      using 1(1,2) withdrawn_facts(1) [OF 1(2)] by (auto simp: withdrawn_def position_open_def)
    have p: "position_set bal v (us ! i) 0 s s1" "cfg s1 = cfg s" "bal (k_tokens s1) tk v = bal (k_tokens s) tk v - a"
      using w(1,3,4) 1(1) b e(2) wf(2) by simp_all
    note view = position_set_view [OF p(1) wf(1) _ assms(5) _ p(3)]
    have same: "kani_view bal tk v us s' = kani_view bal tk v us s1"
      by (simp add: 1(3) kani_view_def)
    have "vm_withdraw i (kani_view bal tk v us s) = Some (True, kani_view bal tk v us s')"
      unfolding same using view assms(6-8) b p(3)
      by (simp add: vm_withdraw_def amount_ok_def checked_sub_def checked_i128_def 1(3))
    moreover have "kani_scope tk s1" by (rule position_set_scope [OF p(1) _ assms(3) p(2)]) (simp add: amount_ok_def)
    then have "kani_scope tk s'"
      unfolding 1(3)
      by (rule_tac record_action_frame [of e "us ! i" StakeChange s1])
         (simp add: kani_scope_def stakes_wf_def stakes_def delegations_wf_def delegated_def get_appeal_window_def)
    ultimately show ?thesis by simp
  qed
  then show "vm_withdraw i (kani_view bal tk v us s) = Some (True, kani_view bal tk v us s')" "kani_scope tk s'" by simp_all
qed

lemma slash_simulated:
  assumes "sep41 T bal" "slash_stake T e caller (us ! i) severity reason s = (Ok amt, s')" "kani_scope tk s" "call_ok v e"
    and "distinct us" "length us = N_STAKERS" "i < N_STAKERS" "in_i128 (bal (k_tokens s') tk v)"
  defines "bps \<equiv> tier_bps_for (get_slash_tier_config s) severity"
  assumes "bps \<le> 10000" "in_i128 (get_stake (us ! i) s * int bps)"
  shows "vm_slash i (int bps) (kani_view bal tk v us s) = Some (True, kani_view bal tk v us s')" "kani_scope tk s'"
proof -
  have wf: "stakes_wf s" "delegations_wf s" "delegated s = 0" "get_appeal_window s = 0" "k_stake_token (cfg s) = Some tk"
    using assms(3) by (simp_all add: kani_scope_def)
  have e: "current_contract_address e = v" using assms(4) by (simp add: call_ok_def)
  note ok = slash_stake_Ok [OF assms(2)]
  from assms(1) ok(3)
  have "vm_slash i (int bps) (kani_view bal tk v us s) = Some (True, kani_view bal tk v us s') \<and> kani_scope tk s'"
  proof (cases rule: do_slash_outcome)
    case (ran tk' info amt' sid s3)
    note w = slash_writes_spec [OF wf(1,2) ran(3-5)]
    let ?b = "get_stake (us ! i) s"
    have b: "0 < ?b" "in_i128 ?b"
      using ran(3,4) get_stake_ok [OF wf(1), of "us ! i"] by (auto simp: get_stake_def amount_ok_def)
    define x where "x = slash_part ?b bps"
    have x: "1 \<le> x" "x \<le> ?b" "x = min (max (?b * int bps div 10000) 1) ?b"
      using slash_part_bounds [OF b(1), of bps] b(1) assms(11)
      by (simp_all add: x_def slash_part_def apply_multiplier_bps_eq)
    have d3: "delegated s3 = 0" using w(2,7) wf(3) delegated_nonneg [of s3] by simp
    have amt: "amt' = x" using w(4) d3 wf(3) x(2) b(2) by (auto simp: x_def bps_def in_i128_def)
    have c: "cfg s3 = cfg s" "k_tokens s3 = k_tokens s" using w(12) by auto
    have s': "bal (k_tokens s') tk v = bal (k_tokens s) tk v - x" "stakes s' = stakes s3" "cfg s' = cfg s3"
      "k_provider_delegated_stakes s' = k_provider_delegated_stakes s3"
      using ran(1,6) wf(4,5) c by (auto simp: e amt get_appeal_window_def stakes_def token_burnt_def)
    have st: "get_stake a s' = (if a = us ! i then ?b - x else get_stake a s)" for a
      using w(8) [of a] by (simp add: get_stake_def [of _ s'] get_stake_def [of _ s3] s'(2) x_def bps_def)
    have "vm_slash i (int bps) (kani_view bal tk v us s) = Some (True, kani_view bal tk v us s')"
      using kani_view_change [where bal = bal and tk = tk and v = v, OF assms(5) _ st s'(1)] assms(6-8,10,11) b x s'(1) in_i128_nonneg_le [OF b(2), of "?b - x"]
      by (simp add: vm_slash_def Let_def BPS_DENOMINATOR_def checked_mul_def checked_sub_def checked_i128_def)
    moreover have "kani_scope tk s'"
      using w(1,2) d3 wf(4,5) c(1)
      by (simp add: kani_scope_def stakes_wf_def delegations_wf_def delegated_def get_appeal_window_def s')
    ultimately show ?thesis by simp
  qed simp
  then show "vm_slash i (int bps) (kani_view bal tk v us s) = Some (True, kani_view bal tk v us s')" "kani_scope tk s'"
    by simp_all
qed

text \<open>
  Runs of the contract and the operations of the model they stand for. The model multiplies without
  the contract's saturation and takes the tier as given; balances of the token fit their type.
\<close>

inductive vault_run :: "'t token_impl \<Rightarrow> ('t \<Rightarrow> address \<Rightarrow> address \<Rightarrow> int) \<Rightarrow> address \<Rightarrow> address \<Rightarrow> address list \<Rightarrow>
    't vault \<Rightarrow> vm_op list \<Rightarrow> 't vault \<Rightarrow> bool"
  for T bal tk v us s where
  run_start: "vault_run T bal tk v us s [] s"
| run_deposit: "vault_run T bal tk v us s (ops @ [VmDeposit i amount]) s2"
    if "vault_run T bal tk v us s ops s1" "i < N_STAKERS" "call_ok v e" "deposit_stake T e (us ! i) amount s1 = (Ok u, s2)"
      "in_i128 (bal (k_tokens s2) tk v)"
| run_withdraw: "vault_run T bal tk v us s (ops @ [VmWithdraw i]) s2"
    if "vault_run T bal tk v us s ops s1" "i < N_STAKERS" "call_ok v e" "withdraw_stake T e (us ! i) s1 = (Ok a, s2)"
      "in_i128 (bal (k_tokens s2) tk v)"
| run_slash: "vault_run T bal tk v us s (ops @ [VmSlash i (int bps)]) s2"
    if "vault_run T bal tk v us s ops s1" "i < N_STAKERS" "call_ok v e"
      "slash_stake T e caller (us ! i) severity reason s1 = (Ok amt, s2)" "in_i128 (bal (k_tokens s2) tk v)"
      "bps = tier_bps_for (get_slash_tier_config s1) severity" "bps \<le> 10000" "in_i128 (get_stake (us ! i) s1 * int bps)"

lemma vault_run_simulated:
  assumes "vault_run T bal tk v us s ops s'" "sep41 T bal" "distinct us" "length us = N_STAKERS" "kani_scope tk s"
  shows "kani_scope tk s' \<and> vm_run (kani_view bal tk v us s) ops (kani_view bal tk v us s')"
  using assms(1)
proof (induction rule: vault_run.induct)
  case run_start
  with assms(5) show ?case by (auto intro: vm_run.intros)
next
  case (run_deposit ops s1 i e amount u s2)
  then show ?case
    using deposit_simulated [OF assms(2) run_deposit(4) _ run_deposit(3) assms(3,4) run_deposit(2,5)]
    by (auto intro: vm_next)
next
  case (run_withdraw ops s1 i e a s2)
  then show ?case
    using withdraw_simulated [OF assms(2) run_withdraw(4) _ run_withdraw(3) assms(3,4) run_withdraw(2,5)]
    by (auto intro: vm_next)
next
  case (run_slash ops s1 i e caller severity reason amt s2 bps)
  then show ?case
    using slash_simulated [OF assms(2) run_slash(4) _ run_slash(3) assms(3,4) run_slash(2,5)]
    by (auto intro: vm_next)
qed

section \<open>Properties\<close>

text \<open>
  The invariant that Kani checks for four steps holds after every sequence of operations of the
  model, of any length: the balances sum up to the vault's total. In such a state a withdrawal never
  panics, and a slash panics only when the plain multiplication overflows.
\<close>

theorem kani_invariant:
  assumes "vm_run vault_model_new ops m"
  shows "invariant_holds m \<and> vm_withdraw i m \<noteq> None \<and> vm_deposit i amount m \<noteq> None \<and>
    (vm_slash i bps m = None \<longrightarrow> \<not> in_i128 (vm_balances m ! i * max 0 (min BPS_DENOMINATOR bps)))"
proof -
  have ok: "vm_ok m" by (rule vm_run_ok [OF assms vm_ok_new])
  have "vm_withdraw i m \<noteq> None"
    using vm_ok_entry(3) [OF ok, of i] by (auto simp: vm_withdraw_def Let_def checked_sub_def checked_i128_def)
  moreover have "vm_deposit i amount m \<noteq> None"
    by (auto simp: vm_deposit_def split: option.splits)
  moreover have "vm_slash i bps m \<noteq> None" if mul: "in_i128 (vm_balances m ! i * max 0 (min BPS_DENOMINATOR bps))"
  proof (cases "i < N_STAKERS \<and> vm_balances m ! i \<noteq> 0")
    case True
    define x where "x = min (max (tdiv (vm_balances m ! i * max 0 (min BPS_DENOMINATOR bps)) BPS_DENOMINATOR) 1) (vm_balances m ! i)"
    note en = vm_ok_entry [OF ok conjunct1 [OF True]]
    have x: "x \<in> {1..vm_balances m ! i}"
      unfolding x_def using en(1) True by (intro vm_slash_part) (auto simp: BPS_DENOMINATOR_def)
    have "in_i128 (vm_balances m ! i - x)" "in_i128 (vm_vault_total m - x)"
      using en x ok by (auto simp: in_i128_def i128_min_def vm_ok_def)
    with True mul show ?thesis
      by (simp add: vm_slash_def Let_def x_def [symmetric] checked_mul_def checked_sub_def checked_i128_def)
  qed (auto simp: vm_slash_def)
  ultimately show ?thesis using vm_ok_invariant [OF ok] by blast
qed

theorem kani_invariant_witness:
  "invariant_holds \<lparr>vm_balances = [0, 50, 0], vm_vault_total = 50\<rparr>"
proof -
  have "vm_run vault_model_new ([] @ [VmDeposit 0 100]) \<lparr>vm_balances = [100, 0, 0], vm_vault_total = 100\<rparr>"
    by (rule vm_next [OF vm_start])
       (simp add: vm_deposit_def vault_model_new_def N_STAKERS_def int_defs eval_nat_numeral)
  then have "vm_run vault_model_new (([] @ [VmDeposit 0 100]) @ [VmDeposit 1 50]) \<lparr>vm_balances = [100, 50, 0], vm_vault_total = 150\<rparr>"
    by (rule vm_next) (simp add: vm_deposit_def N_STAKERS_def int_defs)
  then have "vm_run vault_model_new ((([] @ [VmDeposit 0 100]) @ [VmDeposit 1 50]) @ [VmWithdraw 0])
      \<lparr>vm_balances = [0, 50, 0], vm_vault_total = 50\<rparr>"
    by (rule vm_next) (simp add: vm_withdraw_def N_STAKERS_def int_defs)
  from kani_invariant [OF this] show ?thesis by blast
qed



end
