(* ===== verification/Safe_Math.thy ===== *)
theory Safe_Math
  imports Prelude
begin

text \<open>
  The arithmetic libraries: decimal scaling (\<^verbatim>\<open>shared/src/math.rs\<close>), division with an explicit
  rounding mode and basis-point helpers (\<^verbatim>\<open>shared/src/safe_math.rs\<close>), the checked amount wrapper
  (\<^verbatim>\<open>common/src/checked_amount.rs\<close>) and reward accrual (\<^verbatim>\<open>common/src/apy_math.rs\<close>).
\<close>

section \<open>\<^verbatim>\<open>shared/src/math.rs\<close>\<close>

primrec pow10 :: "nat \<Rightarrow> int option" where
  "pow10 0 = Some 1"
| "pow10 (Suc n) = (case pow10 n of None \<Rightarrow> None | Some r \<Rightarrow> checked_mul r 10)"

definition normalize_amount :: "int \<Rightarrow> nat \<Rightarrow> nat \<Rightarrow> int option" where
  "normalize_amount amount from_decimals to_decimals =
     (if from_decimals = to_decimals then Some amount
      else if from_decimals < to_decimals
      then (case pow10 (to_decimals - from_decimals) of
              None \<Rightarrow> None | Some factor \<Rightarrow> checked_mul amount factor)
      else (case pow10 (from_decimals - to_decimals) of
              None \<Rightarrow> None | Some factor \<Rightarrow> Some (tdiv amount factor)))"

definition scale_up :: "int \<Rightarrow> nat \<Rightarrow> nat \<Rightarrow> int option" where
  "scale_up amount from_decimals to_decimals = normalize_amount amount from_decimals to_decimals"

definition scale_down :: "int \<Rightarrow> nat \<Rightarrow> nat \<Rightarrow> int option" where
  "scale_down amount from_decimals to_decimals = normalize_amount amount from_decimals to_decimals"

section \<open>\<^verbatim>\<open>shared/src/safe_math.rs\<close>\<close>

datatype rounding_mode = Floor | Ceil | Round

text \<open>
  \<^verbatim>\<open>abs\<close> of the smallest \<^verbatim>\<open>i128\<close> overflows, which traps: the \<open>Round\<close> mode takes the absolute value of
  the denominator. Every other failure is the value \<open>None\<close>.
\<close>

definition checked_div :: "int \<Rightarrow> int \<Rightarrow> rounding_mode \<Rightarrow> (unit, int option) outcome" where
  "checked_div numerator denominator mode =
     (if denominator = 0 then Ok None
      else case checked_div_i128 numerator denominator of
        None \<Rightarrow> Ok None
      | Some q \<Rightarrow> (case checked_rem_i128 numerator denominator of
          None \<Rightarrow> Ok None
        | Some r \<Rightarrow>
            (case mode of
               Floor \<Rightarrow> Ok (Some q)
             | Ceil \<Rightarrow>
                 if r \<noteq> 0 \<and> ((numerator > 0) = (denominator > 0)) then Ok (checked_add q 1)
                 else Ok (Some q)
             | Round \<Rightarrow>
                 if denominator = i128_min then Panic
                 else let halfway = \<bar>denominator\<bar> div 2 in
                   if \<bar>r\<bar> > halfway \<or> (\<bar>r\<bar> = halfway \<and> \<bar>r\<bar> * 2 = \<bar>denominator\<bar>)
                   then (if (numerator > 0) = (denominator > 0) then Ok (checked_add q 1)
                         else Ok (checked_sub q 1))
                   else Ok (Some q))))"

definition checked_bps_floor :: "int \<Rightarrow> nat \<Rightarrow> (unit, int option) outcome" where
  "checked_bps_floor v bps =
     (if bps > 10000 then Ok None
      else case checked_mul v (int bps) of
        None \<Rightarrow> Ok None | Some n \<Rightarrow> checked_div n 10000 Floor)"

definition checked_bps_ceil :: "int \<Rightarrow> nat \<Rightarrow> (unit, int option) outcome" where
  "checked_bps_ceil v bps =
     (if bps > 10000 then Ok None
      else case checked_mul v (int bps) of
        None \<Rightarrow> Ok None | Some n \<Rightarrow> checked_div n 10000 Ceil)"

definition checked_pct_floor :: "int \<Rightarrow> nat \<Rightarrow> (unit, int option) outcome" where
  "checked_pct_floor v pct =
     (if pct > 100 then Ok None
      else case checked_mul v (int pct) of
        None \<Rightarrow> Ok None | Some n \<Rightarrow> checked_div n 100 Floor)"

definition checked_pct_ceil :: "int \<Rightarrow> nat \<Rightarrow> (unit, int option) outcome" where
  "checked_pct_ceil v pct =
     (if pct > 100 then Ok None
      else case checked_mul v (int pct) of
        None \<Rightarrow> Ok None | Some n \<Rightarrow> checked_div n 100 Ceil)"

definition checked_mul_div_floor :: "int \<Rightarrow> int \<Rightarrow> int \<Rightarrow> (unit, int option) outcome" where
  "checked_mul_div_floor a b c =
     (case checked_mul a b of None \<Rightarrow> Ok None | Some p \<Rightarrow> checked_div p c Floor)"

definition checked_mul_div_ceil :: "int \<Rightarrow> int \<Rightarrow> int \<Rightarrow> (unit, int option) outcome" where
  "checked_mul_div_ceil a b c =
     (case checked_mul a b of None \<Rightarrow> Ok None | Some p \<Rightarrow> checked_div p c Ceil)"

definition checked_add_bps_floor :: "int \<Rightarrow> nat \<Rightarrow> (unit, int option) outcome" where
  "checked_add_bps_floor v bps =
     (case checked_bps_floor v bps of Ok (Some fee) \<Rightarrow> Ok (checked_add v fee) | r \<Rightarrow> r)"

definition checked_sub_bps_floor :: "int \<Rightarrow> nat \<Rightarrow> (unit, int option) outcome" where
  "checked_sub_bps_floor v bps =
     (case checked_bps_floor v bps of Ok (Some fee) \<Rightarrow> Ok (checked_sub v fee) | r \<Rightarrow> r)"

section \<open>\<^verbatim>\<open>common/src/checked_amount.rs\<close>\<close>

datatype amount = Amount int

primrec amount_value :: "amount \<Rightarrow> int" where
  "amount_value (Amount v) = v"

datatype amount_error = AmountOverflow | AmountDivisionByZero

definition or_overflow :: "int option \<Rightarrow> amount_error + amount" where
  "or_overflow x = (case x of None \<Rightarrow> Inl AmountOverflow | Some v \<Rightarrow> Inr (Amount v))"

definition amount_add :: "amount \<Rightarrow> amount \<Rightarrow> amount_error + amount" where
  "amount_add a b = or_overflow (checked_add (amount_value a) (amount_value b))"

definition amount_sub :: "amount \<Rightarrow> amount \<Rightarrow> amount_error + amount" where
  "amount_sub a b = or_overflow (checked_sub (amount_value a) (amount_value b))"

definition amount_mul :: "amount \<Rightarrow> amount \<Rightarrow> amount_error + amount" where
  "amount_mul a b = or_overflow (checked_mul (amount_value a) (amount_value b))"

definition amount_mul_rate :: "amount \<Rightarrow> int \<Rightarrow> int \<Rightarrow> amount_error + amount" where
  "amount_mul_rate a numerator denominator =
     (if denominator = 0 then Inl AmountDivisionByZero
      else case checked_mul (amount_value a) numerator of
        None \<Rightarrow> Inl AmountOverflow
      | Some scaled \<Rightarrow> or_overflow (checked_div_i128 scaled denominator))"

definition amount_div :: "amount \<Rightarrow> amount \<Rightarrow> amount_error + amount" where
  "amount_div a b =
     (if amount_value b = 0 then Inl AmountDivisionByZero
      else or_overflow (checked_div_i128 (amount_value a) (amount_value b)))"

section \<open>\<^verbatim>\<open>common/src/apy_math.rs\<close>\<close>

definition APY_BPS_DENOMINATOR :: int where
  "APY_BPS_DENOMINATOR = 10000"

definition SECONDS_PER_YEAR :: nat where
  "SECONDS_PER_YEAR = 365 * 24 * 60 * 60"

definition MAX_APY_BPS :: nat where
  "MAX_APY_BPS = 100000"

definition MAX_COMPOUND_PERIODS :: nat where
  "MAX_COMPOUND_PERIODS = 1200"

datatype apy_math_error = RateOutOfBounds | ApyOverflow | ApyDivisionByZero | ApyInvalidInput

definition apy_from_amount_error :: "amount_error \<Rightarrow> apy_math_error" where
  "apy_from_amount_error e =
     (case e of AmountOverflow \<Rightarrow> ApyOverflow | AmountDivisionByZero \<Rightarrow> ApyDivisionByZero)"

definition validate_apy_bps :: "nat \<Rightarrow> apy_math_error + nat" where
  "validate_apy_bps rate_bps = (if rate_bps > MAX_APY_BPS then Inl RateOutOfBounds else Inr rate_bps)"

text \<open>The growth of a balance over a time span: both accruals compute it the same way.\<close>

definition period_growth :: "amount \<Rightarrow> nat \<Rightarrow> nat \<Rightarrow> amount_error + amount" where
  "period_growth b rate_bps secs =
     (case amount_mul_rate b (int rate_bps) APY_BPS_DENOMINATOR of
        Inl e \<Rightarrow> Inl e
      | Inr annual \<Rightarrow> amount_mul_rate annual (int secs) (int SECONDS_PER_YEAR))"

definition accrue_simple :: "int \<Rightarrow> nat \<Rightarrow> nat \<Rightarrow> apy_math_error + int" where
  "accrue_simple prin rate_bps elapsed_secs =
     (if prin < 0 then Inl ApyInvalidInput
      else case validate_apy_bps rate_bps of
        Inl e \<Rightarrow> Inl e
      | Inr _ \<Rightarrow> (case period_growth (Amount prin) rate_bps elapsed_secs of
          Inl e \<Rightarrow> Inl (apy_from_amount_error e)
        | Inr accrued \<Rightarrow> Inr (amount_value accrued)))"

text \<open>The \<^verbatim>\<open>for _ in 0..periods\<close> loop of \<^verbatim>\<open>accrue_compound\<close>.\<close>

fun compound_loop :: "nat \<Rightarrow> amount \<Rightarrow> nat \<Rightarrow> nat \<Rightarrow> amount_error + amount" where
  "compound_loop 0 bal rate_bps period_secs = Inr bal"
| "compound_loop (Suc n) bal rate_bps period_secs =
     (case period_growth bal rate_bps period_secs of
        Inl e \<Rightarrow> Inl e
      | Inr growth \<Rightarrow> (case amount_add bal growth of
          Inl e \<Rightarrow> Inl e
        | Inr bal' \<Rightarrow> compound_loop n bal' rate_bps period_secs))"

definition accrue_compound :: "int \<Rightarrow> nat \<Rightarrow> nat \<Rightarrow> nat \<Rightarrow> apy_math_error + int" where
  "accrue_compound prin rate_bps periods period_secs =
     (if prin < 0 \<or> period_secs = 0 \<or> periods > MAX_COMPOUND_PERIODS then Inl ApyInvalidInput
      else case validate_apy_bps rate_bps of
        Inl e \<Rightarrow> Inl e
      | Inr _ \<Rightarrow> (case compound_loop periods (Amount prin) rate_bps period_secs of
          Inl e \<Rightarrow> Inl (apy_from_amount_error e)
        | Inr bal \<Rightarrow> (case amount_sub bal (Amount prin) of
            Inl e \<Rightarrow> Inl (apy_from_amount_error e)
          | Inr reward \<Rightarrow> Inr (amount_value reward))))"

section \<open>Decimal scaling\<close>

lemma pow10_value: "pow10 n = Some r \<Longrightarrow> r = 10 ^ n"
  by (induction n arbitrary: r) (auto split: option.splits)

lemma in_i128_mult_10: "in_i128 (10 ^ n * 10) \<Longrightarrow> in_i128 (10 ^ n)"
  by (erule in_i128_nonneg_le) auto

lemma pow10_Some_iff: "pow10 n = Some r \<longleftrightarrow> in_i128 (10 ^ n) \<and> r = 10 ^ n"
proof (induction n arbitrary: r)
  case (Suc n)
  show ?case
  proof (cases "pow10 n")
    case None
    with Suc.IH have "\<not> in_i128 (10 ^ n)" by (metis option.distinct(1))
    then have "\<not> in_i128 (10 ^ Suc n)" using in_i128_mult_10 [of n] by (auto simp: mult.commute)
    with None show ?thesis by simp
  next
    case (Some q)
    then have "q = 10 ^ n" by (rule pow10_value)
    with Some show ?thesis by (auto simp: mult.commute)
  qed
qed auto

lemma in_i128_pow10_iff: "in_i128 (10 ^ n) \<longleftrightarrow> n \<le> 38"
proof
  assume "n \<le> 38"
  then have "(10::int) ^ n \<le> 10 ^ 38" by (intro power_increasing) simp_all
  moreover have "in_i128 (10 ^ 38)" by (simp add: in_i128_def i128_min_def i128_max_def)
  ultimately show "in_i128 (10 ^ n)"
    using in_i128_nonneg_le [of "10 ^ 38" "10 ^ n"] by simp
next
  assume a: "in_i128 (10 ^ n)"
  show "n \<le> 38"
  proof (rule ccontr)
    assume "\<not> n \<le> 38"
    then have "(10::int) ^ 39 \<le> 10 ^ n" by (intro power_increasing) simp_all
    with a show False by (simp add: in_i128_def i128_max_def)
  qed
qed

section \<open>Rounded division\<close>

lemma trem_pos: "0 < d \<Longrightarrow> trem n d = (if 0 \<le> n then n mod d else - ((- n) mod d))"
proof -
  assume d: "0 < d"
  show ?thesis
  proof (cases "0 \<le> n")
    case True
    with d show ?thesis by (simp add: trem_def minus_div_mult_eq_mod)
  next
    case False
    with d have "tdiv n d = - ((- n) div d)" by (simp add: tdiv_def sgn_if)
    then have "trem n d = - ((- n) - ((- n) div d) * d)" by (simp add: trem_def)
    with False show ?thesis by (simp add: minus_div_mult_eq_mod)
  qed
qed

lemma tdiv_neg: "n < 0 \<Longrightarrow> 0 < d \<Longrightarrow> tdiv n d = - ((- n) div d)"
  by (simp add: tdiv_def sgn_if)

lemma tdiv_in_i128: "in_i128 n \<Longrightarrow> 0 < d \<Longrightarrow> in_i128 (tdiv n d)"
proof -
  assume n: "in_i128 n" and d: "0 < d"
  show ?thesis
  proof (cases "0 \<le> n")
    case True
    with d have "tdiv n d = n div d" "0 \<le> n div d" "n div d \<le> n"
      using div_pos_pos_trivial zdiv_mono2 [of n 1 d] by (auto simp: pos_imp_zdiv_nonneg_iff)
    with n show ?thesis by (auto intro: in_i128_nonneg_le)
  next
    case False
    have "(- n) div d \<le> - n" "0 \<le> (- n) div d"
      using zdiv_mono2 [of "- n" 1 d] False d by (auto simp: pos_imp_zdiv_nonneg_iff)
    with n False d show ?thesis
      by (auto simp: tdiv_neg in_i128_def i128_min_def i128_max_def)
  qed
qed

lemma checked_div_Floor:
  "in_i128 n \<Longrightarrow> 0 < d \<Longrightarrow> checked_div n d Floor = Ok (Some (tdiv n d))"
  by (auto simp: checked_div_def checked_div_i128_def checked_rem_i128_def checked_i128_def tdiv_in_i128)

lemma checked_div_Ceil:
  "in_i128 n \<Longrightarrow> 0 < d \<Longrightarrow>
     checked_div n d Ceil =
       (if 0 < n \<and> n mod d \<noteq> 0 then Ok (checked_add (n div d) 1) else Ok (Some (tdiv n d)))"
  by (auto simp: checked_div_def checked_div_i128_def checked_rem_i128_def checked_i128_def tdiv_in_i128
      trem_pos)

section \<open>Properties\<close>

lemma normalize_up:
  "lo < hi \<Longrightarrow> normalize_amount x lo hi = Some y \<longleftrightarrow>
     hi - lo \<le> 38 \<and> in_i128 (x * 10 ^ (hi - lo)) \<and> y = x * 10 ^ (hi - lo)"
proof -
  assume lt: "lo < hi"
  show ?thesis
  proof (cases "hi - lo \<le> 38")
    case True
    then have "pow10 (hi - lo) = Some (10 ^ (hi - lo))"
      by (simp add: pow10_Some_iff in_i128_pow10_iff)
    with lt True show ?thesis by (simp add: normalize_amount_def)
  next
    case False
    then have "pow10 (hi - lo) = None"
      by (metis in_i128_pow10_iff not_Some_eq pow10_Some_iff)
    with lt False show ?thesis by (simp add: normalize_amount_def)
  qed
qed

lemma normalize_down:
  "lo < hi \<Longrightarrow> hi - lo \<le> 38 \<Longrightarrow> normalize_amount x hi lo = Some (tdiv x (10 ^ (hi - lo)))"
proof -
  assume lt: "lo < hi" and d: "hi - lo \<le> 38"
  then have "pow10 (hi - lo) = Some (10 ^ (hi - lo))"
    by (simp add: pow10_Some_iff in_i128_pow10_iff)
  with lt show ?thesis by (simp add: normalize_amount_def)
qed

lemma abs_trem_less: "b \<noteq> 0 \<Longrightarrow> \<bar>a - tdiv a b * b\<bar> < \<bar>b\<bar>"
proof -
  assume b: "b \<noteq> 0"
  have "a - tdiv a b * b = sgn a * (\<bar>a\<bar> - (\<bar>a\<bar> div \<bar>b\<bar>) * \<bar>b\<bar>)"
    by (simp add: tdiv_def algebra_simps sgn_mult_abs mult_sgn_abs abs_sgn)
  then have eq: "\<bar>a - tdiv a b * b\<bar> = \<bar>sgn a\<bar> * \<bar>\<bar>a\<bar> mod \<bar>b\<bar>\<bar>"
    by (simp add: abs_mult minus_div_mult_eq_mod)
  have "\<bar>\<bar>a\<bar> mod \<bar>b\<bar>\<bar> < \<bar>b\<bar>"
    using b by (metis abs_mod_less abs_idempotent abs_eq_0)
  with eq b show ?thesis by (cases "a = 0") (auto simp: abs_sgn_eq)
qed

text \<open>an amount that scales up to a finer precision without overflow comes back unchanged when it
  is scaled down again.\<close>

theorem normalize_round_trip:
  assumes "lo < hi" and "normalize_amount x lo hi = Some y"
  shows "normalize_amount y hi lo = Some x"
  using assms by (simp add: normalize_up normalize_down tdiv_self_mult)

theorem normalize_round_trip_witness:
  "(6::nat) < 7 \<and> normalize_amount 999999 6 7 = Some 9999990 \<and> normalize_amount 9999990 7 6 = Some 999999"
proof -
  have up: "normalize_amount 999999 6 7 = Some 9999990"
    by (simp add: normalize_up in_i128_def i128_min_def i128_max_def)
  show ?thesis using up normalize_round_trip [OF _ up] by simp
qed

subsection \<open>Rounding modes\<close>

lemma div_mult_le_int: "0 < d \<Longrightarrow> (n::int) div d * d \<le> n \<and> n < n div d * d + d"
  using pos_mod_sign [of d n] pos_mod_bound [of d n] div_mult_mod_eq [of n d] by linarith

lemma tdiv_error: "0 < d \<Longrightarrow> \<bar>n - tdiv n d * d\<bar> < d \<and> \<bar>tdiv n d * d\<bar> \<le> \<bar>n\<bar>"
proof -
  assume d: "0 < d"
  have "\<bar>tdiv n d * d\<bar> = \<bar>n\<bar> div d * d" using d by (simp add: abs_mult abs_tdiv)
  also have "\<dots> \<le> \<bar>n\<bar>" using div_mult_le_int [OF d] by simp
  finally show ?thesis using abs_trem_less [of d n] d by simp
qed

lemma ceil_error:
  assumes "in_i128 n" "0 < d" "checked_div n d Ceil = Ok (Some r)"
  shows "n \<le> r * d \<and> r * d < n + d"
proof (cases "0 < n \<and> n mod d \<noteq> 0")
  case True
  with assms have r: "r = n div d + 1"
    by (auto simp: checked_div_Ceil split: if_splits)
  have "n div d * d + n mod d = n" by (rule div_mult_mod_eq)
  moreover have "0 < n mod d" "n mod d < d"
    using True assms(2) pos_mod_sign [of d n] by (linarith, simp)
  moreover have "r * d = n div d * d + d" by (simp add: r distrib_right)
  ultimately show ?thesis by linarith
next
  case False
  with assms have r: "r = tdiv n d" by (auto simp: checked_div_Ceil split: if_splits)
  show ?thesis
  proof (cases "0 < n")
    case True
    with False assms(2) r show ?thesis by (simp add: minus_mod_eq_div_mult [symmetric])
  next
    case neg: False
    show ?thesis
      using neg r assms(2) div_mult_le_int [of d "- n"] by (cases "n = 0") (simp_all add: tdiv_neg)
  qed
qed

lemma round_error:
  assumes "in_i128 n" "0 < d" "checked_div n d Round = Ok (Some r)"
  shows "2 * \<bar>n - r * d\<bar> \<le> d"
proof -
  let ?q = "tdiv n d" and ?m = "trem n d"
  have m: "?m = n - ?q * d" by (simp add: trem_def)
  have mb: "\<bar>?m\<bar> < d" using tdiv_error [OF assms(2), of n] m by simp
  have dmin: "d \<noteq> i128_min" using assms(2) by (simp add: i128_min_def)
  define up where "up \<longleftrightarrow> \<bar>?m\<bar> > d div 2 \<or> (\<bar>?m\<bar> = d div 2 \<and> \<bar>?m\<bar> * 2 = d)"
  have r: "r = (if up then (if 0 < n then ?q + 1 else ?q - 1) else ?q)"
    using assms dmin unfolding up_def
    by (auto simp: checked_div_def checked_div_i128_def checked_rem_i128_def checked_i128_def
        tdiv_in_i128 Let_def split: if_splits)
  show ?thesis
  proof (cases up)
    case False
    then have "\<bar>?m\<bar> \<le> d div 2" by (auto simp: up_def)
    then have "2 * \<bar>?m\<bar> \<le> d" by linarith
    with False r m show ?thesis by simp
  next
    case True
    then have big: "d \<le> 2 * \<bar>?m\<bar>" using assms(2) by (auto simp: up_def)
    have "?m \<noteq> 0" using big assms(2) by auto
    have sgn: "0 < ?m \<longleftrightarrow> 0 < n"
    proof (cases "0 \<le> n")
      case True
      then have "?m = n mod d" using assms(2) by (simp add: trem_pos)
      then show ?thesis
        using True \<open>?m \<noteq> 0\<close> pos_mod_sign [OF assms(2), of n] by (cases "n = 0") (simp, linarith)
    next
      case False
      then have "?m = - ((- n) mod d)" using assms(2) by (simp add: trem_pos)
      then show ?thesis using False pos_mod_sign [OF assms(2), of "- n"] by linarith
    qed
    show ?thesis
    proof (cases "0 < n")
      case True
      with \<open>up\<close> r m have "n - r * d = ?m - d" by (simp add: algebra_simps)
      with True sgn mb big show ?thesis by simp
    next
      case neg: False
      with \<open>up\<close> r have "r * d = ?q * d - d" by (simp add: left_diff_distrib)
      with m have "n - r * d = ?m + d" by simp
      with neg sgn mb big \<open>?m \<noteq> 0\<close> show ?thesis by simp
    qed
  qed
qed

text \<open>the three rounding modes of \<^verbatim>\<open>checked_div\<close> mean what they say for a positive denominator: \<open>Floor\<close>
  truncates towards zero, \<open>Ceil\<close> is the least quotient that covers the numerator, \<open>Round\<close> is at
  most half a denominator away.\<close>

theorem checked_div_modes:
  assumes "in_i128 n" "0 < d" "checked_div n d mode = Ok (Some r)"
  shows "case mode of
           Floor \<Rightarrow> \<bar>r * d\<bar> \<le> \<bar>n\<bar> \<and> \<bar>n - r * d\<bar> < d
         | Ceil \<Rightarrow> n \<le> r * d \<and> r * d < n + d
         | Round \<Rightarrow> 2 * \<bar>n - r * d\<bar> \<le> d"
  using assms tdiv_error [OF assms(2), of n] ceil_error [OF assms(1,2)] round_error [OF assms(1,2)]
  by (cases mode) (auto simp: checked_div_Floor)

theorem checked_div_modes_witness:
  "checked_div (-100) 3 Round = Ok (Some (-33)) \<and> 2 * \<bar>-100 - (-33) * 3\<bar> \<le> (3::int)"
proof -
  have v: "checked_div (-100) 3 Round = Ok (Some (-33))" by code_simp
  show ?thesis
    using v checked_div_modes [OF _ _ v] by (simp add: in_i128_def i128_min_def i128_max_def)
qed

subsection \<open>Reward accrual\<close>

lemma or_overflow_Inr: "or_overflow x = Inr a \<longleftrightarrow> (\<exists>v. x = Some v \<and> a = Amount v)"
  by (auto simp: or_overflow_def split: option.splits)

lemma mul_rate_nonneg:
  "amount_mul_rate a n d = Inr b \<Longrightarrow> 0 \<le> amount_value a \<Longrightarrow> 0 \<le> n \<Longrightarrow> 0 < d \<Longrightarrow>
     b = Amount (amount_value a * n div d) \<and> 0 \<le> amount_value b"
  by (auto simp: amount_mul_rate_def or_overflow_Inr checked_div_i128_def pos_imp_zdiv_nonneg_iff
      split: if_splits option.splits)

lemma period_growth_nonneg:
  assumes "period_growth a r secs = Inr b" "0 \<le> amount_value a"
  shows "0 \<le> amount_value b"
proof -
  from assms(1) obtain c where c: "amount_mul_rate a (int r) APY_BPS_DENOMINATOR = Inr c"
    "amount_mul_rate c (int secs) (int SECONDS_PER_YEAR) = Inr b"
    by (auto simp: period_growth_def split: sum.splits)
  with assms(2) have "0 \<le> amount_value c"
    using mul_rate_nonneg by (force simp: APY_BPS_DENOMINATOR_def)
  with c(2) show ?thesis using mul_rate_nonneg by (force simp: SECONDS_PER_YEAR_def)
qed

lemma compound_loop_grows:
  "compound_loop n a r secs = Inr b \<Longrightarrow> 0 \<le> amount_value a \<Longrightarrow> amount_value a \<le> amount_value b"
proof (induction n arbitrary: a)
  case (Suc n)
  then obtain g c where "period_growth a r secs = Inr g" "amount_add a g = Inr c"
    "compound_loop n c r secs = Inr b"
    by (auto split: sum.splits)
  moreover from this have "0 \<le> amount_value g" using Suc.prems by (auto intro: period_growth_nonneg)
  ultimately show ?case
    using Suc.IH [of c] Suc.prems(2) by (auto simp: amount_add_def or_overflow_Inr)
qed simp

text \<open>compounding never loses: the reward of \<^verbatim>\<open>accrue_compound\<close> is never negative, and over a single period
  it is exactly the reward of \<^verbatim>\<open>accrue_simple\<close> (unless the balance plus its reward overflows).\<close>

theorem accrue_compound_sound:
  assumes "accrue_compound prin rate_bps periods secs = Inr reward"
  shows "0 \<le> reward \<and> rate_bps \<le> 100000 \<and> (periods = 1 \<longrightarrow> accrue_simple prin rate_bps secs = Inr reward)"
proof -
  from assms obtain b where b: "compound_loop periods (Amount prin) rate_bps secs = Inr b"
    and g: "0 \<le> prin" "rate_bps \<le> MAX_APY_BPS" and s: "amount_sub b (Amount prin) = Inr (Amount reward)"
    by (auto simp: accrue_compound_def validate_apy_bps_def or_overflow_Inr amount_sub_def
        split: if_splits sum.splits)
  from s have "reward = amount_value b - prin" by (auto simp: amount_sub_def or_overflow_Inr)
  moreover from compound_loop_grows [OF b] g have "prin \<le> amount_value b" by simp
  moreover have "accrue_simple prin rate_bps secs = Inr reward" if "periods = 1"
    using b g s that
    by (auto simp: accrue_simple_def validate_apy_bps_def amount_add_def amount_sub_def or_overflow_Inr
        split: sum.splits)
  ultimately show ?thesis using g by (simp add: MAX_APY_BPS_def)
qed

theorem accrue_compound_sound_witness:
  "accrue_compound 10000000 500 1 31536000 = Inr 500000 \<and> accrue_simple 10000000 500 31536000 = Inr 500000"
proof -
  have v: "accrue_compound 10000000 500 1 31536000 = Inr 500000"
    by (simp add: accrue_compound_def validate_apy_bps_def MAX_APY_BPS_def MAX_COMPOUND_PERIODS_def
        period_growth_def amount_mul_rate_def or_overflow_def amount_add_def amount_sub_def
        APY_BPS_DENOMINATOR_def SECONDS_PER_YEAR_def int_defs)
  show ?thesis using v accrue_compound_sound [OF v] by simp
qed

end
