(* ===== verification/Fee_Accrual.thy ===== *)
theory Fee_Accrual
  imports Vault_Events Safe_Math
begin

text \<open>
  \<^verbatim>\<open>stake_vault/src/fee_accrual.rs\<close>: the fee accumulator. The functions take the accumulator and a
  position by mutable reference, so their model returns both also when they fail: what an early
  \<^verbatim>\<open>?\<close> leaves behind is visible to the caller. A plain division that overflows is a panic.
\<close>

definition ACC_PRECISION :: int where
  "ACC_PRECISION = 1000000000000"

datatype fee_accrual_error =
  FeeInvalidAmount | NonMonotonicLedger | FeeOverflow | InsufficientShares | NothingToClaim

record fee_accrual_state =
  acc_fee_per_share :: int
  total_shares :: int
  carry :: int
  total_deposited :: int
  total_distributed :: int
  last_ledger_seq :: nat
  last_timestamp :: nat
  fa_epoch :: nat

definition fee_accrual_state_new :: fee_accrual_state where
  "fee_accrual_state_new =
     \<lparr>acc_fee_per_share = 0, total_shares = 0, carry = 0, total_deposited = 0,
      total_distributed = 0, last_ledger_seq = 0, last_timestamp = 0, fa_epoch = 0\<rparr>"

record staker_fee_position =
  fp_staker :: address
  fp_shares :: int
  fp_fee_debt :: int
  fp_realized :: int

definition staker_fee_position_new :: "address \<Rightarrow> staker_fee_position" where
  "staker_fee_position_new staker =
     \<lparr>fp_staker = staker, fp_shares = 0, fp_fee_debt = 0, fp_realized = 0\<rparr>"

record accrual_update =
  au_epoch :: nat
  au_deposited :: int
  au_distributed :: int
  au_per_share_delta :: int
  au_carry :: int
  au_acc_fee_per_share :: int
  au_total_shares :: int
  au_ledger_seq :: nat
  au_timestamp :: nat

section \<open>Arithmetic helpers and events\<close>

definition fa_add :: "int \<Rightarrow> int \<Rightarrow> fee_accrual_error + int" where
  "fa_add a b = (case checked_add a b of None \<Rightarrow> Inl FeeOverflow | Some v \<Rightarrow> Inr v)"

definition fa_sub :: "int \<Rightarrow> int \<Rightarrow> fee_accrual_error + int" where
  "fa_sub a b = (case checked_sub a b of None \<Rightarrow> Inl FeeOverflow | Some v \<Rightarrow> Inr v)"

definition fa_mul :: "int \<Rightarrow> int \<Rightarrow> fee_accrual_error + int" where
  "fa_mul a b = (case checked_mul a b of None \<Rightarrow> Inl FeeOverflow | Some v \<Rightarrow> Inr v)"

definition accumulated_for :: "int \<Rightarrow> int \<Rightarrow> fee_accrual_error + int" where
  "accumulated_for shares acc =
     (case fa_mul shares acc of Inl er \<Rightarrow> Inl er | Inr scaled \<Rightarrow> Inr (tdiv scaled ACC_PRECISION))"

definition emit_accrual :: "accrual_update \<Rightarrow> 'a shared_store_scheme \<Rightarrow> 'a shared_store_scheme" where
  "emit_accrual u s =
     publish s [contract_topic, VSym ''fee_accr'']
       (VMap [(''schema_version'', VU32 1), (''epoch'', VU64 (au_epoch u)),
              (''deposited'', VI128 (au_deposited u)), (''distributed'', VI128 (au_distributed u)),
              (''per_share_delta'', VI128 (au_per_share_delta u)), (''carry'', VI128 (au_carry u)),
              (''acc_fee_per_share'', VI128 (au_acc_fee_per_share u)),
              (''total_shares'', VI128 (au_total_shares u)), (''ledger_seq'', VU32 (au_ledger_seq u)),
              (''timestamp'', VU64 (au_timestamp u))])"

definition emit_shares_changed :: "address \<Rightarrow> int \<Rightarrow> int \<Rightarrow> 'a shared_store_scheme \<Rightarrow> 'a shared_store_scheme" where
  "emit_shares_changed staker shares total_shs s =
     publish s [contract_topic, VSym ''fee_shrs'']
       (VMap [(''schema_version'', VU32 1), (''staker'', VAddr staker), (''shares'', VI128 shares),
              (''total_shares'', VI128 total_shs)])"

definition emit_claim :: "address \<Rightarrow> int \<Rightarrow> 'a shared_store_scheme \<Rightarrow> 'a shared_store_scheme" where
  "emit_claim staker amount s =
     publish s [contract_topic, VSym ''fee_clm'']
       (VMap [(''schema_version'', VU32 1), (''staker'', VAddr staker), (''amount'', VI128 amount)])"

section \<open>Core accounting\<close>

text \<open>The pair \<^verbatim>\<open>(per_share_delta, distributed)\<close> for a pool.\<close>

definition distribute_pool :: "int \<Rightarrow> int \<Rightarrow> (fee_accrual_error, int \<times> int) outcome" where
  "distribute_pool pool shares =
     (if shares = 0 then Ok (0, 0)
      else (case fa_mul pool ACC_PRECISION of
         Inl er \<Rightarrow> Err er
       | Inr scaled \<Rightarrow>
      (case checked_div_i128 scaled shares of
         None \<Rightarrow> Panic
       | Some delta \<Rightarrow>
      (case fa_mul delta shares of
         Inl er \<Rightarrow> Err er
       | Inr back \<Rightarrow> Ok (delta, tdiv back ACC_PRECISION)))))"

definition accrue_deposit :: "int \<Rightarrow> nat \<Rightarrow> nat \<Rightarrow> fee_accrual_state \<Rightarrow> 'a shared_store_scheme \<Rightarrow>
    (fee_accrual_error, accrual_update) outcome \<times> fee_accrual_state \<times> 'a shared_store_scheme" where
  "accrue_deposit amount ledger_seq timestamp st log =
     (if amount \<le> 0 then (Err FeeInvalidAmount, st, log)
      else if ledger_seq < last_ledger_seq st \<or> timestamp < last_timestamp st
      then (Err NonMonotonicLedger, st, log)
      else (case fa_add amount (carry st) of
         Inl er \<Rightarrow> (Err er, st, log)
       | Inr pool \<Rightarrow>
      (case distribute_pool pool (total_shares st) of
         Err er \<Rightarrow> (Err er, st, log)
       | Panic \<Rightarrow> (Panic, st, log)
       | Ok (per_share_delta, distributed) \<Rightarrow>
      (case fa_add (acc_fee_per_share st) per_share_delta of
         Inl er \<Rightarrow> (Err er, st, log)
       | Inr acc \<Rightarrow> let st1 = st\<lparr>acc_fee_per_share := acc\<rparr> in
      (case fa_sub pool distributed of
         Inl er \<Rightarrow> (Err er, st1, log)
       | Inr c \<Rightarrow> let st2 = st1\<lparr>carry := c\<rparr> in
      (case fa_add (total_deposited st2) amount of
         Inl er \<Rightarrow> (Err er, st2, log)
       | Inr td \<Rightarrow> let st3 = st2\<lparr>total_deposited := td\<rparr> in
      (case fa_add (total_distributed st3) distributed of
         Inl er \<Rightarrow> (Err er, st3, log)
       | Inr tb \<Rightarrow>
           let st4 = st3\<lparr>total_distributed := tb, last_ledger_seq := ledger_seq,
                         last_timestamp := timestamp, fa_epoch := sat_add_u64 (fa_epoch st3) 1\<rparr>;
               u = \<lparr>au_epoch = fa_epoch st4, au_deposited = amount, au_distributed = distributed,
                    au_per_share_delta = per_share_delta, au_carry = carry st4,
                    au_acc_fee_per_share = acc_fee_per_share st4, au_total_shares = total_shares st4,
                    au_ledger_seq = ledger_seq, au_timestamp = timestamp\<rparr>
           in (Ok u, st4, emit_accrual u log))))))))"

definition settle :: "fee_accrual_state \<Rightarrow> staker_fee_position \<Rightarrow> fee_accrual_error + (int \<times> staker_fee_position)" where
  "settle st pos =
     (case accumulated_for (fp_shares pos) (acc_fee_per_share st) of
        Inl er \<Rightarrow> Inl er
      | Inr accumulated \<Rightarrow>
     (case fa_sub accumulated (fp_fee_debt pos) of
        Inl er \<Rightarrow> Inl er
      | Inr diff \<Rightarrow>
          let newly = (if diff < 0 then 0 else diff)
          in (case fa_add (fp_realized pos) newly of
                Inl er \<Rightarrow> Inl er
              | Inr realized \<Rightarrow>
                  Inr (newly, pos\<lparr>fp_realized := realized, fp_fee_debt := accumulated\<rparr>))))"

text \<open>The tail that \<^verbatim>\<open>add_shares\<close> and \<^verbatim>\<open>remove_shares\<close> share: refresh the debt, publish.\<close>

definition rebase_debt :: "fee_accrual_state \<Rightarrow> staker_fee_position \<Rightarrow> 'a shared_store_scheme \<Rightarrow>
    (fee_accrual_error, unit) outcome \<times> fee_accrual_state \<times> staker_fee_position \<times> 'a shared_store_scheme" where
  "rebase_debt st pos log =
     (case accumulated_for (fp_shares pos) (acc_fee_per_share st) of
        Inl er \<Rightarrow> (Err er, st, pos, log)
      | Inr debt \<Rightarrow> (Ok (), st, pos\<lparr>fp_fee_debt := debt\<rparr>,
                     emit_shares_changed (fp_staker pos) (fp_shares pos) (total_shares st) log))"

definition add_shares :: "int \<Rightarrow> fee_accrual_state \<Rightarrow> staker_fee_position \<Rightarrow> 'a shared_store_scheme \<Rightarrow>
    (fee_accrual_error, unit) outcome \<times> fee_accrual_state \<times> staker_fee_position \<times> 'a shared_store_scheme" where
  "add_shares amount st pos log =
     (if amount \<le> 0 then (Err FeeInvalidAmount, st, pos, log)
      else (case settle st pos of
         Inl er \<Rightarrow> (Err er, st, pos, log)
       | Inr (_, pos1) \<Rightarrow>
      (case fa_add (fp_shares pos1) amount of
         Inl er \<Rightarrow> (Err er, st, pos1, log)
       | Inr shares \<Rightarrow> let pos2 = pos1\<lparr>fp_shares := shares\<rparr> in
      (case fa_add (total_shares st) amount of
         Inl er \<Rightarrow> (Err er, st, pos2, log)
       | Inr tot \<Rightarrow> rebase_debt (st\<lparr>total_shares := tot\<rparr>) pos2 log))))"

definition remove_shares :: "int \<Rightarrow> fee_accrual_state \<Rightarrow> staker_fee_position \<Rightarrow> 'a shared_store_scheme \<Rightarrow>
    (fee_accrual_error, unit) outcome \<times> fee_accrual_state \<times> staker_fee_position \<times> 'a shared_store_scheme" where
  "remove_shares amount st pos log =
     (if amount \<le> 0 then (Err FeeInvalidAmount, st, pos, log)
      else if amount > fp_shares pos then (Err InsufficientShares, st, pos, log)
      else (case settle st pos of
         Inl er \<Rightarrow> (Err er, st, pos, log)
       | Inr (_, pos1) \<Rightarrow>
      (case fa_sub (fp_shares pos1) amount of
         Inl er \<Rightarrow> (Err er, st, pos1, log)
       | Inr shares \<Rightarrow> let pos2 = pos1\<lparr>fp_shares := shares\<rparr> in
      (case fa_sub (total_shares st) amount of
         Inl er \<Rightarrow> (Err er, st, pos2, log)
       | Inr tot \<Rightarrow> rebase_debt (st\<lparr>total_shares := tot\<rparr>) pos2 log))))"

definition fee_claim :: "fee_accrual_state \<Rightarrow> staker_fee_position \<Rightarrow> 'a shared_store_scheme \<Rightarrow>
    (fee_accrual_error, int) outcome \<times> staker_fee_position \<times> 'a shared_store_scheme" where
  "fee_claim st pos log =
     (case settle st pos of
        Inl er \<Rightarrow> (Err er, pos, log)
      | Inr (_, pos1) \<Rightarrow>
          let claimed = fp_realized pos1
          in if claimed \<le> 0 then (Err NothingToClaim, pos1, log)
             else (Ok claimed, pos1\<lparr>fp_realized := 0\<rparr>, emit_claim (fp_staker pos1) claimed log))"

definition pending_fees :: "fee_accrual_state \<Rightarrow> staker_fee_position \<Rightarrow> fee_accrual_error + int" where
  "pending_fees st pos =
     (case accumulated_for (fp_shares pos) (acc_fee_per_share st) of
        Inl er \<Rightarrow> Inl er
      | Inr accumulated \<Rightarrow>
     (case fa_sub accumulated (fp_fee_debt pos) of
        Inl er \<Rightarrow> Inl er
      | Inr diff \<Rightarrow> fa_add (fp_realized pos) (if diff < 0 then 0 else diff)))"

section \<open>Facts about single operations\<close>

lemma fa_simps [simp]:
  "fa_add a b = Inr v \<longleftrightarrow> in_i128 (a + b) \<and> v = a + b"
  "fa_sub a b = Inr v \<longleftrightarrow> in_i128 (a - b) \<and> v = a - b"
  "fa_mul a b = Inr v \<longleftrightarrow> in_i128 (a * b) \<and> v = a * b"
  by (auto simp: fa_add_def fa_sub_def fa_mul_def checked_add_def checked_sub_def checked_mul_def checked_i128_def)

lemma fa_eqs:
  "fa_add a b = (if in_i128 (a + b) then Inr (a + b) else Inl FeeOverflow)"
  "fa_sub a b = (if in_i128 (a - b) then Inr (a - b) else Inl FeeOverflow)"
  by (auto simp: fa_add_def fa_sub_def checked_add_def checked_sub_def checked_i128_def)

lemma distribute_pool_Ok:
  assumes "distribute_pool pool shares = Ok (delta, dist)" and "0 \<le> pool" "0 \<le> shares"
  shows "0 \<le> delta" "0 \<le> dist" "dist \<le> pool"
    "delta = (if shares = 0 then 0 else pool * ACC_PRECISION div shares)" "dist = delta * shares div ACC_PRECISION"
proof -
  have "(if shares = 0 then delta = 0 \<and> dist = 0
         else delta = pool * ACC_PRECISION div shares \<and> dist = tdiv (delta * shares) ACC_PRECISION)"
    using assms
    by (auto simp: distribute_pool_def checked_div_i128_def ACC_PRECISION_def split: if_splits sum.splits option.splits)
  moreover have nn: "0 \<le> pool * ACC_PRECISION div shares" if "shares \<noteq> 0"
    using that assms(2,3) by (simp add: ACC_PRECISION_def pos_imp_zdiv_nonneg_iff)
  ultimately have d: "delta = (if shares = 0 then 0 else pool * ACC_PRECISION div shares)"
    "dist = delta * shares div ACC_PRECISION"
    using assms(3) by (auto simp: ACC_PRECISION_def split: if_splits)
  show "0 \<le> delta" using d(1) nn by (auto split: if_splits)
  have "delta * shares \<le> pool * ACC_PRECISION"
  proof (cases "shares = 0")
    case False
    have "delta * shares = pool * ACC_PRECISION - pool * ACC_PRECISION mod shares"
      using d(1) False by (simp add: minus_mod_eq_div_mult)
    moreover have "0 \<le> pool * ACC_PRECISION mod shares" using False assms(3) by (intro pos_mod_sign) simp
    ultimately show ?thesis by simp
  qed (use d(1) assms(2) in \<open>simp add: ACC_PRECISION_def\<close>)
  then have "delta * shares div ACC_PRECISION \<le> pool * ACC_PRECISION div ACC_PRECISION"
    by (intro zdiv_mono1) (simp_all add: ACC_PRECISION_def)
  then show "dist \<le> pool" using d(2) by (simp add: ACC_PRECISION_def)
  show "0 \<le> dist" using d(2) \<open>0 \<le> delta\<close> assms(3) by (simp add: ACC_PRECISION_def pos_imp_zdiv_nonneg_iff)
  show "delta = (if shares = 0 then 0 else pool * ACC_PRECISION div shares)" "dist = delta * shares div ACC_PRECISION"
    by (fact d)+
qed

lemma accrue_deposit_Ok:
  assumes "accrue_deposit x lseq ts st log = (Ok u, st', log')"
  obtains delta dist where "0 < x" "last_ledger_seq st \<le> lseq" "last_timestamp st \<le> ts"
    "distribute_pool (x + carry st) (total_shares st) = Ok (delta, dist)"
    "st' = st\<lparr>acc_fee_per_share := acc_fee_per_share st + delta, carry := x + carry st - dist,
       total_deposited := total_deposited st + x, total_distributed := total_distributed st + dist,
       last_ledger_seq := lseq, last_timestamp := ts, fa_epoch := sat_add_u64 (fa_epoch st) 1\<rparr>"
    "au_distributed u = dist"
  using assms unfolding accrue_deposit_def Let_def
  by (auto split: if_splits sum.splits outcome.splits prod.splits)

lemma settle_Inr:
  "settle st pos = Inr (newly, pos') \<longleftrightarrow>
     (\<exists>a. accumulated_for (fp_shares pos) (acc_fee_per_share st) = Inr a \<and> in_i128 (a - fp_fee_debt pos) \<and>
        newly = max 0 (a - fp_fee_debt pos) \<and> in_i128 (fp_realized pos + newly) \<and>
        pos' = pos\<lparr>fp_realized := fp_realized pos + newly, fp_fee_debt := a\<rparr>)"
  unfolding settle_def Let_def fa_eqs by (cases "accumulated_for (fp_shares pos) (acc_fee_per_share st)") (auto simp: max_def)

lemma pending_fees_Inr:
  "pending_fees st pos = Inr x \<longleftrightarrow>
     (\<exists>a. accumulated_for (fp_shares pos) (acc_fee_per_share st) = Inr a \<and> in_i128 (a - fp_fee_debt pos) \<and>
        x = fp_realized pos + max 0 (a - fp_fee_debt pos) \<and> in_i128 x)"
  unfolding pending_fees_def fa_eqs by (cases "accumulated_for (fp_shares pos) (acc_fee_per_share st)") (auto simp: max_def)

lemma pending_settled:
  "accumulated_for (fp_shares pos) (acc_fee_per_share st) = Inr (fp_fee_debt pos) \<Longrightarrow> in_i128 (fp_realized pos) \<Longrightarrow>
   pending_fees st pos = Inr (fp_realized pos)"
  by (simp add: pending_fees_Inr)

lemma share_change_Ok:
  assumes "add_shares x st pos log = (Ok u, st', pos', log') \<or> remove_shares x st pos log = (Ok u, st', pos', log')"
  obtains newly pos1 a y where "settle st pos = Inr (newly, pos1)" "0 < x"
    "y = x \<or> y = - x \<and> x \<le> fp_shares pos"
    "accumulated_for (fp_shares pos + y) (acc_fee_per_share st) = Inr a"
    "st' = st\<lparr>total_shares := total_shares st + y\<rparr>"
    "pos' = pos1\<lparr>fp_shares := fp_shares pos + y, fp_fee_debt := a\<rparr>"
proof -
  from assms obtain newly pos1 a where "settle st pos = Inr (newly, pos1)" "0 < x"
    "(accumulated_for (fp_shares pos1 + x) (acc_fee_per_share st) = Inr a \<and>
       st' = st\<lparr>total_shares := total_shares st + x\<rparr> \<and>
       pos' = pos1\<lparr>fp_shares := fp_shares pos1 + x, fp_fee_debt := a\<rparr>) \<or>
     (x \<le> fp_shares pos \<and> accumulated_for (fp_shares pos1 - x) (acc_fee_per_share st) = Inr a \<and>
       st' = st\<lparr>total_shares := total_shares st - x\<rparr> \<and>
       pos' = pos1\<lparr>fp_shares := fp_shares pos1 - x, fp_fee_debt := a\<rparr>)"
    unfolding add_shares_def remove_shares_def rebase_debt_def Let_def
    by (elim disjE) (auto split: if_splits sum.splits prod.splits)
  moreover from this(1) have "fp_shares pos1 = fp_shares pos" by (auto simp: settle_Inr)
  ultimately show ?thesis using that [of newly pos1 x a] that [of newly pos1 "- x" a] by auto
qed

section \<open>Runs\<close>

text \<open>
  A run of the accumulator with the positions of all stakers. A failed call is not a step: the
  contract call that made it is rolled back.
\<close>

inductive fee_run :: "fee_accrual_state \<Rightarrow> (address \<Rightarrow> staker_fee_position) \<Rightarrow> bool" where
  start: "fee_run fee_accrual_state_new staker_fee_position_new"
| deposit: "fee_run st P \<Longrightarrow> accrue_deposit x lseq ts st (log :: shared_store) = (Ok u, st', log') \<Longrightarrow> fee_run st' P"
| shares: "fee_run st P \<Longrightarrow>
    add_shares x st (P a) (log :: shared_store) = (Ok u, st', pos', log') \<or> remove_shares x st (P a) log = (Ok u, st', pos', log') \<Longrightarrow>
    fee_run st' (P(a := pos'))"
| claimed: "fee_run st P \<Longrightarrow> fee_claim st (P a) (log :: shared_store) = (Ok x, pos', log') \<Longrightarrow> fee_run st (P(a := pos'))"

text \<open>Only finitely many stakers hold shares; the total is their sum.\<close>

definition shares_total :: "(address \<Rightarrow> staker_fee_position) \<Rightarrow> int \<Rightarrow> bool" where
  "shares_total P n \<longleftrightarrow> finite {a. fp_shares (P a) \<noteq> 0} \<and> (\<Sum>a | fp_shares (P a) \<noteq> 0. fp_shares (P a)) = n"

lemma shares_total_upd:
  assumes "shares_total P n"
  shows "shares_total (P(a := q)) (n + fp_shares q - fp_shares (P a))"
proof -
  let ?f = "\<lambda>P a. fp_shares (P a)"
  let ?S = "insert a {b. ?f P b \<noteq> 0}"
  have fin: "finite ?S" using assms by (simp add: shares_total_def)
  have sum_eq: "(\<Sum>b | ?f Q b \<noteq> 0. ?f Q b) = sum (?f Q) ?S" if "{b. ?f Q b \<noteq> 0} \<subseteq> ?S" for Q
    using fin that by (intro sum.mono_neutral_left) auto
  have sub: "{b. ?f (P(a := q)) b \<noteq> 0} \<subseteq> ?S" by auto
  have "sum (?f (P(a := q))) ?S = fp_shares q + sum (?f P) (?S - {a})"
    using fin by (subst sum.remove [of _ a]) auto
  moreover have "sum (?f P) ?S = fp_shares (P a) + sum (?f P) (?S - {a})"
    using fin by (subst sum.remove [of _ a]) auto
  moreover have "sum (?f P) ?S = n" using assms sum_eq [OF subset_insertI] by (simp add: shares_total_def)
  ultimately show ?thesis
    using sum_eq [OF sub] finite_subset [OF sub fin] by (simp add: shares_total_def)
qed

definition books_ok :: "fee_accrual_state \<Rightarrow> (address \<Rightarrow> staker_fee_position) \<Rightarrow> bool" where
  "books_ok st P \<longleftrightarrow> total_deposited st = total_distributed st + carry st \<and> 0 \<le> carry st \<and>
     0 \<le> total_distributed st \<and> 0 \<le> acc_fee_per_share st \<and>
     (\<forall>a. 0 \<le> fp_shares (P a)) \<and> shares_total P (total_shares st)"

lemma books_shares_nonneg: "books_ok st P \<Longrightarrow> 0 \<le> total_shares st"
  using sum_nonneg [of "{a. fp_shares (P a) \<noteq> 0}" "\<lambda>a. fp_shares (P a)"]
  by (simp add: books_ok_def shares_total_def)

lemma fee_run_books: "fee_run st P \<Longrightarrow> books_ok st P"
proof (induction rule: fee_run.induct)
  case start
  then show ?case by (simp add: books_ok_def fee_accrual_state_new_def staker_fee_position_new_def shares_total_def)
next
  case (deposit st P x lseq ts log u st' log')
  from deposit.hyps(2) show ?case
  proof (cases rule: accrue_deposit_Ok)
    case (1 delta dist)
    have pool: "0 \<le> x + carry st" using 1(1) deposit.IH by (simp add: books_ok_def)
    note d = distribute_pool_Ok [OF 1(4) pool books_shares_nonneg [OF deposit.IH]]
    show ?thesis using deposit.IH d(1-3) unfolding 1(5) books_ok_def by simp
  qed
next
  case (shares st P x a log u st' pos' log')
  from shares.hyps(2) show ?case
  proof (cases rule: share_change_Ok)
    case (1 newly pos1 acc y)
    have "shares_total (P(a := pos')) (total_shares st')"
      using shares_total_upd [of P "total_shares st" a pos'] shares.IH 1(5,6)
      by (simp add: books_ok_def)
    moreover have "0 \<le> fp_shares ((P(a := pos')) b)" for b
      using shares.IH 1(2,3,6) by (auto simp: books_ok_def)
    ultimately show ?thesis
      using shares.IH by (simp add: books_ok_def 1(5) del: fun_upd_apply)
  qed
next
  case (claimed st P a log x pos' log')
  then have "fp_shares pos' = fp_shares (P a)"
    by (auto simp: fee_claim_def settle_Inr Let_def split: sum.splits prod.splits if_splits)
  with shares_total_upd [of P "total_shares st" a pos'] claimed.IH
  have "shares_total (P(a := pos')) (total_shares st)" "0 \<le> fp_shares ((P(a := pos')) b)" for b
    by (auto simp: books_ok_def)
  with claimed.IH show ?case by (simp add: books_ok_def del: fun_upd_apply)
qed

section \<open>A sample run\<close>

text \<open>Staker 3 holds three shares; one unit of fees is deposited three times.\<close>

definition sample_position :: staker_fee_position where
  "sample_position = \<lparr>fp_staker = Addr 3, fp_shares = 3, fp_fee_debt = 0, fp_realized = 0\<rparr>"

definition sample_accrual :: "nat \<Rightarrow> int \<Rightarrow> int \<Rightarrow> int \<Rightarrow> fee_accrual_state" where
  "sample_accrual n acc c dist =
     \<lparr>acc_fee_per_share = acc, total_shares = 3, carry = c, total_deposited = int n,
      total_distributed = dist, last_ledger_seq = n, last_timestamp = n, fa_epoch = n\<rparr>"

lemmas fee_defs =
  accrue_deposit_def distribute_pool_def fa_eqs fa_mul_def checked_mul_def ACC_PRECISION_def sample_accrual_def
  sample_position_def fee_accrual_state_new_def staker_fee_position_new_def settle_def accumulated_for_def
  add_shares_def rebase_debt_def sat_add_u64_def u64_max_def int_defs

lemma sample_join:
  "add_shares 3 fee_accrual_state_new (staker_fee_position_new (Addr 3)) log =
     (Ok (), sample_accrual 0 0 0 0, sample_position, emit_shares_changed (Addr 3) 3 3 log)"
  by (simp add: fee_defs Let_def)

lemma sample_deposits:
  "\<exists>u log'. accrue_deposit 1 1 1 (sample_accrual 0 0 0 0) log = (Ok u, sample_accrual 1 333333333333 1 0, log')"
  "\<exists>u log'. accrue_deposit 1 2 2 (sample_accrual 1 333333333333 1 0) log = (Ok u, sample_accrual 2 999999999999 1 1, log')"
  "\<exists>u log'. accrue_deposit 1 3 3 (sample_accrual 2 999999999999 1 1) log = (Ok u, sample_accrual 3 1666666666665 1 2, log')"
  by (simp_all add: fee_defs Let_def)

lemma sample_fee_run:
  "fee_run (sample_accrual 3 1666666666665 1 2) (staker_fee_position_new(Addr 3 := sample_position))"
proof -
  obtain log :: shared_store where True by simp
  have "fee_run (sample_accrual 0 0 0 0) (staker_fee_position_new(Addr 3 := sample_position))"
    by (rule fee_run.shares [OF fee_run.start disjI1, OF sample_join [of log]])
  then show ?thesis
    using sample_deposits [where 'a = unit] by (meson fee_run.deposit)
qed

section \<open>Properties\<close>

text \<open>
  C23: The books of the fee accumulator balance in every run: everything deposited is either
  distributed or carried over, nothing is negative, and the total of shares is the sum over the stakers.
\<close>

theorem fee_books_balance:
  assumes "fee_run st P"
  shows "total_deposited st = total_distributed st + carry st \<and> 0 \<le> carry st \<and> 0 \<le> total_distributed st \<and>
    (\<forall>a. 0 \<le> fp_shares (P a)) \<and> shares_total P (total_shares st)"
  using fee_run_books [OF assms] by (simp add: books_ok_def)

theorem fee_books_balance_witness:
  "total_deposited (sample_accrual 3 1666666666665 1 2) =
     total_distributed (sample_accrual 3 1666666666665 1 2) + carry (sample_accrual 3 1666666666665 1 2)"
  using fee_books_balance [OF sample_fee_run] by blast

text \<open>
  A claim pays exactly what \<^verbatim>\<open>pending\<close> reports, and afterwards nothing is pending; settling a
  position does not change what is pending, and settling it again settles nothing.
\<close>

theorem claim_pays_pending:
  assumes "pending_fees st pos = Inr x"
  shows "(case settle st pos of Inl er \<Rightarrow> False
          | Inr (newly, pos1) \<Rightarrow> pending_fees st pos1 = Inr x \<and> settle st pos1 = Inr (0, pos1)) \<and>
    (0 < x \<longrightarrow> fst (fee_claim st pos log) = Ok x \<and> pending_fees st (fst (snd (fee_claim st pos log))) = Inr 0) \<and>
    (x \<le> 0 \<longrightarrow> fst (fee_claim st pos log) = Err NothingToClaim)"
proof -
  from assms obtain a where a: "accumulated_for (fp_shares pos) (acc_fee_per_share st) = Inr a"
    "in_i128 (a - fp_fee_debt pos)" "x = fp_realized pos + max 0 (a - fp_fee_debt pos)" "in_i128 x"
    by (auto simp: pending_fees_Inr)
  let ?pos = "pos\<lparr>fp_realized := x, fp_fee_debt := a\<rparr>"
  have st: "settle st pos = Inr (max 0 (a - fp_fee_debt pos), ?pos)"
    using a by (simp add: settle_Inr)
  have again: "settle st ?pos = Inr (0, ?pos)" using a(1,4) by (simp add: settle_Inr)
  have "pending_fees st ?pos = Inr x" "pending_fees st (?pos\<lparr>fp_realized := 0\<rparr>) = Inr 0"
    using a(1,4) pending_settled [of ?pos st] pending_settled [of "?pos\<lparr>fp_realized := 0\<rparr>" st] by simp_all
  with st again show ?thesis by (simp add: fee_claim_def Let_def)
qed

theorem claim_pays_pending_witness:
  "\<forall>log :: shared_store. fst (fee_claim (sample_accrual 2 999999999999 1 1) sample_position log) = Ok 2"
proof
  fix log :: shared_store
  have "pending_fees (sample_accrual 2 999999999999 1 1) sample_position = Inr 2"
    by (simp add: fee_defs pending_fees_def)
  from claim_pays_pending [OF this, of log]
  show "fst (fee_claim (sample_accrual 2 999999999999 1 1) sample_position log) = Ok 2" by simp
qed

text \<open>
  Adding or removing shares leaves what the staker can claim exactly as it was: new shares earn
  nothing retroactively and removed shares lose nothing already earned.
\<close>

theorem shares_keep_pending:
  assumes "pending_fees st pos = Inr v"
    and "add_shares x st pos log = (Ok u, st', pos', log') \<or> remove_shares x st pos log = (Ok u, st', pos', log')"
  shows "pending_fees st' pos' = Inr v"
  using assms(2)
proof (cases rule: share_change_Ok)
  case (1 newly pos1 a y)
  have "fp_realized pos1 = v" "in_i128 v"
    using 1(1) assms(1) by (auto simp: settle_Inr pending_fees_Inr)
  with 1(4-6) show ?thesis by (intro pending_settled [where pos = pos', THEN trans]) simp_all
qed

theorem shares_keep_pending_witness: "pending_fees (sample_accrual 0 0 0 0) sample_position = Inr 0"
proof -
  have "pending_fees fee_accrual_state_new (staker_fee_position_new (Addr 3)) = Inr 0"
    by (simp add: fee_defs pending_fees_def)
  from shares_keep_pending [OF this disjI1 [OF sample_join]] show ?thesis .
qed

text \<open>
  The rounding remainder is counted twice: the carry returns to the next pool although the
  accumulator already contains its fraction. In this run three units were deposited, and the only staker can
  claim four.
\<close>

theorem fee_dust_counted_twice:
  "\<exists>st P. fee_run st P \<and> total_deposited st = 3 \<and> pending_fees st (P (Addr 3)) = Inr 4 \<and>
    {a. fp_shares (P a) \<noteq> 0} = {Addr 3}"
proof (intro exI conjI)
  show "fee_run (sample_accrual 3 1666666666665 1 2) (staker_fee_position_new(Addr 3 := sample_position))"
    by (rule sample_fee_run)
qed (simp_all add: fee_defs pending_fees_def)


end
