(* ===== verification/Migration.thy ===== *)
theory Migration
  imports Vault_Core
begin

text \<open>
  \<^verbatim>\<open>stake_vault/src/migration.rs\<close>: the batched copy of the V1 balances into the V2 stake map, with a
  read-back check per entry, a persisted cursor, and the recovery of entries that failed the check.
\<close>

record migration_batch_result =
  br_migrated_this_batch :: nat
  br_total_migrated :: nat
  br_complete :: bool
  br_batch_number :: nat
  br_pending_recovery_count :: nat

record migration_recovery_result =
  rr_provider :: address
  rr_corrected_balance :: int
  rr_remaining_recovery :: nat
  rr_migration_complete :: bool

datatype migration_error =
    MigUnauthorized
  | BalanceMismatch address int int
  | AlreadyComplete
  | NotInRecovery

section \<open>Storage helpers and events\<close>

definition get_v1 :: "'t vault \<Rightarrow> (address, int) smap" where
  "get_v1 s = get_or [] (k_stakes_v1 s)"

definition save_v2 :: "(address, stake_info_v2) smap \<Rightarrow> 't vault \<Rightarrow> 't vault" where
  "save_v2 m s = s\<lparr>k_stakes_v2 := Some m\<rparr>"

definition get_state :: "'t vault \<Rightarrow> migration_state" where
  "get_state s =
     get_or \<lparr>mg_migrated = [], mg_total_v1_providers = 0, mg_complete = False,
             mg_batch_number = 0, mg_pending_recovery = []\<rparr> (k_migration_state s)"

definition save_state :: "migration_state \<Rightarrow> 't vault \<Rightarrow> 't vault" where
  "save_state st s = s\<lparr>k_migration_state := Some st\<rparr>"

definition is_in_vec :: "address list \<Rightarrow> address \<Rightarrow> bool" where
  "is_in_vec vec target = list_ex (\<lambda>a. a = target) vec"

definition remove_from_vec :: "address list \<Rightarrow> address \<Rightarrow> address list" where
  "remove_from_vec vec target = filter (\<lambda>a. a \<noteq> target) vec"

definition emit_verified :: "address \<Rightarrow> int \<Rightarrow> int \<Rightarrow> 't vault \<Rightarrow> 't vault" where
  "emit_verified provider old_balance new_balance s =
     publish s [VSym ''mig_ok'', VAddr provider] (VVec [VI128 old_balance, VI128 new_balance])"

definition emit_error :: "address \<Rightarrow> int \<Rightarrow> int \<Rightarrow> 't vault \<Rightarrow> 't vault" where
  "emit_error provider old_balance new_balance s =
     publish s [VSym ''mig_err'', VAddr provider] (VVec [VI128 old_balance, VI128 new_balance])"

definition emit_batch_start :: "nat \<Rightarrow> nat \<Rightarrow> nat \<Rightarrow> 't vault \<Rightarrow> 't vault" where
  "emit_batch_start batch_number pending_count recovery_count s =
     publish s [VSym ''mig_start''] (VVec [VU32 batch_number, VU32 pending_count, VU32 recovery_count])"

definition emit_batch_progress :: "nat \<Rightarrow> nat \<Rightarrow> nat \<Rightarrow> nat \<Rightarrow> nat \<Rightarrow> 't vault \<Rightarrow> 't vault" where
  "emit_batch_progress batch_number migrated_this_batch total_migrated total_v1 pending_recovery_count s =
     publish s [VSym ''mig_prog'']
       (VVec [VU32 batch_number, VU32 migrated_this_batch, VU32 total_migrated, VU32 total_v1,
              VU32 pending_recovery_count])"

definition emit_migration_complete :: "nat \<Rightarrow> 't vault \<Rightarrow> 't vault" where
  "emit_migration_complete total_migrated s = publish s [VSym ''mig_done''] (VVec [VU32 total_migrated])"

definition emit_recovery :: "address \<Rightarrow> int \<Rightarrow> nat \<Rightarrow> 't vault \<Rightarrow> 't vault" where
  "emit_recovery provider corrected_balance remaining_recovery s =
     publish s [VSym ''mig_rec'', VAddr provider] (VVec [VI128 corrected_balance, VU32 remaining_recovery])"

lemmas [emit_defs] =
  emit_verified_def emit_error_def emit_batch_start_def emit_batch_progress_def
  emit_migration_complete_def emit_recovery_def

section \<open>The batch\<close>

text \<open>
  The loop over the providers of the batch. It carries the V2 map, the cursor, the number of
  migrated entries and the state (for the events); a mismatch stores map and cursor and ends the
  call with the error.
\<close>

fun migrate_loop :: "nat \<Rightarrow> (address, int) smap \<Rightarrow> address list \<Rightarrow> (address, stake_info_v2) smap \<Rightarrow>
    migration_state \<Rightarrow> nat \<Rightarrow> 't vault \<Rightarrow>
    (migration_error, (address, stake_info_v2) smap \<times> migration_state \<times> nat) outcome \<times> 't vault" where
  "migrate_loop now v1 [] v2 st n s = (Ok (v2, st, n), s)"
| "migrate_loop now v1 (provider # rest) v2 st n s =
     (let old_balance = get_or 0 (smap_get v1 provider);
          info = \<lparr>si_balance = old_balance, si_locked_until = 0, si_last_updated = now\<rparr>;
          v2' = smap_set v2 provider info
      in (case smap_get v2' provider of
            None \<Rightarrow> (Panic, s)
          | Some written \<Rightarrow>
              if si_balance written \<noteq> old_balance
              then (Err (BalanceMismatch provider old_balance (si_balance written)),
                    save_state (st\<lparr>mg_pending_recovery := mg_pending_recovery st @ [provider]\<rparr>)
                      (save_v2 v2' (emit_error provider old_balance (si_balance written) s)))
              else migrate_loop now v1 rest v2'
                     (st\<lparr>mg_migrated := mg_migrated st @ [provider]\<rparr>) (n + 1)
                     (emit_verified provider old_balance (si_balance written) s)))"

definition pending_providers :: "(address, int) smap \<Rightarrow> migration_state \<Rightarrow> address list" where
  "pending_providers v1 st =
     filter (\<lambda>k. \<not> is_in_vec (mg_migrated st) k \<and> \<not> is_in_vec (mg_pending_recovery st) k) (smap_keys v1)"

definition accounted :: "migration_state \<Rightarrow> nat \<Rightarrow> bool" where
  "accounted st total_v1 \<longleftrightarrow>
     length (mg_migrated st) + length (mg_pending_recovery st) \<ge> total_v1 \<and> mg_pending_recovery st = []"

definition migrate_stakes_v1_to_v2 :: "env \<Rightarrow> address \<Rightarrow> nat \<Rightarrow> 't vault \<Rightarrow>
    (migration_error, migration_batch_result) outcome \<times> 't vault" where
  "migrate_stakes_v1_to_v2 e admin batch_size s =
     (if \<not> has_auth e admin then (Panic, s)
      else if mg_complete (get_state s) then (Err AlreadyComplete, s)
      else if mg_batch_number (get_state s) + 1 > u32_max then (Panic, s)
      else (let v1 = get_v1 s;
                total_v1 = length v1;
                st0 = get_state s;
                pending = pending_providers v1 st0;
                st1 = st0\<lparr>mg_total_v1_providers := total_v1, mg_batch_number := mg_batch_number st0 + 1\<rparr>;
                s1 = emit_batch_start (mg_batch_number st1) (length pending)
                       (length (mg_pending_recovery st1)) s;
                to_process = min batch_size (length pending)
            in (case migrate_loop (ledger_timestamp e) v1 (take to_process pending) (stakes s) st1 0 s1 of
                  (Err er, s2) \<Rightarrow> (Err er, s2)
                | (Panic, s2) \<Rightarrow> (Panic, s2)
                | (Ok (v2, st2, n), s2) \<Rightarrow>
                    let st3 = st2\<lparr>mg_complete := accounted st2 total_v1\<rparr>;
                        s3 = save_state st3 (save_v2 v2 s2);
                        s4 = emit_batch_progress (mg_batch_number st3) n (length (mg_migrated st3))
                               total_v1 (length (mg_pending_recovery st3)) s3;
                        s5 = (if mg_complete st3
                              then emit_migration_complete (length (mg_migrated st3)) s4 else s4)
                    in (Ok \<lparr>br_migrated_this_batch = n, br_total_migrated = length (mg_migrated st3),
                            br_complete = mg_complete st3, br_batch_number = mg_batch_number st3,
                            br_pending_recovery_count = length (mg_pending_recovery st3)\<rparr>, s5))))"

definition recover_migration_entry :: "env \<Rightarrow> address \<Rightarrow> address \<Rightarrow> int \<Rightarrow> 't vault \<Rightarrow>
    (migration_error, migration_recovery_result) outcome \<times> 't vault" where
  "recover_migration_entry e admin provider verified_balance s =
     (if \<not> has_auth e admin then (Panic, s)
      else if \<not> is_in_vec (mg_pending_recovery (get_state s)) provider then (Err NotInRecovery, s)
      else (let st0 = get_state s;
                v2 = smap_set (stakes s) provider
                       \<lparr>si_balance = verified_balance, si_locked_until = 0,
                        si_last_updated = ledger_timestamp e\<rparr>;
                st1 = st0\<lparr>mg_pending_recovery := remove_from_vec (mg_pending_recovery st0) provider,
                          mg_migrated := mg_migrated st0 @ [provider]\<rparr>;
                st2 = st1\<lparr>mg_complete := accounted st1 (mg_total_v1_providers st1)\<rparr>;
                s1 = save_state st2 (save_v2 v2 s);
                s2 = emit_recovery provider verified_balance (length (mg_pending_recovery st2)) s1;
                s3 = (if mg_complete st2
                      then emit_migration_complete (length (mg_migrated st2)) s2 else s2)
            in (Ok \<lparr>rr_provider = provider, rr_corrected_balance = verified_balance,
                    rr_remaining_recovery = length (mg_pending_recovery st2),
                    rr_migration_complete = mg_complete st2\<rparr>, s3)))"

definition seed_v1_stakes :: "(address, int) smap \<Rightarrow> 't vault \<Rightarrow> 't vault" where
  "seed_v1_stakes m s = s\<lparr>k_stakes_v1 := Some m\<rparr>"

definition get_v2_balance :: "address \<Rightarrow> 't vault \<Rightarrow> int option" where
  "get_v2_balance provider s = map_option si_balance (smap_get (stakes s) provider)"

section \<open>What a batch does\<close>

lemma publish_frame: "publish s ts d = s\<lparr>event_log := event_log (publish s ts d)\<rparr>"
  by (simp add: publish_def)

lemma migrate_loop_spec:
  "\<exists>v2' log. migrate_loop now v1 ps v2 st n s =
       (Ok (v2', st\<lparr>mg_migrated := mg_migrated st @ ps\<rparr>, n + length ps), s\<lparr>event_log := log\<rparr>) \<and>
     (\<forall>p. smap_get v2' p = (if p \<in> set ps
        then Some \<lparr>si_balance = get_or 0 (smap_get v1 p), si_locked_until = 0, si_last_updated = now\<rparr>
        else smap_get v2 p))"
proof (induction ps arbitrary: v2 st n s)
  case Nil
  show ?case by (rule exI [of _ v2], rule exI [of _ "event_log s"]) simp
next
  case (Cons p ps)
  let ?v2 = "smap_set v2 p \<lparr>si_balance = get_or 0 (smap_get v1 p), si_locked_until = 0, si_last_updated = now\<rparr>"
  let ?s = "emit_verified p (get_or 0 (smap_get v1 p)) (get_or 0 (smap_get v1 p)) s"
  obtain v2' log where IH: "migrate_loop now v1 ps ?v2 (st\<lparr>mg_migrated := mg_migrated st @ [p]\<rparr>) (n + 1) ?s =
      (Ok (v2', st\<lparr>mg_migrated := mg_migrated st @ [p]\<rparr>\<lparr>mg_migrated := (mg_migrated st @ [p]) @ ps\<rparr>, n + 1 + length ps),
       ?s\<lparr>event_log := log\<rparr>)"
    "\<forall>q. smap_get v2' q = (if q \<in> set ps
        then Some \<lparr>si_balance = get_or 0 (smap_get v1 q), si_locked_until = 0, si_last_updated = now\<rparr>
        else smap_get ?v2 q)"
    using Cons [of ?v2 "st\<lparr>mg_migrated := mg_migrated st @ [p]\<rparr>" "n + 1" ?s] by auto
  have "?s\<lparr>event_log := log\<rparr> = s\<lparr>event_log := log\<rparr>" by (simp add: emit_verified_def publish_def)
  with IH show ?case by (intro exI [of _ v2'] exI [of _ log]) (simp add: Let_def)
qed

text \<open>The part of the state the migration works on, and its effect.\<close>

lemma migrate_batch:
  assumes "has_auth e admin" "\<not> mg_complete (get_state s)" "mg_batch_number (get_state s) < u32_max"
  obtains r s' where "migrate_stakes_v1_to_v2 e admin b s = (Ok r, s')"
    "mg_migrated (get_state s') = mg_migrated (get_state s) @ take b (pending_providers (get_v1 s) (get_state s))"
    "mg_pending_recovery (get_state s') = mg_pending_recovery (get_state s)"
    "mg_batch_number (get_state s') = Suc (mg_batch_number (get_state s))"
    "mg_complete (get_state s') = accounted (get_state s') (length (get_v1 s))" "br_complete r = mg_complete (get_state s')"
    "get_v1 s' = get_v1 s"
    "\<And>p. get_v2_balance p s' = (if p \<in> set (take b (pending_providers (get_v1 s) (get_state s)))
       then Some (get_or 0 (smap_get (get_v1 s) p)) else get_v2_balance p s)"
proof -
  let ?st = "(get_state s)\<lparr>mg_total_v1_providers := length (get_v1 s), mg_batch_number := mg_batch_number (get_state s) + 1\<rparr>"
  let ?P = "pending_providers (get_v1 s) (get_state s)"
  let ?s1 = "emit_batch_start (mg_batch_number (get_state s) + 1) (length ?P) (length (mg_pending_recovery (get_state s))) s"
  have tk: "take (min b (length ?P)) ?P = take b ?P" by (simp add: min_def)
  obtain v2' log where loop: "migrate_loop (ledger_timestamp e) (get_v1 s) (take b ?P) (stakes s) ?st 0 ?s1 =
      (Ok (v2', ?st\<lparr>mg_migrated := mg_migrated (get_state s) @ take b ?P\<rparr>, length (take b ?P)), ?s1\<lparr>event_log := log\<rparr>)"
    "\<forall>p. smap_get v2' p = (if p \<in> set (take b ?P)
        then Some \<lparr>si_balance = get_or 0 (smap_get (get_v1 s) p), si_locked_until = 0, si_last_updated = ledger_timestamp e\<rparr>
        else smap_get (stakes s) p)"
    using migrate_loop_spec [of "ledger_timestamp e" "get_v1 s" "take b ?P" "stakes s" ?st 0 ?s1] by auto
  let ?st3 = "?st\<lparr>mg_migrated := mg_migrated (get_state s) @ take b ?P\<rparr>
    \<lparr>mg_complete := accounted (?st\<lparr>mg_migrated := mg_migrated (get_state s) @ take b ?P\<rparr>) (length (get_v1 s))\<rparr>"
  obtain r s' where run: "migrate_stakes_v1_to_v2 e admin b s = (Ok r, s')" "br_complete r = mg_complete ?st3"
    "k_migration_state s' = Some ?st3" "k_stakes_v2 s' = Some v2'" "k_stakes_v1 s' = k_stakes_v1 s"
    using assms loop(1) tk
    by (simp add: migrate_stakes_v1_to_v2_def Let_def save_state_def save_v2_def emit_defs publish_def)
  show ?thesis
  proof (rule that [OF run(1)])
    show "get_v2_balance p s' = (if p \<in> set (take b ?P)
       then Some (get_or 0 (smap_get (get_v1 s) p)) else get_v2_balance p s)" for p
      using loop(2) run(4) by (simp add: get_v2_balance_def stakes_def)
  qed (use run in \<open>simp_all add: get_state_def [of s'] get_v1_def accounted_def\<close>)
qed

section \<open>Runs of batches\<close>

text \<open>A migration that has not started; a run of successful batches with the sum of their sizes.\<close>

definition migration_fresh :: "'t vault \<Rightarrow> bool" where
  "migration_fresh s \<longleftrightarrow> mg_migrated (get_state s) = [] \<and> mg_pending_recovery (get_state s) = [] \<and>
     \<not> mg_complete (get_state s) \<and> smap_ok (get_v1 s)"

inductive mig_run :: "'t vault \<Rightarrow> nat \<Rightarrow> 't vault \<Rightarrow> bool" for s0 :: "'t vault" where
  start: "mig_run s0 0 s0"
| batch: "mig_run s0 n s \<Longrightarrow> invoke (migrate_stakes_v1_to_v2 e admin b) s = (Ok r, s') \<Longrightarrow> mig_run s0 (n + b) s'"

lemma migrate_Ok_guards:
  assumes "migrate_stakes_v1_to_v2 e admin b s = (Ok r, s')"
  shows "has_auth e admin" "\<not> mg_complete (get_state s)" "mg_batch_number (get_state s) < u32_max"
  using assms by (auto simp: migrate_stakes_v1_to_v2_def split: if_splits)

definition migrated_upto :: "'t vault \<Rightarrow> nat \<Rightarrow> 't vault \<Rightarrow> bool" where
  "migrated_upto s0 n s \<longleftrightarrow> get_v1 s = get_v1 s0 \<and> mg_pending_recovery (get_state s) = [] \<and>
     mg_migrated (get_state s) = take n (smap_keys (get_v1 s0)) \<and>
     (\<forall>p. get_v2_balance p s = (if p \<in> set (take n (smap_keys (get_v1 s0)))
        then smap_get (get_v1 s0) p else get_v2_balance p s0))"

lemma filter_prefix: "distinct (xs @ ys) \<Longrightarrow> filter (\<lambda>k. k \<notin> set xs) (xs @ ys) = ys"
  by (auto simp: filter_empty_conv intro!: filter_True)

lemma pending_drop:
  assumes "distinct (smap_keys v1)" "mg_migrated st = take n (smap_keys v1)" "mg_pending_recovery st = []"
  shows "pending_providers v1 st = drop n (smap_keys v1)"
proof -
  let ?K = "smap_keys v1"
  have "filter (\<lambda>k. k \<notin> set (take n ?K)) ?K = drop n ?K"
    using filter_prefix [of "take n ?K" "drop n ?K"] assms(1) by (simp only: append_take_drop_id)
  moreover have "(\<lambda>k. \<not> is_in_vec (mg_migrated st) k \<and> \<not> is_in_vec (mg_pending_recovery st) k) = (\<lambda>k. k \<notin> set (take n ?K))"
    by (auto simp: is_in_vec_def list_ex_iff assms(2,3) fun_eq_iff)
  ultimately show ?thesis by (simp add: pending_providers_def)
qed

lemma migrated_upto_batch:
  assumes "migrated_upto s0 n s" "smap_ok (get_v1 s0)" "migrate_stakes_v1_to_v2 e admin b s = (Ok r, s')"
  shows "migrated_upto s0 (n + b) s'" "br_complete r \<longleftrightarrow> length (get_v1 s0) \<le> n + b"
    "mg_complete (get_state s') = br_complete r"
proof -
  let ?K = "smap_keys (get_v1 s0)"
  have K: "distinct ?K" "length ?K = length (get_v1 s0)"
    using smap_ok_distinct [OF assms(2)] by (simp_all add: smap_keys_def)
  have P: "pending_providers (get_v1 s) (get_state s) = drop n ?K"
    using pending_drop [OF K(1), of "get_state s" n] assms(1) by (simp add: migrated_upto_def)
  obtain r2 s2 where b: "migrate_stakes_v1_to_v2 e admin b s = (Ok r2, s2)"
    "mg_migrated (get_state s2) = mg_migrated (get_state s) @ take b (drop n ?K)"
    "mg_pending_recovery (get_state s2) = mg_pending_recovery (get_state s)"
    "mg_complete (get_state s2) = accounted (get_state s2) (length (get_v1 s))" "br_complete r2 = mg_complete (get_state s2)"
    "get_v1 s2 = get_v1 s"
    "\<And>p. get_v2_balance p s2 = (if p \<in> set (take b (drop n ?K))
       then Some (get_or 0 (smap_get (get_v1 s) p)) else get_v2_balance p s)"
    using migrate_batch [OF migrate_Ok_guards [OF assms(3)], of b] unfolding P by blast
  have [simp]: "r2 = r" "s2 = s'" using b(1) assms(3) by simp_all
  have take: "take (n + b) ?K = take n ?K @ take b (drop n ?K)" by (rule take_add)
  have get: "Some (get_or 0 (smap_get (get_v1 s0) p)) = smap_get (get_v1 s0) p" if "p \<in> set ?K" for p
    using that smap_get_None_iff [of "get_v1 s0" p] by (cases "smap_get (get_v1 s0) p") auto
  have up: "mg_migrated (get_state s') = take (n + b) ?K" "mg_pending_recovery (get_state s') = []"
    using b(2,3) assms(1) by (simp_all add: migrated_upto_def take)
  show "migrated_upto s0 (n + b) s'"
    unfolding migrated_upto_def
  proof (intro conjI allI)
    fix p
    show "get_v2_balance p s' = (if p \<in> set (take (n + b) ?K) then smap_get (get_v1 s0) p else get_v2_balance p s0)"
      using b(7) [of p] assms(1) get [of p] in_set_takeD [of p b "drop n ?K"] in_set_dropD [of p n ?K]
      unfolding take by (auto simp: migrated_upto_def)
  qed (use up b(6) assms(1) in \<open>simp_all add: migrated_upto_def\<close>)
  show "br_complete r \<longleftrightarrow> length (get_v1 s0) \<le> n + b" "mg_complete (get_state s') = br_complete r"
    using b(4,5) assms(1) up K(2) by (auto simp: accounted_def migrated_upto_def)
qed

lemma mig_run_upto:
  assumes "mig_run s0 n s" "migration_fresh s0"
  shows "migrated_upto s0 n s"
  using assms
proof induction
  case start
  then show ?case by (simp add: migrated_upto_def migration_fresh_def)
next
  case (batch n s e admin b r s')
  then show ?case by (auto simp: migration_fresh_def intro: migrated_upto_batch)
qed

section \<open>A sample run\<close>

text \<open>Two V1 providers; one of them already has a position in V2.\<close>

definition sample_v1 :: "balance_ledger vault" where
  "sample_v1 = seed_v1_stakes [(Addr 3, 10), (Addr 5, 20)] sample_staked"

lemma sample_v1_facts:
  "migration_fresh sample_v1" "get_v1 sample_v1 = [(Addr 3, 10), (Addr 5, 20)]"
  "mg_batch_number (get_state sample_v1) < u32_max" "\<not> mg_complete (get_state sample_v1)"
  "get_v2_balance (Addr 3) sample_v1 = Some 600000000" "get_v2_balance (Addr 5) sample_v1 = None"
  "has_auth (sample_env 100 5) (Addr 1)"
  by (simp_all add: sample_v1_def seed_v1_stakes_def migration_fresh_def get_state_def get_v1_def sample_staked_def
      get_v2_balance_def stakes_def smap_ok_def smap_keys_def sample_defs u32_max_def)

lemma sample_mig_run: "\<exists>s. mig_run sample_v1 1 s"
proof -
  obtain r s' where "migrate_stakes_v1_to_v2 (sample_env 100 5) (Addr 1) 1 sample_v1 = (Ok r, s')"
    using migrate_batch [OF sample_v1_facts(7,4,3), of 1] by blast
  then have "mig_run sample_v1 (0 + 1) s'" by (intro mig_run.batch [OF mig_run.start]) simp
  then show ?thesis by auto
qed

section \<open>Properties\<close>

text \<open>
  The migration preserves every balance. After any sequence of batches, in any sizes, exactly
  the first \<open>n\<close> providers of the V1 map are migrated, where \<open>n\<close> is the sum of the batch sizes: each of them
  has its V1 balance in V2, nobody else's V2 entry has changed, and no entry is waiting for recovery.
\<close>

theorem migration_preserves_balances:
  assumes "mig_run s0 n s" and "migration_fresh s0"
  shows "mg_migrated (get_state s) = take n (smap_keys (get_v1 s0)) \<and> mg_pending_recovery (get_state s) = [] \<and>
    get_v2_balance p s = (if p \<in> set (take n (smap_keys (get_v1 s0)))
      then smap_get (get_v1 s0) p else get_v2_balance p s0)"
  using mig_run_upto [OF assms] by (simp add: migrated_upto_def)

theorem migration_preserves_balances_witness:
  "\<exists>s. mig_run sample_v1 1 s \<and> get_v2_balance (Addr 3) s = Some 10 \<and> get_v2_balance (Addr 5) s = None"
proof -
  obtain s where run: "mig_run sample_v1 1 s" using sample_mig_run by blast
  from migration_preserves_balances [OF run sample_v1_facts(1)] run show ?thesis
    by (auto simp: sample_v1_facts smap_keys_def)
qed

text \<open>
  C22: The migration completes and then stops. As long as it is not complete, a signed call succeeds
  (no entry can fail its read-back check); it reports completion exactly when the batch sizes add up to the
  number of V1 providers, and after that every further call is refused.
\<close>

theorem migration_completes:
  assumes "mig_run s0 n s" and "migration_fresh s0" and "has_auth e admin"
    and "\<not> mg_complete (get_state s)" and "mg_batch_number (get_state s) < u32_max"
  shows "\<exists>r s'. migrate_stakes_v1_to_v2 e admin b s = (Ok r, s') \<and>
    (br_complete r \<longleftrightarrow> length (get_v1 s0) \<le> n + b) \<and>
    (br_complete r \<longrightarrow> fst (migrate_stakes_v1_to_v2 e admin c s') = Err AlreadyComplete)"
proof -
  obtain r s' where run: "migrate_stakes_v1_to_v2 e admin b s = (Ok r, s')"
    using migrate_batch [OF assms(3-5), of b] by blast
  have "smap_ok (get_v1 s0)" using assms(2) by (simp add: migration_fresh_def)
  note m = migrated_upto_batch [OF mig_run_upto [OF assms(1,2)] this run]
  have "fst (migrate_stakes_v1_to_v2 e admin c s') = Err AlreadyComplete" if "br_complete r"
    using that m(3) assms(3) by (simp add: migrate_stakes_v1_to_v2_def)
  with run m(2) show ?thesis by blast
qed

theorem migration_completes_witness:
  "\<exists>r s'. migrate_stakes_v1_to_v2 (sample_env 100 5) (Addr 1) 2 sample_v1 = (Ok r, s') \<and> br_complete r"
  using migration_completes [OF mig_run.start sample_v1_facts(1,7,4,3), of 2 0]
  by (auto simp: sample_v1_facts(2))

end
