(* ===== verification/Collector_State.thy ===== *)
theory Collector_State
  imports Shared_State Token_Calls
begin

text \<open>
  The fee collector (\<^verbatim>\<open>fee_collector/src\<close>): its errors (\<^verbatim>\<open>errors.rs\<close>), the data it stores and the accessors
  of its storage (\<^verbatim>\<open>storage.rs\<close>), with the types it takes from \<^verbatim>\<open>common\<close> and \<^verbatim>\<open>shared\<close>. As for the vault, the
  storage is a record that extends \<open>shared_store\<close> with a field for every key of \<^verbatim>\<open>StorageKey\<close>; the settings
  and the statistics are sub-records. The accessors are one-liners over it and are unfolded together
  (\<open>store_defs\<close>).

  Temporary storage of the host lives until its entries expire, not until the end of a transaction. The
  fee cache is therefore a field of the state like the others, and its expiry is a step of its own.
\<close>

named_theorems store_defs "unfolding rules of the storage accessors"

section \<open>Errors\<close>

datatype fee_error =
    AlreadyInitialized | NotInitialized | Unauthorized | InvalidAmount | InsufficientTreasuryBalance
  | WithdrawalNotQueued | TimelockNotElapsed | ArithmeticOverflow | FeeRateTooHigh | FeeRateTooLow
  | OracleNotConfigured | OracleConversionFailed | FeeRoundedToZero | BurnRateTooHigh | DivisionByZero
  | InvalidFeeConfiguration | NetworkConditionInvalid | FailedCollectionNotFound | RetryLimitExceeded
  | IterationLimitExceeded | WaterfallNotConfigured | PreferredTokenInsufficient | PayoutCurrencyUnchanged
  | InvalidMultiplierBounds | SelfReferralNotAllowed | ReferralAlreadyRegistered | IncompatibleContractVersion
  | UnauthorizedCaller | SnapshotNotFound | InvalidTokenMetadata | PayoutExceedsCap
  | InsufficientInsuranceBalance | ClaimAlreadyProcessed | ContractPaused | InsufficientTokenBalance
  | InsufficientTokenAllowance | TokenOperationFailed

definition fee_error_of_token :: "token_failure \<Rightarrow> fee_error" where
  "fee_error_of_token failure =
     (case failure of
        TokenUnauthorized \<Rightarrow> Unauthorized
      | TokenInsufficientBalance \<Rightarrow> InsufficientTokenBalance
      | TokenInsufficientAllowance \<Rightarrow> InsufficientTokenAllowance
      | _ \<Rightarrow> TokenOperationFailed)"

section \<open>Types of \<^verbatim>\<open>common\<close> and \<^verbatim>\<open>shared\<close>\<close>

datatype error_category = Validation | Authorization | ExternalDependency | Arithmetic | Upgrade
  | Network | Recovery | CapacityLimit | InvariantViolation

definition error_category_code :: "error_category \<Rightarrow> nat" where
  "error_category_code c =
     (case c of Validation \<Rightarrow> 1 | Authorization \<Rightarrow> 2 | ExternalDependency \<Rightarrow> 3 | Arithmetic \<Rightarrow> 4
      | Upgrade \<Rightarrow> 5 | Network \<Rightarrow> 6 | Recovery \<Rightarrow> 7 | CapacityLimit \<Rightarrow> 8 | InvariantViolation \<Rightarrow> 9)"

datatype recovery_strategy = Retry | Defer | Escalate | ManualReview

definition recovery_strategy_code :: "recovery_strategy \<Rightarrow> nat" where
  "recovery_strategy_code r = (case r of Retry \<Rightarrow> 1 | Defer \<Rightarrow> 2 | Escalate \<Rightarrow> 3 | ManualReview \<Rightarrow> 4)"

record token_metadata =
  meta_symbol :: string
  meta_name :: string
  meta_decimals :: nat

datatype token_metadata_error = UnsupportedDecimals | InvalidSymbol | InvalidName | MetadataMismatch

definition MAX_DECIMALS :: nat where
  "MAX_DECIMALS = 18"

definition validate_metadata :: "token_metadata \<Rightarrow> token_metadata_error + unit" where
  "validate_metadata m =
     (if meta_decimals m > MAX_DECIMALS then Inl UnsupportedDecimals
      else if length (meta_symbol m) < 1 \<or> length (meta_symbol m) > 12 then Inl InvalidSymbol
      else if length (meta_name m) = 0 \<or> length (meta_name m) > 64 then Inl InvalidName
      else Inr ())"

section \<open>Stored data\<close>

record waterfall_tier =
  wt_name :: string
  wt_priority :: nat
  wt_target :: int
  wt_minimum :: int
  wt_recipient :: address

record waterfall_tier_result =
  wr_name :: string
  wr_recipient :: address
  wr_priority :: nat
  wr_allocated :: int

record fee_optimization_config =
  max_dynamic_rate_bps :: nat
  congestion_sensitivity_bps :: nat
  min_effective_rate_bps :: nat
  max_retry_attempts :: nat

record error_report =
  er_category :: error_category
  er_strategy :: recovery_strategy
  er_message :: string
  er_timestamp :: nat

record failed_fee_collection =
  ff_id :: string
  ff_trader :: address
  ff_token :: address
  ff_trade_amount :: int
  ff_trade_asset :: asset
  ff_retry_count :: nat
  ff_last_error :: string

record queued_withdrawal =
  qw_recipient :: address
  qw_token :: address
  qw_amount :: int
  qw_queued_at :: nat

record monthly_trade_volume =
  month_bucket :: nat
  volume_usd :: int

record balance_mismatch =
  bm_token :: address
  bm_expected :: int
  bm_actual :: int
  bm_delta :: int

record volume_tier =
  vt_threshold_usd :: int
  vt_discount_bps :: nat

record forecast_config_data =
  epoch_cadence_days :: nat
  window_days :: nat

record congestion_config =
  min_multiplier_bps :: nat
  max_multiplier_bps :: nat
  staleness_threshold_secs :: nat
  default_multiplier_bps :: nat

record congestion_signal =
  signal_multiplier_bps :: nat
  signal_updated_at :: nat

record fee_split_policy =
  protocol_bps :: nat
  provider_bps :: nat

record tx_fee_config_cache =
  fc_optimization_config :: fee_optimization_config
  fc_network_score :: nat
  fc_burn_rate :: nat
  fc_protocol_token :: "address option"

section \<open>Constants\<close>

definition MAX_FEE_RATE_BPS :: nat where
  "MAX_FEE_RATE_BPS = 100"

definition MIN_FEE_RATE_BPS :: nat where
  "MIN_FEE_RATE_BPS = 1"

definition DEFAULT_FEE_RATE_BPS :: nat where
  "DEFAULT_FEE_RATE_BPS = 30"

definition DEFAULT_BURN_RATE_BPS :: nat where
  "DEFAULT_BURN_RATE_BPS = 1000"

definition MAX_BURN_RATE_BPS :: nat where
  "MAX_BURN_RATE_BPS = 10000"

definition DEFAULT_NETWORK_SCORE_BPS :: nat where
  "DEFAULT_NETWORK_SCORE_BPS = 0"

definition DEFAULT_FEE_OPTIMIZATION_MAX_RATE_BPS :: nat where
  "DEFAULT_FEE_OPTIMIZATION_MAX_RATE_BPS = 100"

definition DEFAULT_CONGESTION_SENSITIVITY_BPS :: nat where
  "DEFAULT_CONGESTION_SENSITIVITY_BPS = 50"

definition DEFAULT_MAX_RETRY_ATTEMPTS :: nat where
  "DEFAULT_MAX_RETRY_ATTEMPTS = 3"

definition LEDGERS_PER_MONTH_APPROX :: nat where
  "LEDGERS_PER_MONTH_APPROX = 518400"

definition SILVER_TIER_VOLUME_USD :: int where
  "SILVER_TIER_VOLUME_USD = 10000 * 10000000"

definition GOLD_TIER_VOLUME_USD :: int where
  "GOLD_TIER_VOLUME_USD = 50000 * 10000000"

definition SILVER_DISCOUNT_BPS :: nat where
  "SILVER_DISCOUNT_BPS = 5"

definition GOLD_DISCOUNT_BPS :: nat where
  "GOLD_DISCOUNT_BPS = 10"

definition DEFAULT_REFERRAL_FEE_SHARE_BPS :: nat where
  "DEFAULT_REFERRAL_FEE_SHARE_BPS = 0"

definition DEFAULT_REVENUE_SHARE_RATE_BPS :: nat where
  "DEFAULT_REVENUE_SHARE_RATE_BPS = 2000"

definition DEFAULT_EPOCH_CADENCE_DAYS :: nat where
  "DEFAULT_EPOCH_CADENCE_DAYS = 1"

definition DEFAULT_FORECAST_WINDOW_DAYS :: nat where
  "DEFAULT_FORECAST_WINDOW_DAYS = 7"

definition SECONDS_PER_DAY_FC :: nat where
  "SECONDS_PER_DAY_FC = 86400"

definition DEFAULT_MAX_REBATE_BPS :: nat where
  "DEFAULT_MAX_REBATE_BPS = 8000"

definition DEFAULT_PROTOCOL_BPS :: nat where
  "DEFAULT_PROTOCOL_BPS = 3000"

definition DEFAULT_PROVIDER_BPS :: nat where
  "DEFAULT_PROVIDER_BPS = 7000"

definition BPS_TOTAL :: nat where
  "BPS_TOTAL = 10000"

definition FEE_COLLECTOR_VERSION :: nat where
  "FEE_COLLECTOR_VERSION = 2"

lemmas fee_constants =
  MAX_FEE_RATE_BPS_def MIN_FEE_RATE_BPS_def DEFAULT_FEE_RATE_BPS_def DEFAULT_BURN_RATE_BPS_def MAX_BURN_RATE_BPS_def
  DEFAULT_NETWORK_SCORE_BPS_def DEFAULT_FEE_OPTIMIZATION_MAX_RATE_BPS_def DEFAULT_CONGESTION_SENSITIVITY_BPS_def
  DEFAULT_MAX_RETRY_ATTEMPTS_def LEDGERS_PER_MONTH_APPROX_def SILVER_TIER_VOLUME_USD_def GOLD_TIER_VOLUME_USD_def
  SILVER_DISCOUNT_BPS_def GOLD_DISCOUNT_BPS_def DEFAULT_REFERRAL_FEE_SHARE_BPS_def DEFAULT_REVENUE_SHARE_RATE_BPS_def
  DEFAULT_EPOCH_CADENCE_DAYS_def DEFAULT_FORECAST_WINDOW_DAYS_def SECONDS_PER_DAY_FC_def DEFAULT_MAX_REBATE_BPS_def
  DEFAULT_PROTOCOL_BPS_def DEFAULT_PROVIDER_BPS_def BPS_TOTAL_def FEE_COLLECTOR_VERSION_def MAX_DECIMALS_def

section \<open>The storage\<close>

record fee_settings =
  fk_admin :: "address option"
  fk_oracle_contract :: "address option"
  fk_fee_rate :: "nat option"
  fk_burn_rate :: "nat option"
  fk_network_condition_score :: "nat option"
  fk_fee_optimization_config :: "fee_optimization_config option"
  fk_protocol_token :: "address option"
  fk_revenue_share_rate_bps :: "nat option"
  fk_waterfall_config :: "waterfall_tier list option"
  fk_referral_fee_share_bps :: "nat option"
  fk_volume_discount_config :: "volume_tier list option"
  fk_forecast_config :: "forecast_config_data option"
  fk_congestion_config :: "congestion_config option"
  fk_congestion_signal :: "congestion_signal option"
  fk_max_rebate_bps :: "nat option"
  fk_config_version :: "nat option"
  fk_fee_split_policy :: "fee_split_policy option"
  fk_authorized_caller :: "address \<Rightarrow> bool option"
  fk_registered_token_metadata :: "address \<Rightarrow> token_metadata option"
  fk_insurance_payout_cap :: "address \<Rightarrow> int option"
  fk_provider_payout_currency :: "address \<Rightarrow> address option"
  fk_referrer :: "address \<Rightarrow> address option"

record fee_statistics =
  fk_monthly_trade_volume :: "address \<Rightarrow> monthly_trade_volume option"
  fk_provider_daily_fee_shares :: "address \<Rightarrow> nat \<Rightarrow> int option"
  fk_provider_earnings_first_day :: "address \<Rightarrow> nat option"
  fk_provider_total_earnings :: "address \<Rightarrow> int option"
  fk_provider_earnings_index :: "address list option"
  fk_has_traded :: "address \<Rightarrow> bool option"
  fk_daily_fee_total :: "address \<Rightarrow> nat \<Rightarrow> int option"
  fk_last_forecast_day :: "address \<Rightarrow> nat option"
  fk_last_error_report :: "error_report option"
  fk_last_revenue_share_snapshot :: "nat option"
  fk_failed_fee_collection :: "string \<Rightarrow> failed_fee_collection option"

record 't collector = shared_store +
  conf :: fee_settings
  stats :: fee_statistics
  fk_treasury_balance :: "address \<Rightarrow> int option"
  fk_insurance_balance :: "address \<Rightarrow> int option"
  fk_revenue_share_pool :: "address \<Rightarrow> int option"
  fk_revenue_share_pool_index :: "address list option"
  fk_provider_pending_fees :: "address \<Rightarrow> address \<Rightarrow> int option"
  fk_epoch_rebate_distributed :: "address \<Rightarrow> nat \<Rightarrow> int option"
  fk_queued_withdrawal :: "queued_withdrawal option"
  fk_processed_insurance_claim :: "string \<Rightarrow> bool option"
  fk_tx_cache :: "nat \<Rightarrow> tx_fee_config_cache option"
  fk_tokens :: 't

type_synonym ('t, 'a) collector_result = "(fee_error, 'a) outcome \<times> 't collector"

definition empty_settings :: fee_settings where
  "empty_settings = \<lparr>fk_admin = None, fk_oracle_contract = None, fk_fee_rate = None, fk_burn_rate = None,
     fk_network_condition_score = None, fk_fee_optimization_config = None, fk_protocol_token = None,
     fk_revenue_share_rate_bps = None, fk_waterfall_config = None, fk_referral_fee_share_bps = None,
     fk_volume_discount_config = None, fk_forecast_config = None, fk_congestion_config = None,
     fk_congestion_signal = None, fk_max_rebate_bps = None, fk_config_version = None, fk_fee_split_policy = None,
     fk_authorized_caller = (\<lambda>_. None), fk_registered_token_metadata = (\<lambda>_. None),
     fk_insurance_payout_cap = (\<lambda>_. None), fk_provider_payout_currency = (\<lambda>_. None), fk_referrer = (\<lambda>_. None)\<rparr>"

definition empty_statistics :: fee_statistics where
  "empty_statistics = \<lparr>fk_monthly_trade_volume = (\<lambda>_. None), fk_provider_daily_fee_shares = (\<lambda>_ _. None),
     fk_provider_earnings_first_day = (\<lambda>_. None), fk_provider_total_earnings = (\<lambda>_. None),
     fk_provider_earnings_index = None, fk_has_traded = (\<lambda>_. None), fk_daily_fee_total = (\<lambda>_ _. None),
     fk_last_forecast_day = (\<lambda>_. None), fk_last_error_report = None, fk_last_revenue_share_snapshot = None,
     fk_failed_fee_collection = (\<lambda>_. None)\<rparr>"

text \<open>The storage of a newly deployed contract.\<close>

definition empty_collector :: "'t \<Rightarrow> 't collector" where
  "empty_collector t =
     \<lparr>k_initialized = None, k_paused = None, k_scoped_paused = (\<lambda>_. None), k_shared_lock = None,
      k_contract_version = None, k_ms_config = None, k_ms_next_id = None, k_ms_proposals = [],
      k_rl_config = (\<lambda>_. None), k_rl_first_action = [], k_rl_window = (\<lambda>_. []), event_log = [],
      conf = empty_settings, stats = empty_statistics, fk_treasury_balance = (\<lambda>_. None),
      fk_insurance_balance = (\<lambda>_. None), fk_revenue_share_pool = (\<lambda>_. None), fk_revenue_share_pool_index = None,
      fk_provider_pending_fees = (\<lambda>_ _. None), fk_epoch_rebate_distributed = (\<lambda>_ _. None),
      fk_queued_withdrawal = None, fk_processed_insurance_claim = (\<lambda>_. None), fk_tx_cache = (\<lambda>_. None),
      fk_tokens = t\<rparr>"

section \<open>Accessors\<close>

text \<open>Settings. \<^verbatim>\<open>get_admin\<close> unwraps; its callers trap on \<open>None\<close>.\<close>

definition fc_get_admin :: "'t collector \<Rightarrow> address option" where
  "fc_get_admin s = fk_admin (conf s)"

definition fc_set_admin :: "address \<Rightarrow> 't collector \<Rightarrow> 't collector" where
  "fc_set_admin v s = s\<lparr>conf := (conf s)\<lparr>fk_admin := Some v\<rparr>\<rparr>"

definition is_authorized_caller :: "address \<Rightarrow> 't collector \<Rightarrow> bool" where
  "is_authorized_caller a s = get_or False (fk_authorized_caller (conf s) a)"

definition set_authorized_caller :: "address \<Rightarrow> 't collector \<Rightarrow> 't collector" where
  "set_authorized_caller a s = s\<lparr>conf := (conf s)\<lparr>fk_authorized_caller := (fk_authorized_caller (conf s))(a := Some True)\<rparr>\<rparr>"

definition remove_authorized_caller :: "address \<Rightarrow> 't collector \<Rightarrow> 't collector" where
  "remove_authorized_caller a s = s\<lparr>conf := (conf s)\<lparr>fk_authorized_caller := (fk_authorized_caller (conf s))(a := None)\<rparr>\<rparr>"

definition get_oracle_contract :: "'t collector \<Rightarrow> address option" where
  "get_oracle_contract s = fk_oracle_contract (conf s)"

definition set_oracle_contract_storage :: "address \<Rightarrow> 't collector \<Rightarrow> 't collector" where
  "set_oracle_contract_storage v s = s\<lparr>conf := (conf s)\<lparr>fk_oracle_contract := Some v\<rparr>\<rparr>"

definition get_treasury_balance :: "address \<Rightarrow> 't collector \<Rightarrow> int" where
  "get_treasury_balance a s = get_or 0 (fk_treasury_balance s a)"

definition set_treasury_balance :: "address \<Rightarrow> int \<Rightarrow> 't collector \<Rightarrow> 't collector" where
  "set_treasury_balance a v s = s\<lparr>fk_treasury_balance := (fk_treasury_balance s)(a := Some v)\<rparr>"

definition get_queued_withdrawal :: "'t collector \<Rightarrow> queued_withdrawal option" where
  "get_queued_withdrawal s = fk_queued_withdrawal s"

definition set_queued_withdrawal :: "queued_withdrawal \<Rightarrow> 't collector \<Rightarrow> 't collector" where
  "set_queued_withdrawal v s = s\<lparr>fk_queued_withdrawal := Some v\<rparr>"

definition remove_queued_withdrawal :: "'t collector \<Rightarrow> 't collector" where
  "remove_queued_withdrawal s = s\<lparr>fk_queued_withdrawal := None\<rparr>"

definition get_fee_rate :: "'t collector \<Rightarrow> nat" where
  "get_fee_rate s = get_or DEFAULT_FEE_RATE_BPS (fk_fee_rate (conf s))"

definition set_fee_rate_storage :: "nat \<Rightarrow> 't collector \<Rightarrow> 't collector" where
  "set_fee_rate_storage v s = s\<lparr>conf := (conf s)\<lparr>fk_fee_rate := Some v\<rparr>\<rparr>"

definition get_network_condition_score :: "'t collector \<Rightarrow> nat" where
  "get_network_condition_score s = get_or DEFAULT_NETWORK_SCORE_BPS (fk_network_condition_score (conf s))"

definition set_network_condition_score :: "nat \<Rightarrow> 't collector \<Rightarrow> 't collector" where
  "set_network_condition_score v s = s\<lparr>conf := (conf s)\<lparr>fk_network_condition_score := Some v\<rparr>\<rparr>"

definition default_optimization_config :: fee_optimization_config where
  "default_optimization_config =
     \<lparr>max_dynamic_rate_bps = DEFAULT_FEE_OPTIMIZATION_MAX_RATE_BPS,
      congestion_sensitivity_bps = DEFAULT_CONGESTION_SENSITIVITY_BPS,
      min_effective_rate_bps = MIN_FEE_RATE_BPS, max_retry_attempts = DEFAULT_MAX_RETRY_ATTEMPTS\<rparr>"

definition get_fee_optimization_config :: "'t collector \<Rightarrow> fee_optimization_config" where
  "get_fee_optimization_config s = get_or default_optimization_config (fk_fee_optimization_config (conf s))"

definition set_fee_optimization_config_storage :: "fee_optimization_config \<Rightarrow> 't collector \<Rightarrow> 't collector" where
  "set_fee_optimization_config_storage v s = s\<lparr>conf := (conf s)\<lparr>fk_fee_optimization_config := Some v\<rparr>\<rparr>"

definition get_last_error_report :: "'t collector \<Rightarrow> error_report option" where
  "get_last_error_report s = fk_last_error_report (stats s)"

definition set_last_error_report :: "error_report \<Rightarrow> 't collector \<Rightarrow> 't collector" where
  "set_last_error_report v s = s\<lparr>stats := (stats s)\<lparr>fk_last_error_report := Some v\<rparr>\<rparr>"

definition get_failed_fee_collection :: "string \<Rightarrow> 't collector \<Rightarrow> failed_fee_collection option" where
  "get_failed_fee_collection a s = fk_failed_fee_collection (stats s) a"

definition set_failed_fee_collection :: "failed_fee_collection \<Rightarrow> 't collector \<Rightarrow> 't collector" where
  "set_failed_fee_collection v s =
     s\<lparr>stats := (stats s)\<lparr>fk_failed_fee_collection := (fk_failed_fee_collection (stats s))(ff_id v := Some v)\<rparr>\<rparr>"

definition remove_failed_fee_collection :: "string \<Rightarrow> 't collector \<Rightarrow> 't collector" where
  "remove_failed_fee_collection a s = s\<lparr>stats := (stats s)\<lparr>fk_failed_fee_collection := (fk_failed_fee_collection (stats s))(a := None)\<rparr>\<rparr>"

definition get_burn_rate :: "'t collector \<Rightarrow> nat" where
  "get_burn_rate s = get_or DEFAULT_BURN_RATE_BPS (fk_burn_rate (conf s))"

definition set_burn_rate_storage :: "nat \<Rightarrow> 't collector \<Rightarrow> 't collector" where
  "set_burn_rate_storage v s = s\<lparr>conf := (conf s)\<lparr>fk_burn_rate := Some v\<rparr>\<rparr>"

definition get_pending_fees :: "address \<Rightarrow> address \<Rightarrow> 't collector \<Rightarrow> int" where
  "get_pending_fees a b s = get_or 0 (fk_provider_pending_fees s a b)"

definition set_pending_fees :: "address \<Rightarrow> address \<Rightarrow> int \<Rightarrow> 't collector \<Rightarrow> 't collector" where
  "set_pending_fees a b v s = s\<lparr>fk_provider_pending_fees := (fk_provider_pending_fees s)(a := ((fk_provider_pending_fees s) a)(b := Some v))\<rparr>"

definition get_monthly_trade_volume :: "address \<Rightarrow> 't collector \<Rightarrow> monthly_trade_volume option" where
  "get_monthly_trade_volume a s = fk_monthly_trade_volume (stats s) a"

definition set_monthly_trade_volume :: "address \<Rightarrow> monthly_trade_volume \<Rightarrow> 't collector \<Rightarrow> 't collector" where
  "set_monthly_trade_volume a v s = s\<lparr>stats := (stats s)\<lparr>fk_monthly_trade_volume := (fk_monthly_trade_volume (stats s))(a := Some v)\<rparr>\<rparr>"

definition remove_monthly_trade_volume :: "address \<Rightarrow> 't collector \<Rightarrow> 't collector" where
  "remove_monthly_trade_volume a s = s\<lparr>stats := (stats s)\<lparr>fk_monthly_trade_volume := (fk_monthly_trade_volume (stats s))(a := None)\<rparr>\<rparr>"

definition get_provider_daily_fee_shares :: "address \<Rightarrow> nat \<Rightarrow> 't collector \<Rightarrow> int" where
  "get_provider_daily_fee_shares a b s = get_or 0 (fk_provider_daily_fee_shares (stats s) a b)"

definition get_provider_total_earnings :: "address \<Rightarrow> 't collector \<Rightarrow> int" where
  "get_provider_total_earnings a s = get_or 0 (fk_provider_total_earnings (stats s) a)"

definition get_provider_earnings_index :: "'t collector \<Rightarrow> address list" where
  "get_provider_earnings_index s = get_or [] (fk_provider_earnings_index (stats s))"

text \<open>The loop that looks for the provider is \<open>list_ex\<close>.\<close>

definition add_provider_to_earnings_index :: "address \<Rightarrow> 't collector \<Rightarrow> 't collector" where
  "add_provider_to_earnings_index provider s =
     (let index = get_provider_earnings_index s
      in if list_ex (\<lambda>a. a = provider) index then s
         else s\<lparr>stats := (stats s)\<lparr>fk_provider_earnings_index := Some (index @ [provider])\<rparr>\<rparr>)"

definition add_provider_total_earnings :: "address \<Rightarrow> int \<Rightarrow> 't collector \<Rightarrow> 't collector" where
  "add_provider_total_earnings provider amount s =
     add_provider_to_earnings_index provider
       (s\<lparr>stats := (stats s)\<lparr>fk_provider_total_earnings := (fk_provider_total_earnings (stats s))
          (provider := Some (saturating_add (get_provider_total_earnings provider s) amount))\<rparr>\<rparr>)"

definition add_provider_daily_fee_shares :: "address \<Rightarrow> nat \<Rightarrow> int \<Rightarrow> 't collector \<Rightarrow> 't collector" where
  "add_provider_daily_fee_shares provider day amount s =
     (let current = get_provider_daily_fee_shares provider day s;
          s1 = s\<lparr>stats := (stats s)\<lparr>fk_provider_daily_fee_shares := (fk_provider_daily_fee_shares (stats s))
                 (provider := (fk_provider_daily_fee_shares (stats s) provider)
                    (day := Some (saturating_add current amount)))\<rparr>\<rparr>;
          s2 = (if fk_provider_earnings_first_day (stats s1) provider = None
                then s1\<lparr>stats := (stats s1)\<lparr>fk_provider_earnings_first_day :=
                       (fk_provider_earnings_first_day (stats s1))(provider := Some day)\<rparr>\<rparr>
                else s1)
      in add_provider_total_earnings provider amount s2)"

definition default_policy :: fee_split_policy where
  "default_policy = \<lparr>protocol_bps = DEFAULT_PROTOCOL_BPS, provider_bps = DEFAULT_PROVIDER_BPS\<rparr>"

definition fc_get_fee_split_policy :: "'t collector \<Rightarrow> fee_split_policy" where
  "fc_get_fee_split_policy s = get_or default_policy (fk_fee_split_policy (conf s))"

definition set_fee_split_policy_storage :: "fee_split_policy \<Rightarrow> 't collector \<Rightarrow> 't collector" where
  "set_fee_split_policy_storage v s = s\<lparr>conf := (conf s)\<lparr>fk_fee_split_policy := Some v\<rparr>\<rparr>"

definition get_provider_earnings_first_day :: "address \<Rightarrow> 't collector \<Rightarrow> nat option" where
  "get_provider_earnings_first_day a s = fk_provider_earnings_first_day (stats s) a"

definition has_traded :: "address \<Rightarrow> 't collector \<Rightarrow> bool" where
  "has_traded a s = get_or False (fk_has_traded (stats s) a)"

definition set_has_traded :: "address \<Rightarrow> 't collector \<Rightarrow> 't collector" where
  "set_has_traded a s = s\<lparr>stats := (stats s)\<lparr>fk_has_traded := (fk_has_traded (stats s))(a := Some True)\<rparr>\<rparr>"

definition fc_get_protocol_token :: "'t collector \<Rightarrow> address option" where
  "fc_get_protocol_token s = fk_protocol_token (conf s)"

definition set_protocol_token_storage :: "address \<Rightarrow> 't collector \<Rightarrow> 't collector" where
  "set_protocol_token_storage v s = s\<lparr>conf := (conf s)\<lparr>fk_protocol_token := Some v\<rparr>\<rparr>"

definition get_registered_token_metadata :: "address \<Rightarrow> 't collector \<Rightarrow> token_metadata option" where
  "get_registered_token_metadata a s = fk_registered_token_metadata (conf s) a"

definition set_registered_token_metadata :: "address \<Rightarrow> token_metadata \<Rightarrow> 't collector \<Rightarrow> 't collector" where
  "set_registered_token_metadata a v s = s\<lparr>conf := (conf s)\<lparr>fk_registered_token_metadata := (fk_registered_token_metadata (conf s))(a := Some v)\<rparr>\<rparr>"

definition fc_get_revenue_share_rate_bps :: "'t collector \<Rightarrow> nat" where
  "fc_get_revenue_share_rate_bps s = get_or DEFAULT_REVENUE_SHARE_RATE_BPS (fk_revenue_share_rate_bps (conf s))"

definition set_revenue_share_rate_bps_storage :: "nat \<Rightarrow> 't collector \<Rightarrow> 't collector" where
  "set_revenue_share_rate_bps_storage v s = s\<lparr>conf := (conf s)\<lparr>fk_revenue_share_rate_bps := Some v\<rparr>\<rparr>"

definition set_last_revenue_share_snapshot :: "nat \<Rightarrow> 't collector \<Rightarrow> 't collector" where
  "set_last_revenue_share_snapshot v s = s\<lparr>stats := (stats s)\<lparr>fk_last_revenue_share_snapshot := Some v\<rparr>\<rparr>"

definition fc_get_revenue_share_pool :: "address \<Rightarrow> 't collector \<Rightarrow> int" where
  "fc_get_revenue_share_pool a s = get_or 0 (fk_revenue_share_pool s a)"

definition get_revenue_share_pool_index :: "'t collector \<Rightarrow> address list" where
  "get_revenue_share_pool_index s = get_or [] (fk_revenue_share_pool_index s)"

definition add_to_revenue_share_pool_index :: "address \<Rightarrow> 't collector \<Rightarrow> 't collector" where
  "add_to_revenue_share_pool_index tk s =
     (let index = get_revenue_share_pool_index s
      in if list_ex (\<lambda>a. a = tk) index then s
         else s\<lparr>fk_revenue_share_pool_index := Some (index @ [tk])\<rparr>)"

definition remove_from_revenue_share_pool_index :: "address \<Rightarrow> 't collector \<Rightarrow> 't collector" where
  "remove_from_revenue_share_pool_index tk s =
     s\<lparr>fk_revenue_share_pool_index := Some (filter (\<lambda>a. a \<noteq> tk) (get_revenue_share_pool_index s))\<rparr>"

definition add_revenue_share_pool :: "address \<Rightarrow> int \<Rightarrow> 't collector \<Rightarrow> 't collector" where
  "add_revenue_share_pool tk amount s =
     (let s1 = s\<lparr>fk_revenue_share_pool := (fk_revenue_share_pool s)
                  (tk := Some (saturating_add (fc_get_revenue_share_pool tk s) amount))\<rparr>
      in if amount > 0 then add_to_revenue_share_pool_index tk s1 else s1)"

definition clear_revenue_share_pool :: "address \<Rightarrow> 't collector \<Rightarrow> 't collector" where
  "clear_revenue_share_pool tk s =
     remove_from_revenue_share_pool_index tk
       (s\<lparr>fk_revenue_share_pool := (fk_revenue_share_pool s)(tk := None)\<rparr>)"

definition get_waterfall_config :: "'t collector \<Rightarrow> waterfall_tier list option" where
  "get_waterfall_config s = fk_waterfall_config (conf s)"

definition set_waterfall_config_storage :: "waterfall_tier list \<Rightarrow> 't collector \<Rightarrow> 't collector" where
  "set_waterfall_config_storage v s = s\<lparr>conf := (conf s)\<lparr>fk_waterfall_config := Some v\<rparr>\<rparr>"

definition get_provider_payout_currency :: "address \<Rightarrow> 't collector \<Rightarrow> address option" where
  "get_provider_payout_currency a s = fk_provider_payout_currency (conf s) a"

definition set_provider_payout_currency :: "address \<Rightarrow> address \<Rightarrow> 't collector \<Rightarrow> 't collector" where
  "set_provider_payout_currency a v s = s\<lparr>conf := (conf s)\<lparr>fk_provider_payout_currency := (fk_provider_payout_currency (conf s))(a := Some v)\<rparr>\<rparr>"

definition remove_provider_payout_currency :: "address \<Rightarrow> 't collector \<Rightarrow> 't collector" where
  "remove_provider_payout_currency a s = s\<lparr>conf := (conf s)\<lparr>fk_provider_payout_currency := (fk_provider_payout_currency (conf s))(a := None)\<rparr>\<rparr>"

definition get_referrer :: "address \<Rightarrow> 't collector \<Rightarrow> address option" where
  "get_referrer a s = fk_referrer (conf s) a"

definition set_referrer :: "address \<Rightarrow> address \<Rightarrow> 't collector \<Rightarrow> 't collector" where
  "set_referrer a v s = s\<lparr>conf := (conf s)\<lparr>fk_referrer := (fk_referrer (conf s))(a := Some v)\<rparr>\<rparr>"

definition get_referral_fee_share_bps :: "'t collector \<Rightarrow> nat" where
  "get_referral_fee_share_bps s = get_or DEFAULT_REFERRAL_FEE_SHARE_BPS (fk_referral_fee_share_bps (conf s))"

definition set_referral_fee_share_bps :: "nat \<Rightarrow> 't collector \<Rightarrow> 't collector" where
  "set_referral_fee_share_bps v s = s\<lparr>conf := (conf s)\<lparr>fk_referral_fee_share_bps := Some v\<rparr>\<rparr>"

definition get_volume_discount_config :: "'t collector \<Rightarrow> volume_tier list option" where
  "get_volume_discount_config s = fk_volume_discount_config (conf s)"

definition set_volume_discount_config_storage :: "volume_tier list \<Rightarrow> 't collector \<Rightarrow> 't collector" where
  "set_volume_discount_config_storage v s = s\<lparr>conf := (conf s)\<lparr>fk_volume_discount_config := Some v\<rparr>\<rparr>"

definition default_forecast_config :: forecast_config_data where
  "default_forecast_config =
     \<lparr>epoch_cadence_days = DEFAULT_EPOCH_CADENCE_DAYS, window_days = DEFAULT_FORECAST_WINDOW_DAYS\<rparr>"

definition get_forecast_config :: "'t collector \<Rightarrow> forecast_config_data" where
  "get_forecast_config s = get_or default_forecast_config (fk_forecast_config (conf s))"

definition set_forecast_config_storage :: "forecast_config_data \<Rightarrow> 't collector \<Rightarrow> 't collector" where
  "set_forecast_config_storage v s = s\<lparr>conf := (conf s)\<lparr>fk_forecast_config := Some v\<rparr>\<rparr>"

definition get_daily_fee_total :: "address \<Rightarrow> nat \<Rightarrow> 't collector \<Rightarrow> int" where
  "get_daily_fee_total a b s = get_or 0 (fk_daily_fee_total (stats s) a b)"

definition add_daily_fee_total :: "address \<Rightarrow> nat \<Rightarrow> int \<Rightarrow> 't collector \<Rightarrow> 't collector" where
  "add_daily_fee_total tk day amount s =
     s\<lparr>stats := (stats s)\<lparr>fk_daily_fee_total := (fk_daily_fee_total (stats s))
       (tk := (fk_daily_fee_total (stats s) tk)
          (day := Some (saturating_add (get_daily_fee_total tk day s) amount)))\<rparr>\<rparr>"

definition get_last_forecast_day :: "address \<Rightarrow> 't collector \<Rightarrow> nat" where
  "get_last_forecast_day a s = get_or 0 (fk_last_forecast_day (stats s) a)"

definition set_last_forecast_day :: "address \<Rightarrow> nat \<Rightarrow> 't collector \<Rightarrow> 't collector" where
  "set_last_forecast_day a v s = s\<lparr>stats := (stats s)\<lparr>fk_last_forecast_day := (fk_last_forecast_day (stats s))(a := Some v)\<rparr>\<rparr>"

definition default_congestion_config :: congestion_config where
  "default_congestion_config =
     \<lparr>min_multiplier_bps = 10000, max_multiplier_bps = 50000, staleness_threshold_secs = 300,
      default_multiplier_bps = 10000\<rparr>"

definition get_congestion_config :: "'t collector \<Rightarrow> congestion_config" where
  "get_congestion_config s = get_or default_congestion_config (fk_congestion_config (conf s))"

definition set_congestion_config_storage :: "congestion_config \<Rightarrow> 't collector \<Rightarrow> 't collector" where
  "set_congestion_config_storage v s = s\<lparr>conf := (conf s)\<lparr>fk_congestion_config := Some v\<rparr>\<rparr>"

definition get_congestion_signal :: "'t collector \<Rightarrow> congestion_signal option" where
  "get_congestion_signal s = fk_congestion_signal (conf s)"

definition set_congestion_signal_storage :: "congestion_signal \<Rightarrow> 't collector \<Rightarrow> 't collector" where
  "set_congestion_signal_storage v s = s\<lparr>conf := (conf s)\<lparr>fk_congestion_signal := Some v\<rparr>\<rparr>"

definition get_insurance_balance :: "address \<Rightarrow> 't collector \<Rightarrow> int" where
  "get_insurance_balance a s = get_or 0 (fk_insurance_balance s a)"

definition set_insurance_balance :: "address \<Rightarrow> int \<Rightarrow> 't collector \<Rightarrow> 't collector" where
  "set_insurance_balance a v s = s\<lparr>fk_insurance_balance := (fk_insurance_balance s)(a := Some v)\<rparr>"

definition get_insurance_payout_cap :: "address \<Rightarrow> 't collector \<Rightarrow> int" where
  "get_insurance_payout_cap a s = get_or 0 (fk_insurance_payout_cap (conf s) a)"

definition set_insurance_payout_cap_storage :: "address \<Rightarrow> int \<Rightarrow> 't collector \<Rightarrow> 't collector" where
  "set_insurance_payout_cap_storage a v s = s\<lparr>conf := (conf s)\<lparr>fk_insurance_payout_cap := (fk_insurance_payout_cap (conf s))(a := Some v)\<rparr>\<rparr>"

definition is_insurance_claim_processed :: "string \<Rightarrow> 't collector \<Rightarrow> bool" where
  "is_insurance_claim_processed a s = get_or False (fk_processed_insurance_claim s a)"

definition set_insurance_claim_processed :: "string \<Rightarrow> bool \<Rightarrow> 't collector \<Rightarrow> 't collector" where
  "set_insurance_claim_processed a v s = s\<lparr>fk_processed_insurance_claim := (fk_processed_insurance_claim s)(a := Some v)\<rparr>"

definition get_max_rebate_bps :: "'t collector \<Rightarrow> nat" where
  "get_max_rebate_bps s = get_or DEFAULT_MAX_REBATE_BPS (fk_max_rebate_bps (conf s))"

definition set_max_rebate_bps_storage :: "nat \<Rightarrow> 't collector \<Rightarrow> 't collector" where
  "set_max_rebate_bps_storage v s = s\<lparr>conf := (conf s)\<lparr>fk_max_rebate_bps := Some v\<rparr>\<rparr>"

definition get_epoch_rebate_distributed :: "address \<Rightarrow> nat \<Rightarrow> 't collector \<Rightarrow> int" where
  "get_epoch_rebate_distributed a b s = get_or 0 (fk_epoch_rebate_distributed s a b)"

definition add_epoch_rebate_distributed :: "address \<Rightarrow> nat \<Rightarrow> int \<Rightarrow> 't collector \<Rightarrow> 't collector" where
  "add_epoch_rebate_distributed tk day amount s =
     s\<lparr>fk_epoch_rebate_distributed := (fk_epoch_rebate_distributed s)
       (tk := (fk_epoch_rebate_distributed s tk)
          (day := Some (saturating_add (get_epoch_rebate_distributed tk day s) amount)))\<rparr>"

definition get_config_version :: "'t collector \<Rightarrow> nat" where
  "get_config_version s = get_or 0 (fk_config_version (conf s))"

definition bump_config_version :: "'t collector \<Rightarrow> 't collector" where
  "bump_config_version s =
     s\<lparr>conf := (conf s)\<lparr>fk_config_version := Some ((get_config_version s + 1) mod 4294967296)\<rparr>\<rparr>"

lemmas [store_defs] =
  fc_get_admin_def fc_set_admin_def is_authorized_caller_def set_authorized_caller_def
  remove_authorized_caller_def get_oracle_contract_def set_oracle_contract_storage_def get_treasury_balance_def
  set_treasury_balance_def get_queued_withdrawal_def set_queued_withdrawal_def remove_queued_withdrawal_def
  get_fee_rate_def set_fee_rate_storage_def get_network_condition_score_def set_network_condition_score_def
  get_fee_optimization_config_def set_fee_optimization_config_storage_def get_last_error_report_def
  set_last_error_report_def get_failed_fee_collection_def set_failed_fee_collection_def
  remove_failed_fee_collection_def get_burn_rate_def set_burn_rate_storage_def get_pending_fees_def
  set_pending_fees_def get_monthly_trade_volume_def set_monthly_trade_volume_def
  remove_monthly_trade_volume_def get_provider_daily_fee_shares_def get_provider_total_earnings_def
  get_provider_earnings_index_def fc_get_fee_split_policy_def set_fee_split_policy_storage_def
  get_provider_earnings_first_day_def has_traded_def set_has_traded_def fc_get_protocol_token_def
  set_protocol_token_storage_def get_registered_token_metadata_def set_registered_token_metadata_def
  fc_get_revenue_share_rate_bps_def set_revenue_share_rate_bps_storage_def set_last_revenue_share_snapshot_def
  fc_get_revenue_share_pool_def get_revenue_share_pool_index_def get_waterfall_config_def
  set_waterfall_config_storage_def get_provider_payout_currency_def set_provider_payout_currency_def
  remove_provider_payout_currency_def get_referrer_def set_referrer_def get_referral_fee_share_bps_def
  set_referral_fee_share_bps_def get_volume_discount_config_def set_volume_discount_config_storage_def
  get_forecast_config_def set_forecast_config_storage_def get_daily_fee_total_def add_daily_fee_total_def
  get_last_forecast_day_def set_last_forecast_day_def get_congestion_config_def
  set_congestion_config_storage_def get_congestion_signal_def set_congestion_signal_storage_def
  get_insurance_balance_def set_insurance_balance_def get_insurance_payout_cap_def
  set_insurance_payout_cap_storage_def is_insurance_claim_processed_def set_insurance_claim_processed_def
  get_max_rebate_bps_def set_max_rebate_bps_storage_def get_epoch_rebate_distributed_def
  add_epoch_rebate_distributed_def get_config_version_def bump_config_version_def

end
