(* ===== verification/Collector_Events.thy ===== *)
theory Collector_Events
  imports Collector_State
begin

text \<open>
  \<^verbatim>\<open>fee_collector/src/events.rs\<close>. Most events have the topics \<^verbatim>\<open>("fee_collector", name)\<close> and a tuple as body; the
  \<^verbatim>\<open>#[contractevent]\<close> structs are published under their name in snake case with a map of their fields.
  Emitting changes the event log and nothing else (\<open>emits_log_only\<close>).
\<close>

named_theorems collector_emits "unfolding rules of the emit functions"

definition publish_tuple :: "symbol \<Rightarrow> scval list \<Rightarrow> 't collector \<Rightarrow> 't collector" where
  "publish_tuple name vs s = publish s [VSym ''fee_collector'', VSym name] (VVec vs)"

definition publish_fields :: "symbol \<Rightarrow> (string \<times> scval) list \<Rightarrow> 't collector \<Rightarrow> 't collector" where
  "publish_fields name fs s = publish s [VSym name] (VMap fs)"

definition emit_withdrawal_queued ::
  "address \<Rightarrow> address \<Rightarrow> int \<Rightarrow> nat \<Rightarrow> 't collector \<Rightarrow> 't collector" where
  "emit_withdrawal_queued recipient token amount available_at s =
     publish_tuple ''withdrawal_queued''
       [VAddr recipient, VAddr token, VI128 amount, VU64 available_at] s"

definition emit_treasury_withdrawal ::
  "address \<Rightarrow> address \<Rightarrow> int \<Rightarrow> int \<Rightarrow> 't collector \<Rightarrow> 't collector" where
  "emit_treasury_withdrawal recipient token amount remaining_balance s =
     publish_tuple ''treasury_withdrawal''
       [VAddr recipient, VAddr token, VI128 amount, VI128 remaining_balance] s"

definition emit_fee_rate_updated ::
  "nat \<Rightarrow> nat \<Rightarrow> address \<Rightarrow> 't collector \<Rightarrow> 't collector" where
  "emit_fee_rate_updated old_rate new_rate updated_by s =
     publish_tuple ''fee_rate_updated''
       [VU32 old_rate, VU32 new_rate, VAddr updated_by] s"

definition emit_network_condition_updated ::
  "nat \<Rightarrow> string \<Rightarrow> nat \<Rightarrow> 't collector \<Rightarrow> 't collector" where
  "emit_network_condition_updated score_bps note updated_at s =
     publish_tuple ''network_condition_updated''
       [VU32 score_bps, VStr note, VU64 updated_at] s"

definition emit_error_reported :: "error_report \<Rightarrow> 't collector \<Rightarrow> 't collector" where
  "emit_error_reported r s =
     publish_tuple ''error_reported''
       [VU32 (error_category_code (er_category r)), VU32 (recovery_strategy_code (er_strategy r)),
        VStr (er_message r), VU64 (er_timestamp r)] s"

definition emit_retry_attempted ::
  "string \<Rightarrow> nat \<Rightarrow> bool \<Rightarrow> nat \<Rightarrow> 't collector \<Rightarrow> 't collector" where
  "emit_retry_attempted rid retry_count successful now s =
     publish_tuple ''retry_attempted''
       [VStr rid, VU32 retry_count, VBool successful, VU64 now] s"

definition emit_fee_collected ::
  "address \<Rightarrow> address \<Rightarrow> int \<Rightarrow> int \<Rightarrow> nat \<Rightarrow> 't collector \<Rightarrow> 't collector" where
  "emit_fee_collected trader token trade_amount fee_amount fee_rate s =
     publish_tuple ''fee_collected''
       [VAddr trader, VAddr token, VI128 trade_amount, VI128 fee_amount, VU32 fee_rate] s"

definition emit_fees_claimed ::
  "address \<Rightarrow> address \<Rightarrow> int \<Rightarrow> 't collector \<Rightarrow> 't collector" where
  "emit_fees_claimed provider token amount s =
     publish_tuple ''fees_claimed''
       [VAddr provider, VAddr token, VI128 amount] s"

definition emit_revenue_share_distributed ::
  "address \<Rightarrow> int \<Rightarrow> nat \<Rightarrow> 't collector \<Rightarrow> 't collector" where
  "emit_revenue_share_distributed token total_amount snapshot_ledger s =
     publish_tuple ''revenue_share_distributed''
       [VAddr token, VI128 total_amount, VU64 snapshot_ledger] s"

definition tier_result_value :: "waterfall_tier_result \<Rightarrow> scval" where
  "tier_result_value r = VMap
     [(''name'', VStr (wr_name r)), (''recipient'', VAddr (wr_recipient r)), (''priority'', VU32 (wr_priority r)),
      (''allocated'', VI128 (wr_allocated r))]"

definition emit_waterfall_distribution ::
  "address \<Rightarrow> int \<Rightarrow> waterfall_tier_result list \<Rightarrow> 't collector \<Rightarrow> 't collector" where
  "emit_waterfall_distribution token total_distributed tier_results s =
     publish_tuple ''waterfall_distribution''
       [VAddr token, VI128 total_distributed, VVec (map tier_result_value tier_results)] s"

definition emit_payout_currency_set ::
  "address \<Rightarrow> address \<Rightarrow> 't collector \<Rightarrow> 't collector" where
  "emit_payout_currency_set provider preferred_token s =
     publish_tuple ''payout_currency_set''
       [VAddr provider, VAddr preferred_token] s"

definition emit_fee_forecast ::
  "address \<Rightarrow> int \<Rightarrow> nat \<Rightarrow> nat \<Rightarrow> 't collector \<Rightarrow> 't collector" where
  "emit_fee_forecast token projected_amount basis_window_days current_epoch_day s =
     publish_tuple ''fee_forecast''
       [VAddr token, VI128 projected_amount, VU64 basis_window_days, VU64 current_epoch_day] s"

definition emit_volume_discount_config_updated ::
  "nat \<Rightarrow> 't collector \<Rightarrow> 't collector" where
  "emit_volume_discount_config_updated tier_count s =
     publish_tuple ''vol_discount_updated''
       [VU32 tier_count] s"

definition emit_fees_claimed_converted ::
  "address \<Rightarrow> address \<Rightarrow> address \<Rightarrow> int \<Rightarrow> int \<Rightarrow> 't collector \<Rightarrow> 't collector" where
  "emit_fees_claimed_converted provider source_token preferred_token source_amount preferred_amount s =
     publish_tuple ''fees_claimed_converted''
       [VAddr provider, VAddr source_token, VAddr preferred_token, VI128 source_amount,
        VI128 preferred_amount] s"

definition emit_effective_multiplier_changed ::
  "nat \<Rightarrow> nat \<Rightarrow> 't collector \<Rightarrow> 't collector" where
  "emit_effective_multiplier_changed old_multiplier new_multiplier s =
     publish_tuple ''multiplier_changed''
       [VU32 old_multiplier, VU32 new_multiplier] s"

definition emit_insurance_payout ::
  "address \<Rightarrow> address \<Rightarrow> int \<Rightarrow> string \<Rightarrow> nat \<Rightarrow> 't collector \<Rightarrow> 't collector" where
  "emit_insurance_payout recipient token amount claim_id now s =
     publish_tuple ''insurance_payout''
       [VAddr recipient, VAddr token, VI128 amount, VStr claim_id, VU64 now] s"

definition emit_insurance_payout_cap_updated ::
  "address \<Rightarrow> int \<Rightarrow> int \<Rightarrow> address \<Rightarrow> 't collector \<Rightarrow> 't collector" where
  "emit_insurance_payout_cap_updated token old_cap new_cap updated_by s =
     publish_tuple ''ins_cap_updated''
       [VAddr token, VI128 old_cap, VI128 new_cap, VAddr updated_by] s"

definition emit_rebate_cap_applied ::
  "nat \<Rightarrow> int \<Rightarrow> int \<Rightarrow> 't collector \<Rightarrow> 't collector" where
  "emit_rebate_cap_applied epoch requested distributed s =
     publish_tuple ''rebate_cap_applied''
       [VU64 epoch, VI128 requested, VI128 distributed] s"

definition emit_caller_authorized :: "address \<Rightarrow> 't collector \<Rightarrow> 't collector" where
  "emit_caller_authorized caller s =
     publish s [VSym ''fee_collector'', VSym ''caller_authorized''] (VAddr caller)"

definition emit_caller_revoked :: "address \<Rightarrow> 't collector \<Rightarrow> 't collector" where
  "emit_caller_revoked caller s =
     publish s [VSym ''fee_collector'', VSym ''caller_revoked''] (VAddr caller)"

definition emit_first_trade_fee_waived ::
  "address \<Rightarrow> 't collector \<Rightarrow> 't collector" where
  "emit_first_trade_fee_waived user s =
     publish_fields ''first_trade_fee_waived''
       [(''user'', VAddr user)] s"

definition emit_fees_burned ::
  "int \<Rightarrow> address \<Rightarrow> 't collector \<Rightarrow> 't collector" where
  "emit_fees_burned amount token s =
     publish_fields ''fees_burned''
       [(''amount'', VI128 amount), (''token'', VAddr token)] s"

definition emit_referral_registered ::
  "address \<Rightarrow> address \<Rightarrow> 't collector \<Rightarrow> 't collector" where
  "emit_referral_registered referrer referee s =
     publish_fields ''referral_registered''
       [(''referrer'', VAddr referrer), (''referee'', VAddr referee)] s"

definition emit_referral_fee_share_updated ::
  "nat \<Rightarrow> nat \<Rightarrow> address \<Rightarrow> 't collector \<Rightarrow> 't collector" where
  "emit_referral_fee_share_updated old_bps new_bps updated_by s =
     publish_fields ''referral_fee_share_updated''
       [(''old_bps'', VU32 old_bps), (''new_bps'', VU32 new_bps), (''updated_by'', VAddr updated_by)] s"

definition emit_referral_fee_paid ::
  "address \<Rightarrow> address \<Rightarrow> address \<Rightarrow> int \<Rightarrow> 't collector \<Rightarrow> 't collector" where
  "emit_referral_fee_paid referrer referee token amount s =
     publish_fields ''referral_fee_paid''
       [(''referrer'', VAddr referrer), (''referee'', VAddr referee), (''token'', VAddr token),
        (''amount'', VI128 amount)] s"

definition emit_fee_split_applied ::
  "address \<Rightarrow> int \<Rightarrow> int \<Rightarrow> int \<Rightarrow> 't collector \<Rightarrow> 't collector" where
  "emit_fee_split_applied provider gross_amount protocol_amount provider_amount s =
     publish_fields ''fee_split_applied''
       [(''provider'', VAddr provider), (''gross_amount'', VI128 gross_amount),
        (''protocol_amount'', VI128 protocol_amount), (''provider_amount'', VI128 provider_amount)] s"

definition emit_fee_split_policy_updated ::
  "fee_split_policy \<Rightarrow> fee_split_policy \<Rightarrow> address \<Rightarrow> 't collector \<Rightarrow> 't collector" where
  "emit_fee_split_policy_updated old new updated_by s =
     publish_fields ''fee_split_policy_updated''
       [(''old_protocol_bps'', VU32 (protocol_bps old)), (''old_provider_bps'', VU32 (provider_bps old)),
        (''new_protocol_bps'', VU32 (protocol_bps new)), (''new_provider_bps'', VU32 (provider_bps new)),
        (''updated_by'', VAddr updated_by)] s"

lemmas [collector_emits] =
  emit_withdrawal_queued_def emit_treasury_withdrawal_def emit_fee_rate_updated_def
  emit_network_condition_updated_def emit_error_reported_def emit_retry_attempted_def emit_fee_collected_def
  emit_fees_claimed_def emit_revenue_share_distributed_def emit_waterfall_distribution_def
  emit_payout_currency_set_def emit_fee_forecast_def emit_volume_discount_config_updated_def
  emit_fees_claimed_converted_def emit_effective_multiplier_changed_def emit_insurance_payout_def
  emit_insurance_payout_cap_updated_def emit_rebate_cap_applied_def emit_caller_authorized_def
  emit_caller_revoked_def emit_first_trade_fee_waived_def emit_fees_burned_def emit_referral_registered_def
  emit_referral_fee_share_updated_def emit_referral_fee_paid_def emit_fee_split_applied_def
  emit_fee_split_policy_updated_def

text \<open>Unfolded, an emit function is an update of the log.\<close>

lemmas emits_log_only = collector_emits publish_tuple_def publish_fields_def publish_def

end
