(* ===== verification/Collector_Rates.thy ===== *)
theory Collector_Rates
  imports Collector_Events
begin

text \<open>
  How the fee collector arrives at a fee: the congestion multiplier and the amounts of \<^verbatim>\<open>lib.rs\<close>, the volume
  discounts of \<^verbatim>\<open>rebates.rs\<close>, the cached settings of \<^verbatim>\<open>fee_cache.rs\<close>, the split between protocol and provider of
  \<^verbatim>\<open>fee_split_policy.rs\<close>, and the retry policy of \<^verbatim>\<open>common/src/retry_backoff.rs\<close>. Reading the monthly volume
  removes an outdated entry, so even the rate of a user is computed with a state.
\<close>

section \<open>The contracts it calls\<close>

text \<open>
  Tokens as for the vault, with the \<^verbatim>\<open>balance\<close> query (\<open>None\<close> when it traps), and the oracle's two queries
  (\<open>None\<close> for every failure of the \<^verbatim>\<open>try_invoke_contract\<close>). Queries read the world and leave it alone.
\<close>

record 't world =
  tokens_of :: "'t token_impl"
  balance_of :: "address \<Rightarrow> address \<Rightarrow> 't \<Rightarrow> int option"
  convert_to_base :: "address \<Rightarrow> int \<Rightarrow> asset \<Rightarrow> 't \<Rightarrow> int option"
  get_rate :: "address \<Rightarrow> address \<Rightarrow> address \<Rightarrow> 't \<Rightarrow> int option"

definition collector_transfer :: "'t world \<Rightarrow> address \<Rightarrow> address \<Rightarrow> address \<Rightarrow> int \<Rightarrow>
    't collector \<Rightarrow> ('t, unit) collector_result" where
  "collector_transfer W tk from to amt s =
     (case try_transfer (tokens_of W) tk from to amt (fk_tokens s) of (r, t) \<Rightarrow>
        (case map_result r of Inr _ \<Rightarrow> Ok () | Inl f \<Rightarrow> Err (fee_error_of_token f),
         s\<lparr>fk_tokens := t\<rparr>))"

definition collector_burn :: "'t world \<Rightarrow> address \<Rightarrow> address \<Rightarrow> int \<Rightarrow>
    't collector \<Rightarrow> ('t, unit) collector_result" where
  "collector_burn W tk from amt s =
     (case try_burn (tokens_of W) tk from amt (fk_tokens s) of (r, t) \<Rightarrow>
        (case map_result r of Inr _ \<Rightarrow> Ok () | Inl f \<Rightarrow> Err (fee_error_of_token f),
         s\<lparr>fk_tokens := t\<rparr>))"

section \<open>Congestion\<close>

definition sat_mul_u64 :: "nat \<Rightarrow> nat \<Rightarrow> nat" where
  "sat_mul_u64 a b = min u64_max (a * b)"

text \<open>\<^verbatim>\<open>clamp\<close> would trap for crossed bounds; the setter of the configuration excludes them (\<open>congestion_ok\<close>).\<close>

definition current_effective_multiplier :: "env \<Rightarrow> 't collector \<Rightarrow> nat" where
  "current_effective_multiplier e s =
     (let config = get_congestion_config s
      in case get_congestion_signal s of
           None \<Rightarrow> default_multiplier_bps config
         | Some signal \<Rightarrow>
             if ledger_timestamp e - signal_updated_at signal > staleness_threshold_secs config
             then default_multiplier_bps config
             else max (min_multiplier_bps config) (min (max_multiplier_bps config) (signal_multiplier_bps signal)))"

section \<open>Volume discounts\<close>

definition current_month_bucket :: "env \<Rightarrow> nat" where
  "current_month_bucket e = ledger_sequence e div LEDGERS_PER_MONTH_APPROX"

definition active_monthly_trade_volume ::
  "env \<Rightarrow> address \<Rightarrow> 't collector \<Rightarrow> monthly_trade_volume option \<times> 't collector" where
  "active_monthly_trade_volume e user s =
     (case get_monthly_trade_volume user s of
        None \<Rightarrow> (None, s)
      | Some volume \<Rightarrow>
          if month_bucket volume = current_month_bucket e then (Some volume, s)
          else (None, remove_monthly_trade_volume user s))"

definition get_active_volume_usd :: "env \<Rightarrow> address \<Rightarrow> 't collector \<Rightarrow> int \<times> 't collector" where
  "get_active_volume_usd e user s =
     (case active_monthly_trade_volume e user s of
        (v, s') \<Rightarrow> (case v of None \<Rightarrow> 0 | Some volume \<Rightarrow> volume_usd volume, s'))"

fun best_discount_loop :: "int \<Rightarrow> volume_tier list \<Rightarrow> nat \<Rightarrow> nat" where
  "best_discount_loop vol [] best = best"
| "best_discount_loop vol (tier # tiers) best =
     best_discount_loop vol tiers
       (if vol \<ge> vt_threshold_usd tier \<and> vt_discount_bps tier > best then vt_discount_bps tier else best)"

definition get_fee_rate_for_user :: "env \<Rightarrow> address \<Rightarrow> 't collector \<Rightarrow> nat \<times> 't collector" where
  "get_fee_rate_for_user e user s =
     (let adjusted_base_rate =
            as_u32 (sat_mul_u64 (get_fee_rate s) (current_effective_multiplier e s) div 10000)
      in case get_active_volume_usd e user s of (vol, s') \<Rightarrow>
        (case get_volume_discount_config s' of
           Some tiers \<Rightarrow> max (adjusted_base_rate - best_discount_loop vol tiers 0) MIN_FEE_RATE_BPS
         | None \<Rightarrow>
             if vol \<ge> GOLD_TIER_VOLUME_USD then max (adjusted_base_rate - GOLD_DISCOUNT_BPS) MIN_FEE_RATE_BPS
             else if vol \<ge> SILVER_TIER_VOLUME_USD
             then max (adjusted_base_rate - SILVER_DISCOUNT_BPS) MIN_FEE_RATE_BPS
             else max adjusted_base_rate MIN_FEE_RATE_BPS, s'))"

definition record_trade_volume :: "'t world \<Rightarrow> env \<Rightarrow> address \<Rightarrow> asset \<Rightarrow> int \<Rightarrow> 't collector \<Rightarrow>
    (fee_error + unit) \<times> 't collector" where
  "record_trade_volume W e user trade_asset amount s =
     (case get_oracle_contract s of
        None \<Rightarrow> (Inl OracleNotConfigured, s)
      | Some oracle \<Rightarrow>
          (case convert_to_base W oracle amount trade_asset (fk_tokens s) of
             None \<Rightarrow> (Inl OracleConversionFailed, s)
           | Some usd_volume \<Rightarrow>
               (case active_monthly_trade_volume e user s of (v, s1) \<Rightarrow>
                  let current = (case v of None \<Rightarrow> 0 | Some m \<Rightarrow> volume_usd m)
                  in case checked_add current usd_volume of
                       None \<Rightarrow> (Inl ArithmeticOverflow, s1)
                     | Some updated \<Rightarrow>
                         (Inr (), set_monthly_trade_volume user
                            \<lparr>month_bucket = current_month_bucket e, volume_usd = updated\<rparr> s1))))"

section \<open>The cache of the settings\<close>

text \<open>
  The cache lives in temporary storage under a key with the last digit of the configuration version; an
  entry found there is used as it is.
\<close>

definition load_tx_fee_config :: "'t collector \<Rightarrow> tx_fee_config_cache \<times> 't collector" where
  "load_tx_fee_config s =
     (let key = get_config_version s mod 10
      in case fk_tx_cache s key of
           Some cached \<Rightarrow> (cached, s)
         | None \<Rightarrow>
             let v = \<lparr>fc_optimization_config = get_fee_optimization_config s,
                      fc_network_score = get_network_condition_score s,
                      fc_burn_rate = get_burn_rate s, fc_protocol_token = fc_get_protocol_token s\<rparr>
             in (v, s\<lparr>fk_tx_cache := (fk_tx_cache s)(key := Some v)\<rparr>))"

definition effective_fee_rate_cached :: "nat \<Rightarrow> address \<Rightarrow> tx_fee_config_cache \<Rightarrow> nat" where
  "effective_fee_rate_cached base_rate token cache =
     (let config = fc_optimization_config cache;
          network_adjustment =
            as_u32 (sat_mul_u64 (fc_network_score cache) (congestion_sensitivity_bps config) div 10000);
          r1 = sat_add_u32 base_rate network_adjustment;
          r2 = max r1 (min_effective_rate_bps config);
          r3 = min r2 (min (max_dynamic_rate_bps config) MAX_FEE_RATE_BPS)
      in if fc_protocol_token cache = Some token then max (r3 div 2) MIN_FEE_RATE_BPS else r3)"

definition effective_fee_rate_for_trade ::
  "env \<Rightarrow> address \<Rightarrow> address \<Rightarrow> 't collector \<Rightarrow> nat \<times> 't collector" where
  "effective_fee_rate_for_trade e trader token s =
     (case load_tx_fee_config s of (cache, s1) \<Rightarrow>
       (case get_fee_rate_for_user e trader s1 of (base_rate, s2) \<Rightarrow>
          (effective_fee_rate_cached base_rate token cache, s2)))"

section \<open>Amounts\<close>

definition fee_amount_floor :: "int \<Rightarrow> nat \<Rightarrow> int option" where
  "fee_amount_floor trade_amount fee_rate =
     (case checked_mul trade_amount (int fee_rate) of
        None \<Rightarrow> None | Some v \<Rightarrow> checked_div_i128 v 10000)"

definition fee_and_burn_amounts :: "int \<Rightarrow> nat \<Rightarrow> nat \<Rightarrow> (int \<times> int) option" where
  "fee_and_burn_amounts trade_amount fee_rate burn_rate =
     (case fee_amount_floor trade_amount fee_rate of
        None \<Rightarrow> None
      | Some fee \<Rightarrow>
          (case checked_mul fee (int burn_rate) of
             None \<Rightarrow> None
           | Some v \<Rightarrow> (case checked_div_i128 v 10000 of None \<Rightarrow> None | Some burn \<Rightarrow> Some (fee, burn))))"

text \<open>\<^verbatim>\<open>checked_mul(bps).and_then(checked_div(10000)).unwrap_or(default)\<close>\<close>

definition share_or :: "int \<Rightarrow> int \<Rightarrow> nat \<Rightarrow> int" where
  "share_or dflt amount bps =
     (case checked_mul amount (int bps) of
        None \<Rightarrow> dflt | Some v \<Rightarrow> get_or dflt (checked_div_i128 v 10000))"

section \<open>The split between protocol and provider\<close>

definition validate_policy :: "fee_split_policy \<Rightarrow> fee_error + unit" where
  "validate_policy p =
     (if protocol_bps p + provider_bps p > u32_max then Inl ArithmeticOverflow
      else if protocol_bps p + provider_bps p \<noteq> BPS_TOTAL then Inl InvalidFeeConfiguration
      else Inr ())"

definition policy_split :: "fee_split_policy \<Rightarrow> int \<Rightarrow> fee_error + int \<times> int" where
  "policy_split p gross =
     (if gross < 0 then Inl InvalidAmount
      else case checked_mul gross (int (protocol_bps p)) of
             None \<Rightarrow> Inl ArithmeticOverflow
           | Some v \<Rightarrow>
               (case checked_div_i128 v (int BPS_TOTAL) of
                  None \<Rightarrow> Inl ArithmeticOverflow
                | Some protocol_share \<Rightarrow>
                    (case checked_sub gross protocol_share of
                       None \<Rightarrow> Inl ArithmeticOverflow
                     | Some provider_share \<Rightarrow> Inr (protocol_share, provider_share))))"

section \<open>The retry policy\<close>

record retry_config =
  rc_max_attempts :: nat
  rc_base_delay_ledgers :: nat
  rc_max_delay_ledgers :: "nat option"

text \<open>The number of attempts so far is the whole state. The outer \<open>None\<close> is the trap of the \<^verbatim>\<open>assert!\<close>.\<close>

definition should_retry :: "nat \<Rightarrow> retry_config \<Rightarrow> nat option option" where
  "should_retry attempt config =
     (if rc_max_attempts config = 0 then None
      else Some
        (if attempt \<ge> rc_max_attempts config then None
         else let exponent = attempt - 1;
                  multiplier = (if exponent < 32 then 2 ^ exponent else u32_max);
                  raw_delay = sat_mul_u32 (rc_base_delay_ledgers config) multiplier
              in Some (case rc_max_delay_ledgers config of
                         Some cap \<Rightarrow> min raw_delay cap | None \<Rightarrow> raw_delay)))"

definition next_retry_state :: "nat \<Rightarrow> nat" where
  "next_retry_state attempt = sat_add_u32 attempt 1"

definition has_remaining_attempts :: "nat \<Rightarrow> retry_config \<Rightarrow> bool" where
  "has_remaining_attempts attempt config \<longleftrightarrow> attempt < rc_max_attempts config"

section \<open>Valid settings\<close>

text \<open>What the setters enforce, for the stored values and for the copies in the cache.\<close>

definition optimization_ok :: "fee_optimization_config \<Rightarrow> bool" where
  "optimization_ok c \<longleftrightarrow>
     MIN_FEE_RATE_BPS \<le> max_dynamic_rate_bps c \<and> max_dynamic_rate_bps c \<le> MAX_FEE_RATE_BPS \<and>
     congestion_sensitivity_bps c \<le> 10000 \<and> MIN_FEE_RATE_BPS \<le> min_effective_rate_bps c \<and>
     max_retry_attempts c \<le> 10"

definition congestion_ok :: "congestion_config \<Rightarrow> bool" where
  "congestion_ok c \<longleftrightarrow>
     0 < min_multiplier_bps c \<and> min_multiplier_bps c \<le> default_multiplier_bps c \<and>
     default_multiplier_bps c \<le> max_multiplier_bps c"

definition cached_ok :: "tx_fee_config_cache \<Rightarrow> bool" where
  "cached_ok c \<longleftrightarrow> optimization_ok (fc_optimization_config c) \<and> fc_network_score c \<le> 10000 \<and> fc_burn_rate c \<le> 10000"

definition discounts_ok :: "volume_tier list \<Rightarrow> bool" where
  "discounts_ok tiers \<longleftrightarrow> 3 \<le> length tiers \<and>
     list_all (\<lambda>t. 0 \<le> vt_threshold_usd t \<and> 0 < vt_discount_bps t \<and> vt_discount_bps t \<le> MAX_FEE_RATE_BPS) tiers"

definition settings_ok :: "'t collector \<Rightarrow> bool" where
  "settings_ok s \<longleftrightarrow>
     MIN_FEE_RATE_BPS \<le> get_fee_rate s \<and> get_fee_rate s \<le> MAX_FEE_RATE_BPS \<and>
     get_burn_rate s \<le> MAX_BURN_RATE_BPS \<and> get_network_condition_score s \<le> 10000 \<and>
     optimization_ok (get_fee_optimization_config s) \<and> congestion_ok (get_congestion_config s) \<and>
     fc_get_revenue_share_rate_bps s \<le> 10000 \<and> get_referral_fee_share_bps s \<le> 10000 \<and>
     get_max_rebate_bps s \<le> 10000 \<and> validate_policy (fc_get_fee_split_policy s) = Inr () \<and>
     (\<forall>tiers. get_volume_discount_config s = Some tiers \<longrightarrow> discounts_ok tiers) \<and>
     0 < epoch_cadence_days (get_forecast_config s) \<and> 0 < window_days (get_forecast_config s) \<and>
     (\<forall>k c. fk_tx_cache s k = Some c \<longrightarrow> cached_ok c)"

section \<open>Facts\<close>

text \<open>The cases of a token call, as an elimination rule for the functions that use it.\<close>

lemma collector_transfer_cases:
  assumes "sep41 (tokens_of W) bal" and "collector_transfer W tk from to amt s = (r, s')"
  obtains (moved) t where "r = Ok ()" "s' = s\<lparr>fk_tokens := t\<rparr>" "0 \<le> amt" "amt \<le> bal (fk_tokens s) tk from"
      "bal t = token_moved tk from to amt (bal (fk_tokens s))"
  | (failed) f where "r = Err f" "s' = s"
proof (cases "try_transfer (tokens_of W) tk from to amt (fk_tokens s)")
  case (Pair q t)
  show thesis
  proof (cases "q = Inr (Inr ())")
    case True
    with assms(2) Pair sep41_transfer_ok [OF assms(1), of tk "from" to amt "fk_tokens s" t] show thesis
      by (intro moved [of t]) (simp_all add: collector_transfer_def)
  next
    case False
    with sep41_transfer_failed [OF assms(1) Pair] have "t = fk_tokens s" by simp
    with assms(2) Pair False show thesis
      by (cases "map_result q") (auto simp: collector_transfer_def intro: failed)
  qed
qed

lemma collector_burn_cases:
  assumes "sep41 (tokens_of W) bal" and "collector_burn W tk from amt s = (r, s')"
  obtains (burnt) t where "r = Ok ()" "s' = s\<lparr>fk_tokens := t\<rparr>" "0 \<le> amt" "amt \<le> bal (fk_tokens s) tk from"
      "bal t = token_burnt tk from amt (bal (fk_tokens s))"
  | (failed) f where "r = Err f" "s' = s"
proof (cases "try_burn (tokens_of W) tk from amt (fk_tokens s)")
  case (Pair q t)
  show thesis
  proof (cases "q = Inr (Inr ())")
    case True
    with assms(2) Pair sep41_burn_ok [OF assms(1), of tk "from" amt "fk_tokens s" t] show thesis
      by (intro burnt [of t]) (simp_all add: collector_burn_def)
  next
    case False
    with sep41_burn_failed [OF assms(1) Pair] have "t = fk_tokens s" by simp
    with assms(2) Pair False show thesis
      by (cases "map_result q") (auto simp: collector_burn_def intro: failed)
  qed
qed

lemma best_discount_mono:
  "vol \<le> vol' \<Longrightarrow> b \<le> b' \<Longrightarrow> best_discount_loop vol tiers b \<le> best_discount_loop vol' tiers b'"
proof (induction tiers arbitrary: b b')
  case (Cons t ts)
  show ?case unfolding best_discount_loop.simps by (rule Cons.IH) (use Cons.prems in auto)
qed simp

lemma best_discount_eligible:
  "best_discount_loop vol tiers b = fold max (map vt_discount_bps (filter (\<lambda>t. vt_threshold_usd t \<le> vol) tiers)) b"
  by (induction tiers arbitrary: b) (auto simp: max_def intro!: arg_cong [of _ _ "fold _ _"])

lemma effective_rate_bounds:
  assumes "cached_ok c"
  shows "MIN_FEE_RATE_BPS \<le> effective_fee_rate_cached base token c"
    and "effective_fee_rate_cached base token c \<le> MAX_FEE_RATE_BPS"
  using assms by (auto simp: effective_fee_rate_cached_def Let_def cached_ok_def optimization_ok_def fee_constants)

lemma load_tx_fee_config_ok:
  assumes "load_tx_fee_config s = (c, s')" "settings_ok s"
  shows "cached_ok c" and "settings_ok s'"
  using assms by (auto simp: load_tx_fee_config_def Let_def settings_ok_def cached_ok_def store_defs fee_constants
      split: option.splits if_splits)

lemma load_tx_fee_config_frame: "load_tx_fee_config s = (c, s') \<Longrightarrow> s' = s\<lparr>fk_tx_cache := fk_tx_cache s'\<rparr>"
  by (auto simp: load_tx_fee_config_def Let_def split: option.splits)

lemma fee_rate_for_user_frame:
  "get_fee_rate_for_user e u s = (r, s') \<Longrightarrow>
     s' = s\<lparr>stats := (stats s)\<lparr>fk_monthly_trade_volume := fk_monthly_trade_volume (stats s')\<rparr>\<rparr>"
  by (auto simp: get_fee_rate_for_user_def get_active_volume_usd_def active_monthly_trade_volume_def store_defs Let_def
      split: option.splits if_splits prod.splits)

lemma record_trade_volume_frame:
  "record_trade_volume W e u a x s = (r, s') \<Longrightarrow>
     s' = s\<lparr>stats := (stats s)\<lparr>fk_monthly_trade_volume := fk_monthly_trade_volume (stats s')\<rparr>\<rparr>"
  by (auto simp: record_trade_volume_def active_monthly_trade_volume_def store_defs Let_def
      split: option.splits if_splits prod.splits)

lemma part_le: "0 \<le> x \<Longrightarrow> 0 \<le> b \<Longrightarrow> b \<le> (10000::int) \<Longrightarrow> 0 \<le> x * b div 10000 \<and> x * b div 10000 \<le> x"
proof -
  assume x: "0 \<le> x" and b: "0 \<le> b" "b \<le> (10000::int)"
  then have "x * b \<le> x * 10000" by (intro mult_left_mono)
  then have "x * b div 10000 \<le> x * 10000 div 10000" by (rule zdiv_mono1) simp
  moreover have "0 \<le> x * b div 10000" using x b by (intro pos_imp_zdiv_nonneg_iff [THEN iffD2]) auto
  ultimately show ?thesis by simp
qed

lemma in_i128_10000 [simp]: "in_i128 10000"
  by (simp add: in_i128_def i128_min_def i128_max_def)

lemma div_i128: "0 \<le> v \<Longrightarrow> in_i128 v \<Longrightarrow> checked_div_i128 v 10000 = Some (v div 10000)"
proof -
  assume v: "0 \<le> v" "in_i128 v"
  have "v div 10000 \<le> v div 1" by (rule zdiv_mono2) (use v in simp_all)
  moreover have "0 \<le> v div 10000" using v(1) by (simp add: pos_imp_zdiv_nonneg_iff)
  ultimately have "in_i128 (v div 10000)" using in_i128_nonneg_le [OF v(2), of "v div 10000"] by simp
  with v show ?thesis by (simp add: checked_div_i128_def)
qed

lemma fee_amount_floor_Some:
  assumes "0 \<le> x" "fee_amount_floor x r = Some fee"
  shows "fee = x * int r div 10000"
  using assms by (auto simp: fee_amount_floor_def div_i128 split: option.splits)

lemma fee_and_burn_amounts_Some:
  assumes "0 \<le> x" "fee_and_burn_amounts x r b = Some (fee, burn)"
  shows "fee = x * int r div 10000" and "burn = fee * int b div 10000" and "in_i128 (x * int r)"
proof -
  obtain v where v: "fee_amount_floor x r = Some v" "in_i128 (v * int b)" "checked_div_i128 (v * int b) 10000 = Some burn"
      "fee = v" "in_i128 (x * int r)"
    using assms(2) by (auto simp: fee_and_burn_amounts_def fee_amount_floor_def split: option.splits)
  show fee: "fee = x * int r div 10000" using fee_amount_floor_Some [OF assms(1) v(1)] v(4) by simp
  then have "0 \<le> fee * int b" using assms(1) by (simp add: pos_imp_zdiv_nonneg_iff)
  then show "burn = fee * int b div 10000" using v by (simp add: div_i128)
  show "in_i128 (x * int r)" by (rule v(5))
qed

lemma share_or_bounds:
  assumes "0 \<le> x" "bps \<le> 10000"
  shows "0 \<le> share_or 0 x bps" "share_or 0 x bps \<le> x"
  using part_le [OF assms(1), of "int bps"] assms div_i128 [of "x * int bps"]
  by (auto simp: share_or_def split: option.splits)

section \<open>A sample\<close>

text \<open>
  For the witnesses: the contract is account 0, its administrator account 1, the oracle account 7, the token
  account 9. Account 3 has traded before, has a gold volume this month and was referred by account 4.
\<close>

definition sample_world :: "balance_ledger world" where
  "sample_world = \<lparr>tokens_of = asset_contract, balance_of = (\<lambda>tk a t. Some (t tk a)),
     convert_to_base = (\<lambda>_ x _ _. Some x), get_rate = (\<lambda>_ _ _ _. Some 2000000)\<rparr>"

definition sample_now :: "nat \<Rightarrow> env" where
  "sample_now t = \<lparr>ledger_timestamp = t, ledger_sequence = 100, current_contract_address = Addr 0,
     has_auth = (\<lambda>a. a \<noteq> Addr 0), has_auth_for_args = (\<lambda>_ _. False)\<rparr>"

definition sample_fee_ledger :: balance_ledger where
  "sample_fee_ledger tk a = (if tk = Addr 9 \<and> a \<in> {Addr 0, Addr 3} then 1000000 else 0)"

definition sample_collector :: "balance_ledger collector" where
  "sample_collector = (empty_collector sample_fee_ledger)
     \<lparr>k_initialized := Some True,
      conf := empty_settings\<lparr>fk_admin := Some (Addr 1), fk_oracle_contract := Some (Addr 7),
        fk_referrer := (\<lambda>a. if a = Addr 3 then Some (Addr 4) else None), fk_referral_fee_share_bps := Some 2000\<rparr>,
      stats := empty_statistics\<lparr>fk_has_traded := (\<lambda>a. if a = Addr 3 then Some True else None),
        fk_monthly_trade_volume := (\<lambda>a. if a = Addr 3 then Some \<lparr>month_bucket = 0, volume_usd = 600000000000\<rparr> else None)\<rparr>\<rparr>"

lemmas sample_fee_defs =
  sample_world_def sample_now_def sample_collector_def empty_collector_def empty_settings_def empty_statistics_def

lemma sample_world_sep41: "sep41 (tokens_of sample_world) (\<lambda>t. t)"
  by (simp add: sample_world_def asset_contract_sep41)

lemma sample_now_ok: "call_ok (Addr 0) (sample_now t)"
  by (simp add: call_ok_def sample_now_def)

lemma sample_settings_ok: "settings_ok sample_collector"
  by (simp add: settings_ok_def optimization_ok_def congestion_ok_def validate_policy_def default_policy_def
      default_optimization_config_def default_congestion_config_def default_forecast_config_def
      store_defs sample_fee_defs fee_constants u32_max_def)

section \<open>Properties\<close>

lemma policy_split_value:
  assumes "validate_policy p = Inr ()" "0 \<le> gross" "in_i128 gross"
  shows "policy_split p gross =
    (if in_i128 (gross * int (protocol_bps p))
     then Inr (gross * int (protocol_bps p) div 10000, gross - gross * int (protocol_bps p) div 10000)
     else Inl ArithmeticOverflow)"
    and "0 \<le> gross * int (protocol_bps p) div 10000" "gross * int (protocol_bps p) div 10000 \<le> gross"
proof -
  let ?v = "gross * int (protocol_bps p)"
  have b: "int (protocol_bps p) \<le> 10000" using assms(1) by (auto simp: validate_policy_def BPS_TOTAL_def split: if_splits)
  note part = part_le [OF assms(2) _ b]
  show *: "0 \<le> ?v div 10000" "?v div 10000 \<le> gross" using part by auto
  have "in_i128 (gross - ?v div 10000)" by (rule in_i128_nonneg_le [OF assms(3)]) (use * in auto)
  then show "policy_split p gross = (if in_i128 ?v then Inr (?v div 10000, gross - ?v div 10000) else Inl ArithmeticOverflow)"
    using assms(2) div_i128 [of ?v] by (auto simp: policy_split_def BPS_TOTAL_def checked_mul_def checked_i128_def checked_sub_def)
qed

text \<open>
  The split of a fee between protocol and provider loses nothing: under a valid policy the two shares are
  non-negative and add up to the gross amount, the protocol's share is its exact proportion rounded down,
  and the split succeeds for every amount up to a ten-thousandth of the 128-bit range.
\<close>

theorem fee_split_exact:
  assumes "validate_policy p = Inr ()" and "0 \<le> gross" and "in_i128 gross"
  shows "(\<forall>a b. policy_split p gross = Inr (a, b) \<longrightarrow>
       a + b = gross \<and> 0 \<le> a \<and> 0 \<le> b \<and>
       a * 10000 \<le> gross * int (protocol_bps p) \<and> gross * int (protocol_bps p) < (a + 1) * 10000) \<and>
    (gross \<le> i128_max div 10000 \<longrightarrow> (\<exists>a b. policy_split p gross = Inr (a, b)))"
proof -
  let ?v = "gross * int (protocol_bps p)"
  note val = policy_split_value [OF assms]
  have fl: "?v div 10000 * 10000 \<le> ?v" "?v < (?v div 10000 + 1) * 10000"
    using div_mult_mod_eq [of ?v 10000] pos_mod_sign [of 10000 ?v] pos_mod_bound [of 10000 ?v] unfolding distrib_right by linarith+
  have "in_i128 ?v" if "gross \<le> i128_max div 10000"
  proof -
    have "int (protocol_bps p) \<le> 10000"
      using assms(1) by (auto simp: validate_policy_def BPS_TOTAL_def split: if_splits)
    then have "?v \<le> gross * 10000" using assms(2) by (intro mult_left_mono) auto
    moreover have "0 \<le> ?v" using assms(2) by simp
    ultimately show ?thesis using that by (simp add: in_i128_def i128_min_def i128_max_def)
  qed
  with fl val show ?thesis by auto
qed

theorem fee_split_exact_witness:
  "policy_split default_policy 1001 = Inr (300, 701) \<and> (300::int) + 701 = 1001"
  using fee_split_exact [of default_policy 1001]
  by (simp add: policy_split_def default_policy_def validate_policy_def fee_constants u32_max_def int_defs tdiv_nonneg)

text \<open>
  A larger volume never costs more: of two traders in the same state, the one with the larger active
  monthly volume is never charged a higher rate, and every rate is at least the minimum of one basis point.
\<close>

theorem volume_never_raises_rate:
  assumes "fst (get_active_volume_usd e a s) \<le> fst (get_active_volume_usd e b s)"
  shows "fst (get_fee_rate_for_user e b s) \<le> fst (get_fee_rate_for_user e a s) \<and>
    MIN_FEE_RATE_BPS \<le> fst (get_fee_rate_for_user e b s)"
proof -
  have conf: "get_volume_discount_config (snd (get_active_volume_usd e u s)) = get_volume_discount_config s" for u
    by (auto simp: get_active_volume_usd_def active_monthly_trade_volume_def store_defs split: option.splits)
  obtain va sa vb sb where v: "get_active_volume_usd e a s = (va, sa)" "get_active_volume_usd e b s = (vb, sb)" by fastforce
  with assms conf [of a] conf [of b] have "va \<le> vb" "get_volume_discount_config sa = get_volume_discount_config s"
    "get_volume_discount_config sb = get_volume_discount_config s" by auto
  note vol = this
  show ?thesis
  proof (cases "get_volume_discount_config s")
    case None
    with v vol show ?thesis by (auto simp: get_fee_rate_for_user_def Let_def fee_constants)
  next
    case (Some ts)
    have "x - best_discount_loop vb ts 0 \<le> x - best_discount_loop va ts 0" for x
      using vol(1) by (intro diff_le_mono2 best_discount_mono) simp_all
    then have "max (x - best_discount_loop vb ts 0) m \<le> max (x - best_discount_loop va ts 0) m" for x m
      by (rule max.mono) simp
    with Some v vol(2,3) show ?thesis by (simp add: get_fee_rate_for_user_def Let_def del: max.bounded_iff)
  qed
qed

theorem volume_never_raises_rate_witness:
  "fst (get_fee_rate_for_user (sample_now 0) (Addr 3) sample_collector) = 20 \<and>
   fst (get_fee_rate_for_user (sample_now 0) (Addr 5) sample_collector) = 30 \<and> (20::nat) \<le> 30"
  using volume_never_raises_rate [of "sample_now 0" "Addr 5" sample_collector "Addr 3"]
  by (simp add: get_fee_rate_for_user_def get_active_volume_usd_def active_monthly_trade_volume_def current_month_bucket_def
      current_effective_multiplier_def default_congestion_config_def sat_mul_u64_def as_u32_def u64_max_def
      store_defs sample_fee_defs fee_constants)

end
