(* ===== verification/Collector_Admin.thy ===== *)
theory Collector_Admin
  imports Collector_Rates
begin

text \<open>
  The entry points of \<^verbatim>\<open>fee_collector/src/lib.rs\<close> that configure the contract: initialisation, upgrade, pause, the
  allowlist, rates, congestion, discounts, forecasts, referrals, payout currencies, token metadata, the
  revenue-share snapshot and the records of provider earnings. The guards that the entry points share
  (initialised, not paused, signed by the administrator or an allowlisted caller) are combinators, in the
  order in which each entry point applies them.
\<close>

section \<open>Guards\<close>

definition if_initialized :: "('t collector \<Rightarrow> ('t, 'a) collector_result) \<Rightarrow> 't collector \<Rightarrow> ('t, 'a) collector_result" where
  "if_initialized body s = (if \<not> is_initialized s then (Err NotInitialized, s) else body s)"

definition when_active :: "('t collector \<Rightarrow> ('t, 'a) collector_result) \<Rightarrow> 't collector \<Rightarrow> ('t, 'a) collector_result" where
  "when_active body s = (case require_not_paused s of Inl _ \<Rightarrow> (Err ContractPaused, s) | Inr _ \<Rightarrow> body s)"

definition when_unlocked :: "('t collector \<Rightarrow> ('t, 'a) collector_result) \<Rightarrow> 't collector \<Rightarrow> ('t, 'a) collector_result" where
  "when_unlocked body s = (case require_not_locked s of Inl _ \<Rightarrow> (Err Unauthorized, s) | Inr _ \<Rightarrow> body s)"

definition signed_by_admin ::
  "env \<Rightarrow> (address \<Rightarrow> 't collector \<Rightarrow> ('t, 'a) collector_result) \<Rightarrow> 't collector \<Rightarrow> ('t, 'a) collector_result" where
  "signed_by_admin e body s =
     (case fc_get_admin s of
        None \<Rightarrow> (Panic, s)
      | Some admin \<Rightarrow> if \<not> has_auth e admin then (Panic, s) else body admin s)"

definition signed_by :: "env \<Rightarrow> address \<Rightarrow> ('t collector \<Rightarrow> ('t, 'a) collector_result) \<Rightarrow>
    't collector \<Rightarrow> ('t, 'a) collector_result" where
  "signed_by e a body s = (if \<not> has_auth e a then (Panic, s) else body s)"

definition admin_only ::
  "env \<Rightarrow> (address \<Rightarrow> 't collector \<Rightarrow> ('t, 'a) collector_result) \<Rightarrow> 't collector \<Rightarrow> ('t, 'a) collector_result" where
  "admin_only e body = if_initialized (signed_by_admin e body)"

text \<open>The entry points that also take the administrator's address as an argument.\<close>

definition named_admin_only ::
  "env \<Rightarrow> address \<Rightarrow> ('t collector \<Rightarrow> ('t, 'a) collector_result) \<Rightarrow> 't collector \<Rightarrow> ('t, 'a) collector_result" where
  "named_admin_only e admin body =
     admin_only e (\<lambda>stored s. if stored \<noteq> admin then (Err Unauthorized, s) else body s)"

text \<open>The administrator or an allowlisted caller.\<close>

definition trusted_caller ::
  "env \<Rightarrow> address \<Rightarrow> ('t collector \<Rightarrow> ('t, 'a) collector_result) \<Rightarrow> 't collector \<Rightarrow> ('t, 'a) collector_result" where
  "trusted_caller e caller body =
     signed_by e caller (\<lambda>s.
       case fc_get_admin s of
         None \<Rightarrow> (Panic, s)
       | Some admin \<Rightarrow>
           if caller \<noteq> admin \<and> \<not> is_authorized_caller caller s then (Err UnauthorizedCaller, s) else body s)"

text \<open>What the success of a guarded operation says.\<close>

lemma guards_Ok [simp]:
  "if_initialized f s = (Ok r, s') \<longleftrightarrow> is_initialized s \<and> f s = (Ok r, s')"
  "when_active f s = (Ok r, s') \<longleftrightarrow> \<not> is_paused s \<and> f s = (Ok r, s')"
  "when_unlocked f s = (Ok r, s') \<longleftrightarrow> require_not_locked s = Inr () \<and> f s = (Ok r, s')"
  "signed_by e a f s = (Ok r, s') \<longleftrightarrow> has_auth e a \<and> f s = (Ok r, s')"
  "signed_by_admin e g s = (Ok r, s') \<longleftrightarrow>
     (\<exists>admin. fc_get_admin s = Some admin \<and> has_auth e admin \<and> g admin s = (Ok r, s'))"
  by (auto simp: if_initialized_def when_active_def when_unlocked_def signed_by_def signed_by_admin_def
      require_not_paused_def split: option.splits sum.splits)

lemma admin_guards_Ok [simp]:
  "admin_only e g s = (Ok r, s') \<longleftrightarrow>
     is_initialized s \<and> (\<exists>admin. fc_get_admin s = Some admin \<and> has_auth e admin \<and> g admin s = (Ok r, s'))"
  "named_admin_only e a f s = (Ok r, s') \<longleftrightarrow>
     is_initialized s \<and> fc_get_admin s = Some a \<and> has_auth e a \<and> f s = (Ok r, s')"
  "trusted_caller e c f s = (Ok r, s') \<longleftrightarrow> has_auth e c \<and>
     (\<exists>admin. fc_get_admin s = Some admin \<and> (c = admin \<or> is_authorized_caller c s) \<and> f s = (Ok r, s'))"
  by (auto simp: admin_only_def named_admin_only_def trusted_caller_def split: option.splits if_splits)

section \<open>Life cycle\<close>

definition fc_initialize :: "env \<Rightarrow> address \<Rightarrow> 't collector \<Rightarrow> ('t, unit) collector_result" where
  "fc_initialize e admin s =
     (if \<not> has_auth e admin then (Panic, s)
      else if is_initialized s then (Err AlreadyInitialized, s)
      else (Ok (), set_contract_version (mark_initialized (fc_set_admin admin s)) FEE_COLLECTOR_VERSION))"

text \<open>The replacement of the executable itself is outside the storage.\<close>

definition fc_upgrade :: "env \<Rightarrow> nat \<Rightarrow> 't collector \<Rightarrow> ('t, unit) collector_result" where
  "fc_upgrade e new_version =
     admin_only e (\<lambda>_ s.
       let current = get_contract_version s
       in case guard_upgrade current new_version of
            Inl _ \<Rightarrow> (Err IncompatibleContractVersion, s)
          | Inr _ \<Rightarrow> (Ok (), emit_contract_upgraded (set_contract_version s new_version) current new_version))"

definition fc_pause :: "env \<Rightarrow> 't collector \<Rightarrow> ('t, unit) collector_result" where
  "fc_pause e = admin_only e (\<lambda>_ s. (Ok (), set_paused s True))"

definition fc_unpause :: "env \<Rightarrow> 't collector \<Rightarrow> ('t, unit) collector_result" where
  "fc_unpause e = admin_only e (\<lambda>_ s. (Ok (), set_paused s False))"

definition authorize_caller :: "env \<Rightarrow> address \<Rightarrow> 't collector \<Rightarrow> ('t, unit) collector_result" where
  "authorize_caller e caller =
     admin_only e (\<lambda>_ s. (Ok (), emit_caller_authorized caller (set_authorized_caller caller s)))"

definition revoke_caller :: "env \<Rightarrow> address \<Rightarrow> 't collector \<Rightarrow> ('t, unit) collector_result" where
  "revoke_caller e caller =
     admin_only e (\<lambda>_ s. (Ok (), emit_caller_revoked caller (remove_authorized_caller caller s)))"

section \<open>Rates\<close>

definition set_oracle_contract :: "env \<Rightarrow> address \<Rightarrow> 't collector \<Rightarrow> ('t, unit) collector_result" where
  "set_oracle_contract e oracle = admin_only e (\<lambda>_ s. (Ok (), set_oracle_contract_storage oracle s))"

definition set_fee_rate :: "env \<Rightarrow> nat \<Rightarrow> 't collector \<Rightarrow> ('t, unit) collector_result" where
  "set_fee_rate e new_rate =
     admin_only e (\<lambda>admin s.
       if new_rate > MAX_FEE_RATE_BPS then (Err FeeRateTooHigh, s)
       else if new_rate < MIN_FEE_RATE_BPS then (Err FeeRateTooLow, s)
       else let old_rate = get_fee_rate s
            in (Ok (), emit_fee_rate_updated old_rate new_rate admin
                         (bump_config_version (set_fee_rate_storage new_rate s))))"

definition set_burn_rate :: "env \<Rightarrow> nat \<Rightarrow> 't collector \<Rightarrow> ('t, unit) collector_result" where
  "set_burn_rate e new_rate =
     admin_only e (\<lambda>_ s.
       if new_rate > MAX_BURN_RATE_BPS then (Err BurnRateTooHigh, s)
       else (Ok (), bump_config_version (set_burn_rate_storage new_rate s)))"

definition set_congestion_config :: "env \<Rightarrow> congestion_config \<Rightarrow> 't collector \<Rightarrow> ('t, unit) collector_result" where
  "set_congestion_config e config =
     admin_only e (\<lambda>_ s.
       if min_multiplier_bps config = 0 \<or> min_multiplier_bps config > max_multiplier_bps config \<or>
          default_multiplier_bps config < min_multiplier_bps config \<or>
          default_multiplier_bps config > max_multiplier_bps config
       then (Err InvalidMultiplierBounds, s)
       else (Ok (), set_congestion_config_storage config s))"

definition set_congestion_signal :: "env \<Rightarrow> address \<Rightarrow> nat \<Rightarrow> 't collector \<Rightarrow> ('t, unit) collector_result" where
  "set_congestion_signal e caller multiplier =
     if_initialized (trusted_caller e caller (\<lambda>s.
       let config = get_congestion_config s
       in if multiplier < min_multiplier_bps config \<or> multiplier > max_multiplier_bps config
          then (Err InvalidMultiplierBounds, s)
          else let old_effective = current_effective_multiplier e s;
                   s1 = set_congestion_signal_storage
                          \<lparr>signal_multiplier_bps = multiplier, signal_updated_at = ledger_timestamp e\<rparr> s;
                   new_effective = current_effective_multiplier e s1
               in (Ok (), if old_effective \<noteq> new_effective
                          then emit_effective_multiplier_changed old_effective new_effective s1 else s1)))"

definition set_fee_optimization_config ::
  "env \<Rightarrow> address \<Rightarrow> fee_optimization_config \<Rightarrow> 't collector \<Rightarrow> ('t, unit) collector_result" where
  "set_fee_optimization_config e admin config =
     named_admin_only e admin (\<lambda>s.
       if max_dynamic_rate_bps config < MIN_FEE_RATE_BPS \<or> max_dynamic_rate_bps config > MAX_FEE_RATE_BPS \<or>
          congestion_sensitivity_bps config > 10000 \<or> min_effective_rate_bps config < MIN_FEE_RATE_BPS \<or>
          max_retry_attempts config > 10
       then (Err InvalidFeeConfiguration, s)
       else (Ok (), bump_config_version (set_fee_optimization_config_storage config s)))"

definition update_network_conditions ::
  "env \<Rightarrow> address \<Rightarrow> nat \<Rightarrow> string \<Rightarrow> 't collector \<Rightarrow> ('t, unit) collector_result" where
  "update_network_conditions e admin score note =
     named_admin_only e admin (\<lambda>s.
       if score > 10000 then (Err NetworkConditionInvalid, s)
       else (Ok (), emit_network_condition_updated score note (ledger_timestamp e)
                      (bump_config_version (set_network_condition_score score s))))"

definition queue_failed_fee_collection ::
  "env \<Rightarrow> address \<Rightarrow> failed_fee_collection \<Rightarrow> 't collector \<Rightarrow> ('t, unit) collector_result" where
  "queue_failed_fee_collection e admin failed =
     named_admin_only e admin (\<lambda>s. (Ok (), set_failed_fee_collection failed s))"

definition set_insurance_payout_cap ::
  "env \<Rightarrow> address \<Rightarrow> address \<Rightarrow> int \<Rightarrow> 't collector \<Rightarrow> ('t, unit) collector_result" where
  "set_insurance_payout_cap e caller token max_cap =
     if_initialized (signed_by e caller (\<lambda>s.
       case fc_get_admin s of
         None \<Rightarrow> (Panic, s)
       | Some admin \<Rightarrow>
           if caller \<noteq> admin then (Err UnauthorizedCaller, s)
           else if max_cap < 0 then (Err InvalidAmount, s)
           else let old_cap = get_insurance_payout_cap token s
                in (Ok (), emit_insurance_payout_cap_updated token old_cap max_cap caller
                             (set_insurance_payout_cap_storage token max_cap s))))"

section \<open>Provider earnings and the split policy\<close>

definition record_provider_fee_share ::
  "env \<Rightarrow> address \<Rightarrow> address \<Rightarrow> int \<Rightarrow> 't collector \<Rightarrow> ('t, unit) collector_result" where
  "record_provider_fee_share e caller provider amount =
     if_initialized (trusted_caller e caller (\<lambda>s.
       if amount \<le> 0 then (Err InvalidAmount, s)
       else (Ok (), add_provider_daily_fee_shares provider (ledger_timestamp e div SECONDS_PER_DAY_FC) amount s)))"

definition set_fee_split_policy :: "env \<Rightarrow> nat \<Rightarrow> nat \<Rightarrow> 't collector \<Rightarrow> ('t, unit) collector_result" where
  "set_fee_split_policy e protocol provider =
     admin_only e (\<lambda>admin s.
       let new_policy = \<lparr>protocol_bps = protocol, provider_bps = provider\<rparr>
       in case validate_policy new_policy of
            Inl er \<Rightarrow> (Err er, s)
          | Inr _ \<Rightarrow>
              let old_policy = fc_get_fee_split_policy s
              in (Ok (), emit_fee_split_policy_updated old_policy new_policy admin
                           (set_fee_split_policy_storage new_policy s)))"

definition preview_fee_split :: "int \<Rightarrow> 't collector \<Rightarrow> ('t, int \<times> int) collector_result" where
  "preview_fee_split gross =
     if_initialized (\<lambda>s.
       (case policy_split (fc_get_fee_split_policy s) gross of Inl er \<Rightarrow> Err er | Inr r \<Rightarrow> Ok r, s))"

definition record_provider_gross_fee_share ::
  "env \<Rightarrow> address \<Rightarrow> address \<Rightarrow> int \<Rightarrow> 't collector \<Rightarrow> ('t, int \<times> int) collector_result" where
  "record_provider_gross_fee_share e caller provider gross =
     if_initialized (trusted_caller e caller (\<lambda>s.
       if gross \<le> 0 then (Err InvalidAmount, s)
       else case policy_split (fc_get_fee_split_policy s) gross of
              Inl er \<Rightarrow> (Err er, s)
            | Inr (protocol_amount, provider_amount) \<Rightarrow>
                let s1 = (if provider_amount > 0
                          then add_provider_daily_fee_shares provider
                                 (ledger_timestamp e div SECONDS_PER_DAY_FC) provider_amount s
                          else s)
                in (Ok (protocol_amount, provider_amount),
                    emit_fee_split_applied provider gross protocol_amount provider_amount s1)))"

section \<open>Tokens and the revenue share\<close>

text \<open>\<open>zero\<close> is the address of the all-zero key, which the source builds from its text form.\<close>

definition set_protocol_token :: "address \<Rightarrow> env \<Rightarrow> address option \<Rightarrow> 't collector \<Rightarrow> ('t, unit) collector_result" where
  "set_protocol_token zero e token =
     admin_only e (\<lambda>_ s. (Ok (), set_protocol_token_storage (case token of Some a \<Rightarrow> a | None \<Rightarrow> zero) s))"

definition register_token ::
  "env \<Rightarrow> address \<Rightarrow> address \<Rightarrow> string \<Rightarrow> string \<Rightarrow> nat \<Rightarrow> 't collector \<Rightarrow> ('t, unit) collector_result" where
  "register_token e admin token symb nm decs =
     named_admin_only e admin (\<lambda>s.
       let metadata = \<lparr>meta_symbol = symb, meta_name = nm, meta_decimals = decs\<rparr>
       in case validate_metadata metadata of
            Inl _ \<Rightarrow> (Err InvalidTokenMetadata, s)
          | Inr _ \<Rightarrow> (Ok (), set_registered_token_metadata token metadata s))"

definition validate_token_metadata_for_token :: "address \<Rightarrow> 't collector \<Rightarrow> fee_error + unit" where
  "validate_token_metadata_for_token token s =
     (case get_registered_token_metadata token s of
        None \<Rightarrow> Inr ()
      | Some metadata \<Rightarrow>
          (case validate_metadata metadata of Inl _ \<Rightarrow> Inl InvalidTokenMetadata | Inr _ \<Rightarrow> Inr ()))"

definition effective_fee_rate_for_payment :: "address \<Rightarrow> 't collector \<Rightarrow> nat" where
  "effective_fee_rate_for_payment token s =
     (if fc_get_protocol_token s = Some token then get_fee_rate s div 2 else get_fee_rate s)"

definition set_revenue_share_rate_bps :: "env \<Rightarrow> nat \<Rightarrow> 't collector \<Rightarrow> ('t, unit) collector_result" where
  "set_revenue_share_rate_bps e rate =
     admin_only e (\<lambda>_ s.
       if rate > 10000 then (Err InvalidAmount, s) else (Ok (), set_revenue_share_rate_bps_storage rate s))"

definition trigger_revenue_share_snapshot ::
  "env \<Rightarrow> address \<Rightarrow> address \<Rightarrow> 't collector \<Rightarrow> ('t, unit) collector_result" where
  "trigger_revenue_share_snapshot e caller token =
     admin_only e (\<lambda>admin. signed_by (consume_auth admin e) caller (\<lambda>s.
       let pool_amount = fc_get_revenue_share_pool token s
       in (Ok (), if pool_amount > 0
                  then clear_revenue_share_pool token
                         (emit_revenue_share_distributed token pool_amount (ledger_sequence e)
                            (set_last_revenue_share_snapshot (ledger_sequence e) s))
                  else s)))"

section \<open>Waterfall, payout currency, discounts, forecasts, referrals and the rebate cap\<close>

definition set_waterfall_config :: "env \<Rightarrow> waterfall_tier list \<Rightarrow> 't collector \<Rightarrow> ('t, unit) collector_result" where
  "set_waterfall_config e config = admin_only e (\<lambda>_ s. (Ok (), set_waterfall_config_storage config s))"

definition get_waterfall_config_fn :: "'t collector \<Rightarrow> ('t, waterfall_tier list) collector_result" where
  "get_waterfall_config_fn =
     if_initialized (\<lambda>s. (case get_waterfall_config s of None \<Rightarrow> Err WaterfallNotConfigured | Some c \<Rightarrow> Ok c, s))"

definition set_payout_currency :: "env \<Rightarrow> address \<Rightarrow> address \<Rightarrow> 't collector \<Rightarrow> ('t, unit) collector_result" where
  "set_payout_currency e provider token =
     if_initialized (signed_by e provider (\<lambda>s.
       (Ok (), emit_payout_currency_set provider token (set_provider_payout_currency provider token s))))"

definition clear_payout_currency :: "env \<Rightarrow> address \<Rightarrow> 't collector \<Rightarrow> ('t, unit) collector_result" where
  "clear_payout_currency e provider =
     if_initialized (signed_by e provider (\<lambda>s. (Ok (), remove_provider_payout_currency provider s)))"

definition set_volume_discount_config ::
  "env \<Rightarrow> address \<Rightarrow> volume_tier list \<Rightarrow> 't collector \<Rightarrow> ('t, unit) collector_result" where
  "set_volume_discount_config e admin tiers =
     named_admin_only e admin (\<lambda>s.
       if length tiers < 3 then (Err InvalidFeeConfiguration, s)
       else if list_ex (\<lambda>t. vt_threshold_usd t < 0 \<or> vt_discount_bps t = 0 \<or> vt_discount_bps t > MAX_FEE_RATE_BPS) tiers
       then (Err InvalidFeeConfiguration, s)
       else (Ok (), emit_volume_discount_config_updated (length tiers) (set_volume_discount_config_storage tiers s)))"

definition set_forecast_config ::
  "env \<Rightarrow> address \<Rightarrow> forecast_config_data \<Rightarrow> 't collector \<Rightarrow> ('t, unit) collector_result" where
  "set_forecast_config e admin config =
     named_admin_only e admin (\<lambda>s.
       if epoch_cadence_days config = 0 \<or> window_days config = 0 then (Err InvalidFeeConfiguration, s)
       else (Ok (), set_forecast_config_storage config s))"

definition register_referral :: "env \<Rightarrow> address \<Rightarrow> address \<Rightarrow> 't collector \<Rightarrow> ('t, unit) collector_result" where
  "register_referral e referrer referee =
     if_initialized (signed_by e referee (\<lambda>s.
       if referrer = referee then (Err SelfReferralNotAllowed, s)
       else if get_referrer referee s \<noteq> None then (Err ReferralAlreadyRegistered, s)
       else (Ok (), emit_referral_registered referrer referee (set_referrer referee referrer s))))"

definition admin_override_referral ::
  "env \<Rightarrow> address \<Rightarrow> address \<Rightarrow> address \<Rightarrow> 't collector \<Rightarrow> ('t, unit) collector_result" where
  "admin_override_referral e admin referrer referee =
     named_admin_only e admin (\<lambda>s.
       if referrer = referee then (Err SelfReferralNotAllowed, s)
       else (Ok (), emit_referral_registered referrer referee (set_referrer referee referrer s)))"

definition set_referral_fee_share :: "env \<Rightarrow> address \<Rightarrow> nat \<Rightarrow> 't collector \<Rightarrow> ('t, unit) collector_result" where
  "set_referral_fee_share e admin share =
     named_admin_only e admin (\<lambda>s.
       if share > 10000 then (Err InvalidFeeConfiguration, s)
       else let old_bps = get_referral_fee_share_bps s
            in (Ok (), emit_referral_fee_share_updated old_bps share admin (set_referral_fee_share_bps share s)))"

definition set_max_rebate_bps :: "env \<Rightarrow> nat \<Rightarrow> 't collector \<Rightarrow> ('t, unit) collector_result" where
  "set_max_rebate_bps e bps =
     admin_only e (\<lambda>_ s.
       if bps > 10000 then (Err InvalidFeeConfiguration, s) else (Ok (), set_max_rebate_bps_storage bps s))"

text \<open>\<open>placeholder\<close> is the address of \<^verbatim>\<open>PLACEHOLDER_ADMIN_STR\<close>; an initialised contract without administrator traps.\<close>

definition fc_health_check :: "address \<Rightarrow> string \<Rightarrow> 't collector \<Rightarrow> ('t, health_status) collector_result" where
  "fc_health_check placeholder version s =
     (if \<not> is_initialized s
      then (Ok \<lparr>is_initialized_flag = False, is_paused_flag = False, health_version = version,
                health_admin = placeholder, initialized_at = 0\<rparr>, s)
      else case fc_get_admin s of
             None \<Rightarrow> (Panic, s)
           | Some admin \<Rightarrow>
               (Ok \<lparr>is_initialized_flag = True, is_paused_flag = is_paused s, health_version = version,
                    health_admin = admin, initialized_at = 0\<rparr>, s))"

end
