(* ===== verification/Collector_Fees.thy ===== *)
theory Collector_Fees
  imports Collector_Admin
begin

text \<open>
  Collecting and claiming fees (\<^verbatim>\<open>fee_collector/src/lib.rs\<close>): \<^verbatim>\<open>collect_fee\<close>, its batch and its retry with the common
  worker \<^verbatim>\<open>collect_fee_with_recovery\<close>, the forecast, and \<^verbatim>\<open>claim_fees\<close> with the optional conversion of the payout.
\<close>

section \<open>Rates as entry points\<close>

definition fee_rate_for_user :: "env \<Rightarrow> address \<Rightarrow> 't collector \<Rightarrow> ('t, nat) collector_result" where
  "fee_rate_for_user e user =
     if_initialized (\<lambda>s. case get_fee_rate_for_user e user s of (r, s') \<Rightarrow> (Ok r, s'))"

definition monthly_trade_volume_of :: "env \<Rightarrow> address \<Rightarrow> 't collector \<Rightarrow> ('t, int) collector_result" where
  "monthly_trade_volume_of e user =
     if_initialized (\<lambda>s. case get_active_volume_usd e user s of (r, s') \<Rightarrow> (Ok r, s'))"

definition current_dynamic_fee_rate :: "env \<Rightarrow> address \<Rightarrow> address \<Rightarrow> 't collector \<Rightarrow> ('t, nat) collector_result" where
  "current_dynamic_fee_rate e trader token s =
     (case effective_fee_rate_for_trade e trader token s of (r, s') \<Rightarrow> (Ok r, s'))"

section \<open>The forecast\<close>

fun forecast_loop :: "address \<Rightarrow> nat \<Rightarrow> nat list \<Rightarrow> int \<Rightarrow> nat \<Rightarrow> 't collector \<Rightarrow> int \<times> nat" where
  "forecast_loop token current_day [] tot days s = (tot, days)"
| "forecast_loop token current_day (i # is) tot days s =
     (let daily_total = get_daily_fee_total token (current_day - i) s
      in if daily_total > 0
         then forecast_loop token current_day is (saturating_add tot daily_total) (sat_add_u64 days 1) s
         else forecast_loop token current_day is tot days s)"

definition projected_fees :: "int \<Rightarrow> nat \<Rightarrow> nat \<Rightarrow> int" where
  "projected_fees tot days cadence =
     (case checked_div_i128 tot (int days) of
        None \<Rightarrow> 0 | Some avg \<Rightarrow> get_or 0 (checked_mul avg (int cadence)))"

definition compute_and_emit_forecast ::
  "address \<Rightarrow> nat \<Rightarrow> forecast_config_data \<Rightarrow> 't collector \<Rightarrow> 't collector" where
  "compute_and_emit_forecast token current_day cfg s =
     (let window = window_days cfg
      in if window = 0 then s
         else case forecast_loop token current_day [0..<window] 0 0 s of (tot, days) \<Rightarrow>
           if days = 0 then s
           else emit_fee_forecast token (projected_fees tot days (epoch_cadence_days cfg)) window current_day s)"

definition trigger_fee_forecast :: "env \<Rightarrow> address \<Rightarrow> address \<Rightarrow> 't collector \<Rightarrow> ('t, int) collector_result" where
  "trigger_fee_forecast e admin token =
     named_admin_only e admin (\<lambda>s.
       let cfg = get_forecast_config s;
           current_day = ledger_timestamp e div SECONDS_PER_DAY_FC;
           window = window_days cfg
       in case forecast_loop token current_day [0..<window] 0 0 s of (tot, days) \<Rightarrow>
         let projected = (if days > 0 then projected_fees tot days (epoch_cadence_days cfg) else 0)
         in (Ok projected, set_last_forecast_day token current_day
                             (emit_fee_forecast token projected window current_day s)))"

section \<open>Collecting a fee\<close>

text \<open>The fee moves to the contract and its burnt slice is destroyed; the result is what can be distributed.\<close>

definition take_fee ::
  "'t world \<Rightarrow> env \<Rightarrow> address \<Rightarrow> address \<Rightarrow> int \<Rightarrow> int \<Rightarrow> 't collector \<Rightarrow> ('t, int) collector_result" where
  "take_fee W e trader token fee_amount burn_amount s =
     (case collector_transfer W token trader (current_contract_address e) fee_amount s of
        (Ok _, s1) \<Rightarrow>
          (case checked_sub fee_amount burn_amount of
             None \<Rightarrow> (Err ArithmeticOverflow, s1)
           | Some distributable \<Rightarrow>
               if burn_amount > 0
               then case collector_burn W token (current_contract_address e) burn_amount s1 of
                      (Ok _, s2) \<Rightarrow> (Ok distributable, emit_fees_burned burn_amount token s2)
                    | (Err er, s2) \<Rightarrow> (Err er, s2)
                    | (Panic, s2) \<Rightarrow> (Panic, s2)
               else (Ok distributable, s1))
      | (Err er, s1) \<Rightarrow> (Err er, s1)
      | (Panic, s1) \<Rightarrow> (Panic, s1))"

text \<open>The referrer's share, capped by what is left; the result is what remains.\<close>

definition pay_referral ::
  "'t world \<Rightarrow> env \<Rightarrow> address \<Rightarrow> address \<Rightarrow> int \<Rightarrow> int \<Rightarrow> 't collector \<Rightarrow> ('t, int) collector_result" where
  "pay_referral W e trader token fee_amount distributable s =
     (case get_referrer trader s of
        None \<Rightarrow> (Ok distributable, s)
      | Some referrer \<Rightarrow>
          let referral_amount = min (share_or 0 fee_amount (get_referral_fee_share_bps s)) distributable
          in if referral_amount > 0
             then case collector_transfer W token (current_contract_address e) referrer referral_amount s of
                    (Ok _, s1) \<Rightarrow>
                      (Ok (saturating_sub distributable referral_amount),
                       emit_referral_fee_paid referrer trader token referral_amount s1)
                  | (Err er, s1) \<Rightarrow> (Err er, s1)
                  | (Panic, s1) \<Rightarrow> (Panic, s1)
             else (Ok distributable, s))"

text \<open>The revenue share and the credit of the treasury.\<close>

definition credit_fee :: "address \<Rightarrow> int \<Rightarrow> int \<Rightarrow> 't collector \<Rightarrow> ('t, unit) collector_result" where
  "credit_fee token distributable remaining s =
     (let revenue_share_amount = min (share_or 0 distributable (fc_get_revenue_share_rate_bps s)) remaining;
          treasury_credit = saturating_sub remaining revenue_share_amount;
          s1 = (if revenue_share_amount > 0 then add_revenue_share_pool token revenue_share_amount s else s)
      in case checked_add (get_treasury_balance token s1) treasury_credit of
           None \<Rightarrow> (Err ArithmeticOverflow, s1)
         | Some updated \<Rightarrow> (Ok (), set_treasury_balance token updated s1))"

text \<open>The daily total, with the forecast when an epoch has passed.\<close>

definition record_daily_fee :: "env \<Rightarrow> address \<Rightarrow> int \<Rightarrow> 't collector \<Rightarrow> 't collector" where
  "record_daily_fee e token fee_amount s =
     (let current_day = ledger_timestamp e div SECONDS_PER_DAY_FC;
          s1 = add_daily_fee_total token current_day fee_amount s;
          cfg = get_forecast_config s1
      in if current_day \<ge> sat_add_u64 (get_last_forecast_day token s1) (epoch_cadence_days cfg)
         then set_last_forecast_day token current_day (compute_and_emit_forecast token current_day cfg s1)
         else s1)"

definition charge_fee :: "'t world \<Rightarrow> env \<Rightarrow> address \<Rightarrow> address \<Rightarrow> int \<Rightarrow> asset \<Rightarrow> nat \<Rightarrow> int \<Rightarrow> int \<Rightarrow>
    't collector \<Rightarrow> ('t, int) collector_result" where
  "charge_fee W e trader token trade_amount trade_asset fee_rate fee_amount burn_amount s =
     (case take_fee W e trader token fee_amount burn_amount s of
        (Ok distributable, s1) \<Rightarrow>
          (case pay_referral W e trader token fee_amount distributable s1 of
             (Ok remaining, s2) \<Rightarrow>
               (case credit_fee token distributable remaining s2 of
                  (Ok _, s3) \<Rightarrow>
                    (case record_trade_volume W e trader trade_asset trade_amount s3 of
                       (Inl er, s4) \<Rightarrow> (Err er, s4)
                     | (Inr _, s4) \<Rightarrow>
                         (Ok fee_amount, emit_fee_collected trader token trade_amount fee_amount fee_rate
                            (record_daily_fee e token fee_amount s4)))
                | (Err er, s3) \<Rightarrow> (Err er, s3)
                | (Panic, s3) \<Rightarrow> (Panic, s3))
           | (Err er, s2) \<Rightarrow> (Err er, s2)
           | (Panic, s2) \<Rightarrow> (Panic, s2))
      | (Err er, s1) \<Rightarrow> (Err er, s1)
      | (Panic, s1) \<Rightarrow> (Panic, s1))"

definition collect_fee_with_recovery ::
  "'t world \<Rightarrow> env \<Rightarrow> address \<Rightarrow> address \<Rightarrow> int \<Rightarrow> asset \<Rightarrow> 't collector \<Rightarrow> ('t, int) collector_result" where
  "collect_fee_with_recovery W e trader token trade_amount trade_asset =
     if_initialized (when_active (signed_by e trader (\<lambda>s.
       if trade_amount \<le> 0 then (Err InvalidAmount, s)
       else if \<not> has_traded trader s
       then (Ok 0, snd (record_trade_volume W e trader trade_asset trade_amount
                          (emit_first_trade_fee_waived trader (set_has_traded trader s))))
       else case load_tx_fee_config s of (cache, s1) \<Rightarrow>
         (case get_fee_rate_for_user e trader s1 of (base_rate, s2) \<Rightarrow>
            let fee_rate = effective_fee_rate_cached base_rate token cache
            in case fee_and_burn_amounts trade_amount fee_rate (fc_burn_rate cache) of
                 None \<Rightarrow> (Err ArithmeticOverflow, s2)
               | Some (fee_amount, burn_amount) \<Rightarrow>
                   if fee_amount \<le> 0 then (Err FeeRoundedToZero, s2)
                   else charge_fee W e trader token trade_amount trade_asset fee_rate fee_amount burn_amount s2))))"

definition collect_fee ::
  "'t world \<Rightarrow> env \<Rightarrow> address \<Rightarrow> address \<Rightarrow> int \<Rightarrow> asset \<Rightarrow> 't collector \<Rightarrow> ('t, int) collector_result" where
  "collect_fee W e trader token trade_amount trade_asset s =
     (case collect_fee_with_recovery W e trader token trade_amount trade_asset s of
        (Err er, s1) \<Rightarrow>
          let report = \<lparr>er_category = ExternalDependency, er_strategy = Retry,
                        er_message = ''Fee collection failed, queueing recovery.'',
                        er_timestamp = ledger_timestamp e\<rparr>
          in (Err er, emit_error_reported report (set_last_error_report report s1))
      | r \<Rightarrow> r)"

section \<open>Batches and retries\<close>

definition MAX_BATCH_FEE_SIZE :: nat where
  "MAX_BATCH_FEE_SIZE = 20"

record batch_fee_input =
  bf_trader :: address
  bf_token :: address
  bf_trade_amount :: int
  bf_trade_asset :: asset

fun batch_loop :: "'t world \<Rightarrow> env \<Rightarrow> batch_fee_input list \<Rightarrow> int list \<Rightarrow> 't collector \<Rightarrow> ('t, int list) collector_result" where
  "batch_loop W e [] results s = (Ok results, s)"
| "batch_loop W e (item # items) results s =
     (case collect_fee_with_recovery W e (bf_trader item) (bf_token item) (bf_trade_amount item) (bf_trade_asset item) s of
        (Ok fee, s1) \<Rightarrow> batch_loop W (consume_auth (bf_trader item) e) items (results @ [fee]) s1
      | (Err er, s1) \<Rightarrow> (Err er, s1)
      | (Panic, s1) \<Rightarrow> (Panic, s1))"

definition batch_collect_fees ::
  "'t world \<Rightarrow> env \<Rightarrow> batch_fee_input list \<Rightarrow> 't collector \<Rightarrow> ('t, int list) collector_result" where
  "batch_collect_fees W e items s =
     (if length items = 0 \<or> length items > MAX_BATCH_FEE_SIZE then (Err InvalidAmount, s)
      else batch_loop W e items [] (snd (load_tx_fee_config s)))"

definition retry_failed_fee_collection ::
  "'t world \<Rightarrow> env \<Rightarrow> address \<Rightarrow> string \<Rightarrow> 't collector \<Rightarrow> ('t, int) collector_result" where
  "retry_failed_fee_collection W e admin rid =
     named_admin_only e admin (\<lambda>s.
       case get_failed_fee_collection rid s of
         None \<Rightarrow> (Err FailedCollectionNotFound, s)
       | Some failed \<Rightarrow>
           (case should_retry (ff_retry_count failed)
                   \<lparr>rc_max_attempts = max_retry_attempts (get_fee_optimization_config s),
                    rc_base_delay_ledgers = 5, rc_max_delay_ledgers = Some 200\<rparr> of
              None \<Rightarrow> (Panic, s)
            | Some None \<Rightarrow> (Err RetryLimitExceeded, s)
            | Some (Some _) \<Rightarrow>
                let retry_record = failed\<lparr>ff_retry_count := next_retry_state (ff_retry_count failed)\<rparr>
                in case collect_fee_with_recovery W (consume_auth admin e) (ff_trader retry_record) (ff_token retry_record)
                          (ff_trade_amount retry_record) (ff_trade_asset retry_record)
                          (set_failed_fee_collection retry_record s) of
                     (Ok fee, s1) \<Rightarrow>
                       (Ok fee, remove_failed_fee_collection rid
                          (emit_retry_attempted rid (ff_retry_count retry_record) True (ledger_timestamp e) s1))
                   | (Err er, s1) \<Rightarrow>
                       (Err er, emit_retry_attempted rid (ff_retry_count retry_record) False (ledger_timestamp e) s1)
                   | (Panic, s1) \<Rightarrow> (Panic, s1)))"

section \<open>Claiming fees\<close>

definition ORACLE_RATE_PRECISION :: int where
  "ORACLE_RATE_PRECISION = 1000000"

text \<open>\<open>Ok None\<close> is the fallback to the source token.\<close>

definition try_claim_in_preferred_currency ::
  "'t world \<Rightarrow> env \<Rightarrow> address \<Rightarrow> address \<Rightarrow> int \<Rightarrow> address \<Rightarrow> 't collector \<Rightarrow> ('t, int option) collector_result" where
  "try_claim_in_preferred_currency W e provider source_token source_amount pref_token s =
     (case get_oracle_contract s of
        None \<Rightarrow> (Ok None, s)
      | Some oracle \<Rightarrow>
          (case get_rate W oracle source_token pref_token (fk_tokens s) of
             None \<Rightarrow> (Ok None, s)
           | Some rate \<Rightarrow>
               if rate \<le> 0 then (Ok None, s)
               else case checked_mul source_amount rate of
                      None \<Rightarrow> (Ok None, s)
                    | Some v \<Rightarrow>
                        (case checked_div_i128 v ORACLE_RATE_PRECISION of
                           None \<Rightarrow> (Ok None, s)
                         | Some pref_amount \<Rightarrow>
                             if pref_amount \<le> 0 then (Ok None, s)
                             else case balance_of W pref_token (current_contract_address e) (fk_tokens s) of
                                    None \<Rightarrow> (Panic, s)
                                  | Some pref_balance \<Rightarrow>
                                      if pref_balance < pref_amount then (Ok None, s)
                                      else case collector_transfer W pref_token (current_contract_address e) provider
                                                  pref_amount (set_pending_fees provider source_token 0 s) of
                                             (Ok _, s1) \<Rightarrow>
                                               (Ok (Some pref_amount),
                                                emit_fees_claimed_converted provider source_token pref_token
                                                  source_amount pref_amount s1)
                                           | (_, s1) \<Rightarrow> (Panic, s1))))"

text \<open>What the rebate cap of the day leaves of a claim; the fees of the day are positive.\<close>

definition capped_claim :: "env \<Rightarrow> address \<Rightarrow> int \<Rightarrow> 't collector \<Rightarrow> int \<times> 't collector" where
  "capped_claim e token requested s =
     (let epoch_day = ledger_timestamp e div SECONDS_PER_DAY_FC;
          epoch_fees = get_daily_fee_total token epoch_day s
      in if epoch_fees > 0
         then let epoch_cap = share_or i128_max epoch_fees (get_max_rebate_bps s);
                  headroom = saturating_sub epoch_cap (get_epoch_rebate_distributed token epoch_day s);
                  (amount, s1) = (if headroom < requested
                                  then (headroom, emit_rebate_cap_applied epoch_day requested headroom s)
                                  else (requested, s))
              in (amount, if amount > 0 then add_epoch_rebate_distributed token epoch_day amount s1 else s1)
         else (requested, s))"

definition settle_in_source ::
  "'t world \<Rightarrow> env \<Rightarrow> address \<Rightarrow> address \<Rightarrow> int \<Rightarrow> 't collector \<Rightarrow> ('t, int) collector_result" where
  "settle_in_source W e provider token amount s =
     (case (if amount > 0 then collector_transfer W token (current_contract_address e) provider amount s
            else (Ok (), s)) of
        (Ok _, s1) \<Rightarrow> (Ok amount, emit_fees_claimed provider token amount (set_pending_fees provider token 0 s1))
      | (Err er, s1) \<Rightarrow> (Err er, s1)
      | (Panic, s1) \<Rightarrow> (Panic, s1))"

text \<open>The arguments that the provider's signature must cover are the arguments of the call itself.\<close>

definition claim_fees :: "'t world \<Rightarrow> env \<Rightarrow> address \<Rightarrow> address \<Rightarrow> 't collector \<Rightarrow> ('t, int) collector_result" where
  "claim_fees W e provider token =
     when_unlocked (if_initialized (when_active (\<lambda>s.
       case validate_token_metadata_for_token token s of
         Inl er \<Rightarrow> (Err er, s)
       | Inr _ \<Rightarrow>
           signed_by e provider (\<lambda>s.
             let requested = get_pending_fees provider token s
             in if requested > 0
                then case capped_claim e token requested s of (amount, s1) \<Rightarrow>
                  (case get_provider_payout_currency provider s1 of
                     Some pref_token \<Rightarrow>
                       if amount > 0 \<and> pref_token \<noteq> token
                       then case try_claim_in_preferred_currency W e provider token amount pref_token s1 of
                              (Ok None, s2) \<Rightarrow> settle_in_source W e provider token amount s2
                            | (Ok (Some _), s2) \<Rightarrow> (Ok amount, s2)
                            | (Err er, s2) \<Rightarrow> (Err er, s2)
                            | (Panic, s2) \<Rightarrow> (Panic, s2)
                       else settle_in_source W e provider token amount s1
                   | None \<Rightarrow> settle_in_source W e provider token amount s1)
                else (Ok 0, emit_fees_claimed provider token 0 s)) s)))"

section \<open>Frames\<close>

text \<open>The part of the state that stands for money: the token ledger and everything recorded against it.\<close>

definition books :: "'t collector \<Rightarrow> 't \<times> (address \<Rightarrow> int option) \<times> (address \<Rightarrow> int option) \<times> (address \<Rightarrow> int option) \<times>
    (address \<Rightarrow> address \<Rightarrow> int option)" where
  "books s = (fk_tokens s, fk_treasury_balance s, fk_insurance_balance s, fk_revenue_share_pool s,
     fk_provider_pending_fees s)"

text \<open>The part that the validity of the settings depends on, with the record of the paid insurance claims.\<close>

definition rules :: "'t collector \<Rightarrow> fee_settings \<times> (nat \<Rightarrow> tx_fee_config_cache option) \<times> (string \<Rightarrow> bool option)" where
  "rules s = (conf s, fk_tx_cache s, fk_processed_insurance_claim s)"

lemma books_D:
  assumes "books s' = books s"
  shows "fk_tokens s' = fk_tokens s" "fk_treasury_balance s' = fk_treasury_balance s"
    "fk_insurance_balance s' = fk_insurance_balance s" "fk_revenue_share_pool s' = fk_revenue_share_pool s"
    "fk_provider_pending_fees s' = fk_provider_pending_fees s"
  using assms by (simp_all add: books_def)

lemma rules_D: "rules s' = rules s \<Longrightarrow> conf s' = conf s \<and> fk_tx_cache s' = fk_tx_cache s \<and>
    fk_processed_insurance_claim s' = fk_processed_insurance_claim s"
  by (simp add: rules_def)

lemma rules_settings: "rules s' = rules s \<Longrightarrow> settings_ok s' = settings_ok s"
  by (drule rules_D) (simp add: settings_ok_def store_defs)

lemma books_simps [simp]:
  "books (s\<lparr>event_log := l\<rparr>) = books s" "books (s\<lparr>stats := st\<rparr>) = books s" "books (s\<lparr>conf := cf\<rparr>) = books s"
  "books (s\<lparr>fk_tx_cache := c\<rparr>) = books s" "books (s\<lparr>fk_queued_withdrawal := q\<rparr>) = books s"
  "books (s\<lparr>fk_processed_insurance_claim := pr\<rparr>) = books s" "books (s\<lparr>fk_revenue_share_pool_index := ix\<rparr>) = books s"
  "books (s\<lparr>fk_epoch_rebate_distributed := er\<rparr>) = books s" "books (s\<lparr>k_paused := b\<rparr>) = books s"
  "books (s\<lparr>k_contract_version := n\<rparr>) = books s" "books (s\<lparr>k_initialized := b\<rparr>) = books s"
  by (simp_all add: books_def)

lemma rules_simps [simp]:
  "rules (s\<lparr>event_log := l\<rparr>) = rules s" "rules (s\<lparr>stats := st\<rparr>) = rules s" "rules (s\<lparr>fk_queued_withdrawal := q\<rparr>) = rules s"
  "rules (s\<lparr>fk_revenue_share_pool_index := ix\<rparr>) = rules s"
  "rules (s\<lparr>fk_epoch_rebate_distributed := er\<rparr>) = rules s" "rules (s\<lparr>k_paused := b\<rparr>) = rules s"
  "rules (s\<lparr>k_contract_version := n\<rparr>) = rules s" "rules (s\<lparr>k_initialized := b\<rparr>) = rules s"
  "rules (s\<lparr>fk_tokens := t\<rparr>) = rules s" "rules (s\<lparr>fk_treasury_balance := tr\<rparr>) = rules s"
  "rules (s\<lparr>fk_insurance_balance := ib\<rparr>) = rules s" "rules (s\<lparr>fk_revenue_share_pool := po\<rparr>) = rules s"
  "rules (s\<lparr>fk_provider_pending_fees := pe\<rparr>) = rules s"
  by (simp_all add: rules_def)

lemma publish_parts [simp]:
  "books (publish s ts b) = books s" "rules (publish s ts b) = rules s"
  "fk_tokens (publish s ts b) = fk_tokens s" "conf (publish s ts b) = conf s"
  by (simp_all add: publish_def books_def rules_def)

lemma emit_parts [simp]:
  "books (emit_fees_burned x tk s) = books s" "rules (emit_fees_burned x tk s) = rules s"
  "books (emit_referral_fee_paid a b tk x s) = books s" "rules (emit_referral_fee_paid a b tk x s) = rules s"
  "books (emit_fee_collected a tk x y r s) = books s" "rules (emit_fee_collected a tk x y r s) = rules s"
  "books (emit_first_trade_fee_waived a s) = books s" "rules (emit_first_trade_fee_waived a s) = rules s"
  "books (set_has_traded a s) = books s" "rules (set_has_traded a s) = rules s"
  "books (emit_fees_claimed a tk x s) = books s" "rules (emit_fees_claimed a tk x s) = rules s"
  by (simp_all add: collector_emits publish_fields_def publish_tuple_def set_has_traded_def)

lemma record_daily_fee_parts [simp]:
  "books (record_daily_fee e tk x s) = books s" "rules (record_daily_fee e tk x s) = rules s"
  by (auto simp: record_daily_fee_def compute_and_emit_forecast_def store_defs collector_emits publish_tuple_def Let_def
      split: prod.splits)

lemma record_trade_volume_parts:
  assumes "record_trade_volume W e u a x s = (r, s')"
  shows "books s' = books s" "rules s' = rules s"
  by (subst record_trade_volume_frame [OF assms], simp)+

lemma load_tx_fee_config_books:
  assumes "load_tx_fee_config s = (c, s')"
  shows "books s' = books s" "conf s' = conf s" "stats s' = stats s"
    "fk_processed_insurance_claim s' = fk_processed_insurance_claim s"
  by (subst load_tx_fee_config_frame [OF assms], simp)+

lemma fee_rate_for_user_parts:
  assumes "get_fee_rate_for_user e u s = (r, s')"
  shows "books s' = books s" "rules s' = rules s"
  by (subst fee_rate_for_user_frame [OF assms], simp)+

section \<open>Where a fee goes\<close>

lemma token_moved_0 [simp]: "token_moved tk a b 0 f = f" and token_burnt_0 [simp]: "token_burnt tk a 0 f = f"
  by (simp_all add: token_moved_def token_burnt_def fun_eq_iff)

lemma take_fee_Ok:
  assumes "sep41 (tokens_of W) bal" "take_fee W e trader tk fee burn s = (Ok d, s')" "0 \<le> burn"
  obtains t l where "s' = s\<lparr>fk_tokens := t, event_log := l\<rparr>" "d = fee - burn" "0 \<le> fee"
    "bal t = token_burnt tk (current_contract_address e) burn
       (token_moved tk trader (current_contract_address e) fee (bal (fk_tokens s)))"
proof (cases "collector_transfer W tk trader (current_contract_address e) fee s")
  case (Pair r s1)
  from assms(1) Pair show thesis
  proof (cases rule: collector_transfer_cases)
    case (moved t)
    show thesis
    proof (cases "0 < burn")
      case False
      with assms(2,3) Pair moved show thesis
        by (intro that [of "event_log s" t]) (auto simp: take_fee_def split: option.splits)
    next
      case True
      obtain r2 s2 where b: "collector_burn W tk (current_contract_address e) burn s1 = (r2, s2)" by fastforce
      from assms(1) b show thesis
      proof (cases rule: collector_burn_cases)
        case (burnt t2)
        with assms(2) Pair moved True b show thesis
          by (intro that [of "event_log s'" t2])
             (auto simp: take_fee_def emits_log_only split: option.splits)
      next
        case (failed f)
        with assms(2) Pair moved True b show thesis by (auto simp: take_fee_def split: option.splits)
      qed
    qed
  next
    case (failed f)
    with assms(2) Pair show thesis by (simp add: take_fee_def)
  qed
qed

lemma pay_referral_Ok:
  assumes "sep41 (tokens_of W) bal" "pay_referral W e trader tk fee d s = (Ok rem, s')"
    and "0 \<le> fee" "0 \<le> d" "in_i128 d" "get_referral_fee_share_bps s \<le> 10000"
  obtains t l ref where "s' = s\<lparr>fk_tokens := t, event_log := l\<rparr>" "rem = d - ref" "0 \<le> ref" "ref \<le> d"
    "bal t = (case get_referrer trader s of None \<Rightarrow> bal (fk_tokens s)
       | Some r \<Rightarrow> token_moved tk (current_contract_address e) r ref (bal (fk_tokens s)))"
    "get_referrer trader s = None \<longrightarrow> ref = 0"
proof (cases "get_referrer trader s")
  case None
  with assms show thesis by (intro that [of "event_log s" "fk_tokens s" 0]) (auto simp: pay_referral_def)
next
  case (Some r)
  define ref where "ref = min (share_or 0 fee (get_referral_fee_share_bps s)) d"
  have ref: "0 \<le> ref" "ref \<le> d" using share_or_bounds [OF assms(3,6)] assms(4) by (auto simp: ref_def)
  show thesis
  proof (cases "0 < ref")
    case False
    with ref have "ref = 0" by simp
    with assms(2) Some assms(4) show thesis
      by (intro that [of "event_log s" "fk_tokens s" 0]) (auto simp: pay_referral_def ref_def [symmetric] Let_def)
  next
    case True
    obtain q s1 where tr: "collector_transfer W tk (current_contract_address e) r ref s = (q, s1)" by fastforce
    from assms(1) tr show thesis
    proof (cases rule: collector_transfer_cases)
      case (moved t)
      with assms(2,5) Some True tr ref show thesis
        by (intro that [of "event_log s'" t ref])
           (auto simp: pay_referral_def ref_def [symmetric] Let_def emits_log_only saturating_sub_le)
    next
      case (failed f)
      with assms(2) Some True tr show thesis by (auto simp: pay_referral_def ref_def [symmetric] Let_def)
    qed
  qed
qed

lemma credit_fee_Ok:
  assumes "credit_fee tk d rem s = (Ok u, s')"
    and "0 \<le> d" "0 \<le> rem" "in_i128 rem" "fc_get_revenue_share_rate_bps s \<le> 10000"
  obtains rev ix where "0 \<le> rev" "rev \<le> rem" "in_i128 (get_treasury_balance tk s + (rem - rev))"
    "s' = s\<lparr>fk_treasury_balance := (fk_treasury_balance s)(tk := Some (get_treasury_balance tk s + (rem - rev))),
       fk_revenue_share_pool := (if rev = 0 then fk_revenue_share_pool s
         else (fk_revenue_share_pool s)(tk := Some (saturating_add (fc_get_revenue_share_pool tk s) rev))),
       fk_revenue_share_pool_index := ix\<rparr>"
proof -
  define rev where "rev = min (share_or 0 d (fc_get_revenue_share_rate_bps s)) rem"
  have rev: "0 \<le> rev" "rev \<le> rem" using share_or_bounds [OF assms(2,5)] assms(3) by (auto simp: rev_def)
  have sub: "saturating_sub rem rev = rem - rev" using rev assms(4) by (intro saturating_sub_le)
  define s1 where "s1 = (if rev > 0 then add_revenue_share_pool tk rev s else s)"
  obtain ix where s1: "s1 = s\<lparr>fk_revenue_share_pool := (if rev = 0 then fk_revenue_share_pool s
         else (fk_revenue_share_pool s)(tk := Some (saturating_add (fc_get_revenue_share_pool tk s) rev))),
       fk_revenue_share_pool_index := ix\<rparr>"
  proof
    show "s1 = s\<lparr>fk_revenue_share_pool := (if rev = 0 then fk_revenue_share_pool s
         else (fk_revenue_share_pool s)(tk := Some (saturating_add (fc_get_revenue_share_pool tk s) rev))),
       fk_revenue_share_pool_index := fk_revenue_share_pool_index s1\<rparr>"
      using rev by (auto simp: s1_def add_revenue_share_pool_def add_to_revenue_share_pool_index_def Let_def)
  qed
  have "get_treasury_balance tk s1 = get_treasury_balance tk s"
    by (simp add: s1 store_defs)
  then have "in_i128 (get_treasury_balance tk s + (rem - rev))"
    "s' = set_treasury_balance tk (get_treasury_balance tk s + (rem - rev)) s1"
    using assms(1) by (auto simp: credit_fee_def rev_def [symmetric] Let_def s1_def [symmetric] sub split: option.splits)
  then show thesis
    by (intro that [OF rev, of ix]) (simp_all add: s1 set_treasury_balance_def)
qed

text \<open>
  The whole of a charged fee: the burnt slice, the referrer's share, the revenue share and the treasury's
  credit add up to it.
\<close>

lemma charge_fee_steps:
  assumes "charge_fee W e trader tk x a rate fee burn s = (Ok r, s')"
  obtains d s1 rem s2 u s3 v s4 where "take_fee W e trader tk fee burn s = (Ok d, s1)"
    "pay_referral W e trader tk fee d s1 = (Ok rem, s2)" "credit_fee tk d rem s2 = (Ok u, s3)"
    "record_trade_volume W e trader a x s3 = (Inr v, s4)" "r = fee"
    "s' = emit_fee_collected trader tk x fee rate (record_daily_fee e tk fee s4)"
proof -
  obtain q1 s1 where 1: "take_fee W e trader tk fee burn s = (q1, s1)" by fastforce
  with assms obtain d where d: "q1 = Ok d" by (cases q1) (simp_all add: charge_fee_def)
  obtain q2 s2 where 2: "pay_referral W e trader tk fee d s1 = (q2, s2)" by fastforce
  with assms 1 d obtain rem where rem: "q2 = Ok rem" by (cases q2) (simp_all add: charge_fee_def)
  obtain q3 s3 where 3: "credit_fee tk d rem s2 = (q3, s3)" by fastforce
  with assms 1 d 2 rem obtain u where u: "q3 = Ok u" by (cases q3) (simp_all add: charge_fee_def)
  obtain q4 s4 where 4: "record_trade_volume W e trader a x s3 = (q4, s4)" by fastforce
  with assms 1 d 2 rem 3 u obtain v where v: "q4 = Inr v" by (cases q4) (simp_all add: charge_fee_def)
  show thesis
    by (rule that [OF 1 [unfolded d] 2 [unfolded rem] 3 [unfolded u] 4 [unfolded v]])
       (use assms 1 d 2 rem 3 u 4 v in \<open>auto simp: charge_fee_def\<close>)
qed

lemma charge_fee_Ok:
  assumes "sep41 (tokens_of W) bal" "charge_fee W e trader tk x a rate fee burn s = (Ok r, s')" "settings_ok s"
    and "0 \<le> burn" "burn \<le> fee" "in_i128 fee"
  obtains ref rev where "r = fee" "0 \<le> ref" "0 \<le> rev" "burn + ref + rev \<le> fee"
    "bal (fk_tokens s') = (case get_referrer trader s of
         None \<Rightarrow> token_burnt tk (current_contract_address e) burn
                   (token_moved tk trader (current_contract_address e) fee (bal (fk_tokens s)))
       | Some q \<Rightarrow> token_moved tk (current_contract_address e) q ref
                     (token_burnt tk (current_contract_address e) burn
                       (token_moved tk trader (current_contract_address e) fee (bal (fk_tokens s)))))"
    "get_referrer trader s = None \<longrightarrow> ref = 0"
    "fk_treasury_balance s' = (fk_treasury_balance s)(tk := Some (get_treasury_balance tk s + (fee - burn - ref - rev)))"
    "in_i128 (get_treasury_balance tk s + (fee - burn - ref - rev))"
    "fk_revenue_share_pool s' = (if rev = 0 then fk_revenue_share_pool s
       else (fk_revenue_share_pool s)(tk := Some (saturating_add (fc_get_revenue_share_pool tk s) rev)))"
    "fk_insurance_balance s' = fk_insurance_balance s"
    "fk_provider_pending_fees s' = fk_provider_pending_fees s" "rules s' = rules s"
proof -
  obtain d s1 rem s2 u s3 v s4 where steps: "take_fee W e trader tk fee burn s = (Ok d, s1)"
    "pay_referral W e trader tk fee d s1 = (Ok rem, s2)" "credit_fee tk d rem s2 = (Ok u, s3)"
    "record_trade_volume W e trader a x s3 = (Inr v, s4)" "r = fee"
    "s' = emit_fee_collected trader tk x fee rate (record_daily_fee e tk fee s4)"
    using assms(2) by (rule charge_fee_steps)
  obtain l1 t1 where s1: "s1 = s\<lparr>fk_tokens := t1, event_log := l1\<rparr>" "d = fee - burn" "0 \<le> fee"
    "bal t1 = token_burnt tk (current_contract_address e) burn
       (token_moved tk trader (current_contract_address e) fee (bal (fk_tokens s)))"
    using take_fee_Ok [OF assms(1) steps(1) assms(4)] by metis
  have d: "0 \<le> d" "in_i128 d" using assms(4-6) s1(2,3) by (auto intro: in_i128_nonneg_le [of fee])
  have same: "get_referral_fee_share_bps s1 = get_referral_fee_share_bps s" "get_referrer trader s1 = get_referrer trader s"
    by (simp_all add: s1 store_defs)
  have "get_referral_fee_share_bps s1 \<le> 10000" using assms(3) same(1) by (simp add: settings_ok_def)
  then obtain l2 t2 ref where s2: "s2 = s1\<lparr>fk_tokens := t2, event_log := l2\<rparr>" "rem = d - ref" "0 \<le> ref" "ref \<le> d"
    "bal t2 = (case get_referrer trader s1 of None \<Rightarrow> bal (fk_tokens s1)
       | Some r \<Rightarrow> token_moved tk (current_contract_address e) r ref (bal (fk_tokens s1)))"
    "get_referrer trader s1 = None \<longrightarrow> ref = 0"
    using pay_referral_Ok [OF assms(1) steps(2) s1(3) d] by metis
  have rem: "0 \<le> rem" "in_i128 rem" using s2(2-4) d by (auto intro: in_i128_nonneg_le [of d])
  have s12: "get_treasury_balance tk s2 = get_treasury_balance tk s"
    "fc_get_revenue_share_pool tk s2 = fc_get_revenue_share_pool tk s"
    "fc_get_revenue_share_rate_bps s2 = fc_get_revenue_share_rate_bps s"
    "fk_treasury_balance s2 = fk_treasury_balance s" "fk_revenue_share_pool s2 = fk_revenue_share_pool s"
    "fk_insurance_balance s2 = fk_insurance_balance s" "fk_provider_pending_fees s2 = fk_provider_pending_fees s"
    "rules s2 = rules s" "fk_tokens s2 = t2" "fk_tokens s1 = t1"
    by (simp_all add: s2(1) s1(1) store_defs)
  have "fc_get_revenue_share_rate_bps s2 \<le> 10000" using assms(3) s12(3) by (simp add: settings_ok_def)
  then obtain rev ix where s3: "0 \<le> rev" "rev \<le> rem" "in_i128 (get_treasury_balance tk s2 + (rem - rev))"
    "s3 = s2\<lparr>fk_treasury_balance := (fk_treasury_balance s2)(tk := Some (get_treasury_balance tk s2 + (rem - rev))),
       fk_revenue_share_pool := (if rev = 0 then fk_revenue_share_pool s2
         else (fk_revenue_share_pool s2)(tk := Some (saturating_add (fc_get_revenue_share_pool tk s2) rev))),
       fk_revenue_share_pool_index := ix\<rparr>"
    using credit_fee_Ok [OF steps(3) d(1) rem] by metis
  have "books s' = books s3" "rules s' = rules s3"
    using record_trade_volume_parts [OF steps(4)] by (simp_all add: steps(6))
  note fin = books_D [OF this(1)] this(2)
  have eq: "rem - rev = fee - burn - ref - rev" using s1(2) s2(2) by simp
  have tre: "fk_treasury_balance s' = (fk_treasury_balance s)(tk := Some (get_treasury_balance tk s + (fee - burn - ref - rev)))"
    by (simp add: fin s3(4) s12 eq)
  have pool: "fk_revenue_share_pool s' = (if rev = 0 then fk_revenue_share_pool s
       else (fk_revenue_share_pool s)(tk := Some (saturating_add (fc_get_revenue_share_pool tk s) rev)))"
    by (simp add: fin s3(4) s12)
  have rest: "fk_insurance_balance s' = fk_insurance_balance s"
    "fk_provider_pending_fees s' = fk_provider_pending_fees s" "rules s' = rules s" "fk_tokens s' = t2"
    by (simp_all add: fin s3(4) s12)
  have range: "in_i128 (get_treasury_balance tk s + (fee - burn - ref - rev))"
    using s3(3) unfolding s12(1) eq .
  have sum: "burn + ref + rev \<le> fee" using s3(2) s2(2) s1(2) by linarith
  show thesis
    by (rule that [OF steps(5) s2(3) s3(1) sum _ s2(6) [unfolded same(2)] tre range pool rest(1-3)])
       (rule s2(5) [unfolded same(2) s12(10) s1(4), folded rest(4)])
qed

text \<open>A collection is a waived first fee or a charged one.\<close>

lemma collect_with_recovery_Ok:
  assumes "collect_fee_with_recovery W e trader tk x a s = (Ok r, s')"
  obtains (waived) "\<not> has_traded trader s" "r = 0" "books s' = books s" "rules s' = rules s"
  | (charged) c s1 base s2 burn where "has_traded trader s" "load_tx_fee_config s = (c, s1)"
      "get_fee_rate_for_user e trader s1 = (base, s2)" "0 < r"
      "fee_and_burn_amounts x (effective_fee_rate_cached base tk c) (fc_burn_rate c) = Some (r, burn)"
      "charge_fee W e trader tk x a (effective_fee_rate_cached base tk c) r burn s2 = (Ok r, s')"
proof (cases "has_traded trader s")
  case False
  obtain q s1 where q: "record_trade_volume W e trader a x (emit_first_trade_fee_waived trader (set_has_traded trader s)) = (q, s1)"
    by fastforce
  with assms False have "r = 0" "s' = s1" by (auto simp: collect_fee_with_recovery_def split: if_splits)
  with record_trade_volume_parts [OF q] False show thesis by (intro waived) simp_all
next
  case True
  obtain c s1 where 1: "load_tx_fee_config s = (c, s1)" by fastforce
  obtain base s2 where 2: "get_fee_rate_for_user e trader s1 = (base, s2)" by fastforce
  obtain fee burn where f: "fee_and_burn_amounts x (effective_fee_rate_cached base tk c) (fc_burn_rate c) = Some (fee, burn)"
      "0 < fee" "charge_fee W e trader tk x a (effective_fee_rate_cached base tk c) fee burn s2 = (Ok r, s')"
    using assms True 1 2 by (auto simp: collect_fee_with_recovery_def Let_def split: if_splits option.splits)
  moreover from f(3) have "r = fee" by (rule charge_fee_steps)
  ultimately show thesis using True 1 2 by (intro charged) auto
qed

lemma collect_guards:
  assumes "collect_fee_with_recovery W e trader tk x a s = (Ok r, s')"
  shows "is_initialized s" "\<not> is_paused s" "has_auth e trader" "0 < x"
  using assms by (auto simp: collect_fee_with_recovery_def split: if_splits)

lemma collect_fee_Ok [simp]:
  "collect_fee W e trader tk x a s = (Ok r, s') \<longleftrightarrow> collect_fee_with_recovery W e trader tk x a s = (Ok r, s')"
  by (auto simp: collect_fee_def Let_def split: prod.splits outcome.splits)

text \<open>The bounds of a charged fee and its burnt slice.\<close>

lemma charged_bounds:
  assumes "fee_and_burn_amounts x (effective_fee_rate_cached base tk c) (fc_burn_rate c) = Some (fee, burn)"
    and "0 < x" "cached_ok c"
  shows "fee * 100 \<le> x" "0 \<le> burn" "burn \<le> fee" "in_i128 fee"
proof -
  let ?r = "int (effective_fee_rate_cached base tk c)"
  note amt = fee_and_burn_amounts_Some [OF less_imp_le [OF assms(2)] assms(1)]
  have r: "0 \<le> ?r" "?r \<le> 100" using effective_rate_bounds [OF assms(3), of base tk] by (auto simp: MAX_FEE_RATE_BPS_def)
  have "x * ?r \<le> x * 100" using assms(2) r by (intro mult_left_mono) auto
  then have "fee * 10000 \<le> x * 100" unfolding amt(1)
    using div_mult_mod_eq [of "x * ?r" 10000] pos_mod_sign [of 10000 "x * ?r"] by linarith
  then show "fee * 100 \<le> x" by linarith
  have "0 \<le> x * ?r" using assms(2) by simp
  then have fee: "0 \<le> fee" "fee \<le> x * ?r" unfolding amt(1) using part_le [of "x * ?r" 1]
    by (auto simp: pos_imp_zdiv_nonneg_iff)
  show "in_i128 fee" by (rule in_i128_nonneg_le [OF amt(3) fee])
  have "int (fc_burn_rate c) \<le> 10000" using assms(3) by (simp add: cached_ok_def)
  with part_le [OF fee(1)] show "0 \<le> burn" "burn \<le> fee" unfolding amt(2) by auto
qed

section \<open>Properties\<close>

text \<open>
  What a charged fee does to the balances and to the books. The pool does not saturate while it stays in
  range with the fee added.
\<close>

lemma charged_effect:
  assumes "sep41 (tokens_of W) bal" "call_ok v e" "settings_ok s" "has_traded trader s"
    and "collect_fee W e trader tk x a s = (Ok fee, s')"
    and "get_referrer trader s \<notin> {Some trader, Some v}"
    and "0 \<le> fc_get_revenue_share_pool tk s" "fc_get_revenue_share_pool tk s + fee \<le> i128_max"
  obtains burn ref where "0 < fee" "fee * 100 \<le> x" "0 \<le> burn" "0 \<le> ref"
    "bal (fk_tokens s') tk trader = bal (fk_tokens s) tk trader - fee"
    "bal (fk_tokens s') tk v = bal (fk_tokens s) tk v + (fee - burn - ref)"
    "get_treasury_balance tk s' + fc_get_revenue_share_pool tk s' =
       get_treasury_balance tk s + fc_get_revenue_share_pool tk s + (fee - burn - ref)"
    "\<And>q. get_referrer trader s = Some q \<Longrightarrow> bal (fk_tokens s') tk q = bal (fk_tokens s) tk q + ref"
    "get_referrer trader s = None \<Longrightarrow> ref = 0"
    "\<And>k b. k \<noteq> tk \<Longrightarrow> bal (fk_tokens s') k b = bal (fk_tokens s) k b"
    "fk_insurance_balance s' = fk_insurance_balance s"
proof -
  have col: "collect_fee_with_recovery W e trader tk x a s = (Ok fee, s')" using assms(5) by simp
  have v: "current_contract_address e = v" "trader \<noteq> v"
    using assms(2) collect_guards(3) [OF col] by (auto simp: call_ok_def)
  from col show thesis
  proof (cases rule: collect_with_recovery_Ok)
    case waived
    with assms(4) show thesis by simp
  next
    case (charged c s1 base s2 burn)
    note ok = load_tx_fee_config_ok [OF charged(2) assms(3)]
    have ok2: "settings_ok s2" using rules_settings [OF fee_rate_for_user_parts(2) [OF charged(3)]] ok(2) by simp
    note bounds = charged_bounds [OF charged(5) collect_guards(4) [OF col] ok(1)]
    have books: "books s2 = books s" "conf s2 = conf s"
      using load_tx_fee_config_books [OF charged(2)] fee_rate_for_user_parts [OF charged(3)] by (auto simp: rules_def)
    note same = books_D [OF books(1)]
    have rr: "get_referrer trader s2 = get_referrer trader s" by (simp add: get_referrer_def books(2))
    have tp: "get_treasury_balance tk s2 = get_treasury_balance tk s"
      "fc_get_revenue_share_pool tk s2 = fc_get_revenue_share_pool tk s"
      by (simp_all add: get_treasury_balance_def fc_get_revenue_share_pool_def same)
    show thesis
    proof (cases rule: charge_fee_Ok [OF assms(1) charged(6) ok2 bounds(2-4)])
      case (1 ref rev)
      note f = 1(2-) [unfolded rr same v(1) tp]
      have "saturating_add (fc_get_revenue_share_pool tk s) rev = fc_get_revenue_share_pool tk s + rev"
        using assms(7,8) f(1-3) bounds(2) by (simp add: saturating_add_nonneg)
      with f(6,8) have sum: "get_treasury_balance tk s' + fc_get_revenue_share_pool tk s' =
          get_treasury_balance tk s + fc_get_revenue_share_pool tk s + (fee - burn - ref)"
        by (simp add: get_treasury_balance_def fc_get_revenue_share_pool_def)
      show thesis
        by (rule that [OF charged(4) bounds(1,2) f(1) _ _ sum _ _ _ f(9)])
           (use assms(6) v(2) f(4,5) in \<open>auto simp: token_moved_def token_burnt_def split: option.splits\<close>)
    qed
  qed
qed

text \<open>The rebate cap of a token on a day, and what a claim makes of it.\<close>

definition rebate_cap :: "address \<Rightarrow> nat \<Rightarrow> 't collector \<Rightarrow> int" where
  "rebate_cap tk day s = share_or i128_max (get_daily_fee_total tk day s) (get_max_rebate_bps s)"

lemma sat_sub_room: "0 < a \<Longrightarrow> a \<le> saturating_sub c d \<Longrightarrow> d + a \<le> c"
  by (auto simp: saturating_sub_def sat_i128_def i128_min_def i128_max_def max_def min_def split: if_splits)

lemma share_or_max_nonneg: "0 \<le> x \<Longrightarrow> 0 \<le> share_or i128_max x bps"
  using div_i128 [of "x * int bps"]
  by (auto simp: share_or_def i128_max_def pos_imp_zdiv_nonneg_iff split: option.splits)

lemma capped_claim_spec:
  assumes "capped_claim e tk req s = (amount, s1)" "0 < req"
  defines "day \<equiv> ledger_timestamp e div SECONDS_PER_DAY_FC"
  shows "amount \<le> req" "books s1 = books s" "rules s1 = rules s" "stats s1 = stats s"
    and "get_daily_fee_total tk day s \<le> 0 \<Longrightarrow> amount = req"
    and "0 < get_daily_fee_total tk day s \<Longrightarrow> 0 < amount \<Longrightarrow>
      get_epoch_rebate_distributed tk day s1 \<le> rebate_cap tk day s"
    and "0 < get_daily_fee_total tk day s \<Longrightarrow> 0 < amount \<Longrightarrow>
      get_epoch_rebate_distributed tk day s1 = saturating_add (get_epoch_rebate_distributed tk day s) amount"
proof -
  let ?f = "get_daily_fee_total tk day s" and ?d = "get_epoch_rebate_distributed tk day s" and ?c = "rebate_cap tk day s"
  have c: "amount = (if ?f > 0 then min req (saturating_sub ?c ?d) else req)"
    and s1: "books s1 = books s" "rules s1 = rules s" "stats s1 = stats s"
    and d: "0 < ?f \<Longrightarrow> 0 < amount \<Longrightarrow> get_epoch_rebate_distributed tk day s1 = saturating_add ?d amount"
    using assms(1) unfolding capped_claim_def rebate_cap_def day_def
    by (auto simp: Let_def add_epoch_rebate_distributed_def get_epoch_rebate_distributed_def emit_rebate_cap_applied_def
        publish_tuple_def publish_def min_def split: if_splits)
  show "amount \<le> req" using c by auto
  show "books s1 = books s" "rules s1 = rules s" "stats s1 = stats s" by (fact s1)+
  show "?f \<le> 0 \<Longrightarrow> amount = req" using c by simp
  show "0 < ?f \<Longrightarrow> 0 < amount \<Longrightarrow> get_epoch_rebate_distributed tk day s1 = saturating_add ?d amount" by (rule d)
  assume a: "0 < ?f" "0 < amount"
  then have "?d + amount \<le> ?c" using c by (intro sat_sub_room) auto
  moreover have "0 \<le> ?c" using a(1) by (simp add: rebate_cap_def share_or_max_nonneg)
  ultimately have "saturating_add ?d amount \<le> ?c"
    by (simp add: saturating_add_def sat_i128_def i128_min_def i128_max_def)
  then show "get_epoch_rebate_distributed tk day s1 \<le> ?c" using d [OF a] by simp
qed

lemma settle_in_source_Ok:
  assumes "sep41 (tokens_of W) bal" "settle_in_source W e p tk amount s = (Ok r, s')"
  shows "r = amount" "get_pending_fees p tk s' = 0" "rules s' = rules s"
    "bal (fk_tokens s') = (if amount > 0 then token_moved tk (current_contract_address e) p amount (bal (fk_tokens s))
       else bal (fk_tokens s))"
    "fk_treasury_balance s' = fk_treasury_balance s" "fk_insurance_balance s' = fk_insurance_balance s"
    "fk_revenue_share_pool s' = fk_revenue_share_pool s" "fk_epoch_rebate_distributed s' = fk_epoch_rebate_distributed s"
    "fk_provider_pending_fees s' = (fk_provider_pending_fees s)(p := (fk_provider_pending_fees s p)(tk := Some 0))"
proof -
  obtain q s1 where q: "(if amount > 0 then collector_transfer W tk (current_contract_address e) p amount s else (Ok (), s)) = (q, s1)"
    by fastforce
  with assms(2) have ok: "q = Ok ()" "r = amount"
    and s': "s' = emit_fees_claimed p tk amount (set_pending_fees p tk 0 s1)"
    by (cases q; auto simp: settle_in_source_def)+
  obtain t where t: "s1 = s\<lparr>fk_tokens := t\<rparr>" "bal t = (if amount > 0 then token_moved tk (current_contract_address e) p amount (bal (fk_tokens s))
       else bal (fk_tokens s))"
  proof (cases "amount > 0")
    case True
    with q ok have "collector_transfer W tk (current_contract_address e) p amount s = (Ok (), s1)" by simp
    with assms(1) show thesis
    proof (cases rule: collector_transfer_cases)
      case (moved t)
      with True show thesis by (intro that [of t]) simp_all
    qed simp
  next
    case False
    with q show thesis by (intro that [of "fk_tokens s"]) auto
  qed
  show "r = amount" "get_pending_fees p tk s' = 0" "rules s' = rules s"
    "bal (fk_tokens s') = (if amount > 0 then token_moved tk (current_contract_address e) p amount (bal (fk_tokens s))
       else bal (fk_tokens s))"
    "fk_treasury_balance s' = fk_treasury_balance s" "fk_insurance_balance s' = fk_insurance_balance s"
    "fk_revenue_share_pool s' = fk_revenue_share_pool s" "fk_epoch_rebate_distributed s' = fk_epoch_rebate_distributed s"
    "fk_provider_pending_fees s' = (fk_provider_pending_fees s)(p := (fk_provider_pending_fees s p)(tk := Some 0))"
    using ok(2) t(2) by (simp_all add: s' t(1) emits_log_only set_pending_fees_def get_pending_fees_def rules_def)
qed

definition sample_asset :: asset where
  "sample_asset = \<lparr>asset_code = ''XLM'', asset_issuer = None\<rparr>"

lemmas collect_defs =
  collect_fee_with_recovery_def charge_fee_def take_fee_def pay_referral_def credit_fee_def record_daily_fee_def
  record_trade_volume_def active_monthly_trade_volume_def current_month_bucket_def get_active_volume_usd_def
  get_fee_rate_for_user_def load_tx_fee_config_def effective_fee_rate_cached_def current_effective_multiplier_def
  fee_and_burn_amounts_def fee_amount_floor_def share_or_def collector_transfer_def collector_burn_def
  add_revenue_share_pool_def add_to_revenue_share_pool_index_def
  if_initialized_def when_active_def signed_by_def require_not_paused_def is_paused_def is_initialized_def
  default_congestion_config_def default_optimization_config_def default_forecast_config_def
  sat_mul_u64_def sat_add_u32_def sat_add_u64_def as_u32_def u64_max_def u32_max_def emits_log_only Let_def

lemma sample_collect:
  "fst (collect_fee_with_recovery sample_world (sample_now 0) (Addr 3) (Addr 9) 1000000 sample_asset sample_collector) = Ok 2000"
  by (simp add: collect_defs store_defs sample_fee_defs fee_constants asset_contract_def contract_failure_def
      token_moved_def token_burnt_def sample_fee_ledger_def int_defs map_result_def)



text \<open>
  What claiming fees does when no other payout currency is set. The provider receives at most what is
  pending, the pending amount is cleared, the token balance moves from the contract to the provider and
  nothing else in the books changes. On a day with collected fees the rebates of the day stay within
  the cap; on a day without, the whole pending amount is paid.
\<close>

theorem claim_effect:
  assumes "sep41 (tokens_of W) bal" and "0 < get_pending_fees p tk s"
    and "get_provider_payout_currency p s \<in> {None, Some tk}"
    and "claim_fees W e p tk s = (Ok amount, s')"
  defines "day \<equiv> ledger_timestamp e div SECONDS_PER_DAY_FC"
  shows "has_auth e p \<and> amount \<le> get_pending_fees p tk s \<and> get_pending_fees p tk s' = 0 \<and>
    bal (fk_tokens s') = (if amount > 0 then token_moved tk (current_contract_address e) p amount (bal (fk_tokens s))
       else bal (fk_tokens s)) \<and>
    fk_treasury_balance s' = fk_treasury_balance s \<and> fk_insurance_balance s' = fk_insurance_balance s \<and>
    fk_revenue_share_pool s' = fk_revenue_share_pool s \<and>
    (if 0 < get_daily_fee_total tk day s
     then 0 < amount \<longrightarrow> get_epoch_rebate_distributed tk day s' \<le> rebate_cap tk day s
     else amount = get_pending_fees p tk s)"
proof -
  obtain am s1 where cap: "capped_claim e tk (get_pending_fees p tk s) s = (am, s1)" by fastforce
  note c = capped_claim_spec [OF cap assms(2), folded day_def]
  have cur: "get_provider_payout_currency p s1 = get_provider_payout_currency p s"
    using c(3) by (simp add: rules_def get_provider_payout_currency_def)
  have auth: "has_auth e p" and set: "settle_in_source W e p tk am s1 = (Ok amount, s')"
    using assms(2,3,4) cur cap by (auto simp: claim_fees_def Let_def split: option.splits sum.splits if_splits)
  note f = settle_in_source_Ok [OF assms(1) set]
  have "get_epoch_rebate_distributed tk day s' = get_epoch_rebate_distributed tk day s1"
    by (simp add: get_epoch_rebate_distributed_def f(8))
  then show ?thesis
    using auth c(1,5,6) f books_D [OF c(2)] by auto
qed

theorem claim_effect_witness:
  "\<exists>s'. claim_fees sample_world (sample_now 0) (Addr 5) (Addr 9) (set_pending_fees (Addr 5) (Addr 9) 500 sample_collector)
       = (Ok 500, s') \<and> fk_tokens s' (Addr 9) (Addr 5) = 500 \<and> get_pending_fees (Addr 5) (Addr 9) s' = 0"
proof -
  let ?s = "set_pending_fees (Addr 5) (Addr 9) 500 sample_collector"
  have res: "fst (claim_fees sample_world (sample_now 0) (Addr 5) (Addr 9) ?s) = Ok 500"
    by (simp add: claim_fees_def when_unlocked_def if_initialized_def when_active_def signed_by_def require_not_locked_def
        require_not_paused_def is_paused_def is_initialized_def validate_token_metadata_for_token_def capped_claim_def
        settle_in_source_def collector_transfer_def asset_contract_def map_result_def sample_fee_ledger_def store_defs
        sample_fee_defs Let_def)
  obtain s' where run: "claim_fees sample_world (sample_now 0) (Addr 5) (Addr 9) ?s = (Ok 500, s')"
    by (rule that [OF run_ok [OF res]])
  have st: "get_pending_fees (Addr 5) (Addr 9) ?s = 500" "get_provider_payout_currency (Addr 5) ?s = None"
    "fk_tokens ?s = sample_fee_ledger" "current_contract_address (sample_now 0) = Addr 0"
    by (simp_all add: store_defs sample_fee_defs)
  have pre: "0 < get_pending_fees (Addr 5) (Addr 9) ?s" "get_provider_payout_currency (Addr 5) ?s \<in> {None, Some (Addr 9)}"
    using st by simp_all
  have "fk_tokens s' = token_moved (Addr 9) (Addr 0) (Addr 5) 500 sample_fee_ledger" "get_pending_fees (Addr 5) (Addr 9) s' = 0"
    using claim_effect [OF sample_world_sep41 pre run] unfolding st by simp_all
  with run show ?thesis by (simp add: token_moved_def sample_fee_ledger_def)
qed

end
