(* ===== verification/Exchange_Sort.thy ===== *)
theory Exchange_Sort
  imports Main "HOL-Library.Multiset"
begin

text \<open>
  The contracts sort short lists in place by exchanging neighbours. \<open>exchange_pass\<close> is the inner loop, on
  indices as in the code; \<open>exchange_sort\<close> repeats it until nothing was exchanged (the waterfall of the fee
  collector), \<open>exchange_rounds\<close> repeats it a fixed number of times on shrinking prefixes (its
  leaderboard). Both are shown to be the stable sort \<open>sort_key\<close> of the library, the first with its
  termination.
\<close>

section \<open>The loops\<close>

function exchange_pass :: "('a \<Rightarrow> 'b::linorder) \<Rightarrow> nat \<Rightarrow> nat \<Rightarrow> 'a list \<Rightarrow> bool \<Rightarrow> 'a list \<times> bool" where
  "exchange_pass key m j xs swapped =
     (if j + 1 < m then
        let a = xs ! j; b = xs ! (j + 1)
        in if key a > key b then exchange_pass key m (j + 1) (xs[j := b, j + 1 := a]) True
           else exchange_pass key m (j + 1) xs swapped
      else (xs, swapped))"
  by pat_completeness auto

termination
  by (relation "measure (\<lambda>(_, m, j, _, _). m - j)") auto

declare exchange_pass.simps [simp del]

text \<open>One pass as a recursion over the list.\<close>

fun bubble :: "('a \<Rightarrow> 'b::linorder) \<Rightarrow> 'a list \<Rightarrow> 'a list" where
  "bubble key (a # b # xs) = (if key a > key b then b # bubble key (a # xs) else a # bubble key (b # xs))"
| "bubble key xs = xs"

lemma sorted_skip: "\<not> key b < key a \<Longrightarrow> sorted (map key (a # b # xs)) \<longleftrightarrow> sorted (map key (b # xs))"
  by (auto intro: order.trans)

lemma exchange_pass_bubble:
  "exchange_pass key (length ps + length ys) (length ps) (ps @ ys @ zs) swapped =
     (ps @ bubble key ys @ zs, swapped \<or> \<not> sorted (map key ys))"
proof (induction key ys arbitrary: ps swapped rule: bubble.induct)
  case (1 key a b xs)
  note IH = 1
  show ?case
  proof (cases "key a > key b")
    case True
    then show ?thesis
      using IH(1) [OF True, of "ps @ [b]" True]
      by (subst exchange_pass.simps) (auto simp: Let_def nth_append list_update_append)
  next
    case False
    then show ?thesis
      using IH(2) [OF False, of "ps @ [a]" swapped]
      by (subst exchange_pass.simps) (simp add: Let_def nth_append sorted_skip del: sorted_wrt.simps list.map)
  qed
qed (subst exchange_pass.simps, simp)+

lemma exchange_pass_prefix:
  "length ys = m \<Longrightarrow> exchange_pass key m 0 (ys @ zs) False = (bubble key ys @ zs, \<not> sorted (map key ys))"
  using exchange_pass_bubble [of key "[]" ys zs False] by simp

lemma exchange_pass_whole:
  "exchange_pass key (length ys) 0 ys False = (bubble key ys, \<not> sorted (map key ys))"
  using exchange_pass_prefix [of ys "length ys" key "[]"] by simp

section \<open>What a pass keeps and what it improves\<close>

lemma mset_bubble [simp]: "mset (bubble key xs) = mset xs"
  by (induction key xs rule: bubble.induct) auto

lemma set_bubble [simp]: "set (bubble key xs) = set xs"
  by (rule mset_eq_setD) simp

lemma length_bubble [simp]: "length (bubble key xs) = length xs"
  by (rule mset_eq_length) simp

lemma filter_bubble: "filter (\<lambda>x. k = key x) (bubble key xs) = filter (\<lambda>x. k = key x) xs"
  by (induction key xs rule: bubble.induct) auto

text \<open>The number of pairs in the wrong order.\<close>

primrec inversions :: "('a \<Rightarrow> 'b::linorder) \<Rightarrow> 'a list \<Rightarrow> nat" where
  "inversions key [] = 0"
| "inversions key (x # xs) = size (filter_mset (\<lambda>y. key y < key x) (mset xs)) + inversions key xs"

lemma inversions_bubble:
  "inversions key (bubble key xs) \<le> inversions key xs \<and>
   (\<not> sorted (map key xs) \<longrightarrow> inversions key (bubble key xs) < inversions key xs)"
proof (induction key xs rule: bubble.induct)
  case (1 key a b xs)
  show ?case
  proof (cases "key a > key b")
    case True
    with 1(1) show ?thesis by auto
  next
    case False
    with 1(2) show ?thesis by (auto simp: sorted_skip simp del: sorted_wrt.simps list.map)
  qed
qed auto

function exchange_sort :: "('a \<Rightarrow> 'b::linorder) \<Rightarrow> 'a list \<Rightarrow> 'a list" where
  "exchange_sort key xs =
     (case exchange_pass key (length xs) 0 xs False of
        (ys, swapped) \<Rightarrow> if swapped then exchange_sort key ys else ys)"
  by pat_completeness auto

termination
  by (relation "measure (\<lambda>(key, xs). inversions key xs)")
     (auto simp: exchange_pass_whole inversions_bubble)

declare exchange_sort.simps [simp del]

lemma exchange_sort_bubble:
  "exchange_sort key xs = (if sorted (map key xs) then bubble key xs else exchange_sort key (bubble key xs))"
  by (subst exchange_sort.simps) (simp add: exchange_pass_whole)

lemma bubble_sorted: "sorted (map key xs) \<Longrightarrow> bubble key xs = xs"
  by (induction key xs rule: bubble.induct) auto

lemma exchange_sort_filter: "filter (\<lambda>x. k = key x) (exchange_sort key xs) = filter (\<lambda>x. k = key x) xs"
proof (induction key xs rule: exchange_sort.induct)
  case (1 key xs)
  then show ?case
    using exchange_sort_bubble [of key xs] filter_bubble [of k key xs]
    by (cases "sorted (map key xs)") (auto simp: exchange_pass_whole)
qed

lemma exchange_sort_sorted: "sorted (map key (exchange_sort key xs)) \<and> mset (exchange_sort key xs) = mset xs"
proof (induction key xs rule: exchange_sort.induct)
  case (1 key xs)
  then show ?case
    using exchange_sort_bubble [of key xs] bubble_sorted [of key xs]
    by (cases "sorted (map key xs)") (auto simp: exchange_pass_whole)
qed

lemma exchange_sort_sort_key: "exchange_sort key xs = sort_key key xs"
  by (rule properties_for_sort_key [symmetric]) (simp_all add: exchange_sort_sorted exchange_sort_filter)

section \<open>A fixed number of rounds\<close>

primrec exchange_rounds :: "('a \<Rightarrow> 'b::linorder) \<Rightarrow> nat \<Rightarrow> 'a list \<Rightarrow> 'a list" where
  "exchange_rounds key 0 xs = xs"
| "exchange_rounds key (Suc k) xs = exchange_rounds key k (fst (exchange_pass key (Suc k) 0 xs False))"

lemma bubble_last: "y \<in> set xs \<Longrightarrow> key y \<le> key (last (bubble key xs))"
proof (induction key xs arbitrary: y rule: bubble.induct)
  case (1 key a b xs)
  have ne: "bubble key (c # xs) \<noteq> []" for c
    by (metis length_bubble length_0_conv list.distinct(1))
  show ?case
  proof (cases "key a > key b")
    case True
    then show ?thesis using 1(1) [OF True, of y] 1(1) [OF True, of a] 1(3) ne [of a] by auto
  next
    case False
    then show ?thesis using 1(2) [OF False, of y] 1(2) [OF False, of b] 1(3) ne [of b] by auto
  qed
qed auto

lemma exchange_rounds_invariant:
  assumes "length ys = k" "sorted (map key zs)" "\<And>y z. y \<in> set ys \<Longrightarrow> z \<in> set zs \<Longrightarrow> key y \<le> key z"
  shows "sorted (map key (exchange_rounds key k (ys @ zs))) \<and> mset (exchange_rounds key k (ys @ zs)) = mset (ys @ zs) \<and>
     filter (\<lambda>x. c = key x) (exchange_rounds key k (ys @ zs)) = filter (\<lambda>x. c = key x) (ys @ zs)"
  using assms
proof (induction k arbitrary: ys zs)
  case (Suc k)
  let ?b = "bubble key ys"
  have ne: "?b \<noteq> []" using Suc.prems(1) by (metis length_bubble length_0_conv nat.distinct(1))
  then have split: "?b = butlast ?b @ [last ?b]" by simp
  have len: "length (butlast ?b) = k" using Suc.prems(1) by simp
  have mem: "last ?b \<in> set ys" "set (butlast ?b) \<subseteq> set ys"
    using ne last_in_set [of ?b] in_set_butlastD [of _ ?b] by auto
  have "sorted (map key (last ?b # zs))"
    using Suc.prems(2,3) mem(1) by simp
  moreover have "key y \<le> key z" if "y \<in> set (butlast ?b)" "z \<in> set (last ?b # zs)" for y z
    using that Suc.prems(3) mem bubble_last [of y ys key] by auto
  ultimately have "sorted (map key (exchange_rounds key k (butlast ?b @ last ?b # zs))) \<and>
      mset (exchange_rounds key k (butlast ?b @ last ?b # zs)) = mset (butlast ?b @ last ?b # zs) \<and>
      filter (\<lambda>x. c = key x) (exchange_rounds key k (butlast ?b @ last ?b # zs)) =
      filter (\<lambda>x. c = key x) (butlast ?b @ last ?b # zs)"
    by (rule Suc.IH [OF len])
  moreover have "butlast ?b @ last ?b # zs = ?b @ zs"
    using split by (metis append.assoc append_Cons append_Nil)
  moreover have "mset (?b @ zs) = mset (ys @ zs)" by simp
  moreover have "filter (\<lambda>x. c = key x) (?b @ zs) = filter (\<lambda>x. c = key x) (ys @ zs)"
    using filter_bubble [of c key ys] by simp
  moreover have "exchange_rounds key (Suc k) (ys @ zs) = exchange_rounds key k (?b @ zs)"
    by (simp add: exchange_pass_prefix [OF Suc.prems(1)])
  ultimately show ?case by metis
qed simp

lemma exchange_rounds_sort_key: "exchange_rounds key (length xs) xs = sort_key key xs"
  by (rule properties_for_sort_key [symmetric])
     (use exchange_rounds_invariant [of xs "length xs" key "[]"] in simp_all)

end
