(* ===== verification/Collector_Treasury.thy ===== *)
theory Collector_Treasury
  imports Collector_Admin Exchange_Sort
begin

text \<open>
  The money that the fee collector holds for the protocol (\<^verbatim>\<open>fee_collector/src/lib.rs\<close>): time-locked withdrawals
  from the treasury, the insurance fund with its capped, once-only payouts, the distribution of treasury
  funds by a waterfall of tiers, and the audit of the balances.
\<close>

section \<open>Withdrawals\<close>

definition queue_withdrawal ::
  "env \<Rightarrow> address \<Rightarrow> address \<Rightarrow> int \<Rightarrow> 't collector \<Rightarrow> ('t, unit) collector_result" where
  "queue_withdrawal e recipient token amount =
     if_initialized (when_active (signed_by_admin e (\<lambda>_ s.
       if amount \<le> 0 then (Err InvalidAmount, s)
       else case validate_token_metadata_for_token token s of
              Inl er \<Rightarrow> (Err er, s)
            | Inr _ \<Rightarrow>
                if amount > get_treasury_balance token s then (Err InsufficientTreasuryBalance, s)
                else let queued_at = ledger_timestamp e; available_at = queued_at + SECONDS_PER_DAY_FC
                     in if available_at > u64_max then (Err ArithmeticOverflow, s)
                        else (Ok (), emit_withdrawal_queued recipient token amount available_at
                               (set_queued_withdrawal
                                  \<lparr>qw_recipient = recipient, qw_token = token, qw_amount = amount,
                                   qw_queued_at = queued_at\<rparr> s)))))"

definition withdraw_treasury_fees ::
  "'t world \<Rightarrow> env \<Rightarrow> address \<Rightarrow> address \<Rightarrow> int \<Rightarrow> 't collector \<Rightarrow> ('t, unit) collector_result" where
  "withdraw_treasury_fees W e recipient token amount =
     when_unlocked (if_initialized (when_active (signed_by_admin e (\<lambda>_ s.
       case validate_token_metadata_for_token token s of
         Inl er \<Rightarrow> (Err er, s)
       | Inr _ \<Rightarrow>
           (case get_queued_withdrawal s of
              None \<Rightarrow> (Err WithdrawalNotQueued, s)
            | Some queued \<Rightarrow>
                if \<not> (qw_recipient queued = recipient \<and> qw_token queued = token \<and> qw_amount queued = amount)
                then (Err WithdrawalNotQueued, s)
                else if qw_queued_at queued + SECONDS_PER_DAY_FC > u64_max then (Err ArithmeticOverflow, s)
                else if ledger_timestamp e < qw_queued_at queued + SECONDS_PER_DAY_FC
                then (Err TimelockNotElapsed, s)
                else if amount > get_treasury_balance token s then (Err InsufficientTreasuryBalance, s)
                else case checked_sub (get_treasury_balance token s) amount of
                       None \<Rightarrow> (Err ArithmeticOverflow, s)
                     | Some new_balance \<Rightarrow>
                         (case collector_transfer W token (current_contract_address e) recipient amount s of
                            (Ok _, s1) \<Rightarrow>
                              (Ok (), emit_treasury_withdrawal recipient token amount new_balance
                                 (remove_queued_withdrawal (set_treasury_balance token new_balance s1)))
                          | (Err er, s1) \<Rightarrow> (Err er, s1)
                          | (Panic, s1) \<Rightarrow> (Panic, s1)))))))"

section \<open>The insurance fund\<close>

definition deposit_insurance_fund ::
  "'t world \<Rightarrow> env \<Rightarrow> address \<Rightarrow> address \<Rightarrow> int \<Rightarrow> 't collector \<Rightarrow> ('t, unit) collector_result" where
  "deposit_insurance_fund W e from token amount =
     if_initialized (when_active (signed_by e from (\<lambda>s.
       if amount \<le> 0 then (Err InvalidAmount, s)
       else case collector_transfer W token from (current_contract_address e) amount s of
              (Ok _, s1) \<Rightarrow>
                (case checked_add (get_insurance_balance token s1) amount of
                   None \<Rightarrow> (Err ArithmeticOverflow, s1)
                 | Some new_bal \<Rightarrow> (Ok (), set_insurance_balance token new_bal s1))
            | (Err er, s1) \<Rightarrow> (Err er, s1)
            | (Panic, s1) \<Rightarrow> (Panic, s1))))"

definition payout_insurance ::
  "'t world \<Rightarrow> env \<Rightarrow> address \<Rightarrow> address \<Rightarrow> address \<Rightarrow> int \<Rightarrow> string \<Rightarrow> 't collector \<Rightarrow> ('t, unit) collector_result" where
  "payout_insurance W e caller recipient token amount claim_id =
     when_unlocked (if_initialized (when_active (trusted_caller e caller (\<lambda>s.
       if amount \<le> 0 then (Err InvalidAmount, s)
       else if is_insurance_claim_processed claim_id s then (Err ClaimAlreadyProcessed, s)
       else let cap = get_insurance_payout_cap token s; current_balance = get_insurance_balance token s
            in if cap > 0 \<and> amount > cap then (Err PayoutExceedsCap, s)
               else if amount > current_balance then (Err InsufficientInsuranceBalance, s)
               else case checked_sub current_balance amount of
                      None \<Rightarrow> (Err ArithmeticOverflow, s)
                    | Some new_balance \<Rightarrow>
                        (case collector_transfer W token (current_contract_address e) recipient amount
                               (set_insurance_claim_processed claim_id True
                                  (set_insurance_balance token new_balance s)) of
                           (Ok _, s1) \<Rightarrow>
                             (Ok (), emit_insurance_payout recipient token amount claim_id (ledger_timestamp e) s1)
                         | (Err er, s1) \<Rightarrow> (Err er, s1)
                         | (Panic, s1) \<Rightarrow> (Panic, s1))))))"

section \<open>The waterfall\<close>

text \<open>The indices of the tiers in the order in which they are funded.\<close>

definition waterfall_order :: "waterfall_tier list \<Rightarrow> nat list" where
  "waterfall_order tiers = exchange_sort (\<lambda>i. wt_priority (tiers ! i)) [0..<length tiers]"

definition tier_result :: "waterfall_tier \<Rightarrow> int \<Rightarrow> waterfall_tier_result" where
  "tier_result tier allocated =
     \<lparr>wr_name = wt_name tier, wr_recipient = wt_recipient tier, wr_priority = wt_priority tier,
      wr_allocated = allocated\<rparr>"

fun waterfall_loop :: "'t world \<Rightarrow> env \<Rightarrow> address \<Rightarrow> waterfall_tier list \<Rightarrow> int \<Rightarrow> int \<Rightarrow> waterfall_tier_result list \<Rightarrow>
    't collector \<Rightarrow> ('t, int \<times> waterfall_tier_result list) collector_result" where
  "waterfall_loop W e token [] remaining total_distributed results s = (Ok (total_distributed, results), s)"
| "waterfall_loop W e token (tier # tiers) remaining total_distributed results s =
     (if remaining < wt_target tier \<and> remaining < wt_minimum tier
      then waterfall_loop W e token tiers remaining total_distributed (results @ [tier_result tier 0]) s
      else let allocated = (if remaining \<ge> wt_target tier then wt_target tier else remaining)
           in case collector_transfer W token (current_contract_address e) (wt_recipient tier) allocated s of
                (Ok _, s1) \<Rightarrow>
                  (case (checked_sub remaining allocated, checked_add total_distributed allocated) of
                     (Some remaining', Some total') \<Rightarrow>
                       waterfall_loop W e token tiers remaining' total' (results @ [tier_result tier allocated]) s1
                   | _ \<Rightarrow> (Err ArithmeticOverflow, s1))
              | (Err er, s1) \<Rightarrow> (Err er, s1)
              | (Panic, s1) \<Rightarrow> (Panic, s1))"

definition distribute_waterfall ::
  "'t world \<Rightarrow> env \<Rightarrow> address \<Rightarrow> int \<Rightarrow> 't collector \<Rightarrow> ('t, waterfall_tier_result list) collector_result" where
  "distribute_waterfall W e token total_amount =
     if_initialized (when_active (signed_by_admin e (\<lambda>_ s.
       if total_amount \<le> 0 then (Err InvalidAmount, s)
       else case get_waterfall_config s of
              None \<Rightarrow> (Err WaterfallNotConfigured, s)
            | Some tiers \<Rightarrow>
                let treasury_bal = get_treasury_balance token s
                in if treasury_bal < total_amount then (Err InsufficientTreasuryBalance, s)
                   else case waterfall_loop W e token (map (\<lambda>i. tiers ! i) (waterfall_order tiers))
                               total_amount 0 [] s of
                          (Ok (total_distributed, results), s1) \<Rightarrow>
                            (case checked_sub treasury_bal total_distributed of
                               None \<Rightarrow> (Err ArithmeticOverflow, s1)
                             | Some new_bal \<Rightarrow>
                                 (Ok results, emit_waterfall_distribution token total_distributed results
                                    (set_treasury_balance token new_bal s1)))
                        | (Err er, s1) \<Rightarrow> (Err er, s1)
                        | (Panic, s1) \<Rightarrow> (Panic, s1))))"

section \<open>The audit\<close>

definition MAX_AUDIT_TOKENS :: nat where
  "MAX_AUDIT_TOKENS = 20"

fun audit_loop :: "'t world \<Rightarrow> env \<Rightarrow> address list \<Rightarrow> balance_mismatch list \<Rightarrow> 't collector \<Rightarrow>
    (fee_error, balance_mismatch list) outcome" where
  "audit_loop W e [] mismatches s = Ok mismatches"
| "audit_loop W e (token # tokens) mismatches s =
     (let expected = get_treasury_balance token s
      in case balance_of W token (current_contract_address e) (fk_tokens s) of
           None \<Rightarrow> Panic
         | Some actual \<Rightarrow>
             audit_loop W e tokens
               (if actual \<noteq> expected
                then mismatches @ [\<lparr>bm_token = token, bm_expected = expected, bm_actual = actual,
                                    bm_delta = saturating_sub actual expected\<rparr>]
                else mismatches) s)"

definition audit_balances ::
  "'t world \<Rightarrow> env \<Rightarrow> address list \<Rightarrow> 't collector \<Rightarrow> ('t, balance_mismatch list) collector_result" where
  "audit_balances W e tokens =
     if_initialized (\<lambda>s.
       if length tokens > MAX_AUDIT_TOKENS then (Err IterationLimitExceeded, s)
       else (audit_loop W e tokens [] s, s))"

section \<open>The waterfall against its specification\<close>

text \<open>The order of funding is the stable order by priority.\<close>

lemma map_insort_key: "map f (insort_key (\<lambda>x. g (f x)) x xs) = insort_key g (f x) (map f xs)"
  by (induction xs) auto

lemma map_sort_key: "map f (sort_key (\<lambda>x. g (f x)) xs) = sort_key g (map f xs)"
  by (induction xs) (simp_all add: map_insort_key)

lemma waterfall_order_sorted: "map (\<lambda>i. tiers ! i) (waterfall_order tiers) = sort_key wt_priority tiers"
  using map_sort_key [of "\<lambda>i. tiers ! i" wt_priority "[0..<length tiers]"]
  by (simp add: waterfall_order_def exchange_sort_sort_key map_nth)

text \<open>What each tier is due: its target, or the rest if that reaches its minimum, or nothing.\<close>

definition tier_due :: "int \<Rightarrow> waterfall_tier \<Rightarrow> int" where
  "tier_due remaining t =
     (if wt_target t \<le> remaining then wt_target t else if wt_minimum t \<le> remaining then remaining else 0)"

primrec allocations :: "int \<Rightarrow> waterfall_tier list \<Rightarrow> int list" where
  "allocations remaining [] = []"
| "allocations remaining (t # ts) = tier_due remaining t # allocations (remaining - tier_due remaining t) ts"

text \<open>What an account receives of the allocations.\<close>

definition received :: "address \<Rightarrow> waterfall_tier_result list \<Rightarrow> int" where
  "received a rs = (\<Sum>r\<leftarrow>rs. if wr_recipient r = a then wr_allocated r else 0)"

lemma received_simps [simp]:
  "received a [] = 0" "received a (r # rs) = (if wr_recipient r = a then wr_allocated r else 0) + received a rs"
  by (simp_all add: received_def)

lemma waterfall_loop_Ok:
  assumes "sep41 (tokens_of W) bal"
  shows "waterfall_loop W e tk tiers rem dist res s = (Ok (dist', res'), s') \<Longrightarrow> 0 \<le> rem \<Longrightarrow> current_contract_address e = v \<Longrightarrow>
    \<exists>rs t. res' = res @ rs \<and> rs = map2 tier_result tiers (allocations rem tiers) \<and>
      dist' = dist + sum_list (allocations rem tiers) \<and> 0 \<le> sum_list (allocations rem tiers) \<and>
      sum_list (allocations rem tiers) \<le> rem \<and> list_all (\<lambda>x. 0 \<le> x) (allocations rem tiers) \<and>
      s' = s\<lparr>fk_tokens := t\<rparr> \<and>
      (\<forall>k a. bal t k a = bal (fk_tokens s) k a +
         (if k = tk then received a rs - (if a = v then sum_list (allocations rem tiers) else 0) else 0))"
proof (induction tiers arbitrary: rem dist res s)
  case Nil
  then show ?case by (auto intro!: exI [of _ "fk_tokens s"])
next
  case (Cons t ts)
  let ?d = "tier_due rem t"
  show ?case
  proof (cases "rem < wt_target t \<and> rem < wt_minimum t")
    case True
    then have d: "?d = 0" by (simp add: tier_due_def)
    with Cons.prems True have "waterfall_loop W e tk ts rem dist (res @ [tier_result t 0]) s = (Ok (dist', res'), s')" by simp
    from Cons.IH [OF this Cons.prems(2,3)] d show ?thesis
      by (auto simp: tier_result_def)
  next
    case False
    then have al: "(if wt_target t \<le> rem then wt_target t else rem) = ?d" by (auto simp: tier_due_def)
    obtain q s1 where q: "collector_transfer W tk v (wt_recipient t) ?d s = (q, s1)" by fastforce
    from assms q show ?thesis
    proof (cases rule: collector_transfer_cases)
      case (moved t1)
      have le: "?d \<le> rem" using Cons.prems(2) by (simp add: tier_due_def)
      have step: "waterfall_loop W e tk ts (rem - ?d) (dist + ?d) (res @ [tier_result t ?d]) s1 = (Ok (dist', res'), s')"
        using Cons.prems(1,3) False al q moved
        by (auto simp: Let_def checked_sub_def checked_add_def checked_i128_def split: if_splits)
      obtain rs t2 where IH: "res' = res @ tier_result t ?d # rs" "rs = map2 tier_result ts (allocations (rem - ?d) ts)"
        "dist' = dist + ?d + sum_list (allocations (rem - ?d) ts)" "0 \<le> sum_list (allocations (rem - ?d) ts)"
        "sum_list (allocations (rem - ?d) ts) \<le> rem - ?d" "list_all (\<lambda>x. 0 \<le> x) (allocations (rem - ?d) ts)"
        "s' = s1\<lparr>fk_tokens := t2\<rparr>"
        "\<And>k a. bal t2 k a = bal (fk_tokens s1) k a +
           (if k = tk then received a rs - (if a = v then sum_list (allocations (rem - ?d) ts) else 0) else 0)"
        using Cons.IH [OF step _ Cons.prems(3)] le by auto
      show ?thesis
        by (intro exI [of _ "tier_result t ?d # rs"] exI [of _ t2])
           (use IH moved in \<open>auto simp: token_moved_def tier_result_def\<close>)
    next
      case (failed f)
      with Cons.prems(1,3) False al q show ?thesis by (auto simp: Let_def)
    qed
  qed
qed

section \<open>Effects\<close>

lemma withdraw_treasury_Ok:
  assumes "sep41 (tokens_of W) bal" "withdraw_treasury_fees W e r tk amount s = (Ok u, s')"
  obtains q t l where "fk_queued_withdrawal s = Some q" "qw_recipient q = r" "qw_token q = tk" "qw_amount q = amount"
    "qw_queued_at q + SECONDS_PER_DAY_FC \<le> ledger_timestamp e" "amount \<le> get_treasury_balance tk s" "0 \<le> amount"
    "in_i128 (get_treasury_balance tk s - amount)"
    "bal t = token_moved tk (current_contract_address e) r amount (bal (fk_tokens s))"
    "s' = s\<lparr>fk_tokens := t, event_log := l, fk_queued_withdrawal := None,
       fk_treasury_balance := (fk_treasury_balance s)(tk := Some (get_treasury_balance tk s - amount))\<rparr>"
    "is_initialized s" "\<not> is_paused s" "\<exists>admin. fc_get_admin s = Some admin \<and> has_auth e admin"
proof -
  obtain p s1 where tr: "collector_transfer W tk (current_contract_address e) r amount s = (p, s1)" by fastforce
  obtain q where g: "fk_queued_withdrawal s = Some q" "qw_recipient q = r" "qw_token q = tk" "qw_amount q = amount"
    "qw_queued_at q + SECONDS_PER_DAY_FC \<le> ledger_timestamp e" "amount \<le> get_treasury_balance tk s"
    "in_i128 (get_treasury_balance tk s - amount)" "is_initialized s" "\<not> is_paused s"
    "\<exists>admin. fc_get_admin s = Some admin \<and> has_auth e admin" "is_ok p"
    "s' = emit_treasury_withdrawal r tk amount (get_treasury_balance tk s - amount)
            (remove_queued_withdrawal (set_treasury_balance tk (get_treasury_balance tk s - amount) s1))"
    using assms(2) tr
    by (cases p) (auto simp: withdraw_treasury_fees_def get_queued_withdrawal_def not_less split: option.splits sum.splits if_splits)
  from assms(1) tr show thesis
  proof (cases rule: collector_transfer_cases)
    case (moved t)
    show thesis
      by (rule that [OF g(1-6) moved(3) g(7) moved(5) _ g(8-10), of "event_log s'"])
         (simp add: g(12) moved(2) store_defs emits_log_only)
  next
    case (failed f)
    with g(11) show thesis by simp
  qed
qed

lemma deposit_insurance_Ok:
  assumes "sep41 (tokens_of W) bal" "deposit_insurance_fund W e a tk amount s = (Ok u, s')"
  obtains t where "0 < amount" "has_auth e a" "in_i128 (get_insurance_balance tk s + amount)"
    "bal t = token_moved tk a (current_contract_address e) amount (bal (fk_tokens s))"
    "s' = s\<lparr>fk_tokens := t, fk_insurance_balance := (fk_insurance_balance s)(tk := Some (get_insurance_balance tk s + amount))\<rparr>"
proof -
  obtain p s1 where tr: "collector_transfer W tk a (current_contract_address e) amount s = (p, s1)" by fastforce
  have g: "0 < amount" "has_auth e a" "is_ok p"
    using assms(2) tr by (cases p; auto simp: deposit_insurance_fund_def split: if_splits)+
  from assms(1) tr show thesis
  proof (cases rule: collector_transfer_cases)
    case (moved t)
    have "in_i128 (get_insurance_balance tk s + amount)" "s' = set_insurance_balance tk (get_insurance_balance tk s + amount) s1"
      using assms(2) tr moved
      by (auto simp: deposit_insurance_fund_def get_insurance_balance_def split: if_splits option.splits)
    then show thesis
      by (intro that [OF g(1,2) _ moved(5)]) (simp_all add: moved(2) store_defs)
  next
    case (failed f)
    with g(3) show thesis by simp
  qed
qed

lemma payout_insurance_Ok:
  assumes "sep41 (tokens_of W) bal" "payout_insurance W e c r tk amount cid s = (Ok u, s')"
  obtains t l where "0 < amount" "amount \<le> get_insurance_balance tk s" "\<not> is_insurance_claim_processed cid s"
    "0 < get_insurance_payout_cap tk s \<longrightarrow> amount \<le> get_insurance_payout_cap tk s"
    "in_i128 (get_insurance_balance tk s - amount)" "has_auth e c"
    "\<exists>admin. fc_get_admin s = Some admin \<and> (c = admin \<or> is_authorized_caller c s)"
    "bal t = token_moved tk (current_contract_address e) r amount (bal (fk_tokens s))"
    "s' = s\<lparr>fk_tokens := t, event_log := l,
       fk_insurance_balance := (fk_insurance_balance s)(tk := Some (get_insurance_balance tk s - amount)),
       fk_processed_insurance_claim := (fk_processed_insurance_claim s)(cid := Some True)\<rparr>"
proof -
  let ?s1 = "set_insurance_claim_processed cid True (set_insurance_balance tk (get_insurance_balance tk s - amount) s)"
  obtain p s2 where tr: "collector_transfer W tk (current_contract_address e) r amount ?s1 = (p, s2)" by fastforce
  have g: "0 < amount" "amount \<le> get_insurance_balance tk s" "\<not> is_insurance_claim_processed cid s"
    "0 < get_insurance_payout_cap tk s \<longrightarrow> amount \<le> get_insurance_payout_cap tk s"
    "in_i128 (get_insurance_balance tk s - amount)" "has_auth e c"
    "\<exists>admin. fc_get_admin s = Some admin \<and> (c = admin \<or> is_authorized_caller c s)" "is_ok p"
    "s' = emit_insurance_payout r tk amount cid (ledger_timestamp e) s2"
    using assms(2) tr by (cases p; auto simp: payout_insurance_def Let_def split: option.splits if_splits)+
  from assms(1) tr show thesis
  proof (cases rule: collector_transfer_cases)
    case (moved t)
    have b: "bal t = token_moved tk (current_contract_address e) r amount (bal (fk_tokens s))"
      using moved(5) by (simp add: store_defs)
    show thesis
      by (rule that [OF g(1-7) b, of "event_log s'"]) (simp add: g(9) moved(2) store_defs emits_log_only)
  next
    case (failed f)
    with g(8) show thesis by simp
  qed
qed

lemma distribute_waterfall_Ok:
  assumes "sep41 (tokens_of W) bal" "distribute_waterfall W e tk amount s = (Ok rs, s')" "current_contract_address e = v"
  obtains tiers t l where "get_waterfall_config s = Some tiers" "0 < amount" "amount \<le> get_treasury_balance tk s"
    "rs = map2 tier_result (sort_key wt_priority tiers) (allocations amount (sort_key wt_priority tiers))"
    "0 \<le> sum_list (allocations amount (sort_key wt_priority tiers))"
    "sum_list (allocations amount (sort_key wt_priority tiers)) \<le> amount"
    "list_all (\<lambda>x. 0 \<le> x) (allocations amount (sort_key wt_priority tiers))"
    "in_i128 (get_treasury_balance tk s - sum_list (allocations amount (sort_key wt_priority tiers)))"
    "\<forall>k a. bal t k a = bal (fk_tokens s) k a +
       (if k = tk then received a rs - (if a = v then sum_list (allocations amount (sort_key wt_priority tiers)) else 0) else 0)"
    "s' = s\<lparr>fk_tokens := t, event_log := l, fk_treasury_balance := (fk_treasury_balance s)
       (tk := Some (get_treasury_balance tk s - sum_list (allocations amount (sort_key wt_priority tiers))))\<rparr>"
proof -
  obtain tiers where c: "get_waterfall_config s = Some tiers" "0 < amount" "amount \<le> get_treasury_balance tk s"
    using assms(2) by (auto simp: distribute_waterfall_def Let_def split: option.splits if_splits)
  let ?ts = "sort_key wt_priority tiers"
  obtain p s1 where lp: "waterfall_loop W e tk ?ts amount 0 [] s = (p, s1)" by fastforce
  obtain d where d: "p = Ok (d, rs)" "in_i128 (get_treasury_balance tk s - d)"
    "s' = emit_waterfall_distribution tk d rs (set_treasury_balance tk (get_treasury_balance tk s - d) s1)"
    using assms(2) c lp
    by (cases p) (auto simp: distribute_waterfall_def waterfall_order_sorted Let_def split: option.splits)
  from waterfall_loop_Ok [OF assms(1) lp [unfolded d(1)] _ assms(3)] c(2)
  obtain t where w: "rs = map2 tier_result ?ts (allocations amount ?ts)" "d = sum_list (allocations amount ?ts)"
    "0 \<le> sum_list (allocations amount ?ts)" "sum_list (allocations amount ?ts) \<le> amount"
    "list_all (\<lambda>x. 0 \<le> x) (allocations amount ?ts)" "s1 = s\<lparr>fk_tokens := t\<rparr>"
    "\<forall>k a. bal t k a = bal (fk_tokens s) k a +
       (if k = tk then received a rs - (if a = v then sum_list (allocations amount ?ts) else 0) else 0)"
    by auto
  show thesis
    by (rule that [OF c w(1,3-5) d(2) [unfolded w(2)] w(7), of "event_log s'"])
       (simp add: d(3) w(2,6) store_defs emits_log_only)
qed

section \<open>Properties\<close>

text \<open>For the witnesses: a treasury of 600000, an insurance fund of 300000 and a waterfall of three tiers.\<close>

definition sample_tiers :: "waterfall_tier list" where
  "sample_tiers =
     [\<lparr>wt_name = ''rewards'', wt_priority = 2, wt_target = 400, wt_minimum = 100, wt_recipient = Addr 6\<rparr>,
      \<lparr>wt_name = ''ops'', wt_priority = 1, wt_target = 700, wt_minimum = 0, wt_recipient = Addr 5\<rparr>,
      \<lparr>wt_name = ''reserve'', wt_priority = 2, wt_target = 500, wt_minimum = 200, wt_recipient = Addr 8\<rparr>]"

definition sample_treasury :: "balance_ledger collector" where
  "sample_treasury = set_waterfall_config_storage sample_tiers
     (set_queued_withdrawal \<lparr>qw_recipient = Addr 5, qw_token = Addr 9, qw_amount = 1000, qw_queued_at = 50\<rparr>
       (set_insurance_balance (Addr 9) 300000 (set_treasury_balance (Addr 9) 600000 sample_collector)))"

lemmas treasury_defs =
  if_initialized_def when_active_def when_unlocked_def signed_by_def signed_by_admin_def trusted_caller_def
  require_not_locked_def require_not_paused_def is_paused_def is_initialized_def validate_token_metadata_for_token_def
  collector_transfer_def asset_contract_def map_result_def token_moved_def sample_fee_ledger_def store_defs
  sample_fee_defs sample_treasury_def sample_tiers_def fee_constants int_defs u64_max_def Let_def

text \<open>
  A withdrawal from the treasury needs the administrator's signature and a request for the same
  recipient, token and amount that is at least a day old. It consumes the request, so it cannot be
  repeated without a new one, pays exactly the amount, which the treasury covered, and deducts it.
\<close>

theorem treasury_withdrawal_effect:
  assumes "sep41 (tokens_of W) bal"
    and "withdraw_treasury_fees W e r tk amount s = (Ok u, s')"
  shows "(\<exists>admin. fc_get_admin s = Some admin \<and> has_auth e admin) \<and>
    (\<exists>t0. get_queued_withdrawal s = Some \<lparr>qw_recipient = r, qw_token = tk, qw_amount = amount, qw_queued_at = t0\<rparr> \<and>
       t0 + 86400 \<le> ledger_timestamp e) \<and>
    get_queued_withdrawal s' = None \<and> fst (withdraw_treasury_fees W e' r' tk' amount' s') \<noteq> Ok u' \<and>
    amount \<le> get_treasury_balance tk s \<and>
    (\<forall>k. get_treasury_balance k s' = get_treasury_balance k s - (if k = tk then amount else 0)) \<and>
    bal (fk_tokens s') = token_moved tk (current_contract_address e) r amount (bal (fk_tokens s))"
proof (cases rule: withdraw_treasury_Ok [OF assms])
  case (1 q t l)
  have none: "get_queued_withdrawal s' = None" by (simp add: 1(10) get_queued_withdrawal_def)
  then have "fst (withdraw_treasury_fees W e' r' tk' amount' s') \<noteq> Ok u'"
    using run_ok [of "withdraw_treasury_fees W e' r' tk' amount' s'" u']
    by (auto simp: withdraw_treasury_fees_def split: sum.splits)
  moreover have "q = \<lparr>qw_recipient = r, qw_token = tk, qw_amount = amount, qw_queued_at = qw_queued_at q\<rparr>"
    using 1(2-4) by (cases q) simp
  then have "\<exists>t0. get_queued_withdrawal s = Some \<lparr>qw_recipient = r, qw_token = tk, qw_amount = amount, qw_queued_at = t0\<rparr> \<and>
       t0 + 86400 \<le> ledger_timestamp e"
    using 1(1,5) unfolding get_queued_withdrawal_def SECONDS_PER_DAY_FC_def by metis
  ultimately show ?thesis
    using 1(6,9,13) none by (auto simp: 1(10) get_treasury_balance_def)
qed

theorem treasury_withdrawal_effect_witness:
  "\<exists>s'. withdraw_treasury_fees sample_world (sample_now 90000) (Addr 5) (Addr 9) 1000 sample_treasury = (Ok (), s') \<and>
     get_treasury_balance (Addr 9) s' = 599000 \<and> get_queued_withdrawal s' = None"
proof -
  have res: "fst (withdraw_treasury_fees sample_world (sample_now 90000) (Addr 5) (Addr 9) 1000 sample_treasury) = Ok ()"
    by (simp add: withdraw_treasury_fees_def treasury_defs)
  obtain s' where run: "withdraw_treasury_fees sample_world (sample_now 90000) (Addr 5) (Addr 9) 1000 sample_treasury = (Ok (), s')"
    by (rule that [OF run_ok [OF res]])
  have "get_treasury_balance (Addr 9) sample_treasury = 600000" by (simp add: treasury_defs)
  with treasury_withdrawal_effect [OF sample_world_sep41 run] run show ?thesis by auto
qed

text \<open>
  An insurance payout is made by the administrator or an allowlisted caller for a claim that was not
  paid before, within the cap and covered by the fund; afterwards the claim counts as paid, the fund and
  the token balance have fallen by exactly the amount, and treasury and revenue pool are untouched.
\<close>

theorem insurance_payout_effect:
  assumes "sep41 (tokens_of W) bal"
    and "payout_insurance W e c r tk amount cid s = (Ok u, s')"
  shows "has_auth e c \<and> (\<exists>admin. fc_get_admin s = Some admin \<and> (c = admin \<or> is_authorized_caller c s)) \<and>
    \<not> is_insurance_claim_processed cid s \<and> is_insurance_claim_processed cid s' \<and>
    0 < amount \<and> (0 < get_insurance_payout_cap tk s \<longrightarrow> amount \<le> get_insurance_payout_cap tk s) \<and>
    amount \<le> get_insurance_balance tk s \<and>
    (\<forall>k. get_insurance_balance k s' = get_insurance_balance k s - (if k = tk then amount else 0)) \<and>
    bal (fk_tokens s') = token_moved tk (current_contract_address e) r amount (bal (fk_tokens s)) \<and>
    fk_treasury_balance s' = fk_treasury_balance s \<and> fk_revenue_share_pool s' = fk_revenue_share_pool s"
proof (cases rule: payout_insurance_Ok [OF assms])
  case (1 t l)
  then show ?thesis by (auto simp: get_insurance_balance_def is_insurance_claim_processed_def)
qed

theorem insurance_payout_effect_witness:
  "\<exists>s'. payout_insurance sample_world (sample_now 10) (Addr 1) (Addr 5) (Addr 9) 700 ''c1'' sample_treasury = (Ok (), s') \<and>
     get_insurance_balance (Addr 9) s' = 299300 \<and> is_insurance_claim_processed ''c1'' s'"
proof -
  have res: "fst (payout_insurance sample_world (sample_now 10) (Addr 1) (Addr 5) (Addr 9) 700 ''c1'' sample_treasury) = Ok ()"
    by (simp add: payout_insurance_def treasury_defs)
  obtain s' where run: "payout_insurance sample_world (sample_now 10) (Addr 1) (Addr 5) (Addr 9) 700 ''c1'' sample_treasury = (Ok (), s')"
    by (rule that [OF run_ok [OF res]])
  have "get_insurance_balance (Addr 9) sample_treasury = 300000" by (simp add: treasury_defs)
  with insurance_payout_effect [OF sample_world_sep41 run] run show ?thesis by auto
qed

text \<open>
  C18: A waterfall distribution funds the tiers in the stable order of their priorities. Every tier gets its
  target, or what is left if that reaches its minimum, or nothing; no allocation is negative, together
  they stay within the requested amount, the treasury falls by exactly their sum, every recipient gets
  exactly its allocations, and no other balance changes.
\<close>

theorem waterfall_effect:
  assumes "sep41 (tokens_of W) bal" and "call_ok v e" and "get_waterfall_config s = Some tiers"
    and "distribute_waterfall W e tk amount s = (Ok rs, s')"
  shows "rs = map2 tier_result (sort_key wt_priority tiers) (allocations amount (sort_key wt_priority tiers)) \<and>
    list_all (\<lambda>x. 0 \<le> x) (allocations amount (sort_key wt_priority tiers)) \<and>
    sum_list (allocations amount (sort_key wt_priority tiers)) \<le> amount \<and> amount \<le> get_treasury_balance tk s \<and>
    (\<forall>k. get_treasury_balance k s' = get_treasury_balance k s -
       (if k = tk then sum_list (allocations amount (sort_key wt_priority tiers)) else 0)) \<and>
    (\<forall>k a. bal (fk_tokens s') k a = bal (fk_tokens s) k a +
       (if k = tk then received a rs - (if a = v then sum_list (allocations amount (sort_key wt_priority tiers)) else 0) else 0))"
proof -
  have v: "current_contract_address e = v" using assms(2) by (simp add: call_ok_def)
  show ?thesis
  proof (cases rule: distribute_waterfall_Ok [OF assms(1,4) v])
    case (1 ts t l)
    with assms(3) have ts: "ts = tiers" by simp
    show ?thesis using 1(3-10) unfolding ts by (auto simp: get_treasury_balance_def)
  qed
qed

theorem waterfall_effect_witness:
  "\<exists>rs s'. distribute_waterfall sample_world (sample_now 10) (Addr 9) 1200 sample_treasury = (Ok rs, s') \<and>
     allocations 1200 (sort_key wt_priority sample_tiers) = [700, 400, 0] \<and>
     get_treasury_balance (Addr 9) s' = 598900"
proof -
  have al: "allocations 1200 (sort_key wt_priority sample_tiers) = [700, 400, 0]"
    by (simp add: sample_tiers_def tier_due_def)
  have "is_ok (fst (distribute_waterfall sample_world (sample_now 10) (Addr 9) 1200 sample_treasury))"
    by (simp add: distribute_waterfall_def waterfall_order_sorted treasury_defs)
  then obtain rs s' where run: "distribute_waterfall sample_world (sample_now 10) (Addr 9) 1200 sample_treasury = (Ok rs, s')"
    by (cases "distribute_waterfall sample_world (sample_now 10) (Addr 9) 1200 sample_treasury") auto
  have "get_treasury_balance (Addr 9) sample_treasury = 600000" "get_waterfall_config sample_treasury = Some sample_tiers"
    by (simp_all add: treasury_defs)
  with waterfall_effect [OF sample_world_sep41 sample_now_ok _ run] run al show ?thesis by auto
qed

end
