(* ===== verification/Collector_Reports.thy ===== *)
theory Collector_Reports
  imports Collector_Admin Exchange_Sort
begin

text \<open>
  Reports on provider earnings (\<^verbatim>\<open>fee_collector/src/reports.rs\<close>). The loop over the days of a period would not end if
  the last day were the largest 64-bit number, since the day saturates; it is a \<open>partial_function\<close> with
  \<open>None\<close> for a loop that does not end, and is shown to end for every period that the contract asks for.
  The leaderboard sorts with the exchange sort of theory \<open>Exchange_Sort\<close>.
\<close>

section \<open>Reports\<close>

datatype report_period = Daily | Weekly | Monthly | AllTime

record earnings_report =
  fee_shares_earned :: int
  stake_rewards_earned :: int
  subscription_fees_earned :: int
  total_earned :: int
  period_start :: nat
  period_end :: nat

partial_function (option) sum_fee_shares_days ::
  "address \<Rightarrow> nat \<Rightarrow> nat \<Rightarrow> int \<Rightarrow> 't collector \<Rightarrow> int option" where
  "sum_fee_shares_days provider day end_day tot s =
     (if day \<le> end_day
      then sum_fee_shares_days provider (sat_add_u64 day 1) end_day
             (saturating_add tot (get_provider_daily_fee_shares provider day s)) s
      else Some tot)"

text \<open>The first day of a period; \<open>None\<close> is the trap of the overflowing product.\<close>

definition period_first_day :: "env \<Rightarrow> address \<Rightarrow> report_period \<Rightarrow> 't collector \<Rightarrow> nat" where
  "period_first_day e provider period s =
     (let today = ledger_timestamp e div SECONDS_PER_DAY_FC
      in case period of
           Daily \<Rightarrow> today - 1
         | Weekly \<Rightarrow> today - 7
         | Monthly \<Rightarrow> today - 30
         | AllTime \<Rightarrow> get_or today (get_provider_earnings_first_day provider s))"

text \<open>The outer option is the termination of the loop.\<close>

definition earnings_report_for ::
  "env \<Rightarrow> address \<Rightarrow> report_period \<Rightarrow> 't collector \<Rightarrow> (fee_error, earnings_report) outcome option" where
  "earnings_report_for e provider period s =
     (let today = ledger_timestamp e div SECONDS_PER_DAY_FC;
          start_day = period_first_day e provider period s;
          start_ts = start_day * SECONDS_PER_DAY_FC
      in if start_ts > u64_max then Some Panic
         else case sum_fee_shares_days provider start_day today 0 s of
                None \<Rightarrow> None
              | Some fee_shares \<Rightarrow>
                  Some (Ok \<lparr>fee_shares_earned = fee_shares, stake_rewards_earned = 0, subscription_fees_earned = 0,
                            total_earned = fee_shares, period_start = start_ts, period_end = ledger_timestamp e\<rparr>))"

definition get_provider_earnings_report ::
  "env \<Rightarrow> address \<Rightarrow> report_period \<Rightarrow> 't collector \<Rightarrow> (fee_error, earnings_report) outcome option" where
  "get_provider_earnings_report e provider period s =
     (if \<not> is_initialized s then Some (Err NotInitialized) else earnings_report_for e provider period s)"

section \<open>The leaderboard\<close>

record leaderboard_entry =
  le_rank :: nat
  le_provider :: address
  le_total_earned :: int
  le_first_earned_day :: nat

definition earning_entries :: "'t collector \<Rightarrow> leaderboard_entry list" where
  "earning_entries s =
     concat (map (\<lambda>p. let amount = get_provider_total_earnings p s
                       in if amount \<le> 0 then []
                          else [\<lparr>le_rank = 0, le_provider = p, le_total_earned = amount,
                                 le_first_earned_day = get_or 0 (get_provider_earnings_first_day p s)\<rparr>])
       (get_provider_earnings_index s))"

text \<open>The entries are exchanged when the later one has earned more.\<close>

definition get_provider_earnings_leaderboard :: "nat \<Rightarrow> 't collector \<Rightarrow> leaderboard_entry list" where
  "get_provider_earnings_leaderboard limit s =
     (let limit' = (if limit = 0 then 10 else min limit 50);
          entries = earning_entries s;
          sorted_entries = exchange_rounds (\<lambda>x. - le_total_earned x) (length entries) entries;
          k = min limit' (length sorted_entries)
      in map (\<lambda>i. (sorted_entries ! i)\<lparr>le_rank := i + 1\<rparr>) [0..<k])"

section \<open>The loop ends\<close>

lemma sum_fee_shares_days_Some:
  assumes "end_day < u64_max"
  shows "sum_fee_shares_days p day end_day tot s =
    Some (fold (\<lambda>d acc. saturating_add acc (get_provider_daily_fee_shares p d s)) [day..<Suc end_day] tot)"
proof (induction "Suc end_day - day" arbitrary: day tot)
  case 0
  then show ?case by (subst sum_fee_shares_days.simps) simp
next
  case (Suc n)
  then have d: "day \<le> end_day" "sat_add_u64 day 1 = Suc day"
    using assms by (auto simp: sat_add_u64_def)
  have "n = Suc end_day - Suc day" using Suc.hyps(2) by simp
  moreover have "[day..<Suc end_day] = day # [Suc day..<Suc end_day]" using d(1) by (simp add: upt_conv_Cons del: upt_Suc)
  ultimately show ?case
    using Suc.hyps(1) [of "Suc day"] d by (subst sum_fee_shares_days.simps) (simp del: upt_Suc)
qed

lemma saturating_fold_exact:
  assumes "\<And>d. d \<in> set ds \<Longrightarrow> 0 \<le> f d" "0 \<le> tot" "tot + (\<Sum>d\<leftarrow>ds. f d) \<le> i128_max"
  shows "fold (\<lambda>d acc. saturating_add acc (f d)) ds tot = tot + (\<Sum>d\<leftarrow>ds. f d)"
  using assms
proof (induction ds arbitrary: tot)
  case (Cons d ds)
  have "0 \<le> (\<Sum>d\<leftarrow>ds. f d)" by (rule sum_list_nonneg_int) (use Cons.prems(1) in auto)
  then have "saturating_add tot (f d) = tot + f d"
    using Cons.prems by (simp add: saturating_add_nonneg)
  then show ?case using Cons.IH [of "tot + f d"] Cons.prems by simp
qed simp

section \<open>The records behind a report\<close>

text \<open>
  The earnings part of the state, and the runs in which it grows: shares are recorded with ledger times that
  do not go back, and other calls leave the part alone.
\<close>

definition earnings_part :: "'t collector \<Rightarrow>
    (address \<Rightarrow> nat \<Rightarrow> int option) \<times> (address \<Rightarrow> nat option) \<times> (address \<Rightarrow> int option)" where
  "earnings_part s = (fk_provider_daily_fee_shares (stats s), fk_provider_earnings_first_day (stats s),
     fk_provider_total_earnings (stats s))"

inductive earnings_run :: "nat \<Rightarrow> 't collector \<Rightarrow> bool" where
  start: "earnings_run t s" if "earnings_part s = (\<lambda>_ _. None, \<lambda>_. None, \<lambda>_. None)"
| recorded: "earnings_run (ledger_timestamp e) s'"
    if "earnings_run t s" "t \<le> ledger_timestamp e" "record_provider_fee_share e caller provider amount s = (Ok u, s')"
| recorded_gross: "earnings_run (ledger_timestamp e) s'"
    if "earnings_run t s" "t \<le> ledger_timestamp e"
       "record_provider_gross_fee_share e caller provider amount s = (Ok r, s')"
| other: "earnings_run t' s'" if "earnings_run t s" "t \<le> t'" "earnings_part s' = earnings_part s"

text \<open>The total of a provider is the sum of its days, unless it has reached the limit of its type.\<close>

definition earnings_wf :: "nat \<Rightarrow> 't collector \<Rightarrow> bool" where
  "earnings_wf today s \<longleftrightarrow> (\<forall>p.
     (\<forall>d. 0 \<le> get_provider_daily_fee_shares p d s) \<and> 0 \<le> get_provider_total_earnings p s \<and>
     (case get_provider_earnings_first_day p s of
        None \<Rightarrow> get_provider_total_earnings p s = 0 \<and> (\<forall>d. get_provider_daily_fee_shares p d s = 0)
      | Some first \<Rightarrow> first \<le> today \<and>
          (\<forall>d. d < first \<or> today < d \<longrightarrow> get_provider_daily_fee_shares p d s = 0) \<and>
          (get_provider_total_earnings p s < i128_max \<longrightarrow>
             get_provider_total_earnings p s = (\<Sum>d\<in>{first..today}. get_provider_daily_fee_shares p d s))))"

lemma add_shares_simps:
  "get_provider_daily_fee_shares q d (add_provider_daily_fee_shares p day a s) =
     (if q = p \<and> d = day then saturating_add (get_provider_daily_fee_shares p day s) a
      else get_provider_daily_fee_shares q d s)"
  "get_provider_total_earnings q (add_provider_daily_fee_shares p day a s) =
     (if q = p then saturating_add (get_provider_total_earnings p s) a else get_provider_total_earnings q s)"
  "get_provider_earnings_first_day q (add_provider_daily_fee_shares p day a s) =
     (if q = p \<and> get_provider_earnings_first_day p s = None then Some day else get_provider_earnings_first_day q s)"
  by (auto simp: add_provider_daily_fee_shares_def add_provider_total_earnings_def add_provider_to_earnings_index_def
      get_provider_daily_fee_shares_def get_provider_total_earnings_def get_provider_earnings_first_day_def Let_def)

text \<open>Days on which nothing was recorded do not count.\<close>

lemma sum_extend:
  fixes f :: "nat \<Rightarrow> int"
  assumes "today \<le> day" "\<And>d. today < d \<Longrightarrow> f d = 0"
  shows "(\<Sum>d\<in>{first..day}. f d) = (\<Sum>d\<in>{first..today}. f d)"
  by (rule sum.mono_neutral_right) (use assms in auto)

lemma earnings_wf_later:
  assumes "earnings_wf today s" "today \<le> day"
  shows "earnings_wf day s"
  using assms unfolding earnings_wf_def by (fastforce simp: sum_extend split: option.splits)

lemma earnings_wf_add:
  assumes "earnings_wf day s" "0 < a"
  shows "earnings_wf day (add_provider_daily_fee_shares p day a s)"
  unfolding earnings_wf_def
proof
  fix q
  let ?s = "add_provider_daily_fee_shares p day a s"
  let ?P = "\<lambda>s q. (\<forall>d. 0 \<le> get_provider_daily_fee_shares q d s) \<and> 0 \<le> get_provider_total_earnings q s \<and>
     (case get_provider_earnings_first_day q s of
        None \<Rightarrow> get_provider_total_earnings q s = 0 \<and> (\<forall>d. get_provider_daily_fee_shares q d s = 0)
      | Some first \<Rightarrow> first \<le> day \<and>
          (\<forall>d. d < first \<or> day < d \<longrightarrow> get_provider_daily_fee_shares q d s = 0) \<and>
          (get_provider_total_earnings q s < i128_max \<longrightarrow>
             get_provider_total_earnings q s = (\<Sum>d\<in>{first..day}. get_provider_daily_fee_shares q d s)))"
  have old: "?P s q" for q using assms(1) unfolding earnings_wf_def by blast
  show "?P ?s q"
  proof (cases "q = p")
    case False
    with old [of q] show ?thesis by (simp add: add_shares_simps cong: option.case_cong)
  next
    case True
    let ?f = "\<lambda>d. get_provider_daily_fee_shares p d s" and ?f' = "\<lambda>d. get_provider_daily_fee_shares p d ?s"
    let ?t = "get_provider_total_earnings p s"
    have nn: "0 \<le> ?f d" "0 \<le> ?t" for d using old [of p] by auto
    have t': "get_provider_total_earnings p ?s = min i128_max (?t + a)"
      using nn(2) assms(2) by (simp add: add_shares_simps saturating_add_nonneg)
    have f': "?f' d = (if d = day then min i128_max (?f day + a) else ?f d)" for d
      using nn(1) [of day] assms(2) by (simp add: add_shares_simps saturating_add_nonneg)
    show ?thesis
    proof (cases "get_provider_earnings_first_day p s")
      case None
      with old [of p] have z: "?t = 0" "\<And>d. ?f d = 0" by auto
      moreover have "0 \<le> i128_max" by (simp add: i128_max_def)
      ultimately show ?thesis using None True t' f' assms(2) by (auto simp: add_shares_simps(3))
    next
      case (Some first)
      with old [of p] have o: "first \<le> day" "\<And>d. d < first \<or> day < d \<Longrightarrow> ?f d = 0"
        "?t < i128_max \<Longrightarrow> ?t = (\<Sum>d\<in>{first..day}. ?f d)" by auto
      have "min i128_max (?t + a) = (\<Sum>d\<in>{first..day}. ?f' d)" if "min i128_max (?t + a) < i128_max"
      proof -
        have lt: "?t + a < i128_max" "?t < i128_max" using that assms(2) by auto
        have split: "(\<Sum>d\<in>{first..day}. g d) = g day + (\<Sum>d\<in>{first..day} - {day}. g d)" for g :: "nat \<Rightarrow> int"
          using o(1) by (intro sum.remove) auto
        have "0 \<le> (\<Sum>d\<in>{first..day} - {day}. ?f d)" by (rule sum_nonneg) (rule nn)
        then have "?f day + a < i128_max" using o(3) [OF lt(2)] split [of ?f] lt(1) by linarith
        then have "(\<Sum>d\<in>{first..day}. ?f' d) = (?f day + a) + (\<Sum>d\<in>{first..day} - {day}. ?f d)"
          by (subst split) (simp add: f')
        then show ?thesis using o(3) [OF lt(2)] split [of ?f] lt(1) by simp
      qed
      moreover have "0 \<le> ?f' d" for d using nn(1) [of day] nn(1) [of d] assms(2) by (simp add: f' i128_max_def)
      moreover have "?f' d = 0" if "d < first \<or> day < d" for d using that o(1,2) by (auto simp: f')
      moreover have "0 \<le> min i128_max (?t + a)" using nn(2) assms(2) by (simp add: i128_max_def)
      ultimately show ?thesis using Some True o(1) by (simp add: t' add_shares_simps(3))
    qed
  qed
qed

lemma earnings_part_getters:
  "earnings_part s' = earnings_part s \<Longrightarrow> earnings_wf today s' = earnings_wf today s"
  by (simp add: earnings_part_def earnings_wf_def get_provider_daily_fee_shares_def get_provider_total_earnings_def
      get_provider_earnings_first_day_def cong: option.case_cong)

lemma earnings_run_wf: "earnings_run t s \<Longrightarrow> earnings_wf (t div SECONDS_PER_DAY_FC) s"
proof (induction rule: earnings_run.induct)
  case (start s t)
  then show ?case
    by (simp add: earnings_part_def earnings_wf_def get_provider_daily_fee_shares_def get_provider_total_earnings_def
        get_provider_earnings_first_day_def)
next
  case (recorded t s e caller provider amount u s')
  then have "earnings_wf (ledger_timestamp e div SECONDS_PER_DAY_FC) s"
    by (intro earnings_wf_later [OF recorded.IH]) (simp add: div_le_mono)
  moreover have "0 < amount" "s' = add_provider_daily_fee_shares provider (ledger_timestamp e div SECONDS_PER_DAY_FC) amount s"
    using recorded(3) by (auto simp: record_provider_fee_share_def split: if_splits)
  ultimately show ?case using earnings_wf_add by blast
next
  case (recorded_gross t s e caller provider amount r s')
  then have wf: "earnings_wf (ledger_timestamp e div SECONDS_PER_DAY_FC) s"
    by (intro earnings_wf_later [OF recorded_gross.IH]) (simp add: div_le_mono)
  obtain a b where r: "r = (a, b)" by fastforce
  have s': "s' = emit_fee_split_applied provider amount a b
      (if b > 0 then add_provider_daily_fee_shares provider (ledger_timestamp e div SECONDS_PER_DAY_FC) b s else s)"
    using recorded_gross(3) unfolding r by (auto simp: record_provider_gross_fee_share_def Let_def split: if_splits sum.splits prod.splits)
  have "earnings_wf (ledger_timestamp e div SECONDS_PER_DAY_FC)
      (if b > 0 then add_provider_daily_fee_shares provider (ledger_timestamp e div SECONDS_PER_DAY_FC) b s else s)"
    using wf earnings_wf_add [OF wf] by auto
  moreover have "earnings_part s' = earnings_part
      (if b > 0 then add_provider_daily_fee_shares provider (ledger_timestamp e div SECONDS_PER_DAY_FC) b s else s)"
    by (simp add: s' earnings_part_def emits_log_only)
  ultimately show ?case using earnings_part_getters by blast
next
  case (other t s t' s')
  then show ?case using earnings_part_getters [OF other(3)] earnings_wf_later [OF other.IH] by (simp add: div_le_mono)
qed

lemma in_set_dropE:
  assumes "b \<in> set (drop k xs)"
  obtains j where "k \<le> j" "j < length xs" "b = xs ! j"
proof -
  from assms obtain i where i: "i < length xs - k" "b = drop k xs ! i" by (auto simp: in_set_conv_nth)
  then show thesis by (intro that [of "k + i"]) simp_all
qed

section \<open>Properties\<close>

text \<open>
  Reports are complete. However the shares of a provider were recorded, with ledger times that do not go
  back, the report over all time is produced, its loop ends, and it states exactly the total recorded for
  the provider (as long as that total is below the limit of its type), from the first day with earnings.
\<close>

theorem all_time_report_exact:
  assumes "earnings_run t s" and "t \<le> ledger_timestamp e" and "ledger_timestamp e \<le> u64_max"
    and "is_initialized s" and "get_provider_total_earnings p s < i128_max"
  shows "\<exists>r. get_provider_earnings_report e p AllTime s = Some (Ok r) \<and>
    total_earned r = get_provider_total_earnings p s \<and> fee_shares_earned r = get_provider_total_earnings p s \<and>
    (\<forall>d. get_provider_earnings_first_day p s = Some d \<longrightarrow> period_start r = d * 86400)"
proof -
  let ?today = "ledger_timestamp e div SECONDS_PER_DAY_FC" and ?f = "\<lambda>d. get_provider_daily_fee_shares p d s"
  let ?first = "get_or ?today (get_provider_earnings_first_day p s)"
  have wf: "earnings_wf ?today s"
    using earnings_wf_later [OF earnings_run_wf [OF assms(1)]] assms(2) by (simp add: div_le_mono)
  then have nn: "0 \<le> ?f d" for d unfolding earnings_wf_def by blast
  have sum: "get_provider_total_earnings p s = (\<Sum>d\<in>{?first..?today}. ?f d) \<and> ?first \<le> ?today"
    using wf assms(5) unfolding earnings_wf_def
    by (cases "get_provider_earnings_first_day p s") (auto dest: spec [of _ p])
  then have list: "get_provider_total_earnings p s = (\<Sum>d\<leftarrow>[?first..<Suc ?today]. ?f d)"
    by (simp add: sum_list_distinct_conv_sum_set atLeastLessThanSuc_atLeastAtMost del: upt_Suc)
  have today: "?today < u64_max" "?first * SECONDS_PER_DAY_FC \<le> u64_max"
  proof -
    show "?today < u64_max" using assms(3) by (simp add: SECONDS_PER_DAY_FC_def u64_max_def)
    have "?first * SECONDS_PER_DAY_FC \<le> ?today * SECONDS_PER_DAY_FC" using sum by (intro mult_le_mono1) simp
    also have "\<dots> \<le> ledger_timestamp e" by simp
    finally show "?first * SECONDS_PER_DAY_FC \<le> u64_max" using assms(3) by simp
  qed
  have "sum_fee_shares_days p ?first ?today 0 s = Some (get_provider_total_earnings p s)"
    using sum_fee_shares_days_Some [OF today(1), of p ?first 0 s] saturating_fold_exact [of "[?first..<Suc ?today]" ?f 0] nn list assms(5)
    by (simp del: upt_Suc)
  then show ?thesis
    using assms(4) today(2)
    by (auto simp: get_provider_earnings_report_def earnings_report_for_def period_first_day_def Let_def SECONDS_PER_DAY_FC_def)
qed

text \<open>For the witnesses: account 5 earns 40 and 60 on two days, accounts 4 and 6 earn 100 and 250.\<close>

definition sample_earned :: "balance_ledger collector" where
  "sample_earned = add_provider_daily_fee_shares (Addr 5) 2 60 (add_provider_daily_fee_shares (Addr 5) 0 40 sample_collector)"

definition sample_ranked :: "balance_ledger collector" where
  "sample_ranked = add_provider_daily_fee_shares (Addr 6) 3 250 (add_provider_daily_fee_shares (Addr 4) 3 100 sample_earned)"

lemmas earned_defs =
  sample_earned_def sample_ranked_def add_provider_daily_fee_shares_def add_provider_total_earnings_def
  add_provider_to_earnings_index_def store_defs sample_fee_defs int_defs Let_def

lemma sample_earned_run: "earnings_run 180000 sample_earned"
proof -
  have "earnings_run 0 sample_collector"
    by (rule earnings_run.start) (simp add: earnings_part_def sample_fee_defs)
  then have "earnings_run (ledger_timestamp (sample_now 100)) (add_provider_daily_fee_shares (Addr 5) 0 40 sample_collector)"
    by (rule earnings_run.recorded [where caller = "Addr 1" and provider = "Addr 5" and amount = 40 and u = "()"])
       (simp_all add: record_provider_fee_share_def is_initialized_def store_defs sample_fee_defs SECONDS_PER_DAY_FC_def)
  then have "earnings_run (ledger_timestamp (sample_now 180000)) sample_earned"
    unfolding sample_earned_def
    by (rule earnings_run.recorded [where caller = "Addr 1" and provider = "Addr 5" and amount = 60 and u = "()"])
       (simp_all add: record_provider_fee_share_def is_initialized_def earned_defs SECONDS_PER_DAY_FC_def)
  then show ?thesis by (simp add: sample_now_def)
qed

theorem all_time_report_exact_witness:
  "\<exists>r. get_provider_earnings_report (sample_now 200000) (Addr 5) AllTime sample_earned = Some (Ok r) \<and> total_earned r = 100"
proof -
  have "get_provider_total_earnings (Addr 5) sample_earned = 100" "is_initialized sample_earned"
    by (simp_all add: earned_defs is_initialized_def)
  then show ?thesis
    using all_time_report_exact [OF sample_earned_run, of "sample_now 200000" "Addr 5"]
    by (auto simp: sample_now_def u64_max_def i128_max_def)
qed

text \<open>
  The leaderboard is the sorted list of earners. With the limit of the call (ten by default, at most
  fifty) it lists the providers with positive earnings by descending total, equals in the order in which
  they first earned, with the ranks 1, 2, and so on; nobody left out has earned more than somebody listed.
\<close>

theorem leaderboard_is_sorted:
  "\<exists>k. k = min (if limit = 0 then 10 else min limit 50) (length (earning_entries s)) \<and>
    map le_provider (get_provider_earnings_leaderboard limit s) =
      map le_provider (take k (sort_key (\<lambda>x. - le_total_earned x) (earning_entries s))) \<and>
    map le_rank (get_provider_earnings_leaderboard limit s) = [1..<Suc k] \<and>
    sorted_wrt (\<lambda>a b. le_total_earned b \<le> le_total_earned a) (get_provider_earnings_leaderboard limit s) \<and>
    (\<forall>a\<in>set (get_provider_earnings_leaderboard limit s).
       \<forall>b\<in>set (drop k (sort_key (\<lambda>x. - le_total_earned x) (earning_entries s))). le_total_earned b \<le> le_total_earned a)"
proof -
  let ?es = "sort_key (\<lambda>x. - le_total_earned x) (earning_entries s)"
  let ?k = "min (if limit = 0 then 10 else min limit 50) (length (earning_entries s))"
  let ?r = "\<lambda>i. (?es ! i)\<lparr>le_rank := i + 1\<rparr>"
  have lb: "get_provider_earnings_leaderboard limit s = map ?r [0..<?k]"
    by (simp add: get_provider_earnings_leaderboard_def Let_def exchange_rounds_sort_key)
  have len: "length ?es = length (earning_entries s)" by simp
  have desc: "i \<le> j \<Longrightarrow> j < length ?es \<Longrightarrow> le_total_earned (?es ! j) \<le> le_total_earned (?es ! i)" for i j
    using sorted_nth_mono [OF sorted_sort_key [of "\<lambda>x. - le_total_earned x" "earning_entries s"], of i j] by simp
  have names: "map le_provider (map ?r [0..<?k]) = map le_provider (take ?k ?es)"
    by (rule nth_equalityI) (auto simp: len)
  have ranks: "map le_rank (map ?r [0..<?k]) = [1..<Suc ?k]"
    by (rule nth_equalityI) (auto simp del: upt_Suc)
  have sorted: "sorted_wrt (\<lambda>a b. le_total_earned b \<le> le_total_earned a) (map ?r [0..<?k])"
    unfolding sorted_wrt_iff_nth_less using desc by (auto simp: len)
  have rest: "le_total_earned b \<le> le_total_earned a" if "a \<in> set (map ?r [0..<?k])" "b \<in> set (drop ?k ?es)" for a b
  proof -
    from that(1) obtain i where i: "i < ?k" "a = ?r i" by auto
    from that(2) obtain j where j: "?k \<le> j" "j < length ?es" "b = ?es ! j" by (rule in_set_dropE)
    show ?thesis using desc [of i j] i j by simp
  qed
  show ?thesis unfolding lb by (intro exI [of _ ?k] conjI refl names ranks sorted ballI rest)
qed

theorem leaderboard_is_sorted_witness:
  "map le_provider (get_provider_earnings_leaderboard 2 sample_ranked) = [Addr 6, Addr 5]"
proof -
  have "earning_entries sample_ranked =
    [\<lparr>le_rank = 0, le_provider = Addr 5, le_total_earned = 100, le_first_earned_day = 0\<rparr>,
     \<lparr>le_rank = 0, le_provider = Addr 4, le_total_earned = 100, le_first_earned_day = 3\<rparr>,
     \<lparr>le_rank = 0, le_provider = Addr 6, le_total_earned = 250, le_first_earned_day = 3\<rparr>]"
    by (simp add: earning_entries_def earned_defs)
  then show ?thesis using leaderboard_is_sorted [of 2 sample_ranked] by simp
qed

end
