(* ===== verification/Collector_Solvency.thy ===== *)
theory Collector_Solvency
  imports Collector_Fees Collector_Treasury Collector_Reports
begin

text \<open>
  The fee collector as a whole: every state-changing entry point of \<^verbatim>\<open>fee_collector/src/lib.rs\<close> as a call, the
  runs of calls in any order from a deployed contract, and what holds in all of them: the recorded funds
  are covered by the tokens, the settings stay within their bounds, an insurance claim is paid at most
  once, and nothing is ever pending for a provider to claim.
\<close>

section \<open>Calls\<close>

text \<open>Entry points without result that leave the books alone.\<close>

datatype fee_config_call =
    Fc_Upgrade nat | Fc_Pause | Fc_Unpause | Authorize_Caller address | Revoke_Caller address
  | Set_Oracle_Contract address | Set_Insurance_Payout_Cap address address int | Set_Fee_Rate nat | Set_Burn_Rate nat
  | Set_Congestion_Config congestion_config | Set_Congestion_Signal address nat
  | Set_Fee_Optimization_Config address fee_optimization_config | Update_Network_Conditions address nat string
  | Queue_Failed_Fee_Collection address failed_fee_collection | Record_Provider_Fee_Share address address int
  | Set_Fee_Split_Policy nat nat | Set_Protocol_Token "address option" | Register_Token address address string string nat
  | Set_Revenue_Share_Rate_Bps nat | Set_Waterfall_Config "waterfall_tier list" | Set_Payout_Currency address address
  | Clear_Payout_Currency address | Set_Volume_Discount_Config address "volume_tier list"
  | Set_Forecast_Config address forecast_config_data | Register_Referral address address
  | Admin_Override_Referral address address address | Set_Referral_Fee_Share address nat | Set_Max_Rebate_Bps nat
  | Queue_Withdrawal address address int

fun run_fee_config :: "address \<Rightarrow> env \<Rightarrow> fee_config_call \<Rightarrow> 't collector \<Rightarrow> ('t, unit) collector_result" where
  "run_fee_config z e (Fc_Upgrade n) = fc_upgrade e n"
| "run_fee_config z e Fc_Pause = fc_pause e"
| "run_fee_config z e Fc_Unpause = fc_unpause e"
| "run_fee_config z e (Authorize_Caller a) = authorize_caller e a"
| "run_fee_config z e (Revoke_Caller a) = revoke_caller e a"
| "run_fee_config z e (Set_Oracle_Contract a) = set_oracle_contract e a"
| "run_fee_config z e (Set_Insurance_Payout_Cap c tk x) = set_insurance_payout_cap e c tk x"
| "run_fee_config z e (Set_Fee_Rate r) = set_fee_rate e r"
| "run_fee_config z e (Set_Burn_Rate r) = set_burn_rate e r"
| "run_fee_config z e (Set_Congestion_Config c) = set_congestion_config e c"
| "run_fee_config z e (Set_Congestion_Signal c x) = set_congestion_signal e c x"
| "run_fee_config z e (Set_Fee_Optimization_Config a c) = set_fee_optimization_config e a c"
| "run_fee_config z e (Update_Network_Conditions a x n) = update_network_conditions e a x n"
| "run_fee_config z e (Queue_Failed_Fee_Collection a f) = queue_failed_fee_collection e a f"
| "run_fee_config z e (Record_Provider_Fee_Share c p x) = record_provider_fee_share e c p x"
| "run_fee_config z e (Set_Fee_Split_Policy a b) = set_fee_split_policy e a b"
| "run_fee_config z e (Set_Protocol_Token tk) = set_protocol_token z e tk"
| "run_fee_config z e (Register_Token a tk sy nm d) = register_token e a tk sy nm d"
| "run_fee_config z e (Set_Revenue_Share_Rate_Bps r) = set_revenue_share_rate_bps e r"
| "run_fee_config z e (Set_Waterfall_Config ts) = set_waterfall_config e ts"
| "run_fee_config z e (Set_Payout_Currency p tk) = set_payout_currency e p tk"
| "run_fee_config z e (Clear_Payout_Currency p) = clear_payout_currency e p"
| "run_fee_config z e (Set_Volume_Discount_Config a ts) = set_volume_discount_config e a ts"
| "run_fee_config z e (Set_Forecast_Config a c) = set_forecast_config e a c"
| "run_fee_config z e (Register_Referral a b) = register_referral e a b"
| "run_fee_config z e (Admin_Override_Referral a b c) = admin_override_referral e a b c"
| "run_fee_config z e (Set_Referral_Fee_Share a x) = set_referral_fee_share e a x"
| "run_fee_config z e (Set_Max_Rebate_Bps x) = set_max_rebate_bps e x"
| "run_fee_config z e (Queue_Withdrawal r tk x) = queue_withdrawal e r tk x"

lemmas fee_config_defs =
  fc_upgrade_def fc_pause_def fc_unpause_def authorize_caller_def revoke_caller_def set_oracle_contract_def
  set_insurance_payout_cap_def set_fee_rate_def set_burn_rate_def set_congestion_config_def set_congestion_signal_def
  set_fee_optimization_config_def update_network_conditions_def queue_failed_fee_collection_def
  record_provider_fee_share_def set_fee_split_policy_def set_protocol_token_def register_token_def
  set_revenue_share_rate_bps_def set_waterfall_config_def set_payout_currency_def clear_payout_currency_def
  set_volume_discount_config_def set_forecast_config_def register_referral_def admin_override_referral_def
  set_referral_fee_share_def set_max_rebate_bps_def queue_withdrawal_def

lemma publish_claims [simp]: "fk_processed_insurance_claim (publish s ts v) = fk_processed_insurance_claim s"
  by (simp add: publish_def)

text \<open>The updates of the shared storage and of the earnings change neither frame.\<close>

lemma shared_parts [simp]:
  "books (set_contract_version s n) = books s" "books (set_paused s b) = books s" "books (mark_initialized s) = books s"
  "books (emit_contract_upgraded s a c) = books s"
  "rules (set_contract_version s n) = rules s" "rules (set_paused s b) = rules s" "rules (mark_initialized s) = rules s"
  "rules (emit_contract_upgraded s a c) = rules s"
  by (simp_all add: set_contract_version_def set_paused_def mark_initialized_def emit_contract_upgraded_def)

lemma add_shares_parts [simp]:
  "books (add_provider_daily_fee_shares p d x s) = books s" "rules (add_provider_daily_fee_shares p d x s) = rules s"
  by (simp_all add: add_provider_daily_fee_shares_def add_provider_total_earnings_def add_provider_to_earnings_index_def Let_def)

lemma fee_config_books:
  "run_fee_config z e c s = (Ok u, s') \<Longrightarrow> books s' = books s"
  by (cases c) (auto simp: fee_config_defs store_defs emits_log_only Let_def validate_policy_def
      split: if_splits option.splits sum.splits)

lemma fee_config_claims:
  "run_fee_config z e c s = (Ok u, s') \<Longrightarrow> fk_processed_insurance_claim s' = fk_processed_insurance_claim s"
  by (cases c) (auto simp: fee_config_defs store_defs emits_log_only Let_def add_provider_daily_fee_shares_def
      add_provider_total_earnings_def add_provider_to_earnings_index_def set_paused_def set_contract_version_def
      emit_contract_upgraded_def validate_policy_def split: if_splits option.splits sum.splits)

text \<open>The validity of the settings: what it does not depend on, and what each setter has to check.\<close>

lemma settings_ok_same [simp]:
  "settings_ok (set_contract_version s n) = settings_ok s" "settings_ok (set_paused s b) = settings_ok s"
  "settings_ok (mark_initialized s) = settings_ok s" "settings_ok (emit_contract_upgraded s a c) = settings_ok s"
  "settings_ok (add_provider_daily_fee_shares p d x s) = settings_ok s" "settings_ok (publish s ts v) = settings_ok s"
  "settings_ok (set_queued_withdrawal q s) = settings_ok s" "settings_ok (s\<lparr>stats := st\<rparr>) = settings_ok s"
  "settings_ok (set_failed_fee_collection ff s) = settings_ok s"
  by (rule rules_settings, simp add: set_queued_withdrawal_def set_failed_fee_collection_def)+

lemma settings_ok_conf [simp]:
  "settings_ok (set_authorized_caller a s) = settings_ok s" "settings_ok (remove_authorized_caller a s) = settings_ok s"
  "settings_ok (set_oracle_contract_storage a s) = settings_ok s" "settings_ok (fc_set_admin a s) = settings_ok s"
  "settings_ok (set_insurance_payout_cap_storage tk x s) = settings_ok s"
  "settings_ok (set_congestion_signal_storage sg s) = settings_ok s" "settings_ok (bump_config_version s) = settings_ok s"
  "settings_ok (set_protocol_token_storage a s) = settings_ok s"
  "settings_ok (set_registered_token_metadata tk m s) = settings_ok s"
  "settings_ok (set_waterfall_config_storage w s) = settings_ok s"
  "settings_ok (set_provider_payout_currency a tk s) = settings_ok s"
  "settings_ok (remove_provider_payout_currency a s) = settings_ok s" "settings_ok (set_referrer a b s) = settings_ok s"
  by (simp_all add: settings_ok_def store_defs)

lemma settings_ok_setters:
  assumes "settings_ok s"
  shows "MIN_FEE_RATE_BPS \<le> r \<Longrightarrow> r \<le> MAX_FEE_RATE_BPS \<Longrightarrow> settings_ok (set_fee_rate_storage r s)"
    and "r \<le> MAX_BURN_RATE_BPS \<Longrightarrow> settings_ok (set_burn_rate_storage r s)"
    and "congestion_ok cc \<Longrightarrow> settings_ok (set_congestion_config_storage cc s)"
    and "optimization_ok oc \<Longrightarrow> settings_ok (set_fee_optimization_config_storage oc s)"
    and "r \<le> 10000 \<Longrightarrow> settings_ok (set_network_condition_score r s)"
    and "validate_policy po = Inr () \<Longrightarrow> settings_ok (set_fee_split_policy_storage po s)"
    and "r \<le> 10000 \<Longrightarrow> settings_ok (set_revenue_share_rate_bps_storage r s)"
    and "discounts_ok ts \<Longrightarrow> settings_ok (set_volume_discount_config_storage ts s)"
    and "0 < epoch_cadence_days fo \<Longrightarrow> 0 < window_days fo \<Longrightarrow> settings_ok (set_forecast_config_storage fo s)"
    and "r \<le> 10000 \<Longrightarrow> settings_ok (set_referral_fee_share_bps r s)"
    and "r \<le> 10000 \<Longrightarrow> settings_ok (set_max_rebate_bps_storage r s)"
  using assms by (simp_all add: settings_ok_def store_defs)

lemma fee_config_settings:
  assumes "run_fee_config z e c s = (Ok u, s')" "settings_ok s" shows "settings_ok s'"
proof -
  note set = settings_ok_setters [OF assms(2)]
  show ?thesis
    using assms
    by (cases c) (auto simp: fee_config_defs collector_emits publish_tuple_def publish_fields_def Let_def
        optimization_ok_def congestion_ok_def discounts_ok_def list_ex_iff list_all_iff not_less validate_policy_def
        intro!: set
        split: if_splits option.splits sum.splits)
qed

section \<open>The invariant\<close>

text \<open>
  What the contract records of a token, and the invariant: valid settings, no negative record, every
  record covered by the contract's tokens, nothing pending, and the claims of a given set paid.
\<close>

definition recorded :: "address \<Rightarrow> 't collector \<Rightarrow> int" where
  "recorded tk s = get_treasury_balance tk s + get_insurance_balance tk s + fc_get_revenue_share_pool tk s"

definition covered :: "('t \<Rightarrow> address \<Rightarrow> address \<Rightarrow> int) \<Rightarrow> address \<Rightarrow> string set \<Rightarrow> 't collector \<Rightarrow> bool" where
  "covered bal v P s \<longleftrightarrow> settings_ok s \<and>
     (\<forall>tk. 0 \<le> get_treasury_balance tk s \<and> 0 \<le> get_insurance_balance tk s \<and> 0 \<le> fc_get_revenue_share_pool tk s \<and>
        recorded tk s \<le> bal (fk_tokens s) tk v) \<and>
     (\<forall>p tk. get_pending_fees p tk s = 0) \<and> (\<forall>cid\<in>P. is_insurance_claim_processed cid s)"

definition token_env :: "'t world \<Rightarrow> ('t \<Rightarrow> address \<Rightarrow> address \<Rightarrow> int) \<Rightarrow> address \<Rightarrow> env \<Rightarrow> bool" where
  "token_env W bal v e \<longleftrightarrow> sep41 (tokens_of W) bal \<and> call_ok v e"

lemma covered_D:
  assumes "covered bal v P s"
  shows "settings_ok s" "0 \<le> get_treasury_balance tk s" "0 \<le> get_insurance_balance tk s"
    "0 \<le> fc_get_revenue_share_pool tk s" "recorded tk s \<le> bal (fk_tokens s) tk v" "get_pending_fees p tk s = 0"
    "cid \<in> P \<Longrightarrow> is_insurance_claim_processed cid s"
  using assms by (simp_all add: covered_def)

lemma covered_books:
  assumes "covered bal v P s" "books s' = books s" "settings_ok s'"
    and "fk_processed_insurance_claim s' = fk_processed_insurance_claim s"
  shows "covered bal v P s'"
  using assms books_D [OF assms(2)]
  by (simp add: covered_def recorded_def get_treasury_balance_def get_insurance_balance_def fc_get_revenue_share_pool_def
      get_pending_fees_def is_insurance_claim_processed_def)

text \<open>A change of one token's records is matched by the contract's balance of that token.\<close>

lemma covered_change:
  assumes "covered bal v P s" "rules s' = rules s" "fk_provider_pending_fees s' = fk_provider_pending_fees s"
    and "0 \<le> get_treasury_balance tk s'" "0 \<le> get_insurance_balance tk s'" "0 \<le> fc_get_revenue_share_pool tk s'"
    and "recorded tk s' - recorded tk s \<le> bal (fk_tokens s') tk v - bal (fk_tokens s) tk v"
    and "\<And>k. k \<noteq> tk \<Longrightarrow> get_treasury_balance k s' = get_treasury_balance k s \<and>
      get_insurance_balance k s' = get_insurance_balance k s \<and> fc_get_revenue_share_pool k s' = fc_get_revenue_share_pool k s \<and>
      bal (fk_tokens s') k v = bal (fk_tokens s) k v"
  shows "covered bal v P s'"
proof -
  have "0 \<le> get_treasury_balance k s' \<and> 0 \<le> get_insurance_balance k s' \<and> 0 \<le> fc_get_revenue_share_pool k s' \<and>
      recorded k s' \<le> bal (fk_tokens s') k v" for k
  proof (cases "k = tk")
    case True
    then show ?thesis using assms(4-7) covered_D(5) [OF assms(1), of tk] by simp
  next
    case False
    then show ?thesis using assms(8) [OF False] covered_D(2-5) [OF assms(1), of k] by (simp add: recorded_def)
  qed
  moreover have "get_pending_fees p k s' = 0" for p k
    using covered_D(6) [OF assms(1), of p k] assms(3) by (simp add: get_pending_fees_def)
  ultimately show ?thesis
    using assms(1) rules_settings [OF assms(2)] rules_D [OF assms(2)] by (simp add: covered_def is_insurance_claim_processed_def)
qed

lemmas record_defs = recorded_def get_treasury_balance_def get_insurance_balance_def fc_get_revenue_share_pool_def

section \<open>Every entry point keeps the invariant\<close>

interpretation fcfg: keeps_invariant "covered bal v P" "run_fee_config z e c" "\<lambda>_. True" for bal v P z e c
  by unfold_locales (meson covered_books covered_D(1) fee_config_books fee_config_settings fee_config_claims)

interpretation wtf: keeps_invariant "covered bal v P" "withdraw_treasury_fees W e r tk x" "\<lambda>_. token_env W bal v e"
  for W bal v P e r tk x
proof
  fix s u s' assume c: "covered bal v P s" and env: "token_env W bal v e"
    and run: "withdraw_treasury_fees W e r tk x s = (Ok u, s')"
  then have env': "sep41 (tokens_of W) bal" "current_contract_address e = v" by (simp_all add: token_env_def call_ok_def)
  show "covered bal v P s'"
  proof (cases rule: withdraw_treasury_Ok [OF env'(1) run])
    case (1 q t l)
    show ?thesis
      by (rule covered_change [OF c, of _ tk])
         (use 1(6,7,9) covered_D(2-5) [OF c, of tk] env'(2) in \<open>simp_all add: 1(10) record_defs token_moved_def\<close>)
  qed
qed

interpretation dif: keeps_invariant "covered bal v P" "deposit_insurance_fund W e a tk x" "\<lambda>_. token_env W bal v e"
  for W bal v P e a tk x
proof
  fix s u s' assume c: "covered bal v P s" and env: "token_env W bal v e"
    and run: "deposit_insurance_fund W e a tk x s = (Ok u, s')"
  then have env': "sep41 (tokens_of W) bal" "current_contract_address e = v" by (simp_all add: token_env_def call_ok_def)
  show "covered bal v P s'"
  proof (cases rule: deposit_insurance_Ok [OF env'(1) run])
    case (1 t)
    have "a \<noteq> v" using 1(2) env by (auto simp: token_env_def call_ok_def)
    then show ?thesis
      by (intro covered_change [OF c, of _ tk])
         (use 1(1,4) covered_D(2-5) [OF c, of tk] env'(2) in \<open>simp_all add: 1(5) record_defs token_moved_def\<close>)
  qed
qed

interpretation pin: keeps_invariant "\<lambda>s. covered bal v P s" "payout_insurance W e c r tk x cid" "\<lambda>_. token_env W bal v e"
  for W bal v P e c r tk x cid
proof
  fix s u s' assume c: "covered bal v P s" and env: "token_env W bal v e"
    and run: "payout_insurance W e c r tk x cid s = (Ok u, s')"
  then have env': "sep41 (tokens_of W) bal" "current_contract_address e = v" by (simp_all add: token_env_def call_ok_def)
  show "covered bal v P s'"
  proof (cases rule: payout_insurance_Ok [OF env'(1) run])
    case (1 t l)
    let ?s = "s'\<lparr>fk_processed_insurance_claim := fk_processed_insurance_claim s\<rparr>"
    have "covered bal v P ?s"
      by (rule covered_change [OF c, of _ tk])
         (use 1(1,2,8) covered_D(2-5) [OF c, of tk] env'(2) in \<open>simp_all add: 1(9) record_defs token_moved_def rules_def\<close>)
    then have "covered bal v P (?s\<lparr>fk_processed_insurance_claim := (fk_processed_insurance_claim s)(cid := Some True)\<rparr>)"
      by (auto simp: covered_def record_defs settings_ok_def store_defs)
    then show ?thesis by (simp add: 1(9))
  qed
qed

interpretation dwf: keeps_invariant "covered bal v P" "distribute_waterfall W e tk x" "\<lambda>_. token_env W bal v e"
  for W bal v P e tk x
proof
  fix s rs s' assume c: "covered bal v P s" and env: "token_env W bal v e"
    and run: "distribute_waterfall W e tk x s = (Ok rs, s')"
  then have env': "sep41 (tokens_of W) bal" "current_contract_address e = v" by (simp_all add: token_env_def call_ok_def)
  show "covered bal v P s'"
  proof (cases rule: distribute_waterfall_Ok [OF env'(1) run env'(2)])
    case (1 ts t l)
    let ?d = "sum_list (allocations x (sort_key wt_priority ts))"
    have "0 \<le> received v rs"
      using 1(7) unfolding 1(4) received_def
      by (intro sum_list_nonneg_int) (auto simp: tier_result_def list_all_iff dest: set_zip_rightD)
    then show ?thesis
      by (intro covered_change [OF c, of _ tk])
         (use 1(3,6,9) covered_D(2-5) [OF c, of tk] in \<open>simp_all add: 1(10) record_defs\<close>)
  qed
qed

interpretation cfr: keeps_invariant "covered bal v P" "collect_fee_with_recovery W e trader tk x a" "\<lambda>_. token_env W bal v e"
  for W bal v P e trader tk x a
proof
  fix s fee s' assume c: "covered bal v P s" and env: "token_env W bal v e"
    and run: "collect_fee_with_recovery W e trader tk x a s = (Ok fee, s')"
  then have env': "sep41 (tokens_of W) bal" "current_contract_address e = v" by (simp_all add: token_env_def call_ok_def)
  have tr: "trader \<noteq> v" using collect_guards(3) [OF run] env by (auto simp: token_env_def call_ok_def)
  from run show "covered bal v P s'"
  proof (cases rule: collect_with_recovery_Ok)
    case waived
    show ?thesis
      by (rule covered_books [OF c waived(3)]) (use rules_settings [OF waived(4)] rules_D [OF waived(4)] covered_D(1) [OF c] in simp_all)
  next
    case (charged cc s1 base s2 burn)
    note ok = load_tx_fee_config_ok [OF charged(2) covered_D(1) [OF c]]
    have ok2: "settings_ok s2" using rules_settings [OF fee_rate_for_user_parts(2) [OF charged(3)]] ok(2) by simp
    have c2: "covered bal v P s2"
      by (rule covered_books [OF c _ ok2])
         (use load_tx_fee_config_books [OF charged(2)] fee_rate_for_user_parts [OF charged(3)] in \<open>simp_all add: rules_def\<close>)
    note bounds = charged_bounds [OF charged(5) collect_guards(4) [OF run] ok(1)]
    show ?thesis
    proof (cases rule: charge_fee_Ok [OF env'(1) charged(6) ok2 bounds(2-4)])
      case (1 ref rev)
      have pool: "fc_get_revenue_share_pool tk s' \<le> fc_get_revenue_share_pool tk s2 + rev" "0 \<le> fc_get_revenue_share_pool tk s'"
        using covered_D(4) [OF c2, of tk] 1(3,9)
        by (auto simp: fc_get_revenue_share_pool_def saturating_add_nonneg i128_max_def)
      have v: "bal (fk_tokens s2) tk v + (fee - burn - ref) \<le> bal (fk_tokens s') tk v"
        "\<And>k. k \<noteq> tk \<Longrightarrow> bal (fk_tokens s') k v = bal (fk_tokens s2) k v"
        using 1(2,5,6) tr env'(2) by (auto simp: token_moved_def token_burnt_def split: option.splits)
      show ?thesis
        by (rule covered_change [OF c2 1(12,11), of tk])
           (use 1(4,7,9,10) pool v covered_D(2-5) [OF c2, of tk] in
             \<open>simp_all add: recorded_def get_treasury_balance_def get_insurance_balance_def fc_get_revenue_share_pool_def\<close>)
    qed
  qed
qed

lemma token_env_consume [simp]: "token_env W bal v e \<Longrightarrow> token_env W bal v (consume_auth a e)"
  by (simp add: token_env_def)

lemma batch_loop_keeps:
  "token_env W bal v e \<Longrightarrow> covered bal v P s \<Longrightarrow> batch_loop W e items res s = (Ok r, s') \<Longrightarrow> covered bal v P s'"
proof (induction items arbitrary: res s e)
  case (Cons i items)
  from Cons.prems(3) obtain fee s1
    where c: "collect_fee_with_recovery W e (bf_trader i) (bf_token i) (bf_trade_amount i) (bf_trade_asset i) s = (Ok fee, s1)"
      and l: "batch_loop W (consume_auth (bf_trader i) e) items (res @ [fee]) s1 = (Ok r, s')"
    by (auto split: prod.splits outcome.splits)
  show ?case
    by (rule Cons.IH [OF token_env_consume [OF Cons.prems(1)] cfr.keeps [OF Cons.prems(2,1) c] l])
qed simp

interpretation bat: keeps_invariant "covered bal v P" "batch_collect_fees W e items" "\<lambda>_. token_env W bal v e"
  for W bal v P e items
proof
  fix s r s' assume c: "covered bal v P s" and env: "token_env W bal v e" and run: "batch_collect_fees W e items s = (Ok r, s')"
  obtain cc s1 where l: "load_tx_fee_config s = (cc, s1)" by fastforce
  have "covered bal v P s1"
    using c load_tx_fee_config_books(1) [OF l] load_tx_fee_config_ok(2) [OF l covered_D(1) [OF c]]
      load_tx_fee_config_books(4) [OF l] by (rule covered_books)
  moreover have "batch_loop W e items [] s1 = (Ok r, s')"
    using run l by (simp add: batch_collect_fees_def split: if_splits)
  ultimately show "covered bal v P s'" by (rule batch_loop_keeps [OF env])
qed

lemma retry_Ok:
  assumes "retry_failed_fee_collection W e admin rid s = (Ok fee, s')"
  obtains f n s1 where "get_failed_fee_collection rid s = Some f" "fc_get_admin s = Some admin" "has_auth e admin"
    "collect_fee_with_recovery W (consume_auth admin e) (ff_trader f) (ff_token f) (ff_trade_amount f) (ff_trade_asset f)
       (set_failed_fee_collection (f\<lparr>ff_retry_count := n\<rparr>) s) = (Ok fee, s1)"
    "s' = remove_failed_fee_collection rid (emit_retry_attempted rid n True (ledger_timestamp e) s1)"
  using assms
  by (auto simp: retry_failed_fee_collection_def Let_def split: option.splits prod.splits outcome.splits)

interpretation rty: keeps_invariant "covered bal v P" "retry_failed_fee_collection W e admin rid" "\<lambda>_. token_env W bal v e"
  for W bal v P e admin rid
proof
  fix s fee s' assume c: "covered bal v P s" and env: "token_env W bal v e"
    and run: "retry_failed_fee_collection W e admin rid s = (Ok fee, s')"
  show "covered bal v P s'"
  proof (cases rule: retry_Ok [OF run])
    case (1 f n s1)
    have "covered bal v P (set_failed_fee_collection (f\<lparr>ff_retry_count := n\<rparr>) s)"
      by (rule covered_books [OF c]) (use covered_D(1) [OF c] in \<open>simp_all add: set_failed_fee_collection_def\<close>)
    note c1 = cfr.keeps [OF this token_env_consume [OF env] 1(4)]
    show ?thesis
      by (rule covered_books [OF c1])
         (use covered_D(1) [OF c1] in \<open>simp_all add: 1(5) remove_failed_fee_collection_def collector_emits publish_tuple_def\<close>)
  qed
qed

text \<open>With nothing pending a claim pays nothing and changes only the log.\<close>

lemma claim_nothing:
  assumes "get_pending_fees p tk s = 0" "claim_fees W e p tk s = (Ok amount, s')"
  shows "amount = 0" "books s' = books s" "rules s' = rules s"
  using assms by (auto simp: claim_fees_def Let_def split: sum.splits)

text \<open>The remaining calls leave the books alone, except that a snapshot empties one revenue pool.\<close>

lemma quiet_fee_calls:
  "record_provider_gross_fee_share e c p x s = (Ok r, s') \<Longrightarrow> books s' = books s \<and> rules s' = rules s"
  "trigger_fee_forecast e a tk s = (Ok y, s') \<Longrightarrow> books s' = books s \<and> rules s' = rules s"
  "fee_rate_for_user e u s = (Ok n, s') \<Longrightarrow> books s' = books s \<and> rules s' = rules s"
  "monthly_trade_volume_of e u s = (Ok y, s') \<Longrightarrow> books s' = books s \<and> rules s' = rules s"
proof -
  show "books s' = books s \<and> rules s' = rules s" if "record_provider_gross_fee_share e c p x s = (Ok r, s')"
    using that by (auto simp: record_provider_gross_fee_share_def collector_emits publish_tuple_def publish_fields_def Let_def
        split: if_splits sum.splits)
  show "books s' = books s \<and> rules s' = rules s" if "trigger_fee_forecast e a tk s = (Ok y, s')"
    using that by (auto simp: trigger_fee_forecast_def set_last_forecast_day_def collector_emits publish_tuple_def
        publish_fields_def Let_def split: prod.splits)
  show "books s' = books s \<and> rules s' = rules s" if "fee_rate_for_user e u s = (Ok n, s')"
    using that fee_rate_for_user_parts by (fastforce simp: fee_rate_for_user_def split: prod.splits)
  show "books s' = books s \<and> rules s' = rules s" if "monthly_trade_volume_of e u s = (Ok y, s')"
    using that by (auto simp: monthly_trade_volume_of_def get_active_volume_usd_def active_monthly_trade_volume_def
        remove_monthly_trade_volume_def split: prod.splits option.splits if_splits)
qed

lemma snapshot_Ok:
  assumes "trigger_revenue_share_snapshot e c tk s = (Ok u, s')"
  shows "fk_tokens s' = fk_tokens s" "fk_treasury_balance s' = fk_treasury_balance s" "rules s' = rules s"
    "fk_insurance_balance s' = fk_insurance_balance s" "fk_provider_pending_fees s' = fk_provider_pending_fees s"
    "fc_get_revenue_share_pool k s' = (if k = tk then min 0 (fc_get_revenue_share_pool tk s) else fc_get_revenue_share_pool k s)"
  using assms
  by (auto simp: trigger_revenue_share_snapshot_def clear_revenue_share_pool_def remove_from_revenue_share_pool_index_def
      set_last_revenue_share_snapshot_def emits_log_only fc_get_revenue_share_pool_def rules_def Let_def split: if_splits)

lemma dynamic_rate_parts:
  assumes "current_dynamic_fee_rate e u tk s = (Ok r, s')"
  shows "books s' = books s" "settings_ok s \<Longrightarrow> settings_ok s'"
    "fk_processed_insurance_claim s' = fk_processed_insurance_claim s"
proof -
  obtain c s1 base s2 where l: "load_tx_fee_config s = (c, s1)" "get_fee_rate_for_user e u s1 = (base, s2)" by fastforce
  then have "s' = s2" using assms by (auto simp: current_dynamic_fee_rate_def effective_fee_rate_for_trade_def Let_def)
  with load_tx_fee_config_books [OF l(1)] load_tx_fee_config_ok(2) [OF l(1)] fee_rate_for_user_parts [OF l(2)]
    rules_settings rules_D [OF fee_rate_for_user_parts(2) [OF l(2)]]
  show "books s' = books s" "settings_ok s \<Longrightarrow> settings_ok s'"
    "fk_processed_insurance_claim s' = fk_processed_insurance_claim s" by auto
qed

section \<open>All calls\<close>

datatype fee_call =
    Fc_Initialize address | Fc_Config fee_config_call | Record_Provider_Gross_Fee_Share address address int
  | Trigger_Revenue_Share_Snapshot address address | Trigger_Fee_Forecast address address | Fee_Rate_For_User address
  | Monthly_Trade_Volume address | Current_Dynamic_Fee_Rate address address | Withdraw_Treasury_Fees address address int
  | Deposit_Insurance_Fund address address int | Payout_Insurance address address address int string
  | Distribute_Waterfall address int | Collect_Fee address address int asset | Batch_Collect_Fees "batch_fee_input list"
  | Retry_Failed_Fee_Collection address string | Claim_Fees address address

fun run_fee_call :: "address \<Rightarrow> 't world \<Rightarrow> env \<Rightarrow> fee_call \<Rightarrow> 't collector \<Rightarrow> ('t, unit) collector_result" where
  "run_fee_call z W e (Fc_Initialize a) s = fc_initialize e a s"
| "run_fee_call z W e (Fc_Config c) s = run_fee_config z e c s"
| "run_fee_call z W e (Record_Provider_Gross_Fee_Share c p x) s = void (record_provider_gross_fee_share e c p x s)"
| "run_fee_call z W e (Trigger_Revenue_Share_Snapshot c tk) s = trigger_revenue_share_snapshot e c tk s"
| "run_fee_call z W e (Trigger_Fee_Forecast a tk) s = void (trigger_fee_forecast e a tk s)"
| "run_fee_call z W e (Fee_Rate_For_User u) s = void (fee_rate_for_user e u s)"
| "run_fee_call z W e (Monthly_Trade_Volume u) s = void (monthly_trade_volume_of e u s)"
| "run_fee_call z W e (Current_Dynamic_Fee_Rate u tk) s = void (current_dynamic_fee_rate e u tk s)"
| "run_fee_call z W e (Withdraw_Treasury_Fees r tk x) s = withdraw_treasury_fees W e r tk x s"
| "run_fee_call z W e (Deposit_Insurance_Fund a tk x) s = deposit_insurance_fund W e a tk x s"
| "run_fee_call z W e (Payout_Insurance c r tk x cid) s = payout_insurance W e c r tk x cid s"
| "run_fee_call z W e (Distribute_Waterfall tk x) s = void (distribute_waterfall W e tk x s)"
| "run_fee_call z W e (Collect_Fee u tk x a) s = void (collect_fee W e u tk x a s)"
| "run_fee_call z W e (Batch_Collect_Fees items) s = void (batch_collect_fees W e items s)"
| "run_fee_call z W e (Retry_Failed_Fee_Collection a rid) s = void (retry_failed_fee_collection W e a rid s)"
| "run_fee_call z W e (Claim_Fees p tk) s = void (claim_fees W e p tk s)"

lemma covered_quiet:
  assumes "covered bal v P s" "books s' = books s \<and> rules s' = rules s" shows "covered bal v P s'"
  by (rule covered_books [OF assms(1)])
     (use assms covered_D(1) [OF assms(1)] rules_settings [of s' s] rules_D [of s' s] in simp_all)

lemma initialize_covered:
  assumes "covered bal v P s" "fc_initialize e a s = (Ok u, s')" shows "covered bal v P s'"
proof (rule covered_books [OF assms(1)])
  have s': "s' = set_contract_version (mark_initialized (fc_set_admin a s)) FEE_COLLECTOR_VERSION"
    using assms(2) by (auto simp: fc_initialize_def split: if_splits)
  show "books s' = books s" by (simp add: s' fc_set_admin_def)
  show "settings_ok s'" using covered_D(1) [OF assms(1)] by (simp add: s')
  show "fk_processed_insurance_claim s' = fk_processed_insurance_claim s"
    by (simp add: s' fc_set_admin_def set_contract_version_def mark_initialized_def)
qed

lemma snapshot_covered:
  assumes "covered bal v P s" "trigger_revenue_share_snapshot e c tk s = (Ok u, s')" shows "covered bal v P s'"
proof (rule covered_change [OF assms(1), of _ tk])
  note f = snapshot_Ok [OF assms(2)]
  have t: "get_treasury_balance k s' = get_treasury_balance k s" "get_insurance_balance k s' = get_insurance_balance k s" for k
    by (simp_all add: get_treasury_balance_def get_insurance_balance_def f)
  show "recorded tk s' - recorded tk s \<le> bal (fk_tokens s') tk v - bal (fk_tokens s) tk v"
    using covered_D(4) [OF assms(1), of tk] by (simp add: recorded_def t f)
qed (use snapshot_Ok [OF assms(2)] covered_D(2-4) [OF assms(1), of tk] in
      \<open>simp_all add: get_treasury_balance_def get_insurance_balance_def\<close>)

lemma claim_covered:
  assumes "covered bal v P s" "claim_fees W e p tk s = (Ok x, s')" shows "covered bal v P s'"
  using claim_nothing(2,3) [OF covered_D(6) [OF assms(1)] assms(2)] by (intro covered_quiet [OF assms(1)]) simp

lemma dynamic_rate_covered:
  assumes "covered bal v P s" "current_dynamic_fee_rate e u tk s = (Ok r, s')" shows "covered bal v P s'"
  using dynamic_rate_parts [OF assms(2)] covered_D(1) [OF assms(1)] by (intro covered_books [OF assms(1)])

text \<open>The contract of every single call, for the call type as a whole.\<close>

interpretation fcall: keeps_invariant "covered bal v P" "run_fee_call z W e c" "\<lambda>_. token_env W bal v e" for bal v P z W e c
proof
  fix s u s' assume c: "covered bal v P s" and env: "token_env W bal v e" and run: "run_fee_call z W e c s = (Ok u, s')"
  show "covered bal v P s'"
    using run
    by (cases c)
       (auto dest!: void_Ok dest: initialize_covered [OF c] fcfg.keeps [OF c TrueI] quiet_fee_calls [THEN covered_quiet [OF c]]
         snapshot_covered [OF c] dynamic_rate_covered [OF c] wtf.keeps [OF c env] dif.keeps [OF c env] pin.keeps [OF c env]
         dwf.keeps [OF c env] cfr.keeps [OF c env] bat.keeps [OF c env] rty.keeps [OF c env] claim_covered [OF c])
qed

section \<open>Runs\<close>

text \<open>
  A step is a call, which is rolled back unless it succeeds; a movement of tokens outside the contract,
  which takes none from it; or the expiry of an entry of the fee cache, which is temporary storage.
\<close>

inductive collector_step :: "address \<Rightarrow> 't world \<Rightarrow> ('t \<Rightarrow> address \<Rightarrow> address \<Rightarrow> int) \<Rightarrow> address \<Rightarrow>
    't collector \<Rightarrow> 't collector \<Rightarrow> bool" for z W bal v where
  called: "collector_step z W bal v s (snd (invoke (run_fee_call z W e c) s))" if "call_ok v e"
| external: "collector_step z W bal v s (s\<lparr>fk_tokens := t\<rparr>)" if "\<And>a. bal (fk_tokens s) a v \<le> bal t a v"
| expired: "collector_step z W bal v s (s\<lparr>fk_tx_cache := (fk_tx_cache s)(k := None)\<rparr>)"

lemma step_covered:
  assumes "collector_step z W bal v s s'" "sep41 (tokens_of W) bal" "covered bal v P s"
  shows "covered bal v P s'"
  using assms(1)
proof cases
  case (called e c)
  then have "token_env W bal v e" using assms(2) by (simp add: token_env_def)
  with called(1) show ?thesis using fcall.invoke_keeps [OF assms(3)] by simp
next
  case (external t)
  have "recorded k (s\<lparr>fk_tokens := t\<rparr>) \<le> bal t k v" for k
    using external(2) [of k] covered_D(5) [OF assms(3), of k] by (simp add: record_defs)
  with assms(3) external(1) show ?thesis
    by (simp add: covered_def record_defs get_pending_fees_def is_insurance_claim_processed_def settings_ok_def store_defs)
next
  case (expired k)
  show ?thesis
    by (rule covered_books [OF assms(3)])
       (use covered_D(1) [OF assms(3)] in \<open>simp_all add: expired settings_ok_def store_defs\<close>)
qed

lemma run_covered:
  assumes "(collector_step z W bal v)\<^sup>*\<^sup>* s s'" "sep41 (tokens_of W) bal" "covered bal v P s"
  shows "covered bal v P s'"
  using assms(1,3) by (induction rule: rtranclp_induct) (auto dest: step_covered [OF _ assms(2)])

lemma deployed_covered:
  assumes "\<And>a. 0 \<le> bal t a v" shows "covered bal v {} (empty_collector t)"
  using assms by (simp add: covered_def record_defs get_pending_fees_def empty_collector_def settings_ok_def store_defs
      empty_settings_def optimization_ok_def congestion_ok_def validate_policy_def default_policy_def
      default_optimization_config_def default_congestion_config_def default_forecast_config_def fee_constants u32_max_def)

section \<open>Properties\<close>

text \<open>A run for the witnesses: the contract is deployed and account 3 puts 500 into the insurance fund.\<close>

definition sample_deployed :: "balance_ledger collector" where
  "sample_deployed = snd (invoke (run_fee_call (Addr 8) sample_world (sample_now 0) (Fc_Initialize (Addr 1)))
     (empty_collector sample_fee_ledger))"

definition sample_insured :: "balance_ledger collector" where
  "sample_insured = snd (invoke (run_fee_call (Addr 8) sample_world (sample_now 0)
     (Deposit_Insurance_Fund (Addr 3) (Addr 9) 500)) sample_deployed)"

abbreviation sample_runs :: "balance_ledger collector \<Rightarrow> balance_ledger collector \<Rightarrow> bool" where
  "sample_runs \<equiv> (collector_step (Addr 8) sample_world (\<lambda>t. t) (Addr 0))\<^sup>*\<^sup>*"

lemma sample_runs_insured: "sample_runs (empty_collector sample_fee_ledger) sample_insured"
  unfolding sample_insured_def sample_deployed_def
  by (rule rtranclp.rtrancl_into_rtrancl [OF rtranclp.rtrancl_into_rtrancl [OF rtranclp.rtrancl_refl]];
      rule collector_step.called [OF sample_now_ok])

lemma sample_ledger_nonneg: "0 \<le> (\<lambda>t. t) sample_fee_ledger a (Addr 0)"
  by (simp add: sample_fee_ledger_def)

lemmas sample_run_defs =
  sample_insured_def sample_deployed_def invoke_def fc_initialize_def deposit_insurance_fund_def treasury_defs
  mark_initialized_def set_contract_version_def FEE_COLLECTOR_VERSION_def

lemma sample_insured_facts:
  "get_insurance_balance (Addr 9) sample_insured = 500" "fk_tokens sample_insured (Addr 9) (Addr 0) = 1000500"
  by (simp_all add: sample_run_defs)

text \<open>
  C15: Solvency of the fee collector. In every state reachable from the deployment by calls in any order, for
  every token the treasury, the insurance fund and the revenue pool are not negative, and together they
  are covered by what the contract holds of the token.
\<close>

theorem collector_solvency:
  assumes "sep41 (tokens_of W) bal" and "\<And>a. 0 \<le> bal t a v"
    and "(collector_step z W bal v)\<^sup>*\<^sup>* (empty_collector t) s"
  shows "0 \<le> get_treasury_balance tk s \<and> 0 \<le> get_insurance_balance tk s \<and> 0 \<le> fc_get_revenue_share_pool tk s \<and>
    get_treasury_balance tk s + get_insurance_balance tk s + fc_get_revenue_share_pool tk s \<le> bal (fk_tokens s) tk v"
  using covered_D(2-5) [OF run_covered [OF assms(3,1) deployed_covered [of bal, OF assms(2)]], of tk]
  by (simp add: recorded_def)

theorem collector_solvency_witness:
  "get_insurance_balance (Addr 9) sample_insured = 500 \<and>
   get_treasury_balance (Addr 9) sample_insured + 500 + fc_get_revenue_share_pool (Addr 9) sample_insured \<le> 1000500"
  using collector_solvency [OF sample_world_sep41 sample_ledger_nonneg sample_runs_insured, of "Addr 9"]
    sample_insured_facts by simp

text \<open>
  C40: The settings stay within their bounds in every reachable state, and so does the price: the dynamic rate
  quoted to any account is between one and a hundred basis points, and a fee that is charged is at most
  one per cent of the trade.
\<close>

theorem fees_bounded:
  assumes "sep41 (tokens_of W) bal" and "\<And>a. 0 \<le> bal t a v"
    and "(collector_step z W bal v)\<^sup>*\<^sup>* (empty_collector t) s"
  shows "settings_ok s \<and> (\<exists>r s'. current_dynamic_fee_rate e u tk s = (Ok r, s') \<and> 1 \<le> r \<and> r \<le> 100) \<and>
    (\<forall>x a fee s'. collect_fee W e u tk x a s = (Ok fee, s') \<longrightarrow> 0 \<le> fee \<and> fee * 100 \<le> x)"
proof (intro conjI allI impI)
  show ok: "settings_ok s"
    by (rule covered_D(1) [OF run_covered [OF assms(3,1) deployed_covered [of bal, OF assms(2)]]])
  obtain c s1 base s2 where l: "load_tx_fee_config s = (c, s1)" "get_fee_rate_for_user e u s1 = (base, s2)" by fastforce
  note cache = load_tx_fee_config_ok(1) [OF l(1) ok]
  from l show "\<exists>r s'. current_dynamic_fee_rate e u tk s = (Ok r, s') \<and> 1 \<le> r \<and> r \<le> 100"
    using effective_rate_bounds [OF cache, of base tk]
    by (simp add: current_dynamic_fee_rate_def effective_fee_rate_for_trade_def fee_constants)
  fix x a fee s' assume "collect_fee W e u tk x a s = (Ok fee, s')"
  then have col: "collect_fee_with_recovery W e u tk x a s = (Ok fee, s')" by simp
  note x = collect_guards(4) [OF col]
  from col have "0 \<le> fee \<and> fee * 100 \<le> x"
  proof (cases rule: collect_with_recovery_Ok)
    case waived
    with x show ?thesis by simp
  next
    case (charged cc s3 base' s4 burn)
    with charged_bounds(1) [OF charged(5) x load_tx_fee_config_ok(1) [OF charged(2) ok]] show ?thesis by simp
  qed
  then show "0 \<le> fee" "fee * 100 \<le> x" by simp_all
qed

theorem fees_bounded_witness:
  "settings_ok sample_insured \<and>
   (\<exists>r s'. current_dynamic_fee_rate (sample_now 7) (Addr 3) (Addr 9) sample_insured = (Ok r, s') \<and> 1 \<le> r \<and> r \<le> 100)"
  using fees_bounded [OF sample_world_sep41 sample_ledger_nonneg sample_runs_insured] by blast

text \<open>
  C17: An insurance claim is paid at most once. After a successful payout no sequence of calls by anybody,
  token movements and expiring cache entries leads to a state in which a payout with the same claim
  identifier succeeds, whatever its recipient, token or amount.
\<close>

theorem insurance_claim_once:
  assumes "sep41 (tokens_of W) bal" and "\<And>a. 0 \<le> bal t a v"
    and "(collector_step z W bal v)\<^sup>*\<^sup>* (empty_collector t) s" and "call_ok v e"
    and "payout_insurance W e c r tk x cid s = (Ok u, s')"
    and "(collector_step z W bal v)\<^sup>*\<^sup>* s' s''"
  shows "fst (payout_insurance W e' c' r' tk' x' cid s'') \<noteq> Ok u'"
proof -
  have env: "token_env W bal v e" using assms(1,4) by (simp add: token_env_def)
  have "covered bal v {} s'"
    by (rule pin.keeps [OF run_covered [OF assms(3,1) deployed_covered [of bal, OF assms(2)]] env assms(5)])
  moreover have "is_insurance_claim_processed cid s'"
    by (rule payout_insurance_Ok [OF assms(1,5)]) (simp add: is_insurance_claim_processed_def)
  ultimately have "covered bal v {cid} s'" by (simp add: covered_def)
  from covered_D(7) [OF run_covered [OF assms(6,1) this]] have "is_insurance_claim_processed cid s''" by simp
  then show ?thesis
    using run_ok [of "payout_insurance W e' c' r' tk' x' cid s''" u'] by (auto elim: payout_insurance_Ok [OF assms(1)])
qed

theorem insurance_claim_once_witness:
  "\<exists>s'. payout_insurance sample_world (sample_now 5) (Addr 1) (Addr 5) (Addr 9) 200 ''c1'' sample_insured = (Ok (), s') \<and>
     fst (payout_insurance sample_world (sample_now 6) (Addr 1) (Addr 6) (Addr 9) 100 ''c1'' s') \<noteq> Ok ()"
proof -
  have res: "fst (payout_insurance sample_world (sample_now 5) (Addr 1) (Addr 5) (Addr 9) 200 ''c1'' sample_insured) = Ok ()"
    by (simp add: payout_insurance_def sample_run_defs)
  obtain s' where run: "payout_insurance sample_world (sample_now 5) (Addr 1) (Addr 5) (Addr 9) 200 ''c1'' sample_insured = (Ok (), s')"
    by (rule that [OF run_ok [OF res]])
  with insurance_claim_once [OF sample_world_sep41 sample_ledger_nonneg sample_runs_insured sample_now_ok run rtranclp.rtrancl_refl]
  show ?thesis by blast
qed

text \<open>
  No call ever credits the fees that a provider can claim: in every reachable state nothing is pending for
  any provider in any token, so a claim that succeeds pays nothing and moves no tokens.
\<close>

theorem claims_pay_nothing:
  assumes "sep41 (tokens_of W) bal" and "\<And>a. 0 \<le> bal t a v"
    and "(collector_step z W bal v)\<^sup>*\<^sup>* (empty_collector t) s"
  shows "get_pending_fees p tk s = 0 \<and>
    (\<forall>amount s'. claim_fees W e p tk s = (Ok amount, s') \<longrightarrow> amount = 0 \<and> books s' = books s)"
proof -
  have "get_pending_fees p tk s = 0"
    by (rule covered_D(6) [OF run_covered [OF assms(3,1) deployed_covered [of bal, OF assms(2)]]])
  then show ?thesis using claim_nothing(1,2) by blast
qed

theorem claims_pay_nothing_witness:
  "\<exists>s'. claim_fees sample_world (sample_now 5) (Addr 5) (Addr 9) sample_insured = (Ok 0, s') \<and> books s' = books sample_insured"
proof -
  have res: "fst (claim_fees sample_world (sample_now 5) (Addr 5) (Addr 9) sample_insured) = Ok 0"
    by (simp add: claim_fees_def sample_run_defs)
  obtain s' where run: "claim_fees sample_world (sample_now 5) (Addr 5) (Addr 9) sample_insured = (Ok 0, s')"
    by (rule that [OF run_ok [OF res]])
  with claims_pay_nothing [OF sample_world_sep41 sample_ledger_nonneg sample_runs_insured, of "Addr 5" "Addr 9" "sample_now 5"]
  show ?thesis by blast
qed

text \<open>Whose signature each configuration call needs.\<close>

fun may_sign :: "fee_config_call \<Rightarrow> 't collector \<Rightarrow> address set" where
  "may_sign (Set_Congestion_Signal c x) s = {c} \<inter> {a. fc_get_admin s = Some a \<or> is_authorized_caller a s}"
| "may_sign (Record_Provider_Fee_Share c p x) s = {c} \<inter> {a. fc_get_admin s = Some a \<or> is_authorized_caller a s}"
| "may_sign (Set_Payout_Currency p tk) s = {p}"
| "may_sign (Clear_Payout_Currency p) s = {p}"
| "may_sign (Register_Referral a b) s = {b}"
| "may_sign c s = {a. fc_get_admin s = Some a}"

text \<open>
  Authority. A configuration call succeeds only on an initialised contract and with the right signature: the
  stored administrator's, except that an allowlisted caller may report congestion and provider earnings,
  a provider chooses its own payout currency and a referee registers its own referrer. The signer named
  in the call cannot stand in for the stored administrator.
\<close>

theorem fee_config_authority:
  assumes "run_fee_config z e c s = (Ok u, s')"
  shows "is_initialized s \<and> (\<exists>a\<in>may_sign c s. has_auth e a)"
  using assms by (cases c) (auto simp: fee_config_defs split: option.splits if_splits)

theorem fee_config_authority_witness:
  "\<exists>s'. run_fee_config (Addr 8) (sample_now 5) (Set_Fee_Rate 40) sample_insured = (Ok (), s') \<and>
     (\<exists>a\<in>may_sign (Set_Fee_Rate 40) sample_insured. has_auth (sample_now 5) a)"
proof -
  have res: "fst (run_fee_config (Addr 8) (sample_now 5) (Set_Fee_Rate 40) sample_insured) = Ok ()"
    by (simp add: set_fee_rate_def admin_only_def sample_run_defs)
  from run_ok [OF res] fee_config_authority show ?thesis by blast
qed

end
