(* ===== verification/Outcome_Monad.thy ===== *)
theory Outcome_Monad
  imports Soroban_Map
begin

text \<open>
  Sequencing of contract code. The functions of the governance contract pass results through Rust's \<open>?\<close> operator
  many times in a row; \<open>and_then\<close> is that operator for a call with effects, \<open>attempt\<close> for a pure \<open>Result\<close>
  inside a call, \<open>bind_sum\<close> inside another pure function. \<open>ignore\<close> is \<^verbatim>\<open>let _ = call\<close>: an error is
  dropped, but what the call had written before it failed stays, and a trap is still a trap.

  \<open>with_auth\<close> is \<^verbatim>\<open>require_auth\<close>; the rest of the frame runs without the authorisation that was used.
\<close>

definition and_then ::
  "('e, 'a) outcome \<times> 's \<Rightarrow> ('a \<Rightarrow> 's \<Rightarrow> ('e, 'b) outcome \<times> 's) \<Rightarrow> ('e, 'b) outcome \<times> 's" where
  "and_then r f = (case r of (Ok a, s) \<Rightarrow> f a s | (Err er, s) \<Rightarrow> (Err er, s) | (Panic, s) \<Rightarrow> (Panic, s))"

definition attempt :: "'e + 'a \<Rightarrow> 's \<Rightarrow> ('a \<Rightarrow> ('e, 'b) outcome \<times> 's) \<Rightarrow> ('e, 'b) outcome \<times> 's" where
  "attempt x s f = (case x of Inl er \<Rightarrow> (Err er, s) | Inr a \<Rightarrow> f a)"

definition bind_sum :: "'e + 'a \<Rightarrow> ('a \<Rightarrow> 'e + 'b) \<Rightarrow> 'e + 'b" where
  "bind_sum x f = (case x of Inl er \<Rightarrow> Inl er | Inr a \<Rightarrow> f a)"

definition ok_or :: "'e \<Rightarrow> 'a option \<Rightarrow> 'e + 'a" where
  "ok_or er x = (case x of None \<Rightarrow> Inl er | Some a \<Rightarrow> Inr a)"

text \<open>A trap inside a pure computation, such as an arithmetic overflow.\<close>

definition or_panic :: "'a option \<Rightarrow> 's \<Rightarrow> ('a \<Rightarrow> ('e, 'b) outcome \<times> 's) \<Rightarrow> ('e, 'b) outcome \<times> 's" where
  "or_panic x s f = (case x of None \<Rightarrow> (Panic, s) | Some a \<Rightarrow> f a)"

definition ignore ::
  "('e, 'a) outcome \<times> 's \<Rightarrow> ('s \<Rightarrow> ('e, 'b) outcome \<times> 's) \<Rightarrow> ('e, 'b) outcome \<times> 's" where
  "ignore r f = (case r of (Panic, s) \<Rightarrow> (Panic, s) | (_, s) \<Rightarrow> f s)"

definition with_auth :: "env \<Rightarrow> address \<Rightarrow> (env \<Rightarrow> 's \<Rightarrow> ('e, 'a) outcome \<times> 's) \<Rightarrow> 's \<Rightarrow> ('e, 'a) outcome \<times> 's" where
  "with_auth e a f s = (if has_auth e a then f (consume_auth a e) s else (Panic, s))"

section \<open>Evaluation\<close>

lemma and_then_simps [simp]:
  "and_then (Ok a, s) f = f a s" "and_then (Err er, s) f = (Err er, s)" "and_then (Panic, s) f = (Panic, s)"
  by (simp_all add: and_then_def)

lemma attempt_simps [simp]: "attempt (Inl er) s f = (Err er, s)" "attempt (Inr a) s f = f a"
  by (simp_all add: attempt_def)

lemma bind_sum_simps [simp]: "bind_sum (Inl er) g = Inl er" "bind_sum (Inr a) g = g a"
  by (simp_all add: bind_sum_def)

lemma ok_or_simps [simp]: "ok_or er None = Inl er" "ok_or er (Some a) = Inr a"
  by (simp_all add: ok_or_def)

lemma or_panic_simps [simp]: "or_panic None s f = (Panic, s)" "or_panic (Some a) s f = f a"
  by (simp_all add: or_panic_def)

lemma ignore_simps [simp]:
  "ignore (Ok a, s) f = f s" "ignore (Err er, s) f = f s" "ignore (Panic, s) f = (Panic, s)"
  by (simp_all add: ignore_def)

section \<open>Successful runs\<close>

named_theorems run_iff "characterisations of the successful runs of the combinators"

lemma and_then_Ok [run_iff]:
  "and_then r f = (Ok b, s') \<longleftrightarrow> (\<exists>a s1. r = (Ok a, s1) \<and> f a s1 = (Ok b, s'))"
  by (auto simp: and_then_def split: prod.splits outcome.splits)

lemma attempt_Ok [run_iff]: "attempt x s f = (Ok b, s') \<longleftrightarrow> (\<exists>a. x = Inr a \<and> f a = (Ok b, s'))"
  by (auto simp: attempt_def split: sum.splits)

lemma bind_sum_Inr [run_iff]: "bind_sum x f = Inr b \<longleftrightarrow> (\<exists>a. x = Inr a \<and> f a = Inr b)"
  by (auto simp: bind_sum_def split: sum.splits)

lemma ok_or_Inr [run_iff]: "ok_or er x = Inr a \<longleftrightarrow> x = Some a"
  by (auto simp: ok_or_def split: option.splits)

lemma or_panic_Ok [run_iff]: "or_panic x s f = (Ok b, s') \<longleftrightarrow> (\<exists>a. x = Some a \<and> f a = (Ok b, s'))"
  by (auto simp: or_panic_def split: option.splits)

lemma ignore_Ok [run_iff]:
  "ignore r f = (Ok b, s') \<longleftrightarrow> (\<exists>x s1. r = (x, s1) \<and> x \<noteq> Panic \<and> f s1 = (Ok b, s'))"
  by (auto simp: ignore_def split: prod.splits outcome.splits)

lemma with_auth_Ok [run_iff]:
  "with_auth e a f s = (Ok b, s') \<longleftrightarrow> has_auth e a \<and> f (consume_auth a e) s = (Ok b, s')"
  by (simp add: with_auth_def)

text \<open>A second request for the same authorisation in one frame traps.\<close>

lemma with_auth_twice:
  "with_auth e a (\<lambda>e' s. with_auth e' a f s) s = (Panic, s)"
  by (simp add: with_auth_def)

end
