(* ===== verification/Integer_Root.thy ===== *)
theory Integer_Root
  imports Prelude
begin

text \<open>
  The integer square root of \<^verbatim>\<open>governance/src/proposals.rs\<close> by Newton's method: \<open>isqrt_u128\<close> on unsigned and \<open>isqrt\<close>
  on signed 128-bit numbers. The loop ends since the iterate decreases; it returns the floor of the
  root for every input, and no intermediate value leaves the range of \<^verbatim>\<open>u128\<close>.
\<close>

definition u128_max :: nat where
  "u128_max = 340282366920938463463374607431768211455"

function newton_loop :: "nat \<Rightarrow> nat \<Rightarrow> nat \<Rightarrow> nat" where
  "newton_loop n x y = (if y < x then newton_loop n y ((y + n div y) div 2) else x)"
  by pat_completeness auto

termination
  by (relation "measure (\<lambda>(n, x, y). x)") auto

declare newton_loop.simps [simp del]

definition isqrt_u128 :: "nat \<Rightarrow> nat" where
  "isqrt_u128 n = (if n = 0 then 0 else newton_loop n n (n div 2 + n mod 2))"

definition isqrt :: "int \<Rightarrow> int" where
  "isqrt n = (if n \<le> 0 then 0 else int (isqrt_u128 (nat n)))"

section \<open>One Newton step\<close>

lemma newton_step_lower:
  assumes "0 < (y::nat)"
  shows "n < ((y + n div y) div 2 + 1)\<^sup>2"
proof -
  define q where "q = n div y"
  have n: "n < (q + 1) * y"
    unfolding q_def using dividend_less_div_times [OF assms, of n] by (simp add: algebra_simps)
  define t where "t = (y + q) div 2"
  have ty: "y + q + 1 \<le> 2 * (t + 1)" unfolding t_def by simp
  have "4 * ((q + 1) * y) \<le> (y + (q + 1))\<^sup>2"
  proof -
    have "int (4 * ((q + 1) * y)) \<le> int ((y + (q + 1))\<^sup>2)"
      using zero_le_power2 [of "int y - int (q + 1)"] by (simp add: power2_eq_square algebra_simps)
    then show ?thesis by linarith
  qed
  also have "\<dots> \<le> (2 * (t + 1))\<^sup>2"
    using ty by (intro power_mono) auto
  also have "\<dots> = 4 * (t + 1)\<^sup>2"
    by (simp add: power2_eq_square)
  finally show ?thesis
    using n unfolding t_def q_def by simp
qed

lemma newton_step_descends:
  assumes "0 < (y::nat)" and "n < y * y"
  shows "(y + n div y) div 2 < y"
proof -
  have "n div y < y" using assms by (simp add: div_less_iff_less_mult)
  then show ?thesis by simp
qed

lemma newton_step_stops:
  assumes "0 < (y::nat)" and "y \<le> (y + n div y) div 2"
  shows "y * y \<le> n"
proof -
  have "y \<le> n div y" using assms by linarith
  then show ?thesis using assms(1) by (metis div_times_less_eq_dividend le_trans mult_le_mono1)
qed

section \<open>The loop\<close>

lemma newton_loop_root:
  assumes "0 < n" and "0 < x" and "n < (x + 1)\<^sup>2" and "n < (y + 1)\<^sup>2" and "0 < y"
    and "x \<le> y \<Longrightarrow> x * x \<le> n"
  shows "(newton_loop n x y)\<^sup>2 \<le> n \<and> n < (newton_loop n x y + 1)\<^sup>2"
  using assms
proof (induction n x y rule: newton_loop.induct)
  case (1 n x y)
  show ?case
  proof (cases "y < x")
    case True
    let ?z = "(y + n div y) div 2"
    have low: "n < (?z + 1)\<^sup>2" using "1.prems"(5) by (rule newton_step_lower)
    have pos: "0 < ?z"
    proof (rule ccontr)
      assume "\<not> 0 < ?z"
      with low "1.prems"(1) show False by simp
    qed
    have stop: "y \<le> ?z \<Longrightarrow> y * y \<le> n" using "1.prems"(5) by (rule newton_step_stops)
    have "(newton_loop n y ?z)\<^sup>2 \<le> n \<and> n < (newton_loop n y ?z + 1)\<^sup>2"
      using "1.IH" [OF True "1.prems"(1) "1.prems"(5) "1.prems"(4) low pos stop] .
    with True show ?thesis by (subst (1 2) newton_loop.simps) simp
  next
    case False
    with "1.prems"(3,6) show ?thesis by (subst (1 2) newton_loop.simps) (simp add: power2_eq_square)
  qed
qed

lemma isqrt_u128_floor: "(isqrt_u128 n)\<^sup>2 \<le> n \<and> n < (isqrt_u128 n + 1)\<^sup>2"
proof (cases "n = 0")
  case False
  let ?y = "n div 2 + n mod 2"
  have half: "n \<le> 2 * ?y" by presburger
  have y: "0 < ?y" using False half by (cases "?y = 0") auto
  have lower: "n < (?y + 1)\<^sup>2" using half by (simp add: power2_eq_square)
  have one: "n \<le> ?y \<Longrightarrow> n * n \<le> n"
  proof -
    assume "n \<le> ?y"
    then have "n \<le> 1" by presburger
    then show "n * n \<le> n" by (cases n) auto
  qed
  have "(newton_loop n n ?y)\<^sup>2 \<le> n \<and> n < (newton_loop n n ?y + 1)\<^sup>2"
    using False y lower one by (intro newton_loop_root) (auto simp: power2_eq_square)
  with False show ?thesis by (simp add: isqrt_u128_def)
qed (simp add: isqrt_u128_def)

lemma isqrt_u128_bounds: "isqrt_u128 n * isqrt_u128 n \<le> n" "n < (isqrt_u128 n + 1) * (isqrt_u128 n + 1)"
  using isqrt_u128_floor [of n] by (simp_all add: power2_eq_square)

lemma isqrt_nonneg [simp]: "0 \<le> isqrt n"
  by (simp add: isqrt_def)

lemma isqrt_floor:
  assumes "0 \<le> n"
  shows "isqrt n * isqrt n \<le> n" and "n < (isqrt n + 1) * (isqrt n + 1)"
proof -
  have "int (isqrt_u128 (nat n) * isqrt_u128 (nat n)) \<le> int (nat n)"
    and "int (nat n) < int ((isqrt_u128 (nat n) + 1) * (isqrt_u128 (nat n) + 1))"
    using isqrt_u128_bounds [of "nat n"] by linarith+
  with assms show "isqrt n * isqrt n \<le> n" and "n < (isqrt n + 1) * (isqrt n + 1)"
    by (auto simp: isqrt_def algebra_simps split: if_splits)
qed

lemma isqrt_le: "isqrt n \<le> max 0 n"
proof (cases "n \<le> 0")
  case False
  then have "isqrt n * isqrt n \<le> n" by (intro isqrt_floor) simp
  moreover have "isqrt n \<le> isqrt n * isqrt n"
    using isqrt_nonneg [of n] by (cases "isqrt n = 0") (auto intro: mult_le_cancel_right1 [THEN iffD2])
  ultimately show ?thesis by simp
qed (simp add: isqrt_def)

lemma isqrt_pos: "0 < n \<Longrightarrow> 0 < isqrt n"
  using isqrt_floor(2) [of n] isqrt_nonneg [of n] by (cases "isqrt n = 0") (auto simp: less_le)

lemma isqrt_mono: assumes "m \<le> n" shows "isqrt m \<le> isqrt n"
proof (rule ccontr)
  assume "\<not> isqrt m \<le> isqrt n"
  then have less: "isqrt n + 1 \<le> isqrt m" by simp
  then have "0 < m" using isqrt_nonneg [of n] by (cases "m \<le> 0") (auto simp: isqrt_def)
  have "(isqrt n + 1) * (isqrt n + 1) \<le> isqrt m * isqrt m"
    using less isqrt_nonneg [of n] by (intro mult_mono) auto
  also have "\<dots> \<le> m" using \<open>0 < m\<close> by (intro isqrt_floor) simp
  also have "\<dots> < (isqrt n + 1) * (isqrt n + 1)"
    using assms \<open>0 < m\<close> isqrt_floor(2) [of n] by linarith
  finally show False by simp
qed

section \<open>The range of the intermediate values\<close>

text \<open>
  The loop as the compiled code runs it: the sum \<open>y + n div y\<close> is checked against the range of 128 bits
  and an overflow traps (\<open>None\<close>). It never does.
\<close>

function newton_checked :: "nat \<Rightarrow> nat \<Rightarrow> nat \<Rightarrow> nat option" where
  "newton_checked n x y =
     (if y < x then if y = 0 \<or> y + n div y > u128_max then None else newton_checked n y ((y + n div y) div 2)
      else Some x)"
  by pat_completeness auto

termination
  by (relation "measure (\<lambda>(n, x, y). x)") auto

declare newton_checked.simps [simp del]

lemma newton_sum_in_range:
  assumes "n \<le> u128_max" and "0 < y" and "y \<le> n div 2 + n mod 2" and "n < (y + 1)\<^sup>2"
  shows "y + n div y \<le> u128_max"
proof (cases "y = 1")
  case True
  with assms(4) have "n < 4" by (simp add: power2_eq_square)
  with True show ?thesis by (simp add: u128_max_def)
next
  case False
  with assms(2) have "n div y \<le> n div 2" by (intro div_le_mono2) auto
  with assms(1,3) mult_div_mod_eq [of 2 n] show ?thesis by linarith
qed

lemma newton_checked_total:
  assumes "n \<le> u128_max" and "0 < n" and "0 < y" and "y \<le> n div 2 + n mod 2" and "n < (y + 1)\<^sup>2"
  shows "newton_checked n x y = Some (newton_loop n x y)"
  using assms
proof (induction n x y rule: newton_loop.induct)
  case (1 n x y)
  let ?z = "(y + n div y) div 2"
  have low: "n < (?z + 1)\<^sup>2" using "1.prems"(3) by (rule newton_step_lower)
  have pos: "0 < ?z"
  proof (rule ccontr)
    assume "\<not> 0 < ?z"
    with low "1.prems"(2) show False by simp
  qed
  have fits: "y + n div y \<le> u128_max"
    using "1.prems"(1,3,4,5) by (rule newton_sum_in_range)
  have half: "?z \<le> n div 2 + n mod 2"
  proof (cases "y = 1")
    case False
    with "1.prems"(3) have "n div y \<le> n div 2" by (intro div_le_mono2) auto
    with "1.prems"(4) show ?thesis by linarith
  qed presburger
  show ?case
  proof (cases "y < x")
    case True
    then show ?thesis
      using "1.IH" [OF True "1.prems"(1,2) pos half low] fits "1.prems"(3)
      by (subst newton_loop.simps, subst newton_checked.simps) simp
  next
    case False
    then show ?thesis by (subst newton_loop.simps, subst newton_checked.simps) simp
  qed
qed

lemma isqrt_u128_checked:
  assumes "0 < n" and "n \<le> u128_max"
  shows "newton_checked n n (n div 2 + n mod 2) = Some (isqrt_u128 n)"
proof -
  have half: "n \<le> 2 * (n div 2 + n mod 2)" by presburger
  have "n < (n div 2 + n mod 2 + 1)\<^sup>2"
    using half by (simp add: power2_eq_square)
  moreover have "0 < n div 2 + n mod 2" using half assms(1) by (cases "n div 2 + n mod 2 = 0") auto
  ultimately show ?thesis
    using assms by (subst newton_checked_total) (auto simp: isqrt_u128_def)
qed

text \<open>C30: The loop of the integer root ends for every positive 128-bit number without an overflow of its intermediate sums, and
  what it returns is the rounded-down square root.\<close>

theorem integer_root_exact:
  assumes "0 < n" and "n \<le> u128_max"
  shows "\<exists>r. newton_checked n n (n div 2 + n mod 2) = Some r \<and> isqrt_u128 n = r \<and> r\<^sup>2 \<le> n \<and> n < (r + 1)\<^sup>2"
  using isqrt_u128_checked [OF assms] isqrt_u128_floor [of n] by simp

theorem integer_root_exact_witness:
  "\<exists>r. newton_checked u128_max u128_max (u128_max div 2 + u128_max mod 2) = Some r \<and> isqrt_u128 u128_max = r \<and>
     r\<^sup>2 \<le> u128_max \<and> u128_max < (r + 1)\<^sup>2"
proof -
  have "0 < u128_max" by (simp add: u128_max_def)
  then show ?thesis using integer_root_exact [of u128_max] by simp
qed

end
