(* ===== verification/Governance_Types.thy ===== *)
theory Governance_Types
  imports Shared_State Outcome_Monad Integer_Root
begin

text \<open>
  The data of the governance contract (\<^verbatim>\<open>governance/src\<close>), module by module: the errors of \<^verbatim>\<open>errors.rs\<close> with their
  aliases, and the structures and enumerations that \<^verbatim>\<open>token.rs\<close>, \<^verbatim>\<open>distribution.rs\<close>, \<^verbatim>\<open>proposals.rs\<close>, \<^verbatim>\<open>proposal_deposit.rs\<close>,
  \<^verbatim>\<open>reputation.rs\<close>, \<^verbatim>\<open>timelock.rs\<close>, \<^verbatim>\<open>treasury.rs\<close>, \<^verbatim>\<open>committees.rs\<close>, \<^verbatim>\<open>conviction_voting.rs\<close>, \<^verbatim>\<open>quadratic_voting.rs\<close> and
  \<^verbatim>\<open>shadow_mode.rs\<close> store. A \<^verbatim>\<open>Map\<close> that the code enumerates, or whose entries are counted, is a sorted association
  list; a map that is only read and written by key is a partial function.
\<close>

type_synonym bytes = "8 word list"

section \<open>\<^verbatim>\<open>errors.rs\<close>\<close>

datatype governance_error =
    AlreadyInitialized | NotInitialized | Unauthorized | InvalidSupply | InvalidAmount | InvalidDuration
  | DuplicateSchedule | VestingScheduleNotFound | CliffNotReached | NothingToRelease | InsufficientBalance
  | InsufficientStakedBalance | ActiveVoteLock | BelowMinimumClaim | LiquidityPoolExhausted | DuplicateRecipient
  | ArithmeticOverflow | InvalidRewardConfig | InvalidMetadata | BudgetNotFound | BudgetExceeded
  | BudgetPeriodEnded | MissingAssetPrice | InvalidTreasuryConfig | InvalidCommitteeConfig | CommitteeNotFound
  | CommitteeTermEnded | CommitteeDecisionNotFound | CommitteeDecisionNotOpen | AlreadyVoted
  | NoCommitteeAuthority | CommitteeElectionNotFound | CommitteeElectionNotActive | NotCommitteeCandidate
  | CrossCommitteeRequestNotFound | CommitteeInactive | InvalidCommitteeAction | InvalidApprovalRating
  | InvalidGovernanceConfig | InvalidProposal | ProposalNotFound | ProposalNotActive | ProposalNotApproved
  | VotingNotStarted | VotingEnded | NoVotingPower | TimelockNotInitialized | ActionNotFound
  | InvalidTimelockConfig | ConvictionPoolNotFound

abbreviation ElectionQuorumNotMet :: governance_error where "ElectionQuorumNotMet \<equiv> InvalidCommitteeAction"
abbreviation InvalidElectionVote :: governance_error where "InvalidElectionVote \<equiv> InvalidCommitteeAction"
abbreviation BudgetApprovalRequired :: governance_error where "BudgetApprovalRequired \<equiv> BudgetNotFound"
abbreviation ApprovedCapExceeded :: governance_error where "ApprovedCapExceeded \<equiv> BudgetExceeded"
abbreviation GovernancePaused :: governance_error where "GovernancePaused \<equiv> Unauthorized"
abbreviation InvalidCalibrationConfig :: governance_error where "InvalidCalibrationConfig \<equiv> InvalidGovernanceConfig"
abbreviation IterationLimitExceeded :: governance_error where "IterationLimitExceeded \<equiv> InvalidCommitteeAction"
abbreviation DiscussionPeriodActive :: governance_error where "DiscussionPeriodActive \<equiv> VotingNotStarted"
abbreviation ProposalAlreadyWithdrawn :: governance_error where "ProposalAlreadyWithdrawn \<equiv> ProposalNotActive"
abbreviation InvalidDecayRate :: governance_error where "InvalidDecayRate \<equiv> InvalidGovernanceConfig"
abbreviation ProposalExpired :: governance_error where "ProposalExpired \<equiv> BudgetPeriodEnded"
abbreviation ProposalParameterOutOfRange :: governance_error where "ProposalParameterOutOfRange \<equiv> InvalidAmount"
abbreviation TimelockBypassBlocked :: governance_error where "TimelockBypassBlocked \<equiv> Unauthorized"

type_synonym 'a gresult = "governance_error + 'a"

section \<open>\<^verbatim>\<open>token.rs\<close> and \<^verbatim>\<open>distribution.rs\<close>\<close>

record governance_metadata =
  md_name :: string
  md_symbol :: string
  md_decimals :: nat
  md_total_supply :: int

record holder_balance =
  hb_holder :: address
  hb_balance :: int
  hb_staked :: int
  hb_voting_power :: int
  hb_total :: int

record holder_analytics =
  ha_total_holders :: nat
  ha_total_staked :: int
  ha_circulating_supply :: int
  ha_staking_ratio_bps :: int
  ha_concentration_gini_bps :: int
  ha_top_holders :: "holder_balance list"

datatype vesting_category = VestingTeam | VestingEarlyInvestors | VestingCustom

record distribution_recipients =
  dr_team :: address
  dr_early_investors :: address
  dr_community_rewards :: address
  dr_treasury :: address
  dr_public_sale :: address

record distribution_allocation =
  da_team :: int
  da_early_investors :: int
  da_community_rewards :: int
  da_liquidity_mining :: int
  da_treasury :: int
  da_public_sale :: int

record distribution_state =
  ds_allocation :: distribution_allocation
  ds_liquidity_reserved :: int
  ds_liquidity_claimed :: int
  ds_liquidity_reward_bps :: nat
  ds_min_claim_threshold :: int

record vesting_schedule =
  vs_beneficiary :: address
  vs_category :: vesting_category
  vs_total_amount :: int
  vs_released_amount :: int
  vs_start_time :: nat
  vs_cliff_seconds :: nat
  vs_duration_seconds :: nat

section \<open>\<^verbatim>\<open>proposals.rs\<close> and \<^verbatim>\<open>proposal_deposit.rs\<close>\<close>

datatype proposal_category = CategoryParameterChange | CategoryContractUpgrade | CategoryTreasuryTransfer
  | CategoryGeneral

record category_threshold =
  ct_quorum_bps :: nat
  ct_supermajority_bps :: nat

datatype proposal_type =
    ParameterChange string int int
  | TreasurySpend address int asset string
  | FeatureToggle string bool
  | ContractUpgrade string bytes
  | SignalProposal string
  | CustomProposal address

datatype gov_status = Pending | Active | Succeeded | Failed | Executed | Cancelled | Expired | Withdrawn

datatype vote_type = For | Against | Abstain

record vote =
  v_voter :: address
  v_vote_type :: vote_type
  v_voting_power :: int
  v_timestamp :: nat

record gov_proposal =
  gp_id :: nat
  gp_proposer :: address
  gp_type :: proposal_type
  gp_title :: string
  gp_description :: string
  gp_execution_payload :: bytes
  gp_voting_starts :: nat
  gp_voting_ends :: nat
  gp_votes_for :: int
  gp_votes_against :: int
  gp_votes_abstain :: int
  gp_status :: gov_status
  gp_voters :: "(address, vote) smap"
  gp_voter_list :: "address list"
  gp_executed_at :: "nat option"
  gp_discussion_ends_at :: nat
  gp_category :: proposal_category
  gp_use_quadratic_voting :: bool
  gp_quadratic_total_supply :: int
  gp_execution_deadline :: nat

record governance_config =
  gc_min_proposal_threshold :: int
  gc_voting_period :: nat
  gc_voting_delay :: nat
  gc_quorum_threshold :: nat
  gc_approval_threshold :: nat
  gc_execution_delay :: nat
  gc_discussion_duration :: nat

record proposal_statistics =
  pst_total :: nat
  pst_active :: nat
  pst_succeeded :: nat
  pst_failed :: nat
  pst_executed :: nat
  pst_avg_participation_rate :: nat
  pst_avg_approval_rate :: nat

record vote_delegation =
  vd_delegator :: address
  vd_delegate :: address
  vd_delegated_power :: int
  vd_active :: bool

record delegation_state =
  dl_delegations :: "(address, vote_delegation) smap"
  dl_delegators :: "address list"

record proposals_state =
  pp_proposals :: "(nat, gov_proposal) smap"
  pp_proposal_ids :: "nat list"
  pp_next_proposal_id :: nat

record simulation_effect =
  se_key :: string
  se_current :: string
  se_proposed :: string

record simulation_result =
  sr_success :: bool
  sr_error :: string
  sr_effects :: "simulation_effect list"

record execution_simulation_result =
  es_proposal_id :: nat
  es_timestamp :: nat
  es_would_succeed :: bool
  es_old_value :: int
  es_new_value :: int

record deposit_config =
  dc_amount :: int
  dc_min_participation_bps :: nat

section \<open>\<^verbatim>\<open>reputation.rs\<close>\<close>

datatype reputation_tier = Bronze | Silver | Gold | Platinum

datatype staleness_level = StaleAuto | StaleActive | StaleAging | StaleStale | StaleCritical

record reputation_config =
  rc_decay_enabled :: bool
  rc_stale_penalty_enabled :: bool
  rc_default_tier :: reputation_tier

record participation_history =
  ph_proposals_created :: nat
  ph_proposals_succeeded :: nat
  ph_votes_cast :: nat
  ph_votes_aligned_with_outcome :: nat
  ph_committee_memberships :: nat
  ph_committee_decisions_approved :: nat
  ph_delegations_received :: nat
  ph_total_tokens_delegated :: int

datatype badge = ActiveVoter nat | ProposalAuthor nat | CommitteeMember string | EarlyAdopter | TopDelegator
  | ConsistentParticipant nat

record governance_reputation =
  gr_user :: address
  gr_score :: nat
  gr_history :: participation_history
  gr_badges :: "badge list"
  gr_last_activity :: nat
  gr_decay_rate :: nat
  gr_tier :: reputation_tier
  gr_grace_override :: nat
  gr_staleness_override :: staleness_level

record reputation_state =
  rs_reputations :: "(address, governance_reputation) smap"
  rs_users :: "address list"

section \<open>\<^verbatim>\<open>timelock.rs\<close> and \<^verbatim>\<open>shadow_mode.rs\<close>\<close>

datatype timelock_action = ActTreasurySpend | ActParameterChange | ActContractUpgrade | ActEmergencyPause | ActCustom

record queued_action =
  qa_id :: nat
  qa_action_type :: timelock_action
  qa_proposal_id :: nat
  qa_execution_payload :: bytes
  qa_queued_at :: nat
  qa_execution_available :: nat
  qa_executed :: bool
  qa_cancelled :: bool

record timelock =
  tl_queued_actions :: "queued_action list"
  tl_delay_config :: "timelock_action \<Rightarrow> nat option"
  tl_min_delay :: nat
  tl_max_delay :: nat
  tl_guardian :: address
  tl_next_action_id :: nat

record timelock_analytics =
  ta_total_queued :: nat
  ta_total_executed :: nat
  ta_total_cancelled :: nat
  ta_avg_wait_time :: nat
  ta_actions_by_type :: "timelock_action \<Rightarrow> nat option"
  ta_cancellation_rate :: nat

record admin_timelock_entry =
  at_id :: nat
  at_action_type :: symbol
  at_caller :: address
  at_queued_at :: nat
  at_execution_available :: nat
  at_executed :: bool
  at_cancelled :: bool

record shadow_mode_state =
  sm_trial_ends_at :: nat
  sm_new_wasm_hash :: bytes
  sm_promoted :: bool

section \<open>\<^verbatim>\<open>treasury.rs\<close>\<close>

record budget_approval =
  ba_proposal_id :: nat
  ba_category :: string
  ba_approved_cap :: int
  ba_total_drawn :: int
  ba_approved_at :: nat

record budget =
  bg_category :: string
  bg_allocated :: int
  bg_spent :: int
  bg_remaining :: int
  bg_spend_limit :: int
  bg_period_start :: nat
  bg_period_end :: nat
  bg_auto_renew :: bool

record recurring_payment =
  rp_id :: nat
  rp_recipient :: address
  rp_amount :: int
  rp_asset :: asset
  rp_frequency :: nat
  rp_category :: string
  rp_purpose :: string
  rp_approved_by_proposal :: "nat option"
  rp_last_payment :: nat
  rp_end_date :: "nat option"
  rp_active :: bool

record treasury_spend =
  ts_id :: nat
  ts_recipient :: address
  ts_amount :: int
  ts_asset :: asset
  ts_category :: string
  ts_purpose :: string
  ts_approved_by_proposal :: "nat option"
  ts_executed_at :: nat

record treasury =
  tr_assets :: "asset \<Rightarrow> int option"
  tr_tracked_assets :: "asset list"
  tr_total_value_usd :: int
  tr_budgets :: "string \<Rightarrow> budget option"
  tr_budget_categories :: "string list"
  tr_approved_budgets :: "string \<Rightarrow> budget_approval option"
  tr_recurring_payments :: "recurring_payment list"
  tr_spending_history :: "treasury_spend list"
  tr_rebalance_targets :: "asset \<Rightarrow> int option"
  tr_last_rebalance :: nat
  tr_next_recurring_payment_id :: nat
  tr_next_spend_id :: nat

record budget_report =
  br_category :: string
  br_allocated :: int
  br_spent :: int
  br_remaining :: int
  br_spend_limit :: int
  br_utilization_bps :: int

record treasury_report =
  tp_total_assets :: nat
  tp_total_value_usd :: int
  tp_active_budgets :: nat
  tp_active_recurring_payments :: nat
  tp_total_spends :: nat
  tp_total_spent :: int
  tp_monthly_burn_rate :: int
  tp_runway_months :: nat
  tp_last_rebalance :: nat
  tp_budgets :: "budget_report list"

record rebalance_action =
  ra_asset :: asset
  ra_current_value_usd :: int
  ra_target_value_usd :: int
  ra_delta_value_usd :: int
  ra_target_bps :: int

record asset_allocation =
  aa_asset :: asset
  aa_amount :: int
  aa_value_usd :: int
  aa_concentration_bps :: int

record treasury_diversification =
  td_allocations :: "asset_allocation list"
  td_largest_holding_bps :: int
  td_largest_asset :: asset
  td_total_value_usd :: int

section \<open>\<^verbatim>\<open>committees.rs\<close>\<close>

datatype authority =
    AuthTreasurySpend int string
  | AuthParameterAdjustment "string list" nat
  | AuthGrantApproval int
  | AuthEmergencyAction "string list"
  | AuthVeto "string list"

record spend_action =
  sa_recipient :: address
  sa_amount :: int
  sa_asset :: asset
  sa_category :: string
  sa_purpose :: string

datatype committee_action =
    DoTreasurySpend spend_action
  | DoRewardConfigUpdate nat int
  | DoGrantApproval spend_action
  | DoEmergencyAction string string
  | DoVeto string string

datatype decision_status = DecisionVoting | DecisionApproved | DecisionRejected | DecisionExecuted
  | DecisionOverridden

record committee_decision =
  cd_id :: nat
  cd_proposal :: string
  cd_votes_for :: nat
  cd_votes_against :: nat
  cd_votes_abstain :: nat
  cd_status :: decision_status
  cd_executed_at :: "nat option"
  cd_proposed_at :: nat
  cd_action :: committee_action
  cd_votes :: "(address, vote_type) smap"

record performance_metrics =
  pm_total_decisions :: nat
  pm_decisions_executed :: nat
  pm_avg_decision_time :: nat
  pm_community_approval_rating :: nat
  pm_overridden_decisions :: nat

record committee =
  cm_id :: nat
  cm_name :: string
  cm_description :: string
  cm_members :: "address list"
  cm_chair :: address
  cm_max_members :: nat
  cm_authorities :: "authority list"
  cm_formation_date :: nat
  cm_term_end :: "nat option"
  cm_decisions :: "committee_decision list"
  cm_metrics :: performance_metrics
  cm_active :: bool
  cm_dissolved_at :: "nat option"

record committee_election =
  ce_committee_id :: nat
  ce_candidates :: "address list"
  ce_votes :: "(address, address) smap"
  ce_start :: nat
  ce_end :: nat
  ce_positions_available :: nat
  ce_min_participation :: nat
  ce_quorum_stake_threshold :: int

datatype election_status = ElectionSucceeded | FailedQuorumParticipation | FailedQuorumStake
  | FailedInsufficientWinners | ElectionPending

record election_result =
  el_status :: election_status
  el_winners :: "address list"
  el_valid_votes :: nat
  el_total_stake_weight :: int
  el_rejected_votes :: nat

record committee_report =
  crp_committee_id :: nat
  crp_name :: string
  crp_members_count :: nat
  crp_days_active :: nat
  crp_total_decisions :: nat
  crp_decisions_per_month :: nat
  crp_execution_rate :: nat
  crp_avg_decision_time :: nat
  crp_community_approval :: nat
  crp_overridden_count :: nat
  crp_active :: bool

datatype cross_committee_status = CrossPending | CrossApproved

record cross_committee_request =
  cr_id :: nat
  cr_requesting_committee :: nat
  cr_approving_committees :: "nat list"
  cr_proposal :: string
  cr_approvals :: "(nat, nat) smap"
  cr_status :: cross_committee_status

record committees_state =
  co_committees :: "(nat, committee) smap"
  co_committee_ids :: "nat list"
  co_elections :: "(nat, committee_election) smap"
  co_cross_requests :: "(nat, cross_committee_request) smap"
  co_next_committee_id :: nat
  co_next_decision_id :: nat
  co_next_cross_req_id :: nat

section \<open>\<^verbatim>\<open>conviction_voting.rs\<close>\<close>

record conviction_calibration =
  cc_penalty_threshold_days :: nat
  cc_penalty_multiplier :: nat
  cc_reward_bonus_pct :: nat
  cc_max_conviction_cap :: int
  cc_decay_rate_bps :: nat

datatype conviction_status = ConvictionActive | ConvictionFunded | ConvictionCancelled | ConvictionExpired

record conviction_vote =
  cv_voter :: address
  cv_tokens_committed :: int
  cv_vote_started :: nat
  cv_last_update :: nat
  cv_current_conviction :: int

record conviction_proposal =
  cp_id :: nat
  cp_proposer :: address
  cp_title :: string
  cp_requested_amount :: int
  cp_beneficiary :: address
  cp_conviction_accumulated :: int
  cp_conviction_threshold :: int
  cp_status :: conviction_status
  cp_votes :: "(address, conviction_vote) smap"
  cp_voters :: "address list"
  cp_funding_granted :: int

record conviction_pool =
  pl_id :: nat
  pl_funding_amount :: int
  pl_refill_rate :: int
  pl_refill_period :: nat
  pl_proposals :: "(nat, conviction_proposal) smap"
  pl_proposal_ids :: "nat list"
  pl_total_conviction :: int
  pl_last_refill :: nat

record conviction_state =
  cs_pools :: "(nat, conviction_pool) smap"
  cs_pool_ids :: "nat list"
  cs_next_pool_id :: nat
  cs_next_proposal_id :: nat

record conviction_analytics =
  ca_proposal_id :: nat
  ca_total_voters :: nat
  ca_total_tokens_committed :: int
  ca_current_conviction :: int
  ca_conviction_threshold :: int
  ca_progress_pct :: nat
  ca_avg_vote_age_days :: nat
  ca_estimated_funding_time :: "nat option"

section \<open>\<^verbatim>\<open>quadratic_voting.rs\<close>\<close>

record quadratic_voting_config =
  qc_enabled :: bool
  qc_vote_credits_per_token :: nat
  qc_max_credits_per_user :: int
  qc_sybil_resistance_enabled :: bool

record vote_credits =
  vc_user :: address
  vc_total_credits :: int
  vc_used_credits :: int
  vc_available_credits :: int
  vc_proposals_voted :: "nat \<Rightarrow> int option"

record quadratic_vote =
  qv_voter :: address
  qv_votes_allocated :: int
  qv_credits_spent :: int
  qv_vote_type :: vote_type

datatype verification_method = BrightID | WorldID | GitcoinPassport | VerificationCustom

record identity_verification =
  iv_user :: address
  iv_verified :: bool
  iv_method :: verification_method
  iv_verified_at :: nat

record voting_outcome =
  vo_votes_for :: int
  vo_votes_against :: int
  vo_is_for_winning :: bool
  vo_margin :: int

record voting_comparison =
  vcm_linear :: voting_outcome
  vcm_quadratic :: voting_outcome
  vcm_gini_linear :: nat
  vcm_gini_quadratic :: nat
  vcm_fairness_improvement :: int

section \<open>\<^verbatim>\<open>shared/src/capabilities.rs\<close> and \<^verbatim>\<open>access_control.rs\<close>\<close>

datatype capability = CapPause | CapUpgrade | CapTreasury | CapParameterChange | CapEmergency | CapSuperAdmin

datatype role = RoleNone | RoleViewer | RoleModerator | RoleAdmin

end
