(* ===== verification/Governance_State.thy ===== *)
theory Governance_State
  imports Governance_Types
begin

text \<open>
  The storage of the governance contract and the helpers at the end of \<^verbatim>\<open>governance/src/lib.rs\<close> through which every
  module reads and writes it. The record has a field for each key of \<^verbatim>\<open>StorageKey\<close>, \<^verbatim>\<open>DepositKey\<close>, \<^verbatim>\<open>QVStorageKey\<close> and
  \<^verbatim>\<open>CapabilityStorageKey\<close>, in groups: the token ledger, the ballot, and the rest. Maps that the code reads with an
  empty default are empty when absent. Pending rewards, vesting schedules and vote locks exist twice, in
  persistent storage and, as written by \<^verbatim>\<open>initialize\<close>, in instance storage.
\<close>

named_theorems gov_defs "unfolding rules of the storage accessors of the governance contract"

section \<open>Storage\<close>

record token_store =
  tk_metadata :: "governance_metadata option"
  tk_balances :: "(address, int) smap"
  tk_staked_balances :: "(address, int) smap"
  tk_pending_rewards :: "(address, int) smap option"
  tk_pending_rewards_instance :: "(address, int) smap option"
  tk_vesting_schedules :: "(address, vesting_schedule) smap option"
  tk_vesting_schedules_instance :: "(address, vesting_schedule) smap option"
  tk_vote_locks :: "(address, nat) smap option"
  tk_vote_locks_instance :: "(address, nat) smap option"
  tk_holders :: "address list"
  tk_distribution_state :: "distribution_state option"

record ballot_store =
  bk_governance_config :: "governance_config option"
  bk_proposals_state :: "proposals_state option"
  bk_delegations :: "delegation_state option"
  bk_vote_snapshots :: "nat \<Rightarrow> (address, int) smap"
  bk_category_thresholds :: "nat \<Rightarrow> category_threshold option"
  bk_deposit_config :: "deposit_config option"
  bk_locked_deposit :: "nat \<Rightarrow> address option"
  bk_treasury_address :: "address option"
  bk_parameters :: "string \<Rightarrow> int option"
  bk_features :: "string \<Rightarrow> bool option"
  bk_upgrades :: "string \<Rightarrow> bytes option"
  bk_vote_records :: "address \<Rightarrow> nat \<Rightarrow> vote_type option"
  bk_reputation_state :: "reputation_state option"
  bk_reputation_config :: "reputation_config option"

record quadratic_store =
  qk_config :: "quadratic_voting_config option"
  qk_credits :: "address \<Rightarrow> vote_credits option"
  qk_vote :: "nat \<Rightarrow> address \<Rightarrow> quadratic_vote option"
  qk_proposal_voters :: "nat \<Rightarrow> address list"
  qk_identity :: "address \<Rightarrow> identity_verification option"

record 'w governance = shared_store +
  gk_initialized :: "bool option"
  gk_admin :: "address option"
  gk_pending_admin :: "address option"
  gk_guardian :: "address option"
  gk_token :: token_store
  gk_ballot :: ballot_store
  gk_quadratic :: quadratic_store
  gk_treasury :: "treasury option"
  gk_committees :: "committees_state option"
  gk_timelock :: "timelock option"
  gk_admin_pending :: "admin_timelock_entry list"
  gk_enforce_admin_timelock :: "bool option"
  gk_conviction_state :: "conviction_state option"
  gk_conviction_calibration :: "conviction_calibration option"
  gk_shadow_mode :: "shadow_mode_state option"
  gk_pause_targets :: "address list"
  gk_storage_version :: "nat option"
  gk_migration_in_progress :: "bool option"
  gk_capability :: "capability \<Rightarrow> address \<Rightarrow> bool option"
  gk_role :: "address \<Rightarrow> role option"
  gk_outside :: 'w

type_synonym ('w, 'a) gcall = "(governance_error, 'a) outcome \<times> 'w governance"

text \<open>The storage of a contract that was deployed and not called yet.\<close>

definition deployed_token :: token_store where
  "deployed_token =
     \<lparr>tk_metadata = None, tk_balances = [], tk_staked_balances = [], tk_pending_rewards = None,
      tk_pending_rewards_instance = None, tk_vesting_schedules = None, tk_vesting_schedules_instance = None,
      tk_vote_locks = None, tk_vote_locks_instance = None, tk_holders = [], tk_distribution_state = None\<rparr>"

definition deployed_ballot :: ballot_store where
  "deployed_ballot =
     \<lparr>bk_governance_config = None, bk_proposals_state = None, bk_delegations = None, bk_vote_snapshots = (\<lambda>_. []),
      bk_category_thresholds = (\<lambda>_. None), bk_deposit_config = None, bk_locked_deposit = (\<lambda>_. None),
      bk_treasury_address = None, bk_parameters = (\<lambda>_. None), bk_features = (\<lambda>_. None), bk_upgrades = (\<lambda>_. None),
      bk_vote_records = (\<lambda>_ _. None), bk_reputation_state = None, bk_reputation_config = None\<rparr>"

definition deployed_quadratic :: quadratic_store where
  "deployed_quadratic =
     \<lparr>qk_config = None, qk_credits = (\<lambda>_. None), qk_vote = (\<lambda>_ _. None), qk_proposal_voters = (\<lambda>_. []),
      qk_identity = (\<lambda>_. None)\<rparr>"

definition deployed :: "'w \<Rightarrow> 'w governance" where
  "deployed w =
     \<lparr>k_initialized = None, k_paused = None, k_scoped_paused = (\<lambda>_. None), k_shared_lock = None,
      k_contract_version = None, k_ms_config = None, k_ms_next_id = None, k_ms_proposals = [],
      k_rl_config = (\<lambda>_. None), k_rl_first_action = [], k_rl_window = (\<lambda>_. []), event_log = [],
      gk_initialized = None, gk_admin = None, gk_pending_admin = None, gk_guardian = None,
      gk_token = deployed_token, gk_ballot = deployed_ballot, gk_quadratic = deployed_quadratic,
      gk_treasury = None, gk_committees = None, gk_timelock = None, gk_admin_pending = [],
      gk_enforce_admin_timelock = None, gk_conviction_state = None, gk_conviction_calibration = None,
      gk_shadow_mode = None, gk_pause_targets = [], gk_storage_version = None, gk_migration_in_progress = None,
      gk_capability = (\<lambda>_ _. None), gk_role = (\<lambda>_. None), gk_outside = w\<rparr>"

lemmas deployed_defs = deployed_def deployed_token_def deployed_ballot_def deployed_quadratic_def

section \<open>Arithmetic\<close>

definition gov_checked_add :: "int \<Rightarrow> int \<Rightarrow> int gresult" where
  "gov_checked_add l r = ok_or ArithmeticOverflow (checked_add l r)"

definition gov_checked_sub :: "int \<Rightarrow> int \<Rightarrow> int gresult" where
  "gov_checked_sub l r = ok_or ArithmeticOverflow (checked_sub l r)"

definition gov_checked_mul :: "int \<Rightarrow> int \<Rightarrow> int gresult" where
  "gov_checked_mul l r = ok_or ArithmeticOverflow (checked_mul l r)"

definition gov_checked_div :: "int \<Rightarrow> int \<Rightarrow> int gresult" where
  "gov_checked_div l r = ok_or ArithmeticOverflow (checked_div_i128 l r)"

definition saturating_mul :: "int \<Rightarrow> int \<Rightarrow> int" where
  "saturating_mul a b = sat_i128 (a * b)"

lemma gov_checked_Inr [simp]:
  "gov_checked_add l r = Inr x \<longleftrightarrow> in_i128 (l + r) \<and> x = l + r"
  "gov_checked_sub l r = Inr x \<longleftrightarrow> in_i128 (l - r) \<and> x = l - r"
  "gov_checked_mul l r = Inr x \<longleftrightarrow> in_i128 (l * r) \<and> x = l * r"
  "gov_checked_div l r = Inr x \<longleftrightarrow> r \<noteq> 0 \<and> in_i128 (tdiv l r) \<and> x = tdiv l r"
  by (auto simp: gov_checked_add_def gov_checked_sub_def gov_checked_mul_def gov_checked_div_def
      checked_div_i128_def run_iff)

lemma gov_checked_Inl [simp]:
  "gov_checked_add l r = Inl er \<longleftrightarrow> \<not> in_i128 (l + r) \<and> er = ArithmeticOverflow"
  "gov_checked_sub l r = Inl er \<longleftrightarrow> \<not> in_i128 (l - r) \<and> er = ArithmeticOverflow"
  "gov_checked_mul l r = Inl er \<longleftrightarrow> \<not> in_i128 (l * r) \<and> er = ArithmeticOverflow"
  by (auto simp: gov_checked_add_def gov_checked_sub_def gov_checked_mul_def ok_or_def checked_add_def
      checked_sub_def checked_mul_def split: option.splits)

text \<open>The rules that evaluate the arithmetic on numerals.\<close>

lemmas gov_arith_eval =
  gov_checked_add_def gov_checked_sub_def gov_checked_mul_def gov_checked_div_def checked_add_def checked_sub_def
  checked_mul_def checked_div_i128_def checked_i128_def in_i128_def i128_min_def i128_max_def sat_add_u64_def
  u64_max_def saturating_mul_def sat_i128_def

section \<open>Guards\<close>

definition gov_is_initialized :: "'w governance \<Rightarrow> bool" where
  "gov_is_initialized s = get_or False (gk_initialized s)"

definition require_initialized :: "'w governance \<Rightarrow> unit gresult" where
  "require_initialized s = (if gov_is_initialized s then Inr () else Inl NotInitialized)"

definition gov_require_not_paused :: "'w governance \<Rightarrow> unit gresult" where
  "gov_require_not_paused s = (case require_not_paused s of Inl _ \<Rightarrow> Inl GovernancePaused | Inr _ \<Rightarrow> Inr ())"

definition require_admin_identity :: "address \<Rightarrow> 'w governance \<Rightarrow> unit gresult" where
  "require_admin_identity caller s =
     bind_sum (require_initialized s) (\<lambda>_.
     bind_sum (ok_or NotInitialized (gk_admin s)) (\<lambda>admin.
       if admin \<noteq> caller then Inl Unauthorized else Inr ()))"

definition gov_require_admin ::
  "env \<Rightarrow> address \<Rightarrow> (env \<Rightarrow> 'w governance \<Rightarrow> ('w, 'a) gcall) \<Rightarrow> 'w governance \<Rightarrow> ('w, 'a) gcall" where
  "gov_require_admin e caller f s =
     attempt (require_initialized s) s (\<lambda>_.
     with_auth e caller (\<lambda>e s. attempt (require_admin_identity caller s) s (\<lambda>_. f e s)) s)"

definition admin_timelock_enforced :: "'w governance \<Rightarrow> bool" where
  "admin_timelock_enforced s = get_or False (gk_enforce_admin_timelock s)"

definition require_no_timelock_bypass :: "'w governance \<Rightarrow> unit gresult" where
  "require_no_timelock_bypass s = (if admin_timelock_enforced s then Inl TimelockBypassBlocked else Inr ())"

definition get_role :: "address \<Rightarrow> 'w governance \<Rightarrow> role" where
  "get_role a s = get_or RoleNone (gk_role s a)"

definition has_capability :: "address \<Rightarrow> capability \<Rightarrow> 'w governance \<Rightarrow> bool" where
  "has_capability a cap s \<longleftrightarrow>
     get_or False (gk_capability s CapSuperAdmin a)
     \<or> (cap \<noteq> CapSuperAdmin \<and> get_role a s = RoleAdmin)
     \<or> get_or False (gk_capability s cap a)"

definition list_capabilities :: "address \<Rightarrow> 'w governance \<Rightarrow> capability list" where
  "list_capabilities a s =
     filter (\<lambda>cap. has_capability a cap s)
       [CapPause, CapUpgrade, CapTreasury, CapParameterChange, CapEmergency, CapSuperAdmin]"

definition require_capability ::
  "env \<Rightarrow> address \<Rightarrow> capability \<Rightarrow> (env \<Rightarrow> 'w governance \<Rightarrow> ('w, 'a) gcall) \<Rightarrow> 'w governance \<Rightarrow> ('w, 'a) gcall" where
  "require_capability e caller cap f s =
     attempt (require_initialized s) s (\<lambda>_.
     with_auth e caller (\<lambda>e s.
       if has_capability caller cap s then f e s
       else attempt (ok_or NotInitialized (gk_admin s)) s (\<lambda>admin.
              if admin = caller then f e s else (Err Unauthorized, s))) s)"

text \<open>The shared module discards the result of its own guard, so its two setters are unconditional.\<close>

definition grant_capability :: "address \<Rightarrow> address \<Rightarrow> capability \<Rightarrow> 'w governance \<Rightarrow> 'w governance" where
  "grant_capability caller a cap s = s\<lparr>gk_capability := (gk_capability s)(cap := (gk_capability s cap)(a := Some True))\<rparr>"

definition revoke_capability :: "address \<Rightarrow> address \<Rightarrow> capability \<Rightarrow> 'w governance \<Rightarrow> 'w governance" where
  "revoke_capability caller a cap s = s\<lparr>gk_capability := (gk_capability s)(cap := (gk_capability s cap)(a := None))\<rparr>"

lemma gov_guards_Inr [simp]:
  "require_initialized s = Inr u \<longleftrightarrow> gov_is_initialized s"
  "gov_require_not_paused s = Inr u \<longleftrightarrow> \<not> is_paused s"
  "require_no_timelock_bypass s = Inr u \<longleftrightarrow> \<not> admin_timelock_enforced s"
  "require_admin_identity caller s = Inr u \<longleftrightarrow> gov_is_initialized s \<and> gk_admin s = Some caller"
  by (auto simp: require_initialized_def gov_require_not_paused_def require_not_paused_def
      require_no_timelock_bypass_def require_admin_identity_def run_iff split: if_splits)

lemmas gov_guard_eval =
  with_auth_def require_initialized_def gov_is_initialized_def gov_require_not_paused_def require_not_paused_def
  is_paused_def require_no_timelock_bypass_def admin_timelock_enforced_def require_admin_identity_def

lemma gov_require_admin_Ok [run_iff]:
  "gov_require_admin e caller f s = (Ok b, s') \<longleftrightarrow>
     gov_is_initialized s \<and> has_auth e caller \<and> gk_admin s = Some caller \<and> f (consume_auth caller e) s = (Ok b, s')"
  by (auto simp: gov_require_admin_def run_iff)

lemma require_capability_Ok [run_iff]:
  "require_capability e caller cap f s = (Ok b, s') \<longleftrightarrow>
     gov_is_initialized s \<and> has_auth e caller \<and> (has_capability caller cap s \<or> gk_admin s = Some caller) \<and>
     f (consume_auth caller e) s = (Ok b, s')"
  by (auto simp: require_capability_def run_iff split: if_splits)

section \<open>The token ledger\<close>

definition metadata :: "'w governance \<Rightarrow> governance_metadata gresult" where
  "metadata s = ok_or NotInitialized (tk_metadata (gk_token s))"

definition get_total_supply :: "'w governance \<Rightarrow> int gresult" where
  "get_total_supply s = bind_sum (metadata s) (\<lambda>m. Inr (md_total_supply m))"

definition put_token :: "(token_store \<Rightarrow> token_store) \<Rightarrow> 'w governance \<Rightarrow> 'w governance" where
  "put_token f s = s\<lparr>gk_token := f (gk_token s)\<rparr>"

definition put_balances :: "(address, int) smap \<Rightarrow> 'w governance \<Rightarrow> 'w governance" where
  "put_balances m = put_token (\<lambda>t. t\<lparr>tk_balances := m\<rparr>)"

definition get_balance :: "address \<Rightarrow> 'w governance \<Rightarrow> int" where
  "get_balance holder s = get_or 0 (smap_get (tk_balances (gk_token s)) holder)"

definition get_holders :: "'w governance \<Rightarrow> address list" where
  "get_holders s = tk_holders (gk_token s)"

definition put_holders :: "address list \<Rightarrow> 'w governance \<Rightarrow> 'w governance" where
  "put_holders hs = put_token (\<lambda>t. t\<lparr>tk_holders := hs\<rparr>)"

definition track_holder :: "address \<Rightarrow> 'w governance \<Rightarrow> 'w governance" where
  "track_holder holder s =
     (if holder \<in> set (get_holders s) then s else put_holders (get_holders s @ [holder]) s)"

definition add_balance :: "address \<Rightarrow> int \<Rightarrow> 'w governance \<Rightarrow> ('w, unit) gcall" where
  "add_balance holder amount s =
     (if amount \<le> 0 then (Err InvalidAmount, s)
      else attempt (gov_checked_add (get_balance holder s) amount) s (\<lambda>updated.
             (Ok (), track_holder holder (put_balances (smap_set (tk_balances (gk_token s)) holder updated) s))))"

definition subtract_balance :: "address \<Rightarrow> int \<Rightarrow> 'w governance \<Rightarrow> ('w, unit) gcall" where
  "subtract_balance holder amount s =
     (if amount \<le> 0 then (Err InvalidAmount, s)
      else if get_balance holder s < amount then (Err InsufficientBalance, s)
      else attempt (gov_checked_sub (get_balance holder s) amount) s (\<lambda>updated.
             (Ok (), track_holder holder (put_balances (smap_set (tk_balances (gk_token s)) holder updated) s))))"

definition put_staked_balances :: "(address, int) smap \<Rightarrow> 'w governance \<Rightarrow> 'w governance" where
  "put_staked_balances m = put_token (\<lambda>t. t\<lparr>tk_staked_balances := m\<rparr>)"

definition get_staked_balance :: "address \<Rightarrow> 'w governance \<Rightarrow> int" where
  "get_staked_balance holder s = get_or 0 (smap_get (tk_staked_balances (gk_token s)) holder)"

definition add_staked_balance :: "address \<Rightarrow> int \<Rightarrow> 'w governance \<Rightarrow> ('w, unit) gcall" where
  "add_staked_balance holder amount s =
     (if amount \<le> 0 then (Err InvalidAmount, s)
      else attempt (gov_checked_add (get_staked_balance holder s) amount) s (\<lambda>updated.
             (Ok (), track_holder holder
                (put_staked_balances (smap_set (tk_staked_balances (gk_token s)) holder updated) s))))"

definition subtract_staked_balance :: "address \<Rightarrow> int \<Rightarrow> 'w governance \<Rightarrow> ('w, unit) gcall" where
  "subtract_staked_balance holder amount s =
     (if amount \<le> 0 then (Err InvalidAmount, s)
      else if get_staked_balance holder s < amount then (Err InsufficientStakedBalance, s)
      else attempt (gov_checked_sub (get_staked_balance holder s) amount) s (\<lambda>updated.
             (Ok (), track_holder holder
                (put_staked_balances (smap_set (tk_staked_balances (gk_token s)) holder updated) s))))"

definition persistent_or_instance :: "'a option \<Rightarrow> 'a option \<Rightarrow> 'a \<Rightarrow> 'a" where
  "persistent_or_instance p i d = (case p of Some x \<Rightarrow> x | None \<Rightarrow> get_or d i)"

definition get_pending_rewards :: "'w governance \<Rightarrow> (address, int) smap" where
  "get_pending_rewards s =
     persistent_or_instance (tk_pending_rewards (gk_token s)) (tk_pending_rewards_instance (gk_token s)) []"

definition put_pending_rewards :: "(address, int) smap \<Rightarrow> 'w governance \<Rightarrow> 'w governance" where
  "put_pending_rewards m = put_token (\<lambda>t. t\<lparr>tk_pending_rewards := Some m\<rparr>)"

definition get_vesting_schedules :: "'w governance \<Rightarrow> (address, vesting_schedule) smap" where
  "get_vesting_schedules s =
     persistent_or_instance (tk_vesting_schedules (gk_token s)) (tk_vesting_schedules_instance (gk_token s)) []"

definition put_vesting_schedules :: "(address, vesting_schedule) smap \<Rightarrow> 'w governance \<Rightarrow> 'w governance" where
  "put_vesting_schedules m = put_token (\<lambda>t. t\<lparr>tk_vesting_schedules := Some m\<rparr>)"

definition get_vote_locks :: "'w governance \<Rightarrow> (address, nat) smap" where
  "get_vote_locks s =
     persistent_or_instance (tk_vote_locks (gk_token s)) (tk_vote_locks_instance (gk_token s)) []"

definition put_vote_locks :: "(address, nat) smap \<Rightarrow> 'w governance \<Rightarrow> 'w governance" where
  "put_vote_locks m = put_token (\<lambda>t. t\<lparr>tk_vote_locks := Some m\<rparr>)"

definition get_distribution_state :: "'w governance \<Rightarrow> distribution_state gresult" where
  "get_distribution_state s = ok_or NotInitialized (tk_distribution_state (gk_token s))"

definition put_distribution_state :: "distribution_state \<Rightarrow> 'w governance \<Rightarrow> 'w governance" where
  "put_distribution_state d = put_token (\<lambda>t. t\<lparr>tk_distribution_state := Some d\<rparr>)"

section \<open>The ballot, the treasury and the committees\<close>

definition put_ballot :: "(ballot_store \<Rightarrow> ballot_store) \<Rightarrow> 'w governance \<Rightarrow> 'w governance" where
  "put_ballot f s = s\<lparr>gk_ballot := f (gk_ballot s)\<rparr>"

definition get_vote_snapshot :: "nat \<Rightarrow> address \<Rightarrow> 'w governance \<Rightarrow> int option" where
  "get_vote_snapshot pid voter s = smap_get (bk_vote_snapshots (gk_ballot s) pid) voter"

definition put_vote_snapshots :: "nat \<Rightarrow> (address, int) smap \<Rightarrow> 'w governance \<Rightarrow> 'w governance" where
  "put_vote_snapshots pid m = put_ballot (\<lambda>b. b\<lparr>bk_vote_snapshots := (bk_vote_snapshots b)(pid := m)\<rparr>)"

definition empty_treasury :: treasury where
  "empty_treasury =
     \<lparr>tr_assets = (\<lambda>_. None), tr_tracked_assets = [], tr_total_value_usd = 0, tr_budgets = (\<lambda>_. None),
      tr_budget_categories = [], tr_approved_budgets = (\<lambda>_. None), tr_recurring_payments = [],
      tr_spending_history = [], tr_rebalance_targets = (\<lambda>_. None), tr_last_rebalance = 0,
      tr_next_recurring_payment_id = 1, tr_next_spend_id = 1\<rparr>"

definition get_treasury :: "'w governance \<Rightarrow> treasury" where
  "get_treasury s = get_or empty_treasury (gk_treasury s)"

definition put_treasury :: "treasury \<Rightarrow> 'w governance \<Rightarrow> 'w governance" where
  "put_treasury t s = s\<lparr>gk_treasury := Some t\<rparr>"

definition empty_committees_state :: committees_state where
  "empty_committees_state =
     \<lparr>co_committees = [], co_committee_ids = [], co_elections = [], co_cross_requests = [],
      co_next_committee_id = 1, co_next_decision_id = 1, co_next_cross_req_id = 1\<rparr>"

definition get_committees_state :: "'w governance \<Rightarrow> committees_state" where
  "get_committees_state s = get_or empty_committees_state (gk_committees s)"

definition put_committees_state :: "committees_state \<Rightarrow> 'w governance \<Rightarrow> 'w governance" where
  "put_committees_state c s = s\<lparr>gk_committees := Some c\<rparr>"

section \<open>\<^verbatim>\<open>common/src/sanitize.rs\<close>\<close>

datatype sanitize_error = StringTooLong | ControlCharacterFound

definition sanitize_string :: "string \<Rightarrow> nat \<Rightarrow> sanitize_error + unit" where
  "sanitize_string v max_len =
     (if length v > max_len then Inl StringTooLong
      else if list_ex (\<lambda>c. (of_char c :: nat) < 32) v then Inl ControlCharacterFound
      else Inr ())"

text \<open>The map of the error that every caller in this contract applies.\<close>

definition sanitized :: "string \<Rightarrow> nat \<Rightarrow> unit gresult" where
  "sanitized v max_len = (case sanitize_string v max_len of Inl _ \<Rightarrow> Inl InvalidProposal | Inr _ \<Rightarrow> Inr ())"

lemma sanitized_Inr [simp]:
  "sanitized v n = Inr u \<longleftrightarrow> length v \<le> n \<and> (\<forall>c\<in>set v. 32 \<le> (of_char c :: nat))"
  by (auto simp: sanitized_def sanitize_string_def list_ex_iff linorder_not_less [symmetric] split: if_splits)

section \<open>Events\<close>

definition emit_admin_action :: "symbol \<Rightarrow> address \<Rightarrow> int \<Rightarrow> 'w governance \<Rightarrow> 'w governance" where
  "emit_admin_action action actor v s = publish s [VSym ''gov'', VSym action] (VVec [VAddr actor, VI128 v])"

definition emit_initialized_gov :: "address \<Rightarrow> string \<Rightarrow> string \<Rightarrow> int \<Rightarrow> 'w governance \<Rightarrow> 'w governance" where
  "emit_initialized_gov admin name symb supply s =
     publish s [VSym ''gov'', VSym ''init''] (VVec [VAddr admin, VStr name, VStr symb, VI128 supply])"

definition emit_distribution_initialized :: "distribution_state \<Rightarrow> 'w governance \<Rightarrow> 'w governance" where
  "emit_distribution_initialized d s =
     publish s [VSym ''gov'', VSym ''dist'']
       (VVec (map VI128 [da_team (ds_allocation d), da_early_investors (ds_allocation d),
          da_community_rewards (ds_allocation d), da_liquidity_mining (ds_allocation d),
          da_treasury (ds_allocation d), da_public_sale (ds_allocation d)]))"

definition emit_vesting_created :: "address \<Rightarrow> int \<Rightarrow> nat \<Rightarrow> nat \<Rightarrow> 'w governance \<Rightarrow> 'w governance" where
  "emit_vesting_created b amount cliff duration s =
     publish s [VSym ''gov'', VSym ''vestadd'']
       (VVec [VAddr b, VI128 amount, VI128 (int cliff), VI128 (int duration)])"

definition SCHEMA_VERSION_GOV :: nat where
  "SCHEMA_VERSION_GOV = 1"

definition emit_vesting_released :: "address \<Rightarrow> int \<Rightarrow> 'w governance \<Rightarrow> 'w governance" where
  "emit_vesting_released b amount s =
     publish s [VSym ''governance'', VSym ''vesting_released'']
       (VMap [(''schema_version'', VU32 SCHEMA_VERSION_GOV), (''beneficiary'', VAddr b), (''amount'', VI128 amount)])"

definition emit_stake_changed :: "address \<Rightarrow> int \<Rightarrow> bool \<Rightarrow> 'w governance \<Rightarrow> 'w governance" where
  "emit_stake_changed h amount is_stake s =
     publish s [VSym ''governance'', VSym ''stake_changed'']
       (VMap [(''schema_version'', VU32 SCHEMA_VERSION_GOV), (''holder'', VAddr h), (''amount'', VI128 amount),
          (''is_stake'', VBool is_stake)])"

definition emit_reward_accrued :: "address \<Rightarrow> int \<Rightarrow> int \<Rightarrow> 'w governance \<Rightarrow> 'w governance" where
  "emit_reward_accrued b volume reward s =
     publish s [VSym ''gov'', VSym ''accrue''] (VVec [VAddr b, VI128 volume, VI128 reward])"

definition emit_reward_claimed :: "address \<Rightarrow> int \<Rightarrow> 'w governance \<Rightarrow> 'w governance" where
  "emit_reward_claimed b amount s =
     publish s [VSym ''governance'', VSym ''reward_claimed'']
       (VMap [(''schema_version'', VU32 SCHEMA_VERSION_GOV), (''beneficiary'', VAddr b), (''amount'', VI128 amount)])"

section \<open>Facts about the accessors\<close>

lemmas [gov_defs] =
  put_token_def put_balances_def put_staked_balances_def put_pending_rewards_def put_vesting_schedules_def
  put_vote_locks_def put_distribution_state_def put_holders_def put_ballot_def put_vote_snapshots_def
  put_treasury_def put_committees_state_def publish_def emit_admin_action_def emit_initialized_gov_def
  emit_distribution_initialized_def emit_vesting_created_def emit_vesting_released_def emit_stake_changed_def
  emit_reward_accrued_def emit_reward_claimed_def

lemma track_holder_token [simp]:
  "tk_metadata (gk_token (track_holder h s)) = tk_metadata (gk_token s)"
  "tk_balances (gk_token (track_holder h s)) = tk_balances (gk_token s)"
  "tk_staked_balances (gk_token (track_holder h s)) = tk_staked_balances (gk_token s)"
  "tk_pending_rewards (gk_token (track_holder h s)) = tk_pending_rewards (gk_token s)"
  "tk_pending_rewards_instance (gk_token (track_holder h s)) = tk_pending_rewards_instance (gk_token s)"
  "tk_vesting_schedules (gk_token (track_holder h s)) = tk_vesting_schedules (gk_token s)"
  "tk_vesting_schedules_instance (gk_token (track_holder h s)) = tk_vesting_schedules_instance (gk_token s)"
  "tk_vote_locks (gk_token (track_holder h s)) = tk_vote_locks (gk_token s)"
  "tk_vote_locks_instance (gk_token (track_holder h s)) = tk_vote_locks_instance (gk_token s)"
  "tk_distribution_state (gk_token (track_holder h s)) = tk_distribution_state (gk_token s)"
  by (simp_all add: track_holder_def gov_defs)

lemma track_holder_rest [simp]:
  "gk_initialized (track_holder h s) = gk_initialized s" "gk_admin (track_holder h s) = gk_admin s"
  "gk_pending_admin (track_holder h s) = gk_pending_admin s" "gk_guardian (track_holder h s) = gk_guardian s"
  "gk_ballot (track_holder h s) = gk_ballot s" "gk_quadratic (track_holder h s) = gk_quadratic s"
  "gk_treasury (track_holder h s) = gk_treasury s" "gk_committees (track_holder h s) = gk_committees s"
  "gk_timelock (track_holder h s) = gk_timelock s" "gk_admin_pending (track_holder h s) = gk_admin_pending s"
  "gk_enforce_admin_timelock (track_holder h s) = gk_enforce_admin_timelock s"
  "gk_conviction_state (track_holder h s) = gk_conviction_state s"
  "gk_conviction_calibration (track_holder h s) = gk_conviction_calibration s"
  "k_paused (track_holder h s) = k_paused s" "event_log (track_holder h s) = event_log s"
  by (simp_all add: track_holder_def gov_defs)

lemma get_holders_track [simp]: "set (get_holders (track_holder h s)) = insert h (set (get_holders s))"
  by (auto simp: track_holder_def get_holders_def gov_defs)

lemma distinct_holders_track: "distinct (get_holders s) \<Longrightarrow> distinct (get_holders (track_holder h s))"
  by (auto simp: track_holder_def get_holders_def gov_defs)

lemma balance_calls_Ok [run_iff]:
  "add_balance h a s = (Ok u, s') \<longleftrightarrow>
     0 < a \<and> in_i128 (get_balance h s + a) \<and>
     s' = track_holder h (put_balances (smap_set (tk_balances (gk_token s)) h (get_balance h s + a)) s)"
  "subtract_balance h a s = (Ok u, s') \<longleftrightarrow>
     0 < a \<and> a \<le> get_balance h s \<and> in_i128 (get_balance h s - a) \<and>
     s' = track_holder h (put_balances (smap_set (tk_balances (gk_token s)) h (get_balance h s - a)) s)"
  "add_staked_balance h a s = (Ok u, s') \<longleftrightarrow>
     0 < a \<and> in_i128 (get_staked_balance h s + a) \<and>
     s' = track_holder h (put_staked_balances (smap_set (tk_staked_balances (gk_token s)) h (get_staked_balance h s + a)) s)"
  "subtract_staked_balance h a s = (Ok u, s') \<longleftrightarrow>
     0 < a \<and> a \<le> get_staked_balance h s \<and> in_i128 (get_staked_balance h s - a) \<and>
     s' = track_holder h (put_staked_balances (smap_set (tk_staked_balances (gk_token s)) h (get_staked_balance h s - a)) s)"
  by (auto simp: add_balance_def subtract_balance_def add_staked_balance_def subtract_staked_balance_def run_iff)

text \<open>A failed balance call leaves the state as it was; none of them traps.\<close>

lemma balance_calls_failed:
  "fst (add_balance h a s) \<noteq> Ok () \<Longrightarrow> snd (add_balance h a s) = s"
  "fst (subtract_balance h a s) \<noteq> Ok () \<Longrightarrow> snd (subtract_balance h a s) = s"
  by (auto simp: add_balance_def subtract_balance_def attempt_def split: sum.splits)

lemma add_balance_no_panic: "fst (add_balance h a s) \<noteq> Panic"
  by (auto simp: add_balance_def attempt_def split: sum.splits)

end
