(* ===== verification/Governance_Token.thy ===== *)
theory Governance_Token
  imports Governance_State Exchange_Sort
begin

text \<open>
  The token of the governance contract: the initial distribution, vesting schedules and the liquidity reserve
  (\<^verbatim>\<open>distribution.rs\<close>), staking, liquidity rewards and the holder analytics (\<^verbatim>\<open>token.rs\<close>), and the entry points of
  \<^verbatim>\<open>lib.rs\<close> that expose them.
\<close>

section \<open>\<^verbatim>\<open>distribution.rs\<close>\<close>

definition GOV_BPS_DENOMINATOR :: int where "GOV_BPS_DENOMINATOR = 10000"
definition TEAM_BPS :: int where "TEAM_BPS = 2000"
definition EARLY_INVESTOR_BPS :: int where "EARLY_INVESTOR_BPS = 1500"
definition COMMUNITY_REWARDS_BPS :: int where "COMMUNITY_REWARDS_BPS = 3000"
definition LIQUIDITY_MINING_BPS :: int where "LIQUIDITY_MINING_BPS = 2000"
definition TREASURY_BPS :: int where "TREASURY_BPS = 1000"
definition PUBLIC_SALE_BPS :: int where "PUBLIC_SALE_BPS = 500"
definition YEAR_SECONDS :: nat where "YEAR_SECONDS = 365 * 24 * 60 * 60"
definition TEAM_VESTING_DURATION :: nat where "TEAM_VESTING_DURATION = 4 * YEAR_SECONDS"
definition TEAM_CLIFF_DURATION :: nat where "TEAM_CLIFF_DURATION = YEAR_SECONDS"
definition EARLY_INVESTOR_VESTING_DURATION :: nat where "EARLY_INVESTOR_VESTING_DURATION = 2 * YEAR_SECONDS"
definition DEFAULT_LIQUIDITY_REWARD_BPS :: nat where "DEFAULT_LIQUIDITY_REWARD_BPS = 100"
definition DEFAULT_MIN_CLAIM_THRESHOLD :: int where "DEFAULT_MIN_CLAIM_THRESHOLD = 100"

lemmas distribution_constants =
  GOV_BPS_DENOMINATOR_def TEAM_BPS_def EARLY_INVESTOR_BPS_def COMMUNITY_REWARDS_BPS_def LIQUIDITY_MINING_BPS_def
  TREASURY_BPS_def PUBLIC_SALE_BPS_def YEAR_SECONDS_def TEAM_VESTING_DURATION_def TEAM_CLIFF_DURATION_def
  EARLY_INVESTOR_VESTING_DURATION_def DEFAULT_LIQUIDITY_REWARD_BPS_def DEFAULT_MIN_CLAIM_THRESHOLD_def

text \<open>\<^verbatim>\<open>checked_div(checked_mul(amount, bps)?, GOV_BPS_DENOMINATOR)\<close>\<close>

definition bps_share :: "int \<Rightarrow> int \<Rightarrow> int gresult" where
  "bps_share amount bps = bind_sum (gov_checked_mul amount bps) (\<lambda>x. gov_checked_div x GOV_BPS_DENOMINATOR)"

definition create_allocation :: "int \<Rightarrow> distribution_allocation gresult" where
  "create_allocation total_supply =
     bind_sum (bps_share total_supply TEAM_BPS) (\<lambda>team.
     bind_sum (bps_share total_supply EARLY_INVESTOR_BPS) (\<lambda>early_investors.
     bind_sum (bps_share total_supply COMMUNITY_REWARDS_BPS) (\<lambda>community_rewards.
     bind_sum (bps_share total_supply LIQUIDITY_MINING_BPS) (\<lambda>liquidity_mining.
     bind_sum (bps_share total_supply TREASURY_BPS) (\<lambda>treasury_part.
     bind_sum (bps_share total_supply PUBLIC_SALE_BPS) (\<lambda>public_sale.
     bind_sum (gov_checked_add team early_investors) (\<lambda>a.
     bind_sum (gov_checked_add community_rewards liquidity_mining) (\<lambda>b.
     bind_sum (gov_checked_add treasury_part public_sale) (\<lambda>c.
     bind_sum (gov_checked_add b c) (\<lambda>bc.
     bind_sum (gov_checked_add a bc) (\<lambda>total.
       if total \<noteq> total_supply then Inl InvalidSupply
       else Inr \<lparr>da_team = team, da_early_investors = early_investors, da_community_rewards = community_rewards,
                 da_liquidity_mining = liquidity_mining, da_treasury = treasury_part,
                 da_public_sale = public_sale\<rparr>)))))))))))"

fun repeats_recipient :: "address list \<Rightarrow> bool" where
  "repeats_recipient [] = False"
| "repeats_recipient (a # as) = (a \<in> set as \<or> repeats_recipient as)"

definition ensure_unique_recipients :: "distribution_recipients \<Rightarrow> unit gresult" where
  "ensure_unique_recipients r =
     (if repeats_recipient [dr_team r, dr_early_investors r, dr_community_rewards r, dr_treasury r, dr_public_sale r]
      then Inl DuplicateRecipient else Inr ())"

definition create_schedule :: "address \<Rightarrow> vesting_category \<Rightarrow> int \<Rightarrow> nat \<Rightarrow> nat \<Rightarrow> nat \<Rightarrow> 'w governance \<Rightarrow>
    ('w, unit) gcall" where
  "create_schedule beneficiary category total_amount start_time cliff_seconds duration_seconds s =
     (if total_amount \<le> 0 then (Err InvalidAmount, s)
      else if duration_seconds = 0 \<or> cliff_seconds > duration_seconds then (Err InvalidDuration, s)
      else if smap_has (get_vesting_schedules s) beneficiary then (Err DuplicateSchedule, s)
      else (Ok (), put_vesting_schedules (smap_set (get_vesting_schedules s) beneficiary
              \<lparr>vs_beneficiary = beneficiary, vs_category = category, vs_total_amount = total_amount,
               vs_released_amount = 0, vs_start_time = start_time, vs_cliff_seconds = cliff_seconds,
               vs_duration_seconds = duration_seconds\<rparr>) s))"

definition initialize_distribution :: "env \<Rightarrow> distribution_recipients \<Rightarrow> int \<Rightarrow> nat \<Rightarrow> int \<Rightarrow> 'w governance \<Rightarrow>
    ('w, distribution_state) gcall" where
  "initialize_distribution e recipients total_supply reward_bps min_claim_threshold s =
     (if reward_bps = 0 \<or> min_claim_threshold \<le> 0 then (Err InvalidRewardConfig, s)
      else attempt (ensure_unique_recipients recipients) s (\<lambda>_.
           attempt (create_allocation total_supply) s (\<lambda>allocation.
           and_then (add_balance (dr_community_rewards recipients) (da_community_rewards allocation) s) (\<lambda>_ s.
           and_then (add_balance (dr_treasury recipients) (da_treasury allocation) s) (\<lambda>_ s.
           and_then (add_balance (dr_public_sale recipients) (da_public_sale allocation) s) (\<lambda>_ s.
           and_then (create_schedule (dr_team recipients) VestingTeam (da_team allocation) (ledger_timestamp e)
                       TEAM_CLIFF_DURATION TEAM_VESTING_DURATION s) (\<lambda>_ s.
           and_then (create_schedule (dr_early_investors recipients) VestingEarlyInvestors
                       (da_early_investors allocation) (ledger_timestamp e) 0 EARLY_INVESTOR_VESTING_DURATION s) (\<lambda>_ s.
             let state = \<lparr>ds_allocation = allocation, ds_liquidity_reserved = 0, ds_liquidity_claimed = 0,
                          ds_liquidity_reward_bps = reward_bps, ds_min_claim_threshold = min_claim_threshold\<rparr>
             in (Ok state, put_distribution_state state s)))))))))"

definition get_schedule :: "address \<Rightarrow> 'w governance \<Rightarrow> vesting_schedule gresult" where
  "get_schedule beneficiary s = ok_or VestingScheduleNotFound (smap_get (get_vesting_schedules s) beneficiary)"

definition cliff_time :: "vesting_schedule \<Rightarrow> nat" where
  "cliff_time v = sat_add_u64 (vs_start_time v) (vs_cliff_seconds v)"

definition vested_amount :: "nat \<Rightarrow> vesting_schedule \<Rightarrow> int gresult" where
  "vested_amount now v =
     (if now \<ge> sat_add_u64 (vs_start_time v) (vs_duration_seconds v) \<or> vs_duration_seconds v = vs_cliff_seconds v
      then Inr (vs_total_amount v)
      else bind_sum (gov_checked_mul (vs_total_amount v) (int (now - cliff_time v)))
             (\<lambda>x. gov_checked_div x (int (vs_duration_seconds v - vs_cliff_seconds v))))"

definition releasable_of :: "nat \<Rightarrow> vesting_schedule \<Rightarrow> int gresult" where
  "releasable_of now v =
     (if now < cliff_time v then Inr 0
      else bind_sum (vested_amount now v) (\<lambda>vested. gov_checked_sub vested (vs_released_amount v)))"

definition releasable_amount :: "env \<Rightarrow> address \<Rightarrow> 'w governance \<Rightarrow> int gresult" where
  "releasable_amount e beneficiary s =
     bind_sum (get_schedule beneficiary s) (releasable_of (ledger_timestamp e))"

definition release_schedule_tokens :: "env \<Rightarrow> address \<Rightarrow> 'w governance \<Rightarrow> ('w, vesting_schedule \<times> int) gcall" where
  "release_schedule_tokens e beneficiary s =
     attempt (get_schedule beneficiary s) s (\<lambda>v.
       if ledger_timestamp e < cliff_time v then (Err CliffNotReached, s)
       else attempt (releasable_amount e beneficiary s) s (\<lambda>releasable.
         if releasable \<le> 0 then (Err NothingToRelease, s)
         else attempt (gov_checked_add (vs_released_amount v) releasable) s (\<lambda>released.
           let v' = v\<lparr>vs_released_amount := released\<rparr>;
               s1 = put_vesting_schedules (smap_set (get_vesting_schedules s) beneficiary v') s
           in and_then (add_balance beneficiary releasable s1) (\<lambda>_ s2. (Ok (v', releasable), s2)))))"

fun locked_loop :: "(address, vesting_schedule) smap \<Rightarrow> address list \<Rightarrow> int \<Rightarrow> int gresult" where
  "locked_loop schedules [] acc = Inr acc"
| "locked_loop schedules (h # hs) acc =
     (case smap_get schedules h of
        None \<Rightarrow> locked_loop schedules hs acc
      | Some v \<Rightarrow>
          bind_sum (gov_checked_sub (vs_total_amount v) (vs_released_amount v)) (\<lambda>d.
          bind_sum (gov_checked_add acc d) (locked_loop schedules hs)))"

definition locked_vesting_supply :: "'w governance \<Rightarrow> int gresult" where
  "locked_vesting_supply s = locked_loop (get_vesting_schedules s) (get_holders s) 0"

definition circulating_supply :: "'w governance \<Rightarrow> int gresult" where
  "circulating_supply s =
     bind_sum (locked_vesting_supply s) (\<lambda>locked.
     bind_sum (get_distribution_state s) (\<lambda>state.
     bind_sum (gov_checked_sub (da_liquidity_mining (ds_allocation state)) (ds_liquidity_claimed state)) (\<lambda>unclaimed.
     bind_sum (get_total_supply s) (\<lambda>supply.
     bind_sum (gov_checked_sub supply locked) (\<lambda>x. gov_checked_sub x unclaimed)))))"

definition reward_for_volume :: "int \<Rightarrow> 'w governance \<Rightarrow> int gresult" where
  "reward_for_volume volume s =
     (if volume \<le> 0 then Inl InvalidAmount
      else bind_sum (get_distribution_state s) (\<lambda>state. bps_share volume (int (ds_liquidity_reward_bps state))))"

definition reserve_liquidity_rewards :: "int \<Rightarrow> 'w governance \<Rightarrow> ('w, unit) gcall" where
  "reserve_liquidity_rewards amount s =
     (if amount \<le> 0 then (Err InvalidAmount, s)
      else attempt (get_distribution_state s) s (\<lambda>state.
           attempt (gov_checked_add (ds_liquidity_claimed state) (ds_liquidity_reserved state)) s (\<lambda>used.
           attempt (gov_checked_add used amount) s (\<lambda>next_used.
             if next_used > da_liquidity_mining (ds_allocation state) then (Err LiquidityPoolExhausted, s)
             else attempt (gov_checked_add (ds_liquidity_reserved state) amount) s (\<lambda>reserved.
                    (Ok (), put_distribution_state (state\<lparr>ds_liquidity_reserved := reserved\<rparr>) s))))))"

definition claim_reserved_liquidity_rewards :: "int \<Rightarrow> 'w governance \<Rightarrow> ('w, unit) gcall" where
  "claim_reserved_liquidity_rewards amount s =
     attempt (get_distribution_state s) s (\<lambda>state.
     attempt (gov_checked_sub (ds_liquidity_reserved state) amount) s (\<lambda>reserved.
     attempt (gov_checked_add (ds_liquidity_claimed state) amount) s (\<lambda>claimed.
       (Ok (), put_distribution_state
          (state\<lparr>ds_liquidity_reserved := reserved, ds_liquidity_claimed := claimed\<rparr>) s))))"

definition update_reward_config :: "nat \<Rightarrow> int \<Rightarrow> 'w governance \<Rightarrow> ('w, distribution_state) gcall" where
  "update_reward_config reward_bps min_claim_threshold s =
     (if reward_bps = 0 \<or> min_claim_threshold \<le> 0 then (Err InvalidRewardConfig, s)
      else attempt (get_distribution_state s) s (\<lambda>state.
             let state' = state\<lparr>ds_liquidity_reward_bps := reward_bps, ds_min_claim_threshold := min_claim_threshold\<rparr>
             in (Ok state', put_distribution_state state' s)))"

section \<open>\<^verbatim>\<open>token.rs\<close>\<close>

definition token_stake :: "address \<Rightarrow> int \<Rightarrow> 'w governance \<Rightarrow> ('w, unit) gcall" where
  "token_stake user amount s =
     attempt (require_initialized s) s (\<lambda>_.
       if amount \<le> 0 then (Err InvalidAmount, s)
       else and_then (subtract_balance user amount s) (\<lambda>_ s. add_staked_balance user amount s))"

definition token_unstake :: "address \<Rightarrow> int \<Rightarrow> 'w governance \<Rightarrow> ('w, unit) gcall" where
  "token_unstake user amount s =
     attempt (require_initialized s) s (\<lambda>_.
       if amount \<le> 0 then (Err InvalidAmount, s)
       else if get_or 0 (smap_get (get_vote_locks s) user) > 0 then (Err ActiveVoteLock, s)
       else and_then (subtract_staked_balance user amount s) (\<lambda>_ s. add_balance user amount s))"

definition token_accrue_liquidity_rewards :: "address \<Rightarrow> int \<Rightarrow> 'w governance \<Rightarrow> ('w, int) gcall" where
  "token_accrue_liquidity_rewards beneficiary volume s =
     attempt (require_initialized s) s (\<lambda>_.
     attempt (reward_for_volume volume s) s (\<lambda>reward.
       if reward \<le> 0 then (Err InvalidAmount, s)
       else and_then (reserve_liquidity_rewards reward s) (\<lambda>_ s.
         let rewards = get_pending_rewards s; current = get_or 0 (smap_get rewards beneficiary)
         in attempt (gov_checked_add current reward) s (\<lambda>updated.
              (Ok reward, track_holder beneficiary
                 (put_pending_rewards (smap_set rewards beneficiary updated) s))))))"

definition token_claim_liquidity_rewards :: "address \<Rightarrow> 'w governance \<Rightarrow> ('w, int) gcall" where
  "token_claim_liquidity_rewards beneficiary s =
     attempt (require_initialized s) s (\<lambda>_.
       let rewards = get_pending_rewards s; pending = get_or 0 (smap_get rewards beneficiary)
       in attempt (get_distribution_state s) s (\<lambda>state.
            if pending \<le> 0 then (Err NothingToRelease, s)
            else if pending < ds_min_claim_threshold state then (Err BelowMinimumClaim, s)
            else and_then (claim_reserved_liquidity_rewards pending
                             (put_pending_rewards (smap_set rewards beneficiary 0) s)) (\<lambda>_ s.
                 and_then (add_balance beneficiary pending s) (\<lambda>_ s. (Ok pending, s)))))"

definition token_set_vote_lock :: "address \<Rightarrow> nat \<Rightarrow> 'w governance \<Rightarrow> ('w, unit) gcall" where
  "token_set_vote_lock holder active_votes s =
     attempt (require_initialized s) s (\<lambda>_.
       (Ok (), track_holder holder (put_vote_locks (smap_set (get_vote_locks s) holder active_votes) s)))"

fun positions_loop :: "'w governance \<Rightarrow> address list \<Rightarrow> holder_balance list \<Rightarrow> int \<Rightarrow> int \<Rightarrow>
    (holder_balance list \<times> int \<times> int) gresult" where
  "positions_loop s [] positions total_staked total_supply = Inr (positions, total_staked, total_supply)"
| "positions_loop s (h # hs) positions total_staked total_supply =
     bind_sum (gov_checked_add (get_balance h s) (get_staked_balance h s)) (\<lambda>total.
       if total > 0 then
         bind_sum (gov_checked_add total_staked (get_staked_balance h s)) (\<lambda>total_staked'.
         bind_sum (gov_checked_add total_supply total) (\<lambda>total_supply'.
           positions_loop s hs
             (positions @ [\<lparr>hb_holder = h, hb_balance = get_balance h s, hb_staked = get_staked_balance h s,
                            hb_voting_power = get_staked_balance h s, hb_total = total\<rparr>])
             total_staked' total_supply'))
       else positions_loop s hs positions total_staked total_supply)"

definition sort_holders_desc :: "holder_balance list \<Rightarrow> holder_balance list" where
  "sort_holders_desc holders = exchange_rounds (\<lambda>h. - hb_total h) (length holders) holders"

definition sort_i128_asc :: "int list \<Rightarrow> int list" where
  "sort_i128_asc values = exchange_rounds (\<lambda>x. x) (length values) values"

fun weighted_loop :: "nat \<Rightarrow> int list \<Rightarrow> int \<Rightarrow> int gresult" where
  "weighted_loop i [] acc = Inr acc"
| "weighted_loop i (b # bs) acc =
     bind_sum (gov_checked_mul (int i + 1) b) (\<lambda>x.
     bind_sum (gov_checked_add acc x) (weighted_loop (i + 1) bs))"

definition gini_bps :: "holder_balance list \<Rightarrow> int \<Rightarrow> int gresult" where
  "gini_bps holders total_supply =
     (if length holders \<le> 1 \<or> total_supply \<le> 0 then Inr 0
      else let balances = sort_i128_asc (map hb_total holders); n = int (length balances)
           in bind_sum (weighted_loop 0 balances 0) (\<lambda>weighted_sum.
              bind_sum (gov_checked_mul 2 weighted_sum) (\<lambda>twice.
              bind_sum (gov_checked_mul (n + 1) total_supply) (\<lambda>scaled.
              bind_sum (gov_checked_sub twice scaled) (\<lambda>diff.
              bind_sum (gov_checked_mul diff GOV_BPS_DENOMINATOR) (\<lambda>numerator.
              bind_sum (gov_checked_mul n total_supply) (\<lambda>denominator.
                if denominator \<le> 0 then Inr 0
                else bind_sum (gov_checked_div numerator denominator) (\<lambda>v. Inr (if v < 0 then 0 else v)))))))))"

definition token_analytics :: "nat \<Rightarrow> 'w governance \<Rightarrow> holder_analytics gresult" where
  "token_analytics top_n s =
     bind_sum (require_initialized s) (\<lambda>_.
     bind_sum (positions_loop s (get_holders s) [] 0 0) (\<lambda>(positions, total_staked, total_holder_supply).
       let ranked = sort_holders_desc positions
       in bind_sum (circulating_supply s) (\<lambda>circulating.
          bind_sum (if circulating \<le> 0 then Inr 0
                    else bind_sum (gov_checked_mul total_staked GOV_BPS_DENOMINATOR) (\<lambda>x. gov_checked_div x circulating)) (\<lambda>ratio.
          bind_sum (gini_bps ranked total_holder_supply) (\<lambda>gini.
            Inr \<lparr>ha_total_holders = length ranked, ha_total_staked = total_staked,
                 ha_circulating_supply = circulating, ha_staking_ratio_bps = ratio,
                 ha_concentration_gini_bps = gini,
                 ha_top_holders = take top_n ranked\<rparr>)))))"

section \<open>Entry points\<close>

definition stake :: "env \<Rightarrow> address \<Rightarrow> int \<Rightarrow> 'w governance \<Rightarrow> ('w, unit) gcall" where
  "stake e user amount s =
     attempt (require_initialized s) s (\<lambda>_.
     attempt (gov_require_not_paused s) s (\<lambda>_.
     with_auth e user (\<lambda>e s.
       and_then (token_stake user amount s) (\<lambda>_ s. (Ok (), emit_stake_changed user amount True s))) s))"

definition unstake :: "env \<Rightarrow> address \<Rightarrow> int \<Rightarrow> 'w governance \<Rightarrow> ('w, unit) gcall" where
  "unstake e user amount s =
     attempt (require_initialized s) s (\<lambda>_.
     attempt (gov_require_not_paused s) s (\<lambda>_.
     with_auth e user (\<lambda>e s.
       and_then (token_unstake user amount s) (\<lambda>_ s. (Ok (), emit_stake_changed user amount False s))) s))"

definition set_vote_lock :: "env \<Rightarrow> address \<Rightarrow> address \<Rightarrow> nat \<Rightarrow> 'w governance \<Rightarrow> ('w, unit) gcall" where
  "set_vote_lock e admin holder active_votes =
     gov_require_admin e admin (\<lambda>e s.
       and_then (token_set_vote_lock holder active_votes s) (\<lambda>_ s.
         (Ok (), emit_admin_action ''votelock'' holder (int active_votes) s)))"

definition accrue_liquidity_rewards :: "env \<Rightarrow> address \<Rightarrow> address \<Rightarrow> int \<Rightarrow> 'w governance \<Rightarrow> ('w, int) gcall" where
  "accrue_liquidity_rewards e admin beneficiary volume =
     gov_require_admin e admin (\<lambda>e s.
       and_then (token_accrue_liquidity_rewards beneficiary volume s) (\<lambda>reward s.
         (Ok reward, emit_reward_accrued beneficiary volume reward s)))"

definition claim_liquidity_rewards :: "env \<Rightarrow> address \<Rightarrow> 'w governance \<Rightarrow> ('w, int) gcall" where
  "claim_liquidity_rewards e beneficiary s =
     attempt (require_initialized s) s (\<lambda>_.
     with_auth e beneficiary (\<lambda>e s.
       and_then (token_claim_liquidity_rewards beneficiary s) (\<lambda>amount s.
         (Ok amount, emit_reward_claimed beneficiary amount s))) s)"

definition set_liquidity_mining_config :: "env \<Rightarrow> address \<Rightarrow> nat \<Rightarrow> int \<Rightarrow> 'w governance \<Rightarrow>
    ('w, distribution_state) gcall" where
  "set_liquidity_mining_config e admin reward_bps min_claim_threshold =
     gov_require_admin e admin (\<lambda>e s.
       and_then (update_reward_config reward_bps min_claim_threshold s) (\<lambda>state s.
         (Ok state, emit_admin_action ''rewardcfg'' admin (int reward_bps) s)))"

text \<open>The part that the direct and the time-locked entry point share.\<close>

definition add_custom_schedule :: "address \<Rightarrow> int \<Rightarrow> nat \<Rightarrow> nat \<Rightarrow> nat \<Rightarrow> 'w governance \<Rightarrow> ('w, unit) gcall" where
  "add_custom_schedule beneficiary total_amount start_time cliff_seconds duration_seconds s =
     and_then (create_schedule beneficiary VestingCustom total_amount start_time cliff_seconds duration_seconds s) (\<lambda>_ s.
       (Ok (), emit_vesting_created beneficiary total_amount cliff_seconds duration_seconds
                 (track_holder beneficiary s)))"

definition create_vesting_schedule :: "env \<Rightarrow> address \<Rightarrow> address \<Rightarrow> int \<Rightarrow> nat \<Rightarrow> nat \<Rightarrow> nat \<Rightarrow> 'w governance \<Rightarrow>
    ('w, unit) gcall" where
  "create_vesting_schedule e admin beneficiary total_amount start_time cliff_seconds duration_seconds =
     gov_require_admin e admin (\<lambda>e s.
     attempt (require_no_timelock_bypass s) s (\<lambda>_.
       add_custom_schedule beneficiary total_amount start_time cliff_seconds duration_seconds s))"

definition release_vested_tokens :: "env \<Rightarrow> address \<Rightarrow> 'w governance \<Rightarrow> ('w, int) gcall" where
  "release_vested_tokens e beneficiary s =
     attempt (require_initialized s) s (\<lambda>_.
     with_auth e beneficiary (\<lambda>e s.
       and_then (release_schedule_tokens e beneficiary s) (\<lambda>(_, amount) s.
         (Ok amount, emit_vesting_released beneficiary amount s))) s)"

definition view :: "('w governance \<Rightarrow> 'a) \<Rightarrow> 'w governance \<Rightarrow> 'a gresult" where
  "view f s = bind_sum (require_initialized s) (\<lambda>_. Inr (f s))"

definition balance_of :: "address \<Rightarrow> 'w governance \<Rightarrow> int gresult" where
  "balance_of holder = view (get_balance holder)"

definition staked_balance :: "address \<Rightarrow> 'w governance \<Rightarrow> int gresult" where
  "staked_balance holder = view (get_staked_balance holder)"

definition gov_voting_power :: "address \<Rightarrow> 'w governance \<Rightarrow> int gresult" where
  "gov_voting_power holder = view (get_staked_balance holder)"

definition pending_rewards :: "address \<Rightarrow> 'w governance \<Rightarrow> int gresult" where
  "pending_rewards b = view (\<lambda>s. get_or 0 (smap_get (get_pending_rewards s) b))"

definition releasable_vested_amount :: "env \<Rightarrow> address \<Rightarrow> 'w governance \<Rightarrow> int gresult" where
  "releasable_vested_amount e b s = bind_sum (require_initialized s) (\<lambda>_. releasable_amount e b s)"

definition get_vesting_schedule :: "address \<Rightarrow> 'w governance \<Rightarrow> vesting_schedule gresult" where
  "get_vesting_schedule b s = bind_sum (require_initialized s) (\<lambda>_. get_schedule b s)"

definition distribution :: "'w governance \<Rightarrow> distribution_state gresult" where
  "distribution s = bind_sum (require_initialized s) (\<lambda>_. get_distribution_state s)"

definition get_metadata :: "'w governance \<Rightarrow> governance_metadata gresult" where
  "get_metadata s = bind_sum (require_initialized s) (\<lambda>_. metadata s)"

section \<open>The ledger invariant\<close>

text \<open>What is owed and what circulates: all balances, all stakes, everything not yet vested and the liquidity
  allocation that was not paid out.\<close>

definition schedules_of :: "token_store \<Rightarrow> (address, vesting_schedule) smap" where
  "schedules_of t = persistent_or_instance (tk_vesting_schedules t) (tk_vesting_schedules_instance t) []"

definition rewards_of :: "token_store \<Rightarrow> (address, int) smap" where
  "rewards_of t = persistent_or_instance (tk_pending_rewards t) (tk_pending_rewards_instance t) []"

definition unvested :: "vesting_schedule \<Rightarrow> int" where
  "unvested v = vs_total_amount v - vs_released_amount v"

definition unclaimed_liquidity :: "token_store \<Rightarrow> int" where
  "unclaimed_liquidity t =
     total_at (\<lambda>d. da_liquidity_mining (ds_allocation d) - ds_liquidity_claimed d) (tk_distribution_state t)"

definition gov_accounted :: "token_store \<Rightarrow> int" where
  "gov_accounted t =
     smap_total (\<lambda>x. x) (tk_balances t) + smap_total (\<lambda>x. x) (tk_staked_balances t) +
     smap_total unvested (schedules_of t) + unclaimed_liquidity t"

definition schedule_ok :: "vesting_schedule \<Rightarrow> bool" where
  "schedule_ok v \<longleftrightarrow>
     0 < vs_total_amount v \<and> in_i128 (vs_total_amount v) \<and> 0 \<le> vs_released_amount v \<and>
     vs_released_amount v \<le> vs_total_amount v \<and>
     0 < vs_duration_seconds v \<and> vs_cliff_seconds v \<le> vs_duration_seconds v"

definition liquidity_fits :: "int \<Rightarrow> distribution_state option \<Rightarrow> bool" where
  "liquidity_fits pending x \<longleftrightarrow>
     (case x of
        None \<Rightarrow> True
      | Some d \<Rightarrow>
          ds_liquidity_reserved d = pending \<and> 0 \<le> ds_liquidity_claimed d \<and>
          ds_liquidity_claimed d + ds_liquidity_reserved d \<le> da_liquidity_mining (ds_allocation d))"

definition ledger_ok :: "token_store \<Rightarrow> bool" where
  "ledger_ok t \<longleftrightarrow>
     smap_ok (tk_balances t) \<and> smap_all (\<lambda>x. 0 \<le> x) (tk_balances t) \<and>
     smap_ok (tk_staked_balances t) \<and> smap_all (\<lambda>x. 0 \<le> x) (tk_staked_balances t) \<and>
     smap_ok (schedules_of t) \<and> smap_all schedule_ok (schedules_of t) \<and>
     smap_ok (rewards_of t) \<and> smap_all (\<lambda>x. 0 \<le> x) (rewards_of t) \<and>
     liquidity_fits (smap_total (\<lambda>x. x) (rewards_of t)) (tk_distribution_state t)"

lemmas ledger_defs = ledger_ok_def gov_accounted_def unclaimed_liquidity_def

lemma get_as_of [simp]:
  "get_vesting_schedules s = schedules_of (gk_token s)" "get_pending_rewards s = rewards_of (gk_token s)"
  by (simp_all add: get_vesting_schedules_def get_pending_rewards_def schedules_of_def rewards_of_def)

lemma schedules_of_simps [simp]:
  "schedules_of (t\<lparr>tk_balances := m\<rparr>) = schedules_of t" "schedules_of (t\<lparr>tk_staked_balances := m\<rparr>) = schedules_of t"
  "schedules_of (t\<lparr>tk_pending_rewards := r\<rparr>) = schedules_of t" "schedules_of (t\<lparr>tk_vote_locks := l\<rparr>) = schedules_of t"
  "schedules_of (t\<lparr>tk_holders := h\<rparr>) = schedules_of t" "schedules_of (t\<lparr>tk_distribution_state := d\<rparr>) = schedules_of t"
  "schedules_of (t\<lparr>tk_vesting_schedules := Some v\<rparr>) = v"
  by (simp_all add: schedules_of_def persistent_or_instance_def)

lemma rewards_of_simps [simp]:
  "rewards_of (t\<lparr>tk_balances := m\<rparr>) = rewards_of t" "rewards_of (t\<lparr>tk_staked_balances := m\<rparr>) = rewards_of t"
  "rewards_of (t\<lparr>tk_vesting_schedules := v\<rparr>) = rewards_of t" "rewards_of (t\<lparr>tk_vote_locks := l\<rparr>) = rewards_of t"
  "rewards_of (t\<lparr>tk_holders := h\<rparr>) = rewards_of t" "rewards_of (t\<lparr>tk_distribution_state := d\<rparr>) = rewards_of t"
  "rewards_of (t\<lparr>tk_pending_rewards := Some r\<rparr>) = r"
  by (simp_all add: rewards_of_def persistent_or_instance_def)

lemma of_track [simp]:
  "schedules_of (gk_token (track_holder h s)) = schedules_of (gk_token s)"
  "rewards_of (gk_token (track_holder h s)) = rewards_of (gk_token s)"
  by (simp_all add: schedules_of_def rewards_of_def)

lemma ledger_track [simp]:
  "ledger_ok (gk_token (track_holder h s)) = ledger_ok (gk_token s)"
  "gov_accounted (gk_token (track_holder h s)) = gov_accounted (gk_token s)"
  by (simp_all add: ledger_defs)

lemma balance_nonneg: "ledger_ok (gk_token s) \<Longrightarrow> 0 \<le> get_balance h s"
  unfolding get_balance_def ledger_ok_def
  by (cases "smap_get (tk_balances (gk_token s)) h") (auto dest: smap_all_get)

lemma gov_staked_nonneg: "ledger_ok (gk_token s) \<Longrightarrow> 0 \<le> get_staked_balance h s"
  unfolding get_staked_balance_def ledger_ok_def
  by (cases "smap_get (tk_staked_balances (gk_token s)) h") (auto dest: smap_all_get)

lemma get_or_total: "get_or 0 x = total_at (\<lambda>x. x) x"
  by (cases x) simp_all

lemma put_balances_ledger:
  assumes "ledger_ok (gk_token s)" and "0 \<le> x"
  shows "ledger_ok (gk_token (put_balances (smap_set (tk_balances (gk_token s)) h x) s))"
    and "gov_accounted (gk_token (put_balances (smap_set (tk_balances (gk_token s)) h x) s)) =
         gov_accounted (gk_token s) + x - get_balance h s"
  using assms
  by (simp_all add: ledger_defs gov_defs smap_total_set get_balance_def get_or_total)

lemma put_staked_ledger:
  assumes "ledger_ok (gk_token s)" and "0 \<le> x"
  shows "ledger_ok (gk_token (put_staked_balances (smap_set (tk_staked_balances (gk_token s)) h x) s))"
    and "gov_accounted (gk_token (put_staked_balances (smap_set (tk_staked_balances (gk_token s)) h x) s)) =
         gov_accounted (gk_token s) + x - get_staked_balance h s"
  using assms
  by (simp_all add: ledger_defs gov_defs smap_total_set get_staked_balance_def get_or_total)

text \<open>The four balance calls: they keep the ledger in order and move the total by the amount.\<close>

lemma balance_calls_ledger:
  assumes "ledger_ok (gk_token s)"
  shows "add_balance h a s = (Ok u, s') \<Longrightarrow> ledger_ok (gk_token s') \<and> gov_accounted (gk_token s') = gov_accounted (gk_token s) + a"
    and "subtract_balance h a s = (Ok u, s') \<Longrightarrow> ledger_ok (gk_token s') \<and> gov_accounted (gk_token s') = gov_accounted (gk_token s) - a"
    and "add_staked_balance h a s = (Ok u, s') \<Longrightarrow> ledger_ok (gk_token s') \<and> gov_accounted (gk_token s') = gov_accounted (gk_token s) + a"
    and "subtract_staked_balance h a s = (Ok u, s') \<Longrightarrow> ledger_ok (gk_token s') \<and> gov_accounted (gk_token s') = gov_accounted (gk_token s) - a"
  using assms balance_nonneg [OF assms, of h] gov_staked_nonneg [OF assms, of h]
  by (auto simp: run_iff put_balances_ledger put_staked_ledger)

lemma create_schedule_Ok [run_iff]:
  "create_schedule b c a st cl du s = (Ok u, s') \<longleftrightarrow>
     0 < a \<and> 0 < du \<and> cl \<le> du \<and> \<not> smap_has (schedules_of (gk_token s)) b \<and>
     s' = put_vesting_schedules (smap_set (schedules_of (gk_token s)) b
        \<lparr>vs_beneficiary = b, vs_category = c, vs_total_amount = a, vs_released_amount = 0, vs_start_time = st,
         vs_cliff_seconds = cl, vs_duration_seconds = du\<rparr>) s"
  by (auto simp: create_schedule_def)

lemma put_schedules_ledger:
  assumes "ledger_ok (gk_token s)" and "schedule_ok v"
  shows "ledger_ok (gk_token (put_vesting_schedules (smap_set (schedules_of (gk_token s)) b v) s))"
    and "gov_accounted (gk_token (put_vesting_schedules (smap_set (schedules_of (gk_token s)) b v) s)) =
         gov_accounted (gk_token s) + unvested v - total_at unvested (smap_get (schedules_of (gk_token s)) b)"
  using assms
  by (simp_all add: ledger_defs gov_defs smap_total_set)

lemma create_schedule_ledger:
  assumes "ledger_ok (gk_token s)" and "in_i128 a" and "create_schedule b c a st cl du s = (Ok u, s')"
  shows "ledger_ok (gk_token s') \<and> gov_accounted (gk_token s') = gov_accounted (gk_token s) + a"
  using assms by (auto simp: run_iff put_schedules_ledger schedule_ok_def unvested_def smap_has_def)

section \<open>Vesting\<close>

text \<open>The vested amount never exceeds the total and grows with time, and nothing is vested before the cliff.\<close>

lemma vested_linear:
  assumes "schedule_ok v" and "cliff_time v \<le> now"
    and "now < sat_add_u64 (vs_start_time v) (vs_duration_seconds v)" and "vs_cliff_seconds v < vs_duration_seconds v"
  shows "now - cliff_time v < vs_duration_seconds v - vs_cliff_seconds v"
  using assms by (auto simp: cliff_time_def sat_add_u64_def min_def split: if_splits)

lemma vested_amount_bounds:
  assumes "schedule_ok v" and "cliff_time v \<le> now" and "vested_amount now v = Inr x"
  shows "0 \<le> x \<and> x \<le> vs_total_amount v"
proof (cases "now \<ge> sat_add_u64 (vs_start_time v) (vs_duration_seconds v) \<or> vs_duration_seconds v = vs_cliff_seconds v")
  case True
  with assms show ?thesis by (auto simp: vested_amount_def schedule_ok_def)
next
  case False
  define w where "w = int (vs_duration_seconds v - vs_cliff_seconds v)"
  define k where "k = int (now - cliff_time v)"
  have cliff: "vs_cliff_seconds v < vs_duration_seconds v"
    using False assms(1) by (auto simp: schedule_ok_def)
  have k: "0 \<le> k" "k < w" and w: "0 < w"
    using vested_linear [OF assms(1,2) _ cliff] False cliff unfolding k_def w_def by auto
  have pos: "0 < vs_total_amount v" using assms(1) by (simp add: schedule_ok_def)
  have x: "x = tdiv (vs_total_amount v * k) w"
    using assms(3) False by (auto simp: vested_amount_def run_iff k_def w_def)
  have "vs_total_amount v * k \<le> vs_total_amount v * w" using pos k by (intro mult_left_mono) auto
  then have "vs_total_amount v * k div w \<le> vs_total_amount v"
    using w by (metis nonzero_mult_div_cancel_right zdiv_mono1 less_irrefl)
  moreover have "0 \<le> vs_total_amount v * k" using pos k by simp
  ultimately show ?thesis using x w by (simp add: pos_imp_zdiv_nonneg_iff)
qed

lemma vested_amount_mono:
  assumes "schedule_ok v" and "cliff_time v \<le> now" and "now \<le> later"
    and "vested_amount now v = Inr x" and "vested_amount later v = Inr y"
  shows "x \<le> y"
proof (cases "later \<ge> sat_add_u64 (vs_start_time v) (vs_duration_seconds v) \<or> vs_duration_seconds v = vs_cliff_seconds v")
  case True
  then have "y = vs_total_amount v" using assms(5) by (auto simp: vested_amount_def)
  with vested_amount_bounds [OF assms(1,2,4)] show ?thesis by simp
next
  case False
  define w where "w = int (vs_duration_seconds v - vs_cliff_seconds v)"
  have w: "0 < w" using False assms(1) by (auto simp: schedule_ok_def w_def)
  have pos: "0 < vs_total_amount v" using assms(1) by (simp add: schedule_ok_def)
  have xy: "x = tdiv (vs_total_amount v * int (now - cliff_time v)) w"
    "y = tdiv (vs_total_amount v * int (later - cliff_time v)) w"
    using assms(3,4,5) False by (auto simp: vested_amount_def run_iff w_def)
  have "vs_total_amount v * int (now - cliff_time v) \<le> vs_total_amount v * int (later - cliff_time v)"
    using pos assms(3) by (intro mult_left_mono) auto
  with xy w pos show ?thesis by (simp add: zdiv_mono1)
qed

lemma release_schedule_tokens_Ok:
  assumes "release_schedule_tokens e b s = (Ok r, s')"
  obtains v x where "smap_get (schedules_of (gk_token s)) b = Some v" "cliff_time v \<le> ledger_timestamp e"
    "vested_amount (ledger_timestamp e) v = Inr x" "0 < x - vs_released_amount v"
    "in_i128 (get_balance b s + (x - vs_released_amount v))"
    "r = (v\<lparr>vs_released_amount := x\<rparr>, x - vs_released_amount v)"
    "add_balance b (x - vs_released_amount v)
       (put_vesting_schedules (smap_set (schedules_of (gk_token s)) b (v\<lparr>vs_released_amount := x\<rparr>)) s) = (Ok (), s')"
  using assms
  by (auto simp: release_schedule_tokens_def get_schedule_def releasable_amount_def releasable_of_def Let_def run_iff
      get_balance_def gov_defs split: if_splits)

lemma release_schedule_ledger:
  assumes "ledger_ok (gk_token s)" and "release_schedule_tokens e b s = (Ok r, s')"
  shows "ledger_ok (gk_token s') \<and> gov_accounted (gk_token s') = gov_accounted (gk_token s) \<and>
    vs_released_amount (fst r) \<le> vs_total_amount (fst r)"
proof -
  obtain v x where v: "smap_get (schedules_of (gk_token s)) b = Some v" "cliff_time v \<le> ledger_timestamp e"
    "vested_amount (ledger_timestamp e) v = Inr x" and r: "r = (v\<lparr>vs_released_amount := x\<rparr>, x - vs_released_amount v)"
    and add: "add_balance b (x - vs_released_amount v)
       (put_vesting_schedules (smap_set (schedules_of (gk_token s)) b (v\<lparr>vs_released_amount := x\<rparr>)) s) = (Ok (), s')"
    by (rule release_schedule_tokens_Ok [OF assms(2)])
  have ok: "schedule_ok v" using assms(1) v(1) by (auto simp: ledger_ok_def dest: smap_all_get)
  then have ok': "schedule_ok (v\<lparr>vs_released_amount := x\<rparr>)"
    using vested_amount_bounds [OF ok v(2,3)] by (simp add: schedule_ok_def)
  note L = put_schedules_ledger [OF assms(1) ok', of b]
  show ?thesis
    using balance_calls_ledger(1) [OF L(1) add] L(2) v(1) vested_amount_bounds [OF ok v(2,3)] by (simp add: unvested_def r)
qed

text \<open>C24: A release pays the beneficiary exactly the difference between what is vested at that time and what was
  released before: the schedule then records the vested amount, the balance grows by the difference, the total
  of the ledger stays the same, and what is recorded never exceeds the schedule.\<close>

theorem vesting_release_effect:
  assumes "ledger_ok (gk_token s)" and "release_schedule_tokens e b s = (Ok (v', paid), s')"
  shows "\<exists>v. smap_get (schedules_of (gk_token s)) b = Some v \<and> cliff_time v \<le> ledger_timestamp e \<and>
      vested_amount (ledger_timestamp e) v = Inr (vs_released_amount v') \<and>
      v' = v\<lparr>vs_released_amount := vs_released_amount v + paid\<rparr> \<and>
      smap_get (schedules_of (gk_token s')) b = Some v' \<and>
      0 < paid \<and> vs_released_amount v' \<le> vs_total_amount v' \<and> get_balance b s' = get_balance b s + paid \<and>
      ledger_ok (gk_token s') \<and> gov_accounted (gk_token s') = gov_accounted (gk_token s)"
proof -
  obtain v x where v: "smap_get (schedules_of (gk_token s)) b = Some v" "cliff_time v \<le> ledger_timestamp e"
    "vested_amount (ledger_timestamp e) v = Inr x" "0 < x - vs_released_amount v"
    and r: "(v', paid) = (v\<lparr>vs_released_amount := x\<rparr>, x - vs_released_amount v)"
    and add: "add_balance b (x - vs_released_amount v)
       (put_vesting_schedules (smap_set (schedules_of (gk_token s)) b (v\<lparr>vs_released_amount := x\<rparr>)) s) = (Ok (), s')"
    by (rule release_schedule_tokens_Ok [OF assms(2)])
  have "smap_get (schedules_of (gk_token s')) b = Some (v\<lparr>vs_released_amount := x\<rparr>)"
    "get_balance b s' = get_balance b s + (x - vs_released_amount v)"
    using add by (auto simp: run_iff gov_defs get_balance_def)
  with v r release_schedule_ledger [OF assms] show ?thesis by auto
qed

section \<open>The initial distribution\<close>

lemma div_le_self_int: "0 \<le> (x::int) \<Longrightarrow> x div 10000 \<le> x"
  using zdiv_mono2 [of x 1 10000] by simp

lemma bps_share_pos:
  assumes "0 < n" and "0 \<le> b"
  shows "bps_share n b = Inr x \<longleftrightarrow> in_i128 (n * b) \<and> x = n * b div 10000"
proof -
  have nn: "0 \<le> n * b" using assms by simp
  then have "in_i128 (n * b) \<Longrightarrow> in_i128 (n * b div 10000)"
    by (rule_tac in_i128_nonneg_le [of "n * b"]) (simp_all add: div_le_self_int pos_imp_zdiv_nonneg_iff)
  with nn show ?thesis by (auto simp: bps_share_def run_iff GOV_BPS_DENOMINATOR_def)
qed

lemma shares_divide:
  "n * 2000 div 10000 = n div (5::int)" "n * 1500 div 10000 = 3 * n div (20::int)"
  "n * 3000 div 10000 = 3 * n div (10::int)" "n * 1000 div 10000 = n div (10::int)"
  "n * 500 div 10000 = n div (20::int)"
  using div_mult_mult1 [of "2000::int" n 5] div_mult_mult1 [of "500::int" "3 * n" 20]
    div_mult_mult1 [of "1000::int" "3 * n" 10] div_mult_mult1 [of "1000::int" n 10]
    div_mult_mult1 [of "500::int" n 20]
  by (simp_all add: mult.commute)

text \<open>The parts lose what the six divisions cut off, which is nothing exactly for a multiple of twenty.\<close>

lemma shares_sum:
  fixes n :: int
  defines "S \<equiv> (n div 5 + 3 * n div 20) + ((3 * n div 10 + n div 5) + (n div 10 + n div 20))"
  shows "S \<le> n" and "S = n \<longleftrightarrow> n mod 20 = 0"
proof -
  define cut where "cut = 8 * (n mod 5) + 3 * n mod 20 + 2 * (3 * n mod 10) + 2 * (n mod 10) + n mod 20"
  have weigh: "20 * ((a + b) + ((c + a) + (d + f))) = 20 * n - (8 * ra + rb + 2 * rc + 2 * rd + rf)"
    if "5 * a + ra = n" "20 * b + rb = 3 * n" "10 * c + rc = 3 * n" "10 * d + rd = n" "20 * f + rf = n"
    for a b c d f ra rb rc rd rf :: int
  proof -
    have "8 * (5 * a + ra) + (20 * b + rb) + 2 * (10 * c + rc) + 2 * (10 * d + rd) + (20 * f + rf) = 20 * n"
      unfolding that by simp
    then show ?thesis by (simp add: algebra_simps)
  qed
  have cut: "20 * S = 20 * n - cut"
    unfolding S_def cut_def
    by (rule weigh [OF mult_div_mod_eq mult_div_mod_eq mult_div_mod_eq mult_div_mod_eq mult_div_mod_eq])
  have nn: "0 \<le> n mod 5" "0 \<le> 3 * n mod 20" "0 \<le> 3 * n mod 10" "0 \<le> n mod 10" "0 \<le> n mod 20" by simp_all
  then have "0 \<le> cut" unfolding cut_def by simp
  then show "S \<le> n" using cut by linarith
  have "cut = 0" if "n mod 20 = 0"
  proof -
    from that obtain k where "n = 20 * k" by auto
    then show ?thesis
      using mod_mult_self1_is_0 [of 5 "4 * k"] mod_mult_self1_is_0 [of 20 "3 * k"] mod_mult_self1_is_0 [of 10 "6 * k"]
        mod_mult_self1_is_0 [of 10 "2 * k"] by (simp add: cut_def)
  qed
  moreover have "n mod 20 = 0" if "cut = 0"
  proof -
    have "rf = 0" if "8 * ra + rb + 2 * rc + 2 * rd + rf = 0" "0 \<le> ra" "0 \<le> rb" "0 \<le> rc" "0 \<le> rd" "0 \<le> rf"
      for ra rb rc rd rf :: int using that by linarith
    from this [OF that [unfolded cut_def] nn] show ?thesis .
  qed
  moreover have "S = n \<longleftrightarrow> cut = 0" using cut by linarith
  ultimately show "S = n \<longleftrightarrow> n mod 20 = 0" by (metis)
qed

lemma create_allocation_Inr:
  assumes "0 < n"
  shows "create_allocation n = Inr a \<longleftrightarrow>
    in_i128 (n * 3000) \<and> n mod 20 = 0 \<and>
    a = \<lparr>da_team = n div 5, da_early_investors = 3 * n div 20, da_community_rewards = 3 * n div 10,
         da_liquidity_mining = n div 5, da_treasury = n div 10, da_public_sale = n div 20\<rparr>"
    (is "_ \<longleftrightarrow> ?fits \<and> _ \<and> a = ?A")
proof -
  have small: "in_i128 (n * 3000) \<Longrightarrow> 0 \<le> b \<Longrightarrow> b \<le> 3000 \<Longrightarrow> in_i128 (n * b)" for b
    using assms by (rule_tac in_i128_nonneg_le [of "n * 3000"]) (auto intro: mult_left_mono)
  have nn: "0 \<le> n div 5" "0 \<le> 3 * n div 20" "0 \<le> 3 * n div 10" "0 \<le> n div 10" "0 \<le> n div 20"
    using assms by (simp_all add: pos_imp_zdiv_nonneg_iff)
  show ?thesis
  proof (cases ?fits)
    case True
    have fits: "0 \<le> x \<Longrightarrow> x \<le> n \<Longrightarrow> in_i128 x" for x
      by (rule in_i128_nonneg_le [OF small [OF True, of 1, simplified]])
    have shares: "bps_share n TEAM_BPS = Inr (n div 5)" "bps_share n EARLY_INVESTOR_BPS = Inr (3 * n div 20)"
      "bps_share n COMMUNITY_REWARDS_BPS = Inr (3 * n div 10)" "bps_share n LIQUIDITY_MINING_BPS = Inr (n div 5)"
      "bps_share n TREASURY_BPS = Inr (n div 10)" "bps_share n PUBLIC_SALE_BPS = Inr (n div 20)"
      using assms small [OF True] by (simp_all add: bps_share_pos distribution_constants shares_divide)
    have sums: "gov_checked_add (n div 5) (3 * n div 20) = Inr (n div 5 + 3 * n div 20)"
      "gov_checked_add (3 * n div 10) (n div 5) = Inr (3 * n div 10 + n div 5)"
      "gov_checked_add (n div 10) (n div 20) = Inr (n div 10 + n div 20)"
      "gov_checked_add (3 * n div 10 + n div 5) (n div 10 + n div 20) =
         Inr (3 * n div 10 + n div 5 + (n div 10 + n div 20))"
      "gov_checked_add (n div 5 + 3 * n div 20) (3 * n div 10 + n div 5 + (n div 10 + n div 20)) =
         Inr (n div 5 + 3 * n div 20 + (3 * n div 10 + n div 5 + (n div 10 + n div 20)))"
      unfolding gov_checked_Inr using nn shares_sum(1) [of n] by (intro conjI refl fits; linarith)+
    show ?thesis
      unfolding create_allocation_def shares sums bind_sum_simps using True shares_sum(2) [of n] by auto
  next
    case False
    have "bps_share n COMMUNITY_REWARDS_BPS \<noteq> Inr x" for x
      using assms False by (simp add: bps_share_pos distribution_constants)
    then have "create_allocation n \<noteq> Inr a" unfolding create_allocation_def bind_sum_Inr by blast
    with False show ?thesis by simp
  qed
qed

lemma create_allocation_sum:
  "create_allocation n = Inr a \<Longrightarrow>
     da_team a + da_early_investors a + da_community_rewards a + da_liquidity_mining a + da_treasury a +
     da_public_sale a = n"
  by (auto simp: create_allocation_def run_iff split: if_splits)

text \<open>C26: The genesis allocation succeeds exactly for the supplies that are divisible by twenty (and whose largest
  product fits into 128 bits), and then its six parts add up to the supply.\<close>

theorem allocation_exact:
  assumes "0 < n"
  shows "case create_allocation n of
      Inl _ \<Rightarrow> \<not> in_i128 (n * 3000) \<or> n mod 20 \<noteq> 0
    | Inr a \<Rightarrow> in_i128 (n * 3000) \<and> n mod 20 = 0 \<and>
        da_team a + da_early_investors a + da_community_rewards a + da_liquidity_mining a + da_treasury a +
        da_public_sale a = n"
proof (cases "create_allocation n")
  case (Inl er)
  then have "\<not> (in_i128 (n * 3000) \<and> n mod 20 = 0)"
    using create_allocation_Inr [OF assms] by (metis sum.distinct(1))
  with Inl show ?thesis by simp
next
  case (Inr a)
  then have "in_i128 (n * 3000)" "n mod 20 = 0"
    using create_allocation_Inr [OF assms, of a] by blast+
  with Inr create_allocation_sum [OF Inr] show ?thesis by simp
qed

theorem allocation_exact_witness:
  "case create_allocation 1000000 of Inl _ \<Rightarrow> \<not> in_i128 (1000000 * 3000) \<or> (1000000::int) mod 20 \<noteq> 0
    | Inr a \<Rightarrow> in_i128 (1000000 * 3000) \<and> (1000000::int) mod 20 = 0 \<and>
        da_team a + da_early_investors a + da_community_rewards a + da_liquidity_mining a + da_treasury a +
        da_public_sale a = 1000000"
  using allocation_exact [of 1000000] by simp

section \<open>Every call on the ledger\<close>

text \<open>Staking moves tokens between the two ledgers of one account.\<close>

lemma token_stake_ledger:
  assumes "ledger_ok (gk_token s)" and "token_stake u a s = (Ok x, s')"
  shows "ledger_ok (gk_token s') \<and> gov_accounted (gk_token s') = gov_accounted (gk_token s)"
proof -
  from assms(2) obtain s1 where "subtract_balance u a s = (Ok (), s1)" "add_staked_balance u a s1 = (Ok x, s')"
    by (auto simp: token_stake_def attempt_Ok and_then_Ok split: if_splits)
  with balance_calls_ledger(2) [OF assms(1)] balance_calls_ledger(3) show ?thesis by fastforce
qed

lemma token_unstake_ledger:
  assumes "ledger_ok (gk_token s)" and "token_unstake u a s = (Ok x, s')"
  shows "ledger_ok (gk_token s') \<and> gov_accounted (gk_token s') = gov_accounted (gk_token s)"
proof -
  from assms(2) obtain s1 where "subtract_staked_balance u a s = (Ok (), s1)" "add_balance u a s1 = (Ok x, s')"
    by (auto simp: token_unstake_def attempt_Ok and_then_Ok split: if_splits)
  with balance_calls_ledger(4) [OF assms(1)] balance_calls_ledger(1) show ?thesis by fastforce
qed

text \<open>An accrual reserves the reward in the liquidity allocation and credits it as pending.\<close>

lemma token_accrue_Ok:
  assumes "token_accrue_liquidity_rewards b vol s = (Ok r, s')"
  obtains d where "tk_distribution_state (gk_token s) = Some d" "0 < r"
    "reward_for_volume vol s = Inr r"
    "ds_liquidity_claimed d + ds_liquidity_reserved d + r \<le> da_liquidity_mining (ds_allocation d)"
    "s' = track_holder b (put_pending_rewards
       (smap_set (rewards_of (gk_token s)) b (get_or 0 (smap_get (rewards_of (gk_token s)) b) + r))
       (put_distribution_state (d\<lparr>ds_liquidity_reserved := ds_liquidity_reserved d + r\<rparr>) s))"
  using assms
  by (auto simp: token_accrue_liquidity_rewards_def reserve_liquidity_rewards_def get_distribution_state_def
      run_iff Let_def gov_defs split: if_splits)

lemma token_accrue_ledger:
  assumes "ledger_ok (gk_token s)" and "token_accrue_liquidity_rewards b vol s = (Ok r, s')"
  shows "ledger_ok (gk_token s') \<and> gov_accounted (gk_token s') = gov_accounted (gk_token s)"
proof -
  obtain d where d: "tk_distribution_state (gk_token s) = Some d" "0 < r"
    "ds_liquidity_claimed d + ds_liquidity_reserved d + r \<le> da_liquidity_mining (ds_allocation d)"
    and s': "s' = track_holder b (put_pending_rewards
       (smap_set (rewards_of (gk_token s)) b (get_or 0 (smap_get (rewards_of (gk_token s)) b) + r))
       (put_distribution_state (d\<lparr>ds_liquidity_reserved := ds_liquidity_reserved d + r\<rparr>) s))"
    by (rule token_accrue_Ok [OF assms(2)])
  have "0 \<le> get_or 0 (smap_get (rewards_of (gk_token s)) b)"
    using assms(1) by (cases "smap_get (rewards_of (gk_token s)) b") (auto simp: ledger_ok_def dest: smap_all_get)
  with assms(1) d show ?thesis
    unfolding s' by (auto simp: ledger_defs gov_defs liquidity_fits_def smap_total_set get_or_total)
qed

lemma token_claim_Ok:
  assumes "token_claim_liquidity_rewards b s = (Ok r, s')"
  obtains d s1 where "tk_distribution_state (gk_token s) = Some d" "0 < r" "ds_min_claim_threshold d \<le> r"
    "r = get_or 0 (smap_get (rewards_of (gk_token s)) b)"
    "s1 = put_distribution_state (d\<lparr>ds_liquidity_reserved := ds_liquidity_reserved d - r,
             ds_liquidity_claimed := ds_liquidity_claimed d + r\<rparr>)
            (put_pending_rewards (smap_set (rewards_of (gk_token s)) b 0) s)"
    "add_balance b r s1 = (Ok (), s')"
  using assms
  by (auto simp: token_claim_liquidity_rewards_def claim_reserved_liquidity_rewards_def get_distribution_state_def
      attempt_Ok and_then_Ok ok_or_Inr Let_def gov_defs split: if_splits)

lemma token_claim_ledger:
  assumes "ledger_ok (gk_token s)" and "token_claim_liquidity_rewards b s = (Ok r, s')"
  shows "ledger_ok (gk_token s') \<and> gov_accounted (gk_token s') = gov_accounted (gk_token s)"
proof -
  obtain d s1 where d: "tk_distribution_state (gk_token s) = Some d" "0 < r"
    "r = get_or 0 (smap_get (rewards_of (gk_token s)) b)"
    and s1: "s1 = put_distribution_state (d\<lparr>ds_liquidity_reserved := ds_liquidity_reserved d - r,
             ds_liquidity_claimed := ds_liquidity_claimed d + r\<rparr>)
            (put_pending_rewards (smap_set (rewards_of (gk_token s)) b 0) s)"
    and add: "add_balance b r s1 = (Ok (), s')"
    by (rule token_claim_Ok [OF assms(2)])
  have "ledger_ok (gk_token s1) \<and> gov_accounted (gk_token s1) = gov_accounted (gk_token s) - r"
    using assms(1) d unfolding s1
    by (auto simp: ledger_defs gov_defs liquidity_fits_def smap_total_set get_or_total)
  with balance_calls_ledger(1) [OF _ add] show ?thesis by auto
qed

text \<open>C25: A claim pays exactly what was pending, which lies at or above the threshold: the balance grows by it,
  nothing stays pending, the same amount moves from the reserved to the claimed part of the liquidity
  allocation, and the ledger stays in order with an unchanged total.\<close>

theorem reward_claim_effect:
  assumes "ledger_ok (gk_token s)" and "token_claim_liquidity_rewards b s = (Ok r, s')"
  shows "\<exists>d. tk_distribution_state (gk_token s) = Some d \<and>
      r = get_or 0 (smap_get (rewards_of (gk_token s)) b) \<and> 0 < r \<and> ds_min_claim_threshold d \<le> r \<and>
      smap_get (rewards_of (gk_token s')) b = Some 0 \<and> get_balance b s' = get_balance b s + r \<and>
      tk_distribution_state (gk_token s') =
        Some (d\<lparr>ds_liquidity_reserved := ds_liquidity_reserved d - r, ds_liquidity_claimed := ds_liquidity_claimed d + r\<rparr>) \<and>
      ledger_ok (gk_token s') \<and> gov_accounted (gk_token s') = gov_accounted (gk_token s)"
proof -
  obtain d s1 where d: "tk_distribution_state (gk_token s) = Some d" "0 < r" "ds_min_claim_threshold d \<le> r"
    "r = get_or 0 (smap_get (rewards_of (gk_token s)) b)"
    and s1: "s1 = put_distribution_state (d\<lparr>ds_liquidity_reserved := ds_liquidity_reserved d - r,
             ds_liquidity_claimed := ds_liquidity_claimed d + r\<rparr>)
            (put_pending_rewards (smap_set (rewards_of (gk_token s)) b 0) s)"
    and add: "add_balance b r s1 = (Ok (), s')"
    by (rule token_claim_Ok [OF assms(2)])
  have "smap_get (rewards_of (gk_token s')) b = Some 0" "get_balance b s' = get_balance b s + r"
    "tk_distribution_state (gk_token s') = Some (d\<lparr>ds_liquidity_reserved := ds_liquidity_reserved d - r,
        ds_liquidity_claimed := ds_liquidity_claimed d + r\<rparr>)"
    using add by (auto simp: run_iff s1 gov_defs get_balance_def)
  with d token_claim_ledger [OF assms] show ?thesis by auto
qed

lemma token_set_vote_lock_ledger:
  "token_set_vote_lock h n s = (Ok u, s') \<Longrightarrow>
     ledger_ok (gk_token s') = ledger_ok (gk_token s) \<and> gov_accounted (gk_token s') = gov_accounted (gk_token s)"
  by (auto simp: token_set_vote_lock_def run_iff ledger_defs gov_defs)

lemma update_reward_config_ledger:
  assumes "ledger_ok (gk_token s)" and "update_reward_config r m s = (Ok d, s')"
  shows "ledger_ok (gk_token s') \<and> gov_accounted (gk_token s') = gov_accounted (gk_token s)"
  using assms
  by (auto simp: update_reward_config_def get_distribution_state_def run_iff ledger_defs gov_defs liquidity_fits_def
      Let_def split: if_splits)

text \<open>Staking moves exactly the amount from the liquid to the staked balance of the one account, which had
  it; nobody else's balance changes and the total of the ledger stays the same.\<close>

theorem stake_effect:
  assumes "stake e u a s = (Ok x, s')"
  shows "has_auth e u \<and> gov_is_initialized s \<and> \<not> is_paused s \<and> 0 < a \<and> a \<le> get_balance u s \<and>
      get_balance u s' = get_balance u s - a \<and> get_staked_balance u s' = get_staked_balance u s + a \<and>
      (\<forall>h. h \<noteq> u \<longrightarrow> get_balance h s' = get_balance h s \<and> get_staked_balance h s' = get_staked_balance h s) \<and>
      (ledger_ok (gk_token s) \<longrightarrow> ledger_ok (gk_token s') \<and> gov_accounted (gk_token s') = gov_accounted (gk_token s))"
proof -
  from assms obtain s1 where auth: "has_auth e u" "gov_is_initialized s" "\<not> is_paused s"
    and st: "token_stake u a s = (Ok (), s1)" and s': "s' = emit_stake_changed u a True s1"
    by (auto simp: stake_def run_iff)
  from st have "0 < a" "a \<le> get_balance u s" "get_balance u s1 = get_balance u s - a"
    "get_staked_balance u s1 = get_staked_balance u s + a"
    "\<forall>h. h \<noteq> u \<longrightarrow> get_balance h s1 = get_balance h s \<and> get_staked_balance h s1 = get_staked_balance h s"
    by (auto simp: token_stake_def run_iff gov_defs get_balance_def get_staked_balance_def split: if_splits)
  with auth token_stake_ledger [OF _ st] show ?thesis
    by (auto simp: s' gov_defs get_balance_def get_staked_balance_def)
qed

text \<open>Unstaking is refused while a vote lock is set, and undoes staking.\<close>

lemma unstake_effect:
  assumes "unstake e u a s = (Ok x, s')"
  shows "has_auth e u \<and> 0 < a \<and> a \<le> get_staked_balance u s \<and> get_or 0 (smap_get (get_vote_locks s) u) = 0 \<and>
      get_staked_balance u s' = get_staked_balance u s - a \<and> get_balance u s' = get_balance u s + a \<and>
      (ledger_ok (gk_token s) \<longrightarrow> ledger_ok (gk_token s') \<and> gov_accounted (gk_token s') = gov_accounted (gk_token s))"
proof -
  from assms obtain s1 where auth: "has_auth e u"
    and st: "token_unstake u a s = (Ok (), s1)" and s': "s' = emit_stake_changed u a False s1"
    by (auto simp: unstake_def run_iff)
  from st have "0 < a" "a \<le> get_staked_balance u s" "get_or 0 (smap_get (get_vote_locks s) u) = 0"
    "get_balance u s1 = get_balance u s + a" "get_staked_balance u s1 = get_staked_balance u s - a"
    by (auto simp: token_unstake_def run_iff gov_defs get_balance_def get_staked_balance_def split: if_splits)
  with auth token_unstake_ledger [OF _ st] show ?thesis
    by (auto simp: s' gov_defs get_balance_def get_staked_balance_def)
qed

section \<open>Genesis\<close>

text \<open>On a ledger without a distribution, the initial distribution creates exactly the supply.\<close>

lemma initialize_distribution_ledger:
  assumes "ledger_ok (gk_token s)" and "tk_distribution_state (gk_token s) = None" and "rewards_of (gk_token s) = []"
    and "0 < n" and "initialize_distribution e r n bps m s = (Ok d, s')"
  shows "ledger_ok (gk_token s') \<and> gov_accounted (gk_token s') = gov_accounted (gk_token s) + n \<and>
     tk_distribution_state (gk_token s') = Some d"
proof -
  from assms(5) obtain a s1 s2 s3 s4 s5 where a: "create_allocation n = Inr a"
    and 1: "add_balance (dr_community_rewards r) (da_community_rewards a) s = (Ok (), s1)"
    and 2: "add_balance (dr_treasury r) (da_treasury a) s1 = (Ok (), s2)"
    and 3: "add_balance (dr_public_sale r) (da_public_sale a) s2 = (Ok (), s3)"
    and 4: "create_schedule (dr_team r) VestingTeam (da_team a) (ledger_timestamp e) TEAM_CLIFF_DURATION
        TEAM_VESTING_DURATION s3 = (Ok (), s4)"
    and 5: "create_schedule (dr_early_investors r) VestingEarlyInvestors (da_early_investors a) (ledger_timestamp e) 0
        EARLY_INVESTOR_VESTING_DURATION s4 = (Ok (), s5)"
    and d: "d = \<lparr>ds_allocation = a, ds_liquidity_reserved = 0, ds_liquidity_claimed = 0,
        ds_liquidity_reward_bps = bps, ds_min_claim_threshold = m\<rparr>" and s': "s' = put_distribution_state d s5"
    by (auto simp: initialize_distribution_def attempt_Ok and_then_Ok Let_def split: if_splits)
  note C = create_allocation_Inr [OF assms(4), THEN iffD1, OF a]
  have nn: "0 \<le> da_liquidity_mining a" using C assms(4) by (simp add: pos_imp_zdiv_nonneg_iff)
  have small: "in_i128 n" using C assms(4) by (auto intro: in_i128_nonneg_le [of "n * 3000"])
  have parts: "in_i128 (da_team a)" "in_i128 (da_early_investors a)"
    using C assms(4) div_mult_mod_eq [of n 20]
    by (auto intro!: in_i128_nonneg_le [OF small] simp: pos_imp_zdiv_nonneg_iff)
  note L1 = balance_calls_ledger(1) [OF assms(1) 1]
  note L2 = balance_calls_ledger(1) [OF conjunct1 [OF L1] 2]
  note L3 = balance_calls_ledger(1) [OF conjunct1 [OF L2] 3]
  note L4 = create_schedule_ledger [OF conjunct1 [OF L3] parts(1) 4]
  note L5 = create_schedule_ledger [OF conjunct1 [OF L4] parts(2) 5]
  have same: "tk_distribution_state (gk_token s5) = None" "rewards_of (gk_token s5) = []"
    using 1 2 3 4 5 assms(2,3) by (auto simp: run_iff gov_defs)
  have "gov_accounted (gk_token s5) = gov_accounted (gk_token s) + da_community_rewards a + da_treasury a + da_public_sale a +
      da_team a + da_early_investors a"
    using L1 L2 L3 L4 L5 by simp
  with L5 same nn create_allocation_sum [OF a] show ?thesis
    unfolding s' d by (auto simp: ledger_defs gov_defs liquidity_fits_def)
qed

section \<open>Example\<close>

definition example_env :: "nat \<Rightarrow> env" where
  "example_env t =
     \<lparr>ledger_timestamp = t, ledger_sequence = 1, current_contract_address = Addr 99, has_auth = (\<lambda>a. a \<noteq> Addr 99),
      has_auth_for_args = (\<lambda>_ _. False)\<rparr>"

definition example_schedule :: vesting_schedule where
  "example_schedule =
     \<lparr>vs_beneficiary = Addr 1, vs_category = VestingTeam, vs_total_amount = 1000, vs_released_amount = 100,
      vs_start_time = 0, vs_cliff_seconds = 100, vs_duration_seconds = 300\<rparr>"

definition example_ledger :: "unit governance" where
  "example_ledger = (deployed ())\<lparr>gk_initialized := Some True, gk_token := deployed_token
     \<lparr>tk_balances := [(Addr 1, 500)], tk_staked_balances := [(Addr 1, 200)],
      tk_vesting_schedules := Some [(Addr 1, example_schedule)], tk_pending_rewards := Some [(Addr 1, 150)],
      tk_distribution_state := Some
        \<lparr>ds_allocation = \<lparr>da_team = 0, da_early_investors = 0, da_community_rewards = 0, da_liquidity_mining = 400,
                            da_treasury = 0, da_public_sale = 0\<rparr>,
         ds_liquidity_reserved = 150, ds_liquidity_claimed = 50, ds_liquidity_reward_bps = 100,
         ds_min_claim_threshold = 100\<rparr>\<rparr>\<rparr>"

lemmas example_defs = example_env_def example_schedule_def example_ledger_def deployed_defs

lemma example_ledger_ok: "ledger_ok (gk_token example_ledger)"
  by (simp add: example_defs ledger_ok_def schedules_of_def rewards_of_def persistent_or_instance_def smap_ok_def
      smap_all_def smap_total_def liquidity_fits_def schedule_ok_def in_i128_def i128_min_def i128_max_def)

lemma example_runs:
  "fst (release_schedule_tokens (example_env 200) (Addr 1) example_ledger) =
     Ok (example_schedule\<lparr>vs_released_amount := 500\<rparr>, 400)"
  "fst (token_claim_liquidity_rewards (Addr 1) example_ledger) = Ok 150"
  "fst (stake (example_env 200) (Addr 1) 300 example_ledger) = Ok ()"
  by (simp_all add: release_schedule_tokens_def releasable_amount_def releasable_of_def get_schedule_def
      vested_amount_def cliff_time_def token_claim_liquidity_rewards_def claim_reserved_liquidity_rewards_def
      get_distribution_state_def stake_def token_stake_def subtract_balance_def add_staked_balance_def add_balance_def
      gov_arith_eval gov_guard_eval schedules_of_def rewards_of_def persistent_or_instance_def gov_defs
      get_balance_def get_staked_balance_def Let_def example_defs)

theorem vesting_release_effect_witness:
  "\<exists>v' s'. release_schedule_tokens (example_env 200) (Addr 1) example_ledger = (Ok (v', 400), s') \<and>
     get_balance (Addr 1) s' = get_balance (Addr 1) example_ledger + 400 \<and>
     gov_accounted (gk_token s') = gov_accounted (gk_token example_ledger)"
  using vesting_release_effect [OF example_ledger_ok run_ok [OF example_runs(1)]] run_ok [OF example_runs(1)]
  by blast

theorem reward_claim_effect_witness:
  "\<exists>s'. token_claim_liquidity_rewards (Addr 1) example_ledger = (Ok 150, s') \<and>
     get_balance (Addr 1) s' = get_balance (Addr 1) example_ledger + 150 \<and>
     gov_accounted (gk_token s') = gov_accounted (gk_token example_ledger)"
  using reward_claim_effect [OF example_ledger_ok run_ok [OF example_runs(2)]] run_ok [OF example_runs(2)]
  by blast

theorem stake_effect_witness:
  "\<exists>s'. stake (example_env 200) (Addr 1) 300 example_ledger = (Ok (), s') \<and>
     get_staked_balance (Addr 1) s' = get_staked_balance (Addr 1) example_ledger + 300 \<and>
     gov_accounted (gk_token s') = gov_accounted (gk_token example_ledger)"
  using stake_effect [OF run_ok [OF example_runs(3)]] run_ok [OF example_runs(3)] example_ledger_ok
  by blast

end
