(* ===== verification/Governance_Proposals.thy ===== *)
theory Governance_Proposals
  imports Governance_Token
begin

text \<open>
  Proposals (\<^verbatim>\<open>proposals.rs\<close>) and their spam deposit (\<^verbatim>\<open>proposal_deposit.rs\<close>): creation with the snapshot of voting power,
  voting, finalisation against quorum and approval thresholds, execution within its window, withdrawal,
  reclaiming, cleaning up, delegation and the dry run. The functions of the module carry the prefix
  \<open>p_\<close> where \<^verbatim>\<open>lib.rs\<close> has an entry point of the same name.
\<close>

section \<open>Text\<close>

text \<open>Strings are byte strings; \<^verbatim>\<open>Bytes::to_string\<close> keeps the bytes. The textual form of an address is the host's.\<close>

definition CONCAT_MAX_LEN :: nat where "CONCAT_MAX_LEN = 256"

definition concat_parts :: "string list \<Rightarrow> string" where
  "concat_parts parts = take CONCAT_MAX_LEN (concat parts)"

definition labeled_key :: "string \<Rightarrow> string \<Rightarrow> string" where
  "labeled_key pre v = concat_parts [pre, v]"

fun digit_loop :: "nat \<Rightarrow> string \<Rightarrow> string" where
  "digit_loop n buf = (if n = 0 then buf else digit_loop (n div 10) (char_of (48 + n mod 10) # buf))"

declare digit_loop.simps [simp del]

definition i128_to_string :: "int \<Rightarrow> string" where
  "i128_to_string v =
     (if v = 0 then ''0''
      else let digits = digit_loop (nat \<bar>v\<bar>) [] in if v < 0 then CHR ''-'' # digits else digits)"

definition bool_to_string :: "bool \<Rightarrow> string" where
  "bool_to_string b = (if b then ''true'' else ''false'')"

definition bytes_to_string :: "bytes \<Rightarrow> string" where
  "bytes_to_string = map (\<lambda>b. char_of (unat b))"

section \<open>Configuration and state\<close>

definition PROPOSAL_ACTION_SCHEMA_VERSION :: nat where "PROPOSAL_ACTION_SCHEMA_VERSION = 1"
definition MAX_PARAMETER_VALUE :: int where "MAX_PARAMETER_VALUE = 1000000000000000000"
definition MAX_ACTION_STRING_LEN :: nat where "MAX_ACTION_STRING_LEN = 256"
definition EXECUTION_WINDOW :: nat where "EXECUTION_WINDOW = 7 * 24 * 60 * 60"
definition DEFAULT_DEPOSIT_AMOUNT :: int where "DEFAULT_DEPOSIT_AMOUNT = 1000"
definition DEFAULT_MIN_PARTICIPATION_BPS :: nat where "DEFAULT_MIN_PARTICIPATION_BPS = 500"

lemmas proposal_constants =
  MAX_PARAMETER_VALUE_def MAX_ACTION_STRING_LEN_def EXECUTION_WINDOW_def DEFAULT_DEPOSIT_AMOUNT_def
  DEFAULT_MIN_PARTICIPATION_BPS_def

definition default_governance_config :: governance_config where
  "default_governance_config =
     \<lparr>gc_min_proposal_threshold = 1000, gc_voting_period = 7 * 24 * 60 * 60, gc_voting_delay = 60,
      gc_quorum_threshold = 1000, gc_approval_threshold = 5000, gc_execution_delay = 0,
      gc_discussion_duration = 0\<rparr>"

definition empty_proposals_state :: proposals_state where
  "empty_proposals_state = \<lparr>pp_proposals = [], pp_proposal_ids = [], pp_next_proposal_id = 1\<rparr>"

definition empty_delegation_state :: delegation_state where
  "empty_delegation_state = \<lparr>dl_delegations = [], dl_delegators = []\<rparr>"

definition get_governance_config :: "'w governance \<Rightarrow> governance_config" where
  "get_governance_config s = get_or default_governance_config (bk_governance_config (gk_ballot s))"

definition p_configure_governance :: "governance_config \<Rightarrow> 'w governance \<Rightarrow> ('w, governance_config) gcall" where
  "p_configure_governance config s =
     (if gc_min_proposal_threshold config \<le> 0 \<or> gc_voting_period config = 0 \<or>
         gc_quorum_threshold config > 10000 \<or> gc_approval_threshold config > 10000
      then (Err InvalidGovernanceConfig, s)
      else (Ok config, put_ballot (\<lambda>b. b\<lparr>bk_governance_config := Some config\<rparr>) s))"

definition get_proposals_state :: "'w governance \<Rightarrow> proposals_state" where
  "get_proposals_state s = get_or empty_proposals_state (bk_proposals_state (gk_ballot s))"

definition put_proposals_state :: "proposals_state \<Rightarrow> 'w governance \<Rightarrow> 'w governance" where
  "put_proposals_state st = put_ballot (\<lambda>b. b\<lparr>bk_proposals_state := Some st\<rparr>)"

definition get_delegation_state :: "'w governance \<Rightarrow> delegation_state" where
  "get_delegation_state s = get_or empty_delegation_state (bk_delegations (gk_ballot s))"

definition put_delegation_state :: "delegation_state \<Rightarrow> 'w governance \<Rightarrow> 'w governance" where
  "put_delegation_state st = put_ballot (\<lambda>b. b\<lparr>bk_delegations := Some st\<rparr>)"

definition get_proposal :: "nat \<Rightarrow> 'w governance \<Rightarrow> gov_proposal gresult" where
  "get_proposal pid s = ok_or ProposalNotFound (smap_get (pp_proposals (get_proposals_state s)) pid)"

definition put_proposal :: "gov_proposal \<Rightarrow> 'w governance \<Rightarrow> ('w, unit) gcall" where
  "put_proposal p s =
     (let st = get_proposals_state s
      in if \<not> smap_has (pp_proposals st) (gp_id p) then (Err ProposalNotFound, s)
         else (Ok (), put_proposals_state (st\<lparr>pp_proposals := smap_set (pp_proposals st) (gp_id p) p\<rparr>) s))"

definition effective_status :: "env \<Rightarrow> gov_proposal \<Rightarrow> gov_status" where
  "effective_status e p =
     (if gp_status p = Succeeded \<and> ledger_timestamp e > gp_execution_deadline p then Expired else gp_status p)"

section \<open>Voting power\<close>

definition delegates_actively :: "delegation_state \<Rightarrow> address \<Rightarrow> bool" where
  "delegates_actively st a = (case smap_get (dl_delegations st) a of None \<Rightarrow> False | Some d \<Rightarrow> vd_active d)"

fun delegated_loop :: "delegation_state \<Rightarrow> address \<Rightarrow> address list \<Rightarrow> int \<Rightarrow> int" where
  "delegated_loop st user [] acc = acc"
| "delegated_loop st user (a # as) acc =
     delegated_loop st user as
       (case smap_get (dl_delegations st) a of
          None \<Rightarrow> acc
        | Some d \<Rightarrow> if vd_active d \<and> vd_delegate d = user then saturating_add acc (vd_delegated_power d) else acc)"

definition get_effective_voting_power :: "address \<Rightarrow> 'w governance \<Rightarrow> int" where
  "get_effective_voting_power user s =
     (let st = get_delegation_state s;
          own = (if delegates_actively st user then 0 else get_staked_balance user s)
      in saturating_add own (delegated_loop st user (dl_delegators st) 0))"

definition p_delegate_voting_power :: "env \<Rightarrow> address \<Rightarrow> address \<Rightarrow> 'w governance \<Rightarrow> ('w, unit) gcall" where
  "p_delegate_voting_power e delegator delegate =
     with_auth e delegator (\<lambda>e s.
       if delegator = delegate then (Err InvalidProposal, s)
       else let st = get_delegation_state s
            in if delegates_actively st delegator then (Err InvalidCommitteeAction, s)
               else let power = get_staked_balance delegator s
                    in if power \<le> 0 then (Err NoVotingPower, s)
                       else (Ok (), put_delegation_state
                         (st\<lparr>dl_delegations := smap_set (dl_delegations st) delegator
                               \<lparr>vd_delegator = delegator, vd_delegate = delegate, vd_delegated_power = power,
                                vd_active = True\<rparr>,
                             dl_delegators := (if delegator \<in> set (dl_delegators st) then dl_delegators st
                                               else dl_delegators st @ [delegator])\<rparr>) s))"

definition p_undelegate_voting_power :: "env \<Rightarrow> address \<Rightarrow> 'w governance \<Rightarrow> ('w, unit) gcall" where
  "p_undelegate_voting_power e delegator =
     with_auth e delegator (\<lambda>e s.
       let st = get_delegation_state s
       in attempt (ok_or CrossCommitteeRequestNotFound (smap_get (dl_delegations st) delegator)) s (\<lambda>d.
            (Ok (), put_delegation_state
               (st\<lparr>dl_delegations := smap_set (dl_delegations st) delegator (d\<lparr>vd_active := False\<rparr>)\<rparr>) s)))"

section \<open>Validation\<close>

definition is_within_parameter_bounds :: "int \<Rightarrow> bool" where
  "is_within_parameter_bounds v \<longleftrightarrow> - MAX_PARAMETER_VALUE \<le> v \<and> v \<le> MAX_PARAMETER_VALUE"

definition is_all_zero_bytes :: "bytes \<Rightarrow> bool" where
  "is_all_zero_bytes bs = list_all (\<lambda>b. b = 0) bs"

definition asset_balance :: "asset \<Rightarrow> 'w governance \<Rightarrow> int" where
  "asset_balance a s = get_or 0 (tr_assets (get_treasury s) a)"

definition named :: "string \<Rightarrow> unit gresult" where
  "named v = (if v = [] then Inl InvalidProposal else sanitized v MAX_ACTION_STRING_LEN)"

fun validate_proposal :: "proposal_type \<Rightarrow> 'w governance \<Rightarrow> unit gresult" where
  "validate_proposal (ParameterChange parameter current proposed) s =
     bind_sum (named parameter) (\<lambda>_.
       if \<not> is_within_parameter_bounds current \<or> \<not> is_within_parameter_bounds proposed
       then Inl ProposalParameterOutOfRange
       else if current > 0 then
         bind_sum (gov_checked_sub proposed current) (\<lambda>d.
         bind_sum (gov_checked_mul \<bar>d\<bar> 2) (\<lambda>twice. if twice \<ge> current then Inl InvalidProposal else Inr ()))
       else Inr ())"
| "validate_proposal (TreasurySpend recipient amount a purpose) s =
     bind_sum (sanitized purpose MAX_ACTION_STRING_LEN) (\<lambda>_.
       let bal = asset_balance a s
       in if amount \<le> 0 \<or> amount > bal \<or> saturating_mul amount 10 > bal then Inl BudgetExceeded else Inr ())"
| "validate_proposal (FeatureToggle feature enabled) s = named feature"
| "validate_proposal (ContractUpgrade name hash) s =
     bind_sum (named name) (\<lambda>_.
       if length hash \<noteq> 32 then Inl InvalidProposal
       else if is_all_zero_bytes hash then Inl InvalidProposal else Inr ())"
| "validate_proposal (SignalProposal text) s = named text"
| "validate_proposal (CustomProposal executor) s = Inr ()"

fun validate_execution_payload :: "proposal_type \<Rightarrow> bytes \<Rightarrow> unit gresult" where
  "validate_execution_payload (ContractUpgrade _ _) data = (if length data \<noteq> 32 then Inl InvalidProposal else Inr ())"
| "validate_execution_payload (TreasurySpend _ _ _ _) data =
     (if length data > 0 \<and> hd data \<noteq> 1 then Inl InvalidProposal else Inr ())"
| "validate_execution_payload (ParameterChange _ _ _) data =
     (if length data > 0 \<and> hd data \<noteq> 1 then Inl InvalidProposal else Inr ())"
| "validate_execution_payload (CustomProposal _) data = (if data = [] then Inl InvalidProposal else Inr ())"
| "validate_execution_payload _ data = Inr ()"

section \<open>Creation\<close>

fun snapshot_loop :: "bool \<Rightarrow> 'w governance \<Rightarrow> address list \<Rightarrow> (address, int) smap \<Rightarrow> int \<Rightarrow> (address, int) smap \<times> int" where
  "snapshot_loop quadratic s [] snaps supply_acc = (snaps, supply_acc)"
| "snapshot_loop quadratic s (h # hs) snaps supply_acc =
     (let p = get_effective_voting_power h s
      in if p > 0
         then snapshot_loop quadratic s hs (smap_set snaps h p)
                (if quadratic then saturating_add supply_acc (isqrt p) else supply_acc)
         else snapshot_loop quadratic s hs snaps supply_acc)"

definition p_create_proposal :: "env \<Rightarrow> address \<Rightarrow> proposal_type \<Rightarrow> string \<Rightarrow> string \<Rightarrow> bytes \<Rightarrow> proposal_category \<Rightarrow>
    bool \<Rightarrow> 'w governance \<Rightarrow> ('w, nat) gcall" where
  "p_create_proposal e author ptype title description data category quadratic =
     with_auth e author (\<lambda>e s.
       if title = [] \<or> description = [] then (Err InvalidProposal, s)
       else attempt (sanitized title 256) s (\<lambda>_.
            attempt (sanitized description 4096) s (\<lambda>_.
              let config = get_governance_config s
              in if get_effective_voting_power author s < gc_min_proposal_threshold config
                 then (Err NoVotingPower, s)
                 else attempt (validate_proposal ptype s) s (\<lambda>_.
                      attempt (validate_execution_payload ptype data) s (\<lambda>_.
                        let st = get_proposals_state s; pid = pp_next_proposal_id st;
                            (snaps, qsupply) = snapshot_loop quadratic s (get_holders s) [] 0;
                            s1 = put_vote_snapshots pid snaps s;
                            now = ledger_timestamp e;
                            discussion = (if gc_discussion_duration config > 0
                                          then sat_add_u64 now (gc_discussion_duration config) else 0);
                            voting_ends = sat_add_u64 (sat_add_u64 now (gc_voting_delay config)) (gc_voting_period config);
                            p = \<lparr>gp_id = pid, gp_proposer = author, gp_type = ptype, gp_title = title,
                                 gp_description = description, gp_execution_payload = data,
                                 gp_voting_starts = sat_add_u64 now (gc_voting_delay config),
                                 gp_voting_ends = voting_ends, gp_votes_for = 0, gp_votes_against = 0,
                                 gp_votes_abstain = 0, gp_status = Pending, gp_voters = [], gp_voter_list = [],
                                 gp_executed_at = None, gp_discussion_ends_at = discussion, gp_category = category,
                                 gp_use_quadratic_voting = quadratic, gp_quadratic_total_supply = qsupply,
                                 gp_execution_deadline = sat_add_u64 voting_ends EXECUTION_WINDOW\<rparr>;
                            s2 = put_proposals_state
                                   (st\<lparr>pp_proposals := smap_set (pp_proposals st) pid p,
                                       pp_proposal_ids := pp_proposal_ids st @ [pid],
                                       pp_next_proposal_id := sat_add_u64 pid 1\<rparr>) s1
                        in (Ok pid, publish s2 [VSym ''gov'', VSym ''propnew'']
                              (VVec [VU64 pid, VAddr author, VU64 (gp_discussion_ends_at p),
                                     VU64 (gp_voting_starts p), VU64 (gp_voting_ends p)])))))))"

section \<open>Voting\<close>

text \<open>The gates of \<^verbatim>\<open>cast_vote\<close> that do not depend on the voter's power.\<close>

definition voting_gates :: "nat \<Rightarrow> gov_proposal \<Rightarrow> unit gresult" where
  "voting_gates now p =
     (if now < gp_voting_starts p then Inl VotingNotStarted
      else if now \<ge> gp_voting_ends p then Inl VotingEnded
      else if gp_status p \<noteq> Pending \<and> gp_status p \<noteq> Active then Inl ProposalNotActive
      else Inr ())"

definition discussion_open :: "nat \<Rightarrow> gov_proposal \<Rightarrow> bool" where
  "discussion_open now p \<longleftrightarrow> gp_discussion_ends_at p > 0 \<and> now < gp_discussion_ends_at p"

definition vote_power :: "gov_proposal \<Rightarrow> int \<Rightarrow> int gresult" where
  "vote_power p raw =
     (if gp_use_quadratic_voting p
      then let q = isqrt raw in if q \<le> 0 then Inl NoVotingPower else Inr q
      else Inr raw)"

definition record_ballot :: "address \<Rightarrow> vote \<Rightarrow> gov_proposal \<Rightarrow> gov_proposal" where
  "record_ballot voter v p =
     p\<lparr>gp_voters := smap_set (gp_voters p) voter v, gp_voter_list := gp_voter_list p @ [voter]\<rparr>"

definition open_voting :: "gov_proposal \<Rightarrow> gov_proposal" where
  "open_voting p = (if gp_status p = Pending then p\<lparr>gp_status := Active\<rparr> else p)"

fun add_tally :: "vote_type \<Rightarrow> int \<Rightarrow> gov_proposal \<Rightarrow> gov_proposal gresult" where
  "add_tally For w p = bind_sum (gov_checked_add (gp_votes_for p) w) (\<lambda>x. Inr (p\<lparr>gp_votes_for := x\<rparr>))"
| "add_tally Against w p =
     bind_sum (gov_checked_add (gp_votes_against p) w) (\<lambda>x. Inr (p\<lparr>gp_votes_against := x\<rparr>))"
| "add_tally Abstain w p =
     bind_sum (gov_checked_add (gp_votes_abstain p) w) (\<lambda>x. Inr (p\<lparr>gp_votes_abstain := x\<rparr>))"

definition p_cast_vote :: "env \<Rightarrow> nat \<Rightarrow> address \<Rightarrow> vote_type \<Rightarrow> 'w governance \<Rightarrow> ('w, unit) gcall" where
  "p_cast_vote e pid voter vt =
     with_auth e voter (\<lambda>e s.
       attempt (get_proposal pid s) s (\<lambda>p.
         let now = ledger_timestamp e
         in if discussion_open now p then (Err DiscussionPeriodActive, s)
            else let s1 = (if gp_discussion_ends_at p > 0 \<and> gp_voter_list p = []
                           then publish s [VSym ''gov'', VSym ''discend'']
                                  (VVec [VU64 pid, VU64 (gp_discussion_ends_at p), VU64 now])
                           else s)
                 in attempt (voting_gates now p) s1 (\<lambda>_.
                      if smap_has (gp_voters p) voter then (Err AlreadyVoted, s1)
                      else let raw = get_or 0 (get_vote_snapshot pid voter s1)
                           in if raw \<le> 0 then (Err NoVotingPower, s1)
                              else attempt (vote_power p raw) s1 (\<lambda>power.
                                   attempt (add_tally vt power
                                     (record_ballot voter
                                        \<lparr>v_voter = voter, v_vote_type = vt, v_voting_power = power, v_timestamp = now\<rparr> p)) s1 (\<lambda>p'.
                                     put_proposal (open_voting p') s1)))))"

section \<open>Finalisation and execution\<close>

definition category_to_key :: "proposal_category \<Rightarrow> nat" where
  "category_to_key c =
     (case c of CategoryParameterChange \<Rightarrow> 0 | CategoryContractUpgrade \<Rightarrow> 1 | CategoryTreasuryTransfer \<Rightarrow> 2
      | CategoryGeneral \<Rightarrow> 3)"

definition get_category_threshold :: "proposal_category \<Rightarrow> 'w governance \<Rightarrow> category_threshold option" where
  "get_category_threshold c s = bk_category_thresholds (gk_ballot s) (category_to_key c)"

definition resolve_category_thresholds :: "proposal_category \<Rightarrow> governance_config \<Rightarrow> 'w governance \<Rightarrow> nat \<times> nat" where
  "resolve_category_thresholds c global s =
     (case get_category_threshold c s of
        Some t \<Rightarrow> (if ct_quorum_bps t > 0 then ct_quorum_bps t else gc_quorum_threshold global,
                   if ct_supermajority_bps t > 0 then ct_supermajority_bps t else gc_approval_threshold global)
      | None \<Rightarrow> (gc_quorum_threshold global, gc_approval_threshold global))"

definition p_set_category_thresholds :: "env \<Rightarrow> address \<Rightarrow> proposal_category \<Rightarrow> category_threshold \<Rightarrow> 'w governance \<Rightarrow>
    ('w, unit) gcall" where
  "p_set_category_thresholds e admin c t =
     gov_require_admin e admin (\<lambda>e s.
       if ct_quorum_bps t > 10000 \<or> ct_supermajority_bps t > 10000 then (Err InvalidGovernanceConfig, s)
       else (Ok (), put_ballot (\<lambda>b. b\<lparr>bk_category_thresholds := (bk_category_thresholds b)(category_to_key c := Some t)\<rparr>) s))"

definition total_votes :: "gov_proposal \<Rightarrow> int" where
  "total_votes p = saturating_add (saturating_add (gp_votes_for p) (gp_votes_against p)) (gp_votes_abstain p)"

definition reference_supply :: "gov_proposal \<Rightarrow> 'w governance \<Rightarrow> int gresult" where
  "reference_supply p s =
     (if gp_use_quadratic_voting p \<and> gp_quadratic_total_supply p > 0 then Inr (gp_quadratic_total_supply p)
      else bind_sum (get_total_supply s) (\<lambda>ts. if ts \<le> 0 then Inl InvalidSupply else Inr ts))"

definition quorum_met :: "gov_proposal \<Rightarrow> int \<Rightarrow> nat \<Rightarrow> bool" where
  "quorum_met p supply_ref quorum_bps \<longleftrightarrow>
     saturating_mul (total_votes p) GOV_BPS_DENOMINATOR \<ge> saturating_mul supply_ref (int quorum_bps)"

definition approved :: "gov_proposal \<Rightarrow> nat \<Rightarrow> bool" where
  "approved p approval_bps \<longleftrightarrow>
     (let cast_votes = saturating_add (gp_votes_for p) (gp_votes_against p)
      in cast_votes > 0 \<and>
         saturating_mul (gp_votes_for p) GOV_BPS_DENOMINATOR \<ge> saturating_mul cast_votes (int approval_bps))"

fun gov_execute_action :: "proposal_type \<Rightarrow> 'w governance \<Rightarrow> ('w, unit) gcall" where
  "gov_execute_action (ParameterChange parameter current proposed) s =
     (Ok (), put_ballot (\<lambda>b. b\<lparr>bk_parameters := (bk_parameters b)(parameter := Some proposed)\<rparr>) s)"
| "gov_execute_action (TreasurySpend recipient amount a purpose) s =
     (let t = get_treasury s; bal = asset_balance a s
      in if bal < amount then (Err InsufficientBalance, s)
         else attempt (gov_checked_sub bal amount) s (\<lambda>rest.
                add_balance recipient amount
                  (put_treasury (t\<lparr>tr_assets := (tr_assets t)(a := Some rest)\<rparr>) s)))"
| "gov_execute_action (FeatureToggle feature enabled) s =
     (Ok (), put_ballot (\<lambda>b. b\<lparr>bk_features := (bk_features b)(feature := Some enabled)\<rparr>) s)"
| "gov_execute_action (ContractUpgrade name hash) s =
     (Ok (), put_ballot (\<lambda>b. b\<lparr>bk_upgrades := (bk_upgrades b)(name := Some hash)\<rparr>) s)"
| "gov_execute_action (SignalProposal _) s = (Ok (), s)"
| "gov_execute_action (CustomProposal _) s = (Ok (), s)"

definition execute_proposal_action :: "gov_proposal \<Rightarrow> 'w governance \<Rightarrow> ('w, unit) gcall" where
  "execute_proposal_action p = gov_execute_action (gp_type p)"

definition execute_proposal_action_by_id :: "nat \<Rightarrow> 'w governance \<Rightarrow> ('w, unit) gcall" where
  "execute_proposal_action_by_id pid s = attempt (get_proposal pid s) s (\<lambda>p. execute_proposal_action p s)"

definition mark_proposal_executed :: "env \<Rightarrow> nat \<Rightarrow> 'w governance \<Rightarrow> ('w, unit) gcall" where
  "mark_proposal_executed e pid s =
     attempt (get_proposal pid s) s (\<lambda>p.
       put_proposal (p\<lparr>gp_status := Executed, gp_executed_at := Some (ledger_timestamp e)\<rparr>) s)"

definition p_execute_proposal :: "env \<Rightarrow> nat \<Rightarrow> address \<Rightarrow> 'w governance \<Rightarrow> ('w, gov_status) gcall" where
  "p_execute_proposal e pid executor =
     with_auth e executor (\<lambda>e s.
       attempt (get_proposal pid s) s (\<lambda>p.
         if gp_status p \<noteq> Succeeded then (Err ProposalNotApproved, s)
         else let ready = sat_add_u64 (gp_voting_ends p) (gc_execution_delay (get_governance_config s));
                  now = ledger_timestamp e
              in if now < ready then (Err InvalidDuration, s)
                 else if now > gp_execution_deadline p then (Err ProposalExpired, s)
                 else and_then (execute_proposal_action p s) (\<lambda>_ s.
                      and_then (put_proposal
                          (p\<lparr>gp_status := Executed, gp_executed_at := Some (ledger_timestamp e)\<rparr>) s) (\<lambda>_ s.
                        (Ok Executed, s)))))"

definition announce_upgrade :: "governance_config \<Rightarrow> gov_proposal \<Rightarrow> 'w governance \<Rightarrow> 'w governance" where
  "announce_upgrade cfg p s =
     (case gp_type p of
        ContractUpgrade name hash \<Rightarrow>
          publish s [VSym ''upgrade'', VSym ''announced'']
            (VVec [VStr name, VBytes hash, VU64 (sat_add_u64 (gp_voting_ends p) (gc_execution_delay cfg)),
                   VBytes (gp_execution_payload p)])
      | _ \<Rightarrow> s)"

definition p_finalize_proposal :: "env \<Rightarrow> nat \<Rightarrow> 'w governance \<Rightarrow> ('w, gov_status) gcall" where
  "p_finalize_proposal e pid s =
     attempt (get_proposal pid s) s (\<lambda>p.
       if ledger_timestamp e < gp_voting_ends p then (Err InvalidDuration, s)
       else if gp_status p \<noteq> Pending \<and> gp_status p \<noteq> Active then (Err ProposalNotActive, s)
       else let cfg = get_governance_config s;
                (quorum_bps, approval_bps) = resolve_category_thresholds (gp_category p) cfg s
            in attempt (reference_supply p s) s (\<lambda>supply_ref.
                 if \<not> quorum_met p supply_ref quorum_bps
                 then and_then (put_proposal (p\<lparr>gp_status := Failed\<rparr>) s) (\<lambda>_ s. (Ok Failed, s))
                 else let status = (if approved p approval_bps then Succeeded else Failed);
                          p' = p\<lparr>gp_status := status\<rparr>;
                          s1 = (if status = Succeeded then announce_upgrade cfg p' s else s)
                      in and_then (put_proposal p' s1) (\<lambda>_ s2.
                           if status = Succeeded \<and> gc_execution_delay cfg = 0
                           then ignore (p_execute_proposal e pid (gp_proposer p) s2) (\<lambda>s3. (Ok status, s3))
                           else (Ok status, s2))))"

section \<open>Cancelling, withdrawing, reclaiming\<close>

definition p_cancel_proposal :: "env \<Rightarrow> nat \<Rightarrow> address \<Rightarrow> 'w governance \<Rightarrow> ('w, gov_status) gcall" where
  "p_cancel_proposal e pid canceller =
     with_auth e canceller (\<lambda>e s.
       attempt (get_proposal pid s) s (\<lambda>p.
       attempt (ok_or NotInitialized (gk_admin s)) s (\<lambda>admin.
         if canceller \<noteq> gp_proposer p \<and> canceller \<noteq> admin \<and> gk_guardian s \<noteq> Some canceller
         then (Err Unauthorized, s)
         else if gp_status p = Executed then (Err InvalidCommitteeAction, s)
         else and_then (put_proposal (p\<lparr>gp_status := Cancelled\<rparr>) s) (\<lambda>_ s. (Ok Cancelled, s)))))"

definition default_deposit_config :: deposit_config where
  "default_deposit_config =
     \<lparr>dc_amount = DEFAULT_DEPOSIT_AMOUNT, dc_min_participation_bps = DEFAULT_MIN_PARTICIPATION_BPS\<rparr>"

definition get_deposit_config :: "'w governance \<Rightarrow> deposit_config" where
  "get_deposit_config s = get_or default_deposit_config (bk_deposit_config (gk_ballot s))"

definition p_set_deposit_config :: "env \<Rightarrow> address \<Rightarrow> deposit_config \<Rightarrow> 'w governance \<Rightarrow> ('w, unit) gcall" where
  "p_set_deposit_config e admin config =
     gov_require_admin e admin (\<lambda>e s.
       if dc_amount config \<le> 0 \<or> dc_min_participation_bps config > 10000 then (Err InvalidGovernanceConfig, s)
       else (Ok (), put_ballot (\<lambda>b. b\<lparr>bk_deposit_config := Some config\<rparr>) s))"

definition set_locked_deposit :: "nat \<Rightarrow> address option \<Rightarrow> 'w governance \<Rightarrow> 'w governance" where
  "set_locked_deposit pid x = put_ballot (\<lambda>b. b\<lparr>bk_locked_deposit := (bk_locked_deposit b)(pid := x)\<rparr>)"

definition deposit_event :: "symbol \<Rightarrow> nat \<Rightarrow> address \<Rightarrow> int \<Rightarrow> 'w governance \<Rightarrow> 'w governance" where
  "deposit_event what pid a amount s =
     publish s [VSym ''deposit'', VSym what] (VVec [VU64 pid, VAddr a, VI128 amount])"

definition lock_proposal_deposit :: "nat \<Rightarrow> address \<Rightarrow> 'w governance \<Rightarrow> ('w, unit) gcall" where
  "lock_proposal_deposit pid author s =
     (let config = get_deposit_config s
      in if dc_amount config = 0 then (Ok (), s)
         else and_then (subtract_balance author (dc_amount config) s) (\<lambda>_ s.
                (Ok (), deposit_event ''locked'' pid author (dc_amount config)
                   (set_locked_deposit pid (Some author) s))))"

definition settle_proposal_deposit :: "nat \<Rightarrow> int \<Rightarrow> int \<Rightarrow> address \<Rightarrow> 'w governance \<Rightarrow> ('w, unit) gcall" where
  "settle_proposal_deposit pid votes supply_ref treasury_addr s =
     (case bk_locked_deposit (gk_ballot s) pid of
        None \<Rightarrow> (Ok (), s)
      | Some author \<Rightarrow>
          let config = get_deposit_config s;
              threshold_met = (supply_ref > 0 \<and>
                 tdiv (saturating_mul votes 10000) supply_ref \<ge> int (dc_min_participation_bps config))
          in if threshold_met
             then and_then (add_balance author (dc_amount config) s) (\<lambda>_ s.
                    (Ok (), set_locked_deposit pid None (deposit_event ''refund'' pid author (dc_amount config) s)))
             else and_then (add_balance treasury_addr (dc_amount config) s) (\<lambda>_ s.
                    (Ok (), set_locked_deposit pid None (deposit_event ''forfeit'' pid treasury_addr (dc_amount config) s))))"

definition p_withdraw_proposal :: "env \<Rightarrow> nat \<Rightarrow> address \<Rightarrow> 'w governance \<Rightarrow> ('w, gov_status) gcall" where
  "p_withdraw_proposal e pid author =
     with_auth e author (\<lambda>e s.
       attempt (get_proposal pid s) s (\<lambda>p.
         if author \<noteq> gp_proposer p then (Err Unauthorized, s)
         else if gp_status p = Withdrawn then (Err ProposalAlreadyWithdrawn, s)
         else if gp_status p \<noteq> Pending then (Err ProposalNotActive, s)
         else and_then (put_proposal (p\<lparr>gp_status := Withdrawn\<rparr>) s) (\<lambda>_ s.
                let config = get_deposit_config s;
                    finish = (\<lambda>s. (Ok Withdrawn, publish s [VSym ''gov'', VSym ''propwdr'']
                                     (VVec [VU64 pid, VAddr author, VU64 (ledger_timestamp e)])))
                in if dc_amount config > 0 \<and> bk_locked_deposit (gk_ballot s) pid = Some author
                   then ignore (add_balance author (dc_amount config) s) (\<lambda>s.
                          finish (deposit_event ''refund'' pid author (dc_amount config) (set_locked_deposit pid None s)))
                   else finish s)))"

definition p_reclaim_expired_proposal :: "env \<Rightarrow> nat \<Rightarrow> address \<Rightarrow> 'w governance \<Rightarrow> ('w, unit) gcall" where
  "p_reclaim_expired_proposal e pid caller =
     with_auth e caller (\<lambda>e s.
       let st = get_proposals_state s
       in attempt (ok_or ProposalNotFound (smap_get (pp_proposals st) pid)) s (\<lambda>p.
            if gp_status p \<noteq> Succeeded \<and> gp_status p \<noteq> Expired then (Err ProposalNotApproved, s)
            else if ledger_timestamp e \<le> gp_execution_deadline p then (Err InvalidDuration, s)
            else (Ok (), publish
                    (put_proposals_state
                       (st\<lparr>pp_proposals := smap_remove (pp_proposals st) pid,
                           pp_proposal_ids := remove1 pid (pp_proposal_ids st)\<rparr>) s)
                    [VSym ''treasury'', VSym ''propexp'']
                    (VVec [VU64 pid, VAddr (gp_proposer p), VAddr caller, VU64 (ledger_timestamp e)]))))"

definition is_terminal :: "gov_status \<Rightarrow> bool" where
  "is_terminal st \<longleftrightarrow> st \<in> {Failed, Executed, Cancelled, Expired, Withdrawn}"

definition status_val :: "gov_status \<Rightarrow> scval" where
  "status_val st = VVec [VSym (case st of Pending \<Rightarrow> ''Pending'' | Active \<Rightarrow> ''Active'' | Succeeded \<Rightarrow> ''Succeeded''
     | Failed \<Rightarrow> ''Failed'' | Executed \<Rightarrow> ''Executed'' | Cancelled \<Rightarrow> ''Cancelled'' | Expired \<Rightarrow> ''Expired''
     | Withdrawn \<Rightarrow> ''Withdrawn'')]"

text \<open>The loop over the identifiers from the cursor on; those before it, or kept on the way, come first.\<close>

fun cleanup_loop :: "env \<Rightarrow> nat \<Rightarrow> nat \<Rightarrow> nat list \<Rightarrow> nat list \<Rightarrow> (nat, gov_proposal) smap \<Rightarrow> 'w governance \<Rightarrow>
    ('w, nat \<times> (nat, gov_proposal) smap \<times> nat list) gcall" where
  "cleanup_loop e limit removed kept [] props s = (Ok (removed, props, kept), s)"
| "cleanup_loop e limit removed kept (pid # rest) props s =
     (if removed < limit then
        attempt (ok_or ProposalNotFound (smap_get props pid)) s (\<lambda>p.
          if is_terminal (effective_status e p)
          then cleanup_loop e limit (removed + 1) kept rest (smap_remove props pid)
                 (publish s [VSym ''gov'', VSym ''cleanup'']
                    (VVec [VU64 pid, status_val (gp_status p), VU64 (ledger_timestamp e)]))
          else cleanup_loop e limit removed (kept @ [pid]) rest props s)
      else (Ok (removed, props, kept @ pid # rest), s))"

definition cleanup_terminal_proposals :: "env \<Rightarrow> nat \<Rightarrow> nat \<Rightarrow> 'w governance \<Rightarrow> ('w, nat) gcall" where
  "cleanup_terminal_proposals e cursor limit s =
     (if limit = 0 \<or> limit > 50 then (Err InvalidAmount, s)
      else let st = get_proposals_state s; ids = pp_proposal_ids st
           in and_then (cleanup_loop e limit 0 (take cursor ids) (drop cursor ids) (pp_proposals st) s)
                (\<lambda>(removed, props, ids') s.
                   (Ok removed, put_proposals_state (st\<lparr>pp_proposals := props, pp_proposal_ids := ids'\<rparr>) s)))"

section \<open>Listings and statistics\<close>

definition get_all_proposals :: "'w governance \<Rightarrow> gov_proposal list" where
  "get_all_proposals s =
     (let st = get_proposals_state s in List.map_filter (smap_get (pp_proposals st)) (pp_proposal_ids st))"

definition p_get_active_proposals :: "env \<Rightarrow> 'w governance \<Rightarrow> gov_proposal list" where
  "p_get_active_proposals e s =
     filter (\<lambda>p. gp_status p \<in> {Pending, Active, Succeeded} \<and> ledger_timestamp e \<le> gp_execution_deadline p)
       (get_all_proposals s)"

definition i128_as_u64 :: "int \<Rightarrow> nat" where
  "i128_as_u64 x = nat (x mod 18446744073709551616)"

record statistics_acc =
  sc_total :: nat
  sc_active :: nat
  sc_succeeded :: nat
  sc_failed :: nat
  sc_executed :: nat
  sc_part_total :: nat
  sc_part_count :: nat
  sc_appr_total :: nat
  sc_appr_count :: nat

definition count_status :: "gov_status \<Rightarrow> statistics_acc \<Rightarrow> statistics_acc" where
  "count_status st a =
     (case st of Pending \<Rightarrow> a\<lparr>sc_active := sat_add_u32 (sc_active a) 1\<rparr>
      | Active \<Rightarrow> a\<lparr>sc_active := sat_add_u32 (sc_active a) 1\<rparr>
      | Succeeded \<Rightarrow> a\<lparr>sc_succeeded := sat_add_u32 (sc_succeeded a) 1\<rparr>
      | Failed \<Rightarrow> a\<lparr>sc_failed := sat_add_u32 (sc_failed a) 1\<rparr>
      | Executed \<Rightarrow> a\<lparr>sc_executed := sat_add_u32 (sc_executed a) 1\<rparr>
      | _ \<Rightarrow> a)"

definition statistics_step :: "int \<Rightarrow> gov_proposal \<Rightarrow> statistics_acc \<Rightarrow> statistics_acc" where
  "statistics_step supply_ref p a =
     (let a1 = count_status (gp_status p) (a\<lparr>sc_total := sat_add_u32 (sc_total a) 1\<rparr>);
          a2 = (if supply_ref > 0
                then a1\<lparr>sc_part_total := sat_add_u64 (sc_part_total a1)
                          (i128_as_u64 (tdiv (saturating_mul (total_votes p) GOV_BPS_DENOMINATOR) supply_ref)),
                        sc_part_count := sat_add_u32 (sc_part_count a1) 1\<rparr>
                else a1);
          cast_votes = saturating_add (gp_votes_for p) (gp_votes_against p)
      in if cast_votes > 0
         then a2\<lparr>sc_appr_total := sat_add_u64 (sc_appr_total a2)
                   (i128_as_u64 (tdiv (saturating_mul (gp_votes_for p) GOV_BPS_DENOMINATOR) cast_votes)),
                 sc_appr_count := sat_add_u32 (sc_appr_count a2) 1\<rparr>
         else a2)"

definition calculate_proposal_statistics :: "'w governance \<Rightarrow> proposal_statistics gresult" where
  "calculate_proposal_statistics s =
     bind_sum (get_total_supply s) (\<lambda>supply_ref.
       let a = fold (statistics_step supply_ref) (get_all_proposals s)
                 \<lparr>sc_total = 0, sc_active = 0, sc_succeeded = 0, sc_failed = 0, sc_executed = 0, sc_part_total = 0,
                  sc_part_count = 0, sc_appr_total = 0, sc_appr_count = 0\<rparr>
       in Inr \<lparr>pst_total = sc_total a, pst_active = sc_active a, pst_succeeded = sc_succeeded a,
               pst_failed = sc_failed a, pst_executed = sc_executed a,
               pst_avg_participation_rate = (if sc_part_count a > 0 then as_u32 (sc_part_total a div sc_part_count a) else 0),
               pst_avg_approval_rate = (if sc_appr_count a > 0 then as_u32 (sc_appr_total a div sc_appr_count a) else 0)\<rparr>)"

section \<open>The dry run\<close>

definition effect :: "string \<Rightarrow> string \<Rightarrow> string \<Rightarrow> simulation_effect" where
  "effect k c p = \<lparr>se_key = k, se_current = c, se_proposed = p\<rparr>"

text \<open>\<open>None\<close> is the overflow of the plain subtraction.\<close>

fun simulate_proposal_action :: "(address \<Rightarrow> string) \<Rightarrow> proposal_type \<Rightarrow> 'w governance \<Rightarrow> simulation_result option" where
  "simulate_proposal_action strkey (ParameterChange parameter current proposed) s =
     Some \<lparr>sr_success = True, sr_error = '''',
           sr_effects = [effect (labeled_key ''parameter:'' parameter)
             (i128_to_string (get_or 0 (bk_parameters (gk_ballot s) parameter))) (i128_to_string proposed)]\<rparr>"
| "simulate_proposal_action strkey (TreasurySpend recipient amount a purpose) s =
     (let bal = asset_balance a s
      in if bal < amount
         then Some \<lparr>sr_success = False, sr_error = ''Insufficient treasury balance'', sr_effects = []\<rparr>
         else case checked_sub bal amount of
                None \<Rightarrow> None
              | Some rest \<Rightarrow>
                  Some \<lparr>sr_success = True, sr_error = '''',
                        sr_effects = [effect ''treasury:balance'' (i128_to_string bal) (i128_to_string rest),
                                      effect ''treasury:recipient'' ''(unchanged)'' (strkey recipient)]\<rparr>)"
| "simulate_proposal_action strkey (FeatureToggle feature enabled) s =
     Some \<lparr>sr_success = True, sr_error = '''',
           sr_effects = [effect (labeled_key ''feature:'' feature)
             (bool_to_string (get_or False (bk_features (gk_ballot s) feature))) (bool_to_string enabled)]\<rparr>"
| "simulate_proposal_action strkey (ContractUpgrade name hash) s =
     Some \<lparr>sr_success = True, sr_error = '''',
           sr_effects = [effect (labeled_key ''upgrade:'' name)
             (case bk_upgrades (gk_ballot s) name of Some h \<Rightarrow> bytes_to_string h | None \<Rightarrow> ''(none)'')
             (bytes_to_string hash)]\<rparr>"
| "simulate_proposal_action strkey (SignalProposal message) s =
     Some \<lparr>sr_success = True, sr_error = '''', sr_effects = [effect ''signal'' ''(no state change)'' message]\<rparr>"
| "simulate_proposal_action strkey (CustomProposal executor) s =
     Some \<lparr>sr_success = True, sr_error = '''', sr_effects = [effect ''custom'' ''(external call)'' (strkey executor)]\<rparr>"

definition effect_summary :: "simulation_effect \<Rightarrow> string" where
  "effect_summary x = concat_parts [se_key x, '': '', se_current x, '' -> '', se_proposed x]"

definition p_simulate_proposal :: "(address \<Rightarrow> string) \<Rightarrow> nat \<Rightarrow> 'w governance \<Rightarrow> ('w, simulation_result) gcall" where
  "p_simulate_proposal strkey pid s =
     attempt (get_proposal pid s) s (\<lambda>p.
     or_panic (simulate_proposal_action strkey (gp_type p) s) s (\<lambda>result.
       (Ok result, publish s [VSym ''shadow'', VSym ''simres'']
          (VMap [(''proposal_id'', VU64 pid), (''success'', VBool (sr_success result)),
                 (''simulated_state_changes'', VVec (map (\<lambda>x. VStr (effect_summary x)) (sr_effects result))),
                 (''failure_reason'', if sr_success result then VVoid else VStr (sr_error result))]))))"

definition simulated_values :: "proposal_type \<Rightarrow> 'w governance \<Rightarrow> int \<times> int" where
  "simulated_values t s =
     (case t of
        ParameterChange key _ new_val \<Rightarrow> (get_or 0 (bk_parameters (gk_ballot s) key), new_val)
      | TreasurySpend _ amount a _ \<Rightarrow> (asset_balance a s, saturating_sub (asset_balance a s) amount)
      | FeatureToggle name enabled \<Rightarrow> (of_bool (get_or False (bk_features (gk_ballot s) name)), of_bool enabled)
      | ContractUpgrade _ _ \<Rightarrow> (0, 1)
      | SignalProposal _ \<Rightarrow> (0, 0)
      | CustomProposal _ \<Rightarrow> (0, 0))"

section \<open>Printing numbers\<close>

text \<open>The value of a decimal numeral, as a reader of the dry run computes it.\<close>

definition digits_value :: "string \<Rightarrow> nat" where
  "digits_value ds = foldl (\<lambda>acc c. 10 * acc + (of_char c - 48)) 0 ds"

definition parse_int :: "string \<Rightarrow> int" where
  "parse_int v = (case v of CHR ''-'' # ds \<Rightarrow> - int (digits_value ds) | _ \<Rightarrow> int (digits_value v))"

lemma of_char_digit: "(of_char (char_of (48 + n mod 10 :: nat)) :: nat) = 48 + n mod 10"
  by (simp add: of_char_of)

lemma digit_loop_value: "digits_value (digit_loop n buf) = foldl (\<lambda>acc c. 10 * acc + (of_char c - 48)) n buf"
proof (induction n buf rule: digit_loop.induct)
  case (1 n buf)
  show ?case
  proof (cases "n = 0")
    case False
    then show ?thesis
      using 1 by (subst digit_loop.simps) (simp add: of_char_digit)
  qed (subst digit_loop.simps, simp add: digits_value_def)
qed

lemma digit_loop_hd:
  assumes "0 < n"
  shows "\<exists>d ds. digit_loop n buf = char_of (48 + d :: nat) # ds \<and> d < 10"
  using assms
proof (induction n buf rule: digit_loop.induct)
  case (1 n buf)
  show ?case
  proof (cases "n div 10 = 0")
    case True
    with 1 show ?thesis by (subst digit_loop.simps, subst digit_loop.simps) (auto intro!: exI [of _ "n mod 10"])
  next
    case False
    with 1 show ?thesis by (subst digit_loop.simps) auto
  qed
qed

lemma digit_loop_length: "n < 10 ^ k \<Longrightarrow> length (digit_loop n buf) \<le> k + length buf"
proof (induction k arbitrary: n buf)
  case (Suc k)
  show ?case
  proof (cases "n = 0")
    case False
    have "n div 10 < 10 ^ k" using Suc.prems by (simp add: div_less_iff_less_mult)
    from Suc.IH [OF this, of "char_of (48 + n mod 10) # buf"] False show ?thesis
      by (subst digit_loop.simps) simp
  qed (subst digit_loop.simps, simp)
qed (subst digit_loop.simps, simp)

lemma digit_not_minus: "d < 10 \<Longrightarrow> char_of (48 + d :: nat) \<noteq> CHR ''-''"
proof
  assume "d < 10" and "char_of (48 + d :: nat) = CHR ''-''"
  then have "(of_char (char_of (48 + d :: nat)) :: nat) = of_char (CHR ''-'')" by simp
  with \<open>d < 10\<close> show False by (simp add: of_char_of)
qed

text \<open>Printing a 128-bit number and reading the text back gives the number again, and the text fits into the
  buffer of forty bytes that the code reserves for it.\<close>

theorem number_text_round_trip:
  assumes "in_i128 v"
  shows "parse_int (i128_to_string v) = v \<and> length (i128_to_string v) \<le> 40"
proof (cases "v = 0")
  case False
  define n where "n = nat \<bar>v\<bar>"
  have n: "0 < n" "int n = \<bar>v\<bar>" using False by (simp_all add: n_def)
  have "int n < 10 ^ 39" using assms n(2) by (auto simp: in_i128_def i128_min_def i128_max_def)
  then have small: "n < 10 ^ 39" by (metis of_nat_less_iff of_nat_numeral of_nat_power)
  have val: "digits_value (digit_loop n []) = n" using digit_loop_value [of n "[]"] by simp
  have len: "length (digit_loop n []) \<le> 39" using digit_loop_length [OF small, of "[]"] by simp
  obtain d ds where hd: "digit_loop n [] = char_of (48 + d :: nat) # ds" "d < 10"
    using digit_loop_hd [OF n(1), of "[]"] by blast
  have str: "i128_to_string v = (if v < 0 then CHR ''-'' # digit_loop n [] else digit_loop n [])"
    using False by (simp add: i128_to_string_def Let_def n_def)
  show ?thesis
  proof (cases "v < 0")
    case True
    with str val len n show ?thesis by (simp add: parse_int_def)
  next
    case False
    have "parse_int (digit_loop n []) = int (digits_value (digit_loop n []))"
      unfolding hd(1) parse_int_def using digit_not_minus [OF hd(2)] by (auto split: char.splits bool.splits)
    with False str val len n show ?thesis by simp
  qed
qed (simp add: i128_to_string_def parse_int_def digits_value_def)

theorem number_text_round_trip_witness:
  "parse_int (i128_to_string (-170141183460469231731687303715884105728)) = -170141183460469231731687303715884105728"
  using number_text_round_trip [of "-170141183460469231731687303715884105728"]
  by (simp add: in_i128_def i128_min_def i128_max_def)

section \<open>The ballot invariant\<close>

definition vote_weight :: "vote_type \<Rightarrow> vote \<Rightarrow> int" where
  "vote_weight t v = (if v_vote_type v = t then v_voting_power v else 0)"

definition tally :: "vote_type \<Rightarrow> gov_proposal \<Rightarrow> int" where
  "tally t p = smap_total (vote_weight t) (gp_voters p)"

definition votes_of :: "vote_type \<Rightarrow> gov_proposal \<Rightarrow> int" where
  "votes_of t p = (case t of For \<Rightarrow> gp_votes_for p | Against \<Rightarrow> gp_votes_against p | Abstain \<Rightarrow> gp_votes_abstain p)"

text \<open>
  The counters of a proposal are the sums of the powers of the recorded votes (cut off at the largest
  number, since one of the two ways to vote saturates), and every account votes at most once.
\<close>

definition proposal_ok :: "gov_proposal \<Rightarrow> bool" where
  "proposal_ok p \<longleftrightarrow>
     smap_ok (gp_voters p) \<and> smap_all (\<lambda>v. 0 \<le> v_voting_power v) (gp_voters p) \<and>
     distinct (gp_voter_list p) \<and> set (gp_voter_list p) = set (smap_keys (gp_voters p)) \<and>
     (\<forall>t. votes_of t p = min i128_max (tally t p))"

definition proposals_ok :: "proposals_state \<Rightarrow> bool" where
  "proposals_ok st \<longleftrightarrow>
     smap_ok (pp_proposals st) \<and>
     (\<forall>pid p. smap_get (pp_proposals st) pid = Some p \<longrightarrow> gp_id p = pid \<and> pid < pp_next_proposal_id st \<and> proposal_ok p) \<and>
     distinct (pp_proposal_ids st) \<and> set (pp_proposal_ids st) = set (smap_keys (pp_proposals st))"

lemma proposal_ok_other [simp]:
  "proposal_ok (p\<lparr>gp_status := st\<rparr>) = proposal_ok p" "proposal_ok (p\<lparr>gp_executed_at := x\<rparr>) = proposal_ok p"
  "proposal_ok (open_voting p) = proposal_ok p"
  by (simp_all add: proposal_ok_def votes_of_def tally_def open_voting_def split: vote_type.splits)

lemma open_voting_simps [simp]:
  "gp_id (open_voting p) = gp_id p" "gp_voters (open_voting p) = gp_voters p"
  "gp_voter_list (open_voting p) = gp_voter_list p" "votes_of t (open_voting p) = votes_of t p"
  "gp_votes_for (open_voting p) = gp_votes_for p" "gp_votes_against (open_voting p) = gp_votes_against p"
  "gp_votes_abstain (open_voting p) = gp_votes_abstain p" "gp_type (open_voting p) = gp_type p"
  "gp_proposer (open_voting p) = gp_proposer p" "gp_voting_starts (open_voting p) = gp_voting_starts p"
  "gp_voting_ends (open_voting p) = gp_voting_ends p" "gp_execution_deadline (open_voting p) = gp_execution_deadline p"
  by (simp_all add: open_voting_def votes_of_def split: vote_type.splits)

lemma get_put_proposals_state [simp]: "get_proposals_state (put_proposals_state st s) = st"
  by (simp add: get_proposals_state_def put_proposals_state_def put_ballot_def)

lemma get_proposals_state_frame [simp]:
  "get_proposals_state (publish s ts b) = get_proposals_state s"
  "get_proposals_state (put_vote_snapshots pid m s) = get_proposals_state s"
  "get_proposals_state (track_holder h s) = get_proposals_state s"
  "get_proposals_state (put_treasury t s) = get_proposals_state s"
  "get_proposals_state (put_token f s) = get_proposals_state s"
  "get_proposals_state (put_delegation_state d s) = get_proposals_state s"
  "get_proposals_state (set_locked_deposit pid x s) = get_proposals_state s"
  by (simp_all add: get_proposals_state_def gov_defs put_delegation_state_def set_locked_deposit_def)

lemma get_proposal_Inr: "get_proposal pid s = Inr p \<longleftrightarrow> smap_get (pp_proposals (get_proposals_state s)) pid = Some p"
  by (simp add: get_proposal_def run_iff)

lemma put_proposal_Ok [run_iff]:
  "put_proposal p s = (Ok u, s') \<longleftrightarrow>
     smap_has (pp_proposals (get_proposals_state s)) (gp_id p) \<and>
     s' = put_proposals_state ((get_proposals_state s)\<lparr>pp_proposals :=
            smap_set (pp_proposals (get_proposals_state s)) (gp_id p) p\<rparr>) s"
  by (auto simp: put_proposal_def Let_def split: if_splits)

lemma proposals_ok_get:
  "proposals_ok st \<Longrightarrow> smap_get (pp_proposals st) pid = Some p \<Longrightarrow> gp_id p = pid \<and> proposal_ok p"
  by (auto simp: proposals_ok_def)

lemma proposals_ok_update:
  assumes "proposals_ok st" and "smap_has (pp_proposals st) (gp_id p)" and "proposal_ok p"
  shows "proposals_ok (st\<lparr>pp_proposals := smap_set (pp_proposals st) (gp_id p) p\<rparr>)"
proof -
  from assms(2) obtain q where "smap_get (pp_proposals st) (gp_id p) = Some q" by (auto simp: smap_has_def)
  with assms show ?thesis
    by (auto simp: proposals_ok_def keys_set smap_has_def)
       (use smap_get_None_iff [of "pp_proposals st" "gp_id p"] in force)+
qed

lemma put_proposal_keeps:
  "proposals_ok (get_proposals_state s) \<Longrightarrow> proposal_ok p \<Longrightarrow> put_proposal p s = (Ok u, s') \<Longrightarrow>
     proposals_ok (get_proposals_state s')"
  by (auto simp: run_iff proposals_ok_update)

section \<open>Voting\<close>

lemma votes_of_tally_step:
  assumes "proposal_ok p" and "\<not> smap_has (gp_voters p) voter" and "0 \<le> w"
  shows "tally t (record_ballot voter \<lparr>v_voter = voter, v_vote_type = vt, v_voting_power = w, v_timestamp = now\<rparr> p) =
     tally t p + (if t = vt then w else 0)"
  using assms by (auto simp: tally_def record_ballot_def smap_total_set smap_has_def proposal_ok_def vote_weight_def)

lemma add_tally_Inr:
  "add_tally vt w p = Inr p' \<longleftrightarrow>
     in_i128 (votes_of vt p + w) \<and>
     p' = (case vt of For \<Rightarrow> p\<lparr>gp_votes_for := gp_votes_for p + w\<rparr>
           | Against \<Rightarrow> p\<lparr>gp_votes_against := gp_votes_against p + w\<rparr>
           | Abstain \<Rightarrow> p\<lparr>gp_votes_abstain := gp_votes_abstain p + w\<rparr>)"
  by (cases vt) (auto simp: run_iff votes_of_def)

lemma tally_nonneg: "proposal_ok p \<Longrightarrow> 0 \<le> tally t p"
  unfolding tally_def proposal_ok_def
  by (rule smap_total_nonneg) (auto simp: vote_weight_def smap_all_def list_all_iff)

text \<open>A vote counted by a checked or by a saturating addition keeps the counters exact.\<close>

lemma counted_vote_ok:
  assumes p: "proposal_ok p" and new: "\<not> smap_has (gp_voters p) voter" and w: "0 \<le> w"
    and voters: "gp_voters p' = smap_set (gp_voters p) voter
        \<lparr>v_voter = voter, v_vote_type = vt, v_voting_power = w, v_timestamp = now\<rparr>"
    and vlist: "gp_voter_list p' = gp_voter_list p @ [voter]"
    and count: "\<And>t. votes_of t p' = (if t = vt then min i128_max (votes_of t p + w) else votes_of t p)"
  shows "proposal_ok p'"
proof -
  have notin: "voter \<notin> set (gp_voter_list p)"
    using p new smap_get_None_iff [of "gp_voters p" voter] by (auto simp: proposal_ok_def smap_has_def)
  have tl: "tally t p' = tally t p + (if t = vt then w else 0)" for t
    using p new w by (auto simp: tally_def voters smap_total_set smap_has_def proposal_ok_def vote_weight_def)
  have "votes_of t p' = min i128_max (tally t p')" for t
  proof -
    have "votes_of t p = min i128_max (tally t p)" using p by (simp add: proposal_ok_def)
    with w show ?thesis unfolding count tl by (auto simp: min_def split: if_splits)
  qed
  with p notin w show ?thesis
    by (auto simp: proposal_ok_def voters vlist keys_set)
qed

lemma vote_power_Inr:
  assumes "0 < raw" and "vote_power p raw = Inr w"
  shows "0 < w \<and> w \<le> raw \<and> (if gp_use_quadratic_voting p then w = isqrt raw else w = raw)"
  using assms isqrt_le [of raw] by (auto simp: vote_power_def Let_def split: if_splits)

lemma p_cast_vote_Ok:
  assumes "p_cast_vote e pid voter vt s = (Ok u, s')"
  obtains p w p' s1 where "has_auth e voter" "get_proposal pid s = Inr p"
    "\<not> discussion_open (ledger_timestamp e) p" "voting_gates (ledger_timestamp e) p = Inr ()"
    "\<not> smap_has (gp_voters p) voter"
    "0 < get_or 0 (get_vote_snapshot pid voter s)" "vote_power p (get_or 0 (get_vote_snapshot pid voter s)) = Inr w"
    "add_tally vt w (record_ballot voter
       \<lparr>v_voter = voter, v_vote_type = vt, v_voting_power = w, v_timestamp = ledger_timestamp e\<rparr> p) = Inr p'"
    "gk_token s1 = gk_token s" "gk_ballot s1 = gk_ballot s" "put_proposal (open_voting p') s1 = (Ok u, s')"
proof -
  have frame: "get_vote_snapshot pid voter (publish s ts b) = get_vote_snapshot pid voter s"
    "gk_token (publish s ts b) = gk_token s" "gk_ballot (publish s ts b) = gk_ballot s" for ts b
    by (simp_all add: get_vote_snapshot_def publish_def)
  show thesis
    using assms that
    by (auto simp: p_cast_vote_def with_auth_Ok attempt_Ok Let_def frame not_le split: if_splits)
       (blast intro: frame)+
qed

lemma cast_vote_shape:
  assumes ok: "proposals_ok (get_proposals_state s)" and run: "p_cast_vote e pid voter vt s = (Ok u, s')"
  obtains p w p' where "get_proposal pid s = Inr p" "get_proposal pid s' = Inr p'" "0 < w"
    "w \<le> get_or 0 (get_vote_snapshot pid voter s)" "has_auth e voter" "\<not> smap_has (gp_voters p) voter"
    "\<not> discussion_open (ledger_timestamp e) p" "voting_gates (ledger_timestamp e) p = Inr ()"
    "(if gp_use_quadratic_voting p then w = isqrt (get_or 0 (get_vote_snapshot pid voter s))
      else w = get_or 0 (get_vote_snapshot pid voter s))"
    "gp_voters p' = smap_set (gp_voters p) voter
       \<lparr>v_voter = voter, v_vote_type = vt, v_voting_power = w, v_timestamp = ledger_timestamp e\<rparr>"
    "gp_voter_list p' = gp_voter_list p @ [voter]"
    "\<And>t. votes_of t p' = votes_of t p + (if t = vt then w else 0)" "gp_status p' = Active"
    "in_i128 (votes_of vt p + w)" "proposals_ok (get_proposals_state s')" "gk_token s' = gk_token s"
    "\<And>q. q \<noteq> pid \<Longrightarrow> get_proposal q s' = get_proposal q s"
proof -
  let ?raw = "get_or 0 (get_vote_snapshot pid voter s)"
  obtain p w p1 s1 where auth: "has_auth e voter" and p: "get_proposal pid s = Inr p"
    and gates: "\<not> discussion_open (ledger_timestamp e) p" "voting_gates (ledger_timestamp e) p = Inr ()"
      "\<not> smap_has (gp_voters p) voter" and raw: "0 < ?raw" and pw: "vote_power p ?raw = Inr w"
    and add: "add_tally vt w (record_ballot voter
       \<lparr>v_voter = voter, v_vote_type = vt, v_voting_power = w, v_timestamp = ledger_timestamp e\<rparr> p) = Inr p1"
    and s1: "gk_token s1 = gk_token s" "gk_ballot s1 = gk_ballot s" and put: "put_proposal (open_voting p1) s1 = (Ok u, s')"
    by (rule p_cast_vote_Ok [OF run])
  have st1: "get_proposals_state s1 = get_proposals_state s" by (simp add: get_proposals_state_def s1)
  have w: "0 < w" "w \<le> ?raw" "if gp_use_quadratic_voting p then w = isqrt ?raw else w = ?raw"
    using vote_power_Inr [OF raw pw] by auto
  have pok: "proposal_ok p" and pid: "gp_id p = pid"
    using proposals_ok_get [OF ok] p by (auto simp: get_proposal_Inr)
  let ?p' = "open_voting p1"
  have fit: "in_i128 (votes_of vt p + w)"
    using add by (cases vt) (auto simp: run_iff record_ballot_def votes_of_def)
  have cnt: "votes_of t ?p' = votes_of t p + (if t = vt then w else 0)" for t
    using add by (cases vt; cases t) (auto simp: run_iff record_ballot_def votes_of_def)
  have vs: "gp_voters ?p' = smap_set (gp_voters p) voter
       \<lparr>v_voter = voter, v_vote_type = vt, v_voting_power = w, v_timestamp = ledger_timestamp e\<rparr>"
    "gp_voter_list ?p' = gp_voter_list p @ [voter]" "gp_id ?p' = pid" "gp_status p1 = gp_status p"
    using add pid by (cases vt; auto simp: run_iff record_ballot_def)+
  have act: "gp_status ?p' = Active"
    using gates(2) vs(4) by (auto simp: open_voting_def voting_gates_def split: if_splits)
  have "proposal_ok ?p'"
  proof (rule counted_vote_ok [OF pok gates(3) _ vs(1,2)])
    show "0 \<le> w" using w by simp
    show "votes_of t ?p' = (if t = vt then min i128_max (votes_of t p + w) else votes_of t p)" for t
      using cnt [of t] fit by (auto simp: in_i128_def)
  qed
  then have ok': "proposals_ok (get_proposals_state s')"
    using put ok st1 by (intro put_proposal_keeps [OF _ _ put]) auto
  have new: "get_proposal pid s' = Inr ?p'" and tok: "gk_token s' = gk_token s"
    and other: "\<And>q. q \<noteq> pid \<Longrightarrow> get_proposal q s' = get_proposal q s"
    using put vs(3) s1 st1
    by (auto simp: run_iff get_proposal_def put_proposals_state_def get_proposals_state_def put_ballot_def)
  show thesis
    by (rule that [OF p new w(1,2) auth gates(3,1,2) w(3) vs(1,2) cnt act fit ok' tok other])
qed

text \<open>C11: A vote is accepted only once per account, with the voter's signature, inside the voting window and after the
  discussion period. It counts with the power recorded for the voter when the proposal was created
  (its integer root if the proposal votes quadratically), adds exactly that to the chosen counter,
  and leaves the other counters, all other proposals and the ledger alone.\<close>

theorem cast_vote_effect:
  assumes "proposals_ok (get_proposals_state s)" and "p_cast_vote e pid voter vt s = (Ok u, s')"
  shows "\<exists>p p' w. get_proposal pid s = Inr p \<and> get_proposal pid s' = Inr p' \<and> has_auth e voter \<and>
      \<not> smap_has (gp_voters p) voter \<and> smap_has (gp_voters p') voter \<and>
      gp_voting_starts p \<le> ledger_timestamp e \<and> ledger_timestamp e < gp_voting_ends p \<and>
      (gp_discussion_ends_at p = 0 \<or> gp_discussion_ends_at p \<le> ledger_timestamp e) \<and>
      gp_status p \<in> {Pending, Active} \<and> gp_status p' = Active \<and>
      w = (if gp_use_quadratic_voting p then isqrt (get_or 0 (get_vote_snapshot pid voter s))
           else get_or 0 (get_vote_snapshot pid voter s)) \<and> 0 < w \<and>
      (\<forall>t. votes_of t p' = votes_of t p + (if t = vt then w else 0)) \<and>
      (\<forall>q. q \<noteq> pid \<longrightarrow> get_proposal q s' = get_proposal q s) \<and> gk_token s' = gk_token s \<and>
      proposals_ok (get_proposals_state s')"
proof -
  obtain p w p' where f: "get_proposal pid s = Inr p" "get_proposal pid s' = Inr p'" "0 < w"
    "has_auth e voter" "\<not> smap_has (gp_voters p) voter"
    "\<not> discussion_open (ledger_timestamp e) p" "voting_gates (ledger_timestamp e) p = Inr ()"
    "(if gp_use_quadratic_voting p then w = isqrt (get_or 0 (get_vote_snapshot pid voter s))
      else w = get_or 0 (get_vote_snapshot pid voter s))"
    "gp_voters p' = smap_set (gp_voters p) voter
       \<lparr>v_voter = voter, v_vote_type = vt, v_voting_power = w, v_timestamp = ledger_timestamp e\<rparr>"
    "\<And>t. votes_of t p' = votes_of t p + (if t = vt then w else 0)" "gp_status p' = Active"
    "proposals_ok (get_proposals_state s')" "gk_token s' = gk_token s"
    "\<And>q. q \<noteq> pid \<Longrightarrow> get_proposal q s' = get_proposal q s"
    by (rule cast_vote_shape [OF assms]) blast
  have "gp_voting_starts p \<le> ledger_timestamp e" "ledger_timestamp e < gp_voting_ends p" "gp_status p \<in> {Pending, Active}"
    "gp_discussion_ends_at p = 0 \<or> gp_discussion_ends_at p \<le> ledger_timestamp e"
    using f(6,7) by (auto simp: voting_gates_def discussion_open_def split: if_splits)
  with f show ?thesis by (intro exI [of _ p] exI [of _ p'] exI [of _ w]) (auto split: if_splits)
qed

section \<open>Snapshots\<close>

lemma snapshot_loop_get:
  "smap_get (fst (snapshot_loop q s hs snaps acc)) h =
     (if h \<in> set hs \<and> 0 < get_effective_voting_power h s then Some (get_effective_voting_power h s)
      else smap_get snaps h)"
  by (induction q s hs snaps acc rule: snapshot_loop.induct) (auto simp: Let_def)

lemma snapshot_loop_supply:
  "0 \<le> acc \<Longrightarrow> acc \<le> i128_max \<Longrightarrow>
   snd (snapshot_loop True s hs snaps acc) =
     min i128_max (acc + (\<Sum>h\<leftarrow>hs. isqrt (max 0 (get_effective_voting_power h s))))"
proof (induction hs arbitrary: snaps acc)
  case (Cons h hs)
  have nn: "0 \<le> (\<Sum>h\<leftarrow>hs. isqrt (max 0 (get_effective_voting_power h s)))"
    by (rule sum_list_nonneg_int) simp
  show ?case
  proof (cases "0 < get_effective_voting_power h s")
    case True
    let ?acc = "saturating_add acc (isqrt (get_effective_voting_power h s))"
    have sat: "?acc = min i128_max (acc + isqrt (get_effective_voting_power h s))"
      using Cons.prems by (simp add: saturating_add_nonneg)
    have "0 \<le> ?acc" "?acc \<le> i128_max" unfolding sat using Cons.prems by (auto simp: i128_max_def)
    from Cons.IH [OF this] True nn sat show ?thesis
      by (auto simp: Let_def max_def min_def)
  next
    case False
    then show ?thesis using Cons.IH [OF Cons.prems] by (simp add: Let_def max_def isqrt_def)
  qed
qed simp

section \<open>Delegation\<close>

definition delegation_weight :: "address \<Rightarrow> vote_delegation \<Rightarrow> int" where
  "delegation_weight user d = (if vd_active d \<and> vd_delegate d = user then vd_delegated_power d else 0)"

definition delegations_ok :: "delegation_state \<Rightarrow> bool" where
  "delegations_ok st \<longleftrightarrow>
     smap_ok (dl_delegations st) \<and> smap_all (\<lambda>d. 0 \<le> vd_delegated_power d) (dl_delegations st) \<and>
     distinct (dl_delegators st) \<and> set (dl_delegators st) = set (smap_keys (dl_delegations st))"

lemma delegated_loop_sum:
  assumes "smap_all (\<lambda>d. 0 \<le> vd_delegated_power d) (dl_delegations st)" and "0 \<le> acc" and "acc \<le> i128_max"
  shows "delegated_loop st user as acc =
     min i128_max (acc + (\<Sum>a\<leftarrow>as. total_at (delegation_weight user) (smap_get (dl_delegations st) a)))"
  using assms(2,3)
proof (induction as arbitrary: acc)
  case (Cons a as)
  let ?w = "total_at (delegation_weight user) (smap_get (dl_delegations st) a)"
  have w: "0 \<le> total_at (delegation_weight user) (smap_get (dl_delegations st) b)" for b
    using assms(1) by (cases "smap_get (dl_delegations st) b") (auto simp: delegation_weight_def dest: smap_all_get)
  have nn: "0 \<le> (\<Sum>a\<leftarrow>as. total_at (delegation_weight user) (smap_get (dl_delegations st) a))"
    by (rule sum_list_nonneg_int) (rule w)
  define acc' where "acc' = min i128_max (acc + ?w)"
  have step: "delegated_loop st user (a # as) acc = delegated_loop st user as acc'"
    using Cons.prems w [of a]
    by (cases "smap_get (dl_delegations st) a")
       (auto simp: acc'_def delegation_weight_def saturating_add_nonneg)
  have "0 \<le> acc'" "acc' \<le> i128_max" using Cons.prems w [of a] by (auto simp: acc'_def i128_max_def)
  from Cons.IH [OF this] show ?case
    unfolding step using nn w [of a] by (auto simp: acc'_def min_def)
qed simp

text \<open>The effective voting power of an account is its own stake, unless it has delegated it, plus the powers that
  active delegations to it recorded, cut off at the largest 128-bit number.\<close>

theorem effective_power_spec:
  assumes "ledger_ok (gk_token s)" and "delegations_ok (get_delegation_state s)"
  shows "get_effective_voting_power user s =
     min i128_max ((if delegates_actively (get_delegation_state s) user then 0 else get_staked_balance user s) +
       smap_total (delegation_weight user) (dl_delegations (get_delegation_state s)))"
proof -
  let ?st = "get_delegation_state s"
  have ok: "smap_ok (dl_delegations ?st)" and pos: "smap_all (\<lambda>d. 0 \<le> vd_delegated_power d) (dl_delegations ?st)"
    and d: "distinct (dl_delegators ?st)" "set (dl_delegators ?st) = set (smap_keys (dl_delegations ?st))"
    using assms(2) by (auto simp: delegations_ok_def)
  have "(\<Sum>a\<leftarrow>dl_delegators ?st. total_at (delegation_weight user) (smap_get (dl_delegations ?st) a)) =
      (\<Sum>a\<leftarrow>smap_keys (dl_delegations ?st). total_at (delegation_weight user) (smap_get (dl_delegations ?st) a))"
    using d smap_ok_distinct [OF ok] by (simp add: sum_list_distinct_conv_sum_set)
  also have "\<dots> = smap_total (delegation_weight user) (dl_delegations ?st)"
    unfolding smap_total_ktotal smap_ktotal_conv [OF ok] ..
  finally have sum: "delegated_loop ?st user (dl_delegators ?st) 0 =
      min i128_max (smap_total (delegation_weight user) (dl_delegations ?st))"
    by (simp add: delegated_loop_sum [OF pos] i128_max_def)
  have nn: "0 \<le> smap_total (delegation_weight user) (dl_delegations ?st)"
    using pos by (intro smap_total_nonneg) (auto simp: delegation_weight_def smap_all_def list_all_iff)
  show ?thesis
    using gov_staked_nonneg [OF assms(1), of user] nn
    by (auto simp: get_effective_voting_power_def Let_def sum saturating_add_nonneg i128_max_def min_def)
qed

section \<open>Execution\<close>

text \<open>Executing an action never touches proposals, snapshots, deposits or the settings of the ballot, and it
  touches the token only to credit the recipient of a spend.\<close>

lemma spend_cases:
  assumes "gov_execute_action (TreasurySpend rec amount a d) s = (r, s')"
  obtains e where "r = Err e" "s' = s"
  | rest where "amount \<le> asset_balance a s" "rest = asset_balance a s - amount"
      "add_balance rec amount (put_treasury ((get_treasury s)\<lparr>tr_assets := (tr_assets (get_treasury s))(a := Some rest)\<rparr>) s) =
        (r, s')"
proof (cases "gov_checked_sub (asset_balance a s) amount")
  case (Inl x)
  with assms that(1) show thesis by (auto simp: Let_def attempt_def simp del: gov_checked_Inr gov_checked_Inl split: if_splits)
next
  case (Inr rest)
  then have "rest = asset_balance a s - amount" by simp
  with Inr assms that show thesis by (auto simp: Let_def attempt_def simp del: gov_checked_Inr gov_checked_Inl split: if_splits)
qed

lemma add_balance_frame:
  assumes "add_balance u n s = (r, s')"
  shows "gk_ballot s' = gk_ballot s" "gk_treasury s' = gk_treasury s" "r \<noteq> Panic"
  using assms by (auto simp: add_balance_def attempt_def gov_defs track_holder_def split: if_splits sum.splits)

lemma execute_action_frame:
  assumes "gov_execute_action t s = (r, s')"
  shows "get_proposals_state s' = get_proposals_state s" "bk_locked_deposit (gk_ballot s') = bk_locked_deposit (gk_ballot s)"
    "bk_deposit_config (gk_ballot s') = bk_deposit_config (gk_ballot s)"
    "bk_vote_snapshots (gk_ballot s') = bk_vote_snapshots (gk_ballot s)"
    "bk_delegations (gk_ballot s') = bk_delegations (gk_ballot s)"
    "get_governance_config s' = get_governance_config s" "r \<noteq> Panic"
proof -
  have "get_proposals_state s' = get_proposals_state s \<and> bk_locked_deposit (gk_ballot s') = bk_locked_deposit (gk_ballot s) \<and>
    bk_deposit_config (gk_ballot s') = bk_deposit_config (gk_ballot s) \<and>
    bk_vote_snapshots (gk_ballot s') = bk_vote_snapshots (gk_ballot s) \<and>
    bk_delegations (gk_ballot s') = bk_delegations (gk_ballot s) \<and>
    get_governance_config s' = get_governance_config s \<and> r \<noteq> Panic"
  proof (cases t)
    case (TreasurySpend rec amount a d)
    from assms [unfolded TreasurySpend] show ?thesis
    proof (cases rule: spend_cases)
      case (2 rest)
      from add_balance_frame [OF 2(3)] show ?thesis
        by (simp add: get_proposals_state_def get_governance_config_def gov_defs)
    qed simp
  qed (use assms in \<open>auto simp: get_proposals_state_def get_governance_config_def gov_defs\<close>)
  then show "get_proposals_state s' = get_proposals_state s" "bk_locked_deposit (gk_ballot s') = bk_locked_deposit (gk_ballot s)"
    "bk_deposit_config (gk_ballot s') = bk_deposit_config (gk_ballot s)"
    "bk_vote_snapshots (gk_ballot s') = bk_vote_snapshots (gk_ballot s)"
    "bk_delegations (gk_ballot s') = bk_delegations (gk_ballot s)"
    "get_governance_config s' = get_governance_config s" "r \<noteq> Panic" by blast+
qed

lemma execute_action_ledger:
  assumes "ledger_ok (gk_token s)" and "gov_execute_action t s = (r, s')"
  shows "ledger_ok (gk_token s')"
proof (cases t)
  case (TreasurySpend rec amount a d)
  from assms(2) [unfolded TreasurySpend] show ?thesis
  proof (cases rule: spend_cases)
    case 1
    with assms(1) show ?thesis by simp
  next
    case (2 rest)
    let ?s1 = "put_treasury ((get_treasury s)\<lparr>tr_assets := (tr_assets (get_treasury s))(a := Some rest)\<rparr>) s"
    have ok: "ledger_ok (gk_token ?s1)" using assms(1) by (simp add: gov_defs)
    show ?thesis
    proof (cases "r = Ok ()")
      case True
      with 2(3) balance_calls_ledger(1) [OF ok] show ?thesis by blast
    next
      case False
      with 2(3) balance_calls_failed(1) [of rec amount ?s1] ok show ?thesis by simp
    qed
  qed
qed (use assms in \<open>auto simp: gov_defs\<close>)

lemma p_execute_Ok:
  assumes "p_execute_proposal e pid executor s = (Ok st, s')"
  obtains p s1 where "has_auth e executor" "get_proposal pid s = Inr p" "gp_status p = Succeeded"
    "sat_add_u64 (gp_voting_ends p) (gc_execution_delay (get_governance_config s)) \<le> ledger_timestamp e"
    "ledger_timestamp e \<le> gp_execution_deadline p" "gov_execute_action (gp_type p) s = (Ok (), s1)"
    "put_proposal (p\<lparr>gp_status := Executed, gp_executed_at := Some (ledger_timestamp e)\<rparr>) s1 = (Ok (), s')"
    "st = Executed"
  using assms
  by (auto simp: p_execute_proposal_def with_auth_Ok attempt_Ok and_then_Ok Let_def execute_proposal_action_def not_less
      split: if_splits)


section \<open>Finalisation\<close>

lemma announce_upgrade_frame [simp]:
  "get_proposals_state (announce_upgrade cfg p s) = get_proposals_state s"
  "gk_ballot (announce_upgrade cfg p s) = gk_ballot s" "gk_token (announce_upgrade cfg p s) = gk_token s"
  "gk_treasury (announce_upgrade cfg p s) = gk_treasury s"
  by (simp_all add: announce_upgrade_def gov_defs get_proposals_state_def split: proposal_type.splits)

definition verdict :: "gov_proposal \<Rightarrow> int \<Rightarrow> nat \<times> nat \<Rightarrow> gov_status" where
  "verdict p supply_ref q = (if quorum_met p supply_ref (fst q) \<and> approved p (snd q) then Succeeded else Failed)"

lemma p_finalize_Ok:
  assumes "p_finalize_proposal e pid s = (Ok st, s')"
  obtains p ref s1 s2 where "get_proposal pid s = Inr p" "gp_voting_ends p \<le> ledger_timestamp e"
    "gp_status p \<in> {Pending, Active}" "reference_supply p s = Inr ref"
    "st = verdict p ref (resolve_category_thresholds (gp_category p) (get_governance_config s) s)"
    "gk_ballot s1 = gk_ballot s" "gk_token s1 = gk_token s" "gk_treasury s1 = gk_treasury s"
    "put_proposal (p\<lparr>gp_status := st\<rparr>) s1 = (Ok (), s2)"
    "s' = s2 \<or> (st = Succeeded \<and> gc_execution_delay (get_governance_config s) = 0 \<and>
        (\<exists>x. x \<noteq> Panic \<and> p_execute_proposal e pid (gp_proposer p) s2 = (x, s')))"
proof -
  let ?cfg = "get_governance_config s"
  obtain p where p: "get_proposal pid s = Inr p" "gp_voting_ends p \<le> ledger_timestamp e" "gp_status p \<in> {Pending, Active}"
    using assms by (auto simp: p_finalize_proposal_def attempt_Ok split: if_splits prod.splits)
  obtain q a where qa: "resolve_category_thresholds (gp_category p) ?cfg s = (q, a)" by fastforce
  obtain ref where ref: "reference_supply p s = Inr ref"
    using assms p qa by (auto simp: p_finalize_proposal_def attempt_Ok Let_def split: if_splits)
  note body = assms [unfolded p_finalize_proposal_def p attempt_simps Let_def qa prod.case ref]
  show thesis
  proof (cases "quorum_met p ref q")
    case False
    then obtain s2 where "put_proposal (p\<lparr>gp_status := Failed\<rparr>) s = (Ok (), s2)" "s' = s2" "st = Failed"
      using body p by (auto simp: and_then_Ok split: if_splits)
    with that [of p ref s s2] p ref qa False show thesis by (simp add: verdict_def)
  next
    case True
    show thesis
    proof (cases "approved p a")
      case False
      then obtain s2 where "put_proposal (p\<lparr>gp_status := Failed\<rparr>) s = (Ok (), s2)" "s' = s2" "st = Failed"
        using body p True by (auto simp: and_then_Ok split: if_splits)
      with that [of p ref s s2] p ref qa False show thesis by (simp add: verdict_def)
    next
      case yes: True
      let ?s1 = "announce_upgrade ?cfg (p\<lparr>gp_status := Succeeded\<rparr>) s"
      have guards: "\<not> ledger_timestamp e < gp_voting_ends p" "\<not> (gp_status p \<noteq> Pending \<and> gp_status p \<noteq> Active)"
        using p by auto
      have "and_then (put_proposal (p\<lparr>gp_status := Succeeded\<rparr>) ?s1) (\<lambda>_ s2.
          if gc_execution_delay ?cfg = 0
          then ignore (p_execute_proposal e pid (gp_proposer p) s2) (\<lambda>s3. (Ok Succeeded, s3))
          else (Ok Succeeded, s2)) = (Ok st, s')"
        using body by (simp only: guards True yes if_True if_False not_True_eq_False simp_thms)
      then obtain s2 where put: "put_proposal (p\<lparr>gp_status := Succeeded\<rparr>) ?s1 = (Ok (), s2)" and st: "st = Succeeded"
        and rest: "s' = s2 \<or> (st = Succeeded \<and> gc_execution_delay ?cfg = 0 \<and>
          (\<exists>x. x \<noteq> Panic \<and> p_execute_proposal e pid (gp_proposer p) s2 = (x, s')))"
        by (auto simp: and_then_Ok ignore_Ok split: if_splits)
      with that [of p ref ?s1 s2] p ref qa True yes show thesis by (simp add: verdict_def)
    qed
  qed
qed

text \<open>Without saturation the two tests are the inequalities that the thresholds stand for.\<close>

lemma saturating_mul_exact: "in_i128 (a * b) \<Longrightarrow> saturating_mul a b = a * b"
  by (simp add: saturating_mul_def)

lemma verdict_exact:
  assumes "0 \<le> gp_votes_for p" "0 \<le> gp_votes_against p" "0 \<le> gp_votes_abstain p"
    and "(gp_votes_for p + gp_votes_against p + gp_votes_abstain p) * 10000 \<le> i128_max"
    and "0 < ref" "ref * 10000 \<le> i128_max" "q \<le> 10000" "a \<le> 10000"
  shows "verdict p ref (q, a) = Succeeded \<longleftrightarrow>
     ref * int q \<le> (gp_votes_for p + gp_votes_against p + gp_votes_abstain p) * 10000 \<and>
     0 < gp_votes_for p + gp_votes_against p \<and>
     (gp_votes_for p + gp_votes_against p) * int a \<le> gp_votes_for p * 10000"
proof -
  let ?f = "gp_votes_for p" and ?g = "gp_votes_against p" and ?h = "gp_votes_abstain p"
  have le: "in_i128 x" if "0 \<le> x" "x \<le> i128_max" for x using that by (simp add: in_i128_def i128_min_def)
  have sums: "saturating_add ?f ?g = ?f + ?g" "total_votes p = ?f + ?g + ?h"
    using assms by (simp_all add: total_votes_def saturating_add_nonneg min_def)
  have "ref * int q \<le> ref * 10000" "(?f + ?g) * int a \<le> (?f + ?g) * 10000" "(?f + ?g) * 10000 \<le> (?f + ?g + ?h) * 10000"
    "?f * 10000 \<le> (?f + ?g + ?h) * 10000"
    using assms by (intro mult_left_mono mult_right_mono; simp)+
  note up = order.trans [OF this(1) assms(6)] order.trans [OF this(2) order.trans [OF this(3) assms(4)]]
    order.trans [OF this(4) assms(4)]
  have pos: "0 \<le> ref * int q" "0 \<le> (?f + ?g) * int a" using assms by simp_all
  have "saturating_mul (?f + ?g + ?h) 10000 = (?f + ?g + ?h) * 10000" "saturating_mul ?f 10000 = ?f * 10000"
    "saturating_mul ref (int q) = ref * int q" "saturating_mul (?f + ?g) (int a) = (?f + ?g) * int a"
    using assms(1-4) up pos by (simp_all only: saturating_mul_exact le mult_nonneg_nonneg add_nonneg_nonneg zero_le_numeral)
  then show ?thesis using assms(5)
    by (simp add: verdict_def quorum_met_def approved_def Let_def sums GOV_BPS_DENOMINATOR_def)
qed

lemma p_execute_failed:
  assumes "p_execute_proposal e pid executor s = (x, s')" and "x \<notin> range Ok"
  shows "get_proposals_state s' = get_proposals_state s"
proof -
  have "get_proposals_state s1 = get_proposals_state s" if "execute_proposal_action p s = (r, s1)" for p r s1
    using execute_action_frame(1) that by (simp add: execute_proposal_action_def)
  moreover have "get_proposals_state s2 = get_proposals_state s1"
    if "put_proposal p s1 = (r, s2)" and "r \<noteq> Ok ()" for p r s1 and s2 :: "'a governance"
    using that by (auto simp: put_proposal_def Let_def split: if_splits)
  ultimately show ?thesis
    using assms
    by (auto simp: p_execute_proposal_def with_auth_def attempt_def and_then_def Let_def split: if_splits sum.splits
        prod.splits outcome.splits)
qed


section \<open>Example\<close>

definition sample_proposal :: gov_proposal where
  "sample_proposal =
     \<lparr>gp_id = 2, gp_proposer = Addr 4, gp_type = ParameterChange ''fee'' 10 20, gp_title = ''t'', gp_description = ''d'',
      gp_execution_payload = [], gp_voting_starts = 60, gp_voting_ends = 1000, gp_votes_for = 0, gp_votes_against = 0,
      gp_votes_abstain = 0, gp_status = Pending, gp_voters = [], gp_voter_list = [], gp_executed_at = None,
      gp_discussion_ends_at = 0, gp_category = CategoryGeneral, gp_use_quadratic_voting = False,
      gp_quadratic_total_supply = 0, gp_execution_deadline = 5000\<rparr>"

definition sample_voted :: gov_proposal where
  "sample_voted = sample_proposal\<lparr>gp_votes_for := 200, gp_voter_list := [Addr 4],
     gp_voters := [(Addr 4, \<lparr>v_voter = Addr 4, v_vote_type = For, v_voting_power = 200, v_timestamp = 100\<rparr>)], gp_status := Active\<rparr>"

definition sample_ballot :: "gov_proposal \<Rightarrow> unit governance" where
  "sample_ballot p = example_ledger\<lparr>
     gk_token := (gk_token example_ledger)\<lparr>tk_metadata := Some \<lparr>md_name = ''n'', md_symbol = ''s'', md_decimals = 7,
       md_total_supply = 2000\<rparr>\<rparr>,
     gk_ballot := deployed_ballot\<lparr>bk_governance_config := Some (default_governance_config\<lparr>gc_execution_delay := 100\<rparr>),
       bk_proposals_state := Some \<lparr>pp_proposals = [(2, p)], pp_proposal_ids = [2], pp_next_proposal_id = 3\<rparr>,
       bk_vote_snapshots := (\<lambda>_. [(Addr 4, 200)])\<rparr>\<rparr>"

lemma sample_ballot_fields:
  "get_proposals_state (sample_ballot p) = \<lparr>pp_proposals = [(2, p)], pp_proposal_ids = [2], pp_next_proposal_id = 3\<rparr>"
  "get_proposal 2 (sample_ballot p) = Inr p" "get_vote_snapshot pid (Addr 4) (sample_ballot p) = Some 200"
  "get_governance_config (sample_ballot p) = default_governance_config\<lparr>gc_execution_delay := 100\<rparr>" "get_total_supply (sample_ballot p) = Inr 2000"
  "bk_category_thresholds (gk_ballot (sample_ballot p)) = (\<lambda>_. None)"
  by (simp_all add: sample_ballot_def get_proposals_state_def get_proposal_def get_vote_snapshot_def
      get_governance_config_def get_total_supply_def metadata_def deployed_ballot_def example_defs)

lemma sample_ballot_ok:
  "proposals_ok (get_proposals_state (sample_ballot sample_proposal))"
  "proposals_ok (get_proposals_state (sample_ballot (sample_voted\<lparr>gp_status := st\<rparr>)))"
  by (simp_all add: sample_ballot_fields proposals_ok_def proposal_ok_def sample_voted_def sample_proposal_def
      votes_of_def tally_def smap_total_def smap_all_def vote_weight_def smap_ok_def i128_max_def
      split: vote_type.splits)

lemma sample_vote: "\<exists>s'. p_cast_vote (example_env 100) 2 (Addr 4) For (sample_ballot sample_proposal) = (Ok (), s')"
proof -
  have "gp_discussion_ends_at sample_proposal = 0" "\<not> discussion_open 100 sample_proposal"
    "voting_gates 100 sample_proposal = Inr ()" "gp_voters sample_proposal = []" "vote_power sample_proposal 200 = Inr 200"
    "gp_votes_for (record_ballot a v sample_proposal) = 0" "gp_id (record_ballot a v sample_proposal) = 2" for a v
    by (simp_all add: sample_proposal_def discussion_open_def voting_gates_def vote_power_def record_ballot_def)
  then show ?thesis
    by (simp add: p_cast_vote_def run_iff sample_ballot_fields example_env_def Let_def smap_has_def in_i128_def i128_min_def
        i128_max_def)
qed

lemma sample_verdict:
  "reference_supply sample_voted (sample_ballot p) = Inr 2000"
  "resolve_category_thresholds c (default_governance_config\<lparr>gc_execution_delay := 100\<rparr>) (sample_ballot p) = (1000, 5000)"
  "verdict sample_voted 2000 (1000, 5000) = Succeeded"
  by (simp_all add: reference_supply_def sample_ballot_fields sample_voted_def sample_proposal_def resolve_category_thresholds_def
      get_category_threshold_def default_governance_config_def verdict_def quorum_met_def approved_def total_votes_def
      Let_def GOV_BPS_DENOMINATOR_def saturating_mul_def saturating_add_def sat_i128_def i128_max_def i128_min_def)

lemma put_parameter_proposals [simp]:
  "get_proposals_state (put_ballot (\<lambda>b. b\<lparr>bk_parameters := f b\<rparr>) s) = get_proposals_state s"
  by (simp add: get_proposals_state_def put_ballot_def)

lemma sample_execution:
  "\<exists>s'. p_execute_proposal (example_env 1100) 2 (Addr 7) (sample_ballot (sample_voted\<lparr>gp_status := Succeeded\<rparr>)) =
     (Ok Executed, s')"
  by (simp add: p_execute_proposal_def run_iff sample_ballot_fields example_env_def Let_def default_governance_config_def
      sample_voted_def sample_proposal_def execute_proposal_action_def sat_add_u64_def u64_max_def smap_has_def)

lemma sample_finalize:
  "\<exists>s'. p_finalize_proposal (example_env 1000) 2 (sample_ballot sample_voted) = (Ok Succeeded, s')"
proof -
  have "quorum_met sample_voted 2000 1000" "approved sample_voted 5000"
    using sample_verdict(3) by (simp_all add: verdict_def split: if_splits)
  moreover have "gp_voting_ends sample_voted = 1000" "gp_status sample_voted = Active" "gp_id sample_voted = 2"
    "gp_type sample_voted = ParameterChange ''fee'' 10 20"
    by (simp_all add: sample_voted_def sample_proposal_def)
  ultimately show ?thesis
    by (simp add: p_finalize_proposal_def sample_ballot_fields sample_verdict run_iff announce_upgrade_def smap_has_def
        Let_def example_env_def)
qed

theorem cast_vote_effect_witness:
  "\<exists>s' p'. p_cast_vote (example_env 100) 2 (Addr 4) For (sample_ballot sample_proposal) = (Ok (), s') \<and>
     get_proposal 2 s' = Inr p' \<and> votes_of For p' = 200 \<and> gp_status p' = Active"
proof -
  obtain s' where run: "p_cast_vote (example_env 100) 2 (Addr 4) For (sample_ballot sample_proposal) = (Ok (), s')"
    using sample_vote by blast
  have "gp_use_quadratic_voting sample_proposal = False" "votes_of For sample_proposal = 0"
    by (simp_all add: sample_proposal_def votes_of_def)
  with cast_vote_effect [OF sample_ballot_ok(1) run] run show ?thesis by (auto simp: sample_ballot_fields)
qed



end
