(* ===== verification/Governance_Reputation.thy ===== *)
theory Governance_Reputation
  imports Governance_Proposals
begin

text \<open>
  Reputation (\<^verbatim>\<open>reputation.rs\<close>): the score computed from an account's participation, its decay with inactivity,
  the badges, the ballot weighted by reputation and the leaderboard with its proportional rewards. Every
  recorder recomputes the score from what is stored, before the change it records.
\<close>

section \<open>Configuration\<close>

definition MAX_REPUTATION :: nat where "MAX_REPUTATION = 10000"
definition MAX_REPUTATION_USERS :: nat where "MAX_REPUTATION_USERS = 100"
definition REPUTATION_PRECISION :: int where "REPUTATION_PRECISION = 10000"

definition decay_rate_bps :: "reputation_tier \<Rightarrow> nat" where
  "decay_rate_bps t = (case t of Bronze \<Rightarrow> 50 | Silver \<Rightarrow> 30 | Gold \<Rightarrow> 20 | Platinum \<Rightarrow> 10)"

definition grace_period_days :: "reputation_tier \<Rightarrow> nat" where
  "grace_period_days t = (case t of Bronze \<Rightarrow> 30 | Silver \<Rightarrow> 60 | Gold \<Rightarrow> 90 | Platinum \<Rightarrow> 180)"

definition max_decay_days :: "reputation_tier \<Rightarrow> nat" where
  "max_decay_days t = (case t of Bronze \<Rightarrow> 90 | Silver \<Rightarrow> 180 | Gold \<Rightarrow> 270 | Platinum \<Rightarrow> 365)"

definition default_reputation_config :: reputation_config where
  "default_reputation_config =
     \<lparr>rc_decay_enabled = True, rc_stale_penalty_enabled = True, rc_default_tier = Bronze\<rparr>"

definition get_reputation_config :: "'w governance \<Rightarrow> reputation_config" where
  "get_reputation_config s = get_or default_reputation_config (bk_reputation_config (gk_ballot s))"

definition put_reputation_config :: "reputation_config \<Rightarrow> 'w governance \<Rightarrow> 'w governance" where
  "put_reputation_config c = put_ballot (\<lambda>b. b\<lparr>bk_reputation_config := Some c\<rparr>)"

section \<open>Staleness and tiers\<close>

definition detect_staleness :: "env \<Rightarrow> nat \<Rightarrow> staleness_level" where
  "detect_staleness e last_activity =
     (let now = ledger_timestamp e
      in if now \<le> last_activity then StaleActive
         else let inactive_days = (now - last_activity) div 86400
              in if inactive_days \<le> 30 then StaleActive
                 else if inactive_days \<le> 90 then StaleAging
                 else if inactive_days \<le> 180 then StaleStale
                 else StaleCritical)"

definition resolve_staleness :: "env \<Rightarrow> governance_reputation \<Rightarrow> staleness_level" where
  "resolve_staleness e r =
     (if gr_staleness_override r = StaleAuto then detect_staleness e (gr_last_activity r)
      else gr_staleness_override r)"

definition staleness_penalty_multiplier :: "staleness_level \<Rightarrow> nat" where
  "staleness_penalty_multiplier l =
     (case l of StaleAuto \<Rightarrow> 10000 | StaleActive \<Rightarrow> 10000 | StaleAging \<Rightarrow> 8000 | StaleStale \<Rightarrow> 5000
      | StaleCritical \<Rightarrow> 2000)"

text \<open>The plain additions trap on overflow of 32 bits.\<close>

definition compute_tier :: "governance_reputation \<Rightarrow> reputation_tier option" where
  "compute_tier r =
     (let p = gr_history r;
          actions = ph_proposals_created p + ph_votes_cast p + ph_committee_memberships p + ph_delegations_received p
      in if actions > u32_max then None
         else Some (if actions \<ge> 500 then Platinum else if actions \<ge> 200 then Gold
                    else if actions \<ge> 50 then Silver else Bronze))"

section \<open>State\<close>

definition empty_reputation_state :: reputation_state where
  "empty_reputation_state = \<lparr>rs_reputations = [], rs_users = []\<rparr>"

definition get_reputation_state :: "'w governance \<Rightarrow> reputation_state" where
  "get_reputation_state s = get_or empty_reputation_state (bk_reputation_state (gk_ballot s))"

definition put_reputation_state :: "reputation_state \<Rightarrow> 'w governance \<Rightarrow> 'w governance" where
  "put_reputation_state st = put_ballot (\<lambda>b. b\<lparr>bk_reputation_state := Some st\<rparr>)"

definition new_reputation :: "env \<Rightarrow> address \<Rightarrow> reputation_tier \<Rightarrow> governance_reputation" where
  "new_reputation e user tier =
     \<lparr>gr_user = user, gr_score = 0,
      gr_history = \<lparr>ph_proposals_created = 0, ph_proposals_succeeded = 0, ph_votes_cast = 0,
                    ph_votes_aligned_with_outcome = 0, ph_committee_memberships = 0,
                    ph_committee_decisions_approved = 0, ph_delegations_received = 0,
                    ph_total_tokens_delegated = 0\<rparr>,
      gr_badges = [], gr_last_activity = ledger_timestamp e, gr_decay_rate = 10, gr_tier = tier,
      gr_grace_override = 0, gr_staleness_override = StaleAuto\<rparr>"

definition get_governance_reputation :: "env \<Rightarrow> address \<Rightarrow> 'w governance \<Rightarrow> governance_reputation" where
  "get_governance_reputation e user s =
     get_or (new_reputation e user (rc_default_tier (get_reputation_config s)))
       (smap_get (rs_reputations (get_reputation_state s)) user)"

definition upsert_rep :: "address \<Rightarrow> governance_reputation \<Rightarrow> reputation_state \<Rightarrow> reputation_state" where
  "upsert_rep user r st =
     st\<lparr>rs_users := (if smap_has (rs_reputations st) user then rs_users st else rs_users st @ [user]),
        rs_reputations := smap_set (rs_reputations st) user r\<rparr>"

section \<open>The score\<close>

definition badge_value :: "badge \<Rightarrow> nat" where
  "badge_value b =
     (case b of ActiveVoter _ \<Rightarrow> 200 | ProposalAuthor n \<Rightarrow> min 500 (sat_mul_u32 n 100) | CommitteeMember _ \<Rightarrow> 300
      | EarlyAdopter \<Rightarrow> 500 | TopDelegator \<Rightarrow> 400 | ConsistentParticipant m \<Rightarrow> min 600 (sat_mul_u32 m 50))"

definition calculate_badge_bonus :: "badge list \<Rightarrow> nat" where
  "calculate_badge_bonus bs = min 2000 (fold (\<lambda>b bonus. sat_add_u32 bonus (badge_value b)) bs 0)"

fun decay_loop :: "nat \<Rightarrow> nat \<Rightarrow> nat \<Rightarrow> nat" where
  "decay_loop 0 keep d = d"
| "decay_loop (Suc n) keep d = decay_loop n keep (d * keep div 10000)"

definition apply_tiered_decay :: "env \<Rightarrow> nat \<Rightarrow> nat \<Rightarrow> nat \<Rightarrow> reputation_tier \<Rightarrow> 'w governance \<Rightarrow> nat" where
  "apply_tiered_decay e score last_activity grace_override tier s =
     (let now = ledger_timestamp e
      in if \<not> rc_decay_enabled (get_reputation_config s) then score
         else if now \<le> last_activity then score
         else let inactive_days = (now - last_activity) div 86400;
                  grace = (if grace_override > 0 then grace_override else grace_period_days tier)
              in if inactive_days = 0 then score
                 else if inactive_days \<le> grace then score
                 else decay_loop (min (inactive_days - grace) (max_decay_days tier)) (10000 - decay_rate_bps tier) score)"

text \<open>The sum of the components before decay, each of them capped.\<close>

definition base_score :: "participation_history \<Rightarrow> badge list \<Rightarrow> nat" where
  "base_score p badges =
     (let rate = (\<lambda>n d. if d = 0 then 0 else sat_mul_u32 n 10000 div d);
          s1 = sat_add_u32 0 (min 2000 (sat_mul_u32 (ph_proposals_created p) 100));
          s2 = sat_add_u32 s1 (min 2000 (sat_mul_u32 (rate (ph_proposals_succeeded p) (ph_proposals_created p)) 2 div 10));
          s3 = sat_add_u32 s2 (min 2000 (sat_mul_u32 (ph_votes_cast p) 20));
          s4 = sat_add_u32 s3 (min 2000 (sat_mul_u32 (rate (ph_votes_aligned_with_outcome p) (ph_votes_cast p)) 2 div 10));
          s5 = sat_add_u32 s4 (min 1000 (sat_mul_u32 (ph_committee_memberships p) 200));
          s6 = sat_add_u32 s5 (min 1000 (sat_mul_u32 (ph_delegations_received p) 50))
      in sat_add_u32 s6 (calculate_badge_bonus badges))"

definition calculate_reputation_score :: "env \<Rightarrow> address \<Rightarrow> 'w governance \<Rightarrow> nat" where
  "calculate_reputation_score e user s =
     (let r = get_governance_reputation e user s;
          score = apply_tiered_decay e (base_score (gr_history r) (gr_badges r)) (gr_last_activity r)
                    (gr_grace_override r) (gr_tier r) s
      in min MAX_REPUTATION
           (if rc_stale_penalty_enabled (get_reputation_config s)
            then min u64_max (score * staleness_penalty_multiplier (resolve_staleness e r)) div 10000
            else score))"

section \<open>Badges\<close>

definition award :: "bool \<Rightarrow> badge \<Rightarrow> string \<Rightarrow> badge list \<times> string list \<Rightarrow> badge list \<times> string list" where
  "award earned b name acc =
     (if earned \<and> b \<notin> set (fst acc) then (fst acc @ [b], snd acc @ [name]) else acc)"

definition check_and_award_badges :: "governance_reputation \<Rightarrow> 'w governance \<Rightarrow> governance_reputation \<times> 'w governance" where
  "check_and_award_badges r s =
     (let p = gr_history r;
          (badges, awarded) =
             award (ph_total_tokens_delegated p \<ge> 100000 * REPUTATION_PRECISION) TopDelegator ''TopDelegator''
               (award (ph_proposals_succeeded p \<ge> 10) (ProposalAuthor 10) ''ProposalAuthor''
                 (award (ph_votes_cast p \<ge> 50) (ActiveVoter 50) ''ActiveVoter'' (gr_badges r, [])))
      in (r\<lparr>gr_badges := badges\<rparr>,
          if awarded = [] then s
          else publish s [VSym ''gov'', VSym ''badges''] (VVec [VAddr (gr_user r), VVec (map VStr awarded)])))"

section \<open>Recording\<close>

definition record_activity :: "env \<Rightarrow> address \<Rightarrow> (participation_history \<Rightarrow> participation_history) \<Rightarrow>
    'w governance \<Rightarrow> ('w, unit) gcall" where
  "record_activity e user change s =
     (let st = get_reputation_state s; r = get_governance_reputation e user s;
          r1 = r\<lparr>gr_history := change (gr_history r), gr_last_activity := ledger_timestamp e\<rparr>
      in or_panic (compute_tier r1) s (\<lambda>tier.
           let (r2, s1) = check_and_award_badges (r1\<lparr>gr_tier := tier, gr_score := calculate_reputation_score e user s\<rparr>) s
           in (Ok (), put_reputation_state (upsert_rep user r2 st) s1)))"

definition record_proposal_creation :: "env \<Rightarrow> address \<Rightarrow> 'w governance \<Rightarrow> ('w, unit) gcall" where
  "record_proposal_creation e user =
     record_activity e user (\<lambda>p. p\<lparr>ph_proposals_created := sat_add_u32 (ph_proposals_created p) 1\<rparr>)"

definition record_vote :: "env \<Rightarrow> address \<Rightarrow> nat \<Rightarrow> vote_type \<Rightarrow> 'w governance \<Rightarrow> ('w, unit) gcall" where
  "record_vote e user pid vt s =
     and_then (record_activity e user (\<lambda>p. p\<lparr>ph_votes_cast := sat_add_u32 (ph_votes_cast p) 1\<rparr>) s) (\<lambda>_ s.
       (Ok (), put_ballot (\<lambda>b. b\<lparr>bk_vote_records := (bk_vote_records b)(user := (bk_vote_records b user)(pid := Some vt))\<rparr>) s))"

definition aligned :: "vote_type \<Rightarrow> bool \<Rightarrow> bool" where
  "aligned vt outcome \<longleftrightarrow> vt = For \<and> outcome \<or> vt = Against \<and> \<not> outcome"

text \<open>The loop reads each voter's record from storage and collects the changes in its own copy of the state.\<close>

fun outcome_loop :: "env \<Rightarrow> gov_proposal \<Rightarrow> bool \<Rightarrow> 'w governance \<Rightarrow> address list \<Rightarrow> reputation_state \<Rightarrow> reputation_state" where
  "outcome_loop e p outcome s [] st = st"
| "outcome_loop e p outcome s (a # as) st =
     outcome_loop e p outcome s as
       (case smap_get (gp_voters p) a of
          None \<Rightarrow> st
        | Some v \<Rightarrow>
            if aligned (v_vote_type v) outcome
            then let r = get_governance_reputation e a s; h = gr_history r
                 in upsert_rep a (r\<lparr>gr_history := h\<lparr>ph_votes_aligned_with_outcome :=
                                       sat_add_u32 (ph_votes_aligned_with_outcome h) 1\<rparr>,
                                    gr_score := calculate_reputation_score e a s\<rparr>) st
            else st)"

definition record_proposal_outcome :: "env \<Rightarrow> nat \<Rightarrow> 'w governance \<Rightarrow> ('w, unit) gcall" where
  "record_proposal_outcome e pid s =
     attempt (get_proposal pid s) s (\<lambda>p.
       let outcome = (gp_status p = Succeeded \<or> gp_status p = Executed);
           st = get_reputation_state s;
           author = gp_proposer p; r = get_governance_reputation e author s; h = gr_history r;
           st1 = (if outcome
                  then upsert_rep author (r\<lparr>gr_history := h\<lparr>ph_proposals_succeeded := sat_add_u32 (ph_proposals_succeeded h) 1\<rparr>,
                                            gr_score := calculate_reputation_score e author s\<rparr>) st
                  else st)
       in (Ok (), put_reputation_state (outcome_loop e p outcome s (gp_voter_list p) st1) s))"

definition refresh_stale_reputation :: "env \<Rightarrow> address \<Rightarrow> 'w governance \<Rightarrow> ('w, nat) gcall" where
  "refresh_stale_reputation e user s =
     (let st = get_reputation_state s; r = get_governance_reputation e user s
      in or_panic (compute_tier r) s (\<lambda>tier.
           let s1 = put_reputation_state
                      (upsert_rep user (r\<lparr>gr_tier := tier, gr_score := calculate_reputation_score e user s\<rparr>) st) s
           in (Ok (gr_score (get_governance_reputation e user s1)), s1)))"

section \<open>The ballot weighted by reputation\<close>

definition reputation_multiplier :: "governance_reputation \<Rightarrow> nat" where
  "reputation_multiplier r = sat_add_u32 10000 (gr_score r div 2)"

fun saturating_tally :: "vote_type \<Rightarrow> int \<Rightarrow> gov_proposal \<Rightarrow> gov_proposal" where
  "saturating_tally For w p = p\<lparr>gp_votes_for := saturating_add (gp_votes_for p) w\<rparr>"
| "saturating_tally Against w p = p\<lparr>gp_votes_against := saturating_add (gp_votes_against p) w\<rparr>"
| "saturating_tally Abstain w p = p\<lparr>gp_votes_abstain := saturating_add (gp_votes_abstain p) w\<rparr>"

definition p_cast_reputation_weighted_vote :: "env \<Rightarrow> nat \<Rightarrow> address \<Rightarrow> vote_type \<Rightarrow> 'w governance \<Rightarrow> ('w, unit) gcall" where
  "p_cast_reputation_weighted_vote e pid voter vt =
     with_auth e voter (\<lambda>e s.
       attempt (get_proposal pid s) s (\<lambda>p.
         let now = ledger_timestamp e
         in if discussion_open now p then (Err DiscussionPeriodActive, s)
            else attempt (voting_gates now p) s (\<lambda>_.
              if smap_has (gp_voters p) voter then (Err AlreadyVoted, s)
              else let power = get_or 0 (get_vote_snapshot pid voter s)
                   in if power \<le> 0 then (Err NoVotingPower, s)
                      else let multiplier = reputation_multiplier (get_governance_reputation e voter s)
                           in attempt (gov_checked_mul power (int multiplier)) s (\<lambda>m.
                                let weighted = tdiv m 10000;
                                    v = \<lparr>v_voter = voter, v_vote_type = vt, v_voting_power = weighted, v_timestamp = now\<rparr>
                                in and_then (put_proposal (open_voting (saturating_tally vt weighted (record_ballot voter v p))) s) (\<lambda>_ s.
                                   and_then (record_vote e voter pid vt s) (\<lambda>_ s.
                                     (Ok (), publish s [VSym ''gov'', VSym ''repvote'']
                                        (VVec [VU64 pid, VAddr voter, VI128 power, VI128 weighted,
                                               VI128 (int multiplier)]))))))))"

section \<open>The leaderboard\<close>

fun leaderboard_insert :: "address \<times> nat \<Rightarrow> (address \<times> nat) list \<Rightarrow> (address \<times> nat) list" where
  "leaderboard_insert x [] = [x]"
| "leaderboard_insert x (y # ys) = (if snd x > snd y then x # y # ys else y # leaderboard_insert x ys)"

text \<open>\<open>None\<close> is the trap on a listed account that has no record.\<close>

fun leaderboard_loop :: "reputation_state \<Rightarrow> address list \<Rightarrow> (address \<times> nat) list \<Rightarrow> (address \<times> nat) list option" where
  "leaderboard_loop st [] acc = Some acc"
| "leaderboard_loop st (u # us) acc =
     (case smap_get (rs_reputations st) u of
        None \<Rightarrow> None
      | Some r \<Rightarrow> leaderboard_loop st us (leaderboard_insert (u, gr_score r) acc))"

definition get_reputation_leaderboard :: "nat \<Rightarrow> 'w governance \<Rightarrow> ('w, (address \<times> nat) list) gcall" where
  "get_reputation_leaderboard limit s =
     (let st = get_reputation_state s
      in if length (rs_users st) > MAX_REPUTATION_USERS then (Err IterationLimitExceeded, s)
         else or_panic (leaderboard_loop st (rs_users st) []) s (\<lambda>sorted. (Ok (take limit sorted), s)))"

fun rewards_loop :: "int \<Rightarrow> nat \<Rightarrow> (address \<times> nat) list \<Rightarrow> (address \<times> int) list gresult" where
  "rewards_loop pool denom [] = Inr []"
| "rewards_loop pool denom ((u, score) # rest) =
     bind_sum (gov_checked_mul pool (int score)) (\<lambda>m.
     bind_sum (rewards_loop pool denom rest) (\<lambda>out.
       let reward = tdiv m (int denom) in Inr (if reward > 0 then (u, reward) # out else out)))"

definition p_distribute_reputation_rewards :: "int \<Rightarrow> 'w governance \<Rightarrow> ('w, (address \<times> int) list) gcall" where
  "p_distribute_reputation_rewards pool s =
     (if pool \<le> 0 then (Err InvalidAmount, s)
      else and_then (get_reputation_leaderboard 100 s) (\<lambda>leaders s.
             let denom = fold (\<lambda>x acc. sat_add_u32 acc (snd x)) leaders 0
             in if denom = 0 then (Ok [], s)
                else attempt (rewards_loop pool denom leaders) s (\<lambda>out. (Ok out, s))))"

section \<open>What the recorders leave alone\<close>

lemma check_and_award_badges_frame:
  "check_and_award_badges r s = (r', s') \<Longrightarrow>
     gk_token s' = gk_token s \<and> gk_treasury s' = gk_treasury s \<and> gk_ballot s' = gk_ballot s \<and> gk_admin s' = gk_admin s \<and>
     gr_score r' = gr_score r \<and> gr_user r' = gr_user r \<and> gr_history r' = gr_history r"
  by (auto simp: check_and_award_badges_def Let_def publish_def split: prod.splits)

text \<open>The part of the state that the bookkeeping of reputation never changes.\<close>

definition apart_from_reputation :: "'w governance \<Rightarrow> 'w governance \<Rightarrow> bool" where
  "apart_from_reputation s s' \<longleftrightarrow>
     gk_token s' = gk_token s \<and> gk_treasury s' = gk_treasury s \<and> gk_admin s' = gk_admin s \<and>
     (\<exists>rs vr. gk_ballot s' = (gk_ballot s)\<lparr>bk_reputation_state := rs, bk_vote_records := vr\<rparr>)"

lemma apart_refl [simp]:
  assumes "gk_token x = gk_token s" "gk_treasury x = gk_treasury s" "gk_admin x = gk_admin s" "gk_ballot x = gk_ballot s"
  shows "apart_from_reputation s x"
  using assms by (cases "gk_ballot s") (auto simp: apart_from_reputation_def)

lemma apart_fields:
  assumes "apart_from_reputation s s'"
  shows "gk_token s' = gk_token s" "gk_treasury s' = gk_treasury s" "gk_admin s' = gk_admin s"
    "get_proposals_state s' = get_proposals_state s" "get_proposal pid s' = get_proposal pid s"
    "bk_locked_deposit (gk_ballot s') = bk_locked_deposit (gk_ballot s)"
    "bk_vote_snapshots (gk_ballot s') = bk_vote_snapshots (gk_ballot s)"
    "bk_delegations (gk_ballot s') = bk_delegations (gk_ballot s)"
    "bk_treasury_address (gk_ballot s') = bk_treasury_address (gk_ballot s)"
    "get_deposit_config s' = get_deposit_config s" "get_governance_config s' = get_governance_config s"
  using assms
  by (auto simp: apart_from_reputation_def get_proposals_state_def get_proposal_def get_deposit_config_def
      get_governance_config_def)

lemma put_reputation_apart: "apart_from_reputation s s1 \<Longrightarrow> apart_from_reputation s (put_reputation_state st s1)"
proof -
  assume "apart_from_reputation s s1"
  then obtain rs vr where "gk_ballot s1 = (gk_ballot s)\<lparr>bk_reputation_state := rs, bk_vote_records := vr\<rparr>"
    and rest: "gk_token s1 = gk_token s" "gk_treasury s1 = gk_treasury s" "gk_admin s1 = gk_admin s"
    by (auto simp: apart_from_reputation_def)
  then have "gk_ballot (put_reputation_state st s1) =
      (gk_ballot s)\<lparr>bk_reputation_state := Some st, bk_vote_records := vr\<rparr>"
    by (simp add: put_reputation_state_def put_ballot_def)
  with rest show ?thesis by (auto simp: apart_from_reputation_def put_reputation_state_def put_ballot_def)
qed

lemma record_activity_apart:
  assumes "record_activity e user f s = (r, s')"
  shows "apart_from_reputation s s'"
  using assms
  by (auto simp: record_activity_def Let_def or_panic_def intro!: put_reputation_apart
      dest: check_and_award_badges_frame split: option.splits prod.splits)

lemma record_vote_apart:
  assumes "record_vote e user pid vt s = (r, s')"
  shows "apart_from_reputation s s'"
proof -
  obtain r1 s1 where run: "record_activity e user (\<lambda>p. p\<lparr>ph_votes_cast := sat_add_u32 (ph_votes_cast p) 1\<rparr>) s = (r1, s1)"
    by fastforce
  obtain rs vr where b: "gk_ballot s1 = (gk_ballot s)\<lparr>bk_reputation_state := rs, bk_vote_records := vr\<rparr>"
    and rest: "gk_token s1 = gk_token s" "gk_treasury s1 = gk_treasury s" "gk_admin s1 = gk_admin s"
    using record_activity_apart [OF run] by (auto simp: apart_from_reputation_def)
  have "apart_from_reputation s (put_ballot (\<lambda>b. b\<lparr>bk_vote_records := f b\<rparr>) s1)" for f
    using rest by (auto simp: apart_from_reputation_def put_ballot_def b)
  with record_activity_apart [OF run] assms run show ?thesis
    by (cases r1) (auto simp: record_vote_def)
qed

lemma record_outcome_apart:
  assumes "record_proposal_outcome e pid s = (r, s')"
  shows "apart_from_reputation s s'" "r \<noteq> Panic"
  using assms by (auto simp: record_proposal_outcome_def Let_def attempt_def intro!: put_reputation_apart split: sum.splits)

section \<open>Decay\<close>

lemma decay_step_le: "keep \<le> 10000 \<Longrightarrow> d * keep div 10000 \<le> (d :: nat)"
  using div_le_mono [OF mult_le_mono2 [of keep 10000 d], of 10000] by simp

lemma decay_loop_le: "keep \<le> 10000 \<Longrightarrow> decay_loop n keep d \<le> d"
proof (induction n arbitrary: d)
  case (Suc n)
  from Suc.IH [OF Suc.prems] decay_step_le [OF Suc.prems] show ?case by (metis decay_loop.simps(2) order.trans)
qed simp

lemma decay_loop_antimono:
  assumes "keep \<le> 10000" and "m \<le> n"
  shows "decay_loop n keep d \<le> decay_loop m keep d"
  using assms(2)
proof (induction m arbitrary: n d)
  case (Suc m)
  then obtain k where "n = Suc k" "m \<le> k" by (cases n) auto
  with Suc.IH [of k "d * keep div 10000"] show ?case by simp
qed (use decay_loop_le assms(1) in simp)

text \<open>The number of days of decay; nothing else in the decay depends on the time.\<close>

definition decay_days :: "nat \<Rightarrow> nat \<Rightarrow> nat \<Rightarrow> reputation_tier \<Rightarrow> nat" where
  "decay_days now act g tier =
     min ((now - act) div 86400 - (if g > 0 then g else grace_period_days tier)) (max_decay_days tier)"

lemma tiered_decay_days:
  "apply_tiered_decay e score act g tier s =
     (if rc_decay_enabled (get_reputation_config s)
      then decay_loop (decay_days (ledger_timestamp e) act g tier) (10000 - decay_rate_bps tier) score else score)"
  by (simp add: apply_tiered_decay_def decay_days_def Let_def)

lemma tiered_decay_antimono:
  assumes "ledger_timestamp e1 \<le> ledger_timestamp e2"
  shows "apply_tiered_decay e2 score act g tier s \<le> apply_tiered_decay e1 score act g tier s"
proof -
  have "decay_days (ledger_timestamp e1) act g tier \<le> decay_days (ledger_timestamp e2) act g tier"
    unfolding decay_days_def by (intro min.mono diff_le_mono div_le_mono order.refl assms)
  then show ?thesis unfolding tiered_decay_days using decay_loop_antimono by simp
qed

lemma staleness_antimono:
  assumes "ledger_timestamp e1 \<le> ledger_timestamp e2"
  shows "staleness_penalty_multiplier (resolve_staleness e2 r) \<le> staleness_penalty_multiplier (resolve_staleness e1 r)"
proof -
  have days: "(ledger_timestamp e1 - gr_last_activity r) div 86400 \<le> (ledger_timestamp e2 - gr_last_activity r) div 86400"
    using assms by (intro div_le_mono diff_le_mono)
  then show ?thesis using assms
    by (auto simp: resolve_staleness_def detect_staleness_def staleness_penalty_multiplier_def Let_def)
qed

lemma base_score_new [simp]: "base_score (gr_history (new_reputation e u t)) (gr_badges (new_reputation e u t)) = 0"
  by (simp add: base_score_def new_reputation_def calculate_badge_bonus_def sat_add_u32_def sat_mul_u32_def Let_def)

lemma decay_zero [simp]: "apply_tiered_decay e 0 act g tier s = 0"
proof -
  have "decay_loop n keep 0 = 0" for n keep by (induction n) simp_all
  then show ?thesis by (simp add: apply_tiered_decay_def Let_def)
qed

text \<open>Reputation only fades: as long as nothing is recorded for an account, its score never grows with time, and
  it never exceeds 10000.\<close>

theorem reputation_fades:
  assumes "ledger_timestamp e1 \<le> ledger_timestamp e2"
  shows "calculate_reputation_score e2 user s \<le> calculate_reputation_score e1 user s \<and>
    calculate_reputation_score e1 user s \<le> 10000"
proof
  show "calculate_reputation_score e1 user s \<le> 10000" by (simp add: calculate_reputation_score_def MAX_REPUTATION_def Let_def)
  show "calculate_reputation_score e2 user s \<le> calculate_reputation_score e1 user s"
  proof (cases "smap_get (rs_reputations (get_reputation_state s)) user")
    case None
    then show ?thesis by (simp add: calculate_reputation_score_def get_governance_reputation_def Let_def)
  next
    case (Some r)
    then have same: "get_governance_reputation e1 user s = r" "get_governance_reputation e2 user s = r"
      by (simp_all add: get_governance_reputation_def)
    let ?sc = "\<lambda>e. apply_tiered_decay e (base_score (gr_history r) (gr_badges r)) (gr_last_activity r)
                    (gr_grace_override r) (gr_tier r) s"
    let ?m = "\<lambda>e. staleness_penalty_multiplier (resolve_staleness e r)"
    have a: "?sc e2 \<le> ?sc e1" and b: "?m e2 \<le> ?m e1"
      by (rule tiered_decay_antimono [OF assms], rule staleness_antimono [OF assms])
    have "min u64_max (?sc e2 * ?m e2) div 10000 \<le> min u64_max (?sc e1 * ?m e1) div 10000"
      by (intro div_le_mono min.mono order.refl mult_le_mono a b)
    with a show ?thesis by (auto simp: calculate_reputation_score_def same Let_def)
  qed
qed

section \<open>The leaderboard and its rewards\<close>

definition reputation_ok :: "reputation_state \<Rightarrow> bool" where
  "reputation_ok st \<longleftrightarrow>
     smap_ok (rs_reputations st) \<and> distinct (rs_users st) \<and> set (rs_users st) = set (smap_keys (rs_reputations st)) \<and>
     smap_all (\<lambda>r. gr_score r \<le> MAX_REPUTATION) (rs_reputations st)"

lemma upsert_rep_ok:
  assumes "reputation_ok st" and "gr_score r \<le> MAX_REPUTATION"
  shows "reputation_ok (upsert_rep user r st)"
  using assms smap_get_None_iff [of "rs_reputations st" user]
  by (auto simp: reputation_ok_def upsert_rep_def smap_has_def keys_set)

lemma score_le [simp]: "calculate_reputation_score e user s \<le> MAX_REPUTATION"
  by (simp add: calculate_reputation_score_def Let_def)

lemma outcome_loop_ok: "reputation_ok st \<Longrightarrow> reputation_ok (outcome_loop e p outcome s as st)"
proof (induction as arbitrary: st)
  case (Cons a as)
  show ?case by (simp only: outcome_loop.simps, rule Cons.IH)
    (use Cons.prems in \<open>auto simp: Let_def intro!: upsert_rep_ok split: option.splits\<close>)
qed simp

lemma get_put_reputation_state [simp]: "get_reputation_state (put_reputation_state st s) = st"
  by (simp add: get_reputation_state_def put_reputation_state_def put_ballot_def)

lemma record_activity_keeps:
  assumes "reputation_ok (get_reputation_state s)" and "record_activity e user f s = (r, s')"
  shows "reputation_ok (get_reputation_state s')"
  using assms
  by (auto simp: record_activity_def Let_def or_panic_def intro!: upsert_rep_ok
      dest!: check_and_award_badges_frame split: option.splits prod.splits)

text \<open>The insertion sort of the code is the stable sort by falling score.\<close>

lemma leaderboard_insert_mset: "mset (leaderboard_insert x ys) = add_mset x (mset ys)"
  by (induction ys) auto

lemma leaderboard_insert_sorted:
  "sorted_wrt (\<lambda>a b. snd b \<le> snd a) ys \<Longrightarrow> sorted_wrt (\<lambda>a b. snd b \<le> snd a) (leaderboard_insert x ys)"
proof (induction ys)
  case (Cons y ys)
  have "set (leaderboard_insert x ys) = insert x (set ys)"
    using arg_cong [OF leaderboard_insert_mset [of x ys], of set_mset] by simp
  with Cons show ?case by (auto intro: order.trans less_imp_le)
qed simp

lemma leaderboard_loop_sorted:
  "leaderboard_loop st us acc = Some out \<Longrightarrow> sorted_wrt (\<lambda>a b. snd b \<le> snd a) acc \<Longrightarrow>
     sorted_wrt (\<lambda>a b. snd b \<le> snd a) out"
  by (induction us arbitrary: acc) (auto intro: leaderboard_insert_sorted split: option.splits)

lemma leaderboard_loop_mset:
  assumes "\<And>u. u \<in> set us \<Longrightarrow> smap_get (rs_reputations st) u \<noteq> None"
  shows "\<exists>out. leaderboard_loop st us acc = Some out \<and>
    mset out = mset acc + mset (map (\<lambda>u. (u, gr_score (the (smap_get (rs_reputations st) u)))) us)"
  using assms
proof (induction us arbitrary: acc)
  case (Cons u us)
  then obtain r where "smap_get (rs_reputations st) u = Some r" by fastforce
  with Cons.IH [of "leaderboard_insert (u, gr_score r) acc"] Cons.prems show ?case
    by (auto simp: leaderboard_insert_mset)
qed simp

lemma leaderboard_entries:
  assumes ok: "reputation_ok (get_reputation_state s)"
    and run: "get_reputation_leaderboard limit s = (r, s')"
  shows "s' = s \<and> (r = Err IterationLimitExceeded \<and> MAX_REPUTATION_USERS < length (rs_users (get_reputation_state s)) \<or>
    (\<exists>out. r = Ok (take limit out) \<and> sorted_wrt (\<lambda>a b. snd b \<le> snd a) out \<and>
      length (rs_users (get_reputation_state s)) \<le> MAX_REPUTATION_USERS \<and>
      mset out = mset (map (\<lambda>u. (u, gr_score (the (smap_get (rs_reputations (get_reputation_state s)) u))))
        (rs_users (get_reputation_state s)))))"
proof -
  let ?st = "get_reputation_state s"
  have "smap_get (rs_reputations ?st) u \<noteq> None" if "u \<in> set (rs_users ?st)" for u
    using ok that smap_get_None_iff [of "rs_reputations ?st" u] by (auto simp: reputation_ok_def)
  then obtain out where out: "leaderboard_loop ?st (rs_users ?st) [] = Some out"
    "mset out = mset (map (\<lambda>u. (u, gr_score (the (smap_get (rs_reputations ?st) u)))) (rs_users ?st))"
    using leaderboard_loop_mset [of "rs_users ?st" ?st "[]"] by auto
  have "sorted_wrt (\<lambda>a b. snd b \<le> snd a) out" by (rule leaderboard_loop_sorted [OF out(1)]) simp
  with out run show ?thesis
    by (auto simp: get_reputation_leaderboard_def Let_def or_panic_def not_less split: if_splits)
qed

lemma rewards_loop_sum:
  assumes "0 < pool" and "0 < denom" and "rewards_loop pool denom xs = Inr out"
  shows "(\<Sum>(u, w)\<leftarrow>out. w) * int denom \<le> pool * (\<Sum>(u, n)\<leftarrow>xs. int n) \<and> (\<forall>(u, w)\<in>set out. 0 < w)"
  using assms(3)
proof (induction xs arbitrary: out)
  case (Cons x xs)
  obtain u n where x: "x = (u, n)" by fastforce
  obtain o1 where o1: "rewards_loop pool denom xs = Inr o1"
    and out: "out = (if tdiv (pool * int n) (int denom) > 0 then (u, tdiv (pool * int n) (int denom)) # o1 else o1)"
    using Cons.prems by (auto simp: x run_iff Let_def split: if_splits)
  have nn: "0 \<le> pool * int n" using assms(1) by simp
  have t: "tdiv (pool * int n) (int denom) = pool * int n div int denom" using nn assms(2) by simp
  have step: "pool * int n div int denom * int denom \<le> pool * int n"
    using assms(2) by (simp add: minus_mod_eq_div_mult [symmetric])
  have "(\<Sum>(u, w)\<leftarrow>out. w) \<le> pool * int n div int denom + (\<Sum>(u, w)\<leftarrow>o1. w)"
    using nn assms(2) by (auto simp: out t pos_imp_zdiv_nonneg_iff not_less)
  then have "(\<Sum>(u, w)\<leftarrow>out. w) * int denom \<le> (pool * int n div int denom + (\<Sum>(u, w)\<leftarrow>o1. w)) * int denom"
    by (rule mult_right_mono) simp
  with Cons.IH [OF o1] step show ?case
    by (auto simp: x out distrib_left distrib_right t)
qed (use assms in simp)

lemma fold_sat_exact:
  "acc + (\<Sum>(u, n)\<leftarrow>xs. n) \<le> u32_max \<Longrightarrow>
     fold (\<lambda>x acc. sat_add_u32 acc (snd x)) xs acc = acc + (\<Sum>(u, n)\<leftarrow>xs. n)"
  by (induction xs arbitrary: acc) (auto simp: sat_add_u32_def)

lemma sum_scores_le: "\<forall>(u, n)\<in>set xs. n \<le> c \<Longrightarrow> (\<Sum>(u, n)\<leftarrow>xs. n) \<le> c * length (xs :: ('a \<times> nat) list)"
  by (induction xs) auto

lemma int_sum_scores: "int (\<Sum>(u, n)\<leftarrow>xs. n) = (\<Sum>(u, n)\<leftarrow>xs. int n)"
  by (induction xs) auto

text \<open>The rewards that a pool is split into by reputation are positive and together never exceed the pool.\<close>

theorem reputation_rewards_bounded:
  assumes "reputation_ok (get_reputation_state s)" and "p_distribute_reputation_rewards pool s = (Ok out, s')"
  shows "s' = s \<and> (\<Sum>(u, w)\<leftarrow>out. w) \<le> pool \<and> (\<forall>(u, w)\<in>set out. 0 < w)"
proof -
  obtain leaders s1 where pool: "0 < pool" and lead: "get_reputation_leaderboard 100 s = (Ok leaders, s1)"
    and rest: "(let denom = fold (\<lambda>x acc. sat_add_u32 acc (snd x)) leaders 0
             in if denom = 0 then (Ok [], s1)
                else attempt (rewards_loop pool denom leaders) s1 (\<lambda>out. (Ok out, s1))) = (Ok out, s')"
    using assms(2) by (auto simp: p_distribute_reputation_rewards_def and_then_Ok split: if_splits)
  obtain all where s1: "s1 = s" and l: "leaders = take 100 all" and len: "length (rs_users (get_reputation_state s)) \<le> 100"
    and ms: "mset all = mset (map (\<lambda>u. (u, gr_score (the (smap_get (rs_reputations (get_reputation_state s)) u))))
        (rs_users (get_reputation_state s)))"
    using leaderboard_entries [OF assms(1) lead] by (auto simp: MAX_REPUTATION_USERS_def)
  have "set all = (\<lambda>u. (u, gr_score (the (smap_get (rs_reputations (get_reputation_state s)) u)))) `
      set (rs_users (get_reputation_state s))"
    using arg_cong [OF ms, of set_mset] by simp
  moreover have "gr_score (the (smap_get (rs_reputations (get_reputation_state s)) u)) \<le> 10000"
    if "u \<in> set (rs_users (get_reputation_state s))" for u
    using assms(1) that smap_get_None_iff [of "rs_reputations (get_reputation_state s)" u]
    by (auto simp: reputation_ok_def MAX_REPUTATION_def dest: smap_all_get)
  ultimately have "\<forall>(u, n)\<in>set leaders. n \<le> 10000" unfolding l using set_take_subset [of 100 all] by auto
  from sum_scores_le [OF this] have "(\<Sum>(u, n)\<leftarrow>leaders. n) \<le> u32_max"
    using l by (simp add: u32_max_def)
  then have den: "fold (\<lambda>x acc. sat_add_u32 acc (snd x)) leaders 0 = (\<Sum>(u, n)\<leftarrow>leaders. n)"
    using fold_sat_exact [of 0 leaders] by simp
  obtain d where d: "d = (\<Sum>(u, n)\<leftarrow>leaders. n)" by blast
  show ?thesis
  proof (cases "d = 0")
    case True
    with rest den s1 pool show ?thesis by (simp only: d [symmetric]) simp
  next
    case False
    then have run: "rewards_loop pool d leaders = Inr out" "s' = s"
      using rest s1 by (simp_all only: den d [symmetric]) (simp_all add: attempt_Ok)
    from False have pos: "0 < d" by simp
    have sum: "(\<Sum>(u, w)\<leftarrow>out. w) * int d \<le> pool * int d" "\<forall>(u, w)\<in>set out. 0 < w"
      using rewards_loop_sum [OF pool pos run(1)] unfolding d int_sum_scores by blast+
    then have "(\<Sum>(u, w)\<leftarrow>out. w) \<le> pool" using pos by (simp add: mult_le_cancel_right)
    with sum run show ?thesis by blast
  qed
qed

section \<open>The ballot weighted by reputation\<close>

lemma saturating_tally_fields [simp]:
  "gp_id (saturating_tally vt w p) = gp_id p" "gp_voters (saturating_tally vt w p) = gp_voters p"
  "gp_voter_list (saturating_tally vt w p) = gp_voter_list p" "gp_status (saturating_tally vt w p) = gp_status p"
  "votes_of t (saturating_tally vt w p) = (if t = vt then saturating_add (votes_of t p) w else votes_of t p)"
  by (cases vt; cases t; simp add: votes_of_def)+

lemma p_cast_reputation_Ok:
  assumes "p_cast_reputation_weighted_vote e pid voter vt s = (Ok u, s')"
  obtains p w s1 s2 where "has_auth e voter" "get_proposal pid s = Inr p"
    "\<not> discussion_open (ledger_timestamp e) p" "voting_gates (ledger_timestamp e) p = Inr ()"
    "\<not> smap_has (gp_voters p) voter" "0 < get_or 0 (get_vote_snapshot pid voter s)"
    "w = tdiv (get_or 0 (get_vote_snapshot pid voter s) * int (reputation_multiplier (get_governance_reputation e voter s))) 10000"
    "put_proposal (open_voting (saturating_tally vt w (record_ballot voter
       \<lparr>v_voter = voter, v_vote_type = vt, v_voting_power = w, v_timestamp = ledger_timestamp e\<rparr> p))) s = (Ok (), s1)"
    "record_vote (consume_auth voter e) voter pid vt s1 = (Ok (), s2)"
    "gk_token s' = gk_token s2" "gk_ballot s' = gk_ballot s2" "gk_treasury s' = gk_treasury s2"
proof -
  have env: "get_governance_reputation (consume_auth voter e) voter s = get_governance_reputation e voter s"
    by (simp add: get_governance_reputation_def new_reputation_def)
  show thesis using assms
    by (auto simp: p_cast_reputation_weighted_vote_def with_auth_Ok attempt_Ok and_then_Ok Let_def not_le env
        publish_def split: if_splits intro!: that)
qed

lemma weight_bounds:
  assumes "x * 10000 \<le> y" "y \<le> x * (15000 :: int)"
  shows "x \<le> y div 10000" "2 * (y div 10000) \<le> 3 * x"
  using assms by linarith+

text \<open>Counting a weighted vote keeps the ballot in order.\<close>

lemma weighted_ballot_ok:
  fixes voter vt w now p
  defines "p' \<equiv> open_voting (saturating_tally vt w (record_ballot voter
       \<lparr>v_voter = voter, v_vote_type = vt, v_voting_power = w, v_timestamp = now\<rparr> p))"
  assumes ok: "proposal_ok p" and new: "\<not> smap_has (gp_voters p) voter" and w: "0 \<le> w"
  shows "votes_of t p' = (if t = vt then min i128_max (votes_of t p + w) else votes_of t p)" "proposal_ok p'"
proof -
  have nonneg: "0 \<le> votes_of t p" for t
    using tally_nonneg [OF ok, of t] ok by (auto simp: proposal_ok_def i128_max_def)
  have "votes_of t (record_ballot voter x p) = votes_of t p" for t x by (cases t) (simp_all add: record_ballot_def votes_of_def)
  then have cnt: "votes_of t p' = (if t = vt then min i128_max (votes_of t p + w) else votes_of t p)" for t
    using w by (simp add: p'_def saturating_add_nonneg nonneg)
  then show "votes_of t p' = (if t = vt then min i128_max (votes_of t p + w) else votes_of t p)" .
  have "gp_voters p' = smap_set (gp_voters p) voter
       \<lparr>v_voter = voter, v_vote_type = vt, v_voting_power = w, v_timestamp = now\<rparr>"
    "gp_voter_list p' = gp_voter_list p @ [voter]" by (simp_all add: p'_def record_ballot_def)
  then show "proposal_ok p'" by (rule counted_vote_ok [OF ok new w _ _ cnt])
qed

text \<open>A vote cast through the reputation entry point is accepted under the same gates as an ordinary vote and only once per
  account. It counts between one and one and a half times the snapshot power, whatever the voting rule of the
  proposal, saturating at the largest integer, and changes nothing else of the ballot.\<close>

theorem reputation_vote_effect:
  assumes "proposals_ok (get_proposals_state s)" and "reputation_ok (get_reputation_state s)"
    and "p_cast_reputation_weighted_vote e pid voter vt s = (Ok u, s')"
  shows "\<exists>p p' raw w. get_proposal pid s = Inr p \<and> get_proposal pid s' = Inr p' \<and> has_auth e voter \<and>
      \<not> smap_has (gp_voters p) voter \<and> smap_has (gp_voters p') voter \<and>
      voting_gates (ledger_timestamp e) p = Inr () \<and> \<not> discussion_open (ledger_timestamp e) p \<and>
      raw = get_or 0 (get_vote_snapshot pid voter s) \<and> 0 < raw \<and> raw \<le> w \<and> 2 * w \<le> 3 * raw \<and>
      (\<forall>t. votes_of t p' = (if t = vt then min i128_max (votes_of t p + w) else votes_of t p)) \<and>
      (\<forall>q. q \<noteq> pid \<longrightarrow> get_proposal q s' = get_proposal q s) \<and> gk_token s' = gk_token s \<and>
      proposals_ok (get_proposals_state s')"
proof -
  let ?raw = "get_or 0 (get_vote_snapshot pid voter s)" and ?m = "reputation_multiplier (get_governance_reputation e voter s)"
  obtain p w s1 s2 where f: "has_auth e voter" "get_proposal pid s = Inr p"
    "\<not> discussion_open (ledger_timestamp e) p" "voting_gates (ledger_timestamp e) p = Inr ()"
    "\<not> smap_has (gp_voters p) voter" "0 < ?raw" and w: "w = tdiv (?raw * int ?m) 10000"
    and put: "put_proposal (open_voting (saturating_tally vt w (record_ballot voter
       \<lparr>v_voter = voter, v_vote_type = vt, v_voting_power = w, v_timestamp = ledger_timestamp e\<rparr> p))) s = (Ok (), s1)"
    and rec: "record_vote (consume_auth voter e) voter pid vt s1 = (Ok (), s2)"
    and s': "gk_token s' = gk_token s2" "gk_ballot s' = gk_ballot s2" "gk_treasury s' = gk_treasury s2"
    by (rule p_cast_reputation_Ok [OF assms(3)])
  let ?p' = "open_voting (saturating_tally vt w (record_ballot voter
       \<lparr>v_voter = voter, v_vote_type = vt, v_voting_power = w, v_timestamp = ledger_timestamp e\<rparr> p))"
  have score: "gr_score (get_governance_reputation e voter s) \<le> 10000"
    using assms(2) by (cases "smap_get (rs_reputations (get_reputation_state s)) voter")
      (auto simp: get_governance_reputation_def new_reputation_def reputation_ok_def MAX_REPUTATION_def dest: smap_all_get)
  then have m: "10000 \<le> ?m" "?m \<le> 15000" by (auto simp: reputation_multiplier_def sat_add_u32_def u32_max_def)
  have low: "?raw * 10000 \<le> ?raw * int ?m" and high: "?raw * int ?m \<le> ?raw * 15000"
    using f(6) m by (intro mult_left_mono; simp)+
  have wd: "w = ?raw * int ?m div 10000" using f(6) unfolding w by simp
  have bounds: "?raw \<le> w" "2 * w \<le> 3 * ?raw" unfolding wd by (rule weight_bounds [OF low high])+
  have pok: "proposal_ok p" "gp_id p = pid" using proposals_ok_get [OF assms(1)] f(2) by (auto simp: get_proposal_Inr)
  have nonneg: "0 \<le> w" using bounds f(6) by simp
  note cnt = weighted_ballot_ok(1) [OF pok(1) f(5) nonneg, of _ vt "ledger_timestamp e"]
  have vs: "gp_id ?p' = pid" using pok by (simp add: record_ballot_def)
  have "proposal_ok ?p'" by (rule weighted_ballot_ok(2) [OF pok(1) f(5) nonneg])
  then have ok1: "proposals_ok (get_proposals_state s1)" by (rule put_proposal_keeps [OF assms(1) _ put])
  note ap = apart_fields [OF record_vote_apart [OF rec]]
  have same: "get_proposals_state s' = get_proposals_state s1" "get_proposal q s' = get_proposal q s1" for q
    using ap(4,5) s' by (simp_all add: get_proposals_state_def get_proposal_def)
  have new: "get_proposal pid s1 = Inr ?p'" "gk_token s1 = gk_token s" "\<And>q. q \<noteq> pid \<Longrightarrow> get_proposal q s1 = get_proposal q s"
    using put vs by (auto simp: run_iff get_proposal_def put_proposals_state_def get_proposals_state_def put_ballot_def)
  have "smap_has (gp_voters ?p') voter" by (simp add: record_ballot_def smap_has_def)
  then show ?thesis
    using f bounds cnt new same ok1 s'(1) ap(1) by (intro exI [of _ p] exI [of _ ?p'] exI [of _ ?raw] exI [of _ w]) auto
qed

section \<open>Outcomes\<close>

lemma outcome_loop_get:
  "smap_get (rs_reputations (outcome_loop e p outcome s as st)) a =
     (if a \<in> set as \<and> (\<exists>v. smap_get (gp_voters p) a = Some v \<and> aligned (v_vote_type v) outcome)
      then let r = get_governance_reputation e a s; h = gr_history r
           in Some (r\<lparr>gr_history := h\<lparr>ph_votes_aligned_with_outcome := sat_add_u32 (ph_votes_aligned_with_outcome h) 1\<rparr>,
                      gr_score := calculate_reputation_score e a s\<rparr>)
      else smap_get (rs_reputations st) a)"
  by (induction as arbitrary: st) (auto simp: Let_def upsert_rep_def split: option.splits)

text \<open>A successful proposal is credited to its author, unless the author voted for it: the loop over the voters reads the
  author's record from storage again and overwrites the credit.\<close>

theorem success_credit_overwritten:
  assumes "get_proposal pid s = Inr p" and "gp_status p \<in> {Succeeded, Executed}"
    and "record_proposal_outcome e pid s = (Ok u, s')"
    and "smap_get (gp_voters p) (gp_proposer p) = Some v" and "gp_proposer p \<in> set (gp_voter_list p)"
  shows "ph_proposals_succeeded (gr_history (get_governance_reputation e (gp_proposer p) s')) =
     (let before = ph_proposals_succeeded (gr_history (get_governance_reputation e (gp_proposer p) s))
      in if v_vote_type v = For then before else sat_add_u32 before 1)"
proof -
  let ?a = "gp_proposer p"
  have st: "get_reputation_state s' = outcome_loop e p True s (gp_voter_list p)
      (upsert_rep ?a (let r = get_governance_reputation e ?a s; h = gr_history r
         in r\<lparr>gr_history := h\<lparr>ph_proposals_succeeded := sat_add_u32 (ph_proposals_succeeded h) 1\<rparr>,
              gr_score := calculate_reputation_score e ?a s\<rparr>) (get_reputation_state s))"
    using assms(1-3) by (auto simp: record_proposal_outcome_def Let_def)
  show ?thesis using assms(4,5)
    by (simp add: get_governance_reputation_def [of e ?a s'] st outcome_loop_get Let_def aligned_def upsert_rep_def)
qed

end
