(* ===== verification/Governance_Ballot.thy ===== *)
theory Governance_Ballot
  imports Governance_Reputation
begin

text \<open>
  The entry points of \<^verbatim>\<open>lib.rs\<close> that run the ballot: proposals with their deposits and reputation, delegation, the
  dry runs, the storage migration and the views. Each composes the functions of \<^verbatim>\<open>proposals.rs\<close>, \<^verbatim>\<open>proposal_deposit.rs\<close>
  and \<^verbatim>\<open>reputation.rs\<close> behind the guards of the contract.
\<close>

definition when_initialized :: "('w governance \<Rightarrow> ('w, 'a) gcall) \<Rightarrow> 'w governance \<Rightarrow> ('w, 'a) gcall" where
  "when_initialized f s = attempt (require_initialized s) s (\<lambda>_. f s)"

definition when_running :: "('w governance \<Rightarrow> ('w, 'a) gcall) \<Rightarrow> 'w governance \<Rightarrow> ('w, 'a) gcall" where
  "when_running f = when_initialized (\<lambda>s. attempt (gov_require_not_paused s) s (\<lambda>_. f s))"

lemma when_Ok [run_iff]:
  "when_initialized f s = (Ok x, s') \<longleftrightarrow> gov_is_initialized s \<and> f s = (Ok x, s')"
  "when_running f s = (Ok x, s') \<longleftrightarrow> gov_is_initialized s \<and> \<not> is_paused s \<and> f s = (Ok x, s')"
  by (auto simp: when_initialized_def when_running_def run_iff)

section \<open>Proposals\<close>

definition create_proposal :: "env \<Rightarrow> address \<Rightarrow> proposal_type \<Rightarrow> string \<Rightarrow> string \<Rightarrow> bytes \<Rightarrow> proposal_category \<Rightarrow>
    bool \<Rightarrow> 'w governance \<Rightarrow> ('w, nat) gcall" where
  "create_proposal e author ptype title description data category quadratic =
     when_running (\<lambda>s.
       and_then (p_create_proposal e author ptype title description data category quadratic s) (\<lambda>pid s.
       and_then (lock_proposal_deposit pid author s) (\<lambda>_ s.
         ignore (record_proposal_creation e author s) (\<lambda>s. (Ok pid, s)))))"

definition show_proposal :: "env \<Rightarrow> gov_proposal \<Rightarrow> gov_proposal" where
  "show_proposal e p = p\<lparr>gp_status := effective_status e p\<rparr>"

definition proposal_view :: "env \<Rightarrow> nat \<Rightarrow> 'w governance \<Rightarrow> gov_proposal gresult" where
  "proposal_view e pid s =
     bind_sum (require_initialized s) (\<lambda>_. bind_sum (get_proposal pid s) (\<lambda>p. Inr (show_proposal e p)))"

definition proposals_view :: "env \<Rightarrow> 'w governance \<Rightarrow> gov_proposal list gresult" where
  "proposals_view e = view (\<lambda>s. map (show_proposal e) (get_all_proposals s))"

definition cast_vote :: "env \<Rightarrow> nat \<Rightarrow> address \<Rightarrow> vote_type \<Rightarrow> 'w governance \<Rightarrow> ('w, unit) gcall" where
  "cast_vote e pid voter vt =
     when_running (\<lambda>s.
       and_then (p_cast_vote e pid voter vt s) (\<lambda>_ s.
         ignore (record_vote e voter pid vt s) (\<lambda>s. (Ok (), s))))"

definition supply_or_zero :: "'w governance \<Rightarrow> int" where
  "supply_or_zero s = (case get_total_supply s of Inl _ \<Rightarrow> 0 | Inr ts \<Rightarrow> ts)"

text \<open>Everything after the verdict: the outcome is recorded and the deposit settled, both without looking at their result.\<close>

definition after_verdict :: "env \<Rightarrow> nat \<Rightarrow> gov_status \<Rightarrow> 'w governance \<Rightarrow> ('w, gov_status) gcall" where
  "after_verdict e pid status s =
     ignore (record_proposal_outcome e pid s) (\<lambda>s.
       case get_proposal pid s of
         Inl _ \<Rightarrow> (Panic, s)
       | Inr p \<Rightarrow>
           ignore (settle_proposal_deposit pid (total_votes p) (supply_or_zero s)
                     (get_or (gp_proposer p) (bk_treasury_address (gk_ballot s))) s) (\<lambda>s. (Ok status, s)))"

definition finalize_proposal :: "env \<Rightarrow> nat \<Rightarrow> 'w governance \<Rightarrow> ('w, gov_status) gcall" where
  "finalize_proposal e pid =
     when_running (\<lambda>s. and_then (p_finalize_proposal e pid s) (\<lambda>status s. after_verdict e pid status s))"

definition execute_proposal :: "env \<Rightarrow> nat \<Rightarrow> address \<Rightarrow> 'w governance \<Rightarrow> ('w, gov_status) gcall" where
  "execute_proposal e pid executor = when_running (p_execute_proposal e pid executor)"

definition cancel_proposal :: "env \<Rightarrow> nat \<Rightarrow> address \<Rightarrow> 'w governance \<Rightarrow> ('w, gov_status) gcall" where
  "cancel_proposal e pid canceller = when_initialized (p_cancel_proposal e pid canceller)"

definition withdraw_proposal :: "env \<Rightarrow> nat \<Rightarrow> address \<Rightarrow> 'w governance \<Rightarrow> ('w, gov_status) gcall" where
  "withdraw_proposal e pid author = when_running (p_withdraw_proposal e pid author)"

definition reclaim_expired_proposal :: "env \<Rightarrow> nat \<Rightarrow> address \<Rightarrow> 'w governance \<Rightarrow> ('w, unit) gcall" where
  "reclaim_expired_proposal e pid caller = when_running (p_reclaim_expired_proposal e pid caller)"

definition cleanup_proposals :: "env \<Rightarrow> nat \<Rightarrow> nat \<Rightarrow> 'w governance \<Rightarrow> ('w, nat) gcall" where
  "cleanup_proposals e cursor limit = when_initialized (cleanup_terminal_proposals e cursor limit)"

definition get_active_proposals :: "env \<Rightarrow> 'w governance \<Rightarrow> gov_proposal list gresult" where
  "get_active_proposals e = view (p_get_active_proposals e)"

definition proposal_statistics_view :: "'w governance \<Rightarrow> proposal_statistics gresult" where
  "proposal_statistics_view s = bind_sum (require_initialized s) (\<lambda>_. calculate_proposal_statistics s)"

definition simulate_proposal :: "(address \<Rightarrow> string) \<Rightarrow> nat \<Rightarrow> 'w governance \<Rightarrow> ('w, simulation_result) gcall" where
  "simulate_proposal strkey pid = when_initialized (p_simulate_proposal strkey pid)"

definition simulate_execution :: "env \<Rightarrow> nat \<Rightarrow> 'w governance \<Rightarrow> ('w, execution_simulation_result) gcall" where
  "simulate_execution e pid =
     when_initialized (\<lambda>s.
       attempt (get_proposal pid s) s (\<lambda>p.
         let executable = (gp_status p = Succeeded); (old_value, new_value) = simulated_values (gp_type p) s
         in (Ok \<lparr>es_proposal_id = pid, es_timestamp = ledger_timestamp e, es_would_succeed = executable,
                 es_old_value = old_value, es_new_value = new_value\<rparr>,
             publish s [VSym ''gov'', VSym ''sim_done'']
               (VVec [VU64 pid, VBool executable, VI128 old_value, VI128 new_value, VU64 (ledger_timestamp e)]))))"

section \<open>Configuration and migration\<close>

definition configure_governance :: "env \<Rightarrow> address \<Rightarrow> governance_config \<Rightarrow> 'w governance \<Rightarrow> ('w, governance_config) gcall" where
  "configure_governance e admin config =
     when_initialized (require_capability e admin CapParameterChange (\<lambda>e s.
       attempt (require_no_timelock_bypass s) s (\<lambda>_. p_configure_governance config s)))"

definition set_category_thresholds :: "env \<Rightarrow> address \<Rightarrow> proposal_category \<Rightarrow> category_threshold \<Rightarrow> 'w governance \<Rightarrow>
    ('w, unit) gcall" where
  "set_category_thresholds e admin c t =
     when_initialized (require_capability e admin CapParameterChange (\<lambda>e s.
       attempt (require_no_timelock_bypass s) s (\<lambda>_. p_set_category_thresholds e admin c t s)))"

definition set_deposit_config :: "env \<Rightarrow> address \<Rightarrow> deposit_config \<Rightarrow> 'w governance \<Rightarrow> ('w, unit) gcall" where
  "set_deposit_config e admin config =
     when_initialized (require_capability e admin CapParameterChange (\<lambda>e s. p_set_deposit_config e admin config s))"

definition migrate_storage :: "env \<Rightarrow> address \<Rightarrow> nat \<Rightarrow> 'w governance \<Rightarrow> ('w, nat) gcall" where
  "migrate_storage e admin from_version =
     gov_require_admin e admin (\<lambda>e s.
       let current = get_or 0 (gk_storage_version s)
       in if current = 1 then (Ok 1, s)
          else if from_version \<noteq> 0 \<or> current \<noteq> from_version then (Err InvalidGovernanceConfig, s)
          else let s1 = s\<lparr>gk_migration_in_progress := Some True\<rparr>
               in if pp_next_proposal_id (get_proposals_state s1) = 0 then (Err InvalidProposal, s1)
                  else (Ok 1, s1\<lparr>gk_storage_version := Some 1, gk_migration_in_progress := None\<rparr>))"

definition storage_version :: "'w governance \<Rightarrow> nat" where
  "storage_version s = get_or 0 (gk_storage_version s)"

section \<open>Delegation\<close>

definition delegate_voting_power :: "env \<Rightarrow> address \<Rightarrow> address \<Rightarrow> 'w governance \<Rightarrow> ('w, unit) gcall" where
  "delegate_voting_power e delegator delegate = when_initialized (p_delegate_voting_power e delegator delegate)"

definition undelegate_voting_power :: "env \<Rightarrow> address \<Rightarrow> 'w governance \<Rightarrow> ('w, unit) gcall" where
  "undelegate_voting_power e delegator = when_initialized (p_undelegate_voting_power e delegator)"

definition effective_voting_power :: "address \<Rightarrow> 'w governance \<Rightarrow> int gresult" where
  "effective_voting_power user = view (get_effective_voting_power user)"

section \<open>Reputation\<close>

definition governance_reputation_view :: "env \<Rightarrow> address \<Rightarrow> 'w governance \<Rightarrow> governance_reputation gresult" where
  "governance_reputation_view e user =
     view (\<lambda>s. (get_governance_reputation e user s)\<lparr>gr_score := calculate_reputation_score e user s\<rparr>)"

definition reputation_score_view :: "env \<Rightarrow> address \<Rightarrow> 'w governance \<Rightarrow> nat gresult" where
  "reputation_score_view e user = view (calculate_reputation_score e user)"

definition cast_reputation_weighted_vote :: "env \<Rightarrow> nat \<Rightarrow> address \<Rightarrow> vote_type \<Rightarrow> 'w governance \<Rightarrow> ('w, unit) gcall" where
  "cast_reputation_weighted_vote e pid voter vt = when_initialized (p_cast_reputation_weighted_vote e pid voter vt)"

definition reputation_leaderboard :: "nat \<Rightarrow> 'w governance \<Rightarrow> ('w, (address \<times> nat) list) gcall" where
  "reputation_leaderboard limit = when_initialized (get_reputation_leaderboard limit)"

definition distribute_reputation_rewards :: "env \<Rightarrow> address \<Rightarrow> int \<Rightarrow> 'w governance \<Rightarrow> ('w, (address \<times> int) list) gcall" where
  "distribute_reputation_rewards e admin pool = gov_require_admin e admin (\<lambda>e s. p_distribute_reputation_rewards pool s)"

definition update_reputation_config :: "env \<Rightarrow> address \<Rightarrow> reputation_config \<Rightarrow> 'w governance \<Rightarrow> ('w, reputation_config) gcall" where
  "update_reputation_config e admin config =
     gov_require_admin e admin (\<lambda>e s. (Ok config, put_reputation_config config s))"

definition check_reputation_staleness :: "env \<Rightarrow> address \<Rightarrow> 'w governance \<Rightarrow> staleness_level" where
  "check_reputation_staleness e user s = resolve_staleness e (get_governance_reputation e user s)"

definition refresh_reputation :: "env \<Rightarrow> address \<Rightarrow> 'w governance \<Rightarrow> ('w, nat) gcall" where
  "refresh_reputation e user = when_initialized (refresh_stale_reputation e user)"

section \<open>Calls that always trap\<close>

text \<open>The entry point and the module both ask for the same signature, and the host grants it once per frame.\<close>

lemma admin_after_capability_traps:
  "has_auth e a \<Longrightarrow> gov_is_initialized s \<Longrightarrow> gov_require_admin (consume_auth a e) a f s = (Panic, s)"
  by (simp add: gov_require_admin_def with_auth_def require_initialized_def)

text \<open>The settings of the deposit and the thresholds of a category can never be changed after deployment: both setters ask for the
  administrator's signature twice in one frame, which the host refuses.\<close>

theorem double_authorisation_traps:
  "fst (set_deposit_config e admin config s) \<noteq> Ok () \<and> fst (set_category_thresholds e admin c t s) \<noteq> Ok ()"
proof -
  have "set_deposit_config e admin config s \<noteq> (Ok u, s')" for u s'
    by (auto simp: set_deposit_config_def run_iff p_set_deposit_config_def)
  moreover have "set_category_thresholds e admin c t s \<noteq> (Ok u, s')" for u s'
    by (auto simp: set_category_thresholds_def run_iff p_set_category_thresholds_def)
  ultimately show ?thesis by (metis prod.collapse)
qed

end
