(* ===== verification/Governance_Treasury.thy ===== *)
theory Governance_Treasury
  imports Governance_Ballot
begin

text \<open>
  The treasury (\<^verbatim>\<open>treasury.rs\<close>) and its entry points: asset balances, budgets with their periods and spending
  limits, the caps approved by governance, spending, recurring payments, rebalancing targets and the reports.
  The functions of the module work on the treasury as a value, which the entry points load and store. The loop
  that renews a budget does not end when the clock stands at the largest number; such a call exhausts the
  resources of the host and traps.
\<close>

section \<open>Tracking\<close>

definition track_asset :: "asset \<Rightarrow> treasury \<Rightarrow> treasury" where
  "track_asset a t =
     (if a \<in> set (tr_tracked_assets t) then t
      else t\<lparr>tr_tracked_assets := tr_tracked_assets t @ [a],
             tr_assets := (if tr_assets t a = None then (tr_assets t)(a := Some 0) else tr_assets t),
             tr_rebalance_targets := (if tr_rebalance_targets t a = None then (tr_rebalance_targets t)(a := Some 0)
                                      else tr_rebalance_targets t)\<rparr>)"

definition track_category :: "string \<Rightarrow> treasury \<Rightarrow> treasury" where
  "track_category c t =
     (if c \<in> set (tr_budget_categories t) then t else t\<lparr>tr_budget_categories := tr_budget_categories t @ [c]\<rparr>)"

definition set_asset_balance :: "asset \<Rightarrow> int \<Rightarrow> treasury \<Rightarrow> treasury gresult" where
  "set_asset_balance a amount t =
     (if amount < 0 then Inl InvalidAmount
      else let t1 = track_asset a t in Inr (t1\<lparr>tr_assets := (tr_assets t1)(a := Some amount)\<rparr>))"

section \<open>Budgets\<close>

definition upsert_budget :: "string \<Rightarrow> int \<Rightarrow> int \<Rightarrow> nat \<Rightarrow> nat \<Rightarrow> bool \<Rightarrow> treasury \<Rightarrow> (budget \<times> treasury) gresult" where
  "upsert_budget category allocated spend_limit period_start period_end auto_renew t =
     (if category = [] \<or> allocated \<le> 0 \<or> spend_limit \<le> 0 \<or> spend_limit > allocated then Inl InvalidTreasuryConfig
      else if period_end \<le> period_start then Inl InvalidDuration
      else let b = \<lparr>bg_category = category, bg_allocated = allocated, bg_spent = 0, bg_remaining = allocated,
                    bg_spend_limit = spend_limit, bg_period_start = period_start, bg_period_end = period_end,
                    bg_auto_renew = auto_renew\<rparr>;
               t1 = track_category category t
           in Inr (b, t1\<lparr>tr_budgets := (tr_budgets t1)(category := Some b)\<rparr>))"

definition approve_budget :: "string \<Rightarrow> nat \<Rightarrow> int \<Rightarrow> nat \<Rightarrow> treasury \<Rightarrow> 'w governance \<Rightarrow>
    ('w, budget_approval \<times> treasury) gcall" where
  "approve_budget category pid cap now t s =
     (if cap \<le> 0 then (Err InvalidAmount, s)
      else attempt (ok_or BudgetNotFound (tr_budgets t category)) s (\<lambda>b.
             if cap > bg_allocated b then (Err BudgetExceeded, s)
             else let ap = \<lparr>ba_proposal_id = pid, ba_category = category, ba_approved_cap = cap, ba_total_drawn = 0,
                            ba_approved_at = now\<rparr>
                  in (Ok (ap, t\<lparr>tr_approved_budgets := (tr_approved_budgets t)(category := Some ap)\<rparr>),
                      publish s [VSym ''treasury'', VSym ''budgapprv'']
                        (VVec [VStr category, VU64 pid, VI128 cap, VU64 now]))))"

partial_function (option) renew_loop :: "nat \<Rightarrow> nat \<Rightarrow> nat \<Rightarrow> nat \<Rightarrow> (nat \<times> nat) option" where
  "renew_loop now duration next_start next_end =
     (if now < next_end then Some (next_start, next_end)
      else renew_loop now duration next_end (sat_add_u64 next_end duration))"

declare renew_loop.simps [code]

text \<open>The outer option is the loop that does not end.\<close>

definition renew_budget_if_needed :: "nat \<Rightarrow> budget \<Rightarrow> budget gresult option" where
  "renew_budget_if_needed now b =
     (if now < bg_period_end b then Some (Inr b)
      else if \<not> bg_auto_renew b then Some (Inl BudgetPeriodEnded)
      else let duration = bg_period_end b - bg_period_start b
           in if duration = 0 then Some (Inl InvalidDuration)
              else case renew_loop now duration (bg_period_start b) (bg_period_end b) of
                     None \<Rightarrow> None
                   | Some (next_start, next_end) \<Rightarrow>
                       Some (Inr (b\<lparr>bg_period_start := next_start, bg_period_end := next_end, bg_spent := 0,
                                    bg_remaining := bg_allocated b\<rparr>)))"

section \<open>Spending\<close>

definition opt_u64 :: "nat option \<Rightarrow> scval" where
  "opt_u64 x = (case x of None \<Rightarrow> VVoid | Some n \<Rightarrow> VU64 n)"

definition execute_spend :: "address \<Rightarrow> int \<Rightarrow> asset \<Rightarrow> string \<Rightarrow> string \<Rightarrow> nat option \<Rightarrow> nat \<Rightarrow> treasury \<Rightarrow>
    'w governance \<Rightarrow> ('w, treasury_spend \<times> treasury) gcall" where
  "execute_spend recipient amount a category purpose by_proposal now t s =
     (if purpose = [] then (Err InvalidTreasuryConfig, s)
      else if amount \<le> 0 then (Err InvalidAmount, s)
      else attempt (ok_or BudgetNotFound (tr_budgets t category)) s (\<lambda>b0.
           or_panic (renew_budget_if_needed now b0) s (\<lambda>renewed.
           attempt renewed s (\<lambda>b.
             if amount > bg_remaining b \<or> amount > bg_spend_limit b then (Err BudgetExceeded, s)
             else attempt (ok_or BudgetApprovalRequired (tr_approved_budgets t category)) s (\<lambda>ap.
                  attempt (gov_checked_add (ba_total_drawn ap) amount) s (\<lambda>drawn.
                    if drawn > ba_approved_cap ap then (Err ApprovedCapExceeded, s)
                    else let bal = get_or 0 (tr_assets t a)
                         in if bal < amount then (Err InsufficientBalance, s)
                            else attempt (gov_checked_add (bg_spent b) amount) s (\<lambda>spent.
                                 attempt (gov_checked_sub (bg_remaining b) amount) s (\<lambda>remaining.
                                 attempt (gov_checked_sub bal amount) s (\<lambda>rest.
                                   let spend = \<lparr>ts_id = tr_next_spend_id t, ts_recipient = recipient, ts_amount = amount,
                                                ts_asset = a, ts_category = category, ts_purpose = purpose,
                                                ts_approved_by_proposal = by_proposal, ts_executed_at = now\<rparr>;
                                       t' = t\<lparr>tr_approved_budgets := (tr_approved_budgets t)(category := Some (ap\<lparr>ba_total_drawn := drawn\<rparr>)),
                                              tr_budgets := (tr_budgets t)(category := Some (b\<lparr>bg_spent := spent, bg_remaining := remaining\<rparr>)),
                                              tr_assets := (tr_assets t)(a := Some rest),
                                              tr_next_spend_id := sat_add_u64 (tr_next_spend_id t) 1,
                                              tr_spending_history := tr_spending_history t @ [spend]\<rparr>
                                   in (Ok (spend, t'), publish s [VSym ''treasury'', VSym ''spend'']
                                        (VVec [VU64 (ts_id spend), VAddr recipient, VI128 amount, VStr category,
                                               opt_u64 by_proposal, VU64 (ba_proposal_id ap),
                                               VI128 (ba_approved_cap ap), VI128 drawn, VU64 now])))))))))))"

section \<open>Recurring payments\<close>

definition schedule_recurring_payment :: "env \<Rightarrow> address \<Rightarrow> int \<Rightarrow> asset \<Rightarrow> nat \<Rightarrow> string \<Rightarrow> string \<Rightarrow> nat option \<Rightarrow>
    nat option \<Rightarrow> treasury \<Rightarrow> (recurring_payment \<times> treasury) gresult" where
  "schedule_recurring_payment e recipient amount a frequency category purpose by_proposal end_date t =
     (if amount \<le> 0 then Inl InvalidAmount
      else if frequency = 0 then Inl InvalidDuration
      else if (case end_date of None \<Rightarrow> False | Some d \<Rightarrow> d \<le> ledger_timestamp e) then Inl InvalidDuration
      else if tr_budgets t category = None then Inl BudgetNotFound
      else if tr_approved_budgets t category = None then Inl BudgetApprovalRequired
      else let t1 = track_asset a t;
               p = \<lparr>rp_id = tr_next_recurring_payment_id t1, rp_recipient = recipient, rp_amount = amount, rp_asset = a,
                    rp_frequency = frequency, rp_category = category, rp_purpose = purpose,
                    rp_approved_by_proposal = by_proposal, rp_last_payment = ledger_timestamp e,
                    rp_end_date = end_date, rp_active = True\<rparr>
           in Inr (p, t1\<lparr>tr_next_recurring_payment_id := sat_add_u64 (tr_next_recurring_payment_id t1) 1,
                         tr_recurring_payments := tr_recurring_payments t1 @ [p]\<rparr>))"

definition set_payment :: "nat \<Rightarrow> recurring_payment \<Rightarrow> treasury \<Rightarrow> treasury" where
  "set_payment i p t = t\<lparr>tr_recurring_payments := (tr_recurring_payments t)[i := p]\<rparr>"

definition past_end :: "nat \<Rightarrow> recurring_payment \<Rightarrow> bool" where
  "past_end now p = (case rp_end_date p of None \<Rightarrow> False | Some d \<Rightarrow> now > d)"

definition paid_now :: "nat \<Rightarrow> recurring_payment \<Rightarrow> recurring_payment" where
  "paid_now now p =
     p\<lparr>rp_last_payment := now,
       rp_active := (case rp_end_date p of None \<Rightarrow> rp_active p | Some d \<Rightarrow> if now \<ge> d then False else rp_active p)\<rparr>"

fun payments_loop :: "nat \<Rightarrow> nat list \<Rightarrow> nat \<Rightarrow> treasury \<Rightarrow> 'w governance \<Rightarrow> ('w, nat \<times> treasury) gcall" where
  "payments_loop now [] processed t s = (Ok (processed, t), s)"
| "payments_loop now (i # rest) processed t s =
     (let p = tr_recurring_payments t ! i
      in if \<not> rp_active p then payments_loop now rest processed t s
         else if past_end now p then payments_loop now rest processed (set_payment i (p\<lparr>rp_active := False\<rparr>) t) s
         else if now \<ge> sat_add_u64 (rp_last_payment p) (rp_frequency p) then
           case execute_spend (rp_recipient p) (rp_amount p) (rp_asset p) (rp_category p) (rp_purpose p)
                  (rp_approved_by_proposal p) now t s of
             (Ok (_, t1), s1) \<Rightarrow> payments_loop now rest (sat_add_u32 processed 1) (set_payment i (paid_now now p) t1) s1
           | (Err er, s1) \<Rightarrow>
               if er \<in> {BudgetExceeded, BudgetNotFound, BudgetPeriodEnded, InsufficientBalance, BudgetApprovalRequired,
                         ApprovedCapExceeded}
               then payments_loop now rest processed (set_payment i (p\<lparr>rp_active := False\<rparr>) t) s1
               else (Err er, s1)
           | (Panic, s1) \<Rightarrow> (Panic, s1)
         else payments_loop now rest processed t s)"

definition t_process_recurring_payments :: "nat \<Rightarrow> treasury \<Rightarrow> 'w governance \<Rightarrow> ('w, nat \<times> treasury) gcall" where
  "t_process_recurring_payments now t s = payments_loop now [0..<length (tr_recurring_payments t)] 0 t s"

section \<open>Rebalancing\<close>

fun checked_total :: "int list \<Rightarrow> int \<Rightarrow> int gresult" where
  "checked_total [] acc = Inr acc"
| "checked_total (x # xs) acc = bind_sum (gov_checked_add acc x) (checked_total xs)"

definition total_target_bps :: "treasury \<Rightarrow> int gresult" where
  "total_target_bps t = checked_total (map (\<lambda>a. get_or 0 (tr_rebalance_targets t a)) (tr_tracked_assets t)) 0"

definition t_set_rebalance_target :: "asset \<Rightarrow> int \<Rightarrow> treasury \<Rightarrow> treasury gresult" where
  "t_set_rebalance_target a bps t =
     (if bps < 0 \<or> bps > GOV_BPS_DENOMINATOR then Inl InvalidTreasuryConfig
      else let t1 = track_asset a t; t2 = t1\<lparr>tr_rebalance_targets := (tr_rebalance_targets t1)(a := Some bps)\<rparr>
           in bind_sum (total_target_bps t2) (\<lambda>n. if n > GOV_BPS_DENOMINATOR then Inl InvalidTreasuryConfig else Inr t2))"

fun value_loop :: "(asset \<Rightarrow> int option) \<Rightarrow> treasury \<Rightarrow> asset list \<Rightarrow> int \<Rightarrow> int gresult" where
  "value_loop prices t [] acc = Inr acc"
| "value_loop prices t (a # as) acc =
     (let amount = get_or 0 (tr_assets t a)
      in if amount > 0
         then bind_sum (ok_or MissingAssetPrice (prices a)) (\<lambda>price.
                if price < 0 then Inl InvalidTreasuryConfig
                else bind_sum (gov_checked_mul amount price) (\<lambda>v.
                     bind_sum (gov_checked_add acc v) (\<lambda>acc'. value_loop prices t as acc')))
         else value_loop prices t as acc)"

definition rebalance_step :: "(asset \<Rightarrow> int option) \<Rightarrow> treasury \<Rightarrow> int \<Rightarrow> asset \<Rightarrow> rebalance_action option gresult" where
  "rebalance_step prices t worth a =
     (let amount = get_or 0 (tr_assets t a); target_bps = get_or 0 (tr_rebalance_targets t a)
      in bind_sum (if amount > 0
                   then bind_sum (ok_or MissingAssetPrice (prices a)) (\<lambda>price. gov_checked_mul amount price)
                   else Inr 0) (\<lambda>current.
         bind_sum (if worth > 0 \<and> target_bps > 0
                   then bind_sum (gov_checked_mul worth target_bps) (\<lambda>x. gov_checked_div x GOV_BPS_DENOMINATOR)
                   else Inr 0) (\<lambda>target.
         bind_sum (gov_checked_sub target current) (\<lambda>delta.
           Inr (if current > 0 \<or> target_bps > 0
                then Some \<lparr>ra_asset = a, ra_current_value_usd = current, ra_target_value_usd = target,
                           ra_delta_value_usd = delta, ra_target_bps = target_bps\<rparr>
                else None)))))"

fun rebalance_loop :: "(asset \<Rightarrow> int option) \<Rightarrow> treasury \<Rightarrow> int \<Rightarrow> asset list \<Rightarrow> rebalance_action list \<Rightarrow>
    rebalance_action list gresult" where
  "rebalance_loop prices t worth [] acts = Inr acts"
| "rebalance_loop prices t worth (a # as) acts =
     bind_sum (rebalance_step prices t worth a) (\<lambda>x.
       rebalance_loop prices t worth as (case x of None \<Rightarrow> acts | Some r \<Rightarrow> acts @ [r]))"

definition rebalance :: "(asset \<Rightarrow> int option) \<Rightarrow> nat \<Rightarrow> treasury \<Rightarrow> (rebalance_action list \<times> treasury) gresult" where
  "rebalance prices now t =
     bind_sum (total_target_bps t) (\<lambda>n.
       if n > GOV_BPS_DENOMINATOR then Inl InvalidTreasuryConfig
       else bind_sum (value_loop prices t (tr_tracked_assets t) 0) (\<lambda>worth.
            bind_sum (rebalance_loop prices t worth (tr_tracked_assets t) []) (\<lambda>acts.
              Inr (acts, t\<lparr>tr_total_value_usd := worth, tr_last_rebalance := now\<rparr>))))"

section \<open>Reports\<close>

fun budget_reports :: "treasury \<Rightarrow> string list \<Rightarrow> budget_report list gresult" where
  "budget_reports t [] = Inr []"
| "budget_reports t (c # cs) =
     (case tr_budgets t c of
        None \<Rightarrow> budget_reports t cs
      | Some b \<Rightarrow>
          bind_sum (if bg_allocated b \<le> 0 then Inr 0
                    else bind_sum (gov_checked_mul (bg_spent b) GOV_BPS_DENOMINATOR) (\<lambda>x. gov_checked_div x (bg_allocated b))) (\<lambda>u.
          bind_sum (budget_reports t cs) (\<lambda>rest.
            Inr (\<lparr>br_category = c, br_allocated = bg_allocated b, br_spent = bg_spent b, br_remaining = bg_remaining b,
                  br_spend_limit = bg_spend_limit b, br_utilization_bps = u\<rparr> # rest))))"

definition build_report :: "env \<Rightarrow> treasury \<Rightarrow> treasury_report gresult" where
  "build_report e t =
     (let recent = ledger_timestamp e - 30 * 86400
      in bind_sum (checked_total (map ts_amount (tr_spending_history t)) 0) (\<lambda>spent.
         bind_sum (checked_total (map ts_amount (filter (\<lambda>x. ts_executed_at x \<ge> recent) (tr_spending_history t))) 0) (\<lambda>burn.
         bind_sum (budget_reports t (tr_budget_categories t)) (\<lambda>budgets.
         bind_sum (if burn > 0
                   then bind_sum (gov_checked_div (tr_total_value_usd t) burn) (\<lambda>m.
                          if 0 \<le> m \<and> m \<le> int u32_max then Inr (nat m) else Inl InvalidTreasuryConfig)
                   else Inr 999) (\<lambda>runway.
           Inr \<lparr>tp_total_assets = length (tr_tracked_assets t), tp_total_value_usd = tr_total_value_usd t,
                tp_active_budgets = length (tr_budget_categories t),
                tp_active_recurring_payments = min u32_max (length (filter rp_active (tr_recurring_payments t))),
                tp_total_spends = length (tr_spending_history t), tp_total_spent = spent,
                tp_monthly_burn_rate = burn, tp_runway_months = runway, tp_last_rebalance = tr_last_rebalance t,
                tp_budgets = budgets\<rparr>)))))"

fun holdings_loop :: "(asset \<Rightarrow> int option) \<Rightarrow> treasury \<Rightarrow> asset list \<Rightarrow> asset_allocation list \<Rightarrow> int \<Rightarrow>
    (asset_allocation list \<times> int) gresult" where
  "holdings_loop prices t [] acc worth = Inr (acc, worth)"
| "holdings_loop prices t (a # as) acc worth =
     (let amount = get_or 0 (tr_assets t a); price = get_or 0 (prices a)
      in if amount \<le> 0 \<or> price \<le> 0 then holdings_loop prices t as acc worth
         else bind_sum (gov_checked_mul amount price) (\<lambda>v.
              bind_sum (gov_checked_add worth v) (\<lambda>worth'.
                holdings_loop prices t as
                  (acc @ [\<lparr>aa_asset = a, aa_amount = amount, aa_value_usd = v, aa_concentration_bps = 0\<rparr>]) worth')))"

fun concentration_loop :: "int \<Rightarrow> asset_allocation list \<Rightarrow> int \<Rightarrow> asset \<Rightarrow> (asset_allocation list \<times> int \<times> asset) gresult" where
  "concentration_loop worth [] largest la = Inr ([], largest, la)"
| "concentration_loop worth (x # xs) largest la =
     bind_sum (if worth > 0
               then bind_sum (gov_checked_mul (aa_value_usd x) GOV_BPS_DENOMINATOR) (\<lambda>y. gov_checked_div y worth)
               else Inr (aa_concentration_bps x)) (\<lambda>bps.
     bind_sum (if bps > largest then concentration_loop worth xs bps (aa_asset x)
               else concentration_loop worth xs largest la) (\<lambda>(rest, l, b).
       Inr (x\<lparr>aa_concentration_bps := bps\<rparr> # rest, l, b)))"

definition get_diversification :: "(asset \<Rightarrow> int option) \<Rightarrow> treasury \<Rightarrow> treasury_diversification gresult" where
  "get_diversification prices t =
     bind_sum (holdings_loop prices t (tr_tracked_assets t) [] 0) (\<lambda>(allocs, worth).
     bind_sum (concentration_loop worth allocs 0 \<lparr>asset_code = [], asset_issuer = None\<rparr>) (\<lambda>(allocs', largest, la).
       Inr \<lparr>td_allocations = allocs', td_largest_holding_bps = largest, td_largest_asset = la,
            td_total_value_usd = worth\<rparr>))"

section \<open>Entry points\<close>

text \<open>The bodies that a direct entry point shares with its time-locked twin.\<close>

definition do_set_treasury_asset :: "address \<Rightarrow> asset \<Rightarrow> int \<Rightarrow> 'w governance \<Rightarrow> ('w, treasury) gcall" where
  "do_set_treasury_asset admin a amount s =
     attempt (set_asset_balance a amount (get_treasury s)) s (\<lambda>t.
       (Ok t, emit_admin_action ''trsasset'' admin amount (put_treasury t s)))"

definition do_create_budget :: "address \<Rightarrow> string \<Rightarrow> int \<Rightarrow> int \<Rightarrow> nat \<Rightarrow> nat \<Rightarrow> bool \<Rightarrow> 'w governance \<Rightarrow> ('w, budget) gcall" where
  "do_create_budget admin category allocated spend_limit period_start period_end auto_renew s =
     attempt (upsert_budget category allocated spend_limit period_start period_end auto_renew (get_treasury s)) s (\<lambda>(b, t).
       (Ok b, emit_admin_action ''budget'' admin allocated (put_treasury t s)))"

definition do_approve_treasury_budget :: "env \<Rightarrow> address \<Rightarrow> string \<Rightarrow> nat \<Rightarrow> int \<Rightarrow> 'w governance \<Rightarrow> ('w, budget_approval) gcall" where
  "do_approve_treasury_budget e admin category pid cap s =
     and_then (approve_budget category pid cap (ledger_timestamp e) (get_treasury s) s) (\<lambda>(ap, t) s.
       (Ok ap, emit_admin_action ''budgapprv'' admin cap (put_treasury t s)))"

definition do_treasury_spend :: "env \<Rightarrow> address \<Rightarrow> address \<Rightarrow> int \<Rightarrow> asset \<Rightarrow> string \<Rightarrow> string \<Rightarrow> nat option \<Rightarrow>
    'w governance \<Rightarrow> ('w, treasury_spend) gcall" where
  "do_treasury_spend e admin recipient amount a category purpose by_proposal s =
     and_then (execute_spend recipient amount a category purpose by_proposal (ledger_timestamp e) (get_treasury s) s) (\<lambda>(spend, t) s.
       (Ok spend, emit_admin_action ''spend'' admin (ts_amount spend) (put_treasury t s)))"

definition do_create_recurring_payment :: "env \<Rightarrow> address \<Rightarrow> address \<Rightarrow> int \<Rightarrow> asset \<Rightarrow> nat \<Rightarrow> string \<Rightarrow> string \<Rightarrow>
    nat option \<Rightarrow> nat option \<Rightarrow> 'w governance \<Rightarrow> ('w, recurring_payment) gcall" where
  "do_create_recurring_payment e admin recipient amount a frequency category purpose by_proposal end_date s =
     attempt (schedule_recurring_payment e recipient amount a frequency category purpose by_proposal end_date
                (get_treasury s)) s (\<lambda>(p, t).
       (Ok p, emit_admin_action ''recur'' admin amount (put_treasury t s)))"

definition do_set_rebalance_target :: "address \<Rightarrow> asset \<Rightarrow> int \<Rightarrow> 'w governance \<Rightarrow> ('w, treasury) gcall" where
  "do_set_rebalance_target admin a bps s =
     attempt (t_set_rebalance_target a bps (get_treasury s)) s (\<lambda>t.
       (Ok t, emit_admin_action ''target'' admin bps (put_treasury t s)))"

definition direct_admin :: "env \<Rightarrow> address \<Rightarrow> (env \<Rightarrow> 'w governance \<Rightarrow> ('w, 'a) gcall) \<Rightarrow> 'w governance \<Rightarrow> ('w, 'a) gcall" where
  "direct_admin e admin f =
     gov_require_admin e admin (\<lambda>e s. attempt (require_no_timelock_bypass s) s (\<lambda>_. f e s))"

definition set_treasury_asset :: "env \<Rightarrow> address \<Rightarrow> asset \<Rightarrow> int \<Rightarrow> 'w governance \<Rightarrow> ('w, treasury) gcall" where
  "set_treasury_asset e admin a amount = direct_admin e admin (\<lambda>e. do_set_treasury_asset admin a amount)"

definition create_budget :: "env \<Rightarrow> address \<Rightarrow> string \<Rightarrow> int \<Rightarrow> int \<Rightarrow> nat \<Rightarrow> nat \<Rightarrow> bool \<Rightarrow> 'w governance \<Rightarrow> ('w, budget) gcall" where
  "create_budget e admin category allocated spend_limit period_start period_end auto_renew =
     direct_admin e admin (\<lambda>e. do_create_budget admin category allocated spend_limit period_start period_end auto_renew)"

definition approve_treasury_budget :: "env \<Rightarrow> address \<Rightarrow> string \<Rightarrow> nat \<Rightarrow> int \<Rightarrow> 'w governance \<Rightarrow> ('w, budget_approval) gcall" where
  "approve_treasury_budget e admin category pid cap =
     direct_admin e admin (\<lambda>e. do_approve_treasury_budget e admin category pid cap)"

definition execute_treasury_spend :: "env \<Rightarrow> address \<Rightarrow> address \<Rightarrow> int \<Rightarrow> asset \<Rightarrow> string \<Rightarrow> string \<Rightarrow> nat option \<Rightarrow>
    'w governance \<Rightarrow> ('w, treasury_spend) gcall" where
  "execute_treasury_spend e admin recipient amount a category purpose by_proposal =
     direct_admin e admin (\<lambda>e. do_treasury_spend e admin recipient amount a category purpose by_proposal)"

definition create_recurring_payment :: "env \<Rightarrow> address \<Rightarrow> address \<Rightarrow> int \<Rightarrow> asset \<Rightarrow> nat \<Rightarrow> string \<Rightarrow> string \<Rightarrow>
    nat option \<Rightarrow> nat option \<Rightarrow> 'w governance \<Rightarrow> ('w, recurring_payment) gcall" where
  "create_recurring_payment e admin recipient amount a frequency category purpose by_proposal end_date =
     direct_admin e admin (\<lambda>e. do_create_recurring_payment e admin recipient amount a frequency category purpose by_proposal end_date)"

definition process_recurring_payments :: "env \<Rightarrow> address \<Rightarrow> 'w governance \<Rightarrow> ('w, nat) gcall" where
  "process_recurring_payments e admin =
     gov_require_admin e admin (\<lambda>e s.
       and_then (t_process_recurring_payments (ledger_timestamp e) (get_treasury s) s) (\<lambda>(processed, t) s.
         (Ok processed, emit_admin_action ''payrun'' admin (int processed) (put_treasury t s))))"

definition set_rebalance_target :: "env \<Rightarrow> address \<Rightarrow> asset \<Rightarrow> int \<Rightarrow> 'w governance \<Rightarrow> ('w, treasury) gcall" where
  "set_rebalance_target e admin a bps = direct_admin e admin (\<lambda>e. do_set_rebalance_target admin a bps)"

definition rebalance_treasury :: "env \<Rightarrow> address \<Rightarrow> (asset \<Rightarrow> int option) \<Rightarrow> 'w governance \<Rightarrow> ('w, rebalance_action list) gcall" where
  "rebalance_treasury e admin prices =
     gov_require_admin e admin (\<lambda>e s.
       attempt (rebalance prices (ledger_timestamp e) (get_treasury s)) s (\<lambda>(acts, t).
         (Ok acts, emit_admin_action ''rebalance'' admin (tr_total_value_usd t) (put_treasury t s))))"

definition treasury_view :: "'w governance \<Rightarrow> treasury gresult" where
  "treasury_view = view get_treasury"

definition treasury_report_view :: "env \<Rightarrow> 'w governance \<Rightarrow> treasury_report gresult" where
  "treasury_report_view e s = bind_sum (require_initialized s) (\<lambda>_. build_report e (get_treasury s))"

definition get_treasury_diversification :: "(asset \<Rightarrow> int option) \<Rightarrow> 'w governance \<Rightarrow> treasury_diversification gresult" where
  "get_treasury_diversification prices s =
     bind_sum (require_initialized s) (\<lambda>_. get_diversification prices (get_treasury s))"

section \<open>Renewal of a budget\<close>

lemma renew_loop_returns:
  assumes "0 < d" and "now < u64_max"
  shows "\<exists>st' en'. renew_loop now d st en = Some (st', en') \<and> now < en' \<and>
    (if now < en then st' = st \<and> en' = en else st' \<le> now \<and> en' = sat_add_u64 st' d \<and> (\<exists>k. st' = en + k * d))"
proof (induction "now + 1 - en" arbitrary: st en rule: less_induct)
  case less
  show ?case
  proof (cases "now < en")
    case True
    then show ?thesis by (subst renew_loop.simps) simp
  next
    case False
    let ?en = "sat_add_u64 en d"
    have step: "renew_loop now d st en = renew_loop now d en ?en" using False by (subst renew_loop.simps) simp
    have le: "sat_add_u64 en d = min u64_max (en + d)" by (simp add: sat_add_u64_def)
    show ?thesis
    proof (cases "now < ?en")
      case True
      then have "renew_loop now d en ?en = Some (en, ?en)" by (subst renew_loop.simps) simp
      with step True False show ?thesis by (auto intro: exI [of _ 0])
    next
      case later: False
      then have en: "?en = en + d" using assms(2) le by simp
      then have "now + 1 - ?en < now + 1 - en" using assms(1) later False by simp
      from less.hyps [OF this, of en] later obtain st' en' k where
        r: "renew_loop now d en ?en = Some (st', en')" "now < en'" "st' \<le> now" "en' = sat_add_u64 st' d" "st' = ?en + k * d"
        by auto
      have "\<exists>j. st' = en + j * d" by (rule exI [of _ "Suc k"]) (use r(5) en in simp)
      with r(1-4) step False show ?thesis by simp
    qed
  qed
qed

text \<open>C29: The renewal of a budget comes to an end on every ledger before the largest time stamp. An expired budget that renews
  starts over with its whole allocation in the period that contains the current time, a whole number of
  periods later; one that does not renew is refused.\<close>

theorem budget_renewal:
  assumes "now < u64_max" and "bg_period_start b < bg_period_end b"
  shows "case renew_budget_if_needed now b of
      None \<Rightarrow> False
    | Some (Inl er) \<Rightarrow> bg_period_end b \<le> now \<and> \<not> bg_auto_renew b \<and> er = BudgetPeriodEnded
    | Some (Inr b') \<Rightarrow>
        bg_allocated b' = bg_allocated b \<and> bg_spend_limit b' = bg_spend_limit b \<and> now < bg_period_end b' \<and>
        (if now < bg_period_end b then b' = b
         else bg_auto_renew b \<and> bg_spent b' = 0 \<and> bg_remaining b' = bg_allocated b \<and> bg_period_start b' \<le> now \<and>
           bg_period_end b' = sat_add_u64 (bg_period_start b') (bg_period_end b - bg_period_start b) \<and>
           (\<exists>k. bg_period_start b' = bg_period_end b + k * (bg_period_end b - bg_period_start b)))"
proof (cases "now < bg_period_end b \<or> \<not> bg_auto_renew b")
  case True
  then show ?thesis by (auto simp: renew_budget_if_needed_def)
next
  case False
  let ?d = "bg_period_end b - bg_period_start b"
  have d: "0 < ?d" using assms(2) by simp
  from renew_loop_returns [OF d assms(1), of "bg_period_start b" "bg_period_end b"] False
  obtain st' en' k where r: "renew_loop now ?d (bg_period_start b) (bg_period_end b) = Some (st', en')"
    "now < en'" "st' \<le> now" "en' = sat_add_u64 st' ?d" "st' = bg_period_end b + k * ?d"
    by auto
  show ?thesis using False d r by (auto simp: renew_budget_if_needed_def Let_def)
qed

theorem budget_renewal_witness:
  "case renew_budget_if_needed 250 \<lparr>bg_category = ''ops'', bg_allocated = 1000, bg_spent = 900, bg_remaining = 100,
      bg_spend_limit = 500, bg_period_start = 0, bg_period_end = 100, bg_auto_renew = True\<rparr> of
     Some (Inr b') \<Rightarrow> bg_remaining b' = 1000 \<and> bg_period_start b' \<le> 250 \<and> 250 < bg_period_end b' | _ \<Rightarrow> False"
  using budget_renewal [of 250 "\<lparr>bg_category = ''ops'', bg_allocated = 1000, bg_spent = 900, bg_remaining = 100,
      bg_spend_limit = 500, bg_period_start = 0, bg_period_end = 100, bg_auto_renew = True\<rparr>"]
  by (auto simp: u64_max_def split: option.splits sum.splits)

section \<open>The invariant of the treasury\<close>

definition budget_ok :: "budget \<Rightarrow> bool" where
  "budget_ok b \<longleftrightarrow>
     0 \<le> bg_spent b \<and> 0 \<le> bg_remaining b \<and> bg_spent b + bg_remaining b = bg_allocated b \<and>
     0 < bg_spend_limit b \<and> bg_spend_limit b \<le> bg_allocated b \<and> bg_period_start b < bg_period_end b"

definition approval_ok :: "budget_approval \<Rightarrow> bool" where
  "approval_ok ap \<longleftrightarrow> 0 \<le> ba_total_drawn ap \<and> ba_total_drawn ap \<le> ba_approved_cap ap"

definition treasury_ok :: "treasury \<Rightarrow> bool" where
  "treasury_ok t \<longleftrightarrow>
     (\<forall>a x. tr_assets t a = Some x \<longrightarrow> 0 \<le> x) \<and>
     (\<forall>c b. tr_budgets t c = Some b \<longrightarrow> budget_ok b) \<and>
     (\<forall>c ap. tr_approved_budgets t c = Some ap \<longrightarrow> approval_ok ap)"

lemma renew_loop_contains:
  "renew_loop now d st en = Some r \<Longrightarrow> st \<le> now \<longrightarrow> fst r \<le> now \<and> now < snd r"
proof (rule renew_loop.raw_induct [where P = "\<lambda>now d st en r. st \<le> now \<longrightarrow> fst r \<le> now \<and> now < snd r"])
  fix f :: "nat \<Rightarrow> nat \<Rightarrow> nat \<Rightarrow> nat \<Rightarrow> (nat \<times> nat) option" and now d st en r
  assume ih: "\<And>now d st en r. f now d st en = Some r \<Longrightarrow> st \<le> now \<longrightarrow> fst r \<le> now \<and> now < snd r"
    and body: "(if now < en then Some (st, en) else f now d en (sat_add_u64 en d)) = Some r"
  show "st \<le> now \<longrightarrow> fst r \<le> now \<and> now < snd r"
    using body ih [of now d en "sat_add_u64 en d" r] by (auto split: if_splits)
qed

lemma renew_keeps:
  assumes "budget_ok b" and "renew_budget_if_needed now b = Some (Inr b')"
  shows "budget_ok b'" "bg_spend_limit b' = bg_spend_limit b" "bg_allocated b' = bg_allocated b"
    "bg_remaining b' = bg_remaining b \<or> bg_period_end b \<le> now"
proof -
  have "budget_ok b' \<and> bg_spend_limit b' = bg_spend_limit b \<and> bg_allocated b' = bg_allocated b \<and>
      (bg_remaining b' = bg_remaining b \<or> bg_period_end b \<le> now)"
  proof (cases "now < bg_period_end b")
    case False
    from False assms obtain r where r: "renew_loop now (bg_period_end b - bg_period_start b) (bg_period_start b)
        (bg_period_end b) = Some r"
      and b': "b' = b\<lparr>bg_period_start := fst r, bg_period_end := snd r, bg_spent := 0, bg_remaining := bg_allocated b\<rparr>"
      by (auto simp: renew_budget_if_needed_def Let_def split: if_splits option.splits)
    from renew_loop_contains [OF r] False assms(1) have "fst r < snd r" by (simp add: budget_ok_def)
    with assms(1) b' False show ?thesis by (auto simp: budget_ok_def)
  qed (use assms in \<open>auto simp: renew_budget_if_needed_def\<close>)
  then show "budget_ok b'" "bg_spend_limit b' = bg_spend_limit b" "bg_allocated b' = bg_allocated b"
    "bg_remaining b' = bg_remaining b \<or> bg_period_end b \<le> now" by blast+
qed

lemma execute_spend_Ok:
  assumes "execute_spend recipient amount a c purpose by_p now t s = (Ok (spend, t'), s')"
  obtains b0 b ap where "purpose \<noteq> []" "0 < amount" "tr_budgets t c = Some b0"
    "renew_budget_if_needed now b0 = Some (Inr b)" "amount \<le> bg_remaining b" "amount \<le> bg_spend_limit b"
    "tr_approved_budgets t c = Some ap" "ba_total_drawn ap + amount \<le> ba_approved_cap ap"
    "amount \<le> get_or 0 (tr_assets t a)"
    "spend = \<lparr>ts_id = tr_next_spend_id t, ts_recipient = recipient, ts_amount = amount, ts_asset = a, ts_category = c,
       ts_purpose = purpose, ts_approved_by_proposal = by_p, ts_executed_at = now\<rparr>"
    "t' = t\<lparr>tr_approved_budgets := (tr_approved_budgets t)(c := Some (ap\<lparr>ba_total_drawn := ba_total_drawn ap + amount\<rparr>)),
        tr_budgets := (tr_budgets t)(c := Some (b\<lparr>bg_spent := bg_spent b + amount, bg_remaining := bg_remaining b - amount\<rparr>)),
        tr_assets := (tr_assets t)(a := Some (get_or 0 (tr_assets t a) - amount)),
        tr_next_spend_id := sat_add_u64 (tr_next_spend_id t) 1, tr_spending_history := tr_spending_history t @ [spend]\<rparr>"
    "gk_token s' = gk_token s" "gk_ballot s' = gk_ballot s" "gk_treasury s' = gk_treasury s"
  using assms
  by (auto simp: execute_spend_def run_iff Let_def not_less not_le publish_def split: if_splits intro!: that)

text \<open>A treasury payment needs a purpose, a current budget of its category with enough left in the period, an amount within
  the limit for one payment, a cap approved by governance that the payments of the category stay below, and
  enough of the asset. It then takes exactly the amount from the asset, the budget and the approved cap,
  appends itself to the history, and keeps the books of every category balanced.\<close>

theorem treasury_spend_effect:
  assumes "treasury_ok t" and "execute_spend recipient amount a c purpose by_p now t s = (Ok (spend, t'), s')"
  shows "\<exists>b ap b' ap'. tr_budgets t c = Some b \<and> tr_budgets t' c = Some b' \<and>
      tr_approved_budgets t c = Some ap \<and> tr_approved_budgets t' c = Some ap' \<and>
      0 < amount \<and> amount \<le> bg_spend_limit b \<and> amount \<le> get_or 0 (tr_assets t a) \<and>
      bg_remaining b' + amount = (if now < bg_period_end b then bg_remaining b else bg_allocated b) \<and>
      bg_spent b' + bg_remaining b' = bg_allocated b \<and> now < bg_period_end b' \<and>
      ba_total_drawn ap' = ba_total_drawn ap + amount \<and> ba_total_drawn ap' \<le> ba_approved_cap ap \<and>
      tr_assets t' = (tr_assets t)(a := Some (get_or 0 (tr_assets t a) - amount)) \<and>
      tr_spending_history t' = tr_spending_history t @ [spend] \<and> ts_amount spend = amount \<and>
      (\<forall>k. k \<noteq> c \<longrightarrow> tr_budgets t' k = tr_budgets t k \<and> tr_approved_budgets t' k = tr_approved_budgets t k) \<and>
      treasury_ok t' \<and> gk_token s' = gk_token s \<and> gk_ballot s' = gk_ballot s"
proof -
  obtain b0 b ap where f: "0 < amount" "tr_budgets t c = Some b0"
    "renew_budget_if_needed now b0 = Some (Inr b)" "amount \<le> bg_remaining b" "amount \<le> bg_spend_limit b"
    "tr_approved_budgets t c = Some ap" "ba_total_drawn ap + amount \<le> ba_approved_cap ap"
    "amount \<le> get_or 0 (tr_assets t a)" and sp: "ts_amount spend = amount"
    and t': "t' = t\<lparr>tr_approved_budgets := (tr_approved_budgets t)(c := Some (ap\<lparr>ba_total_drawn := ba_total_drawn ap + amount\<rparr>)),
        tr_budgets := (tr_budgets t)(c := Some (b\<lparr>bg_spent := bg_spent b + amount, bg_remaining := bg_remaining b - amount\<rparr>)),
        tr_assets := (tr_assets t)(a := Some (get_or 0 (tr_assets t a) - amount)),
        tr_next_spend_id := sat_add_u64 (tr_next_spend_id t) 1, tr_spending_history := tr_spending_history t @ [spend]\<rparr>"
    and s': "gk_token s' = gk_token s" "gk_ballot s' = gk_ballot s"
    by (rule execute_spend_Ok [OF assms(2)]) simp
  have ok0: "budget_ok b0" "approval_ok ap" using assms(1) f by (auto simp: treasury_ok_def)
  note rn = renew_keeps [OF ok0(1) f(3)]
  have cur: "now < bg_period_end b"
    using f(3) rn(1) renew_loop_contains [of now _ "bg_period_start b0" "bg_period_end b0"] ok0(1)
    by (auto simp: renew_budget_if_needed_def Let_def budget_ok_def split: if_splits option.splits)
  have rem: "bg_remaining b = (if now < bg_period_end b0 then bg_remaining b0 else bg_allocated b0)"
    using f(3) by (auto simp: renew_budget_if_needed_def Let_def split: if_splits option.splits)
  have "treasury_ok t'" using assms(1) f rn(1) ok0(2) unfolding t' by (auto simp: treasury_ok_def budget_ok_def approval_ok_def)
  moreover have "bg_spent b + bg_remaining b = bg_allocated b0" using rn(1,3) by (simp add: budget_ok_def)
  ultimately show ?thesis using f sp s' rn(2) cur rem by (simp add: t')
qed

lemma track_asset_keeps: "treasury_ok t \<Longrightarrow> treasury_ok (track_asset a t)"
  by (auto simp: treasury_ok_def track_asset_def)

lemma set_asset_balance_keeps: "treasury_ok t \<Longrightarrow> set_asset_balance a n t = Inr t' \<Longrightarrow> treasury_ok t'"
  using track_asset_keeps [of t a] by (auto simp: set_asset_balance_def treasury_ok_def Let_def split: if_splits)

lemma upsert_budget_keeps: "treasury_ok t \<Longrightarrow> upsert_budget c al li st en re t = Inr (b, t') \<Longrightarrow> treasury_ok t'"
  by (auto simp: upsert_budget_def track_category_def treasury_ok_def budget_ok_def Let_def split: if_splits)

lemma schedule_payment_keeps:
  "treasury_ok t \<Longrightarrow> schedule_recurring_payment e r n a f c p bp ed t = Inr (x, t') \<Longrightarrow> treasury_ok t'"
  using track_asset_keeps [of t a]
  by (auto simp: schedule_recurring_payment_def treasury_ok_def Let_def split: if_splits option.splits)

lemma set_payment_keeps [simp]: "treasury_ok (set_payment i p t) = treasury_ok t"
  by (simp add: set_payment_def treasury_ok_def)

lemma rebalance_target_keeps: "treasury_ok t \<Longrightarrow> t_set_rebalance_target a bps t = Inr t' \<Longrightarrow> treasury_ok t'"
  using track_asset_keeps [of t a]
  by (auto simp: t_set_rebalance_target_def treasury_ok_def Let_def run_iff split: if_splits)

lemma rebalance_keeps: "treasury_ok t \<Longrightarrow> rebalance prices now t = Inr (acts, t') \<Longrightarrow> treasury_ok t'"
  by (auto simp: rebalance_def treasury_ok_def run_iff split: if_splits)

section \<open>What the treasury leaves alone\<close>

definition same_core :: "'w governance \<Rightarrow> 'w governance \<Rightarrow> bool" where
  "same_core s s' \<longleftrightarrow> gk_token s' = gk_token s \<and> gk_ballot s' = gk_ballot s"

lemma same_core_simps [simp]:
  "same_core s s" "same_core s (publish s' ts b) = same_core s s'" "same_core s (put_treasury t s') = same_core s s'"
  "same_core s (emit_admin_action x a n s') = same_core s s'" "same_core s (put_committees_state c s') = same_core s s'"
  by (simp_all add: same_core_def publish_def put_treasury_def emit_admin_action_def put_committees_state_def)

lemma get_put_treasury [simp]: "get_treasury (put_treasury t s) = t"
  by (simp add: get_treasury_def put_treasury_def)

lemma get_treasury_frame [simp]:
  "get_treasury (publish s ts b) = get_treasury s" "get_treasury (emit_admin_action x a n s) = get_treasury s"
  by (simp_all add: get_treasury_def publish_def emit_admin_action_def)

lemma approve_budget_keeps:
  "treasury_ok t \<Longrightarrow> approve_budget c pid cap now t s = (Ok (ap, t'), s') \<Longrightarrow>
     treasury_ok t' \<and> same_core s s'"
  by (auto simp: approve_budget_def treasury_ok_def approval_ok_def run_iff Let_def split: if_splits)

lemma execute_spend_failed:
  "execute_spend recipient amount a c purpose by_p now t s = (Err er, s') \<Longrightarrow> s' = s"
  by (auto simp: execute_spend_def attempt_def or_panic_def Let_def split: if_splits sum.splits option.splits)

lemma execute_spend_core:
  assumes "execute_spend recipient amount a c purpose by_p now t s = (Ok (spend, t'), s')"
  shows "same_core s s'"
  by (rule execute_spend_Ok [OF assms]) (simp add: same_core_def)

lemma execute_spend_keeps:
  assumes "treasury_ok t" and "execute_spend recipient amount a c purpose by_p now t s = (Ok (spend, t'), s')"
  shows "treasury_ok t'"
proof (rule execute_spend_Ok [OF assms(2)])
  fix b0 b ap
  assume f: "0 < amount" "tr_budgets t c = Some b0" "renew_budget_if_needed now b0 = Some (Inr b)"
    "amount \<le> bg_remaining b" "tr_approved_budgets t c = Some ap" "ba_total_drawn ap + amount \<le> ba_approved_cap ap"
    "amount \<le> get_or 0 (tr_assets t a)"
    and t': "t' = t\<lparr>tr_approved_budgets := (tr_approved_budgets t)(c := Some (ap\<lparr>ba_total_drawn := ba_total_drawn ap + amount\<rparr>)),
        tr_budgets := (tr_budgets t)(c := Some (b\<lparr>bg_spent := bg_spent b + amount, bg_remaining := bg_remaining b - amount\<rparr>)),
        tr_assets := (tr_assets t)(a := Some (get_or 0 (tr_assets t a) - amount)),
        tr_next_spend_id := sat_add_u64 (tr_next_spend_id t) 1, tr_spending_history := tr_spending_history t @ [spend]\<rparr>"
  have "budget_ok b0" using assms(1) f(2) by (simp add: treasury_ok_def)
  from renew_keeps(1) [OF this f(3)] assms(1) f show "treasury_ok t'"
    unfolding t' by (auto simp: treasury_ok_def budget_ok_def approval_ok_def)
qed

lemma payments_loop_keeps:
  assumes "treasury_ok t" and "payments_loop now is k t s = (Ok (n, t'), s')"
  shows "treasury_ok t' \<and> same_core s s'"
  using assms
proof (induction "is" arbitrary: k t s)
  case (Cons i rest)
  let ?p = "tr_recurring_payments t ! i"
  let ?spend = "execute_spend (rp_recipient ?p) (rp_amount ?p) (rp_asset ?p) (rp_category ?p) (rp_purpose ?p)
                  (rp_approved_by_proposal ?p) now t s"
  show ?case
  proof (cases "rp_active ?p \<and> \<not> past_end now ?p \<and> sat_add_u64 (rp_last_payment ?p) (rp_frequency ?p) \<le> now")
    case False
    with Cons.prems(2) have "\<exists>t1. treasury_ok t1 = treasury_ok t \<and> payments_loop now rest k t1 s = (Ok (n, t'), s')"
      by (auto simp: Let_def split: if_splits)
         (metis set_payment_keeps)
    with Cons.IH Cons.prems(1) show ?thesis by blast
  next
    case True
    obtain r s1 where run: "?spend = (r, s1)" by fastforce
    show ?thesis
    proof (cases r)
      case (Ok x)
      obtain spend t1 where x: "x = (spend, t1)" by fastforce
      from Cons.prems(2) True run Ok x
      have tl: "payments_loop now rest (sat_add_u32 k 1) (set_payment i (paid_now now ?p) t1) s1 = (Ok (n, t'), s')"
        by (simp add: Let_def)
      have "treasury_ok (set_payment i (paid_now now ?p) t1)"
        using execute_spend_keeps [OF Cons.prems(1)] run Ok x by simp
      from Cons.IH [OF this tl] execute_spend_core [OF run [unfolded Ok x]] show ?thesis by (simp add: same_core_def)
    next
      case (Err er)
      have s1: "s1 = s" using execute_spend_failed run Err by blast
      from Cons.prems(2) True run Err s1
      have "payments_loop now rest k (set_payment i (?p\<lparr>rp_active := False\<rparr>) t) s = (Ok (n, t'), s')"
        by (auto simp: Let_def split: if_splits)
      from Cons.IH [OF _ this] Cons.prems(1) show ?thesis by simp
    next
      case Panic
      with Cons.prems(2) True run show ?thesis by (simp add: Let_def)
    qed
  qed
qed simp

text \<open>The bodies of the entry points change the treasury only, and keep its invariant.\<close>

lemma do_treasury_keeps:
  assumes "treasury_ok (get_treasury s)"
  shows "do_set_treasury_asset adm a n s = (Ok x1, s') \<Longrightarrow> treasury_ok (get_treasury s') \<and> same_core s s'"
    and "do_create_budget adm c al li st en re s = (Ok x2, s') \<Longrightarrow> treasury_ok (get_treasury s') \<and> same_core s s'"
    and "do_approve_treasury_budget e adm c pid cap s = (Ok x3, s') \<Longrightarrow> treasury_ok (get_treasury s') \<and> same_core s s'"
    and "do_treasury_spend e adm r n a c p bp s = (Ok x4, s') \<Longrightarrow> treasury_ok (get_treasury s') \<and> same_core s s'"
    and "do_create_recurring_payment e adm r n a f c p bp ed s = (Ok x5, s') \<Longrightarrow> treasury_ok (get_treasury s') \<and> same_core s s'"
    and "do_set_rebalance_target adm a bps s = (Ok x6, s') \<Longrightarrow> treasury_ok (get_treasury s') \<and> same_core s s'"
  using assms
  by (auto simp: do_set_treasury_asset_def do_create_budget_def do_approve_treasury_budget_def do_treasury_spend_def
      do_create_recurring_payment_def do_set_rebalance_target_def run_iff same_core_def [symmetric]
      dest: execute_spend_core approve_budget_keeps
      intro: set_asset_balance_keeps upsert_budget_keeps schedule_payment_keeps rebalance_target_keeps execute_spend_keeps)

lemma process_payments_keeps:
  assumes "treasury_ok (get_treasury s)" and "process_recurring_payments e adm s = (Ok x, s')"
  shows "treasury_ok (get_treasury s') \<and> same_core s s'"
  using assms payments_loop_keeps
  by (fastforce simp: process_recurring_payments_def t_process_recurring_payments_def run_iff)

lemma rebalance_treasury_keeps:
  assumes "treasury_ok (get_treasury s)" and "rebalance_treasury e adm prices s = (Ok x, s')"
  shows "treasury_ok (get_treasury s') \<and> same_core s s'"
  using assms rebalance_keeps by (fastforce simp: rebalance_treasury_def run_iff)

lemma direct_admin_Ok [run_iff]:
  "direct_admin e admin f s = (Ok b, s') \<longleftrightarrow>
     gov_is_initialized s \<and> has_auth e admin \<and> gk_admin s = Some admin \<and> \<not> admin_timelock_enforced s \<and>
     f (consume_auth admin e) s = (Ok b, s')"
  by (auto simp: direct_admin_def run_iff)

end
