(* ===== verification/Governance_Committees.thy ===== *)
theory Governance_Committees
  imports Governance_Treasury
begin

text \<open>
  Committees (\<^verbatim>\<open>committees.rs\<close>) and their entry points: formation with delegated authorities, decisions that members
  vote on and execute within those authorities, elections weighted by stake, and requests across committees.
  As in the source, the functions of the module work on the state of the committees as a value, which the
  entry points load and store; executing a decision also writes the treasury or the reward settings.
\<close>

definition APPROVAL_RATING_BPS :: nat where "APPROVAL_RATING_BPS = 10000"

section \<open>Lookup and validation\<close>

definition list_committees :: "committees_state \<Rightarrow> committee list" where
  "list_committees st = List.map_filter (smap_get (co_committees st)) (co_committee_ids st)"

definition get_committee :: "committees_state \<Rightarrow> nat \<Rightarrow> committee gresult" where
  "get_committee st cid = ok_or CommitteeNotFound (smap_get (co_committees st) cid)"

definition set_committee :: "nat \<Rightarrow> committee \<Rightarrow> committees_state \<Rightarrow> committees_state" where
  "set_committee cid c st = st\<lparr>co_committees := smap_set (co_committees st) cid c\<rparr>"

definition get_election :: "committees_state \<Rightarrow> nat \<Rightarrow> committee_election gresult" where
  "get_election st cid = ok_or CommitteeElectionNotFound (smap_get (co_elections st) cid)"

definition set_election :: "nat \<Rightarrow> committee_election \<Rightarrow> committees_state \<Rightarrow> committees_state" where
  "set_election cid x st = st\<lparr>co_elections := smap_set (co_elections st) cid x\<rparr>"

definition get_cross_committee_request :: "committees_state \<Rightarrow> nat \<Rightarrow> cross_committee_request gresult" where
  "get_cross_committee_request st rid = ok_or CrossCommitteeRequestNotFound (smap_get (co_cross_requests st) rid)"

fun authority_valid :: "authority \<Rightarrow> bool" where
  "authority_valid (AuthTreasurySpend max_amount category) \<longleftrightarrow> max_amount > 0 \<and> category \<noteq> []"
| "authority_valid (AuthParameterAdjustment parameters max_change) \<longleftrightarrow> parameters \<noteq> [] \<and> max_change \<noteq> 0"
| "authority_valid (AuthGrantApproval max_grant) \<longleftrightarrow> max_grant > 0"
| "authority_valid (AuthEmergencyAction action_types) \<longleftrightarrow> action_types \<noteq> []"
| "authority_valid (AuthVeto proposal_types) \<longleftrightarrow> proposal_types \<noteq> []"

definition validate_authorities :: "authority list \<Rightarrow> unit gresult" where
  "validate_authorities as = (if as = [] \<or> \<not> list_all authority_valid as then Inl InvalidCommitteeConfig else Inr ())"

definition ensure_committee_active :: "nat \<Rightarrow> committee \<Rightarrow> unit gresult" where
  "ensure_committee_active now c =
     (if \<not> cm_active c then Inl CommitteeInactive
      else case cm_term_end c of
             None \<Rightarrow> Inr ()
           | Some t \<Rightarrow> if now \<ge> t then Inl CommitteeTermEnded else Inr ())"

fun index_of_decision :: "nat \<Rightarrow> committee_decision list \<Rightarrow> nat option" where
  "index_of_decision did [] = None"
| "index_of_decision did (d # ds) = (if cd_id d = did then Some 0 else map_option Suc (index_of_decision did ds))"

definition find_decision_index :: "committee_decision list \<Rightarrow> nat \<Rightarrow> nat gresult" where
  "find_decision_index ds did = ok_or CommitteeDecisionNotFound (index_of_decision did ds)"

section \<open>Formation\<close>

definition no_metrics :: performance_metrics where
  "no_metrics = \<lparr>pm_total_decisions = 0, pm_decisions_executed = 0, pm_avg_decision_time = 0,
     pm_community_approval_rating = 0, pm_overridden_decisions = 0\<rparr>"

definition c_create_committee :: "env \<Rightarrow> string \<Rightarrow> string \<Rightarrow> address list \<Rightarrow> address \<Rightarrow> nat \<Rightarrow> authority list \<Rightarrow> nat option \<Rightarrow>
    committees_state \<Rightarrow> (committee \<times> committees_state) gresult" where
  "c_create_committee e name description members chair max_members authorities term_days st =
     (if name = [] \<or> description = [] then Inl InvalidCommitteeConfig
      else if members = [] \<or> length members > max_members \<or> max_members < 3 \<or> max_members > 15
      then Inl InvalidCommitteeConfig
      else if chair \<notin> set members \<or> \<not> distinct members then Inl InvalidCommitteeConfig
      else bind_sum (validate_authorities authorities) (\<lambda>_.
           bind_sum (case term_days of
                       Some d \<Rightarrow> if d = 0 then Inl InvalidDuration
                                 else Inr (Some (sat_add_u64 (ledger_timestamp e) (d * 86400)))
                     | None \<Rightarrow> Inr None) (\<lambda>term_end.
             let c = \<lparr>cm_id = co_next_committee_id st, cm_name = name, cm_description = description,
                      cm_members = members, cm_chair = chair, cm_max_members = max_members,
                      cm_authorities = authorities, cm_formation_date = ledger_timestamp e, cm_term_end = term_end,
                      cm_decisions = [], cm_metrics = no_metrics, cm_active = True, cm_dissolved_at = None\<rparr>
             in Inr (c, (set_committee (cm_id c) c st)
                       \<lparr>co_committee_ids := co_committee_ids st @ [cm_id c],
                        co_next_committee_id := sat_add_u64 (co_next_committee_id st) 1\<rparr>))))"

definition c_dissolve_committee :: "env \<Rightarrow> nat \<Rightarrow> committees_state \<Rightarrow> (committee \<times> committees_state) gresult" where
  "c_dissolve_committee e cid st =
     bind_sum (get_committee st cid) (\<lambda>c.
       if \<not> cm_active c then Inl CommitteeInactive
       else let c' = c\<lparr>cm_active := False, cm_dissolved_at := Some (ledger_timestamp e)\<rparr>; st1 = set_committee cid c' st
            in Inr (c', st1\<lparr>co_elections := smap_remove (co_elections st1) cid\<rparr>))"

definition set_community_approval_rating :: "nat \<Rightarrow> nat \<Rightarrow> committees_state \<Rightarrow> (committee \<times> committees_state) gresult" where
  "set_community_approval_rating cid rating st =
     (if rating > APPROVAL_RATING_BPS then Inl InvalidApprovalRating
      else bind_sum (get_committee st cid) (\<lambda>c.
             let c' = c\<lparr>cm_metrics := (cm_metrics c)\<lparr>pm_community_approval_rating := rating\<rparr>\<rparr>
             in Inr (c', set_committee cid c' st)))"

section \<open>Decisions\<close>

definition propose_decision :: "env \<Rightarrow> nat \<Rightarrow> address \<Rightarrow> string \<Rightarrow> committee_action \<Rightarrow> committees_state \<Rightarrow>
    (committee_decision \<times> committees_state) gresult" where
  "propose_decision e cid author text act st =
     (if text = [] then Inl InvalidCommitteeAction
      else bind_sum (get_committee st cid) (\<lambda>c.
           bind_sum (ensure_committee_active (ledger_timestamp e) c) (\<lambda>_.
             if author \<notin> set (cm_members c) then Inl Unauthorized
             else let d = \<lparr>cd_id = co_next_decision_id st, cd_proposal = text, cd_votes_for = 0, cd_votes_against = 0,
                           cd_votes_abstain = 0, cd_status = DecisionVoting, cd_executed_at = None,
                           cd_proposed_at = ledger_timestamp e, cd_action = act, cd_votes = []\<rparr>;
                      m = cm_metrics c;
                      c' = c\<lparr>cm_decisions := cm_decisions c @ [d],
                             cm_metrics := m\<lparr>pm_total_decisions := sat_add_u32 (pm_total_decisions m) 1\<rparr>\<rparr>
                  in Inr (d, (set_committee cid c' st)\<lparr>co_next_decision_id := sat_add_u64 (co_next_decision_id st) 1\<rparr>))))"

fun count_decision_vote :: "vote_type \<Rightarrow> committee_decision \<Rightarrow> committee_decision" where
  "count_decision_vote For d = d\<lparr>cd_votes_for := sat_add_u32 (cd_votes_for d) 1\<rparr>"
| "count_decision_vote Against d = d\<lparr>cd_votes_against := sat_add_u32 (cd_votes_against d) 1\<rparr>"
| "count_decision_vote Abstain d = d\<lparr>cd_votes_abstain := sat_add_u32 (cd_votes_abstain d) 1\<rparr>"

definition decide :: "nat \<Rightarrow> committee_decision \<Rightarrow> committee_decision" where
  "decide members d =
     (let majority = members div 2 + 1;
          all_votes = sat_add_u32 (sat_add_u32 (cd_votes_for d) (cd_votes_against d)) (cd_votes_abstain d)
      in if cd_votes_for d \<ge> majority then d\<lparr>cd_status := DecisionApproved\<rparr>
         else if cd_votes_against d \<ge> majority then d\<lparr>cd_status := DecisionRejected\<rparr>
         else if all_votes = members
         then d\<lparr>cd_status := (if cd_votes_for d > cd_votes_against d then DecisionApproved else DecisionRejected)\<rparr>
         else d)"

definition vote_on_decision :: "nat \<Rightarrow> nat \<Rightarrow> address \<Rightarrow> vote_type \<Rightarrow> committees_state \<Rightarrow>
    (committee_decision \<times> committees_state) gresult" where
  "vote_on_decision cid did voter v st =
     bind_sum (get_committee st cid) (\<lambda>c.
       if voter \<notin> set (cm_members c) then Inl Unauthorized
       else bind_sum (find_decision_index (cm_decisions c) did) (\<lambda>i.
              let d = cm_decisions c ! i
              in if cd_status d \<noteq> DecisionVoting then Inl CommitteeDecisionNotOpen
                 else if smap_has (cd_votes d) voter then Inl AlreadyVoted
                 else let d' = decide (length (cm_members c))
                                 (count_decision_vote v (d\<lparr>cd_votes := smap_set (cd_votes d) voter v\<rparr>))
                      in Inr (d', set_committee cid (c\<lparr>cm_decisions := (cm_decisions c)[i := d']\<rparr>) st)))"

definition pct_change :: "int \<Rightarrow> int \<Rightarrow> nat gresult" where
  "pct_change current proposed =
     (if current \<le> 0 then Inl InvalidCommitteeAction
      else bind_sum (if proposed \<ge> current then gov_checked_sub proposed current else gov_checked_sub current proposed) (\<lambda>diff.
           bind_sum (gov_checked_mul diff 100) (\<lambda>x.
           bind_sum (gov_checked_div x current) (\<lambda>pct.
             if 0 \<le> pct \<and> pct \<le> int u32_max then Inr (nat pct) else Inl ArithmeticOverflow))))"

definition parameter_allowed :: "string list \<Rightarrow> string \<Rightarrow> nat \<Rightarrow> int \<Rightarrow> int \<Rightarrow> unit gresult" where
  "parameter_allowed parameters key max_change old_value new_value =
     (if key \<notin> set parameters then Inl NoCommitteeAuthority
      else bind_sum (pct_change old_value new_value) (\<lambda>pct.
             if pct > max_change then Inl NoCommitteeAuthority else Inr ()))"

definition validate_reward_config_authority :: "string list \<Rightarrow> nat \<Rightarrow> nat \<Rightarrow> int \<Rightarrow> 'w governance \<Rightarrow> unit gresult" where
  "validate_reward_config_authority parameters max_change reward_bps min_claim s =
     bind_sum (get_distribution_state s) (\<lambda>d.
     bind_sum (if reward_bps \<noteq> ds_liquidity_reward_bps d
               then parameter_allowed parameters ''liquidity_reward_bps'' max_change
                      (int (ds_liquidity_reward_bps d)) (int reward_bps)
               else Inr ()) (\<lambda>_.
     bind_sum (if min_claim \<noteq> ds_min_claim_threshold d
               then parameter_allowed parameters ''min_claim_threshold'' max_change (ds_min_claim_threshold d) min_claim
               else Inr ()) (\<lambda>_.
       if reward_bps = ds_liquidity_reward_bps d \<and> min_claim = ds_min_claim_threshold d
       then Inl InvalidCommitteeAction else Inr ())))"

text \<open>One delegated authority against an action: \<open>None\<close> means that the loop goes on to the next one.\<close>

fun authority_covers :: "authority \<Rightarrow> committee_action \<Rightarrow> 'w governance \<Rightarrow> unit gresult option" where
  "authority_covers (AuthTreasurySpend max_amount category) (DoTreasurySpend x) s =
     (if sa_amount x \<le> max_amount \<and> sa_category x = category then Some (Inr ()) else None)"
| "authority_covers (AuthGrantApproval max_grant) (DoGrantApproval x) s =
     (if sa_amount x \<le> max_grant then Some (Inr ()) else None)"
| "authority_covers (AuthParameterAdjustment parameters max_change) (DoRewardConfigUpdate reward_bps min_claim) s =
     Some (validate_reward_config_authority parameters max_change reward_bps min_claim s)"
| "authority_covers (AuthEmergencyAction action_types) (DoEmergencyAction action_type details) s =
     (if action_type \<in> set action_types then Some (Inr ()) else None)"
| "authority_covers (AuthVeto proposal_types) (DoVeto proposal_type reason) s =
     (if proposal_type \<in> set proposal_types then Some (Inr ()) else None)"
| "authority_covers _ _ s = None"

fun verify_authorities :: "authority list \<Rightarrow> committee_action \<Rightarrow> 'w governance \<Rightarrow> unit gresult" where
  "verify_authorities [] act s = Inl NoCommitteeAuthority"
| "verify_authorities (a # as) act s =
     (case authority_covers a act s of Some r \<Rightarrow> r | None \<Rightarrow> verify_authorities as act s)"

definition verify_committee_authority :: "committee \<Rightarrow> committee_action \<Rightarrow> 'w governance \<Rightarrow> unit gresult" where
  "verify_committee_authority c = verify_authorities (cm_authorities c)"

definition committee_spend :: "env \<Rightarrow> spend_action \<Rightarrow> 'w governance \<Rightarrow> ('w, unit) gcall" where
  "committee_spend e x s =
     and_then (execute_spend (sa_recipient x) (sa_amount x) (sa_asset x) (sa_category x) (sa_purpose x) None
                 (ledger_timestamp e) (get_treasury s) s) (\<lambda>(_, t) s. (Ok (), put_treasury t s))"

fun execute_decision_action :: "env \<Rightarrow> committee_action \<Rightarrow> 'w governance \<Rightarrow> ('w, unit) gcall" where
  "execute_decision_action e (DoTreasurySpend x) s = committee_spend e x s"
| "execute_decision_action e (DoGrantApproval x) s = committee_spend e x s"
| "execute_decision_action e (DoRewardConfigUpdate reward_bps min_claim) s =
     and_then (update_reward_config reward_bps min_claim s) (\<lambda>_ s. (Ok (), s))"
| "execute_decision_action e (DoEmergencyAction action_type details) s =
     (if details = [] then (Err InvalidCommitteeAction, s) else (Ok (), s))"
| "execute_decision_action e (DoVeto proposal_type reason) s =
     (if reason = [] then (Err InvalidCommitteeAction, s) else (Ok (), s))"

definition update_avg_decision_time :: "committee_decision \<Rightarrow> nat \<Rightarrow> performance_metrics \<Rightarrow> performance_metrics gresult" where
  "update_avg_decision_time d now m =
     (let time = now - cd_proposed_at d
      in if pm_decisions_executed m = 0 then Inr (m\<lparr>pm_avg_decision_time := time\<rparr>)
         else bind_sum (gov_checked_mul (int (pm_avg_decision_time m)) (int (pm_decisions_executed m - 1))) (\<lambda>acc.
              bind_sum (gov_checked_add acc (int time)) (\<lambda>n.
              bind_sum (gov_checked_div n (int (pm_decisions_executed m))) (\<lambda>avg.
                if 0 \<le> avg \<and> avg \<le> int u64_max then Inr (m\<lparr>pm_avg_decision_time := nat avg\<rparr>)
                else Inl ArithmeticOverflow))))"

definition execute_decision :: "env \<Rightarrow> nat \<Rightarrow> nat \<Rightarrow> address \<Rightarrow> committees_state \<Rightarrow> 'w governance \<Rightarrow>
    ('w, committee_decision \<times> committees_state) gcall" where
  "execute_decision e cid did executor st s =
     attempt (get_committee st cid) s (\<lambda>c.
     attempt (ensure_committee_active (ledger_timestamp e) c) s (\<lambda>_.
       if executor \<noteq> cm_chair c \<and> executor \<notin> set (cm_members c) then (Err Unauthorized, s)
       else attempt (find_decision_index (cm_decisions c) did) s (\<lambda>i.
              let d = cm_decisions c ! i
              in if cd_status d \<noteq> DecisionApproved then (Err CommitteeDecisionNotOpen, s)
                 else attempt (verify_committee_authority c (cd_action d) s) s (\<lambda>_.
                      and_then (execute_decision_action e (cd_action d) s) (\<lambda>_ s.
                        let d' = d\<lparr>cd_status := DecisionExecuted, cd_executed_at := Some (ledger_timestamp e)\<rparr>;
                            m = cm_metrics c
                        in attempt (update_avg_decision_time d' (ledger_timestamp e)
                                      (m\<lparr>pm_decisions_executed := sat_add_u32 (pm_decisions_executed m) 1\<rparr>)) s (\<lambda>m'.
                             (Ok (d', set_committee cid (c\<lparr>cm_decisions := (cm_decisions c)[i := d'], cm_metrics := m'\<rparr>) st), s)))))))"

definition override_decision :: "nat \<Rightarrow> nat \<Rightarrow> committees_state \<Rightarrow> (committee_decision \<times> committees_state) gresult" where
  "override_decision cid did st =
     bind_sum (get_committee st cid) (\<lambda>c.
     bind_sum (find_decision_index (cm_decisions c) did) (\<lambda>i.
       let d = cm_decisions c ! i
       in if cd_status d = DecisionRejected \<or> cd_status d = DecisionOverridden then Inl CommitteeDecisionNotOpen
          else let d' = d\<lparr>cd_status := DecisionOverridden\<rparr>; m = cm_metrics c
               in Inr (d', set_committee cid
                     (c\<lparr>cm_decisions := (cm_decisions c)[i := d'],
                        cm_metrics := m\<lparr>pm_overridden_decisions := sat_add_u32 (pm_overridden_decisions m) 1\<rparr>\<rparr>) st)))"

section \<open>Elections\<close>

definition start_election :: "env \<Rightarrow> nat \<Rightarrow> nat \<Rightarrow> nat \<Rightarrow> nat \<Rightarrow> int \<Rightarrow> committees_state \<Rightarrow>
    (committee_election \<times> committees_state) gresult" where
  "start_election e cid positions days min_participation quorum_stake st =
     bind_sum (get_committee st cid) (\<lambda>c.
     bind_sum (ensure_committee_active (ledger_timestamp e) c) (\<lambda>_.
       if positions < 3 \<or> positions > cm_max_members c \<or> days = 0 then Inl InvalidCommitteeConfig
       else if quorum_stake < 0 then Inl InvalidCommitteeConfig
       else if (case smap_get (co_elections st) cid of None \<Rightarrow> False | Some x \<Rightarrow> ledger_timestamp e < ce_end x)
       then Inl InvalidCommitteeConfig
       else let x = \<lparr>ce_committee_id = cid, ce_candidates = [], ce_votes = [], ce_start = ledger_timestamp e,
                     ce_end = sat_add_u64 (ledger_timestamp e) (days * 86400), ce_positions_available = positions,
                     ce_min_participation = min_participation, ce_quorum_stake_threshold = quorum_stake\<rparr>
            in Inr (x, set_election cid x st)))"

definition c_nominate_for_committee :: "env \<Rightarrow> nat \<Rightarrow> address \<Rightarrow> address \<Rightarrow> committees_state \<Rightarrow> 'w governance \<Rightarrow>
    (committee_election \<times> committees_state) gresult" where
  "c_nominate_for_committee e cid nominee nominator st s =
     bind_sum (get_election st cid) (\<lambda>x.
       if ledger_timestamp e \<ge> ce_end x then Inl CommitteeElectionNotActive
       else if get_staked_balance nominator s \<le> 0 then Inl Unauthorized
       else let x' = (if nominee \<in> set (ce_candidates x) then x else x\<lparr>ce_candidates := ce_candidates x @ [nominee]\<rparr>)
            in Inr (x', set_election cid x' st))"

definition vote_in_election :: "env \<Rightarrow> nat \<Rightarrow> address \<Rightarrow> address \<Rightarrow> committees_state \<Rightarrow> 'w governance \<Rightarrow>
    (committee_election \<times> committees_state) gresult" where
  "vote_in_election e cid voter candidate st s =
     bind_sum (get_election st cid) (\<lambda>x.
       if ledger_timestamp e < ce_start x \<or> ledger_timestamp e \<ge> ce_end x then Inl CommitteeElectionNotActive
       else if candidate \<notin> set (ce_candidates x) then Inl InvalidElectionVote
       else if get_staked_balance voter s \<le> 0 then Inl InvalidElectionVote
       else if smap_has (ce_votes x) voter then Inl AlreadyVoted
       else let x' = x\<lparr>ce_votes := smap_set (ce_votes x) voter candidate\<rparr> in Inr (x', set_election cid x' st))"

record election_tally =
  et_votes :: "(address, int) smap"
  et_valid :: nat
  et_stake :: int
  et_rejected :: nat

fun tally_loop :: "address list \<Rightarrow> (address \<times> address) list \<Rightarrow> election_tally \<Rightarrow> 'w governance \<Rightarrow> election_tally gresult" where
  "tally_loop candidates [] acc s = Inr acc"
| "tally_loop candidates ((voter, candidate) # rest) acc s =
     (let weight = get_staked_balance voter s
      in if weight \<le> 0 \<or> candidate \<notin> set candidates
         then tally_loop candidates rest (acc\<lparr>et_rejected := sat_add_u32 (et_rejected acc) 1\<rparr>) s
         else bind_sum (gov_checked_add (get_or 0 (smap_get (et_votes acc) candidate)) weight) (\<lambda>n.
              bind_sum (gov_checked_add (et_stake acc) weight) (\<lambda>m.
                tally_loop candidates rest
                  (acc\<lparr>et_votes := smap_set (et_votes acc) candidate n, et_valid := sat_add_u32 (et_valid acc) 1,
                       et_stake := m\<rparr>) s)))"

definition tally_election_votes_with_validation :: "committee_election \<Rightarrow> 'w governance \<Rightarrow> election_tally gresult" where
  "tally_election_votes_with_validation x s =
     tally_loop (ce_candidates x) (ce_votes x) \<lparr>et_votes = [], et_valid = 0, et_stake = 0, et_rejected = 0\<rparr> s"

fun best_candidate :: "(address \<Rightarrow> int) \<Rightarrow> address list \<Rightarrow> address list \<Rightarrow> address option \<Rightarrow> int \<Rightarrow> address option" where
  "best_candidate votes selected [] best best_votes = best"
| "best_candidate votes selected (c # cs) best best_votes =
     (if c \<in> set selected then best_candidate votes selected cs best best_votes
      else if votes c > best_votes then best_candidate votes selected cs (Some c) (votes c)
      else best_candidate votes selected cs best best_votes)"

fun winners_loop :: "(address \<Rightarrow> int) \<Rightarrow> address list \<Rightarrow> nat \<Rightarrow> address list \<Rightarrow> address list" where
  "winners_loop votes candidates 0 winners = winners"
| "winners_loop votes candidates (Suc n) winners =
     (case best_candidate votes winners candidates None i128_min of
        None \<Rightarrow> winners
      | Some c \<Rightarrow> winners_loop votes candidates n (winners @ [c]))"

definition select_election_winners :: "committee_election \<Rightarrow> (address, int) smap \<Rightarrow> address list" where
  "select_election_winners x votes =
     winners_loop (\<lambda>c. get_or 0 (smap_get votes c)) (ce_candidates x) (ce_positions_available x) []"

definition finalize_election :: "env \<Rightarrow> nat \<Rightarrow> committees_state \<Rightarrow> 'w governance \<Rightarrow> (election_result \<times> committees_state) gresult" where
  "finalize_election e cid st s =
     bind_sum (get_election st cid) (\<lambda>x.
       if ledger_timestamp e < ce_end x then Inl CommitteeElectionNotActive
       else bind_sum (tally_election_votes_with_validation x s) (\<lambda>tl.
              let result = (\<lambda>status winners. \<lparr>el_status = status, el_winners = winners, el_valid_votes = et_valid tl,
                              el_total_stake_weight = et_stake tl, el_rejected_votes = et_rejected tl\<rparr>);
                  closed = (\<lambda>st. st\<lparr>co_elections := smap_remove (co_elections st) cid\<rparr>)
              in if ce_min_participation x > 0 \<and> et_valid tl < ce_min_participation x
                 then Inr (result FailedQuorumParticipation [], closed st)
                 else if ce_quorum_stake_threshold x > 0 \<and> et_stake tl < ce_quorum_stake_threshold x
                 then Inr (result FailedQuorumStake [], closed st)
                 else let winners = select_election_winners x (et_votes tl)
                      in if length winners < 3 then Inr (result FailedInsufficientWinners [], closed st)
                         else bind_sum (get_committee st cid) (\<lambda>c.
                                Inr (result ElectionSucceeded winners,
                                     closed (set_committee cid (c\<lparr>cm_members := winners, cm_chair := hd winners\<rparr>) st)))))"

section \<open>Reports and requests across committees\<close>

definition report_activity :: "env \<Rightarrow> nat \<Rightarrow> committees_state \<Rightarrow> committee_report gresult" where
  "report_activity e cid st =
     bind_sum (get_committee st cid) (\<lambda>c.
       let now = get_or (ledger_timestamp e) (cm_dissolved_at c); m = cm_metrics c;
           days = (now - cm_formation_date c) div 86400
       in Inr \<lparr>crp_committee_id = cid, crp_name = cm_name c, crp_members_count = length (cm_members c),
               crp_days_active = days, crp_total_decisions = pm_total_decisions m,
               crp_decisions_per_month = (if days = 0 then 0 else as_u32 (pm_total_decisions m * 30 div days)),
               crp_execution_rate = (if pm_total_decisions m > 0
                 then as_u32 (pm_decisions_executed m * APPROVAL_RATING_BPS div pm_total_decisions m) else 0),
               crp_avg_decision_time = pm_avg_decision_time m, crp_community_approval = pm_community_approval_rating m,
               crp_overridden_count = pm_overridden_decisions m, crp_active = cm_active c\<rparr>)"

definition c_request_cross_committee_approval :: "env \<Rightarrow> nat \<Rightarrow> address \<Rightarrow> nat list \<Rightarrow> string \<Rightarrow> committees_state \<Rightarrow>
    (cross_committee_request \<times> committees_state) gresult" where
  "c_request_cross_committee_approval e cid requester approving text st =
     (if text = [] \<or> approving = [] then Inl InvalidCommitteeConfig
      else bind_sum (get_committee st cid) (\<lambda>c.
           bind_sum (ensure_committee_active (ledger_timestamp e) c) (\<lambda>_.
             if requester \<notin> set (cm_members c) then Inl Unauthorized
             else if list_ex (\<lambda>k. k = cid \<or> \<not> smap_has (co_committees st) k) approving then Inl InvalidCommitteeConfig
             else let r = \<lparr>cr_id = co_next_cross_req_id st, cr_requesting_committee = cid,
                           cr_approving_committees = approving, cr_proposal = text, cr_approvals = [],
                           cr_status = CrossPending\<rparr>
                  in Inr (r, st\<lparr>co_cross_requests := smap_set (co_cross_requests st) (cr_id r) r,
                                co_next_cross_req_id := sat_add_u64 (co_next_cross_req_id st) 1\<rparr>))))"

definition c_approve_cross_committee_request :: "nat \<Rightarrow> nat \<Rightarrow> address \<Rightarrow> nat \<Rightarrow> committees_state \<Rightarrow>
    (cross_committee_request \<times> committees_state) gresult" where
  "c_approve_cross_committee_request rid cid approver did st =
     bind_sum (get_cross_committee_request st rid) (\<lambda>r.
       if cr_status r \<noteq> CrossPending \<or> cid \<notin> set (cr_approving_committees r) then Inl InvalidCommitteeConfig
       else if smap_has (cr_approvals r) cid then Inl AlreadyVoted
       else bind_sum (get_committee st cid) (\<lambda>c.
              if approver \<notin> set (cm_members c) then Inl Unauthorized
              else bind_sum (find_decision_index (cm_decisions c) did) (\<lambda>i.
                     let d = cm_decisions c ! i
                     in if cd_status d \<noteq> DecisionApproved \<and> cd_status d \<noteq> DecisionExecuted
                        then Inl CommitteeDecisionNotOpen
                        else let approvals = smap_set (cr_approvals r) cid did;
                                 r' = r\<lparr>cr_approvals := approvals,
                                        cr_status := (if length approvals = length (cr_approving_committees r)
                                                      then CrossApproved else cr_status r)\<rparr>
                             in Inr (r', st\<lparr>co_cross_requests := smap_set (co_cross_requests st) rid r'\<rparr>))))"

section \<open>Entry points\<close>

definition committee_call :: "(committees_state \<Rightarrow> 'w governance \<Rightarrow> ('a \<times> committees_state) gresult) \<Rightarrow>
    ('a \<Rightarrow> 'w governance \<Rightarrow> 'w governance) \<Rightarrow> 'w governance \<Rightarrow> ('w, 'a) gcall" where
  "committee_call f emit s =
     attempt (f (get_committees_state s) s) s (\<lambda>(x, st). (Ok x, emit x (put_committees_state st s)))"

definition committees_view :: "'w governance \<Rightarrow> committee list gresult" where
  "committees_view = view (\<lambda>s. list_committees (get_committees_state s))"

definition committee_view :: "nat \<Rightarrow> 'w governance \<Rightarrow> committee gresult" where
  "committee_view cid s = bind_sum (require_initialized s) (\<lambda>_. get_committee (get_committees_state s) cid)"

definition committee_election_view :: "nat \<Rightarrow> 'w governance \<Rightarrow> committee_election gresult" where
  "committee_election_view cid s = bind_sum (require_initialized s) (\<lambda>_. get_election (get_committees_state s) cid)"

definition cross_committee_request_view :: "nat \<Rightarrow> 'w governance \<Rightarrow> cross_committee_request gresult" where
  "cross_committee_request_view rid s =
     bind_sum (require_initialized s) (\<lambda>_. get_cross_committee_request (get_committees_state s) rid)"

definition committee_report_view :: "env \<Rightarrow> nat \<Rightarrow> 'w governance \<Rightarrow> committee_report gresult" where
  "committee_report_view e cid s =
     bind_sum (require_initialized s) (\<lambda>_. report_activity e cid (get_committees_state s))"

definition do_create_committee :: "env \<Rightarrow> address \<Rightarrow> string \<Rightarrow> string \<Rightarrow> address list \<Rightarrow> address \<Rightarrow> nat \<Rightarrow> authority list \<Rightarrow>
    nat option \<Rightarrow> 'w governance \<Rightarrow> ('w, committee) gcall" where
  "do_create_committee e admin name description members chair max_members authorities term_days =
     committee_call (\<lambda>st s. c_create_committee e name description members chair max_members authorities term_days st)
       (\<lambda>c. emit_admin_action ''cmtadd'' admin (int (cm_id c)))"

definition do_override_decision :: "address \<Rightarrow> nat \<Rightarrow> nat \<Rightarrow> 'w governance \<Rightarrow> ('w, committee_decision) gcall" where
  "do_override_decision admin cid did =
     committee_call (\<lambda>st s. override_decision cid did st) (\<lambda>_. emit_admin_action ''cmtover'' admin (int did))"

definition do_dissolve_committee :: "env \<Rightarrow> address \<Rightarrow> nat \<Rightarrow> 'w governance \<Rightarrow> ('w, committee) gcall" where
  "do_dissolve_committee e admin cid =
     committee_call (\<lambda>st s. c_dissolve_committee e cid st) (\<lambda>_. emit_admin_action ''cmtdrop'' admin (int cid))"

definition create_committee :: "env \<Rightarrow> address \<Rightarrow> string \<Rightarrow> string \<Rightarrow> address list \<Rightarrow> address \<Rightarrow> nat \<Rightarrow> authority list \<Rightarrow>
    nat option \<Rightarrow> 'w governance \<Rightarrow> ('w, committee) gcall" where
  "create_committee e admin name description members chair max_members authorities term_days =
     direct_admin e admin (\<lambda>e. do_create_committee e admin name description members chair max_members authorities term_days)"

definition override_committee_decision :: "env \<Rightarrow> address \<Rightarrow> nat \<Rightarrow> nat \<Rightarrow> 'w governance \<Rightarrow> ('w, committee_decision) gcall" where
  "override_committee_decision e admin cid did = direct_admin e admin (\<lambda>e. do_override_decision admin cid did)"

definition dissolve_committee :: "env \<Rightarrow> address \<Rightarrow> nat \<Rightarrow> 'w governance \<Rightarrow> ('w, committee) gcall" where
  "dissolve_committee e admin cid = direct_admin e admin (\<lambda>e. do_dissolve_committee e admin cid)"

definition signed_committee_call :: "env \<Rightarrow> address \<Rightarrow> (committees_state \<Rightarrow> 'w governance \<Rightarrow> ('a \<times> committees_state) gresult) \<Rightarrow>
    'w governance \<Rightarrow> ('w, 'a) gcall" where
  "signed_committee_call e who f = when_initialized (with_auth e who (\<lambda>e. committee_call f (\<lambda>_ s. s)))"

definition propose_committee_decision :: "env \<Rightarrow> nat \<Rightarrow> address \<Rightarrow> string \<Rightarrow> committee_action \<Rightarrow> 'w governance \<Rightarrow>
    ('w, committee_decision) gcall" where
  "propose_committee_decision e cid author text act =
     signed_committee_call e author (\<lambda>st s. propose_decision e cid author text act st)"

definition vote_on_committee_decision :: "env \<Rightarrow> nat \<Rightarrow> nat \<Rightarrow> address \<Rightarrow> vote_type \<Rightarrow> 'w governance \<Rightarrow>
    ('w, committee_decision) gcall" where
  "vote_on_committee_decision e cid did voter v =
     signed_committee_call e voter (\<lambda>st s. vote_on_decision cid did voter v st)"

definition execute_committee_decision :: "env \<Rightarrow> nat \<Rightarrow> nat \<Rightarrow> address \<Rightarrow> 'w governance \<Rightarrow> ('w, committee_decision) gcall" where
  "execute_committee_decision e cid did executor =
     when_initialized (with_auth e executor (\<lambda>e s.
       and_then (execute_decision e cid did executor (get_committees_state s) s) (\<lambda>(d, st) s.
         (Ok d, put_committees_state st s))))"

definition start_committee_election :: "env \<Rightarrow> address \<Rightarrow> nat \<Rightarrow> nat \<Rightarrow> nat \<Rightarrow> nat \<Rightarrow> int \<Rightarrow> 'w governance \<Rightarrow>
    ('w, committee_election) gcall" where
  "start_committee_election e admin cid positions days min_participation quorum_stake =
     gov_require_admin e admin (\<lambda>e.
       committee_call (\<lambda>st s. start_election e cid positions days min_participation quorum_stake st)
         (\<lambda>_. emit_admin_action ''cmtelect'' admin (int cid)))"

definition nominate_for_committee :: "env \<Rightarrow> nat \<Rightarrow> address \<Rightarrow> address \<Rightarrow> 'w governance \<Rightarrow> ('w, committee_election) gcall" where
  "nominate_for_committee e cid nominee nominator =
     when_initialized (with_auth e nominee (\<lambda>e. with_auth e nominator (\<lambda>e.
       committee_call (\<lambda>st s. c_nominate_for_committee e cid nominee nominator st s) (\<lambda>_ s. s))))"

definition vote_in_committee_election :: "env \<Rightarrow> nat \<Rightarrow> address \<Rightarrow> address \<Rightarrow> 'w governance \<Rightarrow> ('w, committee_election) gcall" where
  "vote_in_committee_election e cid voter candidate =
     signed_committee_call e voter (\<lambda>st s. vote_in_election e cid voter candidate st s)"

definition finalize_committee_election :: "env \<Rightarrow> address \<Rightarrow> nat \<Rightarrow> 'w governance \<Rightarrow> ('w, election_result) gcall" where
  "finalize_committee_election e admin cid =
     gov_require_admin e admin (\<lambda>e.
       committee_call (\<lambda>st s. finalize_election e cid st s) (\<lambda>_. emit_admin_action ''cmtfinal'' admin (int cid)))"

definition set_committee_approval_rating :: "env \<Rightarrow> address \<Rightarrow> nat \<Rightarrow> nat \<Rightarrow> 'w governance \<Rightarrow> ('w, committee) gcall" where
  "set_committee_approval_rating e admin cid rating =
     gov_require_admin e admin (\<lambda>e.
       committee_call (\<lambda>st s. set_community_approval_rating cid rating st)
         (\<lambda>_. emit_admin_action ''cmtrank'' admin (int rating)))"

definition request_cross_committee_approval :: "env \<Rightarrow> nat \<Rightarrow> address \<Rightarrow> nat list \<Rightarrow> string \<Rightarrow> 'w governance \<Rightarrow>
    ('w, cross_committee_request) gcall" where
  "request_cross_committee_approval e cid requester approving text =
     signed_committee_call e requester (\<lambda>st s. c_request_cross_committee_approval e cid requester approving text st)"

definition approve_cross_committee_request :: "env \<Rightarrow> nat \<Rightarrow> nat \<Rightarrow> address \<Rightarrow> nat \<Rightarrow> 'w governance \<Rightarrow>
    ('w, cross_committee_request) gcall" where
  "approve_cross_committee_request e rid cid approver did =
     signed_committee_call e approver (\<lambda>st s. c_approve_cross_committee_request rid cid approver did st)"

section \<open>Decisions are carried out once, within the authority of the committee\<close>

lemma index_of_decision_Some:
  "index_of_decision did ds = Some i \<Longrightarrow> i < length ds \<and> cd_id (ds ! i) = did"
  by (induction ds arbitrary: i) (auto split: if_splits)

lemma index_of_decision_update:
  "index_of_decision did ds = Some i \<Longrightarrow> cd_id d = did \<Longrightarrow> index_of_decision did (ds[i := d]) = Some i"
  by (induction ds arbitrary: i) (auto split: if_splits)

lemma get_put_committees [simp]: "get_committees_state (put_committees_state st s) = st"
  by (simp add: get_committees_state_def put_committees_state_def)

lemma set_committee_get [simp]: "get_committee (set_committee cid c st) k = (if k = cid then Inr c else get_committee st k)"
  by (simp add: get_committee_def set_committee_def)

lemma verify_authorities_covers:
  "verify_authorities as act s = Inr u \<Longrightarrow> \<exists>a\<in>set as. authority_covers a act s = Some (Inr ())"
  by (induction as) (auto split: option.splits)

lemma execute_decision_Ok:
  assumes "execute_decision e cid did executor st s = (Ok (d', st'), s')"
  obtains c i m' where "get_committee st cid = Inr c" "ensure_committee_active (ledger_timestamp e) c = Inr ()"
    "executor = cm_chair c \<or> executor \<in> set (cm_members c)" "index_of_decision did (cm_decisions c) = Some i"
    "cd_status (cm_decisions c ! i) = DecisionApproved"
    "verify_committee_authority c (cd_action (cm_decisions c ! i)) s = Inr ()"
    "execute_decision_action e (cd_action (cm_decisions c ! i)) s = (Ok (), s')"
    "d' = (cm_decisions c ! i)\<lparr>cd_status := DecisionExecuted, cd_executed_at := Some (ledger_timestamp e)\<rparr>"
    "st' = set_committee cid (c\<lparr>cm_decisions := (cm_decisions c)[i := d'], cm_metrics := m'\<rparr>) st"
  using assms
  by (auto simp: execute_decision_def run_iff find_decision_index_def Let_def split: if_splits intro!: that)

text \<open>A committee executes a decision only while it is active and within its term, on behalf of a member, after the decision
  was approved, and only if one of its delegated authorities covers the action. The decision is then marked
  executed, so that every further attempt is refused; a spend among the actions still passes the
  treasury's budget and cap.\<close>

theorem committee_decision_effect:
  assumes "execute_committee_decision e cid did executor s = (Ok d', s')"
  shows "\<exists>c d c'. get_committee (get_committees_state s) cid = Inr c \<and> cm_active c \<and>
      get_committee (get_committees_state s') cid = Inr c' \<and> has_auth e executor \<and>
      (executor = cm_chair c \<or> executor \<in> set (cm_members c)) \<and>
      d \<in> set (cm_decisions c) \<and> cd_id d = did \<and> cd_status d = DecisionApproved \<and>
      (\<exists>a\<in>set (cm_authorities c). authority_covers a (cd_action d) s = Some (Inr ())) \<and>
      (\<exists>s1. execute_decision_action (consume_auth executor e) (cd_action d) s = (Ok (), s1) \<and>
        gk_treasury s' = gk_treasury s1 \<and> same_core s1 s') \<and>
      d' \<in> set (cm_decisions c') \<and> cd_status d' = DecisionExecuted \<and>
      (\<forall>e' x. fst (execute_committee_decision e' cid did x s') \<notin> range Ok)"
proof -
  obtain st s1 where auth: "has_auth e executor" and s': "s' = put_committees_state st s1"
    and run: "execute_decision (consume_auth executor e) cid did executor (get_committees_state s) s = (Ok (d', st), s1)"
    using assms by (auto simp: execute_committee_decision_def run_iff)
  obtain c i m' where f: "get_committee (get_committees_state s) cid = Inr c"
    "ensure_committee_active (ledger_timestamp (consume_auth executor e)) c = Inr ()"
    "executor = cm_chair c \<or> executor \<in> set (cm_members c)" "index_of_decision did (cm_decisions c) = Some i"
    "cd_status (cm_decisions c ! i) = DecisionApproved"
    "verify_committee_authority c (cd_action (cm_decisions c ! i)) s = Inr ()"
    "execute_decision_action (consume_auth executor e) (cd_action (cm_decisions c ! i)) s = (Ok (), s1)"
    and d': "d' = (cm_decisions c ! i)\<lparr>cd_status := DecisionExecuted, cd_executed_at := Some (ledger_timestamp (consume_auth executor e))\<rparr>"
    and st: "st = set_committee cid (c\<lparr>cm_decisions := (cm_decisions c)[i := d'], cm_metrics := m'\<rparr>) (get_committees_state s)"
    by (rule execute_decision_Ok [OF run])
  note ix = index_of_decision_Some [OF f(4)]
  let ?c' = "c\<lparr>cm_decisions := (cm_decisions c)[i := d'], cm_metrics := m'\<rparr>"
  have ix': "index_of_decision did (cm_decisions ?c') = Some i"
    using index_of_decision_update [OF f(4)] ix d' by simp
  have active: "cm_active c" using f(2) by (auto simp: ensure_committee_active_def split: if_splits)
  have again: "fst (execute_committee_decision e' cid did x s') \<notin> range Ok" for e' x
  proof
    assume "fst (execute_committee_decision e' cid did x s') \<in> range Ok"
    then obtain y s2 where "execute_committee_decision e' cid did x s' = (Ok y, s2)" by (metis imageE prod.collapse)
    then show False using ix ix' d'
      by (auto simp: execute_committee_decision_def run_iff s' st execute_decision_def find_decision_index_def Let_def
          split: if_splits)
  qed
  have cov: "\<exists>a\<in>set (cm_authorities c). authority_covers a (cd_action (cm_decisions c ! i)) s = Some (Inr ())"
    using f(6) verify_authorities_covers by (simp add: verify_committee_authority_def)
  have "d' \<in> set (cm_decisions ?c')" using ix by (simp add: set_update_memI)
  moreover have "get_committee (get_committees_state s') cid = Inr ?c'" by (simp add: s' st)
  moreover have "gk_treasury s' = gk_treasury s1" "same_core s1 s'" by (simp_all add: s' put_committees_state_def same_core_def)
  moreover have "cm_decisions c ! i \<in> set (cm_decisions c)" "cd_status d' = DecisionExecuted" using ix d' by simp_all
  ultimately show ?thesis using f auth active cov ix again by blast
qed

section \<open>Elections\<close>

lemma best_candidate_spec:
  assumes "\<forall>c\<in>set cs. i128_min < votes c" and "bv = (case best of None \<Rightarrow> i128_min | Some b \<Rightarrow> votes b)"
  shows "case best_candidate votes sel cs best bv of
      None \<Rightarrow> best = None \<and> set cs \<subseteq> set sel
    | Some c \<Rightarrow> (c \<in> set cs - set sel \<or> best = Some c) \<and> (\<forall>x\<in>set cs - set sel. votes x \<le> votes c) \<and> bv \<le> votes c"
  using assms
proof (induction cs arbitrary: best bv)
  case Nil
  then show ?case by (cases best) auto
next
  case (Cons x cs)
  show ?case
  proof (cases "x \<in> set sel")
    case True
    with Cons.IH [of bv best] Cons.prems show ?thesis by (auto split: option.splits)
  next
    case new: False
    show ?thesis
    proof (cases "bv < votes x")
      case True
      with new Cons.IH [of "votes x" "Some x"] Cons.prems show ?thesis by (auto split: option.splits)
    next
      case False
      then have "best \<noteq> None" using Cons.prems by (cases best) auto
      with False new Cons.IH [of bv best] Cons.prems show ?thesis by (auto split: option.splits)
    qed
  qed
qed

definition top_ranked :: "(address \<Rightarrow> int) \<Rightarrow> address list \<Rightarrow> address list \<Rightarrow> bool" where
  "top_ranked votes candidates ws \<longleftrightarrow>
     distinct ws \<and> set ws \<subseteq> set candidates \<and> sorted_wrt (\<lambda>a b. votes b \<le> votes a) ws \<and>
     (\<forall>w\<in>set ws. \<forall>c\<in>set candidates - set ws. votes c \<le> votes w)"

lemma winners_loop_top:
  assumes "\<forall>c\<in>set candidates. i128_min < votes c" and "top_ranked votes candidates ws"
  shows "top_ranked votes candidates (winners_loop votes candidates n ws) \<and>
    length (winners_loop votes candidates n ws) = min (length ws + n) (card (set candidates))"
  using assms(2)
proof (induction n arbitrary: ws)
  case 0
  then have "length ws \<le> card (set candidates)"
    by (metis (no_types, lifting) List.finite_set card_mono distinct_card top_ranked_def)
  with 0 show ?case by simp
next
  case (Suc n)
  let ?b = "best_candidate votes ws candidates None i128_min"
  note spec = best_candidate_spec [OF assms(1), of i128_min None ws, simplified]
  show ?case
  proof (cases ?b)
    case None
    then have "set candidates = set ws" using spec Suc.prems by (auto simp: top_ranked_def)
    then have "card (set candidates) = length ws" using Suc.prems by (simp add: top_ranked_def distinct_card)
    with None Suc.prems show ?thesis by simp
  next
    case (Some c)
    then have c: "c \<in> set candidates" "c \<notin> set ws" "\<forall>x\<in>set candidates - set ws. votes x \<le> votes c"
      using spec by auto
    have "top_ranked votes candidates (ws @ [c])"
      using c Suc.prems by (auto simp: top_ranked_def sorted_wrt_append)
    from Suc.IH [OF this] Some show ?thesis by simp
  qed
qed

text \<open>The stake behind a candidate when the election is closed.\<close>

definition stake_for :: "address \<Rightarrow> (address \<times> address) list \<Rightarrow> 'w governance \<Rightarrow> int" where
  "stake_for c ballots s = (\<Sum>(v, c')\<leftarrow>ballots. if c' = c then max 0 (get_staked_balance v s) else 0)"

lemma tally_loop_exact:
  assumes "tally_loop candidates ballots acc s = Inr ty" and "c \<in> set candidates"
  shows "get_or 0 (smap_get (et_votes ty) c) = get_or 0 (smap_get (et_votes acc) c) + stake_for c ballots s"
  using assms(1)
proof (induction ballots arbitrary: acc)
  case (Cons x ballots)
  obtain v k where x: "x = (v, k)" by fastforce
  show ?case
  proof (cases "get_staked_balance v s \<le> 0 \<or> k \<notin> set candidates")
    case True
    with Cons.prems x have "tally_loop candidates ballots (acc\<lparr>et_rejected := sat_add_u32 (et_rejected acc) 1\<rparr>) s = Inr ty"
      by (auto simp: Let_def)
    from Cons.IH [OF this] True x assms(2) show ?thesis by (auto simp: stake_for_def max_def)
  next
    case False
    with Cons.prems x obtain m where
      "tally_loop candidates ballots (acc\<lparr>et_votes := smap_set (et_votes acc) k
          (get_or 0 (smap_get (et_votes acc) k) + get_staked_balance v s),
          et_valid := sat_add_u32 (et_valid acc) 1, et_stake := m\<rparr>) s = Inr ty"
      by (auto simp: Let_def run_iff)
    from Cons.IH [OF this] False x show ?thesis by (auto simp: stake_for_def max_def)
  qed
qed (simp add: stake_for_def)

lemma stake_for_nonneg: "0 \<le> stake_for c ballots s"
  unfolding stake_for_def by (rule sum_list_nonneg) auto

text \<open>A closed election either leaves every committee as it was or installs the candidates with the most stake behind them, as many
  as there are positions or candidates and never fewer than three, ordered by their stake, with the first
  of them in the chair. Either way the election is gone.\<close>

theorem election_effect:
  assumes "finalize_committee_election e admin cid s = (Ok r, s')"
  shows "\<exists>x. get_election (get_committees_state s) cid = Inr x \<and> ce_end x \<le> ledger_timestamp e \<and>
      smap_get (co_elections (get_committees_state s')) cid = None \<and>
      (if el_status r = ElectionSucceeded
       then \<exists>c c'. get_committee (get_committees_state s) cid = Inr c \<and>
         get_committee (get_committees_state s') cid = Inr c' \<and>
         c' = c\<lparr>cm_members := el_winners r, cm_chair := hd (el_winners r)\<rparr> \<and> 3 \<le> length (el_winners r) \<and>
         length (el_winners r) = min (ce_positions_available x) (card (set (ce_candidates x))) \<and>
         top_ranked (\<lambda>k. if k \<in> set (ce_candidates x) then stake_for k (ce_votes x) s else 0)
           (ce_candidates x) (el_winners r)
       else co_committees (get_committees_state s') = co_committees (get_committees_state s))"
proof -
  let ?st = "get_committees_state s"
  obtain st' where run: "finalize_election (consume_auth admin e) cid ?st s = Inr (r, st')"
    and s': "s' = emit_admin_action ''cmtfinal'' admin (int cid) (put_committees_state st' s)"
    using assms by (auto simp: finalize_committee_election_def committee_call_def run_iff)
  have st': "get_committees_state s' = st'"
    by (simp add: s' emit_admin_action_def publish_def get_committees_state_def put_committees_state_def)
  obtain x ty where x: "get_election ?st cid = Inr x" "ce_end x \<le> ledger_timestamp e"
    and ty: "tally_election_votes_with_validation x s = Inr ty"
    using run by (auto simp: finalize_election_def run_iff split: if_splits)
  let ?votes = "\<lambda>k. get_or 0 (smap_get (et_votes ty) k)" and ?ws = "select_election_winners x (et_votes ty)"
  have exact: "?votes k = stake_for k (ce_votes x) s" if "k \<in> set (ce_candidates x)" for k
    using tally_loop_exact [OF ty [unfolded tally_election_votes_with_validation_def] that] by simp
  have low: "\<forall>k\<in>set (ce_candidates x). i128_min < ?votes k"
  proof
    fix k assume "k \<in> set (ce_candidates x)"
    from exact [OF this] stake_for_nonneg [of k "ce_votes x" s] show "i128_min < ?votes k" by (simp add: i128_min_def)
  qed
  have "top_ranked ?votes (ce_candidates x) ?ws \<and>
      length ?ws = min (ce_positions_available x) (card (set (ce_candidates x)))"
    using winners_loop_top [OF low, of "[]" "ce_positions_available x"]
    by (simp add: select_election_winners_def top_ranked_def)
  moreover have "top_ranked ?votes (ce_candidates x) ?ws \<Longrightarrow>
      top_ranked (\<lambda>k. if k \<in> set (ce_candidates x) then stake_for k (ce_votes x) s else 0) (ce_candidates x) ?ws"
    using exact by (auto simp: top_ranked_def subset_iff intro: sorted_wrt_mono_rel [rotated])
  ultimately have top: "top_ranked (\<lambda>k. if k \<in> set (ce_candidates x) then stake_for k (ce_votes x) s else 0)
      (ce_candidates x) ?ws" "length ?ws = min (ce_positions_available x) (card (set (ce_candidates x)))" by blast+
  from run x ty have "smap_get (co_elections st') cid = None"
    by (auto simp: finalize_election_def run_iff Let_def split: if_splits)
  moreover have "if el_status r = ElectionSucceeded
      then \<exists>c. get_committee ?st cid = Inr c \<and> get_committee st' cid = Inr (c\<lparr>cm_members := ?ws, cm_chair := hd ?ws\<rparr>) \<and>
        3 \<le> length ?ws \<and> el_winners r = ?ws
      else co_committees st' = co_committees ?st"
    using run x ty by (auto simp: finalize_election_def run_iff Let_def get_committee_def set_committee_def split: if_splits)
  ultimately show ?thesis using x top st' by auto
qed

section \<open>Votes on a decision\<close>

definition votes_cast_as :: "vote_type \<Rightarrow> committee_decision \<Rightarrow> nat" where
  "votes_cast_as t d = length (filter (\<lambda>e. snd e = t) (cd_votes d))"

definition decision_ok :: "committee_decision \<Rightarrow> bool" where
  "decision_ok d \<longleftrightarrow> smap_ok (cd_votes d) \<and> cd_votes_for d = min u32_max (votes_cast_as For d) \<and>
     cd_votes_against d = min u32_max (votes_cast_as Against d) \<and>
     cd_votes_abstain d = min u32_max (votes_cast_as Abstain d)"

lemma filter_set_new:
  "\<not> smap_has m k \<Longrightarrow> length (filter (\<lambda>e. snd e = t) (smap_set m k v)) =
     length (filter (\<lambda>e. snd e = t) m) + (if v = t then 1 else 0)"
  by (induction m) (auto simp: smap_has_def split: if_splits)

lemma decide_fields [simp]:
  "cd_votes (decide n d) = cd_votes d" "cd_votes_for (decide n d) = cd_votes_for d"
  "cd_votes_against (decide n d) = cd_votes_against d" "cd_votes_abstain (decide n d) = cd_votes_abstain d"
  "cd_id (decide n d) = cd_id d"
  by (simp_all add: decide_def Let_def)

lemma vote_keeps_decision:
  assumes "decision_ok d" and "\<not> smap_has (cd_votes d) voter"
  shows "decision_ok (decide n (count_decision_vote v (d\<lparr>cd_votes := smap_set (cd_votes d) voter v\<rparr>)))"
  using assms by (cases v) (auto simp: decision_ok_def votes_cast_as_def filter_set_new sat_add_u32_def)

section \<open>What committees leave alone\<close>

lemma committee_call_Ok [run_iff]:
  "committee_call f emit s = (Ok x, s') \<longleftrightarrow>
     (\<exists>st. f (get_committees_state s) s = Inr (x, st) \<and> s' = emit x (put_committees_state st s))"
  by (auto simp: committee_call_def run_iff)

lemma get_treasury_committees [simp]: "get_treasury (put_committees_state st s) = get_treasury s"
  by (simp add: get_treasury_def put_committees_state_def)

lemma committee_spend_keeps:
  assumes "treasury_ok (get_treasury s)" and "committee_spend e x s = (Ok u, s')"
  shows "treasury_ok (get_treasury s') \<and> same_core s s'"
  using assms by (auto simp: committee_spend_def run_iff dest: execute_spend_core intro: execute_spend_keeps)

text \<open>Executing a decision touches the treasury under its invariant, or the settings of liquidity mining.\<close>

lemma decision_action_keeps:
  assumes "treasury_ok (get_treasury s)" and "ledger_ok (gk_token s)" and "execute_decision_action e act s = (Ok u, s')"
  shows "treasury_ok (get_treasury s') \<and> gk_ballot s' = gk_ballot s \<and>
    ledger_ok (gk_token s') \<and> gov_accounted (gk_token s') = gov_accounted (gk_token s)"
proof (cases act)
  case (DoRewardConfigUpdate r m)
  then obtain d where run: "update_reward_config r m s = (Ok d, s')" using assms(3) by (auto simp: run_iff)
  then have "get_treasury s' = get_treasury s" "gk_ballot s' = gk_ballot s"
    by (auto simp: update_reward_config_def run_iff get_treasury_def gov_defs Let_def split: if_splits)
  with update_reward_config_ledger [OF assms(2) run] assms(1) show ?thesis by simp
qed (use assms committee_spend_keeps in \<open>fastforce simp: same_core_def split: if_splits\<close>)+

lemma execute_committee_decision_keeps:
  assumes "treasury_ok (get_treasury s)" and "ledger_ok (gk_token s)"
    and "execute_committee_decision e cid did executor s = (Ok d, s')"
  shows "treasury_ok (get_treasury s') \<and> gk_ballot s' = gk_ballot s \<and>
    ledger_ok (gk_token s') \<and> gov_accounted (gk_token s') = gov_accounted (gk_token s)"
proof -
  obtain st s1 where s': "s' = put_committees_state st s1"
    and run: "execute_decision (consume_auth executor e) cid did executor (get_committees_state s) s = (Ok (d, st), s1)"
    using assms(3) by (auto simp: execute_committee_decision_def run_iff)
  obtain act where "execute_decision_action (consume_auth executor e) act s = (Ok (), s1)"
    by (rule execute_decision_Ok [OF run]) blast
  from decision_action_keeps [OF assms(1,2) this] show ?thesis
    by (simp add: s' put_committees_state_def get_treasury_def)
qed

end
