(* ===== verification/Governance_Conviction.thy ===== *)
theory Governance_Conviction
  imports Governance_Committees
begin

text \<open>
  Conviction voting (\<^verbatim>\<open>conviction_voting.rs\<close>) and its entry points: pools that refill, proposals funded once the
  conviction of their votes reaches a threshold, and the weight of a vote, which grows with the root of its
  age and decays exponentially, in fixed-point arithmetic. A vote commits a number of tokens that is not
  compared with what the voter owns.
\<close>

definition CONVICTION_PRECISION :: int where "CONVICTION_PRECISION = 10000"
definition DECAY_SCALE :: int where "DECAY_SCALE = 1000000000000"
definition MIN_DECAY_RATE :: nat where "MIN_DECAY_RATE = 1"
definition MAX_DECAY_RATE :: nat where "MAX_DECAY_RATE = 999"

section \<open>Calibration\<close>

definition default_conviction_calibration :: conviction_calibration where
  "default_conviction_calibration =
     \<lparr>cc_penalty_threshold_days = 0, cc_penalty_multiplier = 1, cc_reward_bonus_pct = 0, cc_max_conviction_cap = 0,
      cc_decay_rate_bps = 50\<rparr>"

definition get_conviction_calibration :: "'w governance \<Rightarrow> conviction_calibration" where
  "get_conviction_calibration s = get_or default_conviction_calibration (gk_conviction_calibration s)"

definition put_conviction_calibration :: "conviction_calibration \<Rightarrow> 'w governance \<Rightarrow> ('w, unit) gcall" where
  "put_conviction_calibration c s =
     (if cc_decay_rate_bps c < MIN_DECAY_RATE \<or> cc_decay_rate_bps c > MAX_DECAY_RATE then (Err InvalidDecayRate, s)
      else (Ok (), s\<lparr>gk_conviction_calibration := Some c\<rparr>))"

definition v_set_conviction_decay_rate :: "nat \<Rightarrow> 'w governance \<Rightarrow> ('w, unit) gcall" where
  "v_set_conviction_decay_rate rate s =
     (if rate < MIN_DECAY_RATE \<or> rate > MAX_DECAY_RATE then (Err InvalidDecayRate, s)
      else (Ok (), s\<lparr>gk_conviction_calibration := Some ((get_conviction_calibration s)\<lparr>cc_decay_rate_bps := rate\<rparr>)\<rparr>))"

section \<open>The weight of a vote\<close>

fun pow_fixed_point :: "int \<Rightarrow> nat \<Rightarrow> int \<Rightarrow> int \<Rightarrow> int" where
  "pow_fixed_point base exponent scale result =
     (if exponent = 0 then result
      else pow_fixed_point (tdiv (saturating_mul base base) scale) (exponent div 2) scale
             (if odd exponent then tdiv (saturating_mul result base) scale else result))"

declare pow_fixed_point.simps [simp del]

definition decayed_conviction :: "conviction_calibration \<Rightarrow> nat \<Rightarrow> int \<Rightarrow> int" where
  "decayed_conviction cal days conviction =
     (if MIN_DECAY_RATE \<le> cc_decay_rate_bps cal \<and> cc_decay_rate_bps cal \<le> MAX_DECAY_RATE
      then let factor = tdiv (saturating_mul (1000 - int (cc_decay_rate_bps cal)) DECAY_SCALE) 1000
           in tdiv (saturating_mul conviction (pow_fixed_point factor (as_u32 days) DECAY_SCALE DECAY_SCALE)) DECAY_SCALE
      else conviction)"

definition penalised_conviction :: "conviction_calibration \<Rightarrow> nat \<Rightarrow> int \<Rightarrow> int" where
  "penalised_conviction cal days conviction =
     (if cc_penalty_threshold_days cal > 0 \<and> days < cc_penalty_threshold_days cal \<and> cc_penalty_multiplier cal > 1
      then saturating_sub conviction (tdiv conviction (int (cc_penalty_multiplier cal)))
      else conviction)"

definition rewarded_conviction :: "conviction_calibration \<Rightarrow> nat \<Rightarrow> int \<Rightarrow> int" where
  "rewarded_conviction cal days conviction =
     (if cc_reward_bonus_pct cal > 0 \<and> days \<ge> cc_penalty_threshold_days cal
      then saturating_add conviction
             (tdiv (get_or 0 (checked_mul conviction (int (cc_reward_bonus_pct cal)))) 100)
      else conviction)"

definition calculate_conviction :: "int \<Rightarrow> nat \<Rightarrow> conviction_calibration \<Rightarrow> int" where
  "calculate_conviction tokens elapsed cal =
     (let days = elapsed div 86400
      in if days = 0 then 0
         else let c = rewarded_conviction cal days (penalised_conviction cal days
                        (decayed_conviction cal days (tdiv (saturating_mul tokens (isqrt (int days))) 1000)))
              in if cc_max_conviction_cap cal > 0 \<and> c > cc_max_conviction_cap cal then cc_max_conviction_cap cal else c)"

definition calculate_conviction_threshold :: "int \<Rightarrow> int \<Rightarrow> int \<Rightarrow> int gresult" where
  "calculate_conviction_threshold requested pool_total conviction_total =
     (if requested \<le> 0 \<or> pool_total \<le> 0 then Inl InvalidAmount
      else bind_sum (gov_checked_mul requested CONVICTION_PRECISION) (\<lambda>x.
           let ratio = tdiv x pool_total
           in bind_sum (gov_checked_mul ratio ratio) (\<lambda>y.
              let squared = tdiv y CONVICTION_PRECISION
              in bind_sum (gov_checked_mul squared conviction_total) (\<lambda>z.
                   Inr (max 1000 (tdiv (saturating_mul z 200) (CONVICTION_PRECISION * 100)))))))"

definition update_vote_conviction :: "env \<Rightarrow> conviction_calibration \<Rightarrow> conviction_vote \<Rightarrow> conviction_vote" where
  "update_vote_conviction e cal v =
     v\<lparr>cv_current_conviction := calculate_conviction (cv_tokens_committed v) (ledger_timestamp e - cv_vote_started v) cal,
       cv_last_update := ledger_timestamp e\<rparr>"

definition update_conviction_vote :: "env \<Rightarrow> conviction_calibration \<Rightarrow> int \<Rightarrow> conviction_vote \<Rightarrow> conviction_vote gresult" where
  "update_conviction_vote e cal tokens v =
     (if tokens > cv_tokens_committed v
      then Inr (v\<lparr>cv_tokens_committed := tokens, cv_vote_started := ledger_timestamp e,
                  cv_last_update := ledger_timestamp e, cv_current_conviction := 0\<rparr>)
      else if tokens < cv_tokens_committed v
      then let v1 = update_vote_conviction e cal v
           in bind_sum (gov_checked_mul tokens CONVICTION_PRECISION) (\<lambda>x.
              bind_sum (gov_checked_mul (cv_current_conviction v1) (tdiv x (cv_tokens_committed v1))) (\<lambda>y.
                Inr (v1\<lparr>cv_current_conviction := tdiv y CONVICTION_PRECISION, cv_tokens_committed := tokens\<rparr>)))
      else Inr v)"

definition apply_vote_switch_decay :: "int \<Rightarrow> int" where
  "apply_vote_switch_decay tokens = saturating_sub tokens (tdiv tokens 10)"

section \<open>State\<close>

definition empty_conviction_state :: conviction_state where
  "empty_conviction_state = \<lparr>cs_pools = [], cs_pool_ids = [], cs_next_pool_id = 1, cs_next_proposal_id = 1\<rparr>"

definition get_conviction_state :: "'w governance \<Rightarrow> conviction_state" where
  "get_conviction_state s = get_or empty_conviction_state (gk_conviction_state s)"

definition put_conviction_state :: "conviction_state \<Rightarrow> 'w governance \<Rightarrow> 'w governance" where
  "put_conviction_state st s = s\<lparr>gk_conviction_state := Some st\<rparr>"

definition find_pool :: "nat \<Rightarrow> 'w governance \<Rightarrow> conviction_pool gresult" where
  "find_pool pool_id s = ok_or ConvictionPoolNotFound (smap_get (cs_pools (get_conviction_state s)) pool_id)"

definition find_in_pool :: "nat \<Rightarrow> conviction_pool \<Rightarrow> conviction_proposal gresult" where
  "find_in_pool pid pool = ok_or ProposalNotFound (smap_get (pl_proposals pool) pid)"

definition store_pool :: "nat \<Rightarrow> conviction_pool \<Rightarrow> 'w governance \<Rightarrow> 'w governance" where
  "store_pool pool_id pool s =
     (let st = get_conviction_state s in put_conviction_state (st\<lparr>cs_pools := smap_set (cs_pools st) pool_id pool\<rparr>) s)"

definition store_in_pool :: "nat \<Rightarrow> conviction_proposal \<Rightarrow> conviction_pool \<Rightarrow> conviction_pool" where
  "store_in_pool pid p pool = pool\<lparr>pl_proposals := smap_set (pl_proposals pool) pid p\<rparr>"

section \<open>Pools and proposals\<close>

definition v_create_conviction_pool :: "env \<Rightarrow> int \<Rightarrow> int \<Rightarrow> nat \<Rightarrow> 'w governance \<Rightarrow> ('w, nat) gcall" where
  "v_create_conviction_pool e funding refill_rate refill_period s =
     (if funding \<le> 0 \<or> refill_rate < 0 \<or> refill_period = 0 then (Err InvalidCommitteeConfig, s)
      else let st = get_conviction_state s; pool_id = cs_next_pool_id st;
               pool = \<lparr>pl_id = pool_id, pl_funding_amount = funding, pl_refill_rate = refill_rate,
                       pl_refill_period = refill_period, pl_proposals = [], pl_proposal_ids = [],
                       pl_total_conviction = 0, pl_last_refill = ledger_timestamp e\<rparr>
           in (Ok pool_id, put_conviction_state
                 (st\<lparr>cs_pools := smap_set (cs_pools st) pool_id pool, cs_pool_ids := cs_pool_ids st @ [pool_id],
                     cs_next_pool_id := sat_add_u64 pool_id 1\<rparr>) s))"

definition v_create_conviction_proposal :: "env \<Rightarrow> nat \<Rightarrow> address \<Rightarrow> string \<Rightarrow> int \<Rightarrow> address \<Rightarrow> 'w governance \<Rightarrow> ('w, nat) gcall" where
  "v_create_conviction_proposal e pool_id author title requested beneficiary =
     with_auth e author (\<lambda>e s.
       if requested \<le> 0 \<or> title = [] then (Err InvalidProposal, s)
       else attempt (find_pool pool_id s) s (\<lambda>pool.
              if requested > pl_funding_amount pool then (Err InsufficientBalance, s)
              else attempt (calculate_conviction_threshold requested (pl_funding_amount pool)
                              (if pl_total_conviction pool > 0 then pl_total_conviction pool else 1000)) s (\<lambda>threshold.
                     let st = get_conviction_state s; pid = cs_next_proposal_id st;
                         p = \<lparr>cp_id = pid, cp_proposer = author, cp_title = title, cp_requested_amount = requested,
                              cp_beneficiary = beneficiary, cp_conviction_accumulated = 0,
                              cp_conviction_threshold = threshold, cp_status = ConvictionActive, cp_votes = [],
                              cp_voters = [], cp_funding_granted = 0\<rparr>;
                         pool' = (store_in_pool pid p pool)\<lparr>pl_proposal_ids := pl_proposal_ids pool @ [pid]\<rparr>
                     in (Ok pid, put_conviction_state
                           (st\<lparr>cs_pools := smap_set (cs_pools st) pool_id pool',
                               cs_next_proposal_id := sat_add_u64 pid 1\<rparr>) s))))"

definition v_vote_conviction :: "env \<Rightarrow> nat \<Rightarrow> nat \<Rightarrow> address \<Rightarrow> int \<Rightarrow> 'w governance \<Rightarrow> ('w, unit) gcall" where
  "v_vote_conviction e pool_id pid voter tokens =
     with_auth e voter (\<lambda>e s.
       if tokens \<le> 0 then (Err InvalidAmount, s)
       else attempt (find_pool pool_id s) s (\<lambda>pool.
            attempt (find_in_pool pid pool) s (\<lambda>p.
              if cp_status p \<noteq> ConvictionActive then (Err ProposalNotActive, s)
              else attempt (case smap_get (cp_votes p) voter of
                              Some v \<Rightarrow> bind_sum (update_conviction_vote e (get_conviction_calibration s) tokens v) (\<lambda>v'.
                                          Inr (p\<lparr>cp_votes := smap_set (cp_votes p) voter v'\<rparr>))
                            | None \<Rightarrow> Inr (p\<lparr>cp_votes := smap_set (cp_votes p) voter
                                               \<lparr>cv_voter = voter, cv_tokens_committed = tokens,
                                                cv_vote_started = ledger_timestamp e, cv_last_update = ledger_timestamp e,
                                                cv_current_conviction = 0\<rparr>,
                                             cp_voters := cp_voters p @ [voter]\<rparr>)) s (\<lambda>p'.
                     (Ok (), publish (store_pool pool_id (store_in_pool pid p' pool) s) [VSym ''gov'', VSym ''cvote'']
                        (VVec [VU64 pool_id, VU64 pid, VAddr voter, VI128 tokens]))))))"

definition execute_conviction_funding_internal :: "conviction_pool \<Rightarrow> conviction_proposal \<Rightarrow>
    (conviction_pool \<times> conviction_proposal) gresult" where
  "execute_conviction_funding_internal pool p =
     (if cp_conviction_accumulated p < cp_conviction_threshold p then Inl InvalidCommitteeAction
      else if pl_funding_amount pool < cp_requested_amount p then Inl InsufficientBalance
      else Inr (pool\<lparr>pl_funding_amount := saturating_sub (pl_funding_amount pool) (cp_requested_amount p)\<rparr>,
                p\<lparr>cp_status := ConvictionFunded, cp_funding_granted := cp_requested_amount p\<rparr>))"

fun conviction_loop :: "env \<Rightarrow> conviction_calibration \<Rightarrow> address list \<Rightarrow> (address, conviction_vote) smap \<Rightarrow> int \<Rightarrow>
    (address, conviction_vote) smap \<times> int" where
  "conviction_loop e cal [] votes acc = (votes, acc)"
| "conviction_loop e cal (a # as) votes acc =
     (case smap_get votes a of
        None \<Rightarrow> conviction_loop e cal as votes acc
      | Some v \<Rightarrow> let v' = update_vote_conviction e cal v
                  in conviction_loop e cal as (smap_set votes a v') (saturating_add acc (cv_current_conviction v')))"

definition v_update_proposal_conviction :: "env \<Rightarrow> nat \<Rightarrow> nat \<Rightarrow> 'w governance \<Rightarrow> ('w, int) gcall" where
  "v_update_proposal_conviction e pool_id pid s =
     attempt (find_pool pool_id s) s (\<lambda>pool.
     attempt (find_in_pool pid pool) s (\<lambda>p.
       let (votes, sum) = conviction_loop e (get_conviction_calibration s) (cp_voters p) (cp_votes p) 0;
           p1 = p\<lparr>cp_votes := votes, cp_conviction_accumulated := sum\<rparr>
       in attempt (if sum \<ge> cp_conviction_threshold p1 \<and> cp_status p1 = ConvictionActive
                   then execute_conviction_funding_internal pool p1 else Inr (pool, p1)) s (\<lambda>(pool', p').
            (Ok (cp_conviction_accumulated p'), store_pool pool_id (store_in_pool pid p' pool') s))))"

definition v_execute_conviction_funding :: "nat \<Rightarrow> nat \<Rightarrow> 'w governance \<Rightarrow> ('w, unit) gcall" where
  "v_execute_conviction_funding pool_id pid s =
     attempt (find_pool pool_id s) s (\<lambda>pool.
     attempt (find_in_pool pid pool) s (\<lambda>p.
     attempt (execute_conviction_funding_internal pool p) s (\<lambda>(pool', p').
       (Ok (), store_pool pool_id (store_in_pool pid p' pool') s))))"

definition without_vote :: "address \<Rightarrow> conviction_vote \<Rightarrow> conviction_proposal \<Rightarrow> conviction_proposal" where
  "without_vote voter v p =
     p\<lparr>cp_votes := smap_remove (cp_votes p) voter,
       cp_conviction_accumulated := saturating_sub (cp_conviction_accumulated p) (cv_current_conviction v)\<rparr>"

definition v_change_conviction_vote :: "env \<Rightarrow> nat \<Rightarrow> nat \<Rightarrow> nat \<Rightarrow> address \<Rightarrow> 'w governance \<Rightarrow> ('w, unit) gcall" where
  "v_change_conviction_vote e pool_id from_pid to_pid voter =
     with_auth e voter (\<lambda>e s.
       attempt (find_pool pool_id s) s (\<lambda>pool.
       attempt (find_in_pool from_pid pool) s (\<lambda>source.
       attempt (ok_or CrossCommitteeRequestNotFound (smap_get (cp_votes source) voter)) s (\<lambda>v.
       attempt (find_in_pool to_pid pool) s (\<lambda>target.
         let target' = target\<lparr>cp_votes := smap_set (cp_votes target) voter
                               \<lparr>cv_voter = voter, cv_tokens_committed = apply_vote_switch_decay (cv_tokens_committed v),
                                cv_vote_started = ledger_timestamp e, cv_last_update = ledger_timestamp e,
                                cv_current_conviction = 0\<rparr>,
                              cp_voters := (if voter \<in> set (cp_voters target) then cp_voters target
                                            else cp_voters target @ [voter])\<rparr>
         in (Ok (), store_pool pool_id
               (store_in_pool to_pid target' (store_in_pool from_pid (without_vote voter v source) pool)) s))))))"

definition v_refill_conviction_pool :: "env \<Rightarrow> nat \<Rightarrow> 'w governance \<Rightarrow> ('w, int) gcall" where
  "v_refill_conviction_pool e pool_id s =
     attempt (find_pool pool_id s) s (\<lambda>pool.
       let elapsed = ledger_timestamp e - pl_last_refill pool
       in if elapsed < pl_refill_period pool then (Ok 0, s)
          else let amount = saturating_mul (pl_refill_rate pool) (int (elapsed div pl_refill_period pool))
               in (Ok amount, store_pool pool_id
                     (pool\<lparr>pl_funding_amount := saturating_add (pl_funding_amount pool) amount,
                           pl_last_refill := ledger_timestamp e\<rparr>) s))"

definition v_withdraw_conviction_vote :: "env \<Rightarrow> nat \<Rightarrow> nat \<Rightarrow> address \<Rightarrow> 'w governance \<Rightarrow> ('w, int) gcall" where
  "v_withdraw_conviction_vote e pool_id pid voter =
     with_auth e voter (\<lambda>e s.
       attempt (find_pool pool_id s) s (\<lambda>pool.
       attempt (find_in_pool pid pool) s (\<lambda>p.
       attempt (ok_or CrossCommitteeRequestNotFound (smap_get (cp_votes p) voter)) s (\<lambda>v.
         (Ok (cv_current_conviction v), store_pool pool_id (store_in_pool pid (without_vote voter v p) pool) s)))))"

section \<open>Analysis\<close>

definition committed_tokens :: "conviction_proposal \<Rightarrow> int" where
  "committed_tokens p =
     fold (\<lambda>a acc. case smap_get (cp_votes p) a of None \<Rightarrow> acc | Some v \<Rightarrow> saturating_add acc (cv_tokens_committed v))
       (cp_voters p) 0"

definition vote_age :: "env \<Rightarrow> conviction_proposal \<Rightarrow> nat" where
  "vote_age e p =
     fold (\<lambda>a acc. case smap_get (cp_votes p) a of None \<Rightarrow> acc
                   | Some v \<Rightarrow> sat_add_u64 acc (ledger_timestamp e - cv_vote_started v))
       (cp_voters p) 0"

text \<open>The outer option is the overflow of the plain product of days and seconds.\<close>

definition estimate_conviction_completion :: "env \<Rightarrow> conviction_proposal \<Rightarrow> nat option option" where
  "estimate_conviction_completion e p =
     (let tokens = committed_tokens p
      in if cp_voters p = [] \<or> tokens \<le> 0 then Some None
         else let remaining = saturating_sub (cp_conviction_threshold p) (cp_conviction_accumulated p)
              in if remaining \<le> 0 then Some (Some (ledger_timestamp e))
                 else let seconds = i128_as_u64 (tdiv (saturating_mul remaining 1000) (max (saturating_mul tokens 10) 1)) * 86400
                      in if seconds > u64_max then None
                         else Some (Some (sat_add_u64 (ledger_timestamp e) seconds)))"

definition v_analyze_conviction_proposal :: "env \<Rightarrow> nat \<Rightarrow> nat \<Rightarrow> 'w governance \<Rightarrow> ('w, conviction_analytics) gcall" where
  "v_analyze_conviction_proposal e pool_id pid s =
     attempt (find_pool pool_id s) s (\<lambda>pool.
     attempt (find_in_pool pid pool) s (\<lambda>p.
       let voters = length (cp_voters p);
           progress = (if cp_conviction_threshold p > 0
                       then i128_as_u32 (tdiv (saturating_mul (cp_conviction_accumulated p) 10000) (cp_conviction_threshold p))
                       else 0)
       in or_panic (if progress < 10000 then estimate_conviction_completion e p else Some None) s (\<lambda>estimate.
            (Ok \<lparr>ca_proposal_id = pid, ca_total_voters = voters, ca_total_tokens_committed = committed_tokens p,
                 ca_current_conviction = cp_conviction_accumulated p,
                 ca_conviction_threshold = cp_conviction_threshold p, ca_progress_pct = progress,
                 ca_avg_vote_age_days = (if voters > 0 then as_u32 (vote_age e p div voters div 86400) else 0),
                 ca_estimated_funding_time = estimate\<rparr>, s))))"

definition projected_conviction :: "conviction_calibration \<Rightarrow> conviction_proposal \<Rightarrow> nat \<Rightarrow> int" where
  "projected_conviction cal p ts =
     fold (\<lambda>a acc. case smap_get (cp_votes p) a of None \<Rightarrow> acc
                   | Some v \<Rightarrow> saturating_add acc
                       (calculate_conviction (cv_tokens_committed v) (ts - cv_vote_started v) cal))
       (cp_voters p) 0"

text \<open>The counter of the days is a 32-bit number that is incremented after the last day.\<close>

definition v_get_conviction_growth_curve :: "env \<Rightarrow> nat \<Rightarrow> nat \<Rightarrow> nat \<Rightarrow> 'w governance \<Rightarrow> ('w, (nat \<times> int) list) gcall" where
  "v_get_conviction_growth_curve e pool_id pid days s =
     attempt (find_pool pool_id s) s (\<lambda>pool.
     attempt (find_in_pool pid pool) s (\<lambda>p.
       if days \<ge> u32_max then (Panic, s)
       else (Ok (map (\<lambda>day. let ts = sat_add_u64 (ledger_timestamp e) (day * 86400)
                            in (ts, projected_conviction (get_conviction_calibration s) p ts)) [0..<Suc days]), s)))"

section \<open>Entry points\<close>

definition create_conviction_pool :: "env \<Rightarrow> address \<Rightarrow> int \<Rightarrow> int \<Rightarrow> nat \<Rightarrow> 'w governance \<Rightarrow> ('w, nat) gcall" where
  "create_conviction_pool e admin funding refill_rate refill_period =
     gov_require_admin e admin (\<lambda>e. v_create_conviction_pool e funding refill_rate refill_period)"

definition conviction_pool_view :: "nat \<Rightarrow> 'w governance \<Rightarrow> conviction_pool gresult" where
  "conviction_pool_view pool_id s = bind_sum (require_initialized s) (\<lambda>_. find_pool pool_id s)"

definition create_conviction_proposal :: "env \<Rightarrow> nat \<Rightarrow> address \<Rightarrow> string \<Rightarrow> int \<Rightarrow> address \<Rightarrow> 'w governance \<Rightarrow> ('w, nat) gcall" where
  "create_conviction_proposal e pool_id author title requested beneficiary =
     when_initialized (v_create_conviction_proposal e pool_id author title requested beneficiary)"

definition vote_conviction :: "env \<Rightarrow> nat \<Rightarrow> nat \<Rightarrow> address \<Rightarrow> int \<Rightarrow> 'w governance \<Rightarrow> ('w, unit) gcall" where
  "vote_conviction e pool_id pid voter tokens = when_initialized (v_vote_conviction e pool_id pid voter tokens)"

definition update_proposal_conviction :: "env \<Rightarrow> nat \<Rightarrow> nat \<Rightarrow> 'w governance \<Rightarrow> ('w, int) gcall" where
  "update_proposal_conviction e pool_id pid = when_initialized (v_update_proposal_conviction e pool_id pid)"

definition execute_conviction_funding :: "nat \<Rightarrow> nat \<Rightarrow> 'w governance \<Rightarrow> ('w, unit) gcall" where
  "execute_conviction_funding pool_id pid = when_initialized (v_execute_conviction_funding pool_id pid)"

definition change_conviction_vote :: "env \<Rightarrow> nat \<Rightarrow> nat \<Rightarrow> nat \<Rightarrow> address \<Rightarrow> 'w governance \<Rightarrow> ('w, unit) gcall" where
  "change_conviction_vote e pool_id from_pid to_pid voter =
     when_initialized (v_change_conviction_vote e pool_id from_pid to_pid voter)"

definition refill_conviction_pool :: "env \<Rightarrow> nat \<Rightarrow> 'w governance \<Rightarrow> ('w, int) gcall" where
  "refill_conviction_pool e pool_id = when_initialized (v_refill_conviction_pool e pool_id)"

definition withdraw_conviction_vote :: "env \<Rightarrow> nat \<Rightarrow> nat \<Rightarrow> address \<Rightarrow> 'w governance \<Rightarrow> ('w, int) gcall" where
  "withdraw_conviction_vote e pool_id pid voter = when_initialized (v_withdraw_conviction_vote e pool_id pid voter)"

definition analyze_conviction_proposal :: "env \<Rightarrow> nat \<Rightarrow> nat \<Rightarrow> 'w governance \<Rightarrow> ('w, conviction_analytics) gcall" where
  "analyze_conviction_proposal e pool_id pid = when_initialized (v_analyze_conviction_proposal e pool_id pid)"

definition conviction_growth_curve :: "env \<Rightarrow> nat \<Rightarrow> nat \<Rightarrow> nat \<Rightarrow> 'w governance \<Rightarrow> ('w, (nat \<times> int) list) gcall" where
  "conviction_growth_curve e pool_id pid days = when_initialized (v_get_conviction_growth_curve e pool_id pid days)"

definition set_conviction_calibration :: "env \<Rightarrow> address \<Rightarrow> conviction_calibration \<Rightarrow> 'w governance \<Rightarrow> ('w, conviction_calibration) gcall" where
  "set_conviction_calibration e admin c =
     gov_require_admin e admin (\<lambda>e s.
       if cc_penalty_multiplier c = 0 \<or> cc_reward_bonus_pct c > 100 then (Err InvalidCalibrationConfig, s)
       else and_then (put_conviction_calibration c s) (\<lambda>_ s. (Ok c, s)))"

definition set_conviction_decay_rate :: "env \<Rightarrow> address \<Rightarrow> nat \<Rightarrow> 'w governance \<Rightarrow> ('w, unit) gcall" where
  "set_conviction_decay_rate e admin rate = gov_require_admin e admin (\<lambda>e. v_set_conviction_decay_rate rate)"

end
