(* ===== verification/Governance_Admin.thy ===== *)
theory Governance_Admin
  imports Governance_Conviction
begin

text \<open>
  The life of the governance contract outside its ballots: initialisation, rotation and revocation of the
  administrator's key, the guardian, the pause with its propagation, capabilities (\<^verbatim>\<open>lib.rs\<close>), the shadow mode
  of an upgrade trial (\<^verbatim>\<open>shadow_mode.rs\<close>) and the health probe.

  The contracts that receive a propagated pause are a parameter \<open>pause_impl\<close> over the state outside the contract:
  a successful call gives the new outside state, \<open>None\<close> is a failed call, whose writes the host discards.
\<close>

section \<open>Initialisation\<close>

definition fresh_storage :: "address \<Rightarrow> string \<Rightarrow> string \<Rightarrow> nat \<Rightarrow> int \<Rightarrow> 'w governance \<Rightarrow> 'w governance" where
  "fresh_storage admin name symb decimals supply_total s =
     s\<lparr>gk_admin := Some admin,
       gk_token := (gk_token s)
         \<lparr>tk_metadata := Some \<lparr>md_name = name, md_symbol = symb, md_decimals = decimals, md_total_supply = supply_total\<rparr>,
          tk_balances := [], tk_staked_balances := [], tk_pending_rewards_instance := Some [],
          tk_vesting_schedules_instance := Some [], tk_vote_locks_instance := Some [], tk_holders := []\<rparr>,
       gk_treasury := Some empty_treasury,
       gk_committees := Some empty_committees_state,
       gk_ballot := (gk_ballot s)
         \<lparr>bk_governance_config := Some default_governance_config, bk_proposals_state := Some empty_proposals_state,
          bk_delegations := Some empty_delegation_state, bk_reputation_state := Some empty_reputation_state,
          bk_parameters := (\<lambda>_. None), bk_features := (\<lambda>_. None), bk_upgrades := (\<lambda>_. None),
          bk_vote_records := (\<lambda>_ _. None)\<rparr>,
       gk_conviction_state := Some empty_conviction_state\<rparr>"

definition gov_initialize :: "env \<Rightarrow> address \<Rightarrow> string \<Rightarrow> string \<Rightarrow> nat \<Rightarrow> int \<Rightarrow> distribution_recipients \<Rightarrow>
    'w governance \<Rightarrow> ('w, unit) gcall" where
  "gov_initialize e admin name symb decimals supply_total recipients =
     with_auth e admin (\<lambda>e s.
       if gov_is_initialized s then (Err AlreadyInitialized, s)
       else if supply_total \<le> 0 then (Err InvalidSupply, s)
       else if name = [] \<or> symb = [] then (Err InvalidMetadata, s)
       else and_then (initialize_distribution e recipients supply_total DEFAULT_LIQUIDITY_REWARD_BPS
                        DEFAULT_MIN_CLAIM_THRESHOLD (fresh_storage admin name symb decimals supply_total s)) (\<lambda>d s.
              let s1 = s\<lparr>gk_initialized := Some True, gk_storage_version := Some 1, k_paused := Some False\<rparr>;
                  s2 = fold track_holder [dr_team recipients, dr_early_investors recipients,
                         dr_community_rewards recipients, dr_treasury recipients, dr_public_sale recipients] s1;
                  s3 = put_ballot (\<lambda>b. b\<lparr>bk_treasury_address := Some (dr_treasury recipients)\<rparr>) s2
              in (Ok (), emit_distribution_initialized d (emit_initialized_gov admin name symb supply_total s3))))"

definition gov_health_check :: "address \<Rightarrow> string \<Rightarrow> env \<Rightarrow> 'w governance \<Rightarrow> health_status \<times> 'w governance" where
  "gov_health_check placeholder version e s =
     (if \<not> gov_is_initialized s
      then (\<lparr>is_initialized_flag = False, is_paused_flag = False, health_version = version,
             health_admin = placeholder, initialized_at = 0\<rparr>, s)
      else let status = \<lparr>is_initialized_flag = True, is_paused_flag = is_paused s, health_version = version,
                         health_admin = get_or placeholder (gk_admin s), initialized_at = ledger_timestamp e\<rparr>
           in (status, publish s [VSym ''health''] (health_body status)))"

section \<open>The administrator and the guardian\<close>

definition propose_key_rotation :: "env \<Rightarrow> address \<Rightarrow> address \<Rightarrow> 'w governance \<Rightarrow> ('w, unit) gcall" where
  "propose_key_rotation e admin new_admin =
     gov_require_admin e admin (\<lambda>e s.
       if new_admin = admin then (Err InvalidMetadata, s)
       else (Ok (), s\<lparr>gk_pending_admin := Some new_admin\<rparr>))"

definition accept_key_rotation :: "address \<Rightarrow> 'w governance \<Rightarrow> ('w, unit) gcall" where
  "accept_key_rotation new_admin s =
     attempt (ok_or Unauthorized (gk_pending_admin s)) s (\<lambda>pending.
       if pending \<noteq> new_admin then (Err Unauthorized, s)
       else (Ok (), s\<lparr>gk_admin := Some new_admin, gk_pending_admin := None\<rparr>))"

definition cancel_key_rotation :: "env \<Rightarrow> address \<Rightarrow> 'w governance \<Rightarrow> ('w, unit) gcall" where
  "cancel_key_rotation e admin = gov_require_admin e admin (\<lambda>e s. (Ok (), s\<lparr>gk_pending_admin := None\<rparr>))"

definition emergency_revoke_admin :: "env \<Rightarrow> address \<Rightarrow> 'w governance \<Rightarrow> ('w, unit) gcall" where
  "emergency_revoke_admin e guardian s =
     attempt (ok_or Unauthorized (gk_guardian s)) s (\<lambda>stored.
       if stored \<noteq> guardian then (Err Unauthorized, s)
       else with_auth e guardian (\<lambda>e s.
              (Ok (), s\<lparr>gk_admin := None, gk_pending_admin := None, gk_initialized := None\<rparr>)) s)"

definition do_set_guardian :: "address \<Rightarrow> 'w governance \<Rightarrow> ('w, unit) gcall" where
  "do_set_guardian guardian s = (Ok (), s\<lparr>gk_guardian := Some guardian\<rparr>)"

definition set_guardian :: "env \<Rightarrow> address \<Rightarrow> address \<Rightarrow> 'w governance \<Rightarrow> ('w, unit) gcall" where
  "set_guardian e admin guardian = direct_admin e admin (\<lambda>e. do_set_guardian guardian)"

section \<open>The pause and its propagation\<close>

type_synonym 'w pause_impl = "address \<Rightarrow> bool \<Rightarrow> 'w \<Rightarrow> 'w option"

fun propagate_pause_to_downstream :: "'w pause_impl \<Rightarrow> bool \<Rightarrow> address list \<Rightarrow> 'w governance \<Rightarrow> 'w governance" where
  "propagate_pause_to_downstream D paused [] s = s"
| "propagate_pause_to_downstream D paused (a # as) s =
     propagate_pause_to_downstream D paused as
       (case D a paused (gk_outside s) of
          Some w \<Rightarrow> s\<lparr>gk_outside := w\<rparr>
        | None \<Rightarrow> publish s [VSym ''pause_propagation_failed''] (VVec [VAddr a, VBool paused]))"

definition set_contract_paused :: "'w pause_impl \<Rightarrow> env \<Rightarrow> address \<Rightarrow> bool \<Rightarrow> 'w governance \<Rightarrow> ('w, unit) gcall" where
  "set_contract_paused D e admin paused =
     require_capability e admin CapPause (\<lambda>e s.
       (Ok (), propagate_pause_to_downstream D paused (gk_pause_targets s) (set_paused s paused)))"

definition register_pause_target :: "env \<Rightarrow> address \<Rightarrow> address \<Rightarrow> 'w governance \<Rightarrow> ('w, unit) gcall" where
  "register_pause_target e admin target =
     require_capability e admin CapPause (\<lambda>e s.
       (Ok (), if target \<in> set (gk_pause_targets s) then s
               else s\<lparr>gk_pause_targets := gk_pause_targets s @ [target]\<rparr>))"

definition unregister_pause_target :: "env \<Rightarrow> address \<Rightarrow> address \<Rightarrow> 'w governance \<Rightarrow> ('w, unit) gcall" where
  "unregister_pause_target e admin target =
     require_capability e admin CapPause (\<lambda>e s.
       (Ok (), s\<lparr>gk_pause_targets := filter (\<lambda>a. a \<noteq> target) (gk_pause_targets s)\<rparr>))"

section \<open>Capabilities\<close>

definition grant_capability_call :: "env \<Rightarrow> address \<Rightarrow> address \<Rightarrow> capability \<Rightarrow> 'w governance \<Rightarrow> ('w, unit) gcall" where
  "grant_capability_call e caller target cap =
     when_initialized (require_capability e caller CapSuperAdmin (\<lambda>e s.
       attempt (require_no_timelock_bypass s) s (\<lambda>_. (Ok (), grant_capability caller target cap s))))"

definition revoke_capability_call :: "env \<Rightarrow> address \<Rightarrow> address \<Rightarrow> capability \<Rightarrow> 'w governance \<Rightarrow> ('w, unit) gcall" where
  "revoke_capability_call e caller target cap =
     when_initialized (require_capability e caller CapSuperAdmin (\<lambda>e s.
       attempt (require_no_timelock_bypass s) s (\<lambda>_. (Ok (), revoke_capability caller target cap s))))"

definition has_capability_view :: "address \<Rightarrow> capability \<Rightarrow> 'w governance \<Rightarrow> bool gresult" where
  "has_capability_view target cap = view (has_capability target cap)"

definition list_capabilities_view :: "address \<Rightarrow> 'w governance \<Rightarrow> capability list gresult" where
  "list_capabilities_view target = view (list_capabilities target)"

section \<open>Shadow mode\<close>

definition m_enter_shadow_mode :: "env \<Rightarrow> address \<Rightarrow> bytes \<Rightarrow> nat \<Rightarrow> 'w governance \<Rightarrow> ('w, shadow_mode_state) gcall" where
  "m_enter_shadow_mode e admin hash trial =
     gov_require_admin e admin (\<lambda>e s.
       if length hash \<noteq> 32 then (Err InvalidProposal, s)
       else if trial = 0 then (Err InvalidDuration, s)
       else let st = \<lparr>sm_trial_ends_at = sat_add_u64 (ledger_timestamp e) trial, sm_new_wasm_hash = hash, sm_promoted = False\<rparr>
            in (Ok st, publish (s\<lparr>gk_shadow_mode := Some st\<rparr>) [VSym ''shadow'', VSym ''enter'']
                  (VVec [VAddr admin, VU64 (sm_trial_ends_at st)])))"

definition compare_shadow_results :: "env \<Rightarrow> nat \<Rightarrow> bytes \<Rightarrow> bytes \<Rightarrow> 'w governance \<Rightarrow> bool \<times> 'w governance" where
  "compare_shadow_results e entrypoint old_hash new_hash s =
     (case gk_shadow_mode s of
        None \<Rightarrow> (True, s)
      | Some st \<Rightarrow>
          if sm_promoted st \<or> ledger_timestamp e > sm_trial_ends_at st then (True, s)
          else if old_hash = new_hash then (True, s)
          else (False, publish s [VSym ''shadow'', VSym ''discrep'']
                  (VVec [VU32 entrypoint, VBytes old_hash, VBytes new_hash])))"

definition is_in_shadow_mode :: "env \<Rightarrow> 'w governance \<Rightarrow> bool" where
  "is_in_shadow_mode e s =
     (case gk_shadow_mode s of
        Some st \<Rightarrow> \<not> sm_promoted st \<and> ledger_timestamp e \<le> sm_trial_ends_at st
      | None \<Rightarrow> False)"

definition m_promote_from_shadow_mode :: "env \<Rightarrow> address \<Rightarrow> 'w governance \<Rightarrow> ('w, unit) gcall" where
  "m_promote_from_shadow_mode e admin =
     gov_require_admin e admin (\<lambda>e s.
       attempt (ok_or NotInitialized (gk_shadow_mode s)) s (\<lambda>st.
         (Ok (), publish (s\<lparr>gk_shadow_mode := Some (st\<lparr>sm_promoted := True\<rparr>)\<rparr>) [VSym ''shadow'', VSym ''promote'']
            (VAddr admin))))"

definition m_cancel_shadow_mode :: "env \<Rightarrow> address \<Rightarrow> 'w governance \<Rightarrow> ('w, unit) gcall" where
  "m_cancel_shadow_mode e admin =
     gov_require_admin e admin (\<lambda>e s.
       if gk_shadow_mode s = None then (Err NotInitialized, s)
       else (Ok (), publish (s\<lparr>gk_shadow_mode := None\<rparr>) [VSym ''shadow'', VSym ''cancel''] (VAddr admin)))"

definition enter_shadow_mode :: "env \<Rightarrow> address \<Rightarrow> bytes \<Rightarrow> nat \<Rightarrow> 'w governance \<Rightarrow> ('w, shadow_mode_state) gcall" where
  "enter_shadow_mode e admin hash trial =
     when_initialized (\<lambda>s. attempt (require_no_timelock_bypass s) s (\<lambda>_. m_enter_shadow_mode e admin hash trial s))"

definition promote_from_shadow_mode :: "env \<Rightarrow> address \<Rightarrow> 'w governance \<Rightarrow> ('w, unit) gcall" where
  "promote_from_shadow_mode e admin =
     when_initialized (\<lambda>s. attempt (require_no_timelock_bypass s) s (\<lambda>_. m_promote_from_shadow_mode e admin s))"

definition cancel_shadow_mode :: "env \<Rightarrow> address \<Rightarrow> 'w governance \<Rightarrow> ('w, unit) gcall" where
  "cancel_shadow_mode e admin = when_initialized (m_cancel_shadow_mode e admin)"

end
