(* ===== verification/Governance_Timelock.thy ===== *)
theory Governance_Timelock
  imports Governance_Admin
begin

text \<open>
  The two time-locks of the governance contract (\<^verbatim>\<open>timelock.rs\<close> and its entry points in \<^verbatim>\<open>lib.rs\<close>): the queue of
  approved proposals with its guardian, and the queue of the administrator's critical actions with the
  \<^verbatim>\<open>queue_*\<close> and \<^verbatim>\<open>*_timelocked\<close> pairs and the latch that closes the direct entry points.
\<close>

section \<open>The queue of approved proposals\<close>

fun position :: "('a \<Rightarrow> bool) \<Rightarrow> 'a list \<Rightarrow> nat option" where
  "position P [] = None"
| "position P (x # xs) = (if P x then Some 0 else map_option Suc (position P xs))"

definition STUCK_GRACE_PERIOD :: nat where "STUCK_GRACE_PERIOD = 86400"
definition ADMIN_ACTION_DELAY :: nat where "ADMIN_ACTION_DELAY = 2 * 86400"

definition default_delays :: "timelock_action \<Rightarrow> nat option" where
  "default_delays a = Some (case a of ActTreasurySpend \<Rightarrow> 2 * 86400 | ActParameterChange \<Rightarrow> 3 * 86400
     | ActContractUpgrade \<Rightarrow> 5 * 86400 | ActEmergencyPause \<Rightarrow> 0 | ActCustom \<Rightarrow> 2 * 86400)"

definition m_initialize_timelock :: "nat \<Rightarrow> nat \<Rightarrow> address \<Rightarrow> 'w governance \<Rightarrow> ('w, timelock) gcall" where
  "m_initialize_timelock min_delay max_delay guardian s =
     (if min_delay < 3600 \<or> max_delay > 7 * 86400 \<or> min_delay > max_delay then (Err InvalidTimelockConfig, s)
      else let t = \<lparr>tl_queued_actions = [], tl_delay_config = default_delays, tl_min_delay = min_delay,
                    tl_max_delay = max_delay, tl_guardian = guardian, tl_next_action_id = 1\<rparr>
           in (Ok t, s\<lparr>gk_timelock := Some t, gk_guardian := Some guardian\<rparr>))"

definition get_timelock :: "'w governance \<Rightarrow> timelock gresult" where
  "get_timelock s = ok_or TimelockNotInitialized (gk_timelock s)"

definition put_timelock :: "timelock \<Rightarrow> 'w governance \<Rightarrow> 'w governance" where
  "put_timelock t s = s\<lparr>gk_timelock := Some t\<rparr>"

definition get_queued_action :: "nat \<Rightarrow> 'w governance \<Rightarrow> queued_action gresult" where
  "get_queued_action aid s =
     bind_sum (get_timelock s) (\<lambda>t.
       ok_or ActionNotFound (map_option ((!) (tl_queued_actions t)) (position (\<lambda>a. qa_id a = aid) (tl_queued_actions t))))"

fun classify_proposal_action :: "proposal_type \<Rightarrow> timelock_action" where
  "classify_proposal_action (TreasurySpend _ _ _ _) = ActTreasurySpend"
| "classify_proposal_action (ParameterChange _ _ _) = ActParameterChange"
| "classify_proposal_action (ContractUpgrade _ _) = ActContractUpgrade"
| "classify_proposal_action _ = ActCustom"

definition push_action :: "queued_action \<Rightarrow> timelock \<Rightarrow> timelock" where
  "push_action a t =
     t\<lparr>tl_queued_actions := tl_queued_actions t @ [a], tl_next_action_id := sat_add_u64 (tl_next_action_id t) 1\<rparr>"

definition m_queue_action :: "env \<Rightarrow> nat \<Rightarrow> 'w governance \<Rightarrow> ('w, nat) gcall" where
  "m_queue_action e pid s =
     attempt (get_proposal pid s) s (\<lambda>p.
       if gp_status p \<noteq> Succeeded then (Err ProposalNotApproved, s)
       else attempt (get_timelock s) s (\<lambda>t.
              let kind = classify_proposal_action (gp_type p);
                  delay = get_or (tl_min_delay t) (tl_delay_config t kind);
                  now = ledger_timestamp e; aid = tl_next_action_id t
              in if list_ex (\<lambda>a. qa_proposal_id a = pid \<and> \<not> qa_executed a \<and> \<not> qa_cancelled a) (tl_queued_actions t)
                 then (Err InvalidCommitteeAction, s)
                 else (Ok aid, put_timelock (push_action
                         \<lparr>qa_id = aid, qa_action_type = kind, qa_proposal_id = pid,
                          qa_execution_payload = gp_execution_payload p, qa_queued_at = now,
                          qa_execution_available = sat_add_u64 now delay, qa_executed = False, qa_cancelled = False\<rparr> t) s)))"

text \<open>The search loop that all operations on one queued action begin with.\<close>

definition with_queued :: "nat \<Rightarrow> timelock \<Rightarrow> (nat \<Rightarrow> queued_action \<Rightarrow> 'w governance \<Rightarrow> ('w, 'a) gcall) \<Rightarrow>
    'w governance \<Rightarrow> ('w, 'a) gcall" where
  "with_queued aid t f s =
     (case position (\<lambda>a. qa_id a = aid) (tl_queued_actions t) of
        None \<Rightarrow> (Err ActionNotFound, s)
      | Some i \<Rightarrow> f i (tl_queued_actions t ! i) s)"

definition set_queued :: "nat \<Rightarrow> queued_action \<Rightarrow> timelock \<Rightarrow> 'w governance \<Rightarrow> 'w governance" where
  "set_queued i a t = put_timelock (t\<lparr>tl_queued_actions := (tl_queued_actions t)[i := a]\<rparr>)"

definition run_queued :: "env \<Rightarrow> timelock \<Rightarrow> nat \<Rightarrow> queued_action \<Rightarrow> 'w governance \<Rightarrow> ('w, unit) gcall" where
  "run_queued e t i a s =
     and_then (execute_proposal_action_by_id (qa_proposal_id a) s) (\<lambda>_ s.
       mark_proposal_executed e (qa_proposal_id a) (set_queued i (a\<lparr>qa_executed := True\<rparr>) t s))"

definition m_execute_queued_action :: "env \<Rightarrow> nat \<Rightarrow> address \<Rightarrow> 'w governance \<Rightarrow> ('w, unit) gcall" where
  "m_execute_queued_action e aid executor =
     with_auth e executor (\<lambda>e s.
       attempt (get_timelock s) s (\<lambda>t. with_queued aid t (\<lambda>i a s.
         if qa_executed a \<or> qa_cancelled a then (Err InvalidCommitteeAction, s)
         else if ledger_timestamp e < qa_execution_available a then (Err InvalidDuration, s)
         else run_queued e t i a s) s))"

definition m_emergency_unblock_action :: "env \<Rightarrow> nat \<Rightarrow> address \<Rightarrow> 'w governance \<Rightarrow> ('w, unit) gcall" where
  "m_emergency_unblock_action e aid guardian =
     with_auth e guardian (\<lambda>e s.
       attempt (get_timelock s) s (\<lambda>t.
         if guardian \<noteq> tl_guardian t then (Err Unauthorized, s)
         else with_queued aid t (\<lambda>i a s.
           if qa_executed a \<or> qa_cancelled a then (Err InvalidCommitteeAction, s)
           else if ledger_timestamp e < sat_add_u64 (qa_execution_available a) STUCK_GRACE_PERIOD
           then (Err InvalidDuration, s)
           else run_queued e t i a s) s))"

definition m_emergency_execute :: "env \<Rightarrow> nat \<Rightarrow> address \<Rightarrow> 'w governance \<Rightarrow> ('w, unit) gcall" where
  "m_emergency_execute e aid guardian =
     with_auth e guardian (\<lambda>e s.
       attempt (get_timelock s) s (\<lambda>t.
         if guardian \<noteq> tl_guardian t then (Err Unauthorized, s)
         else with_queued aid t (\<lambda>i a s.
           if qa_action_type a \<noteq> ActEmergencyPause then (Err InvalidCommitteeAction, s)
           else if qa_executed a \<or> qa_cancelled a then (Err InvalidCommitteeAction, s)
           else run_queued e t i a s) s))"

definition m_cancel_queued_action :: "env \<Rightarrow> nat \<Rightarrow> address \<Rightarrow> 'w governance \<Rightarrow> ('w, unit) gcall" where
  "m_cancel_queued_action e aid canceller =
     with_auth e canceller (\<lambda>e s.
       attempt (get_timelock s) s (\<lambda>t.
       attempt (ok_or NotInitialized (gk_admin s)) s (\<lambda>admin.
         if canceller \<noteq> tl_guardian t \<and> canceller \<noteq> admin then (Err Unauthorized, s)
         else with_queued aid t (\<lambda>i a s.
           if qa_executed a \<or> qa_cancelled a then (Err InvalidCommitteeAction, s)
           else let s1 = set_queued i (a\<lparr>qa_cancelled := True\<rparr>) t s
                in attempt (get_proposal (qa_proposal_id a) s1) s1 (\<lambda>p.
                     put_proposal (p\<lparr>gp_status := Cancelled\<rparr>) s1)) s)))"

definition m_update_timelock_delay :: "timelock_action \<Rightarrow> nat \<Rightarrow> 'w governance \<Rightarrow> ('w, unit) gcall" where
  "m_update_timelock_delay kind new_delay s =
     attempt (get_timelock s) s (\<lambda>t.
       if new_delay < tl_min_delay t \<or> new_delay > tl_max_delay t then (Err InvalidDuration, s)
       else (Ok (), put_timelock (t\<lparr>tl_delay_config := (tl_delay_config t)(kind := Some new_delay)\<rparr>) s))"

definition m_extend_execution_window :: "nat \<Rightarrow> nat \<Rightarrow> 'w governance \<Rightarrow> ('w, nat) gcall" where
  "m_extend_execution_window aid extension s =
     (if extension > 7 * 86400 then (Err InvalidDuration, s)
      else attempt (get_timelock s) s (\<lambda>t. with_queued aid t (\<lambda>i a s.
        if qa_executed a \<or> qa_cancelled a then (Err InvalidCommitteeAction, s)
        else let available = sat_add_u64 (qa_execution_available a) extension
             in (Ok available, set_queued i (a\<lparr>qa_execution_available := available\<rparr>) t s)) s))"

fun multiple_loop :: "env \<Rightarrow> address \<Rightarrow> nat list \<Rightarrow> nat list \<Rightarrow> 'w governance \<Rightarrow> ('w, nat list) gcall" where
  "multiple_loop e executor [] executed s = (Ok executed, s)"
| "multiple_loop e executor (aid # rest) executed s =
     (case m_execute_queued_action e aid executor s of
        (Ok _, s1) \<Rightarrow> multiple_loop e executor rest (executed @ [aid]) s1
      | (Err _, s1) \<Rightarrow> multiple_loop e executor rest executed s1
      | (Panic, s1) \<Rightarrow> (Panic, s1))"

definition m_execute_multiple_actions :: "env \<Rightarrow> nat list \<Rightarrow> address \<Rightarrow> 'w governance \<Rightarrow> ('w, nat list) gcall" where
  "m_execute_multiple_actions e aids executor =
     with_auth e executor (\<lambda>e s.
       if length aids > 10 then (Err InvalidAmount, s) else multiple_loop e executor aids [] s)"

text \<open>The analytics multiply a 32-bit counter by 10000 without a check; an overflow traps.\<close>

definition count_type :: "queued_action \<Rightarrow> (timelock_action \<Rightarrow> nat option) \<Rightarrow> timelock_action \<Rightarrow> nat option" where
  "count_type a by_type = by_type(qa_action_type a := Some (sat_add_u32 (get_or 0 (by_type (qa_action_type a))) 1))"

definition generate_timelock_analytics :: "'w governance \<Rightarrow> ('w, timelock_analytics) gcall" where
  "generate_timelock_analytics s =
     attempt (get_timelock s) s (\<lambda>t.
       let actions = tl_queued_actions t;
           executed = min u32_max (length (filter qa_executed actions));
           cancelled = min u32_max (length (filter qa_cancelled actions));
           waited = fold (\<lambda>a acc. sat_add_u64 acc (qa_execution_available a - qa_queued_at a)) (filter qa_executed actions) 0
       in if cancelled * 10000 > u32_max then (Panic, s)
          else (Ok \<lparr>ta_total_queued = length actions, ta_total_executed = executed, ta_total_cancelled = cancelled,
                    ta_avg_wait_time = (if executed = 0 then 0 else waited div executed),
                    ta_actions_by_type = fold count_type actions (\<lambda>_. None),
                    ta_cancellation_rate = (if length actions = 0 then 0 else cancelled * 10000 div length actions)\<rparr>, s))"

section \<open>The queue of administrative actions\<close>

definition queue_admin_action :: "env \<Rightarrow> address \<Rightarrow> symbol \<Rightarrow> 'w governance \<Rightarrow> ('w, nat) gcall" where
  "queue_admin_action e caller kind s =
     attempt (get_timelock s) s (\<lambda>t.
       let now = ledger_timestamp e; aid = tl_next_action_id t; available = sat_add_u64 now ADMIN_ACTION_DELAY;
           s1 = put_timelock (push_action
                  \<lparr>qa_id = aid, qa_action_type = ActCustom, qa_proposal_id = 0, qa_execution_payload = [],
                   qa_queued_at = now, qa_execution_available = available, qa_executed = False, qa_cancelled = False\<rparr> t) s
       in (Ok aid, s1\<lparr>gk_admin_pending := gk_admin_pending s1 @
             [\<lparr>at_id = aid, at_action_type = kind, at_caller = caller, at_queued_at = now,
               at_execution_available = available, at_executed = False, at_cancelled = False\<rparr>]\<rparr>))"

definition get_admin_action_execution_available :: "nat \<Rightarrow> 'w governance \<Rightarrow> nat gresult" where
  "get_admin_action_execution_available aid s =
     ok_or ActionNotFound (map_option (\<lambda>i. at_execution_available (gk_admin_pending s ! i))
       (position (\<lambda>x. at_id x = aid) (gk_admin_pending s)))"

definition with_pending :: "nat \<Rightarrow> (nat \<Rightarrow> admin_timelock_entry \<Rightarrow> ('w, 'a) gcall) \<Rightarrow> 'w governance \<Rightarrow> ('w, 'a) gcall" where
  "with_pending aid f s =
     (case position (\<lambda>x. at_id x = aid) (gk_admin_pending s) of
        None \<Rightarrow> (Err ActionNotFound, s)
      | Some i \<Rightarrow> f i (gk_admin_pending s ! i))"

text \<open>
  The rest of the caller runs as the continuation \<open>f\<close>, without the authorisation used here. What it receives is the
  name under which the action was queued; every caller ignores it.
\<close>

definition execute_admin_action :: "env \<Rightarrow> nat \<Rightarrow> address \<Rightarrow> (env \<Rightarrow> symbol \<Rightarrow> 'w governance \<Rightarrow> ('w, 'a) gcall) \<Rightarrow>
    'w governance \<Rightarrow> ('w, 'a) gcall" where
  "execute_admin_action e aid caller f =
     with_auth e caller (\<lambda>e s.
       attempt (get_admin_action_execution_available aid s) s (\<lambda>available.
         if ledger_timestamp e < available then (Err InvalidDuration, s)
         else with_pending aid (\<lambda>i x.
           if at_executed x \<or> at_cancelled x then (Err InvalidCommitteeAction, s)
           else if at_caller x \<noteq> caller then (Err Unauthorized, s)
           else f e (at_action_type x)
                  (s\<lparr>gk_admin_pending := (gk_admin_pending s)[i := x\<lparr>at_executed := True\<rparr>]\<rparr>)) s))"

definition m_cancel_admin_action :: "env \<Rightarrow> nat \<Rightarrow> address \<Rightarrow> 'w governance \<Rightarrow> ('w, unit) gcall" where
  "m_cancel_admin_action e aid canceller =
     with_auth e canceller (\<lambda>e s.
       attempt (ok_or NotInitialized (gk_admin s)) s (\<lambda>admin.
         if canceller \<noteq> admin then (Err Unauthorized, s)
         else with_pending aid (\<lambda>i x.
           if at_executed x \<or> at_cancelled x then (Err InvalidCommitteeAction, s)
           else (Ok (), s\<lparr>gk_admin_pending := (gk_admin_pending s)[i := x\<lparr>at_cancelled := True\<rparr>]\<rparr>)) s))"

section \<open>Entry points of the proposal queue\<close>

definition initialize_timelock :: "env \<Rightarrow> address \<Rightarrow> nat \<Rightarrow> nat \<Rightarrow> address \<Rightarrow> 'w governance \<Rightarrow> ('w, timelock) gcall" where
  "initialize_timelock e admin min_delay max_delay guardian =
     require_capability e admin CapParameterChange (\<lambda>e. m_initialize_timelock min_delay max_delay guardian)"

definition queue_action :: "env \<Rightarrow> nat \<Rightarrow> 'w governance \<Rightarrow> ('w, nat) gcall" where
  "queue_action e pid = when_running (m_queue_action e pid)"

definition execute_queued_action :: "env \<Rightarrow> nat \<Rightarrow> address \<Rightarrow> 'w governance \<Rightarrow> ('w, unit) gcall" where
  "execute_queued_action e aid executor = when_running (m_execute_queued_action e aid executor)"

definition cancel_queued_action :: "env \<Rightarrow> nat \<Rightarrow> address \<Rightarrow> 'w governance \<Rightarrow> ('w, unit) gcall" where
  "cancel_queued_action e aid canceller = when_initialized (m_cancel_queued_action e aid canceller)"

definition update_timelock_delay :: "env \<Rightarrow> address \<Rightarrow> timelock_action \<Rightarrow> nat \<Rightarrow> 'w governance \<Rightarrow> ('w, unit) gcall" where
  "update_timelock_delay e admin kind new_delay = direct_admin e admin (\<lambda>e. m_update_timelock_delay kind new_delay)"

definition emergency_execute :: "env \<Rightarrow> nat \<Rightarrow> address \<Rightarrow> 'w governance \<Rightarrow> ('w, unit) gcall" where
  "emergency_execute e aid guardian = when_initialized (m_emergency_execute e aid guardian)"

definition emergency_unblock_action :: "env \<Rightarrow> nat \<Rightarrow> address \<Rightarrow> 'w governance \<Rightarrow> ('w, unit) gcall" where
  "emergency_unblock_action e aid guardian = when_initialized (m_emergency_unblock_action e aid guardian)"

definition queued_action_view :: "nat \<Rightarrow> 'w governance \<Rightarrow> queued_action gresult" where
  "queued_action_view aid s = bind_sum (require_initialized s) (\<lambda>_. get_queued_action aid s)"

definition timelock_analytics_view :: "'w governance \<Rightarrow> ('w, timelock_analytics) gcall" where
  "timelock_analytics_view = when_initialized generate_timelock_analytics"

definition extend_execution_window :: "env \<Rightarrow> address \<Rightarrow> nat \<Rightarrow> nat \<Rightarrow> 'w governance \<Rightarrow> ('w, nat) gcall" where
  "extend_execution_window e admin aid extension = gov_require_admin e admin (\<lambda>e. m_extend_execution_window aid extension)"

definition execute_multiple_actions :: "env \<Rightarrow> nat list \<Rightarrow> address \<Rightarrow> 'w governance \<Rightarrow> ('w, nat list) gcall" where
  "execute_multiple_actions e aids executor = when_running (m_execute_multiple_actions e aids executor)"

section \<open>Queueing administrative actions\<close>

text \<open>None of the arguments of an action is stored with it.\<close>

definition queue_by_admin :: "env \<Rightarrow> address \<Rightarrow> symbol \<Rightarrow> 'w governance \<Rightarrow> ('w, nat) gcall" where
  "queue_by_admin e admin kind = gov_require_admin e admin (\<lambda>e. queue_admin_action e admin kind)"

definition queue_set_treasury_asset :: "env \<Rightarrow> address \<Rightarrow> asset \<Rightarrow> int \<Rightarrow> 'w governance \<Rightarrow> ('w, nat) gcall" where
  "queue_set_treasury_asset e admin a amount = queue_by_admin e admin ''trasset''"

definition queue_execute_treasury_spend :: "env \<Rightarrow> address \<Rightarrow> address \<Rightarrow> int \<Rightarrow> asset \<Rightarrow> string \<Rightarrow> string \<Rightarrow> nat option \<Rightarrow> 'w governance \<Rightarrow> ('w, nat) gcall" where
  "queue_execute_treasury_spend e admin recipient amount a category purpose by_proposal = queue_by_admin e admin ''tspspend''"

definition queue_configure_governance :: "env \<Rightarrow> address \<Rightarrow> governance_config \<Rightarrow> 'w governance \<Rightarrow> ('w, nat) gcall" where
  "queue_configure_governance e admin config = queue_by_admin e admin ''govcfg''"

definition queue_set_category_thresholds :: "env \<Rightarrow> address \<Rightarrow> proposal_category \<Rightarrow> category_threshold \<Rightarrow> 'w governance \<Rightarrow> ('w, nat) gcall" where
  "queue_set_category_thresholds e admin c t = queue_by_admin e admin ''catthresh''"

definition queue_create_committee :: "env \<Rightarrow> address \<Rightarrow> string \<Rightarrow> string \<Rightarrow> 'w governance \<Rightarrow> ('w, nat) gcall" where
  "queue_create_committee e admin name description = queue_by_admin e admin ''cmtadd''"

definition queue_dissolve_committee :: "env \<Rightarrow> address \<Rightarrow> nat \<Rightarrow> 'w governance \<Rightarrow> ('w, nat) gcall" where
  "queue_dissolve_committee e admin cid = queue_by_admin e admin ''cmtdrop''"

definition queue_committee_override :: "env \<Rightarrow> address \<Rightarrow> nat \<Rightarrow> nat \<Rightarrow> 'w governance \<Rightarrow> ('w, nat) gcall" where
  "queue_committee_override e admin cid did = queue_by_admin e admin ''cmtover''"

definition queue_set_guardian :: "env \<Rightarrow> address \<Rightarrow> address \<Rightarrow> 'w governance \<Rightarrow> ('w, nat) gcall" where
  "queue_set_guardian e admin guardian = queue_by_admin e admin ''setguard''"

definition queue_create_budget :: "env \<Rightarrow> address \<Rightarrow> string \<Rightarrow> int \<Rightarrow> 'w governance \<Rightarrow> ('w, nat) gcall" where
  "queue_create_budget e admin category allocated = queue_by_admin e admin ''budget''"

definition queue_approve_treasury_budget :: "env \<Rightarrow> address \<Rightarrow> string \<Rightarrow> nat \<Rightarrow> int \<Rightarrow> 'w governance \<Rightarrow> ('w, nat) gcall" where
  "queue_approve_treasury_budget e admin category pid cap = queue_by_admin e admin ''budgapprv''"

definition queue_create_recurring_payment :: "env \<Rightarrow> address \<Rightarrow> address \<Rightarrow> int \<Rightarrow> 'w governance \<Rightarrow> ('w, nat) gcall" where
  "queue_create_recurring_payment e admin recipient amount = queue_by_admin e admin ''recur''"

definition queue_enter_shadow_mode :: "env \<Rightarrow> address \<Rightarrow> bytes \<Rightarrow> nat \<Rightarrow> 'w governance \<Rightarrow> ('w, nat) gcall" where
  "queue_enter_shadow_mode e admin hash trial = queue_by_admin e admin ''shadow''"

definition queue_promote_from_shadow_mode :: "env \<Rightarrow> address \<Rightarrow> 'w governance \<Rightarrow> ('w, nat) gcall" where
  "queue_promote_from_shadow_mode e admin = queue_by_admin e admin ''shpromt''"

definition queue_update_timelock_delay :: "env \<Rightarrow> address \<Rightarrow> timelock_action \<Rightarrow> nat \<Rightarrow> 'w governance \<Rightarrow> ('w, nat) gcall" where
  "queue_update_timelock_delay e admin kind new_delay = queue_by_admin e admin ''tlupdate''"

definition queue_create_vesting_schedule :: "env \<Rightarrow> address \<Rightarrow> address \<Rightarrow> int \<Rightarrow> 'w governance \<Rightarrow> ('w, nat) gcall" where
  "queue_create_vesting_schedule e admin beneficiary total_amount = queue_by_admin e admin ''vestadd''"

definition queue_set_rebalance_target :: "env \<Rightarrow> address \<Rightarrow> asset \<Rightarrow> int \<Rightarrow> 'w governance \<Rightarrow> ('w, nat) gcall" where
  "queue_set_rebalance_target e admin a bps = queue_by_admin e admin ''target''"

definition queue_grant_capability :: "env \<Rightarrow> address \<Rightarrow> address \<Rightarrow> capability \<Rightarrow> 'w governance \<Rightarrow> ('w, nat) gcall" where
  "queue_grant_capability e caller target cap = when_initialized (queue_admin_action e caller ''capgrant'')"

definition queue_revoke_capability :: "env \<Rightarrow> address \<Rightarrow> address \<Rightarrow> capability \<Rightarrow> 'w governance \<Rightarrow> ('w, nat) gcall" where
  "queue_revoke_capability e caller target cap = when_initialized (queue_admin_action e caller ''caprevk'')"

section \<open>Executing administrative actions after the delay\<close>

definition after_delay :: "env \<Rightarrow> nat \<Rightarrow> address \<Rightarrow> (env \<Rightarrow> 'w governance \<Rightarrow> ('w, 'a) gcall) \<Rightarrow> 'w governance \<Rightarrow> ('w, 'a) gcall" where
  "after_delay e aid caller f = execute_admin_action e aid caller (\<lambda>e _. f e)"

definition admin_after_delay :: "env \<Rightarrow> nat \<Rightarrow> address \<Rightarrow> (env \<Rightarrow> 'w governance \<Rightarrow> ('w, 'a) gcall) \<Rightarrow> 'w governance \<Rightarrow> ('w, 'a) gcall" where
  "admin_after_delay e aid admin f s = attempt (require_admin_identity admin s) s (\<lambda>_. after_delay e aid admin f s)"

definition set_treasury_asset_timelocked :: "env \<Rightarrow> address \<Rightarrow> nat \<Rightarrow> asset \<Rightarrow> int \<Rightarrow>
    'w governance \<Rightarrow> ('w, treasury) gcall" where
  "set_treasury_asset_timelocked e admin aid a amount =
     admin_after_delay e aid admin (\<lambda>e. do_set_treasury_asset admin a amount)"

definition treasury_spend_timelocked :: "env \<Rightarrow> address \<Rightarrow> nat \<Rightarrow> address \<Rightarrow> int \<Rightarrow> asset \<Rightarrow> string \<Rightarrow> string \<Rightarrow> nat option \<Rightarrow>
    'w governance \<Rightarrow> ('w, treasury_spend) gcall" where
  "treasury_spend_timelocked e admin aid recipient amount a category purpose by_proposal =
     admin_after_delay e aid admin (\<lambda>e. do_treasury_spend e admin recipient amount a category purpose by_proposal)"

definition configure_governance_timelocked :: "env \<Rightarrow> address \<Rightarrow> nat \<Rightarrow> governance_config \<Rightarrow>
    'w governance \<Rightarrow> ('w, governance_config) gcall" where
  "configure_governance_timelocked e admin aid config =
     when_initialized (after_delay e aid admin (\<lambda>e. p_configure_governance config))"

definition category_thresholds_timelocked :: "env \<Rightarrow> address \<Rightarrow> nat \<Rightarrow> proposal_category \<Rightarrow> category_threshold \<Rightarrow>
    'w governance \<Rightarrow> ('w, unit) gcall" where
  "category_thresholds_timelocked e admin aid c t =
     when_initialized (after_delay e aid admin (\<lambda>e. p_set_category_thresholds e admin c t))"

definition create_committee_timelocked :: "env \<Rightarrow> address \<Rightarrow> nat \<Rightarrow> string \<Rightarrow> string \<Rightarrow> address list \<Rightarrow> address \<Rightarrow> nat \<Rightarrow> authority list \<Rightarrow> nat option \<Rightarrow>
    'w governance \<Rightarrow> ('w, committee) gcall" where
  "create_committee_timelocked e admin aid name description members chair max_members authorities term_days =
     admin_after_delay e aid admin (\<lambda>e. do_create_committee e admin name description members chair max_members authorities term_days)"

definition dissolve_committee_timelocked :: "env \<Rightarrow> address \<Rightarrow> nat \<Rightarrow> nat \<Rightarrow>
    'w governance \<Rightarrow> ('w, committee) gcall" where
  "dissolve_committee_timelocked e admin aid cid =
     admin_after_delay e aid admin (\<lambda>e. do_dissolve_committee e admin cid)"

definition committee_override_timelocked :: "env \<Rightarrow> address \<Rightarrow> nat \<Rightarrow> nat \<Rightarrow> nat \<Rightarrow>
    'w governance \<Rightarrow> ('w, committee_decision) gcall" where
  "committee_override_timelocked e admin aid cid did =
     admin_after_delay e aid admin (\<lambda>e. do_override_decision admin cid did)"

definition set_guardian_timelocked :: "env \<Rightarrow> address \<Rightarrow> nat \<Rightarrow> address \<Rightarrow>
    'w governance \<Rightarrow> ('w, unit) gcall" where
  "set_guardian_timelocked e admin aid guardian =
     admin_after_delay e aid admin (\<lambda>e. do_set_guardian guardian)"

definition grant_capability_timelocked :: "env \<Rightarrow> address \<Rightarrow> nat \<Rightarrow> address \<Rightarrow> capability \<Rightarrow>
    'w governance \<Rightarrow> ('w, unit) gcall" where
  "grant_capability_timelocked e admin aid target cap =
     when_initialized (after_delay e aid admin (\<lambda>e s. (Ok (), grant_capability admin target cap s)))"

definition revoke_capability_timelocked :: "env \<Rightarrow> address \<Rightarrow> nat \<Rightarrow> address \<Rightarrow> capability \<Rightarrow>
    'w governance \<Rightarrow> ('w, unit) gcall" where
  "revoke_capability_timelocked e admin aid target cap =
     when_initialized (after_delay e aid admin (\<lambda>e s. (Ok (), revoke_capability admin target cap s)))"

definition create_budget_timelocked :: "env \<Rightarrow> address \<Rightarrow> nat \<Rightarrow> string \<Rightarrow> int \<Rightarrow> int \<Rightarrow> nat \<Rightarrow> nat \<Rightarrow> bool \<Rightarrow>
    'w governance \<Rightarrow> ('w, budget) gcall" where
  "create_budget_timelocked e admin aid category allocated spend_limit period_start period_end auto_renew =
     admin_after_delay e aid admin (\<lambda>e. do_create_budget admin category allocated spend_limit period_start period_end auto_renew)"

definition treasury_budget_timelocked :: "env \<Rightarrow> address \<Rightarrow> nat \<Rightarrow> string \<Rightarrow> nat \<Rightarrow> int \<Rightarrow>
    'w governance \<Rightarrow> ('w, budget_approval) gcall" where
  "treasury_budget_timelocked e admin aid category pid cap =
     admin_after_delay e aid admin (\<lambda>e. do_approve_treasury_budget e admin category pid cap)"

definition recurring_payment_timelocked :: "env \<Rightarrow> address \<Rightarrow> nat \<Rightarrow> address \<Rightarrow> int \<Rightarrow> asset \<Rightarrow> nat \<Rightarrow> string \<Rightarrow> string \<Rightarrow> nat option \<Rightarrow> nat option \<Rightarrow>
    'w governance \<Rightarrow> ('w, recurring_payment) gcall" where
  "recurring_payment_timelocked e admin aid recipient amount a frequency category purpose by_proposal end_date =
     admin_after_delay e aid admin (\<lambda>e. do_create_recurring_payment e admin recipient amount a frequency category purpose by_proposal end_date)"

definition enter_shadow_mode_timelocked :: "env \<Rightarrow> address \<Rightarrow> nat \<Rightarrow> bytes \<Rightarrow> nat \<Rightarrow>
    'w governance \<Rightarrow> ('w, shadow_mode_state) gcall" where
  "enter_shadow_mode_timelocked e admin aid hash trial =
     when_initialized (after_delay e aid admin (\<lambda>e. m_enter_shadow_mode e admin hash trial))"

definition shadow_mode_promote_timelocked :: "env \<Rightarrow> address \<Rightarrow> nat \<Rightarrow>
    'w governance \<Rightarrow> ('w, unit) gcall" where
  "shadow_mode_promote_timelocked e admin aid =
     when_initialized (after_delay e aid admin (\<lambda>e. m_promote_from_shadow_mode e admin))"

definition update_timelock_delay_timelocked :: "env \<Rightarrow> address \<Rightarrow> nat \<Rightarrow> timelock_action \<Rightarrow> nat \<Rightarrow>
    'w governance \<Rightarrow> ('w, unit) gcall" where
  "update_timelock_delay_timelocked e admin aid kind new_delay =
     admin_after_delay e aid admin (\<lambda>e. m_update_timelock_delay kind new_delay)"

definition vesting_schedule_timelocked :: "env \<Rightarrow> address \<Rightarrow> nat \<Rightarrow> address \<Rightarrow> int \<Rightarrow> nat \<Rightarrow> nat \<Rightarrow> nat \<Rightarrow>
    'w governance \<Rightarrow> ('w, unit) gcall" where
  "vesting_schedule_timelocked e admin aid beneficiary total_amount start_time cliff_seconds duration_seconds =
     admin_after_delay e aid admin (\<lambda>e. add_custom_schedule beneficiary total_amount start_time cliff_seconds duration_seconds)"

definition set_rebalance_target_timelocked :: "env \<Rightarrow> address \<Rightarrow> nat \<Rightarrow> asset \<Rightarrow> int \<Rightarrow>
    'w governance \<Rightarrow> ('w, treasury) gcall" where
  "set_rebalance_target_timelocked e admin aid a bps =
     admin_after_delay e aid admin (\<lambda>e. do_set_rebalance_target admin a bps)"

section \<open>The latch\<close>

definition enforce_admin_timelock :: "env \<Rightarrow> address \<Rightarrow> 'w governance \<Rightarrow> ('w, unit) gcall" where
  "enforce_admin_timelock e admin =
     gov_require_admin e admin (\<lambda>e s.
       (Ok (), emit_admin_action ''tlenforce'' admin 1 (s\<lparr>gk_enforce_admin_timelock := Some True\<rparr>)))"

definition is_admin_timelock_enforced :: "'w governance \<Rightarrow> bool" where
  "is_admin_timelock_enforced = admin_timelock_enforced"

definition admin_pending_actions :: "'w governance \<Rightarrow> admin_timelock_entry list gresult" where
  "admin_pending_actions = view gk_admin_pending"

definition cancel_admin_action :: "env \<Rightarrow> nat \<Rightarrow> address \<Rightarrow> 'w governance \<Rightarrow> ('w, unit) gcall" where
  "cancel_admin_action e aid canceller = when_initialized (m_cancel_admin_action e aid canceller)"

section \<open>What an administrative action needs\<close>

lemma position_Some:
  "position P xs = Some i \<longleftrightarrow> i < length xs \<and> P (xs ! i) \<and> (\<forall>j<i. \<not> P (xs ! j))"
proof (induction xs arbitrary: i)
  case (Cons x xs)
  show ?case by (cases i) (auto simp: Cons.IH All_less_Suc2)
qed simp

lemma position_None: "position P xs = None \<longleftrightarrow> (\<forall>x\<in>set xs. \<not> P x)"
  by (induction xs) auto

lemma position_append_new: "(\<forall>x\<in>set xs. \<not> P x) \<Longrightarrow> P y \<Longrightarrow> position P (xs @ [y]) = Some (length xs)"
  by (induction xs) auto

lemma position_update_same:
  assumes "position P xs = Some i" and "P y"
  shows "position P (xs[i := y]) = Some i"
  using assms by (auto simp: position_Some nth_list_update)

text \<open>The entry that authorises a call: queued under the identifier by the same caller, still open, and due.\<close>

definition due_entry :: "env \<Rightarrow> nat \<Rightarrow> address \<Rightarrow> nat \<Rightarrow> 'w governance \<Rightarrow> bool" where
  "due_entry e aid caller i s \<longleftrightarrow>
     position (\<lambda>x. at_id x = aid) (gk_admin_pending s) = Some i \<and>
     (let x = gk_admin_pending s ! i
      in \<not> at_executed x \<and> \<not> at_cancelled x \<and> at_caller x = caller \<and> at_execution_available x \<le> ledger_timestamp e)"

definition spent_entry :: "nat \<Rightarrow> 'w governance \<Rightarrow> 'w governance" where
  "spent_entry i s = s\<lparr>gk_admin_pending := (gk_admin_pending s)[i := (gk_admin_pending s ! i)\<lparr>at_executed := True\<rparr>]\<rparr>"

lemma execute_admin_action_Ok [run_iff]:
  "execute_admin_action e aid caller f s = (Ok b, s') \<longleftrightarrow>
     has_auth e caller \<and> (\<exists>i. due_entry e aid caller i s \<and>
       f (consume_auth caller e) (at_action_type (gk_admin_pending s ! i)) (spent_entry i s) = (Ok b, s'))"
proof (cases "position (\<lambda>x. at_id x = aid) (gk_admin_pending s)")
  case (Some i)
  then show ?thesis
    by (cases "has_auth e caller")
      (simp_all add: execute_admin_action_def with_auth_def due_entry_def spent_entry_def with_pending_def Let_def
        get_admin_action_execution_available_def not_less conj_commute)
qed (simp add: execute_admin_action_def with_auth_def due_entry_def get_admin_action_execution_available_def)

lemma after_delay_Ok [run_iff]:
  "after_delay e aid caller f s = (Ok b, s') \<longleftrightarrow>
     has_auth e caller \<and> (\<exists>i. due_entry e aid caller i s \<and> f (consume_auth caller e) (spent_entry i s) = (Ok b, s'))"
  by (auto simp: after_delay_def run_iff)

lemma admin_after_delay_Ok [run_iff]:
  "admin_after_delay e aid admin f s = (Ok b, s') \<longleftrightarrow>
     gov_is_initialized s \<and> gk_admin s = Some admin \<and> has_auth e admin \<and>
     (\<exists>i. due_entry e aid admin i s \<and> f (consume_auth admin e) (spent_entry i s) = (Ok b, s'))"
  by (auto simp: admin_after_delay_def run_iff)

lemma queue_admin_action_Ok [run_iff]:
  "queue_admin_action e caller kind s = (Ok aid, s') \<longleftrightarrow>
     (\<exists>t. gk_timelock s = Some t \<and> aid = tl_next_action_id t \<and>
       s' = s\<lparr>gk_timelock := Some (push_action
                  \<lparr>qa_id = aid, qa_action_type = ActCustom, qa_proposal_id = 0, qa_execution_payload = [],
                   qa_queued_at = ledger_timestamp e,
                   qa_execution_available = sat_add_u64 (ledger_timestamp e) ADMIN_ACTION_DELAY,
                   qa_executed = False, qa_cancelled = False\<rparr> t),
              gk_admin_pending := gk_admin_pending s @
             [\<lparr>at_id = aid, at_action_type = kind, at_caller = caller, at_queued_at = ledger_timestamp e,
               at_execution_available = sat_add_u64 (ledger_timestamp e) ADMIN_ACTION_DELAY,
               at_executed = False, at_cancelled = False\<rparr>]\<rparr>)"
  by (auto simp: queue_admin_action_def get_timelock_def put_timelock_def run_iff Let_def)

text \<open>An entry authorises one call.\<close>

lemma spent_entry_not_due:
  assumes "due_entry e aid caller i s"
  shows "\<not> due_entry e' aid caller' j (spent_entry i s)"
proof -
  let ?xs = "gk_admin_pending s"
  let ?y = "(?xs ! i)\<lparr>at_executed := True\<rparr>"
  from assms have at: "position (\<lambda>x. at_id x = aid) ?xs = Some i" by (simp add: due_entry_def)
  then have lt: "i < length ?xs" and "at_id (?xs ! i) = aid" by (auto simp: position_Some)
  with at have "position (\<lambda>x. at_id x = aid) (?xs[i := ?y]) = Some i" by (intro position_update_same) auto
  with lt show ?thesis by (auto simp: due_entry_def spent_entry_def Let_def)
qed

text \<open>
  The queueing entry point for capabilities asks for no signature and no role. What anybody has queued for itself is due
  for that caller after the delay, for whichever time-locked operation is called then.
\<close>

lemma self_queued:
  assumes "gov_is_initialized s" and "gk_timelock s = Some t" and "\<forall>x\<in>set (gk_admin_pending s). at_id x \<noteq> tl_next_action_id t"
    and "sat_add_u64 (ledger_timestamp e) ADMIN_ACTION_DELAY \<le> ledger_timestamp e'"
  obtains s1 i where "queue_grant_capability e a b cap s = (Ok (tl_next_action_id t), s1)"
    and "due_entry e' (tl_next_action_id t) a i s1" and "gov_is_initialized s1"
proof -
  obtain s1 where s1: "queue_grant_capability e a b cap s = (Ok (tl_next_action_id t), s1)"
    and pend: "gk_admin_pending s1 = gk_admin_pending s @
             [\<lparr>at_id = tl_next_action_id t, at_action_type = ''capgrant'', at_caller = a, at_queued_at = ledger_timestamp e,
               at_execution_available = sat_add_u64 (ledger_timestamp e) ADMIN_ACTION_DELAY,
               at_executed = False, at_cancelled = False\<rparr>]"
    and "gk_initialized s1 = gk_initialized s"
    using assms(1,2) by (simp add: queue_grant_capability_def run_iff)
  moreover from this have "gov_is_initialized s1" using assms(1) by (simp add: gov_is_initialized_def)
  moreover have "due_entry e' (tl_next_action_id t) a (length (gk_admin_pending s)) s1"
    using assms(3,4) by (simp add: due_entry_def pend position_append_new)
  ultimately show thesis using that by blast
qed

text \<open>
  C32: Anybody who can sign gives itself every capability: the execution asks only for the signature of the caller that was
  queued, and the shared module discards the result of its own guard.
\<close>

theorem capability_self_grant:
  assumes "gov_is_initialized s" and "gk_timelock s = Some t" and "\<forall>x\<in>set (gk_admin_pending s). at_id x \<noteq> tl_next_action_id t"
    and "sat_add_u64 (ledger_timestamp e) ADMIN_ACTION_DELAY \<le> ledger_timestamp e'" and "has_auth e' a"
  shows "\<exists>s1 s2. queue_grant_capability e a a CapSuperAdmin s = (Ok (tl_next_action_id t), s1) \<and>
    grant_capability_timelocked e' a (tl_next_action_id t) a CapSuperAdmin s1 = (Ok (), s2) \<and>
    (\<forall>cap. has_capability a cap s2)"
proof -
  obtain s1 i where s1: "queue_grant_capability e a a CapSuperAdmin s = (Ok (tl_next_action_id t), s1)"
    "due_entry e' (tl_next_action_id t) a i s1" "gov_is_initialized s1"
    by (rule self_queued [OF assms(1-4)])
  define s2 where "s2 = grant_capability a a CapSuperAdmin (spent_entry i s1)"
  have "grant_capability_timelocked e' a (tl_next_action_id t) a CapSuperAdmin s1 = (Ok (), s2)"
    using s1(2,3) assms(5) by (auto simp: grant_capability_timelocked_def run_iff s2_def)
  moreover have "has_capability a cap s2" for cap by (simp add: s2_def has_capability_def grant_capability_def)
  ultimately show ?thesis using s1(1) by blast
qed

text \<open>
  C31: Anybody who can sign replaces the governance configuration, thresholds and periods included: the entry it queued for a
  capability is accepted by \<^verbatim>\<open>configure_governance_timelocked\<close>, which compares neither the kind of the entry nor the caller
  with the administrator.
\<close>

theorem configuration_takeover:
  assumes "gov_is_initialized s" and "gk_timelock s = Some t" and "\<forall>x\<in>set (gk_admin_pending s). at_id x \<noteq> tl_next_action_id t"
    and "sat_add_u64 (ledger_timestamp e) ADMIN_ACTION_DELAY \<le> ledger_timestamp e'" and "has_auth e' a"
    and "0 < gc_min_proposal_threshold cfg" and "0 < gc_voting_period cfg" and "gc_quorum_threshold cfg \<le> 10000"
    and "gc_approval_threshold cfg \<le> 10000"
  shows "\<exists>s1 s2. queue_grant_capability e a b cap s = (Ok (tl_next_action_id t), s1) \<and>
    configure_governance_timelocked e' a (tl_next_action_id t) cfg s1 = (Ok cfg, s2) \<and> get_governance_config s2 = cfg"
proof -
  obtain s1 i where s1: "queue_grant_capability e a b cap s = (Ok (tl_next_action_id t), s1)"
    "due_entry e' (tl_next_action_id t) a i s1" "gov_is_initialized s1"
    by (rule self_queued [OF assms(1-4)])
  define s2 where "s2 = put_ballot (\<lambda>b. b\<lparr>bk_governance_config := Some cfg\<rparr>) (spent_entry i s1)"
  have "configure_governance_timelocked e' a (tl_next_action_id t) cfg s1 = (Ok cfg, s2)"
    using s1(2,3) assms(5-) by (auto simp: configure_governance_timelocked_def run_iff p_configure_governance_def s2_def)
  moreover have "get_governance_config s2 = cfg" by (simp add: s2_def get_governance_config_def put_ballot_def)
  ultimately show ?thesis using s1(1) by blast
qed

text \<open>A contract with its time-locks set up, and a caller without any role.\<close>

definition sample_timelocked :: "unit governance" where
  "sample_timelocked = snd (m_initialize_timelock 3600 86400 (Addr 7) ((deployed ())\<lparr>gk_initialized := Some True\<rparr>))"

lemma sample_timelocked_facts:
  "gov_is_initialized sample_timelocked" "gk_admin_pending sample_timelocked = []"
  "map_option tl_next_action_id (gk_timelock sample_timelocked) = Some 1"
  by (simp_all add: sample_timelocked_def m_initialize_timelock_def gov_is_initialized_def deployed_def Let_def)

theorem capability_self_grant_witness:
  "\<exists>s1 s2. queue_grant_capability (example_env 0) (Addr 1) (Addr 1) CapSuperAdmin sample_timelocked = (Ok 1, s1) \<and>
    grant_capability_timelocked (example_env 172800) (Addr 1) 1 (Addr 1) CapSuperAdmin s1 = (Ok (), s2) \<and>
    (\<forall>cap. has_capability (Addr 1) cap s2)"
proof -
  obtain t where "gk_timelock sample_timelocked = Some t" and "tl_next_action_id t = 1" using sample_timelocked_facts(3) by auto
  with sample_timelocked_facts show ?thesis
    using capability_self_grant [of sample_timelocked t "example_env 0" "example_env 172800" "Addr 1"]
    by (simp add: example_env_def ADMIN_ACTION_DELAY_def sat_add_u64_def)
qed

theorem configuration_takeover_witness:
  "\<exists>s1 s2. queue_grant_capability (example_env 0) (Addr 3) (Addr 3) CapSuperAdmin sample_timelocked = (Ok 1, s1) \<and>
    configure_governance_timelocked (example_env 172800) (Addr 3) 1 (default_governance_config\<lparr>gc_quorum_threshold := 0\<rparr>) s1 =
      (Ok (default_governance_config\<lparr>gc_quorum_threshold := 0\<rparr>), s2) \<and> gc_quorum_threshold (get_governance_config s2) = 0"
proof -
  obtain t where "gk_timelock sample_timelocked = Some t" and "tl_next_action_id t = 1" using sample_timelocked_facts(3) by auto
  with sample_timelocked_facts show ?thesis
    using configuration_takeover [of sample_timelocked t "example_env 0" "example_env 172800" "Addr 3"
        "default_governance_config\<lparr>gc_quorum_threshold := 0\<rparr>" "Addr 3" CapSuperAdmin]
    by (auto simp: example_env_def ADMIN_ACTION_DELAY_def sat_add_u64_def default_governance_config_def)
qed


end
