(* ===== verification/Governance_Frames.thy ===== *)
theory Governance_Frames
  imports Governance_Timelock
begin

text \<open>
  Which part of the storage an entry point of the governance contract leaves alone. \<open>keeps P r s\<close> says that the part \<open>P\<close>
  of the state is the same after the call \<open>r\<close> as in \<open>s\<close>, whether the call succeeds or not. The locale
  \<open>untouched_part\<close> is the interface: a part that does not depend on the token, the ballot, the treasury, the
  committees and the conviction pools is kept by every ordinary entry point. The interpretation at the end is
  the part that controls the contract: administrator, guardian, capabilities, pause, shadow mode and time-locks.
\<close>

definition keeps :: "('w governance \<Rightarrow> 'p) \<Rightarrow> ('w, 'a) gcall \<Rightarrow> 'w governance \<Rightarrow> bool" where
  "keeps P r s \<longleftrightarrow> P (snd r) = P s"

named_theorems keeps_intros "an operation keeps a part of the storage"

lemma keeps_pair [keeps_intros]: "P s' = P s \<Longrightarrow> keeps P (r, s') s"
  by (simp add: keeps_def)

lemma keeps_and_then [keeps_intros]:
  "keeps P r s \<Longrightarrow> (\<And>a s1. P s1 = P s \<Longrightarrow> keeps P (f a s1) s) \<Longrightarrow> keeps P (and_then r f) s"
  by (auto simp: keeps_def and_then_def split: prod.splits outcome.splits)

lemma keeps_ignore [keeps_intros]:
  "keeps P r s \<Longrightarrow> (\<And>s1. P s1 = P s \<Longrightarrow> keeps P (f s1) s) \<Longrightarrow> keeps P (ignore r f) s"
  by (auto simp: keeps_def ignore_def split: prod.splits outcome.splits)

lemma keeps_attempt [keeps_intros]: "P s1 = P s \<Longrightarrow> (\<And>a. keeps P (f a) s) \<Longrightarrow> keeps P (attempt x s1 f) s"
  by (auto simp: keeps_def attempt_def split: sum.splits)

lemma keeps_or_panic [keeps_intros]: "P s1 = P s \<Longrightarrow> (\<And>a. keeps P (f a) s) \<Longrightarrow> keeps P (or_panic x s1 f) s"
  by (auto simp: keeps_def or_panic_def split: option.splits)

lemma keeps_with_auth [keeps_intros]: "P s1 = P s \<Longrightarrow> (\<And>e. keeps P (f e s1) s) \<Longrightarrow> keeps P (with_auth e a f s1) s"
  by (auto simp: keeps_def with_auth_def)

lemma keeps_if [keeps_intros]: "(b \<Longrightarrow> keeps P x s) \<Longrightarrow> (\<not> b \<Longrightarrow> keeps P y s) \<Longrightarrow> keeps P (if b then x else y) s"
  by simp

lemma keeps_let [keeps_intros]: "(\<And>x. x = t \<Longrightarrow> keeps P (f x) s) \<Longrightarrow> keeps P (Let t f) s"
  by (simp add: Let_def)

lemma keeps_case_prod [keeps_intros]:
  "(\<And>a b. x = (a, b) \<Longrightarrow> keeps P (f a b) s) \<Longrightarrow> keeps P (case x of (a, b) \<Rightarrow> f a b) s"
  by (cases x) simp

lemma keeps_case_prod_app [keeps_intros]:
  "(\<And>a b. x = (a, b) \<Longrightarrow> keeps P (f a b s1) s) \<Longrightarrow> keeps P ((case x of (a, b) \<Rightarrow> f a b) s1) s"
  by (cases x) simp

lemma keeps_case_option [keeps_intros]:
  "keeps P y s \<Longrightarrow> (\<And>a. keeps P (f a) s) \<Longrightarrow> keeps P (case x of None \<Rightarrow> y | Some a \<Rightarrow> f a) s"
  by (cases x) simp_all

lemma keeps_case_sum [keeps_intros]:
  "(\<And>a. keeps P (g a) s) \<Longrightarrow> (\<And>a. keeps P (f a) s) \<Longrightarrow> keeps P (case x of Inl a \<Rightarrow> g a | Inr a \<Rightarrow> f a) s"
  by (cases x) simp_all

lemma keeps_guards [keeps_intros]:
  assumes "P s1 = P s" and "\<And>e. keeps P (f e s1) s"
  shows "keeps P (gov_require_admin e admin f s1) s" "keeps P (require_capability e admin cap f s1) s"
    "keeps P (direct_admin e admin f s1) s"
  using assms unfolding gov_require_admin_def require_capability_def direct_admin_def gov_require_admin_def
  by (intro keeps_intros; simp)+

lemma keeps_when [keeps_intros]:
  assumes "P s1 = P s" and "keeps P (f s1) s"
  shows "keeps P (when_initialized f s1) s" "keeps P (when_running f s1) s"
  using assms unfolding when_initialized_def when_running_def
  by (intro keeps_intros; simp)+

text \<open>After a call that kept the part, the state it left agrees with the initial one on it.\<close>

lemma keepsD: "keeps P r s \<Longrightarrow> r = (x, s') \<Longrightarrow> P s' = P s"
  by (simp add: keeps_def)

locale storage_part =
  fixes P :: "'w governance \<Rightarrow> 'p"
  assumes log [simp]: "P (event_log_update n s) = P s"
begin

lemma part_publish [simp]: "P (publish s ts b) = P s"
  by (simp add: publish_def)

lemma keeps_cleanup_loop: "P s1 = P s \<Longrightarrow> keeps P (cleanup_loop e limit removed kept ids props s1) s"
proof (induction e limit removed kept ids props s1 rule: cleanup_loop.induct)
  case (2 e limit removed kept pid rest props s1)
  then show ?case by (subst cleanup_loop.simps) (intro keeps_intros; simp)
qed (simp add: keeps_pair)

end

locale apart_from_token = storage_part P for P :: "'w governance \<Rightarrow> 'p" +
  assumes token [simp]: "P (gk_token_update f s) = P s"
begin

lemma part_track [simp]: "P (track_holder a s) = P s"
  by (simp add: track_holder_def put_holders_def put_token_def)

lemma keeps_balance [keeps_intros]:
  assumes "P s1 = P s"
  shows "keeps P (add_balance u n s1) s" "keeps P (subtract_balance u n s1) s"
    "keeps P (add_staked_balance u n s1) s" "keeps P (subtract_staked_balance u n s1) s"
  using assms unfolding add_balance_def subtract_balance_def add_staked_balance_def subtract_staked_balance_def
  by (intro keeps_intros; simp add: gov_defs)+

lemma keeps_token_parts [keeps_intros]:
  assumes "P s1 = P s"
  shows "keeps P (create_schedule b c n st cl du s1) s" "keeps P (release_schedule_tokens e b s1) s"
    "keeps P (reserve_liquidity_rewards n s1) s" "keeps P (claim_reserved_liquidity_rewards n s1) s"
    "keeps P (update_reward_config bps m s1) s"
  using assms
  unfolding create_schedule_def release_schedule_tokens_def reserve_liquidity_rewards_def
    claim_reserved_liquidity_rewards_def update_reward_config_def
  by (intro keeps_intros; simp add: gov_defs)+

lemma keeps_token_functions [keeps_intros]:
  assumes "P s1 = P s"
  shows "keeps P (token_stake u n s1) s" "keeps P (token_unstake u n s1) s"
    "keeps P (token_accrue_liquidity_rewards b n s1) s" "keeps P (token_claim_liquidity_rewards b s1) s"
    "keeps P (token_set_vote_lock b k s1) s" "keeps P (add_custom_schedule b n st cl du s1) s"
  using assms
  unfolding add_custom_schedule_def token_accrue_liquidity_rewards_def token_claim_liquidity_rewards_def
    token_set_vote_lock_def token_stake_def token_unstake_def
  by (intro keeps_intros; simp add: gov_defs emit_vesting_created_def emit_reward_accrued_def emit_reward_claimed_def emit_stake_changed_def)+

lemma keeps_token_calls [keeps_intros]:
  assumes "P s1 = P s"
  shows "keeps P (stake e u n s1) s" "keeps P (unstake e u n s1) s" "keeps P (set_vote_lock e adm b k s1) s"
    "keeps P (accrue_liquidity_rewards e adm b n s1) s" "keeps P (claim_liquidity_rewards e b s1) s"
    "keeps P (set_liquidity_mining_config e adm bps m s1) s"
    "keeps P (create_vesting_schedule e adm b n st cl du s1) s" "keeps P (release_vested_tokens e b s1) s"
  using assms
  unfolding accrue_liquidity_rewards_def claim_liquidity_rewards_def create_vesting_schedule_def
    release_vested_tokens_def set_liquidity_mining_config_def set_vote_lock_def stake_def unstake_def
  by (intro keeps_intros; simp add: gov_defs emit_vesting_released_def emit_reward_accrued_def emit_reward_claimed_def emit_stake_changed_def emit_admin_action_def)+

end

locale apart_from_treasury = storage_part P for P :: "'w governance \<Rightarrow> 'p" +
  assumes treasury [simp]: "P (gk_treasury_update h s) = P s"
begin

lemma keeps_spending [keeps_intros]:
  assumes "P s1 = P s"
  shows "keeps P (execute_spend r n a c pu bp now t s1) s" "keeps P (approve_budget c pid cap now t s1) s"
  using assms
  unfolding execute_spend_def approve_budget_def
  by (intro keeps_intros; simp add: gov_defs)+

lemma keeps_payments_loop: "P s1 = P s \<Longrightarrow> keeps P (payments_loop now is k t s1) s"
proof (induction now "is" k t s1 rule: payments_loop.induct)
  case (2 now i rest processed t s1)
  obtain x s2 where run: "execute_spend (rp_recipient (tr_recurring_payments t ! i)) (rp_amount (tr_recurring_payments t ! i))
      (rp_asset (tr_recurring_payments t ! i)) (rp_category (tr_recurring_payments t ! i))
      (rp_purpose (tr_recurring_payments t ! i)) (rp_approved_by_proposal (tr_recurring_payments t ! i)) now t s1 = (x, s2)"
    by fastforce
  have "P s2 = P s" using keepsD [OF keeps_spending(1) run, OF refl] 2(6) by simp
  then show ?case
    using 2 run by (subst payments_loop.simps) (auto simp: Let_def split: outcome.splits intro!: keeps_intros)
qed (simp add: keeps_pair)

lemma keeps_treasury_bodies [keeps_intros]:
  assumes "P s1 = P s"
  shows "keeps P (do_set_treasury_asset adm a n s1) s" "keeps P (do_create_budget adm c n m st en re s1) s"
    "keeps P (do_approve_treasury_budget e adm c pid n s1) s"
    "keeps P (do_treasury_spend e adm r n a c pu bp s1) s"
    "keeps P (do_create_recurring_payment e adm r n a k c pu bp ed s1) s"
    "keeps P (do_set_rebalance_target adm a n s1) s"
  using assms
  unfolding do_set_treasury_asset_def do_create_budget_def do_approve_treasury_budget_def do_treasury_spend_def
    do_create_recurring_payment_def do_set_rebalance_target_def
  by (intro keeps_intros; simp add: gov_defs)+

lemma keeps_treasury_calls [keeps_intros]:
  assumes "P s1 = P s"
  shows "keeps P (set_treasury_asset e adm a n s1) s" "keeps P (create_budget e adm c n m st en re s1) s"
    "keeps P (approve_treasury_budget e adm c pid n s1) s" "keeps P (execute_treasury_spend e adm r n a c pu bp s1) s"
    "keeps P (create_recurring_payment e adm r n a k c pu bp ed s1) s" "keeps P (process_recurring_payments e adm s1) s"
    "keeps P (set_rebalance_target e adm a n s1) s" "keeps P (rebalance_treasury e adm prices s1) s"
  using assms
  unfolding set_treasury_asset_def create_budget_def approve_treasury_budget_def execute_treasury_spend_def
    create_recurring_payment_def process_recurring_payments_def t_process_recurring_payments_def
    set_rebalance_target_def rebalance_treasury_def
  by (intro keeps_intros keeps_payments_loop; simp add: gov_defs)+

end

locale apart_from_conviction = storage_part P for P :: "'w governance \<Rightarrow> 'p" +
  assumes conviction [simp]: "P (gk_conviction_state_update j s) = P s"
    and calibration [simp]: "P (gk_conviction_calibration_update k s) = P s"
begin

lemma keeps_conviction_functions [keeps_intros]:
  assumes "P s1 = P s"
  shows "keeps P (v_create_conviction_pool e n m k s1) s"
    "keeps P (v_create_conviction_proposal e pl a ti n b s1) s" "keeps P (v_vote_conviction e pl pid a n s1) s"
    "keeps P (v_update_proposal_conviction e pl pid s1) s" "keeps P (v_execute_conviction_funding pl pid s1) s"
    "keeps P (v_change_conviction_vote e pl pid pid2 a s1) s" "keeps P (v_refill_conviction_pool e pl s1) s"
    "keeps P (v_withdraw_conviction_vote e pl pid a s1) s" "keeps P (v_set_conviction_decay_rate k s1) s"
    "keeps P (put_conviction_calibration cal s1) s"
  using assms
  unfolding v_create_conviction_pool_def v_create_conviction_proposal_def v_vote_conviction_def
    v_update_proposal_conviction_def v_execute_conviction_funding_def v_change_conviction_vote_def
    v_refill_conviction_pool_def v_withdraw_conviction_vote_def v_set_conviction_decay_rate_def
    put_conviction_calibration_def
  by (intro keeps_intros; simp add: gov_defs put_conviction_state_def store_pool_def Let_def)+

lemma keeps_conviction_calls [keeps_intros]:
  assumes "P s1 = P s"
  shows "keeps P (create_conviction_pool e adm n m k s1) s"
    "keeps P (create_conviction_proposal e pl a ti n b s1) s" "keeps P (vote_conviction e pl pid a n s1) s"
    "keeps P (update_proposal_conviction e pl pid s1) s" "keeps P (execute_conviction_funding pl pid s1) s"
    "keeps P (change_conviction_vote e pl pid pid2 a s1) s" "keeps P (refill_conviction_pool e pl s1) s"
    "keeps P (withdraw_conviction_vote e pl pid a s1) s" "keeps P (set_conviction_calibration e adm cal s1) s"
    "keeps P (set_conviction_decay_rate e adm k s1) s"
  using assms
  unfolding create_conviction_pool_def create_conviction_proposal_def vote_conviction_def
    update_proposal_conviction_def execute_conviction_funding_def change_conviction_vote_def
    refill_conviction_pool_def withdraw_conviction_vote_def set_conviction_calibration_def
    set_conviction_decay_rate_def
  by (intro keeps_intros; simp add: gov_defs put_conviction_state_def)+

end

locale apart_from_council = storage_part P for P :: "'w governance \<Rightarrow> 'p" +
  assumes committees [simp]: "P (gk_committees_update i s) = P s"
begin

lemma keeps_committee_call [keeps_intros]:
  assumes "P s1 = P s" and "\<And>x s2. P (emit x s2) = P s2"
  shows "keeps P (committee_call f emit s1) s"
  using assms unfolding committee_call_def by (intro keeps_intros; simp add: gov_defs)

lemma keeps_signed_committee_call [keeps_intros]: "P s1 = P s \<Longrightarrow> keeps P (signed_committee_call e who f s1) s"
  unfolding signed_committee_call_def by (intro keeps_intros; simp)

lemma keeps_committee_bodies [keeps_intros]:
  assumes "P s1 = P s"
  shows "keeps P (do_create_committee e adm na de ms ch k au td s1) s"
    "keeps P (do_override_decision adm cid did s1) s" "keeps P (do_dissolve_committee e adm cid s1) s"
  using assms
  unfolding do_create_committee_def do_override_decision_def do_dissolve_committee_def
  by (intro keeps_intros; simp add: gov_defs)+

lemma keeps_council_calls [keeps_intros]:
  assumes "P s1 = P s"
  shows "keeps P (create_committee e adm na de ms ch k au td s1) s"
    "keeps P (override_committee_decision e adm cid did s1) s" "keeps P (dissolve_committee e adm cid s1) s"
    "keeps P (propose_committee_decision e cid a tx act s1) s"
    "keeps P (vote_on_committee_decision e cid did a vt s1) s"
    "keeps P (start_committee_election e adm cid k days mp n s1) s"
    "keeps P (nominate_for_committee e cid a b s1) s" "keeps P (vote_in_committee_election e cid a b s1) s"
    "keeps P (finalize_committee_election e adm cid s1) s"
    "keeps P (set_committee_approval_rating e adm cid k s1) s"
    "keeps P (request_cross_committee_approval e cid a ids tx s1) s"
    "keeps P (approve_cross_committee_request e rid cid a did s1) s"
  using assms
  unfolding create_committee_def override_committee_decision_def dissolve_committee_def
    propose_committee_decision_def vote_on_committee_decision_def
    start_committee_election_def nominate_for_committee_def vote_in_committee_election_def
    finalize_committee_election_def set_committee_approval_rating_def request_cross_committee_approval_def
    approve_cross_committee_request_def
  by (intro keeps_intros; simp add: gov_defs)+

end

locale apart_from_committees = apart_from_token P + apart_from_treasury P + apart_from_council P
  for P :: "'w governance \<Rightarrow> 'p"
begin

lemma keeps_decision_action [keeps_intros]: "P s1 = P s \<Longrightarrow> keeps P (execute_decision_action e act s1) s"
  by (cases act; simp add: committee_spend_def split del: if_split; intro keeps_intros; simp add: gov_defs)

lemma keeps_decision_execution [keeps_intros]:
  assumes "P s1 = P s"
  shows "keeps P (execute_decision e cid did ex st s1) s" "keeps P (execute_committee_decision e cid did a s1) s"
  using assms
  unfolding execute_committee_decision_def execute_decision_def
  by (intro keeps_intros; simp add: gov_defs)+

end

locale apart_from_control = storage_part P for P :: "'w governance \<Rightarrow> 'p" +
  assumes initialized [simp]: "P (gk_initialized_update f1 s) = P s"
    and admin [simp]: "P (gk_admin_update f2 s) = P s"
    and pending_admin [simp]: "P (gk_pending_admin_update f3 s) = P s"
    and guardian [simp]: "P (gk_guardian_update f4 s) = P s"
    and timelock [simp]: "P (gk_timelock_update f5 s) = P s"
    and admin_pending [simp]: "P (gk_admin_pending_update f6 s) = P s"
    and capability [simp]: "P (gk_capability_update f8 s) = P s"
    and shadow [simp]: "P (gk_shadow_mode_update f9 s) = P s"
    and targets [simp]: "P (gk_pause_targets_update f10 s) = P s"
    and paused [simp]: "P (k_paused_update f11 s) = P s"
    and outside [simp]: "P (gk_outside_update f12 s) = P s"
begin

lemma part_propagate: "P (propagate_pause_to_downstream D b as s) = P s"
  by (induction D b as s rule: propagate_pause_to_downstream.induct) (simp_all split: option.splits)

lemma keeps_admin_calls [keeps_intros]:
  assumes "P s1 = P s"
  shows "keeps P (propose_key_rotation e adm a s1) s" "keeps P (accept_key_rotation a s1) s"
    "keeps P (cancel_key_rotation e adm s1) s" "keeps P (emergency_revoke_admin e a s1) s"
    "keeps P (do_set_guardian a s1) s" "keeps P (set_guardian e adm a s1) s"
    "keeps P (set_contract_paused D e adm b s1) s" "keeps P (register_pause_target e adm a s1) s"
    "keeps P (unregister_pause_target e adm a s1) s" "keeps P (grant_capability_call e adm a cap s1) s"
    "keeps P (revoke_capability_call e adm a cap s1) s" "keeps P (m_enter_shadow_mode e adm h n s1) s"
    "keeps P (enter_shadow_mode e adm h n s1) s" "keeps P (m_promote_from_shadow_mode e adm s1) s"
    "keeps P (promote_from_shadow_mode e adm s1) s" "keeps P (cancel_shadow_mode e adm s1) s"
  using assms
  unfolding propose_key_rotation_def accept_key_rotation_def cancel_key_rotation_def emergency_revoke_admin_def
    do_set_guardian_def set_guardian_def set_contract_paused_def register_pause_target_def unregister_pause_target_def
    grant_capability_call_def revoke_capability_call_def m_enter_shadow_mode_def enter_shadow_mode_def
    m_promote_from_shadow_mode_def promote_from_shadow_mode_def m_cancel_shadow_mode_def cancel_shadow_mode_def
  by (intro keeps_intros; simp add: gov_defs part_propagate set_paused_def grant_capability_def
      revoke_capability_def)+

lemma keeps_timelock_functions [keeps_intros]:
  assumes "P s1 = P s"
  shows "keeps P (m_initialize_timelock lo hi g s1) s" "keeps P (m_queue_action e pid s1) s"
    "keeps P (m_update_timelock_delay kind d s1) s" "keeps P (m_extend_execution_window aid d s1) s"
    "keeps P (queue_admin_action e a k s1) s" "keeps P (m_cancel_admin_action e aid a s1) s"
  using assms
  unfolding m_initialize_timelock_def m_queue_action_def m_update_timelock_delay_def m_extend_execution_window_def
    queue_admin_action_def m_cancel_admin_action_def with_queued_def with_pending_def set_queued_def put_timelock_def
  by (intro keeps_intros; simp add: gov_defs)+

lemma keeps_timelock_calls [keeps_intros]:
  assumes "P s1 = P s"
  shows "keeps P (initialize_timelock e adm lo hi g s1) s" "keeps P (queue_action e pid s1) s"
    "keeps P (update_timelock_delay e adm kind d s1) s" "keeps P (extend_execution_window e adm aid d s1) s"
    "keeps P (queue_by_admin e adm k s1) s" "keeps P (cancel_admin_action e aid a s1) s"
    "keeps P (queue_grant_capability e a b cap s1) s" "keeps P (queue_revoke_capability e a b cap s1) s"
  using assms
  unfolding initialize_timelock_def queue_action_def update_timelock_delay_def extend_execution_window_def
    queue_by_admin_def cancel_admin_action_def queue_grant_capability_def queue_revoke_capability_def
  by (intro keeps_intros; simp)+

lemma part_spent_entry [simp]: "P (spent_entry i s) = P s"
  by (simp add: spent_entry_def)

end

locale apart_from_ballot = apart_from_token P + apart_from_treasury P for P :: "'w governance \<Rightarrow> 'p" +
  assumes ballot [simp]: "P (gk_ballot_update g s) = P s"
    and version [simp]: "P (gk_storage_version_update l s) = P s"
    and migration [simp]: "P (gk_migration_in_progress_update m s) = P s"
begin

lemma keeps_proposal_records [keeps_intros]:
  assumes "P s1 = P s"
  shows "keeps P (put_proposal p s1) s" "keeps P (p_configure_governance cfg s1) s"
    "keeps P (p_delegate_voting_power e a b s1) s" "keeps P (p_undelegate_voting_power e a s1) s"
    "keeps P (p_create_proposal e a pt ti de da ca qu s1) s" "keeps P (p_cast_vote e pid a vt s1) s"
    "keeps P (p_set_category_thresholds e adm c ct s1) s" "keeps P (p_set_deposit_config e adm dc s1) s"
    "keeps P (lock_proposal_deposit pid a s1) s" "keeps P (settle_proposal_deposit pid n m a s1) s"
  using assms
  unfolding put_proposal_def p_configure_governance_def p_delegate_voting_power_def
    p_undelegate_voting_power_def p_create_proposal_def p_cast_vote_def p_set_category_thresholds_def
    p_set_deposit_config_def lock_proposal_deposit_def settle_proposal_deposit_def
  by (intro keeps_intros; simp add: gov_defs put_proposals_state_def put_delegation_state_def set_locked_deposit_def deposit_event_def)+

lemma keeps_action [keeps_intros]: "P s1 = P s \<Longrightarrow> keeps P (gov_execute_action t s1) s"
  by (cases t; simp; intro keeps_intros; simp add: gov_defs)

lemma part_announce [simp]: "P (announce_upgrade cfg p s) = P s"
  by (simp add: announce_upgrade_def split: proposal_type.splits)

lemma keeps_execution [keeps_intros]:
  assumes "P s1 = P s"
  shows "keeps P (execute_proposal_action_by_id pid s1) s" "keeps P (mark_proposal_executed e pid s1) s"
    "keeps P (p_execute_proposal e pid a s1) s"
  using assms
  unfolding execute_proposal_action_by_id_def mark_proposal_executed_def p_execute_proposal_def
    execute_proposal_action_def
  by (intro keeps_intros; simp add: gov_defs)+

lemma keeps_endings [keeps_intros]:
  assumes "P s1 = P s"
  shows "keeps P (p_finalize_proposal e pid s1) s" "keeps P (p_cancel_proposal e pid a s1) s"
    "keeps P (p_withdraw_proposal e pid a s1) s" "keeps P (p_reclaim_expired_proposal e pid a s1) s"
    "keeps P (p_simulate_proposal strkey pid s1) s"
  using assms
  unfolding p_finalize_proposal_def p_cancel_proposal_def p_withdraw_proposal_def p_reclaim_expired_proposal_def
    p_simulate_proposal_def
  by (intro keeps_intros; simp add: gov_defs put_proposals_state_def set_locked_deposit_def deposit_event_def)+

lemma keeps_cleanup [keeps_intros]: "P s1 = P s \<Longrightarrow> keeps P (cleanup_terminal_proposals e cursor limit s1) s"
  unfolding cleanup_terminal_proposals_def
  by (intro keeps_intros keeps_cleanup_loop; simp add: put_proposals_state_def gov_defs)

lemma part_badges: "check_and_award_badges r s = (r', s') \<Longrightarrow> P s' = P s"
  by (auto simp: check_and_award_badges_def Let_def split: prod.splits if_splits)

lemma keeps_activity [keeps_intros]: "P s1 = P s \<Longrightarrow> keeps P (record_activity e u f s1) s"
  unfolding record_activity_def
  by (intro keeps_intros; auto simp: put_reputation_state_def gov_defs dest: part_badges [OF sym])

lemma keeps_reputation [keeps_intros]:
  assumes "P s1 = P s"
  shows "keeps P (record_proposal_creation e u s1) s" "keeps P (record_vote e u pid vt s1) s"
    "keeps P (record_proposal_outcome e pid s1) s" "keeps P (refresh_stale_reputation e u s1) s"
    "keeps P (p_distribute_reputation_rewards n s1) s" "keeps P (get_reputation_leaderboard k s1) s"
  using assms
  unfolding record_proposal_creation_def record_vote_def record_proposal_outcome_def
    refresh_stale_reputation_def p_distribute_reputation_rewards_def get_reputation_leaderboard_def
  by (intro keeps_intros; simp add: gov_defs put_reputation_state_def)+

lemma keeps_weighted_vote [keeps_intros]:
  assumes "P s1 = P s"
  shows "keeps P (p_cast_reputation_weighted_vote e pid u vt s1) s"
  using assms
  unfolding p_cast_reputation_weighted_vote_def
  by (intro keeps_intros; simp add: gov_defs)+

lemma keeps_verdict [keeps_intros]:
  assumes "P s1 = P s"
  shows "keeps P (after_verdict e pid st s1) s"
  using assms
  unfolding after_verdict_def
  by (intro keeps_intros; simp add: gov_defs)+

lemma keeps_ballot_calls [keeps_intros]:
  assumes "P s1 = P s"
  shows "keeps P (create_proposal e a pt ti de da ca qu s1) s" "keeps P (cast_vote e pid a vt s1) s"
    "keeps P (finalize_proposal e pid s1) s" "keeps P (execute_proposal e pid a s1) s"
    "keeps P (cancel_proposal e pid a s1) s" "keeps P (withdraw_proposal e pid a s1) s"
    "keeps P (reclaim_expired_proposal e pid a s1) s" "keeps P (cleanup_proposals e cu li s1) s"
    "keeps P (simulate_proposal strkey pid s1) s" "keeps P (simulate_execution e pid s1) s"
    "keeps P (configure_governance e adm cfg s1) s" "keeps P (set_category_thresholds e adm c ct s1) s"
    "keeps P (set_deposit_config e adm dc s1) s" "keeps P (migrate_storage e adm v s1) s"
    "keeps P (delegate_voting_power e a b s1) s" "keeps P (undelegate_voting_power e a s1) s"
    "keeps P (cast_reputation_weighted_vote e pid a vt s1) s"
    "keeps P (distribute_reputation_rewards e adm n s1) s" "keeps P (update_reputation_config e adm rc s1) s"
    "keeps P (refresh_reputation e u s1) s"
  using assms
  unfolding create_proposal_def cast_vote_def finalize_proposal_def execute_proposal_def cancel_proposal_def
    withdraw_proposal_def reclaim_expired_proposal_def cleanup_proposals_def simulate_proposal_def
    simulate_execution_def configure_governance_def set_category_thresholds_def set_deposit_config_def
    migrate_storage_def delegate_voting_power_def undelegate_voting_power_def cast_reputation_weighted_vote_def
    distribute_reputation_rewards_def update_reputation_config_def refresh_reputation_def
  by (intro keeps_intros; simp add: gov_defs put_reputation_config_def)+

end

locale untouched_part = apart_from_ballot P + apart_from_committees P + apart_from_conviction P
  for P :: "'w governance \<Rightarrow> 'p"

definition control_part :: "'w governance \<Rightarrow> _" where
  "control_part s =
     (gk_initialized s, gk_admin s, gk_pending_admin s, gk_guardian s, gk_timelock s, gk_admin_pending s,
      gk_enforce_admin_timelock s, gk_capability s, gk_shadow_mode s, gk_pause_targets s, k_paused s, gk_outside s)"

interpretation control: untouched_part control_part
  by unfold_locales (simp_all add: control_part_def)

interpretation book: apart_from_conviction "\<lambda>s. (gk_token s, gk_ballot s, gk_treasury s)"
  by unfold_locales simp_all

interpretation books: apart_from_council "\<lambda>s. (gk_token s, gk_ballot s, gk_treasury s)"
  by unfold_locales simp_all

interpretation assets: apart_from_control "\<lambda>s. (gk_token s, gk_ballot s, gk_treasury s)"
  by unfold_locales simp_all

interpretation latch: apart_from_control gk_enforce_admin_timelock
  by unfold_locales simp_all

interpretation calls: untouched_part gk_enforce_admin_timelock
  by unfold_locales simp_all

interpretation ledger: apart_from_treasury "\<lambda>s. (gk_token s, gk_ballot s)"
  by unfold_locales simp_all

interpretation vote: apart_from_committees gk_ballot
  by unfold_locales simp_all

interpretation tally: apart_from_token "\<lambda>s. (gk_ballot s, gk_treasury s, gk_committees s)"
  by unfold_locales simp_all

interpretation council: apart_from_ballot "\<lambda>s. (gk_committees s, gk_conviction_state s, gk_timelock s)"
  by unfold_locales simp_all

end
