(* ===== verification/Governance_Books.thy ===== *)
theory Governance_Books
  imports Governance_Frames
begin

text \<open>
  The books of the governance contract and how a call moves them. \<open>books_ok\<close> collects the invariants of the token
  ledger, the treasury, the proposals and the deposits; \<open>evolves m s s'\<close> says that a step keeps them and that the
  governance tokens in existence, those in accounts and those held as deposits, grow by exactly \<open>m\<close>. A credit that
  would overflow its type is refused after the deposit was released, so the total is exact while it fits the type
  and never too large otherwise.
\<close>

definition locked_deposits :: "'w governance \<Rightarrow> nat set" where
  "locked_deposits s = {pid. bk_locked_deposit (gk_ballot s) pid \<noteq> None}"

definition tokens_total :: "'w governance \<Rightarrow> int" where
  "tokens_total s = gov_accounted (gk_token s) + DEFAULT_DEPOSIT_AMOUNT * int (card (locked_deposits s))"

definition deposits_ok :: "'w governance \<Rightarrow> bool" where
  "deposits_ok s \<longleftrightarrow>
     bk_deposit_config (gk_ballot s) = None \<and> (\<forall>pid\<in>locked_deposits s. pid < pp_next_proposal_id (get_proposals_state s))"

definition books_ok :: "'w governance \<Rightarrow> bool" where
  "books_ok s \<longleftrightarrow>
     ledger_ok (gk_token s) \<and> treasury_ok (get_treasury s) \<and> proposals_ok (get_proposals_state s) \<and> deposits_ok s"

definition evolves :: "int \<Rightarrow> 'w governance \<Rightarrow> 'w governance \<Rightarrow> bool" where
  "evolves m s s' \<longleftrightarrow>
     (books_ok s \<longrightarrow> 0 \<le> m \<and> books_ok s' \<and> tokens_total s' \<le> tokens_total s + m \<and>
        (tokens_total s + m \<le> i128_max \<longrightarrow> tokens_total s' = tokens_total s + m))"

named_theorems evolves_intros "how a call moves the books"

lemma evolves_trans:
  assumes "evolves m s s1" and "evolves n s1 s2"
  shows "evolves (m + n) s s2"
  using assms unfolding evolves_def by auto

lemma evolves_trans0:
  "evolves m s s1 \<Longrightarrow> evolves 0 s1 s2 \<Longrightarrow> evolves m s s2" "evolves 0 s s1 \<Longrightarrow> evolves m s1 s2 \<Longrightarrow> evolves m s s2"
  using evolves_trans [of m s s1 0 s2] evolves_trans [of 0 s s1 m s2] by simp_all

lemma deposits_finite: "deposits_ok s \<Longrightarrow> finite (locked_deposits s)"
  by (rule finite_subset [of _ "{..<pp_next_proposal_id (get_proposals_state s)}"]) (auto simp: deposits_ok_def)

lemma books_cong:
  assumes "gk_token s' = gk_token s" "gk_ballot s' = gk_ballot s" "gk_treasury s' = gk_treasury s"
  shows "books_ok s' = books_ok s" "tokens_total s' = tokens_total s"
  using assms
  by (simp_all add: books_ok_def tokens_total_def deposits_ok_def locked_deposits_def get_proposals_state_def
      get_treasury_def)

lemma evolves_same:
  assumes "(gk_token s', gk_ballot s', gk_treasury s') = (gk_token s, gk_ballot s, gk_treasury s)"
  shows "evolves 0 s s'"
  using assms books_cong [of s' s] by (simp add: evolves_def)

lemma evolves_token:
  assumes "gk_ballot s' = gk_ballot s" "gk_treasury s' = gk_treasury s" "0 \<le> m"
    and "ledger_ok (gk_token s) \<Longrightarrow> ledger_ok (gk_token s') \<and> gov_accounted (gk_token s') = gov_accounted (gk_token s) + m"
  shows "evolves m s s'"
  using assms
  by (auto simp: evolves_def books_ok_def tokens_total_def deposits_ok_def locked_deposits_def get_proposals_state_def
      get_treasury_def)

lemma evolves_treasury:
  assumes "treasury_ok (get_treasury s) \<Longrightarrow> treasury_ok (get_treasury s') \<and> same_core s s'"
  shows "evolves 0 s s'"
  using assms
  by (auto simp: evolves_def books_ok_def tokens_total_def deposits_ok_def locked_deposits_def get_proposals_state_def
      same_core_def)

text \<open>The part that a change of the proposals, the delegations or the reputation leaves alone.\<close>

definition deposit_part :: "'w governance \<Rightarrow> token_store \<times> treasury option \<times> (nat \<Rightarrow> address option) \<times> deposit_config option" where
  "deposit_part s = (gk_token s, gk_treasury s, bk_locked_deposit (gk_ballot s), bk_deposit_config (gk_ballot s))"

lemma evolves_ballot:
  assumes "deposit_part s' = deposit_part s"
    and "pp_next_proposal_id (get_proposals_state s) \<le> pp_next_proposal_id (get_proposals_state s')"
    and "proposals_ok (get_proposals_state s) \<Longrightarrow> proposals_ok (get_proposals_state s')"
  shows "evolves 0 s s'"
  using assms
  by (auto simp: evolves_def books_ok_def tokens_total_def deposits_ok_def locked_deposits_def get_treasury_def
      deposit_part_def)

section \<open>The token\<close>

lemma evolves_token_call:
  assumes "keeps (\<lambda>s. (gk_ballot s, gk_treasury s, gk_committees s)) r s" and "r = (x, s')" and "0 \<le> m"
    and "ledger_ok (gk_token s) \<Longrightarrow> ledger_ok (gk_token s') \<and> gov_accounted (gk_token s') = gov_accounted (gk_token s) + m"
  shows "evolves m s s'"
  using assms by (intro evolves_token) (auto simp: keeps_def)

lemma stake_evolves [evolves_intros]:
  assumes "stake e u n s = (Ok x, s')"
  shows "evolves 0 s s'"
  using assms
  by (intro evolves_token_call [OF tally.keeps_token_calls(1) [OF refl] assms])
    (auto simp: stake_def run_iff gov_defs emit_stake_changed_def dest: token_stake_ledger)

lemma unstake_evolves [evolves_intros]:
  assumes "unstake e u n s = (Ok x, s')"
  shows "evolves 0 s s'"
  using assms
  by (intro evolves_token_call [OF tally.keeps_token_calls(2) [OF refl] assms])
    (auto simp: unstake_def run_iff gov_defs emit_stake_changed_def dest: token_unstake_ledger)

lemma set_vote_lock_evolves [evolves_intros]:
  assumes "set_vote_lock e adm b k s = (Ok x, s')"
  shows "evolves 0 s s'"
  using assms
  by (intro evolves_token_call [OF tally.keeps_token_calls(3) [OF refl] assms])
    (auto simp: set_vote_lock_def run_iff gov_defs emit_admin_action_def dest: token_set_vote_lock_ledger)

lemma accrue_evolves [evolves_intros]:
  assumes "accrue_liquidity_rewards e adm b n s = (Ok x, s')"
  shows "evolves 0 s s'"
  using assms
  by (intro evolves_token_call [OF tally.keeps_token_calls(4) [OF refl] assms])
    (auto simp: accrue_liquidity_rewards_def run_iff gov_defs emit_reward_accrued_def dest: token_accrue_ledger)

lemma claim_evolves [evolves_intros]:
  assumes "claim_liquidity_rewards e b s = (Ok x, s')"
  shows "evolves 0 s s'"
  using assms
  by (intro evolves_token_call [OF tally.keeps_token_calls(5) [OF refl] assms])
    (auto simp: claim_liquidity_rewards_def run_iff gov_defs emit_reward_claimed_def dest: token_claim_ledger)

lemma mining_config_evolves [evolves_intros]:
  assumes "set_liquidity_mining_config e adm bps n s = (Ok x, s')"
  shows "evolves 0 s s'"
  using assms
  by (intro evolves_token_call [OF tally.keeps_token_calls(6) [OF refl] assms])
    (auto simp: set_liquidity_mining_config_def run_iff gov_defs emit_admin_action_def dest: update_reward_config_ledger)

lemma release_evolves [evolves_intros]:
  assumes "release_vested_tokens e b s = (Ok x, s')"
  shows "evolves 0 s s'"
  using assms
  by (intro evolves_token_call [OF tally.keeps_token_calls(8) [OF refl] assms])
    (auto simp: release_vested_tokens_def run_iff gov_defs emit_vesting_released_def dest: release_schedule_ledger)

lemma custom_schedule_evolves [evolves_intros]:
  assumes "in_i128 n" and "add_custom_schedule b n st cl du s = (Ok x, s')"
  shows "evolves n s s'"
proof -
  from assms(2) obtain s1 where s1: "create_schedule b VestingCustom n st cl du s = (Ok (), s1)"
    and s': "s' = emit_vesting_created b n cl du (track_holder b s1)"
    by (auto simp: add_custom_schedule_def and_then_Ok)
  from s1 have "0 < n" by (auto simp: create_schedule_Ok)
  moreover have "ledger_ok (gk_token s') \<and> gov_accounted (gk_token s') = gov_accounted (gk_token s) + n" if "ledger_ok (gk_token s)"
    using create_schedule_ledger [OF that assms(1) s1] by (simp add: s' emit_vesting_created_def publish_def)
  ultimately show ?thesis
    using evolves_token_call [OF tally.keeps_token_functions(6) [OF refl] assms(2)] by simp
qed

lemma create_vesting_evolves [evolves_intros]:
  "in_i128 n \<Longrightarrow> create_vesting_schedule e adm b n st cl du s = (Ok x, s') \<Longrightarrow> evolves n s s'"
  by (auto simp: create_vesting_schedule_def run_iff intro: custom_schedule_evolves)

section \<open>The treasury\<close>

lemma treasury_bodies_evolve [evolves_intros]:
  "do_set_treasury_asset adm a n s = (Ok x1, s') \<Longrightarrow> evolves 0 s s'"
  "do_create_budget adm c n m st en re s = (Ok x2, s') \<Longrightarrow> evolves 0 s s'"
  "do_approve_treasury_budget e adm c pid n s = (Ok x3, s') \<Longrightarrow> evolves 0 s s'"
  "do_treasury_spend e adm r n a c pu bp s = (Ok x4, s') \<Longrightarrow> evolves 0 s s'"
  "do_create_recurring_payment e adm r n a k c pu bp ed s = (Ok x5, s') \<Longrightarrow> evolves 0 s s'"
  "do_set_rebalance_target adm a n s = (Ok x6, s') \<Longrightarrow> evolves 0 s s'"
  by (rule evolves_treasury, rule do_treasury_keeps; assumption)+

lemma treasury_calls_evolve [evolves_intros]:
  "set_treasury_asset e adm a n s = (Ok x1, s') \<Longrightarrow> evolves 0 s s'"
  "create_budget e adm c n m st en re s = (Ok x2, s') \<Longrightarrow> evolves 0 s s'"
  "approve_treasury_budget e adm c pid n s = (Ok x3, s') \<Longrightarrow> evolves 0 s s'"
  "execute_treasury_spend e adm r n a c pu bp s = (Ok x4, s') \<Longrightarrow> evolves 0 s s'"
  "create_recurring_payment e adm r n a k c pu bp ed s = (Ok x5, s') \<Longrightarrow> evolves 0 s s'"
  "process_recurring_payments e adm s = (Ok x6, s') \<Longrightarrow> evolves 0 s s'"
  "set_rebalance_target e adm a n s = (Ok x7, s') \<Longrightarrow> evolves 0 s s'"
  "rebalance_treasury e adm prices s = (Ok x8, s') \<Longrightarrow> evolves 0 s s'"
  unfolding set_treasury_asset_def create_budget_def approve_treasury_budget_def execute_treasury_spend_def
    create_recurring_payment_def set_rebalance_target_def direct_admin_Ok
  by (blast intro: treasury_bodies_evolve, blast intro: treasury_bodies_evolve, blast intro: treasury_bodies_evolve,
      blast intro: treasury_bodies_evolve, blast intro: treasury_bodies_evolve,
      rule evolves_treasury, erule (1) process_payments_keeps, blast intro: treasury_bodies_evolve,
      rule evolves_treasury, erule (1) rebalance_treasury_keeps)

section \<open>Committees, conviction pools and control\<close>

lemma evolves_keeps:
  assumes "keeps (\<lambda>s. (gk_token s, gk_ballot s, gk_treasury s)) r s" and "r = (x, s')"
  shows "evolves 0 s s'"
  using assms by (intro evolves_same) (simp add: keeps_def)

lemma committee_decision_evolves [evolves_intros]:
  assumes "execute_committee_decision e cid did a s = (Ok x, s')"
  shows "evolves 0 s s'"
proof -
  have "treasury_ok (get_treasury s') \<and> gk_ballot s' = gk_ballot s \<and> ledger_ok (gk_token s') \<and>
      gov_accounted (gk_token s') = gov_accounted (gk_token s)" if "books_ok s"
    using execute_committee_decision_keeps [OF _ _ assms] that by (simp add: books_ok_def)
  then show ?thesis
    by (auto simp: evolves_def books_ok_def tokens_total_def deposits_ok_def locked_deposits_def get_proposals_state_def)
qed

section \<open>The ballot\<close>

lemma evolves_apart: "apart_from_reputation s s' \<Longrightarrow> evolves 0 s s'"
  by (intro evolves_ballot) (auto simp: apart_from_reputation_def deposit_part_def get_proposals_state_def)

interpretation deposits: apart_from_conviction deposit_part
  by unfold_locales (simp_all add: deposit_part_def)

lemma keeps_deposit_part [keeps_intros]:
  assumes "deposit_part s1 = deposit_part s"
  shows "keeps deposit_part (put_proposal p s1) s" "keeps deposit_part (p_configure_governance cfg s1) s"
    "keeps deposit_part (p_delegate_voting_power e a b s1) s" "keeps deposit_part (p_undelegate_voting_power e a s1) s"
    "keeps deposit_part (p_create_proposal e a pt ti de da ca qu s1) s" "keeps deposit_part (p_cast_vote e pid a vt s1) s"
    "keeps deposit_part (p_cancel_proposal e pid a s1) s" "keeps deposit_part (p_reclaim_expired_proposal e pid a s1) s"
    "keeps deposit_part (p_simulate_proposal strkey pid s1) s" "keeps deposit_part (simulate_execution e pid s1) s"
    "keeps deposit_part (migrate_storage e adm v s1) s"
  using assms
  unfolding put_proposal_def p_configure_governance_def p_delegate_voting_power_def
    p_undelegate_voting_power_def p_create_proposal_def p_cast_vote_def p_cancel_proposal_def p_reclaim_expired_proposal_def
    p_simulate_proposal_def simulate_execution_def migrate_storage_def
  by (intro keeps_intros; simp add: deposit_part_def gov_defs put_proposals_state_def put_delegation_state_def)+

lemma put_proposal_evolves:
  assumes "put_proposal p s = (Ok u, s')" and "proposals_ok (get_proposals_state s) \<Longrightarrow> proposal_ok p"
  shows "evolves 0 s s'"
  using keepsD [OF keeps_deposit_part(1) [OF refl] assms(1)] put_proposal_keeps [OF _ _ assms(1)] assms
  by (intro evolves_ballot) (auto simp: put_proposal_Ok)

lemma p_cast_vote_evolves:
  assumes "p_cast_vote e pid voter vt s = (Ok u, s')"
  shows "evolves 0 s s'"
proof (rule evolves_ballot)
  show "deposit_part s' = deposit_part s" by (rule keepsD [OF keeps_deposit_part(6) [OF refl] assms])
  obtain p1 s1 where s1: "gk_ballot s1 = gk_ballot s" and put: "put_proposal p1 s1 = (Ok u, s')"
    by (rule p_cast_vote_Ok [OF assms]) blast
  show "pp_next_proposal_id (get_proposals_state s) \<le> pp_next_proposal_id (get_proposals_state s')"
    using put s1 by (auto simp: put_proposal_Ok get_proposals_state_def put_proposals_state_def put_ballot_def)
  show "proposals_ok (get_proposals_state s')" if "proposals_ok (get_proposals_state s)"
    using that by (rule cast_vote_shape [OF _ assms])
qed

lemma cast_vote_evolves [evolves_intros]:
  assumes "cast_vote e pid voter vt s = (Ok u, s')"
  shows "evolves 0 s s'"
proof -
  obtain s1 x where "p_cast_vote e pid voter vt s = (Ok (), s1)" "record_vote e voter pid vt s1 = (x, s')"
    using assms by (auto simp: cast_vote_def when_Ok and_then_Ok ignore_Ok)
  then show ?thesis by (blast intro: evolves_trans0 p_cast_vote_evolves evolves_apart record_vote_apart)
qed

lemma weighted_vote_evolves [evolves_intros]:
  assumes "cast_reputation_weighted_vote e pid voter vt s = (Ok u, s')"
  shows "evolves 0 s s'"
proof -
  let ?raw = "get_or 0 (get_vote_snapshot pid voter s)" and ?m = "reputation_multiplier (get_governance_reputation e voter s)"
  have run: "p_cast_reputation_weighted_vote e pid voter vt s = (Ok u, s')"
    using assms by (simp add: cast_reputation_weighted_vote_def when_Ok)
  obtain p w s1 s2 where f: "get_proposal pid s = Inr p" "\<not> smap_has (gp_voters p) voter" "0 < ?raw"
    and w: "w = tdiv (?raw * int ?m) 10000"
    and put: "put_proposal (open_voting (saturating_tally vt w (record_ballot voter
       \<lparr>v_voter = voter, v_vote_type = vt, v_voting_power = w, v_timestamp = ledger_timestamp e\<rparr> p))) s = (Ok (), s1)"
    and rec: "record_vote (consume_auth voter e) voter pid vt s1 = (Ok (), s2)"
    and s': "gk_token s' = gk_token s2" "gk_ballot s' = gk_ballot s2" "gk_treasury s' = gk_treasury s2"
    by (rule p_cast_reputation_Ok [OF run])
  have "0 \<le> w" using f(3) unfolding w by (simp add: pos_imp_zdiv_nonneg_iff)
  then have "evolves 0 s s1"
    using f proposals_ok_get [of "get_proposals_state s" pid p]
    by (intro put_proposal_evolves [OF put] weighted_ballot_ok) (auto simp: get_proposal_Inr)
  moreover have "evolves 0 s1 s2" by (rule evolves_apart [OF record_vote_apart [OF rec]])
  moreover have "evolves 0 s2 s'" using s' by (intro evolves_same) simp
  ultimately show ?thesis by (blast intro: evolves_trans0)
qed

text \<open>Calls that touch neither deposits nor proposals.\<close>

definition ballot_core :: "'w governance \<Rightarrow> _" where
  "ballot_core s = (deposit_part s, bk_proposals_state (gk_ballot s))"

lemma evolves_core: "keeps ballot_core r s \<Longrightarrow> r = (x, s') \<Longrightarrow> evolves 0 s s'"
  by (intro evolves_ballot) (auto simp: ballot_core_def keeps_def get_proposals_state_def)

lemma core_calls_keep:
  "keeps ballot_core (p_configure_governance cfg s) s" "keeps ballot_core (configure_governance e adm cfg s) s"
  "keeps ballot_core (delegate_voting_power e a b s) s" "keeps ballot_core (undelegate_voting_power e a s) s"
  "keeps ballot_core (migrate_storage e adm v s) s" "keeps ballot_core (simulate_proposal strkey pid s) s"
  "keeps ballot_core (simulate_execution e pid s) s" "keeps ballot_core (distribute_reputation_rewards e adm n s) s"
  "keeps ballot_core (update_reputation_config e adm rc s) s" "keeps ballot_core (refresh_reputation e a s) s"
  unfolding configure_governance_def delegate_voting_power_def undelegate_voting_power_def migrate_storage_def
    simulate_proposal_def simulate_execution_def distribute_reputation_rewards_def update_reputation_config_def
    refresh_reputation_def p_configure_governance_def p_delegate_voting_power_def p_undelegate_voting_power_def
    p_simulate_proposal_def p_distribute_reputation_rewards_def get_reputation_leaderboard_def refresh_stale_reputation_def
  by (intro keeps_intros; simp add: ballot_core_def deposit_part_def gov_defs put_delegation_state_def
      put_reputation_state_def put_reputation_config_def)+

lemmas configuration_evolves [evolves_intros] = core_calls_keep [THEN evolves_core]

lemma cancel_evolves [evolves_intros]:
  assumes "cancel_proposal e pid a s = (Ok x, s')"
  shows "evolves 0 s s'"
proof -
  obtain p where p: "get_proposal pid s = Inr p" and put: "put_proposal (p\<lparr>gp_status := Cancelled\<rparr>) s = (Ok (), s')"
    using assms by (auto simp: cancel_proposal_def p_cancel_proposal_def when_Ok with_auth_Ok attempt_Ok and_then_Ok
        split: if_splits)
  then show ?thesis
    by (intro put_proposal_evolves [OF put]) (auto simp: get_proposal_Inr dest: proposals_ok_get)
qed

lemma keys_remove: "set (smap_keys (smap_remove m k)) = set (smap_keys m) - {k}"
  by (auto simp: smap_keys_def smap_remove_def)

lemma proposals_ok_remove:
  assumes "proposals_ok st" and "set ids = set (pp_proposal_ids st) - {pid}" and "distinct ids"
  shows "proposals_ok (st\<lparr>pp_proposals := smap_remove (pp_proposals st) pid, pp_proposal_ids := ids\<rparr>)"
  using assms by (auto simp: proposals_ok_def keys_remove split: if_splits)

lemma reclaim_evolves [evolves_intros]:
  assumes "reclaim_expired_proposal e pid a s = (Ok x, s')"
  shows "evolves 0 s s'"
proof (rule evolves_ballot)
  have run: "p_reclaim_expired_proposal e pid a s = (Ok x, s')"
    using assms by (simp add: reclaim_expired_proposal_def when_Ok)
  then show "deposit_part s' = deposit_part s" by (rule keepsD [OF keeps_deposit_part(8) [OF refl]])
  have st: "get_proposals_state s' = (get_proposals_state s)\<lparr>pp_proposals := smap_remove (pp_proposals (get_proposals_state s)) pid,
      pp_proposal_ids := remove1 pid (pp_proposal_ids (get_proposals_state s))\<rparr>"
    using run by (auto simp: p_reclaim_expired_proposal_def with_auth_Ok attempt_Ok Let_def split: if_splits)
  then show "pp_next_proposal_id (get_proposals_state s) \<le> pp_next_proposal_id (get_proposals_state s')" by simp
  show "proposals_ok (get_proposals_state s')" if "proposals_ok (get_proposals_state s)"
    unfolding st using that by (intro proposals_ok_remove) (auto simp: proposals_ok_def)
qed

lemma cleanup_loop_keeps:
  assumes "cleanup_loop e limit removed kept rest props s = (Ok (n, props', ids'), s')"
    and "smap_ok props" and "distinct (kept @ rest)" and "set (kept @ rest) = set (smap_keys props)"
  shows "smap_ok props' \<and> distinct ids' \<and> set ids' = set (smap_keys props') \<and>
    (\<forall>k v. smap_get props' k = Some v \<longrightarrow> smap_get props k = Some v)"
  using assms
proof (induction e limit removed kept rest props s rule: cleanup_loop.induct)
  case (2 e limit removed kept pid rest props s)
  show ?case
  proof (cases "removed < limit")
    case True
    with 2(3) obtain p where p: "smap_get props pid = Some p" by (auto simp: attempt_Ok ok_or_Inr)
    show ?thesis
    proof (cases "is_terminal (effective_status e p)")
      case ends: True
      have "smap_ok props' \<and> distinct ids' \<and> set ids' = set (smap_keys props') \<and>
          (\<forall>k v. smap_get props' k = Some v \<longrightarrow> smap_get (smap_remove props pid) k = Some v)"
        using 2(3-6) True p ends by (intro 2(1) [OF True, of p]) (auto simp: keys_remove)
      then show ?thesis by (metis smap_get_remove option.distinct(1))
    next
      case False
      with 2(3-6) True p show ?thesis by (intro 2(2) [OF True, of p]) auto
    qed
  next
    case False
    with 2(3-6) show ?thesis by auto
  qed
qed auto

lemma cleanup_evolves [evolves_intros]:
  assumes "cleanup_proposals e cursor limit s = (Ok x, s')"
  shows "evolves 0 s s'"
proof -
  let ?st = "get_proposals_state s"
  obtain n props ids s1 where run: "cleanup_loop e limit 0 (take cursor (pp_proposal_ids ?st)) (drop cursor (pp_proposal_ids ?st))
      (pp_proposals ?st) s = (Ok (n, props, ids), s1)"
    and s': "s' = put_proposals_state (?st\<lparr>pp_proposals := props, pp_proposal_ids := ids\<rparr>) s1"
    using assms by (auto simp: cleanup_proposals_def cleanup_terminal_proposals_def when_Ok and_then_Ok Let_def split: if_splits)
  have "deposit_part s1 = deposit_part s" by (rule keepsD [OF deposits.keeps_cleanup_loop [OF refl] run])
  then have "deposit_part s' = deposit_part s" by (simp add: s' deposit_part_def put_proposals_state_def put_ballot_def)
  moreover have "proposals_ok (get_proposals_state s')" if "proposals_ok ?st"
    using cleanup_loop_keeps [OF run] that by (simp add: s' proposals_ok_def) blast
  ultimately show ?thesis by (intro evolves_ballot) (simp_all add: s')
qed

section \<open>Deposits\<close>

lemma smap_get_le_total:
  "smap_all (\<lambda>x. 0 \<le> x) m \<Longrightarrow> get_or 0 (smap_get m k) \<le> smap_total (\<lambda>x. x) m"
  using smap_all_total_nonneg [of "\<lambda>x. x" m] smap_entry_le_total [of m k _ "\<lambda>x. x"]
  by (cases "smap_get m k") (force simp: smap_all_def list_all_iff)+

lemma balance_le_accounted:
  assumes "ledger_ok (gk_token s)"
  shows "get_balance a s \<le> gov_accounted (gk_token s)"
proof -
  have "get_balance a s \<le> smap_total (\<lambda>x. x) (tk_balances (gk_token s))"
    using assms unfolding get_balance_def ledger_ok_def by (intro smap_get_le_total) auto
  moreover have "0 \<le> smap_total (\<lambda>x. x) (tk_staked_balances (gk_token s))" "0 \<le> smap_total unvested (schedules_of (gk_token s))"
    using assms unfolding ledger_ok_def
    by (auto intro!: smap_total_nonneg simp: unvested_def schedule_ok_def smap_all_def list_all_iff)
  moreover have "0 \<le> unclaimed_liquidity (gk_token s)"
  proof (cases "tk_distribution_state (gk_token s)")
    case (Some d)
    have "0 \<le> smap_total (\<lambda>x. x) (rewards_of (gk_token s))"
      using assms unfolding ledger_ok_def by (intro smap_all_total_nonneg) auto
    with Some assms show ?thesis by (auto simp: ledger_ok_def unclaimed_liquidity_def liquidity_fits_def)
  qed (simp add: unclaimed_liquidity_def)
  ultimately show ?thesis by (simp add: gov_accounted_def)
qed

lemma default_deposit: "deposits_ok s \<Longrightarrow> get_deposit_config s = default_deposit_config"
  by (simp add: deposits_ok_def get_deposit_config_def)

lemma locked_deposits_set [simp]:
  "locked_deposits (set_locked_deposit pid None s) = locked_deposits s - {pid}"
  "locked_deposits (set_locked_deposit pid (Some a) s) = insert pid (locked_deposits s)"
  by (auto simp: locked_deposits_def set_locked_deposit_def put_ballot_def)

text \<open>Paying a deposit out to an account and releasing the lock.\<close>

lemma pay_deposit_evolves:
  assumes "add_balance a DEFAULT_DEPOSIT_AMOUNT s = (r, s1)" and "pid \<in> locked_deposits s"
    and "r = Ok () \<or> i128_max < get_balance a s + DEFAULT_DEPOSIT_AMOUNT"
    and "(gk_token s', gk_treasury s') = (gk_token s1, gk_treasury s1)"
    and "gk_ballot s' = gk_ballot (set_locked_deposit pid None s1)"
  shows "evolves 0 s s'"
proof -
  have locked: "locked_deposits s' = locked_deposits s - {pid}"
    and frame: "gk_ballot s1 = gk_ballot s" "gk_treasury s1 = gk_treasury s"
    and st: "get_proposals_state s' = get_proposals_state s" "bk_deposit_config (gk_ballot s') = bk_deposit_config (gk_ballot s)"
    using add_balance_frame [OF assms(1)] assms(5)
    by (auto simp: locked_deposits_def set_locked_deposit_def put_ballot_def get_proposals_state_def)
  have card: "int (card (locked_deposits s)) = int (card (locked_deposits s')) + 1" if "deposits_ok s"
    using card_Suc_Diff1 [OF deposits_finite [OF that] assms(2)] by (simp add: locked)
  have "ledger_ok (gk_token s') \<and> gov_accounted (gk_token s') = gov_accounted (gk_token s) +
      (if r = Ok () then DEFAULT_DEPOSIT_AMOUNT else 0)" if "ledger_ok (gk_token s)"
    using balance_calls_ledger(1) [OF that] balance_calls_failed(1) [of a DEFAULT_DEPOSIT_AMOUNT s] assms(1,4) that
    by (cases "r = Ok ()") auto
  moreover have "r = Ok ()" if "books_ok s" and "tokens_total s \<le> i128_max"
    using assms(3) that card balance_le_accounted [of s a] unfolding books_ok_def tokens_total_def
    by (auto simp: DEFAULT_DEPOSIT_AMOUNT_def)
  ultimately show ?thesis
    using card frame st locked assms(4)
    by (auto simp: evolves_def books_ok_def tokens_total_def deposits_ok_def get_treasury_def DEFAULT_DEPOSIT_AMOUNT_def)
qed

lemma add_balance_result:
  assumes "add_balance a DEFAULT_DEPOSIT_AMOUNT s = (r, s1)" and "ledger_ok (gk_token s)"
  shows "r = Ok () \<or> i128_max < get_balance a s + DEFAULT_DEPOSIT_AMOUNT"
  using assms balance_nonneg [OF assms(2), of a]
  by (auto simp: add_balance_def attempt_def gov_checked_add_def checked_add_def checked_i128_def in_i128_def
      DEFAULT_DEPOSIT_AMOUNT_def i128_min_def split: if_splits sum.splits)

lemma evolves_if_books: "(books_ok s \<Longrightarrow> evolves m s s') \<Longrightarrow> evolves m s s'"
  by (auto simp: evolves_def)

lemma settle_evolves:
  assumes "settle_proposal_deposit pid votes ref a s = (r, s')"
  shows "evolves 0 s s'"
proof (rule evolves_if_books)
  assume ok: "books_ok s"
  then have cfg: "dc_amount (get_deposit_config s) = DEFAULT_DEPOSIT_AMOUNT"
    by (simp add: books_ok_def default_deposit default_deposit_config_def)
  show "evolves 0 s s'"
  proof (cases "bk_locked_deposit (gk_ballot s) pid")
    case None
    with assms show ?thesis by (auto simp: settle_proposal_deposit_def intro: evolves_same)
  next
    case (Some author)
    then have locked: "pid \<in> locked_deposits s" by (simp add: locked_deposits_def)
    obtain b what r1 s1 where add: "add_balance b DEFAULT_DEPOSIT_AMOUNT s = (r1, s1)"
      and s': "s' = (if r1 = Ok () then set_locked_deposit pid None (deposit_event what pid b DEFAULT_DEPOSIT_AMOUNT s1) else s1)"
      using assms Some by (fastforce simp: settle_proposal_deposit_def cfg Let_def and_then_def split: if_splits prod.splits
          outcome.splits)
    show ?thesis
    proof (cases "r1 = Ok ()")
      case True
      with s' show ?thesis
        by (intro pay_deposit_evolves [OF add locked])
          (simp_all add: deposit_event_def publish_def set_locked_deposit_def put_ballot_def)
    next
      case False
      with add balance_calls_failed(1) [of b DEFAULT_DEPOSIT_AMOUNT s] s' show ?thesis by (auto intro: evolves_same)
    qed
  qed
qed

lemma withdraw_evolves [evolves_intros]:
  assumes "withdraw_proposal e pid a s = (Ok x, s')"
  shows "evolves 0 s s'"
proof (rule evolves_if_books)
  assume ok: "books_ok s"
  obtain p s1 where p: "get_proposal pid s = Inr p" and put: "put_proposal (p\<lparr>gp_status := Withdrawn\<rparr>) s = (Ok (), s1)"
    and rest: "s' = publish s1 [VSym ''gov'', VSym ''propwdr''] (VVec [VU64 pid, VAddr a, VU64 (ledger_timestamp e)]) \<or>
      (bk_locked_deposit (gk_ballot s1) pid = Some a \<and> (\<exists>r s2. add_balance a (dc_amount (get_deposit_config s1)) s1 = (r, s2) \<and>
        s' = publish (deposit_event ''refund'' pid a (dc_amount (get_deposit_config s1)) (set_locked_deposit pid None s2))
          [VSym ''gov'', VSym ''propwdr''] (VVec [VU64 pid, VAddr a, VU64 (ledger_timestamp e)])))"
    using assms
    by (auto simp: withdraw_proposal_def p_withdraw_proposal_def when_Ok with_auth_Ok attempt_Ok and_then_Ok ignore_Ok Let_def
        split: if_splits)
  have first: "evolves 0 s s1"
    using p by (intro put_proposal_evolves [OF put]) (auto simp: get_proposal_Inr dest: proposals_ok_get)
  then have ok1: "books_ok s1" using ok by (simp add: evolves_def)
  then have cfg: "dc_amount (get_deposit_config s1) = DEFAULT_DEPOSIT_AMOUNT"
    by (simp add: books_ok_def default_deposit default_deposit_config_def)
  have "evolves 0 s1 s'"
    using rest
  proof
    assume "s' = publish s1 [VSym ''gov'', VSym ''propwdr''] (VVec [VU64 pid, VAddr a, VU64 (ledger_timestamp e)])"
    then show ?thesis by (intro evolves_same) (simp add: publish_def)
  next
    assume "bk_locked_deposit (gk_ballot s1) pid = Some a \<and> (\<exists>r s2. add_balance a (dc_amount (get_deposit_config s1)) s1 = (r, s2) \<and>
        s' = publish (deposit_event ''refund'' pid a (dc_amount (get_deposit_config s1)) (set_locked_deposit pid None s2))
          [VSym ''gov'', VSym ''propwdr''] (VVec [VU64 pid, VAddr a, VU64 (ledger_timestamp e)]))"
    then obtain r s2 where locked: "pid \<in> locked_deposits s1" and add: "add_balance a DEFAULT_DEPOSIT_AMOUNT s1 = (r, s2)"
      and s': "s' = publish (deposit_event ''refund'' pid a DEFAULT_DEPOSIT_AMOUNT (set_locked_deposit pid None s2))
          [VSym ''gov'', VSym ''propwdr''] (VVec [VU64 pid, VAddr a, VU64 (ledger_timestamp e)])"
      by (auto simp: cfg locked_deposits_def)
    show ?thesis
      using add_balance_result [OF add] ok1 s'
      by (intro pay_deposit_evolves [OF add locked])
        (simp_all add: books_ok_def deposit_event_def publish_def set_locked_deposit_def put_ballot_def)
  qed
  with first show "evolves 0 s s'" by (rule evolves_trans0)
qed

lemma lock_deposit_evolves:
  assumes "subtract_balance a DEFAULT_DEPOSIT_AMOUNT s = (Ok (), s1)"
    and "pid \<notin> locked_deposits s" and "pid < pp_next_proposal_id (get_proposals_state s)"
    and "(gk_token s', gk_treasury s') = (gk_token s1, gk_treasury s1)"
    and "gk_ballot s' = gk_ballot (set_locked_deposit pid (Some a) s1)"
  shows "evolves 0 s s'"
proof -
  have frame: "gk_ballot s1 = gk_ballot s" "gk_treasury s1 = gk_treasury s"
    using assms(1) by (auto simp: balance_calls_Ok gov_defs)
  then have locked: "locked_deposits s' = insert pid (locked_deposits s)"
    and st: "get_proposals_state s' = get_proposals_state s" "bk_deposit_config (gk_ballot s') = bk_deposit_config (gk_ballot s)"
    using assms(5) by (auto simp: locked_deposits_def set_locked_deposit_def put_ballot_def get_proposals_state_def)
  have "int (card (locked_deposits s')) = int (card (locked_deposits s)) + 1" if "deposits_ok s"
    using deposits_finite [OF that] assms(2) by (simp add: locked)
  moreover have "ledger_ok (gk_token s') \<and> gov_accounted (gk_token s') = gov_accounted (gk_token s) - DEFAULT_DEPOSIT_AMOUNT"
    if "ledger_ok (gk_token s)"
    using balance_calls_ledger(2) [OF that assms(1)] assms(4) by simp
  ultimately show ?thesis
    using frame st locked assms(3,4)
    by (auto simp: evolves_def books_ok_def tokens_total_def deposits_ok_def get_treasury_def DEFAULT_DEPOSIT_AMOUNT_def)
qed

lemma p_create_proposal_Ok:
  assumes "p_create_proposal e author ptype title description data category quadratic s = (Ok pid, s')"
  obtains p where "pid = pp_next_proposal_id (get_proposals_state s)"
    "get_proposals_state s' = (get_proposals_state s)\<lparr>pp_proposals := smap_set (pp_proposals (get_proposals_state s)) pid p,
       pp_proposal_ids := pp_proposal_ids (get_proposals_state s) @ [pid], pp_next_proposal_id := sat_add_u64 pid 1\<rparr>"
    "gp_id p = pid" "gp_voters p = []" "gp_voter_list p = []" "gp_votes_for p = 0" "gp_votes_against p = 0"
    "gp_votes_abstain p = 0"
proof -
  have "pid = pp_next_proposal_id (get_proposals_state s) \<and> (\<exists>p. get_proposals_state s' = (get_proposals_state s)
      \<lparr>pp_proposals := smap_set (pp_proposals (get_proposals_state s)) pid p,
       pp_proposal_ids := pp_proposal_ids (get_proposals_state s) @ [pid], pp_next_proposal_id := sat_add_u64 pid 1\<rparr> \<and>
    gp_id p = pid \<and> gp_voters p = [] \<and> gp_voter_list p = [] \<and> gp_votes_for p = 0 \<and> gp_votes_against p = 0 \<and>
    gp_votes_abstain p = 0)"
    using assms
    by (auto simp: p_create_proposal_def with_auth_Ok attempt_Ok Let_def split: if_splits prod.splits intro!: exI)
  then show thesis using that by blast
qed

lemma proposals_ok_new:
  assumes "proposals_ok st" and "pp_next_proposal_id st < u64_max" and "gp_id p = pp_next_proposal_id st" and "proposal_ok p"
  shows "proposals_ok (st\<lparr>pp_proposals := smap_set (pp_proposals st) (gp_id p) p,
    pp_proposal_ids := pp_proposal_ids st @ [gp_id p], pp_next_proposal_id := sat_add_u64 (gp_id p) 1\<rparr>)"
proof -
  have next_id: "sat_add_u64 (gp_id p) 1 = Suc (pp_next_proposal_id st)" using assms(2,3) by (simp add: sat_add_u64_def)
  have "smap_get (pp_proposals st) (gp_id p) = None"
    using assms(1,3) by (cases "smap_get (pp_proposals st) (gp_id p)") (auto simp: proposals_ok_def)
  then have "gp_id p \<notin> set (smap_keys (pp_proposals st))" by (simp add: smap_get_None_iff)
  with assms next_id show ?thesis by (auto simp: proposals_ok_def keys_set less_Suc_eq)
qed

lemma empty_ballot_ok:
  "gp_voters p = [] \<Longrightarrow> gp_voter_list p = [] \<Longrightarrow> gp_votes_for p = 0 \<Longrightarrow> gp_votes_against p = 0 \<Longrightarrow>
     gp_votes_abstain p = 0 \<Longrightarrow> proposal_ok p"
  by (simp add: proposal_ok_def votes_of_def tally_def smap_all_def smap_keys_def i128_max_def split: vote_type.splits)

lemma create_evolves [evolves_intros]:
  assumes "create_proposal e a pt ti de da ca qu s = (Ok pid, s')"
    and "pp_next_proposal_id (get_proposals_state s) < u64_max"
  shows "evolves 0 s s'"
proof (rule evolves_if_books)
  assume ok: "books_ok s"
  obtain s1 s2 y where new: "p_create_proposal e a pt ti de da ca qu s = (Ok pid, s1)"
    and lock: "lock_proposal_deposit pid a s1 = (Ok (), s2)" and rec: "record_proposal_creation e a s2 = (y, s')"
    using assms(1) by (auto simp: create_proposal_def when_Ok and_then_Ok ignore_Ok)
  obtain p where pid: "pid = pp_next_proposal_id (get_proposals_state s)"
    and st: "get_proposals_state s1 = (get_proposals_state s)\<lparr>pp_proposals := smap_set (pp_proposals (get_proposals_state s)) pid p,
       pp_proposal_ids := pp_proposal_ids (get_proposals_state s) @ [pid], pp_next_proposal_id := sat_add_u64 pid 1\<rparr>"
    and p: "gp_id p = pid" "gp_voters p = []" "gp_voter_list p = []" "gp_votes_for p = 0" "gp_votes_against p = 0"
      "gp_votes_abstain p = 0"
    by (rule p_create_proposal_Ok [OF new])
  have part: "deposit_part s1 = deposit_part s" by (rule keepsD [OF keeps_deposit_part(5) [OF refl] new])
  have next_id: "sat_add_u64 pid 1 = Suc pid" using assms(2) pid by (simp add: sat_add_u64_def)
  have "proposals_ok (get_proposals_state s1)"
    using ok proposals_ok_new [of "get_proposals_state s" p] assms(2) pid p empty_ballot_ok [of p]
    by (simp add: books_ok_def st)
  then have 1: "evolves 0 s s1"
    using part st next_id pid by (intro evolves_ballot) simp_all
  then have ok1: "books_ok s1" using ok by (simp add: evolves_def)
  then have cfg: "dc_amount (get_deposit_config s1) = DEFAULT_DEPOSIT_AMOUNT"
    by (simp add: books_ok_def default_deposit default_deposit_config_def)
  have fresh: "pid \<notin> locked_deposits s1" "pid < pp_next_proposal_id (get_proposals_state s1)"
    using ok part pid st next_id by (auto simp: books_ok_def deposits_ok_def locked_deposits_def deposit_part_def)
  obtain s3 where sub: "subtract_balance a DEFAULT_DEPOSIT_AMOUNT s1 = (Ok (), s3)"
    and s2: "s2 = deposit_event ''locked'' pid a DEFAULT_DEPOSIT_AMOUNT (set_locked_deposit pid (Some a) s3)"
    using lock by (auto simp: lock_proposal_deposit_def cfg Let_def and_then_Ok DEFAULT_DEPOSIT_AMOUNT_def)
  have "evolves 0 s1 s2" unfolding s2
    using fresh by (intro lock_deposit_evolves [OF sub])
      (simp_all add: deposit_event_def publish_def set_locked_deposit_def put_ballot_def)
  moreover have "evolves 0 s2 s'"
    by (rule evolves_apart [OF record_activity_apart [OF rec [unfolded record_proposal_creation_def]]])
  ultimately show "evolves 0 s s'" using 1 by (blast intro: evolves_trans0)
qed

section \<open>Carrying out a proposal\<close>

text \<open>The governance tokens that the execution of an action creates.\<close>

fun minted_by :: "proposal_type \<Rightarrow> int" where
  "minted_by (TreasurySpend recipient amount a purpose) = amount"
| "minted_by _ = 0"

lemma action_evolves:
  assumes "gov_execute_action t s = (r, s')"
  shows "evolves (if r = Ok () then minted_by t else 0) s s'"
proof (cases t)
  case (TreasurySpend rec amount a d)
  from assms [unfolded TreasurySpend] show ?thesis
  proof (cases rule: spend_cases)
    case (1 er)
    then show ?thesis by (simp add: evolves_same)
  next
    case (2 rest)
    let ?s1 = "put_treasury ((get_treasury s)\<lparr>tr_assets := (tr_assets (get_treasury s))(a := Some rest)\<rparr>) s"
    have "evolves 0 s ?s1"
      using 2(1,2)
      by (intro evolves_treasury) (auto simp: treasury_ok_def)
    moreover have "evolves (if r = Ok () then minted_by t else 0) ?s1 s'"
    proof (cases "r = Ok ()")
      case True
      then have "0 < amount" using 2(3) by (auto simp: balance_calls_Ok)
      then show ?thesis
        using True TreasurySpend balance_calls_ledger(1) [of ?s1 rec amount "()" s'] 2(3) add_balance_frame [OF 2(3)]
        by (intro evolves_token) auto
    next
      case False
      with 2(3) balance_calls_failed(1) [of rec amount ?s1] show ?thesis by (auto intro: evolves_same)
    qed
    ultimately show ?thesis by (rule evolves_trans0)
  qed
qed (use assms in \<open>auto simp: deposit_part_def put_ballot_def get_proposals_state_def intro!: evolves_ballot\<close>)

lemma mark_executed_evolves:
  assumes "put_proposal (p\<lparr>gp_status := st, gp_executed_at := x\<rparr>) s = (Ok u, s')" and "get_proposal pid s = Inr p"
  shows "evolves 0 s s'"
  using assms by (intro put_proposal_evolves [OF assms(1)]) (auto simp: get_proposal_Inr dest: proposals_ok_get)

definition minted_by_id :: "nat \<Rightarrow> 'w governance \<Rightarrow> int" where
  "minted_by_id pid s = (case get_proposal pid s of Inl _ \<Rightarrow> 0 | Inr p \<Rightarrow> minted_by (gp_type p))"

definition is_executed :: "nat \<Rightarrow> 'w governance \<Rightarrow> bool" where
  "is_executed pid s = (case get_proposal pid s of Inl _ \<Rightarrow> False | Inr p \<Rightarrow> gp_status p = Executed)"

lemma p_execute_evolves:
  assumes "p_execute_proposal e pid a s = (Ok x, s')"
  shows "evolves (minted_by_id pid s) s s'"
proof -
  obtain p s1 where p: "get_proposal pid s = Inr p" and act: "gov_execute_action (gp_type p) s = (Ok (), s1)"
    and put: "put_proposal (p\<lparr>gp_status := Executed, gp_executed_at := Some (ledger_timestamp e)\<rparr>) s1 = (Ok (), s')"
    by (rule p_execute_Ok [OF assms])
  have "get_proposal pid s1 = Inr p" using p execute_action_frame(1) [OF act] by (simp add: get_proposal_def)
  from evolves_trans0(1) [OF action_evolves [OF act] mark_executed_evolves [OF put this]] show ?thesis
    by (simp add: minted_by_id_def p)
qed

lemma execute_evolves [evolves_intros]:
  "execute_proposal e pid a s = (Ok x, s') \<Longrightarrow> evolves (minted_by_id pid s) s s'"
  by (auto simp: execute_proposal_def when_Ok intro: p_execute_evolves)

text \<open>A failed execution inside \<^verbatim>\<open>finalize_proposal\<close> is ignored, but what it wrote stays.\<close>

lemma p_execute_failed_evolves:
  assumes "p_execute_proposal e pid a s = (x, s')" and "x \<notin> range Ok"
  shows "evolves 0 s s'"
proof (rule evolves_if_books)
  assume ok: "books_ok s"
  consider "s' = s" | p r where "get_proposal pid s = Inr p" "execute_proposal_action p s = (r, s')" "r \<noteq> Ok ()"
    | p s1 y where "get_proposal pid s = Inr p" "execute_proposal_action p s = (Ok (), s1)"
        "put_proposal (p\<lparr>gp_status := Executed, gp_executed_at := Some (ledger_timestamp e)\<rparr>) s1 = (y, s')" "y \<noteq> Ok ()"
    using assms
    by (auto simp: p_execute_proposal_def with_auth_def attempt_def and_then_def Let_def split: if_splits sum.splits
        prod.splits outcome.splits)
  then show "evolves 0 s s'"
  proof cases
    case 1
    then show ?thesis by (simp add: evolves_same)
  next
    case (2 p r)
    with action_evolves [of "gp_type p" s r s'] show ?thesis by (simp add: execute_proposal_action_def)
  next
    case (3 p s1 y)
    have "smap_has (pp_proposals (get_proposals_state s1)) (gp_id p)"
      using 3(1,2) ok execute_action_frame(1) [of "gp_type p" s "Ok ()" s1] proposals_ok_get [of "get_proposals_state s" pid p]
      by (auto simp: get_proposal_Inr books_ok_def execute_proposal_action_def smap_has_def)
    with 3(3,4) show ?thesis by (simp add: put_proposal_def Let_def)
  qed
qed

lemma p_finalize_evolves:
  assumes "p_finalize_proposal e pid s = (Ok st, s')" and "books_ok s"
  shows "evolves (if is_executed pid s' then minted_by_id pid s else 0) s s'"
proof -
  from assms(1) obtain p ref s1 s2 where p: "get_proposal pid s = Inr p" "gp_status p \<in> {Pending, Active}"
    and st: "st = verdict p ref (resolve_category_thresholds (gp_category p) (get_governance_config s) s)"
    and s1: "gk_ballot s1 = gk_ballot s" "gk_token s1 = gk_token s" "gk_treasury s1 = gk_treasury s"
    and put: "put_proposal (p\<lparr>gp_status := st\<rparr>) s1 = (Ok (), s2)"
    and rest: "s' = s2 \<or> (st = Succeeded \<and> gc_execution_delay (get_governance_config s) = 0 \<and>
        (\<exists>x. x \<noteq> Panic \<and> p_execute_proposal e pid (gp_proposer p) s2 = (x, s')))"
    by (rule p_finalize_Ok)
  have id: "gp_id p = pid" "proposal_ok p"
    using proposals_ok_get [of "get_proposals_state s" pid p] assms(2) p(1) by (auto simp: get_proposal_Inr books_ok_def)
  have two: "get_proposal pid s2 = Inr (p\<lparr>gp_status := st\<rparr>)" using put id(1) by (auto simp: run_iff get_proposal_def)
  have "evolves 0 s s1" using s1 by (intro evolves_same) simp
  moreover have "evolves 0 s1 s2" using id by (intro put_proposal_evolves [OF put]) simp
  ultimately have first: "evolves 0 s s2" by (rule evolves_trans0)
  have not_done: "\<not> is_executed pid s2" using two st by (simp add: is_executed_def verdict_def)
  show ?thesis
  proof (cases "s' = s2")
    case True
    with first not_done show ?thesis by simp
  next
    case False
    then obtain x where run: "p_execute_proposal e pid (gp_proposer p) s2 = (x, s')" using rest by blast
    show ?thesis
    proof (cases "x \<in> range Ok")
      case True
      then obtain y where "x = Ok y" by blast
      with run have ok: "p_execute_proposal e pid (gp_proposer p) s2 = (Ok y, s')" by simp
      obtain q s3 where "get_proposal pid s2 = Inr q"
        and "put_proposal (q\<lparr>gp_status := Executed, gp_executed_at := Some (ledger_timestamp e)\<rparr>) s3 = (Ok (), s')"
        by (rule p_execute_Ok [OF ok])
      then have "is_executed pid s'" using two id(1) by (auto simp: run_iff is_executed_def get_proposal_def)
      moreover have "minted_by_id pid s2 = minted_by_id pid s" by (simp add: minted_by_id_def two p)
      ultimately show ?thesis using evolves_trans0(2) [OF first p_execute_evolves [OF ok]] by simp
    next
      case no: False
      have "get_proposal pid s' = get_proposal pid s2" using p_execute_failed [OF run no] by (simp add: get_proposal_def)
      with not_done have "\<not> is_executed pid s'" by (simp add: is_executed_def)
      with evolves_trans0(1) [OF first p_execute_failed_evolves [OF run no]] show ?thesis by simp
    qed
  qed
qed

interpretation props: apart_from_token get_proposals_state
  by unfold_locales (simp_all add: get_proposals_state_def)

lemma settle_keeps_proposals: "keeps get_proposals_state (settle_proposal_deposit pid n ref a s) s"
  unfolding settle_proposal_deposit_def by (intro keeps_intros; simp add: deposit_event_def)

lemma finalize_evolves [evolves_intros]:
  assumes "finalize_proposal e pid s = (Ok st, s')"
  shows "evolves (if is_executed pid s' then minted_by_id pid s else 0) s s'"
proof (rule evolves_if_books)
  assume ok: "books_ok s"
  obtain s1 s2 x1 where fin: "p_finalize_proposal e pid s = (Ok st, s1)" and rec: "record_proposal_outcome e pid s1 = (x1, s2)"
    and settle: "\<exists>n ref a x2. settle_proposal_deposit pid n ref a s2 = (x2, s')"
  proof -
    obtain st1 s1 x1 s2 where "p_finalize_proposal e pid s = (Ok st1, s1)" "record_proposal_outcome e pid s1 = (x1, s2)"
      and rest: "(case get_proposal pid s2 of Inl _ \<Rightarrow> (Panic, s2) | Inr p \<Rightarrow>
        ignore (settle_proposal_deposit pid (total_votes p) (supply_or_zero s2)
                     (get_or (gp_proposer p) (bk_treasury_address (gk_ballot s2))) s2) (\<lambda>s. (Ok st1, s))) = (Ok st, s')"
      using assms by (auto simp: finalize_proposal_def after_verdict_def when_Ok and_then_Ok ignore_Ok)
    moreover obtain p where "get_proposal pid s2 = Inr p" using rest by (cases "get_proposal pid s2") simp_all
    ultimately show thesis by (intro that) (auto simp: ignore_Ok)
  qed
  then obtain n ref a x2 where settle: "settle_proposal_deposit pid n ref a s2 = (x2, s')" by blast
  have apart: "apart_from_reputation s1 s2" by (rule record_outcome_apart [OF rec])
  have "get_proposal pid s' = get_proposal pid s2"
    using keepsD [OF settle_keeps_proposals settle] by (simp add: get_proposal_def)
  then have same: "is_executed pid s' = is_executed pid s1" using apart_fields(5) [OF apart] by (simp add: is_executed_def)
  from p_finalize_evolves [OF fin ok] evolves_apart [OF apart] settle_evolves [OF settle]
  show "evolves (if is_executed pid s' then minted_by_id pid s else 0) s s'"
    unfolding same by (blast intro: evolves_trans0)
qed

end
