(* ===== verification/Governance_Runs.thy ===== *)
theory Governance_Runs
  imports Governance_Books
begin

text \<open>
  Histories of the governance contract. Each family of entry points is a step relation with one rule per entry point of
  \<^verbatim>\<open>lib.rs\<close> that can change the storage; the first argument of a step is the number of governance tokens that it
  creates. A failed call leaves the storage as it was and is no step. \<open>gov_run n s\<close>: the contract was initialised once
  and reached \<open>s\<close> by any sequence of calls, with \<open>n\<close> the supply at initialisation plus all tokens created since.

  Not a step is a second initialisation, which the contract allows after \<^verbatim>\<open>emergency_revoke_admin\<close>. The counter of the
  proposals is assumed not to reach the end of its type.
\<close>

section \<open>Steps\<close>

definition queued_mint :: "nat \<Rightarrow> 'w governance \<Rightarrow> int" where
  "queued_mint aid s = (case get_queued_action aid s of Inl _ \<Rightarrow> 0 | Inr a \<Rightarrow> minted_by_id (qa_proposal_id a) s)"

inductive token_step :: "int \<Rightarrow> 'w governance \<Rightarrow> 'w governance \<Rightarrow> bool" where
  "stake e u n s = (Ok res, s') \<Longrightarrow> token_step 0 s s'"
| "unstake e u n s = (Ok res, s') \<Longrightarrow> token_step 0 s s'"
| "set_vote_lock e adm u k s = (Ok res, s') \<Longrightarrow> token_step 0 s s'"
| "accrue_liquidity_rewards e adm u n s = (Ok res, s') \<Longrightarrow> token_step 0 s s'"
| "claim_liquidity_rewards e u s = (Ok res, s') \<Longrightarrow> token_step 0 s s'"
| "set_liquidity_mining_config e adm k n s = (Ok res, s') \<Longrightarrow> token_step 0 s s'"
| "create_vesting_schedule e adm u n st cl du s = (Ok res, s') \<Longrightarrow> in_i128 n \<Longrightarrow> token_step n s s'"
| "release_vested_tokens e u s = (Ok res, s') \<Longrightarrow> token_step 0 s s'"
| "vesting_schedule_timelocked e adm aid u n st cl du s = (Ok res, s') \<Longrightarrow> in_i128 n \<Longrightarrow> token_step n s s'"

inductive ballot_step :: "int \<Rightarrow> 'w governance \<Rightarrow> 'w governance \<Rightarrow> bool" where
  "create_proposal e a pt ti de da ca qu s = (Ok res, s') \<Longrightarrow> pp_next_proposal_id (get_proposals_state s) < u64_max \<Longrightarrow> ballot_step 0 s s'"
| "cast_vote e pid a vt s = (Ok res, s') \<Longrightarrow> ballot_step 0 s s'"
| "finalize_proposal e pid s = (Ok res, s') \<Longrightarrow> ballot_step (if is_executed pid s' then minted_by_id pid s else 0) s s'"
| "execute_proposal e pid a s = (Ok res, s') \<Longrightarrow> ballot_step (minted_by_id pid s) s s'"
| "cancel_proposal e pid a s = (Ok res, s') \<Longrightarrow> ballot_step 0 s s'"
| "withdraw_proposal e pid a s = (Ok res, s') \<Longrightarrow> ballot_step 0 s s'"
| "reclaim_expired_proposal e pid a s = (Ok res, s') \<Longrightarrow> ballot_step 0 s s'"
| "cleanup_proposals e cu li s = (Ok res, s') \<Longrightarrow> ballot_step 0 s s'"
| "simulate_proposal strkey pid s = (Ok res, s') \<Longrightarrow> ballot_step 0 s s'"
| "simulate_execution e pid s = (Ok res, s') \<Longrightarrow> ballot_step 0 s s'"
| "configure_governance e adm cfg s = (Ok res, s') \<Longrightarrow> ballot_step 0 s s'"
| "configure_governance_timelocked e adm aid cfg s = (Ok res, s') \<Longrightarrow> ballot_step 0 s s'"
| "set_category_thresholds e adm c ct s = (Ok res, s') \<Longrightarrow> ballot_step 0 s s'"
| "category_thresholds_timelocked e adm aid c ct s = (Ok res, s') \<Longrightarrow> ballot_step 0 s s'"
| "set_deposit_config e adm dc s = (Ok res, s') \<Longrightarrow> ballot_step 0 s s'"
| "migrate_storage e adm v s = (Ok res, s') \<Longrightarrow> ballot_step 0 s s'"
| "delegate_voting_power e a b s = (Ok res, s') \<Longrightarrow> ballot_step 0 s s'"
| "undelegate_voting_power e a s = (Ok res, s') \<Longrightarrow> ballot_step 0 s s'"
| "cast_reputation_weighted_vote e pid a vt s = (Ok res, s') \<Longrightarrow> ballot_step 0 s s'"
| "distribute_reputation_rewards e adm n s = (Ok res, s') \<Longrightarrow> ballot_step 0 s s'"
| "update_reputation_config e adm rc s = (Ok res, s') \<Longrightarrow> ballot_step 0 s s'"
| "refresh_reputation e a s = (Ok res, s') \<Longrightarrow> ballot_step 0 s s'"

inductive treasury_step :: "int \<Rightarrow> 'w governance \<Rightarrow> 'w governance \<Rightarrow> bool" where
  "set_treasury_asset e adm x n s = (Ok res, s') \<Longrightarrow> treasury_step 0 s s'"
| "create_budget e adm c n m st en re s = (Ok res, s') \<Longrightarrow> treasury_step 0 s s'"
| "approve_treasury_budget e adm c pid n s = (Ok res, s') \<Longrightarrow> treasury_step 0 s s'"
| "execute_treasury_spend e adm r n x c pu bp s = (Ok res, s') \<Longrightarrow> treasury_step 0 s s'"
| "create_recurring_payment e adm r n x k c pu bp ed s = (Ok res, s') \<Longrightarrow> treasury_step 0 s s'"
| "process_recurring_payments e adm s = (Ok res, s') \<Longrightarrow> treasury_step 0 s s'"
| "set_rebalance_target e adm x n s = (Ok res, s') \<Longrightarrow> treasury_step 0 s s'"
| "rebalance_treasury e adm prices s = (Ok res, s') \<Longrightarrow> treasury_step 0 s s'"
| "set_treasury_asset_timelocked e adm aid x n s = (Ok res, s') \<Longrightarrow> treasury_step 0 s s'"
| "treasury_spend_timelocked e adm aid r n x c pu bp s = (Ok res, s') \<Longrightarrow> treasury_step 0 s s'"
| "create_budget_timelocked e adm aid c n m st en re s = (Ok res, s') \<Longrightarrow> treasury_step 0 s s'"
| "treasury_budget_timelocked e adm aid c pid n s = (Ok res, s') \<Longrightarrow> treasury_step 0 s s'"
| "recurring_payment_timelocked e adm aid r n x k c pu bp ed s = (Ok res, s') \<Longrightarrow> treasury_step 0 s s'"
| "set_rebalance_target_timelocked e adm aid x n s = (Ok res, s') \<Longrightarrow> treasury_step 0 s s'"

inductive committee_step :: "int \<Rightarrow> 'w governance \<Rightarrow> 'w governance \<Rightarrow> bool" where
  "create_committee e adm na de ms ch k au td s = (Ok res, s') \<Longrightarrow> committee_step 0 s s'"
| "override_committee_decision e adm cid did s = (Ok res, s') \<Longrightarrow> committee_step 0 s s'"
| "dissolve_committee e adm cid s = (Ok res, s') \<Longrightarrow> committee_step 0 s s'"
| "propose_committee_decision e cid a tx act s = (Ok res, s') \<Longrightarrow> committee_step 0 s s'"
| "vote_on_committee_decision e cid did a vt s = (Ok res, s') \<Longrightarrow> committee_step 0 s s'"
| "execute_committee_decision e cid did a s = (Ok res, s') \<Longrightarrow> committee_step 0 s s'"
| "start_committee_election e adm cid k days mp n s = (Ok res, s') \<Longrightarrow> committee_step 0 s s'"
| "nominate_for_committee e cid a b s = (Ok res, s') \<Longrightarrow> committee_step 0 s s'"
| "vote_in_committee_election e cid a b s = (Ok res, s') \<Longrightarrow> committee_step 0 s s'"
| "finalize_committee_election e adm cid s = (Ok res, s') \<Longrightarrow> committee_step 0 s s'"
| "set_committee_approval_rating e adm cid k s = (Ok res, s') \<Longrightarrow> committee_step 0 s s'"
| "request_cross_committee_approval e cid a ids tx s = (Ok res, s') \<Longrightarrow> committee_step 0 s s'"
| "approve_cross_committee_request e rid cid a did s = (Ok res, s') \<Longrightarrow> committee_step 0 s s'"
| "create_committee_timelocked e adm aid na de ms ch k au td s = (Ok res, s') \<Longrightarrow> committee_step 0 s s'"
| "dissolve_committee_timelocked e adm aid cid s = (Ok res, s') \<Longrightarrow> committee_step 0 s s'"
| "committee_override_timelocked e adm aid cid did s = (Ok res, s') \<Longrightarrow> committee_step 0 s s'"

inductive conviction_step :: "int \<Rightarrow> 'w governance \<Rightarrow> 'w governance \<Rightarrow> bool" where
  "create_conviction_pool e adm n m k s = (Ok res, s') \<Longrightarrow> conviction_step 0 s s'"
| "create_conviction_proposal e pl a ti n b s = (Ok res, s') \<Longrightarrow> conviction_step 0 s s'"
| "vote_conviction e pl pid a n s = (Ok res, s') \<Longrightarrow> conviction_step 0 s s'"
| "update_proposal_conviction e pl pid s = (Ok res, s') \<Longrightarrow> conviction_step 0 s s'"
| "execute_conviction_funding pl pid s = (Ok res, s') \<Longrightarrow> conviction_step 0 s s'"
| "change_conviction_vote e pl pid pid2 a s = (Ok res, s') \<Longrightarrow> conviction_step 0 s s'"
| "refill_conviction_pool e pl s = (Ok res, s') \<Longrightarrow> conviction_step 0 s s'"
| "withdraw_conviction_vote e pl pid a s = (Ok res, s') \<Longrightarrow> conviction_step 0 s s'"
| "set_conviction_calibration e adm cal s = (Ok res, s') \<Longrightarrow> conviction_step 0 s s'"
| "set_conviction_decay_rate e adm k s = (Ok res, s') \<Longrightarrow> conviction_step 0 s s'"

inductive control_step :: "int \<Rightarrow> 'w governance \<Rightarrow> 'w governance \<Rightarrow> bool" where
  "propose_key_rotation e adm a s = (Ok res, s') \<Longrightarrow> control_step 0 s s'"
| "accept_key_rotation a s = (Ok res, s') \<Longrightarrow> control_step 0 s s'"
| "cancel_key_rotation e adm s = (Ok res, s') \<Longrightarrow> control_step 0 s s'"
| "emergency_revoke_admin e a s = (Ok res, s') \<Longrightarrow> control_step 0 s s'"
| "set_guardian e adm a s = (Ok res, s') \<Longrightarrow> control_step 0 s s'"
| "set_contract_paused D e adm flag s = (Ok res, s') \<Longrightarrow> control_step 0 s s'"
| "register_pause_target e adm a s = (Ok res, s') \<Longrightarrow> control_step 0 s s'"
| "unregister_pause_target e adm a s = (Ok res, s') \<Longrightarrow> control_step 0 s s'"
| "grant_capability_call e adm a cap s = (Ok res, s') \<Longrightarrow> control_step 0 s s'"
| "revoke_capability_call e adm a cap s = (Ok res, s') \<Longrightarrow> control_step 0 s s'"
| "enter_shadow_mode e adm h k s = (Ok res, s') \<Longrightarrow> control_step 0 s s'"
| "promote_from_shadow_mode e adm s = (Ok res, s') \<Longrightarrow> control_step 0 s s'"
| "cancel_shadow_mode e adm s = (Ok res, s') \<Longrightarrow> control_step 0 s s'"
| "enforce_admin_timelock e adm s = (Ok res, s') \<Longrightarrow> control_step 0 s s'"
| "initialize_timelock e adm lo hi g s = (Ok res, s') \<Longrightarrow> control_step 0 s s'"
| "queue_action e pid s = (Ok res, s') \<Longrightarrow> control_step 0 s s'"
| "update_timelock_delay e adm kind d s = (Ok res, s') \<Longrightarrow> control_step 0 s s'"
| "extend_execution_window e adm aid d s = (Ok res, s') \<Longrightarrow> control_step 0 s s'"
| "cancel_admin_action e aid a s = (Ok res, s') \<Longrightarrow> control_step 0 s s'"
| "set_guardian_timelocked e adm aid a s = (Ok res, s') \<Longrightarrow> control_step 0 s s'"
| "grant_capability_timelocked e adm aid a cap s = (Ok res, s') \<Longrightarrow> control_step 0 s s'"
| "revoke_capability_timelocked e adm aid a cap s = (Ok res, s') \<Longrightarrow> control_step 0 s s'"
| "enter_shadow_mode_timelocked e adm aid h k s = (Ok res, s') \<Longrightarrow> control_step 0 s s'"
| "shadow_mode_promote_timelocked e adm aid s = (Ok res, s') \<Longrightarrow> control_step 0 s s'"
| "update_timelock_delay_timelocked e adm aid kind d s = (Ok res, s') \<Longrightarrow> control_step 0 s s'"
| "queue_set_treasury_asset e adm x n s = (Ok res, s') \<Longrightarrow> control_step 0 s s'"
| "queue_execute_treasury_spend e adm r n x c pu bp s = (Ok res, s') \<Longrightarrow> control_step 0 s s'"
| "queue_configure_governance e adm cfg s = (Ok res, s') \<Longrightarrow> control_step 0 s s'"
| "queue_set_category_thresholds e adm c ct s = (Ok res, s') \<Longrightarrow> control_step 0 s s'"
| "queue_create_committee e adm na de s = (Ok res, s') \<Longrightarrow> control_step 0 s s'"
| "queue_dissolve_committee e adm cid s = (Ok res, s') \<Longrightarrow> control_step 0 s s'"
| "queue_committee_override e adm cid did s = (Ok res, s') \<Longrightarrow> control_step 0 s s'"
| "queue_set_guardian e adm a s = (Ok res, s') \<Longrightarrow> control_step 0 s s'"
| "queue_create_budget e adm c n s = (Ok res, s') \<Longrightarrow> control_step 0 s s'"
| "queue_approve_treasury_budget e adm c pid n s = (Ok res, s') \<Longrightarrow> control_step 0 s s'"
| "queue_create_recurring_payment e adm r n s = (Ok res, s') \<Longrightarrow> control_step 0 s s'"
| "queue_enter_shadow_mode e adm h k s = (Ok res, s') \<Longrightarrow> control_step 0 s s'"
| "queue_promote_from_shadow_mode e adm s = (Ok res, s') \<Longrightarrow> control_step 0 s s'"
| "queue_update_timelock_delay e adm kind d s = (Ok res, s') \<Longrightarrow> control_step 0 s s'"
| "queue_create_vesting_schedule e adm u n s = (Ok res, s') \<Longrightarrow> control_step 0 s s'"
| "queue_set_rebalance_target e adm x n s = (Ok res, s') \<Longrightarrow> control_step 0 s s'"
| "queue_grant_capability e a b cap s = (Ok res, s') \<Longrightarrow> control_step 0 s s'"
| "queue_revoke_capability e a b cap s = (Ok res, s') \<Longrightarrow> control_step 0 s s'"

inductive queue_step :: "int \<Rightarrow> 'w governance \<Rightarrow> 'w governance \<Rightarrow> bool" where
  "execute_queued_action e aid a s = (Ok res, s') \<Longrightarrow> queue_step (queued_mint aid s) s s'"
| "emergency_execute e aid a s = (Ok res, s') \<Longrightarrow> queue_step (queued_mint aid s) s s'"
| "emergency_unblock_action e aid a s = (Ok res, s') \<Longrightarrow> queue_step (queued_mint aid s) s s'"
| "cancel_queued_action e aid a s = (Ok res, s') \<Longrightarrow> queue_step 0 s s'"
| "execute_multiple_actions e aids a s = (Ok res, s') \<Longrightarrow> queue_step 0 s s'"

inductive gov_step :: "int \<Rightarrow> 'w governance \<Rightarrow> 'w governance \<Rightarrow> bool" where
  token: "token_step m s s' \<Longrightarrow> gov_step m s s'"
| ballot: "ballot_step m s s' \<Longrightarrow> gov_step m s s'"
| treasury: "treasury_step m s s' \<Longrightarrow> gov_step m s s'"
| committee: "committee_step m s s' \<Longrightarrow> gov_step m s s'"
| conviction: "conviction_step m s s' \<Longrightarrow> gov_step m s s'"
| control: "control_step m s s' \<Longrightarrow> gov_step m s s'"
| queue: "queue_step m s s' \<Longrightarrow> gov_step m s s'"
| outside: "gov_step 0 s (s\<lparr>gk_outside := w\<rparr>)"

inductive gov_run :: "int \<Rightarrow> 'w governance \<Rightarrow> bool" where
  start: "gov_initialize e admin name symb decimals n recipients (deployed w) = (Ok u, s) \<Longrightarrow> gov_run n s"
| step: "gov_run n s \<Longrightarrow> gov_step m s s' \<Longrightarrow> gov_run (n + m) s'"

section \<open>Steps move the books\<close>

lemma spent_entry_evolves: "evolves 0 s (spent_entry i s)"
  by (rule evolves_same) (simp add: spent_entry_def)

lemma after_delay_evolves:
  assumes "after_delay e aid a f s = (Ok x, s')" and "\<And>e s1. f e s1 = (Ok x, s') \<Longrightarrow> evolves m s1 s'"
  shows "evolves m s s'"
proof -
  from assms(1) obtain i where "f (consume_auth a e) (spent_entry i s) = (Ok x, s')" by (auto simp: after_delay_Ok)
  from assms(2) [OF this] show ?thesis by (rule evolves_trans0(2) [OF spent_entry_evolves])
qed

lemma admin_after_delay_evolves:
  assumes "admin_after_delay e aid a f s = (Ok x, s')" and "\<And>e s1. f e s1 = (Ok x, s') \<Longrightarrow> evolves m s1 s'"
  shows "evolves m s s'"
proof -
  from assms(1) obtain i where "f (consume_auth a e) (spent_entry i s) = (Ok x, s')" by (auto simp: admin_after_delay_Ok)
  from assms(2) [OF this] show ?thesis by (rule evolves_trans0(2) [OF spent_entry_evolves])
qed

lemma token_step_evolves: "token_step m s s' \<Longrightarrow> evolves m s s'"
proof (induction rule: token_step.induct)
  case (9 e adm aid u n st cl du s res s')
  then show ?case
    unfolding vesting_schedule_timelocked_def by (blast intro: admin_after_delay_evolves custom_schedule_evolves)
qed (rule evolves_intros; assumption)+

lemma ballot_step_evolves: "ballot_step m s s' \<Longrightarrow> evolves m s s'"
proof (induction rule: ballot_step.induct)
  case (12 e adm aid cfg s res s')
  then have "after_delay e aid adm (\<lambda>e. p_configure_governance cfg) s = (Ok res, s')"
    by (simp add: configure_governance_timelocked_def when_Ok)
  then show ?case by (rule after_delay_evolves) (rule configuration_evolves)
next
  case (13 e adm c ct s res s')
  then show ?case by (auto simp: set_category_thresholds_def run_iff p_set_category_thresholds_def)
next
  case (14 e adm aid c ct s res s')
  then show ?case by (auto simp: category_thresholds_timelocked_def run_iff p_set_category_thresholds_def)
next
  case (15 e adm dc s res s')
  then show ?case by (auto simp: set_deposit_config_def run_iff p_set_deposit_config_def)
qed (rule evolves_intros; assumption)+

lemma treasury_step_evolves: "treasury_step m s s' \<Longrightarrow> evolves m s s'"
proof (induction rule: treasury_step.induct)
  case (9 e adm aid x n s res s')
  then show ?case unfolding set_treasury_asset_timelocked_def by (rule admin_after_delay_evolves) (rule treasury_bodies_evolve)
next
  case (10 e adm aid r n x c pu bp s res s')
  then show ?case unfolding treasury_spend_timelocked_def by (rule admin_after_delay_evolves) (rule treasury_bodies_evolve)
next
  case (11 e adm aid c n m st en re s res s')
  then show ?case unfolding create_budget_timelocked_def by (rule admin_after_delay_evolves) (rule treasury_bodies_evolve)
next
  case (12 e adm aid c pid n s res s')
  then show ?case unfolding treasury_budget_timelocked_def by (rule admin_after_delay_evolves) (rule treasury_bodies_evolve)
next
  case (13 e adm aid r n x k c pu bp ed s res s')
  then show ?case unfolding recurring_payment_timelocked_def by (rule admin_after_delay_evolves) (rule treasury_bodies_evolve)
next
  case (14 e adm aid x n s res s')
  then show ?case unfolding set_rebalance_target_timelocked_def by (rule admin_after_delay_evolves) (rule treasury_bodies_evolve)
qed (rule treasury_calls_evolve; assumption)+

lemmas council_calls_evolve = books.keeps_council_calls [OF refl, THEN evolves_keeps]
lemmas council_bodies_evolve = books.keeps_committee_bodies [OF refl, THEN evolves_keeps]

lemma committee_step_evolves: "committee_step m s s' \<Longrightarrow> evolves m s s'"
proof (induction rule: committee_step.induct)
  case (6 e cid did a s res s')
  then show ?case by (rule committee_decision_evolves)
next
  case (14 e adm aid na de ms ch k au td s res s')
  then show ?case unfolding create_committee_timelocked_def by (rule admin_after_delay_evolves) (rule council_bodies_evolve)
next
  case (15 e adm aid cid s res s')
  then show ?case unfolding dissolve_committee_timelocked_def by (rule admin_after_delay_evolves) (rule council_bodies_evolve)
next
  case (16 e adm aid cid did s res s')
  then show ?case unfolding committee_override_timelocked_def by (rule admin_after_delay_evolves) (rule council_bodies_evolve)
qed (rule council_calls_evolve; assumption)+

lemmas conviction_calls_evolve = book.keeps_conviction_calls [OF refl, THEN evolves_keeps]

lemma conviction_step_evolves: "conviction_step m s s' \<Longrightarrow> evolves m s s'"
  by (induction rule: conviction_step.induct) (rule conviction_calls_evolve; assumption)+

lemmas control_calls_evolve = assets.keeps_admin_calls [OF refl, THEN evolves_keeps]
  assets.keeps_timelock_functions [OF refl, THEN evolves_keeps] assets.keeps_timelock_calls [OF refl, THEN evolves_keeps]

lemma capability_evolves: "evolves 0 s (grant_capability a b cap s)" "evolves 0 s (revoke_capability a b cap s)"
  by (rule evolves_same; simp add: grant_capability_def revoke_capability_def)+

lemma enforce_evolves: "enforce_admin_timelock e adm s = (Ok u, s') \<Longrightarrow> evolves 0 s s'"
  by (rule evolves_same) (auto simp: enforce_admin_timelock_def run_iff emit_admin_action_def publish_def)

lemma control_step_evolves: "control_step m s s' \<Longrightarrow> evolves m s s'"
proof (induction rule: control_step.induct)
  case (14 e adm s res s')
  then show ?case by (rule enforce_evolves)
next
  case (20 e adm aid a s res s')
  then show ?case unfolding set_guardian_timelocked_def by (rule admin_after_delay_evolves) (rule control_calls_evolve)
next
  case (21 e adm aid a cap s res s')
  then have "after_delay e aid adm (\<lambda>e s. (Ok (), grant_capability adm a cap s)) s = (Ok res, s')"
    by (simp add: grant_capability_timelocked_def when_Ok)
  then show ?case by (rule after_delay_evolves) (auto intro: capability_evolves)
next
  case (22 e adm aid a cap s res s')
  then have "after_delay e aid adm (\<lambda>e s. (Ok (), revoke_capability adm a cap s)) s = (Ok res, s')"
    by (simp add: revoke_capability_timelocked_def when_Ok)
  then show ?case by (rule after_delay_evolves) (auto intro: capability_evolves)
next
  case (23 e adm aid h k s res s')
  then have "after_delay e aid adm (\<lambda>e. m_enter_shadow_mode e adm h k) s = (Ok res, s')"
    by (simp add: enter_shadow_mode_timelocked_def when_Ok)
  then show ?case by (rule after_delay_evolves) (rule control_calls_evolve)
next
  case (24 e adm aid s res s')
  then have "after_delay e aid adm (\<lambda>e. m_promote_from_shadow_mode e adm) s = (Ok res, s')"
    by (simp add: shadow_mode_promote_timelocked_def when_Ok)
  then show ?case by (rule after_delay_evolves) (rule control_calls_evolve)
next
  case (25 e adm aid kind d s res s')
  then show ?case unfolding update_timelock_delay_timelocked_def by (rule admin_after_delay_evolves) (rule control_calls_evolve)
qed ((unfold queue_set_treasury_asset_def queue_execute_treasury_spend_def queue_configure_governance_def
      queue_set_category_thresholds_def queue_create_committee_def queue_dissolve_committee_def queue_committee_override_def
      queue_set_guardian_def queue_create_budget_def queue_approve_treasury_budget_def queue_create_recurring_payment_def
      queue_enter_shadow_mode_def queue_promote_from_shadow_mode_def queue_update_timelock_delay_def
      queue_create_vesting_schedule_def queue_set_rebalance_target_def)?, rule control_calls_evolve; assumption)+

section \<open>The queue of approved proposals\<close>

lemma run_queued_evolves:
  assumes "run_queued e t i a s = (Ok u, s')"
  shows "evolves (minted_by_id (qa_proposal_id a) s) s s'"
proof -
  let ?pid = "qa_proposal_id a"
  obtain s1 p where p: "get_proposal ?pid s = Inr p" and act: "gov_execute_action (gp_type p) s = (Ok (), s1)"
    and mark: "mark_proposal_executed e ?pid (set_queued i (a\<lparr>qa_executed := True\<rparr>) t s1) = (Ok u, s')"
    using assms by (auto simp: run_queued_def execute_proposal_action_by_id_def execute_proposal_action_def and_then_Ok attempt_Ok)
  let ?s2 = "set_queued i (a\<lparr>qa_executed := True\<rparr>) t s1"
  have frame: "get_proposal ?pid ?s2 = Inr p"
    using p execute_action_frame(1) [OF act] by (simp add: get_proposal_def set_queued_def put_timelock_def get_proposals_state_def)
  have "evolves (minted_by_id ?pid s) s s1" using action_evolves [OF act] by (simp add: minted_by_id_def p)
  moreover have "evolves 0 s1 ?s2" by (rule evolves_same) (simp add: set_queued_def put_timelock_def)
  moreover have "evolves 0 ?s2 s'"
    using mark by (intro mark_executed_evolves [OF _ frame]) (simp add: mark_proposal_executed_def frame)
  ultimately show ?thesis by (blast intro: evolves_trans0)
qed

lemma with_queued_Ok:
  "with_queued aid t f s = (Ok x, s') \<longleftrightarrow>
     (\<exists>i. position (\<lambda>a. qa_id a = aid) (tl_queued_actions t) = Some i \<and> f i (tl_queued_actions t ! i) s = (Ok x, s'))"
  by (auto simp: with_queued_def split: option.splits)

lemma queued_mint_at:
  "gk_timelock s = Some t \<Longrightarrow> position (\<lambda>a. qa_id a = aid) (tl_queued_actions t) = Some i \<Longrightarrow>
     queued_mint aid s = minted_by_id (qa_proposal_id (tl_queued_actions t ! i)) s"
  by (simp add: queued_mint_def get_queued_action_def get_timelock_def)

lemma queue_step_evolves: "queue_step m s s' \<Longrightarrow> evolves m s s'"
proof (induction rule: queue_step.induct)
  case (1 e aid a s res s')
  then show ?case
    by (auto simp: execute_queued_action_def m_execute_queued_action_def when_Ok with_auth_Ok attempt_Ok get_timelock_def
        ok_or_Inr with_queued_Ok queued_mint_at intro: run_queued_evolves split: if_splits)
next
  case (2 e aid a s res s')
  then show ?case
    by (auto simp: emergency_execute_def m_emergency_execute_def when_Ok with_auth_Ok attempt_Ok get_timelock_def
        ok_or_Inr with_queued_Ok queued_mint_at intro: run_queued_evolves split: if_splits)
next
  case (3 e aid a s res s')
  then show ?case
    by (auto simp: emergency_unblock_action_def m_emergency_unblock_action_def when_Ok with_auth_Ok attempt_Ok get_timelock_def
        ok_or_Inr with_queued_Ok queued_mint_at intro: run_queued_evolves split: if_splits)
next
  case (4 e aid a s res s')
  then obtain t i p where put: "put_proposal (p\<lparr>gp_status := Cancelled\<rparr>) (set_queued i ((tl_queued_actions t ! i)\<lparr>qa_cancelled := True\<rparr>) t s) =
      (Ok res, s')" and p: "get_proposal (qa_proposal_id (tl_queued_actions t ! i))
        (set_queued i ((tl_queued_actions t ! i)\<lparr>qa_cancelled := True\<rparr>) t s) = Inr p"
    by (auto simp: cancel_queued_action_def m_cancel_queued_action_def when_Ok with_auth_Ok attempt_Ok with_queued_Ok Let_def
        split: if_splits)
  have "evolves 0 s (set_queued i ((tl_queued_actions t ! i)\<lparr>qa_cancelled := True\<rparr>) t s)"
    by (rule evolves_same) (simp add: set_queued_def put_timelock_def)
  moreover have "evolves 0 (set_queued i ((tl_queued_actions t ! i)\<lparr>qa_cancelled := True\<rparr>) t s) s'"
    using p by (intro put_proposal_evolves [OF put]) (auto simp: get_proposal_Inr dest: proposals_ok_get)
  ultimately show ?case by (rule evolves_trans0)
next
  case (5 e aids a s res s')
  show ?case
  proof (cases aids)
    case Nil
    with 5 show ?thesis
      by (auto simp: execute_multiple_actions_def m_execute_multiple_actions_def when_Ok with_auth_Ok intro: evolves_same)
  next
    case (Cons aid rest)
    with 5 show ?thesis
      by (auto simp: execute_multiple_actions_def m_execute_multiple_actions_def when_Ok with_auth_Ok m_execute_queued_action_def
          with_auth_def split: if_splits)
  qed
qed

lemma gov_step_evolves: "gov_step m s s' \<Longrightarrow> evolves m s s'"
proof (induction rule: gov_step.induct)
  case (outside s w)
  show ?case by (rule evolves_same) simp
qed (blast intro: token_step_evolves ballot_step_evolves treasury_step_evolves committee_step_evolves conviction_step_evolves
    control_step_evolves queue_step_evolves)+

section \<open>Genesis\<close>

lemma fold_track_holder_frame:
  "gk_ballot (fold track_holder as s) = gk_ballot s \<and> gk_treasury (fold track_holder as s) = gk_treasury s \<and>
   ledger_ok (gk_token (fold track_holder as s)) = ledger_ok (gk_token s) \<and>
   gov_accounted (gk_token (fold track_holder as s)) = gov_accounted (gk_token s)"
  by (induction as arbitrary: s) simp_all

lemma distribution_keeps: "keeps (\<lambda>s. (gk_ballot s, gk_treasury s, gk_committees s)) (initialize_distribution e r n bps m s) s"
  unfolding initialize_distribution_def by (intro keeps_intros; simp add: gov_defs)

lemma genesis:
  assumes "gov_initialize e admin name symb decimals n recipients (deployed w) = (Ok u, s)"
  shows "books_ok s" "tokens_total s = n" "0 < n"
proof -
  let ?s0 = "fresh_storage admin name symb decimals n (deployed w)"
  obtain d s1 where n: "0 < n" and dist: "initialize_distribution (consume_auth admin e) recipients n DEFAULT_LIQUIDITY_REWARD_BPS
      DEFAULT_MIN_CLAIM_THRESHOLD ?s0 = (Ok d, s1)"
    and s: "gk_treasury s = gk_treasury s1" "gk_ballot s = (gk_ballot s1)\<lparr>bk_treasury_address := Some (dr_treasury recipients)\<rparr>"
      "ledger_ok (gk_token s) = ledger_ok (gk_token s1)" "gov_accounted (gk_token s) = gov_accounted (gk_token s1)"
    using assms fold_track_holder_frame [of "[dr_team recipients, dr_early_investors recipients, dr_community_rewards recipients,
        dr_treasury recipients, dr_public_sale recipients]"]
    by (auto simp: gov_initialize_def with_auth_Ok and_then_Ok Let_def emit_distribution_initialized_def emit_initialized_gov_def
        publish_def put_ballot_def split: if_splits)
  have fresh: "ledger_ok (gk_token ?s0)" "gov_accounted (gk_token ?s0) = 0" "tk_distribution_state (gk_token ?s0) = None"
    "rewards_of (gk_token ?s0) = []"
    by (simp_all add: fresh_storage_def deployed_def deployed_token_def ledger_defs schedules_of_def rewards_of_def
        persistent_or_instance_def smap_all_def liquidity_fits_def)
  note led = initialize_distribution_ledger [OF fresh(1,3,4) n dist]
  have frame: "gk_ballot s1 = gk_ballot ?s0" "gk_treasury s1 = gk_treasury ?s0"
    using keepsD [OF distribution_keeps dist] by simp_all
  show "0 < n" by (rule n)
  have none: "locked_deposits s = {}"
    by (simp add: locked_deposits_def s frame fresh_storage_def deployed_def deployed_ballot_def)
  then show "tokens_total s = n" using led fresh(2) s by (simp add: tokens_total_def)
  show "books_ok s" using led s none
    by (simp add: books_ok_def deposits_ok_def frame fresh_storage_def deployed_def deployed_ballot_def get_treasury_def
      get_proposals_state_def empty_proposals_state_def proposals_ok_def empty_treasury_def treasury_ok_def smap_keys_def)
qed

section \<open>The supply\<close>

lemma gov_run_books: "gov_run n s \<Longrightarrow> books_ok s \<and> tokens_total s \<le> n \<and> (n \<le> i128_max \<longrightarrow> tokens_total s = n)"
proof (induction rule: gov_run.induct)
  case (start e admin name symb decimals n recipients w u s)
  from genesis [OF start] show ?case by simp
next
  case (step n s m s')
  from gov_step_evolves [OF step.hyps(2)] step.IH show ?case by (auto simp: evolves_def)
qed


section \<open>The latch of the administrative time-lock\<close>

lemmas latch_token = calls.keeps_token_calls [OF refl, THEN keepsD]
lemmas latch_ballot = calls.keeps_ballot_calls [OF refl, THEN keepsD]
lemmas latch_treasury = calls.keeps_treasury_calls [OF refl, THEN keepsD]
lemmas latch_council = calls.keeps_council_calls [OF refl, THEN keepsD] calls.keeps_decision_execution [OF refl, THEN keepsD]
lemmas latch_conviction = calls.keeps_conviction_calls [OF refl, THEN keepsD]
lemmas latch_control = latch.keeps_admin_calls [OF refl, THEN keepsD] latch.keeps_timelock_functions [OF refl, THEN keepsD]
  latch.keeps_timelock_calls [OF refl, THEN keepsD]

lemma after_delay_latch:
  assumes "after_delay e aid a f s = (Ok x, s')"
    and "\<And>e s1. f e s1 = (Ok x, s') \<Longrightarrow> gk_enforce_admin_timelock s' = gk_enforce_admin_timelock s1"
  shows "gk_enforce_admin_timelock s' = gk_enforce_admin_timelock s"
proof -
  from assms(1) obtain i where "f (consume_auth a e) (spent_entry i s) = (Ok x, s')" by (auto simp: after_delay_Ok)
  from assms(2) [OF this] show ?thesis by (simp add: spent_entry_def)
qed

lemma admin_after_delay_latch:
  assumes "admin_after_delay e aid a f s = (Ok x, s')"
    and "\<And>e s1. f e s1 = (Ok x, s') \<Longrightarrow> gk_enforce_admin_timelock s' = gk_enforce_admin_timelock s1"
  shows "gk_enforce_admin_timelock s' = gk_enforce_admin_timelock s"
  using assms by (intro after_delay_latch [of e aid a f s x s']) (auto simp: admin_after_delay_def attempt_Ok)

lemmas latch_bodies = calls.keeps_token_functions [OF refl, THEN keepsD] calls.keeps_proposal_records [OF refl, THEN keepsD]
  calls.keeps_treasury_bodies [OF refl, THEN keepsD] calls.keeps_committee_bodies [OF refl, THEN keepsD] latch_control

lemma keeps_latch_queue:
  "keeps gk_enforce_admin_timelock (execute_queued_action e aid a s) s"
  "keeps gk_enforce_admin_timelock (emergency_execute e aid a s) s"
  "keeps gk_enforce_admin_timelock (emergency_unblock_action e aid a s) s"
  "keeps gk_enforce_admin_timelock (cancel_queued_action e aid a s) s"
  unfolding execute_queued_action_def emergency_execute_def emergency_unblock_action_def cancel_queued_action_def
    m_execute_queued_action_def m_emergency_execute_def m_emergency_unblock_action_def m_cancel_queued_action_def
    with_queued_def run_queued_def
  by (intro keeps_intros; simp add: set_queued_def put_timelock_def)+

lemma ordinary_steps_latch:
  "token_step m s s' \<Longrightarrow> gk_enforce_admin_timelock s' = gk_enforce_admin_timelock s"
  "treasury_step m s s' \<Longrightarrow> gk_enforce_admin_timelock s' = gk_enforce_admin_timelock s"
  "committee_step m s s' \<Longrightarrow> gk_enforce_admin_timelock s' = gk_enforce_admin_timelock s"
  "conviction_step m s s' \<Longrightarrow> gk_enforce_admin_timelock s' = gk_enforce_admin_timelock s"
proof -
  show "gk_enforce_admin_timelock s' = gk_enforce_admin_timelock s" if "token_step m s s'"
    using that by (induction rule: token_step.induct)
      ((rule latch_token; assumption) |
       (unfold vesting_schedule_timelocked_def, erule admin_after_delay_latch, rule latch_bodies; assumption))+
  show "gk_enforce_admin_timelock s' = gk_enforce_admin_timelock s" if "treasury_step m s s'"
    using that by (induction rule: treasury_step.induct)
      ((rule latch_treasury; assumption) |
       (unfold set_treasury_asset_timelocked_def treasury_spend_timelocked_def create_budget_timelocked_def
         treasury_budget_timelocked_def recurring_payment_timelocked_def set_rebalance_target_timelocked_def,
        erule admin_after_delay_latch, rule latch_bodies; assumption))+
  show "gk_enforce_admin_timelock s' = gk_enforce_admin_timelock s" if "committee_step m s s'"
    using that by (induction rule: committee_step.induct)
      ((rule latch_council; assumption) |
       (unfold create_committee_timelocked_def dissolve_committee_timelocked_def committee_override_timelocked_def,
        erule admin_after_delay_latch, rule latch_bodies; assumption))+
  show "gk_enforce_admin_timelock s' = gk_enforce_admin_timelock s" if "conviction_step m s s'"
    using that by (induction rule: conviction_step.induct) (rule latch_conviction; assumption)+
qed

lemma ballot_step_latch: "ballot_step m s s' \<Longrightarrow> gk_enforce_admin_timelock s' = gk_enforce_admin_timelock s"
  by (induction rule: ballot_step.induct)
    ((rule latch_ballot; assumption) |
     (simp only: configure_governance_timelocked_def category_thresholds_timelocked_def when_Ok, elim conjE,
      erule after_delay_latch, rule latch_bodies; assumption))+

lemma enforced_cong: "gk_enforce_admin_timelock s' = gk_enforce_admin_timelock s \<Longrightarrow>
    admin_timelock_enforced s \<Longrightarrow> admin_timelock_enforced s'"
  by (simp add: admin_timelock_enforced_def)

lemmas queue_admin_defs = queue_set_treasury_asset_def queue_execute_treasury_spend_def queue_configure_governance_def
  queue_set_category_thresholds_def queue_create_committee_def queue_dissolve_committee_def queue_committee_override_def
  queue_set_guardian_def queue_create_budget_def queue_approve_treasury_budget_def queue_create_recurring_payment_def
  queue_enter_shadow_mode_def queue_promote_from_shadow_mode_def queue_update_timelock_delay_def
  queue_create_vesting_schedule_def queue_set_rebalance_target_def

lemma control_step_latch: "control_step m s s' \<Longrightarrow> admin_timelock_enforced s \<Longrightarrow> admin_timelock_enforced s'"
proof (induction rule: control_step.induct)
  case (14 e adm s res s')
  then show ?case by (auto simp: enforce_admin_timelock_def run_iff emit_admin_action_def publish_def admin_timelock_enforced_def)
qed (erule enforced_cong [rotated],
     ((rule latch_control; assumption) | (unfold queue_admin_defs, rule latch_control; assumption) |
     (unfold set_guardian_timelocked_def update_timelock_delay_timelocked_def, erule admin_after_delay_latch,
      rule latch_bodies; assumption) |
     (simp only: enter_shadow_mode_timelocked_def shadow_mode_promote_timelocked_def when_Ok, elim conjE,
      erule after_delay_latch, rule latch_bodies; assumption) |
     (simp only: grant_capability_timelocked_def revoke_capability_timelocked_def when_Ok, elim conjE,
      erule after_delay_latch, force simp: grant_capability_def revoke_capability_def)))+

lemma queue_step_latch: "queue_step m s s' \<Longrightarrow> gk_enforce_admin_timelock s' = gk_enforce_admin_timelock s"
proof (induction rule: queue_step.induct)
  case (5 e aids a s res s')
  then show ?case
    by (cases aids) (auto simp: execute_multiple_actions_def m_execute_multiple_actions_def when_Ok with_auth_Ok
        m_execute_queued_action_def with_auth_def split: if_splits)
qed (rule keepsD, rule keeps_latch_queue, assumption)+

lemma gov_step_latch: "gov_step m s s' \<Longrightarrow> admin_timelock_enforced s \<Longrightarrow> admin_timelock_enforced s'"
proof (induction rule: gov_step.induct)
  case (control m s s')
  then show ?case by (rule control_step_latch)
next
  case (outside s w)
  then show ?case by (simp add: admin_timelock_enforced_def)
qed (blast intro: enforced_cong ordinary_steps_latch ballot_step_latch queue_step_latch)+

inductive gov_reaches :: "'w governance \<Rightarrow> 'w governance \<Rightarrow> bool" where
  here: "gov_reaches s s"
| further: "gov_reaches s s1 \<Longrightarrow> gov_step m s1 s2 \<Longrightarrow> gov_reaches s s2"

lemma gov_reaches_latch: "gov_reaches s s' \<Longrightarrow> admin_timelock_enforced s \<Longrightarrow> admin_timelock_enforced s'"
  by (induction rule: gov_reaches.induct) (blast intro: gov_step_latch)+



section \<open>A deployed contract\<close>

lemma add_balance_runs:
  assumes "0 < a" and "in_i128 (get_balance h s + a)"
  shows "\<exists>s'. add_balance h a s = (Ok (), s') \<and> (\<forall>k. k \<noteq> h \<longrightarrow> get_balance k s' = get_balance k s) \<and>
    schedules_of (gk_token s') = schedules_of (gk_token s)"
  using assms by (simp add: balance_calls_Ok get_balance_def put_balances_def schedules_of_def put_token_def)

text \<open>Initialisation goes through for every supply the allocation accepts, when the five recipients differ.\<close>

lemma genesis_exists:
  assumes "0 < n" and "in_i128 (n * 3000)" and "n mod 20 = 0" and "has_auth e admin" and "name \<noteq> []" and "symb \<noteq> []"
    and "distinct [dr_team r, dr_early_investors r, dr_community_rewards r, dr_treasury r, dr_public_sale r]"
  shows "\<exists>s. gov_initialize e admin name symb decimals n r (deployed w) = (Ok (), s)"
proof -
  let ?e = "consume_auth admin e"
  let ?s = "fresh_storage admin name symb decimals n (deployed w)"
  obtain a where a: "create_allocation n = Inr a" and parts: "a = \<lparr>da_team = n div 5, da_early_investors = 3 * n div 20,
      da_community_rewards = 3 * n div 10, da_liquidity_mining = n div 5, da_treasury = n div 10, da_public_sale = n div 20\<rparr>"
    using assms(2,3) by (simp add: create_allocation_Inr [OF assms(1)])
  have "20 \<le> n" using zdvd_imp_le [of 20 n] assms(1,3) by (simp add: dvd_eq_mod_eq_0)
  then have pos: "0 < da_team a" "0 < da_early_investors a" "0 < da_community_rewards a" "0 < da_treasury a"
    "0 < da_public_sale a" unfolding parts by simp_all
  have fit: "in_i128 (da_community_rewards a)" "in_i128 (da_treasury a)" "in_i128 (da_public_sale a)"
    using \<open>20 \<le> n\<close> unfolding parts by (auto intro!: in_i128_nonneg_le [OF assms(2)])
  have zero: "get_balance h ?s = 0" for h by (simp add: fresh_storage_def get_balance_def)
  have none: "schedules_of (gk_token ?s) = []"
    by (simp add: fresh_storage_def deployed_def deployed_token_def schedules_of_def persistent_or_instance_def)
  obtain s1 where 1: "add_balance (dr_community_rewards r) (da_community_rewards a) ?s = (Ok (), s1)"
    "\<And>k. k \<noteq> dr_community_rewards r \<Longrightarrow> get_balance k s1 = 0" "schedules_of (gk_token s1) = []"
    using add_balance_runs [of "da_community_rewards a" "dr_community_rewards r" ?s] pos fit by (auto simp: zero none)
  obtain s2 where 2: "add_balance (dr_treasury r) (da_treasury a) s1 = (Ok (), s2)"
    "get_balance (dr_public_sale r) s2 = 0" "schedules_of (gk_token s2) = []"
    using add_balance_runs [of "da_treasury a" "dr_treasury r" s1] pos fit 1 assms(7) by auto
  obtain s3 where 3: "add_balance (dr_public_sale r) (da_public_sale a) s2 = (Ok (), s3)" "schedules_of (gk_token s3) = []"
    using add_balance_runs [of "da_public_sale a" "dr_public_sale r" s2] pos fit 2 by auto
  have run: "\<exists>d s'. initialize_distribution ?e r n DEFAULT_LIQUIDITY_REWARD_BPS DEFAULT_MIN_CLAIM_THRESHOLD ?s = (Ok d, s')"
    unfolding initialize_distribution_def a using 1(1) 2(1) 3 pos assms(7)
    by (simp add: and_then_def ensure_unique_recipients_def distribution_constants create_schedule_def Let_def smap_has_def
        put_vesting_schedules_def put_token_def schedules_of_def persistent_or_instance_def)
  then show ?thesis
    using assms(1,4,5,6) by (auto simp: gov_initialize_def with_auth_def deployed_def gov_is_initialized_def Let_def)
qed

definition sample_recipients :: distribution_recipients where
  "sample_recipients = \<lparr>dr_team = Addr 11, dr_early_investors = Addr 12, dr_community_rewards = Addr 13,
     dr_treasury = Addr 14, dr_public_sale = Addr 15\<rparr>"



end
