(* ===== verification/Governance_Stash.thy ===== *)
theory Governance_Stash
  imports Governance_State
begin

text \<open>
  The two buckets of treasury funds (\<^verbatim>\<open>treasury_stash.rs\<close>): reserves and operational balances, with the
  authorisations that let value cross between them. The functions of the module take the ledger by mutable
  reference and publish events; they return both, and what a failing call has already written stays visible.
\<close>

datatype stash_direction = StashToOperational | OperationalToStash

record stash_transfer_auth =
  sta_asset :: asset
  sta_proposal_id :: nat
  sta_max_amount :: int
  sta_moved :: int
  sta_direction :: stash_direction
  sta_approved_at :: nat

record stash_ledger =
  sl_stash :: "asset \<Rightarrow> int option"
  sl_operational :: "asset \<Rightarrow> int option"
  sl_authorizations :: "asset \<Rightarrow> stash_transfer_auth option"
  sl_lifetime_released :: "asset \<Rightarrow> int option"
  sl_lifetime_topped_up :: "asset \<Rightarrow> int option"
  sl_tracked_assets :: "asset list"

type_synonym stash_state = "stash_ledger \<times> event list"
type_synonym 'a stash_call = "(governance_error, 'a) outcome \<times> stash_state"

definition empty_stash_ledger :: stash_ledger where
  "empty_stash_ledger =
     \<lparr>sl_stash = (\<lambda>_. None), sl_operational = (\<lambda>_. None), sl_authorizations = (\<lambda>_. None),
      sl_lifetime_released = (\<lambda>_. None), sl_lifetime_topped_up = (\<lambda>_. None), sl_tracked_assets = []\<rparr>"

definition stash_track_asset :: "asset \<Rightarrow> stash_ledger \<Rightarrow> stash_ledger" where
  "stash_track_asset a l =
     (if a \<in> set (sl_tracked_assets l) then l else l\<lparr>sl_tracked_assets := sl_tracked_assets l @ [a]\<rparr>)"

definition stash_balance :: "stash_ledger \<Rightarrow> asset \<Rightarrow> int" where
  "stash_balance l a = get_or 0 (sl_stash l a)"

definition operational_balance :: "stash_ledger \<Rightarrow> asset \<Rightarrow> int" where
  "operational_balance l a = get_or 0 (sl_operational l a)"

definition get_authorization :: "stash_ledger \<Rightarrow> asset \<Rightarrow> stash_transfer_auth option" where
  "get_authorization l a = sl_authorizations l a"

definition asset_body :: "asset \<Rightarrow> scval" where
  "asset_body a = VMap [(''code'', VStr (asset_code a)), (''issuer'', case asset_issuer a of None \<Rightarrow> VVoid | Some i \<Rightarrow> VAddr i)]"

definition stash_emit :: "string \<Rightarrow> asset \<Rightarrow> int \<Rightarrow> int \<Rightarrow> event list \<Rightarrow> event list" where
  "stash_emit kind a amount new_balance evs =
     evs @ [\<lparr>topics = [VSym ''stash'', VSym kind], event_data = VVec [asset_body a, VI128 amount, VI128 new_balance]\<rparr>]"

section \<open>Deposits\<close>

definition deposit_stash :: "asset \<Rightarrow> int \<Rightarrow> stash_state \<Rightarrow> int stash_call" where
  "deposit_stash a amount = (\<lambda>(l, evs).
     if amount \<le> 0 then (Err InvalidAmount, (l, evs))
     else let l = stash_track_asset a l
          in attempt (gov_checked_add (stash_balance l a) amount) (l, evs) (\<lambda>new_balance.
               (Ok new_balance, (l\<lparr>sl_stash := (sl_stash l)(a := Some new_balance)\<rparr>,
                                 stash_emit ''stash_dep'' a amount new_balance evs))))"

definition deposit_operational :: "asset \<Rightarrow> int \<Rightarrow> stash_state \<Rightarrow> int stash_call" where
  "deposit_operational a amount = (\<lambda>(l, evs).
     if amount \<le> 0 then (Err InvalidAmount, (l, evs))
     else let l = stash_track_asset a l
          in attempt (gov_checked_add (operational_balance l a) amount) (l, evs) (\<lambda>new_balance.
               (Ok new_balance, (l\<lparr>sl_operational := (sl_operational l)(a := Some new_balance)\<rparr>,
                                 stash_emit ''op_dep'' a amount new_balance evs))))"

section \<open>Authorisations\<close>

definition direction_body :: "stash_direction \<Rightarrow> scval" where
  "direction_body d = VVec [VSym (case d of StashToOperational \<Rightarrow> ''StashToOperational''
                                        | OperationalToStash \<Rightarrow> ''OperationalToStash'')]"

definition authorize_transfer :: "asset \<Rightarrow> nat \<Rightarrow> int \<Rightarrow> stash_direction \<Rightarrow> nat \<Rightarrow> stash_state \<Rightarrow>
    stash_transfer_auth stash_call" where
  "authorize_transfer a pid max_amount dir now = (\<lambda>(l, evs).
     if max_amount \<le> 0 then (Err InvalidAmount, (l, evs))
     else let l = stash_track_asset a l;
              auth = \<lparr>sta_asset = a, sta_proposal_id = pid, sta_max_amount = max_amount, sta_moved = 0,
                      sta_direction = dir, sta_approved_at = now\<rparr>
          in (Ok auth, (l\<lparr>sl_authorizations := (sl_authorizations l)(a := Some auth)\<rparr>,
               evs @ [\<lparr>topics = [VSym ''stash'', VSym ''authorize''],
                       event_data = VVec [asset_body a, VU64 pid, VI128 max_amount, direction_body dir, VU64 now]\<rparr>])))"

definition revoke_authorization :: "asset \<Rightarrow> stash_state \<Rightarrow> stash_state" where
  "revoke_authorization a = (\<lambda>(l, evs).
     if sl_authorizations l a \<noteq> None
     then (l\<lparr>sl_authorizations := (sl_authorizations l)(a := None)\<rparr>,
           evs @ [\<lparr>topics = [VSym ''stash'', VSym ''revoke''], event_data = asset_body a\<rparr>])
     else (l, evs))"

definition consume_authorization :: "asset \<Rightarrow> int \<Rightarrow> stash_direction \<Rightarrow> stash_ledger \<Rightarrow>
    (stash_transfer_auth \<times> stash_ledger) gresult" where
  "consume_authorization a amount dir l =
     bind_sum (ok_or Unauthorized (sl_authorizations l a)) (\<lambda>auth.
       if sta_direction auth \<noteq> dir then Inl Unauthorized
       else bind_sum (gov_checked_add (sta_moved auth) amount) (\<lambda>new_moved.
              if new_moved > sta_max_amount auth then Inl ApprovedCapExceeded
              else let auth = auth\<lparr>sta_moved := new_moved\<rparr>
                   in Inr (auth, l\<lparr>sl_authorizations := (sl_authorizations l)(a := Some auth)\<rparr>)))"

section \<open>Moves between the buckets\<close>

definition move_event :: "string \<Rightarrow> asset \<Rightarrow> int \<Rightarrow> stash_transfer_auth \<Rightarrow> event" where
  "move_event kind a amount auth =
     \<lparr>topics = [VSym ''stash'', VSym kind],
      event_data = VVec [asset_body a, VI128 amount, VU64 (sta_proposal_id auth), VI128 (sta_moved auth),
                         VI128 (sta_max_amount auth)]\<rparr>"

definition move_stash_to_operational :: "asset \<Rightarrow> int \<Rightarrow> stash_state \<Rightarrow> unit stash_call" where
  "move_stash_to_operational a amount = (\<lambda>(l, evs).
     if amount \<le> 0 then (Err InvalidAmount, (l, evs))
     else attempt (consume_authorization a amount StashToOperational l) (l, evs) (\<lambda>(auth, l).
       if stash_balance l a < amount then (Err InsufficientBalance, (l, evs))
       else let op_bal = operational_balance l a
            in attempt (gov_checked_sub (stash_balance l a) amount) (l, evs) (\<lambda>rest.
                 let l = l\<lparr>sl_stash := (sl_stash l)(a := Some rest)\<rparr>
                 in attempt (gov_checked_add op_bal amount) (l, evs) (\<lambda>op_new.
                      let l = l\<lparr>sl_operational := (sl_operational l)(a := Some op_new)\<rparr>
                      in attempt (gov_checked_add (get_or 0 (sl_lifetime_released l a)) amount) (l, evs) (\<lambda>released.
                           (Ok (), (l\<lparr>sl_lifetime_released := (sl_lifetime_released l)(a := Some released)\<rparr>,
                                    evs @ [move_event ''release'' a amount auth])))))))"

definition move_operational_to_stash :: "asset \<Rightarrow> int \<Rightarrow> stash_state \<Rightarrow> unit stash_call" where
  "move_operational_to_stash a amount = (\<lambda>(l, evs).
     if amount \<le> 0 then (Err InvalidAmount, (l, evs))
     else attempt (consume_authorization a amount OperationalToStash l) (l, evs) (\<lambda>(auth, l).
       if operational_balance l a < amount then (Err InsufficientBalance, (l, evs))
       else let stash_bal = stash_balance l a
            in attempt (gov_checked_sub (operational_balance l a) amount) (l, evs) (\<lambda>rest.
                 let l = l\<lparr>sl_operational := (sl_operational l)(a := Some rest)\<rparr>
                 in attempt (gov_checked_add stash_bal amount) (l, evs) (\<lambda>stash_new.
                      let l = l\<lparr>sl_stash := (sl_stash l)(a := Some stash_new)\<rparr>
                      in attempt (gov_checked_add (get_or 0 (sl_lifetime_topped_up l a)) amount) (l, evs) (\<lambda>topped.
                           (Ok (), (l\<lparr>sl_lifetime_topped_up := (sl_lifetime_topped_up l)(a := Some topped)\<rparr>,
                                    evs @ [move_event ''topup'' a amount auth])))))))"

section \<open>Accounting checks\<close>

definition total_balance :: "stash_ledger \<Rightarrow> asset \<Rightarrow> int" where
  "total_balance l a = saturating_add (stash_balance l a) (operational_balance l a)"

text \<open>\<^verbatim>\<open>assert_eq!\<close> traps: the check returns or it does not.\<close>

definition assert_conservation :: "stash_ledger \<Rightarrow> (asset \<Rightarrow> int option) \<Rightarrow> bool" where
  "assert_conservation l expected_total =
     list_all (\<lambda>a. total_balance l a = get_or 0 (expected_total a)) (sl_tracked_assets l)"

section \<open>Successful calls\<close>

lemma stash_track_asset_fields [simp]:
  "sl_stash (stash_track_asset a l) = sl_stash l" "sl_operational (stash_track_asset a l) = sl_operational l"
  "sl_authorizations (stash_track_asset a l) = sl_authorizations l"
  "sl_lifetime_released (stash_track_asset a l) = sl_lifetime_released l"
  "sl_lifetime_topped_up (stash_track_asset a l) = sl_lifetime_topped_up l"
  "set (sl_tracked_assets (stash_track_asset a l)) = insert a (set (sl_tracked_assets l))"
  "stash_balance (stash_track_asset a l) = stash_balance l"
  "operational_balance (stash_track_asset a l) = operational_balance l"
  by (auto simp: stash_track_asset_def stash_balance_def operational_balance_def fun_eq_iff)

lemma deposit_stash_Ok [run_iff]:
  "deposit_stash a x (l, evs) = (Ok b, (l', evs')) \<longleftrightarrow>
     0 < x \<and> in_i128 (stash_balance l a + x) \<and> b = stash_balance l a + x \<and>
     l' = (stash_track_asset a l)\<lparr>sl_stash := (sl_stash l)(a := Some b)\<rparr> \<and> evs' = stash_emit ''stash_dep'' a x b evs"
  by (auto simp: deposit_stash_def run_iff Let_def)

lemma deposit_operational_Ok [run_iff]:
  "deposit_operational a x (l, evs) = (Ok b, (l', evs')) \<longleftrightarrow>
     0 < x \<and> in_i128 (operational_balance l a + x) \<and> b = operational_balance l a + x \<and>
     l' = (stash_track_asset a l)\<lparr>sl_operational := (sl_operational l)(a := Some b)\<rparr> \<and>
     evs' = stash_emit ''op_dep'' a x b evs"
  by (auto simp: deposit_operational_def run_iff Let_def)

lemma consume_authorization_Inr [run_iff]:
  "consume_authorization a x dir l = Inr (auth', l') \<longleftrightarrow>
     (\<exists>auth. sl_authorizations l a = Some auth \<and> sta_direction auth = dir \<and> in_i128 (sta_moved auth + x) \<and>
        sta_moved auth + x \<le> sta_max_amount auth \<and> auth' = auth\<lparr>sta_moved := sta_moved auth + x\<rparr> \<and>
        l' = l\<lparr>sl_authorizations := (sl_authorizations l)(a := Some auth')\<rparr>)"
  by (auto simp: consume_authorization_def run_iff Let_def not_less)

lemma consume_authorization_keeps:
  assumes "consume_authorization a x dir l = Inr (auth, l1)"
  shows "sl_stash l1 = sl_stash l" "sl_operational l1 = sl_operational l"
    "sl_lifetime_released l1 = sl_lifetime_released l" "sl_lifetime_topped_up l1 = sl_lifetime_topped_up l"
    "stash_balance l1 = stash_balance l" "operational_balance l1 = operational_balance l"
  using assms by (auto simp: consume_authorization_Inr stash_balance_def operational_balance_def fun_eq_iff)

lemma move_stash_Ok [run_iff]:
  "move_stash_to_operational a x (l, evs) = (Ok u, (l', evs')) \<longleftrightarrow>
     0 < x \<and> (\<exists>auth l1. consume_authorization a x StashToOperational l = Inr (auth, l1) \<and>
       x \<le> stash_balance l a \<and> in_i128 (stash_balance l a - x) \<and> in_i128 (operational_balance l a + x) \<and>
       in_i128 (get_or 0 (sl_lifetime_released l a) + x) \<and>
       l' = l1\<lparr>sl_stash := (sl_stash l)(a := Some (stash_balance l a - x)),
               sl_operational := (sl_operational l)(a := Some (operational_balance l a + x)),
               sl_lifetime_released := (sl_lifetime_released l)(a := Some (get_or 0 (sl_lifetime_released l a) + x))\<rparr> \<and>
       evs' = evs @ [move_event ''release'' a x auth])"
proof (cases "consume_authorization a x StashToOperational l")
  case (Inr r)
  then obtain auth l1 where eq: "consume_authorization a x StashToOperational l = Inr (auth, l1)" by (cases r) simp
  show ?thesis
    by (auto simp: move_stash_to_operational_def attempt_Ok Let_def not_less eq consume_authorization_keeps [OF eq])
qed (simp add: move_stash_to_operational_def run_iff)

lemma move_operational_Ok [run_iff]:
  "move_operational_to_stash a x (l, evs) = (Ok u, (l', evs')) \<longleftrightarrow>
     0 < x \<and> (\<exists>auth l1. consume_authorization a x OperationalToStash l = Inr (auth, l1) \<and>
       x \<le> operational_balance l a \<and> in_i128 (operational_balance l a - x) \<and> in_i128 (stash_balance l a + x) \<and>
       in_i128 (get_or 0 (sl_lifetime_topped_up l a) + x) \<and>
       l' = l1\<lparr>sl_operational := (sl_operational l)(a := Some (operational_balance l a - x)),
               sl_stash := (sl_stash l)(a := Some (stash_balance l a + x)),
               sl_lifetime_topped_up := (sl_lifetime_topped_up l)(a := Some (get_or 0 (sl_lifetime_topped_up l a) + x))\<rparr> \<and>
       evs' = evs @ [move_event ''topup'' a x auth])"
proof (cases "consume_authorization a x OperationalToStash l")
  case (Inr r)
  then obtain auth l1 where eq: "consume_authorization a x OperationalToStash l = Inr (auth, l1)" by (cases r) simp
  show ?thesis
    by (auto simp: move_operational_to_stash_def attempt_Ok Let_def not_less eq consume_authorization_keeps [OF eq])
qed (simp add: move_operational_to_stash_def run_iff)

section \<open>Histories of the ledger\<close>

text \<open>
  \<open>stash_run D X (l, evs)\<close>: the ledger came about by successful calls; \<open>D a\<close> and \<open>X a\<close> are the sums of all deposits of
  the asset to the reserve and to the operational bucket.
\<close>

inductive stash_run :: "(asset \<Rightarrow> int) \<Rightarrow> (asset \<Rightarrow> int) \<Rightarrow> stash_state \<Rightarrow> bool" where
  start: "stash_run (\<lambda>_. 0) (\<lambda>_. 0) (empty_stash_ledger, evs)"
| to_stash: "stash_run D X s \<Longrightarrow> deposit_stash a x s = (Ok b, s') \<Longrightarrow> stash_run (D(a := D a + x)) X s'"
| to_operational: "stash_run D X s \<Longrightarrow> deposit_operational a x s = (Ok b, s') \<Longrightarrow> stash_run D (X(a := X a + x)) s'"
| authorize: "stash_run D X s \<Longrightarrow> authorize_transfer a pid m dir now s = (Ok auth, s') \<Longrightarrow> stash_run D X s'"
| revoke: "stash_run D X s \<Longrightarrow> stash_run D X (revoke_authorization a s)"
| release: "stash_run D X s \<Longrightarrow> move_stash_to_operational a x s = (Ok u, s') \<Longrightarrow> stash_run D X s'"
| top_up: "stash_run D X s \<Longrightarrow> move_operational_to_stash a x s = (Ok u, s') \<Longrightarrow> stash_run D X s'"

definition net_released :: "stash_ledger \<Rightarrow> asset \<Rightarrow> int" where
  "net_released l a = get_or 0 (sl_lifetime_released l a) - get_or 0 (sl_lifetime_topped_up l a)"

definition buckets_ok :: "(asset \<Rightarrow> int) \<Rightarrow> (asset \<Rightarrow> int) \<Rightarrow> stash_ledger \<Rightarrow> bool" where
  "buckets_ok D X l \<longleftrightarrow>
     (\<forall>a. stash_balance l a = D a - net_released l a \<and> operational_balance l a = X a + net_released l a \<and>
          0 \<le> stash_balance l a \<and> 0 \<le> operational_balance l a)"

definition authorizations_ok :: "stash_ledger \<Rightarrow> bool" where
  "authorizations_ok l \<longleftrightarrow>
     (\<forall>a auth. sl_authorizations l a = Some auth \<longrightarrow>
        sta_asset auth = a \<and> 0 \<le> sta_moved auth \<and> sta_moved auth \<le> sta_max_amount auth)"

definition untracked_empty :: "stash_ledger \<Rightarrow> bool" where
  "untracked_empty l \<longleftrightarrow>
     distinct (sl_tracked_assets l) \<and>
     (\<forall>a. a \<notin> set (sl_tracked_assets l) \<longrightarrow> sl_stash l a = None \<and> sl_operational l a = None \<and> sl_authorizations l a = None)"

lemmas stash_invariant_defs = buckets_ok_def authorizations_ok_def untracked_empty_def net_released_def
  stash_balance_def operational_balance_def

lemma stash_run_buckets: "stash_run D X s \<Longrightarrow> buckets_ok D X (fst s)"
proof (induction rule: stash_run.induct)
  case (to_stash D X s a x b s')
  then show ?case by (cases s; cases s') (auto simp: run_iff stash_invariant_defs)
next
  case (to_operational D X s a x b s')
  then show ?case by (cases s; cases s') (auto simp: run_iff stash_invariant_defs)
next
  case (release D X s a x u s')
  then show ?case by (cases s; cases s') (auto simp: run_iff stash_invariant_defs)
next
  case (top_up D X s a x u s')
  then show ?case by (cases s; cases s') (auto simp: run_iff stash_invariant_defs)
qed (auto simp: empty_stash_ledger_def authorize_transfer_def revoke_authorization_def Let_def stash_invariant_defs
    split: if_splits)

lemma stash_run_authorizations: "stash_run D X s \<Longrightarrow> authorizations_ok (fst s)"
proof (induction rule: stash_run.induct)
  case (to_stash D X s a x b s')
  then show ?case by (cases s; cases s') (auto simp: run_iff stash_invariant_defs)
next
  case (to_operational D X s a x b s')
  then show ?case by (cases s; cases s') (auto simp: run_iff stash_invariant_defs)
next
  case (release D X s a x u s')
  then show ?case by (cases s; cases s') (auto simp: run_iff stash_invariant_defs split: if_splits)
next
  case (top_up D X s a x u s')
  then show ?case by (cases s; cases s') (auto simp: run_iff stash_invariant_defs split: if_splits)
qed (auto simp: empty_stash_ledger_def authorize_transfer_def revoke_authorization_def Let_def stash_invariant_defs
    split: if_splits)

lemma stash_run_untracked: "stash_run D X s \<Longrightarrow> untracked_empty (fst s)"
proof (induction rule: stash_run.induct)
  case (to_stash D X s a x b s')
  then show ?case by (cases s; cases s') (auto simp: run_iff untracked_empty_def stash_track_asset_def)
next
  case (to_operational D X s a x b s')
  then show ?case by (cases s; cases s') (auto simp: run_iff untracked_empty_def stash_track_asset_def)
next
  case (release D X s a x u s')
  then show ?case by (cases s; cases s') (auto simp: run_iff untracked_empty_def)
next
  case (top_up D X s a x u s')
  then show ?case by (cases s; cases s') (auto simp: run_iff untracked_empty_def)
qed (auto simp: empty_stash_ledger_def authorize_transfer_def revoke_authorization_def Let_def untracked_empty_def
    stash_track_asset_def split: if_splits)


text \<open>The history of the module's own round-trip test.\<close>

definition xlm :: asset where "xlm = \<lparr>asset_code = ''XLM'', asset_issuer = None\<rparr>"

definition sample_stash :: stash_ledger where
  "sample_stash = empty_stash_ledger\<lparr>sl_stash := [xlm \<mapsto> 400], sl_operational := [xlm \<mapsto> 600],
     sl_authorizations := [xlm \<mapsto> \<lparr>sta_asset = xlm, sta_proposal_id = 1, sta_max_amount = 1000, sta_moved = 600,
        sta_direction = StashToOperational, sta_approved_at = 0\<rparr>],
     sl_lifetime_released := [xlm \<mapsto> 600], sl_tracked_assets := [xlm]\<rparr>"

lemma sample_stash_run: "\<exists>evs. stash_run ((\<lambda>_. 0)(xlm := 1000)) (\<lambda>_. 0) (sample_stash, evs)"
proof -
  let ?D = "(\<lambda>_. 0)(xlm := 1000)"
  define l1 where "l1 = empty_stash_ledger\<lparr>sl_stash := [xlm \<mapsto> 1000], sl_tracked_assets := [xlm]\<rparr>"
  obtain e1 where "deposit_stash xlm 1000 (empty_stash_ledger, []) = (Ok 1000, (l1, e1))"
    by (simp add: deposit_stash_Ok l1_def empty_stash_ledger_def stash_track_asset_def stash_balance_def in_i128_def i128_min_def i128_max_def)
  from stash_run.to_stash [OF stash_run.start this(1)] have r1: "stash_run ?D (\<lambda>_. 0) (l1, e1)" by simp
  define l2 where "l2 = l1\<lparr>sl_authorizations := [xlm \<mapsto> \<lparr>sta_asset = xlm, sta_proposal_id = 1,
    sta_max_amount = 1000, sta_moved = 0, sta_direction = StashToOperational, sta_approved_at = 0\<rparr>]\<rparr>"
  obtain auth e2 where 2: "authorize_transfer xlm 1 1000 StashToOperational 0 (l1, e1) = (Ok auth, (l2, e2))"
    by (simp add: authorize_transfer_def l1_def l2_def stash_track_asset_def empty_stash_ledger_def Let_def)
  from stash_run.authorize [OF r1 2] have r2: "stash_run ?D (\<lambda>_. 0) (l2, e2)" .
  have "\<exists>evs. move_stash_to_operational xlm 600 (l2, e2) = (Ok (), (sample_stash, evs))"
    by (simp add: move_stash_Ok consume_authorization_Inr l2_def l1_def empty_stash_ledger_def sample_stash_def stash_balance_def
        operational_balance_def in_i128_def i128_min_def i128_max_def)
  then show ?thesis using stash_run.release [OF r2] by blast
qed


text \<open>
  A move that fails for lack of balance has already used up the authorisation in the ledger it was given: a caller
  that kept the ledger after the error would lose the allowance without moving anything.
\<close>

theorem failed_move_uses_allowance:
  "fst (move_stash_to_operational xlm 401 (sample_stash\<lparr>sl_authorizations := [xlm \<mapsto> \<lparr>sta_asset = xlm,
      sta_proposal_id = 1, sta_max_amount = 1000, sta_moved = 0, sta_direction = StashToOperational,
      sta_approved_at = 0\<rparr>]\<rparr>, [])) = Err InsufficientBalance \<and>
   map_option sta_moved (get_authorization (fst (snd (move_stash_to_operational xlm 401
     (sample_stash\<lparr>sl_authorizations := [xlm \<mapsto> \<lparr>sta_asset = xlm, sta_proposal_id = 1, sta_max_amount = 1000,
        sta_moved = 0, sta_direction = StashToOperational, sta_approved_at = 0\<rparr>]\<rparr>, [])))) xlm) = Some 401"
  by (simp add: move_stash_to_operational_def consume_authorization_def gov_checked_add_def checked_add_def checked_i128_def
      in_i128_def i128_min_def i128_max_def get_authorization_def sample_stash_def stash_balance_def Let_def)

end
