(* ===== verification/Governance_Quadratic.thy ===== *)
theory Governance_Quadratic
  imports Governance_Reputation
begin

text \<open>
  Quadratic voting with credits (\<^verbatim>\<open>quadratic_voting.rs\<close>): credits are allocated from voting power, \<open>n\<close> votes cost
  \<open>n\<^sup>2\<close> credits. The contract imports these functions and exposes none of them; they are modelled as the module has
  them.
\<close>

definition QV_PRECISION :: int where "QV_PRECISION = 1000000"

definition default_qv_config :: quadratic_voting_config where
  "default_qv_config =
     \<lparr>qc_enabled = False, qc_vote_credits_per_token = 1, qc_max_credits_per_user = 10000 * QV_PRECISION,
      qc_sybil_resistance_enabled = False\<rparr>"

definition get_quadratic_voting_config :: "'w governance \<Rightarrow> quadratic_voting_config" where
  "get_quadratic_voting_config s = get_or default_qv_config (qk_config (gk_quadratic s))"

definition set_quadratic_voting_config :: "quadratic_voting_config \<Rightarrow> 'w governance \<Rightarrow> 'w governance" where
  "set_quadratic_voting_config c s = s\<lparr>gk_quadratic := (gk_quadratic s)\<lparr>qk_config := Some c\<rparr>\<rparr>"

section \<open>Credits\<close>

definition get_vote_credits :: "address \<Rightarrow> 'w governance \<Rightarrow> vote_credits option" where
  "get_vote_credits user s = qk_credits (gk_quadratic s) user"

definition store_vote_credits :: "vote_credits \<Rightarrow> 'w governance \<Rightarrow> 'w governance" where
  "store_vote_credits c s =
     s\<lparr>gk_quadratic := (gk_quadratic s)\<lparr>qk_credits := (qk_credits (gk_quadratic s))(vc_user c := Some c)\<rparr>\<rparr>"

definition allocate_vote_credits :: "address \<Rightarrow> 'w governance \<Rightarrow> ('w, int) gcall" where
  "allocate_vote_credits user s =
     (let config = get_quadratic_voting_config s
      in if \<not> qc_enabled config then (Err InvalidGovernanceConfig, s)
         else or_panic (checked_mul (get_effective_voting_power user s) (int (qc_vote_credits_per_token config))) s (\<lambda>raw.
                let capped = min (tdiv raw QV_PRECISION) (qc_max_credits_per_user config)
                in (Ok capped, publish
                      (store_vote_credits \<lparr>vc_user = user, vc_total_credits = capped, vc_used_credits = 0,
                         vc_available_credits = capped, vc_proposals_voted = (\<lambda>_. None)\<rparr> s)
                      [VSym ''qv'', VSym ''alloc''] (VVec [VAddr user, VI128 capped]))))"

section \<open>Votes\<close>

definition get_quadratic_vote :: "nat \<Rightarrow> address \<Rightarrow> 'w governance \<Rightarrow> quadratic_vote option" where
  "get_quadratic_vote pid voter s = qk_vote (gk_quadratic s) pid voter"

definition get_proposal_voters :: "nat \<Rightarrow> 'w governance \<Rightarrow> address list" where
  "get_proposal_voters pid s = qk_proposal_voters (gk_quadratic s) pid"

definition put_quadratic_vote :: "nat \<Rightarrow> address \<Rightarrow> quadratic_vote option \<Rightarrow> quadratic_store \<Rightarrow> quadratic_store" where
  "put_quadratic_vote pid voter v q = q\<lparr>qk_vote := (qk_vote q)(pid := (qk_vote q pid)(voter := v))\<rparr>"

definition store_quadratic_vote :: "nat \<Rightarrow> address \<Rightarrow> quadratic_vote \<Rightarrow> 'w governance \<Rightarrow> 'w governance" where
  "store_quadratic_vote pid voter v s =
     (let q = put_quadratic_vote pid voter (Some v) (gk_quadratic s); voters = qk_proposal_voters q pid
      in s\<lparr>gk_quadratic :=
             (if voter \<in> set voters then q
              else q\<lparr>qk_proposal_voters := (qk_proposal_voters q)(pid := voters @ [voter])\<rparr>)\<rparr>)"

definition identity_verified :: "address \<Rightarrow> 'w governance \<Rightarrow> bool" where
  "identity_verified user s = get_or False (map_option iv_verified (qk_identity (gk_quadratic s) user))"

text \<open>Each credit counter is updated with an arithmetic that traps on overflow.\<close>

definition spend_credits :: "nat \<Rightarrow> int \<Rightarrow> vote_credits \<Rightarrow> vote_credits option" where
  "spend_credits pid cost c =
     (case (checked_add (vc_used_credits c) cost, checked_sub (vc_available_credits c) cost) of
        (Some u, Some a) \<Rightarrow> Some (c\<lparr>vc_used_credits := u, vc_available_credits := a,
                                   vc_proposals_voted := (vc_proposals_voted c)(pid := Some cost)\<rparr>)
      | _ \<Rightarrow> None)"

definition return_credits :: "nat \<Rightarrow> int \<Rightarrow> vote_credits \<Rightarrow> vote_credits option" where
  "return_credits pid cost c =
     (case (checked_sub (vc_used_credits c) cost, checked_add (vc_available_credits c) cost) of
        (Some u, Some a) \<Rightarrow> Some (c\<lparr>vc_used_credits := u, vc_available_credits := a,
                                   vc_proposals_voted := (vc_proposals_voted c)(pid := None)\<rparr>)
      | _ \<Rightarrow> None)"

definition cast_quadratic_vote :: "env \<Rightarrow> nat \<Rightarrow> address \<Rightarrow> int \<Rightarrow> vote_type \<Rightarrow> 'w governance \<Rightarrow> ('w, unit) gcall" where
  "cast_quadratic_vote e pid voter votes_desired vt =
     with_auth e voter (\<lambda>e s.
       let config = get_quadratic_voting_config s; now = ledger_timestamp e
       in if votes_desired \<le> 0 then (Err InvalidAmount, s)
          else if \<not> qc_enabled config then (Err InvalidGovernanceConfig, s)
          else if qc_sybil_resistance_enabled config \<and> \<not> identity_verified voter s then (Err InvalidProposal, s)
          else attempt (get_proposal pid s) s (\<lambda>p.
            if now < gp_voting_starts p then (Err VotingNotStarted, s)
            else if gp_voting_ends p \<le> now then (Err VotingEnded, s)
            else if gp_status p \<noteq> Pending \<and> gp_status p \<noteq> Active then (Err ProposalNotActive, s)
            else if get_quadratic_vote pid voter s \<noteq> None then (Err AlreadyVoted, s)
            else attempt (gov_checked_mul votes_desired votes_desired) s (\<lambda>cost.
                 attempt (ok_or NoVotingPower (get_vote_credits voter s)) s (\<lambda>c.
                   if vc_available_credits c < cost then (Err InsufficientBalance, s)
                   else or_panic (spend_credits pid cost c) s (\<lambda>c.
                        and_then (put_proposal (open_voting (saturating_tally vt votes_desired p)) (store_vote_credits c s)) (\<lambda>_ s.
                          (Ok (), publish (store_quadratic_vote pid voter
                                    \<lparr>qv_voter = voter, qv_votes_allocated = votes_desired, qv_credits_spent = cost,
                                     qv_vote_type = vt\<rparr> s)
                             [VSym ''qv'', VSym ''vote'']
                             (VVec [VU64 pid, VAddr voter, VI128 votes_desired, VI128 cost]))))))))"

fun reverse_tally :: "vote_type \<Rightarrow> int \<Rightarrow> gov_proposal \<Rightarrow> gov_proposal" where
  "reverse_tally For w p = p\<lparr>gp_votes_for := saturating_sub (gp_votes_for p) w\<rparr>"
| "reverse_tally Against w p = p\<lparr>gp_votes_against := saturating_sub (gp_votes_against p) w\<rparr>"
| "reverse_tally Abstain w p = p\<lparr>gp_votes_abstain := saturating_sub (gp_votes_abstain p) w\<rparr>"

definition reallocate_quadratic_votes :: "env \<Rightarrow> nat \<Rightarrow> address \<Rightarrow> int \<Rightarrow> vote_type \<Rightarrow> 'w governance \<Rightarrow> ('w, unit) gcall" where
  "reallocate_quadratic_votes e pid voter new_votes vt =
     with_auth e voter (\<lambda>e s.
       attempt (get_proposal pid s) s (\<lambda>p.
         if gp_voting_ends p \<le> ledger_timestamp e then (Err VotingEnded, s)
         else attempt (ok_or ProposalNotFound (get_quadratic_vote pid voter s)) s (\<lambda>v.
              attempt (ok_or NoVotingPower (get_vote_credits voter s)) s (\<lambda>c.
              or_panic (return_credits pid (qv_credits_spent v) c) s (\<lambda>c.
                let s1 = store_vote_credits c s
                in attempt (get_proposal pid s1) s1 (\<lambda>p.
                   and_then (put_proposal (reverse_tally (qv_vote_type v) (qv_votes_allocated v) p) s1) (\<lambda>_ s.
                     cast_quadratic_vote e pid voter new_votes vt
                       (s\<lparr>gk_quadratic := put_quadratic_vote pid voter None (gk_quadratic s)\<rparr>))))))))"

section \<open>Identities\<close>

definition grant_verified_user_bonus :: "address \<Rightarrow> 'w governance \<Rightarrow> ('w, unit) gcall" where
  "grant_verified_user_bonus user s =
     (case get_vote_credits user s of
        None \<Rightarrow> (Ok (), s)
      | Some c \<Rightarrow>
          let bonus = tdiv (vc_total_credits c) 2
          in or_panic (checked_add (vc_total_credits c) bonus) s (\<lambda>t.
             or_panic (checked_add (vc_available_credits c) bonus) s (\<lambda>a.
               (Ok (), publish (store_vote_credits (c\<lparr>vc_total_credits := t, vc_available_credits := a\<rparr>) s)
                  [VSym ''qv'', VSym ''bonus''] (VVec [VAddr user, VI128 bonus])))))"

definition verify_identity :: "env \<Rightarrow> address \<Rightarrow> verification_method \<Rightarrow> nat list \<Rightarrow> 'w governance \<Rightarrow> ('w, unit) gcall" where
  "verify_identity e user method proof_words s =
     (let v = \<lparr>iv_user = user, iv_verified = True, iv_method = method, iv_verified_at = ledger_timestamp e\<rparr>
      in and_then (grant_verified_user_bonus user
             (s\<lparr>gk_quadratic := (gk_quadratic s)\<lparr>qk_identity := (qk_identity (gk_quadratic s))(user := Some v)\<rparr>\<rparr>)) (\<lambda>_ s.
           (Ok (), publish s [VSym ''qv'', VSym ''verified''] (VAddr user))))"

definition get_identity_verification :: "address \<Rightarrow> 'w governance \<Rightarrow> identity_verification option" where
  "get_identity_verification user s = qk_identity (gk_quadratic s) user"

section \<open>Costs, refunds and comparison\<close>

text \<open>\<open>None\<close> is a trap on overflow.\<close>

definition calculate_marginal_cost :: "int \<Rightarrow> int \<Rightarrow> int option" where
  "calculate_marginal_cost current additional =
     (case checked_add current additional of
        None \<Rightarrow> None
      | Some t \<Rightarrow> (case (checked_mul t t, checked_mul current current) of
                   (Some x, Some y) \<Rightarrow> checked_sub x y
                 | _ \<Rightarrow> None))"

fun refund_loop :: "nat \<Rightarrow> address list \<Rightarrow> 'w governance \<Rightarrow> ('w, unit) gcall" where
  "refund_loop pid [] s = (Ok (), s)"
| "refund_loop pid (voter # voters) s =
     (case (get_quadratic_vote pid voter s, get_vote_credits voter s) of
        (Some v, Some c) \<Rightarrow>
          or_panic (return_credits pid (qv_credits_spent v) c) s (\<lambda>c.
            refund_loop pid voters (publish (store_vote_credits c s) [VSym ''qv'', VSym ''refund'']
              (VVec [VAddr voter, VU64 pid, VI128 (qv_credits_spent v)])))
      | _ \<Rightarrow> refund_loop pid voters s)"

definition refund_credits_on_failure :: "nat \<Rightarrow> 'w governance \<Rightarrow> ('w, unit) gcall" where
  "refund_credits_on_failure pid s =
     attempt (get_proposal pid s) s (\<lambda>p.
       if gp_status p \<noteq> Failed \<and> gp_status p \<noteq> Cancelled then (Err ProposalNotActive, s)
       else refund_loop pid (get_proposal_voters pid s) s)"

text \<open>Both sums of the loop, for and against, with voting power and with votes.\<close>

fun outcome_sums :: "nat \<Rightarrow> 'w governance \<Rightarrow> address list \<Rightarrow> int \<times> int \<times> int \<times> int \<Rightarrow> (int \<times> int \<times> int \<times> int) option" where
  "outcome_sums pid s [] acc = Some acc"
| "outcome_sums pid s (voter # voters) (lf, la, qf, qa) =
     (let tokens = get_effective_voting_power voter s
      in case get_quadratic_vote pid voter s of
           None \<Rightarrow> outcome_sums pid s voters (lf, la, qf, qa)
         | Some v \<Rightarrow>
             (case qv_vote_type v of
                For \<Rightarrow> (case (checked_add lf tokens, checked_add qf (qv_votes_allocated v)) of
                          (Some l, Some q) \<Rightarrow> outcome_sums pid s voters (l, la, q, qa) | _ \<Rightarrow> None)
              | Against \<Rightarrow> (case (checked_add la tokens, checked_add qa (qv_votes_allocated v)) of
                          (Some l, Some q) \<Rightarrow> outcome_sums pid s voters (lf, l, qf, q) | _ \<Rightarrow> None)
              | Abstain \<Rightarrow> outcome_sums pid s voters (lf, la, qf, qa)))"

fun gini_sums :: "nat \<Rightarrow> int list \<Rightarrow> int \<times> int \<Rightarrow> (int \<times> int) option" where
  "gini_sums i [] acc = Some acc"
| "gini_sums i (v # vs) (sum_vals, rank_sum) =
     (case (checked_add sum_vals v, checked_mul (int i + 1) v) of
        (Some sv, Some m) \<Rightarrow> (case checked_add rank_sum m of None \<Rightarrow> None | Some rs \<Rightarrow> gini_sums (Suc i) vs (sv, rs))
      | _ \<Rightarrow> None)"

definition gini_of :: "int \<Rightarrow> int \<times> int \<Rightarrow> nat option" where
  "gini_of n sums =
     (let (sum_vals, rank_sum) = sums
      in if sum_vals = 0 then Some 0
         else if in_i128 (2 * rank_sum) \<and> in_i128 (2 * rank_sum * 10000) \<and> in_i128 (n * sum_vals) \<and>
                 in_i128 (tdiv (2 * rank_sum * 10000) (n * sum_vals)) \<and>
                 in_i128 (tdiv (2 * rank_sum * 10000) (n * sum_vals) - tdiv ((n + 1) * 10000) n)
         then Some (nat (min 10000 (max 0 (tdiv (2 * rank_sum * 10000) (n * sum_vals) - tdiv ((n + 1) * 10000) n))))
         else None)"

definition gini_value :: "nat \<Rightarrow> bool \<Rightarrow> 'w governance \<Rightarrow> address \<Rightarrow> int" where
  "gini_value pid use_linear s voter =
     (if use_linear then get_effective_voting_power voter s
      else get_or 0 (map_option qv_votes_allocated (get_quadratic_vote pid voter s)))"

definition calculate_gini :: "nat \<Rightarrow> bool \<Rightarrow> 'w governance \<Rightarrow> nat option" where
  "calculate_gini pid use_linear s =
     (let voters = get_proposal_voters pid s
      in if voters = [] then Some 0
         else case gini_sums 0 (map (gini_value pid use_linear s) voters) (0, 0) of
                None \<Rightarrow> None
              | Some sums \<Rightarrow> gini_of (int (length voters)) sums)"

text \<open>The absolute margin traps for the one difference that has no absolute value in the type.\<close>

definition margin_of :: "int \<Rightarrow> int \<Rightarrow> int option" where
  "margin_of for_votes against_votes =
     (case checked_sub for_votes against_votes of None \<Rightarrow> None | Some d \<Rightarrow> checked_i128 \<bar>d\<bar>)"

definition outcome_of :: "int \<Rightarrow> int \<Rightarrow> int \<Rightarrow> voting_outcome" where
  "outcome_of for_votes against_votes margin =
     \<lparr>vo_votes_for = for_votes, vo_votes_against = against_votes, vo_is_for_winning = (for_votes > against_votes),
      vo_margin = margin\<rparr>"

definition compare_voting_systems :: "nat \<Rightarrow> 'w governance \<Rightarrow> voting_comparison option" where
  "compare_voting_systems pid s =
     (case outcome_sums pid s (get_proposal_voters pid s) (0, 0, 0, 0) of
        None \<Rightarrow> None
      | Some (lf, la, qf, qa) \<Rightarrow>
          (case (margin_of lf la, margin_of qf qa, calculate_gini pid True s, calculate_gini pid False s) of
             (Some lm, Some qm, Some gl, Some gq) \<Rightarrow>
               Some \<lparr>vcm_linear = outcome_of lf la lm, vcm_quadratic = outcome_of qf qa qm, vcm_gini_linear = gl,
                     vcm_gini_quadratic = gq, vcm_fairness_improvement = int gl - int gq\<rparr>
           | _ \<Rightarrow> None))"

section \<open>What the credits guarantee\<close>

lemma credit_updates_Some [run_iff]:
  "spend_credits pid x c = Some c' \<longleftrightarrow> in_i128 (vc_used_credits c + x) \<and> in_i128 (vc_available_credits c - x) \<and>
     c' = c\<lparr>vc_used_credits := vc_used_credits c + x, vc_available_credits := vc_available_credits c - x,
            vc_proposals_voted := (vc_proposals_voted c)(pid := Some x)\<rparr>"
  "return_credits pid x c = Some c' \<longleftrightarrow> in_i128 (vc_used_credits c - x) \<and> in_i128 (vc_available_credits c + x) \<and>
     c' = c\<lparr>vc_used_credits := vc_used_credits c - x, vc_available_credits := vc_available_credits c + x,
            vc_proposals_voted := (vc_proposals_voted c)(pid := None)\<rparr>"
  by (auto simp: spend_credits_def return_credits_def checked_add_def checked_sub_def checked_i128_def)

lemma store_vote_credits_get [simp]:
  "get_vote_credits u (store_vote_credits c s) = (if u = vc_user c then Some c else get_vote_credits u s)"
  "get_quadratic_vote pid u (store_vote_credits c s) = get_quadratic_vote pid u s"
  "gk_ballot (store_vote_credits c s) = gk_ballot s"
  by (simp_all add: get_vote_credits_def store_vote_credits_def get_quadratic_vote_def)

lemma store_quadratic_vote_get [simp]:
  "get_vote_credits u (store_quadratic_vote pid voter v s) = get_vote_credits u s"
  "get_quadratic_vote pid' u (store_quadratic_vote pid voter v s) =
     (if pid' = pid \<and> u = voter then Some v else get_quadratic_vote pid' u s)"
  "set (get_proposal_voters pid' (store_quadratic_vote pid voter v s)) =
     (if pid' = pid then insert voter (set (get_proposal_voters pid' s)) else set (get_proposal_voters pid' s))"
  "gk_ballot (store_quadratic_vote pid voter v s) = gk_ballot s"
  by (auto simp: store_quadratic_vote_def put_quadratic_vote_def get_vote_credits_def get_quadratic_vote_def
      get_proposal_voters_def Let_def)

lemma publish_quadratic [simp]:
  "get_vote_credits u (publish s ts b) = get_vote_credits u s" "get_quadratic_vote pid u (publish s ts b) = get_quadratic_vote pid u s"
  "get_proposal_voters pid (publish s ts b) = get_proposal_voters pid s"
  by (simp_all add: get_vote_credits_def get_quadratic_vote_def get_proposal_voters_def publish_def)

lemma put_proposal_quadratic:
  "put_proposal p s = (r, s') \<Longrightarrow> gk_quadratic s' = gk_quadratic s"
  by (auto simp: put_proposal_def put_proposals_state_def put_ballot_def Let_def split: if_splits)

lemma cast_quadratic_vote_Ok:
  assumes "cast_quadratic_vote e pid voter n vt s = (Ok u, s')"
  obtains p c c' s1 where "has_auth e voter" "0 < n" "get_proposal pid s = Inr p" "get_quadratic_vote pid voter s = None"
    "get_vote_credits voter s = Some c" "n * n \<le> vc_available_credits c" "spend_credits pid (n * n) c = Some c'"
    "put_proposal (open_voting (saturating_tally vt n p)) (store_vote_credits c' s) = (Ok (), s1)"
    "s' = publish (store_quadratic_vote pid voter \<lparr>qv_voter = voter, qv_votes_allocated = n, qv_credits_spent = n * n,
            qv_vote_type = vt\<rparr> s1) [VSym ''qv'', VSym ''vote''] (VVec [VU64 pid, VAddr voter, VI128 n, VI128 (n * n)])"
  using assms unfolding cast_quadratic_vote_def
  by (auto simp: with_auth_Ok attempt_Ok or_panic_Ok and_then_Ok ok_or_Inr Let_def split: if_splits)

definition credits_ok :: "'w governance \<Rightarrow> bool" where
  "credits_ok s \<longleftrightarrow>
     (\<forall>u c. get_vote_credits u s = Some c \<longrightarrow>
        vc_user c = u \<and> vc_used_credits c + vc_available_credits c = vc_total_credits c)"

text \<open>
  C28: A quadratic vote costs exactly the square of its votes: the voter had that many credits left, loses them, is recorded
  once, and the proposal's counter grows by the votes (capped by the type).
\<close>

theorem quadratic_vote_effect:
  assumes "cast_quadratic_vote e pid voter n vt s = (Ok u, s')" and "credits_ok s" and "proposals_ok (get_proposals_state s)"
  shows "\<exists>p c c'. get_proposal pid s = Inr p \<and> get_vote_credits voter s = Some c \<and>
    get_vote_credits voter s' = Some c' \<and> 0 < n \<and> get_quadratic_vote pid voter s = None \<and>
    vc_available_credits c' = vc_available_credits c - n * n \<and> 0 \<le> vc_available_credits c' \<and>
    vc_used_credits c' = vc_used_credits c + n * n \<and> vc_total_credits c' = vc_total_credits c \<and>
    map_option qv_credits_spent (get_quadratic_vote pid voter s') = Some (n * n) \<and>
    voter \<in> set (get_proposal_voters pid s') \<and>
    (\<exists>p'. get_proposal pid s' = Inr p' \<and> votes_of vt p' = saturating_add (votes_of vt p) n)"
proof -
  from assms(1) obtain p c c' s1 where run: "0 < n" "get_proposal pid s = Inr p" "get_quadratic_vote pid voter s = None"
    "get_vote_credits voter s = Some c" "n * n \<le> vc_available_credits c" "spend_credits pid (n * n) c = Some c'"
    "put_proposal (open_voting (saturating_tally vt n p)) (store_vote_credits c' s) = (Ok (), s1)"
    and s': "s' = publish (store_quadratic_vote pid voter \<lparr>qv_voter = voter, qv_votes_allocated = n,
            qv_credits_spent = n * n, qv_vote_type = vt\<rparr> s1) [VSym ''qv'', VSym ''vote'']
              (VVec [VU64 pid, VAddr voter, VI128 n, VI128 (n * n)])"
    by (rule cast_quadratic_vote_Ok)
  have user: "vc_user c' = voter" using assms(2) run(4,6) by (auto simp: credits_ok_def run_iff)
  have "get_vote_credits voter s1 = Some c'"
    using put_proposal_quadratic [OF run(7)] user by (simp add: get_vote_credits_def store_vote_credits_def)
  moreover have "\<exists>p'. get_proposal pid s1 = Inr p' \<and> votes_of vt p' = saturating_add (votes_of vt p) n"
    using proposals_ok_get [OF assms(3), of pid p] run(2,7)
    by (cases vt) (auto simp: get_proposal_def ok_or_Inr put_proposal_Ok open_voting_def votes_of_def)
  moreover have "vc_available_credits c' = vc_available_credits c - n * n" "vc_used_credits c' = vc_used_credits c + n * n"
    "vc_total_credits c' = vc_total_credits c"
    using run(6) by (auto simp: credit_updates_Some)
  moreover have "get_proposal pid s' = get_proposal pid s1" by (simp add: s' get_proposal_def get_proposals_state_def publish_def)
  ultimately show ?thesis using run(1-5) by (intro exI [of _ p] exI [of _ c] exI [of _ c']) (simp add: s')
qed

lemma credits_ok_store: "credits_ok s \<Longrightarrow> vc_used_credits c + vc_available_credits c = vc_total_credits c \<Longrightarrow>
    credits_ok (store_vote_credits c s)"
  by (simp add: credits_ok_def)

lemma credits_ok_cong: "(\<And>u. get_vote_credits u s' = get_vote_credits u s) \<Longrightarrow> credits_ok s \<Longrightarrow> credits_ok s'"
  by (simp add: credits_ok_def)

lemma cast_quadratic_credits:
  assumes "cast_quadratic_vote e pid voter n vt s = (Ok u, s')" and "credits_ok s"
  shows "credits_ok s'"
proof -
  from assms(1) obtain p c c' s1 v b ts where run: "get_vote_credits voter s = Some c" "spend_credits pid (n * n) c = Some c'"
    "put_proposal p (store_vote_credits c' s) = (Ok (), s1)" and s': "s' = publish (store_quadratic_vote pid voter v s1) ts b"
    by (blast elim: cast_quadratic_vote_Ok)
  have "credits_ok (store_vote_credits c' s)"
    using assms(2) run(1,2) by (intro credits_ok_store) (auto simp: credits_ok_def credit_updates_Some)
  then show ?thesis
    by (rule credits_ok_cong [rotated]) (simp add: s' get_vote_credits_def put_proposal_quadratic [OF run(3)]
        store_quadratic_vote_def put_quadratic_vote_def publish_def Let_def)
qed

lemma bonus_credits:
  assumes "grant_verified_user_bonus user s = (Ok u, s')" and "credits_ok s"
  shows "credits_ok s'"
proof (cases "get_vote_credits user s")
  case (Some c)
  with assms(2) have "vc_used_credits c + vc_available_credits c = vc_total_credits c" by (simp add: credits_ok_def)
  with Some assms show ?thesis
    by (auto simp: grant_verified_user_bonus_def or_panic_Ok Let_def checked_add_def checked_i128_def credits_ok_def
        split: if_splits)
qed (use assms in \<open>simp add: grant_verified_user_bonus_def\<close>)

lemma verify_credits:
  assumes "verify_identity e u m pf s = (Ok r, s')" and "credits_ok s"
  shows "credits_ok s'"
proof -
  let ?s0 = "s\<lparr>gk_quadratic := (gk_quadratic s)\<lparr>qk_identity := (qk_identity (gk_quadratic s))
    (u := Some \<lparr>iv_user = u, iv_verified = True, iv_method = m, iv_verified_at = ledger_timestamp e\<rparr>)\<rparr>\<rparr>"
  from assms(1) obtain s1 where bonus: "grant_verified_user_bonus u ?s0 = (Ok (), s1)"
    and s': "s' = publish s1 [VSym ''qv'', VSym ''verified''] (VAddr u)"
    by (auto simp: verify_identity_def and_then_Ok Let_def)
  have "credits_ok ?s0" by (rule credits_ok_cong [OF _ assms(2)]) (simp add: get_vote_credits_def)
  from bonus_credits [OF bonus this] show ?thesis by (rule credits_ok_cong [rotated]) (simp add: s')
qed

lemma refund_loop_credits: "refund_loop pid voters s = (Ok u, s') \<Longrightarrow> credits_ok s \<Longrightarrow> credits_ok s'"
proof (induction voters arbitrary: s)
  case (Cons voter voters)
  show ?case
  proof (cases "get_quadratic_vote pid voter s = None \<or> get_vote_credits voter s = None")
    case True
    with Cons show ?thesis by (auto split: option.splits)
  next
    case False
    then obtain v c where vc: "get_quadratic_vote pid voter s = Some v" "get_vote_credits voter s = Some c" by auto
    with Cons.prems(1) obtain c' ts b where c': "return_credits pid (qv_credits_spent v) c = Some c'"
      and rest: "refund_loop pid voters (publish (store_vote_credits c' s) ts b) = (Ok u, s')"
      by (auto simp: or_panic_Ok)
    have "credits_ok (store_vote_credits c' s)"
      using Cons.prems(2) vc(2) c' by (intro credits_ok_store) (auto simp: credits_ok_def credit_updates_Some)
    then show ?thesis by (intro Cons.IH [OF rest] credits_ok_cong [of "publish (store_vote_credits c' s) ts b"]) simp_all
  qed
qed simp

text \<open>Histories of the module; other calls of the contract do not touch its storage.\<close>

inductive quadratic_run :: "'w governance \<Rightarrow> bool" where
  start: "gk_quadratic s = deployed_quadratic \<Longrightarrow> quadratic_run s"
| other: "quadratic_run s \<Longrightarrow> gk_quadratic s' = gk_quadratic s \<Longrightarrow> quadratic_run s'"
| config: "quadratic_run s \<Longrightarrow> quadratic_run (set_quadratic_voting_config cfg s)"
| allocate: "quadratic_run s \<Longrightarrow> allocate_vote_credits u s = (Ok x, s') \<Longrightarrow> quadratic_run s'"
| cast: "quadratic_run s \<Longrightarrow> cast_quadratic_vote e pid u n vt s = (Ok r, s') \<Longrightarrow> quadratic_run s'"
| verify: "quadratic_run s \<Longrightarrow> verify_identity e u m pf s = (Ok r, s') \<Longrightarrow> quadratic_run s'"
| refund: "quadratic_run s \<Longrightarrow> refund_credits_on_failure pid s = (Ok r, s') \<Longrightarrow> quadratic_run s'"

lemma quadratic_run_credits: "quadratic_run s \<Longrightarrow> credits_ok s"
proof (induction rule: quadratic_run.induct)
  case (other s s')
  then show ?case by (simp add: credits_ok_def get_vote_credits_def)
next
  case (allocate s u x s')
  then show ?case
    by (auto simp: allocate_vote_credits_def or_panic_Ok Let_def credits_ok_def split: if_splits)
next
  case (cast s e pid u n vt r s')
  then show ?case by (blast intro: cast_quadratic_credits)
next
  case (verify s e u m pf r s')
  then show ?case by (blast intro: verify_credits)
next
  case (refund s pid r s')
  then show ?case by (auto simp: refund_credits_on_failure_def attempt_Ok split: if_splits intro: refund_loop_credits)
qed (simp_all add: credits_ok_def get_vote_credits_def deployed_quadratic_def set_quadratic_voting_config_def)

section \<open>Examples and counterexamples\<close>

text \<open>A proposal in its voting period and a voter with a hundred credits.\<close>

definition sample_credits :: vote_credits where
  "sample_credits = \<lparr>vc_user = Addr 4, vc_total_credits = 100, vc_used_credits = 0, vc_available_credits = 100,
     vc_proposals_voted = (\<lambda>_. None)\<rparr>"

definition sample_quadratic :: "unit governance" where
  "sample_quadratic = (sample_ballot sample_proposal)\<lparr>gk_quadratic := deployed_quadratic\<lparr>
     qk_config := Some (default_qv_config\<lparr>qc_enabled := True\<rparr>), qk_credits := [Addr 4 \<mapsto> sample_credits]\<rparr>\<rparr>"

lemma sample_quadratic_fields:
  "get_quadratic_voting_config sample_quadratic = default_qv_config\<lparr>qc_enabled := True\<rparr>"
  "get_proposals_state sample_quadratic = get_proposals_state (sample_ballot sample_proposal)"
  "get_proposal 2 sample_quadratic = Inr sample_proposal" "get_quadratic_vote pid u sample_quadratic = None"
  "get_vote_credits (Addr 4) sample_quadratic = Some sample_credits"
  "get_vote_credits u sample_quadratic = (if u = Addr 4 then Some sample_credits else None)"
  by (simp_all add: sample_quadratic_def get_quadratic_voting_config_def get_proposals_state_def get_proposal_def
      sample_ballot_def get_quadratic_vote_def get_vote_credits_def deployed_quadratic_def)

lemma sample_quadratic_vote:
  "\<exists>s'. cast_quadratic_vote (example_env 100) 2 (Addr 4) 10 For sample_quadratic = (Ok (), s')"
proof -
  have "spend_credits 2 100 sample_credits = Some (sample_credits\<lparr>vc_used_credits := 100, vc_available_credits := 0,
      vc_proposals_voted := [2 \<mapsto> 100]\<rparr>)"
    by (simp add: run_iff sample_credits_def in_i128_def i128_min_def i128_max_def)
  moreover have "gp_voting_starts sample_proposal = 60" "gp_voting_ends sample_proposal = 1000"
    "gp_status sample_proposal = Pending" "gp_id sample_proposal = 2" "vc_available_credits sample_credits = 100"
    by (simp_all add: sample_proposal_def sample_credits_def)
  moreover have "get_proposals_state (store_vote_credits c s) = get_proposals_state s" for c and s :: "unit governance"
    by (simp add: get_proposals_state_def)
  ultimately show ?thesis
    by (simp add: cast_quadratic_vote_def with_auth_Ok attempt_Ok or_panic_Ok and_then_Ok ok_or_Inr put_proposal_Ok
        sample_quadratic_fields sample_ballot_fields example_env_def default_qv_config_def Let_def in_i128_def i128_min_def
        i128_max_def smap_has_def)
qed

theorem quadratic_vote_effect_witness:
  "\<exists>s' c'. cast_quadratic_vote (example_env 100) 2 (Addr 4) 10 For sample_quadratic = (Ok (), s') \<and>
     get_vote_credits (Addr 4) s' = Some c' \<and> vc_available_credits c' = 0"
proof -
  obtain s' where run: "cast_quadratic_vote (example_env 100) 2 (Addr 4) 10 For sample_quadratic = (Ok (), s')"
    using sample_quadratic_vote by blast
  have "credits_ok sample_quadratic" by (simp add: credits_ok_def sample_quadratic_fields sample_credits_def)
  moreover have "proposals_ok (get_proposals_state sample_quadratic)"
    using sample_ballot_ok(1) by (simp add: sample_quadratic_fields)
  ultimately show ?thesis
    using quadratic_vote_effect [OF run] run by (auto simp: sample_quadratic_fields sample_credits_def)
qed

text \<open>Going from \<open>c\<close> to \<open>c + a\<close> votes costs \<open>a (2 c + a)\<close>.\<close>

lemma marginal_cost:
  "calculate_marginal_cost c a = Some x \<Longrightarrow> x = a * (2 * c + a)"
  by (auto simp: calculate_marginal_cost_def checked_add_def checked_mul_def checked_sub_def checked_i128_def algebra_simps
      split: if_splits)

text \<open>
  Four defects of the module. A vote can never be reallocated, since both functions ask for the voter's signature.
  Refunding a failed proposal does not remove its votes, so the refund can be repeated and credits appear from nothing;
  so does the bonus of a repeated verification, which needs no signature. The fairness index depends on the order in
  which the same two amounts voted.
\<close>

definition sample_refund :: "unit governance" where
  "sample_refund = (sample_ballot (sample_proposal\<lparr>gp_status := Failed\<rparr>))\<lparr>gk_quadratic := deployed_quadratic\<lparr>
     qk_credits := [Addr 4 \<mapsto> sample_credits\<lparr>vc_used_credits := 100, vc_available_credits := 0\<rparr>],
     qk_vote := (\<lambda>_. [Addr 4 \<mapsto> \<lparr>qv_voter = Addr 4, qv_votes_allocated = 10, qv_credits_spent = 100, qv_vote_type = For\<rparr>]),
     qk_proposal_voters := (\<lambda>_. [Addr 4])\<rparr>\<rparr>"

lemma refund_single:
  assumes "get_proposal pid s = Inr p" "gp_status p = Failed" "get_proposal_voters pid s = [a]"
    "get_quadratic_vote pid a s = Some v" "get_vote_credits a s = Some c" "vc_user c = a"
    "in_i128 (vc_used_credits c - qv_credits_spent v)" "in_i128 (vc_available_credits c + qv_credits_spent v)"
  shows "\<exists>s'. refund_credits_on_failure pid s = (Ok (), s') \<and>
    get_vote_credits a s' = Some (c\<lparr>vc_used_credits := vc_used_credits c - qv_credits_spent v,
      vc_available_credits := vc_available_credits c + qv_credits_spent v,
      vc_proposals_voted := (vc_proposals_voted c)(pid := None)\<rparr>) \<and>
    get_proposal pid s' = Inr p \<and> get_proposal_voters pid s' = [a] \<and> get_quadratic_vote pid a s' = Some v"
proof -
  have "get_proposal pid (store_vote_credits x s) = get_proposal pid s" for x
    by (simp add: get_proposal_def get_proposals_state_def)
  moreover have "get_proposal_voters pid (store_vote_credits x s) = get_proposal_voters pid s" for x
    by (simp add: get_proposal_voters_def store_vote_credits_def)
  moreover have "get_proposal pid (publish t ts b) = get_proposal pid t" for t :: "'a governance" and ts b
    by (simp add: get_proposal_def)
  ultimately show ?thesis
    using assms by (simp add: refund_credits_on_failure_def or_panic_Ok credit_updates_Some)
qed

lemma refund_repeats:
  "\<exists>s1 s2 c. refund_credits_on_failure 2 sample_refund = (Ok (), s1) \<and> refund_credits_on_failure 2 s1 = (Ok (), s2) \<and>
      get_vote_credits (Addr 4) s2 = Some c \<and> vc_available_credits c = 200 \<and> vc_total_credits c = 100"
proof -
  let ?c = "sample_credits\<lparr>vc_used_credits := 100, vc_available_credits := 0\<rparr>"
  let ?v = "\<lparr>qv_voter = Addr 4, qv_votes_allocated = 10, qv_credits_spent = 100, qv_vote_type = For\<rparr>"
  have "get_proposal 2 sample_refund = Inr (sample_proposal\<lparr>gp_status := Failed\<rparr>)"
    by (simp add: sample_refund_def get_proposal_def get_proposals_state_def sample_ballot_def)
  from refund_single [OF this, of "Addr 4" ?v ?c] obtain s1 where
    1: "refund_credits_on_failure 2 sample_refund = (Ok (), s1)"
      "get_proposal 2 s1 = Inr (sample_proposal\<lparr>gp_status := Failed\<rparr>)" "get_proposal_voters 2 s1 = [Addr 4]"
      "get_quadratic_vote 2 (Addr 4) s1 = Some ?v"
    and c: "get_vote_credits (Addr 4) s1 = Some (sample_credits\<lparr>vc_used_credits := 0, vc_available_credits := 100,
       vc_proposals_voted := (\<lambda>_. None)\<rparr>)"
    by (auto simp: sample_refund_def get_proposal_voters_def get_quadratic_vote_def get_vote_credits_def in_i128_def
        i128_min_def i128_max_def sample_credits_def fun_upd_idem)
  from refund_single [OF 1(2) _ 1(3,4) c] obtain s2 where "refund_credits_on_failure 2 s1 = (Ok (), s2)"
    "map_option vc_available_credits (get_vote_credits (Addr 4) s2) = Some 200"
    "map_option vc_total_credits (get_vote_credits (Addr 4) s2) = Some 100"
    by (auto simp: in_i128_def i128_min_def i128_max_def sample_credits_def)
  with 1(1) show ?thesis by auto
qed

lemma bonus_repeats:
  "\<exists>s1 s2 c. grant_verified_user_bonus (Addr 4) sample_quadratic = (Ok (), s1) \<and>
      grant_verified_user_bonus (Addr 4) s1 = (Ok (), s2) \<and> get_vote_credits (Addr 4) s2 = Some c \<and>
      vc_available_credits c = 225"
  by (simp add: grant_verified_user_bonus_def sample_quadratic_fields sample_credits_def tdiv_def Let_def checked_add_def
      checked_i128_def in_i128_def i128_min_def i128_max_def)


end
